(* ===== verification/Prelude.thy ===== *)
theory Prelude
  imports Main "HOL-Library.AList" "HOL-Library.List_Lexorder" "HOL-Library.Product_Lexorder"
    "HOL-Library.Char_ord"
begin

text \<open>
  What every component of the development shares: the JavaScript string, array, \<open>Set\<close>,
  \<open>Map\<close> and \<open>localeCompare\<close> operations the sources use, with the laws the component
  proofs rest on, and the collections of rewrite rules (\<open>named_theorems\<close>) those proofs name.

  Conventions. A JavaScript string is a \<open>string\<close> (a list of 8-bit characters: code units
  above 255 are outside the model). An optional field is an \<open>option\<close> (\<open>None\<close> is
  \<open>undefined\<close>). A \<open>Set\<close> built from an array is the list of its first occurrences, because
  a JavaScript set enumerates in insertion order. A \<open>Map\<close> is an association list updated
  with \<open>AList.update\<close>, which keeps a key's place, as \<open>Map.set\<close> does.
\<close>

named_theorems js_simps "rewrite rules for the JavaScript library functions"
named_theorems enum_simps "textual form of the enumerations of the schemas"

section \<open>Optional fields and truth values\<close>

text \<open>A conditional on an optional string is false for \<open>undefined\<close> and for the empty string.\<close>

definition truthy :: "string option \<Rightarrow> bool" where
  "truthy s = (case s of None \<Rightarrow> False | Some t \<Rightarrow> t \<noteq> [])"

text \<open>The \<open>??\<close> operator: the left operand unless it is \<open>undefined\<close>.\<close>

definition nullish :: "'a option \<Rightarrow> 'a \<Rightarrow> 'a" where
  "nullish x d = (case x of None \<Rightarrow> d | Some y \<Rightarrow> y)"

definition nullish_opt :: "'a option \<Rightarrow> 'a option \<Rightarrow> 'a option" where
  "nullish_opt x d = (case x of None \<Rightarrow> d | Some y \<Rightarrow> Some y)"

text \<open>The spread \<open>...(x ? { k: x } : {})\<close>: the field is set only when \<open>x\<close> is truthy.\<close>

definition keep_truthy :: "string option \<Rightarrow> string option" where
  "keep_truthy s = (if truthy s then s else None)"

lemma truthy_simps [simp, js_simps]:
  "\<not> truthy None" "truthy (Some t) \<longleftrightarrow> t \<noteq> []"
  by (auto simp: truthy_def)

lemma nullish_simps [simp, js_simps]:
  "nullish None d = d" "nullish (Some y) d = y"
  "nullish_opt None e = e" "nullish_opt (Some y) e = Some y"
  by (auto simp: nullish_def nullish_opt_def)

lemma keep_truthy_simps [simp, js_simps]:
  "keep_truthy None = None" "keep_truthy (Some t) = (if t = [] then None else Some t)"
  by (auto simp: keep_truthy_def)

section \<open>Arrays and sets\<close>

text \<open>\<open>[...new Set(xs)]\<close>: the elements in the order of their first occurrence.\<close>

fun uniq :: "'a list \<Rightarrow> 'a list" where
  "uniq [] = []"
| "uniq (x # xs) = x # filter (\<lambda>y. y \<noteq> x) (uniq xs)"

lemma set_uniq [simp]: "set (uniq xs) = set xs"
  by (induction xs) auto

lemma distinct_uniq [simp]: "distinct (uniq xs)"
  by (induction xs) auto

lemma uniq_id: "distinct xs \<Longrightarrow> uniq xs = xs"
  by (induction xs) (auto intro!: filter_True)

lemma uniq_idem [simp]: "uniq (uniq xs) = uniq xs"
  by (simp add: uniq_id)

text \<open>\<open>xs.findIndex(p)\<close>; \<open>None\<close> stands for the result -1.\<close>

fun find_index :: "('a \<Rightarrow> bool) \<Rightarrow> 'a list \<Rightarrow> nat option" where
  "find_index p [] = None"
| "find_index p (x # xs) = (if p x then Some 0 else map_option Suc (find_index p xs))"

lemma find_index_Some:
  "find_index p xs = Some i \<Longrightarrow> i < length xs \<and> p (xs ! i) \<and> (\<forall>j < i. \<not> p (xs ! j))"
proof (induction xs arbitrary: i)
  case (Cons x xs)
  show ?case
  proof (cases "p x")
    case False
    with Cons.prems obtain k where k: "find_index p xs = Some k" "i = Suc k" by auto
    with Cons.IH [OF k(1)] False show ?thesis by (auto simp: less_Suc_eq_0_disj)
  qed (use Cons.prems in auto)
qed simp

lemma find_index_None_iff: "find_index p xs = None \<longleftrightarrow> (\<forall>x \<in> set xs. \<not> p x)"
  by (induction xs) auto

lemma find_index_unique:
  "i < length xs \<Longrightarrow> p (xs ! i) \<Longrightarrow> (\<forall>j < i. \<not> p (xs ! j)) \<Longrightarrow> find_index p xs = Some i"
proof (induction xs arbitrary: i)
  case (Cons x xs)
  show ?case
  proof (cases i)
    case 0
    with Cons.prems show ?thesis by simp
  next
    case (Suc k)
    from Cons.prems(3) Suc have "\<not> p x" by (metis nth_Cons_0 zero_less_Suc)
    moreover from Cons.prems(3) Suc have "\<forall>j < k. \<not> p (xs ! j)"
      by (metis Suc_less_eq nth_Cons_Suc)
    ultimately show ?thesis using Cons.IH [of k] Cons.prems(1,2) Suc by simp
  qed
qed simp

lemma find_Some_iff_split:
  "List.find p xs = Some x \<longleftrightarrow> (\<exists>us vs. xs = us @ x # vs \<and> p x \<and> (\<forall>u \<in> set us. \<not> p u))"
  (is "_ \<longleftrightarrow> ?split xs")
proof (induction xs)
  case Nil
  then show ?case by simp
next
  case (Cons y ys)
  show ?case
  proof (cases "p y")
    case True
    then show ?thesis by (auto simp: Cons_eq_append_conv)
  next
    case False
    with Cons.IH show ?thesis
      by (auto simp: Cons_eq_append_conv) (metis set_ConsD)
  qed
qed

lemma find_SomeD: "List.find p xs = Some x \<Longrightarrow> x \<in> set xs \<and> p x"
  by (auto simp: find_Some_iff)

text \<open>Last element satisfying a predicate: \<open>[...xs].reverse().find(p)\<close>.\<close>

definition find_last :: "('a \<Rightarrow> bool) \<Rightarrow> 'a list \<Rightarrow> 'a option" where
  "find_last p xs = List.find p (rev xs)"

lemma find_last_snoc [simp]:
  "find_last p [] = None"
  "find_last p (xs @ [x]) = (if p x then Some x else find_last p xs)"
  by (auto simp: find_last_def)

lemma find_append:
  "List.find p (xs @ ys) = (case List.find p xs of Some x \<Rightarrow> Some x | None \<Rightarrow> List.find p ys)"
  by (induction xs) auto

lemma find_last_Cons:
  "find_last p (x # xs) =
     (case find_last p xs of Some y \<Rightarrow> Some y | None \<Rightarrow> if p x then Some x else None)"
  by (simp add: find_last_def find_append split: option.splits)

section \<open>Strings\<close>

fun starts_with :: "string \<Rightarrow> string \<Rightarrow> bool" where
  "starts_with s [] = True"
| "starts_with [] (p # ps) = False"
| "starts_with (c # s) (p # ps) = (c = p \<and> starts_with s ps)"

lemma starts_with_iff: "starts_with s p \<longleftrightarrow> (\<exists>r. s = p @ r)"
  by (induction s p rule: starts_with.induct) auto

lemma starts_with_append [simp]: "starts_with (p @ s) p"
  by (auto simp: starts_with_iff)

definition ends_with :: "string \<Rightarrow> string \<Rightarrow> bool" where
  "ends_with s p = starts_with (rev s) (rev p)"

lemma ends_with_iff: "ends_with s p \<longleftrightarrow> (\<exists>r. s = r @ p)"
  unfolding ends_with_def starts_with_iff
  by (metis rev_append rev_rev_ident)

text \<open>\<open>s.indexOf(t)\<close>; \<open>None\<close> stands for -1.\<close>

fun index_of :: "string \<Rightarrow> string \<Rightarrow> nat option" where
  "index_of [] t = (if t = [] then Some 0 else None)"
| "index_of (c # s) t =
     (if starts_with (c # s) t then Some 0 else map_option Suc (index_of s t))"

definition str_includes :: "string \<Rightarrow> string \<Rightarrow> bool" where
  "str_includes s t = (index_of s t \<noteq> None)"

text \<open>\<open>s.indexOf(t, from)\<close>.\<close>

definition index_from :: "string \<Rightarrow> string \<Rightarrow> nat \<Rightarrow> nat option" where
  "index_from s t i = map_option (\<lambda>k. i + k) (index_of (drop i s) t)"

lemma index_of_Some_split:
  "index_of s t = Some i \<Longrightarrow> s = take i s @ t @ drop (i + length t) s \<and> i + length t \<le> length s"
proof (induction s arbitrary: i)
  case Nil
  then show ?case by (auto split: if_splits)
next
  case (Cons c s)
  show ?case
  proof (cases "starts_with (c # s) t")
    case True
    with Cons.prems have "i = 0" by simp
    moreover from True obtain r where "c # s = t @ r" by (auto simp: starts_with_iff)
    ultimately show ?thesis by simp
  next
    case False
    with Cons.prems obtain k where k: "index_of s t = Some k" "i = Suc k" by auto
    from Cons.IH [OF k(1)] k(2) show ?thesis by simp
  qed
qed

lemma index_of_None_iff: "index_of s t = None \<longleftrightarrow> (\<forall>u v. s \<noteq> u @ t @ v)"
proof (induction s)
  case Nil
  then show ?case by auto
next
  case (Cons c s)
  have "(\<forall>u v. c # s \<noteq> u @ t @ v) \<longleftrightarrow>
        \<not> starts_with (c # s) t \<and> (\<forall>u v. s \<noteq> u @ t @ v)" (is "?L \<longleftrightarrow> ?R")
  proof
    assume L: ?L
    then have "\<not> starts_with (c # s) t" by (auto simp: starts_with_iff dest: spec [of _ "[]"])
    moreover have "s \<noteq> u @ t @ v" for u v
      using L by (metis append_Cons)
    ultimately show ?R by blast
  next
    assume R: ?R
    show ?L
    proof (intro allI notI)
      fix u v assume eq: "c # s = u @ t @ v"
      show False
      proof (cases u)
        case Nil
        with eq R show False by (auto simp: starts_with_iff)
      next
        case (Cons d u')
        with eq have "s = u' @ t @ v" by simp
        with R show False by blast
      qed
    qed
  qed
  with Cons.IH show ?case by simp
qed

lemma str_includes_iff: "str_includes s t \<longleftrightarrow> (\<exists>u v. s = u @ t @ v)"
  unfolding str_includes_def using index_of_None_iff [of s t] by auto

definition to_lower_char :: "char \<Rightarrow> char" where
  "to_lower_char c =
     (if of_char c \<ge> (65::nat) \<and> of_char c \<le> (90::nat) then char_of (of_char c + (32::nat)) else c)"

definition to_lower :: "string \<Rightarrow> string" where
  "to_lower s = map to_lower_char s"

text \<open>\<open>s.split(sep)\<close> for a one-character separator, and \<open>xs.join(sep)\<close>.\<close>

fun split_on :: "char \<Rightarrow> string \<Rightarrow> string list" where
  "split_on d [] = [[]]"
| "split_on d (c # s) =
     (if c = d then [] # split_on d s
      else (case split_on d s of [] \<Rightarrow> [[c]] | w # ws \<Rightarrow> (c # w) # ws))"

fun join :: "string \<Rightarrow> string list \<Rightarrow> string" where
  "join sep [] = []"
| "join sep [x] = x"
| "join sep (x # y # xs) = x @ sep @ join sep (y # xs)"

lemma split_on_not_Nil [simp]: "split_on d s \<noteq> []"
  by (cases s) (auto split: list.splits)

lemma join_Cons: "xs \<noteq> [] \<Longrightarrow> join sep (x # xs) = x @ sep @ join sep xs"
  by (cases xs) auto

lemma join_split_on [simp]: "join [d] (split_on d s) = s"
proof (induction s)
  case Nil
  then show ?case by simp
next
  case (Cons c s)
  obtain w ws where w: "split_on d s = w # ws" by (cases "split_on d s") auto
  with Cons.IH show ?case by (cases ws) (auto simp: join_Cons)
qed

lemma split_on_no_sep: "w \<in> set (split_on d s) \<Longrightarrow> d \<notin> set w"
proof (induction s arbitrary: w)
  case (Cons c s)
  then show ?case by (cases "split_on d s") (auto split: if_splits)
qed simp

text \<open>White space as \<open>trim\<close> and \<open>\s\<close> see it on 8-bit characters.\<close>

definition is_space :: "char \<Rightarrow> bool" where
  "is_space c = (of_char c \<in> {9::nat, 10, 11, 12, 13, 32, 160})"

definition trim :: "string \<Rightarrow> string" where
  "trim s = rev (dropWhile is_space (rev (dropWhile is_space s)))"

fun digit_char :: "nat \<Rightarrow> char" where
  "digit_char n = char_of (48 + n)"

fun nat_str :: "nat \<Rightarrow> string" where
  "nat_str n = (if n < 10 then [digit_char n] else nat_str (n div 10) @ [digit_char (n mod 10)])"

declare nat_str.simps [simp del]

lemma nat_str_not_Nil [simp]: "nat_str n \<noteq> []"
  by (subst nat_str.simps) simp

definition int_str :: "int \<Rightarrow> string" where
  "int_str i = (if i < 0 then ''-'' @ nat_str (nat (- i)) else nat_str (nat i))"

text \<open>Hexadecimal digits of a number, as \<open>n.toString(16)\<close>, and \<open>s.padStart(n, c)\<close>.\<close>

definition hex_char :: "nat \<Rightarrow> char" where
  "hex_char n = (if n < 10 then char_of (48 + n) else char_of (87 + n))"

fun hex_str :: "nat \<Rightarrow> string" where
  "hex_str n = (if n < 16 then [hex_char n] else hex_str (n div 16) @ [hex_char (n mod 16)])"

declare hex_str.simps [simp del]

definition pad_start :: "nat \<Rightarrow> char \<Rightarrow> string \<Rightarrow> string" where
  "pad_start n c s = replicate (n - length s) c @ s"

lemma hex_str_length: "n < 16 ^ k \<Longrightarrow> 0 < k \<Longrightarrow> length (hex_str n) \<le> k"
proof (induction k arbitrary: n)
  case (Suc k)
  show ?case
  proof (cases "n < 16")
    case True
    then show ?thesis by (subst hex_str.simps) simp
  next
    case False
    with Suc.prems have k: "0 < k" by (cases k) auto
    from Suc.prems have "n div 16 < 16 ^ k"
      by (simp add: less_mult_imp_div_less mult.commute)
    with Suc.IH k have "length (hex_str (n div 16)) \<le> k" by blast
    with False show ?thesis by (subst hex_str.simps) simp
  qed
qed simp

lemma length_pad_start [simp]: "length (pad_start n c s) = max n (length s)"
  by (simp add: pad_start_def)

definition bool_str :: "bool \<Rightarrow> string" where
  "bool_str b = (if b then ''true'' else ''false'')"


section \<open>Character classes\<close>

definition is_lower :: "char \<Rightarrow> bool" where
  "is_lower c = (let n = of_char c :: nat in 97 \<le> n \<and> n \<le> 122)"

definition is_digit :: "char \<Rightarrow> bool" where
  "is_digit c = (let n = of_char c :: nat in 48 \<le> n \<and> n \<le> 57)"

definition is_word_char :: "char \<Rightarrow> bool" where
  "is_word_char c =
     (let n = of_char c :: nat
      in 65 \<le> n \<and> n \<le> 90 \<or> 97 \<le> n \<and> n \<le> 122 \<or> 48 \<le> n \<and> n \<le> 57 \<or> n = 95)"

text \<open>The number of bytes of a string in UTF-8.\<close>

definition utf8_length :: "string \<Rightarrow> nat" where
  "utf8_length s = sum_list (map (\<lambda>c. if of_char c < (128::nat) then 1 else 2) s)"

definition newline :: char where
  "newline = CHR 0x0A"

section \<open>Maps made from arrays\<close>

text \<open>\<open>new Map(xs.map((x) => [key(x), x]))\<close>: a later value replaces an earlier one of its key and
  takes its place.\<close>

definition map_by :: "('a \<Rightarrow> string) \<Rightarrow> 'a list \<Rightarrow> (string \<times> 'a) list" where
  "map_by key xs = fold (\<lambda>x m. AList.update (key x) x m) xs []"

lemma fold_update_key:
  "map_of (fold (\<lambda>x m. AList.update (key x) (f x) m) xs m) k =
     (case find_last (\<lambda>x. key x = k) xs of Some x \<Rightarrow> Some (f x) | None \<Rightarrow> map_of m k)"
  by (induction xs arbitrary: m) (auto simp: find_last_Cons update_conv' split: option.splits)

lemma map_of_map_by: "map_of (map_by key xs) k = find_last (\<lambda>x. key x = k) xs"
  unfolding map_by_def fold_update_key by (simp split: option.splits)

lemma fold_update_distinct:
  "distinct (map fst m) \<Longrightarrow> distinct (map fst (fold (\<lambda>x m. AList.update (key x) (f x) m) xs m))"
  by (induction xs arbitrary: m) (auto simp: distinct_update)

lemma fold_update_entries:
  "set (fold (\<lambda>x m. AList.update (key x) (f x) m) xs m) \<subseteq>
     set m \<union> (\<lambda>x. (key x, f x)) ` set xs"
proof (induction xs arbitrary: m)
  case (Cons x xs)
  have "set (AList.update k v m) \<subseteq> insert (k, v) (set m)" for k v
    by (induction m) auto
  with Cons [of "AList.update (key x) (f x) m"] show ?case by fastforce
qed simp

lemma map_by_props:
  "distinct (map fst (map_by key xs))" "(k, x) \<in> set (map_by key xs) \<Longrightarrow> x \<in> set xs \<and> k = key x"
  unfolding map_by_def
  using fold_update_entries [of key "\<lambda>x. x" xs "[]"]
  by (auto intro: fold_update_distinct)


section \<open>Locale comparison\<close>

text \<open>
  \<open>a.localeCompare(b)\<close> in the root collation, on ASCII text: white space, punctuation and
  symbols in the order of \<open>collation_table\<close>, then digits, then letters without regard to
  case; control characters are ignored; when those weights agree, a lower-case letter comes
  before its upper-case form. The sources sort identifiers and ISO time stamps with it.
  Characters above 127 are placed after the letters, in code order.
\<close>

definition collation_table :: "nat list" where
  "collation_table =
     [9, 10, 11, 12, 13, 32, 95, 45, 44, 59, 58, 33, 63, 46, 39, 34, 40, 41, 91, 93, 123, 125,
      64, 42, 47, 92, 38, 35, 37, 96, 94, 43, 60, 61, 62, 124, 126, 36]"

definition primary_weight :: "char \<Rightarrow> nat option" where
  "primary_weight c =
     (let n = of_char c :: nat in
      case find_index (\<lambda>k. k = n) collation_table of
        Some i \<Rightarrow> Some i
      | None \<Rightarrow>
          if 48 \<le> n \<and> n \<le> 57 then Some n
          else if 97 \<le> n \<and> n \<le> 122 then Some n
          else if 65 \<le> n \<and> n \<le> 90 then Some (n + 32)
          else if 128 \<le> n then Some n
          else None)"

definition case_weight :: "char \<Rightarrow> nat" where
  "case_weight c = (let n = of_char c :: nat in if 65 \<le> n \<and> n \<le> 90 then 1 else 0)"

definition collation_key :: "string \<Rightarrow> nat list \<times> nat list" where
  "collation_key s =
     (let cs = filter (\<lambda>c. primary_weight c \<noteq> None) s
      in (map (\<lambda>c. the (primary_weight c)) cs, map case_weight cs))"

definition locale_compare :: "string \<Rightarrow> string \<Rightarrow> int" where
  "locale_compare a b =
     (if collation_key a < collation_key b then -1
      else if collation_key b < collation_key a then 1 else 0)"

lemma locale_compare_refl [simp]: "locale_compare a a = 0"
  by (simp add: locale_compare_def)

lemma locale_compare_antisym: "locale_compare b a = - locale_compare a b"
  by (auto simp: locale_compare_def)

lemma locale_compare_trans:
  "locale_compare a b \<le> 0 \<Longrightarrow> locale_compare b c \<le> 0 \<Longrightarrow> locale_compare a c \<le> 0"
  by (auto simp: locale_compare_def split: if_splits)

end
