(* ===== verification/Json.thy ===== *)
theory Json
  imports Prelude "HOL-Library.Multiset"
begin

text \<open>
  JSON values, \<open>JSON.stringify\<close> on strings, and the canonical serialisation of
  \<open>util/hash.ts\<close> that every digest and every deterministic identifier of the program goes
  through. An object is the list of its entries in insertion order, with distinct keys.
  \<open>JUndef\<close> is a value that is \<open>undefined\<close>: \<open>stableStringify\<close> prints it as the word undefined in
  an object and as nothing in an array, where the elements are joined. Numbers are the integers that print without an exponent.

  Functions that are not under \<open>src/\<close> are parameters, grouped in the record \<open>env\<close>:
  the digests of \<open>node:crypto\<close>, the ISO 8601 check of the schema library (\<open>datetime()\<close>),
  the issues that library reports for a value it rejects (message and path) and the host's
  \<open>Date.parse\<close> (\<open>None\<close> is \<open>NaN\<close>).
\<close>

datatype path_item = PStr string | PNum nat

datatype json =
    JUndef
  | JNull
  | JBool bool
  | JNum int
  | JStr string
  | JArr "json list"
  | JObj "(string \<times> json) list"

record env =
  sha256_hex :: "string \<Rightarrow> string"
  hmac_sha256_hex :: "string \<Rightarrow> string \<Rightarrow> string"
  datetime_ok :: "string \<Rightarrow> bool"
  date_parse :: "string \<Rightarrow> int option"
  zod_issues :: "json \<Rightarrow> (string \<times> path_item list) list"

text \<open>\<open>JSON.stringify\<close> of a string.\<close>

definition json_escape_char :: "char \<Rightarrow> string" where
  "json_escape_char c =
     (let n = of_char c :: nat in
      if n = 34 then [char_of (92::nat), char_of (34::nat)]
      else if n = 92 then [char_of (92::nat), char_of (92::nat)]
      else if n = 8 then [char_of (92::nat)] @ ''b''
      else if n = 12 then [char_of (92::nat)] @ ''f''
      else if n = 10 then [char_of (92::nat)] @ ''n''
      else if n = 13 then [char_of (92::nat)] @ ''r''
      else if n = 9 then [char_of (92::nat)] @ ''t''
      else if n < 32 then [char_of (92::nat)] @ ''u'' @ pad_start 4 CHR ''0'' (hex_str n)
      else [c])"

definition json_quote :: "string \<Rightarrow> string" where
  "json_quote s = [char_of (34::nat)] @ concat (map json_escape_char s) @ [char_of (34::nat)]"

section \<open>Stable serialisation (\<open>util/hash.ts\<close>)\<close>

fun stable_stringify :: "json \<Rightarrow> string" where
  "stable_stringify JUndef = ''undefined''"
| "stable_stringify JNull = ''null''"
| "stable_stringify (JBool b) = bool_str b"
| "stable_stringify (JNum i) = int_str i"
| "stable_stringify (JStr s) = json_quote s"
| "stable_stringify (JArr xs) =
     ''['' @ join '','' (map (\<lambda>v. if v = JUndef then [] else stable_stringify v) xs) @ '']''"
| "stable_stringify (JObj kvs) =
     ''{'' @ join '',''
       (map (\<lambda>(k, s). json_quote k @ '':'' @ s)
         (sort_key fst (map (\<lambda>(k, v). (k, stable_stringify v)) kvs))) @ ''}''"

definition stable_hash :: "env \<Rightarrow> json \<Rightarrow> string" where
  "stable_hash E v = sha256_hex E (stable_stringify v)"

text \<open>
  Two values are the same JavaScript value up to the insertion order of object entries, at any
  depth; object keys are distinct.
\<close>

inductive json_perm :: "json \<Rightarrow> json \<Rightarrow> bool" where
  refl: "json_perm v v"
| arr: "list_all2 json_perm xs ys \<Longrightarrow> json_perm (JArr xs) (JArr ys)"
| obj: "list_all2 (rel_prod (=) json_perm) kvs kvs' \<Longrightarrow>
        distinct (map fst kvs) \<Longrightarrow> mset kvs' = mset kvs'' \<Longrightarrow> json_perm (JObj kvs) (JObj kvs'')"

lemma sort_key_fst_mset_cong:
  fixes xs ys :: "(string \<times> 'b) list"
  assumes "mset xs = mset ys" and "distinct (map fst xs)"
  shows "sort_key fst xs = sort_key fst ys"
proof (rule sort_key_inj_key_eq)
  show "mset xs = mset (sort_key fst ys)" using assms(1) by simp
  show "inj_on fst (set xs)" using assms(2) by (simp add: distinct_map)
  show "sorted (map fst (sort_key fst ys))" by simp
qed

lemma list_all2_map_eq:
  "list_all2 (\<lambda>x y. P x y \<and> f x = f y) xs ys \<Longrightarrow> map f xs = map f ys"
  by (induction rule: list_all2_induct) auto

text \<open>The serialisation does not depend on the order in which object entries were inserted.\<close>

lemma json_perm_undef: "json_perm v w \<Longrightarrow> v = JUndef \<longleftrightarrow> w = JUndef"
  by (induction rule: json_perm.induct) auto

lemma stable_stringify_perm: "json_perm v w \<Longrightarrow> stable_stringify v = stable_stringify w"
proof (induction rule: json_perm.induct)
  case (refl v)
  show ?case by simp
next
  case (arr xs ys)
  let ?f = "\<lambda>v. if v = JUndef then [] else stable_stringify v"
  have "list_all2 (\<lambda>x y. json_perm x y \<and> ?f x = ?f y) xs ys"
    by (rule list_all2_mono [OF arr.IH]) (use json_perm_undef in auto)
  then have "map ?f xs = map ?f ys" by (rule list_all2_map_eq)
  then show ?case by simp
next
  case (obj kvs kvs' kvs'')
  let ?r = "map (\<lambda>(k, v). (k, stable_stringify v))"
  have "?r kvs = ?r kvs' \<and> map fst kvs = map fst kvs'"
    using obj.IH by (induction rule: list_all2_induct) auto
  then have r: "?r kvs = ?r kvs'" and k: "map fst kvs = map fst kvs'" by simp_all
  have "mset (?r kvs') = mset (?r kvs'')"
    using obj.hyps(2) by simp
  moreover have "map fst (?r kvs') = map fst kvs'" by (induction kvs') auto
  with obj.hyps(1) k have "distinct (map fst (?r kvs'))" by argo
  ultimately have "sort_key fst (?r kvs') = sort_key fst (?r kvs'')"
    by (rule sort_key_fst_mset_cong)
  with r show ?case by simp
qed

lemma stable_hash_perm: "json_perm v w \<Longrightarrow> stable_hash E v = stable_hash E w"
  by (simp add: stable_hash_def stable_stringify_perm)

section \<open>Digests as the schemas check them\<close>

text \<open>The regular expression of a SHA-256 digest in lower-case hexadecimal (64 digits).\<close>

definition is_hex64 :: "string \<Rightarrow> bool" where
  "is_hex64 s =
     (length s = 64 \<and>
      list_all (\<lambda>c. let n = of_char c :: nat in (48 \<le> n \<and> n \<le> 57) \<or> (97 \<le> n \<and> n \<le> 102)) s)"

text \<open>\<open>z.string().min(1)\<close>, alone, optional and in arrays.\<close>

abbreviation nonempty :: "string \<Rightarrow> bool" where
  "nonempty s \<equiv> s \<noteq> []"

definition opt_ok :: "('a \<Rightarrow> bool) \<Rightarrow> 'a option \<Rightarrow> bool" where
  "opt_ok p x = (case x of None \<Rightarrow> True | Some y \<Rightarrow> p y)"

lemma opt_ok_simps [simp, js_simps]: "opt_ok p None" "opt_ok p (Some y) \<longleftrightarrow> p y"
  by (auto simp: opt_ok_def)

text \<open>Entries of an object that are written only when the field is present.\<close>

definition jopt :: "string \<Rightarrow> ('a \<Rightarrow> json) \<Rightarrow> 'a option \<Rightarrow> (string \<times> json) list" where
  "jopt k f x = (case x of None \<Rightarrow> [] | Some y \<Rightarrow> [(k, f y)])"

definition jstrs :: "string list \<Rightarrow> json" where
  "jstrs xs = JArr (map JStr xs)"

definition jundef :: "('a \<Rightarrow> json) \<Rightarrow> 'a option \<Rightarrow> json" where
  "jundef f x = (case x of None \<Rightarrow> JUndef | Some y \<Rightarrow> f y)"

end
