(* ===== verification/Schemas.thy ===== *)
theory Schemas
  imports Json
begin

text \<open>
  The shared data of \<open>schemas/capabilities.ts\<close>, \<open>schemas/delegation.ts\<close>, \<open>schemas/open-cot.ts\<close>
  and \<open>schemas/reconciliation.ts\<close>, the execution modes of \<open>runtime/execution-mode.ts\<close>, and the
  record builders of \<open>reconciliation/records.ts\<close> and \<open>ids/deterministic-ids.ts\<close>.

  A schema is a record and a predicate \<open><name>_ok\<close> that holds when the schema's \<open>parse\<close> accepts
  a value of that shape: the shape itself (which fields exist and their types) is the record
  type, the checks the schema library runs on top of it (\<open>min(1)\<close>, \<open>regex\<close>, \<open>datetime()\<close>) are
  the predicate.
\<close>

section \<open>Risk levels and execution modes\<close>

datatype risk_level = Risk_read | Risk_write | Risk_destructive | Risk_external_side_effect

fun risk_str :: "risk_level \<Rightarrow> string" where
  "risk_str Risk_read = ''read''"
| "risk_str Risk_write = ''write''"
| "risk_str Risk_destructive = ''destructive''"
| "risk_str Risk_external_side_effect = ''external_side_effect''"

declare risk_str.simps [enum_simps]

text \<open>\<open>RISK_ORDER\<close>, declared alike in the policy gate and in the SDK registry.\<close>

fun risk_order :: "risk_level \<Rightarrow> nat" where
  "risk_order Risk_read = 0"
| "risk_order Risk_write = 1"
| "risk_order Risk_external_side_effect = 2"
| "risk_order Risk_destructive = 3"

lemma risk_order_inj: "risk_order a = risk_order b \<longleftrightarrow> a = b"
  by (cases a; cases b) simp_all

text \<open>The order the program uses makes the risk levels a linear order.\<close>

instantiation risk_level :: linorder
begin

definition less_eq_risk_level :: "risk_level \<Rightarrow> risk_level \<Rightarrow> bool" where
  "less_eq_risk_level a b = (risk_order a \<le> risk_order b)"

definition less_risk_level :: "risk_level \<Rightarrow> risk_level \<Rightarrow> bool" where
  "less_risk_level a b = (risk_order a < risk_order b)"

instance
  by standard (auto simp: less_eq_risk_level_def less_risk_level_def risk_order_inj)

end

datatype execution_mode = Mode_live | Mode_dry_run | Mode_fixture | Mode_mock | Mode_test

fun mode_str :: "execution_mode \<Rightarrow> string" where
  "mode_str Mode_live = ''live''"
| "mode_str Mode_dry_run = ''dry_run''"
| "mode_str Mode_fixture = ''fixture''"
| "mode_str Mode_mock = ''mock''"
| "mode_str Mode_test = ''test''"

declare mode_str.simps [enum_simps]

definition execution_mode_from_dry_run :: "execution_mode option \<Rightarrow> bool option \<Rightarrow> execution_mode" where
  "execution_mode_from_dry_run mode dry_run =
     (case mode of
        Some m \<Rightarrow> m
      | None \<Rightarrow> if dry_run = Some True then Mode_dry_run else Mode_live)"

section \<open>Capabilities and snapshots (\<open>schemas/capabilities.ts\<close>)\<close>

text \<open>
  \<open>cd_side_effect_kind\<close> is the extra field the SDK adapter adds to a descriptor it hands to
  the policy gate; descriptors from other sources do not have it.
\<close>

record capability_descriptor =
  cd_endpoint_id :: string
  cd_capability_name :: string
  cd_description :: string
  cd_input_schema :: json
  cd_output_schema :: "json option"
  cd_risk_level :: risk_level
  cd_requires_approval :: bool
  cd_capability_digest :: string
  cd_side_effect_kind :: "string option"

record capability_snapshot =
  cs_snapshot_id :: string
  cs_created_at :: string
  cs_capabilities_hash :: string
  cs_capabilities :: "capability_descriptor list"

definition capability_descriptor_ok :: "capability_descriptor \<Rightarrow> bool" where
  "capability_descriptor_ok c =
     (nonempty (cd_endpoint_id c) \<and> nonempty (cd_capability_name c) \<and> is_hex64 (cd_capability_digest c))"

definition capability_snapshot_ok :: "env \<Rightarrow> capability_snapshot \<Rightarrow> bool" where
  "capability_snapshot_ok E s =
     (nonempty (cs_snapshot_id s) \<and> datetime_ok E (cs_created_at s) \<and>
      is_hex64 (cs_capabilities_hash s) \<and> list_all capability_descriptor_ok (cs_capabilities s))"

text \<open>What a caller declares of a capability (\<open>CapabilityDescriptorInput\<close>).\<close>

record capability_input =
  ci_endpoint_id :: string
  ci_capability_name :: string
  ci_description :: string
  ci_input_schema :: json
  ci_output_schema :: "json option"
  ci_risk_level :: risk_level
  ci_requires_approval :: bool

definition capability_digest :: "env \<Rightarrow> capability_input \<Rightarrow> string" where
  "capability_digest E i = stable_hash E (JObj
     [(''endpoint_id'', JStr (ci_endpoint_id i)),
      (''capability_name'', JStr (ci_capability_name i)),
      (''input_schema'', ci_input_schema i),
      (''output_schema'', jundef id (ci_output_schema i)),
      (''risk_level'', JStr (risk_str (ci_risk_level i))),
      (''requires_approval'', JBool (ci_requires_approval i))])"

section \<open>Deterministic identifiers (\<open>ids/deterministic-ids.ts\<close>)\<close>

definition det_id :: "env \<Rightarrow> string \<Rightarrow> json \<Rightarrow> nat \<Rightarrow> string" where
  "det_id E prefix v n = prefix @ ''_'' @ take n (stable_hash E v)"

definition deterministic_snapshot_id :: "env \<Rightarrow> json \<Rightarrow> string" where
  "deterministic_snapshot_id E v = det_id E ''caps'' v 16"

definition deterministic_observation_id :: "env \<Rightarrow> json \<Rightarrow> string" where
  "deterministic_observation_id E v = det_id E ''observation'' v 16"

definition capability_descriptor_json :: "capability_descriptor \<Rightarrow> json" where
  "capability_descriptor_json c = JObj
     ([(''endpoint_id'', JStr (cd_endpoint_id c)),
       (''capability_name'', JStr (cd_capability_name c)),
       (''description'', JStr (cd_description c)),
       (''input_schema'', cd_input_schema c)] @
      jopt ''output_schema'' id (cd_output_schema c) @
      [(''risk_level'', JStr (risk_str (cd_risk_level c))),
       (''requires_approval'', JBool (cd_requires_approval c)),
       (''capability_digest'', JStr (cd_capability_digest c))])"

definition describe_input :: "env \<Rightarrow> capability_input \<Rightarrow> capability_descriptor" where
  "describe_input E i =
     \<lparr>cd_endpoint_id = ci_endpoint_id i, cd_capability_name = ci_capability_name i,
      cd_description = ci_description i, cd_input_schema = ci_input_schema i,
      cd_output_schema = ci_output_schema i, cd_risk_level = ci_risk_level i,
      cd_requires_approval = ci_requires_approval i,
      cd_capability_digest = capability_digest E i, cd_side_effect_kind = None\<rparr>"

definition build_capability_snapshot ::
    "env \<Rightarrow> capability_input list \<Rightarrow> string \<Rightarrow> capability_snapshot option" where
  "build_capability_snapshot E inputs now =
     (let capabilities =
            sort_key (\<lambda>c. collation_key (cd_endpoint_id c @ ''.'' @ cd_capability_name c))
              (map (describe_input E) inputs);
          capabilities_hash = stable_hash E (JArr (map capability_descriptor_json capabilities));
          snapshot =
            \<lparr>cs_snapshot_id = deterministic_snapshot_id E
                (JObj [(''capabilities_hash'', JStr capabilities_hash), (''now'', JStr now)]),
             cs_created_at = now, cs_capabilities_hash = capabilities_hash,
             cs_capabilities = capabilities\<rparr>
      in if capability_snapshot_ok E snapshot then Some snapshot else None)"

section \<open>Delegation (\<open>schemas/delegation.ts\<close>)\<close>

datatype principal_type = Principal_human | Principal_service | Principal_runtime
datatype delegate_type = Delegate_reconciler | Delegate_service | Delegate_runtime

record delegation_context =
  dc_principal_id :: string
  dc_principal_type :: principal_type
  dc_delegate_id :: string
  dc_delegate_type :: delegate_type
  dc_project_id :: string
  dc_workspace_id :: string
  dc_allowed_scopes :: "string list"
  dc_denied_scopes :: "string list"
  dc_allowed_capabilities :: "string list"
  dc_max_risk_level :: risk_level
  dc_approval_required_for :: "risk_level list"
  dc_expires_at :: string
  dc_trace_id :: string
  dc_parent_run_id :: string
  dc_task_run_id :: "string option"

definition delegation_context_ok :: "env \<Rightarrow> delegation_context \<Rightarrow> bool" where
  "delegation_context_ok E d =
     (nonempty (dc_principal_id d) \<and> nonempty (dc_delegate_id d) \<and> nonempty (dc_project_id d) \<and>
      nonempty (dc_workspace_id d) \<and> datetime_ok E (dc_expires_at d) \<and> nonempty (dc_trace_id d) \<and>
      nonempty (dc_parent_run_id d) \<and> opt_ok nonempty (dc_task_run_id d))"

section \<open>Structured errors, observations and intents (\<open>schemas/open-cot.ts\<close>)\<close>

datatype error_code =
    INVALID_ARTIFACT | INVALID_PLAN | INVALID_DELEGATION_CONTEXT | SNAPSHOT_MISMATCH
  | UNKNOWN_MCP_SERVER | UNKNOWN_CAPABILITY | CAPABILITY_DIGEST_MISMATCH
  | SCHEMA_VALIDATION_FAILED | POLICY_DENIED | APPROVAL_REQUIRED | PRECONDITION_FAILED
  | BUDGET_EXCEEDED | MCP_EXECUTION_FAILED | RESULT_VALIDATION_FAILED | CRITIC_FAILED
  | REVISION_UNSUPPORTED | MODEL_PROVIDER_UNAVAILABLE | PATCH_PLAN_GENERATION_FAILED | YIELDED

record structured_error =
  se_code :: error_code
  se_message :: string
  se_intent_id :: "string option"
  se_task_id :: "string option"
  se_observed_at :: string
  se_details :: "json option"

datatype observation_status = Obs_recorded | Obs_skipped | Obs_error

fun observation_status_str :: "observation_status \<Rightarrow> string" where
  "observation_status_str Obs_recorded = ''recorded''"
| "observation_status_str Obs_skipped = ''skipped''"
| "observation_status_str Obs_error = ''error''"

declare observation_status_str.simps [enum_simps]

record observation =
  ob_observation_id :: string
  ob_intent_id :: "string option"
  ob_task_id :: "string option"
  ob_status :: observation_status
  ob_summary :: string
  ob_output :: "json option"
  ob_observed_at :: string

record execution_intent =
  ei_intent_id :: string
  ei_snapshot_id :: string
  ei_endpoint_id :: string
  ei_capability_name :: string
  ei_capability_digest :: string
  ei_risk_level :: risk_level
  ei_requires_approval :: bool
  ei_idempotency_key :: string
  ei_arguments :: "(string \<times> json) list"

definition structured_error_ok :: "env \<Rightarrow> structured_error \<Rightarrow> bool" where
  "structured_error_ok E e = datetime_ok E (se_observed_at e)"

definition observation_ok :: "env \<Rightarrow> observation \<Rightarrow> bool" where
  "observation_ok E x = (nonempty (ob_observation_id x) \<and> datetime_ok E (ob_observed_at x))"

text \<open>\<open>reconciliation/records.ts\<close>\<close>

definition mk_structured_error ::
    "error_code \<Rightarrow> string \<Rightarrow> string \<Rightarrow> string option \<Rightarrow> string option \<Rightarrow> json option
      \<Rightarrow> structured_error" where
  "mk_structured_error code message now task_id intent_id details =
     \<lparr>se_code = code, se_message = message, se_intent_id = intent_id, se_task_id = task_id,
      se_observed_at = now, se_details = details\<rparr>"

definition mk_observation ::
    "env \<Rightarrow> observation_status \<Rightarrow> string \<Rightarrow> string \<Rightarrow> string option \<Rightarrow> string option \<Rightarrow> json option
      \<Rightarrow> observation" where
  "mk_observation E status summary now task_id intent_id output =
     \<lparr>ob_observation_id = deterministic_observation_id E (JObj
        ([(''status'', JStr (observation_status_str status)), (''summary'', JStr summary),
          (''now'', JStr now)] @
         jopt ''intent_id'' JStr intent_id @ jopt ''task_id'' JStr task_id @
         jopt ''output'' id output)),
      ob_intent_id = intent_id, ob_task_id = task_id, ob_status = status, ob_summary = summary,
      ob_output = output, ob_observed_at = now\<rparr>"

section \<open>Tasks and bounds (\<open>schemas/reconciliation.ts\<close>)\<close>

record execution_bounds =
  eb_max_tasks_per_project :: nat
  eb_max_execution_intents_per_task :: nat
  eb_max_total_endpoint_attempts :: nat
  eb_max_risk_without_approval :: risk_level

record scoped_task =
  tk_task_id :: string
  tk_title :: string
  tk_objective :: string
  tk_allowed_scopes :: "string list"
  tk_allowed_capabilities :: "string list"
  tk_max_risk_level :: risk_level

lemmas record_builders = mk_structured_error_def mk_observation_def

end
