(* ===== verification/Planfile_Schema.thy ===== *)
theory Planfile_Schema
  imports Schemas
begin

text \<open>
  The Planfile of \<open>planning/planfile-schema.ts\<close> with the goal frame of \<open>planning/goal-frame.ts\<close>
  and the artifact references of \<open>planning/plan-artifacts.ts\<close>: records for the objects,
  datatypes for the enumerations, the checks of \<open>Planfile.parse\<close> as \<open>planfile_ok\<close>, and the JSON
  form of a plan, which the digests are computed from.
\<close>

section \<open>Artifact references (\<open>planning/plan-artifacts.ts\<close>)\<close>

datatype plan_artifact_kind =
    PA_goal_frame | PA_planfile | PA_evidence_bundle | PA_patch_plan | PA_patch_artifact
  | PA_verification_report | PA_review_report | PA_final_report | PA_final_patch_artifact
  | PA_worktree_session | PA_markdown_projection | PA_capability_step_result | PA_raw_log

fun plan_artifact_kind_str :: "plan_artifact_kind \<Rightarrow> string" where
  "plan_artifact_kind_str PA_goal_frame = ''goal_frame''"
| "plan_artifact_kind_str PA_planfile = ''planfile''"
| "plan_artifact_kind_str PA_evidence_bundle = ''evidence_bundle''"
| "plan_artifact_kind_str PA_patch_plan = ''patch_plan''"
| "plan_artifact_kind_str PA_patch_artifact = ''patch_artifact''"
| "plan_artifact_kind_str PA_verification_report = ''verification_report''"
| "plan_artifact_kind_str PA_review_report = ''review_report''"
| "plan_artifact_kind_str PA_final_report = ''final_report''"
| "plan_artifact_kind_str PA_final_patch_artifact = ''final_patch_artifact''"
| "plan_artifact_kind_str PA_worktree_session = ''worktree_session''"
| "plan_artifact_kind_str PA_markdown_projection = ''markdown_projection''"
| "plan_artifact_kind_str PA_capability_step_result = ''capability_step_result''"
| "plan_artifact_kind_str PA_raw_log = ''raw_log''"

record plan_artifact_ref =
  ar_artifact_id :: string
  ar_kind :: plan_artifact_kind
  ar_path_or_uri :: string
  ar_summary :: string
  ar_created_at :: string

definition plan_artifact_ref_ok :: "env \<Rightarrow> plan_artifact_ref \<Rightarrow> bool" where
  "plan_artifact_ref_ok E a =
     (nonempty (ar_artifact_id a) \<and> nonempty (ar_path_or_uri a) \<and> datetime_ok E (ar_created_at a))"

section \<open>Goal frame (\<open>planning/goal-frame.ts\<close>)\<close>

datatype ambiguity_level = Amb_low | Amb_medium | Amb_high
datatype suggested_mode = Suggest_dry_run | Suggest_apply_with_approval

record ambiguity =
  am_level :: ambiguity_level
  am_questions :: "string list"
  am_blocking :: bool

record goal_frame =
  gf_goal_id :: string
  gf_original_prompt :: string
  gf_interpreted_goal :: string
  gf_acceptance_criteria :: "string list"
  gf_non_goals :: "string list"
  gf_assumptions :: "string list"
  gf_ambiguity :: ambiguity
  gf_suggested_mode :: suggested_mode
  gf_risk_notes :: "string list"
  gf_created_at :: string

definition goal_frame_ok :: "env \<Rightarrow> goal_frame \<Rightarrow> bool" where
  "goal_frame_ok E g =
     (nonempty (gf_goal_id g) \<and> nonempty (gf_original_prompt g) \<and> nonempty (gf_interpreted_goal g) \<and>
      list_all nonempty (gf_acceptance_criteria g) \<and> list_all nonempty (gf_non_goals g) \<and>
      list_all nonempty (gf_assumptions g) \<and> list_all nonempty (am_questions (gf_ambiguity g)) \<and>
      list_all nonempty (gf_risk_notes g) \<and> datetime_ok E (gf_created_at g))"

section \<open>Plan enumerations\<close>

datatype plan_mode = Plan_dry_run | Plan_apply

datatype plan_status =
    PS_draft | PS_validated | PS_ready | PS_approved | PS_pending | PS_running | PS_completed
  | PS_failed | PS_yielded

datatype plan_node_kind =
    K_frame | K_inspect | K_analyze | K_design | K_patch | K_verify | K_repair | K_review
  | K_approval | K_finalize

datatype plan_node_status =
    NS_pending | NS_ready | NS_running | NS_completed | NS_failed | NS_yielded | NS_skipped

fun plan_status_str :: "plan_status \<Rightarrow> string" where
  "plan_status_str PS_draft = ''draft''"
| "plan_status_str PS_validated = ''validated''"
| "plan_status_str PS_ready = ''ready''"
| "plan_status_str PS_approved = ''approved''"
| "plan_status_str PS_pending = ''pending''"
| "plan_status_str PS_running = ''running''"
| "plan_status_str PS_completed = ''completed''"
| "plan_status_str PS_failed = ''failed''"
| "plan_status_str PS_yielded = ''yielded''"

fun node_kind_str :: "plan_node_kind \<Rightarrow> string" where
  "node_kind_str K_frame = ''frame''"
| "node_kind_str K_inspect = ''inspect''"
| "node_kind_str K_analyze = ''analyze''"
| "node_kind_str K_design = ''design''"
| "node_kind_str K_patch = ''patch''"
| "node_kind_str K_verify = ''verify''"
| "node_kind_str K_repair = ''repair''"
| "node_kind_str K_review = ''review''"
| "node_kind_str K_approval = ''approval''"
| "node_kind_str K_finalize = ''finalize''"

fun node_status_str :: "plan_node_status \<Rightarrow> string" where
  "node_status_str NS_pending = ''pending''"
| "node_status_str NS_ready = ''ready''"
| "node_status_str NS_running = ''running''"
| "node_status_str NS_completed = ''completed''"
| "node_status_str NS_failed = ''failed''"
| "node_status_str NS_yielded = ''yielded''"
| "node_status_str NS_skipped = ''skipped''"

fun plan_mode_str :: "plan_mode \<Rightarrow> string" where
  "plan_mode_str Plan_dry_run = ''dry_run''"
| "plan_mode_str Plan_apply = ''apply''"

declare plan_artifact_kind_str.simps [enum_simps] plan_status_str.simps [enum_simps]
  node_kind_str.simps [enum_simps] node_status_str.simps [enum_simps] plan_mode_str.simps [enum_simps]

section \<open>Nodes, edges and policies\<close>

record plan_node =
  n_id :: string
  n_kind :: plan_node_kind
  n_title :: string
  n_objective :: string
  n_description :: string
  n_depends_on :: "string list"
  n_allowed_capability_refs :: "string list"
  n_execution_mode :: "execution_mode option"
  n_expected_outputs :: "string list"
  n_acceptance_refs :: "string list"
  n_risk_level :: risk_level
  n_approval_required :: bool
  n_status :: plan_node_status
  n_artifacts :: "plan_artifact_ref list"
  n_errors :: "string list"
  n_optional :: "bool option"
  n_verification_command_ids :: "string list option"

record plan_edge =
  e_from :: string
  e_to :: string
  e_reason :: string

record approval_policy =
  ap_require_approval_for_risks :: "risk_level list"
  ap_approved_plan_digest :: "string option"
  ap_explicit_destructive_goal :: "bool option"

definition plan_node_ok :: "env \<Rightarrow> plan_node \<Rightarrow> bool" where
  "plan_node_ok E n =
     (nonempty (n_id n) \<and> nonempty (n_title n) \<and> nonempty (n_objective n) \<and>
      list_all nonempty (n_depends_on n) \<and> list_all nonempty (n_allowed_capability_refs n) \<and>
      list_all nonempty (n_expected_outputs n) \<and> list_all nonempty (n_acceptance_refs n) \<and>
      list_all (plan_artifact_ref_ok E) (n_artifacts n) \<and>
      opt_ok (list_all nonempty) (n_verification_command_ids n))"

definition plan_edge_ok :: "plan_edge \<Rightarrow> bool" where
  "plan_edge_ok e = (nonempty (e_from e) \<and> nonempty (e_to e))"

definition approval_policy_ok :: "approval_policy \<Rightarrow> bool" where
  "approval_policy_ok p = opt_ok is_hex64 (ap_approved_plan_digest p)"

section \<open>Lifecycle and requirements\<close>

datatype validation_status = V_unknown | V_passed | V_failed
datatype simulation_status =
    Sim_unknown | Sim_ready | Sim_needs_input | Sim_missing_requirements | Sim_invalid | Sim_unsafe

record planfile_lifecycle =
  lc_builder_session_id :: "string option"
  lc_questions_answered :: "nat option"
  lc_assumptions :: "string list option"
  lc_validation_status :: "validation_status option"
  lc_simulation_status :: "simulation_status option"

definition planfile_lifecycle_ok :: "planfile_lifecycle \<Rightarrow> bool" where
  "planfile_lifecycle_ok l =
     (opt_ok nonempty (lc_builder_session_id l) \<and> opt_ok (list_all nonempty) (lc_assumptions l))"

record pack_requirement =
  pr_id :: string
  pr_version :: "string option"
  pr_required :: bool

record provider_requirement =
  vr_id :: string
  vr_kind :: string
  vr_required :: bool
  vr_acceptable :: "string list option"

record credential_requirement =
  cr_ref :: string
  cr_required :: bool
  cr_purpose :: "string option"

datatype parameter_type = PT_string | PT_number | PT_boolean | PT_object | PT_array

record parameter_requirement =
  qr_type :: parameter_type
  qr_required :: bool
  qr_default :: "json option"
  qr_description :: "string option"

datatype runtime_location = Loc_local | Loc_remote

record planfile_requirements =
  rq_packs :: "pack_requirement list option"
  rq_providers :: "provider_requirement list option"
  rq_credentials :: "credential_requirement list option"
  rq_permissions :: "string list option"
  rq_approvals :: "string list option"
  rq_runtime :: "runtime_location list option option"
  rq_parameters :: "(string \<times> parameter_requirement) list option"

definition pack_requirement_ok :: "pack_requirement \<Rightarrow> bool" where
  "pack_requirement_ok r = (nonempty (pr_id r) \<and> opt_ok nonempty (pr_version r))"

definition provider_requirement_ok :: "provider_requirement \<Rightarrow> bool" where
  "provider_requirement_ok r =
     (nonempty (vr_id r) \<and> nonempty (vr_kind r) \<and> opt_ok (list_all nonempty) (vr_acceptable r))"

definition credential_requirement_ok :: "credential_requirement \<Rightarrow> bool" where
  "credential_requirement_ok r = (nonempty (cr_ref r) \<and> opt_ok nonempty (cr_purpose r))"

definition parameter_requirement_ok :: "parameter_requirement \<Rightarrow> bool" where
  "parameter_requirement_ok r = opt_ok nonempty (qr_description r)"

definition planfile_requirements_ok :: "planfile_requirements \<Rightarrow> bool" where
  "planfile_requirements_ok r =
     (opt_ok (list_all pack_requirement_ok) (rq_packs r) \<and>
      opt_ok (list_all provider_requirement_ok) (rq_providers r) \<and>
      opt_ok (list_all credential_requirement_ok) (rq_credentials r) \<and>
      opt_ok (list_all nonempty) (rq_permissions r) \<and>
      opt_ok (list_all nonempty) (rq_approvals r) \<and>
      opt_ok (list_all (\<lambda>(_, q). parameter_requirement_ok q)) (rq_parameters r))"

section \<open>The Planfile\<close>

text \<open>
  \<open>schema_version\<close> is a literal, so it is not a field. \<open>pf_allowed_command_ids\<close> is the one
  field of the verification policy.
\<close>

record planfile =
  pf_plan_id :: string
  pf_goal_frame :: goal_frame
  pf_mode :: plan_mode
  pf_status :: plan_status
  pf_nodes :: "plan_node list"
  pf_edges :: "plan_edge list"
  pf_approval_policy :: approval_policy
  pf_allowed_command_ids :: "string list"
  pf_requirements :: "planfile_requirements option"
  pf_execution_context :: "(string \<times> json) list option"
  pf_lifecycle :: "planfile_lifecycle option"
  pf_artifact_refs :: "plan_artifact_ref list"
  pf_created_at :: string
  pf_updated_at :: string
  pf_canonical_plan_digest :: "string option"

definition planfile_ok :: "env \<Rightarrow> planfile \<Rightarrow> bool" where
  "planfile_ok E p =
     (nonempty (pf_plan_id p) \<and> goal_frame_ok E (pf_goal_frame p) \<and>
      list_all (plan_node_ok E) (pf_nodes p) \<and> list_all plan_edge_ok (pf_edges p) \<and>
      approval_policy_ok (pf_approval_policy p) \<and> list_all nonempty (pf_allowed_command_ids p) \<and>
      opt_ok planfile_requirements_ok (pf_requirements p) \<and>
      opt_ok planfile_lifecycle_ok (pf_lifecycle p) \<and>
      list_all (plan_artifact_ref_ok E) (pf_artifact_refs p) \<and>
      datetime_ok E (pf_created_at p) \<and> datetime_ok E (pf_updated_at p) \<and>
      opt_ok is_hex64 (pf_canonical_plan_digest p))"

lemma planfile_ok_node_ids:
  "planfile_ok E p \<Longrightarrow> n \<in> set (pf_nodes p) \<Longrightarrow> n_id n \<noteq> []"
  by (auto simp: planfile_ok_def plan_node_ok_def list_all_iff)

end
