(* ===== verification/Samples.thy ===== *)
theory Samples
  imports Planfile_Schema
begin

text \<open>
  A small concrete environment and Planfile, on which the witnesses evaluate the properties: a
  frame node, a read-only inspection that depends on it, and a final node that depends on both.
\<close>

definition sample_env :: env where
  "sample_env =
     \<lparr>sha256_hex = (\<lambda>s. replicate 64 (if even (length s) then CHR ''0'' else CHR ''1'')),
      hmac_sha256_hex = (\<lambda>k s. replicate 64 (if even (length s) then CHR ''0'' else CHR ''1'')),
      datetime_ok = (\<lambda>s. length s = 24),
      date_parse = (\<lambda>s. if length s = 24 then Some 0 else None),
      zod_issues = (\<lambda>_. [(''Invalid input'', [])])\<rparr>"

definition sample_stamp :: string where
  "sample_stamp = ''2025-01-01T00:00:00.000Z''"

definition sample_frame :: goal_frame where
  "sample_frame =
     \<lparr>gf_goal_id = ''goal_1'', gf_original_prompt = ''read the file'',
      gf_interpreted_goal = ''read the file'', gf_acceptance_criteria = [''file read''],
      gf_non_goals = [], gf_assumptions = [],
      gf_ambiguity = \<lparr>am_level = Amb_low, am_questions = [], am_blocking = False\<rparr>,
      gf_suggested_mode = Suggest_dry_run, gf_risk_notes = [], gf_created_at = sample_stamp\<rparr>"

definition sample_node :: "string \<Rightarrow> plan_node_kind \<Rightarrow> string list \<Rightarrow> plan_node" where
  "sample_node i k ds =
     \<lparr>n_id = i, n_kind = k, n_title = i, n_objective = i, n_description = [], n_depends_on = ds,
      n_allowed_capability_refs = [], n_execution_mode = None, n_expected_outputs = [],
      n_acceptance_refs = [], n_risk_level = Risk_read, n_approval_required = False,
      n_status = NS_pending, n_artifacts = [], n_errors = [], n_optional = None,
      n_verification_command_ids = None\<rparr>"

definition sample_nodes :: "plan_node list" where
  "sample_nodes =
     [sample_node ''frame_goal'' K_frame [],
      sample_node ''inspect'' K_inspect [''frame_goal''],
      sample_node ''finalize'' K_finalize [''inspect'', ''frame_goal'']]"

definition sample_plan :: planfile where
  "sample_plan =
     \<lparr>pf_plan_id = ''plan_1'', pf_goal_frame = sample_frame, pf_mode = Plan_apply,
      pf_status = PS_draft, pf_nodes = sample_nodes, pf_edges = [],
      pf_approval_policy =
        \<lparr>ap_require_approval_for_risks = [Risk_write], ap_approved_plan_digest = None,
         ap_explicit_destructive_goal = None\<rparr>,
      pf_allowed_command_ids = [], pf_requirements = None, pf_execution_context = None,
      pf_lifecycle = None, pf_artifact_refs = [], pf_created_at = sample_stamp,
      pf_updated_at = sample_stamp, pf_canonical_plan_digest = None\<rparr>"

lemma sample_plan_ok: "planfile_ok sample_env sample_plan"
  by code_simp

lemma sample_stamp_ok: "datetime_ok sample_env sample_stamp"
  by (simp add: sample_env_def sample_stamp_def)

lemma stamped_sample_ok: "planfile_ok sample_env (sample_plan\<lparr>pf_status := s, pf_updated_at := sample_stamp\<rparr>)"
  using sample_plan_ok by (simp add: planfile_ok_def sample_stamp_ok)

lemmas sample_defs = sample_env_def sample_stamp_def sample_frame_def sample_node_def
  sample_nodes_def sample_plan_def

end
