(* ===== verification/Plan_Canonical.thy ===== *)
theory Plan_Canonical
  imports Samples
begin

text \<open>
  The canonical form of a Planfile and its digest (\<open>planning/planfile-canonicalize.ts\<close>, and
  \<open>withCanonicalPlanDigest\<close> of \<open>planning/planfile-validator.ts\<close>). The lemmas say what the digest
  depends on: nothing that a run changes (statuses, artifacts, errors, time stamps), and
  every field of a node that decides what is executed.
\<close>

section \<open>JSON form of the parts of a plan\<close>

fun ambiguity_level_str :: "ambiguity_level \<Rightarrow> string" where
  "ambiguity_level_str Amb_low = ''low''"
| "ambiguity_level_str Amb_medium = ''medium''"
| "ambiguity_level_str Amb_high = ''high''"

fun suggested_mode_str :: "suggested_mode \<Rightarrow> string" where
  "suggested_mode_str Suggest_dry_run = ''dry_run''"
| "suggested_mode_str Suggest_apply_with_approval = ''apply_with_approval''"

definition goal_frame_json :: "goal_frame \<Rightarrow> json" where
  "goal_frame_json g = JObj
     [(''goal_id'', JStr (gf_goal_id g)),
      (''original_prompt'', JStr (gf_original_prompt g)),
      (''interpreted_goal'', JStr (gf_interpreted_goal g)),
      (''acceptance_criteria'', jstrs (gf_acceptance_criteria g)),
      (''non_goals'', jstrs (gf_non_goals g)),
      (''assumptions'', jstrs (gf_assumptions g)),
      (''ambiguity'', JObj
        [(''level'', JStr (ambiguity_level_str (am_level (gf_ambiguity g)))),
         (''questions'', jstrs (am_questions (gf_ambiguity g))),
         (''blocking'', JBool (am_blocking (gf_ambiguity g)))]),
      (''suggested_mode'', JStr (suggested_mode_str (gf_suggested_mode g))),
      (''risk_notes'', jstrs (gf_risk_notes g)),
      (''created_at'', JStr (gf_created_at g))]"

definition plan_artifact_ref_json :: "plan_artifact_ref \<Rightarrow> json" where
  "plan_artifact_ref_json a = JObj
     [(''artifact_id'', JStr (ar_artifact_id a)),
      (''kind'', JStr (plan_artifact_kind_str (ar_kind a))),
      (''path_or_uri'', JStr (ar_path_or_uri a)),
      (''summary'', JStr (ar_summary a)),
      (''created_at'', JStr (ar_created_at a))]"

definition plan_edge_json :: "plan_edge \<Rightarrow> json" where
  "plan_edge_json e = JObj
     [(''from'', JStr (e_from e)), (''to'', JStr (e_to e)), (''reason'', JStr (e_reason e))]"

definition approval_policy_json :: "approval_policy \<Rightarrow> json" where
  "approval_policy_json p = JObj
     ([(''require_approval_for_risks'', jstrs (map risk_str (ap_require_approval_for_risks p)))] @
      jopt ''approved_plan_digest'' JStr (ap_approved_plan_digest p) @
      jopt ''explicit_destructive_goal'' JBool (ap_explicit_destructive_goal p))"

definition verification_policy_json :: "string list \<Rightarrow> json" where
  "verification_policy_json ids = JObj [(''allowed_command_ids'', jstrs ids)]"

text \<open>The entries of a node that the canonical form keeps; undefined ones are stripped.\<close>

definition canonical_node_json :: "plan_node \<Rightarrow> json" where
  "canonical_node_json n = JObj
     ([(''id'', JStr (n_id n)),
       (''kind'', JStr (node_kind_str (n_kind n))),
       (''title'', JStr (n_title n)),
       (''objective'', JStr (n_objective n)),
       (''description'', JStr (n_description n)),
       (''depends_on'', jstrs (n_depends_on n)),
       (''allowed_capability_refs'', jstrs (n_allowed_capability_refs n))] @
      jopt ''execution_mode'' (\<lambda>m. JStr (mode_str m)) (n_execution_mode n) @
      [(''expected_outputs'', jstrs (n_expected_outputs n)),
       (''acceptance_refs'', jstrs (n_acceptance_refs n)),
       (''risk_level'', JStr (risk_str (n_risk_level n))),
       (''approval_required'', JBool (n_approval_required n))] @
      jopt ''optional'' JBool (n_optional n) @
      jopt ''verification_command_ids'' jstrs (n_verification_command_ids n))"

definition canonical_lifecycle_json :: "planfile_lifecycle \<Rightarrow> json" where
  "canonical_lifecycle_json l = JObj
     (jopt ''builder_session_id'' JStr (lc_builder_session_id l) @
      jopt ''questions_answered'' (\<lambda>k. JNum (int k)) (lc_questions_answered l) @
      jopt ''assumptions'' jstrs (lc_assumptions l))"

text \<open>A whole plan as the JSON value the schema library is given.\<close>

definition plan_node_json :: "plan_node \<Rightarrow> json" where
  "plan_node_json n =
     (case canonical_node_json n of
        JObj kvs \<Rightarrow> JObj (kvs @
          [(''status'', JStr (node_status_str (n_status n))),
           (''artifacts'', JArr (map plan_artifact_ref_json (n_artifacts n))),
           (''errors'', jstrs (n_errors n))])
      | v \<Rightarrow> v)"

fun validation_status_str :: "validation_status \<Rightarrow> string" where
  "validation_status_str V_unknown = ''unknown''"
| "validation_status_str V_passed = ''passed''"
| "validation_status_str V_failed = ''failed''"

fun simulation_status_str :: "simulation_status \<Rightarrow> string" where
  "simulation_status_str Sim_unknown = ''unknown''"
| "simulation_status_str Sim_ready = ''ready''"
| "simulation_status_str Sim_needs_input = ''needs_input''"
| "simulation_status_str Sim_missing_requirements = ''missing_requirements''"
| "simulation_status_str Sim_invalid = ''invalid''"
| "simulation_status_str Sim_unsafe = ''unsafe''"

definition lifecycle_json :: "planfile_lifecycle \<Rightarrow> json" where
  "lifecycle_json l = JObj
     (jopt ''builder_session_id'' JStr (lc_builder_session_id l) @
      jopt ''questions_answered'' (\<lambda>k. JNum (int k)) (lc_questions_answered l) @
      jopt ''assumptions'' jstrs (lc_assumptions l) @
      jopt ''validation_status'' (\<lambda>v. JStr (validation_status_str v)) (lc_validation_status l) @
      jopt ''simulation_status'' (\<lambda>v. JStr (simulation_status_str v)) (lc_simulation_status l))"

fun parameter_type_str :: "parameter_type \<Rightarrow> string" where
  "parameter_type_str PT_string = ''string''"
| "parameter_type_str PT_number = ''number''"
| "parameter_type_str PT_boolean = ''boolean''"
| "parameter_type_str PT_object = ''object''"
| "parameter_type_str PT_array = ''array''"

fun runtime_location_str :: "runtime_location \<Rightarrow> string" where
  "runtime_location_str Loc_local = ''local''"
| "runtime_location_str Loc_remote = ''remote''"

definition requirements_json :: "planfile_requirements \<Rightarrow> json" where
  "requirements_json r = JObj
     (jopt ''packs'' (\<lambda>xs. JArr (map (\<lambda>p. JObj
         ([(''id'', JStr (pr_id p))] @ jopt ''version'' JStr (pr_version p) @
          [(''required'', JBool (pr_required p))])) xs)) (rq_packs r) @
      jopt ''providers'' (\<lambda>xs. JArr (map (\<lambda>p. JObj
         ([(''id'', JStr (vr_id p)), (''kind'', JStr (vr_kind p)), (''required'', JBool (vr_required p))] @
          jopt ''acceptable'' jstrs (vr_acceptable p))) xs)) (rq_providers r) @
      jopt ''credentials'' (\<lambda>xs. JArr (map (\<lambda>p. JObj
         ([(''ref'', JStr (cr_ref p)), (''required'', JBool (cr_required p))] @
          jopt ''purpose'' JStr (cr_purpose p))) xs)) (rq_credentials r) @
      jopt ''permissions'' jstrs (rq_permissions r) @
      jopt ''approvals'' jstrs (rq_approvals r) @
      jopt ''runtime'' (\<lambda>m. JObj (jopt ''mode'' (\<lambda>xs. jstrs (map runtime_location_str xs)) m))
        (rq_runtime r) @
      jopt ''parameters'' (\<lambda>xs. JObj (map (\<lambda>(k, q). (k, JObj
         ([(''type'', JStr (parameter_type_str (qr_type q))), (''required'', JBool (qr_required q))] @
          jopt ''default'' id (qr_default q) @ jopt ''description'' JStr (qr_description q)))) xs))
        (rq_parameters r))"

definition planfile_json :: "planfile \<Rightarrow> json" where
  "planfile_json p = JObj
     ([(''schema_version'', JStr ''open-lagrange.plan.v1''),
       (''plan_id'', JStr (pf_plan_id p)),
       (''goal_frame'', goal_frame_json (pf_goal_frame p)),
       (''mode'', JStr (plan_mode_str (pf_mode p))),
       (''status'', JStr (plan_status_str (pf_status p))),
       (''nodes'', JArr (map plan_node_json (pf_nodes p))),
       (''edges'', JArr (map plan_edge_json (pf_edges p))),
       (''approval_policy'', approval_policy_json (pf_approval_policy p)),
       (''verification_policy'', verification_policy_json (pf_allowed_command_ids p))] @
      jopt ''requirements'' requirements_json (pf_requirements p) @
      jopt ''execution_context'' JObj (pf_execution_context p) @
      jopt ''lifecycle'' lifecycle_json (pf_lifecycle p) @
      [(''artifact_refs'', JArr (map plan_artifact_ref_json (pf_artifact_refs p))),
       (''created_at'', JStr (pf_created_at p)),
       (''updated_at'', JStr (pf_updated_at p))] @
      jopt ''canonical_plan_digest'' JStr (pf_canonical_plan_digest p))"

section \<open>The canonical object and its digest\<close>

text \<open>\<open>Planfile.parse\<close> on a value of the right shape: the plan itself, or a schema error.\<close>

definition planfile_parse :: "env \<Rightarrow> planfile \<Rightarrow> planfile option" where
  "planfile_parse E p = (if planfile_ok E p then Some p else None)"

definition canonical_form :: "planfile \<Rightarrow> json" where
  "canonical_form p = JObj
     ([(''schema_version'', JStr ''open-lagrange.plan.v1''),
       (''plan_id'', JStr (pf_plan_id p)),
       (''goal_frame'', goal_frame_json (pf_goal_frame p)),
       (''mode'', JStr (plan_mode_str (pf_mode p))),
       (''nodes'', JArr (map canonical_node_json (pf_nodes p))),
       (''edges'', JArr (map plan_edge_json (pf_edges p))),
       (''approval_policy'', approval_policy_json (pf_approval_policy p)),
       (''verification_policy'', verification_policy_json (pf_allowed_command_ids p))] @
      jopt ''execution_context'' JObj (pf_execution_context p) @
      jopt ''lifecycle'' canonical_lifecycle_json (pf_lifecycle p) @
      [(''artifact_refs'', JArr (map plan_artifact_ref_json (pf_artifact_refs p)))])"

definition canonical_plan_object :: "env \<Rightarrow> planfile \<Rightarrow> json option" where
  "canonical_plan_object E p = map_option canonical_form (planfile_parse E p)"

definition canonical_plan_json :: "env \<Rightarrow> planfile \<Rightarrow> string option" where
  "canonical_plan_json E p = map_option stable_stringify (canonical_plan_object E p)"

definition canonical_plan_digest :: "env \<Rightarrow> planfile \<Rightarrow> string option" where
  "canonical_plan_digest E p = map_option (stable_hash E) (canonical_plan_object E p)"

definition with_canonical_plan_digest :: "env \<Rightarrow> planfile \<Rightarrow> planfile option" where
  "with_canonical_plan_digest E p =
     (case canonical_plan_digest E p of
        None \<Rightarrow> None
      | Some d \<Rightarrow> planfile_parse E (p\<lparr>pf_canonical_plan_digest := Some d\<rparr>))"

text \<open>\<open>node:crypto\<close>'s SHA-256 in hexadecimal is 64 lower-case hexadecimal digits.\<close>

definition sha_is_hex :: "env \<Rightarrow> bool" where
  "sha_is_hex E = (\<forall>s. is_hex64 (sha256_hex E s))"

lemma planfile_parse_Some [simp]: "planfile_parse E p = Some q \<longleftrightarrow> q = p \<and> planfile_ok E p"
  by (auto simp: planfile_parse_def)

lemma planfile_parse_ok [simp]: "planfile_ok E p \<Longrightarrow> planfile_parse E p = Some p"
  by simp

lemma with_digest_total:
  assumes "planfile_ok E p" and "sha_is_hex E"
  shows "with_canonical_plan_digest E p =
    Some (p\<lparr>pf_canonical_plan_digest := Some (stable_hash E (canonical_form p))\<rparr>)"
proof -
  have p: "planfile_parse E p = Some p" using assms(1) by simp
  have "is_hex64 (stable_hash E (canonical_form p))"
    using assms(2) by (simp add: sha_is_hex_def stable_hash_def)
  with assms(1) have "planfile_ok E (p\<lparr>pf_canonical_plan_digest := Some (stable_hash E (canonical_form p))\<rparr>)"
    by (simp add: planfile_ok_def)
  with p show ?thesis
    by (simp add: with_canonical_plan_digest_def canonical_plan_digest_def canonical_plan_object_def)
qed

lemma with_digest_SomeD:
  assumes "with_canonical_plan_digest E p = Some q"
  shows "planfile_ok E p \<and> planfile_ok E q \<and>
    q = p\<lparr>pf_canonical_plan_digest := Some (stable_hash E (canonical_form p))\<rparr>"
  using assms
  by (auto simp: with_canonical_plan_digest_def canonical_plan_digest_def
      canonical_plan_object_def planfile_parse_def split: option.splits if_splits)

lemma canonical_form_digest [simp]:
  "canonical_form (p\<lparr>pf_canonical_plan_digest := d\<rparr>) = canonical_form p"
  by (simp add: canonical_form_def)

lemma with_digest_idem:
  assumes "with_canonical_plan_digest E p = Some q"
  shows "with_canonical_plan_digest E q = Some q"
proof -
  let ?d = "Some (stable_hash E (canonical_form p))"
  have q: "planfile_ok E q" "q = p\<lparr>pf_canonical_plan_digest := ?d\<rparr>"
    using with_digest_SomeD [OF assms] by blast+
  then have "canonical_plan_digest E q = ?d"
    by (simp add: canonical_plan_digest_def canonical_plan_object_def)
  moreover have "q\<lparr>pf_canonical_plan_digest := ?d\<rparr> = q" using q(2) by simp
  ultimately show ?thesis using q(1) by (simp add: with_canonical_plan_digest_def)
qed

section \<open>What the digest does not depend on\<close>

text \<open>The changes a run makes to a plan: its own status, stamps and digest, and per node the
  status, artifacts and errors.\<close>

definition same_work :: "plan_node \<Rightarrow> plan_node \<Rightarrow> bool" where
  "same_work m n = (\<exists>s a e. n = m\<lparr>n_status := s, n_artifacts := a, n_errors := e\<rparr>)"

definition run_variant :: "planfile \<Rightarrow> planfile \<Rightarrow> bool" where
  "run_variant p q =
     (\<exists>s c u d ns. list_all2 same_work (pf_nodes p) ns \<and>
        q = p\<lparr>pf_status := s, pf_created_at := c, pf_updated_at := u,
               pf_canonical_plan_digest := d, pf_nodes := ns\<rparr>)"

lemma canonical_node_same_work: "same_work m n \<Longrightarrow> canonical_node_json m = canonical_node_json n"
  by (auto simp: same_work_def canonical_node_json_def)

lemma canonical_form_run_variant: "run_variant p q \<Longrightarrow> canonical_form p = canonical_form q"
proof -
  assume "run_variant p q"
  then obtain s c u d ns where ns: "list_all2 same_work (pf_nodes p) ns"
    and q: "q = p\<lparr>pf_status := s, pf_created_at := c, pf_updated_at := u,
                    pf_canonical_plan_digest := d, pf_nodes := ns\<rparr>"
    by (auto simp: run_variant_def)
  from ns have "map canonical_node_json (pf_nodes p) = map canonical_node_json ns"
    by (induction rule: list_all2_induct) (auto simp: canonical_node_same_work)
  with q show ?thesis by (simp add: canonical_form_def)
qed

text \<open>\<open>stripUndefined\<close> and the field list leave the requirements out.\<close>

lemma canonical_form_requirements [simp]:
  "canonical_form (p\<lparr>pf_requirements := r\<rparr>) = canonical_form p"
  by (simp add: canonical_form_def)

section \<open>What the digest depends on\<close>

text \<open>
  The canonical form is injective on the fields it keeps: two plans with the same canonical
  form agree on them.
\<close>

lemma jstrs_inject [simp]: "jstrs xs = jstrs ys \<longleftrightarrow> xs = ys"
  by (simp add: jstrs_def inj_map_eq_map inj_def)

lemma mode_str_inject [simp]: "mode_str a = mode_str b \<longleftrightarrow> a = b"
  by (cases a; cases b) simp_all

lemma risk_str_inject [simp]: "risk_str a = risk_str b \<longleftrightarrow> a = b"
  by (cases a; cases b) simp_all

lemma node_kind_str_inject [simp]: "node_kind_str a = node_kind_str b \<longleftrightarrow> a = b"
  by (cases a; cases b) simp_all

lemma plan_mode_str_inject [simp]: "plan_mode_str a = plan_mode_str b \<longleftrightarrow> a = b"
  by (cases a; cases b) simp_all

lemma artifact_kind_str_inject [simp]:
  "plan_artifact_kind_str a = plan_artifact_kind_str b \<longleftrightarrow> a = b"
  by (cases a; cases b) simp_all

lemma ambiguity_level_str_inject [simp]: "ambiguity_level_str a = ambiguity_level_str b \<longleftrightarrow> a = b"
  by (cases a; cases b) simp_all

lemma suggested_mode_str_inject [simp]: "suggested_mode_str a = suggested_mode_str b \<longleftrightarrow> a = b"
  by (cases a; cases b) simp_all

lemma goal_frame_json_inject [simp]: "goal_frame_json a = goal_frame_json b \<longleftrightarrow> a = b"
  by (cases a; cases "gf_ambiguity a"; cases b; cases "gf_ambiguity b")
    (auto simp: goal_frame_json_def)

lemma artifact_ref_json_inject [simp]: "plan_artifact_ref_json a = plan_artifact_ref_json b \<longleftrightarrow> a = b"
  by (cases a; cases b) (auto simp: plan_artifact_ref_json_def)

lemma plan_edge_json_inject [simp]: "plan_edge_json a = plan_edge_json b \<longleftrightarrow> a = b"
  by (cases a; cases b) (auto simp: plan_edge_json_def)

lemma map_inject: "(\<And>a b. f a = f b \<longleftrightarrow> g a = g b) \<Longrightarrow> map f xs = map f ys \<longleftrightarrow> map g xs = map g ys"
  by (induction xs arbitrary: ys; case_tac ys) auto

lemma map_inject_eq: "(\<And>a b. f a = f b \<longleftrightarrow> a = b) \<Longrightarrow> map f xs = map f ys \<longleftrightarrow> xs = ys"
  using map_inject [of f id xs ys] by simp

text \<open>Optional entries: with keys that do not occur behind them, they are equal one by one.\<close>

lemma jopt_append_inject:
  assumes "k \<notin> fst ` set r" "k \<notin> fst ` set r'" "\<And>a b. f a = f b \<longleftrightarrow> a = b"
  shows "jopt k f x @ r = jopt k f y @ r' \<longleftrightarrow> x = y \<and> r = r'"
proof -
  have "(k, v) # s \<noteq> r" "r' \<noteq> (k, v) # s" "r \<noteq> (k, v) # s" "(k, v) # s \<noteq> r'" for v s
    using assms(1,2) by force+
  then show ?thesis
    using assms(3) by (cases x; cases y) (auto simp: jopt_def)
qed

lemma jopt_keys: "fst ` set (jopt k f x) \<subseteq> {k}"
  by (cases x) (auto simp: jopt_def)

text \<open>What of a node the digest covers: everything but the progress of a run.\<close>

definition node_work :: "plan_node \<Rightarrow> plan_node" where
  "node_work n = n\<lparr>n_status := NS_pending, n_artifacts := [], n_errors := []\<rparr>"

lemma same_work_iff: "same_work m n \<longleftrightarrow> node_work m = node_work n"
proof
  show "same_work m n \<Longrightarrow> node_work m = node_work n"
    by (auto simp: same_work_def node_work_def)
  assume "node_work m = node_work n"
  then have "n = m\<lparr>n_status := n_status n, n_artifacts := n_artifacts n, n_errors := n_errors n\<rparr>"
    by (cases m; cases n) (simp add: node_work_def)
  then show "same_work m n" unfolding same_work_def by blast
qed


lemma jopt_last_inject:
  "(\<And>a b. f a = f b \<longleftrightarrow> a = b) \<Longrightarrow> jopt k f x = jopt k f y \<longleftrightarrow> x = y"
  using jopt_append_inject [of k "[]" "[]" f x y] by simp

lemma jopt_key_notin: "k \<noteq> k' \<Longrightarrow> k \<notin> fst ` set (jopt k' f x)"
  using jopt_keys [of k' f x] by auto

lemmas jopt_inject = jopt_append_inject jopt_last_inject

lemma canonical_node_json_inject: "canonical_node_json m = canonical_node_json n \<longleftrightarrow> node_work m = node_work n"
proof
  assume eq: "canonical_node_json m = canonical_node_json n"
  from eq show "node_work m = node_work n"
    unfolding canonical_node_json_def
    by (cases m; cases n) (auto simp: node_work_def jopt_inject jopt_key_notin image_Un)
next
  assume "node_work m = node_work n"
  then show "canonical_node_json m = canonical_node_json n"
    by (intro canonical_node_same_work) (simp add: same_work_iff)
qed

lemma approval_policy_json_inject [simp]:
  "approval_policy_json a = approval_policy_json b \<longleftrightarrow> a = b"
  by (cases a; cases b)
    (auto simp: approval_policy_json_def jopt_inject jopt_key_notin image_Un map_inject_eq)

text \<open>Of the lifecycle: not the validation and simulation status.\<close>

definition lifecycle_work :: "planfile_lifecycle \<Rightarrow> planfile_lifecycle" where
  "lifecycle_work l = l\<lparr>lc_validation_status := None, lc_simulation_status := None\<rparr>"

lemma canonical_lifecycle_json_inject:
  "canonical_lifecycle_json a = canonical_lifecycle_json b \<longleftrightarrow> lifecycle_work a = lifecycle_work b"
  by (cases a; cases b)
    (auto simp: canonical_lifecycle_json_def lifecycle_work_def jopt_inject jopt_key_notin image_Un)

text \<open>The parts of a plan its digest covers: not the status, the time stamps, the digest itself
  and the progress of its nodes, but not its requirements either.\<close>

definition plan_work :: "planfile \<Rightarrow> planfile" where
  "plan_work p = p\<lparr>pf_status := PS_draft, pf_nodes := map node_work (pf_nodes p),
     pf_requirements := None, pf_lifecycle := map_option lifecycle_work (pf_lifecycle p),
     pf_created_at := [], pf_updated_at := [], pf_canonical_plan_digest := None\<rparr>"

lemma jopt_map_inject:
  assumes "k \<notin> fst ` set r" "k \<notin> fst ` set r'" "\<And>a b. f a = f b \<longleftrightarrow> g a = g b"
  shows "jopt k f x @ r = jopt k f y @ r' \<longleftrightarrow> map_option g x = map_option g y \<and> r = r'"
proof -
  have "(k, v) # s \<noteq> r" "r' \<noteq> (k, v) # s" "r \<noteq> (k, v) # s" "(k, v) # s \<noteq> r'" for v s
    using assms(1,2) by force+
  then show ?thesis
    using assms(3) by (cases x; cases y) (auto simp: jopt_def)
qed

lemma jopt_map_last:
  "(\<And>a b. f a = f b \<longleftrightarrow> g a = g b) \<Longrightarrow> jopt k f x = jopt k f y \<longleftrightarrow> map_option g x = map_option g y"
  using jopt_map_inject [of k "[]" "[]" f g x y] by simp

lemma canonical_form_inject: "canonical_form p = canonical_form q \<longleftrightarrow> plan_work p = plan_work q"
proof -
  have nodes: "map canonical_node_json (pf_nodes p) = map canonical_node_json (pf_nodes q) \<longleftrightarrow>
      map node_work (pf_nodes p) = map node_work (pf_nodes q)"
    by (rule map_inject) (rule canonical_node_json_inject)
  have "canonical_form p = canonical_form q \<longleftrightarrow>
      pf_plan_id p = pf_plan_id q \<and> pf_goal_frame p = pf_goal_frame q \<and> pf_mode p = pf_mode q \<and>
      map node_work (pf_nodes p) = map node_work (pf_nodes q) \<and> pf_edges p = pf_edges q \<and>
      pf_approval_policy p = pf_approval_policy q \<and>
      pf_allowed_command_ids p = pf_allowed_command_ids q \<and>
      pf_execution_context p = pf_execution_context q \<and>
      map_option lifecycle_work (pf_lifecycle p) = map_option lifecycle_work (pf_lifecycle q) \<and>
      pf_artifact_refs p = pf_artifact_refs q"
    unfolding canonical_form_def verification_policy_json_def nodes [symmetric]
    by (auto simp: jopt_map_inject [OF _ _ canonical_lifecycle_json_inject] jopt_append_inject
        jopt_map_last [OF canonical_lifecycle_json_inject]
        jopt_key_notin image_Un map_inject_eq)
  also have "\<dots> \<longleftrightarrow> plan_work p = plan_work q"
    by (cases p; cases q) (auto simp: plan_work_def)
  finally show ?thesis .
qed


section \<open>Properties\<close>

lemma sample_sha_hex: "sha_is_hex sample_env"
  by (simp add: sha_is_hex_def is_hex64_def sample_env_def list_all_iff)

text \<open>The canonical object of a valid plan, which its digest is computed from, is determined by the
  work the plan describes and determines it: two valid plans have the same canonical object
  exactly when they agree on everything but the status, the time stamps, the digest, the
  validation and simulation status, the requirements and the progress of their nodes.\<close>
lemma canonical_object_covers_work:
  assumes "planfile_ok E p" and "planfile_ok E q"
  shows "canonical_plan_object E p = canonical_plan_object E q \<longleftrightarrow> plan_work p = plan_work q"
  using assms by (simp add: canonical_plan_object_def canonical_form_inject)

lemma canonical_object_covers_work_witness:
  "canonical_plan_object sample_env sample_plan =
     canonical_plan_object sample_env (sample_plan\<lparr>pf_status := PS_running\<rparr>) \<and>
   canonical_plan_object sample_env sample_plan \<noteq>
     canonical_plan_object sample_env (sample_plan\<lparr>pf_plan_id := ''plan_2''\<rparr>)"
proof -
  have ok: "planfile_ok sample_env (sample_plan\<lparr>pf_status := PS_running\<rparr>)"
    "planfile_ok sample_env (sample_plan\<lparr>pf_plan_id := ''plan_2''\<rparr>)" by code_simp+
  show ?thesis
    unfolding canonical_object_covers_work [OF sample_plan_ok ok(1)]
      canonical_object_covers_work [OF sample_plan_ok ok(2)]
    by (simp add: plan_work_def sample_plan_def)
qed

text \<open>Stamping a valid plan with its canonical digest always succeeds, the stamped plan is valid
  and carries the digest of itself, and stamping it again changes nothing.\<close>
lemma digest_stamp_stable:
  assumes "planfile_ok E p" and "sha_is_hex E"
  shows "\<exists>q. with_canonical_plan_digest E p = Some q \<and> planfile_ok E q \<and>
    pf_canonical_plan_digest q = canonical_plan_digest E q \<and> plan_work q = plan_work p \<and>
    with_canonical_plan_digest E q = Some q"
proof -
  let ?q = "p\<lparr>pf_canonical_plan_digest := Some (stable_hash E (canonical_form p))\<rparr>"
  have q: "with_canonical_plan_digest E p = Some ?q"
    using assms by (rule with_digest_total)
  moreover from with_digest_SomeD [OF q] have "planfile_ok E ?q" by blast
  moreover from this have "canonical_plan_digest E ?q = Some (stable_hash E (canonical_form p))"
    by (simp add: canonical_plan_digest_def canonical_plan_object_def)
  moreover have "plan_work ?q = plan_work p" by (simp add: plan_work_def)
  ultimately show ?thesis using with_digest_idem [OF q] by auto
qed

lemma digest_stamp_stable_witness:
  "\<exists>q. with_canonical_plan_digest sample_env sample_plan = Some q \<and>
     with_canonical_plan_digest sample_env q = Some q"
  using digest_stamp_stable [OF sample_plan_ok sample_sha_hex] by blast

end
