(* ===== verification/Plan_Graph.thy ===== *)
theory Plan_Graph
  imports Planfile_Schema
begin

text \<open>
  The two graph searches of \<open>planning/planfile-validator.ts\<close>, modelled as the code runs them:
  \<open>hasCycle\<close> as the recursive visit with its two mutable sets threaded through (fuel stands for
  the depth of the recursion; \<open>visit_total\<close> shows that one more than the number of nodes is
  enough), and \<open>unreachableNodes\<close> as its worklist loop, which terminates. The lemmas show that
  the first decides acyclicity of the dependency relation and the second reachability.
\<close>

section \<open>Cycle detection\<close>

text \<open>\<open>new Map(nodes.map((node) => [node.id, node]))\<close>: a later node replaces an earlier one with
  the same id, at the earlier one's place.\<close>

definition by_id :: "plan_node list \<Rightarrow> (string \<times> plan_node) list" where
  "by_id nodes = fold (\<lambda>n m. AList.update (n_id n) n m) nodes []"

type_synonym visit_state = "string list \<times> string list"

text \<open>
  The closure \<open>visit\<close>, with the sets \<open>visiting\<close> and \<open>visited\<close> threaded through; its loop over
  the dependencies is \<open>visit_deps\<close>, which is also the outer \<open>nodes.some(...)\<close>. \<open>None\<close> is only
  reached when the fuel, a bound on the recursion depth, is used up.
\<close>

fun visit :: "nat \<Rightarrow> (string \<times> plan_node) list \<Rightarrow> visit_state \<Rightarrow> string \<Rightarrow> (bool \<times> visit_state) option"
  and visit_deps :: "nat \<Rightarrow> (string \<times> plan_node) list \<Rightarrow> visit_state \<Rightarrow> string list \<Rightarrow> (bool \<times> visit_state) option"
where
  "visit 0 m st i = None"
| "visit (Suc f) m (visiting, visited) i =
     (if i \<in> set visited then Some (False, visiting, visited)
      else if i \<in> set visiting then Some (True, visiting, visited)
      else (case map_of m i of
              None \<Rightarrow> Some (False, visiting, visited)
            | Some n \<Rightarrow>
                (case visit_deps f m (i # visiting, visited) (n_depends_on n) of
                   None \<Rightarrow> None
                 | Some (True, st) \<Rightarrow> Some (True, st)
                 | Some (False, visiting', visited') \<Rightarrow>
                     Some (False, removeAll i visiting', i # visited'))))"
| "visit_deps f m st [] = Some (False, st)"
| "visit_deps f m st (d # ds) =
     (case visit f m st d of
        None \<Rightarrow> None
      | Some (True, st') \<Rightarrow> Some (True, st')
      | Some (False, st') \<Rightarrow> visit_deps f m st' ds)"

definition has_cycle :: "plan_node list \<Rightarrow> bool" where
  "has_cycle nodes =
     (case visit_deps (Suc (length nodes)) (by_id nodes) ([], []) (map n_id nodes) of
        Some (b, _) \<Rightarrow> b
      | None \<Rightarrow> False)"

section \<open>Reachability from the frame nodes\<close>

definition children_map :: "plan_node list \<Rightarrow> (string \<times> string list) list" where
  "children_map nodes =
     fold (\<lambda>n m. fold (\<lambda>d m'. AList.update d (nullish (map_of m' d) [] @ [n_id n]) m')
                    (n_depends_on n) m) nodes []"

definition start_nodes :: "plan_node list \<Rightarrow> plan_node list" where
  "start_nodes nodes =
     (let roots = filter (\<lambda>n. n_kind n = K_frame) nodes
      in if roots \<noteq> [] then roots else filter (\<lambda>n. n_depends_on n = []) nodes)"

text \<open>The worklist loop; the head of the list is the end of the array, where \<open>pop\<close> and
  \<open>push\<close> work.\<close>

function (sequential) reach_loop ::
    "(string \<times> string list) list \<Rightarrow> string list \<Rightarrow> string list \<Rightarrow> string list" where
  "reach_loop ch [] reached = reached"
| "reach_loop ch (i # stack) reached =
     (if i = [] \<or> i \<in> set reached then reach_loop ch stack reached
      else reach_loop ch (rev (nullish (map_of ch i) []) @ stack) (i # reached))"
  by pat_completeness auto
termination
proof (relation "measures [\<lambda>(ch, stack, reached). card ((\<Union> (set ` snd ` set ch) \<union> set stack) - set reached),
                            \<lambda>(ch, stack, reached). length stack]", goal_cases)
  case 1
  show ?case by simp
next
  case (2 ch i stack reached)
  have "card ((\<Union> (set ` snd ` set ch) \<union> set stack) - set reached)
        \<le> card ((\<Union> (set ` snd ` set ch) \<union> set (i # stack)) - set reached)"
    by (rule card_mono) auto
  then show ?case by auto
next
  case (3 ch i stack reached)
  have "set (nullish (map_of ch i) []) \<subseteq> \<Union> (set ` snd ` set ch)"
    by (cases "map_of ch i") (auto dest!: map_of_SomeD intro!: bexI)
  then have "((\<Union> (set ` snd ` set ch) \<union> set (rev (nullish (map_of ch i) []) @ stack)) - set (i # reached))
      \<subset> ((\<Union> (set ` snd ` set ch) \<union> set (i # stack)) - set reached)"
    using 3 by auto
  then have "card ((\<Union> (set ` snd ` set ch) \<union> set (rev (nullish (map_of ch i) []) @ stack)) - set (i # reached))
      < card ((\<Union> (set ` snd ` set ch) \<union> set (i # stack)) - set reached)"
    by (rule psubset_card_mono [rotated]) simp
  then show ?case by simp
qed

definition unreachable_nodes :: "plan_node list \<Rightarrow> plan_node list" where
  "unreachable_nodes nodes =
     (let reached = reach_loop (children_map nodes) (rev (map n_id (start_nodes nodes))) []
      in filter (\<lambda>n. n_id n \<notin> set reached) (map snd (by_id nodes)))"


section \<open>The visit decides acyclicity\<close>

text \<open>The node an id names: the last one declared with it.\<close>

definition node_of :: "plan_node list \<Rightarrow> string \<Rightarrow> plan_node option" where
  "node_of nodes i = find_last (\<lambda>n. n_id n = i) nodes"

definition depends_rel :: "plan_node list \<Rightarrow> (string \<times> string) set" where
  "depends_rel nodes = {(a, d). \<exists>n. node_of nodes a = Some n \<and> d \<in> set (n_depends_on n)}"

lemma by_id_snoc: "by_id (nodes @ [n]) = AList.update (n_id n) n (by_id nodes)"
  by (simp add: by_id_def)

lemma map_of_by_id: "map_of (by_id nodes) i = node_of nodes i"
  by (induction nodes rule: rev_induct)
    (auto simp: by_id_snoc node_of_def update_conv' by_id_def [of "[]"])

lemma by_id_distinct_keys: "distinct (map fst (by_id nodes))"
  by (induction nodes rule: rev_induct) (auto simp: by_id_snoc distinct_update by_id_def [of "[]"])

lemma update_new: "k \<notin> fst ` set al \<Longrightarrow> AList.update k v al = al @ [(k, v)]"
  by (induction al) auto

lemma by_id_distinct: "distinct (map n_id nodes) \<Longrightarrow> by_id nodes = map (\<lambda>n. (n_id n, n)) nodes"
  by (induction nodes rule: rev_induct)
    (auto simp: by_id_snoc by_id_def [of "[]"] image_image intro!: update_new)

lemma node_of_mem: "node_of nodes i = Some n \<Longrightarrow> n \<in> set nodes \<and> n_id n = i"
  by (auto simp: node_of_def find_last_def dest: find_SomeD)

lemma node_of_None: "node_of nodes i = None \<longleftrightarrow> i \<notin> n_id ` set nodes"
  by (auto simp: node_of_def find_last_def find_None_iff)

lemma node_of_distinct:
  assumes "distinct (map n_id nodes)" "n \<in> set nodes"
  shows "node_of nodes (n_id n) = Some n"
  using assms by (cases "node_of nodes (n_id n)")
    (auto simp: node_of_None distinct_map inj_on_def dest: node_of_mem)

definition dep :: "(string \<times> plan_node) list \<Rightarrow> (string \<times> string) set" where
  "dep m = {(a, d). \<exists>n. map_of m a = Some n \<and> d \<in> set (n_depends_on n)}"

lemma by_id_entry: "(k, n) \<in> set (by_id nodes) \<longleftrightarrow> n_id n = k \<and> node_of nodes k = Some n"
proof -
  have "(k, n) \<in> set (by_id nodes) \<longleftrightarrow> node_of nodes k = Some n"
    unfolding map_of_by_id [symmetric] using by_id_distinct_keys [of nodes] by simp
  then show ?thesis using node_of_mem [of nodes k n] by blast
qed

lemma by_id_values: "n \<in> set (map snd (by_id nodes)) \<longleftrightarrow> node_of nodes (n_id n) = Some n"
proof
  assume "n \<in> set (map snd (by_id nodes))"
  then obtain k where "(k, n) \<in> set (by_id nodes)" by auto
  then show "node_of nodes (n_id n) = Some n" unfolding by_id_entry by blast
next
  assume "node_of nodes (n_id n) = Some n"
  then have "(n_id n, n) \<in> set (by_id nodes)" unfolding by_id_entry by blast
  then show "n \<in> set (map snd (by_id nodes))" by (metis image_eqI list.set_map snd_conv)
qed

lemma by_id_ids: "map n_id (map snd (by_id nodes)) = map fst (by_id nodes)"
  using by_id_entry [of _ _ nodes] by (auto simp: comp_def)

lemma dep_by_id: "dep (by_id nodes) = depends_rel nodes"
  by (simp add: dep_def depends_rel_def map_of_by_id)

text \<open>What a visit that found no cycle leaves behind: the finished nodes are closed under the
  dependencies that exist, none of them is being visited, and none lies on a cycle.\<close>

definition settled :: "(string \<times> plan_node) list \<Rightarrow> visit_state \<Rightarrow> bool" where
  "settled m st =
     (set (snd st) \<inter> set (fst st) = {} \<and>
      (\<forall>x \<in> set (snd st). \<forall>y. (x, y) \<in> dep m \<longrightarrow> y \<in> set (snd st) \<or> map_of m y = None) \<and>
      (\<forall>x \<in> set (snd st). (x, x) \<notin> (dep m)\<^sup>+))"

lemma dep_closed_trancl:
  assumes closed: "\<forall>x \<in> S. \<forall>y. (x, y) \<in> dep m \<longrightarrow> y \<in> S \<or> map_of m y = None"
    and "(x, z) \<in> (dep m)\<^sup>+" "x \<in> S"
  shows "z \<in> S \<or> map_of m z = None"
  using assms(2,3)
proof (induction rule: trancl_induct)
  case (base y)
  with closed show ?case by auto
next
  case (step y z)
  from step.hyps(2) have "map_of m y \<noteq> None" by (auto simp: dep_def)
  with step have "y \<in> S" by auto
  with step.hyps(2) closed show ?case by auto
qed

lemma settled_finish:
  assumes "settled m (vg, vd)" and "i \<in> set vg" and "map_of m i = Some n"
    and deps: "\<forall>d \<in> set (n_depends_on n). d \<in> set vd \<or> map_of m d = None"
  shows "settled m (removeAll i vg, i # vd)"
proof -
  have dep_i: "y \<in> set vd \<or> map_of m y = None" if "(i, y) \<in> dep m" for y
    using that deps assms(3) by (auto simp: dep_def)
  have closed: "\<forall>x \<in> set vd. \<forall>y. (x, y) \<in> dep m \<longrightarrow> y \<in> set vd \<or> map_of m y = None"
    and i_new: "i \<notin> set vd"
    using assms(1,2) by (auto simp: settled_def)
  have "(i, i) \<notin> (dep m)\<^sup>+"
  proof
    assume "(i, i) \<in> (dep m)\<^sup>+"
    then obtain y where y: "(i, y) \<in> dep m" "(y, i) \<in> (dep m)\<^sup>*"
      by (metis tranclD)
    have "y \<in> set vd"
    proof (cases "y = i")
      case True
      with dep_i [OF y(1)] assms(3) i_new show ?thesis by simp
    next
      case False
      with y(2) have "(y, i) \<in> (dep m)\<^sup>+" by (auto simp: rtrancl_eq_or_trancl)
      then have "map_of m y \<noteq> None" by (auto simp: dep_def dest!: tranclD)
      with dep_i [OF y(1)] show ?thesis by blast
    qed
    with y(2) dep_closed_trancl [OF closed] i_new assms(3) show False
      by (metis option.simps(3) rtrancl_eq_or_trancl)
  qed
  then show ?thesis
    using assms(1) dep_i by (auto simp: settled_def)
qed


text \<open>What a search started at \<open>ids\<close> returns: never an exhausted fuel; \<open>True\<close> only when there is a
  cycle; otherwise a settled state in which every node asked for is finished.\<close>

definition search_ok ::
    "(string \<times> plan_node) list \<Rightarrow> visit_state \<Rightarrow> string list \<Rightarrow> (bool \<times> visit_state) option \<Rightarrow> bool" where
  "search_ok m st ids r =
     (case r of
        None \<Rightarrow> False
      | Some (b, st') \<Rightarrow>
          if b then (\<forall>x \<in> set (fst st). \<forall>d \<in> set ids. (x, d) \<in> (dep m)\<^sup>+) \<longrightarrow> \<not> acyclic (dep m)
          else settled m st' \<and> set (fst st') = set (fst st) \<and> set (snd st) \<subseteq> set (snd st') \<and>
               (\<forall>d \<in> set ids. d \<in> set (snd st') \<or> map_of m d = None))"

lemma search_ok_cases:
  assumes "search_ok m st ids r"
  obtains (cycle) st' where "r = Some (True, st')"
      "(\<forall>x \<in> set (fst st). \<forall>d \<in> set ids. (x, d) \<in> (dep m)\<^sup>+) \<longrightarrow> \<not> acyclic (dep m)"
    | (finished) st' where "r = Some (False, st')" "settled m st'" "set (fst st') = set (fst st)"
      "set (snd st) \<subseteq> set (snd st')" "\<forall>d \<in> set ids. d \<in> set (snd st') \<or> map_of m d = None"
  using assms unfolding search_ok_def by (auto split: option.splits prod.splits if_splits)

lemma search_ok_node:
  assumes n: "map_of m i = Some n" and new: "i \<notin> set vg" "i \<notin> set vd"
    and ok: "search_ok m (i # vg, vd) (n_depends_on n) (visit_deps f m (i # vg, vd) (n_depends_on n))"
  shows "search_ok m (vg, vd) [i] (visit (Suc f) m (vg, vd) i)"
  using ok
proof (cases rule: search_ok_cases)
  case (cycle st')
  have edge: "(i, d) \<in> (dep m)\<^sup>+" if "d \<in> set (n_depends_on n)" for d
    using that n by (auto simp: dep_def)
  have "\<not> acyclic (dep m)" if pre: "\<forall>x \<in> set vg. (x, i) \<in> (dep m)\<^sup>+"
  proof -
    have "\<forall>x \<in> set (i # vg). \<forall>d \<in> set (n_depends_on n). (x, d) \<in> (dep m)\<^sup>+"
      using pre edge by (auto intro: trancl_trans)
    with cycle(2) show ?thesis by simp
  qed
  then show ?thesis using cycle(1) n new by (auto simp: search_ok_def)
next
  case (finished st')
  obtain vg' vd' where st': "st' = (vg', vd')" by (cases st')
  have "settled m (removeAll i vg', i # vd')"
    using settled_finish [of m vg' vd' i n] finished n st' by auto
  then show ?thesis using finished n new st' by (auto simp: search_ok_def)
qed

lemma search_ok_seq:
  assumes "search_ok m st [d] (visit f m st d)"
    and "\<And>st'. visit f m st d = Some (False, st') \<Longrightarrow> settled m st' \<Longrightarrow> set (fst st') = set (fst st) \<Longrightarrow>
           search_ok m st' ds (visit_deps f m st' ds)"
  shows "search_ok m st (d # ds) (visit_deps f m st (d # ds))"
  using assms(1)
proof (cases rule: search_ok_cases)
  case (cycle st')
  then show ?thesis by (auto simp: search_ok_def)
next
  case (finished st1)
  note first = finished
  from assms(2) [OF finished(1-3)] show ?thesis
  proof (cases rule: search_ok_cases)
    case (cycle st')
    with first show ?thesis by (auto simp: search_ok_def)
  next
    case (finished st')
    with first show ?thesis by (auto simp: search_ok_def)
  qed
qed

lemma visit_correct:
  "\<lbrakk>settled m st; set (fst st) \<subseteq> dom (map_of m); card (dom (map_of m) - set (fst st)) < f\<rbrakk>
     \<Longrightarrow> search_ok m st [i] (visit f m st i)"
  "\<lbrakk>settled m st; set (fst st) \<subseteq> dom (map_of m); card (dom (map_of m) - set (fst st)) < f\<rbrakk>
     \<Longrightarrow> search_ok m st ids (visit_deps f m st ids)"
proof (induction f m st i and f m st ids rule: visit_visit_deps.induct)
  case (1 m st i)
  then show ?case by simp
next
  case (2 f m vg vd i)
  consider (old) "i \<in> set vd" | (active) "i \<notin> set vd" "i \<in> set vg"
    | (missing) "i \<notin> set vd" "i \<notin> set vg" "map_of m i = None"
    | (new) n where "i \<notin> set vd" "i \<notin> set vg" "map_of m i = Some n" by blast
  then show ?case
  proof cases
    case (new n)
    have "card (dom (map_of m) - set (i # vg)) < card (dom (map_of m) - set vg)"
      using new by (intro psubset_card_mono) (auto simp: finite_dom_map_of)
    with "2.prems" new have "search_ok m (i # vg, vd) (n_depends_on n)
        (visit_deps f m (i # vg, vd) (n_depends_on n))"
      by (intro "2.IH") (auto simp: settled_def)
    with new show ?thesis by (intro search_ok_node) auto
  qed (use "2.prems" in \<open>auto simp: search_ok_def acyclic_def\<close>)
next
  case (3 f m st)
  then show ?case by (simp add: search_ok_def)
next
  case (4 f m st d ds)
  show ?case
  proof (rule search_ok_seq)
    show "search_ok m st [d] (visit f m st d)"
      using "4.prems" by (rule "4.IH"(1))
    fix st' assume "visit f m st d = Some (False, st')" "settled m st'" "set (fst st') = set (fst st)"
    with "4.prems" show "search_ok m st' ds (visit_deps f m st' ds)"
      by (intro "4.IH"(2)) auto
  qed
qed


lemma dom_by_id: "dom (map_of (by_id nodes)) = n_id ` set nodes"
proof -
  have "i \<in> dom (map_of (by_id nodes)) \<longleftrightarrow> i \<in> n_id ` set nodes" for i
    unfolding domIff map_of_by_id node_of_None by blast
  then show ?thesis by blast
qed

lemma visit_total:
  "search_ok (by_id nodes) ([], []) ids (visit_deps (Suc (length nodes)) (by_id nodes) ([], []) ids)"
proof (rule visit_correct(2))
  have "card (n_id ` set nodes) \<le> card (set nodes)" by (simp add: card_image_le)
  also have "\<dots> \<le> length nodes" by (rule card_length)
  finally show "card (dom (map_of (by_id nodes)) - set (fst ([], []))) < Suc (length nodes)"
    by (simp add: dom_by_id)
qed (simp_all add: settled_def)

lemma cycle_at_node: "(x, x) \<in> (depends_rel nodes)\<^sup>+ \<Longrightarrow> x \<in> n_id ` set nodes"
  by (auto simp: depends_rel_def dest!: tranclD dest: node_of_mem)

lemma has_cycle_iff_not_acyclic: "has_cycle nodes \<longleftrightarrow> \<not> acyclic (depends_rel nodes)"
  using visit_total [of nodes "map n_id nodes"]
proof (cases rule: search_ok_cases)
  case (cycle st')
  then show ?thesis by (simp add: has_cycle_def dep_by_id)
next
  case (finished st')
  have "(x, x) \<notin> (depends_rel nodes)\<^sup>+" for x
  proof
    assume x: "(x, x) \<in> (depends_rel nodes)\<^sup>+"
    then have node: "x \<in> n_id ` set nodes" by (rule cycle_at_node)
    then have "x \<in> set (snd st')" using finished(5) dom_by_id [of nodes] by auto
    with finished(2) x show False by (auto simp: settled_def dep_by_id)
  qed
  with finished(1) show ?thesis by (simp add: has_cycle_def acyclic_def)
qed

section \<open>The worklist decides reachability\<close>

text \<open>The children of an id: the nodes that list it as a dependency.\<close>

definition child_rel :: "plan_node list \<Rightarrow> (string \<times> string) set" where
  "child_rel nodes = {(d, c). \<exists>n \<in> set nodes. d \<in> set (n_depends_on n) \<and> c = n_id n}"

definition children :: "(string \<times> string list) list \<Rightarrow> string \<Rightarrow> string list" where
  "children ch i = nullish (map_of ch i) []"

lemma children_update:
  "children (AList.update d (children ch d @ [x]) ch) i =
     (if i = d then children ch d @ [x] else children ch i)"
  by (simp add: children_def update_conv')

lemma children_add_deps:
  "set (children (fold (\<lambda>d m'. AList.update d (nullish (map_of m' d) [] @ [x]) m') ds ch) i) =
     set (children ch i) \<union> (if i \<in> set ds then {x} else {})"
proof (induction ds arbitrary: ch)
  case (Cons d ds)
  show ?case
    unfolding fold_simps Cons.IH children_def [of _ d, symmetric] children_update by auto
qed simp

lemma children_map_snoc:
  "children_map (nodes @ [n]) =
     fold (\<lambda>d m'. AList.update d (nullish (map_of m' d) [] @ [n_id n]) m') (n_depends_on n)
       (children_map nodes)"
  by (simp add: children_map_def)

lemma set_children_map: "set (children (children_map nodes) i) = child_rel nodes `` {i}"
proof (induction nodes rule: rev_induct)
  case Nil
  then show ?case by (simp add: children_map_def children_def child_rel_def)
next
  case (snoc n nodes)
  show ?case
    unfolding children_map_snoc children_add_deps snoc.IH by (auto simp: child_rel_def)
qed

text \<open>The empty id is skipped by the loop (\<open>!id\<close>).\<close>

definition live_child_rel :: "(string \<times> string list) list \<Rightarrow> (string \<times> string) set" where
  "live_child_rel ch = {(a, b). b \<in> set (children ch a) \<and> b \<noteq> []}"

lemma reach_loop_step_closed:
  assumes "\<forall>x \<in> set reached. set (children ch x) \<subseteq> set reached \<union> set stack \<union> {[]}"
  shows "live_child_rel ch `` set (reach_loop ch stack reached) \<subseteq> set (reach_loop ch stack reached)
    \<and> set reached \<subseteq> set (reach_loop ch stack reached)
    \<and> set stack - {[]} \<subseteq> set (reach_loop ch stack reached)"
  using assms
proof (induction ch stack reached rule: reach_loop.induct)
  case (1 ch reached)
  then show ?case by (auto simp: live_child_rel_def)
next
  case (2 ch i stack reached)
  show ?case
  proof (cases "i = [] \<or> i \<in> set reached")
    case True
    with "2.prems" have "\<forall>x \<in> set reached. set (children ch x) \<subseteq> set reached \<union> set stack \<union> {[]}"
      by fastforce
    with "2.IH"(1) True show ?thesis by auto
  next
    case False
    with "2.prems" have "\<forall>x \<in> set (i # reached). set (children ch x) \<subseteq>
        set (i # reached) \<union> set (rev (nullish (map_of ch i) []) @ stack) \<union> {[]}"
      by (fastforce simp: children_def)
    with "2.IH"(2) False show ?thesis by auto
  qed
qed

lemma reach_loop_sound:
  assumes "set reached \<subseteq> R" "set stack - {[]} \<subseteq> R" "live_child_rel ch `` R \<subseteq> R"
  shows "set (reach_loop ch stack reached) \<subseteq> R"
  using assms
proof (induction ch stack reached rule: reach_loop.induct)
  case (2 ch i stack reached)
  show ?case
  proof (cases "i = [] \<or> i \<in> set reached")
    case True
    with 2 show ?thesis by auto
  next
    case False
    then have "i \<in> R" using "2.prems"(2) by auto
    then have "set (children ch i) - {[]} \<subseteq> R"
      using "2.prems"(3) by (auto simp: live_child_rel_def)
    then have "set (rev (nullish (map_of ch i) []) @ stack) - {[]} \<subseteq> R"
      using "2.prems"(2) by (auto simp: children_def)
    with "2.IH"(2) "2.prems" False \<open>i \<in> R\<close> show ?thesis by simp
  qed
qed simp

lemma reach_loop_reachable:
  "set (reach_loop ch stack []) = (live_child_rel ch)\<^sup>* `` (set stack - {[]})"
proof
  show "set (reach_loop ch stack []) \<subseteq> (live_child_rel ch)\<^sup>* `` (set stack - {[]})"
    by (rule reach_loop_sound) (auto intro: rtrancl_into_rtrancl)
  have "live_child_rel ch `` set (reach_loop ch stack []) \<subseteq> set (reach_loop ch stack [])"
    and "set stack - {[]} \<subseteq> set (reach_loop ch stack [])"
    using reach_loop_step_closed [of "[]" ch stack] by auto
  then show "(live_child_rel ch)\<^sup>* `` (set stack - {[]}) \<subseteq> set (reach_loop ch stack [])"
    by (metis (no_types, lifting) Image_closed_trancl Image_mono order_refl)
qed

text \<open>Reachable from the start nodes along child edges between non-empty ids.\<close>

definition reachable :: "plan_node list \<Rightarrow> string \<Rightarrow> bool" where
  "reachable nodes i \<longleftrightarrow>
     (\<exists>s \<in> set (start_nodes nodes). n_id s \<noteq> [] \<and>
        (n_id s, i) \<in> {(a, b). (a, b) \<in> child_rel nodes \<and> b \<noteq> []}\<^sup>*)"

lemma unreachable_nodes_eq:
  "unreachable_nodes nodes = filter (\<lambda>n. \<not> reachable nodes (n_id n)) (map snd (by_id nodes))"
proof -
  have rel: "live_child_rel (children_map nodes) = {(a, b). (a, b) \<in> child_rel nodes \<and> b \<noteq> []}"
    by (auto simp: live_child_rel_def set_children_map)
  have "i \<in> set (reach_loop (children_map nodes) (rev (map n_id (start_nodes nodes))) []) \<longleftrightarrow>
        reachable nodes i" for i
    unfolding reach_loop_reachable rel reachable_def by auto
  then show ?thesis by (simp add: unreachable_nodes_def)
qed


section \<open>Properties\<close>

text \<open>C10: The cycle search of the validator runs to its end (its recursion is never deeper than the
  number of nodes) and answers true exactly when the dependency relation of the plan has a
  cycle, dependencies on missing nodes and repeated node ids included.\<close>
theorem has_cycle_decides:
  "(\<exists>b st. visit_deps (Suc (length nodes)) (by_id nodes) ([], []) (map n_id nodes) = Some (b, st) \<and>
     has_cycle nodes = b) \<and>
   (has_cycle nodes \<longleftrightarrow> \<not> acyclic (depends_rel nodes))"
  using visit_total [of nodes "map n_id nodes"] has_cycle_iff_not_acyclic [of nodes]
  by (cases rule: search_ok_cases) (auto simp: has_cycle_def)

text \<open>The worklist search returns exactly the nodes that cannot be reached from the frame nodes
  (from the nodes without dependencies when the plan has no frame node) along dependencies,
  each id once.\<close>
lemma unreachable_nodes_decides:
  "(n \<in> set (unreachable_nodes nodes) \<longleftrightarrow>
      node_of nodes (n_id n) = Some n \<and> \<not> reachable nodes (n_id n)) \<and>
   distinct (map n_id (unreachable_nodes nodes))"
proof -
  have "distinct (map n_id (map snd (by_id nodes)))"
    by (simp only: by_id_ids by_id_distinct_keys)
  then show ?thesis
    unfolding unreachable_nodes_eq set_filter mem_Collect_eq by_id_values
    using distinct_map_filter by blast
qed

end
