(* ===== verification/Plan_Validator.thy ===== *)
theory Plan_Validator
  imports Plan_Canonical Plan_Graph
begin

text \<open>
  \<open>planning/planfile-validator.ts\<close> and the issues of \<open>planning/plan-errors.ts\<close>: the structural
  checks of a Planfile, one function per group of checks, and the well-formedness of a plan that
  they decide. The graph searches are in \<open>Plan_Graph\<close>.
\<close>

section \<open>Issues (\<open>planning/plan-errors.ts\<close>)\<close>

datatype plan_issue_code =
    I_INVALID_SCHEMA | I_INVALID_PLAN | I_INVALID_NODE_ID | I_DUPLICATE_NODE_ID
  | I_MISSING_DEPENDENCY | I_CYCLE_DETECTED | I_UNREACHABLE_NODE | I_UNKNOWN_CAPABILITY
  | I_APPROVAL_REQUIRED | I_UNKNOWN_VERIFICATION_COMMAND | I_PATCH_ACCEPTANCE_MISSING
  | I_DESTRUCTIVE_GOAL_NOT_EXPLICIT

datatype issue_severity = Sev_error | Sev_warning

record plan_issue =
  pi_code :: plan_issue_code
  pi_message :: string
  pi_severity :: issue_severity
  pi_path :: "path_item list"

record validation_result =
  vl_ok :: bool
  vl_issues :: "plan_issue list"

definition issue :: "plan_issue_code \<Rightarrow> string \<Rightarrow> path_item list \<Rightarrow> plan_issue" where
  "issue code message path =
     \<lparr>pi_code = code, pi_message = message, pi_severity = Sev_error, pi_path = path\<rparr>"

lemma issue_severity [simp]: "pi_severity (issue c m p) = Sev_error"
  and issue_code [simp]: "pi_code (issue c m p) = c"
  by (simp_all add: issue_def)

section \<open>Node identifiers\<close>

text \<open>The regular expression of a safe node id: a lower-case letter, then 1 to 63 letters,
  digits, underscores or hyphens.\<close>

definition safe_node_id :: "string \<Rightarrow> bool" where
  "safe_node_id s =
     (case s of
        [] \<Rightarrow> False
      | c # cs \<Rightarrow> is_lower c \<and> 1 \<le> length cs \<and> length cs \<le> 63 \<and>
                  list_all (\<lambda>d. is_lower d \<or> is_digit d \<or> d = CHR ''_'' \<or> d = CHR ''-'') cs)"

fun node_id_issues :: "string list \<Rightarrow> plan_node list \<Rightarrow> plan_issue list" where
  "node_id_issues seen [] = []"
| "node_id_issues seen (n # ns) =
     (if safe_node_id (n_id n) then []
      else [issue I_INVALID_NODE_ID (''Node id is not safe: '' @ n_id n)
              [PStr ''nodes'', PStr (n_id n)]]) @
     (if n_id n \<in> set seen
      then [issue I_DUPLICATE_NODE_ID (''Duplicate node id: '' @ n_id n)
              [PStr ''nodes'', PStr (n_id n)]]
      else []) @
     node_id_issues (n_id n # seen) ns"

definition dependency_issues :: "string list \<Rightarrow> plan_node \<Rightarrow> plan_issue list" where
  "dependency_issues node_ids n =
     map (\<lambda>d. issue I_MISSING_DEPENDENCY (n_id n @ '' depends on missing node '' @ d)
                [PStr ''nodes'', PStr (n_id n), PStr ''depends_on''])
       (filter (\<lambda>d. d \<notin> set node_ids) (n_depends_on n))"

definition edge_issues :: "string list \<Rightarrow> plan_edge \<Rightarrow> plan_issue list" where
  "edge_issues node_ids e =
     (if e_from e \<notin> set node_ids \<or> e_to e \<notin> set node_ids
      then [issue I_MISSING_DEPENDENCY
              (''Edge references missing node: '' @ e_from e @ '' -> '' @ e_to e) [PStr ''edges'']]
      else [])"

section \<open>Capabilities, modes, risks\<close>

definition capability_reference_set :: "capability_snapshot \<Rightarrow> string list" where
  "capability_reference_set s = uniq (concat (map (\<lambda>c.
      [cd_capability_name c,
       cd_endpoint_id c @ ''.'' @ cd_capability_name c,
       cd_endpoint_id c @ ''.'' @ cd_capability_name c @ ''@'' @ cd_capability_digest c])
      (cs_capabilities s)))"

definition capability_issues :: "string list \<Rightarrow> plan_node \<Rightarrow> plan_issue list" where
  "capability_issues refs n =
     map (\<lambda>r. issue I_UNKNOWN_CAPABILITY (n_id n @ '' references unknown capability '' @ r)
                [PStr ''nodes'', PStr (n_id n), PStr ''allowed_capability_refs''])
       (filter (\<lambda>r. r \<notin> set refs) (n_allowed_capability_refs n))"

definition context_value :: "planfile \<Rightarrow> string \<Rightarrow> json option" where
  "context_value p k = Option.bind (pf_execution_context p) (\<lambda>m. map_of m k)"

definition allow_fixtures :: "planfile \<Rightarrow> bool" where
  "allow_fixtures p =
     (context_value p ''allow_fixtures'' = Some (JBool True) \<or>
      context_value p ''context'' = Some (JStr ''demo'') \<or>
      context_value p ''context'' = Some (JStr ''eval''))"

definition allow_mock :: "planfile \<Rightarrow> bool" where
  "allow_mock p = (context_value p ''context'' = Some (JStr ''test''))"

definition write_risk :: "risk_level \<Rightarrow> bool" where
  "write_risk r = (r \<in> {Risk_write, Risk_destructive, Risk_external_side_effect})"

definition node_policy_issues :: "planfile \<Rightarrow> plan_node \<Rightarrow> plan_issue list" where
  "node_policy_issues p n =
     (let mode = nullish (n_execution_mode n) Mode_live;
          at = (\<lambda>field. [PStr ''nodes'', PStr (n_id n), PStr field]) in
      (if mode = Mode_fixture \<and> \<not> allow_fixtures p
       then [issue I_INVALID_PLAN (n_id n @
              '' requests fixture execution outside demo/eval context. Use --allow-fixtures or an explicit demo/eval context.'')
              (at ''execution_mode'')] else []) @
      (if mode = Mode_mock \<and> \<not> allow_mock p
       then [issue I_INVALID_PLAN (n_id n @ '' requests mock execution outside test context.'')
              (at ''execution_mode'')] else []) @
      (if (n_risk_level n \<in> set (ap_require_approval_for_risks (pf_approval_policy p)) \<or>
           write_risk (n_risk_level n)) \<and> \<not> n_approval_required n
       then [issue I_APPROVAL_REQUIRED
              (n_id n @ '' requires approval for '' @ risk_str (n_risk_level n) @ '' risk.'')
              (at ''approval_required'')] else []) @
      (if n_risk_level n = Risk_destructive \<and>
          (\<not> n_approval_required n \<or>
           ap_explicit_destructive_goal (pf_approval_policy p) \<noteq> Some True)
       then [issue I_DESTRUCTIVE_GOAL_NOT_EXPLICIT
              (n_id n @ '' is destructive without an explicit destructive-goal policy flag.'')
              (at ''risk_level'')] else []) @
      (if n_kind n = K_verify
       then map (\<lambda>c. issue I_UNKNOWN_VERIFICATION_COMMAND
                       (n_id n @ '' uses command outside verification policy: '' @ c)
                       (at ''verification_command_ids''))
              (filter (\<lambda>c. c \<notin> set (pf_allowed_command_ids p))
                (nullish (n_verification_command_ids n) []))
       else []) @
      (if n_kind n = K_patch \<and> n_acceptance_refs n = []
       then [issue I_PATCH_ACCEPTANCE_MISSING (n_id n @ '' must reference acceptance criteria.'')
              (at ''acceptance_refs'')] else []))"

section \<open>The validator\<close>

definition unreachable_issues :: "plan_node list \<Rightarrow> plan_issue list" where
  "unreachable_issues nodes =
     map (\<lambda>n. issue I_UNREACHABLE_NODE (''Node is not reachable from the frame node: '' @ n_id n)
                [PStr ''nodes'', PStr (n_id n)])
       (filter (\<lambda>n. n_optional n \<noteq> Some True) (unreachable_nodes nodes))"

definition planfile_issues :: "capability_snapshot option \<Rightarrow> planfile \<Rightarrow> plan_issue list" where
  "planfile_issues snapshot p =
     (let nodes = pf_nodes p; node_ids = map n_id nodes in
      node_id_issues [] nodes @
      concat (map (dependency_issues node_ids) nodes) @
      concat (map (edge_issues node_ids) (pf_edges p)) @
      (if has_cycle nodes
       then [issue I_CYCLE_DETECTED ''Plan DAG contains a cycle.'' [PStr ''nodes'']] else []) @
      unreachable_issues nodes @
      (case snapshot of
         None \<Rightarrow> []
       | Some s \<Rightarrow> concat (map (capability_issues (capability_reference_set s)) nodes)) @
      concat (map (node_policy_issues p) nodes))"

definition validate_planfile ::
    "env \<Rightarrow> capability_snapshot option \<Rightarrow> planfile \<Rightarrow> validation_result" where
  "validate_planfile E snapshot input =
     (case planfile_parse E input of
        None \<Rightarrow>
          \<lparr>vl_ok = False,
           vl_issues = map (\<lambda>(message, path). issue I_INVALID_SCHEMA message path)
                         (zod_issues E (planfile_json input))\<rparr>
      | Some p \<Rightarrow>
          (let issues = planfile_issues snapshot p
           in \<lparr>vl_ok = list_all (\<lambda>i. pi_severity i \<noteq> Sev_error) issues, vl_issues = issues\<rparr>))"


section \<open>What the validator decides\<close>

text \<open>Of the execution context the issues depend only on what it allows.\<close>

lemma planfile_issues_cong:
  assumes "pf_nodes q = pf_nodes p" and "pf_edges q = pf_edges p" and "pf_approval_policy q = pf_approval_policy p"
    and "pf_allowed_command_ids q = pf_allowed_command_ids p"
    and "allow_fixtures q = allow_fixtures p" and "allow_mock q = allow_mock p"
  shows "planfile_issues snapshot q = planfile_issues snapshot p"
proof -
  have "node_policy_issues q = node_policy_issues p"
    unfolding fun_eq_iff node_policy_issues_def assms(3-6) by (intro allI) (rule HOL.refl)
  then show ?thesis unfolding planfile_issues_def assms(1,2) by (rule arg_cong)
qed

lemma all_error_severity:
  "i \<in> set (planfile_issues snapshot p) \<Longrightarrow> pi_severity i = Sev_error"
proof -
  have ids: "i \<in> set (node_id_issues seen ns) \<Longrightarrow> pi_severity i = Sev_error" for seen ns
    by (induction seen ns rule: node_id_issues.induct) (auto split: if_splits)
  assume "i \<in> set (planfile_issues snapshot p)"
  then show ?thesis
    unfolding planfile_issues_def Let_def
    by (auto dest: ids simp: dependency_issues_def edge_issues_def unreachable_issues_def
          capability_issues_def node_policy_issues_def Let_def split: if_splits option.splits)
qed

lemma node_id_issues_Nil:
  "node_id_issues seen ns = [] \<longleftrightarrow>
     (\<forall>n \<in> set ns. safe_node_id (n_id n)) \<and> distinct (map n_id ns) \<and> n_id ` set ns \<inter> set seen = {}"
  by (induction seen ns rule: node_id_issues.induct) auto

lemma dependency_issues_Nil:
  "dependency_issues ids n = [] \<longleftrightarrow> set (n_depends_on n) \<subseteq> set ids"
  by (auto simp: dependency_issues_def filter_empty_conv)

lemma edge_issues_Nil: "edge_issues ids e = [] \<longleftrightarrow> e_from e \<in> set ids \<and> e_to e \<in> set ids"
  by (auto simp: edge_issues_def)

lemma capability_issues_Nil:
  "capability_issues refs n = [] \<longleftrightarrow> set (n_allowed_capability_refs n) \<subseteq> set refs"
  by (auto simp: capability_issues_def filter_empty_conv)

text \<open>The conditions on one node's mode, risk, approval, commands and acceptance criteria.\<close>

definition node_policy_ok :: "planfile \<Rightarrow> plan_node \<Rightarrow> bool" where
  "node_policy_ok p n =
     ((n_execution_mode n = Some Mode_fixture \<longrightarrow> allow_fixtures p) \<and>
      (n_execution_mode n = Some Mode_mock \<longrightarrow> allow_mock p) \<and>
      (write_risk (n_risk_level n) \<longrightarrow> n_approval_required n) \<and>
      (n_risk_level n \<in> set (ap_require_approval_for_risks (pf_approval_policy p)) \<longrightarrow> n_approval_required n) \<and>
      (n_risk_level n = Risk_destructive \<longrightarrow>
         ap_explicit_destructive_goal (pf_approval_policy p) = Some True) \<and>
      (n_kind n = K_verify \<longrightarrow>
         set (nullish (n_verification_command_ids n) []) \<subseteq> set (pf_allowed_command_ids p)) \<and>
      (n_kind n = K_patch \<longrightarrow> n_acceptance_refs n \<noteq> []))"

lemma node_policy_issues_Nil: "node_policy_issues p n = [] \<longleftrightarrow> node_policy_ok p n"
proof -
  have mode: "nullish (n_execution_mode n) Mode_live = m \<longleftrightarrow> n_execution_mode n = Some m"
    if "m \<noteq> Mode_live" for m
    using that by (cases "n_execution_mode n") auto
  show ?thesis
    unfolding node_policy_issues_def node_policy_ok_def Let_def
    by (auto simp: mode filter_empty_conv write_risk_def)
qed

lemma unreachable_issues_Nil:
  assumes "distinct (map n_id nodes)"
  shows "unreachable_issues nodes = [] \<longleftrightarrow>
    (\<forall>n \<in> set nodes. n_optional n = Some True \<or> reachable nodes (n_id n))"
  using assms by (auto simp: unreachable_issues_def unreachable_nodes_eq by_id_distinct
      comp_def filter_empty_conv)

text \<open>A well-formed plan: safe and distinct ids, dependencies and edges between existing nodes,
  no cycle, every required node reachable from the start nodes, only known capabilities, and the
  conditions on each node.\<close>

definition well_formed_plan :: "capability_snapshot option \<Rightarrow> planfile \<Rightarrow> bool" where
  "well_formed_plan snapshot p \<longleftrightarrow>
     (let nodes = pf_nodes p; ids = n_id ` set nodes in
      (\<forall>n \<in> set nodes. safe_node_id (n_id n)) \<and> distinct (map n_id nodes) \<and>
      (\<forall>n \<in> set nodes. set (n_depends_on n) \<subseteq> ids) \<and>
      (\<forall>e \<in> set (pf_edges p). e_from e \<in> ids \<and> e_to e \<in> ids) \<and>
      acyclic (depends_rel nodes) \<and>
      (\<forall>n \<in> set nodes. n_optional n = Some True \<or> reachable nodes (n_id n)) \<and>
      (\<forall>s. snapshot = Some s \<longrightarrow>
         (\<forall>n \<in> set nodes. set (n_allowed_capability_refs n) \<subseteq> set (capability_reference_set s))) \<and>
      (\<forall>n \<in> set nodes. node_policy_ok p n))"

lemma planfile_issues_Nil: "planfile_issues snapshot p = [] \<longleftrightarrow> well_formed_plan snapshot p"
proof -
  have "planfile_issues snapshot p = [] \<longleftrightarrow>
      node_id_issues [] (pf_nodes p) = [] \<and>
      (\<forall>n \<in> set (pf_nodes p). dependency_issues (map n_id (pf_nodes p)) n = []) \<and>
      (\<forall>e \<in> set (pf_edges p). edge_issues (map n_id (pf_nodes p)) e = []) \<and>
      \<not> has_cycle (pf_nodes p) \<and> unreachable_issues (pf_nodes p) = [] \<and>
      (\<forall>s. snapshot = Some s \<longrightarrow> (\<forall>n \<in> set (pf_nodes p).
         capability_issues (capability_reference_set s) n = [])) \<and>
      (\<forall>n \<in> set (pf_nodes p). node_policy_issues p n = [])"
    unfolding planfile_issues_def Let_def by (cases snapshot) auto
  also have "\<dots> \<longleftrightarrow> well_formed_plan snapshot p"
    unfolding well_formed_plan_def Let_def node_id_issues_Nil dependency_issues_Nil edge_issues_Nil
      has_cycle_iff_not_acyclic capability_issues_Nil node_policy_issues_Nil
    using unreachable_issues_Nil [of "pf_nodes p"] by auto
  finally show ?thesis .
qed

lemma validate_ok_iff:
  "vl_ok (validate_planfile E snapshot input) \<longleftrightarrow>
     (\<exists>p. planfile_parse E input = Some p \<and> well_formed_plan snapshot p)"
proof (cases "planfile_parse E input")
  case (Some p)
  have "list_all (\<lambda>i. pi_severity i \<noteq> Sev_error) (planfile_issues snapshot p) \<longleftrightarrow>
        planfile_issues snapshot p = []"
    using all_error_severity [of _ snapshot p] by (cases "planfile_issues snapshot p") auto
  with Some show ?thesis
    by (simp add: validate_planfile_def Let_def planfile_issues_Nil)
qed (simp add: validate_planfile_def)

lemma well_formed_plan_wf:
  assumes "well_formed_plan snapshot p"
  shows "depends_rel (pf_nodes p) \<subseteq> n_id ` set (pf_nodes p) \<times> n_id ` set (pf_nodes p) \<and>
    wf ((depends_rel (pf_nodes p))\<inverse>)"
proof -
  have sub: "depends_rel (pf_nodes p) \<subseteq> n_id ` set (pf_nodes p) \<times> n_id ` set (pf_nodes p)"
    using assms by (fastforce simp: depends_rel_def well_formed_plan_def Let_def dest: node_of_mem)
  then have "finite (depends_rel (pf_nodes p))" by (rule finite_subset) simp
  moreover have "acyclic (depends_rel (pf_nodes p))"
    using assms by (simp add: well_formed_plan_def Let_def)
  ultimately have "wf ((depends_rel (pf_nodes p))\<inverse>)"
    by (rule finite_acyclic_wf_converse)
  with sub show ?thesis by simp
qed

section \<open>Properties\<close>

text \<open>C8: The validator accepts a value exactly when it parses as a Planfile whose node ids are safe
  and distinct, whose dependencies and edges join existing nodes, that has no cycle and no
  unreachable required node, that names only known capabilities, and whose nodes satisfy the
  mode, approval, destructive-goal, verification-command and acceptance conditions.\<close>
theorem validate_planfile_correct:
  "vl_ok (validate_planfile E snapshot input) \<longleftrightarrow>
     (\<exists>p. planfile_parse E input = Some p \<and> well_formed_plan snapshot p)"
  by (rule validate_ok_iff)

text \<open>C9: A plan the validator accepts has no issue at all and can be executed in dependency order:
  every dependency is a node of the plan and no chain of dependencies is infinite.\<close>
theorem validated_plan_safe:
  assumes "vl_ok (validate_planfile E snapshot p)"
  shows "vl_issues (validate_planfile E snapshot p) = [] \<and>
    depends_rel (pf_nodes p) \<subseteq> n_id ` set (pf_nodes p) \<times> n_id ` set (pf_nodes p) \<and>
    wf ((depends_rel (pf_nodes p))\<inverse>)"
proof -
  from assms have p: "planfile_ok E p" and wfp: "well_formed_plan snapshot p"
    by (auto simp: validate_ok_iff)
  then show ?thesis
    using well_formed_plan_wf [OF wfp] by (simp add: validate_planfile_def planfile_issues_Nil [symmetric])
qed

lemma sample_issues: "planfile_issues snapshot sample_plan = []"
proof -
  have "planfile_issues snapshot sample_plan = planfile_issues None sample_plan"
    by (cases snapshot)
      (simp_all add: planfile_issues_def capability_issues_def sample_plan_def sample_nodes_def sample_node_def)
  also have "\<dots> = []" by code_simp
  finally show ?thesis .
qed

lemma sample_valid: "vl_ok (validate_planfile sample_env snapshot sample_plan)"
  by (simp add: validate_planfile_def planfile_parse_def sample_plan_ok sample_issues)

theorem validated_plan_safe_witness:
  "vl_issues (validate_planfile sample_env None sample_plan) = [] \<and>
   wf ((depends_rel sample_nodes)\<inverse>)"
  using validated_plan_safe [OF sample_valid [of None]] by (simp add: sample_plan_def)

end
