(* ===== verification/Policy_Gate.thy ===== *)
theory Policy_Gate
  imports Schemas
begin

text \<open>
  \<open>policy/policy-gate.ts\<close>: the gate every capability execution passes. The array of matched
  rules that the code grows between its checks is the argument \<open>rules\<close> of \<open>finish\<close>.
\<close>

datatype policy_outcome = Out_allow | Out_deny | Out_requires_approval | Out_yield

fun policy_outcome_str :: "policy_outcome \<Rightarrow> string" where
  "policy_outcome_str Out_allow = ''allow''"
| "policy_outcome_str Out_deny = ''deny''"
| "policy_outcome_str Out_requires_approval = ''requires_approval''"
| "policy_outcome_str Out_yield = ''yield''"

declare policy_outcome_str.simps [enum_simps]

record policy_result =
  po_outcome :: policy_outcome
  po_reason :: string

record policy_gate_input =
  pg_delegation :: delegation_context
  pg_task :: scoped_task
  pg_capability :: capability_descriptor
  pg_intent :: execution_intent
  pg_bounds :: execution_bounds
  pg_attempts_used :: nat
  pg_now :: string

record delegation_summary =
  ds_principal_id :: string
  ds_delegate_id :: string
  ds_max_risk_level :: risk_level
  ds_allowed_capability_count :: nat
  ds_denied_scope_count :: nat

record policy_report =
  pr_decision :: policy_outcome
  pr_capability_ref :: string
  pr_pack_id :: string
  pr_risk_level :: risk_level
  pr_side_effect_kind :: string
  pr_delegation :: delegation_summary
  pr_matched_rules :: "string list"
  pr_missing_scopes :: "string list"
  pr_required_approvals :: "string list"
  pr_reason :: string
  pr_created_at :: string

definition pg_capability_ref :: "policy_gate_input \<Rightarrow> string" where
  "pg_capability_ref i =
     cd_endpoint_id (pg_capability i) @ ''.'' @ cd_capability_name (pg_capability i)"

definition policy_finish ::
    "policy_gate_input \<Rightarrow> policy_outcome \<Rightarrow> string \<Rightarrow> string list \<Rightarrow> string list \<Rightarrow> string list
      \<Rightarrow> policy_result \<times> policy_report" where
  "policy_finish i outcome reason rules missing approvals =
     (\<lparr>po_outcome = outcome, po_reason = reason\<rparr>,
      \<lparr>pr_decision = outcome, pr_capability_ref = pg_capability_ref i,
       pr_pack_id = cd_endpoint_id (pg_capability i), pr_risk_level = ei_risk_level (pg_intent i),
       pr_side_effect_kind = nullish (cd_side_effect_kind (pg_capability i)) ''unknown'',
       pr_delegation =
         \<lparr>ds_principal_id = dc_principal_id (pg_delegation i),
          ds_delegate_id = dc_delegate_id (pg_delegation i),
          ds_max_risk_level = dc_max_risk_level (pg_delegation i),
          ds_allowed_capability_count = length (dc_allowed_capabilities (pg_delegation i)),
          ds_denied_scope_count = length (dc_denied_scopes (pg_delegation i))\<rparr>,
       pr_matched_rules = rules, pr_missing_scopes = missing, pr_required_approvals = approvals,
       pr_reason = reason, pr_created_at = pg_now i\<rparr>)"

section \<open>The conditions\<close>

definition budget_left :: "policy_gate_input \<Rightarrow> bool" where
  "budget_left i = (pg_attempts_used i < eb_max_total_endpoint_attempts (pg_bounds i))"

text \<open>\<open>Date.parse(a) <= Date.parse(b)\<close>: a comparison with \<open>NaN\<close> is false.\<close>

definition date_le :: "env \<Rightarrow> string \<Rightarrow> string \<Rightarrow> bool" where
  "date_le E a b = (case (date_parse E a, date_parse E b) of (Some x, Some y) \<Rightarrow> x \<le> y | _ \<Rightarrow> False)"

definition delegation_active :: "env \<Rightarrow> policy_gate_input \<Rightarrow> bool" where
  "delegation_active E i = (\<not> date_le E (dc_expires_at (pg_delegation i)) (pg_now i))"

definition capability_allowed :: "policy_gate_input \<Rightarrow> bool" where
  "capability_allowed i =
     (let name = cd_capability_name (pg_capability i); ref = pg_capability_ref i in
      name \<in> set (dc_allowed_capabilities (pg_delegation i)) \<or>
      ref \<in> set (dc_allowed_capabilities (pg_delegation i)) \<or>
      name \<in> set (tk_allowed_capabilities (pg_task i)) \<or>
      ref \<in> set (tk_allowed_capabilities (pg_task i)))"

definition denied_task_scopes :: "policy_gate_input \<Rightarrow> string list" where
  "denied_task_scopes i =
     filter (\<lambda>s. s \<in> set (dc_denied_scopes (pg_delegation i))) (tk_allowed_scopes (pg_task i))"

definition has_idempotency_key :: "policy_gate_input \<Rightarrow> bool" where
  "has_idempotency_key i = (trim (ei_idempotency_key (pg_intent i)) \<noteq> [])"

definition risk_within :: "policy_gate_input \<Rightarrow> bool" where
  "risk_within i =
     (\<not> (risk_order (ei_risk_level (pg_intent i)) > risk_order (dc_max_risk_level (pg_delegation i)) \<or>
         risk_order (ei_risk_level (pg_intent i)) > risk_order (tk_max_risk_level (pg_task i))))"

definition approval_needed :: "policy_gate_input \<Rightarrow> bool" where
  "approval_needed i =
     (cd_requires_approval (pg_capability i) \<or> ei_requires_approval (pg_intent i) \<or>
      ei_risk_level (pg_intent i) \<in> set (dc_approval_required_for (pg_delegation i)) \<or>
      risk_order (ei_risk_level (pg_intent i)) >
        risk_order (eb_max_risk_without_approval (pg_bounds i)))"

section \<open>The gate\<close>

definition policy_rules :: "string list" where
  "policy_rules =
     [''endpoint_budget_available'', ''delegation_context_active'', ''capability_allowed'',
      ''scopes_not_denied'', ''idempotency_key_present'', ''risk_within_bounds'',
      ''approval_not_required'']"

definition evaluate_policy_with_report ::
    "env \<Rightarrow> policy_gate_input \<Rightarrow> policy_result \<times> policy_report" where
  "evaluate_policy_with_report E i =
     (if \<not> budget_left i
      then policy_finish i Out_yield ''Endpoint execution budget reached'' [] [] []
      else if \<not> delegation_active E i
      then policy_finish i Out_deny ''Delegation context expired''
             [''endpoint_budget_available''] [] []
      else if \<not> capability_allowed i
      then policy_finish i Out_deny ''Capability is outside delegated allowance''
             [''endpoint_budget_available'', ''delegation_context_active''] [] []
      else if denied_task_scopes i \<noteq> []
      then policy_finish i Out_deny ''Task scope intersects denied scope''
             [''endpoint_budget_available'', ''delegation_context_active'', ''capability_allowed'']
             (denied_task_scopes i) []
      else if \<not> has_idempotency_key i
      then policy_finish i Out_deny ''Missing idempotency key''
             [''endpoint_budget_available'', ''delegation_context_active'', ''capability_allowed'',
              ''scopes_not_denied''] [] []
      else if \<not> risk_within i
      then policy_finish i Out_deny ''Intent risk exceeds delegated risk''
             [''endpoint_budget_available'', ''delegation_context_active'', ''capability_allowed'',
              ''scopes_not_denied'', ''idempotency_key_present''] [] []
      else if approval_needed i
      then policy_finish i Out_requires_approval ''Intent requires approval''
             [''endpoint_budget_available'', ''delegation_context_active'', ''capability_allowed'',
              ''scopes_not_denied'', ''idempotency_key_present'', ''risk_within_bounds'']
             [] [risk_str (ei_risk_level (pg_intent i))]
      else policy_finish i Out_allow ''Policy gate allowed execution'' policy_rules [] [])"

definition evaluate_policy :: "env \<Rightarrow> policy_gate_input \<Rightarrow> policy_result" where
  "evaluate_policy E i = fst (evaluate_policy_with_report E i)"

lemmas policy_conditions = budget_left_def delegation_active_def capability_allowed_def
  denied_task_scopes_def has_idempotency_key_def risk_within_def approval_needed_def

text \<open>Every condition of the gate holds.\<close>

definition policy_permits :: "env \<Rightarrow> policy_gate_input \<Rightarrow> bool" where
  "policy_permits E i =
     (budget_left i \<and> delegation_active E i \<and> capability_allowed i \<and>
      set (tk_allowed_scopes (pg_task i)) \<inter> set (dc_denied_scopes (pg_delegation i)) = {} \<and>
      has_idempotency_key i \<and> risk_within i)"

lemma no_denied_scope:
  "denied_task_scopes i = [] \<longleftrightarrow>
     set (tk_allowed_scopes (pg_task i)) \<inter> set (dc_denied_scopes (pg_delegation i)) = {}"
  by (auto simp: denied_task_scopes_def filter_empty_conv)

lemma policy_finish_simps [simp]:
  "po_outcome (fst (policy_finish i out why rules ms aps)) = out"
  "pr_decision (snd (policy_finish i out why rules ms aps)) = out"
  "pr_matched_rules (snd (policy_finish i out why rules ms aps)) = rules"
  "pr_missing_scopes (snd (policy_finish i out why rules ms aps)) = ms"
  "pr_required_approvals (snd (policy_finish i out why rules ms aps)) = aps"
  "pr_reason (snd (policy_finish i out why rules ms aps)) = why"
  "po_reason (fst (policy_finish i out why rules ms aps)) = why"
  by (simp_all add: policy_finish_def)

section \<open>Properties\<close>

text \<open>What the gate stands for, over the delegation, the task, the intent and the bounds alone: the risks are
  listed from the least, the names a capability may be allowed by and the scopes are sets.\<close>

fun risks_up_to :: "risk_level \<Rightarrow> risk_level set" where
  "risks_up_to Risk_read = {Risk_read}"
| "risks_up_to Risk_write = {Risk_read, Risk_write}"
| "risks_up_to Risk_external_side_effect = {Risk_read, Risk_write, Risk_external_side_effect}"
| "risks_up_to Risk_destructive = {Risk_read, Risk_write, Risk_external_side_effect, Risk_destructive}"

definition authorised :: "env \<Rightarrow> policy_gate_input \<Rightarrow> bool" where
  "authorised E i \<longleftrightarrow>
     (let d = pg_delegation i; t = pg_task i; c = pg_capability i; x = pg_intent i in
      pg_attempts_used i < eb_max_total_endpoint_attempts (pg_bounds i) \<and>
      (\<forall>expiry now. date_parse E (dc_expires_at d) = Some expiry \<longrightarrow> date_parse E (pg_now i) = Some now \<longrightarrow> now < expiry) \<and>
      {cd_capability_name c, cd_endpoint_id c @ ''.'' @ cd_capability_name c} \<inter>
        (set (dc_allowed_capabilities d) \<union> set (tk_allowed_capabilities t)) \<noteq> {} \<and>
      set (tk_allowed_scopes t) \<inter> set (dc_denied_scopes d) = {} \<and>
      (\<exists>k \<in> set (ei_idempotency_key x). \<not> is_space k) \<and>
      ei_risk_level x \<in> risks_up_to (dc_max_risk_level d) \<inter> risks_up_to (tk_max_risk_level t))"

definition unattended :: "policy_gate_input \<Rightarrow> bool" where
  "unattended i \<longleftrightarrow>
     \<not> cd_requires_approval (pg_capability i) \<and> \<not> ei_requires_approval (pg_intent i) \<and>
     ei_risk_level (pg_intent i) \<in> risks_up_to (eb_max_risk_without_approval (pg_bounds i)) -
       set (dc_approval_required_for (pg_delegation i))"

text \<open>The same call with no more authority: fewer allowed capabilities, more denied or asked-for scopes, lower
  risk limits, more risks to approve, more attempts used or fewer left.\<close>

definition no_wider :: "policy_gate_input \<Rightarrow> policy_gate_input \<Rightarrow> bool" where
  "no_wider j i \<longleftrightarrow>
     pg_capability j = pg_capability i \<and> pg_intent j = pg_intent i \<and> pg_now j = pg_now i \<and>
     dc_expires_at (pg_delegation j) = dc_expires_at (pg_delegation i) \<and>
     set (dc_allowed_capabilities (pg_delegation j)) \<subseteq> set (dc_allowed_capabilities (pg_delegation i)) \<and>
     set (dc_denied_scopes (pg_delegation i)) \<subseteq> set (dc_denied_scopes (pg_delegation j)) \<and>
     set (dc_approval_required_for (pg_delegation i)) \<subseteq> set (dc_approval_required_for (pg_delegation j)) \<and>
     risks_up_to (dc_max_risk_level (pg_delegation j)) \<subseteq> risks_up_to (dc_max_risk_level (pg_delegation i)) \<and>
     set (tk_allowed_capabilities (pg_task j)) \<subseteq> set (tk_allowed_capabilities (pg_task i)) \<and>
     set (tk_allowed_scopes (pg_task i)) \<subseteq> set (tk_allowed_scopes (pg_task j)) \<and>
     risks_up_to (tk_max_risk_level (pg_task j)) \<subseteq> risks_up_to (tk_max_risk_level (pg_task i)) \<and>
     pg_attempts_used i \<le> pg_attempts_used j \<and>
     eb_max_total_endpoint_attempts (pg_bounds j) \<le> eb_max_total_endpoint_attempts (pg_bounds i) \<and>
     risks_up_to (eb_max_risk_without_approval (pg_bounds j)) \<subseteq> risks_up_to (eb_max_risk_without_approval (pg_bounds i))"

fun grant_rank :: "policy_outcome \<Rightarrow> nat" where
  "grant_rank Out_allow = 2"
| "grant_rank Out_requires_approval = 1"
| "grant_rank Out_deny = 0"
| "grant_rank Out_yield = 0"

lemma risks_up_to_iff: "r \<in> risks_up_to s \<longleftrightarrow> risk_order r \<le> risk_order s"
  by (cases r; cases s) simp_all

lemma trim_empty_iff: "trim s = [] \<longleftrightarrow> (\<forall>c \<in> set s. is_space c)"
proof -
  have "trim s = [] \<longleftrightarrow> (\<forall>c \<in> set (dropWhile is_space s). is_space c)"
    by (simp add: trim_def dropWhile_eq_Nil_conv)
  also have "\<dots> \<longleftrightarrow> (\<forall>c \<in> set s. is_space c)"
    by (metis Un_iff dropWhile_eq_Nil_conv hd_dropWhile list.set_sel(1) set_append set_takeWhileD takeWhile_dropWhile_id)
  finally show ?thesis .
qed

lemma permits_authorised: "policy_permits E i \<longleftrightarrow> authorised E i"
proof -
  have "delegation_active E i \<longleftrightarrow> (\<forall>expiry now. date_parse E (dc_expires_at (pg_delegation i)) = Some expiry \<longrightarrow>
      date_parse E (pg_now i) = Some now \<longrightarrow> now < expiry)"
    by (auto simp: delegation_active_def date_le_def split: option.splits)
  moreover have "capability_allowed i \<longleftrightarrow> {cd_capability_name (pg_capability i),
      cd_endpoint_id (pg_capability i) @ ''.'' @ cd_capability_name (pg_capability i)} \<inter>
      (set (dc_allowed_capabilities (pg_delegation i)) \<union> set (tk_allowed_capabilities (pg_task i))) \<noteq> {}"
    unfolding capability_allowed_def pg_capability_ref_def Let_def by blast
  ultimately show ?thesis
    unfolding policy_permits_def authorised_def Let_def
    by (simp add: budget_left_def has_idempotency_key_def trim_empty_iff risk_within_def risks_up_to_iff not_less)
qed

lemma unattended_iff: "unattended i \<longleftrightarrow> \<not> approval_needed i"
  by (auto simp: unattended_def approval_needed_def risks_up_to_iff)

lemma gate_outcomes:
  "po_outcome (evaluate_policy E i) =
     (if authorised E i then (if unattended i then Out_allow else Out_requires_approval)
      else if eb_max_total_endpoint_attempts (pg_bounds i) \<le> pg_attempts_used i then Out_yield else Out_deny)"
  unfolding permits_authorised [symmetric] unattended_iff evaluate_policy_def evaluate_policy_with_report_def
    policy_permits_def no_denied_scope [symmetric]
  by (simp add: budget_left_def)

lemma no_wider_authorised: "no_wider j i \<Longrightarrow> authorised E j \<Longrightarrow> authorised E i"
proof -
  assume w: "no_wider j i" and a: "authorised E j"
  note same = w [unfolded no_wider_def] and auth = a [unfolded authorised_def Let_def]
  have "pg_attempts_used i < eb_max_total_endpoint_attempts (pg_bounds i)" using same auth by linarith
  moreover have "set (dc_allowed_capabilities (pg_delegation j)) \<union> set (tk_allowed_capabilities (pg_task j)) \<subseteq>
      set (dc_allowed_capabilities (pg_delegation i)) \<union> set (tk_allowed_capabilities (pg_task i))" using same by blast
  moreover have "set (tk_allowed_scopes (pg_task i)) \<inter> set (dc_denied_scopes (pg_delegation i)) = {}"
    using same auth by blast
  moreover have "ei_risk_level (pg_intent i) \<in> risks_up_to (dc_max_risk_level (pg_delegation i)) \<inter>
      risks_up_to (tk_max_risk_level (pg_task i))" using same auth by auto
  moreover have "pg_capability j = pg_capability i" "pg_intent j = pg_intent i" "pg_now j = pg_now i"
    "dc_expires_at (pg_delegation j) = dc_expires_at (pg_delegation i)" using same by simp_all
  ultimately show ?thesis unfolding authorised_def Let_def using auth by (metis (no_types, lifting) Int_mono bot.extremum_uniqueI order_refl)
qed

lemma no_wider_unattended: "no_wider j i \<Longrightarrow> unattended j \<Longrightarrow> unattended i"
  unfolding no_wider_def unattended_def by auto

text \<open>C7: The policy gate decides by the authority of the call alone. It yields exactly when the attempts are
  used up; otherwise it denies unless the delegation has not expired (as far as the dates can be
  read), the delegation or the task allows the
  capability by its name or its full reference, no scope of the task is denied, there is an idempotency key
  and the risk is within both limits; then it allows the call exactly when neither the capability, the intent,
  the delegation nor the limit of the bounds asks for an approval. And it is monotone: the same call with no
  more authority is never granted more.\<close>
theorem policy_gate_outcome:
  "po_outcome (evaluate_policy E i) =
     (if authorised E i then (if unattended i then Out_allow else Out_requires_approval)
      else if eb_max_total_endpoint_attempts (pg_bounds i) \<le> pg_attempts_used i then Out_yield else Out_deny) \<and>
   (if no_wider j i
    then grant_rank (po_outcome (evaluate_policy E j)) \<le> grant_rank (po_outcome (evaluate_policy E i)) else True)"
  using no_wider_authorised [of j i E] no_wider_unattended [of j i] by (auto simp: gate_outcomes)

text \<open>The report agrees with the decision: its rules are the checks that passed, in the order of
  the checks, all of them exactly for an allowed execution; missing scopes are reported exactly
  for a denied scope, an approval exactly when one is required.\<close>
lemma policy_report_consistent:
  "let (res, rep) = evaluate_policy_with_report E i in
     pr_decision rep = po_outcome res \<and> pr_reason rep = po_reason res \<and>
     (\<exists>rest. policy_rules = pr_matched_rules rep @ rest \<and>
        (rest = [] \<longleftrightarrow> po_outcome res = Out_allow)) \<and>
     (pr_required_approvals rep =
        (if po_outcome res = Out_requires_approval then [risk_str (ei_risk_level (pg_intent i))] else [])) \<and>
     set (pr_missing_scopes rep) \<subseteq>
        set (tk_allowed_scopes (pg_task i)) \<inter> set (dc_denied_scopes (pg_delegation i))"
  unfolding evaluate_policy_with_report_def case_prod_unfold Let_def policy_rules_def
  by (simp add: denied_task_scopes_def) blast

end
