(* ===== verification/Keyed_Store.thy ===== *)
theory Keyed_Store
  imports Prelude
begin

text \<open>
  The contract the record stores share (plan states, run executions, continuations, approvals,
  ...): \<open>put\<close> checks a record and files it under its key, \<open>get\<close> looks a key up. The laws are
  stated once as a locale, with what a client may conclude from a sequence of writes; every
  store of the development interprets it.
\<close>

locale keyed_store =
  fixes put :: "'s \<Rightarrow> 'r \<Rightarrow> 's option"
    and get :: "'s \<Rightarrow> 'k \<Rightarrow> 'r option"
    and key :: "'r \<Rightarrow> 'k"
    and valid :: "'r \<Rightarrow> bool"
  assumes put_defined: "(put s r \<noteq> None) = valid r"
    and get_put: "put s r = Some s' \<Longrightarrow> get s' k = (if k = key r then Some r else get s k)"
begin

lemma get_same: "put s r = Some s' \<Longrightarrow> get s' (key r) = Some r"
  by (simp add: get_put)

lemma get_other: "put s r = Some s' \<Longrightarrow> k \<noteq> key r \<Longrightarrow> get s' k = get s k"
  by (simp add: get_put)

lemma put_valid: "put s r = Some s' \<Longrightarrow> valid r"
  using put_defined [of s r] by auto

lemma put_ok: "valid r \<Longrightarrow> \<exists>s'. put s r = Some s'"
  using put_defined [of s r] by auto

text \<open>A sequence of writes; it stops at the first record that is refused.\<close>

primrec put_all :: "'s \<Rightarrow> 'r list \<Rightarrow> 's option" where
  "put_all s [] = Some s"
| "put_all s (r # rs) = (case put s r of None \<Rightarrow> None | Some s' \<Rightarrow> put_all s' rs)"

lemma put_all_defined: "(put_all s rs \<noteq> None) = list_all valid rs"
proof (induction rs arbitrary: s)
  case (Cons r rs)
  show ?case
  proof (cases "put s r")
    case None
    with put_defined [of s r] show ?thesis by simp
  next
    case (Some s')
    with put_defined [of s r] Cons.IH [of s'] show ?thesis by simp
  qed
qed simp

text \<open>The last write to a key wins, whatever the order of the writes to other keys.\<close>

lemma get_put_all:
  "put_all s rs = Some s' \<Longrightarrow>
     get s' k = (case find_last (\<lambda>r. key r = k) rs of Some r \<Rightarrow> Some r | None \<Rightarrow> get s k)"
proof (induction rs arbitrary: s)
  case Nil
  then show ?case by (simp add: find_last_def)
next
  case (Cons r rs)
  then obtain s1 where s1: "put s r = Some s1" "put_all s1 rs = Some s'"
    by (auto split: option.splits)
  show ?case
    unfolding Cons.IH [OF s1(2)] find_last_Cons get_put [OF s1(1)] by (auto split: option.splits)
qed

text \<open>Writes to different keys commute, as far as reads can tell.\<close>

lemma put_commute:
  assumes "put s r = Some s1" "put s1 q = Some s2" "put s q = Some t1" "put t1 r = Some t2"
    and "key r \<noteq> key q"
  shows "get s2 k = get t2 k"
  using assms by (auto simp: get_put)

end

text \<open>Reads only yield valid records, when the store started empty.\<close>

locale empty_keyed_store = keyed_store put get key valid
  for put :: "'s \<Rightarrow> 'r \<Rightarrow> 's option" and get :: "'s \<Rightarrow> 'k \<Rightarrow> 'r option"
    and key :: "'r \<Rightarrow> 'k" and valid :: "'r \<Rightarrow> bool" +
  fixes empty :: 's
  assumes get_empty: "get empty k = None"
begin

lemma get_written:
  assumes "put_all empty rs = Some s" and "get s k = Some r"
  shows "r \<in> set rs \<and> key r = k \<and> valid r"
proof -
  from get_put_all [OF assms(1), of k] assms(2) get_empty
  have "find_last (\<lambda>r. key r = k) rs = Some r" by (auto split: option.splits)
  then have "r \<in> set rs \<and> key r = k" by (auto simp: find_last_def dest: find_SomeD)
  moreover have "list_all valid rs"
    using put_all_defined [of empty rs] assms(1) by simp
  ultimately show ?thesis by (auto simp: list_all_iff)
qed

lemma get_unwritten:
  assumes "put_all empty rs = Some s" and "k \<notin> key ` set rs"
  shows "get s k = None"
  using get_written [OF assms(1), of k] assms(2) by (cases "get s k") auto

end

section \<open>A JavaScript \<open>Map\<close> of checked records\<close>

text \<open>\<open>const parsed = Schema.parse(record); map.set(key(parsed), parsed)\<close>, the body of every
  in-memory store's write, and \<open>map.get(key)\<close>.\<close>

definition map_put :: "('r \<Rightarrow> bool) \<Rightarrow> ('r \<Rightarrow> 'k) \<Rightarrow> ('k \<times> 'r) list \<Rightarrow> 'r \<Rightarrow> ('k \<times> 'r) list option" where
  "map_put valid key m r = (if valid r then Some (AList.update (key r) r m) else None)"

lemma map_put_store: "empty_keyed_store (map_put valid key) map_of key valid []"
  by unfold_locales (auto simp: map_put_def update_conv' split: if_splits)

interpretation js_map: empty_keyed_store "map_put valid key" map_of key valid "[]"
  for valid :: "'r \<Rightarrow> bool" and key :: "'r \<Rightarrow> 'k"
  by (rule map_put_store)

end
