(* ===== verification/Plan_State.thy ===== *)
theory Plan_State
  imports Planfile_Schema Keyed_Store
begin

text \<open>
  \<open>planning/plan-state.ts\<close>: the state of a plan under execution, its checks, its initial value and
  the in-memory store of plan states.
\<close>

record node_state =
  ns_node_id :: string
  ns_status :: plan_node_status
  ns_started_at :: "string option"
  ns_completed_at :: "string option"
  ns_artifacts :: "plan_artifact_ref list"
  ns_errors :: "string list"

record plan_state =
  ps_plan_id :: string
  ps_status :: plan_status
  ps_canonical_plan_digest :: string
  ps_node_states :: "node_state list"
  ps_artifact_refs :: "plan_artifact_ref list"
  ps_markdown_projection :: "string option"
  ps_created_at :: string
  ps_updated_at :: string

definition node_state_ok :: "env \<Rightarrow> node_state \<Rightarrow> bool" where
  "node_state_ok E n =
     (nonempty (ns_node_id n) \<and> opt_ok (datetime_ok E) (ns_started_at n) \<and>
      opt_ok (datetime_ok E) (ns_completed_at n) \<and> list_all (plan_artifact_ref_ok E) (ns_artifacts n))"

definition plan_state_ok :: "env \<Rightarrow> plan_state \<Rightarrow> bool" where
  "plan_state_ok E s =
     (nonempty (ps_plan_id s) \<and> is_hex64 (ps_canonical_plan_digest s) \<and>
      list_all (node_state_ok E) (ps_node_states s) \<and>
      list_all (plan_artifact_ref_ok E) (ps_artifact_refs s) \<and>
      datetime_ok E (ps_created_at s) \<and> datetime_ok E (ps_updated_at s))"

section \<open>The in-memory store\<close>

type_synonym plan_state_db = "(string \<times> plan_state) list"

definition record_plan_state :: "env \<Rightarrow> plan_state_db \<Rightarrow> plan_state \<Rightarrow> plan_state_db option" where
  "record_plan_state E db s = map_put (plan_state_ok E) ps_plan_id db s"

definition get_plan_state :: "plan_state_db \<Rightarrow> string \<Rightarrow> plan_state option" where
  "get_plan_state db plan_id = map_of db plan_id"

interpretation plan_states:
  empty_keyed_store "record_plan_state E" get_plan_state ps_plan_id "plan_state_ok E" "[]" for E
  using map_put_store [of "plan_state_ok E" ps_plan_id]
  unfolding record_plan_state_def [abs_def] get_plan_state_def [abs_def] .

section \<open>The initial state\<close>

definition create_initial_plan_state ::
    "env \<Rightarrow> string \<Rightarrow> plan_status \<Rightarrow> string \<Rightarrow> (string \<times> plan_node_status) list
      \<Rightarrow> plan_artifact_ref list \<Rightarrow> string option \<Rightarrow> string \<Rightarrow> plan_state option" where
  "create_initial_plan_state E plan_id status digest nodes artifacts markdown now =
     (let s =
        \<lparr>ps_plan_id = plan_id, ps_status = status, ps_canonical_plan_digest = digest,
         ps_node_states = map (\<lambda>(i, st).
           \<lparr>ns_node_id = i, ns_status = st, ns_started_at = None, ns_completed_at = None,
            ns_artifacts = [], ns_errors = []\<rparr>) nodes,
         ps_artifact_refs = artifacts, ps_markdown_projection = keep_truthy markdown,
         ps_created_at = now, ps_updated_at = now\<rparr>
      in if plan_state_ok E s then Some s else None)"

text \<open>\<open>node_states.find((item) => item.node_id === id)\<close>\<close>

definition find_node_state :: "plan_state \<Rightarrow> string \<Rightarrow> node_state option" where
  "find_node_state s i = List.find (\<lambda>n. ns_node_id n = i) (ps_node_states s)"

end
