(* ===== verification/Run_Event.thy ===== *)
theory Run_Event
  imports Policy_Gate "HOL-Library.Word"
begin

unbundle bit_operations_syntax

text \<open>
  \<open>runs/run-next-action.ts\<close> and \<open>runs/run-event.ts\<close>: the next actions offered for a run, the event
  type with its checks, and the constructor of events with the 32-bit hash their identifiers
  are made of.
\<close>

section \<open>Next actions\<close>

datatype next_action_type =
    NA_approve | NA_reject | NA_resume | NA_retry | NA_configure_provider | NA_inspect_artifact
  | NA_export | NA_edit_plan | NA_cancel

record next_action =
  na_action_id :: string
  na_label :: string
  na_command :: "string option"
  na_action_type :: next_action_type
  na_required :: bool
  na_target_ref :: "string option"
  na_description :: "string option"

definition next_action_ok :: "next_action \<Rightarrow> bool" where
  "next_action_ok a =
     (nonempty (na_action_id a) \<and> nonempty (na_label a) \<and> opt_ok nonempty (na_command a) \<and>
      opt_ok nonempty (na_target_ref a) \<and> opt_ok nonempty (na_description a))"

definition action ::
    "string \<Rightarrow> string \<Rightarrow> string \<Rightarrow> next_action_type \<Rightarrow> bool \<Rightarrow> string option \<Rightarrow> next_action" where
  "action i label command t required target =
     \<lparr>na_action_id = i, na_label = label, na_command = Some command, na_action_type = t,
      na_required = required, na_target_ref = target, na_description = None\<rparr>"

text \<open>The case-insensitive search for \<open>provider\<close>, \<open>secret\<close> or \<open>credential\<close> in a message.\<close>

definition mentions_provider :: "string \<Rightarrow> bool" where
  "mentions_provider m =
     (str_includes (to_lower m) ''provider'' \<or> str_includes (to_lower m) ''secret'' \<or>
      str_includes (to_lower m) ''credential'')"

definition approval_actions :: "string \<Rightarrow> string \<Rightarrow> next_action list" where
  "approval_actions run_id a =
     [action (''approve:'' @ a) (''Approve '' @ a)
        (''open-lagrange run approve '' @ run_id @ '' '' @ a) NA_approve True (Some a),
      action (''reject:'' @ a) (''Reject '' @ a)
        (''open-lagrange run reject '' @ run_id @ '' '' @ a) NA_reject True (Some a)]"

definition resume_actions :: "string \<Rightarrow> string \<Rightarrow> bool \<Rightarrow> next_action list" where
  "resume_actions run_id status nothing_requested =
     (if status = ''yielded'' \<or> status = ''requires_approval''
      then [action (''resume:'' @ run_id) ''Resume run'' (''open-lagrange run resume '' @ run_id)
              NA_resume nothing_requested (Some run_id)]
      else [])"

definition retry_actions :: "string \<Rightarrow> string \<Rightarrow> string option \<Rightarrow> next_action list" where
  "retry_actions run_id status active =
     (if (status = ''failed'' \<or> status = ''yielded'') \<and> truthy active
      then [action (''retry:'' @ the active) (''Retry '' @ the active)
              (''open-lagrange run retry '' @ run_id @ '' '' @ the active @ '' --mode reuse-artifacts'')
              NA_retry (status = ''failed'') active]
      else [])"

definition provider_actions :: "string list \<Rightarrow> next_action list" where
  "provider_actions errors =
     (if list_ex mentions_provider errors
      then [action ''configure_provider'' ''Configure provider'' ''open-lagrange provider list''
              NA_configure_provider True None]
      else [])"

definition artifact_actions :: "(string \<times> bool) list \<Rightarrow> next_action list" where
  "artifact_actions artifacts =
     (case artifacts of
        [] \<Rightarrow> []
      | (a, exportable) # _ \<Rightarrow>
          action (''inspect:'' @ a) (''Inspect '' @ a) (''open-lagrange artifact show '' @ a)
            NA_inspect_artifact False (Some a) #
          (if exportable
           then [action (''export:'' @ a) (''Export '' @ a)
                   (''open-lagrange artifact export '' @ a @ '' --output ./artifact.out'')
                   NA_export False (Some a)]
           else []))"

definition edit_action :: "string \<Rightarrow> next_action" where
  "edit_action run_id =
     action (''edit_plan:'' @ run_id) ''Edit plan'' (''open-lagrange run explain '' @ run_id)
       NA_edit_plan False (Some run_id)"

definition cancel_actions :: "string \<Rightarrow> string \<Rightarrow> next_action list" where
  "cancel_actions run_id status =
     (if status \<notin> {''completed'', ''failed'', ''cancelled''}
      then [action (''cancel:'' @ run_id) ''Cancel run'' (''open-lagrange run cancel '' @ run_id)
              NA_cancel False (Some run_id)]
      else [])"

text \<open>Arguments: the run, its status, the active node, the approvals (id and status), the
  artifacts (id and whether exportable) and the error messages.\<close>

definition requested_ids :: "(string \<times> string) list \<Rightarrow> string list" where
  "requested_ids approvals = map fst (filter (\<lambda>(_, s). s = ''requested'') approvals)"

definition derive_run_next_actions ::
    "string \<Rightarrow> string \<Rightarrow> string option \<Rightarrow> (string \<times> string) list \<Rightarrow> (string \<times> bool) list
      \<Rightarrow> string list \<Rightarrow> next_action list" where
  "derive_run_next_actions run_id status active approvals artifacts errors =
     concat (map (approval_actions run_id) (requested_ids approvals)) @
     resume_actions run_id status (requested_ids approvals = []) @
     retry_actions run_id status active @
     provider_actions errors @
     artifact_actions artifacts @
     [edit_action run_id] @
     cancel_actions run_id status"

section \<open>Events\<close>

record node_base =
  nb_node_id :: string
  nb_attempt_id :: string
  nb_title :: "string option"

datatype approval_decision = Dec_approved | Dec_rejected

fun approval_decision_str :: "approval_decision \<Rightarrow> string" where
  "approval_decision_str Dec_approved = ''approved''"
| "approval_decision_str Dec_rejected = ''rejected''"

declare approval_decision_str.simps [enum_simps]

datatype event_body =
    Run_created
  | Run_started
  | Run_completed "string list"
  | Run_failed "structured_error list"
  | Run_yielded string "next_action list"
  | Run_cancelled "string option"
  | Node_started node_base
  | Node_completed node_base "string list"
  | Node_failed node_base "structured_error list"
  | Node_yielded node_base string "next_action list"
  | Capability_started node_base string
  | Capability_completed node_base string "string list"
  | Capability_failed node_base string "structured_error list"
  | Policy_evaluated "string option" "string option" string "string option" "policy_report option"
  | Approval_requested "string option" string
  | Approval_resolved "string option" string approval_decision
  | Artifact_created "string option" string string
  | Model_call_completed "string option" string string string
  | Verification_started node_base string
  | Verification_completed node_base string bool "string option"
  | Repair_started node_base nat
  | Repair_completed node_base nat string

record run_event =
  re_event_id :: string
  re_plan_id :: string
  re_run_id :: string
  re_timestamp :: string
  re_body :: event_body

fun event_type :: "event_body \<Rightarrow> string" where
  "event_type Run_created = ''run.created''"
| "event_type Run_started = ''run.started''"
| "event_type (Run_completed _) = ''run.completed''"
| "event_type (Run_failed _) = ''run.failed''"
| "event_type (Run_yielded _ _) = ''run.yielded''"
| "event_type (Run_cancelled _) = ''run.cancelled''"
| "event_type (Node_started _) = ''node.started''"
| "event_type (Node_completed _ _) = ''node.completed''"
| "event_type (Node_failed _ _) = ''node.failed''"
| "event_type (Node_yielded _ _ _) = ''node.yielded''"
| "event_type (Capability_started _ _) = ''capability.started''"
| "event_type (Capability_completed _ _ _) = ''capability.completed''"
| "event_type (Capability_failed _ _ _) = ''capability.failed''"
| "event_type (Policy_evaluated _ _ _ _ _) = ''policy.evaluated''"
| "event_type (Approval_requested _ _) = ''approval.requested''"
| "event_type (Approval_resolved _ _ _) = ''approval.resolved''"
| "event_type (Artifact_created _ _ _) = ''artifact.created''"
| "event_type (Model_call_completed _ _ _ _) = ''model_call.completed''"
| "event_type (Verification_started _ _) = ''verification.started''"
| "event_type (Verification_completed _ _ _ _) = ''verification.completed''"
| "event_type (Repair_started _ _) = ''repair.started''"
| "event_type (Repair_completed _ _ _) = ''repair.completed''"

fun event_node_id :: "event_body \<Rightarrow> string option" where
  "event_node_id (Node_started nb) = Some (nb_node_id nb)"
| "event_node_id (Node_completed nb _) = Some (nb_node_id nb)"
| "event_node_id (Node_failed nb _) = Some (nb_node_id nb)"
| "event_node_id (Node_yielded nb _ _) = Some (nb_node_id nb)"
| "event_node_id (Capability_started nb _) = Some (nb_node_id nb)"
| "event_node_id (Capability_completed nb _ _) = Some (nb_node_id nb)"
| "event_node_id (Capability_failed nb _ _) = Some (nb_node_id nb)"
| "event_node_id (Policy_evaluated n _ _ _ _) = n"
| "event_node_id (Approval_requested n _) = n"
| "event_node_id (Approval_resolved n _ _) = n"
| "event_node_id (Artifact_created n _ _) = n"
| "event_node_id (Model_call_completed n _ _ _) = n"
| "event_node_id (Verification_started nb _) = Some (nb_node_id nb)"
| "event_node_id (Verification_completed nb _ _ _) = Some (nb_node_id nb)"
| "event_node_id (Repair_started nb _) = Some (nb_node_id nb)"
| "event_node_id (Repair_completed nb _ _) = Some (nb_node_id nb)"
| "event_node_id _ = None"

fun event_capability_ref :: "event_body \<Rightarrow> string option" where
  "event_capability_ref (Capability_started _ c) = Some c"
| "event_capability_ref (Capability_completed _ c _) = Some c"
| "event_capability_ref (Capability_failed _ c _) = Some c"
| "event_capability_ref (Policy_evaluated _ c _ _ _) = c"
| "event_capability_ref _ = None"

fun event_artifact_id :: "event_body \<Rightarrow> string option" where
  "event_artifact_id (Artifact_created _ a _) = Some a"
| "event_artifact_id (Model_call_completed _ a _ _) = Some a"
| "event_artifact_id _ = None"

fun event_approval_id :: "event_body \<Rightarrow> string option" where
  "event_approval_id (Approval_requested _ a) = Some a"
| "event_approval_id (Approval_resolved _ a _) = Some a"
| "event_approval_id _ = None"

definition node_base_ok :: "node_base \<Rightarrow> bool" where
  "node_base_ok nb =
     (nonempty (nb_node_id nb) \<and> nonempty (nb_attempt_id nb) \<and> opt_ok nonempty (nb_title nb))"

definition policy_report_ok :: "env \<Rightarrow> policy_report \<Rightarrow> bool" where
  "policy_report_ok E r =
     (nonempty (pr_capability_ref r) \<and> nonempty (pr_pack_id r) \<and> nonempty (pr_side_effect_kind r) \<and>
      nonempty (ds_principal_id (pr_delegation r)) \<and> nonempty (ds_delegate_id (pr_delegation r)) \<and>
      datetime_ok E (pr_created_at r))"

fun event_body_ok :: "env \<Rightarrow> event_body \<Rightarrow> bool" where
  "event_body_ok E Run_created = True"
| "event_body_ok E Run_started = True"
| "event_body_ok E (Run_completed refs) = list_all nonempty refs"
| "event_body_ok E (Run_failed es) = list_all (structured_error_ok E) es"
| "event_body_ok E (Run_yielded r as) = (nonempty r \<and> list_all next_action_ok as)"
| "event_body_ok E (Run_cancelled r) = opt_ok nonempty r"
| "event_body_ok E (Node_started nb) = node_base_ok nb"
| "event_body_ok E (Node_completed nb refs) = (node_base_ok nb \<and> list_all nonempty refs)"
| "event_body_ok E (Node_failed nb es) = (node_base_ok nb \<and> list_all (structured_error_ok E) es)"
| "event_body_ok E (Node_yielded nb r as) =
     (node_base_ok nb \<and> nonempty r \<and> list_all next_action_ok as)"
| "event_body_ok E (Capability_started nb c) = (node_base_ok nb \<and> nonempty c)"
| "event_body_ok E (Capability_completed nb c refs) =
     (node_base_ok nb \<and> nonempty c \<and> list_all nonempty refs)"
| "event_body_ok E (Capability_failed nb c es) =
     (node_base_ok nb \<and> nonempty c \<and> list_all (structured_error_ok E) es)"
| "event_body_ok E (Policy_evaluated n c d rr rep) =
     (opt_ok nonempty n \<and> opt_ok nonempty c \<and> nonempty d \<and> opt_ok nonempty rr \<and>
      opt_ok (policy_report_ok E) rep)"
| "event_body_ok E (Approval_requested n a) = (opt_ok nonempty n \<and> nonempty a)"
| "event_body_ok E (Approval_resolved n a d) = (opt_ok nonempty n \<and> nonempty a)"
| "event_body_ok E (Artifact_created n a k) = (opt_ok nonempty n \<and> nonempty a \<and> nonempty k)"
| "event_body_ok E (Model_call_completed n a r m) =
     (opt_ok nonempty n \<and> nonempty a \<and> nonempty r \<and> nonempty m)"
| "event_body_ok E (Verification_started nb c) = (node_base_ok nb \<and> nonempty c)"
| "event_body_ok E (Verification_completed nb c p rr) =
     (node_base_ok nb \<and> nonempty c \<and> opt_ok nonempty rr)"
| "event_body_ok E (Repair_started nb k) = (node_base_ok nb \<and> 1 \<le> k)"
| "event_body_ok E (Repair_completed nb k s) = (node_base_ok nb \<and> 1 \<le> k \<and> nonempty s)"

definition run_event_ok :: "env \<Rightarrow> run_event \<Rightarrow> bool" where
  "run_event_ok E e =
     (nonempty (re_event_id e) \<and> nonempty (re_plan_id e) \<and> nonempty (re_run_id e) \<and>
      datetime_ok E (re_timestamp e) \<and> event_body_ok E (re_body e))"

section \<open>The event constructor\<close>

text \<open>\<open>hashString\<close>: the loop over the characters, with the accumulator kept at 32 bits (\<open>^=\<close> and
  \<open>Math.imul\<close> work on 32-bit integers, \<open>>>> 0\<close> reads the result as unsigned).\<close>

definition hash_step :: "32 word \<Rightarrow> char \<Rightarrow> 32 word" where
  "hash_step h c = (h XOR of_nat (of_char c)) * 0x01000193"

definition hash_string :: "string \<Rightarrow> string" where
  "hash_string s = pad_start 8 (CHR ''0'') (hex_str (unat (fold (\<lambda>c h. hash_step h c) s 0x811c9dc5)))"

definition event_key :: "string \<Rightarrow> string \<Rightarrow> string \<Rightarrow> event_body \<Rightarrow> string" where
  "event_key run_id plan_id timestamp b =
     join '':''
       [run_id, plan_id, event_type b, nullish (event_node_id b) [], nullish (event_capability_ref b) [],
        nullish (event_artifact_id b) [], nullish (event_approval_id b) [], timestamp]"

definition create_run_event ::
    "env \<Rightarrow> string \<Rightarrow> string \<Rightarrow> string \<Rightarrow> string option \<Rightarrow> event_body \<Rightarrow> run_event option" where
  "create_run_event E run_id plan_id timestamp event_id b =
     (let e =
        \<lparr>re_event_id = nullish event_id
           (''run_event_'' @ take 24 (hash_string (event_key run_id plan_id timestamp b))),
         re_plan_id = plan_id, re_run_id = run_id, re_timestamp = timestamp, re_body = b\<rparr>
      in if run_event_ok E e then Some e else None)"

lemma hash_string_length: "length (hash_string s) = 8"
proof -
  have "unat w < 16 ^ 8" for w :: "32 word"
    using unsigned_less [of w, where ?'a = nat] by simp
  then have "length (hex_str (unat w)) \<le> 8" for w :: "32 word"
    by (intro hex_str_length) auto
  then show ?thesis unfolding hash_string_def length_pad_start by (rule max_absorb1)
qed

lemma created_event:
  "create_run_event E r p t i b = Some e \<Longrightarrow>
     run_event_ok E e \<and> re_run_id e = r \<and> re_plan_id e = p \<and> re_timestamp e = t \<and> re_body e = b"
  by (auto simp: create_run_event_def Let_def split: if_splits)


section \<open>Properties\<close>

text \<open>An event constructed without an identifier gets one that is "run_event_" and
  eight characters; it depends on the run, the plan, the type, the node, capability, artifact
  and approval ids and the time stamp only, so two events that agree on these get the same
  identifier, whatever their attempt, decision or artifacts are.\<close>
lemma event_id_determined:
  assumes "create_run_event E r p t None b = Some e" and "create_run_event E r p t None b' = Some e'"
    and "event_type b = event_type b'"
    and "nullish (event_node_id b) [] = nullish (event_node_id b') []"
    and "nullish (event_capability_ref b) [] = nullish (event_capability_ref b') []"
    and "nullish (event_artifact_id b) [] = nullish (event_artifact_id b') []"
    and "nullish (event_approval_id b) [] = nullish (event_approval_id b') []"
  shows "re_event_id e = re_event_id e' \<and>
    (\<exists>h. re_event_id e = ''run_event_'' @ h \<and> length h = 8)"
proof -
  let ?h = "hash_string (event_key r p t b)"
  have "event_key r p t b = event_key r p t b'"
    using assms(3-7) by (simp add: event_key_def)
  then have "re_event_id e = ''run_event_'' @ take 24 ?h" "re_event_id e' = re_event_id e"
    using assms(1,2) by (auto simp: create_run_event_def Let_def split: if_splits)
  moreover have "length (take 24 ?h) = 8" by (simp add: hash_string_length)
  ultimately show ?thesis by auto
qed

lemma event_id_determined_witness:
  "\<exists>e e'. create_run_event \<lparr>sha256_hex = id, hmac_sha256_hex = (\<lambda>_. id), datetime_ok = (\<lambda>_. True),
       date_parse = (\<lambda>_. None), zod_issues = (\<lambda>_. [])\<rparr>
       ''run'' ''plan'' ''2025'' None (Approval_resolved None ''a1'' Dec_approved) = Some e \<and>
     create_run_event \<lparr>sha256_hex = id, hmac_sha256_hex = (\<lambda>_. id), datetime_ok = (\<lambda>_. True),
       date_parse = (\<lambda>_. None), zod_issues = (\<lambda>_. [])\<rparr>
       ''run'' ''plan'' ''2025'' None (Approval_resolved None ''a1'' Dec_rejected) = Some e' \<and>
     e \<noteq> e' \<and> re_event_id e = re_event_id e'"
proof -
  let ?E = "\<lparr>sha256_hex = id, hmac_sha256_hex = (\<lambda>_. id), datetime_ok = (\<lambda>_. True),
       date_parse = (\<lambda>_. None), zod_issues = (\<lambda>_. [])\<rparr>"
  let ?b = "Approval_resolved None ''a1''"
  obtain e where e: "create_run_event ?E ''run'' ''plan'' ''2025'' None (?b Dec_approved) = Some e"
    by (simp add: create_run_event_def Let_def run_event_ok_def)
  obtain e' where e': "create_run_event ?E ''run'' ''plan'' ''2025'' None (?b Dec_rejected) = Some e'"
    by (simp add: create_run_event_def Let_def run_event_ok_def)
  have "re_event_id e = re_event_id e'"
    using event_id_determined [OF e e'] by simp
  moreover have "re_body e = ?b Dec_approved" "re_body e' = ?b Dec_rejected"
    using created_event [OF e] created_event [OF e'] by auto
  then have "e \<noteq> e'" by auto
  ultimately show ?thesis using e e' by blast
qed

text \<open>The hash agrees with the published test vectors of FNV-1a.\<close>

lemma fnv_test_vectors:
  "hash_string [] = ''811c9dc5''" "hash_string ''a'' = ''e40c292c''" "hash_string ''foobar'' = ''bf9cf968''"
  by (simp add: hash_string_def hash_step_def hex_str.simps hex_char_def pad_start_def, code_simp)+

section \<open>The actions by type\<close>

lemma action_simps [simp]:
  "na_action_type (action i l c ty q tg) = ty" "na_required (action i l c ty q tg) = q"
  "na_target_ref (action i l c ty q tg) = tg"
  by (simp_all add: action_def)

text \<open>What a group contributes: the type, the flag and the target of its actions.\<close>

definition action_face :: "next_action \<Rightarrow> next_action_type \<times> bool \<times> string option" where
  "action_face a = (na_action_type a, na_required a, na_target_ref a)"

lemma approval_faces:
  "map action_face (approval_actions r a) = [(NA_approve, True, Some a), (NA_reject, True, Some a)]"
  by (simp add: approval_actions_def action_face_def)

lemma resume_faces:
  "map action_face (resume_actions r s q) =
     (if s \<in> {''yielded'', ''requires_approval''} then [(NA_resume, q, Some r)] else [])"
  by (simp add: resume_actions_def action_face_def)

lemma retry_faces:
  "map action_face (retry_actions r s n) =
     (if s \<in> {''failed'', ''yielded''} \<and> truthy n then [(NA_retry, s = ''failed'', n)] else [])"
  by (simp add: retry_actions_def action_face_def)

lemma cancel_faces:
  "map action_face (cancel_actions r s) =
     (if s \<notin> {''completed'', ''failed'', ''cancelled''} then [(NA_cancel, False, Some r)] else [])"
  by (simp add: cancel_actions_def action_face_def)

lemma other_faces:
  "fst ` set (map action_face (provider_actions es @ artifact_actions as @ [edit_action r]))
     \<subseteq> {NA_configure_provider, NA_inspect_artifact, NA_export, NA_edit_plan}"
  by (auto simp: provider_actions_def artifact_actions_def edit_action_def action_face_def
      split: list.splits)

lemma requested_ids_iff: "a \<in> set (requested_ids approvals) \<longleftrightarrow> (a, ''requested'') \<in> set approvals"
  unfolding requested_ids_def by force

lemma approval_faces_all:
  "set (map action_face (concat (map (approval_actions r) as))) =
     (\<Union>a \<in> set as. {(NA_approve, True, Some a), (NA_reject, True, Some a)})"
  using approval_faces [of r] by (simp add: map_concat comp_def)

lemma in_set_if: "x \<in> set (if c then [y] else []) \<longleftrightarrow> c \<and> x = y"
  by auto

text \<open>The faces of all actions of a run.\<close>

lemma next_action_faces:
  "f \<in> set (map action_face (derive_run_next_actions r s n approvals as es)) \<longleftrightarrow>
     (\<exists>a. (a, ''requested'') \<in> set approvals \<and> f \<in> {(NA_approve, True, Some a), (NA_reject, True, Some a)}) \<or>
     (s \<in> {''yielded'', ''requires_approval''} \<and> f = (NA_resume, requested_ids approvals = [], Some r)) \<or>
     (s \<in> {''failed'', ''yielded''} \<and> truthy n \<and> f = (NA_retry, s = ''failed'', n)) \<or>
     f \<in> set (map action_face (provider_actions es @ artifact_actions as @ [edit_action r])) \<or>
     (s \<notin> {''completed'', ''failed'', ''cancelled''} \<and> f = (NA_cancel, False, Some r))"
  unfolding derive_run_next_actions_def map_append set_append Un_iff approval_faces_all
    resume_faces retry_faces cancel_faces in_set_if UN_iff requested_ids_iff Bex_def disj_assoc conj_assoc
  by (simp only: insert_iff empty_iff)

text \<open>What a run offers next: an approval and a rejection for every requested approval and for no
  other; a resume exactly for a yielded or waiting run, required only when nothing is to be
  approved first; a retry exactly for a failed or yielded run with an active node; a cancel
  exactly for a run that is not completed, failed or cancelled.\<close>
lemma next_actions_offered:
  "let faces = set (map action_face (derive_run_next_actions run_id status active approvals artifacts errors)) in
     (\<forall>a. (NA_approve, True, Some a) \<in> faces \<longleftrightarrow> (a, ''requested'') \<in> set approvals) \<and>
     (\<forall>a. (NA_reject, True, Some a) \<in> faces \<longleftrightarrow> (a, ''requested'') \<in> set approvals) \<and>
     (NA_resume \<in> fst ` faces \<longleftrightarrow> status \<in> {''yielded'', ''requires_approval''}) \<and>
     ((NA_resume, True, Some run_id) \<in> faces \<longleftrightarrow>
        status \<in> {''yielded'', ''requires_approval''} \<and> (\<forall>a. (a, ''requested'') \<notin> set approvals)) \<and>
     (NA_retry \<in> fst ` faces \<longleftrightarrow> status \<in> {''failed'', ''yielded''} \<and> truthy active) \<and>
     (NA_cancel \<in> fst ` faces \<longleftrightarrow> status \<notin> {''completed'', ''failed'', ''cancelled''})"
proof -
  define faces where
    "faces = set (map action_face (derive_run_next_actions run_id status active approvals artifacts errors))"
  define others where
    "others = set (map action_face (provider_actions errors @ artifact_actions artifacts @ [edit_action run_id]))"
  define waiting failing cancellable where
    "waiting = (status \<in> {''yielded'', ''requires_approval''})" and
    "failing = (status \<in> {''failed'', ''yielded''})" and
    "cancellable = (status \<notin> {''completed'', ''failed'', ''cancelled''})"
  define requested where "requested = (\<lambda>a. (a, ''requested'') \<in> set approvals)"
  define failed where "failed = (status = ''failed'')"
  have none: "requested_ids approvals = [] \<longleftrightarrow> (\<forall>a. \<not> requested a)"
    unfolding requested_def requested_ids_iff [symmetric] by (cases "requested_ids approvals") auto
  have mem: "f \<in> faces \<longleftrightarrow>
      (\<exists>a. requested a \<and> f \<in> {(NA_approve, True, Some a), (NA_reject, True, Some a)}) \<or>
      (waiting \<and> f = (NA_resume, \<forall>a. \<not> requested a, Some run_id)) \<or>
      (failing \<and> truthy active \<and> f = (NA_retry, failed, active)) \<or> f \<in> others \<or>
      (cancellable \<and> f = (NA_cancel, False, Some run_id))" for f
    unfolding none [symmetric] unfolding faces_def next_action_faces others_def waiting_def failing_def
      cancellable_def requested_def failed_def conj_assoc by (simp only: insert_iff empty_iff)
  have other: "fst ` others \<subseteq> {NA_configure_provider, NA_inspect_artifact, NA_export, NA_edit_plan}"
    unfolding others_def by (rule other_faces)
  have by_type: "ty \<in> fst ` faces \<longleftrightarrow> (\<exists>q tg. (ty, q, tg) \<in> faces)" for ty by force
  have o: "(ty, q, tg) \<notin> others" if "ty \<in> {NA_approve, NA_reject, NA_resume, NA_retry, NA_cancel}" for ty q tg
    using other that by force
  have "\<forall>a. (NA_approve, True, Some a) \<in> faces \<longleftrightarrow> requested a"
    "\<forall>a. (NA_reject, True, Some a) \<in> faces \<longleftrightarrow> requested a"
    "(NA_resume, True, Some run_id) \<in> faces \<longleftrightarrow> waiting \<and> (\<forall>a. \<not> requested a)"
    unfolding mem by (simp_all add: o)
  moreover have "NA_resume \<in> fst ` faces \<longleftrightarrow> waiting"
    "NA_retry \<in> fst ` faces \<longleftrightarrow> failing \<and> truthy active"
    "NA_cancel \<in> fst ` faces \<longleftrightarrow> cancellable"
    unfolding by_type mem by (auto simp: o)
  ultimately show ?thesis
    unfolding Let_def faces_def waiting_def failing_def cancellable_def requested_def by blast
qed

end
