(* ===== verification/Run_Event_Store.thy ===== *)
theory Run_Event_Store
  imports Run_Event
begin

text \<open>
  \<open>runs/run-event-store.ts\<close>: the in-memory event store with its subscribers. The module's two maps
  are association lists (their iteration order matters for the recent runs); publishing an
  envelope is the list of deliveries it makes, in order.
\<close>

datatype run_runtime = Runtime_hatchet | Runtime_local_dev

record run_event_envelope =
  en_event_id :: string
  en_run_id :: string
  en_sequence :: nat
  en_timestamp :: string
  en_runtime :: run_runtime
  en_event :: run_event

type_synonym event_db = "(string \<times> run_event list) list"

definition run_events_of :: "event_db \<Rightarrow> string \<Rightarrow> run_event list" where
  "run_events_of db run_id = nullish (map_of db run_id) []"

text \<open>The order of the events of a run: time stamps, then identifiers, as \<open>localeCompare\<close> puts them.\<close>

definition event_order_key :: "run_event \<Rightarrow> (nat list \<times> nat list) \<times> (nat list \<times> nat list)" where
  "event_order_key e = (collation_key (re_timestamp e), collation_key (re_event_id e))"

definition sort_events :: "run_event list \<Rightarrow> run_event list" where
  "sort_events es = sort_key event_order_key es"

definition envelope_for :: "run_event \<Rightarrow> nat \<Rightarrow> run_event_envelope" where
  "envelope_for e sequence =
     \<lparr>en_event_id = re_event_id e, en_run_id = re_run_id e, en_sequence = max 1 sequence,
      en_timestamp = re_timestamp e, en_runtime = Runtime_local_dev, en_event = e\<rparr>"

definition event_sequence :: "run_event list \<Rightarrow> run_event \<Rightarrow> nat" where
  "event_sequence es e =
     (case find_index (\<lambda>x. re_event_id x = re_event_id e) es of None \<Rightarrow> 0 | Some i \<Rightarrow> i + 1)"

section \<open>Appending\<close>

text \<open>The write of \<open>appendRunEvent\<close>; \<open>None\<close> is the error of the schema check.\<close>

definition append_run_event ::
    "env \<Rightarrow> event_db \<Rightarrow> run_event \<Rightarrow> (event_db \<times> run_event_envelope) option" where
  "append_run_event E db e =
     (if \<not> run_event_ok E e then None
      else
        (let events = run_events_of db (re_run_id e);
             pushed = (if list_ex (\<lambda>x. re_event_id x = re_event_id e) events then events
                       else events @ [e]);
             sorted = sort_events pushed
         in Some (AList.update (re_run_id e) sorted db, envelope_for e (event_sequence sorted e))))"

section \<open>Reading\<close>

text \<open>\<open>eventsAfter\<close>, on any items with an identifier; an absent or empty cursor, and an unknown one,
  give all of them.\<close>

definition events_after :: "('a \<Rightarrow> string) \<Rightarrow> 'a list \<Rightarrow> string option \<Rightarrow> 'a list" where
  "events_after ident xs cursor =
     (if \<not> truthy cursor then xs
      else (case find_index (\<lambda>x. ident x = the cursor) xs of
              None \<Rightarrow> xs
            | Some i \<Rightarrow> drop (i + 1) xs))"

definition limit_envelopes :: "'a list \<Rightarrow> int option \<Rightarrow> 'a list" where
  "limit_envelopes xs limit = (case limit of None \<Rightarrow> xs | Some n \<Rightarrow> take (nat (max 0 n)) xs)"

definition run_envelopes :: "event_db \<Rightarrow> string \<Rightarrow> run_event_envelope list" where
  "run_envelopes db run_id =
     (let es = sort_events (run_events_of db run_id)
      in map (\<lambda>(e, i). envelope_for e (i + 1)) (zip es [0..<length es]))"

definition list_run_events ::
    "event_db \<Rightarrow> string \<Rightarrow> string option \<Rightarrow> int option \<Rightarrow> run_event_envelope list" where
  "list_run_events db run_id after limit =
     limit_envelopes (events_after en_event_id (run_envelopes db run_id) after) limit"

definition list_run_events_after :: "event_db \<Rightarrow> string \<Rightarrow> string option \<Rightarrow> run_event_envelope list" where
  "list_run_events_after db run_id cursor = list_run_events db run_id (keep_truthy cursor) None"

definition get_latest_event_id :: "event_db \<Rightarrow> string \<Rightarrow> string option" where
  "get_latest_event_id db run_id =
     (let es = list_run_events db run_id None None
      in if es = [] then None else Some (en_event_id (last es)))"

text \<open>The stable sort by descending time stamp: \<open>sort_key\<close> on the reversed list, reversed.\<close>

definition list_recent_run_ids :: "event_db \<Rightarrow> nat \<Rightarrow> string list" where
  "list_recent_run_ids db limit =
     (let stamped = map (\<lambda>(r, es). (r, if es = [] then [] else re_timestamp (last es))) db
      in map fst (take limit (rev (sort_key (\<lambda>(r, t). collation_key t) (rev stamped)))))"

section \<open>Subscribers\<close>

type_synonym subscribers = "(string \<times> nat list) list"

definition subscribe_run_events :: "subscribers \<Rightarrow> string \<Rightarrow> nat \<Rightarrow> subscribers" where
  "subscribe_run_events subs run_id f =
     (let set = nullish (map_of subs run_id) []
      in AList.update run_id (if f \<in> List.set set then set else set @ [f]) subs)"

definition unsubscribe_run_events :: "subscribers \<Rightarrow> string \<Rightarrow> nat \<Rightarrow> subscribers" where
  "unsubscribe_run_events subs run_id f =
     (let set = removeAll f (nullish (map_of subs run_id) [])
      in if set = [] then AList.delete run_id subs else AList.update run_id set subs)"

definition publish_run_event_envelope ::
    "subscribers \<Rightarrow> run_event_envelope \<Rightarrow> (nat \<times> run_event_envelope) list" where
  "publish_run_event_envelope subs env =
     map (\<lambda>f. (f, env)) (nullish (map_of subs (en_run_id env)) [])"

section \<open>The invariant of the store\<close>

definition run_log_ok :: "env \<Rightarrow> string \<Rightarrow> run_event list \<Rightarrow> bool" where
  "run_log_ok E run_id es =
     (sorted (map event_order_key es) \<and> distinct (map re_event_id es) \<and>
      list_all (\<lambda>e. run_event_ok E e \<and> re_run_id e = run_id) es)"

definition event_db_ok :: "env \<Rightarrow> event_db \<Rightarrow> bool" where
  "event_db_ok E db = (distinct (map fst db) \<and> list_all (\<lambda>(r, es). run_log_ok E r es) db)"

lemma sort_events_id: "sorted (map event_order_key es) \<Longrightarrow> sort_events es = es"
  by (simp add: sort_events_def sort_key_id_if_sorted)

lemma set_sort_events [simp]: "set (sort_events es) = set es"
  by (simp add: sort_events_def)

lemma sorted_sort_events [simp]: "sorted (map event_order_key (sort_events es))"
  by (simp add: sort_events_def)

lemma distinct_ids_sort_events [simp]:
  "distinct (map re_event_id (sort_events es)) = distinct (map re_event_id es)"
proof -
  have "mset (map re_event_id (sort_events es)) = mset (map re_event_id es)"
    by (simp add: sort_events_def)
  then show ?thesis by (rule mset_eq_imp_distinct_iff)
qed

lemma event_db_okD:
  assumes "event_db_ok E db"
  shows "run_log_ok E r (run_events_of db r)"
  using assms
  by (cases "map_of db r")
    (auto simp: run_events_of_def event_db_ok_def run_log_ok_def list_all_iff dest!: map_of_SomeD)

lemma append_event:
  assumes "append_run_event E db e = Some (db', env)"
  shows "run_event_ok E e"
    and "run_events_of db' (re_run_id e) =
      sort_events (if list_ex (\<lambda>x. re_event_id x = re_event_id e) (run_events_of db (re_run_id e))
                   then run_events_of db (re_run_id e) else run_events_of db (re_run_id e) @ [e])"
    and "env = envelope_for e (event_sequence (run_events_of db' (re_run_id e)) e)"
  using assms
  by (auto simp: append_run_event_def Let_def run_events_of_def update_conv' split: if_splits)

lemma append_log_ok:
  assumes "event_db_ok E db" and "append_run_event E db e = Some (db', env)"
  shows "run_log_ok E (re_run_id e) (run_events_of db' (re_run_id e))"
proof -
  let ?es = "run_events_of db (re_run_id e)"
  have ok: "run_log_ok E (re_run_id e) ?es" using assms(1) by (rule event_db_okD)
  have new: "re_event_id e \<notin> set (map re_event_id ?es)"
    if "\<not> list_ex (\<lambda>x. re_event_id x = re_event_id e) ?es"
    using that by (auto simp: list_ex_iff)
  have "run_event_ok E e" using assms(2) by (rule append_event(1))
  with ok new show ?thesis
    unfolding append_event(2) [OF assms(2)] run_log_ok_def by (simp add: list_all_iff)
qed

lemma append_other:
  "append_run_event E db e = Some (db', env) \<Longrightarrow> r \<noteq> re_run_id e \<Longrightarrow>
     run_events_of db' r = run_events_of db r"
  by (auto simp: append_run_event_def Let_def run_events_of_def update_conv' split: if_splits)

lemma append_event_db_ok:
  assumes "event_db_ok E db" and "append_run_event E db e = Some (db', env)"
  shows "event_db_ok E db'"
proof -
  have dist: "distinct (map fst db')"
    using assms by (auto simp: append_run_event_def Let_def event_db_ok_def distinct_update split: if_splits)
  moreover have "run_log_ok E r es" if "(r, es) \<in> set db'" for r es
  proof -
    from that dist have es: "run_events_of db' r = es" by (simp add: run_events_of_def)
    show ?thesis
    proof (cases "r = re_run_id e")
      case True
      with append_log_ok [OF assms] es show ?thesis by simp
    next
      case False
      with append_other [OF assms(2)] event_db_okD [OF assms(1), of r] es show ?thesis by simp
    qed
  qed
  ultimately show ?thesis by (auto simp: event_db_ok_def list_all_iff)
qed

lemma append_set:
  assumes "append_run_event E db e = Some (db', env)"
  shows "set (run_events_of db' (re_run_id e)) =
    (if re_event_id e \<in> re_event_id ` set (run_events_of db (re_run_id e))
     then set (run_events_of db (re_run_id e)) else insert e (set (run_events_of db (re_run_id e))))"
  using assms by (auto simp: append_run_event_def Let_def run_events_of_def update_conv'
      list_ex_iff image_iff split: if_splits)

section \<open>Envelopes and pages\<close>

lemma run_envelopes_nth:
  assumes "event_db_ok E db"
  shows "run_envelopes db r =
    map (\<lambda>i. envelope_for (run_events_of db r ! i) (i + 1)) [0..<length (run_events_of db r)]"
proof -
  let ?es = "run_events_of db r"
  have "sort_events ?es = ?es"
    using event_db_okD [OF assms, of r] by (simp add: run_log_ok_def sort_events_id)
  then show ?thesis
    by (auto simp: run_envelopes_def Let_def intro!: nth_equalityI)
qed

lemma run_envelopes_simps:
  assumes "event_db_ok E db"
  shows "map en_event (run_envelopes db r) = run_events_of db r"
    and "map en_sequence (run_envelopes db r) = [1..<length (run_events_of db r) + 1]"
    and "map en_event_id (run_envelopes db r) = map re_event_id (run_events_of db r)"
proof -
  let ?es = "run_events_of db r"
  show events: "map en_event (run_envelopes db r) = ?es"
    unfolding run_envelopes_nth [OF assms] by (simp add: comp_def envelope_for_def map_nth)
  have "map en_sequence (run_envelopes db r) = map Suc [0..<length ?es]"
    unfolding run_envelopes_nth [OF assms] by (simp add: comp_def envelope_for_def)
  then show "map en_sequence (run_envelopes db r) = [1..<length ?es + 1]"
    by (simp add: map_Suc_upt)
  have "map en_event_id (run_envelopes db r) = map re_event_id (map en_event (run_envelopes db r))"
    unfolding run_envelopes_nth [OF assms] by (simp add: comp_def envelope_for_def)
  then show "map en_event_id (run_envelopes db r) = map re_event_id ?es"
    unfolding events .
qed

lemma events_after_split:
  assumes "distinct (map ident xs)" and "xs = us @ x # vs" and "ident x \<noteq> []"
  shows "events_after ident xs (Some (ident x)) = vs"
proof -
  have "find_index (\<lambda>y. ident y = ident x) xs = Some (length us)"
  proof (rule find_index_unique)
    show "\<forall>j < length us. \<not> ident (xs ! j) = ident x"
      using assms(1,2) by (auto simp: nth_append) (metis image_eqI nth_mem)
  qed (use assms in auto)
  with assms show ?thesis by (simp add: events_after_def)
qed

lemma events_after_page:
  assumes "distinct (map ident xs)" and "xs = us @ ps @ vs" and "ps \<noteq> []"
    and "\<forall>x \<in> set xs. ident x \<noteq> []"
  shows "events_after ident xs (Some (ident (last ps))) = vs"
proof (rule events_after_split [OF assms(1)])
  show "xs = (us @ butlast ps) @ last ps # vs"
    using assms(2,3) append_butlast_last_id [of ps] by simp
  show "ident (last ps) \<noteq> []" using assms(2-4) by simp
qed


lemma append_known:
  assumes "event_db_ok E db" and "run_event_ok E e"
    and "re_event_id e \<in> re_event_id ` set (run_events_of db (re_run_id e))"
  shows "\<exists>db' env. append_run_event E db e = Some (db', env) \<and>
    (\<forall>r. run_events_of db' r = run_events_of db r)"
proof -
  let ?es = "run_events_of db (re_run_id e)"
  obtain db' env where a: "append_run_event E db e = Some (db', env)"
    using assms(2) by (simp add: append_run_event_def Let_def)
  have "list_ex (\<lambda>x. re_event_id x = re_event_id e) ?es"
    using assms(3) by (metis (mono_tags, lifting) image_iff list_ex_iff)
  with append_event(2) [OF a] have "run_events_of db' (re_run_id e) = ?es"
    using event_db_okD [OF assms(1), of "re_run_id e"] by (simp add: run_log_ok_def sort_events_id)
  with append_other [OF a] have "run_events_of db' r = run_events_of db r" for r
    by (cases "r = re_run_id e") auto
  with a show ?thesis by blast
qed

lemma append_last:
  assumes "event_db_ok E db" and "append_run_event E db e = Some (db', env)"
    and "re_event_id e \<notin> re_event_id ` set (run_events_of db (re_run_id e))"
    and "\<forall>x \<in> set (run_events_of db (re_run_id e)). event_order_key x \<le> event_order_key e"
  shows "run_events_of db' (re_run_id e) = run_events_of db (re_run_id e) @ [e]"
proof -
  let ?es = "run_events_of db (re_run_id e)"
  have "sorted (map event_order_key (?es @ [e]))"
    using event_db_okD [OF assms(1), of "re_run_id e"] assms(4)
    by (auto simp: run_log_ok_def sorted_append)
  moreover have "\<not> list_ex (\<lambda>x. re_event_id x = re_event_id e) ?es"
    using assms(3) by (metis (mono_tags, lifting) image_eqI list_ex_iff)
  ultimately show ?thesis using append_event(2) [OF assms(2)] by (simp add: sort_events_id)
qed

section \<open>Properties\<close>

text \<open>C23: Appending an event keeps the store well formed (every run's events valid, of that run,
  with distinct ids, sorted by time stamp and id), adds the event unless its id is known,
  leaves the other runs alone, and appending the same event again changes nothing.\<close>
theorem append_run_event_keeps_store:
  assumes "event_db_ok E db" and "append_run_event E db e = Some (db', env)"
  shows "event_db_ok E db' \<and>
    set (run_events_of db' (re_run_id e)) =
      (if re_event_id e \<in> re_event_id ` set (run_events_of db (re_run_id e))
       then set (run_events_of db (re_run_id e)) else insert e (set (run_events_of db (re_run_id e)))) \<and>
    (\<forall>r \<in> - {re_run_id e}. run_events_of db' r = run_events_of db r) \<and>
    (\<exists>db'' env'. append_run_event E db' e = Some (db'', env') \<and>
       (\<forall>r. run_events_of db'' r = run_events_of db' r))"
proof -
  have "re_event_id e \<in> re_event_id ` set (run_events_of db' (re_run_id e))"
    using append_set [OF assms(2)] by auto
  with append_known [OF append_event_db_ok [OF assms] append_event(1) [OF assms(2)]]
  show ?thesis
    using append_event_db_ok [OF assms] append_set [OF assms(2)] append_other [OF assms(2)] by auto
qed

definition sample_event :: "string \<Rightarrow> run_event" where
  "sample_event i =
     \<lparr>re_event_id = i, re_plan_id = ''plan'', re_run_id = ''run'',
      re_timestamp = ''1'', re_body = Run_started\<rparr>"

definition event_env :: env where
  "event_env = \<lparr>sha256_hex = id, hmac_sha256_hex = (\<lambda>_. id), datetime_ok = (\<lambda>_. True),
     date_parse = (\<lambda>_. None), zod_issues = (\<lambda>_. [])\<rparr>"

definition sample_db :: event_db where
  "sample_db = [(''run'', [sample_event ''a'', sample_event ''b''])]"

lemma sample_keys:
  "collation_key ''1'' = ([49], [0])" "collation_key ''a'' = ([97], [0])"
  "collation_key ''b'' = ([98], [0])" "collation_key ''c'' = ([99], [0])"
  by (simp_all add: collation_key_def primary_weight_def collation_table_def case_weight_def Let_def)

lemmas sample_event_simps = sample_event_def event_env_def sample_db_def event_order_key_def sample_keys

lemma sample_db_ok: "event_db_ok event_env sample_db"
  by (simp add: event_db_ok_def run_log_ok_def run_event_ok_def sample_event_simps)

lemma sample_append:
  "append_run_event event_env sample_db (sample_event ''c'') =
     Some ([(''run'', [sample_event ''a'', sample_event ''b'', sample_event ''c''])],
           envelope_for (sample_event ''c'') 3)"
  by (simp add: append_run_event_def run_event_ok_def run_events_of_def sort_events_def
      event_sequence_def sample_event_simps numeral_3_eq_3)

theorem append_run_event_keeps_store_witness:
  "event_db_ok event_env [(''run'', [sample_event ''a'', sample_event ''b'', sample_event ''c''])]"
  using append_run_event_keeps_store [OF sample_db_ok sample_append] by blast

text \<open>Reading with a cursor is a partition of the log: a reader that has seen the events up to
  one and asks for the events after it gets exactly the rest, numbered by their positions; a
  limit cuts the answer to its first events; an event that comes last in the order is what a
  reader that has seen everything gets next.\<close>
lemma cursor_reads_the_rest:
  assumes "event_db_ok E db" and "run_events_of db r = us @ seen @ rest" and "seen \<noteq> []"
  shows "map en_event (list_run_events_after db r (Some (re_event_id (last seen)))) = rest \<and>
    map en_sequence (list_run_events_after db r (Some (re_event_id (last seen)))) =
      [length us + length seen + 1..<length (run_events_of db r) + 1] \<and>
    (\<forall>n. list_run_events db r (Some (re_event_id (last seen))) (Some (int n)) =
       take n (list_run_events_after db r (Some (re_event_id (last seen)))))"
proof -
  let ?k = "length (us @ seen)"
  let ?es = "run_envelopes db r"
  note simps = run_envelopes_simps [OF assms(1), of r]
  have log: "run_log_ok E r (run_events_of db r)" using assms(1) by (rule event_db_okD)
  have last_seen: "last seen \<in> set (run_events_of db r)" using assms(2,3) by simp
  then have id: "re_event_id (last seen) \<noteq> []"
    using log by (auto simp: run_log_ok_def list_all_iff run_event_ok_def)
  have len: "length ?es = length (run_events_of db r)" using simps(1) by (metis length_map)
  have last: "en_event_id (last (take ?k ?es)) = re_event_id (last seen)"
  proof -
    have "map en_event_id (take ?k ?es) = map re_event_id (us @ seen)"
      using simps(3) assms(2) by (metis append_assoc append_eq_conv_conj length_map map_append take_map)
    then show ?thesis
      using assms(3) by (metis append_is_Nil_conv last_appendR last_map map_is_Nil_conv)
  qed
  have "events_after en_event_id ?es (Some (en_event_id (last (take ?k ?es)))) = drop ?k ?es"
  proof (rule events_after_page [of _ _ "[]"])
    show "distinct (map en_event_id ?es)" using log simps(3) by (simp add: run_log_ok_def)
    show "\<forall>x \<in> set ?es. en_event_id x \<noteq> []"
    proof
      fix x assume "x \<in> set ?es"
      then have "en_event_id x \<in> set (map re_event_id (run_events_of db r))"
        using simps(3) by (metis image_eqI list.set_map)
      with log show "en_event_id x \<noteq> []"
        by (auto simp: run_log_ok_def list_all_iff run_event_ok_def)
    qed
    show "take ?k ?es \<noteq> []" using assms(2,3) len by auto
  qed simp
  then have after: "events_after en_event_id ?es (Some (re_event_id (last seen))) = drop ?k ?es"
    unfolding last .
  have "map en_event (drop ?k ?es) = rest"
    unfolding drop_map [symmetric] simps(1) using assms(2) by simp
  moreover have "map en_sequence (drop ?k ?es) = [?k + 1..<length (run_events_of db r) + 1]"
    unfolding drop_map [symmetric] simps(2) drop_upt by (metis add.commute)
  ultimately show ?thesis
    using after id by (simp add: list_run_events_after_def list_run_events_def limit_envelopes_def)
qed

lemma cursor_reads_the_rest_witness:
  "map en_event (list_run_events_after sample_db ''run'' (Some ''a'')) = [sample_event ''b'']"
  using cursor_reads_the_rest [OF sample_db_ok, of "''run''" "[]" "[sample_event ''a'']" "[sample_event ''b'']"]
  by (simp add: sample_db_def run_events_of_def sample_event_def)

text \<open>A new event that follows all events of its run in the order is appended at the end, gets
  the next sequence number and is exactly what a reader at the end of the log is given.\<close>
lemma append_in_order:
  assumes "event_db_ok E db" and "append_run_event E db e = Some (db', env)"
    and "re_event_id e \<notin> re_event_id ` set (run_events_of db (re_run_id e))"
    and "\<forall>x \<in> set (run_events_of db (re_run_id e)). event_order_key x \<le> event_order_key e"
  shows "run_events_of db' (re_run_id e) = run_events_of db (re_run_id e) @ [e] \<and>
    en_sequence env = length (run_events_of db (re_run_id e)) + 1 \<and>
    get_latest_event_id db' (re_run_id e) = Some (re_event_id e)"
proof -
  let ?es = "run_events_of db (re_run_id e)"
  have es': "run_events_of db' (re_run_id e) = ?es @ [e]" using assms by (rule append_last)
  have "find_index (\<lambda>x. re_event_id x = re_event_id e) (?es @ [e]) = Some (length ?es)"
  proof (rule find_index_unique)
    show "\<forall>j < length ?es. \<not> re_event_id ((?es @ [e]) ! j) = re_event_id e"
      using assms(3) by (auto simp: nth_append) (metis image_eqI nth_mem)
  qed auto
  then have "en_sequence env = length ?es + 1"
    using append_event(3) [OF assms(2)] es' by (simp add: event_sequence_def envelope_for_def)
  moreover have "run_envelopes db' (re_run_id e) \<noteq> []"
    and "map en_event_id (run_envelopes db' (re_run_id e)) = map re_event_id (?es @ [e])"
    using run_envelopes_simps [OF append_event_db_ok [OF assms(1,2)], of "re_run_id e"] es'
    by auto
  then have "get_latest_event_id db' (re_run_id e) = Some (re_event_id e)"
    by (simp add: get_latest_event_id_def list_run_events_def limit_envelopes_def events_after_def)
      (metis last_map last_snoc)
  ultimately show ?thesis using es' by blast
qed

lemma append_in_order_witness:
  "get_latest_event_id [(''run'', [sample_event ''a'', sample_event ''b'', sample_event ''c''])] ''run'' =
     Some ''c''"
proof -
  have order: "\<forall>x \<in> set (run_events_of sample_db (re_run_id (sample_event ''c''))).
      event_order_key x \<le> event_order_key (sample_event ''c'')"
    by (simp add: run_events_of_def sample_event_simps)
  have new: "re_event_id (sample_event ''c'') \<notin>
      re_event_id ` set (run_events_of sample_db (re_run_id (sample_event ''c'')))"
    by (simp add: run_events_of_def sample_event_simps)
  from append_in_order [OF sample_db_ok sample_append new order]
  show ?thesis by (simp add: sample_event_def)
qed

end
