(* ===== verification/Run_Control.thy ===== *)
theory Run_Control
  imports Planfile_Schema Keyed_Store Run_Event_Store
begin

text \<open>
  \<open>runs/node-attempt.ts\<close>, \<open>runs/node-replay-policy.ts\<close>, \<open>runs/run.ts\<close> and \<open>runs/run-control.ts\<close>:
  attempts at a node and their replay modes, the policy that says which replay a node admits,
  and the in-memory store of run executions, continuations, attempts and interface states.
\<close>

section \<open>Replay modes\<close>

datatype replay_mode =
    RM_initial | RM_reuse_artifacts | RM_refresh_artifacts | RM_force_new_idempotency_key

fun replay_mode_str :: "replay_mode \<Rightarrow> string" where
  "replay_mode_str RM_initial = ''initial''"
| "replay_mode_str RM_reuse_artifacts = ''reuse_artifacts''"
| "replay_mode_str RM_refresh_artifacts = ''refresh_artifacts''"
| "replay_mode_str RM_force_new_idempotency_key = ''force_new_idempotency_key''"

text \<open>\<open>RetryReplayMode.parse\<close> on a string: every mode but the initial one.\<close>

definition retry_replay_mode_parse :: "string \<Rightarrow> replay_mode option" where
  "retry_replay_mode_parse s =
     List.find (\<lambda>m. s = replay_mode_str m)
       [RM_reuse_artifacts, RM_refresh_artifacts, RM_force_new_idempotency_key]"

definition api_replay_mode :: "string \<Rightarrow> replay_mode option" where
  "api_replay_mode value =
     (if value = ''reuse-artifacts'' then Some RM_reuse_artifacts
      else if value = ''refresh-artifacts'' then Some RM_refresh_artifacts
      else if value = ''force-new-idempotency-key'' then Some RM_force_new_idempotency_key
      else retry_replay_mode_parse value)"

definition cli_replay_mode :: "replay_mode \<Rightarrow> string" where
  "cli_replay_mode m = map (\<lambda>c. if c = CHR ''_'' then CHR ''-'' else c) (replay_mode_str m)"

section \<open>The replay policy\<close>

record replay_decision =
  rd_ok :: bool
  rd_reason :: "string option"
  rd_requires_approval :: "bool option"

definition side_effecting :: "plan_node \<Rightarrow> bool" where
  "side_effecting n =
     (n_risk_level n = Risk_write \<or> n_risk_level n = Risk_external_side_effect \<or>
      n_risk_level n = Risk_destructive)"

definition evaluate_node_replay_policy :: "plan_node \<Rightarrow> replay_mode option \<Rightarrow> replay_decision" where
  "evaluate_node_replay_policy n mode =
     (case mode of
        None \<Rightarrow>
          \<lparr>rd_ok = False,
           rd_reason = Some ''Replay mode is required. Available modes: reuse_artifacts, refresh_artifacts, force_new_idempotency_key.'',
           rd_requires_approval = None\<rparr>
      | Some RM_reuse_artifacts \<Rightarrow>
          \<lparr>rd_ok = True,
           rd_reason = (if side_effecting n
             then Some ''Artifacts may be reused without re-executing side effects.'' else None),
           rd_requires_approval = None\<rparr>
      | Some RM_refresh_artifacts \<Rightarrow>
          if n_risk_level n = Risk_read \<and>
             node_kind_str (n_kind n) \<in> set [''inspect'', ''research'', ''fetch'', ''extract'', ''analyze'', ''frame'']
          then \<lparr>rd_ok = True, rd_reason = None, rd_requires_approval = None\<rparr>
          else \<lparr>rd_ok = False,
                rd_reason = Some ''refresh_artifacts is only allowed for read/fetch/extract-style nodes.'',
                rd_requires_approval = None\<rparr>
      | Some RM_force_new_idempotency_key \<Rightarrow>
          if side_effecting n
          then \<lparr>rd_ok = True,
                rd_reason = Some ''Re-executing side-effecting work requires approval.'',
                rd_requires_approval = Some True\<rparr>
          else \<lparr>rd_ok = True, rd_reason = None, rd_requires_approval = None\<rparr>
      | Some RM_initial \<Rightarrow>
          \<lparr>rd_ok = False, rd_reason = Some (''Unsupported replay mode: '' @ replay_mode_str RM_initial),
           rd_requires_approval = None\<rparr>)"

section \<open>Records\<close>

datatype attempt_status = At_running | At_completed | At_failed | At_yielded | At_requires_approval

record node_attempt =
  at_attempt_id :: string
  at_run_id :: string
  at_plan_id :: string
  at_node_id :: string
  at_attempt_number :: nat
  at_replay_mode :: replay_mode
  at_idempotency_key :: string
  at_previous_attempt_id :: "string option"
  at_input_artifact_refs :: "string list"
  at_output_artifact_refs :: "string list"
  at_status :: attempt_status
  at_policy_report_ref :: "string option"
  at_started_at :: string
  at_completed_at :: "string option"

definition node_attempt_ok :: "env \<Rightarrow> node_attempt \<Rightarrow> bool" where
  "node_attempt_ok E a =
     (nonempty (at_attempt_id a) \<and> nonempty (at_run_id a) \<and> nonempty (at_plan_id a) \<and>
      nonempty (at_node_id a) \<and> 1 \<le> at_attempt_number a \<and> nonempty (at_idempotency_key a) \<and>
      opt_ok nonempty (at_previous_attempt_id a) \<and> list_all nonempty (at_input_artifact_refs a) \<and>
      list_all nonempty (at_output_artifact_refs a) \<and> opt_ok nonempty (at_policy_report_ref a) \<and>
      datetime_ok E (at_started_at a) \<and> opt_ok (datetime_ok E) (at_completed_at a))"

datatype run_status =
    RS_queued | RS_running | RS_requires_approval | RS_yielded | RS_failed | RS_completed | RS_cancelled

fun run_status_str :: "run_status \<Rightarrow> string" where
  "run_status_str RS_queued = ''queued''"
| "run_status_str RS_running = ''running''"
| "run_status_str RS_requires_approval = ''requires_approval''"
| "run_status_str RS_yielded = ''yielded''"
| "run_status_str RS_failed = ''failed''"
| "run_status_str RS_completed = ''completed''"
| "run_status_str RS_cancelled = ''cancelled''"

declare run_status_str.simps [enum_simps] replay_mode_str.simps [enum_simps]

text \<open>The stored plan is unchecked JSON in the code (\<open>z.unknown()\<close>); here it is a planfile or a
  value that is not one (\<open>None\<close>).\<close>

record run_execution =
  rx_run_id :: string
  rx_plan_id :: string
  rx_plan_digest :: string
  rx_plan_title :: "string option"
  rx_runtime :: run_runtime
  rx_profile_name :: "string option"
  rx_status :: run_status
  rx_planfile :: "planfile option"
  rx_hatchet_run_id :: "string option"
  rx_output_dir :: "string option"
  rx_last_continuation_id :: "string option"
  rx_created_at :: string
  rx_updated_at :: string
  rx_started_at :: "string option"
  rx_completed_at :: "string option"
  rx_active_node_id :: "string option"
  rx_artifact_refs :: "string list"
  rx_approval_refs :: "string list"
  rx_model_call_refs :: "string list"
  rx_error_refs :: "string list"

definition run_execution_ok :: "env \<Rightarrow> run_execution \<Rightarrow> bool" where
  "run_execution_ok E r =
     (nonempty (rx_run_id r) \<and> nonempty (rx_plan_id r) \<and> nonempty (rx_plan_digest r) \<and>
      opt_ok nonempty (rx_plan_title r) \<and> opt_ok nonempty (rx_profile_name r) \<and>
      opt_ok nonempty (rx_hatchet_run_id r) \<and> opt_ok nonempty (rx_output_dir r) \<and>
      opt_ok nonempty (rx_last_continuation_id r) \<and> datetime_ok E (rx_created_at r) \<and>
      datetime_ok E (rx_updated_at r) \<and> opt_ok (datetime_ok E) (rx_started_at r) \<and>
      opt_ok (datetime_ok E) (rx_completed_at r) \<and> opt_ok nonempty (rx_active_node_id r) \<and>
      list_all nonempty (rx_artifact_refs r) \<and> list_all nonempty (rx_approval_refs r) \<and>
      list_all nonempty (rx_model_call_refs r) \<and> list_all nonempty (rx_error_refs r))"

datatype continuation_kind = Cont_resume | Cont_retry | Cont_cancel
datatype continuation_status = CS_queued | CS_running | CS_completed | CS_failed

record run_continuation =
  rc_continuation_id :: string
  rc_run_id :: string
  rc_kind :: continuation_kind
  rc_status :: continuation_status
  rc_node_id :: "string option"
  rc_replay_mode :: "replay_mode option"
  rc_hatchet_run_id :: "string option"
  rc_created_at :: string
  rc_updated_at :: string

definition run_continuation_ok :: "env \<Rightarrow> run_continuation \<Rightarrow> bool" where
  "run_continuation_ok E c =
     (nonempty (rc_continuation_id c) \<and> nonempty (rc_run_id c) \<and> opt_ok nonempty (rc_node_id c) \<and>
      rc_replay_mode c \<noteq> Some RM_initial \<and> opt_ok nonempty (rc_hatchet_run_id c) \<and>
      datetime_ok E (rc_created_at c) \<and> datetime_ok E (rc_updated_at c))"

record run_ui_state =
  ru_run_id :: string
  ru_session_key :: string
  ru_active_tab :: "string option"
  ru_selected_node_id :: "string option"
  ru_selected_artifact_id :: "string option"
  ru_selected_approval_id :: "string option"
  ru_selected_model_call_id :: "string option"
  ru_mode :: "string option"
  ru_last_viewed_event_id :: "string option"
  ru_updated_at :: string

definition run_ui_state_ok :: "env \<Rightarrow> run_ui_state \<Rightarrow> bool" where
  "run_ui_state_ok E u =
     (nonempty (ru_run_id u) \<and> nonempty (ru_session_key u) \<and> opt_ok nonempty (ru_active_tab u) \<and>
      opt_ok nonempty (ru_selected_node_id u) \<and> opt_ok nonempty (ru_selected_artifact_id u) \<and>
      opt_ok nonempty (ru_selected_approval_id u) \<and> opt_ok nonempty (ru_selected_model_call_id u) \<and>
      opt_ok nonempty (ru_mode u) \<and> opt_ok nonempty (ru_last_viewed_event_id u) \<and>
      datetime_ok E (ru_updated_at u))"

section \<open>The store\<close>

record control_db =
  cb_executions :: "(string \<times> run_execution) list"
  cb_continuations :: "(string \<times> run_continuation) list"
  cb_attempts :: "(string \<times> node_attempt list) list"
  cb_ui_states :: "(string \<times> run_ui_state) list"

definition empty_control_db :: control_db where
  "empty_control_db = \<lparr>cb_executions = [], cb_continuations = [], cb_attempts = [], cb_ui_states = []\<rparr>"

definition record_run_execution :: "env \<Rightarrow> control_db \<Rightarrow> run_execution \<Rightarrow> control_db option" where
  "record_run_execution E db r =
     map_option (\<lambda>m. db\<lparr>cb_executions := m\<rparr>)
       (map_put (run_execution_ok E) rx_run_id (cb_executions db) r)"

definition get_run_execution :: "control_db \<Rightarrow> string \<Rightarrow> run_execution option" where
  "get_run_execution db run_id = map_of (cb_executions db) run_id"

definition record_run_continuation :: "env \<Rightarrow> control_db \<Rightarrow> run_continuation \<Rightarrow> control_db option" where
  "record_run_continuation E db c =
     map_option (\<lambda>m. db\<lparr>cb_continuations := m\<rparr>)
       (map_put (run_continuation_ok E) rc_continuation_id (cb_continuations db) c)"

definition get_run_continuation :: "control_db \<Rightarrow> string \<Rightarrow> run_continuation option" where
  "get_run_continuation db i = map_of (cb_continuations db) i"

definition run_attempts :: "control_db \<Rightarrow> string \<Rightarrow> node_attempt list" where
  "run_attempts db run_id = nullish (map_of (cb_attempts db) run_id) []"

definition record_node_attempt :: "env \<Rightarrow> control_db \<Rightarrow> node_attempt \<Rightarrow> control_db option" where
  "record_node_attempt E db a =
     (if \<not> node_attempt_ok E a then None
      else Some (db\<lparr>cb_attempts := AList.update (at_run_id a)
        (filter (\<lambda>x. at_attempt_id x \<noteq> at_attempt_id a) (run_attempts db (at_run_id a)) @ [a])
        (cb_attempts db)\<rparr>))"

definition list_node_attempts :: "control_db \<Rightarrow> string \<Rightarrow> string option \<Rightarrow> node_attempt list" where
  "list_node_attempts db run_id node_id =
     (let items = run_attempts db run_id
      in if truthy node_id then filter (\<lambda>a. at_node_id a = the node_id) items else items)"

definition ui_state_key :: "string \<Rightarrow> string \<Rightarrow> string" where
  "ui_state_key run_id session_key = run_id @ '':'' @ session_key"

definition record_run_ui_state :: "env \<Rightarrow> control_db \<Rightarrow> run_ui_state \<Rightarrow> control_db option" where
  "record_run_ui_state E db u =
     map_option (\<lambda>m. db\<lparr>cb_ui_states := m\<rparr>)
       (map_put (run_ui_state_ok E) (\<lambda>u. ui_state_key (ru_run_id u) (ru_session_key u)) (cb_ui_states db) u)"

definition get_run_ui_state :: "control_db \<Rightarrow> string \<Rightarrow> string \<Rightarrow> run_ui_state option" where
  "get_run_ui_state db run_id session_key = map_of (cb_ui_states db) (ui_state_key run_id session_key)"

interpretation executions:
  empty_keyed_store "record_run_execution E" get_run_execution rx_run_id "run_execution_ok E"
    empty_control_db for E
  by unfold_locales
    (auto simp: record_run_execution_def get_run_execution_def empty_control_db_def map_put_def
      update_conv' split: if_splits)

interpretation continuations:
  empty_keyed_store "record_run_continuation E" get_run_continuation rc_continuation_id
    "run_continuation_ok E" empty_control_db for E
  by unfold_locales
    (auto simp: record_run_continuation_def get_run_continuation_def empty_control_db_def map_put_def
      update_conv' split: if_splits)

interpretation ui_states:
  empty_keyed_store "record_run_ui_state E" "\<lambda>db k. map_of (cb_ui_states db) k"
    "\<lambda>u. ui_state_key (ru_run_id u) (ru_session_key u)" "run_ui_state_ok E" empty_control_db for E
  by unfold_locales
    (auto simp: record_run_ui_state_def empty_control_db_def map_put_def update_conv' split: if_splits)

text \<open>The four maps are independent.\<close>

lemma control_db_frames:
  "record_run_execution E db r = Some db' \<Longrightarrow>
     cb_continuations db' = cb_continuations db \<and> cb_attempts db' = cb_attempts db \<and>
     cb_ui_states db' = cb_ui_states db"
  "record_run_continuation E db c = Some db' \<Longrightarrow>
     cb_executions db' = cb_executions db \<and> cb_attempts db' = cb_attempts db \<and>
     cb_ui_states db' = cb_ui_states db"
  "record_node_attempt E db a = Some db' \<Longrightarrow>
     cb_executions db' = cb_executions db \<and> cb_continuations db' = cb_continuations db \<and>
     cb_ui_states db' = cb_ui_states db"
  by (auto simp: record_run_execution_def record_run_continuation_def record_node_attempt_def
      split: if_splits)

lemma record_node_attempt_lists:
  assumes "record_node_attempt E db a = Some db'"
  shows "run_attempts db' r =
    (if r = at_run_id a
     then filter (\<lambda>x. at_attempt_id x \<noteq> at_attempt_id a) (run_attempts db r) @ [a]
     else run_attempts db r)"
proof -
  have "db' = db\<lparr>cb_attempts := AList.update (at_run_id a)
      (filter (\<lambda>x. at_attempt_id x \<noteq> at_attempt_id a) (run_attempts db (at_run_id a)) @ [a])
      (cb_attempts db)\<rparr>"
    using assms by (simp add: record_node_attempt_def split: if_splits)
  then show ?thesis by (simp add: run_attempts_def update_conv')
qed

section \<open>Properties\<close>

lemma cli_spelling:
  "cli_replay_mode RM_initial = ''initial''"
  "cli_replay_mode RM_reuse_artifacts = ''reuse-artifacts''"
  "cli_replay_mode RM_refresh_artifacts = ''refresh-artifacts''"
  "cli_replay_mode RM_force_new_idempotency_key = ''force-new-idempotency-key''"
  by (simp_all add: cli_replay_mode_def)

lemma six_words:
  assumes "distinct [a, b, c, a', b', c']"
  shows "((if s = a then Some x else if s = b then Some y else if s = c then Some z
           else if s = a' then Some x else if s = b' then Some y else if s = c' then Some z
           else None) = Some m) \<longleftrightarrow>
     ((s = a \<or> s = a') \<and> x = m) \<or> ((s = b \<or> s = b') \<and> y = m) \<or> ((s = c \<or> s = c') \<and> z = m)"
  using assms by auto

lemma spellings_distinct:
  "distinct [''reuse-artifacts'', ''refresh-artifacts'', ''force-new-idempotency-key'',
     ''reuse_artifacts'', ''refresh_artifacts'', ''force_new_idempotency_key'']"
  by simp

lemma api_spelling:
  "api_replay_mode s = Some m \<longleftrightarrow>
     ((s = ''reuse-artifacts'' \<or> s = ''reuse_artifacts'') \<and> RM_reuse_artifacts = m) \<or>
     ((s = ''refresh-artifacts'' \<or> s = ''refresh_artifacts'') \<and> RM_refresh_artifacts = m) \<or>
     ((s = ''force-new-idempotency-key'' \<or> s = ''force_new_idempotency_key'') \<and>
       RM_force_new_idempotency_key = m)"
  unfolding api_replay_mode_def retry_replay_mode_parse_def find.simps replay_mode_str.simps
  by (rule six_words [OF spellings_distinct])

text \<open>The command line and the API agree on replay modes: the API reads the spelling the command
  line prints, and the spelling of the schema, as the same mode; the initial mode and every
  other string are refused.\<close>
lemma replay_mode_roundtrip:
  "(api_replay_mode (cli_replay_mode m) = (if m = RM_initial then None else Some m)) \<and>
   (api_replay_mode (replay_mode_str m) = (if m = RM_initial then None else Some m)) \<and>
   (api_replay_mode s = Some m \<longleftrightarrow> m \<noteq> RM_initial \<and> s \<in> {cli_replay_mode m, replay_mode_str m})"
proof (intro conjI)
  show "api_replay_mode (cli_replay_mode m) = (if m = RM_initial then None else Some m)"
    and "api_replay_mode (replay_mode_str m) = (if m = RM_initial then None else Some m)"
    by (cases m; simp add: cli_spelling api_replay_mode_def retry_replay_mode_parse_def)+
  show "api_replay_mode s = Some m \<longleftrightarrow> m \<noteq> RM_initial \<and> s \<in> {cli_replay_mode m, replay_mode_str m}"
    unfolding api_spelling by (cases m) (simp_all add: cli_spelling)
qed

text \<open>The replay policy: no mode and the initial mode are refused; reusing artifacts is always
  allowed and never asks for approval; a refresh is allowed exactly for read-only inspection,
  analysis and frame nodes; a new idempotency key is always allowed and asks for approval
  exactly when the node has side effects (every risk but read).\<close>
lemma replay_policy_table:
  "rd_ok (evaluate_node_replay_policy n mode) =
     (mode \<in> {Some RM_reuse_artifacts, Some RM_force_new_idempotency_key} \<or>
      (mode = Some RM_refresh_artifacts \<and> n_risk_level n = Risk_read \<and>
       n_kind n \<in> {K_frame, K_inspect, K_analyze})) \<and>
   (rd_requires_approval (evaluate_node_replay_policy n mode) =
     (if mode = Some RM_force_new_idempotency_key \<and> n_risk_level n \<noteq> Risk_read then Some True else None))"
proof -
  have kind: "node_kind_str k \<in> set [''inspect'', ''research'', ''fetch'', ''extract'', ''analyze'', ''frame''] \<longleftrightarrow>
      k \<in> {K_frame, K_inspect, K_analyze}" for k
    by (cases k) simp_all
  have side: "side_effecting n \<longleftrightarrow> n_risk_level n \<noteq> Risk_read"
    by (cases "n_risk_level n") (simp_all add: side_effecting_def)
  show ?thesis
  proof (cases mode)
    case (Some m)
    then show ?thesis
      unfolding evaluate_node_replay_policy_def kind side by (cases m) simp_all
  qed (simp add: evaluate_node_replay_policy_def)
qed

text \<open>The run-control store returns what was last written: a recorded execution is read back
  under its run id, other runs and the continuations and attempts are untouched; a recorded
  attempt replaces the attempt with its id, comes last, and leaves the others in order.\<close>
lemma run_control_store_reads_back:
  assumes "record_run_execution E db r = Some db1" and "record_node_attempt E db a = Some db2"
  shows "get_run_execution db1 k = (if k = rx_run_id r then Some r else get_run_execution db k) \<and>
    get_run_continuation db1 k = get_run_continuation db k \<and> run_attempts db1 k = run_attempts db k \<and>
    run_attempts db2 k =
      (if k = at_run_id a
       then filter (\<lambda>x. at_attempt_id x \<noteq> at_attempt_id a) (run_attempts db k) @ [a]
       else run_attempts db k) \<and>
    get_run_execution db2 k = get_run_execution db k"
  using executions.get_put [OF assms(1), of k] control_db_frames(1) [OF assms(1)]
    record_node_attempt_lists [OF assms(2), of k] control_db_frames(3) [OF assms(2)]
  by (simp add: get_run_continuation_def run_attempts_def get_run_execution_def)

definition sample_execution :: "string \<Rightarrow> run_execution" where
  "sample_execution i =
     \<lparr>rx_run_id = i, rx_plan_id = ''plan'', rx_plan_digest = ''d'', rx_plan_title = None,
      rx_runtime = Runtime_local_dev, rx_profile_name = None, rx_status = RS_queued,
      rx_planfile = None, rx_hatchet_run_id = None, rx_output_dir = None,
      rx_last_continuation_id = None, rx_created_at = ''1'', rx_updated_at = ''1'',
      rx_started_at = None, rx_completed_at = None, rx_active_node_id = None, rx_artifact_refs = [],
      rx_approval_refs = [], rx_model_call_refs = [], rx_error_refs = []\<rparr>"

definition sample_attempt :: "string \<Rightarrow> node_attempt" where
  "sample_attempt i =
     \<lparr>at_attempt_id = i, at_run_id = ''run'', at_plan_id = ''plan'', at_node_id = ''n'',
      at_attempt_number = 1, at_replay_mode = RM_initial, at_idempotency_key = ''k'',
      at_previous_attempt_id = None, at_input_artifact_refs = [], at_output_artifact_refs = [],
      at_status = At_running, at_policy_report_ref = None, at_started_at = ''1'', at_completed_at = None\<rparr>"

lemma run_control_store_reads_back_witness:
  "\<exists>db1 db2. record_run_execution event_env empty_control_db (sample_execution ''run'') = Some db1 \<and>
     record_node_attempt event_env empty_control_db (sample_attempt ''a'') = Some db2 \<and>
     get_run_execution db1 ''run'' = Some (sample_execution ''run'') \<and>
     run_attempts db2 ''run'' = [sample_attempt ''a'']"
proof -
  have "run_execution_ok event_env (sample_execution ''run'')"
    by (simp add: run_execution_ok_def sample_execution_def event_env_def)
  then obtain db1 where db1: "record_run_execution event_env empty_control_db (sample_execution ''run'') = Some db1"
    using executions.put_ok by blast
  have "node_attempt_ok event_env (sample_attempt ''a'')"
    by (simp add: node_attempt_ok_def sample_attempt_def event_env_def)
  then obtain db2 where db2: "record_node_attempt event_env empty_control_db (sample_attempt ''a'') = Some db2"
    by (simp add: record_node_attempt_def)
  from run_control_store_reads_back [OF db1 db2, of "''run''"]
  have "get_run_execution db1 ''run'' = Some (sample_execution ''run'')"
    and "run_attempts db2 ''run'' = [sample_attempt ''a'']"
    by (simp_all add: sample_execution_def sample_attempt_def run_attempts_def empty_control_db_def)
  with db1 db2 show ?thesis by blast
qed

end
