(* ===== verification/Sdk_Registry.thy ===== *)
theory Sdk_Registry
  imports Policy_Gate
begin

text \<open>
  The capability SDK (\<open>packages/capability-sdk/src\<close>): descriptors with their digest, packs, the
  registry and the executor. The code of a capability and its two zod schemas are not part of the
  SDK: a definition carries them as functions. A schema maps a value to the message of its error
  or to the parsed value; running a capability yields the artifacts it handed to
  \<open>recordArtifact\<close>, in order, and its outcome.
\<close>

section \<open>Errors\<close>

datatype thrown = Zod_error | Sdk_error string string | Plain_error string

section \<open>Descriptors, definitions and packs\<close>

datatype side_effect_kind =
    SE_none | SE_filesystem_read | SE_filesystem_write | SE_network_read | SE_network_write
  | SE_process_execution | SE_cloud_control_plane | SE_repository_mutation | SE_ticket_mutation
  | SE_message_send

fun side_effect_kind_str :: "side_effect_kind \<Rightarrow> string" where
  "side_effect_kind_str SE_none = ''none''"
| "side_effect_kind_str SE_filesystem_read = ''filesystem_read''"
| "side_effect_kind_str SE_filesystem_write = ''filesystem_write''"
| "side_effect_kind_str SE_network_read = ''network_read''"
| "side_effect_kind_str SE_network_write = ''network_write''"
| "side_effect_kind_str SE_process_execution = ''process_execution''"
| "side_effect_kind_str SE_cloud_control_plane = ''cloud_control_plane''"
| "side_effect_kind_str SE_repository_mutation = ''repository_mutation''"
| "side_effect_kind_str SE_ticket_mutation = ''ticket_mutation''"
| "side_effect_kind_str SE_message_send = ''message_send''"

datatype idempotency_mode = Idem_required | Idem_recommended | Idem_not_applicable

fun idempotency_mode_str :: "idempotency_mode \<Rightarrow> string" where
  "idempotency_mode_str Idem_required = ''required''"
| "idempotency_mode_str Idem_recommended = ''recommended''"
| "idempotency_mode_str Idem_not_applicable = ''not_applicable''"

datatype runtime_kind =
    RK_local_trusted | RK_remote_http | RK_mcp_compatible | RK_mock | RK_external_adapter
datatype trust_level = Trust_trusted_core | Trust_trusted_local | Trust_review_required | Trust_experimental

record sdk_descriptor =
  sd_capability_id :: string
  sd_pack_id :: string
  sd_name :: string
  sd_description :: string
  sd_input_schema :: json
  sd_output_schema :: json
  sd_risk_level :: risk_level
  sd_side_effect_kind :: side_effect_kind
  sd_requires_approval :: bool
  sd_idempotency_mode :: idempotency_mode
  sd_timeout_ms :: nat
  sd_max_attempts :: nat
  sd_scopes :: "string list"
  sd_tags :: "string list"
  sd_examples :: "json list"
  sd_capability_digest :: string

record pack_manifest =
  mf_pack_id :: string
  mf_name :: string
  mf_version :: string
  mf_description :: string
  mf_publisher :: string
  mf_license :: string
  mf_runtime_kind :: runtime_kind
  mf_trust_level :: trust_level
  mf_required_scopes :: "string list"
  mf_provided_scopes :: "string list"
  mf_default_policy :: "(string \<times> json) list"
  mf_open_cot_alignment :: "(string \<times> json) list"

definition sdk_descriptor_ok :: "sdk_descriptor \<Rightarrow> bool" where
  "sdk_descriptor_ok d =
     (nonempty (sd_capability_id d) \<and> nonempty (sd_pack_id d) \<and> nonempty (sd_name d) \<and>
      1 \<le> sd_timeout_ms d \<and> 1 \<le> sd_max_attempts d \<and> is_hex64 (sd_capability_digest d))"

definition pack_manifest_ok :: "pack_manifest \<Rightarrow> bool" where
  "pack_manifest_ok m =
     (nonempty (mf_pack_id m) \<and> nonempty (mf_name m) \<and> nonempty (mf_version m) \<and>
      nonempty (mf_publisher m) \<and> nonempty (mf_license m))"

text \<open>The context a capability runs in (\<open>PackExecutionContext\<close>), without its callbacks.\<close>

record exec_context =
  xc_delegation :: delegation_context
  xc_snapshot_id :: string
  xc_project_id :: string
  xc_workspace_id :: string
  xc_task_run_id :: string
  xc_trace_id :: string
  xc_idempotency_key :: string
  xc_policy_decision :: policy_result
  xc_bounds :: execution_bounds
  xc_timeout_ms :: nat
  xc_runtime_config :: "(string \<times> json) list"

text \<open>A capability throws a \<open>CapabilitySdkError\<close> (code and message), another \<open>Error\<close> (its message) or
  some other value.\<close>

datatype exec_throw = Throw_sdk string string | Throw_error string | Throw_value

datatype exec_outcome = Ex_return json | Ex_throw exec_throw

record capability_definition =
  cf_descriptor :: sdk_descriptor
  cf_input_schema :: "json \<Rightarrow> string + json"
  cf_output_schema :: "json \<Rightarrow> string + json"
  cf_execute :: "exec_context \<Rightarrow> json \<Rightarrow> json list \<times> exec_outcome"

record capability_pack =
  pk_manifest :: pack_manifest
  pk_capabilities :: "capability_definition list"

section \<open>Digests (\<open>descriptor.ts\<close>)\<close>

definition sdk_capability_digest :: "env \<Rightarrow> sdk_descriptor \<Rightarrow> string" where
  "sdk_capability_digest E d = stable_hash E (JObj
     [(''capability_id'', JStr (sd_capability_id d)),
      (''pack_id'', JStr (sd_pack_id d)),
      (''name'', JStr (sd_name d)),
      (''description'', JStr (sd_description d)),
      (''input_schema'', sd_input_schema d),
      (''output_schema'', sd_output_schema d),
      (''risk_level'', JStr (risk_str (sd_risk_level d))),
      (''side_effect_kind'', JStr (side_effect_kind_str (sd_side_effect_kind d))),
      (''requires_approval'', JBool (sd_requires_approval d)),
      (''idempotency_mode'', JStr (idempotency_mode_str (sd_idempotency_mode d))),
      (''timeout_ms'', JNum (int (sd_timeout_ms d))),
      (''max_attempts'', JNum (int (sd_max_attempts d))),
      (''scopes'', jstrs (sd_scopes d)),
      (''tags'', jstrs (sd_tags d)),
      (''examples'', JArr (sd_examples d))])"

definition finalize_descriptor :: "env \<Rightarrow> capability_definition \<Rightarrow> sdk_descriptor option" where
  "finalize_descriptor E f =
     (let d = (cf_descriptor f)\<lparr>sd_capability_digest := sdk_capability_digest E (cf_descriptor f)\<rparr>
      in if sdk_descriptor_ok d then Some d else None)"

section \<open>The registry (\<open>registry.ts\<close>)\<close>

record registry_entry =
  rg_pack :: capability_pack
  rg_definition :: capability_definition
  rg_descriptor :: sdk_descriptor

record pack_registry =
  rg_packs :: "(string \<times> capability_pack) list"
  rg_capabilities :: "(string \<times> registry_entry) list"

definition create_pack_registry :: pack_registry where
  "create_pack_registry = \<lparr>rg_packs = [], rg_capabilities = []\<rparr>"

text \<open>The callback of \<open>pack.capabilities.map\<close>, which may throw, over the list.\<close>

fun next_capabilities ::
    "env \<Rightarrow> pack_registry \<Rightarrow> string \<Rightarrow> capability_definition list
      \<Rightarrow> thrown + (capability_definition \<times> sdk_descriptor) list" where
  "next_capabilities E R pack_id [] = Inr []"
| "next_capabilities E R pack_id (f # fs) =
     (case finalize_descriptor E f of
        None \<Rightarrow> Inl Zod_error
      | Some d \<Rightarrow>
          if sd_pack_id d \<noteq> pack_id
          then Inl (Sdk_error ''INVALID_DESCRIPTOR'' ''Capability pack ID does not match manifest'')
          else if map_of (rg_capabilities R) (sd_capability_id d) \<noteq> None
          then Inl (Sdk_error ''DUPLICATE_CAPABILITY_ID'' (''Duplicate capability ID: '' @ sd_capability_id d))
          else (case next_capabilities E R pack_id fs of
                  Inl e \<Rightarrow> Inl e
                | Inr rest \<Rightarrow> Inr ((f, d) # rest)))"

definition register_pack :: "env \<Rightarrow> pack_registry \<Rightarrow> capability_pack \<Rightarrow> thrown + pack_registry" where
  "register_pack E R p =
     (if \<not> pack_manifest_ok (pk_manifest p) then Inl Zod_error
      else
        (let pack_id = mf_pack_id (pk_manifest p) in
         if map_of (rg_packs R) pack_id \<noteq> None
         then Inl (Sdk_error ''DUPLICATE_PACK_ID'' (''Duplicate pack ID: '' @ pack_id))
         else (case next_capabilities E R pack_id (pk_capabilities p) of
                 Inl e \<Rightarrow> Inl e
               | Inr items \<Rightarrow> Inr
                   \<lparr>rg_packs = AList.update pack_id p (rg_packs R),
                    rg_capabilities = fold (\<lambda>(f, d) m. AList.update (sd_capability_id d)
                        \<lparr>rg_pack = p, rg_definition = f, rg_descriptor = d\<rparr> m)
                      items (rg_capabilities R)\<rparr>)))"

definition get_pack :: "pack_registry \<Rightarrow> string \<Rightarrow> capability_pack option" where
  "get_pack R pack_id = map_of (rg_packs R) pack_id"

record capability_filter =
  fl_allowed_scopes :: "string list option"
  fl_denied_scopes :: "string list option"
  fl_allowed_capabilities :: "string list option"
  fl_max_risk_level :: "risk_level option"
  fl_trust_levels :: "trust_level list option"

definition no_filter :: capability_filter where
  "no_filter = \<lparr>fl_allowed_scopes = None, fl_denied_scopes = None, fl_allowed_capabilities = None,
     fl_max_risk_level = None, fl_trust_levels = None\<rparr>"

definition capability_keys :: "sdk_descriptor \<Rightarrow> string list" where
  "capability_keys d = [sd_capability_id d, sd_name d, sd_pack_id d @ ''.'' @ sd_name d]"

definition matches_filter :: "sdk_descriptor \<Rightarrow> capability_pack option \<Rightarrow> capability_filter \<Rightarrow> bool" where
  "matches_filter d p f =
     (if (case (fl_trust_levels f, p) of
           (Some ts, Some pk) \<Rightarrow> mf_trust_level (pk_manifest pk) \<notin> set ts
         | _ \<Rightarrow> False) then False
      else if (case fl_max_risk_level f of None \<Rightarrow> False
                 | Some m \<Rightarrow> risk_order (sd_risk_level d) > risk_order m) then False
      else if nullish (fl_allowed_capabilities f) [] \<noteq> [] \<and>
              \<not> list_ex (\<lambda>k. k \<in> set (nullish (fl_allowed_capabilities f) [])) (capability_keys d)
      then False
      else if nullish (fl_allowed_scopes f) [] \<noteq> [] \<and>
              \<not> list_ex (\<lambda>s. s \<in> set (nullish (fl_allowed_scopes f) [])) (sd_scopes d) then False
      else if list_ex (\<lambda>s. s \<in> set (nullish (fl_denied_scopes f) [])) (sd_scopes d) then False
      else True)"

definition list_capabilities :: "pack_registry \<Rightarrow> capability_filter \<Rightarrow> sdk_descriptor list" where
  "list_capabilities R f =
     sort_key (\<lambda>d. collation_key (sd_capability_id d))
       (filter (\<lambda>d. matches_filter d (map_of (rg_packs R) (sd_pack_id d)) f)
         (map (\<lambda>(_, e). rg_descriptor e) (rg_capabilities R)))"

record capability_ref =
  cr_capability_id :: "string option"
  cr_pack_id :: "string option"
  cr_name :: "string option"

definition resolve_capability :: "pack_registry \<Rightarrow> capability_ref \<Rightarrow> sdk_descriptor option" where
  "resolve_capability R ref =
     (if truthy (cr_capability_id ref)
      then map_option rg_descriptor (map_of (rg_capabilities R) (the (cr_capability_id ref)))
      else map_option rg_descriptor
             (List.find (\<lambda>e. Some (sd_pack_id (rg_descriptor e)) = cr_pack_id ref \<and>
                             Some (sd_name (rg_descriptor e)) = cr_name ref)
               (map snd (rg_capabilities R))))"

definition id_ref :: "string \<Rightarrow> capability_ref" where
  "id_ref i = \<lparr>cr_capability_id = Some i, cr_pack_id = None, cr_name = None\<rparr>"

definition verify_capability_digest :: "pack_registry \<Rightarrow> capability_ref \<Rightarrow> string \<Rightarrow> bool" where
  "verify_capability_digest R ref digest =
     (map_option sd_capability_digest (resolve_capability R ref) = Some digest)"

section \<open>The executor (\<open>executor.ts\<close>)\<close>

datatype exec_status = XS_success | XS_failed | XS_yielded | XS_requires_approval

record exec_result =
  xr_status :: exec_status
  xr_output :: "json option"
  xr_structured_errors :: "(string \<times> string) list"
  xr_artifacts :: "json list"
  xr_idempotency_key :: string

definition exec_result_of ::
    "exec_status \<Rightarrow> exec_context \<Rightarrow> json \<Rightarrow> (string \<times> string) list \<Rightarrow> exec_result" where
  "exec_result_of status c output errors =
     \<lparr>xr_status = status, xr_output = (if output = JUndef then None else Some output),
      xr_structured_errors = errors, xr_artifacts = [], xr_idempotency_key = xc_idempotency_key c\<rparr>"

fun throw_code :: "exec_throw \<Rightarrow> string" where
  "throw_code (Throw_sdk code _) = code"
| "throw_code _ = ''CAPABILITY_EXECUTION_FAILED''"

fun throw_message :: "exec_throw \<Rightarrow> string" where
  "throw_message (Throw_sdk _ m) = m"
| "throw_message (Throw_error m) = m"
| "throw_message Throw_value = ''Capability execution failed''"

text \<open>The artifacts recorded on the way, the calls into the capability's code (their inputs) and the
  result; the time stamps of the result are left to the callers that read them.\<close>

definition execute_definition ::
    "capability_definition \<Rightarrow> exec_context \<Rightarrow> json \<Rightarrow> json list \<times> json list \<times> exec_result" where
  "execute_definition f c input =
     (case cf_input_schema f input of
        Inl message \<Rightarrow> ([], [], exec_result_of XS_failed c JUndef [(''SCHEMA_VALIDATION_FAILED'', message)])
      | Inr data \<Rightarrow>
          (case cf_execute f c data of
             (recorded, Ex_return output) \<Rightarrow>
               (case cf_output_schema f output of
                  Inl message \<Rightarrow>
                    (recorded, [data],
                     exec_result_of XS_failed c JUndef [(''RESULT_VALIDATION_FAILED'', message)])
                | Inr out \<Rightarrow> (recorded, [data], exec_result_of XS_success c out []))
           | (recorded, Ex_throw e) \<Rightarrow>
               (recorded, [data], exec_result_of XS_failed c JUndef [(throw_code e, throw_message e)])))"

definition execute_capability ::
    "pack_registry \<Rightarrow> capability_ref \<Rightarrow> json \<Rightarrow> exec_context
      \<Rightarrow> thrown + (json list \<times> json list \<times> exec_result)" where
  "execute_capability R ref input c =
     (case resolve_capability R ref of
        None \<Rightarrow> Inl (Sdk_error ''UNKNOWN_CAPABILITY'' ''Unknown capability'')
      | Some d \<Rightarrow>
          (case map_of (rg_capabilities R) (sd_capability_id d) of
             None \<Rightarrow> Inl (Sdk_error ''UNKNOWN_CAPABILITY'' ''Capability definition missing'')
           | Some e \<Rightarrow>
               if sd_idempotency_mode d = Idem_required \<and> trim (xc_idempotency_key c) = []
               then Inl (Sdk_error ''MISSING_IDEMPOTENCY_KEY'' ''Missing idempotency key'')
               else Inr (execute_definition (rg_definition e) c input)))"


section \<open>The invariant of the registry\<close>

text \<open>Every entry is filed under its descriptor's id, with the descriptor computed from its
  definition and a definition of its pack, and its pack is registered under the pack's id.\<close>

definition entry_ok :: "env \<Rightarrow> pack_registry \<Rightarrow> string \<Rightarrow> registry_entry \<Rightarrow> bool" where
  "entry_ok E R k e \<longleftrightarrow>
     k = sd_capability_id (rg_descriptor e) \<and>
     finalize_descriptor E (rg_definition e) = Some (rg_descriptor e) \<and>
     rg_definition e \<in> set (pk_capabilities (rg_pack e)) \<and>
     map_of (rg_packs R) (sd_pack_id (rg_descriptor e)) = Some (rg_pack e)"

definition registry_ok :: "env \<Rightarrow> pack_registry \<Rightarrow> bool" where
  "registry_ok E R \<longleftrightarrow>
     (\<forall>k p. map_of (rg_packs R) k = Some p \<longrightarrow> mf_pack_id (pk_manifest p) = k \<and> pack_manifest_ok (pk_manifest p)) \<and>
     (\<forall>k e. map_of (rg_capabilities R) k = Some e \<longrightarrow> entry_ok E R k e)"

lemma next_capabilities_items:
  "next_capabilities E R i fs = Inr items \<Longrightarrow>
     map fst items = fs \<and>
     (\<forall>(f, d) \<in> set items. finalize_descriptor E f = Some d \<and> sd_pack_id d = i \<and>
        map_of (rg_capabilities R) (sd_capability_id d) = None)"
proof (induction fs arbitrary: items)
  case (Cons f fs)
  then obtain d rest where d: "finalize_descriptor E f = Some d" "sd_pack_id d = i"
      "map_of (rg_capabilities R) (sd_capability_id d) = None"
    and rest: "next_capabilities E R i fs = Inr rest" "items = (f, d) # rest"
    by (auto split: option.splits if_splits sum.splits)
  with Cons.IH [OF rest(1)] show ?case by auto
qed simp

definition pack_entry :: "capability_pack \<Rightarrow> capability_definition \<times> sdk_descriptor \<Rightarrow> registry_entry" where
  "pack_entry p fd = \<lparr>rg_pack = p, rg_definition = fst fd, rg_descriptor = snd fd\<rparr>"

lemma map_of_fold_update:
  "map_of (fold (\<lambda>x m. AList.update (key x) (val x) m) xs m) k =
     (case find_last (\<lambda>x. key x = k) xs of Some x \<Rightarrow> Some (val x) | None \<Rightarrow> map_of m k)"
proof (induction xs arbitrary: m)
  case Nil
  then show ?case by (simp add: find_last_def)
next
  case (Cons x xs)
  show ?case unfolding fold_simps comp_def Cons.IH find_last_Cons
    by (auto simp: update_conv' split: option.splits)
qed

lemma register_pack_inv:
  assumes "register_pack E R p = Inr R'"
  obtains items where "pack_manifest_ok (pk_manifest p)"
    "map_of (rg_packs R) (mf_pack_id (pk_manifest p)) = None"
    "map fst items = pk_capabilities p"
    "\<forall>(f, d) \<in> set items. finalize_descriptor E f = Some d \<and> sd_pack_id d = mf_pack_id (pk_manifest p) \<and>
        map_of (rg_capabilities R) (sd_capability_id d) = None"
    "rg_packs R' = AList.update (mf_pack_id (pk_manifest p)) p (rg_packs R)"
    "\<And>k. map_of (rg_capabilities R') k =
       (case find_last (\<lambda>fd. sd_capability_id (snd fd) = k) items of
          Some fd \<Rightarrow> Some (pack_entry p fd) | None \<Rightarrow> map_of (rg_capabilities R) k)"
proof -
  obtain items where items: "next_capabilities E R (mf_pack_id (pk_manifest p)) (pk_capabilities p) = Inr items"
    and conds: "pack_manifest_ok (pk_manifest p)" "map_of (rg_packs R) (mf_pack_id (pk_manifest p)) = None"
    and R': "R' = \<lparr>rg_packs = AList.update (mf_pack_id (pk_manifest p)) p (rg_packs R),
        rg_capabilities = fold (\<lambda>(f, d) m. AList.update (sd_capability_id d)
          \<lparr>rg_pack = p, rg_definition = f, rg_descriptor = d\<rparr> m) items (rg_capabilities R)\<rparr>"
    using assms by (auto simp: register_pack_def Let_def split: if_splits sum.splits)
  have fold_eq: "(\<lambda>(f, d) m. AList.update (sd_capability_id d)
          \<lparr>rg_pack = p, rg_definition = f, rg_descriptor = d\<rparr> m) =
      (\<lambda>fd m. AList.update (sd_capability_id (snd fd)) (pack_entry p fd) m)"
    by (auto simp: pack_entry_def)
  show thesis
  proof (rule that [OF conds])
    show "map fst items = pk_capabilities p"
      using next_capabilities_items [OF items] by blast
    show "\<forall>(f, d) \<in> set items. finalize_descriptor E f = Some d \<and>
        sd_pack_id d = mf_pack_id (pk_manifest p) \<and>
        map_of (rg_capabilities R) (sd_capability_id d) = None"
      using next_capabilities_items [OF items] by blast
    show "rg_packs R' = AList.update (mf_pack_id (pk_manifest p)) p (rg_packs R)"
      by (simp add: R')
    show "map_of (rg_capabilities R') k =
       (case find_last (\<lambda>fd. sd_capability_id (snd fd) = k) items of
          Some fd \<Rightarrow> Some (pack_entry p fd) | None \<Rightarrow> map_of (rg_capabilities R) k)" for k
      by (simp add: R' fold_eq map_of_fold_update)
  qed
qed

lemma find_last_SomeD: "find_last q xs = Some x \<Longrightarrow> x \<in> set xs \<and> q x"
  by (auto simp: find_last_def dest: find_SomeD)

lemma find_last_None: "find_last q xs = None \<longleftrightarrow> (\<forall>x \<in> set xs. \<not> q x)"
  by (auto simp: find_last_def find_None_iff)

lemma register_pack_ok:
  assumes R: "registry_ok E R" and reg: "register_pack E R p = Inr R'"
  shows "registry_ok E R'"
  using reg
proof (rule register_pack_inv)
  fix items
  let ?i = "mf_pack_id (pk_manifest p)"
  assume ok: "pack_manifest_ok (pk_manifest p)" and new: "map_of (rg_packs R) ?i = None"
    and fsts: "map fst items = pk_capabilities p"
    and items: "\<forall>(f, d) \<in> set items. finalize_descriptor E f = Some d \<and> sd_pack_id d = ?i \<and>
        map_of (rg_capabilities R) (sd_capability_id d) = None"
    and packs: "rg_packs R' = AList.update ?i p (rg_packs R)"
    and caps: "\<And>k. map_of (rg_capabilities R') k =
       (case find_last (\<lambda>fd. sd_capability_id (snd fd) = k) items of
          Some fd \<Rightarrow> Some (pack_entry p fd) | None \<Rightarrow> map_of (rg_capabilities R) k)"
  have "entry_ok E R' k e" if e: "map_of (rg_capabilities R') k = Some e" for k e
  proof (cases "find_last (\<lambda>fd. sd_capability_id (snd fd) = k) items")
    case (Some fd)
    then have "fd \<in> set items" "sd_capability_id (snd fd) = k" by (auto dest: find_last_SomeD)
    moreover from this fsts have "fst fd \<in> set (pk_capabilities p)" by (metis image_eqI list.set_map)
    moreover have "e = pack_entry p fd" using e caps Some by simp
    ultimately show ?thesis
      using items packs by (auto simp: entry_ok_def pack_entry_def update_conv')
  next
    case None
    then have "map_of (rg_capabilities R) k = Some e" using e caps by simp
    then have "entry_ok E R k e" using R by (simp add: registry_ok_def)
    with new packs show ?thesis by (auto simp: entry_ok_def update_conv')
  qed
  moreover have "mf_pack_id (pk_manifest q) = k \<and> pack_manifest_ok (pk_manifest q)"
    if "map_of (rg_packs R') k = Some q" for k q
    using that R ok packs by (auto simp: update_conv' registry_ok_def split: if_splits)
  ultimately show ?thesis by (simp add: registry_ok_def)
qed

lemma empty_registry_ok: "registry_ok E create_pack_registry"
  by (simp add: registry_ok_def create_pack_registry_def)


text \<open>The descriptors of a pack, in the order of its capabilities.\<close>

definition pack_descriptors :: "env \<Rightarrow> capability_pack \<Rightarrow> sdk_descriptor list" where
  "pack_descriptors E p = map (\<lambda>f. the (finalize_descriptor E f)) (pk_capabilities p)"

lemma register_pack_lookup:
  assumes "register_pack E R p = Inr R'"
  shows "map_option rg_descriptor (map_of (rg_capabilities R') k) =
    (case find_last (\<lambda>d. sd_capability_id d = k) (pack_descriptors E p) of
       Some d \<Rightarrow> Some d | None \<Rightarrow> map_option rg_descriptor (map_of (rg_capabilities R) k))"
  using assms
proof (rule register_pack_inv)
  fix items
  assume fsts: "map fst items = pk_capabilities p"
    and items: "\<forall>(f, d) \<in> set items. finalize_descriptor E f = Some d \<and>
        sd_pack_id d = mf_pack_id (pk_manifest p) \<and> map_of (rg_capabilities R) (sd_capability_id d) = None"
    and caps: "\<And>k. map_of (rg_capabilities R') k =
       (case find_last (\<lambda>fd. sd_capability_id (snd fd) = k) items of
          Some fd \<Rightarrow> Some (pack_entry p fd) | None \<Rightarrow> map_of (rg_capabilities R) k)"
  have ds: "pack_descriptors E p = map snd items"
    unfolding pack_descriptors_def fsts [symmetric] using items by auto
  have "find_last (\<lambda>d. sd_capability_id d = k) (map snd items) =
      map_option snd (find_last (\<lambda>fd. sd_capability_id (snd fd) = k) items)"
    by (induction items) (auto simp: find_last_Cons find_last_def [of _ "[]"] split: option.splits)
  then show ?thesis
    unfolding caps ds by (auto simp: pack_entry_def split: option.splits)
qed

section \<open>Execution\<close>

lemma execute_definition_cases:
  "execute_definition f c input = (recorded, calls, r) \<Longrightarrow>
     (xr_status r = XS_success \<longrightarrow>
        (\<exists>data raw out. cf_input_schema f input = Inr data \<and> cf_execute f c data = (recorded, Ex_return raw) \<and>
           cf_output_schema f raw = Inr out \<and> xr_output r = (if out = JUndef then None else Some out) \<and>
           xr_structured_errors r = [])) \<and>
     (xr_status r \<noteq> XS_success \<longrightarrow>
        xr_status r = XS_failed \<and> xr_output r = None \<and> length (xr_structured_errors r) = 1) \<and>
     (calls = (case cf_input_schema f input of Inl _ \<Rightarrow> [] | Inr data \<Rightarrow> [data])) \<and>
     xr_idempotency_key r = xc_idempotency_key c \<and> xr_artifacts r = []"
proof (cases "cf_input_schema f input")
  case (Inr data)
  obtain rec out where run: "cf_execute f c data = (rec, out)" by (cases "cf_execute f c data")
  assume r: "execute_definition f c input = (recorded, calls, r)"
  show ?thesis
  proof (cases out)
    case (Ex_return raw)
    with Inr run r show ?thesis
      by (cases "cf_output_schema f raw") (auto simp: execute_definition_def exec_result_of_def)
  next
    case (Ex_throw e)
    with Inr run r show ?thesis by (auto simp: execute_definition_def exec_result_of_def)
  qed
qed (auto simp: execute_definition_def exec_result_of_def)

section \<open>Properties\<close>

text \<open>C11: Registering a pack either fails and changes nothing, or gives a well-formed registry in
  which every id of the pack resolves to the last of its capabilities with that id, every other
  id resolves as before, and no id of the pack was registered before.\<close>
theorem register_pack_correct:
  assumes "registry_ok E R" and "register_pack E R p = Inr R'"
  shows "registry_ok E R' \<and>
    (\<forall>k. k \<noteq> [] \<longrightarrow> resolve_capability R' (id_ref k) =
       (case find_last (\<lambda>d. sd_capability_id d = k) (pack_descriptors E p) of
          Some d \<Rightarrow> Some d | None \<Rightarrow> resolve_capability R (id_ref k))) \<and>
    get_pack R (mf_pack_id (pk_manifest p)) = None \<and>
    get_pack R' (mf_pack_id (pk_manifest p)) = Some p \<and>
    (\<forall>d \<in> set (pack_descriptors E p). map_of (rg_capabilities R) (sd_capability_id d) = None)"
proof -
  have lookup: "resolve_capability R' (id_ref k) =
       (case find_last (\<lambda>d. sd_capability_id d = k) (pack_descriptors E p) of
          Some d \<Rightarrow> Some d | None \<Rightarrow> resolve_capability R (id_ref k))" if "k \<noteq> []" for k
    using register_pack_lookup [OF assms(2), of k] that
    by (auto simp: resolve_capability_def id_ref_def split: option.splits)
  from assms(2) have "get_pack R (mf_pack_id (pk_manifest p)) = None \<and>
      get_pack R' (mf_pack_id (pk_manifest p)) = Some p \<and>
      (\<forall>d \<in> set (pack_descriptors E p). map_of (rg_capabilities R) (sd_capability_id d) = None)"
  proof (rule register_pack_inv)
    fix items
    assume fsts: "map fst items = pk_capabilities p"
      and items: "\<forall>(f, d) \<in> set items. finalize_descriptor E f = Some d \<and>
        sd_pack_id d = mf_pack_id (pk_manifest p) \<and> map_of (rg_capabilities R) (sd_capability_id d) = None"
      and rest: "map_of (rg_packs R) (mf_pack_id (pk_manifest p)) = None"
        "rg_packs R' = AList.update (mf_pack_id (pk_manifest p)) p (rg_packs R)"
    have ds: "pack_descriptors E p = map snd items"
      unfolding pack_descriptors_def fsts [symmetric] using items by auto
    show ?thesis using items rest unfolding ds get_pack_def by (auto simp: update_conv')
  qed
  with lookup register_pack_ok [OF assms] show ?thesis by blast
qed

definition sample_descriptor :: "string \<Rightarrow> sdk_descriptor" where
  "sample_descriptor i =
     \<lparr>sd_capability_id = i, sd_pack_id = ''pk'', sd_name = i, sd_description = [],
      sd_input_schema = JObj [], sd_output_schema = JObj [], sd_risk_level = Risk_read,
      sd_side_effect_kind = SE_none, sd_requires_approval = False,
      sd_idempotency_mode = Idem_recommended, sd_timeout_ms = 1, sd_max_attempts = 1, sd_scopes = [],
      sd_tags = [], sd_examples = [], sd_capability_digest = []\<rparr>"

definition sample_definition :: "string \<Rightarrow> json \<Rightarrow> capability_definition" where
  "sample_definition i v =
     \<lparr>cf_descriptor = sample_descriptor i, cf_input_schema = Inr, cf_output_schema = Inr,
      cf_execute = (\<lambda>c x. ([], Ex_return v))\<rparr>"

definition sample_pack :: "capability_definition list \<Rightarrow> capability_pack" where
  "sample_pack fs =
     \<lparr>pk_manifest =
        \<lparr>mf_pack_id = ''pk'', mf_name = ''pk'', mf_version = ''1'', mf_description = [],
         mf_publisher = ''p'', mf_license = ''l'', mf_runtime_kind = RK_mock,
         mf_trust_level = Trust_trusted_core, mf_required_scopes = [], mf_provided_scopes = [],
         mf_default_policy = [], mf_open_cot_alignment = []\<rparr>,
      pk_capabilities = fs\<rparr>"

definition zero_env :: env where
  "zero_env = \<lparr>sha256_hex = (\<lambda>_. replicate 64 (CHR ''0'')), hmac_sha256_hex = (\<lambda>_ _. replicate 64 (CHR ''0'')),
     datetime_ok = (\<lambda>_. True), date_parse = (\<lambda>_. None), zod_issues = (\<lambda>_. [])\<rparr>"

definition finalized :: "string \<Rightarrow> sdk_descriptor" where
  "finalized i = (sample_descriptor i)\<lparr>sd_capability_digest := replicate 64 (CHR ''0'')\<rparr>"

lemma finalize_sample:
  assumes "i \<noteq> []" shows "finalize_descriptor zero_env (sample_definition i v) = Some (finalized i)"
  using assms
  by (simp add: finalize_descriptor_def sdk_descriptor_ok_def sample_definition_def sdk_capability_digest_def
      stable_hash_def zero_env_def finalized_def is_hex64_def list_all_iff sample_descriptor_def)

text \<open>Two capabilities with one id in one pack: the registration is accepted and the first of them
  cannot be reached any more.\<close>

lemma duplicate_in_pack_accepted:
  "\<exists>R'. register_pack zero_env create_pack_registry
      (sample_pack [sample_definition ''c'' JNull, sample_definition ''c'' (JBool True)]) = Inr R' \<and>
    length (rg_capabilities R') = 1 \<and>
    map_option rg_definition (map_of (rg_capabilities R') ''c'') = Some (sample_definition ''c'' (JBool True))"
  by (simp add: register_pack_def Let_def sample_pack_def pack_manifest_ok_def create_pack_registry_def
      finalize_sample finalized_def sample_descriptor_def)

theorem register_pack_correct_witness:
  "\<exists>R'. register_pack zero_env create_pack_registry (sample_pack [sample_definition ''c'' JNull]) = Inr R' \<and>
     registry_ok zero_env R' \<and> resolve_capability R' (id_ref ''c'') = Some (finalized ''c'')"
proof -
  obtain R' where R': "register_pack zero_env create_pack_registry (sample_pack [sample_definition ''c'' JNull]) = Inr R'"
    by (simp add: register_pack_def Let_def sample_pack_def pack_manifest_ok_def create_pack_registry_def
        finalize_sample finalized_def sample_descriptor_def)
  have "pack_descriptors zero_env (sample_pack [sample_definition ''c'' JNull]) = [finalized ''c'']"
    by (simp add: pack_descriptors_def sample_pack_def finalize_sample)
  with register_pack_correct [OF empty_registry_ok R']
  have "registry_ok zero_env R'" "resolve_capability R' (id_ref ''c'') = Some (finalized ''c'')"
    by (auto simp: find_last_def finalized_def sample_descriptor_def)
  with R' show ?thesis by blast
qed

text \<open>C12: Running a capability through the registry throws exactly when the reference resolves to nothing
  registered or a required idempotency key is missing, before any code is called. Otherwise it returns: the code
  is called exactly when the input schema accepts the input, once and with what the schema made of it; the result
  is a success, with the output the output schema produced, exactly when the code returns a value that schema
  accepts; every other end (a refused input, a refused output, an error thrown by the code) is a failed result
  without output and with one structured error.\<close>
theorem execute_capability_checked:
  "case execute_capability R ref input c of
     Inl e \<Rightarrow>
       (case Option.bind (resolve_capability R ref) (\<lambda>d. map_option (\<lambda>e. (d, e)) (map_of (rg_capabilities R) (sd_capability_id d))) of
          None \<Rightarrow> \<exists>m. e = Sdk_error ''UNKNOWN_CAPABILITY'' m
        | Some (d, _) \<Rightarrow> sd_idempotency_mode d = Idem_required \<and> trim (xc_idempotency_key c) = [] \<and>
            (\<exists>m. e = Sdk_error ''MISSING_IDEMPOTENCY_KEY'' m))
   | Inr (recorded, calls, r) \<Rightarrow>
       \<exists>d e. resolve_capability R ref = Some d \<and>
         map_of (rg_capabilities R) (sd_capability_id d) = Some e \<and>
         \<not> (sd_idempotency_mode d = Idem_required \<and> trim (xc_idempotency_key c) = []) \<and>
         calls = (case cf_input_schema (rg_definition e) input of Inl _ \<Rightarrow> [] | Inr x \<Rightarrow> [x]) \<and>
         (xr_status r = XS_success \<longleftrightarrow> (\<exists>x raw out. cf_input_schema (rg_definition e) input = Inr x \<and>
            cf_execute (rg_definition e) c x = (recorded, Ex_return raw) \<and>
            cf_output_schema (rg_definition e) raw = Inr out)) \<and>
         (if xr_status r = XS_success
          then (\<exists>x raw out. calls = [x] \<and> cf_execute (rg_definition e) c x = (recorded, Ex_return raw) \<and>
                 cf_output_schema (rg_definition e) raw = Inr out \<and>
                 xr_output r = (if out = JUndef then None else Some out))
          else xr_status r = XS_failed \<and> xr_output r = None \<and> length (xr_structured_errors r) = 1)"
proof (cases "execute_capability R ref input c")
  case (Inl e)
  then show ?thesis by (auto simp: execute_capability_def split: option.splits if_splits)
next
  case (Inr t)
  obtain recorded calls r where t: "t = (recorded, calls, r)" by (cases t)
  obtain d e where d: "resolve_capability R ref = Some d"
    and e: "map_of (rg_capabilities R) (sd_capability_id d) = Some e"
    and idem: "\<not> (sd_idempotency_mode d = Idem_required \<and> trim (xc_idempotency_key c) = [])"
    and run: "execute_definition (rg_definition e) c input = (recorded, calls, r)"
    using Inr t by (auto simp: execute_capability_def split: option.splits if_splits)
  note cases = execute_definition_cases [OF run]
  have success: "xr_status r = XS_success \<longleftrightarrow> (\<exists>x raw out. cf_input_schema (rg_definition e) input = Inr x \<and>
      cf_execute (rg_definition e) c x = (recorded, Ex_return raw) \<and> cf_output_schema (rg_definition e) raw = Inr out)"
  proof
    assume "\<exists>x raw out. cf_input_schema (rg_definition e) input = Inr x \<and>
      cf_execute (rg_definition e) c x = (recorded, Ex_return raw) \<and> cf_output_schema (rg_definition e) raw = Inr out"
    then show "xr_status r = XS_success" using run by (auto simp: execute_definition_def exec_result_of_def)
  qed (use cases in blast)
  have ends: "if xr_status r = XS_success
     then (\<exists>x raw out. calls = [x] \<and> cf_execute (rg_definition e) c x = (recorded, Ex_return raw) \<and>
            cf_output_schema (rg_definition e) raw = Inr out \<and>
            xr_output r = (if out = JUndef then None else Some out))
     else xr_status r = XS_failed \<and> xr_output r = None \<and> length (xr_structured_errors r) = 1"
  proof (cases "xr_status r = XS_success")
    case True
    with cases obtain data raw out where x: "cf_input_schema (rg_definition e) input = Inr data"
      "cf_execute (rg_definition e) c data = (recorded, Ex_return raw)"
      "cf_output_schema (rg_definition e) raw = Inr out"
      "xr_output r = (if out = JUndef then None else Some out)" by blast
    with cases have "calls = [data]" by simp
    with x True show ?thesis by metis
  qed (use cases in simp)
  show ?thesis
    unfolding Inr t sum.case prod.case
    by (intro exI [of _ d] exI [of _ e] conjI) (use d e idem cases success ends in simp_all)
qed

theorem execute_capability_checked_witness:
  "\<exists>R' c r. execute_capability R' (id_ref ''c'') JNull c = Inr ([], [JNull], r) \<and> xr_output r = Some (JBool True)"
proof -
  obtain R' where R': "register_pack zero_env create_pack_registry (sample_pack [sample_definition ''c'' (JBool True)]) = Inr R'"
    and caps: "rg_capabilities R' = [(''c'', \<lparr>rg_pack = sample_pack [sample_definition ''c'' (JBool True)],
        rg_definition = sample_definition ''c'' (JBool True), rg_descriptor = finalized ''c''\<rparr>)]"
    by (simp add: register_pack_def Let_def sample_pack_def pack_manifest_ok_def create_pack_registry_def
        finalize_sample finalized_def sample_descriptor_def)
  have x: "execute_capability R' (id_ref ''c'') JNull c =
      Inr ([], [JNull], exec_result_of XS_success c (JBool True) [])" for c
    by (simp add: execute_capability_def resolve_capability_def id_ref_def caps finalized_def
        sample_descriptor_def execute_definition_def sample_definition_def)
  have "xr_output (exec_result_of XS_success c (JBool True) []) = Some (JBool True)" for c
    using execute_capability_checked [where R = R' and ref = "id_ref ''c''" and input = JNull and c = c]
    by (auto simp: x exec_result_of_def split: if_splits)
  with x show ?thesis by blast
qed

end
