(* ===== verification/Effects.thy ===== *)
theory Effects
  imports Plan_State Run_Event Sdk_Registry
begin

text \<open>
  The effects the asynchronous handlers of the runner have, as a state monad with exceptions.
  The world records what reaches the outside: the plan states recorded, the run events handed to
  \<open>emit_run_event\<close>, the artifacts handed to \<open>record_artifact\<close> and the calls made into the code of
  capabilities and node handlers. An exception keeps the effects that preceded it.

  \<open>host\<close> collects what the code takes from its host: the library functions (\<open>env\<close>), the clock
  (the n-th reading in milliseconds), \<open>Date.prototype.toISOString\<close>, whether \<open>NODE_ENV\<close> is
  \<open>test\<close>, the third-party \<open>YAML.stringify\<close>, and the error the caller's artifact sink answers
  an artifact with, if any.
\<close>

record host =
  h_env :: env
  h_ms :: "nat \<Rightarrow> int"
  h_iso :: "int \<Rightarrow> string"
  h_is_test :: bool
  h_yaml :: "json \<Rightarrow> string"
  h_sink :: "json \<Rightarrow> thrown option"

record world =
  w_clock :: nat
  w_plan_states :: plan_state_db
  w_events :: "run_event list"
  w_artifacts :: "json list"
  w_calls :: "(string \<times> json) list"

text \<open>A handler over a state of type \<open>'w\<close>: it returns or throws, and leaves a state either way.\<close>

type_synonym ('w, 'a) effect = "'w \<Rightarrow> (thrown + 'a) \<times> 'w"

type_synonym 'a eff = "(world, 'a) effect"

definition ereturn :: "'a \<Rightarrow> ('w, 'a) effect" where
  "ereturn x = (\<lambda>w. (Inr x, w))"

definition ethrow :: "thrown \<Rightarrow> ('w, 'a) effect" where
  "ethrow e = (\<lambda>w. (Inl e, w))"

definition ebind :: "('w, 'a) effect \<Rightarrow> ('a \<Rightarrow> ('w, 'b) effect) \<Rightarrow> ('w, 'b) effect" where
  "ebind m f = (\<lambda>w. case m w of (Inl e, w') \<Rightarrow> (Inl e, w') | (Inr x, w') \<Rightarrow> f x w')"

definition ethen :: "('w, unit) effect \<Rightarrow> ('w, 'b) effect \<Rightarrow> ('w, 'b) effect" where
  "ethen m k = ebind m (\<lambda>_. k)"

primrec efor :: "'a list \<Rightarrow> ('a \<Rightarrow> ('w, unit) effect) \<Rightarrow> ('w, unit) effect" where
  "efor [] f = ereturn ()"
| "efor (x # xs) f = ethen (f x) (efor xs f)"

primrec emap :: "'a list \<Rightarrow> ('a \<Rightarrow> ('w, 'b) effect) \<Rightarrow> ('w, 'b list) effect" where
  "emap [] f = ereturn []"
| "emap (x # xs) f = ebind (f x) (\<lambda>y. ebind (emap xs f) (\<lambda>ys. ereturn (y # ys)))"

text \<open>What a \<open>try\<close> block sees of the computation inside it.\<close>

definition etry :: "('w, 'a) effect \<Rightarrow> ('w, thrown + 'a) effect" where
  "etry m = (\<lambda>w. case m w of (r, w') \<Rightarrow> (Inr r, w'))"

definition of_option :: "thrown \<Rightarrow> 'a option \<Rightarrow> ('w, 'a) effect" where
  "of_option e x = (case x of None \<Rightarrow> ethrow e | Some y \<Rightarrow> ereturn y)"

definition ewhen :: "bool \<Rightarrow> ('w, unit) effect \<Rightarrow> ('w, unit) effect" where
  "ewhen b m = (if b then m else ereturn ())"

named_theorems eff_simps "the effect combinators"

lemma ereturn_run [simp, eff_simps]: "ereturn x w = (Inr x, w)"
  by (simp add: ereturn_def)

lemma ethrow_run [simp, eff_simps]: "ethrow e w = (Inl e, w)"
  by (simp add: ethrow_def)

lemma ebind_run [eff_simps]:
  "ebind m f w = (case m w of (Inl e, w') \<Rightarrow> (Inl e, w') | (Inr x, w') \<Rightarrow> f x w')"
  by (simp add: ebind_def)

lemma ethen_run [eff_simps]:
  "ethen m k w = (case m w of (Inl e, w') \<Rightarrow> (Inl e, w') | (Inr _, w') \<Rightarrow> k w')"
  by (simp add: ethen_def ebind_def)

lemma ebind_inr: "ebind m f w = (Inr y, w') \<longleftrightarrow> (\<exists>x w1. m w = (Inr x, w1) \<and> f x w1 = (Inr y, w'))"
  by (auto simp: ebind_run split: prod.splits sum.splits)

lemma ethen_inr: "ethen m k w = (Inr y, w') \<longleftrightarrow> (\<exists>w1. m w = (Inr (), w1) \<and> k w1 = (Inr y, w'))"
  by (auto simp: ethen_run split: prod.splits sum.splits)

lemma of_option_simps [simp, eff_simps]:
  "of_option e None = ethrow e" "of_option e (Some x) = ereturn x"
  by (simp_all add: of_option_def)

lemma ewhen_simps [simp, eff_simps]: "ewhen True m = m" "ewhen False m = ereturn ()"
  by (simp_all add: ewhen_def)

section \<open>Time, events, artifacts, plan states\<close>

definition date_now :: "host \<Rightarrow> int eff" where
  "date_now H = (\<lambda>w. (Inr (h_ms H (w_clock w)), w\<lparr>w_clock := Suc (w_clock w)\<rparr>))"

definition now_iso :: "host \<Rightarrow> string eff" where
  "now_iso H = ebind (date_now H) (\<lambda>t. ereturn (h_iso H t))"

definition put_event :: "run_event \<Rightarrow> unit eff" where
  "put_event e = (\<lambda>w. (Inr (), w\<lparr>w_events := w_events w @ [e]\<rparr>))"

text \<open>\<open>emit_run_event(createRunEvent({...}))\<close>\<close>

definition emit_new ::
    "env \<Rightarrow> string \<Rightarrow> string \<Rightarrow> string \<Rightarrow> event_body \<Rightarrow> unit eff" where
  "emit_new E run_id plan_id timestamp b =
     ebind (of_option Zod_error (create_run_event E run_id plan_id timestamp None b)) put_event"

text \<open>\<open>record_artifact\<close>: the artifact is handed to the caller's sink, which may throw.\<close>

definition put_artifact :: "host \<Rightarrow> json \<Rightarrow> unit eff" where
  "put_artifact H a =
     (\<lambda>w. (case h_sink H a of None \<Rightarrow> Inr () | Some e \<Rightarrow> Inl e, w\<lparr>w_artifacts := w_artifacts w @ [a]\<rparr>))"

definition put_call :: "string \<Rightarrow> json \<Rightarrow> unit eff" where
  "put_call i v = (\<lambda>w. (Inr (), w\<lparr>w_calls := w_calls w @ [(i, v)]\<rparr>))"

definition store_plan_state :: "env \<Rightarrow> plan_state \<Rightarrow> plan_state eff" where
  "store_plan_state E s =
     (\<lambda>w. case record_plan_state E (w_plan_states w) s of
            None \<Rightarrow> (Inl Zod_error, w)
          | Some db \<Rightarrow> (Inr s, w\<lparr>w_plan_states := db\<rparr>))"

definition load_plan_state :: "string \<Rightarrow> plan_state option eff" where
  "load_plan_state i = (\<lambda>w. (Inr (get_plan_state (w_plan_states w) i), w))"

lemma now_iso_run [eff_simps]:
  "now_iso H w = (Inr (h_iso H (h_ms H (w_clock w))), w\<lparr>w_clock := Suc (w_clock w)\<rparr>)"
  by (simp add: now_iso_def ebind_run date_now_def)

lemma store_plan_state_inr:
  "store_plan_state E s w = (Inr s', w') \<longleftrightarrow>
     s' = s \<and> plan_state_ok E s \<and>
     w' = w\<lparr>w_plan_states := AList.update (ps_plan_id s) s (w_plan_states w)\<rparr>"
  by (auto simp: store_plan_state_def record_plan_state_def map_put_def)

lemma emit_new_inr:
  "emit_new E r p t b w = (Inr (), w') \<longleftrightarrow>
     (\<exists>e. create_run_event E r p t None b = Some e \<and> w' = w\<lparr>w_events := w_events w @ [e]\<rparr>)"
  by (cases "create_run_event E r p t None b") (auto simp: emit_new_def ebind_run put_event_def)

section \<open>What an effect leaves alone\<close>

definition keeps :: "('w \<Rightarrow> 'x) \<Rightarrow> ('w, 'a) effect \<Rightarrow> bool" where
  "keeps p m = (\<forall>w. p (snd (m w)) = p w)"

named_theorems keeps_intros "effects that keep a part of the world"

lemma keepsD: "keeps p m \<Longrightarrow> m w = (r, w') \<Longrightarrow> p w' = p w"
  by (metis keeps_def snd_conv)

lemma keeps_ereturn [keeps_intros]: "keeps p (ereturn x)"
  and keeps_ethrow [keeps_intros]: "keeps p (ethrow e)"
  by (simp_all add: keeps_def)

lemma keeps_ebind [keeps_intros]:
  assumes "keeps p m" and "\<And>x. keeps p (f x)"
  shows "keeps p (ebind m f)"
  unfolding keeps_def
proof
  fix w
  show "p (snd (ebind m f w)) = p w"
    using assms keepsD [OF assms(1), of w]
    by (cases "m w"; cases "fst (m w)") (auto simp: ebind_run keeps_def)
qed

lemma keeps_ethen [keeps_intros]: "keeps p m \<Longrightarrow> keeps p k \<Longrightarrow> keeps p (ethen m k)"
  unfolding ethen_def by (rule keeps_ebind)

lemma keeps_etry [keeps_intros]: "keeps p m \<Longrightarrow> keeps p (etry m)"
  by (simp add: keeps_def etry_def split: prod.split) (metis snd_conv)

lemma keeps_efor [keeps_intros]: "(\<And>x. keeps p (f x)) \<Longrightarrow> keeps p (efor xs f)"
  by (induction xs) (auto intro: keeps_intros)

lemma keeps_emap [keeps_intros]: "(\<And>x. keeps p (f x)) \<Longrightarrow> keeps p (emap xs f)"
  by (induction xs) (auto intro: keeps_intros)

lemma keeps_if [keeps_intros]: "(b \<Longrightarrow> keeps p m) \<Longrightarrow> (\<not> b \<Longrightarrow> keeps p k) \<Longrightarrow> keeps p (if b then m else k)"
  by simp

lemma keeps_ewhen [keeps_intros]: "keeps p m \<Longrightarrow> keeps p (ewhen b m)"
  by (cases b) (auto intro: keeps_intros)

lemma keeps_of_option [keeps_intros]: "keeps p (of_option e x)"
  by (cases x) (auto intro: keeps_intros)

lemma keeps_case_option [keeps_intros]:
  "keeps p m \<Longrightarrow> (\<And>y. keeps p (f y)) \<Longrightarrow> keeps p (case x of None \<Rightarrow> m | Some y \<Rightarrow> f y)"
  by (cases x) auto

lemma keeps_case_sum [keeps_intros]:
  "(\<And>a. keeps p (f a)) \<Longrightarrow> (\<And>b. keeps p (g b)) \<Longrightarrow> keeps p (case x of Inl a \<Rightarrow> f a | Inr b \<Rightarrow> g b)"
  by (cases x) auto

lemma keeps_case_prod [keeps_intros]: "(\<And>a b. keeps p (f a b)) \<Longrightarrow> keeps p (case x of (a, b) \<Rightarrow> f a b)"
  by (cases x) auto

lemma keeps_Let [keeps_intros]: "keeps p (f x) \<Longrightarrow> keeps p (let y = x in f y)"
  by simp

lemma keeps_basic [keeps_intros]:
  "keeps w_calls (date_now H)" "keeps w_events (date_now H)" "keeps w_plan_states (date_now H)"
  "keeps w_calls (put_event e)" "keeps w_plan_states (put_event e)" "keeps w_artifacts (put_event e)"
  "keeps w_calls (put_artifact H a)" "keeps w_events (put_artifact H a)" "keeps w_plan_states (put_artifact H a)"
  "keeps w_events (put_call i v)" "keeps w_plan_states (put_call i v)"
  "keeps w_calls (load_plan_state j)" "keeps w_events (load_plan_state j)"
  "keeps w_plan_states (load_plan_state j)"
  by (simp_all add: keeps_def date_now_def put_event_def put_artifact_def put_call_def load_plan_state_def
      split: option.splits)

lemma keeps_now_iso [keeps_intros]: "keeps p (date_now H) \<Longrightarrow> keeps p (now_iso H)"
  unfolding now_iso_def by (intro keeps_intros)

lemma keeps_emit_new [keeps_intros]:
  "keeps w_calls (emit_new E r i t b)" "keeps w_plan_states (emit_new E r i t b)"
  unfolding emit_new_def by (intro keeps_intros)+

lemma keeps_store_plan_state [keeps_intros]:
  "keeps w_calls (store_plan_state E s)" "keeps w_events (store_plan_state E s)"
  by (auto simp: keeps_def store_plan_state_def split: option.splits)

section \<open>Invariants of the state\<close>

text \<open>The effect keeps an invariant, whether it returns or throws.\<close>

definition preserves :: "('w \<Rightarrow> bool) \<Rightarrow> ('w, 'a) effect \<Rightarrow> bool" where
  "preserves I m = (\<forall>w. I w \<longrightarrow> I (snd (m w)))"

named_theorems preserves_intros "effects that keep an invariant"

lemma preservesD: "preserves I m \<Longrightarrow> I w \<Longrightarrow> m w = (r, w') \<Longrightarrow> I w'"
  unfolding preserves_def by (metis snd_conv)

lemma preserves_keeps: "keeps p m \<Longrightarrow> preserves (\<lambda>w. J (p w)) m"
  by (simp add: preserves_def keeps_def)

lemma preserves_ereturn [preserves_intros]: "preserves I (ereturn x)"
  and preserves_ethrow [preserves_intros]: "preserves I (ethrow e)"
  by (simp_all add: preserves_def)

lemma preserves_ebind [preserves_intros]:
  assumes "preserves I m" and "\<And>x. preserves I (f x)"
  shows "preserves I (ebind m f)"
  unfolding preserves_def
proof (intro allI impI)
  fix w assume w: "I w"
  obtain r w1 where m: "m w = (r, w1)" by (cases "m w")
  with assms(1) w have "I w1" by (blast dest: preservesD)
  with m assms(2) show "I (snd (ebind m f w))"
    by (cases r) (simp_all add: ebind_run preserves_def)
qed

lemma preserves_ethen [preserves_intros]: "preserves I m \<Longrightarrow> preserves I k \<Longrightarrow> preserves I (ethen m k)"
  unfolding ethen_def by (rule preserves_ebind)

lemma preserves_etry [preserves_intros]: "preserves I m \<Longrightarrow> preserves I (etry m)"
  by (simp add: preserves_def etry_def split: prod.split) (metis snd_conv)

lemma preserves_efor [preserves_intros]: "(\<And>x. preserves I (f x)) \<Longrightarrow> preserves I (efor xs f)"
  by (induction xs) (auto intro: preserves_intros)

lemma preserves_emap [preserves_intros]: "(\<And>x. preserves I (f x)) \<Longrightarrow> preserves I (emap xs f)"
  by (induction xs) (auto intro!: preserves_intros)

lemma preserves_if [preserves_intros]:
  "(b \<Longrightarrow> preserves I m) \<Longrightarrow> (\<not> b \<Longrightarrow> preserves I k) \<Longrightarrow> preserves I (if b then m else k)"
  by simp

lemma preserves_ewhen [preserves_intros]: "preserves I m \<Longrightarrow> preserves I (ewhen b m)"
  by (cases b) (auto intro: preserves_intros)

lemma preserves_of_option [preserves_intros]: "preserves I (of_option e x)"
  by (cases x) (auto intro: preserves_intros)

lemma preserves_case_option [preserves_intros]:
  "preserves I m \<Longrightarrow> (\<And>y. preserves I (f y)) \<Longrightarrow> preserves I (case x of None \<Rightarrow> m | Some y \<Rightarrow> f y)"
  by (cases x) auto

lemma preserves_case_sum [preserves_intros]:
  "(\<And>a. preserves I (f a)) \<Longrightarrow> (\<And>b. preserves I (g b)) \<Longrightarrow>
     preserves I (case x of Inl a \<Rightarrow> f a | Inr b \<Rightarrow> g b)"
  by (cases x) auto

lemma preserves_case_list [preserves_intros]:
  "preserves I m \<Longrightarrow> (\<And>y ys. preserves I (f y ys)) \<Longrightarrow> preserves I (case xs of [] \<Rightarrow> m | y # ys \<Rightarrow> f y ys)"
  by (cases xs) auto

lemma preserves_case_prod [preserves_intros]:
  "(\<And>a b. preserves I (f a b)) \<Longrightarrow> preserves I (case x of (a, b) \<Rightarrow> f a b)"
  by (cases x) auto

lemma preserves_Let [preserves_intros]: "preserves I (f x) \<Longrightarrow> preserves I (let y = x in f y)"
  by simp

section \<open>What an effect adds to the event log\<close>

text \<open>The effect only appends to the events, and every event it appends is of the given kind.\<close>

definition emits :: "(event_body \<Rightarrow> bool) \<Rightarrow> 'a eff \<Rightarrow> bool" where
  "emits P m \<longleftrightarrow>
     (\<forall>w. \<exists>es. w_events (snd (m w)) = w_events w @ es \<and> (\<forall>e \<in> set es. P (re_body e)))"

named_theorems emits_intros "effects that append events of a kind"

lemma emitsD:
  "emits P m \<Longrightarrow> m w = (r, w') \<Longrightarrow>
     \<exists>es. w_events w' = w_events w @ es \<and> (\<forall>e \<in> set es. P (re_body e))"
  unfolding emits_def by (metis snd_conv)

lemma emits_keeps: "keeps w_events m \<Longrightarrow> emits P m"
  by (auto simp: keeps_def emits_def)

lemma emits_mono: "emits P m \<Longrightarrow> (\<And>b. P b \<Longrightarrow> Q b) \<Longrightarrow> emits Q m"
  unfolding emits_def by meson

lemma emits_ereturn [emits_intros]: "emits P (ereturn x)"
  and emits_ethrow [emits_intros]: "emits P (ethrow e)"
  by (simp_all add: emits_def)

lemma emits_ebind [emits_intros]:
  assumes "emits P m" and "\<And>x. emits P (f x)"
  shows "emits P (ebind m f)"
  unfolding emits_def
proof
  fix w
  obtain r w1 where m: "m w = (r, w1)" by (cases "m w")
  obtain es where es: "w_events w1 = w_events w @ es" "\<forall>e \<in> set es. P (re_body e)"
    using emitsD [OF assms(1) m] by blast
  show "\<exists>es. w_events (snd (ebind m f w)) = w_events w @ es \<and> (\<forall>e \<in> set es. P (re_body e))"
  proof (cases r)
    case (Inl e)
    with m es show ?thesis by (auto simp: ebind_run)
  next
    case (Inr x)
    obtain es' where "w_events (snd (f x w1)) = w_events w1 @ es'" "\<forall>e \<in> set es'. P (re_body e)"
      using assms(2) [of x] unfolding emits_def by blast
    with m es Inr show ?thesis by (intro exI [of _ "es @ es'"]) (auto simp: ebind_run)
  qed
qed

lemma emits_ethen [emits_intros]: "emits P m \<Longrightarrow> emits P k \<Longrightarrow> emits P (ethen m k)"
  unfolding ethen_def by (rule emits_ebind)

lemma emits_etry [emits_intros]: "emits P m \<Longrightarrow> emits P (etry m)"
  by (simp add: emits_def etry_def split: prod.split) (metis snd_conv)

lemma emits_efor [emits_intros]: "(\<And>x. emits P (f x)) \<Longrightarrow> emits P (efor xs f)"
  by (induction xs) (auto intro: emits_intros)

lemma emits_emap [emits_intros]: "(\<And>x. emits P (f x)) \<Longrightarrow> emits P (emap xs f)"
  by (induction xs) (auto intro: emits_intros)

lemma emits_if [emits_intros]: "(b \<Longrightarrow> emits P m) \<Longrightarrow> (\<not> b \<Longrightarrow> emits P k) \<Longrightarrow> emits P (if b then m else k)"
  by simp

lemma emits_ewhen [emits_intros]: "emits P m \<Longrightarrow> emits P (ewhen b m)"
  by (cases b) (auto intro: emits_intros)

lemma emits_of_option [emits_intros]: "emits P (of_option e x)"
  by (cases x) (auto intro: emits_intros)

lemma emits_case_option [emits_intros]:
  "emits P m \<Longrightarrow> (\<And>y. emits P (f y)) \<Longrightarrow> emits P (case x of None \<Rightarrow> m | Some y \<Rightarrow> f y)"
  by (cases x) auto

lemma emits_case_sum [emits_intros]:
  "(\<And>a. emits P (f a)) \<Longrightarrow> (\<And>b. emits P (g b)) \<Longrightarrow> emits P (case x of Inl a \<Rightarrow> f a | Inr b \<Rightarrow> g b)"
  by (cases x) auto

lemma emits_case_prod [emits_intros]: "(\<And>a b. emits P (f a b)) \<Longrightarrow> emits P (case x of (a, b) \<Rightarrow> f a b)"
  by (cases x) auto

lemma emits_basic [emits_intros]:
  "emits P (date_now H)" "emits P (now_iso H)" "emits P (put_artifact H a)" "emits P (put_call i v)"
  "emits P (store_plan_state E s)" "emits P (load_plan_state j)"
  by (auto intro!: emits_keeps keeps_intros)

lemma emits_emit_new [emits_intros]:
  assumes "P b"
  shows "emits P (emit_new E r p t b)"
  unfolding emits_def
proof
  fix w
  show "\<exists>es. w_events (snd (emit_new E r p t b w)) = w_events w @ es \<and> (\<forall>e \<in> set es. P (re_body e))"
    using assms created_event [of E r p t None b]
    by (cases "create_run_event E r p t None b") (auto simp: emit_new_def ebind_run put_event_def)
qed

section \<open>JSON values as objects\<close>

text \<open>\<open>(value as Record)[key]\<close> on a value that has been checked to be an object.\<close>

definition jfield :: "json \<Rightarrow> string \<Rightarrow> json" where
  "jfield v k = (case v of JObj kvs \<Rightarrow> nullish (map_of kvs k) JUndef | _ \<Rightarrow> JUndef)"

text \<open>\<open>v && typeof v === "object" ? v : {}\<close>\<close>

fun is_object :: "json \<Rightarrow> bool" where
  "is_object (JObj _) = True"
| "is_object (JArr _) = True"
| "is_object _ = False"

definition obj_entries :: "json \<Rightarrow> (string \<times> json) list" where
  "obj_entries v =
     (case v of JObj kvs \<Rightarrow> kvs
      | JArr xs \<Rightarrow> zip (map nat_str [0..<length xs]) xs
      | _ \<Rightarrow> [])"

fun as_string :: "json \<Rightarrow> string option" where
  "as_string (JStr s) = Some s"
| "as_string _ = None"

definition jnullish :: "json \<Rightarrow> json \<Rightarrow> json" where
  "jnullish v d = (if v = JUndef \<or> v = JNull then d else v)"

definition string_items :: "json \<Rightarrow> string list" where
  "string_items v = (case v of JArr xs \<Rightarrow> List.map_filter as_string xs | _ \<Rightarrow> [])"

end
