(* ===== verification/Capability_Step.thy ===== *)
theory Capability_Step
  imports Effects
begin

text \<open>
  \<open>runtime/capability-step.ts\<close>, \<open>runtime/capability-step-schema.ts\<close> and
  \<open>runtime/capability-step-runner.ts\<close>: one capability step, from the resolution of the capability
  through the digest, schema and policy checks to its execution, the validation of its output
  and the events it emits.
\<close>

section \<open>Resolution (\<open>capability-step.ts\<close>)\<close>

definition resolve_capability_for_step ::
    "env \<Rightarrow> pack_registry \<Rightarrow> string \<Rightarrow> (sdk_descriptor \<times> capability_definition) option" where
  "resolve_capability_for_step E R ref =
     (let descriptor = nullish_opt (resolve_capability R (id_ref ref))
            (List.find (\<lambda>d. sd_name d = ref \<or> sd_pack_id d @ ''.'' @ sd_name d = ref \<or> sd_capability_id d = ref)
               (list_capabilities R no_filter))
      in case descriptor of
           None \<Rightarrow> None
         | Some d \<Rightarrow>
             (case get_pack R (sd_pack_id d) of
                None \<Rightarrow> None
              | Some p \<Rightarrow>
                  map_option (\<lambda>f. (d, f))
                    (List.find (\<lambda>f. map_option sd_capability_id (finalize_descriptor E f) = Some (sd_capability_id d))
                       (pk_capabilities p))))"

definition sdk_descriptor_to_policy_capability :: "sdk_descriptor \<Rightarrow> capability_descriptor" where
  "sdk_descriptor_to_policy_capability d =
     \<lparr>cd_endpoint_id = sd_pack_id d, cd_capability_name = sd_name d, cd_description = sd_description d,
      cd_input_schema = sd_input_schema d, cd_output_schema = Some (sd_output_schema d),
      cd_risk_level = sd_risk_level d, cd_requires_approval = sd_requires_approval d,
      cd_capability_digest = sd_capability_digest d,
      cd_side_effect_kind = Some (side_effect_kind_str (sd_side_effect_kind d))\<rparr>"

section \<open>Inputs and results (\<open>capability-step-schema.ts\<close>)\<close>

record step_input =
  si_step_id :: "string option"
  si_plan_id :: string
  si_node_id :: string
  si_capability_ref :: string
  si_capability_digest :: string
  si_input :: json
  si_delegation :: delegation_context
  si_idempotency_key :: string
  si_input_artifact_refs :: "string list"
  si_execution_mode :: "execution_mode option"
  si_dry_run :: bool
  si_trace_id :: "string option"

definition step_input_ok :: "env \<Rightarrow> step_input \<Rightarrow> bool" where
  "step_input_ok E i =
     (opt_ok nonempty (si_step_id i) \<and> nonempty (si_plan_id i) \<and> nonempty (si_node_id i) \<and>
      nonempty (si_capability_ref i) \<and> is_hex64 (si_capability_digest i) \<and>
      delegation_context_ok E (si_delegation i) \<and> nonempty (si_idempotency_key i) \<and>
      list_all nonempty (si_input_artifact_refs i) \<and> opt_ok nonempty (si_trace_id i))"

datatype step_status = SS_success | SS_failed | SS_requires_approval | SS_yielded

record step_result =
  sr_status :: step_status
  sr_output :: "json option"
  sr_output_artifact_refs :: "string list"
  sr_execution_mode :: execution_mode
  sr_policy_report :: "policy_report option"
  sr_observations :: "observation list"
  sr_structured_errors :: "structured_error list"
  sr_duration_ms :: int
  sr_started_at :: string
  sr_completed_at :: string

definition step_result_ok :: "env \<Rightarrow> step_result \<Rightarrow> bool" where
  "step_result_ok E r =
     (list_all nonempty (sr_output_artifact_refs r) \<and> opt_ok (policy_report_ok E) (sr_policy_report r) \<and>
      list_all (observation_ok E) (sr_observations r) \<and>
      list_all (structured_error_ok E) (sr_structured_errors r) \<and> 0 \<le> sr_duration_ms r \<and>
      datetime_ok E (sr_started_at r) \<and> datetime_ok E (sr_completed_at r))"

text \<open>The options of the runner. \<open>so_plan_state\<close> is the plan state when a store is given with it.\<close>

record step_options =
  so_registry :: pack_registry
  so_now :: "string option"
  so_scoped_task :: "scoped_task option"
  so_bounds :: "execution_bounds option"
  so_attempts_used :: "nat option"
  so_runtime_config :: "(string \<times> json) list"
  so_plan_state :: "plan_state option"
  so_records_artifacts :: bool
  so_run_id :: "string option"
  so_emits :: bool

text \<open>\<open>DEFAULT_EXECUTION_BOUNDS\<close> of \<open>schemas/reconciliation.ts\<close>\<close>

definition default_execution_bounds :: execution_bounds where
  "default_execution_bounds =
     \<lparr>eb_max_tasks_per_project = 3, eb_max_execution_intents_per_task = 2,
      eb_max_total_endpoint_attempts = 2, eb_max_risk_without_approval = Risk_read\<rparr>"

section \<open>Intent and task of a step\<close>

definition step_mode :: "step_input \<Rightarrow> execution_mode" where
  "step_mode i = execution_mode_from_dry_run (si_execution_mode i) (Some (si_dry_run i))"

definition intent_from_step :: "step_input \<Rightarrow> sdk_descriptor \<Rightarrow> execution_intent" where
  "intent_from_step i d =
     \<lparr>ei_intent_id = si_plan_id i @ '':'' @ si_node_id i @ '':'' @ sd_name d,
      ei_snapshot_id = ''step_'' @ si_plan_id i, ei_endpoint_id = sd_pack_id d,
      ei_capability_name = sd_name d, ei_capability_digest = sd_capability_digest d,
      ei_risk_level = sd_risk_level d, ei_requires_approval = sd_requires_approval d,
      ei_idempotency_key = si_idempotency_key i,
      ei_arguments = (case si_input i of JObj kvs \<Rightarrow> kvs | v \<Rightarrow> [(''value'', v)])\<rparr>"

definition scoped_task_from_step :: "step_input \<Rightarrow> sdk_descriptor \<Rightarrow> scoped_task" where
  "scoped_task_from_step i d =
     \<lparr>tk_task_id = si_node_id i, tk_title = ''Capability step '' @ si_node_id i,
      tk_objective = ''Run '' @ sd_name d, tk_allowed_scopes = sd_scopes d,
      tk_allowed_capabilities = [sd_name d, sd_capability_id d], tk_max_risk_level = sd_risk_level d\<rparr>"

definition step_policy_input ::
    "step_options \<Rightarrow> step_input \<Rightarrow> sdk_descriptor \<Rightarrow> string \<Rightarrow> policy_gate_input" where
  "step_policy_input opts i d now =
     \<lparr>pg_delegation = si_delegation i,
      pg_task = nullish (so_scoped_task opts) (scoped_task_from_step i d),
      pg_capability = sdk_descriptor_to_policy_capability d,
      pg_intent = intent_from_step i d,
      pg_bounds = nullish (so_bounds opts) default_execution_bounds,
      pg_attempts_used = nullish (so_attempts_used opts) 0,
      pg_now = now\<rparr>"

definition step_context ::
    "step_options \<Rightarrow> step_input \<Rightarrow> sdk_descriptor \<Rightarrow> policy_result \<Rightarrow> exec_context" where
  "step_context opts i d decision =
     \<lparr>xc_delegation = si_delegation i, xc_snapshot_id = ''step_'' @ si_plan_id i,
      xc_project_id = dc_project_id (si_delegation i),
      xc_workspace_id = dc_workspace_id (si_delegation i),
      xc_task_run_id = nullish (dc_task_run_id (si_delegation i)) (si_node_id i),
      xc_trace_id = nullish (si_trace_id i) (dc_trace_id (si_delegation i)),
      xc_idempotency_key = si_idempotency_key i, xc_policy_decision = decision,
      xc_bounds = nullish (so_bounds opts) default_execution_bounds,
      xc_timeout_ms = sd_timeout_ms d,
      xc_runtime_config =
        (let c = AList.update ''node_id'' (JStr (si_node_id i))
                   (AList.update ''plan_id'' (JStr (si_plan_id i)) (so_runtime_config opts))
         in if truthy (so_run_id opts) then AList.update ''run_id'' (JStr (the (so_run_id opts))) c else c)\<rparr>"

section \<open>Artifacts\<close>

definition artifact_refs :: "json \<Rightarrow> string list" where
  "artifact_refs a =
     (let direct = (case as_string (jfield a ''artifact_id'') of Some s \<Rightarrow> [s] | None \<Rightarrow> []);
          output_refs = string_items (jfield (jfield a ''lineage'') ''output_artifact_refs'')
      in uniq (direct @ output_refs))"

definition model_call_artifact_ref :: "json \<Rightarrow> string option" where
  "model_call_artifact_ref a =
     (let direct = as_string (jfield (jfield a ''metadata'') ''model_call_artifact_id'') in
      if truthy direct then direct
      else
        (let artifact_id = as_string (jfield a ''artifact_id'') in
         if as_string (jfield a ''kind'') = Some ''model_call'' \<and> truthy artifact_id
         then artifact_id else None))"

definition with_lineage :: "json \<Rightarrow> step_input \<Rightarrow> sdk_descriptor \<Rightarrow> json" where
  "with_lineage a i d =
     (if \<not> is_object a then a
      else
        (let lineage = jfield a ''lineage'';
             mode = JStr (mode_str (step_mode i));
             keep = (\<lambda>k v. AList.update k (jnullish (jfield lineage k) v))
         in JObj
              (AList.update ''lineage'' (JObj
                (keep ''input_artifact_refs'' (jstrs (si_input_artifact_refs i))
                (keep ''produced_by_node_id'' (JStr (si_node_id i))
                (keep ''produced_by_plan_id'' (JStr (si_plan_id i))
                (keep ''produced_by_capability_id'' (JStr (sd_capability_id d))
                (keep ''produced_by_pack_id'' (JStr (sd_pack_id d)) (obj_entries lineage)))))))
              (AList.update ''source_mode'' (jnullish (jfield a ''source_mode'') mode)
              (AList.update ''execution_mode'' (jnullish (jfield a ''execution_mode'') mode)
                (obj_entries a))))))"

section \<open>Error codes\<close>

fun error_code_str :: "error_code \<Rightarrow> string" where
  "error_code_str INVALID_ARTIFACT = ''INVALID_ARTIFACT''"
| "error_code_str INVALID_PLAN = ''INVALID_PLAN''"
| "error_code_str INVALID_DELEGATION_CONTEXT = ''INVALID_DELEGATION_CONTEXT''"
| "error_code_str SNAPSHOT_MISMATCH = ''SNAPSHOT_MISMATCH''"
| "error_code_str UNKNOWN_MCP_SERVER = ''UNKNOWN_MCP_SERVER''"
| "error_code_str UNKNOWN_CAPABILITY = ''UNKNOWN_CAPABILITY''"
| "error_code_str CAPABILITY_DIGEST_MISMATCH = ''CAPABILITY_DIGEST_MISMATCH''"
| "error_code_str SCHEMA_VALIDATION_FAILED = ''SCHEMA_VALIDATION_FAILED''"
| "error_code_str POLICY_DENIED = ''POLICY_DENIED''"
| "error_code_str APPROVAL_REQUIRED = ''APPROVAL_REQUIRED''"
| "error_code_str PRECONDITION_FAILED = ''PRECONDITION_FAILED''"
| "error_code_str BUDGET_EXCEEDED = ''BUDGET_EXCEEDED''"
| "error_code_str MCP_EXECUTION_FAILED = ''MCP_EXECUTION_FAILED''"
| "error_code_str RESULT_VALIDATION_FAILED = ''RESULT_VALIDATION_FAILED''"
| "error_code_str CRITIC_FAILED = ''CRITIC_FAILED''"
| "error_code_str REVISION_UNSUPPORTED = ''REVISION_UNSUPPORTED''"
| "error_code_str MODEL_PROVIDER_UNAVAILABLE = ''MODEL_PROVIDER_UNAVAILABLE''"
| "error_code_str PATCH_PLAN_GENERATION_FAILED = ''PATCH_PLAN_GENERATION_FAILED''"
| "error_code_str YIELDED = ''YIELDED''"

definition allowed_error_codes :: "error_code list" where
  "allowed_error_codes =
     [INVALID_ARTIFACT, INVALID_PLAN, INVALID_DELEGATION_CONTEXT, SNAPSHOT_MISMATCH,
      UNKNOWN_MCP_SERVER, UNKNOWN_CAPABILITY, CAPABILITY_DIGEST_MISMATCH, SCHEMA_VALIDATION_FAILED,
      POLICY_DENIED, APPROVAL_REQUIRED, PRECONDITION_FAILED, BUDGET_EXCEEDED, MCP_EXECUTION_FAILED,
      RESULT_VALIDATION_FAILED, CRITIC_FAILED, REVISION_UNSUPPORTED, YIELDED]"

definition normalize_error_code :: "string \<Rightarrow> error_code" where
  "normalize_error_code s =
     nullish (List.find (\<lambda>c. error_code_str c = s) allowed_error_codes) MCP_EXECUTION_FAILED"

text \<open>What the \<open>catch\<close> around the execution makes of an error the registry throws.\<close>

fun error_code_from_thrown :: "thrown \<Rightarrow> string" where
  "error_code_from_thrown (Sdk_error code _) = code"
| "error_code_from_thrown _ = ''MCP_EXECUTION_FAILED''"

fun thrown_message :: "thrown \<Rightarrow> string" where
  "thrown_message (Sdk_error _ m) = m"
| "thrown_message (Plain_error m) = m"
| "thrown_message Zod_error = ''Invalid input''"

section \<open>Events of a step\<close>

definition step_attempt_id :: "step_input \<Rightarrow> string" where
  "step_attempt_id i =
     (case si_step_id i of
        Some s \<Rightarrow> if starts_with s ''attempt_'' then s
                  else ''attempt_'' @ si_plan_id i @ ''_'' @ si_node_id i @ ''_initial''
      | None \<Rightarrow> ''attempt_'' @ si_plan_id i @ ''_'' @ si_node_id i @ ''_initial'')"

definition step_node_base :: "step_input \<Rightarrow> node_base" where
  "step_node_base i =
     \<lparr>nb_node_id = si_node_id i, nb_attempt_id = step_attempt_id i, nb_title = None\<rparr>"

definition step_emit :: "host \<Rightarrow> step_options \<Rightarrow> step_input \<Rightarrow> string \<Rightarrow> event_body \<Rightarrow> unit eff" where
  "step_emit H opts i timestamp b =
     ewhen (truthy (so_run_id opts) \<and> so_emits opts)
       (emit_new (h_env H) (the (so_run_id opts)) (si_plan_id i) timestamp b)"


section \<open>Finishing a step\<close>

definition step_artifact_ref :: "string \<Rightarrow> string \<Rightarrow> plan_artifact_ref" where
  "step_artifact_ref artifact_id now =
     \<lparr>ar_artifact_id = artifact_id, ar_kind = PA_capability_step_result,
      ar_path_or_uri = ''artifact://'' @ artifact_id,
      ar_summary = ''Capability step artifact '' @ artifact_id, ar_created_at = now\<rparr>"

fun node_status_of_step :: "step_status \<Rightarrow> plan_node_status" where
  "node_status_of_step SS_success = NS_completed"
| "node_status_of_step SS_requires_approval = NS_yielded"
| "node_status_of_step SS_failed = NS_failed"
| "node_status_of_step SS_yielded = NS_yielded"

definition update_plan_state :: "plan_state \<Rightarrow> step_input \<Rightarrow> step_result \<Rightarrow> string \<Rightarrow> plan_state" where
  "update_plan_state s i r now =
     s\<lparr>ps_node_states := map (\<lambda>n. if ns_node_id n = si_node_id i
         then n\<lparr>ns_status := node_status_of_step (sr_status r), ns_completed_at := Some now,
                ns_artifacts := ns_artifacts n @
                  map (\<lambda>a. step_artifact_ref a now) (sr_output_artifact_refs r),
                ns_errors := ns_errors n @ map se_message (sr_structured_errors r)\<rparr>
         else n) (ps_node_states s),
       ps_updated_at := now\<rparr>"

definition step_result_of ::
    "step_input \<Rightarrow> string \<Rightarrow> step_status \<Rightarrow> json option \<Rightarrow> string list \<Rightarrow> policy_report option
      \<Rightarrow> observation list \<Rightarrow> structured_error list \<Rightarrow> int \<Rightarrow> string \<Rightarrow> step_result" where
  "step_result_of i started_at status output refs report obs errors duration completed_at =
     \<lparr>sr_status = status, sr_output = output, sr_output_artifact_refs = uniq refs,
      sr_execution_mode = step_mode i, sr_policy_report = report, sr_observations = obs,
      sr_structured_errors = errors, sr_duration_ms = duration, sr_started_at = started_at,
      sr_completed_at = completed_at\<rparr>"

definition approval_id_of_step :: "step_input \<Rightarrow> string" where
  "approval_id_of_step i = si_plan_id i @ '':'' @ si_node_id i @ '':approval''"

definition step_finish ::
    "host \<Rightarrow> step_options \<Rightarrow> step_input \<Rightarrow> int \<Rightarrow> string \<Rightarrow> string \<Rightarrow> step_status \<Rightarrow> json option
      \<Rightarrow> string list \<Rightarrow> policy_report option \<Rightarrow> observation list \<Rightarrow> structured_error list
      \<Rightarrow> step_result eff" where
  "step_finish H opts i started started_at now status output refs report obs errors =
     ebind (date_now H) (\<lambda>t.
     ebind (now_iso H) (\<lambda>completed_at.
       let r = step_result_of i started_at status output refs report obs errors
                 (max 0 (t - started)) completed_at in
       if \<not> step_result_ok (h_env H) r then ethrow Zod_error
       else
         ethen (case so_plan_state opts of
                  None \<Rightarrow> ereturn ()
                | Some s \<Rightarrow>
                    let s' = update_plan_state s i r now in
                    if plan_state_ok (h_env H) s'
                    then ebind (store_plan_state (h_env H) s') (\<lambda>_. ereturn ())
                    else ethrow Zod_error)
        (ethen (ewhen (sr_status r = SS_requires_approval)
                 (step_emit H opts i completed_at
                   (Approval_requested (Some (si_node_id i)) (approval_id_of_step i))))
        (ethen (step_emit H opts i completed_at
                 (if sr_status r = SS_failed
                  then Capability_failed (step_node_base i) (si_capability_ref i) (sr_structured_errors r)
                  else Capability_completed (step_node_base i) (si_capability_ref i)
                         (filter nonempty (sr_output_artifact_refs r))))
          (ereturn r)))))"

text \<open>A step that ends with one error and one observation, as every refusal does.\<close>

definition step_refuse ::
    "host \<Rightarrow> step_options \<Rightarrow> step_input \<Rightarrow> int \<Rightarrow> string \<Rightarrow> string \<Rightarrow> string option \<Rightarrow> step_status
      \<Rightarrow> policy_report option \<Rightarrow> string list \<Rightarrow> error_code \<Rightarrow> string \<Rightarrow> observation_status \<Rightarrow> string
      \<Rightarrow> step_result eff" where
  "step_refuse H opts i started started_at now intent_id status report refs code message obs_status summary =
     step_finish H opts i started started_at now status None refs report
       [mk_observation (h_env H) obs_status summary now (Some (si_node_id i)) intent_id None]
       [mk_structured_error code message now (Some (si_node_id i)) intent_id None]"

definition step_failure ::
    "host \<Rightarrow> step_options \<Rightarrow> step_input \<Rightarrow> int \<Rightarrow> string \<Rightarrow> string \<Rightarrow> error_code \<Rightarrow> string
      \<Rightarrow> step_result eff" where
  "step_failure H opts i started started_at now code message =
     step_refuse H opts i started started_at now None SS_failed None [] code message Obs_error message"

section \<open>Running the capability\<close>

text \<open>The callback \<open>recordArtifact\<close> of the execution context.\<close>

definition record_step_artifact ::
    "host \<Rightarrow> step_options \<Rightarrow> step_input \<Rightarrow> sdk_descriptor \<Rightarrow> json \<Rightarrow> unit eff" where
  "record_step_artifact H opts i d a =
     ethen (ewhen (so_records_artifacts opts) (put_artifact H (with_lineage a i d)))
    (ethen (efor (artifact_refs a) (\<lambda>ref.
              ebind (now_iso H) (\<lambda>t. ewhen (ref \<noteq> [])
                (step_emit H opts i t (Artifact_created (Some (si_node_id i)) ref ''capability_step_result'')))))
           (case model_call_artifact_ref a of
              None \<Rightarrow> ereturn ()
            | Some m \<Rightarrow> ebind (now_iso H) (\<lambda>t.
                step_emit H opts i t (Model_call_completed (Some (si_node_id i)) m ''capability'' ''unknown''))))"

definition step_status_of_exec :: "exec_status \<Rightarrow> step_status" where
  "step_status_of_exec s =
     (case s of XS_success \<Rightarrow> SS_success | XS_requires_approval \<Rightarrow> SS_requires_approval
      | XS_yielded \<Rightarrow> SS_yielded | XS_failed \<Rightarrow> SS_failed)"

fun step_status_str :: "step_status \<Rightarrow> string" where
  "step_status_str SS_success = ''success''"
| "step_status_str SS_failed = ''failed''"
| "step_status_str SS_requires_approval = ''requires_approval''"
| "step_status_str SS_yielded = ''yielded''"

text \<open>After the execution: a second validation of the output, with the definition the step resolved,
  and the translation of the result.\<close>

definition step_conclude ::
    "host \<Rightarrow> step_options \<Rightarrow> step_input \<Rightarrow> capability_definition \<Rightarrow> policy_report \<Rightarrow> string \<Rightarrow> int
      \<Rightarrow> string \<Rightarrow> string \<Rightarrow> string list \<Rightarrow> exec_status \<Rightarrow> json option \<Rightarrow> (string \<times> string) list
      \<Rightarrow> step_result eff" where
  "step_conclude H opts i f report intent_id started started_at now refs st output errors =
     (case (case output of None \<Rightarrow> Inr JUndef | Some v \<Rightarrow> cf_output_schema f v) of
        Inl message \<Rightarrow>
          step_refuse H opts i started started_at now (Some intent_id) SS_failed (Some report) refs
            RESULT_VALIDATION_FAILED message Obs_error ''Capability output failed validation.''
      | Inr _ \<Rightarrow>
          (let status = step_status_of_exec st in
           step_finish H opts i started started_at now status output refs (Some report)
             [mk_observation (h_env H)
                (if status = SS_success then Obs_recorded
                 else if status = SS_failed then Obs_error else Obs_skipped)
                (if status = SS_success then ''Capability step completed.''
                 else ''Capability step '' @ step_status_str status @ ''.'')
                now (Some (si_node_id i)) (Some intent_id) output]
             (map (\<lambda>(code, message). mk_structured_error (normalize_error_code code) message now
                     (Some (si_node_id i)) (Some intent_id) None) errors)))"

text \<open>A callback that throws makes the capability that awaits it throw, and the executor turns that into a
  failed result: what was to be recorded next is not recorded.\<close>

fun callback_error :: "thrown \<Rightarrow> string \<times> string" where
  "callback_error (Sdk_error code m) = (code, m)"
| "callback_error e = (''CAPABILITY_EXECUTION_FAILED'', thrown_message e)"

primrec record_step_artifacts ::
    "host \<Rightarrow> step_options \<Rightarrow> step_input \<Rightarrow> sdk_descriptor \<Rightarrow> json list \<Rightarrow> (string list \<times> thrown option) eff" where
  "record_step_artifacts H opts i d [] = ereturn ([], None)"
| "record_step_artifacts H opts i d (a # rest) =
     ebind (etry (record_step_artifact H opts i d a)) (\<lambda>r. case r of
         Inl e \<Rightarrow> ereturn (artifact_refs a, Some e)
       | Inr _ \<Rightarrow> ebind (record_step_artifacts H opts i d rest) (\<lambda>(refs, failure).
           ereturn (artifact_refs a @ refs, failure)))"

definition step_execute ::
    "host \<Rightarrow> step_options \<Rightarrow> step_input \<Rightarrow> sdk_descriptor \<Rightarrow> capability_definition \<Rightarrow> json
      \<Rightarrow> policy_result \<Rightarrow> policy_report \<Rightarrow> string \<Rightarrow> int \<Rightarrow> string \<Rightarrow> string \<Rightarrow> step_result eff" where
  "step_execute H opts i d f data decision report intent_id started started_at now =
     (case execute_capability (so_registry opts) (id_ref (sd_capability_id d)) data
             (step_context opts i d decision) of
        Inl e \<Rightarrow>
          step_conclude H opts i f report intent_id started started_at now [] XS_failed None
            [(error_code_from_thrown e, thrown_message e)]
      | Inr (recorded, calls, r) \<Rightarrow>
          ethen (efor calls (put_call (sd_capability_id d)))
         (ebind (record_step_artifacts H opts i d recorded) (\<lambda>(refs, failure). case failure of
            Some e \<Rightarrow>
              step_conclude H opts i f report intent_id started started_at now refs XS_failed None [callback_error e]
          | None \<Rightarrow>
              step_conclude H opts i f report intent_id started started_at now
                (refs @ concat (map artifact_refs (xr_artifacts r)))
                (xr_status r) (xr_output r) (xr_structured_errors r))))"

section \<open>The step\<close>

definition mock_message :: string where
  "mock_message = ''Mock execution mode is only allowed in tests.''"

definition dry_run_message :: string where
  "dry_run_message =
     ''Capability step dry run validated capability, schema, and policy without execution.''"

text \<open>The part of the step behind the input check: policy, modes, execution.\<close>

definition step_after_schema ::
    "host \<Rightarrow> step_options \<Rightarrow> step_input \<Rightarrow> sdk_descriptor \<Rightarrow> capability_definition \<Rightarrow> json \<Rightarrow> int
      \<Rightarrow> string \<Rightarrow> string \<Rightarrow> step_result eff" where
  "step_after_schema H opts i d f data started started_at now =
     (let intent_id = ei_intent_id (intent_from_step i d);
          (decision, report) = evaluate_policy_with_report (h_env H) (step_policy_input opts i d now);
          refuse = step_refuse H opts i started started_at now (Some intent_id)
      in
      ethen (step_emit H opts i now
              (Policy_evaluated (Some (si_node_id i)) (Some (si_capability_ref i))
                 (policy_outcome_str (pr_decision report)) None (Some report)))
       (if po_outcome decision = Out_yield
        then refuse SS_yielded (Some report) [] YIELDED (po_reason decision) Obs_skipped (po_reason decision)
        else if po_outcome decision = Out_deny
        then refuse SS_failed (Some report) [] POLICY_DENIED (po_reason decision) Obs_error (po_reason decision)
        else if po_outcome decision = Out_requires_approval
        then refuse SS_requires_approval (Some report) [] APPROVAL_REQUIRED (po_reason decision)
               Obs_skipped (po_reason decision)
        else if step_mode i = Mode_mock \<and> \<not> h_is_test H
        then refuse SS_failed (Some report) [] POLICY_DENIED mock_message Obs_error mock_message
        else if step_mode i = Mode_dry_run
        then refuse SS_yielded (Some report) [] YIELDED dry_run_message Obs_skipped dry_run_message
        else step_execute H opts i d f data decision report intent_id started started_at now))"

definition run_capability_step :: "host \<Rightarrow> step_options \<Rightarrow> step_input \<Rightarrow> step_result eff" where
  "run_capability_step H opts i =
     ebind (date_now H) (\<lambda>started.
       let started_at = h_iso H started in
       if \<not> step_input_ok (h_env H) i then ethrow Zod_error
       else
         ebind (case so_now opts of Some t \<Rightarrow> ereturn t | None \<Rightarrow> now_iso H) (\<lambda>now.
           (case resolve_capability_for_step (h_env H) (so_registry opts) (si_capability_ref i) of
              None \<Rightarrow>
                step_failure H opts i started started_at now UNKNOWN_CAPABILITY
                  (''Unknown capability: '' @ si_capability_ref i)
            | Some (d, f) \<Rightarrow>
                if sd_capability_digest d \<noteq> si_capability_digest i
                then step_failure H opts i started started_at now CAPABILITY_DIGEST_MISMATCH
                       ''Capability digest does not match current registry descriptor.''
                else
                  ethen (step_emit H opts i now (Capability_started (step_node_base i) (si_capability_ref i)))
                   (case cf_input_schema f (si_input i) of
                      Inl message \<Rightarrow>
                        step_failure H opts i started started_at now SCHEMA_VALIDATION_FAILED message
                    | Inr data \<Rightarrow> step_after_schema H opts i d f data started started_at now))))"


section \<open>What a step may do\<close>

lemma keeps_step_emit [keeps_intros]:
  "keeps w_calls (step_emit H opts i t b)" "keeps w_plan_states (step_emit H opts i t b)"
  unfolding step_emit_def by (intro keeps_intros)+

lemma keeps_calls_finish [keeps_intros]:
  "keeps w_calls (step_finish H opts i started started_at now status output refs report obs errors)"
  unfolding step_finish_def Let_def by (intro keeps_intros)

lemma keeps_calls_refuse [keeps_intros]:
  "keeps w_calls (step_refuse H opts i started started_at now iid st rep refs code msg os sm)"
  unfolding step_refuse_def by (intro keeps_intros)

lemma keeps_calls_failure [keeps_intros]:
  "keeps w_calls (step_failure H opts i started started_at now code msg)"
  unfolding step_failure_def by (intro keeps_intros)

text \<open>The time stamp a step uses for its decisions.\<close>

definition step_now :: "host \<Rightarrow> step_options \<Rightarrow> world \<Rightarrow> string" where
  "step_now H opts w = nullish (so_now opts) (h_iso H (h_ms H (Suc (w_clock w))))"

text \<open>The conditions under which the code of a capability may run.\<close>

definition step_permitted :: "host \<Rightarrow> step_options \<Rightarrow> step_input \<Rightarrow> string \<Rightarrow> bool" where
  "step_permitted H opts i now \<longleftrightarrow>
     step_input_ok (h_env H) i \<and>
     (\<exists>d f data. resolve_capability_for_step (h_env H) (so_registry opts) (si_capability_ref i) = Some (d, f) \<and>
        sd_capability_digest d = si_capability_digest i \<and> cf_input_schema f (si_input i) = Inr data \<and>
        po_outcome (evaluate_policy (h_env H) (step_policy_input opts i d now)) = Out_allow) \<and>
     step_mode i \<noteq> Mode_dry_run \<and> (step_mode i = Mode_mock \<longrightarrow> h_is_test H)"

lemma after_schema_calls:
  assumes "\<not> (po_outcome (evaluate_policy (h_env H) (step_policy_input opts i d now)) = Out_allow \<and>
      step_mode i \<noteq> Mode_dry_run \<and> (step_mode i = Mode_mock \<longrightarrow> h_is_test H))"
  shows "keeps w_calls (step_after_schema H opts i d f data started started_at now)"
proof (cases "po_outcome (evaluate_policy (h_env H) (step_policy_input opts i d now)) = Out_allow")
  case True
  with assms consider "step_mode i = Mode_dry_run" | "step_mode i = Mode_mock" "\<not> h_is_test H" by blast
  then show ?thesis
    using True unfolding step_after_schema_def Let_def case_prod_unfold evaluate_policy_def
    by cases (auto intro!: keeps_intros)
next
  case False
  then show ?thesis
    unfolding step_after_schema_def Let_def case_prod_unfold evaluate_policy_def
    by (cases "po_outcome (fst (evaluate_policy_with_report (h_env H) (step_policy_input opts i d now)))")
      (auto intro!: keeps_intros)
qed

lemma step_calls_permitted:
  assumes run: "run_capability_step H opts i w = (r, w')" and called: "w_calls w' \<noteq> w_calls w"
  shows "step_permitted H opts i (step_now H opts w)"
proof (rule ccontr)
  assume no: "\<not> ?thesis"
  let ?w1 = "w\<lparr>w_clock := Suc (w_clock w)\<rparr>"
  let ?w2 = "case so_now opts of Some t \<Rightarrow> ?w1 | None \<Rightarrow> w\<lparr>w_clock := Suc (Suc (w_clock w))\<rparr>"
  have now: "(case so_now opts of Some t \<Rightarrow> ereturn t | None \<Rightarrow> now_iso H) ?w1 =
      (Inr (step_now H opts w), ?w2)"
    by (cases "so_now opts") (simp_all add: step_now_def now_iso_run)
  define rest where "rest = (case resolve_capability_for_step (h_env H) (so_registry opts) (si_capability_ref i) of
              None \<Rightarrow>
                step_failure H opts i (h_ms H (w_clock w)) (h_iso H (h_ms H (w_clock w))) (step_now H opts w)
                  UNKNOWN_CAPABILITY (''Unknown capability: '' @ si_capability_ref i)
            | Some (d, f) \<Rightarrow>
                if sd_capability_digest d \<noteq> si_capability_digest i
                then step_failure H opts i (h_ms H (w_clock w)) (h_iso H (h_ms H (w_clock w)))
                       (step_now H opts w) CAPABILITY_DIGEST_MISMATCH
                       ''Capability digest does not match current registry descriptor.''
                else
                  ethen (step_emit H opts i (step_now H opts w)
                          (Capability_started (step_node_base i) (si_capability_ref i)))
                   (case cf_input_schema f (si_input i) of
                      Inl message \<Rightarrow>
                        step_failure H opts i (h_ms H (w_clock w)) (h_iso H (h_ms H (w_clock w)))
                          (step_now H opts w) SCHEMA_VALIDATION_FAILED message
                    | Inr data \<Rightarrow> step_after_schema H opts i d f data (h_ms H (w_clock w))
                        (h_iso H (h_ms H (w_clock w))) (step_now H opts w)))"
  have split: "run_capability_step H opts i w =
      (if \<not> step_input_ok (h_env H) i then (Inl Zod_error, ?w1) else rest ?w2)"
    using now by (simp add: run_capability_step_def ebind_run date_now_def Let_def rest_def)
  have w2: "w_calls ?w2 = w_calls w" by (cases "so_now opts") simp_all
  have "keeps w_calls rest" if "step_input_ok (h_env H) i"
  proof (cases "resolve_capability_for_step (h_env H) (so_registry opts) (si_capability_ref i)")
    case None
    then show ?thesis unfolding rest_def by (simp add: keeps_intros)
  next
    case (Some df)
    obtain d f where df: "df = (d, f)" by (cases df)
    show ?thesis
    proof (cases "sd_capability_digest d = si_capability_digest i")
      case True
      have "keeps w_calls (step_after_schema H opts i d f data (h_ms H (w_clock w))
          (h_iso H (h_ms H (w_clock w))) (step_now H opts w))" if "cf_input_schema f (si_input i) = Inr data" for data
        using no \<open>step_input_ok (h_env H) i\<close> Some df True that
        by (intro after_schema_calls) (auto simp: step_permitted_def)
      then show ?thesis
        unfolding rest_def using Some df True
        by (cases "cf_input_schema f (si_input i)") (simp_all add: keeps_intros)
    next
      case False
      then show ?thesis unfolding rest_def using Some df by (simp add: keeps_intros)
    qed
  qed
  with run called split w2 show False
    by (auto dest: keepsD split: if_splits)
qed


section \<open>What a result means\<close>

lemma step_finish_inr:
  assumes "step_finish H opts i started started_at now status output refs report obs errors w = (Inr r, w')"
  shows "sr_status r = status \<and> sr_output r = output \<and> sr_output_artifact_refs r = uniq refs \<and>
    sr_policy_report r = report \<and> sr_structured_errors r = errors \<and> step_result_ok (h_env H) r"
  using assms unfolding step_finish_def Let_def ebind_inr
  by (auto simp: ebind_inr ethen_inr step_result_of_def split: if_splits)

lemma refuse_status:
  "step_refuse H opts i started started_at now iid st rep refs code msg os sm w = (Inr r, w') \<Longrightarrow>
     sr_status r = st \<and> sr_output r = None \<and> sr_policy_report r = rep \<and>
     map se_code (sr_structured_errors r) = [code]"
  unfolding step_refuse_def by (auto dest!: step_finish_inr simp: mk_structured_error_def)

lemma failure_status:
  "step_failure H opts i started started_at now code msg w = (Inr r, w') \<Longrightarrow>
     sr_status r = SS_failed \<and> sr_output r = None \<and> sr_policy_report r = None \<and>
     map se_code (sr_structured_errors r) = [code]"
  unfolding step_failure_def by (rule refuse_status)

lemma efor_put_calls:
  "efor xs (put_call c) w = (Inr (), w\<lparr>w_calls := w_calls w @ map (Pair c) xs\<rparr>)"
  by (induction xs arbitrary: w) (simp_all add: ethen_run put_call_def)

lemma keeps_record_artifact [keeps_intros]: "keeps w_calls (record_step_artifact H opts i d a)"
  unfolding record_step_artifact_def by (intro keeps_intros)

lemma keeps_record_artifacts [keeps_intros]: "keeps w_calls (record_step_artifacts H opts i d as)"
  by (induction as) (simp_all only: record_step_artifacts.simps, (intro keeps_intros | assumption)+)

lemma keeps_conclude [keeps_intros]:
  "keeps w_calls (step_conclude H opts i f report iid started started_at now refs st output errors)"
  unfolding step_conclude_def Let_def by (intro keeps_intros)

lemma conclude_success:
  assumes "step_conclude H opts i f report iid started started_at now refs st output errors w = (Inr r, w')"
    and "sr_status r = SS_success"
  shows "st = XS_success \<and> sr_output r = output \<and>
    (\<forall>v. output = Some v \<longrightarrow> (\<exists>x. cf_output_schema f v = Inr x))"
  using assms unfolding step_conclude_def Let_def
  by (cases "output"; cases st)
    (auto dest!: step_finish_inr refuse_status simp: step_status_of_exec_def split: sum.splits)

lemma execute_success:
  assumes run: "step_execute H opts i d f data decision report iid started started_at now w = (Inr r, w')"
    and ok: "sr_status r = SS_success"
  shows "\<exists>x recorded xr. execute_capability (so_registry opts) (id_ref (sd_capability_id d)) data
      (step_context opts i d decision) = Inr (recorded, [x], xr) \<and> xr_status xr = XS_success \<and>
    sr_output r = xr_output xr \<and> w_calls w' = w_calls w @ [(sd_capability_id d, x)] \<and>
    (\<forall>v. sr_output r = Some v \<longrightarrow> (\<exists>x. cf_output_schema f v = Inr x))"
proof (cases "execute_capability (so_registry opts) (id_ref (sd_capability_id d)) data (step_context opts i d decision)")
  case (Inl e)
  with run ok show ?thesis unfolding step_execute_def by (auto dest!: conclude_success)
next
  case (Inr t)
  obtain recorded calls xr where t: "t = (recorded, calls, xr)" by (cases t)
  obtain w1 w2 refs failure where w1: "efor calls (put_call (sd_capability_id d)) w = (Inr (), w1)"
    and w2: "record_step_artifacts H opts i d recorded w1 = (Inr (refs, failure), w2)"
    and rest: "(case failure of
            Some e \<Rightarrow>
              step_conclude H opts i f report iid started started_at now refs XS_failed None [callback_error e]
          | None \<Rightarrow>
              step_conclude H opts i f report iid started started_at now
                (refs @ concat (map artifact_refs (xr_artifacts xr)))
                (xr_status xr) (xr_output xr) (xr_structured_errors xr)) w2 = (Inr r, w')"
    using run Inr t unfolding step_execute_def by (auto simp: ethen_inr ebind_inr)
  have "failure = None" using rest ok by (cases failure) (auto dest!: conclude_success)
  with rest have fin: "step_conclude H opts i f report iid started started_at now
             (refs @ concat (map artifact_refs (xr_artifacts xr)))
             (xr_status xr) (xr_output xr) (xr_structured_errors xr) w2 = (Inr r, w')" by simp
  have succ: "xr_status xr = XS_success" "sr_output r = xr_output xr"
    "\<forall>v. xr_output xr = Some v \<longrightarrow> (\<exists>x. cf_output_schema f v = Inr x)"
    using conclude_success [OF fin ok] by auto
  obtain e where run_def: "execute_definition e (step_context opts i d decision) data = (recorded, calls, xr)"
    using Inr t by (auto simp: execute_capability_def split: option.splits if_splits)
  with succ(1) obtain x where "calls = [x]" using execute_definition_cases [OF run_def] by auto
  moreover have "keeps w_calls (record_step_artifacts H opts i d recorded)" by (rule keeps_record_artifacts)
  then have "w_calls w' = w_calls w1"
    using w2 fin keepsD [OF keeps_conclude fin] by (auto dest: keepsD)
  ultimately show ?thesis using Inr t succ w1 efor_put_calls [of calls "sd_capability_id d" w] by auto
qed

lemma after_schema_success:
  assumes run: "step_after_schema H opts i d f data started started_at now w = (Inr r, w')"
    and ok: "sr_status r = SS_success"
  shows "\<exists>x. w_calls w' = w_calls w @ [(sd_capability_id d, x)] \<and>
    (\<forall>v. sr_output r = Some v \<longrightarrow> (\<exists>x. cf_output_schema f v = Inr x))"
proof -
  obtain decision report where pol:
    "evaluate_policy_with_report (h_env H) (step_policy_input opts i d now) = (decision, report)"
    by (cases "evaluate_policy_with_report (h_env H) (step_policy_input opts i d now)")
  obtain w1 where emit: "step_emit H opts i now
              (Policy_evaluated (Some (si_node_id i)) (Some (si_capability_ref i))
                 (policy_outcome_str (pr_decision report)) None (Some report)) w = (Inr (), w1)"
    and exec: "step_execute H opts i d f data decision report (ei_intent_id (intent_from_step i d))
        started started_at now w1 = (Inr r, w')"
    using run ok pol unfolding step_after_schema_def Let_def
    by (auto simp: ethen_inr split: if_splits dest!: refuse_status)
  have "w_calls w1 = w_calls w" using keepsD [OF keeps_step_emit(1) emit] .
  with execute_success [OF exec ok] show ?thesis by auto
qed

lemma step_success:
  assumes run: "run_capability_step H opts i w = (Inr r, w')" and ok: "sr_status r = SS_success"
  shows "\<exists>d f x. resolve_capability_for_step (h_env H) (so_registry opts) (si_capability_ref i) = Some (d, f) \<and>
    w_calls w' = w_calls w @ [(sd_capability_id d, x)] \<and>
    (\<forall>v. sr_output r = Some v \<longrightarrow> (\<exists>x. cf_output_schema f v = Inr x))"
proof -
  obtain w1 now where w1: "(case so_now opts of Some t \<Rightarrow> ereturn t | None \<Rightarrow> now_iso H)
        (w\<lparr>w_clock := Suc (w_clock w)\<rparr>) = (Inr now, w1)"
    and rest: "(case resolve_capability_for_step (h_env H) (so_registry opts) (si_capability_ref i) of
              None \<Rightarrow> step_failure H opts i (h_ms H (w_clock w)) (h_iso H (h_ms H (w_clock w))) now
                  UNKNOWN_CAPABILITY (''Unknown capability: '' @ si_capability_ref i)
            | Some (d, f) \<Rightarrow>
                if sd_capability_digest d \<noteq> si_capability_digest i
                then step_failure H opts i (h_ms H (w_clock w)) (h_iso H (h_ms H (w_clock w))) now
                       CAPABILITY_DIGEST_MISMATCH
                       ''Capability digest does not match current registry descriptor.''
                else
                  ethen (step_emit H opts i now (Capability_started (step_node_base i) (si_capability_ref i)))
                   (case cf_input_schema f (si_input i) of
                      Inl message \<Rightarrow> step_failure H opts i (h_ms H (w_clock w))
                        (h_iso H (h_ms H (w_clock w))) now SCHEMA_VALIDATION_FAILED message
                    | Inr data \<Rightarrow> step_after_schema H opts i d f data (h_ms H (w_clock w))
                        (h_iso H (h_ms H (w_clock w))) now)) w1 = (Inr r, w')"
    using run by (auto simp: run_capability_step_def ebind_inr date_now_def Let_def split: if_splits)
  have k1: "w_calls w1 = w_calls w"
    using w1 by (cases "so_now opts") (auto simp: now_iso_run)
  obtain d f where df: "resolve_capability_for_step (h_env H) (so_registry opts) (si_capability_ref i) = Some (d, f)"
    using rest ok by (auto split: option.splits dest!: failure_status)
  obtain data w2 where emit: "step_emit H opts i now
          (Capability_started (step_node_base i) (si_capability_ref i)) w1 = (Inr (), w2)"
    and after: "step_after_schema H opts i d f data (h_ms H (w_clock w)) (h_iso H (h_ms H (w_clock w))) now w2
        = (Inr r, w')"
    using rest ok df by (auto simp: ethen_inr split: if_splits sum.splits dest!: failure_status)
  have "w_calls w2 = w_calls w1" using keepsD [OF keeps_step_emit(1) emit] .
  with after_schema_success [OF after ok] k1 df show ?thesis by auto
qed


section \<open>Properties\<close>

definition empty_world :: world where
  "empty_world = \<lparr>w_clock = 0, w_plan_states = [], w_events = [], w_artifacts = [], w_calls = []\<rparr>"

definition zero_host :: host where
  "zero_host = \<lparr>h_env = zero_env, h_ms = (\<lambda>_. 0), h_iso = (\<lambda>_. ''t''), h_is_test = False,
     h_yaml = (\<lambda>_. []), h_sink = (\<lambda>_. None)\<rparr>"

definition sample_delegation :: delegation_context where
  "sample_delegation =
     \<lparr>dc_principal_id = ''p'', dc_principal_type = Principal_human, dc_delegate_id = ''d'',
      dc_delegate_type = Delegate_runtime, dc_project_id = ''pr'', dc_workspace_id = ''ws'',
      dc_allowed_scopes = [], dc_denied_scopes = [], dc_allowed_capabilities = [],
      dc_max_risk_level = Risk_read, dc_approval_required_for = [], dc_expires_at = ''t'',
      dc_trace_id = ''tr'', dc_parent_run_id = ''r'', dc_task_run_id = None\<rparr>"

definition sample_step :: "string \<Rightarrow> step_input" where
  "sample_step c =
     \<lparr>si_step_id = None, si_plan_id = ''plan'', si_node_id = ''node'', si_capability_ref = c,
      si_capability_digest = replicate 64 (CHR ''0''), si_input = JNull,
      si_delegation = sample_delegation, si_idempotency_key = ''key'', si_input_artifact_refs = [],
      si_execution_mode = None, si_dry_run = False, si_trace_id = None\<rparr>"

definition sample_options :: "pack_registry \<Rightarrow> step_options" where
  "sample_options R =
     \<lparr>so_registry = R, so_now = Some ''t'', so_scoped_task = None, so_bounds = None,
      so_attempts_used = None, so_runtime_config = [], so_plan_state = None,
      so_records_artifacts = False, so_run_id = None, so_emits = False\<rparr>"

text \<open>C6: The code of a capability runs only in a step whose input is valid, whose capability resolves
  with the digest of the step, whose input passes the schema, that the policy gate allows, and
  that is neither a dry run nor, outside tests, a mock: in every other step no capability code
  is called, whether the step returns a result or throws.\<close>
theorem step_calls_only_when_permitted:
  assumes "\<not> step_permitted H opts i (step_now H opts w)"
  shows "w_calls (snd (run_capability_step H opts i w)) = w_calls w"
  using step_calls_permitted [of H opts i w "fst (run_capability_step H opts i w)"
      "snd (run_capability_step H opts i w)"] assms by auto

theorem step_calls_only_when_permitted_witness:
  "w_calls (snd (run_capability_step zero_host (sample_options create_pack_registry) (sample_step ''c'') empty_world)) = []"
proof -
  have "\<not> step_permitted zero_host (sample_options create_pack_registry) (sample_step ''c'')
      (step_now zero_host (sample_options create_pack_registry) empty_world)"
    by (simp add: step_permitted_def resolve_capability_for_step_def resolve_capability_def
        sample_options_def sample_step_def id_ref_def create_pack_registry_def list_capabilities_def)
  from step_calls_only_when_permitted [OF this] show ?thesis by (simp add: empty_world_def)
qed

definition sample_registry :: pack_registry where
  "sample_registry =
     \<lparr>rg_packs = [(''pk'', sample_pack [sample_definition ''c'' (JBool True)])],
      rg_capabilities = [(''c'', \<lparr>rg_pack = sample_pack [sample_definition ''c'' (JBool True)],
        rg_definition = sample_definition ''c'' (JBool True), rg_descriptor = finalized ''c''\<rparr>)]\<rparr>"

lemma sample_resolves:
  "resolve_capability_for_step zero_env sample_registry ''c'' = Some (finalized ''c'', sample_definition ''c'' (JBool True))"
  by (simp add: resolve_capability_for_step_def resolve_capability_def id_ref_def sample_registry_def
      get_pack_def sample_pack_def finalize_sample finalized_def sample_descriptor_def)

lemma sample_execution_result:
  "execute_capability sample_registry (id_ref ''c'') JNull c =
     Inr ([], [JNull], exec_result_of XS_success c (JBool True) [])"
  by (simp add: execute_capability_def resolve_capability_def id_ref_def sample_registry_def finalized_def
      sample_descriptor_def execute_definition_def sample_definition_def)

lemma sample_policy:
  "evaluate_policy_with_report zero_env (step_policy_input (sample_options R) (sample_step ''c'') (finalized ''c'') ''t'') =
     policy_finish (step_policy_input (sample_options R) (sample_step ''c'') (finalized ''c'') ''t'')
       Out_allow ''Policy gate allowed execution'' policy_rules [] []"
  by (simp add: evaluate_policy_with_report_def policy_conditions step_policy_input_def sample_options_def
      sample_step_def default_execution_bounds_def date_le_def zero_env_def scoped_task_from_step_def
      sample_delegation_def finalized_def sample_descriptor_def trim_def intent_from_step_def
      sdk_descriptor_to_policy_capability_def pg_capability_ref_def is_space_def)

lemma sample_step_runs:
  "\<exists>r w'. run_capability_step zero_host (sample_options sample_registry) (sample_step ''c'') empty_world = (Inr r, w') \<and>
     sr_status r = SS_success \<and> sr_output r = Some (JBool True)"
proof -
  have ok: "step_input_ok zero_env (sample_step ''c'')"
    by (simp add: step_input_ok_def sample_step_def is_hex64_def list_all_iff delegation_context_ok_def
        sample_delegation_def zero_env_def)
  have mode: "step_mode (sample_step ''c'') = Mode_live"
    by (simp add: step_mode_def execution_mode_from_dry_run_def sample_step_def)
  have reg: "so_registry (sample_options sample_registry) = sample_registry"
    "so_now (sample_options sample_registry) = Some ''t''" "so_run_id (sample_options sample_registry) = None"
    "so_plan_state (sample_options sample_registry) = None" by (simp_all add: sample_options_def)
  have step: "si_capability_ref (sample_step ''c'') = ''c''" "si_input (sample_step ''c'') = JNull"
    "si_capability_digest (sample_step ''c'') = sd_capability_digest (finalized ''c'')"
    "sd_capability_id (finalized ''c'') = ''c''"
    by (simp_all add: sample_step_def finalized_def sample_descriptor_def)
  have schemas: "cf_input_schema (sample_definition ''c'' (JBool True)) = Inr"
    "cf_output_schema (sample_definition ''c'' (JBool True)) = Inr"
    by (simp_all add: sample_definition_def)
  have rep: "policy_report_ok zero_env (snd (policy_finish
      (step_policy_input (sample_options R) (sample_step ''c'') (finalized ''c'') ''t'') Out_allow m rs [] []))" for R m rs
    by (simp add: policy_finish_def policy_report_ok_def pg_capability_ref_def step_policy_input_def
        sdk_descriptor_to_policy_capability_def finalized_def sample_descriptor_def sample_step_def
        sample_delegation_def zero_env_def)
  have obs: "observation_ok zero_env (mk_observation zero_env st sm ''t'' tk iid out)" for st sm tk iid out
    by (simp add: observation_ok_def mk_observation_def deterministic_observation_id_def det_id_def zero_env_def)
  have host: "h_env zero_host = zero_env" "h_ms zero_host n = 0" "h_iso zero_host k = ''t''"
    "datetime_ok zero_env s" for n k s by (simp_all add: zero_host_def zero_env_def)
  show ?thesis
    by (simp add: run_capability_step_def step_after_schema_def step_execute_def step_conclude_def
        step_finish_def step_emit_def eff_simps date_now_def ok mode reg step schemas sample_resolves
        sample_policy sample_execution_result host efor_put_calls put_call_def exec_result_of_def
        step_status_of_exec_def step_result_of_def step_result_ok_def rep obs policy_finish_simps Let_def
        case_prod_unfold)
qed


lemma success_permitted:
  assumes "run_capability_step H opts i w = (Inr r, w')" and "sr_status r = SS_success"
  shows "step_permitted H opts i (step_now H opts w)"
proof -
  obtain c where "w_calls w' = w_calls w @ [c]"
    using step_success [OF assms] by blast
  then have "w_calls w' \<noteq> w_calls w" by simp
  with assms(1) show ?thesis by (rule step_calls_permitted)
qed

text \<open>A step that reports success was permitted, called the code of the capability it resolved
  exactly once, and its output, if any, passes the output schema of that capability.\<close>
lemma step_success_means_one_call:
  assumes "run_capability_step H opts i w = (Inr r, w')" and "sr_status r = SS_success"
  shows "step_permitted H opts i (step_now H opts w) \<and>
    (\<exists>d f x. resolve_capability_for_step (h_env H) (so_registry opts) (si_capability_ref i) = Some (d, f) \<and>
       w_calls w' = w_calls w @ [(sd_capability_id d, x)] \<and>
       (\<forall>v \<in> set_option (sr_output r). \<exists>y. cf_output_schema f v = Inr y))"
  using success_permitted [OF assms] step_success [OF assms] by (auto simp: elem_set)

lemma step_success_means_one_call_witness:
  "\<exists>r w' x. run_capability_step zero_host (sample_options sample_registry) (sample_step ''c'') empty_world = (Inr r, w') \<and>
     w_calls w' = [(''c'', x)]"
proof -
  obtain r w' where run: "run_capability_step zero_host (sample_options sample_registry) (sample_step ''c'') empty_world = (Inr r, w')"
    and ok: "sr_status r = SS_success" using sample_step_runs by blast
  from step_success_means_one_call [OF run ok]
  have "\<exists>x. w_calls w' = [(''c'', x)]"
    by (auto simp: zero_host_def sample_options_def sample_step_def sample_resolves empty_world_def
        finalized_def sample_descriptor_def)
  with run show ?thesis by blast
qed

text \<open>A step without a scoped task of its own passes the allow-list check of the policy gate
  whatever the delegation allows: the task made up for it allows the very capability it is
  about to run, and the gate accepts what either the delegation or the task allows. The task's
  risk bound is the capability's own risk as well.\<close>
lemma default_task_allows_every_capability:
  "capability_allowed (step_policy_input (opts\<lparr>so_scoped_task := None\<rparr>) i d now) \<and>
   (risk_within (step_policy_input (opts\<lparr>so_scoped_task := None\<rparr>) i d now) \<longleftrightarrow>
      risk_order (sd_risk_level d) \<le> risk_order (dc_max_risk_level (si_delegation i)))"
  by (auto simp: capability_allowed_def risk_within_def step_policy_input_def scoped_task_from_step_def
      sdk_descriptor_to_policy_capability_def intent_from_step_def Let_def)

text \<open>Two codes of the schema are missing from the list a step accepts from a capability.\<close>

lemma error_code_str_inject: "error_code_str a = error_code_str b \<longleftrightarrow> a = b"
  by (cases a; cases b; simp)

lemma normalize_error_code_of_str:
  "normalize_error_code (error_code_str c) =
     (if c \<in> {MODEL_PROVIDER_UNAVAILABLE, PATCH_PLAN_GENERATION_FAILED} then MCP_EXECUTION_FAILED else c)"
  by (cases c) (simp_all add: normalize_error_code_def allowed_error_codes_def error_code_str_inject del: error_code_str.simps)

end
