(* ===== verification/Work_Order.thy ===== *)
theory Work_Order
  imports Plan_Graph Samples
begin

text \<open>
  \<open>planning/work-order.ts\<close> and \<open>planning/work-order-compiler.ts\<close>: the work order a node handler is
  given, compiled from the plan, the node and the capability snapshot.
\<close>

datatype model_role_hint = Role_planner | Role_implementer | Role_reviewer | Role_repair | Role_summarizer

record work_order =
  wo_work_order_id :: string
  wo_plan_id :: string
  wo_node_id :: string
  wo_phase :: string
  wo_objective :: string
  wo_acceptance_criteria :: "string list"
  wo_non_goals :: "string list"
  wo_assumptions :: "string list"
  wo_constraints :: "string list"
  wo_allowed_capability_snapshot :: capability_snapshot
  wo_input_artifacts :: "string list"
  wo_required_output_schema :: json
  wo_relevant_evidence :: "string list"
  wo_latest_failures :: "string list"
  wo_max_attempts :: nat
  wo_model_role_hint :: model_role_hint

definition work_order_ok :: "env \<Rightarrow> work_order \<Rightarrow> bool" where
  "work_order_ok E w =
     (nonempty (wo_work_order_id w) \<and> nonempty (wo_plan_id w) \<and> nonempty (wo_node_id w) \<and>
      nonempty (wo_phase w) \<and> nonempty (wo_objective w) \<and>
      list_all nonempty (wo_acceptance_criteria w) \<and> list_all nonempty (wo_non_goals w) \<and>
      list_all nonempty (wo_assumptions w) \<and> list_all nonempty (wo_constraints w) \<and>
      capability_snapshot_ok E (wo_allowed_capability_snapshot w) \<and>
      list_all nonempty (wo_input_artifacts w) \<and> 1 \<le> wo_max_attempts w)"

section \<open>Acceptance criteria\<close>

definition char_is_digit :: "char \<Rightarrow> bool" where
  "char_is_digit c = (let n = of_char c :: nat in 48 \<le> n \<and> n \<le> 57)"

text \<open>\<open>Number(s)\<close> of a string of digits.\<close>

definition nat_of_digits :: "string \<Rightarrow> nat" where
  "nat_of_digits s = fold (\<lambda>c n. n * 10 + (of_char c - 48)) s 0"

text \<open>The match of an acceptance reference, \<open>acceptance:\<close> and at least one digit: the number.\<close>

definition acceptance_number :: "string \<Rightarrow> nat option" where
  "acceptance_number ref =
     (let rest = drop (length ''acceptance:'') ref in
      if starts_with ref ''acceptance:'' \<and> rest \<noteq> [] \<and> list_all char_is_digit rest
      then Some (nat_of_digits rest) else None)"

definition nth_criterion :: "string list \<Rightarrow> nat \<Rightarrow> string option" where
  "nth_criterion cs k = (if 1 \<le> k \<and> k \<le> length cs then Some (cs ! (k - 1)) else None)"

definition acceptance_for_node :: "planfile \<Rightarrow> plan_node \<Rightarrow> string list" where
  "acceptance_for_node p n =
     (let criteria = gf_acceptance_criteria (pf_goal_frame p) in
      if n_acceptance_refs n = [] then criteria
      else map (\<lambda>ref. case acceptance_number ref of
                   Some k \<Rightarrow> nullish (nth_criterion criteria k) ref
                 | None \<Rightarrow> nullish (List.find (\<lambda>c. c = ref) criteria) ref)
             (n_acceptance_refs n))"

section \<open>Constraints, capabilities, role\<close>

definition constraints_for_node :: "plan_node \<Rightarrow> string list" where
  "constraints_for_node n =
     [''risk_level:'' @ risk_str (n_risk_level n),
      ''approval_required:'' @ bool_str (n_approval_required n)] @
     map (\<lambda>r. ''capability:'' @ r) (n_allowed_capability_refs n) @
     map (\<lambda>c. ''verification_command:'' @ c) (nullish (n_verification_command_ids n) [])"

definition capability_ref_forms :: "capability_descriptor \<Rightarrow> string list" where
  "capability_ref_forms c =
     [cd_capability_name c,
      cd_endpoint_id c @ ''.'' @ cd_capability_name c,
      cd_endpoint_id c @ ''.'' @ cd_capability_name c @ ''@'' @ cd_capability_digest c]"

definition filtered_snapshot :: "capability_snapshot \<Rightarrow> string list \<Rightarrow> capability_snapshot" where
  "filtered_snapshot s refs =
     (if refs = [] then s\<lparr>cs_capabilities := []\<rparr>
      else s\<lparr>cs_capabilities :=
             filter (\<lambda>c. list_ex (\<lambda>f. f \<in> set refs) (capability_ref_forms c)) (cs_capabilities s)\<rparr>)"

definition role_hint :: "plan_node_kind \<Rightarrow> model_role_hint" where
  "role_hint k =
     (if k = K_review then Role_reviewer
      else if k = K_repair then Role_repair
      else if k = K_finalize then Role_summarizer
      else if k = K_frame \<or> k = K_design \<or> k = K_analyze then Role_planner
      else Role_implementer)"

section \<open>The compiler\<close>

datatype compile_error = Unknown_plan_node string | Invalid_work_order

definition work_order_id :: "env \<Rightarrow> planfile \<Rightarrow> plan_node \<Rightarrow> string" where
  "work_order_id E p n =
     ''work_order_'' @ take 18 (stable_hash E (JObj
       [(''plan_id'', JStr (pf_plan_id p)), (''node_id'', JStr (n_id n)),
        (''status'', JStr (node_status_str (n_status n)))]))"

definition dependency_artifacts :: "planfile \<Rightarrow> plan_node \<Rightarrow> string list" where
  "dependency_artifacts p n =
     concat (map (\<lambda>c. map ar_path_or_uri (n_artifacts c))
       (filter (\<lambda>c. n_id c \<in> set (n_depends_on n)) (pf_nodes p)))"

definition work_order_of ::
    "env \<Rightarrow> planfile \<Rightarrow> plan_node \<Rightarrow> capability_snapshot \<Rightarrow> string list option \<Rightarrow> string list option
      \<Rightarrow> nat option \<Rightarrow> work_order" where
  "work_order_of E p n snapshot evidence failures attempts =
     \<lparr>wo_work_order_id = work_order_id E p n, wo_plan_id = pf_plan_id p, wo_node_id = n_id n,
      wo_phase = node_kind_str (n_kind n), wo_objective = n_objective n,
      wo_acceptance_criteria = acceptance_for_node p n,
      wo_non_goals = gf_non_goals (pf_goal_frame p),
      wo_assumptions = gf_assumptions (pf_goal_frame p),
      wo_constraints = constraints_for_node n,
      wo_allowed_capability_snapshot = filtered_snapshot snapshot (n_allowed_capability_refs n),
      wo_input_artifacts = dependency_artifacts p n,
      wo_required_output_schema = JObj [(''type'', JStr ''object'')],
      wo_relevant_evidence = nullish evidence [],
      wo_latest_failures = nullish failures (n_errors n),
      wo_max_attempts = nullish attempts 1, wo_model_role_hint = role_hint (n_kind n)\<rparr>"

definition compile_work_order ::
    "env \<Rightarrow> planfile \<Rightarrow> string \<Rightarrow> capability_snapshot \<Rightarrow> string list option \<Rightarrow> string list option
      \<Rightarrow> nat option \<Rightarrow> compile_error + work_order" where
  "compile_work_order E p node_id snapshot evidence failures attempts =
     (case List.find (\<lambda>n. n_id n = node_id) (pf_nodes p) of
        None \<Rightarrow> Inl (Unknown_plan_node node_id)
      | Some n \<Rightarrow>
          (let w = work_order_of E p n snapshot evidence failures attempts
           in if work_order_ok E w then Inr w else Inl Invalid_work_order))"

section \<open>Compilation succeeds on valid plans\<close>

lemma acceptance_for_node_nonempty:
  assumes "planfile_ok E p" and "n \<in> set (pf_nodes p)"
  shows "list_all nonempty (acceptance_for_node p n)"
proof -
  have criteria: "c \<in> set (gf_acceptance_criteria (pf_goal_frame p)) \<Longrightarrow> c \<noteq> []" for c
    using assms(1) by (auto simp: planfile_ok_def goal_frame_ok_def list_all_iff)
  have refs: "r \<in> set (n_acceptance_refs n) \<Longrightarrow> r \<noteq> []" for r
    using assms by (auto simp: planfile_ok_def plan_node_ok_def list_all_iff)
  have "(case acceptance_number r of
           Some k \<Rightarrow> nullish (nth_criterion (gf_acceptance_criteria (pf_goal_frame p)) k) r
         | None \<Rightarrow> nullish (List.find (\<lambda>c. c = r) (gf_acceptance_criteria (pf_goal_frame p))) r) \<noteq> []"
    if "r \<in> set (n_acceptance_refs n)" for r
    using refs [OF that] criteria
    by (auto simp: nth_criterion_def nullish_def find_Some_iff split: option.splits)
  with criteria show ?thesis by (auto simp: acceptance_for_node_def Let_def list_all_iff)
qed

lemma filtered_snapshot_ok: "capability_snapshot_ok E s \<Longrightarrow> capability_snapshot_ok E (filtered_snapshot s refs)"
  by (auto simp: filtered_snapshot_def capability_snapshot_ok_def list_all_iff)

lemma node_kind_str_nonempty: "node_kind_str k \<noteq> []"
  by (cases k) simp_all

lemma dependency_artifacts_nonempty:
  assumes "planfile_ok E p"
  shows "list_all nonempty (dependency_artifacts p n)"
  using assms by (auto simp: dependency_artifacts_def list_all_iff planfile_ok_def plan_node_ok_def
      plan_artifact_ref_ok_def)

lemma constraints_nonempty: "list_all nonempty (constraints_for_node n)"
  by (auto simp: constraints_for_node_def list_all_iff)

lemma work_order_of_ok:
  assumes p: "planfile_ok E p" and n: "n \<in> set (pf_nodes p)" and "capability_snapshot_ok E s"
    and att: "opt_ok (\<lambda>k. 1 \<le> k) attempts"
  shows "work_order_ok E (work_order_of E p n s evidence failures attempts)"
proof -
  have "n_id n \<noteq> []" "n_objective n \<noteq> []" "pf_plan_id p \<noteq> []"
    "list_all nonempty (gf_non_goals (pf_goal_frame p))"
    "list_all nonempty (gf_assumptions (pf_goal_frame p))"
    using p n by (auto simp: planfile_ok_def plan_node_ok_def goal_frame_ok_def list_all_iff)
  moreover have "1 \<le> nullish attempts 1" using att by (cases attempts) auto
  moreover have "work_order_id E p n \<noteq> []" by (simp add: work_order_id_def)
  ultimately show ?thesis
    using acceptance_for_node_nonempty [OF p n] filtered_snapshot_ok [OF assms(3)] constraints_nonempty [of n]
      node_kind_str_nonempty [of "n_kind n"] dependency_artifacts_nonempty [OF p, of n]
    unfolding work_order_ok_def work_order_of_def by simp
qed

lemma compile_total:
  assumes "planfile_ok E p" and "n \<in> set (pf_nodes p)" and "capability_snapshot_ok E s"
    and "opt_ok (\<lambda>k. 1 \<le> k) attempts"
  shows "\<exists>w. compile_work_order E p (n_id n) s evidence failures attempts = Inr w"
proof -
  obtain m where m: "List.find (\<lambda>x. n_id x = n_id n) (pf_nodes p) = Some m"
    using assms(2) by (cases "List.find (\<lambda>x. n_id x = n_id n) (pf_nodes p)") (auto simp: find_None_iff)
  then have "m \<in> set (pf_nodes p)" by (auto dest: find_SomeD)
  from work_order_of_ok [OF assms(1) this assms(3,4)] m show ?thesis
    by (simp add: compile_work_order_def Let_def)
qed

section \<open>Properties\<close>

text \<open>C24: A work order gives its handler no more than the node may use: its snapshot holds exactly
  the capabilities of the snapshot that the node names (by name, qualified name or qualified
  name and digest), in the snapshot's order, and none when the node names none; the artifacts
  are those of the nodes it depends on.\<close>
theorem work_order_least_privilege:
  assumes "compile_work_order E p i s evidence failures attempts = Inr w"
  shows "\<exists>n \<in> set (pf_nodes p). n_id n = i \<and> wo_node_id w = i \<and> work_order_ok E w \<and>
    cs_capabilities (wo_allowed_capability_snapshot w) =
      filter (\<lambda>c. set (capability_ref_forms c) \<inter> set (n_allowed_capability_refs n) \<noteq> {}) (cs_capabilities s) \<and>
    set (wo_input_artifacts w) =
      {ar_path_or_uri a | a m. m \<in> set (pf_nodes p) \<and> n_id m \<in> set (n_depends_on n) \<and> a \<in> set (n_artifacts m)}"
proof -
  obtain n where n: "List.find (\<lambda>x. n_id x = i) (pf_nodes p) = Some n"
    using assms by (auto simp: compile_work_order_def split: option.splits)
  then have mem: "n \<in> set (pf_nodes p)" "n_id n = i" by (auto dest: find_SomeD)
  have forms: "list_ex (\<lambda>f. f \<in> set (n_allowed_capability_refs n)) (capability_ref_forms c) \<longleftrightarrow>
      set (capability_ref_forms c) \<inter> set (n_allowed_capability_refs n) \<noteq> {}" for c
    by (auto simp: list_ex_iff)
  have caps: "cs_capabilities (filtered_snapshot s (n_allowed_capability_refs n)) =
      filter (\<lambda>c. set (capability_ref_forms c) \<inter> set (n_allowed_capability_refs n) \<noteq> {}) (cs_capabilities s)"
    unfolding filtered_snapshot_def by (auto simp: forms)
  have w: "w = work_order_of E p n s evidence failures attempts" and ok: "work_order_ok E w"
    using assms n by (auto simp: compile_work_order_def Let_def split: if_splits)
  have "set (dependency_artifacts p n) =
      {ar_path_or_uri a | a m. m \<in> set (pf_nodes p) \<and> n_id m \<in> set (n_depends_on n) \<and> a \<in> set (n_artifacts m)}"
    unfolding dependency_artifacts_def by auto
  with mem w ok caps show ?thesis
    by (intro bexI [of _ n]) (auto simp: work_order_of_def)
qed

theorem work_order_least_privilege_witness:
  "\<exists>w n. compile_work_order sample_env sample_plan ''inspect''
       \<lparr>cs_snapshot_id = ''s'', cs_created_at = sample_stamp, cs_capabilities_hash = replicate 64 (CHR ''a''),
        cs_capabilities = []\<rparr> None None None = Inr w \<and>
     n \<in> set sample_nodes \<and> n_id n = ''inspect'' \<and> cs_capabilities (wo_allowed_capability_snapshot w) = []"
proof -
  let ?s = "\<lparr>cs_snapshot_id = ''s'', cs_created_at = sample_stamp, cs_capabilities_hash = replicate 64 (CHR ''a''),
        cs_capabilities = []\<rparr>"
  have node: "sample_node ''inspect'' K_inspect [''frame_goal''] \<in> set (pf_nodes sample_plan)"
    by (simp add: sample_plan_def sample_nodes_def)
  have "capability_snapshot_ok sample_env ?s"
    by (simp add: capability_snapshot_ok_def sample_env_def sample_stamp_def is_hex64_def list_all_iff)
  from compile_total [OF sample_plan_ok node this, of None None None]
  obtain w where w: "compile_work_order sample_env sample_plan ''inspect'' ?s None None None = Inr w"
    by (auto simp: sample_node_def)
  from work_order_least_privilege [OF w] w show ?thesis by (auto simp: sample_plan_def)
qed

end
