(* ===== verification/Plan_Markdown.thy ===== *)
theory Plan_Markdown
  imports Plan_Validator
begin

text \<open>
  \<open>planning/planfile-markdown.ts\<close>, \<open>planning/mermaid-renderer.ts\<close> and the extraction of
  \<open>planning/planfile-parser.ts\<close>: the Markdown document of a plan, and the search for the one fenced
  block that holds the executable plan. \<open>YAML.stringify\<close> is third-party code and an argument.
\<close>

definition backtick :: char where
  "backtick = CHR 0x60"

abbreviation nl :: string where
  "nl \<equiv> [newline]"

abbreviation fence_mark :: string where
  "fence_mark \<equiv> [backtick, backtick, backtick]"

section \<open>The Mermaid diagram\<close>

definition edges_for :: "plan_node list \<Rightarrow> plan_edge list \<Rightarrow> plan_edge list" where
  "edges_for nodes edges =
     (if edges \<noteq> [] then edges
      else concat (map (\<lambda>n. map (\<lambda>d. \<lparr>e_from = d, e_to = n_id n, e_reason = ''depends on''\<rparr>)
                        (n_depends_on n)) nodes))"

definition safe_mermaid_id :: "string \<Rightarrow> string" where
  "safe_mermaid_id s = map (\<lambda>c. if is_word_char c then c else CHR ''_'') s"

definition escape_label_char :: "char \<Rightarrow> string" where
  "escape_label_char c =
     (if c = CHR 0x5C then [c, c] else if c = CHR 0x22 then [CHR 0x27]
      else if c = newline then [CHR '' ''] else [c])"

definition escape_label :: "string \<Rightarrow> string" where
  "escape_label s = concat (map escape_label_char s)"

definition quote_mark :: string where
  "quote_mark = [CHR 0x22]"

definition render_plan_mermaid :: "planfile \<Rightarrow> string" where
  "render_plan_mermaid p = join nl
     ([''flowchart TD''] @
      map (\<lambda>n. ''  '' @ safe_mermaid_id (n_id n) @ ''['' @ quote_mark @ escape_label (n_title n) @
                quote_mark @ '']'') (pf_nodes p) @
      map (\<lambda>e. ''  '' @ safe_mermaid_id (e_from e) @ '' -->'' @
                (if e_reason e \<noteq> [] then ''|'' @ escape_label (e_reason e) @ ''|'' else []) @
                '' '' @ safe_mermaid_id (e_to e)) (edges_for (pf_nodes p) (pf_edges p)))"

section \<open>The document\<close>

record markdown_options =
  mk_dry_run_findings :: "string list option"
  mk_validation_issues :: "plan_issue list option"
  mk_next_step :: "string option"

definition no_markdown_options :: markdown_options where
  "no_markdown_options =
     \<lparr>mk_dry_run_findings = None, mk_validation_issues = None, mk_next_step = None\<rparr>"

fun plan_issue_code_str :: "plan_issue_code \<Rightarrow> string" where
  "plan_issue_code_str I_INVALID_SCHEMA = ''INVALID_SCHEMA''"
| "plan_issue_code_str I_INVALID_PLAN = ''INVALID_PLAN''"
| "plan_issue_code_str I_INVALID_NODE_ID = ''INVALID_NODE_ID''"
| "plan_issue_code_str I_DUPLICATE_NODE_ID = ''DUPLICATE_NODE_ID''"
| "plan_issue_code_str I_MISSING_DEPENDENCY = ''MISSING_DEPENDENCY''"
| "plan_issue_code_str I_CYCLE_DETECTED = ''CYCLE_DETECTED''"
| "plan_issue_code_str I_UNREACHABLE_NODE = ''UNREACHABLE_NODE''"
| "plan_issue_code_str I_UNKNOWN_CAPABILITY = ''UNKNOWN_CAPABILITY''"
| "plan_issue_code_str I_APPROVAL_REQUIRED = ''APPROVAL_REQUIRED''"
| "plan_issue_code_str I_UNKNOWN_VERIFICATION_COMMAND = ''UNKNOWN_VERIFICATION_COMMAND''"
| "plan_issue_code_str I_PATCH_ACCEPTANCE_MISSING = ''PATCH_ACCEPTANCE_MISSING''"
| "plan_issue_code_str I_DESTRUCTIVE_GOAL_NOT_EXPLICIT = ''DESTRUCTIVE_GOAL_NOT_EXPLICIT''"

definition md_numbered :: "string list \<Rightarrow> string" where
  "md_numbered items =
     (if items \<noteq> []
      then join nl (map (\<lambda>(item, i). nat_str (i + 1) @ ''. '' @ item) (zip items [0..<length items]))
      else ''1. No acceptance criteria recorded.'')"

definition md_list :: "string list \<Rightarrow> string" where
  "md_list items = (if items \<noteq> [] then join nl (map (\<lambda>item. ''- '' @ item) items) else ''- None.'')"

definition approval_lines :: "planfile \<Rightarrow> string" where
  "approval_lines p =
     (let nodes = filter n_approval_required (pf_nodes p)
      in if nodes = [] then ''- No node approval requirements recorded.''
         else join nl (map (\<lambda>n. ''- '' @ n_id n @ '': '' @ risk_str (n_risk_level n) @
                                '' approval required'') nodes))"

definition status_projection :: "planfile \<Rightarrow> string" where
  "status_projection p =
     join nl (map (\<lambda>n. ''- '' @ n_id n @ '': '' @ node_status_str (n_status n)) (pf_nodes p))"

definition artifact_lines :: "planfile \<Rightarrow> string" where
  "artifact_lines p =
     (if pf_artifact_refs p \<noteq> []
      then join nl (map (\<lambda>a. ''- '' @ plan_artifact_kind_str (ar_kind a) @ '': '' @ ar_path_or_uri a @
                             '' - '' @ ar_summary a) (pf_artifact_refs p))
      else ''- No artifacts recorded.'')"

definition error_lines :: "planfile \<Rightarrow> markdown_options \<Rightarrow> string list" where
  "error_lines p o1 =
     concat (map (\<lambda>n. map (\<lambda>e. ''- '' @ n_id n @ '': '' @ e) (n_errors n)) (pf_nodes p)) @
     map (\<lambda>i. ''- '' @ plan_issue_code_str (pi_code i) @ '': '' @ pi_message i)
       (nullish (mk_validation_issues o1) [])"

definition default_next_step :: "planfile \<Rightarrow> string" where
  "default_next_step p =
     (if pf_status p = PS_draft then ''Validate the executable YAML block.''
      else if pf_status p = PS_validated
      then (if pf_mode p = Plan_dry_run then ''Review the dry-run plan.''
            else ''Apply through the control plane.'')
      else if pf_status p = PS_pending then ''Start or resume execution through the control plane.''
      else ''Review current status and artifacts.'')"

definition trim_end :: "string \<Rightarrow> string" where
  "trim_end s = rev (dropWhile is_space (rev s))"

text \<open>The lines above the diagram, and those below the executable plan.\<close>

definition markdown_head :: "planfile \<Rightarrow> string list" where
  "markdown_head p =
     [''# Planfile: '' @ gf_interpreted_goal (pf_goal_frame p), [], ''## Goal'',
      gf_interpreted_goal (pf_goal_frame p), [], ''## Assumptions'',
      md_list (gf_assumptions (pf_goal_frame p)), [], ''## Non-goals'',
      md_list (gf_non_goals (pf_goal_frame p)), [], ''## Acceptance Criteria'',
      md_numbered (gf_acceptance_criteria (pf_goal_frame p)), [], ''## Plan DAG'']"

definition markdown_tail :: "planfile \<Rightarrow> markdown_options \<Rightarrow> string list" where
  "markdown_tail p o1 =
     [[], ''## Dry-run Findings'',
      md_list (nullish (mk_dry_run_findings o1) [''No dry-run findings recorded.'']), [],
      ''## Approval Requirements'', approval_lines p, [], ''## Execution Status'',
      status_projection p, [], ''## Artifacts'', artifact_lines p, [], ''## Errors'',
      (if error_lines p o1 \<noteq> [] then join nl (error_lines p o1) else ''- No errors recorded.''), [],
      ''## Next Step'', nullish (mk_next_step o1) (default_next_step p), []]"

definition render_planfile_markdown :: "(json \<Rightarrow> string) \<Rightarrow> planfile \<Rightarrow> markdown_options \<Rightarrow> string" where
  "render_planfile_markdown yaml p o1 = join nl
     (markdown_head p @
      [fence_mark @ ''mermaid'', render_plan_mermaid p, fence_mark, [], ''## Executable Plan'',
       fence_mark @ ''yaml planfile'', trim_end (yaml (planfile_json p)), fence_mark] @
      markdown_tail p o1)"

section \<open>Finding the executable block (\<open>planfile-parser.ts\<close>)\<close>

text \<open>One match of the fence expression at the start of a text: the info string, the body up to the
  next three backticks, and what follows.\<close>

definition fence_at :: "string \<Rightarrow> (string \<times> string \<times> string) option" where
  "fence_at s =
     (if \<not> starts_with s fence_mark then None
      else
        (let t = drop 3 s; info = takeWhile (\<lambda>c. c \<noteq> newline \<and> c \<noteq> backtick) t
         in case drop (length info) t of
              [] \<Rightarrow> None
            | c # r \<Rightarrow>
                if c \<noteq> newline then None
                else (case index_of r fence_mark of
                        None \<Rightarrow> None
                      | Some k \<Rightarrow> Some (info, take k r, drop (k + 3) r))))"

lemma fence_at_shorter: "fence_at s = Some (i, b, r) \<Longrightarrow> length r < length s"
  by (auto simp: fence_at_def Let_def split: if_splits list.splits option.splits
      dest: arg_cong [where f = length])

text \<open>\<open>markdown.matchAll(FENCE)\<close>: a match is followed by the search behind it, a failure by the
  search one character further.\<close>

function fences :: "string \<Rightarrow> (string \<times> string) list" where
  "fences [] = []"
| "fences (c # cs) =
     (case fence_at (c # cs) of
        Some (info, body, rest) \<Rightarrow> (info, body) # fences rest
      | None \<Rightarrow> fences cs)"
  by pat_completeness auto
termination by (relation "measure length") (auto dest: fence_at_shorter)

definition schema_line :: string where
  "schema_line = ''schema_version: open-lagrange.plan.v1''"

definition yaml_candidates :: "string \<Rightarrow> string list" where
  "yaml_candidates markdown =
     filter (\<lambda>body. str_includes body schema_line)
       (map (\<lambda>(info, body). trim body)
         (filter (\<lambda>(info, body). starts_with (to_lower (trim info)) ''yaml'' \<or>
                                starts_with (to_lower (trim info)) ''yml'') (fences markdown)))"

text \<open>\<open>Inl\<close> is the message of the \<open>PlanfileParseError\<close> thrown.\<close>

definition extract_executable_yaml :: "string \<Rightarrow> string + string" where
  "extract_executable_yaml markdown =
     (case yaml_candidates markdown of
        [] \<Rightarrow> Inl ''No executable Planfile YAML block found.''
      | [c] \<Rightarrow> Inr c
      | _ \<Rightarrow> Inl ''Multiple executable Planfile YAML blocks found.'')"


section \<open>The block that is found is the plan that was rendered\<close>

text \<open>Texts without a backtick cannot open or close a fenced block.\<close>

definition no_tick :: "string \<Rightarrow> bool" where
  "no_tick s = (backtick \<notin> set s)"

named_theorems tick_simps "texts without backticks"

lemma no_tick_simps [tick_simps]:
  "no_tick []" "no_tick (c # s) \<longleftrightarrow> c \<noteq> backtick \<and> no_tick s"
  "no_tick (s @ t) \<longleftrightarrow> no_tick s \<and> no_tick t"
  by (auto simp: no_tick_def)

lemma no_tick_join: "no_tick sep \<Longrightarrow> (\<forall>x\<in>set xs. no_tick x) \<Longrightarrow> no_tick (join sep xs)"
  by (induction sep xs rule: join.induct) (auto simp: tick_simps)

lemma no_tick_newline [tick_simps]: "newline \<noteq> backtick"
  by (simp add: newline_def backtick_def)

lemma fences_no_tick: "no_tick s \<Longrightarrow> fences s = []"
proof (induction s)
  case (Cons c s)
  then have "fence_at (c # s) = None"
    by (simp add: fence_at_def tick_simps)
  with Cons show ?case by (simp add: tick_simps)
qed simp

lemma index_of_fence: "no_tick body \<Longrightarrow> index_of (body @ fence_mark @ r) fence_mark = Some (length body)"
  by (induction body) (auto simp: tick_simps)

lemma takeWhile_info:
  assumes "no_tick info" and "newline \<notin> set info"
  shows "takeWhile (\<lambda>c. c \<noteq> newline \<and> c \<noteq> backtick) (info @ newline # r) = info"
  using assms by (induction info) (auto simp: tick_simps)

lemma fences_block:
  assumes "no_tick u" "no_tick info" "newline \<notin> set info" "no_tick body"
  shows "fences (u @ fence_mark @ info @ nl @ body @ fence_mark @ r) = (info, body) # fences r"
  using assms(1)
proof (induction u)
  case Nil
  have "fence_at (fence_mark @ info @ nl @ body @ fence_mark @ r) = Some (info, body, r)"
    using assms takeWhile_info [of info "body @ fence_mark @ r"] index_of_fence [of body r]
    by (simp add: fence_at_def Let_def)
  then show ?case by simp
next
  case (Cons c u)
  then have "fence_at ((c # u) @ fence_mark @ info @ nl @ body @ fence_mark @ r) = None"
    by (simp add: fence_at_def tick_simps)
  with Cons show ?case by (simp add: tick_simps)
qed

lemma join_append:
  "xs \<noteq> [] \<Longrightarrow> ys \<noteq> [] \<Longrightarrow> join sep (xs @ ys) = join sep xs @ sep @ join sep ys"
  by (induction sep xs rule: join.induct) (auto simp: join_Cons)


lemma no_tick_map: "no_tick (map f s) \<longleftrightarrow> (\<forall>c\<in>set s. f c \<noteq> backtick)"
  by (force simp: no_tick_def)

lemma no_tick_concat: "no_tick (concat (map f s)) \<longleftrightarrow> (\<forall>c\<in>set s. no_tick (f c))"
  by (auto simp: no_tick_def)

lemma no_tick_safe_mermaid_id [tick_simps]: "no_tick (safe_mermaid_id s)"
  by (auto simp: safe_mermaid_id_def no_tick_map is_word_char_def Let_def backtick_def of_char_def)

lemma no_tick_escape_label [tick_simps]: "no_tick s \<Longrightarrow> no_tick (escape_label s)"
  by (auto simp: escape_label_def no_tick_concat escape_label_char_def no_tick_def Let_def backtick_def)

lemma no_tick_digit: "n < 10 \<Longrightarrow> digit_char n \<noteq> backtick"
proof
  assume "n < 10" and "digit_char n = backtick"
  then have "of_char (char_of (48 + n) :: char) = (of_char backtick :: nat)" by simp
  moreover have "of_char (char_of (48 + n) :: char) = 48 + n" using \<open>n < 10\<close> by simp
  moreover have "of_char backtick = (96 :: nat)" by (simp add: backtick_def of_char_def)
  ultimately show False using \<open>n < 10\<close> by simp
qed

lemma no_tick_nat_str [tick_simps]: "no_tick (nat_str n)"
proof (induction n rule: nat_str.induct)
  case (1 n)
  then show ?case by (subst nat_str.simps) (auto simp: tick_simps no_tick_digit simp del: digit_char.simps)
qed

lemma no_tick_enums [tick_simps]:
  "no_tick (risk_str r)" "no_tick (node_status_str s)" "no_tick (plan_artifact_kind_str k)"
  "no_tick (plan_issue_code_str c)"
     apply (cases r; simp add: enum_simps no_tick_def backtick_def)
    apply (cases s; simp add: enum_simps no_tick_def backtick_def)
   apply (cases k; simp add: enum_simps no_tick_def backtick_def)
  apply (cases c; simp add: enum_simps no_tick_def backtick_def)
  done

text \<open>The texts of a plan and of the options that the document shows.\<close>

definition shown_texts :: "planfile \<Rightarrow> markdown_options \<Rightarrow> string set" where
  "shown_texts p o1 =
     {gf_interpreted_goal (pf_goal_frame p)} \<union> set (gf_assumptions (pf_goal_frame p)) \<union>
     set (gf_non_goals (pf_goal_frame p)) \<union> set (gf_acceptance_criteria (pf_goal_frame p)) \<union>
     (\<Union>n\<in>set (pf_nodes p). {n_id n, n_title n} \<union> set (n_errors n)) \<union>
     e_reason ` set (pf_edges p) \<union>
     (\<Union>a\<in>set (pf_artifact_refs p). {ar_path_or_uri a, ar_summary a}) \<union>
     set (nullish (mk_dry_run_findings o1) []) \<union>
     pi_message ` set (nullish (mk_validation_issues o1) []) \<union> set_option (mk_next_step o1)"

lemma no_tick_mermaid:
  assumes "\<forall>t \<in> shown_texts p o1. no_tick t"
  shows "no_tick (render_plan_mermaid p)"
proof -
  have titles: "no_tick (n_title n)" if "n \<in> set (pf_nodes p)" for n
    using assms that by (auto simp: shown_texts_def)
  have reasons: "no_tick (e_reason e)" if "e \<in> set (edges_for (pf_nodes p) (pf_edges p))" for e
    using assms that
    by (auto simp: shown_texts_def edges_for_def tick_simps backtick_def split: if_splits)
  show ?thesis
    unfolding render_plan_mermaid_def
    by (intro no_tick_join)
       (auto simp: tick_simps backtick_def newline_def quote_mark_def titles reasons)
qed


lemma no_tick_sections:
  assumes "\<forall>t \<in> shown_texts p o1. no_tick t"
  shows "no_tick (md_list (gf_assumptions (pf_goal_frame p)))"
    "no_tick (md_list (gf_non_goals (pf_goal_frame p)))"
    "no_tick (md_numbered (gf_acceptance_criteria (pf_goal_frame p)))"
    "no_tick (md_list (nullish (mk_dry_run_findings o1) [''No dry-run findings recorded.'']))"
    "no_tick (approval_lines p)" "no_tick (status_projection p)" "no_tick (artifact_lines p)"
    "no_tick (join nl (error_lines p o1))" "no_tick (nullish (mk_next_step o1) (default_next_step p))"
proof -
  have list: "no_tick (md_list xs)" if "\<forall>x \<in> set xs. no_tick x" for xs
    using that unfolding md_list_def
    by (auto simp: tick_simps backtick_def newline_def intro!: no_tick_join)
  have numbered: "no_tick (md_numbered xs)" if "\<forall>x \<in> set xs. no_tick x" for xs
    using that unfolding md_numbered_def
    by (auto simp: tick_simps backtick_def newline_def intro!: no_tick_join elim!: in_set_zipE)
  have findings: "\<forall>x \<in> set (nullish (mk_dry_run_findings o1) [''No dry-run findings recorded.'']). no_tick x"
    using assms
    by (cases "mk_dry_run_findings o1") (auto simp: shown_texts_def nullish_def tick_simps backtick_def)
  show "no_tick (md_list (gf_assumptions (pf_goal_frame p)))"
    "no_tick (md_list (gf_non_goals (pf_goal_frame p)))"
    "no_tick (md_numbered (gf_acceptance_criteria (pf_goal_frame p)))"
    "no_tick (md_list (nullish (mk_dry_run_findings o1) [''No dry-run findings recorded.'']))"
    using assms findings by (auto intro!: list numbered simp: shown_texts_def)
  have ids: "no_tick (n_id n)" "\<And>e. e \<in> set (n_errors n) \<Longrightarrow> no_tick e"
    if "n \<in> set (pf_nodes p)" for n
    using assms that by (auto simp: shown_texts_def)
  have arts: "no_tick (ar_path_or_uri a)" "no_tick (ar_summary a)" if "a \<in> set (pf_artifact_refs p)" for a
    using assms that by (auto simp: shown_texts_def)
  show "no_tick (approval_lines p)"
    unfolding approval_lines_def Let_def
    by (auto simp: tick_simps backtick_def newline_def ids intro!: no_tick_join)
  show "no_tick (status_projection p)"
    unfolding status_projection_def
    by (auto simp: tick_simps backtick_def newline_def ids intro!: no_tick_join)
  show "no_tick (artifact_lines p)"
    unfolding artifact_lines_def
    by (auto simp: tick_simps backtick_def newline_def arts intro!: no_tick_join)
  have issues: "no_tick (pi_message i)" if "i \<in> set (nullish (mk_validation_issues o1) [])" for i
    using assms that by (auto simp: shown_texts_def)
  show "no_tick (join nl (error_lines p o1))"
    unfolding error_lines_def
    by (auto simp: tick_simps backtick_def newline_def ids issues intro!: no_tick_join)
  show "no_tick (nullish (mk_next_step o1) (default_next_step p))"
    using assms
    by (cases "mk_next_step o1")
       (auto simp: shown_texts_def nullish_def default_next_step_def tick_simps backtick_def)
qed

lemma markdown_shape:
  assumes "\<forall>t \<in> shown_texts p o1. no_tick t"
  obtains u m v where "no_tick u" "no_tick m" "no_tick v"
    and "render_planfile_markdown yaml p o1 =
      u @ fence_mark @ ''mermaid'' @ nl @ (render_plan_mermaid p @ nl) @ fence_mark @
      (m @ fence_mark @ ''yaml planfile'' @ nl @ (trim_end (yaml (planfile_json p)) @ nl) @ fence_mark @ v)"
proof
  let ?head = "join nl (markdown_head p)" and ?tail = "join nl (markdown_tail p o1)"
  have nonempty: "markdown_head p \<noteq> []" "markdown_tail p o1 \<noteq> []"
    by (simp_all add: markdown_head_def markdown_tail_def)
  have goal: "no_tick (gf_interpreted_goal (pf_goal_frame p))"
    using assms by (auto simp: shown_texts_def)
  show "no_tick (?head @ nl)"
    using no_tick_sections [OF assms] goal
    by (auto simp: tick_simps markdown_head_def backtick_def newline_def intro!: no_tick_join)
  show "no_tick (nl @ nl @ ''## Executable Plan'' @ nl)"
    by (simp add: tick_simps backtick_def newline_def)
  show "no_tick (nl @ ?tail)"
    using no_tick_sections [OF assms]
    by (auto simp: tick_simps markdown_tail_def backtick_def newline_def intro!: no_tick_join)
  show "render_planfile_markdown yaml p o1 =
      (?head @ nl) @ fence_mark @ ''mermaid'' @ nl @ (render_plan_mermaid p @ nl) @ fence_mark @
      ((nl @ nl @ ''## Executable Plan'' @ nl) @ fence_mark @ ''yaml planfile'' @ nl @
       (trim_end (yaml (planfile_json p)) @ nl) @ fence_mark @ nl @ ?tail)"
    using nonempty by (simp add: render_planfile_markdown_def join_append join_Cons)
qed


lemma trim_append_spaces:
  assumes "\<forall>c \<in> set w. is_space c"
  shows "trim (t @ w) = trim t"
proof (cases "\<forall>c \<in> set t. is_space c")
  case True
  with assms have "dropWhile is_space (t @ w) = []" "dropWhile is_space t = []"
    by (auto simp only: dropWhile_eq_Nil_conv set_append)
  then show ?thesis by (simp only: trim_def)
next
  case False
  then have "dropWhile is_space (t @ w) = dropWhile is_space t @ w"
    by (meson dropWhile_append1)
  moreover have "dropWhile is_space (rev w @ x) = dropWhile is_space x" for x
    using assms by (intro dropWhile_append2) auto
  ultimately show ?thesis by (simp add: trim_def)
qed

lemma trim_trim_end: "trim (trim_end s @ nl) = trim s"
proof -
  obtain w where s: "s = trim_end s @ w" and w: "\<forall>c \<in> set w. is_space c"
  proof
    show "s = trim_end s @ rev (takeWhile is_space (rev s))"
      by (metis rev_append rev_rev_ident takeWhile_dropWhile_id trim_end_def)
    show "\<forall>c \<in> set (rev (takeWhile is_space (rev s))). is_space c"
      by (auto dest: set_takeWhileD)
  qed
  have "is_space newline" by (simp add: newline_def is_space_def of_char_def)
  then have "trim (trim_end s @ nl) = trim (trim_end s)"
    by (intro trim_append_spaces) simp
  also have "\<dots> = trim s" using trim_append_spaces [OF w, of "trim_end s"] s by simp
  finally show ?thesis .
qed

lemma fences_two:
  assumes "no_tick u" "no_tick i" "newline \<notin> set i" "no_tick b"
    and "no_tick m" "no_tick j" "newline \<notin> set j" "no_tick c" "no_tick v"
  shows "fences (u @ fence_mark @ i @ nl @ b @ fence_mark @ (m @ fence_mark @ j @ nl @ c @ fence_mark @ v)) =
    [(i, b), (j, c)]"
  unfolding fences_block [OF assms(1-4)] fences_block [OF assms(5-8)] fences_no_tick [OF assms(9)] ..

text \<open>Of the two info strings, the second one announces YAML.\<close>

lemma info_strings:
  "\<not> starts_with (to_lower (trim ''mermaid'')) ''yaml''" "\<not> starts_with (to_lower (trim ''mermaid'')) ''yml''"
  "starts_with (to_lower (trim ''yaml planfile'')) ''yaml''"
  by (code_simp)+

section \<open>Property\<close>

text \<open>C25: Rendering a plan and extracting its executable block is a round trip under three conditions: no text
  the document shows contains a backtick, nor does the YAML text of the plan, and the YAML text has the line that
  names the schema. Then the block found in the Markdown document is the trimmed YAML text, whatever else the
  document shows (the diagram is fenced as well and not taken).\<close>
theorem markdown_roundtrip:
  assumes "\<forall>t \<in> shown_texts p o1. no_tick t"
    and "no_tick (yaml (planfile_json p))"
    and "str_includes (trim (yaml (planfile_json p))) schema_line"
  shows "extract_executable_yaml (render_planfile_markdown yaml p o1) =
    Inr (trim (yaml (planfile_json p)))"
proof -
  let ?y = "yaml (planfile_json p)"
  obtain u m v where t: "no_tick u" "no_tick m" "no_tick v"
    and r: "render_planfile_markdown yaml p o1 =
      u @ fence_mark @ ''mermaid'' @ nl @ (render_plan_mermaid p @ nl) @ fence_mark @
      (m @ fence_mark @ ''yaml planfile'' @ nl @ (trim_end ?y @ nl) @ fence_mark @ v)"
    by (rule markdown_shape [OF assms(1)])
  have body: "no_tick (trim_end ?y @ nl)"
    using assms(2) by (auto simp: no_tick_def trim_end_def newline_def backtick_def dest: set_dropWhileD)
  have "fences (render_planfile_markdown yaml p o1) =
      [(''mermaid'', render_plan_mermaid p @ nl), (''yaml planfile'', trim_end ?y @ nl)]"
    unfolding r using t body no_tick_mermaid [OF assms(1)]
    by (intro fences_two) (simp_all add: tick_simps backtick_def newline_def)
  then have "yaml_candidates (render_planfile_markdown yaml p o1) = [trim ?y]"
    using assms(3) by (simp add: yaml_candidates_def info_strings trim_trim_end)
  then show ?thesis by (simp add: extract_executable_yaml_def)
qed

theorem markdown_roundtrip_witness:
  "extract_executable_yaml
     (render_planfile_markdown (\<lambda>_. schema_line @ nl) sample_plan no_markdown_options) = Inr schema_line"
proof -
  have texts: "\<forall>t \<in> shown_texts sample_plan no_markdown_options. no_tick t"
    by (simp add: shown_texts_def sample_defs no_markdown_options_def nullish_def tick_simps backtick_def)
  have yaml: "no_tick (schema_line @ nl)"
    by (simp add: schema_line_def tick_simps backtick_def newline_def)
  have trimmed: "trim (schema_line @ nl) = schema_line" "str_includes schema_line schema_line"
    by code_simp+
  show ?thesis
    using markdown_roundtrip [of sample_plan no_markdown_options "\<lambda>_. schema_line @ nl", OF texts yaml]
    by (simp only: trimmed simp_thms)
qed

end
