(* ===== verification/Plan_Templates.thy ===== *)
theory Plan_Templates
  imports Effects
begin

text \<open>
  The inputs of capability nodes in \<open>planning/plan-runner.ts\<close>: the configured input of a node
  (\<open>nodeInput\<close>) and the references to the outputs of earlier nodes in it (\<open>resolveTemplates\<close>,
  \<open>pathValue\<close>). The outputs are the entries of the object \<open>outputs\<close>, keyed by node id. Properties
  that objects inherit from their prototype are not modelled.
\<close>

section \<open>Paths\<close>

definition all_digits :: "string \<Rightarrow> bool" where
  "all_digits s = (s \<noteq> [] \<and> list_all (\<lambda>c. of_char c \<ge> (48::nat) \<and> of_char c \<le> (57::nat)) s)"

definition digits_value :: "string \<Rightarrow> nat" where
  "digits_value s = fold (\<lambda>c n. 10 * n + (of_char c - 48)) s 0"

definition item_at :: "json list \<Rightarrow> nat \<Rightarrow> json" where
  "item_at xs i = (if i < length xs then xs ! i else JUndef)"

lemma size_item_at: "size (item_at xs i) < size (JArr xs)"
proof (cases "i < length xs")
  case True
  then have "size (xs ! i) \<le> size_list size xs"
    by (intro size_list_estimation' [of "xs ! i"]) auto
  with True show ?thesis by (simp add: item_at_def)
qed (simp add: item_at_def)

lemma size_jfield: "size (jfield (JObj kvs) k) < size (JObj kvs)"
proof (cases "map_of kvs k")
  case (Some v)
  then have "(k, v) \<in> set kvs" by (rule map_of_SomeD)
  then have "size_prod (\<lambda>x. 0) size (k, v) \<le> size_list (size_prod (\<lambda>x. 0) size) kvs"
    by (intro size_list_estimation' [of "(k, v)"]) auto
  with Some show ?thesis by (simp add: jfield_def nullish_def)
qed (simp add: jfield_def nullish_def)

text \<open>\<open>pathPartsValue\<close>: an array is indexed by a number and otherwise mapped over.\<close>

function (sequential) path_parts_value :: "json \<Rightarrow> string list \<Rightarrow> json" where
  "path_parts_value source [] = source"
| "path_parts_value (JArr xs) (part # rest) =
     (if all_digits part then path_parts_value (item_at xs (digits_value part)) rest
      else JArr (filter (\<lambda>v. v \<noteq> JUndef) (map (\<lambda>x. path_parts_value x (part # rest)) xs)))"
| "path_parts_value (JObj kvs) (part # rest) = path_parts_value (jfield (JObj kvs) part) rest"
| "path_parts_value source (part # rest) = JUndef"
  by pat_completeness auto
termination
proof (relation "measure (\<lambda>(v, ps). size v)")
  show "wf (measure (\<lambda>(v :: json, ps :: string list). size v))" by simp
next
  fix xs :: "json list" and part :: string and rest :: "string list"
  show "((item_at xs (digits_value part), rest), JArr xs, part # rest) \<in> measure (\<lambda>(v, ps). size v)"
    using size_item_at [of xs "digits_value part"] by simp
next
  fix xs :: "json list" and part :: string and rest :: "string list" and x :: json
  assume "x \<in> set xs"
  then have "size x \<le> size_list size xs" by (intro size_list_estimation' [of x]) auto
  then show "((x, part # rest), JArr xs, part # rest) \<in> measure (\<lambda>(v, ps). size v)" by simp
next
  fix kvs :: "(string \<times> json) list" and part :: string and rest :: "string list"
  show "((jfield (JObj kvs) part, rest), JObj kvs, part # rest) \<in> measure (\<lambda>(v, ps). size v)"
    using size_jfield [of kvs part] by simp
qed

definition path_value :: "json \<Rightarrow> string \<Rightarrow> json" where
  "path_value source path = path_parts_value source (split_on CHR ''.'' path)"

section \<open>Template strings\<close>

definition output_of :: "(string \<times> json) list \<Rightarrow> string \<Rightarrow> json" where
  "output_of outputs i = nullish (map_of outputs i) JUndef"

text \<open>A prefix of the form \<open>$nodes.ID.output\<close> (after the opening): the node id and what follows.\<close>

definition node_reference :: "string \<Rightarrow> string \<Rightarrow> (string \<times> string) option" where
  "node_reference opening s =
     (if \<not> starts_with s opening then None
      else
        (let t = drop (length opening) s; i = takeWhile (\<lambda>c. c \<noteq> CHR ''.'') t; r = drop (length i) t
         in if i \<noteq> [] \<and> starts_with r ''.output'' then Some (i, drop (length ''.output'') r) else None))"

text \<open>What the dot of a regular expression matches.\<close>

definition dot_char :: "char \<Rightarrow> bool" where
  "dot_char c = (c \<noteq> CHR 0x0A \<and> c \<noteq> CHR 0x0D)"

text \<open>\<open>String(value)\<close>\<close>

fun js_string :: "json \<Rightarrow> string" where
  "js_string JUndef = ''undefined''"
| "js_string JNull = ''null''"
| "js_string (JBool b) = bool_str b"
| "js_string (JNum i) = int_str i"
| "js_string (JStr s) = s"
| "js_string (JArr xs) = join '','' (map (\<lambda>x. if x = JUndef \<or> x = JNull then [] else js_string x) xs)"
| "js_string (JObj kvs) = ''[object Object]''"

text \<open>One match of the embedded form at the start of a text: the node id, the path and the rest.\<close>

definition embedded_at :: "string \<Rightarrow> (string \<times> string \<times> string) option" where
  "embedded_at s =
     (case node_reference ''{{nodes.'' s of
        None \<Rightarrow> None
      | Some (i, r) \<Rightarrow>
          if \<not> starts_with r ''.'' then None
          else
            (let path = takeWhile (\<lambda>c. c \<noteq> CHR ''}'') (drop 1 r); r' = drop (1 + length path) r
             in if path \<noteq> [] \<and> starts_with r' ''}}'' then Some (i, path, drop 2 r') else None))"

lemma node_reference_length: "node_reference p s = Some (i, r) \<Longrightarrow> length r < length s"
  by (auto simp: node_reference_def Let_def starts_with_iff split: if_splits
      dest!: arg_cong [where f = length])

lemma embedded_at_shorter: "embedded_at s = Some (i, path, r) \<Longrightarrow> length r < length s"
  by (auto simp: embedded_at_def Let_def split: option.splits if_splits)
     (drule node_reference_length, linarith)

function replace_embedded :: "(string \<times> json) list \<Rightarrow> string \<Rightarrow> string" where
  "replace_embedded outputs [] = []"
| "replace_embedded outputs (c # cs) =
     (case embedded_at (c # cs) of
        None \<Rightarrow> c # replace_embedded outputs cs
      | Some (i, path, rest) \<Rightarrow>
          (let v = path_value (output_of outputs i) path
           in (if v = JUndef then [] else js_string v) @ replace_embedded outputs rest))"
  by pat_completeness auto
termination by (relation "measure (length \<circ> snd)") (auto dest: embedded_at_shorter)

definition resolve_template_string :: "(string \<times> json) list \<Rightarrow> string \<Rightarrow> json" where
  "resolve_template_string outputs s =
     (case node_reference ''$nodes.'' s of
        None \<Rightarrow> JStr (replace_embedded outputs s)
      | Some (i, r) \<Rightarrow>
          if r = [] then output_of outputs i
          else if starts_with r ''.'' \<and> drop 1 r \<noteq> [] \<and> list_all dot_char (drop 1 r)
          then path_value (output_of outputs i) (drop 1 r)
          else JStr (replace_embedded outputs s))"

fun resolve_templates :: "(string \<times> json) list \<Rightarrow> json \<Rightarrow> json" where
  "resolve_templates outputs (JStr s) = resolve_template_string outputs s"
| "resolve_templates outputs (JArr xs) = JArr (map (resolve_templates outputs) xs)"
| "resolve_templates outputs (JObj kvs) = JObj (map (\<lambda>(k, v). (k, resolve_templates outputs v)) kvs)"
| "resolve_templates outputs v = v"

section \<open>The configured input of a node\<close>

definition node_input :: "planfile \<Rightarrow> string \<Rightarrow> json" where
  "node_input p node_id =
     (let nodes = jfield (JObj (nullish (pf_execution_context p) [])) ''nodes'';
          config = jfield nodes node_id
      in jnullish (jfield config ''input'') (JObj []))"


section \<open>What resolution does\<close>

lemma node_reference_hit:
  assumes "i \<noteq> []" and "CHR ''.'' \<notin> set i"
  shows "node_reference p (p @ i @ ''.output'' @ r) = Some (i, r)"
proof -
  have "takeWhile (\<lambda>c. c \<noteq> CHR ''.'') (i @ ''.output'' @ r) = i"
    using assms(2) by (induction i) auto
  then show ?thesis using assms(1) by (simp add: node_reference_def Let_def)
qed

text \<open>A text or value without any template.\<close>

definition plain_text :: "string \<Rightarrow> bool" where
  "plain_text s = (\<not> starts_with s ''$nodes.'' \<and> \<not> str_includes s ''{{nodes.'')"

fun plain_value :: "json \<Rightarrow> bool" where
  "plain_value (JStr s) = plain_text s"
| "plain_value (JArr xs) = list_all plain_value xs"
| "plain_value (JObj kvs) = list_all (\<lambda>(k, v). plain_value v) kvs"
| "plain_value v = True"

lemma no_embedded: "\<not> starts_with s ''{{nodes.'' \<Longrightarrow> embedded_at s = None"
  by (simp add: embedded_at_def node_reference_def)

lemma str_includes_Cons: "str_includes (c # s) t \<longleftrightarrow> starts_with (c # s) t \<or> str_includes s t"
  by (simp add: str_includes_def)

lemma replace_embedded_plain: "\<not> str_includes s ''{{nodes.'' \<Longrightarrow> replace_embedded outputs s = s"
proof (induction s)
  case (Cons c s)
  from Cons.prems have "\<not> starts_with (c # s) ''{{nodes.''" and "\<not> str_includes s ''{{nodes.''"
    unfolding str_includes_Cons by blast+
  with Cons.IH no_embedded [of "c # s"] show ?case by simp
qed simp

lemma resolve_plain: "plain_value v \<Longrightarrow> resolve_templates outputs v = v"
proof (induction outputs v rule: resolve_templates.induct)
  case (1 outputs s)
  then show ?case
    by (simp add: plain_text_def resolve_template_string_def node_reference_def replace_embedded_plain)
next
  case (2 outputs xs)
  then show ?case by (simp add: list_all_iff map_idI)
next
  case (3 outputs kvs)
  then show ?case by (auto simp: list_all_iff intro!: map_idI)
qed simp_all

section \<open>Property\<close>

text \<open>A reference to the output of a node gives that output itself, a reference with a path gives
  what the path leads to, whatever the other outputs are; a value without references is left as
  it is.\<close>
lemma templates_resolved:
  assumes "i \<noteq> []" and "CHR ''.'' \<notin> set i" and "path \<noteq> []" and "list_all dot_char path"
    and "plain_value v"
  shows "resolve_templates outputs (JStr (''$nodes.'' @ i @ ''.output'')) = output_of outputs i \<and>
    resolve_templates outputs (JStr (''$nodes.'' @ i @ ''.output.'' @ path)) = path_value (output_of outputs i) path \<and>
    resolve_templates outputs v = v"
proof -
  have "node_reference ''$nodes.'' (''$nodes.'' @ i @ ''.output'') = Some (i, [])"
    using node_reference_hit [OF assms(1,2), of "''$nodes.''" "[]"] by simp
  moreover have "node_reference ''$nodes.'' (''$nodes.'' @ i @ ''.output.'' @ path) = Some (i, CHR ''.'' # path)"
    using node_reference_hit [OF assms(1,2), of "''$nodes.''" "CHR ''.'' # path"] by simp
  ultimately show ?thesis
    using assms(3-5)
    by (simp only: resolve_templates.simps resolve_template_string_def option.case prod.case) 
       (simp add: resolve_plain)
qed

lemma templates_resolved_witness:
  "resolve_templates [(''a'', JObj [(''x'', JNum 3)])] (JStr (''$nodes.'' @ ''a'' @ ''.output.'' @ ''x'')) = JNum 3"
proof -
  have "path_value (output_of [(''a'', JObj [(''x'', JNum 3)])] ''a'') ''x'' = JNum 3"
    by (simp add: path_value_def output_of_def nullish_def jfield_def)
  then show ?thesis
    using templates_resolved [of "''a''" "''x''" "JNull" "[(''a'', JObj [(''x'', JNum 3)])]"]
    by (simp add: dot_char_def)
qed

end
