(* ===== verification/Plan_Runner.thy ===== *)
theory Plan_Runner
  imports Plan_Templates Capability_Step Work_Order Plan_Markdown
begin

text \<open>
  \<open>planning/plan-runner.ts\<close>: the class \<open>PlanRunner\<close>, which takes a validated plan through its nodes
  in dependency order, records the plan state after every change and emits the events of the
  run. The node handlers are the caller's code: an option of the runner, whose answer may depend
  on everything that happened before.
\<close>

section \<open>Options\<close>

datatype node_outcome = NO_completed | NO_failed | NO_yielded | NO_skipped

record handler_result =
  hr_status :: node_outcome
  hr_artifacts :: "plan_artifact_ref list option"
  hr_errors :: "string list option"

type_synonym node_handler =
  "work_order \<Rightarrow> planfile \<Rightarrow> plan_node \<Rightarrow> plan_state \<Rightarrow> world \<Rightarrow> thrown + handler_result"

record runner_options =
  ro_snapshot :: capability_snapshot
  ro_handlers :: "plan_node_kind \<Rightarrow> node_handler option"
  ro_registry :: pack_registry
  ro_delegation :: "delegation_context option"
  ro_runtime_config :: "(string \<times> json) list option"
  ro_records_artifacts :: bool
  ro_run_id :: "string option"
  ro_emits :: bool
  ro_now :: "(nat \<Rightarrow> string) option"

text \<open>\<open>this.now()\<close>: the caller's clock, or the host's.\<close>

definition runner_now :: "host \<Rightarrow> runner_options \<Rightarrow> string eff" where
  "runner_now H o1 =
     (case ro_now o1 of
        Some f \<Rightarrow> (\<lambda>w. (Inr (f (w_clock w)), w\<lparr>w_clock := Suc (w_clock w)\<rparr>))
      | None \<Rightarrow> now_iso H)"

section \<open>Events\<close>

definition attempt_id :: "planfile \<Rightarrow> plan_node \<Rightarrow> string" where
  "attempt_id p n = ''attempt_'' @ pf_plan_id p @ ''_'' @ n_id n @ ''_initial''"

definition run_node_base :: "planfile \<Rightarrow> plan_node \<Rightarrow> node_base" where
  "run_node_base p n =
     \<lparr>nb_node_id = n_id n, nb_attempt_id = attempt_id p n, nb_title = Some (n_title n)\<rparr>"

text \<open>\<open>emit\<close>: nothing without a run id and a sink; the time stamp is read in any case after that.\<close>

definition runner_emit :: "host \<Rightarrow> runner_options \<Rightarrow> planfile \<Rightarrow> event_body option \<Rightarrow> unit eff" where
  "runner_emit H o1 p b =
     ewhen (truthy (ro_run_id o1) \<and> ro_emits o1)
       (ebind (runner_now H o1) (\<lambda>t.
          case b of
            None \<Rightarrow> ereturn ()
          | Some body \<Rightarrow> emit_new (h_env H) (the (ro_run_id o1)) (pf_plan_id p) t body))"

definition emit_phase_started :: "host \<Rightarrow> runner_options \<Rightarrow> planfile \<Rightarrow> plan_node \<Rightarrow> unit eff" where
  "emit_phase_started H o1 p n =
     ethen (ewhen (n_kind n = K_verify)
              (runner_emit H o1 p (Some (Verification_started (run_node_base p n) (n_id n)))))
           (ewhen (n_kind n = K_repair)
              (runner_emit H o1 p (Some (Repair_started (run_node_base p n) 1))))"

definition emit_node_started :: "host \<Rightarrow> runner_options \<Rightarrow> planfile \<Rightarrow> plan_node \<Rightarrow> unit eff" where
  "emit_node_started H o1 p n =
     ethen (runner_emit H o1 p (Some (Node_started (run_node_base p n)))) (emit_phase_started H o1 p n)"

fun node_outcome_str :: "node_outcome \<Rightarrow> string" where
  "node_outcome_str NO_completed = ''completed''"
| "node_outcome_str NO_failed = ''failed''"
| "node_outcome_str NO_yielded = ''yielded''"
| "node_outcome_str NO_skipped = ''skipped''"

definition emit_phase_completed ::
    "host \<Rightarrow> runner_options \<Rightarrow> planfile \<Rightarrow> plan_node \<Rightarrow> node_outcome \<Rightarrow> unit eff" where
  "emit_phase_completed H o1 p n s =
     ethen (ewhen (n_kind n = K_verify)
              (runner_emit H o1 p
                (Some (Verification_completed (run_node_base p n) (n_id n) (s = NO_completed) None))))
           (ewhen (n_kind n = K_repair)
              (runner_emit H o1 p (Some (Repair_completed (run_node_base p n) 1 (node_outcome_str s)))))"

text \<open>\<open>nodeEventForStatus\<close> with the payload \<open>markNode\<close> gives it.\<close>

definition node_event ::
    "planfile \<Rightarrow> plan_node \<Rightarrow> node_outcome \<Rightarrow> string list \<Rightarrow> structured_error list \<Rightarrow> string
      \<Rightarrow> next_action list \<Rightarrow> event_body" where
  "node_event p n s artifact_ids errors reason actions =
     (case s of
        NO_failed \<Rightarrow> Node_failed (run_node_base p n) errors
      | NO_yielded \<Rightarrow>
          Node_yielded (run_node_base p n) (if reason = [] then ''Node yielded.'' else reason) actions
      | _ \<Rightarrow> Node_completed (run_node_base p n) (filter nonempty artifact_ids))"

section \<open>Node states\<close>

fun outcome_status :: "node_outcome \<Rightarrow> plan_node_status" where
  "outcome_status NO_completed = NS_completed"
| "outcome_status NO_failed = NS_failed"
| "outcome_status NO_yielded = NS_yielded"
| "outcome_status NO_skipped = NS_skipped"

definition finished_status :: "plan_node_status \<Rightarrow> bool" where
  "finished_status s = (s = NS_completed \<or> s = NS_skipped)"

definition waiting_status :: "plan_node_status \<Rightarrow> bool" where
  "waiting_status s = (s = NS_pending \<or> s = NS_ready)"

definition ready_nodes :: "planfile \<Rightarrow> plan_state \<Rightarrow> plan_node list" where
  "ready_nodes p s =
     (let completed = map ns_node_id (filter (\<lambda>n. finished_status (ns_status n)) (ps_node_states s));
          pending = map ns_node_id (filter (\<lambda>n. waiting_status (ns_status n)) (ps_node_states s))
      in filter (\<lambda>n. n_id n \<in> set pending \<and> list_all (\<lambda>d. d \<in> set completed) (n_depends_on n))
           (pf_nodes p))"

definition marked_states ::
    "plan_state \<Rightarrow> string \<Rightarrow> node_outcome \<Rightarrow> plan_artifact_ref list \<Rightarrow> string list \<Rightarrow> string
      \<Rightarrow> node_state list" where
  "marked_states st i s artifacts errors now =
     map (\<lambda>n. if ns_node_id n = i
               then n\<lparr>ns_status := outcome_status s, ns_completed_at := Some now,
                      ns_artifacts := artifacts, ns_errors := errors\<rparr>
               else n) (ps_node_states st)"

definition next_plan_status :: "node_outcome \<Rightarrow> node_state list \<Rightarrow> plan_status" where
  "next_plan_status s states =
     (if s = NO_failed then PS_failed
      else if s = NO_yielded then PS_yielded
      else if list_all (\<lambda>n. finished_status (ns_status n)) states then PS_completed
      else PS_running)"

definition projected_plan ::
    "planfile \<Rightarrow> node_state list \<Rightarrow> plan_status \<Rightarrow> plan_artifact_ref list \<Rightarrow> string \<Rightarrow> planfile" where
  "projected_plan p states status artifacts now =
     p\<lparr>pf_status := status,
       pf_nodes := map (\<lambda>c. case List.find (\<lambda>n. ns_node_id n = n_id c) states of
           Some n \<Rightarrow> c\<lparr>n_status := ns_status n, n_artifacts := ns_artifacts n, n_errors := ns_errors n\<rparr>
         | None \<Rightarrow> c) (pf_nodes p),
       pf_artifact_refs := pf_artifact_refs p @ artifacts,
       pf_updated_at := now\<rparr>"

definition mark_node ::
    "host \<Rightarrow> runner_options \<Rightarrow> planfile \<Rightarrow> plan_state \<Rightarrow> plan_node \<Rightarrow> node_outcome
      \<Rightarrow> plan_artifact_ref list \<Rightarrow> string list \<Rightarrow> plan_state eff" where
  "mark_node H o1 p st n s artifacts errors =
     ebind (runner_now H o1) (\<lambda>now.
       let states = marked_states st (n_id n) s artifacts errors now;
           status = next_plan_status s states;
           markdown = render_planfile_markdown (h_yaml H)
             (projected_plan p states status artifacts now) no_markdown_options
       in
       ebind (store_plan_state (h_env H)
                (st\<lparr>ps_status := status, ps_node_states := states,
                    ps_artifact_refs := ps_artifact_refs st @ artifacts,
                    ps_markdown_projection := Some markdown, ps_updated_at := now\<rparr>)) (\<lambda>recorded.
       ethen (runner_emit H o1 p (Some (node_event p n s (map ar_artifact_id artifacts)
                (map (\<lambda>m. mk_structured_error MCP_EXECUTION_FAILED m now (Some (n_id n)) None None) errors)
                (case errors of e # _ \<Rightarrow> e | [] \<Rightarrow> ''Node '' @ node_outcome_str s @ ''.'')
                (derive_run_next_actions (nullish (ro_run_id o1) (pf_plan_id p)) (node_outcome_str s)
                   (Some (n_id n)) [] [] errors))))
      (ethen (efor artifacts (\<lambda>a. runner_emit H o1 p
                (if ar_artifact_id a = [] then None
                 else Some (Artifact_created (Some (n_id n)) (ar_artifact_id a)
                              (plan_artifact_kind_str (ar_kind a))))))
      (ethen (emit_phase_completed H o1 p n s)
        (ereturn recorded)))))"

definition mark_node_running :: "host \<Rightarrow> runner_options \<Rightarrow> plan_state \<Rightarrow> plan_node \<Rightarrow> plan_state eff" where
  "mark_node_running H o1 st n =
     ebind (runner_now H o1) (\<lambda>now.
       store_plan_state (h_env H)
         (st\<lparr>ps_status := PS_running,
             ps_node_states := map (\<lambda>s. if ns_node_id s = n_id n
               then s\<lparr>ns_status := NS_running, ns_started_at := Some (nullish (ns_started_at s) now)\<rparr>
               else s) (ps_node_states st),
             ps_updated_at := now\<rparr>))"


section \<open>Capability nodes\<close>

definition can_run_capability_step :: "plan_node \<Rightarrow> bool" where
  "can_run_capability_step n = (length (n_allowed_capability_refs n) = 1 \<and> n_kind n \<noteq> K_frame)"

definition can_complete_structural_node :: "plan_node \<Rightarrow> bool" where
  "can_complete_structural_node n = (n_kind n = K_frame \<and> n_allowed_capability_refs n = [])"

definition should_dry_run_node :: "planfile \<Rightarrow> plan_node \<Rightarrow> bool" where
  "should_dry_run_node p n =
     (case n_execution_mode n of Some m \<Rightarrow> m = Mode_dry_run | None \<Rightarrow> pf_mode p = Plan_dry_run)"

definition input_artifact_refs :: "plan_state \<Rightarrow> plan_node \<Rightarrow> string list" where
  "input_artifact_refs st n =
     concat (map (\<lambda>s. map ar_artifact_id (ns_artifacts s))
       (filter (\<lambda>s. ns_node_id s \<in> set (n_depends_on n)) (ps_node_states st)))"

definition capability_ref_of :: "plan_node \<Rightarrow> string" where
  "capability_ref_of n = (case n_allowed_capability_refs n of r # _ \<Rightarrow> r | [] \<Rightarrow> [])"

definition capability_step_input ::
    "planfile \<Rightarrow> plan_state \<Rightarrow> plan_node \<Rightarrow> (string \<times> json) list \<Rightarrow> sdk_descriptor
      \<Rightarrow> delegation_context \<Rightarrow> step_input" where
  "capability_step_input p st n outputs d dc =
     \<lparr>si_step_id = Some (pf_plan_id p @ '':'' @ n_id n), si_plan_id = pf_plan_id p, si_node_id = n_id n,
      si_capability_ref = capability_ref_of n, si_capability_digest = sd_capability_digest d,
      si_input = resolve_templates outputs (node_input p (n_id n)), si_delegation = dc,
      si_idempotency_key = pf_plan_id p @ '':'' @ n_id n @ '':'' @ sd_capability_digest d,
      si_input_artifact_refs = input_artifact_refs st n, si_execution_mode = None,
      si_dry_run = should_dry_run_node p n, si_trace_id = Some (dc_trace_id dc)\<rparr>"

definition capability_step_options :: "runner_options \<Rightarrow> planfile \<Rightarrow> plan_node \<Rightarrow> string \<Rightarrow> step_options" where
  "capability_step_options o1 p n now =
     \<lparr>so_registry = ro_registry o1, so_now = Some now, so_scoped_task = None, so_bounds = None,
      so_attempts_used = None,
      so_runtime_config =
        (let c = AList.update ''node_id'' (JStr (n_id n))
                   (AList.update ''plan_id'' (JStr (pf_plan_id p)) (nullish (ro_runtime_config o1) []))
         in if truthy (ro_run_id o1) then AList.update ''run_id'' (JStr (the (ro_run_id o1))) c else c),
      so_plan_state = None, so_records_artifacts = ro_records_artifacts o1,
      so_run_id = keep_truthy (ro_run_id o1), so_emits = ro_emits o1\<rparr>"

definition run_capability_node ::
    "host \<Rightarrow> runner_options \<Rightarrow> planfile \<Rightarrow> plan_state \<Rightarrow> plan_node \<Rightarrow> (string \<times> json) list
      \<Rightarrow> step_result eff" where
  "run_capability_node H o1 p st n outputs =
     (case resolve_capability_for_step (h_env H) (ro_registry o1) (capability_ref_of n) of
        None \<Rightarrow> ethrow (Plain_error (''Unknown capability: '' @ capability_ref_of n))
      | Some (d, f) \<Rightarrow>
          (case ro_delegation o1 of
             None \<Rightarrow> ethrow (Plain_error ''Capability PlanRunner execution requires a delegation context.'')
           | Some dc \<Rightarrow>
               ebind (runner_now H o1) (\<lambda>now.
                 run_capability_step H (capability_step_options o1 p n now)
                   (capability_step_input p st n outputs d dc))))"

definition plan_status_from_step :: "step_status \<Rightarrow> node_outcome" where
  "plan_status_from_step s =
     (if s = SS_success then NO_completed else if s = SS_failed then NO_failed else NO_yielded)"

section \<open>Loading\<close>

definition checked_plan :: "host \<Rightarrow> runner_options \<Rightarrow> planfile \<Rightarrow> planfile eff" where
  "checked_plan H o1 planfile =
     ebind (of_option Zod_error (planfile_parse (h_env H) planfile)) (\<lambda>parsed.
     ebind (of_option Zod_error (with_canonical_plan_digest (h_env H) parsed)) (\<lambda>p.
       let v = validate_planfile (h_env H) (Some (ro_snapshot o1)) p in
       if vl_ok v then ereturn p
       else ethrow (Plain_error (join ''; '' (map pi_message (vl_issues v))))))"

definition load_plan :: "host \<Rightarrow> runner_options \<Rightarrow> planfile \<Rightarrow> plan_state eff" where
  "load_plan H o1 planfile =
     ebind (checked_plan H o1 planfile) (\<lambda>p.
     ebind (runner_now H o1) (\<lambda>now.
     ebind (of_option Zod_error (create_initial_plan_state (h_env H) (pf_plan_id p) PS_pending
              (nullish (pf_canonical_plan_digest p) [])
              (map (\<lambda>n. (n_id n, if n_depends_on n = [] then NS_ready else NS_pending)) (pf_nodes p))
              (pf_artifact_refs p)
              (Some (render_planfile_markdown (h_yaml H) (p\<lparr>pf_status := PS_pending\<rparr>) no_markdown_options))
              now)) (\<lambda>st.
     ebind (store_plan_state (h_env H) st) (\<lambda>recorded.
     ethen (runner_emit H o1 p (Some Run_created)) (ereturn recorded)))))"

definition current_state :: "host \<Rightarrow> runner_options \<Rightarrow> planfile \<Rightarrow> plan_state eff" where
  "current_state H o1 p =
     ebind (load_plan_state (pf_plan_id p)) (\<lambda>s.
       case s of Some st \<Rightarrow> ereturn st | None \<Rightarrow> load_plan H o1 p)"

section \<open>Running\<close>

text \<open>The error of \<open>compileWorkOrder\<close> as it is thrown.\<close>

definition work_order_for :: "host \<Rightarrow> runner_options \<Rightarrow> planfile \<Rightarrow> plan_node \<Rightarrow> work_order eff" where
  "work_order_for H o1 p n =
     (case compile_work_order (h_env H) p (n_id n) (ro_snapshot o1) None None None of
        Inl (Unknown_plan_node i) \<Rightarrow> ethrow (Plain_error (''Unknown plan node: '' @ i))
      | Inl Invalid_work_order \<Rightarrow> ethrow Zod_error
      | Inr w \<Rightarrow> ereturn w)"

definition call_handler ::
    "node_handler \<Rightarrow> work_order \<Rightarrow> planfile \<Rightarrow> plan_node \<Rightarrow> plan_state \<Rightarrow> handler_result eff" where
  "call_handler h wo p n st = (\<lambda>w. (h wo p n st w, w))"

definition no_handler_message :: "plan_node \<Rightarrow> string" where
  "no_handler_message n = ''No handler registered for '' @ node_kind_str (n_kind n) @ ''.''"

definition run_ready_node :: "host \<Rightarrow> runner_options \<Rightarrow> planfile \<Rightarrow> plan_state eff" where
  "run_ready_node H o1 planfile =
     ebind (checked_plan H o1 planfile) (\<lambda>p.
     ebind (current_state H o1 p) (\<lambda>st.
       case ready_nodes p st of
         [] \<Rightarrow> ereturn st
       | n # _ \<Rightarrow>
           if can_complete_structural_node n
           then ethen (emit_node_started H o1 p n) (mark_node H o1 p st n NO_completed [] [])
           else
             (case ro_handlers o1 (n_kind n) of
                None \<Rightarrow> mark_node H o1 p st n NO_yielded [] [no_handler_message n]
              | Some h \<Rightarrow>
                  ebind (work_order_for H o1 p n) (\<lambda>wo.
                  ethen (emit_node_started H o1 p n)
                  (ebind (call_handler h wo p n st) (\<lambda>r.
                   mark_node H o1 p st n (hr_status r) (nullish (hr_artifacts r) [])
                     (nullish (hr_errors r) [])))))))"

text \<open>One turn of the loop of \<open>runToCompletion\<close> for the node it picked: the new state and outputs.\<close>

definition run_node ::
    "host \<Rightarrow> runner_options \<Rightarrow> planfile \<Rightarrow> plan_state \<Rightarrow> (string \<times> json) list \<Rightarrow> plan_node
      \<Rightarrow> (plan_state \<times> (string \<times> json) list) eff" where
  "run_node H o1 p st0 outputs n =
     ethen (emit_node_started H o1 p n)
    (ebind (mark_node_running H o1 st0 n) (\<lambda>st.
       if can_complete_structural_node n
       then ebind (mark_node H o1 p st n NO_completed [] []) (\<lambda>st'. ereturn (st', outputs))
       else if can_run_capability_step n
       then
         ebind (run_capability_node H o1 p st n outputs) (\<lambda>r.
           let outputs' = (case sr_output r of None \<Rightarrow> outputs
                           | Some v \<Rightarrow> if v = JUndef then outputs else AList.update (n_id n) v outputs) in
           ebind (emap (sr_output_artifact_refs r) (\<lambda>a.
                    ebind (runner_now H o1) (\<lambda>t. ereturn (step_artifact_ref a t)))) (\<lambda>artifacts.
           ebind (mark_node H o1 p st n (plan_status_from_step (sr_status r)) artifacts
                    (map se_message (sr_structured_errors r)))
             (\<lambda>st'. ereturn (st', outputs'))))
       else
         (case ro_handlers o1 (n_kind n) of
            None \<Rightarrow> ebind (mark_node H o1 p st n NO_yielded [] [no_handler_message n])
                      (\<lambda>st'. ereturn (st', outputs))
          | Some h \<Rightarrow>
              ebind (work_order_for H o1 p n) (\<lambda>wo.
              ebind (call_handler h wo p n st) (\<lambda>r.
              ebind (mark_node H o1 p st n (hr_status r) (nullish (hr_artifacts r) [])
                       (nullish (hr_errors r) []))
                (\<lambda>st'. ereturn (st', outputs)))))))"

definition run_ended :: "plan_state \<Rightarrow> bool" where
  "run_ended st = (ps_status st = PS_completed \<or> ps_status st = PS_failed \<or> ps_status st = PS_yielded)"

text \<open>The loop, with the number of turns left.\<close>

fun run_loop ::
    "host \<Rightarrow> runner_options \<Rightarrow> planfile \<Rightarrow> nat \<Rightarrow> plan_state \<Rightarrow> (string \<times> json) list
      \<Rightarrow> (plan_state \<times> (string \<times> json) list) eff" where
  "run_loop H o1 p 0 st outputs = ereturn (st, outputs)"
| "run_loop H o1 p (Suc k) st outputs =
     (case ready_nodes p st of
        [] \<Rightarrow> ereturn (st, outputs)
      | n # _ \<Rightarrow>
          ebind (run_node H o1 p st outputs n) (\<lambda>(st', outputs').
            if run_ended st' then ereturn (st', outputs')
            else run_loop H o1 p k st' outputs'))"

definition emit_run_end :: "host \<Rightarrow> runner_options \<Rightarrow> planfile \<Rightarrow> plan_state \<Rightarrow> unit eff" where
  "emit_run_end H o1 p st =
     (if ps_status st = PS_completed
      then runner_emit H o1 p (Some (Run_completed (filter nonempty (map ar_artifact_id (ps_artifact_refs st)))))
      else if ps_status st = PS_failed
      then ebind (emap (concat (map (\<lambda>n. map (\<lambda>m. (m, ns_node_id n)) (ns_errors n)) (ps_node_states st)))
                   (\<lambda>(m, i). ebind (runner_now H o1) (\<lambda>t.
                      ereturn (mk_structured_error MCP_EXECUTION_FAILED m t (Some i) None None))))
             (\<lambda>errors. runner_emit H o1 p (Some (Run_failed errors)))
      else if ps_status st = PS_yielded
      then
        (let active = map_option ns_node_id (List.find (\<lambda>n. ns_status n = NS_yielded) (ps_node_states st))
         in runner_emit H o1 p (Some (Run_yielded ''Run yielded before completion.''
              (derive_run_next_actions (nullish (ro_run_id o1) (pf_plan_id p)) ''yielded'' (keep_truthy active)
                 [] [] (concat (map ns_errors (ps_node_states st)))))))
      else ereturn ())"

definition run_to_completion ::
    "host \<Rightarrow> runner_options \<Rightarrow> planfile \<Rightarrow> (plan_state \<times> (string \<times> json) list) eff" where
  "run_to_completion H o1 planfile =
     ebind (checked_plan H o1 planfile) (\<lambda>p.
     ebind (current_state H o1 p) (\<lambda>st.
     ethen (runner_emit H o1 p (Some Run_started))
    (ebind (run_loop H o1 p (length (pf_nodes p) + 2) st []) (\<lambda>(st', outputs).
     ethen (emit_run_end H o1 p st') (ereturn (st', outputs))))))"


section \<open>The events of a run\<close>

definition start_of :: "event_body \<Rightarrow> string option" where
  "start_of b = (case b of Node_started n \<Rightarrow> Some (nb_node_id n) | _ \<Rightarrow> None)"

definition completion_of :: "event_body \<Rightarrow> string option" where
  "completion_of b = (case b of Node_completed n _ \<Rightarrow> Some (nb_node_id n) | _ \<Rightarrow> None)"

abbreviation no_start :: "event_body \<Rightarrow> bool" where
  "no_start b \<equiv> start_of b = None"

lemma emits_runner_now [emits_intros]: "emits P (runner_now H o1)"
proof (cases "ro_now o1")
  case None
  then show ?thesis by (simp add: runner_now_def emits_basic)
next
  case (Some f)
  then show ?thesis by (simp add: runner_now_def emits_def)
qed

lemma emits_runner_emit [emits_intros]:
  assumes "\<And>body. b = Some body \<Longrightarrow> P body"
  shows "emits P (runner_emit H o1 p b)"
  using assms unfolding runner_emit_def by (cases b) (auto intro!: emits_intros)

lemma emits_call_handler [emits_intros]: "emits P (call_handler h wo p n st)"
  by (simp add: emits_def call_handler_def)

lemma emits_work_order_for [emits_intros]: "emits P (work_order_for H o1 p n)"
  by (auto simp: work_order_for_def intro: emits_intros split: sum.split compile_error.split)

lemma no_start_node_event [simp]: "start_of (node_event p n s ids errs reason acts) = None"
  by (cases s) (simp_all add: node_event_def start_of_def)

lemma emits_phases [emits_intros]:
  "emits no_start (emit_phase_started H o1 p n)" "emits no_start (emit_phase_completed H o1 p n s)"
  unfolding emit_phase_started_def emit_phase_completed_def
  by (intro emits_intros; simp add: start_of_def)+

lemma emits_mark_node [emits_intros]: "emits no_start (mark_node H o1 p st n s arts errs)"
proof -
  have artifact: "emits no_start (runner_emit H o1 p (if b then None else Some (Artifact_created x y z)))"
    for b x y z by (intro emits_intros) (auto simp: start_of_def split: if_splits)
  show ?thesis
    unfolding mark_node_def Let_def by (intro emits_intros artifact) auto
qed

lemma emits_mark_node_running [emits_intros]: "emits P (mark_node_running H o1 st n)"
  unfolding mark_node_running_def by (intro emits_intros)

lemma emits_step_emit [emits_intros]: "P b \<Longrightarrow> emits P (step_emit H opts i t b)"
  unfolding step_emit_def by (intro emits_intros)

lemma emits_step_finish [emits_intros]:
  "emits no_start (step_finish H opts i started started_at now status output refs report obs errors)"
  unfolding step_finish_def Let_def by (intro emits_intros) (auto simp: start_of_def)

lemma emits_step_refuse [emits_intros]:
  "emits no_start (step_refuse H opts i started started_at now iid st rep refs code msg os sm)"
  unfolding step_refuse_def by (intro emits_intros)

lemma emits_step_failure [emits_intros]:
  "emits no_start (step_failure H opts i started started_at now code msg)"
  unfolding step_failure_def by (intro emits_intros)

lemma emits_record_step_artifact [emits_intros]: "emits no_start (record_step_artifact H opts i d a)"
  unfolding record_step_artifact_def by (intro emits_intros) (auto simp: start_of_def)

lemma emits_record_step_artifacts [emits_intros]: "emits no_start (record_step_artifacts H opts i d as)"
  by (induction as) (simp_all only: record_step_artifacts.simps, (intro emits_intros | assumption)+)

lemma emits_step_conclude [emits_intros]:
  "emits no_start (step_conclude H opts i f report iid started started_at now refs st output errors)"
  unfolding step_conclude_def Let_def by (intro emits_intros)

lemma emits_step_execute [emits_intros]:
  "emits no_start (step_execute H opts i d f data decision report iid started started_at now)"
  unfolding step_execute_def by (intro emits_intros)

lemma emits_step_after_schema [emits_intros]:
  "emits no_start (step_after_schema H opts i d f data started started_at now)"
  unfolding step_after_schema_def Let_def by (intro emits_intros) (auto simp: start_of_def)

lemma emits_run_capability_step [emits_intros]: "emits no_start (run_capability_step H opts i)"
  unfolding run_capability_step_def Let_def by (intro emits_intros) (auto simp: start_of_def)

lemma emits_run_capability_node [emits_intros]: "emits no_start (run_capability_node H o1 p st n outputs)"
  unfolding run_capability_node_def by (intro emits_intros)


section \<open>Dependency order\<close>

definition started_ids :: "run_event list \<Rightarrow> string set" where
  "started_ids es = {i. \<exists>e \<in> set es. start_of (re_body e) = Some i}"

definition completed_ids :: "run_event list \<Rightarrow> string set" where
  "completed_ids es = {i. \<exists>e \<in> set es. completion_of (re_body e) = Some i}"

text \<open>A log, read from its start: every node is started at most once and only when each of its
  dependencies is among the finished ones, to which every completion adds.\<close>

fun in_order :: "plan_node list \<Rightarrow> string set \<Rightarrow> string set \<Rightarrow> run_event list \<Rightarrow> bool" where
  "in_order nodes finished started [] = True"
| "in_order nodes finished started (e # es) =
     ((case start_of (re_body e) of
         None \<Rightarrow> True
       | Some i \<Rightarrow> i \<notin> started \<and>
           list_ex (\<lambda>n. n_id n = i \<and> list_all (\<lambda>d. d \<in> finished) (n_depends_on n)) nodes) \<and>
      in_order nodes (finished \<union> set_option (completion_of (re_body e)))
        (started \<union> set_option (start_of (re_body e))) es)"

lemma ids_simps [simp]:
  "started_ids [] = {}" "completed_ids [] = {}"
  "started_ids (e # es) = set_option (start_of (re_body e)) \<union> started_ids es"
  "completed_ids (e # es) = set_option (completion_of (re_body e)) \<union> completed_ids es"
  "started_ids (es @ fs) = started_ids es \<union> started_ids fs"
  "completed_ids (es @ fs) = completed_ids es \<union> completed_ids fs"
  by (auto simp: started_ids_def completed_ids_def)

lemma in_order_append:
  "in_order nodes F S (es @ fs) \<longleftrightarrow>
     in_order nodes F S es \<and> in_order nodes (F \<union> completed_ids es) (S \<union> started_ids es) fs"
  by (induction es arbitrary: F S) (auto simp: Un_assoc)

lemma in_order_no_start:
  "\<forall>e \<in> set es. no_start (re_body e) \<Longrightarrow> in_order nodes F S es \<and> started_ids es = {}"
  by (induction es arbitrary: F S) auto

section \<open>One turn of the loop\<close>

definition emitting :: "runner_options \<Rightarrow> bool" where
  "emitting o1 = (truthy (ro_run_id o1) \<and> ro_emits o1)"

lemma runner_now_cases:
  obtains t where "runner_now H o1 w = (Inr t, w\<lparr>w_clock := Suc (w_clock w)\<rparr>)"
  by (cases "ro_now o1") (simp_all add: runner_now_def now_iso_run)

lemma keeps_runner_now [keeps_intros]:
  "keeps w_events (runner_now H o1)" "keeps w_calls (runner_now H o1)"
  "keeps w_plan_states (runner_now H o1)"
  by (cases "ro_now o1"; simp add: runner_now_def keeps_def now_iso_run)+

lemma runner_emit_event:
  assumes "emitting o1" and "runner_emit H o1 p (Some b) w = (r, w')"
  shows "(\<exists>err. r = Inl err \<and> w_events w' = w_events w) \<or>
         (\<exists>e. r = Inr () \<and> w_events w' = w_events w @ [e] \<and> re_body e = b)"
proof -
  obtain t where "runner_now H o1 w = (Inr t, w\<lparr>w_clock := Suc (w_clock w)\<rparr>)"
    by (rule runner_now_cases)
  with assms show ?thesis
    using created_event [of "h_env H" "the (ro_run_id o1)" "pf_plan_id p" t None b]
    by (cases "create_run_event (h_env H) (the (ro_run_id o1)) (pf_plan_id p) t None b")
       (auto simp: runner_emit_def emitting_def ebind_run emit_new_def put_event_def)
qed

text \<open>What one turn does after the node-started event.\<close>

definition after_start ::
    "host \<Rightarrow> runner_options \<Rightarrow> planfile \<Rightarrow> plan_state \<Rightarrow> (string \<times> json) list \<Rightarrow> plan_node
      \<Rightarrow> (plan_state \<times> (string \<times> json) list) eff" where
  "after_start H o1 p st0 outputs n =
     ethen (emit_phase_started H o1 p n)
    (ebind (mark_node_running H o1 st0 n) (\<lambda>st.
       if can_complete_structural_node n
       then ebind (mark_node H o1 p st n NO_completed [] []) (\<lambda>st'. ereturn (st', outputs))
       else if can_run_capability_step n
       then
         ebind (run_capability_node H o1 p st n outputs) (\<lambda>r.
           let outputs' = (case sr_output r of None \<Rightarrow> outputs
                           | Some v \<Rightarrow> if v = JUndef then outputs else AList.update (n_id n) v outputs) in
           ebind (emap (sr_output_artifact_refs r) (\<lambda>a.
                    ebind (runner_now H o1) (\<lambda>t. ereturn (step_artifact_ref a t)))) (\<lambda>artifacts.
           ebind (mark_node H o1 p st n (plan_status_from_step (sr_status r)) artifacts
                    (map se_message (sr_structured_errors r)))
             (\<lambda>st'. ereturn (st', outputs'))))
       else
         (case ro_handlers o1 (n_kind n) of
            None \<Rightarrow> ebind (mark_node H o1 p st n NO_yielded [] [no_handler_message n])
                      (\<lambda>st'. ereturn (st', outputs))
          | Some h \<Rightarrow>
              ebind (work_order_for H o1 p n) (\<lambda>wo.
              ebind (call_handler h wo p n st) (\<lambda>r.
              ebind (mark_node H o1 p st n (hr_status r) (nullish (hr_artifacts r) [])
                       (nullish (hr_errors r) []))
                (\<lambda>st'. ereturn (st', outputs)))))))"

lemma ethen_assoc: "ethen (ethen a b) c = ethen a (ethen b c)"
  by (rule ext) (auto simp: ethen_run split: prod.splits sum.splits)

lemma run_node_after_start:
  "run_node H o1 p st0 outputs n =
     ethen (runner_emit H o1 p (Some (Node_started (run_node_base p n)))) (after_start H o1 p st0 outputs n)"
  unfolding run_node_def after_start_def emit_node_started_def ethen_assoc ..

lemma emits_after_start: "emits no_start (after_start H o1 p st0 outputs n)"
  unfolding after_start_def Let_def by (intro emits_intros)

text \<open>The node states after a turn: the node has the outcome of the turn, the others are as before.\<close>

definition statuses :: "plan_state \<Rightarrow> (string \<times> plan_node_status) list" where
  "statuses st = map (\<lambda>s. (ns_node_id s, ns_status s)) (ps_node_states st)"

definition set_status ::
    "string \<Rightarrow> plan_node_status \<Rightarrow> (string \<times> plan_node_status) list \<Rightarrow> (string \<times> plan_node_status) list" where
  "set_status i s m = map (\<lambda>(j, t). (j, if j = i then s else t)) m"

definition outcome_plan_status :: "node_outcome \<Rightarrow> (string \<times> plan_node_status) list \<Rightarrow> plan_status" where
  "outcome_plan_status s m =
     (if s = NO_failed then PS_failed else if s = NO_yielded then PS_yielded
      else if list_all (\<lambda>(i, t). finished_status t) m then PS_completed else PS_running)"

lemma statuses_marked:
  "map (\<lambda>s. (ns_node_id s, ns_status s)) (marked_states st i s arts errs now) =
     set_status i (outcome_status s) (statuses st)"
  by (auto simp: marked_states_def statuses_def set_status_def)

lemma next_status_marked:
  "next_plan_status s (marked_states st i s arts errs now) =
     outcome_plan_status s (set_status i (outcome_status s) (statuses st))"
proof -
  have "list_all (\<lambda>n. finished_status (ns_status n)) xs \<longleftrightarrow>
      list_all (\<lambda>(i, t). finished_status t) (map (\<lambda>s. (ns_node_id s, ns_status s)) xs)" for xs
    by (induction xs) auto
  from this [of "marked_states st i s arts errs now"] show ?thesis
    by (simp only: next_plan_status_def outcome_plan_status_def statuses_marked)
qed

lemma mark_node_inr:
  assumes "mark_node H o1 p st n s arts errs w = (Inr st', w')"
  shows "statuses st' = set_status (n_id n) (outcome_status s) (statuses st) \<and>
    ps_status st' = outcome_plan_status s (statuses st') \<and> ps_plan_id st' = ps_plan_id st \<and>
    (emitting o1 \<longrightarrow> finished_status (outcome_status s) \<longrightarrow>
       (\<exists>es. w_events w' = w_events w @ es \<and> n_id n \<in> completed_ids es))"
proof -
  obtain now w1 m where now: "runner_now H o1 w = (Inr now, w1)"
    and "\<exists>w2 w3 w4. st' = st\<lparr>ps_status := next_plan_status s (marked_states st (n_id n) s arts errs now),
        ps_node_states := marked_states st (n_id n) s arts errs now,
        ps_artifact_refs := ps_artifact_refs st @ arts, ps_markdown_projection := Some m,
        ps_updated_at := now\<rparr> \<and> store_plan_state (h_env H) st' w1 = (Inr st', w2) \<and>
      (\<exists>ids es' r' acts. runner_emit H o1 p (Some (node_event p n s ids es' r' acts)) w2 = (Inr (), w3)) \<and>
      (\<exists>f. efor arts f w3 = (Inr (), w4) \<and> (\<forall>a. emits (\<lambda>_. True) (f a))) \<and>
      emit_phase_completed H o1 p n s w4 = (Inr (), w')"
  proof -
    have sink: "emits (\<lambda>_. True) (runner_emit H o1 p b)" for b by (intro emits_intros) simp
    from assms show ?thesis
      unfolding mark_node_def Let_def ebind_inr ethen_inr ereturn_run prod.inject
      by (elim exE conjE) (rule that, assumption, use sink in \<open>fastforce simp: store_plan_state_inr\<close>)
  qed
  then obtain w2 w3 w4 ids es' r' acts f
    where st': "st' = st\<lparr>ps_status := next_plan_status s (marked_states st (n_id n) s arts errs now),
        ps_node_states := marked_states st (n_id n) s arts errs now,
        ps_artifact_refs := ps_artifact_refs st @ arts, ps_markdown_projection := Some m,
        ps_updated_at := now\<rparr>"
      and store: "store_plan_state (h_env H) st' w1 = (Inr st', w2)"
      and ev: "runner_emit H o1 p (Some (node_event p n s ids es' r' acts)) w2 = (Inr (), w3)"
      and arts: "efor arts f w3 = (Inr (), w4)" "\<forall>a. emits (\<lambda>_. True) (f a)"
      and phase: "emit_phase_completed H o1 p n s w4 = (Inr (), w')"
    by blast
  have states: "statuses st' = set_status (n_id n) (outcome_status s) (statuses st)"
    by (simp add: st' statuses_def marked_states_def set_status_def)
  moreover have "ps_status st' = outcome_plan_status s (statuses st')"
    unfolding states by (simp add: st' next_status_marked)
  moreover have "\<exists>es. w_events w' = w_events w @ es \<and> n_id n \<in> completed_ids es"
    if "emitting o1" and "finished_status (outcome_status s)"
  proof -
    note on = that
    have w2: "w_events w2 = w_events w"
      using keepsD [OF keeps_store_plan_state(2) store] keepsD [OF keeps_runner_now(1) now] by simp
    obtain e where e: "w_events w3 = w_events w2 @ [e]" "re_body e = node_event p n s ids es' r' acts"
      using runner_emit_event [OF on(1) ev] by auto
    have "n_id n \<in> completed_ids [e]"
      using on(2) e(2)
      by (cases s) (simp_all add: node_event_def completion_of_def run_node_base_def finished_status_def)
    moreover obtain fs gs where "w_events w4 = w_events w3 @ fs" "w_events w' = w_events w4 @ gs"
      using emitsD [OF emits_efor arts(1), of "\<lambda>_. True"] arts(2) emitsD [OF emits_phases(2) phase] by blast
    ultimately show ?thesis using e(1) w2 by (intro exI [of _ "[e] @ fs @ gs"]) auto
  qed
  ultimately show ?thesis by (simp add: st')
qed


lemma set_status_twice [simp]: "set_status i a (set_status i b m) = set_status i a m"
  by (auto simp: set_status_def)

lemma mark_node_running_inr:
  assumes "mark_node_running H o1 st n w = (Inr st', w')"
  shows "statuses st' = set_status (n_id n) NS_running (statuses st) \<and> ps_plan_id st' = ps_plan_id st"
  using assms
  by (auto simp: mark_node_running_def ebind_inr store_plan_state_inr statuses_def set_status_def)

text \<open>What a successful turn leaves.\<close>

definition turn_result ::
    "runner_options \<Rightarrow> plan_node \<Rightarrow> plan_state \<Rightarrow> world \<Rightarrow> plan_state \<Rightarrow> world \<Rightarrow> node_outcome \<Rightarrow> bool" where
  "turn_result o1 n st w st' w' s \<longleftrightarrow>
     statuses st' = set_status (n_id n) (outcome_status s) (statuses st) \<and>
     ps_status st' = outcome_plan_status s (statuses st') \<and> ps_plan_id st' = ps_plan_id st \<and>
     (emitting o1 \<longrightarrow> finished_status (outcome_status s) \<longrightarrow>
       (\<exists>es. w_events w' = w_events w @ es \<and> n_id n \<in> completed_ids es))"

lemma turn_result_prefix:
  assumes "turn_result o1 n st w1 st' w' s" and "\<exists>es. w_events w1 = w_events w @ es"
  shows "turn_result o1 n st w st' w' s"
  using assms unfolding turn_result_def by (metis Un_iff append.assoc ids_simps(6))

lemma turn_result_running:
  assumes "turn_result o1 n st1 w st' w' s"
    and "statuses st1 = set_status (n_id n) x (statuses st) \<and> ps_plan_id st1 = ps_plan_id st"
  shows "turn_result o1 n st w st' w' s"
  using assms unfolding turn_result_def by simp

lemma mark_node_turn: "mark_node H o1 p st n s arts errs w = (Inr st', w') \<Longrightarrow> turn_result o1 n st w st' w' s"
  unfolding turn_result_def using mark_node_inr by blast

lemma after_start_inr:
  assumes "after_start H o1 p st outputs n w = (Inr (st', outputs'), w')"
  shows "\<exists>s. turn_result o1 n st w st' w' s"
proof -
  obtain w1 w2 st1 where phase: "emit_phase_started H o1 p n w = (Inr (), w1)"
    and running: "mark_node_running H o1 st n w1 = (Inr st1, w2)"
    and rest: "(if can_complete_structural_node n
       then ebind (mark_node H o1 p st1 n NO_completed [] []) (\<lambda>st'. ereturn (st', outputs))
       else if can_run_capability_step n
       then
         ebind (run_capability_node H o1 p st1 n outputs) (\<lambda>r.
           let outputs' = (case sr_output r of None \<Rightarrow> outputs
                           | Some v \<Rightarrow> if v = JUndef then outputs else AList.update (n_id n) v outputs) in
           ebind (emap (sr_output_artifact_refs r) (\<lambda>a.
                    ebind (runner_now H o1) (\<lambda>t. ereturn (step_artifact_ref a t)))) (\<lambda>artifacts.
           ebind (mark_node H o1 p st1 n (plan_status_from_step (sr_status r)) artifacts
                    (map se_message (sr_structured_errors r)))
             (\<lambda>st'. ereturn (st', outputs'))))
       else
         (case ro_handlers o1 (n_kind n) of
            None \<Rightarrow> ebind (mark_node H o1 p st1 n NO_yielded [] [no_handler_message n])
                      (\<lambda>st'. ereturn (st', outputs))
          | Some h \<Rightarrow>
              ebind (work_order_for H o1 p n) (\<lambda>wo.
              ebind (call_handler h wo p n st1) (\<lambda>r.
              ebind (mark_node H o1 p st1 n (hr_status r) (nullish (hr_artifacts r) [])
                       (nullish (hr_errors r) []))
                (\<lambda>st'. ereturn (st', outputs)))))) w2 = (Inr (st', outputs'), w')"
    using assms unfolding after_start_def ethen_inr ebind_inr by blast
  have start: "\<exists>es. w_events w2 = w_events w @ es"
    using emitsD [OF emits_phases(1) phase] emitsD [OF emits_mark_node_running running, of "\<lambda>_. True"]
    by (metis append.assoc)
  have "\<exists>s arts errs w3. (\<exists>es. w_events w3 = w_events w2 @ es) \<and>
      mark_node H o1 p st1 n s arts errs w3 = (Inr st', w')"
  proof (cases "can_complete_structural_node n")
    case True
    then have "mark_node H o1 p st1 n NO_completed [] [] w2 = (Inr st', w')"
      using rest by (auto simp: ebind_inr)
    then show ?thesis by (metis append_Nil2)
  next
    case not_frame: False
    show ?thesis
    proof (cases "can_run_capability_step n")
      case True
      obtain r w3 arts w4 where "run_capability_node H o1 p st1 n outputs w2 = (Inr r, w3)"
        and "emap (sr_output_artifact_refs r) (\<lambda>a.
               ebind (runner_now H o1) (\<lambda>t. ereturn (step_artifact_ref a t))) w3 = (Inr arts, w4)"
        and "mark_node H o1 p st1 n (plan_status_from_step (sr_status r)) arts
               (map se_message (sr_structured_errors r)) w4 = (Inr st', w')"
        using rest not_frame True unfolding Let_def by (auto simp: ebind_inr)
      moreover have "emits no_start (emap (sr_output_artifact_refs r) (\<lambda>a.
               ebind (runner_now H o1) (\<lambda>t. ereturn (step_artifact_ref a t))))"
        by (intro emits_intros)
      ultimately show ?thesis
        using emitsD [OF emits_run_capability_node, of H o1 p st1 n outputs w2 "Inr r" w3]
        by (metis append.assoc emitsD)
    next
      case False
      show ?thesis
      proof (cases "ro_handlers o1 (n_kind n)")
        case None
        then have "mark_node H o1 p st1 n NO_yielded [] [no_handler_message n] w2 = (Inr st', w')"
          using rest not_frame False by (auto simp: ebind_inr)
        then show ?thesis by (metis append_Nil2)
      next
        case (Some h)
        obtain wo w3 r w4 where "work_order_for H o1 p n w2 = (Inr wo, w3)"
          and "call_handler h wo p n st1 w3 = (Inr r, w4)"
          and "mark_node H o1 p st1 n (hr_status r) (nullish (hr_artifacts r) []) (nullish (hr_errors r) []) w4 =
            (Inr st', w')"
          using rest not_frame False Some by (auto simp: ebind_inr)
        moreover have "w_events w4 = w_events w3" using calculation(2) by (auto simp: call_handler_def)
        ultimately show ?thesis
          using emitsD [OF emits_work_order_for, of H o1 p n w2 "Inr wo" w3 "\<lambda>_. True"] by metis
      qed
    qed
  qed
  then show ?thesis
    using start mark_node_turn turn_result_prefix turn_result_running mark_node_running_inr [OF running]
    by (metis append.assoc)
qed


section \<open>The loop keeps the log in order\<close>

definition log_inv :: "plan_node list \<Rightarrow> string set \<Rightarrow> plan_state \<Rightarrow> run_event list \<Rightarrow> bool" where
  "log_inv nodes F st es \<longleftrightarrow>
     in_order nodes F {} es \<and>
     (\<forall>(i, t) \<in> set (statuses st).
        (finished_status t \<longrightarrow> i \<in> F \<union> completed_ids es) \<and> (i \<in> started_ids es \<longrightarrow> \<not> waiting_status t))"

lemma ready_nodes_iff:
  "n \<in> set (ready_nodes p st) \<longleftrightarrow>
     n \<in> set (pf_nodes p) \<and> (\<exists>t. (n_id n, t) \<in> set (statuses st) \<and> waiting_status t) \<and>
     (\<forall>d \<in> set (n_depends_on n). \<exists>t. (d, t) \<in> set (statuses st) \<and> finished_status t)"
proof -
  have "(\<exists>t. (i, t) \<in> set (statuses st) \<and> P t) \<longleftrightarrow>
      i \<in> set (map ns_node_id (filter (\<lambda>s. P (ns_status s)) (ps_node_states st)))" for i P
    by (auto simp: statuses_def)
  then show ?thesis by (auto simp: ready_nodes_def list_all_iff)
qed

lemma outcome_not_waiting [simp]: "\<not> waiting_status (outcome_status s)"
  by (cases s) (simp_all add: waiting_status_def)

lemma set_status_member:
  "(i, t) \<in> set (set_status j s m) \<longleftrightarrow>
     (if i = j then t = s \<and> (\<exists>u. (j, u) \<in> set m) else (i, t) \<in> set m)"
  by (force simp: set_status_def)

lemma turn_keeps_log:
  assumes inv: "log_inv (pf_nodes p) F st es" and log: "w_events w = base @ es"
    and n: "n \<in> set (ready_nodes p st)" and on: "emitting o1"
    and run: "run_node H o1 p st outputs n w = (r, w')"
  shows "\<exists>es'. w_events w' = base @ es' \<and> in_order (pf_nodes p) F {} es' \<and>
    (\<forall>st' outputs'. r = Inr (st', outputs') \<longrightarrow> log_inv (pf_nodes p) F st' es')"
proof -
  obtain r1 w1 where first: "runner_emit H o1 p (Some (Node_started (run_node_base p n))) w = (r1, w1)"
    by (cases "runner_emit H o1 p (Some (Node_started (run_node_base p n))) w")
  show ?thesis
  proof (cases r1)
    case (Inl err)
    then have "r = Inl err" "w_events w' = w_events w"
      using run first runner_emit_event [OF on first] by (auto simp: run_node_after_start ethen_run)
    then show ?thesis using inv log by (auto simp: log_inv_def)
  next
    case (Inr u)
    then have rest: "after_start H o1 p st outputs n w1 = (r, w')"
      using run first by (auto simp: run_node_after_start ethen_run)
    obtain e where e: "w_events w1 = w_events w @ [e]" "re_body e = Node_started (run_node_base p n)"
      using runner_emit_event [OF on first] Inr by auto
    obtain fs where fs: "w_events w' = w_events w1 @ fs" "\<forall>e \<in> set fs. no_start (re_body e)"
      using emitsD [OF emits_after_start rest] by blast
    have eb: "start_of (re_body e) = Some (n_id n)" "completion_of (re_body e) = None"
      by (simp_all add: e(2) start_of_def completion_of_def run_node_base_def)
    have ready: "n \<in> set (pf_nodes p)" "\<exists>t. (n_id n, t) \<in> set (statuses st) \<and> waiting_status t"
      "\<forall>d \<in> set (n_depends_on n). \<exists>t. (d, t) \<in> set (statuses st) \<and> finished_status t"
      using n unfolding ready_nodes_iff by blast+
    have fresh: "n_id n \<notin> started_ids es" and deps: "set (n_depends_on n) \<subseteq> F \<union> completed_ids es"
      using inv ready(2,3) unfolding log_inv_def by (blast, blast)
    let ?es = "es @ e # fs"
    have order: "in_order (pf_nodes p) F {} ?es"
      using inv fresh deps ready(1) in_order_no_start [OF fs(2)] eb
      by (auto simp: log_inv_def in_order_append list_ex_iff list_all_iff)
    have no_more: "started_ids fs = {}" using in_order_no_start [OF fs(2), of "[]"] by blast
    have "log_inv (pf_nodes p) F st' ?es" if ok: "r = Inr (st', outputs')" for st' outputs'
    proof -
      obtain s where "turn_result o1 n st w1 st' w' s"
        using after_start_inr rest ok by blast
      then have states: "statuses st' = set_status (n_id n) (outcome_status s) (statuses st)"
        and completed: "finished_status (outcome_status s) \<Longrightarrow> n_id n \<in> completed_ids fs"
        using on fs(1) by (auto simp: turn_result_def)
      show ?thesis
        using order inv completed no_more eb unfolding log_inv_def states
        by (auto simp: set_status_member split: if_splits)
    qed
    then show ?thesis using order e(1) fs(1) log by (intro exI [of _ ?es]) auto
  qed
qed

lemma run_loop_keeps_log:
  assumes "log_inv (pf_nodes p) F st es" and "w_events w = base @ es" and "emitting o1"
    and "run_loop H o1 p k st outputs w = (r, w')"
  shows "\<exists>es'. w_events w' = base @ es' \<and> in_order (pf_nodes p) F {} es'"
  using assms
proof (induction k arbitrary: st outputs w es)
  case 0
  then show ?case by (auto simp: log_inv_def)
next
  case (Suc k)
  show ?case
  proof (cases "ready_nodes p st")
    case Nil
    with Suc.prems show ?thesis by (auto simp: log_inv_def)
  next
    case (Cons n ns)
    obtain r1 w1 where turn: "run_node H o1 p st outputs n w = (r1, w1)"
      by (cases "run_node H o1 p st outputs n w")
    have "n \<in> set (ready_nodes p st)" using Cons by simp
    from turn_keeps_log [OF Suc.prems(1,2) this Suc.prems(3) turn]
    obtain es' where es': "w_events w1 = base @ es'" "in_order (pf_nodes p) F {} es'"
      and inv: "\<And>st' outputs'. r1 = Inr (st', outputs') \<Longrightarrow> log_inv (pf_nodes p) F st' es'"
      by blast
    show ?thesis
    proof (cases r1)
      case (Inl err)
      with Suc.prems(4) Cons turn es' show ?thesis by (auto simp: ebind_run)
    next
      case (Inr x)
      obtain st' outputs' where x: "x = (st', outputs')" by (cases x)
      show ?thesis
      proof (cases "run_ended st'")
        case True
        with Suc.prems(4) Cons turn es' Inr x show ?thesis by (auto simp: ebind_run)
      next
        case False
        with Suc.prems(4) Cons turn Inr x have "run_loop H o1 p k st' outputs' w1 = (r, w')"
          by (simp add: ebind_run)
        with Suc.IH [OF inv es'(1) Suc.prems(3)] Inr x show ?thesis by blast
      qed
    qed
  qed
qed


section \<open>The whole run\<close>

lemma emits_run_node_off: "\<not> emitting o1 \<Longrightarrow> emits no_start (run_node H o1 p st outputs n)"
proof -
  assume off: "\<not> emitting o1"
  have "runner_emit H o1 p b = ereturn ()" for b
    using off unfolding runner_emit_def emitting_def by (simp only: ewhen_simps)
  then show ?thesis
    unfolding run_node_after_start by (simp add: emits_ethen emits_ereturn emits_after_start)
qed

lemma emits_run_loop_off: "\<not> emitting o1 \<Longrightarrow> emits no_start (run_loop H o1 p k st outputs)"
proof (induction k arbitrary: st outputs)
  case 0
  show ?case unfolding run_loop.simps by (rule emits_ereturn)
next
  case (Suc k)
  show ?case
    unfolding run_loop.simps
    by (cases "ready_nodes p st")
       (simp_all only: list.case, (intro emits_intros emits_run_node_off Suc Suc.prems)+)
qed

lemma checked_plan_run:
  "checked_plan H o1 pf w = (r, w') \<Longrightarrow> w' = w \<and>
     (\<forall>p. r = Inr p \<longrightarrow> pf_nodes p = pf_nodes pf \<and> pf_plan_id p = pf_plan_id pf \<and>
        pf_mode p = pf_mode pf \<and>
        vl_ok (validate_planfile (h_env H) (Some (ro_snapshot o1)) p))"
  by (auto simp: checked_plan_def ebind_run of_option_def planfile_parse_def
      with_canonical_plan_digest_def Let_def split: option.splits if_splits)

lemma emits_checked_plan [emits_intros]: "emits P (checked_plan H o1 pf)"
  unfolding emits_def using checked_plan_run by (metis append_Nil2 empty_iff list.set(1) prod.collapse)

lemma emits_load_plan [emits_intros]: "(P Run_created) \<Longrightarrow> emits P (load_plan H o1 pf)"
  unfolding load_plan_def by (intro emits_intros) auto

lemma emits_current_state [emits_intros]: "P Run_created \<Longrightarrow> emits P (current_state H o1 p)"
  unfolding current_state_def by (intro emits_intros)

lemma emits_run_end [emits_intros]: "emits no_start (emit_run_end H o1 p st)"
  unfolding emit_run_end_def Let_def by (intro emits_intros) (auto simp: start_of_def)

definition finished_before :: "plan_state_db \<Rightarrow> string \<Rightarrow> string set" where
  "finished_before db plan_id =
     (case get_plan_state db plan_id of
        None \<Rightarrow> {}
      | Some st \<Rightarrow> set (map ns_node_id (filter (\<lambda>s. finished_status (ns_status s)) (ps_node_states st))))"

lemma load_plan_inr:
  assumes "load_plan H o1 pf w = (Inr st, w')"
  shows "statuses st = map (\<lambda>n. (n_id n, if n_depends_on n = [] then NS_ready else NS_pending)) (pf_nodes pf) \<and>
    ps_status st = PS_pending"
proof -
  obtain p now w1 where "checked_plan H o1 pf w = (Inr p, w1)"
    and "create_initial_plan_state (h_env H) (pf_plan_id p) PS_pending (nullish (pf_canonical_plan_digest p) [])
      (map (\<lambda>n. (n_id n, if n_depends_on n = [] then NS_ready else NS_pending)) (pf_nodes p)) (pf_artifact_refs p)
      (Some (render_planfile_markdown (h_yaml H) (p\<lparr>pf_status := PS_pending\<rparr>) no_markdown_options)) now = Some st"
    using assms unfolding load_plan_def ebind_inr ethen_inr
    by (auto simp: of_option_def store_plan_state_inr split: option.splits)
  with checked_plan_run [of H o1 pf w "Inr p" w1] show ?thesis
    by (auto simp: create_initial_plan_state_def Let_def statuses_def split: if_splits)
qed

lemma current_state_inr:
  assumes "current_state H o1 p w = (Inr st, w')"
  shows "\<forall>(i, t) \<in> set (statuses st). finished_status t \<longrightarrow> i \<in> finished_before (w_plan_states w) (pf_plan_id p)"
proof (cases "get_plan_state (w_plan_states w) (pf_plan_id p)")
  case None
  then have "load_plan H o1 p w = (Inr st, w')"
    using assms by (simp add: current_state_def ebind_run load_plan_state_def)
  then show ?thesis
    using load_plan_inr [of H o1 p w st w'] by (auto simp: finished_status_def split: if_splits)
next
  case (Some s)
  then have "st = s" using assms by (simp add: current_state_def ebind_run load_plan_state_def)
  with Some show ?thesis by (auto simp: finished_before_def statuses_def)
qed


text \<open>A run, cut at its loop.\<close>

lemma run_to_completion_cut:
  obtains (early) "emits no_start (run_to_completion H o1 pf)"
  | (failed) es where "w_events (snd (run_to_completion H o1 pf w)) = w_events w @ es"
      "\<forall>e \<in> set es. no_start (re_body e)"
  | (loop) p st w1 es r w2 fs where "emitting o1" "pf_nodes p = pf_nodes pf"
      "vl_ok (validate_planfile (h_env H) (Some (ro_snapshot o1)) p)"
      "checked_plan H o1 pf w = (Inr p, w)"
      "\<exists>w0. current_state H o1 p w = (Inr st, w0)"
      "w_events w1 = w_events w @ es" "\<forall>e \<in> set es. no_start (re_body e)"
      "run_loop H o1 p (length (pf_nodes p) + 2) st [] w1 = (r, w2)"
      "w_events (snd (run_to_completion H o1 pf w)) = w_events w2 @ fs"
      "\<forall>e \<in> set fs. no_start (re_body e)"
      "pf_plan_id p = pf_plan_id pf"
proof (cases "emitting o1")
  case False
  have "emits no_start (run_to_completion H o1 pf)"
    unfolding run_to_completion_def
    by (intro emits_intros emits_run_loop_off [OF False]) (auto simp: start_of_def)
  then show ?thesis by (rule early)
next
  case on: True
  obtain r0 where checked: "checked_plan H o1 pf w = (r0, w)"
    using checked_plan_run [of H o1 pf w] by (metis prod.collapse)
  show ?thesis
  proof (cases r0)
    case (Inl e)
    then have "w_events (snd (run_to_completion H o1 pf w)) = w_events w @ []"
      using checked by (simp add: run_to_completion_def ebind_run)
    then show ?thesis by (rule failed) simp
  next
    case (Inr p)
    have p: "pf_nodes p = pf_nodes pf" "pf_plan_id p = pf_plan_id pf"
      "vl_ok (validate_planfile (h_env H) (Some (ro_snapshot o1)) p)"
      using checked_plan_run [OF checked] Inr by auto
    obtain r1 w0 where state: "current_state H o1 p w = (r1, w0)" by (cases "current_state H o1 p w")
    obtain es0 where es0: "w_events w0 = w_events w @ es0" "\<forall>e \<in> set es0. no_start (re_body e)"
      using emitsD [OF emits_current_state state, of no_start] by (auto simp: start_of_def)
    show ?thesis
    proof (cases r1)
      case (Inl e)
      then have "snd (run_to_completion H o1 pf w) = w0"
        using checked state \<open>r0 = Inr p\<close> by (simp add: run_to_completion_def ebind_run)
      with es0 show ?thesis by (intro failed) auto
    next
      case (Inr st)
      obtain r2 w1 where began: "runner_emit H o1 p (Some Run_started) w0 = (r2, w1)"
        by (cases "runner_emit H o1 p (Some Run_started) w0")
      have "emits no_start (runner_emit H o1 p (Some Run_started))"
        by (intro emits_intros) (auto simp: start_of_def)
      from emitsD [OF this began] obtain es1
        where "w_events w1 = w_events w0 @ es1" "\<forall>e \<in> set es1. no_start (re_body e)" by blast
      with es0 have "w_events w1 = w_events w @ (es0 @ es1)" "\<forall>e \<in> set (es0 @ es1). no_start (re_body e)"
        by auto
      then obtain es where es: "w_events w1 = w_events w @ es" "\<forall>e \<in> set es. no_start (re_body e)"
        by blast
      show ?thesis
      proof (cases r2)
        case (Inl e)
        then have "snd (run_to_completion H o1 pf w) = w1"
          using checked state began \<open>r0 = Inr p\<close> \<open>r1 = Inr st\<close>
          by (simp add: run_to_completion_def ebind_run ethen_run)
        with es show ?thesis by (intro failed) auto
      next
        case (Inr u)
        obtain r3 w2 where loop_run: "run_loop H o1 p (length (pf_nodes p) + 2) st [] w1 = (r3, w2)"
          by (cases "run_loop H o1 p (length (pf_nodes p) + 2) st [] w1")
        define tail where "tail = (\<lambda>(st', outputs :: (string \<times> json) list).
          ethen (emit_run_end H o1 p st') (ereturn (st', outputs)))"
        have "emits no_start (tail x)" for x
          unfolding tail_def by (intro emits_intros)
        moreover have "snd (run_to_completion H o1 pf w) =
            (case r3 of Inl e \<Rightarrow> w2 | Inr x \<Rightarrow> snd (tail x w2))"
          using checked state began loop_run \<open>r0 = Inr p\<close> \<open>r1 = Inr st\<close> Inr
          by (simp add: run_to_completion_def ebind_run ethen_run tail_def split: sum.split)
        ultimately obtain fs where fs: "w_events (snd (run_to_completion H o1 pf w)) = w_events w2 @ fs"
          "\<forall>e \<in> set fs. no_start (re_body e)"
          unfolding emits_def by (cases r3) (auto, blast)
        have "checked_plan H o1 pf w = (Inr p, w)" "\<exists>w0. current_state H o1 p w = (Inr st, w0)"
          using checked \<open>r0 = Inr p\<close> state \<open>r1 = Inr st\<close> by auto
        from loop [OF on p(1,3) this es loop_run fs p(2)] show ?thesis .
      qed
    qed
  qed
qed

section \<open>A run from scratch comes to an end\<close>

text \<open>The states a run from scratch goes through before it ends: one entry per node, none failed or
  left running.\<close>

definition underway :: "planfile \<Rightarrow> plan_state \<Rightarrow> bool" where
  "underway p st \<longleftrightarrow>
     map fst (statuses st) = map n_id (pf_nodes p) \<and>
     (\<forall>(i, t) \<in> set (statuses st). waiting_status t \<or> finished_status t)"

definition waiting_count :: "plan_state \<Rightarrow> nat" where
  "waiting_count st = length (filter (\<lambda>(i, t). waiting_status t) (statuses st))"

text \<open>In a well-formed plan some waiting node is ready: one without waiting dependencies.\<close>

lemma some_node_ready:
  assumes plan: "well_formed_plan snapshot p" and st: "underway p st" and "0 < waiting_count st"
  shows "ready_nodes p st \<noteq> []"
proof -
  let ?W = "{i. \<exists>t. (i, t) \<in> set (statuses st) \<and> waiting_status t}"
  have dist: "distinct (map n_id (pf_nodes p))" and deps: "\<forall>n \<in> set (pf_nodes p). set (n_depends_on n) \<subseteq> n_id ` set (pf_nodes p)"
    using plan by (simp_all add: well_formed_plan_def Let_def)
  obtain i0 where "i0 \<in> ?W"
    using \<open>0 < waiting_count st\<close> by (auto simp: waiting_count_def filter_empty_conv)
  moreover have wf: "wf ((depends_rel (pf_nodes p))\<inverse>)" using well_formed_plan_wf [OF plan] by simp
  ultimately obtain i where i: "i \<in> ?W" and "\<And>d. (d, i) \<in> (depends_rel (pf_nodes p))\<inverse> \<Longrightarrow> d \<notin> ?W"
    using wfE_min [OF wf, of i0 ?W] by blast
  then have min: "\<And>d. (i, d) \<in> depends_rel (pf_nodes p) \<Longrightarrow> d \<notin> ?W" by blast
  have ids: "fst ` set (statuses st) = n_id ` set (pf_nodes p)"
    using st unfolding underway_def by (metis list.set_map)
  obtain ti where "(i, ti) \<in> set (statuses st)" using i by blast
  then have "i \<in> n_id ` set (pf_nodes p)" using ids by (metis fst_conv image_eqI)
  then obtain n where n: "n \<in> set (pf_nodes p)" "n_id n = i" by blast
  have "\<exists>t. (d, t) \<in> set (statuses st) \<and> finished_status t" if "d \<in> set (n_depends_on n)" for d
  proof -
    have "(i, d) \<in> depends_rel (pf_nodes p)"
      using that n dist by (auto simp: depends_rel_def node_of_distinct)
    then have "d \<notin> ?W" by (rule min)
    moreover have "d \<in> fst ` set (statuses st)" using deps n(1) that unfolding ids by blast
    then obtain t where "(d, t) \<in> set (statuses st)" by force
    ultimately show ?thesis using st unfolding underway_def by blast
  qed
  then have "n \<in> set (ready_nodes p st)" using n i by (auto simp: ready_nodes_iff)
  then show ?thesis by auto
qed

lemma waiting_count_turn:
  assumes "underway p st" and "distinct (map n_id (pf_nodes p))"
    and "(i, t) \<in> set (statuses st)" "waiting_status t"
    and "statuses st' = set_status i (outcome_status s) (statuses st)"
  shows "waiting_count st = Suc (waiting_count st')"
proof -
  have "distinct (map fst (statuses st))" using assms(1,2) by (simp add: underway_def)
  moreover have "length (filter (\<lambda>(i, t). waiting_status t) m) =
      Suc (length (filter (\<lambda>(i, t). waiting_status t) (set_status i (outcome_status s) m)))"
    if "distinct (map fst m)" "(i, t) \<in> set m" for m
    using that
  proof (induction m)
    case (Cons x m)
    obtain j u where x: "x = (j, u)" by (cases x)
    show ?case
    proof (cases "j = i")
      case True
      then have rest: "i \<notin> fst ` set m" and u: "u = t" using Cons.prems x by force+
      have "set_status i (outcome_status s) m = m"
        unfolding set_status_def using rest by (intro map_idI) force
      then show ?thesis using x True u assms(4) by (simp add: set_status_def)
    next
      case False
      then show ?thesis using Cons x by (auto simp: set_status_def)
    qed
  qed simp
  ultimately show ?thesis unfolding waiting_count_def assms(5) using assms(3) by blast
qed

text \<open>A final state: it ended, its status says how.\<close>

definition run_settled :: "planfile \<Rightarrow> plan_state \<Rightarrow> bool" where
  "run_settled p st \<longleftrightarrow>
     map fst (statuses st) = map n_id (pf_nodes p) \<and> run_ended st \<and>
     (ps_status st = PS_completed \<longleftrightarrow> (\<forall>(i, t) \<in> set (statuses st). finished_status t)) \<and>
     (ps_status st = PS_failed \<longleftrightarrow> (\<exists>i. (i, NS_failed) \<in> set (statuses st))) \<and>
     (ps_status st = PS_yielded \<longleftrightarrow> (\<exists>i. (i, NS_yielded) \<in> set (statuses st)))"

lemma turn_underway_or_settled:
  assumes st: "underway p st" and n: "n \<in> set (ready_nodes p st)"
    and states: "statuses st' = set_status (n_id n) (outcome_status s) (statuses st)"
    and status: "ps_status st' = outcome_plan_status s (statuses st')"
  shows "if run_ended st' then run_settled p st' else underway p st' \<and> 0 < waiting_count st'"
proof -
  have fst: "map fst (statuses st') = map n_id (pf_nodes p)"
    using st unfolding states underway_def set_status_def by (simp add: case_prod_unfold comp_def)
  obtain u where entry: "(n_id n, u) \<in> set (statuses st)" using n by (auto simp: ready_nodes_iff)
  have mem: "(i, t) \<in> set (statuses st') \<longleftrightarrow>
      (if i = n_id n then t = outcome_status s else (i, t) \<in> set (statuses st))" for i t
    unfolding states set_status_member using entry by auto
  have clean: "waiting_status t \<or> finished_status t" if "(i, t) \<in> set (statuses st)" for i t
    using st that unfolding underway_def by blast
  have no: "\<not> waiting_status NS_failed" "\<not> finished_status NS_failed" "\<not> waiting_status NS_yielded"
    "\<not> finished_status NS_yielded" "finished_status NS_completed" "finished_status NS_skipped"
    by (simp_all add: waiting_status_def finished_status_def)
  have own: "(n_id n, outcome_status s) \<in> set (statuses st')" by (simp add: mem)
  have failed: "(\<exists>i. (i, NS_failed) \<in> set (statuses st')) \<longleftrightarrow> s = NO_failed"
    using own clean no unfolding mem by (cases s) auto
  have yielded: "(\<exists>i. (i, NS_yielded) \<in> set (statuses st')) \<longleftrightarrow> s = NO_yielded"
    using own clean no unfolding mem by (cases s) auto
  have bad: "\<not> (\<forall>(i, t) \<in> set (statuses st'). finished_status t)" if "s = NO_failed \<or> s = NO_yielded"
    using that own no by auto
  have now: "ps_status st' =
     (if s = NO_failed then PS_failed else if s = NO_yielded then PS_yielded
      else if \<forall>(i, t) \<in> set (statuses st'). finished_status t then PS_completed else PS_running)"
    by (simp add: status outcome_plan_status_def list_all_iff)
  show ?thesis
  proof (cases "run_ended st'")
    case True
    then have "run_settled p st'"
      unfolding run_settled_def failed yielded using fst bad now
      by (auto simp: run_ended_def split: if_splits)
    with True show ?thesis by simp
  next
    case False
    then have good: "s \<noteq> NO_failed" "s \<noteq> NO_yielded" and some: "\<not> (\<forall>(i, t) \<in> set (statuses st'). finished_status t)"
      using now by (auto simp: run_ended_def split: if_splits)
    then have "finished_status (outcome_status s)" using no by (cases s) simp_all
    then have "waiting_status t \<or> finished_status t" if "(i, t) \<in> set (statuses st')" for i t
      using clean that [unfolded mem] by (auto split: if_splits)
    then have "underway p st'" using fst unfolding underway_def by blast
    moreover from this some have "0 < waiting_count st'"
      unfolding underway_def waiting_count_def by (fastforce simp: filter_empty_conv)
    ultimately show ?thesis using False by simp
  qed
qed

lemma run_node_turn:
  assumes "run_node H o1 p st outputs n w = (Inr (st', outputs'), w')"
  shows "\<exists>s. statuses st' = set_status (n_id n) (outcome_status s) (statuses st) \<and>
    ps_status st' = outcome_plan_status s (statuses st')"
  using assms after_start_inr unfolding run_node_after_start ethen_inr turn_result_def by blast

lemma run_loop_settles:
  assumes plan: "well_formed_plan snapshot p"
    and "underway p st" and "0 < waiting_count st" and "waiting_count st < k"
    and "run_loop H o1 p k st outputs w = (Inr (st', outputs'), w')"
  shows "run_settled p st'"
  using assms(2-)
proof (induction k arbitrary: st outputs w)
  case (Suc k)
  obtain n ns where ready: "ready_nodes p st = n # ns"
    using some_node_ready [OF plan Suc.prems(1,2)] by (cases "ready_nodes p st") auto
  then have n: "n \<in> set (ready_nodes p st)" by simp
  obtain st1 outs1 w1 where turn: "run_node H o1 p st outputs n w = (Inr (st1, outs1), w1)"
    and rest: "(if run_ended st1 then ereturn (st1, outs1) else run_loop H o1 p k st1 outs1) w1 =
      (Inr (st', outputs'), w')"
    using Suc.prems(4) ready by (auto simp: ebind_inr)
  obtain s where states: "statuses st1 = set_status (n_id n) (outcome_status s) (statuses st)"
    and status: "ps_status st1 = outcome_plan_status s (statuses st1)"
    using run_node_turn [OF turn] by blast
  note step = turn_underway_or_settled [OF Suc.prems(1) n states status]
  show ?case
  proof (cases "run_ended st1")
    case True
    with step rest show ?thesis by simp
  next
    case False
    have "distinct (map n_id (pf_nodes p))" using plan by (simp add: well_formed_plan_def Let_def)
    moreover obtain t where "(n_id n, t) \<in> set (statuses st)" "waiting_status t"
      using n unfolding ready_nodes_iff by blast
    ultimately have "waiting_count st = Suc (waiting_count st1)"
      using waiting_count_turn [OF Suc.prems(1) _ _ _ states] by blast
    with False step rest Suc.prems(3) show ?thesis
      by (intro Suc.IH [of st1 outs1 w1]) auto
  qed
qed simp

lemma fresh_run:
  assumes run: "run_to_completion H o1 pf w = (Inr (st, outputs), w')"
    and fresh: "get_plan_state (w_plan_states w) (pf_plan_id pf) = None"
  shows "if pf_nodes pf = [] then statuses st = [] \<and> ps_status st = PS_pending else run_settled pf st"
proof -
  obtain p st0 w0 w1 w2 where checked: "checked_plan H o1 pf w = (Inr p, w)"
    and state: "current_state H o1 p w = (Inr st0, w0)"
    and loop: "run_loop H o1 p (length (pf_nodes p) + 2) st0 [] w1 = (Inr (st, outputs), w2)"
  proof -
    obtain p w'' where "checked_plan H o1 pf w = (Inr p, w'')"
      using run unfolding run_to_completion_def ebind_inr by blast
    moreover from this have "w'' = w" using checked_plan_run by blast
    ultimately show ?thesis
      using run that unfolding run_to_completion_def ebind_inr ethen_inr
      by (auto simp: case_prod_unfold ethen_inr)
  qed
  have p: "pf_nodes p = pf_nodes pf" "pf_plan_id p = pf_plan_id pf"
    and ok: "vl_ok (validate_planfile (h_env H) (Some (ro_snapshot o1)) p)"
    using checked_plan_run [OF checked] by auto
  have plan: "well_formed_plan (Some (ro_snapshot o1)) p" using ok by (auto simp: validate_ok_iff)
  have "load_plan H o1 p w = (Inr st0, w0)"
    using state fresh p by (simp add: current_state_def ebind_run load_plan_state_def)
  then have states: "statuses st0 =
      map (\<lambda>n. (n_id n, if n_depends_on n = [] then NS_ready else NS_pending)) (pf_nodes p)"
    and pending: "ps_status st0 = PS_pending"
    using load_plan_inr by blast+
  have empty: "statuses st = [] \<and> ps_status st = PS_pending" if "pf_nodes p = []"
  proof -
    have "ready_nodes p st0 = []" using that by (simp add: ready_nodes_def)
    then have "st = st0" using loop that by (simp add: numeral_2_eq_2)
    with states pending that show ?thesis by simp
  qed
  have waiting: "waiting_status (if b then NS_ready else NS_pending)" for b
    by (simp add: waiting_status_def)
  have "underway p st0" by (auto simp: underway_def states comp_def waiting)
  moreover have "filter (\<lambda>(i, t). waiting_status t) (statuses st0) = statuses st0"
    unfolding states by (intro filter_True) (auto simp: waiting)
  then have "waiting_count st0 = length (pf_nodes p)" by (simp add: waiting_count_def states)
  ultimately have "run_settled p st" if "pf_nodes p \<noteq> []"
    using run_loop_settles [OF plan _ _ _ loop] that by simp
  with p empty show ?thesis by (auto simp: run_settled_def)
qed

section \<open>Dry runs\<close>

lemma keeps_calls_runner [keeps_intros]:
  "keeps w_calls (runner_emit H o1 p b)" "keeps w_calls (call_handler h wo p n st)"
  "keeps w_calls (work_order_for H o1 p n)"
proof -
  show "keeps w_calls (runner_emit H o1 p b)" unfolding runner_emit_def by (intro keeps_intros)
  show "keeps w_calls (call_handler h wo p n st)" by (simp add: keeps_def call_handler_def)
  show "keeps w_calls (work_order_for H o1 p n)"
    by (auto simp: work_order_for_def intro: keeps_intros split: sum.split compile_error.split)
qed

lemma keeps_calls_mark [keeps_intros]:
  "keeps w_calls (emit_phase_started H o1 p n)" "keeps w_calls (emit_phase_completed H o1 p n s)"
  "keeps w_calls (mark_node_running H o1 st n)"
  unfolding emit_phase_started_def emit_phase_completed_def mark_node_running_def
  by (intro keeps_intros)+

lemma keeps_calls_mark_node [keeps_intros]: "keeps w_calls (mark_node H o1 p st n s arts errs)"
  unfolding mark_node_def Let_def by (intro keeps_intros)

lemma dry_step_calls_nothing:
  assumes "should_dry_run_node p n"
  shows "keeps w_calls (run_capability_step H opts (capability_step_input p st n outputs d dc))"
proof -
  let ?i = "capability_step_input p st n outputs d dc"
  have "step_mode ?i = Mode_dry_run"
    using assms by (simp add: step_mode_def execution_mode_from_dry_run_def capability_step_input_def)
  then have "\<not> step_permitted H opts ?i t" for t by (simp add: step_permitted_def)
  then show ?thesis
    unfolding keeps_def using step_calls_permitted [of H opts ?i] by (metis prod.collapse)
qed

lemma dry_node_calls_nothing:
  assumes "should_dry_run_node p n"
  shows "keeps w_calls (run_node H o1 p st outputs n)"
proof -
  have "keeps w_calls (run_capability_node H o1 p st' n outputs)" for st'
    unfolding run_capability_node_def by (intro keeps_intros dry_step_calls_nothing assms)
  then show ?thesis
    unfolding run_node_after_start after_start_def Let_def by (intro keeps_intros)
qed

lemma dry_loop_calls_nothing:
  assumes "\<forall>n \<in> set (pf_nodes p). should_dry_run_node p n"
  shows "keeps w_calls (run_loop H o1 p k st outputs)"
proof (induction k arbitrary: st outputs)
  case 0
  show ?case unfolding run_loop.simps by (rule keeps_ereturn)
next
  case (Suc k)
  show ?case
  proof (cases "ready_nodes p st")
    case Nil
    then show ?thesis unfolding run_loop.simps by (simp only: list.case keeps_ereturn)
  next
    case (Cons n ns)
    then have "n \<in> set (pf_nodes p)" using ready_nodes_iff [of n p st] by simp
    with assms Cons show ?thesis
      unfolding run_loop.simps
      by (simp only: list.case) (intro keeps_intros dry_node_calls_nothing Suc; blast)
  qed
qed

lemma keeps_calls_ends [keeps_intros]:
  "keeps w_calls (checked_plan H o1 pf)" "keeps w_calls (load_plan H o1 pf)"
  "keeps w_calls (current_state H o1 pf)" "keeps w_calls (emit_run_end H o1 p st)"
proof -
  show c: "keeps w_calls (checked_plan H o1 pf)" for pf
    unfolding checked_plan_def Let_def by (intro keeps_intros)
  show l: "keeps w_calls (load_plan H o1 pf)" for pf
    unfolding load_plan_def by (intro keeps_intros c)
  show "keeps w_calls (current_state H o1 pf)"
    unfolding current_state_def by (intro keeps_intros l)
  show "keeps w_calls (emit_run_end H o1 p st)"
    unfolding emit_run_end_def Let_def by (intro keeps_intros)
qed

lemma dry_run_calls:
  assumes "\<forall>n \<in> set (pf_nodes pf). should_dry_run_node pf n"
  shows "keeps w_calls (run_to_completion H o1 pf)"
  unfolding keeps_def
proof
  fix w
  define k where "k = (\<lambda>p. ebind (current_state H o1 p) (\<lambda>st.
     ethen (runner_emit H o1 p (Some Run_started))
    (ebind (run_loop H o1 p (length (pf_nodes p) + 2) st []) (\<lambda>(st', outputs).
     ethen (emit_run_end H o1 p st') (ereturn (st', outputs))))))"
  have run: "run_to_completion H o1 pf w = ebind (checked_plan H o1 pf) k w"
    by (simp add: run_to_completion_def k_def)
  show "w_calls (snd (run_to_completion H o1 pf w)) = w_calls w"
  proof (cases "fst (checked_plan H o1 pf w)")
    case (Inl e)
    then show ?thesis
      using keepsD [OF keeps_calls_ends(1), of H o1 pf w] unfolding run
      by (cases "checked_plan H o1 pf w") (simp add: ebind_run)
  next
    case (Inr p)
    then obtain w1 where checked: "checked_plan H o1 pf w = (Inr p, w1)"
      by (cases "checked_plan H o1 pf w") simp
    have "w1 = w" and p: "pf_nodes p = pf_nodes pf" "pf_mode p = pf_mode pf"
      using checked_plan_run [OF checked] by auto
    have "\<forall>n \<in> set (pf_nodes p). should_dry_run_node p n"
      using assms unfolding should_dry_run_node_def by (simp only: p)
    then have "keeps w_calls (k p)"
      unfolding k_def by (intro keeps_intros dry_loop_calls_nothing)
    then show ?thesis
      using checked \<open>w1 = w\<close> unfolding run by (simp add: ebind_run keeps_def)
  qed
qed

section \<open>A run that needs nothing from outside\<close>

text \<open>Without events, handlers and capabilities every turn succeeds: frame nodes complete, the others
  yield. The witnesses run such a plan.\<close>

definition quiet :: "host \<Rightarrow> runner_options \<Rightarrow> bool" where
  "quiet H o1 \<longleftrightarrow> \<not> emitting o1 \<and> ro_now o1 = None \<and> (\<forall>k. ro_handlers o1 k = None) \<and>
     (\<forall>t. datetime_ok (h_env H) (h_iso H t))"

lemma quiet_emit [simp]: "quiet H o1 \<Longrightarrow> runner_emit H o1 p b = ereturn ()"
  by (simp only: quiet_def runner_emit_def emitting_def ewhen_simps)

lemma noop: "ewhen b (ereturn ()) = ereturn ()" "ethen (ereturn ()) k = k"
  by (cases b) (auto simp: ethen_run)

lemma quiet_mark_node:
  assumes q: "quiet H o1" and ok: "plan_state_ok (h_env H) st"
  obtains st' w' where "mark_node H o1 p st n s [] errs w = (Inr st', w')" "plan_state_ok (h_env H) st'"
proof -
  let ?t = "h_iso H (h_ms H (w_clock w))" and ?w = "w\<lparr>w_clock := Suc (w_clock w)\<rparr>"
  have now: "runner_now H o1 w = (Inr ?t, ?w)"
    using q by (simp add: quiet_def runner_now_def now_iso_run)
  define st' where "st' =
     st\<lparr>ps_status := next_plan_status s (marked_states st (n_id n) s [] errs ?t),
        ps_node_states := marked_states st (n_id n) s [] errs ?t,
        ps_artifact_refs := ps_artifact_refs st @ [],
        ps_markdown_projection := Some (render_planfile_markdown (h_yaml H)
          (projected_plan p (marked_states st (n_id n) s [] errs ?t)
            (next_plan_status s (marked_states st (n_id n) s [] errs ?t)) [] ?t) no_markdown_options),
        ps_updated_at := ?t\<rparr>"
  have ok': "plan_state_ok (h_env H) st'"
    using ok q by (auto simp: st'_def plan_state_ok_def node_state_ok_def marked_states_def list_all_iff quiet_def)
  then have stored: "store_plan_state (h_env H) st' ?w =
      (Inr st', ?w\<lparr>w_plan_states := AList.update (ps_plan_id st') st' (w_plan_states ?w)\<rparr>)"
    by (simp only: store_plan_state_inr simp_thms)
  have phase: "emit_phase_completed H o1 p n s = ereturn ()"
    using q by (simp add: emit_phase_completed_def noop)
  show ?thesis
    by (rule that [OF _ ok'])
       (use q now stored phase in \<open>simp add: mark_node_def Let_def ebind_run ethen_run st'_def\<close>)
qed

lemma quiet_run_node:
  assumes q: "quiet H o1" and ok: "plan_state_ok (h_env H) st" and n: "n_allowed_capability_refs n = []"
  obtains st' w' where "run_node H o1 p st outputs n w = (Inr (st', outputs), w')"
    "plan_state_ok (h_env H) st'"
proof -
  let ?t = "h_iso H (h_ms H (w_clock w))" and ?w = "w\<lparr>w_clock := Suc (w_clock w)\<rparr>"
  define st1 where "st1 =
     st\<lparr>ps_status := PS_running,
        ps_node_states := map (\<lambda>s. if ns_node_id s = n_id n
          then s\<lparr>ns_status := NS_running, ns_started_at := Some (nullish (ns_started_at s) ?t)\<rparr>
          else s) (ps_node_states st),
        ps_updated_at := ?t\<rparr>"
  have stamp: "datetime_ok (h_env H) ?t" using q by (simp add: quiet_def)
  then have "node_state_ok (h_env H) (s\<lparr>ns_status := NS_running, ns_started_at := Some (nullish (ns_started_at s) ?t)\<rparr>)"
    if "node_state_ok (h_env H) s" for s
    using that by (cases "ns_started_at s") (simp_all add: node_state_ok_def opt_ok_def nullish_def)
  then have ok1: "plan_state_ok (h_env H) st1"
    using ok stamp by (auto simp: st1_def plan_state_ok_def list_all_iff)
  then have "store_plan_state (h_env H) st1 ?w =
      (Inr st1, ?w\<lparr>w_plan_states := AList.update (ps_plan_id st1) st1 (w_plan_states ?w)\<rparr>)"
    (is "_ = (_, ?w1)")
    by (simp only: store_plan_state_inr simp_thms)
  then have running: "mark_node_running H o1 st n w = (Inr st1, ?w1)"
    using q by (simp add: mark_node_running_def ebind_run quiet_def runner_now_def now_iso_run st1_def)
  define s where "s = (if can_complete_structural_node n then NO_completed else NO_yielded)"
  define errs where "errs = (if can_complete_structural_node n then [] else [no_handler_message n])"
  obtain st' w' where mark: "mark_node H o1 p st1 n s [] errs ?w1 = (Inr st', w')" "plan_state_ok (h_env H) st'"
    by (rule quiet_mark_node [OF q ok1])
  have "\<not> can_run_capability_step n" using n by (simp add: can_run_capability_step_def)
  then have "run_node H o1 p st outputs n w = (Inr (st', outputs), w')"
    using q running mark(1)
    by (cases "can_complete_structural_node n")
       (simp_all add: run_node_def emit_node_started_def emit_phase_started_def noop ebind_run quiet_def s_def errs_def)
  with mark(2) that show ?thesis by blast
qed

lemma quiet_run_loop:
  assumes q: "quiet H o1" and n: "\<forall>n \<in> set (pf_nodes p). n_allowed_capability_refs n = []"
    and ok: "plan_state_ok (h_env H) st"
  shows "\<exists>st' w'. run_loop H o1 p k st outputs w = (Inr (st', outputs), w')"
  using ok
proof (induction k arbitrary: st w)
  case (Suc k)
  show ?case
  proof (cases "ready_nodes p st")
    case (Cons m ms)
    then have "m \<in> set (pf_nodes p)" using ready_nodes_iff [of m p st] by simp
    with n have m: "n_allowed_capability_refs m = []" by blast
    obtain st1 w1 where turn: "run_node H o1 p st outputs m w = (Inr (st1, outputs), w1)"
      and ok1: "plan_state_ok (h_env H) st1"
      by (rule quiet_run_node [OF q Suc.prems m])
    from Suc.IH [OF ok1] turn Cons show ?thesis by (auto simp: ebind_run)
  qed simp
qed simp

section \<open>Properties\<close>

text \<open>C1: In every run, failing ones included, the event log only grows, and the events added start a
  node at most once and only when each of its dependencies is finished: in the plan state found
  at the start, or by a completion event earlier in the log.\<close>
theorem run_in_dependency_order:
  "let log = w_events (snd (run_to_completion H o1 pf w)); old = length (w_events w)
   in take old log = w_events w \<and>
     in_order (pf_nodes pf) (finished_before (w_plan_states w) (pf_plan_id pf)) {} (drop old log)"
proof (cases rule: run_to_completion_cut [where H = H and ?o1.0 = o1 and pf = pf and w = w])
  case early
  then obtain es where "w_events (snd (run_to_completion H o1 pf w)) = w_events w @ es"
    "\<forall>e \<in> set es. no_start (re_body e)"
    unfolding emits_def by blast
  then show ?thesis by (simp add: Let_def in_order_no_start)
next
  case (failed es)
  then show ?thesis by (simp add: Let_def in_order_no_start)
next
  case (loop p st w1 es r w2 fs)
  let ?F = "finished_before (w_plan_states w) (pf_plan_id pf)"
  have "\<forall>(i, t) \<in> set (statuses st). finished_status t \<longrightarrow> i \<in> ?F"
    using current_state_inr loop(5,11) by metis
  then have "log_inv (pf_nodes p) ?F st es"
    using in_order_no_start [OF loop(7)] by (auto simp: log_inv_def)
  from run_loop_keeps_log [OF this loop(6,1,8)]
  obtain es' where "w_events w2 = w_events w @ es'" "in_order (pf_nodes p) ?F {} es'" by blast
  then show ?thesis
    using loop(2,9) in_order_no_start [OF loop(10)] by (simp add: Let_def in_order_append)
qed


text \<open>C3: A plan whose nodes all run dry (a dry-run plan, or nodes marked so) never reaches the code of
  any capability, whatever the registry, the delegation and the stored state are, and also when
  the run fails.\<close>
theorem dry_run_calls_no_capability:
  assumes "\<forall>n \<in> set (pf_nodes pf). should_dry_run_node pf n"
  shows "w_calls (snd (run_to_completion H o1 pf w)) = w_calls w"
  using dry_run_calls [OF assms] by (simp add: keeps_def)

lemma emap_total:
  "(\<And>x w. \<exists>y w'. f x w = (Inr y, w')) \<Longrightarrow> \<exists>ys w'. emap xs f w = (Inr ys, w')"
proof (induction xs arbitrary: w)
  case (Cons x xs)
  obtain y w1 where "f x w = (Inr y, w1)" using Cons.prems by blast
  moreover obtain ys w2 where "emap xs f w1 = (Inr ys, w2)" using Cons by blast
  ultimately show ?case by (simp add: ebind_run)
qed simp

lemma quiet_run_end:
  assumes "quiet H o1"
  shows "\<exists>w'. emit_run_end H o1 p st w = (Inr (), w')"
proof -
  let ?f = "\<lambda>(m, i). ebind (runner_now H o1) (\<lambda>t.
      ereturn (mk_structured_error MCP_EXECUTION_FAILED m t (Some i) None None))"
  have f: "\<exists>y w'. ?f x w = (Inr y, w')" for x w
    by (cases x; cases "ro_now o1") (simp_all add: ebind_run runner_now_def now_iso_run)
  obtain ys w1 where "emap (concat (map (\<lambda>n. map (\<lambda>m. (m, ns_node_id n)) (ns_errors n)) (ps_node_states st))) ?f w =
      (Inr ys, w1)"
    using emap_total [of ?f, OF f] by blast
  then show ?thesis using assms by (auto simp: emit_run_end_def Let_def ebind_run)
qed

definition sample_host :: host where
  "sample_host =
     \<lparr>h_env = sample_env, h_ms = int, h_iso = (\<lambda>_. sample_stamp), h_is_test = False, h_yaml = (\<lambda>_. []),
      h_sink = (\<lambda>_. None)\<rparr>"

definition sample_runner :: runner_options where
  "sample_runner =
     \<lparr>ro_snapshot = \<lparr>cs_snapshot_id = ''s'', cs_created_at = sample_stamp, cs_capabilities_hash = ''h'',
        cs_capabilities = []\<rparr>,
      ro_handlers = (\<lambda>_. None), ro_registry = create_pack_registry, ro_delegation = None,
      ro_runtime_config = None, ro_records_artifacts = False, ro_run_id = None, ro_emits = False,
      ro_now = None\<rparr>"

theorem dry_run_calls_no_capability_witness:
  "w_calls (snd (run_to_completion sample_host sample_runner (sample_plan\<lparr>pf_mode := Plan_dry_run\<rparr>)
     empty_world)) = []"
proof -
  have "\<forall>n \<in> set (pf_nodes (sample_plan\<lparr>pf_mode := Plan_dry_run\<rparr>)).
      should_dry_run_node (sample_plan\<lparr>pf_mode := Plan_dry_run\<rparr>) n"
    by (simp add: sample_plan_def sample_nodes_def sample_node_def should_dry_run_node_def)
  from dry_run_calls_no_capability [OF this] show ?thesis by (simp add: empty_world_def)
qed

text \<open>C2: A run of a plan with nodes and without a stored state that returns has come to an end: every node
  of the plan has a state, the plan is completed exactly when every node is completed or skipped, failed exactly
  when a node failed and yielded exactly when a node yielded; it is never left running, so the bound on the
  number of turns is never what stops it. A plan without nodes, which the validator accepts, stays pending.\<close>
theorem fresh_run_settles:
  assumes "run_to_completion H o1 pf w = (Inr (st, outputs), w')"
    and "get_plan_state (w_plan_states w) (pf_plan_id pf) = None"
  shows "if pf_nodes pf = [] then statuses st = [] \<and> ps_status st = PS_pending else run_settled pf st"
  using fresh_run [OF assms] .

lemma well_formed_plan_digest:
  "well_formed_plan s (p\<lparr>pf_canonical_plan_digest := d\<rparr>) = well_formed_plan s p"
proof -
  have "node_policy_ok (p\<lparr>pf_canonical_plan_digest := d\<rparr>) n = node_policy_ok p n" for n
    by (simp add: node_policy_ok_def allow_fixtures_def allow_mock_def context_value_def)
  then show ?thesis by (simp add: well_formed_plan_def)
qed

lemma sample_run_returns:
  "\<exists>st w'. run_to_completion sample_host sample_runner sample_plan empty_world = (Inr (st, []), w')"
proof -
  have env: "h_env sample_host = sample_env" by (simp add: sample_host_def)
  have q: "quiet sample_host sample_runner"
    by (simp add: quiet_def sample_host_def sample_runner_def emitting_def sample_env_def sample_stamp_def)
  obtain p where p: "with_canonical_plan_digest sample_env sample_plan = Some p"
    and pp: "p = sample_plan\<lparr>pf_canonical_plan_digest := Some (stable_hash sample_env (canonical_form sample_plan))\<rparr>"
    using with_digest_total [OF sample_plan_ok sample_sha_hex] by simp
  have ok: "planfile_ok sample_env p" using with_digest_SomeD [OF p] by blast
  have digest: "is_hex64 (stable_hash sample_env (canonical_form sample_plan))"
    using sample_sha_hex by (simp add: sha_is_hex_def stable_hash_def)
  have "vl_ok (validate_planfile sample_env (Some (ro_snapshot sample_runner)) sample_plan)" by (rule sample_valid)
  then have "well_formed_plan (Some (ro_snapshot sample_runner)) p"
    by (auto simp: validate_ok_iff planfile_parse_def pp well_formed_plan_digest split: if_splits)
  then have valid: "vl_ok (validate_planfile sample_env (Some (ro_snapshot sample_runner)) q)" if "q = p" for q
    using ok that by (auto simp: validate_ok_iff planfile_parse_def)
  have checked: "checked_plan sample_host sample_runner sample_plan w = (Inr p, w)"
    and checked2: "checked_plan sample_host sample_runner p w = (Inr p, w)" for w
    using sample_plan_ok ok p with_digest_idem [OF p] valid
    by (simp_all add: checked_plan_def env planfile_parse_def ebind_run Let_def)
  define md where "md = render_planfile_markdown (h_yaml sample_host) (p\<lparr>pf_status := PS_pending\<rparr>) no_markdown_options"
  have "\<exists>st0. create_initial_plan_state sample_env (pf_plan_id p) PS_pending (nullish (pf_canonical_plan_digest p) [])
      (map (\<lambda>n. (n_id n, if n_depends_on n = [] then NS_ready else NS_pending)) (pf_nodes p))
      (pf_artifact_refs p) (Some md) sample_stamp = Some st0 \<and> plan_state_ok sample_env st0"
    using digest planfile_ok_node_ids [OF sample_plan_ok]
    by (auto simp: create_initial_plan_state_def Let_def plan_state_ok_def node_state_ok_def list_all_iff pp
        nullish_def sample_plan_def) (auto simp: sample_env_def sample_stamp_def)
  then obtain st0 where st0: "create_initial_plan_state sample_env (pf_plan_id p) PS_pending
      (nullish (pf_canonical_plan_digest p) [])
      (map (\<lambda>n. (n_id n, if n_depends_on n = [] then NS_ready else NS_pending)) (pf_nodes p))
      (pf_artifact_refs p) (Some md) sample_stamp = Some st0" and ok0: "plan_state_ok sample_env st0" by blast
  have now: "runner_now sample_host sample_runner w = (Inr sample_stamp, w\<lparr>w_clock := Suc (w_clock w)\<rparr>)" for w
    by (simp add: runner_now_def sample_runner_def now_iso_run sample_host_def)
  obtain w0 where loaded: "load_plan sample_host sample_runner p empty_world = (Inr st0, w0)"
    using st0 ok0 q
    by (simp add: load_plan_def checked2 ebind_run now env md_def [symmetric] ethen_run of_option_def
        store_plan_state_def record_plan_state_def map_put_def)
  have "current_state sample_host sample_runner p empty_world = (Inr st0, w0)"
    using loaded by (simp add: current_state_def ebind_run load_plan_state_def get_plan_state_def empty_world_def)
  moreover have "\<forall>n \<in> set (pf_nodes p). n_allowed_capability_refs n = []"
    by (simp add: pp sample_plan_def sample_nodes_def sample_node_def)
  moreover obtain st w' where "run_loop sample_host sample_runner p (length (pf_nodes p) + 2) st0 [] w0 = (Inr (st, []), w')"
    using quiet_run_loop [OF q calculation(2)] ok0 env by metis
  moreover have "\<exists>w''. emit_run_end sample_host sample_runner p st w' = (Inr (), w'')"
    by (rule quiet_run_end [OF q])
  ultimately show ?thesis
    using q by (auto simp: run_to_completion_def checked ebind_run ethen_run simp del: run_loop.simps)
qed

theorem fresh_run_settles_witness:
  "\<exists>st w'. run_to_completion sample_host sample_runner sample_plan empty_world = (Inr (st, []), w') \<and>
     run_settled sample_plan st"
proof -
  obtain st w' where run: "run_to_completion sample_host sample_runner sample_plan empty_world = (Inr (st, []), w')"
    using sample_run_returns by blast
  have "get_plan_state (w_plan_states empty_world) (pf_plan_id sample_plan) = None"
    by (simp add: empty_world_def get_plan_state_def)
  moreover have "pf_nodes sample_plan \<noteq> []" by (simp add: sample_plan_def sample_nodes_def)
  ultimately show ?thesis using fresh_run_settles [OF run] run by auto
qed

end
