(* ===== verification/Artifact_Model.thy ===== *)
theory Artifact_Model
  imports Schemas
begin

text \<open>
  \<open>artifacts/artifact-model.ts\<close>: the entries of the artifact index and the summaries of runs.
\<close>

text \<open>The enumeration of artifact kinds is kept as the list of its strings: the program tests
  strings it read elsewhere against it (\<open>ArtifactKind.safeParse\<close>).\<close>

definition artifact_kinds :: "string list" where
  "artifact_kinds =
     [''planfile'', ''skill_frame'', ''workflow_skill'', ''pack_build_plan'', ''generated_pack'',
      ''pack_manifest'', ''pack_validation_report'', ''pack_test_report'',
      ''pack_install_report'', ''pack_smoke_report'', ''policy_decision_report'',
      ''evidence_bundle'', ''patch_plan_context'', ''patch_plan'', ''patch_validation_report'',
      ''patch_artifact'', ''final_patch_artifact'', ''scope_expansion_request'',
      ''repair_patch_plan'', ''repair_decision'', ''verification_report'', ''review_report'',
      ''source_search_results'', ''source_snapshot'', ''source_text'', ''source_set'',
      ''research_brief'', ''citation_index'', ''markdown_export'', ''capability_step_result'',
      ''approval_request'', ''execution_timeline'', ''worktree_session'', ''model_call'',
      ''raw_log'', ''edited_planfile_snapshot'', ''planfile_update_report'', ''planfile_diff'',
      ''regenerated_planfile'', ''validation_report'', ''simulation_report'',
      ''plan_check_report'', ''plan_library_manifest'', ''plan_template'', ''saved_planfile'',
      ''artifact_selection'', ''run_digest'', ''run_packet'', ''artifact_manifest'',
      ''html_export'', ''pdf_export'', ''artifact_bundle'', ''zip_export'']"

definition artifact_kind_ok :: "string \<Rightarrow> bool" where
  "artifact_kind_ok k = (k \<in> set artifact_kinds)"

datatype artifact_role =
    AR_primary_output | AR_supporting_evidence | AR_debug_log | AR_intermediate | AR_superseded

datatype redaction_status = Red_redacted | Red_not_redacted | Red_unknown

record artifact_summary =
  as_artifact_id :: string
  as_kind :: string
  as_artifact_role :: "artifact_role option"
  as_title :: string
  as_summary :: string
  as_path_or_uri :: string
  as_created_at :: string
  as_updated_at :: "string option"
  as_related_run_id :: "string option"
  as_related_demo_id :: "string option"
  as_related_plan_id :: "string option"
  as_related_skill_id :: "string option"
  as_related_task_id :: "string option"
  as_related_pack_id :: "string option"
  as_produced_by_pack_id :: "string option"
  as_produced_by_capability_id :: "string option"
  as_produced_by_plan_id :: "string option"
  as_produced_by_node_id :: "string option"
  as_input_artifact_refs :: "string list option"
  as_output_artifact_refs :: "string list option"
  as_source_mode :: "execution_mode option"
  as_execution_mode :: execution_mode
  as_fixture_id :: "string option"
  as_fixture_set :: "string option"
  as_live :: "bool option"
  as_mode_warning :: "string option"
  as_validation_status :: "string option"
  as_redaction_status :: "redaction_status option"
  as_redacted :: bool
  as_restricted :: "bool option"
  as_exportable :: bool
  as_output_format :: "string option"
  as_checksum_sha256 :: "string option"
  as_content_type :: "string option"
  as_size_bytes :: "nat option"

definition artifact_summary_ok :: "env \<Rightarrow> artifact_summary \<Rightarrow> bool" where
  "artifact_summary_ok E a =
     (nonempty (as_artifact_id a) \<and> artifact_kind_ok (as_kind a) \<and> nonempty (as_title a) \<and>
      nonempty (as_path_or_uri a) \<and> datetime_ok E (as_created_at a) \<and>
      opt_ok (datetime_ok E) (as_updated_at a) \<and>
      list_all (opt_ok nonempty)
        [as_related_run_id a, as_related_demo_id a, as_related_plan_id a, as_related_skill_id a,
         as_related_task_id a, as_related_pack_id a, as_produced_by_pack_id a,
         as_produced_by_capability_id a, as_produced_by_plan_id a, as_produced_by_node_id a,
         as_fixture_id a, as_fixture_set a, as_mode_warning a, as_validation_status a,
         as_output_format a, as_content_type a] \<and>
      opt_ok (list_all nonempty) (as_input_artifact_refs a) \<and>
      opt_ok (list_all nonempty) (as_output_artifact_refs a) \<and>
      opt_ok is_hex64 (as_checksum_sha256 a))"

record artifact_index =
  xi_artifacts :: "artifact_summary list"
  xi_updated_at :: string

definition artifact_index_ok :: "env \<Rightarrow> artifact_index \<Rightarrow> bool" where
  "artifact_index_ok E i = (list_all (artifact_summary_ok E) (xi_artifacts i) \<and> datetime_ok E (xi_updated_at i))"

datatype index_run_status = IR_running | IR_completed | IR_failed | IR_yielded
datatype workflow_kind = WK_demo | WK_repository | WK_skill | WK_pack | WK_plan | WK_manual

record run_summary =
  rs_run_id :: string
  rs_workflow_kind :: workflow_kind
  rs_title :: string
  rs_summary :: string
  rs_status :: index_run_status
  rs_started_at :: string
  rs_completed_at :: "string option"
  rs_output_dir :: "string option"
  rs_related_demo_id :: "string option"
  rs_related_plan_id :: "string option"
  rs_related_skill_id :: "string option"
  rs_related_pack_id :: "string option"
  rs_primary_artifact_refs :: "string list"
  rs_supporting_artifact_refs :: "string list"
  rs_debug_artifact_refs :: "string list"
  rs_pinned :: bool
  rs_updated_at :: "string option"

definition run_summary_ok :: "env \<Rightarrow> run_summary \<Rightarrow> bool" where
  "run_summary_ok E r =
     (nonempty (rs_run_id r) \<and> nonempty (rs_title r) \<and> datetime_ok E (rs_started_at r) \<and>
      opt_ok (datetime_ok E) (rs_completed_at r) \<and>
      list_all (opt_ok nonempty)
        [rs_output_dir r, rs_related_demo_id r, rs_related_plan_id r, rs_related_skill_id r,
         rs_related_pack_id r] \<and>
      list_all nonempty (rs_primary_artifact_refs r) \<and>
      list_all nonempty (rs_supporting_artifact_refs r) \<and>
      list_all nonempty (rs_debug_artifact_refs r) \<and> opt_ok (datetime_ok E) (rs_updated_at r))"

record run_index =
  ri_runs :: "run_summary list"
  ri_latest_run_id :: "string option"
  ri_updated_at :: string

definition run_index_ok :: "env \<Rightarrow> run_index \<Rightarrow> bool" where
  "run_index_ok E i =
     (list_all (run_summary_ok E) (ri_runs i) \<and> opt_ok nonempty (ri_latest_run_id i) \<and>
      datetime_ok E (ri_updated_at i))"

end
