(* ===== verification/Run_Snapshot.thy ===== *)
theory Run_Snapshot
  imports Plan_State Run_Control Artifact_Model Effects
begin

text \<open>
  \<open>runs/run-snapshot.ts\<close> and \<open>runs/run-snapshot-builder.ts\<close>: the snapshot of a run that the user
  interfaces show, how it is assembled from the event log, the plan state, the attempts and the
  artifact index, and how a client adds a later event to it.
\<close>

section \<open>The snapshot\<close>

datatype run_node_status =
    RN_pending | RN_ready | RN_running | RN_requires_approval | RN_yielded | RN_failed
  | RN_completed | RN_skipped

record node_attempt_summary =
  nas_attempt_id :: string
  nas_attempt_number :: nat
  nas_replay_mode :: replay_mode
  nas_status :: attempt_status
  nas_started_at :: string
  nas_completed_at :: "string option"
  nas_output_artifact_refs :: "string list"

record run_node_snapshot =
  rn_node_id :: string
  rn_title :: "string option"
  rn_kind :: "string option"
  rn_status :: run_node_status
  rn_current_attempt_id :: "string option"
  rn_attempts :: "node_attempt_summary list"
  rn_started_at :: "string option"
  rn_completed_at :: "string option"
  rn_capability_refs :: "string list"
  rn_artifact_refs :: "string list"
  rn_error_refs :: "string list"
  rn_approval_refs :: "string list"

record run_artifact_summary =
  ra_artifact_id :: string
  ra_kind :: string
  ra_title :: string
  ra_summary :: string
  ra_path_or_uri :: string
  ra_created_at :: string
  ra_node_id :: "string option"
  ra_exportable :: bool

record approval_request_summary =
  aq_approval_id :: string
  aq_status :: string
  aq_title :: string
  aq_summary :: string
  aq_node_id :: "string option"
  aq_requested_at :: "string option"
  aq_resolved_at :: "string option"

record model_call_summary =
  mc_artifact_id :: string
  mc_title :: string
  mc_summary :: string
  mc_role :: string
  mc_model :: string
  mc_created_at :: "string option"
  mc_node_id :: "string option"

record run_snapshot =
  sn_run_id :: string
  sn_plan_id :: string
  sn_plan_title :: "string option"
  sn_status :: run_status
  sn_runtime :: run_runtime
  sn_active_node_id :: "string option"
  sn_nodes :: "run_node_snapshot list"
  sn_timeline :: "run_event list"
  sn_artifacts :: "run_artifact_summary list"
  sn_approvals :: "approval_request_summary list"
  sn_model_calls :: "model_call_summary list"
  sn_policy_reports :: "policy_report list"
  sn_errors :: "structured_error list"
  sn_next_actions :: "next_action list"
  sn_started_at :: "string option"
  sn_completed_at :: "string option"
  sn_builder_session_id :: "string option"
  sn_plan_markdown :: "string option"

definition node_attempt_summary_ok :: "env \<Rightarrow> node_attempt_summary \<Rightarrow> bool" where
  "node_attempt_summary_ok E a =
     (nonempty (nas_attempt_id a) \<and> 1 \<le> nas_attempt_number a \<and> datetime_ok E (nas_started_at a) \<and>
      opt_ok (datetime_ok E) (nas_completed_at a) \<and> list_all nonempty (nas_output_artifact_refs a))"

definition run_node_snapshot_ok :: "env \<Rightarrow> run_node_snapshot \<Rightarrow> bool" where
  "run_node_snapshot_ok E n =
     (nonempty (rn_node_id n) \<and> opt_ok nonempty (rn_title n) \<and> opt_ok nonempty (rn_kind n) \<and>
      opt_ok nonempty (rn_current_attempt_id n) \<and>
      list_all (node_attempt_summary_ok E) (rn_attempts n) \<and>
      opt_ok (datetime_ok E) (rn_started_at n) \<and> opt_ok (datetime_ok E) (rn_completed_at n) \<and>
      list_all nonempty (rn_capability_refs n) \<and> list_all nonempty (rn_artifact_refs n) \<and>
      list_all nonempty (rn_error_refs n) \<and> list_all nonempty (rn_approval_refs n))"

definition run_artifact_summary_ok :: "env \<Rightarrow> run_artifact_summary \<Rightarrow> bool" where
  "run_artifact_summary_ok E a =
     (nonempty (ra_artifact_id a) \<and> artifact_kind_ok (ra_kind a) \<and> nonempty (ra_title a) \<and>
      nonempty (ra_path_or_uri a) \<and> datetime_ok E (ra_created_at a) \<and> opt_ok nonempty (ra_node_id a))"

definition approval_request_summary_ok :: "env \<Rightarrow> approval_request_summary \<Rightarrow> bool" where
  "approval_request_summary_ok E a =
     (nonempty (aq_approval_id a) \<and> nonempty (aq_status a) \<and> nonempty (aq_title a) \<and>
      opt_ok nonempty (aq_node_id a) \<and> opt_ok (datetime_ok E) (aq_requested_at a) \<and>
      opt_ok (datetime_ok E) (aq_resolved_at a))"

definition model_call_summary_ok :: "env \<Rightarrow> model_call_summary \<Rightarrow> bool" where
  "model_call_summary_ok E m =
     (nonempty (mc_artifact_id m) \<and> nonempty (mc_title m) \<and> nonempty (mc_role m) \<and>
      nonempty (mc_model m) \<and> opt_ok (datetime_ok E) (mc_created_at m) \<and>
      opt_ok nonempty (mc_node_id m))"

definition run_snapshot_ok :: "env \<Rightarrow> run_snapshot \<Rightarrow> bool" where
  "run_snapshot_ok E s =
     (nonempty (sn_run_id s) \<and> nonempty (sn_plan_id s) \<and> opt_ok nonempty (sn_plan_title s) \<and>
      opt_ok nonempty (sn_active_node_id s) \<and> list_all (run_node_snapshot_ok E) (sn_nodes s) \<and>
      list_all (run_event_ok E) (sn_timeline s) \<and>
      list_all (run_artifact_summary_ok E) (sn_artifacts s) \<and>
      list_all (approval_request_summary_ok E) (sn_approvals s) \<and>
      list_all (model_call_summary_ok E) (sn_model_calls s) \<and>
      list_all (policy_report_ok E) (sn_policy_reports s) \<and>
      list_all (structured_error_ok E) (sn_errors s) \<and>
      list_all next_action_ok (sn_next_actions s) \<and>
      opt_ok (datetime_ok E) (sn_started_at s) \<and> opt_ok (datetime_ok E) (sn_completed_at s) \<and>
      opt_ok nonempty (sn_builder_session_id s))"

section \<open>Adding an event to a snapshot\<close>

text \<open>\<open>None\<close> is the error of the schema check.\<close>

definition apply_run_event_to_snapshot :: "env \<Rightarrow> run_snapshot \<Rightarrow> run_event \<Rightarrow> run_snapshot option" where
  "apply_run_event_to_snapshot E s e =
     (if list_ex (\<lambda>x. re_event_id x = re_event_id e) (sn_timeline s) then Some s
      else
        (let s' = s\<lparr>sn_timeline := sort_events (sn_timeline s @ [e])\<rparr>
         in if run_snapshot_ok E s' then Some s' else None))"

section \<open>What the events say\<close>

definition about_node :: "string \<Rightarrow> run_event \<Rightarrow> bool" where
  "about_node i e = (event_node_id (re_body e) = Some i)"

definition is_type :: "string \<Rightarrow> run_event \<Rightarrow> bool" where
  "is_type t e = (event_type (re_body e) = t)"

fun event_artifact_refs :: "event_body \<Rightarrow> string list" where
  "event_artifact_refs (Artifact_created _ a _) = [a]"
| "event_artifact_refs (Model_call_completed _ a _ _) = [a]"
| "event_artifact_refs (Run_completed refs) = refs"
| "event_artifact_refs (Node_completed _ refs) = refs"
| "event_artifact_refs (Capability_completed _ _ refs) = refs"
| "event_artifact_refs _ = []"

fun event_title :: "event_body \<Rightarrow> string option" where
  "event_title (Node_started nb) = nb_title nb"
| "event_title (Node_completed nb _) = nb_title nb"
| "event_title (Node_failed nb _) = nb_title nb"
| "event_title (Node_yielded nb _ _) = nb_title nb"
| "event_title (Capability_started nb _) = nb_title nb"
| "event_title (Capability_completed nb _ _) = nb_title nb"
| "event_title (Capability_failed nb _ _) = nb_title nb"
| "event_title (Verification_started nb _) = nb_title nb"
| "event_title (Verification_completed nb _ _ _) = nb_title nb"
| "event_title (Repair_started nb _) = nb_title nb"
| "event_title (Repair_completed nb _ _) = nb_title nb"
| "event_title _ = None"

definition first_event_title :: "run_event list \<Rightarrow> string option" where
  "first_event_title es =
     Option.bind (List.find (\<lambda>e. event_title (re_body e) \<noteq> None) es) (\<lambda>e. event_title (re_body e))"

fun created_kind :: "event_body \<Rightarrow> string option" where
  "created_kind (Artifact_created _ _ k) = Some k"
| "created_kind _ = None"

definition first_event_kind :: "run_event list \<Rightarrow> string option" where
  "first_event_kind es =
     Option.bind (List.find (is_type ''artifact.created'') es) (\<lambda>e. created_kind (re_body e))"

definition terminal_run_event :: "run_event list \<Rightarrow> run_event option" where
  "terminal_run_event es =
     find_last (\<lambda>e. event_type (re_body e) \<in>
       set [''run.completed'', ''run.failed'', ''run.yielded'', ''run.cancelled'']) es"

definition terminal_timestamp :: "run_event list \<Rightarrow> string option" where
  "terminal_timestamp es =
     map_option re_timestamp (find_last (\<lambda>e. event_type (re_body e) \<in>
       set [''node.completed'', ''node.failed'', ''node.yielded'']) es)"

definition timestamp_for :: "run_event list \<Rightarrow> string \<Rightarrow> string option" where
  "timestamp_for es t = map_option re_timestamp (List.find (is_type t) es)"

fun plan_status_as_run :: "plan_status option \<Rightarrow> run_status" where
  "plan_status_as_run (Some PS_completed) = RS_completed"
| "plan_status_as_run (Some PS_failed) = RS_failed"
| "plan_status_as_run (Some PS_yielded) = RS_yielded"
| "plan_status_as_run (Some PS_running) = RS_running"
| "plan_status_as_run _ = RS_queued"

definition snapshot_run_status :: "run_event list \<Rightarrow> plan_status option \<Rightarrow> run_status" where
  "snapshot_run_status es plan_status =
     (case map_option re_body (terminal_run_event es) of
        Some (Run_completed _) \<Rightarrow> RS_completed
      | Some (Run_failed _) \<Rightarrow> RS_failed
      | Some (Run_yielded _ _) \<Rightarrow> RS_yielded
      | Some (Run_cancelled _) \<Rightarrow> RS_cancelled
      | _ \<Rightarrow>
          if list_ex (\<lambda>e. is_type ''run.started'' e \<or> is_type ''node.started'' e) es then RS_running
          else plan_status_as_run plan_status)"

text \<open>\<open>nodeStatus\<close>: every status of a plan node is one of those the first test passes on.\<close>

fun node_status_as_run :: "plan_node_status \<Rightarrow> run_node_status" where
  "node_status_as_run NS_pending = RN_pending"
| "node_status_as_run NS_ready = RN_ready"
| "node_status_as_run NS_running = RN_running"
| "node_status_as_run NS_completed = RN_completed"
| "node_status_as_run NS_failed = RN_failed"
| "node_status_as_run NS_yielded = RN_yielded"
| "node_status_as_run NS_skipped = RN_skipped"

definition snapshot_node_status :: "plan_node_status option \<Rightarrow> run_event list \<Rightarrow> run_node_status" where
  "snapshot_node_status status es =
     (case status of
        Some s \<Rightarrow> node_status_as_run s
      | None \<Rightarrow>
          if list_ex (is_type ''node.completed'') es then RN_completed
          else if list_ex (is_type ''node.failed'') es then RN_failed
          else if list_ex (is_type ''node.yielded'') es then RN_yielded
          else if list_ex (is_type ''node.started'') es then RN_running
          else RN_pending)"

definition node_ended :: "string option \<Rightarrow> run_event list \<Rightarrow> bool" where
  "node_ended i es =
     list_ex (\<lambda>c. event_node_id (re_body c) \<noteq> None \<and> event_node_id (re_body c) = i \<and>
       (is_type ''node.completed'' c \<or> is_type ''node.failed'' c \<or> is_type ''node.yielded'' c)) es"

definition active_node :: "run_event list \<Rightarrow> run_node_snapshot list \<Rightarrow> string option" where
  "active_node es nodes =
     (case find_last (\<lambda>e. is_type ''node.started'' e \<and> \<not> node_ended (event_node_id (re_body e)) es) es of
        Some e \<Rightarrow> event_node_id (re_body e)
      | None \<Rightarrow>
          nullish_opt (map_option rn_node_id (List.find (\<lambda>n. rn_status n = RN_running) nodes))
           (nullish_opt (map_option rn_node_id
               (List.find (\<lambda>n. rn_status n = RN_yielded \<or> rn_status n = RN_requires_approval) nodes))
             (map_option rn_node_id (List.find (\<lambda>n. rn_status n = RN_failed) nodes))))"

section \<open>Approvals\<close>

definition requested_summary :: "string \<Rightarrow> string option \<Rightarrow> string \<Rightarrow> approval_request_summary" where
  "requested_summary t n a =
     \<lparr>aq_approval_id = a, aq_status = ''requested'', aq_title = ''Approval'',
      aq_summary = ''Approval requested.'', aq_node_id = keep_truthy n, aq_requested_at = Some t,
      aq_resolved_at = None\<rparr>"

definition resolved_summary ::
    "string \<Rightarrow> string option \<Rightarrow> string \<Rightarrow> approval_decision \<Rightarrow> approval_request_summary option
      \<Rightarrow> approval_request_summary" where
  "resolved_summary t n a d existing =
     (let node_id = nullish_opt n (Option.bind existing aq_node_id)
      in \<lparr>aq_approval_id = a, aq_status = approval_decision_str d,
          aq_title = (if d = Dec_approved then ''Approval granted'' else ''Approval rejected''),
          aq_summary = ''Approval '' @ approval_decision_str d @ ''.'',
          aq_node_id = keep_truthy node_id,
          aq_requested_at = keep_truthy (Option.bind existing aq_requested_at),
          aq_resolved_at = Some t\<rparr>)"

type_synonym approval_map = "(string \<times> approval_request_summary) list"

definition approval_event :: "run_event \<Rightarrow> approval_map \<Rightarrow> approval_map" where
  "approval_event e m =
     (case re_body e of
        Approval_requested n a \<Rightarrow> AList.update a (requested_summary (re_timestamp e) n a) m
      | Approval_resolved n a d \<Rightarrow>
          AList.update a (resolved_summary (re_timestamp e) n a d (map_of m a)) m
      | _ \<Rightarrow> m)"

definition build_approvals :: "run_event list \<Rightarrow> approval_request_summary list" where
  "build_approvals es = map snd (fold approval_event es [])"


section \<open>Building a snapshot\<close>

text \<open>What the builder reads: the plan states, the event log and the control records of the store,
  and the artifact index (\<open>listArtifacts\<close>).\<close>

record snapshot_sources =
  ss_plan_states :: plan_state_db
  ss_events :: event_db
  ss_control :: control_db
  ss_artifacts :: "artifact_summary list"

record node_definition =
  nd_node_id :: string
  nd_title :: string
  nd_kind :: string
  nd_capability_refs :: "string list"

definition plan_node_definition :: "plan_node \<Rightarrow> node_definition" where
  "plan_node_definition n =
     \<lparr>nd_node_id = n_id n, nd_title = n_title n, nd_kind = node_kind_str (n_kind n),
      nd_capability_refs = n_allowed_capability_refs n\<rparr>"

definition state_node_definition :: "run_event list \<Rightarrow> node_state \<Rightarrow> node_definition" where
  "state_node_definition es n =
     (let node_events = filter (about_node (ns_node_id n)) es
      in \<lparr>nd_node_id = ns_node_id n,
          nd_title = nullish (first_event_title node_events) (ns_node_id n),
          nd_kind = nullish (first_event_kind node_events) ''node'',
          nd_capability_refs = uniq (filter nonempty
            (List.map_filter (\<lambda>e. event_capability_ref (re_body e)) node_events))\<rparr>)"

definition node_definitions ::
    "planfile option \<Rightarrow> plan_state option \<Rightarrow> run_event list \<Rightarrow> node_definition list" where
  "node_definitions p s es =
     (case p of
        Some plan \<Rightarrow> map plan_node_definition (pf_nodes plan)
      | None \<Rightarrow>
          (case s of
             Some state \<Rightarrow> map (state_node_definition es) (ps_node_states state)
           | None \<Rightarrow> []))"

definition attempt_summary :: "node_attempt \<Rightarrow> node_attempt_summary" where
  "attempt_summary a =
     \<lparr>nas_attempt_id = at_attempt_id a, nas_attempt_number = at_attempt_number a,
      nas_replay_mode = at_replay_mode a, nas_status = at_status a,
      nas_started_at = at_started_at a, nas_completed_at = keep_truthy (at_completed_at a),
      nas_output_artifact_refs = at_output_artifact_refs a\<rparr>"

definition error_ref :: "string \<Rightarrow> nat \<Rightarrow> string \<Rightarrow> string" where
  "error_ref node_id i message = node_id @ '':error:'' @ nat_str i @ '':'' @ take 24 message"

definition first_truthy :: "string option \<Rightarrow> string option \<Rightarrow> string option" where
  "first_truthy a b = (if truthy a then a else keep_truthy b)"

definition snapshot_node ::
    "plan_state option \<Rightarrow> run_event list \<Rightarrow> node_attempt list \<Rightarrow> node_definition \<Rightarrow> run_node_snapshot" where
  "snapshot_node ps es attempts d =
     (let state = Option.bind ps (\<lambda>s. find_node_state s (nd_node_id d));
          node_events = filter (about_node (nd_node_id d)) es;
          node_attempts = sort_key at_attempt_number
            (filter (\<lambda>a. at_node_id a = nd_node_id d) attempts);
          errors = (case state of None \<Rightarrow> [] | Some n \<Rightarrow> ns_errors n)
      in \<lparr>rn_node_id = nd_node_id d, rn_title = Some (nd_title d), rn_kind = Some (nd_kind d),
          rn_status = snapshot_node_status (map_option ns_status state) node_events,
          rn_current_attempt_id =
            (if node_attempts = [] then None else Some (at_attempt_id (last node_attempts))),
          rn_attempts = map attempt_summary node_attempts,
          rn_started_at = first_truthy (Option.bind state ns_started_at)
            (timestamp_for node_events ''node.started''),
          rn_completed_at = first_truthy (Option.bind state ns_completed_at)
            (terminal_timestamp node_events),
          rn_capability_refs = nd_capability_refs d,
          rn_artifact_refs = uniq
            ((case state of None \<Rightarrow> [] | Some n \<Rightarrow> map ar_artifact_id (ns_artifacts n)) @
             concat (map (\<lambda>e. event_artifact_refs (re_body e)) node_events)),
          rn_error_refs = uniq
            (map (\<lambda>(i, m). error_ref (nd_node_id d) i m) (enumerate 0 errors) @
             map re_event_id (filter (\<lambda>e. is_type ''node.failed'' e \<or> is_type ''capability.failed'' e)
               node_events)),
          rn_approval_refs = filter nonempty
            (List.map_filter (\<lambda>e. event_approval_id (re_body e)) node_events)\<rparr>)"

definition index_artifact :: "artifact_summary \<Rightarrow> run_artifact_summary" where
  "index_artifact a =
     \<lparr>ra_artifact_id = as_artifact_id a, ra_kind = as_kind a, ra_title = as_title a,
      ra_summary = as_summary a, ra_path_or_uri = as_path_or_uri a, ra_created_at = as_created_at a,
      ra_node_id = keep_truthy (as_produced_by_node_id a), ra_exportable = as_exportable a\<rparr>"

definition indexed_artifacts ::
    "artifact_summary list \<Rightarrow> string list \<Rightarrow> string \<Rightarrow> string \<Rightarrow> run_artifact_summary list" where
  "indexed_artifacts index ids run_id plan_id =
     map index_artifact (filter (\<lambda>a. as_artifact_id a \<in> set ids \<or>
       as_related_run_id a = Some run_id \<or> as_related_plan_id a = Some plan_id) index)"

fun event_only_artifact :: "string list \<Rightarrow> run_event \<Rightarrow> run_artifact_summary list" where
  "event_only_artifact indexed e =
     (case re_body e of
        Artifact_created n a k \<Rightarrow>
          if a \<in> set indexed then []
          else [\<lparr>ra_artifact_id = a,
                 ra_kind = (if artifact_kind_ok k then k else ''capability_step_result''),
                 ra_title = k, ra_summary = k @ '' artifact created.'',
                 ra_path_or_uri = ''artifact://'' @ a, ra_created_at = re_timestamp e,
                 ra_node_id = keep_truthy n, ra_exportable = True\<rparr>]
      | _ \<Rightarrow> [])"

fun model_call_of :: "artifact_summary list \<Rightarrow> run_event \<Rightarrow> model_call_summary list" where
  "model_call_of index e =
     (case re_body e of
        Model_call_completed n a role model \<Rightarrow>
          let artifact = find_last (\<lambda>x. as_artifact_id x = a) index
          in [\<lparr>mc_artifact_id = a,
               mc_title = nullish (map_option as_title artifact) ''Model call'',
               mc_summary = nullish (map_option as_summary artifact)
                 (''Model call completed with '' @ model @ ''.''),
               mc_role = role, mc_model = model, mc_created_at = Some (re_timestamp e),
               mc_node_id = keep_truthy n\<rparr>]
      | _ \<Rightarrow> [])"

definition state_errors :: "plan_state \<Rightarrow> structured_error list" where
  "state_errors s = concat (map (\<lambda>n. map (\<lambda>m.
     \<lparr>se_code = MCP_EXECUTION_FAILED, se_message = m, se_intent_id = None,
      se_task_id = Some (ns_node_id n),
      se_observed_at = nullish (ns_completed_at n) (ps_updated_at s), se_details = None\<rparr>)
     (ns_errors n)) (ps_node_states s))"

fun event_errors :: "event_body \<Rightarrow> structured_error list" where
  "event_errors (Run_failed es) = es"
| "event_errors (Node_failed _ es) = es"
| "event_errors (Capability_failed _ _ es) = es"
| "event_errors _ = []"

definition snapshot_errors :: "plan_state option \<Rightarrow> run_event list \<Rightarrow> structured_error list" where
  "snapshot_errors s es =
     (case s of None \<Rightarrow> [] | Some ps \<Rightarrow> state_errors ps) @
     concat (map (\<lambda>e. event_errors (re_body e)) es)"

fun yielded_actions :: "event_body \<Rightarrow> next_action list option" where
  "yielded_actions (Run_yielded _ acts) = Some acts"
| "yielded_actions (Node_yielded _ _ acts) = Some acts"
| "yielded_actions _ = None"

fun policy_report_of :: "event_body \<Rightarrow> policy_report option" where
  "policy_report_of (Policy_evaluated _ _ _ _ r) = r"
| "policy_report_of _ = None"

definition snapshot_next_actions ::
    "string \<Rightarrow> run_status \<Rightarrow> string option \<Rightarrow> approval_request_summary list
      \<Rightarrow> run_artifact_summary list \<Rightarrow> structured_error list \<Rightarrow> run_event list \<Rightarrow> next_action list" where
  "snapshot_next_actions run_id status active approvals artifacts errors es =
     (case Option.bind (find_last (\<lambda>e. yielded_actions (re_body e) \<noteq> None) es)
             (\<lambda>e. yielded_actions (re_body e)) of
        Some (a # as) \<Rightarrow> a # as
      | _ \<Rightarrow> derive_run_next_actions run_id (run_status_str status) (keep_truthy active)
          (map (\<lambda>a. (aq_approval_id a, aq_status a)) approvals)
          (map (\<lambda>a. (ra_artifact_id a, ra_exportable a)) artifacts)
          (map se_message errors))"

text \<open>The run record of the control store, consulted only when neither events nor a plan are given,
  and the plan it holds.\<close>

definition stored_run :: "snapshot_sources \<Rightarrow> string \<Rightarrow> run_event list option \<Rightarrow> planfile option
    \<Rightarrow> run_execution option" where
  "stored_run S run_id es p =
     (if es \<noteq> None \<or> p \<noteq> None then None else get_run_execution (ss_control S) run_id)"

definition parse_stored_planfile :: "env \<Rightarrow> planfile option \<Rightarrow> planfile option" where
  "parse_stored_planfile E v =
     (case v of None \<Rightarrow> None | Some p \<Rightarrow> if planfile_ok E p then Some p else None)"

definition snapshot_events :: "snapshot_sources \<Rightarrow> string \<Rightarrow> run_event list option \<Rightarrow> run_event list" where
  "snapshot_events S run_id es =
     nullish es (map en_event (list_run_events (ss_events S) run_id None None))"

text \<open>The snapshot before the final schema check.\<close>

definition assemble_snapshot ::
    "snapshot_sources \<Rightarrow> string \<Rightarrow> string \<Rightarrow> run_event list \<Rightarrow> node_attempt list
      \<Rightarrow> run_execution option \<Rightarrow> planfile option \<Rightarrow> run_snapshot" where
  "assemble_snapshot S run_id plan_id es attempts run plan =
     (let state = get_plan_state (ss_plan_states S) plan_id;
          plan_title = nullish_opt (Option.bind run rx_plan_title)
            (map_option (\<lambda>p. gf_interpreted_goal (pf_goal_frame p)) plan);
          nodes = map (snapshot_node state es attempts) (node_definitions plan state es);
          artifact_ids = concat (map (\<lambda>e. event_artifact_refs (re_body e)) es) @
            (case state of None \<Rightarrow> [] | Some s \<Rightarrow> map ar_artifact_id (ps_artifact_refs s)) @
            (case run of None \<Rightarrow> [] | Some r \<Rightarrow> rx_artifact_refs r);
          indexed = indexed_artifacts (ss_artifacts S) artifact_ids run_id plan_id;
          artifacts = indexed @ concat (map (event_only_artifact (map ra_artifact_id indexed)) es);
          approvals = build_approvals es;
          errors = snapshot_errors state es;
          status = nullish (map_option rx_status run)
            (snapshot_run_status es (map_option ps_status state));
          active = nullish_opt (Option.bind run rx_active_node_id) (active_node es nodes);
          started = nullish_opt (Option.bind run rx_started_at)
            (nullish_opt (timestamp_for es ''run.started'') (map_option ps_created_at state));
          completed = nullish_opt (Option.bind run rx_completed_at)
            (nullish_opt (map_option re_timestamp (terminal_run_event es))
              (if status \<in> {RS_completed, RS_failed, RS_yielded, RS_cancelled}
               then map_option ps_updated_at state else None))
      in \<lparr>sn_run_id = run_id, sn_plan_id = plan_id, sn_plan_title = keep_truthy plan_title,
          sn_status = status,
          sn_runtime = nullish (map_option rx_runtime run) Runtime_local_dev,
          sn_active_node_id = keep_truthy active, sn_nodes = nodes, sn_timeline = es,
          sn_artifacts = artifacts, sn_approvals = approvals,
          sn_model_calls = concat (map (model_call_of (ss_artifacts S)) es),
          sn_policy_reports = List.map_filter (\<lambda>e. policy_report_of (re_body e)) es,
          sn_errors = errors,
          sn_next_actions = snapshot_next_actions run_id status active approvals artifacts errors es,
          sn_started_at = keep_truthy started, sn_completed_at = keep_truthy completed,
          sn_builder_session_id =
            keep_truthy (Option.bind (Option.bind plan pf_lifecycle) lc_builder_session_id),
          sn_plan_markdown = keep_truthy (Option.bind state ps_markdown_projection)\<rparr>)"

definition snapshot_plan_id ::
    "run_event list \<Rightarrow> run_execution option \<Rightarrow> planfile option \<Rightarrow> string option" where
  "snapshot_plan_id es run plan =
     nullish_opt (map_option re_plan_id (List.find (is_type ''run.created'') es))
      (nullish_opt (map_option rx_plan_id run) (map_option pf_plan_id plan))"

definition build_run_snapshot ::
    "env \<Rightarrow> snapshot_sources \<Rightarrow> string \<Rightarrow> run_event list option \<Rightarrow> planfile option
      \<Rightarrow> thrown + run_snapshot option" where
  "build_run_snapshot E S run_id given_events given_plan =
     (let es = snapshot_events S run_id given_events;
          run = stored_run S run_id given_events given_plan;
          plan = nullish_opt given_plan (parse_stored_planfile E (Option.bind run rx_planfile));
          plan_id = snapshot_plan_id es run plan;
          attempts = (if given_events \<noteq> None then []
                      else list_node_attempts (ss_control S) run_id None)
      in if \<not> truthy plan_id then Inr None
         else (let s = assemble_snapshot S run_id (the plan_id) es attempts run plan
               in if run_snapshot_ok E s then Inr (Some s) else Inl Zod_error))"


section \<open>A snapshot of well-formed sources is well formed\<close>

definition sources_ok :: "env \<Rightarrow> snapshot_sources \<Rightarrow> bool" where
  "sources_ok E S =
     (list_all (\<lambda>(_, s). plan_state_ok E s) (ss_plan_states S) \<and> event_db_ok E (ss_events S) \<and>
      list_all (\<lambda>(_, r). run_execution_ok E r) (cb_executions (ss_control S)) \<and>
      list_all (\<lambda>(_, as). list_all (node_attempt_ok E) as) (cb_attempts (ss_control S)) \<and>
      list_all (artifact_summary_ok E) (ss_artifacts S))"

named_theorems snap_ok "the parts of a snapshot pass their schemas"

lemma keep_truthy_nonempty [snap_ok]: "opt_ok nonempty (keep_truthy x)"
  by (cases x) auto

lemma keep_truthy_ok [snap_ok]: "opt_ok p x \<Longrightarrow> opt_ok p (keep_truthy x)"
  by (cases x) auto

lemma first_truthy_ok [snap_ok]: "opt_ok p x \<Longrightarrow> opt_ok p y \<Longrightarrow> opt_ok p (first_truthy x y)"
  by (auto simp: first_truthy_def keep_truthy_ok)

lemma nullish_opt_ok [snap_ok]: "opt_ok p x \<Longrightarrow> opt_ok p y \<Longrightarrow> opt_ok p (nullish_opt x y)"
  by (cases x) auto

lemma opt_ok_bind: "(\<And>y. x = Some y \<Longrightarrow> opt_ok p (f y)) \<Longrightarrow> opt_ok p (Option.bind x f)"
  by (cases x) auto

lemma opt_ok_map_option: "opt_ok p (map_option f x) = opt_ok (\<lambda>y. p (f y)) x"
  by (cases x) auto

lemma opt_ok_find: "(\<And>e. e \<in> set es \<Longrightarrow> p e) \<Longrightarrow> opt_ok p (List.find q es)"
  by (auto simp: opt_ok_def dest: find_SomeD split: option.splits)

lemma opt_ok_find_last: "(\<And>e. e \<in> set es \<Longrightarrow> p e) \<Longrightarrow> opt_ok p (find_last q es)"
  unfolding find_last_def by (rule opt_ok_find) simp

lemma list_all_map_filter:
  "(\<And>x. x \<in> set xs \<Longrightarrow> opt_ok p (f x)) \<Longrightarrow> list_all p (List.map_filter f xs)"
  by (fastforce simp: list_all_iff List.map_filter_def)

lemma list_all_concat_map:
  "(\<And>x. x \<in> set xs \<Longrightarrow> list_all p (f x)) \<Longrightarrow> list_all p (concat (map f xs))"
  by (auto simp: list_all_iff)

text \<open>What a well-formed event contributes.\<close>

lemma event_facts:
  assumes "run_event_ok E e"
  shows "nonempty (re_event_id e)" and "nonempty (re_plan_id e)" and "datetime_ok E (re_timestamp e)"
    and "event_body_ok E (re_body e)"
  using assms by (simp_all add: run_event_ok_def)

lemma event_body_okI: "run_event_ok E e \<Longrightarrow> event_body_ok E (re_body e)"
  by (rule event_facts)

lemma body_facts:
  assumes "event_body_ok E b"
  shows "list_all nonempty (event_artifact_refs b)" and "opt_ok nonempty (event_title b)"
    and "opt_ok nonempty (created_kind b)" and "opt_ok nonempty (event_node_id b)"
    and "list_all (structured_error_ok E) (event_errors b)"
    and "opt_ok (list_all next_action_ok) (yielded_actions b)"
    and "opt_ok (policy_report_ok E) (policy_report_of b)"
  using assms by (cases b; simp add: node_base_ok_def)+

text \<open>The next actions.\<close>

lemma action_ok:
  "nonempty i \<Longrightarrow> nonempty l \<Longrightarrow> nonempty c \<Longrightarrow> opt_ok nonempty t \<Longrightarrow> next_action_ok (action i l c ty q t)"
  by (simp add: next_action_ok_def action_def)

lemma derived_actions_ok:
  assumes "nonempty r" and "list_all (\<lambda>x. nonempty (fst x)) approvals"
    and "list_all (\<lambda>x. nonempty (fst x)) artifacts"
  shows "list_all next_action_ok (derive_run_next_actions r s n approvals artifacts errors)"
proof -
  have "list_all nonempty (requested_ids approvals)"
    using assms(2) by (auto simp: requested_ids_def list_all_iff)
  then have 1: "list_all next_action_ok (concat (map (approval_actions r) (requested_ids approvals)))"
    by (intro list_all_concat_map) (simp add: approval_actions_def list_all_iff action_ok)
  have 2: "list_all next_action_ok (resume_actions r s q)" for q
    using assms(1) unfolding resume_actions_def by (auto intro!: action_ok)
  have 3: "list_all next_action_ok (retry_actions r s n)"
    unfolding retry_actions_def by (cases n) (auto intro!: action_ok)
  have 4: "list_all next_action_ok (provider_actions errors)"
    unfolding provider_actions_def by (auto intro!: action_ok)
  have 5: "list_all next_action_ok (artifact_actions artifacts)"
    using assms(3) unfolding artifact_actions_def
    by (cases artifacts) (auto split: prod.splits intro!: action_ok)
  have 6: "next_action_ok (edit_action r)"
    using assms(1) unfolding edit_action_def by (auto intro!: action_ok)
  have 7: "list_all next_action_ok (cancel_actions r s)"
    using assms(1) unfolding cancel_actions_def by (auto intro!: action_ok)
  show ?thesis
    unfolding derive_run_next_actions_def list_all_append list.pred_inject
    by (intro conjI 1 2 3 4 5 6 7) simp
qed

lemma snapshot_actions_ok:
  assumes "nonempty r" and "list_all (run_event_ok E) es"
    and "list_all (approval_request_summary_ok E) approvals"
    and "list_all (run_artifact_summary_ok E) artifacts"
  shows "list_all next_action_ok (snapshot_next_actions r st a approvals artifacts errors es)"
proof -
  have "opt_ok (list_all next_action_ok)
      (Option.bind (find_last (\<lambda>e. yielded_actions (re_body e) \<noteq> None) es)
         (\<lambda>e. yielded_actions (re_body e)))"
  proof (rule opt_ok_bind)
    fix e assume "find_last (\<lambda>e. yielded_actions (re_body e) \<noteq> None) es = Some e"
    then have "e \<in> set es" unfolding find_last_def by (auto dest: find_SomeD)
    with assms(2) have "event_body_ok E (re_body e)" by (auto simp: list_all_iff dest: event_facts)
    then show "opt_ok (list_all next_action_ok) (yielded_actions (re_body e))" by (rule body_facts)
  qed
  moreover have "list_all (\<lambda>x. nonempty (fst x)) (map (\<lambda>a. (aq_approval_id a, aq_status a)) approvals)"
    using assms(3) by (auto simp: list_all_iff approval_request_summary_ok_def)
  moreover have "list_all (\<lambda>x. nonempty (fst x)) (map (\<lambda>a. (ra_artifact_id a, ra_exportable a)) artifacts)"
    using assms(4) by (auto simp: list_all_iff run_artifact_summary_ok_def)
  ultimately show ?thesis
    using derived_actions_ok [OF assms(1)] unfolding snapshot_next_actions_def
    by (auto split: option.splits list.splits)
qed

text \<open>The approvals.\<close>

lemma decision_nonempty: "nonempty (approval_decision_str d)"
  by (cases d) simp_all

lemma approval_event_ok:
  assumes "run_event_ok E e" and "\<forall>x \<in> set m. approval_request_summary_ok E (snd x)"
  shows "\<forall>x \<in> set (approval_event e m). approval_request_summary_ok E (snd x)"
proof -
  have upd: "\<forall>x \<in> set (AList.update a v m). approval_request_summary_ok E (snd x)"
    if "approval_request_summary_ok E v" for a v
    using assms(2) that by (induction m) auto
  have old: "opt_ok (datetime_ok E) (Option.bind (map_of m a) aq_requested_at)" for a
    using assms(2) by (intro opt_ok_bind) (auto simp: approval_request_summary_ok_def dest!: map_of_SomeD)
  have t: "datetime_ok E (re_timestamp e)" and b: "event_body_ok E (re_body e)"
    using event_facts [OF assms(1)] by auto
  show ?thesis
  proof (cases "re_body e")
    case (Approval_requested n a)
    with b t have "approval_request_summary_ok E (requested_summary (re_timestamp e) n a)"
      by (simp add: requested_summary_def approval_request_summary_ok_def snap_ok)
    with upd Approval_requested show ?thesis by (simp add: approval_event_def)
  next
    case (Approval_resolved n a d)
    with b t old [of a] have
      "approval_request_summary_ok E (resolved_summary (re_timestamp e) n a d (map_of m a))"
      by (simp add: resolved_summary_def approval_request_summary_ok_def Let_def snap_ok decision_nonempty)
    with upd Approval_resolved show ?thesis by (simp add: approval_event_def)
  qed (use assms(2) in \<open>simp_all add: approval_event_def\<close>)
qed

lemma build_approvals_ok:
  assumes "list_all (run_event_ok E) es"
  shows "list_all (approval_request_summary_ok E) (build_approvals es)"
proof -
  have "list_all (run_event_ok E) es \<Longrightarrow> \<forall>x \<in> set m. approval_request_summary_ok E (snd x) \<Longrightarrow>
      \<forall>x \<in> set (fold approval_event es m). approval_request_summary_ok E (snd x)" for m
    by (induction es arbitrary: m) (auto dest!: approval_event_ok)
  from this [of "[]"] assms show ?thesis by (auto simp: build_approvals_def list_all_iff)
qed


text \<open>The nodes.\<close>

lemma error_ref_nonempty: "nonempty (error_ref n i m)"
  by (simp add: error_ref_def)

lemma attempt_summary_ok: "node_attempt_ok E a \<Longrightarrow> node_attempt_summary_ok E (attempt_summary a)"
  by (simp add: node_attempt_ok_def node_attempt_summary_ok_def attempt_summary_def snap_ok)

definition node_definition_ok :: "node_definition \<Rightarrow> bool" where
  "node_definition_ok d =
     (nonempty (nd_node_id d) \<and> nonempty (nd_title d) \<and> nonempty (nd_kind d) \<and>
      list_all nonempty (nd_capability_refs d))"

lemma node_kind_nonempty: "nonempty (node_kind_str k)"
  by (cases k) simp_all

lemma nullish_nonempty: "opt_ok nonempty x \<Longrightarrow> nonempty d \<Longrightarrow> nonempty (nullish x d)"
  by (cases x) auto

lemma find_bind_ok:
  assumes "\<And>e. e \<in> set es \<Longrightarrow> opt_ok p (g e)"
  shows "opt_ok p (Option.bind (List.find q es) g)"
  using assms by (auto intro!: opt_ok_bind dest: find_SomeD)

lemma node_definitions_ok:
  assumes "opt_ok (planfile_ok E) p" and "opt_ok (plan_state_ok E) s" and "list_all (run_event_ok E) es"
  shows "list_all node_definition_ok (node_definitions p s es)"
proof (cases p)
  case (Some plan)
  with assms(1) have "list_all (plan_node_ok E) (pf_nodes plan)" by (simp add: planfile_ok_def)
  with Some show ?thesis
    by (auto simp: node_definitions_def list_all_iff plan_node_definition_def node_definition_ok_def
        plan_node_ok_def node_kind_nonempty)
next
  case None
  have "node_definition_ok (state_node_definition es n)" if "node_state_ok E n" for n
  proof -
    let ?es = "filter (about_node (ns_node_id n)) es"
    have body: "event_body_ok E (re_body e)" if "e \<in> set ?es" for e
      using assms(3) that by (auto simp: list_all_iff dest: event_facts)
    have "opt_ok nonempty (first_event_title ?es)"
      unfolding first_event_title_def by (rule find_bind_ok) (rule body_facts, rule body)
    moreover have "opt_ok nonempty (first_event_kind ?es)"
      unfolding first_event_kind_def by (rule find_bind_ok) (rule body_facts, rule body)
    ultimately have "nonempty (nullish (first_event_title ?es) (ns_node_id n))"
      "nonempty (nullish (first_event_kind ?es) ''node'')"
      using that by (simp_all add: nullish_nonempty node_state_ok_def)
    then show ?thesis
      using that by (simp add: state_node_definition_def node_definition_ok_def Let_def
          node_state_ok_def list_all_iff)
  qed
  with assms(2) None show ?thesis
    by (auto simp: node_definitions_def plan_state_ok_def list_all_iff split: option.splits)
qed

lemma timestamps_ok:
  assumes "list_all (run_event_ok E) es"
  shows "opt_ok (datetime_ok E) (timestamp_for es t)" and "opt_ok (datetime_ok E) (terminal_timestamp es)"
    and "opt_ok (datetime_ok E) (map_option re_timestamp (terminal_run_event es))"
  using assms
  by (auto simp: timestamp_for_def terminal_timestamp_def terminal_run_event_def opt_ok_map_option
      list_all_iff dest: event_facts(3) intro!: opt_ok_find opt_ok_find_last)

lemma bind_ok: "opt_ok q x \<Longrightarrow> (\<And>y. q y \<Longrightarrow> opt_ok p (f y)) \<Longrightarrow> opt_ok p (Option.bind x f)"
  by (cases x) auto

lemma snapshot_node_ok:
  assumes "opt_ok (plan_state_ok E) s" and "list_all (run_event_ok E) es"
    and "list_all (node_attempt_ok E) attempts" and "node_definition_ok d"
  shows "run_node_snapshot_ok E (snapshot_node s es attempts d)"
proof -
  define state where "state = Option.bind s (\<lambda>s. find_node_state s (nd_node_id d))"
  define nes where "nes = filter (about_node (nd_node_id d)) es"
  define as where "as = sort_key at_attempt_number (filter (\<lambda>a. at_node_id a = nd_node_id d) attempts)"
  have st: "opt_ok (node_state_ok E) state"
    unfolding state_def find_node_state_def
    using assms(1) by (intro bind_ok [where q = "plan_state_ok E"] opt_ok_find)
      (auto simp: plan_state_ok_def list_all_iff)
  have nes: "list_all (run_event_ok E) nes" using assms(2) by (auto simp: nes_def list_all_iff)
  have as: "list_all (node_attempt_ok E) as" using assms(3) by (auto simp: as_def list_all_iff)
  have a1: "opt_ok nonempty (if as = [] then None else Some (at_attempt_id (last as)))"
    using as by (auto simp: list_all_iff node_attempt_ok_def)
  have a2: "list_all (node_attempt_summary_ok E) (map attempt_summary as)"
    using as by (auto simp: list_all_iff attempt_summary_ok)
  have t1: "opt_ok (datetime_ok E)
      (first_truthy (Option.bind state ns_started_at) (timestamp_for nes ''node.started''))"
    by (intro first_truthy_ok timestamps_ok nes bind_ok [OF st]) (simp add: node_state_ok_def)
  have t2: "opt_ok (datetime_ok E)
      (first_truthy (Option.bind state ns_completed_at) (terminal_timestamp nes))"
    by (intro first_truthy_ok timestamps_ok nes bind_ok [OF st]) (simp add: node_state_ok_def)
  have r1: "list_all nonempty
      (case state of None \<Rightarrow> [] | Some n \<Rightarrow> map ar_artifact_id (ns_artifacts n))"
    using st by (auto simp: node_state_ok_def list_all_iff plan_artifact_ref_ok_def split: option.splits)
  have r2: "list_all nonempty (concat (map (\<lambda>e. event_artifact_refs (re_body e)) nes))"
    by (rule list_all_concat_map, rule body_facts(1) [where E = E], rule event_body_okI)
      (use nes in \<open>simp add: list_all_iff\<close>)
  have r3: "list_all nonempty (map re_event_id
      (filter (\<lambda>e. is_type ''node.failed'' e \<or> is_type ''capability.failed'' e) nes))"
    using nes by (auto simp: list_all_iff dest: event_facts(1))
  have uniq: "list_all nonempty (uniq xs) = list_all nonempty xs" for xs by (simp add: list_all_iff)
  have er: "list_all nonempty (map (\<lambda>(i, m). error_ref (nd_node_id d) i m) ms)" for ms
    by (auto simp: list_all_iff error_ref_nonempty)
  have ap: "list_all nonempty (filter nonempty xs)" for xs by (simp add: list_all_iff)
  show ?thesis
    using a1 a2 t1 t2 r1 r2 r3 er assms(4)
    unfolding run_node_snapshot_ok_def snapshot_node_def Let_def node_definition_ok_def
      state_def [symmetric] nes_def [symmetric] as_def [symmetric]
    by (simp add: uniq ap del: keep_truthy_simps)
qed


text \<open>Artifacts, model calls, reports, errors.\<close>

lemma capability_step_result_kind: "artifact_kind_ok ''capability_step_result''"
  by (simp add: artifact_kind_ok_def artifact_kinds_def)

lemma indexed_artifacts_ok:
  "list_all (artifact_summary_ok E) index \<Longrightarrow>
     list_all (run_artifact_summary_ok E) (indexed_artifacts index ids r p)"
  by (auto simp: list_all_iff indexed_artifacts_def index_artifact_def run_artifact_summary_ok_def
      artifact_summary_ok_def keep_truthy_nonempty)

lemma event_only_artifact_ok:
  assumes "run_event_ok E e"
  shows "list_all (run_artifact_summary_ok E) (event_only_artifact indexed e)"
  using event_facts [OF assms]
  by (cases "re_body e")
    (simp_all add: run_artifact_summary_ok_def capability_step_result_kind keep_truthy_nonempty)

lemma model_call_ok:
  assumes "run_event_ok E e" and "list_all (artifact_summary_ok E) index"
  shows "list_all (model_call_summary_ok E) (model_call_of index e)"
proof (cases "re_body e")
  case (Model_call_completed n a role model)
  have "opt_ok (\<lambda>x. nonempty (as_title x)) (find_last (\<lambda>x. as_artifact_id x = a) index)"
    using assms(2) by (intro opt_ok_find_last) (auto simp: list_all_iff artifact_summary_ok_def)
  then have "nonempty (nullish (map_option as_title (find_last (\<lambda>x. as_artifact_id x = a) index))
      ''Model call'')"
    by (intro nullish_nonempty) (simp_all add: opt_ok_map_option)
  with event_facts [OF assms(1)] Model_call_completed show ?thesis
    by (simp add: model_call_summary_ok_def keep_truthy_nonempty Let_def)
qed simp_all

lemma snapshot_errors_ok:
  assumes "opt_ok (plan_state_ok E) s" and "list_all (run_event_ok E) es"
  shows "list_all (structured_error_ok E) (snapshot_errors s es)"
proof -
  have "datetime_ok E (nullish x d)" if "opt_ok (datetime_ok E) x" "datetime_ok E d" for x d
    using that by (cases x) auto
  then have "list_all (structured_error_ok E) (state_errors ps)" if "plan_state_ok E ps" for ps
    using that unfolding state_errors_def
    by (intro list_all_concat_map)
      (auto simp: list_all_iff structured_error_ok_def plan_state_ok_def node_state_ok_def)
  moreover have "list_all (structured_error_ok E) (concat (map (\<lambda>e. event_errors (re_body e)) es))"
    by (rule list_all_concat_map, rule body_facts(5), rule event_body_okI)
      (use assms(2) in \<open>simp add: list_all_iff\<close>)
  ultimately show ?thesis
    using assms(1) by (cases s) (simp_all add: snapshot_errors_def)
qed

lemma active_node_ok:
  assumes "list_all (run_event_ok E) es" and "list_all (run_node_snapshot_ok E) nodes"
  shows "opt_ok nonempty (active_node es nodes)"
proof -
  have n: "opt_ok nonempty (map_option rn_node_id (List.find q nodes))" for q
    unfolding opt_ok_map_option
    using assms(2) by (intro opt_ok_find) (auto simp: list_all_iff run_node_snapshot_ok_def)
  have "opt_ok nonempty (event_node_id (re_body e))" if "find_last q es = Some e" for q e
  proof -
    from that have "e \<in> set es" unfolding find_last_def by (auto dest: find_SomeD)
    with assms(1) show ?thesis
      by (intro body_facts(4) [where E = E] event_body_okI) (simp add: list_all_iff)
  qed
  with n show ?thesis
    unfolding active_node_def by (auto split: option.split intro!: nullish_opt_ok)
qed

lemma policy_reports_ok:
  assumes "list_all (run_event_ok E) es"
  shows "list_all (policy_report_ok E) (List.map_filter (\<lambda>e. policy_report_of (re_body e)) es)"
  by (rule list_all_map_filter, rule body_facts(7), rule event_body_okI)
    (use assms in \<open>simp add: list_all_iff\<close>)

lemma assembled_ok:
  assumes "sources_ok E S" and "nonempty r" and "nonempty p" and "list_all (run_event_ok E) es"
    and "list_all (node_attempt_ok E) attempts" and "opt_ok (run_execution_ok E) run"
    and "opt_ok (planfile_ok E) plan"
  shows "run_snapshot_ok E (assemble_snapshot S r p es attempts run plan)"
proof -
  define state where "state = get_plan_state (ss_plan_states S) p"
  define nodes where "nodes = map (snapshot_node state es attempts) (node_definitions plan state es)"
  define ids where "ids = concat (map (\<lambda>e. event_artifact_refs (re_body e)) es) @
    (case state of None \<Rightarrow> [] | Some s \<Rightarrow> map ar_artifact_id (ps_artifact_refs s)) @
    (case run of None \<Rightarrow> [] | Some r \<Rightarrow> rx_artifact_refs r)"
  define indexed where "indexed = indexed_artifacts (ss_artifacts S) ids r p"
  define artifacts where
    "artifacts = indexed @ concat (map (event_only_artifact (map ra_artifact_id indexed)) es)"
  define status where "status =
    nullish (map_option rx_status run) (snapshot_run_status es (map_option ps_status state))"
  define active where "active = nullish_opt (Option.bind run rx_active_node_id) (active_node es nodes)"
  note folds = state_def [symmetric] nodes_def [symmetric] ids_def [symmetric] indexed_def [symmetric]
    artifacts_def [symmetric] status_def [symmetric] active_def [symmetric]
  have ev: "run_event_ok E e" if "e \<in> set es" for e using assms(4) that by (simp add: list_all_iff)
  have st: "opt_ok (plan_state_ok E) state"
    using assms(1) unfolding state_def get_plan_state_def opt_ok_def sources_ok_def
    by (auto simp: list_all_iff split: option.splits dest!: map_of_SomeD)
  have index: "list_all (artifact_summary_ok E) (ss_artifacts S)" using assms(1) by (simp add: sources_ok_def)
  have n: "list_all (run_node_snapshot_ok E) nodes"
    using node_definitions_ok [OF assms(7) st assms(4)] snapshot_node_ok [OF st assms(4,5)]
    by (auto simp: nodes_def list_all_iff)
  have "opt_ok nonempty active"
    unfolding active_def
    by (intro nullish_opt_ok active_node_ok [OF assms(4) n] bind_ok [OF assms(6)])
      (simp add: run_execution_ok_def)
  have arts: "list_all (run_artifact_summary_ok E) artifacts"
    using indexed_artifacts_ok [OF index] event_only_artifact_ok ev
    by (auto simp: artifacts_def indexed_def intro!: list_all_concat_map)
  have calls: "list_all (model_call_summary_ok E) (concat (map (model_call_of (ss_artifacts S)) es))"
    by (intro list_all_concat_map model_call_ok ev index)
  have created: "opt_ok (datetime_ok E) (map_option ps_created_at state)"
    "opt_ok (datetime_ok E) (if c then map_option ps_updated_at state else None)" for c
    using st by (auto simp: opt_ok_map_option opt_ok_def plan_state_ok_def split: option.splits)
  have started: "opt_ok (datetime_ok E) (keep_truthy (nullish_opt (Option.bind run rx_started_at)
      (nullish_opt (timestamp_for es ''run.started'') (map_option ps_created_at state))))"
    by (intro keep_truthy_ok nullish_opt_ok timestamps_ok assms(4) created bind_ok [OF assms(6)])
      (simp add: run_execution_ok_def)
  have completed: "opt_ok (datetime_ok E) (keep_truthy (nullish_opt (Option.bind run rx_completed_at)
      (nullish_opt (map_option re_timestamp (terminal_run_event es))
        (if c then map_option ps_updated_at state else None))))" for c
    by (intro keep_truthy_ok nullish_opt_ok timestamps_ok assms(4) created bind_ok [OF assms(6)])
      (simp add: run_execution_ok_def)
  show ?thesis
    unfolding run_snapshot_ok_def assemble_snapshot_def Let_def folds
    using assms(2-4) n arts calls started completed build_approvals_ok [OF assms(4)]
      policy_reports_ok [OF assms(4)] snapshot_errors_ok [OF st assms(4)]
      snapshot_actions_ok [OF assms(2,4) build_approvals_ok [OF assms(4)] arts]
    by (simp add: keep_truthy_nonempty)
qed


text \<open>The events and attempts the builder reads from well-formed stores.\<close>

lemma listed_events: "map en_event (list_run_events db r None None) = sort_events (run_events_of db r)"
proof -
  let ?es = "sort_events (run_events_of db r)"
  have "map en_event (run_envelopes db r) = map fst (zip ?es [0..<length ?es])"
    by (simp add: run_envelopes_def Let_def comp_def case_prod_unfold envelope_for_def)
  then show ?thesis
    by (simp add: list_run_events_def events_after_def limit_envelopes_def)
qed

lemma stored_events_ok:
  assumes "event_db_ok E db"
  shows "list_all (\<lambda>e. run_event_ok E e \<and> re_run_id e = r) (sort_events (run_events_of db r))"
proof (cases "map_of db r")
  case (Some es)
  with assms have "run_log_ok E r es"
    by (auto simp: event_db_ok_def list_all_iff dest!: map_of_SomeD)
  with Some show ?thesis by (simp add: run_events_of_def run_log_ok_def list_all_iff)
qed (simp add: run_events_of_def sort_events_def)

lemma stored_attempts_ok:
  assumes "list_all (\<lambda>(_, as). list_all (node_attempt_ok E) as) (cb_attempts db)"
  shows "list_all (node_attempt_ok E) (list_node_attempts db r None)"
  using assms by (cases "map_of (cb_attempts db) r")
    (auto simp: list_node_attempts_def run_attempts_def list_all_iff dest!: map_of_SomeD)


section \<open>A snapshot that follows the log\<close>

primrec append_all :: "env \<Rightarrow> event_db \<Rightarrow> run_event list \<Rightarrow> event_db option" where
  "append_all E db [] = Some db"
| "append_all E db (e # es) =
     Option.bind (append_run_event E db e) (\<lambda>(db', _). append_all E db' es)"

primrec apply_all :: "env \<Rightarrow> run_snapshot \<Rightarrow> run_event list \<Rightarrow> run_snapshot option" where
  "apply_all E s [] = Some s"
| "apply_all E s (e # es) =
     Option.bind (apply_run_event_to_snapshot E s e) (\<lambda>s'. apply_all E s' es)"

lemma run_snapshot_ok_timeline:
  "run_snapshot_ok E (s\<lparr>sn_timeline := es\<rparr>) \<longleftrightarrow>
     run_snapshot_ok E (s\<lparr>sn_timeline := []\<rparr>) \<and> list_all (run_event_ok E) es"
  by (auto simp: run_snapshot_ok_def)

lemma run_snapshot_ok_no_timeline: "run_snapshot_ok E s \<Longrightarrow> run_snapshot_ok E (s\<lparr>sn_timeline := []\<rparr>)"
  by (simp add: run_snapshot_ok_def)

text \<open>One step of the simulation.\<close>

lemma snapshot_step:
  assumes "event_db_ok E db" and "run_snapshot_ok E s" and "sn_timeline s = run_events_of db (re_run_id e)"
    and "run_event_ok E e"
  shows "\<exists>db' env. append_run_event E db e = Some (db', env) \<and> event_db_ok E db' \<and>
    apply_run_event_to_snapshot E s e = Some (s\<lparr>sn_timeline := run_events_of db' (re_run_id e)\<rparr>) \<and>
    run_snapshot_ok E (s\<lparr>sn_timeline := run_events_of db' (re_run_id e)\<rparr>)"
proof -
  let ?r = "re_run_id e"
  let ?es = "run_events_of db ?r"
  obtain db' env where ap: "append_run_event E db e = Some (db', env)"
    using assms(4) by (auto simp: append_run_event_def Let_def)
  have ok': "event_db_ok E db'" using append_event_db_ok [OF assms(1) ap] .
  have log: "run_log_ok E ?r ?es" using assms(1) by (rule event_db_okD)
  have "list_all (run_event_ok E) (run_events_of db' ?r)"
    using event_db_okD [OF ok', of ?r] by (simp add: run_log_ok_def list_all_iff)
  then have sok: "run_snapshot_ok E (s\<lparr>sn_timeline := run_events_of db' ?r\<rparr>)"
    using run_snapshot_ok_no_timeline [OF assms(2)] by (subst run_snapshot_ok_timeline) simp
  have same: "s = s\<lparr>sn_timeline := ?es\<rparr>" using assms(3) by simp
  have "apply_run_event_to_snapshot E s e = Some (s\<lparr>sn_timeline := run_events_of db' ?r\<rparr>)"
  proof (cases "list_ex (\<lambda>x. re_event_id x = re_event_id e) ?es")
    case True
    then have "run_events_of db' ?r = ?es"
      unfolding append_event(2) [OF ap] using log by (simp add: run_log_ok_def sort_events_id)
    with True assms(3) same show ?thesis by (simp add: apply_run_event_to_snapshot_def)
  next
    case False
    then have "run_events_of db' ?r = sort_events (?es @ [e])"
      unfolding append_event(2) [OF ap] by simp
    with False assms(3) sok show ?thesis by (simp add: apply_run_event_to_snapshot_def Let_def)
  qed
  with ap ok' sok show ?thesis by blast
qed

lemma snapshot_follows_events:
  assumes "event_db_ok E db" and "run_snapshot_ok E s" and "sn_timeline s = run_events_of db r"
    and "list_all (\<lambda>e. run_event_ok E e \<and> re_run_id e = r) es"
  shows "\<exists>db'. append_all E db es = Some db' \<and> event_db_ok E db' \<and>
    apply_all E s es = Some (s\<lparr>sn_timeline := run_events_of db' r\<rparr>)"
  using assms
proof (induction es arbitrary: db s)
  case Nil
  then show ?case by simp
next
  case (Cons e es)
  then have e: "run_event_ok E e" "re_run_id e = r"
    and es: "list_all (\<lambda>e. run_event_ok E e \<and> re_run_id e = r) es" by auto
  obtain db1 env where step: "append_run_event E db e = Some (db1, env)" "event_db_ok E db1"
    "apply_run_event_to_snapshot E s e = Some (s\<lparr>sn_timeline := run_events_of db1 r\<rparr>)"
    "run_snapshot_ok E (s\<lparr>sn_timeline := run_events_of db1 r\<rparr>)"
    using snapshot_step [OF Cons.prems(1,2) _ e(1)] Cons.prems(3) e(2) by auto
  from Cons.IH [OF step(2,4) _ es] obtain db' where
    "append_all E db1 es = Some db'" "event_db_ok E db'"
    "apply_all E (s\<lparr>sn_timeline := run_events_of db1 r\<rparr>) es = Some (s\<lparr>sn_timeline := run_events_of db' r\<rparr>)"
    by auto
  with step show ?case by auto
qed

section \<open>Approvals and the events about them\<close>

definition approval_mentions :: "run_event list \<Rightarrow> string list" where
  "approval_mentions es = List.map_filter (\<lambda>e. event_approval_id (re_body e)) es"

fun approval_word :: "event_body \<Rightarrow> string" where
  "approval_word (Approval_resolved _ _ d) = approval_decision_str d"
| "approval_word _ = ''requested''"

text \<open>The specification: the status of an approval is what the last event about it says.\<close>

definition approval_status :: "run_event list \<Rightarrow> string \<Rightarrow> string" where
  "approval_status es a =
     (case find_last (\<lambda>e. event_approval_id (re_body e) = Some a) es of
        Some e \<Rightarrow> approval_word (re_body e)
      | None \<Rightarrow> [])"

lemma update_map_keys:
  "distinct ks \<Longrightarrow> AList.update k v (map (\<lambda>a. (a, g a)) ks) =
     map (\<lambda>a. (a, (g(k := v)) a)) (if k \<in> set ks then ks else ks @ [k])"
  by (induction ks) auto

lemma map_update: "map (\<lambda>(k, v). (k, f v)) (AList.update a v m) = AList.update a (f v) (map (\<lambda>(k, v). (k, f v)) m)"
  by (induction m) auto

lemma uniq_snoc: "uniq (xs @ [x]) = (if x \<in> set xs then uniq xs else uniq xs @ [x])"
  by (induction xs) auto

lemma approval_face_update:
  "map (\<lambda>(k, v). (k, aq_approval_id v, aq_status v)) (approval_event e m) =
     (case event_approval_id (re_body e) of
        None \<Rightarrow> map (\<lambda>(k, v). (k, aq_approval_id v, aq_status v)) m
      | Some a \<Rightarrow> AList.update a (a, approval_word (re_body e))
          (map (\<lambda>(k, v). (k, aq_approval_id v, aq_status v)) m))"
  by (cases "re_body e")
    (simp_all add: approval_event_def map_update requested_summary_def resolved_summary_def Let_def)

lemma approval_map_faces:
  "map (\<lambda>(k, v). (k, aq_approval_id v, aq_status v)) (fold approval_event es []) =
     map (\<lambda>a. (a, a, approval_status es a)) (uniq (approval_mentions es))"
proof (induction es rule: rev_induct)
  case (snoc e es)
  let ?g = "\<lambda>a. (a, approval_status es a)"
  show ?case
  proof (cases "event_approval_id (re_body e)")
    case None
    then have "approval_status (es @ [e]) = approval_status es"
      by (simp add: approval_status_def fun_eq_iff)
    with None snoc show ?thesis
      by (simp add: approval_face_update approval_mentions_def List.map_filter_def)
  next
    case (Some a)
    then have st: "approval_status (es @ [e]) b =
        (if b = a then approval_word (re_body e) else approval_status es b)" for b
      by (auto simp: approval_status_def)
    have m: "approval_mentions (es @ [e]) = approval_mentions es @ [a]"
      using Some by (simp add: approval_mentions_def List.map_filter_def)
    have "map (\<lambda>b. (b, b, approval_status (es @ [e]) b)) (uniq (approval_mentions (es @ [e]))) =
        AList.update a (a, approval_word (re_body e)) (map (\<lambda>b. (b, ?g b)) (uniq (approval_mentions es)))"
      unfolding m uniq_snoc update_map_keys [OF distinct_uniq] by (simp add: st)
    with Some snoc show ?thesis by (simp add: approval_face_update)
  qed
qed (simp add: approval_mentions_def List.map_filter_def)

lemma approval_faces_of_events:
  "map (\<lambda>x. (aq_approval_id x, aq_status x)) (build_approvals es) =
     map (\<lambda>a. (a, approval_status es a)) (uniq (approval_mentions es))"
proof -
  have "map (\<lambda>x. (aq_approval_id x, aq_status x)) (build_approvals es) =
      map snd (map (\<lambda>(k, v). (k, aq_approval_id v, aq_status v)) (fold approval_event es []))"
    by (simp add: build_approvals_def case_prod_unfold)
  then show ?thesis unfolding approval_map_faces by (simp add: comp_def)
qed

lemma requested_in_events:
  "(a, ''requested'') \<in> set (map (\<lambda>x. (aq_approval_id x, aq_status x)) (build_approvals es)) \<longleftrightarrow>
     approval_status es a = ''requested''"
proof -
  have "a \<in> set (approval_mentions es)" if "approval_status es a = ''requested''"
  proof -
    from that obtain e where "find_last (\<lambda>e. event_approval_id (re_body e) = Some a) es = Some e"
      by (auto simp: approval_status_def split: option.splits)
    then have "e \<in> set es" "event_approval_id (re_body e) = Some a"
      unfolding find_last_def by (auto dest: find_SomeD)
    then show ?thesis unfolding approval_mentions_def List.map_filter_def by force
  qed
  then show ?thesis unfolding approval_faces_of_events by auto
qed

text \<open>A run that yields and is started again is still shown as yielded: the last terminal event
  decides, whatever starts after it.\<close>

lemma restarted_run_shows_old_status:
  assumes "re_body y = Run_yielded reason acts" and "re_body st = Run_started"
  shows "snapshot_run_status (es @ [y, st]) ps = RS_yielded"
proof -
  have "es @ [y, st] = (es @ [y]) @ [st]" by simp
  then have "terminal_run_event (es @ [y, st]) = Some y"
    using assms unfolding terminal_run_event_def by (simp only: find_last_snoc) simp
  with assms show ?thesis by (simp add: snapshot_run_status_def)
qed

lemma approve_face:
  "(NA_approve, True, Some a) \<in> set (map action_face (derive_run_next_actions r s n approvals arts es)) \<longleftrightarrow>
     (a, ''requested'') \<in> set approvals"
proof -
  define others where "others = set (map action_face (provider_actions es @ artifact_actions arts @ [edit_action r]))"
  have "fst ` others \<subseteq> {NA_configure_provider, NA_inspect_artifact, NA_export, NA_edit_plan}"
    unfolding others_def by (rule other_faces)
  then have "(NA_approve, True, Some a) \<notin> others" by force
  then show ?thesis
    unfolding next_action_faces others_def [symmetric] by simp
qed

section \<open>Properties\<close>

text \<open>On well-formed stores, and well-formed events and plan when the caller hands them in, the
  snapshot builder never throws. It answers nothing exactly when no event, run record or plan names
  the plan of the run; otherwise the answer is well formed, is about the run and the plan, and its
  timeline is the events it was built from.\<close>
lemma snapshot_never_throws:
  assumes "sources_ok E S" and "run_id \<noteq> []" and "opt_ok (list_all (run_event_ok E)) given_events"
    and "opt_ok (planfile_ok E) given_plan"
  shows "let es = nullish given_events (sort_events (run_events_of (ss_events S) run_id));
      run = stored_run S run_id given_events given_plan;
      plan = nullish_opt given_plan (parse_stored_planfile E (Option.bind run rx_planfile));
      plan_id = snapshot_plan_id es run plan
    in case build_run_snapshot E S run_id given_events given_plan of
         Inl _ \<Rightarrow> False
       | Inr None \<Rightarrow> \<not> truthy plan_id
       | Inr (Some s) \<Rightarrow> truthy plan_id \<and> run_snapshot_ok E s \<and> sn_run_id s = run_id \<and>
           Some (sn_plan_id s) = plan_id \<and> sn_timeline s = es"
proof -
  define es where "es = snapshot_events S run_id given_events"
  define run where "run = stored_run S run_id given_events given_plan"
  define plan where
    "plan = nullish_opt given_plan (parse_stored_planfile E (Option.bind run rx_planfile))"
  define attempts where
    "attempts = (if given_events \<noteq> None then [] else list_node_attempts (ss_control S) run_id None)"
  define pid where "pid = snapshot_plan_id es run plan"
  have ev: "list_all (run_event_ok E) es"
  proof (cases given_events)
    case None
    then show ?thesis
      using assms(1) stored_events_ok [of E "ss_events S" run_id]
      by (simp add: es_def snapshot_events_def listed_events sources_ok_def list_all_iff)
  qed (use assms(3) in \<open>simp add: es_def snapshot_events_def\<close>)
  have run: "opt_ok (run_execution_ok E) run"
    using assms(1) by (auto simp: run_def stored_run_def get_run_execution_def sources_ok_def opt_ok_def
        list_all_iff split: option.splits dest!: map_of_SomeD)
  have plan: "opt_ok (planfile_ok E) plan"
    unfolding plan_def using assms(4)
    by (intro nullish_opt_ok) (auto simp: parse_stored_planfile_def split: option.splits)
  have att: "list_all (node_attempt_ok E) attempts"
    using assms(1) by (auto simp: attempts_def sources_ok_def intro!: stored_attempts_ok)
  have es: "es = nullish given_events (sort_events (run_events_of (ss_events S) run_id))"
    by (simp add: es_def snapshot_events_def listed_events)
  have build: "build_run_snapshot E S run_id given_events given_plan =
    (if \<not> truthy pid then Inr None
     else (let s = assemble_snapshot S run_id (the pid) es attempts run plan
           in if run_snapshot_ok E s then Inr (Some s) else Inl Zod_error))"
    by (simp only: build_run_snapshot_def Let_def es_def run_def plan_def attempts_def pid_def)
  have "case build_run_snapshot E S run_id given_events given_plan of
      Inl _ \<Rightarrow> False
    | Inr None \<Rightarrow> \<not> truthy pid
    | Inr (Some s) \<Rightarrow> truthy pid \<and> run_snapshot_ok E s \<and> sn_run_id s = run_id \<and>
        Some (sn_plan_id s) = pid \<and> sn_timeline s = es"
  proof (cases "truthy pid")
    case True
    then obtain i where i: "pid = Some i" "nonempty i" by (cases pid) auto
    from assembled_ok [OF assms(1,2) i(2) ev att run plan] True build i(1) show ?thesis
      by (simp add: Let_def assemble_snapshot_def)
  qed (use build in simp)
  then show ?thesis
    unfolding Let_def pid_def plan_def run_def es by simp
qed


text \<open>C27: A client that holds a snapshot and adds every event the store appends stays in step with
  the store: whatever events of the run arrive, known ones included, neither side refuses one, and
  the timeline of the client is the run's log in the store after each of them.\<close>
theorem snapshot_follows_log:
  assumes "event_db_ok E db" and "run_snapshot_ok E s" and "sn_timeline s = run_events_of db r"
    and "list_all (\<lambda>e. run_event_ok E e \<and> re_run_id e = r) es"
  shows "\<exists>db' s'. append_all E db es = Some db' \<and> apply_all E s es = Some s' \<and>
    sn_timeline s' = run_events_of db' r \<and> s' = s\<lparr>sn_timeline := sn_timeline s'\<rparr>"
  using snapshot_follows_events [OF assms] by auto

text \<open>The approvals of a snapshot are one entry for each approval the events mention, in the
  order of first mention, with the status the last event about it gave; and as long as no yielded
  node or run brought its own list of next actions, approving it is offered exactly while that
  status is "requested".\<close>
lemma approvals_follow_events:
  "map (\<lambda>x. (aq_approval_id x, aq_status x)) (build_approvals es) =
     map (\<lambda>a. (a, approval_status es a)) (uniq (approval_mentions es)) \<and>
   ((NA_approve, True, Some a) \<in> set (map action_face (derive_run_next_actions r st n
        (map (\<lambda>x. (aq_approval_id x, aq_status x)) (build_approvals es)) arts errs)) \<longleftrightarrow>
    approval_status es a = ''requested'')"
  unfolding approve_face requested_in_events using approval_faces_of_events [of es] by simp


section \<open>Witnesses\<close>

text \<open>A run that asked for an approval; the artifact it made is not in the index, and its log is
  what the store holds.\<close>

definition asked_event :: "string \<Rightarrow> event_body \<Rightarrow> run_event" where
  "asked_event i b =
     \<lparr>re_event_id = i, re_plan_id = ''plan'', re_run_id = ''run'', re_timestamp = ''1'', re_body = b\<rparr>"

definition asked_log :: "run_event list" where
  "asked_log = [asked_event ''a'' Run_created, asked_event ''b'' (Approval_requested None ''ok'')]"

lemma asked_log_ok: "event_db_ok event_env [(''run'', asked_log)]"
  by (simp add: event_db_ok_def run_log_ok_def run_event_ok_def event_env_def event_order_key_def
      asked_log_def asked_event_def sample_keys)

definition asked_snapshot :: run_snapshot where
  "asked_snapshot =
     \<lparr>sn_run_id = ''run'', sn_plan_id = ''plan'', sn_plan_title = None, sn_status = RS_running,
      sn_runtime = Runtime_local_dev, sn_active_node_id = None, sn_nodes = [],
      sn_timeline = asked_log, sn_artifacts = [], sn_approvals = [], sn_model_calls = [],
      sn_policy_reports = [], sn_errors = [], sn_next_actions = [], sn_started_at = None,
      sn_completed_at = None, sn_builder_session_id = None, sn_plan_markdown = None\<rparr>"

theorem snapshot_follows_log_witness:
  "\<exists>db' s'. append_all event_env [(''run'', asked_log)]
       [asked_event ''c'' (Approval_resolved None ''ok'' Dec_approved)] = Some db' \<and>
     apply_all event_env asked_snapshot
       [asked_event ''c'' (Approval_resolved None ''ok'' Dec_approved)] = Some s' \<and>
     sn_timeline s' = run_events_of db' ''run''"
proof -
  have log: "run_events_of [(''run'', asked_log)] ''run'' = asked_log"
    by (simp add: run_events_of_def)
  have "run_snapshot_ok event_env asked_snapshot"
    by (simp add: run_snapshot_ok_def asked_snapshot_def asked_log_def asked_event_def run_event_ok_def
        event_env_def)
  from snapshot_follows_log [OF asked_log_ok this, of "''run''"
      "[asked_event ''c'' (Approval_resolved None ''ok'' Dec_approved)]"] show ?thesis
    unfolding log by (auto simp: asked_snapshot_def asked_event_def run_event_ok_def event_env_def)
qed

end
