(* ===== verification/Node_Path.thy ===== *)
theory Node_Path
  imports Prelude
begin

text \<open>
  The POSIX functions of the standard module \<open>node:path\<close> that the sources call (\<open>resolve\<close>,
  \<open>join\<close>, \<open>relative\<close>, \<open>dirname\<close>, \<open>basename\<close>), on strings, with the laws about the segments of a
  resolved path that the path policy rests on. The current directory is an argument.
\<close>

abbreviation slash :: char where
  "slash \<equiv> CHR ''/''"

section \<open>Normalising\<close>

definition push_segment :: "bool \<Rightarrow> string \<Rightarrow> string list \<Rightarrow> string list" where
  "push_segment up s acc =
     (if s = [] \<or> s = ''.'' then acc
      else if s = ''..''
      then (if acc \<noteq> [] \<and> last acc \<noteq> ''..'' then butlast acc
            else if up then acc @ [''..''] else acc)
      else acc @ [s])"

definition normal_segments :: "bool \<Rightarrow> string \<Rightarrow> string list" where
  "normal_segments up p = fold (push_segment up) (split_on slash p) []"

definition normalize_string :: "bool \<Rightarrow> string \<Rightarrow> string" where
  "normalize_string up p = join [slash] (normal_segments up p)"

definition is_absolute :: "string \<Rightarrow> bool" where
  "is_absolute p = starts_with p [slash]"

section \<open>Resolving\<close>

text \<open>The arguments from the last to the first, with the current directory behind them.\<close>

fun resolve_loop :: "string list \<Rightarrow> string \<Rightarrow> string \<times> bool" where
  "resolve_loop [] r = (r, False)"
| "resolve_loop (p # ps) r =
     (if p = [] then resolve_loop ps r
      else if is_absolute p then (p @ [slash] @ r, True)
      else resolve_loop ps (p @ [slash] @ r))"

definition path_resolve :: "string \<Rightarrow> string list \<Rightarrow> string" where
  "path_resolve cwd args =
     (let (r, absolute) = resolve_loop (rev args @ [cwd]) [];
          n = normalize_string (\<not> absolute) r
      in if absolute then slash # n else if n = [] then ''.'' else n)"

definition path_normalize :: "string \<Rightarrow> string" where
  "path_normalize p =
     (if p = [] then ''.''
      else
        (let absolute = is_absolute p; trailing = ends_with p [slash];
             n = normalize_string (\<not> absolute) p
         in if n = [] then (if absolute then [slash] else if trailing then ''./'' else ''.'')
            else (if absolute then [slash] else []) @ n @ (if trailing then [slash] else [])))"

definition path_join :: "string list \<Rightarrow> string" where
  "path_join args =
     (let j = join [slash] (filter (\<lambda>a. a \<noteq> []) args) in if j = [] then ''.'' else path_normalize j)"

section \<open>Relative paths\<close>

definition path_segments :: "string \<Rightarrow> string list" where
  "path_segments p = filter (\<lambda>s. s \<noteq> []) (split_on slash p)"

fun common_prefix :: "string list \<Rightarrow> string list \<Rightarrow> nat" where
  "common_prefix (x # xs) (y # ys) = (if x = y then Suc (common_prefix xs ys) else 0)"
| "common_prefix _ _ = 0"

definition path_relative :: "string \<Rightarrow> string \<Rightarrow> string \<Rightarrow> string" where
  "path_relative cwd from to =
     (let f = path_resolve cwd [from]; t = path_resolve cwd [to]
      in if f = t then []
         else
           (let fs = path_segments f; ts = path_segments t; k = common_prefix fs ts
            in join [slash] (replicate (length fs - k) ''..'' @ drop k ts)))"

section \<open>Parents\<close>

text \<open>What is left of the reversed path, its first character apart, from its last separator that
  follows a segment.\<close>

definition parent_tail :: "string \<Rightarrow> string" where
  "parent_tail body = dropWhile (\<lambda>x. x \<noteq> slash) (dropWhile (\<lambda>x. x = slash) (rev body))"

definition path_dirname :: "string \<Rightarrow> string" where
  "path_dirname p =
     (case p of
        [] \<Rightarrow> ''.''
      | c # body \<Rightarrow>
          if parent_tail body = [] then (if c = slash then [slash] else ''.'')
          else if c = slash \<and> length (parent_tail body) = 1 then [slash, slash]
          else c # rev (tl (parent_tail body)))"

definition path_basename :: "string \<Rightarrow> string" where
  "path_basename p =
     rev (takeWhile (\<lambda>x. x \<noteq> slash) (dropWhile (\<lambda>x. x = slash) (rev p)))"

text \<open>The extension of the last segment: from its last dot on, unless that begins the segment.\<close>

definition path_extname :: "string \<Rightarrow> string" where
  "path_extname p =
     (let b = path_basename p; e = takeWhile (\<lambda>c. c \<noteq> CHR ''.'') (rev b)
      in if b = ''..'' \<or> CHR ''.'' \<notin> set b \<or> Suc (length e) = length b then []
         else CHR ''.'' # rev e)"

definition dirname_measure :: "string \<Rightarrow> nat" where
  "dirname_measure p = (if p = ''.'' then 0 else Suc (length p))"

lemma dirname_Cons:
  "path_dirname (c # body) =
     (if parent_tail body = [] then (if c = slash then [slash] else ''.'')
      else if c = slash \<and> length (parent_tail body) = 1 then [slash, slash]
      else c # rev (tl (parent_tail body)))"
  by (simp only: path_dirname_def list.case)

lemma parent_tail_shorter: "body \<noteq> [] \<Longrightarrow> length (parent_tail body) < length body"
proof -
  assume "body \<noteq> []"
  then obtain x xs where x: "rev body = x # xs" by (cases "rev body") auto
  have "length (dropWhile P (dropWhile Q ys)) \<le> length ys" for P Q and ys :: string
    using length_dropWhile_le [of P "dropWhile Q ys"] length_dropWhile_le [of Q ys] by simp
  moreover have "length body = Suc (length xs)" using arg_cong [OF x, of length] by simp
  ultimately show ?thesis
    unfolding parent_tail_def x
    using length_dropWhile_le [of "\<lambda>x. x \<noteq> slash" xs]
    by (cases "x = slash") (auto simp: less_Suc_eq_le)
qed

lemma dirname_shrinks:
  assumes "path_dirname p \<noteq> p"
  shows "dirname_measure (path_dirname p) < dirname_measure p"
proof (cases p)
  case Nil
  then show ?thesis by (simp add: path_dirname_def dirname_measure_def)
next
  case (Cons c body)
  show ?thesis
  proof (cases "body = []")
    case True
    then have "path_dirname p = (if c = slash then [slash] else ''.'')"
      by (simp add: Cons dirname_Cons parent_tail_def)
    with assms Cons True show ?thesis by (auto simp: dirname_measure_def split: if_splits)
  next
    case False
    then have p: "dirname_measure p = Suc (Suc (length body))" "0 < length body"
      using Cons by (auto simp: dirname_measure_def)
    have "length (path_dirname p) \<le> length body"
      using parent_tail_shorter [OF False] p(2) unfolding Cons dirname_Cons by auto
    then show ?thesis unfolding p(1) by (simp add: dirname_measure_def)
  qed
qed


section \<open>Laws\<close>

text \<open>The segments an absolute resolved path consists of.\<close>

definition clean_segment :: "string \<Rightarrow> bool" where
  "clean_segment s = (s \<noteq> [] \<and> s \<noteq> ''.'' \<and> s \<noteq> ''..'' \<and> slash \<notin> set s)"

definition abs_path :: "string list \<Rightarrow> string" where
  "abs_path ss = slash # join [slash] ss"

lemma split_on_append: "split_on d (a @ d # b) = split_on d a @ split_on d b"
proof (induction a)
  case (Cons c a)
  show ?case
  proof (cases "c = d")
    case False
    obtain w ws where "split_on d a = w # ws" by (cases "split_on d a") auto
    with Cons False show ?thesis by simp
  qed (use Cons in simp)
qed simp

lemma split_on_single: "d \<notin> set s \<Longrightarrow> split_on d s = [s]"
  by (induction s) auto

lemma split_on_join:
  "ss \<noteq> [] \<Longrightarrow> \<forall>s \<in> set ss. d \<notin> set s \<Longrightarrow> split_on d (join [d] ss) = ss"
proof (induction ss)
  case (Cons s ss)
  show ?case
  proof (cases "ss = []")
    case True
    with Cons.prems show ?thesis by (simp add: split_on_single)
  next
    case False
    then have "split_on d (join [d] (s # ss)) = split_on d (s @ d # join [d] ss)"
      by (simp add: join_Cons)
    then show ?thesis
      unfolding split_on_append using Cons False by (simp add: split_on_single)
  qed
qed simp

lemma push_clean:
  assumes "\<forall>x \<in> set acc. clean_segment x" and "slash \<notin> set s"
  shows "\<forall>x \<in> set (push_segment False s acc). clean_segment x"
proof -
  have "push_segment False s acc \<in> {acc, butlast acc} \<or>
      (push_segment False s acc = acc @ [s] \<and> clean_segment s)"
    using assms(2) by (simp add: push_segment_def clean_segment_def)
  moreover have "set (butlast acc) \<subseteq> set acc" by (auto dest: in_set_butlastD)
  ultimately show ?thesis using assms(1) by auto
qed

lemma fold_push_clean:
  "\<forall>x \<in> set acc. clean_segment x \<Longrightarrow> \<forall>s \<in> set ws. slash \<notin> set s \<Longrightarrow>
     \<forall>x \<in> set (fold (push_segment False) ws acc). clean_segment x"
proof (induction ws arbitrary: acc)
  case (Cons w ws)
  have "\<forall>x \<in> set (push_segment False w acc). clean_segment x"
    using Cons.prems by (intro push_clean) simp_all
  with Cons show ?case by simp
qed simp

lemma normal_segments_clean: "\<forall>s \<in> set (normal_segments False p). clean_segment s"
  unfolding normal_segments_def by (rule fold_push_clean) (auto dest: split_on_no_sep)

lemma push_empty: "push_segment up [] acc = acc"
  by (simp add: push_segment_def)

lemma push_clean_eq: "clean_segment s \<Longrightarrow> push_segment up s acc = acc @ [s]"
  by (simp add: push_segment_def clean_segment_def)

lemma fold_push_segments:
  "\<forall>s \<in> set ws. s = [] \<or> clean_segment s \<Longrightarrow>
     fold (push_segment up) ws acc = acc @ filter (\<lambda>s. s \<noteq> []) ws"
proof (induction ws arbitrary: acc)
  case (Cons s ws)
  from Cons.prems have "s = [] \<or> clean_segment s" by simp
  then have "push_segment up s acc = (if s = [] then acc else acc @ [s])"
    by (auto simp: push_empty push_clean_eq)
  with Cons show ?case by simp
qed simp

lemma split_abs_path:
  assumes "\<forall>s \<in> set ss. clean_segment s"
  shows "split_on slash (abs_path ss) = [] # (if ss = [] then [[]] else ss)"
  using assms split_on_join [of ss slash] by (auto simp: abs_path_def clean_segment_def)

lemma segments_abs_path:
  assumes "\<forall>s \<in> set ss. clean_segment s"
  shows "path_segments (abs_path ss) = ss"
  unfolding path_segments_def split_abs_path [OF assms] using assms
  by (auto simp: clean_segment_def intro!: filter_True)

lemma abs_path_inj:
  assumes "\<forall>s \<in> set ss. clean_segment s" and "\<forall>s \<in> set ts. clean_segment s"
  shows "abs_path ss = abs_path ts \<longleftrightarrow> ss = ts"
  using segments_abs_path [OF assms(1)] segments_abs_path [OF assms(2)] by metis

lemma is_absolute_abs_path [simp]: "is_absolute (abs_path ss)"
  by (simp add: is_absolute_def abs_path_def)

lemma resolve_loop_absolute: "is_absolute cwd \<Longrightarrow> snd (resolve_loop (ps @ [cwd]) r)"
  by (induction ps arbitrary: r) (auto simp: is_absolute_def)

lemma path_resolve_abs:
  assumes "is_absolute cwd"
  shows "\<exists>ss. path_resolve cwd args = abs_path ss \<and> (\<forall>s \<in> set ss. clean_segment s)"
proof -
  obtain r b where r: "resolve_loop (rev args @ [cwd]) [] = (r, b)" by fastforce
  with resolve_loop_absolute [OF assms, of "rev args" "[]"] have b by simp
  then have "path_resolve cwd args = abs_path (normal_segments False r)"
    by (simp add: path_resolve_def r abs_path_def normalize_string_def)
  with normal_segments_clean show ?thesis by blast
qed

lemma path_resolve_id:
  assumes "\<forall>s \<in> set ss. clean_segment s"
  shows "path_resolve cwd [abs_path ss] = abs_path ss"
proof -
  have ne: "abs_path ss \<noteq> []" by (simp add: abs_path_def)
  have "normal_segments False (abs_path ss @ [slash]) = ss"
    unfolding normal_segments_def split_on_append [of slash "abs_path ss" "[]", simplified]
      split_abs_path [OF assms]
    using assms by (subst fold_push_segments) (auto simp: clean_segment_def intro!: filter_True)
  then show ?thesis
    using ne by (simp add: path_resolve_def normalize_string_def) (simp add: abs_path_def)
qed

lemma common_prefix_le: "common_prefix xs ys \<le> length xs"
  by (induction xs ys rule: common_prefix.induct) auto

lemma common_prefix_full: "common_prefix xs ys = length xs \<Longrightarrow> ys = xs @ drop (length xs) ys"
  by (induction xs ys rule: common_prefix.induct) (auto split: if_splits)

lemma path_relative_abs:
  assumes "\<forall>s \<in> set fs. clean_segment s" and "\<forall>s \<in> set ts. clean_segment s"
  shows "path_relative cwd (abs_path fs) (abs_path ts) =
    (if fs = ts then []
     else join [slash] (replicate (length fs - common_prefix fs ts) ''..'' @ drop (common_prefix fs ts) ts))"
  unfolding path_relative_def path_resolve_id [OF assms(1)] path_resolve_id [OF assms(2)] Let_def
    abs_path_inj [OF assms] segments_abs_path [OF assms(1)] segments_abs_path [OF assms(2)] ..

lemma join_starts_with: "starts_with (join sep (s # ss)) s"
  by (cases ss) (auto simp: join_Cons starts_with_iff)

text \<open>A relative path that does not begin with two dots leads from a directory to something in it.\<close>

lemma relative_inside:
  assumes "\<forall>s \<in> set fs. clean_segment s" and "\<forall>s \<in> set ts. clean_segment s"
    and "\<not> starts_with (path_relative cwd (abs_path fs) (abs_path ts)) ''..''"
  shows "\<exists>us. ts = fs @ us \<and> path_relative cwd (abs_path fs) (abs_path ts) = join [slash] us"
proof (cases "fs = ts")
  case True
  then show ?thesis using path_relative_abs [OF assms(1,2)] by simp
next
  case False
  define k where "k = common_prefix fs ts"
  have rel: "path_relative cwd (abs_path fs) (abs_path ts) =
      join [slash] (replicate (length fs - k) ''..'' @ drop k ts)"
    using False path_relative_abs [OF assms(1,2)] by (simp add: k_def)
  have "k = length fs"
  proof (rule ccontr)
    assume "k \<noteq> length fs"
    with common_prefix_le [of fs ts] obtain j where "length fs - k = Suc j"
      unfolding k_def by (metis Suc_diff_Suc le_neq_implies_less)
    then have "path_relative cwd (abs_path fs) (abs_path ts) =
        join [slash] (''..'' # (replicate j ''..'' @ drop k ts))" using rel by simp
    with assms(3) join_starts_with show False by metis
  qed
  with rel common_prefix_full [of fs ts] show ?thesis
    unfolding k_def by (intro exI [of _ "drop (length fs) ts"]) simp
qed


section \<open>Resolving what has been normalised\<close>

definition plain_segment :: "string \<Rightarrow> bool" where
  "plain_segment s = (clean_segment s \<or> s = ''..'')"

lemma plain_segment_cases:
  assumes "plain_segment s"
  obtains "clean_segment s" | "s = ''..''"
  using assms unfolding plain_segment_def by blast

lemma push_plain:
  "\<forall>x \<in> set acc. plain_segment x \<Longrightarrow> slash \<notin> set s \<Longrightarrow> \<forall>x \<in> set (push_segment up s acc). plain_segment x"
  by (auto simp: push_segment_def plain_segment_def clean_segment_def dest: in_set_butlastD)

lemma fold_push_plain:
  "\<forall>s \<in> set ws. slash \<notin> set s \<Longrightarrow> \<forall>x \<in> set acc. plain_segment x \<Longrightarrow>
     \<forall>x \<in> set (fold (push_segment up) ws acc). plain_segment x"
proof (induction ws arbitrary: acc)
  case (Cons w ws)
  have "\<forall>x \<in> set (push_segment up w acc). plain_segment x" using Cons.prems by (intro push_plain) simp_all
  with Cons show ?case by simp
qed simp

lemma normal_segments_plain: "\<forall>s \<in> set (normal_segments up p). plain_segment s"
  unfolding normal_segments_def by (rule fold_push_plain) (auto dest: split_on_no_sep)

text \<open>Walking along the normal form leads where walking along the segments leads.\<close>

lemma fold_push_normal:
  assumes "\<forall>s \<in> set ws. slash \<notin> set s"
  shows "fold (push_segment False) (fold (push_segment True) ws []) acc = fold (push_segment False) ws acc"
  using assms
proof (induction ws rule: rev_induct)
  case (snoc w ws)
  let ?n = "fold (push_segment True) ws []"
  have plain: "\<forall>x \<in> set ?n. plain_segment x" using snoc.prems by (intro fold_push_plain) auto
  have IH: "fold (push_segment False) ?n acc = fold (push_segment False) ws acc" using snoc by simp
  show ?case
  proof (cases "w = ''..'' \<and> ?n \<noteq> [] \<and> last ?n \<noteq> ''..''")
    case True
    define m where "m = butlast ?n"
    define x where "x = last ?n"
    have n: "?n = m @ [x]" using True by (simp add: m_def x_def)
    have "plain_segment x" using plain unfolding n by simp
    moreover have "x \<noteq> ''..''" using True unfolding x_def by blast
    ultimately have "clean_segment x" unfolding plain_segment_def by blast
    then have "fold (push_segment False) ws acc = fold (push_segment False) m acc @ [x]"
      unfolding IH [symmetric] n by (simp add: push_clean_eq)
    moreover have "push_segment True w (m @ [x]) = m" "push_segment False w (a @ [x]) = a" for a
      using True \<open>x \<noteq> ''..''\<close> by (simp_all add: push_segment_def)
    ultimately show ?thesis using n by simp
  next
    case False
    then have "push_segment True w ?n = (if w = [] \<or> w = ''.'' then ?n else ?n @ [w])"
      by (auto simp: push_segment_def)
    then have n: "fold (push_segment True) (ws @ [w]) [] = (if w = [] \<or> w = ''.'' then ?n else ?n @ [w])"
      by simp
    show ?thesis
    proof (cases "w = [] \<or> w = ''.''")
      case True
      then have "push_segment False w x = x" for x by (auto simp: push_segment_def)
      with True n IH show ?thesis by simp
    next
      case False
      with n IH show ?thesis by simp
    qed
  qed
qed simp

lemma split_normalize:
  "split_on slash (join [slash] (normal_segments up p)) =
     (if normal_segments up p = [] then [[]] else normal_segments up p)"
proof (cases "normal_segments up p = []")
  case False
  have "slash \<notin> set s" if "s \<in> set (normal_segments up p)" for s
  proof -
    have "plain_segment s" using normal_segments_plain that by blast
    then show ?thesis by (elim plain_segment_cases) (simp_all add: clean_segment_def)
  qed
  with False show ?thesis by (simp add: split_on_join)
qed simp

lemma normal_segments_two:
  "normal_segments up (a @ slash # b) = fold (push_segment up) (split_on slash b) (normal_segments up a)"
  by (simp only: normal_segments_def split_on_append fold_append comp_apply)

lemma normal_segments_trailing: "normal_segments up (a @ [slash]) = normal_segments up a"
  using normal_segments_two [of up a "[]"] by (simp add: push_empty)

lemma resolve_relative:
  assumes "is_absolute cwd" and "\<not> is_absolute q"
  shows "path_resolve cwd [q] =
    abs_path (fold (push_segment False) (split_on slash q) (normal_segments False cwd))"
proof -
  have c: "cwd \<noteq> []" using assms(1) by (auto simp: is_absolute_def)
  have loop: "resolve_loop [q, cwd] [] = (if q = [] then (cwd @ [slash], True) else (cwd @ slash # q @ [slash], True))"
    using c assms by simp
  have "normal_segments False (cwd @ slash # q @ [slash]) =
      fold (push_segment False) (split_on slash q) (normal_segments False cwd)"
    unfolding normal_segments_two split_on_append by (simp add: push_empty)
  then show ?thesis
    unfolding path_resolve_def append.simps rev.simps loop
    by (cases "q = []") (simp_all add: normalize_string_def abs_path_def normal_segments_trailing push_empty)
qed

lemma resolve_absolute:
  assumes "is_absolute q"
  shows "path_resolve cwd [q] = abs_path (normal_segments False q)"
proof -
  have q: "q \<noteq> []" using assms by (auto simp: is_absolute_def)
  have loop: "resolve_loop [q, cwd] [] = (q @ [slash], True)" using q assms by simp
  show ?thesis
    unfolding path_resolve_def append.simps rev.simps loop
    by (simp add: normalize_string_def abs_path_def normal_segments_trailing)
qed

lemma clean_not_dot: "clean_segment s \<Longrightarrow> s \<noteq> [] \<and> s \<noteq> ''.'' \<and> s \<noteq> ''..'' \<and> slash \<notin> set s"
  by (simp add: clean_segment_def)

lemma fold_push_clean_only:
  "\<forall>x \<in> set ws. clean_segment x \<Longrightarrow> fold (push_segment False) ws acc = acc @ ws"
  by (induction ws arbitrary: acc) (auto simp: push_clean_eq)


lemma normal_segments_no_Nil: "[] \<notin> set (normal_segments up p)"
proof
  assume "[] \<in> set (normal_segments up p)"
  then have "plain_segment []" using normal_segments_plain by blast
  then show False by (elim plain_segment_cases) (simp_all add: clean_segment_def)
qed

lemma join_normal_Nil: "join [slash] (normal_segments up p) = [] \<longleftrightarrow> normal_segments up p = []"
proof
  assume "join [slash] (normal_segments up p) = []"
  then have "(if normal_segments up p = [] then [[]] else normal_segments up p) = [[]]"
    using split_normalize [of up p] by simp
  then show "normal_segments up p = []" using normal_segments_no_Nil [of up p] by (auto split: if_splits)
qed simp

lemma join_normal_relative: "\<not> is_absolute (join [slash] (normal_segments up p))"
proof
  assume "is_absolute (join [slash] (normal_segments up p))"
  then obtain r where r: "join [slash] (normal_segments up p) = slash # r"
    by (auto simp: is_absolute_def starts_with_iff)
  then have "normal_segments up p \<noteq> []" using join_normal_Nil [of up p] by simp
  then have "normal_segments up p = [] # split_on slash r" using split_normalize [of up p] r by simp
  then show False using normal_segments_no_Nil [of up p] by (metis list.set_intros(1))
qed

lemma fold_push_split_trailing:
  "fold (push_segment up) (split_on slash (q @ [slash])) acc = fold (push_segment up) (split_on slash q) acc"
  unfolding split_on_append by (simp add: push_empty)

lemma split_no_sep: "\<forall>s \<in> set (split_on d s'). d \<notin> set s"
  using split_on_no_sep by blast

text \<open>Normalising a path does not change where it leads.\<close>

lemma resolve_normalize_absolute:
  assumes "is_absolute q"
  shows "path_resolve cwd [path_normalize q] = path_resolve cwd [q]"
proof -
  let ?n = "normal_segments False q"
  have q: "q \<noteq> []" using assms by (auto simp: is_absolute_def)
  have "path_normalize q = slash # join [slash] ?n \<or> path_normalize q = (slash # join [slash] ?n) @ [slash]"
    using assms q by (auto simp: path_normalize_def normalize_string_def join_normal_Nil Let_def)
  moreover have "normal_segments False (slash # join [slash] ?n) = ?n"
    using normal_segments_two [of False "[]" "join [slash] ?n"]
    by (simp add: split_normalize fold_push_clean_only normal_segments_clean push_empty
        normal_segments_def [of _ "[]"])
  ultimately have "normal_segments False (path_normalize q) = ?n" "is_absolute (path_normalize q)"
    using normal_segments_trailing [of False "slash # join [slash] ?n"] by (auto simp: is_absolute_def)
  then show ?thesis using resolve_absolute [of "path_normalize q"] resolve_absolute [OF assms] by simp
qed

lemma resolve_normalize_relative:
  assumes "is_absolute cwd" and "\<not> is_absolute q" and "q \<noteq> []"
  shows "path_resolve cwd [path_normalize q] = path_resolve cwd [q]"
proof -
  let ?n = "normal_segments True q"
  let ?to = "\<lambda>s acc. fold (push_segment False) (split_on slash s) acc"
  have forms: "path_normalize q \<in> {''.'', ''./''} \<and> ?n = [] \<or>
      path_normalize q \<in> {join [slash] ?n, join [slash] ?n @ [slash]} \<and> ?n \<noteq> []"
    using assms by (auto simp: path_normalize_def normalize_string_def join_normal_Nil Let_def)
  have n: "fold (push_segment False) ?n acc = ?to q acc" for acc
    unfolding normal_segments_def by (rule fold_push_normal) (auto dest: split_on_no_sep)
  have same: "?to (path_normalize q) acc = ?to q acc" for acc
  proof (cases "?n = []")
    case True
    have "?to ''.'' acc = acc" "?to ''./'' acc = acc" by (simp_all add: push_segment_def)
    then show ?thesis using forms n [of acc] True by auto
  next
    case False
    have "?to (join [slash] ?n) acc = ?to q acc" using n False by (simp add: split_normalize)
    then show ?thesis using forms False fold_push_split_trailing by auto
  qed
  have "\<not> is_absolute (join [slash] ?n @ [slash])" if "?n \<noteq> []"
    using join_normal_relative [of True q] join_normal_Nil [of True q] that
    by (cases "join [slash] ?n") (auto simp: is_absolute_def)
  then have "\<not> is_absolute (path_normalize q)"
    using forms join_normal_relative [of True q] by (auto simp: is_absolute_def)
  then show ?thesis using same resolve_relative [OF assms(1)] assms(2) by simp
qed

text \<open>Joining an ordinary name to a directory leads to that name in the directory.\<close>

lemma resolve_join_name:
  assumes "is_absolute cwd" and "clean_segment n"
  shows "\<exists>ss. (\<forall>s \<in> set ss. clean_segment s) \<and> path_resolve cwd [dir] = abs_path ss \<and>
    path_resolve cwd [path_join [dir, n]] = abs_path (ss @ [n])"
proof -
  have n: "n \<noteq> []" "slash \<notin> set n" "split_on slash n = [n]"
    using assms(2) by (auto simp: clean_segment_def split_on_single)
  define j where "j = (if dir = [] then n else dir @ slash # n)"
  have j: "path_join [dir, n] = path_normalize j" "j \<noteq> []"
    using n by (auto simp: path_join_def j_def)
  have same: "path_resolve cwd [path_normalize j] = path_resolve cwd [j]"
    using resolve_normalize_absolute [of j cwd] resolve_normalize_relative [OF assms(1) _ j(2)]
    by (cases "is_absolute j") simp_all
  define ss where "ss = (if is_absolute dir then normal_segments False dir
      else fold (push_segment False) (split_on slash dir) (normal_segments False cwd))"
  have dir: "path_resolve cwd [dir] = abs_path ss"
    using resolve_absolute [of dir cwd] resolve_relative [OF assms(1)] by (simp add: ss_def)
  have clean: "\<forall>s \<in> set ss. clean_segment s"
    unfolding ss_def using normal_segments_clean [of dir]
      fold_push_clean [OF normal_segments_clean split_no_sep, of dir cwd] by (cases "is_absolute dir") simp_all
  have "path_resolve cwd [j] = abs_path (ss @ [n])"
  proof (cases "is_absolute j")
    case True
    then have d: "is_absolute dir" "dir \<noteq> []"
      using n by (cases dir; auto simp: j_def is_absolute_def starts_with_iff)+
    then have "normal_segments False j = ss @ [n]"
      using normal_segments_two [of False dir n] n assms(2) by (simp add: j_def ss_def push_clean_eq)
    then show ?thesis using resolve_absolute [OF True] by simp
  next
    case False
    then have d: "\<not> is_absolute dir" by (cases dir) (auto simp: j_def is_absolute_def)
    have "fold (push_segment False) (split_on slash j) acc =
        fold (push_segment False) (split_on slash dir) acc @ [n]" for acc
      using n assms(2) split_on_append [of slash dir n] by (auto simp: j_def push_clean_eq push_empty)
    then show ?thesis using resolve_relative [OF assms(1) False] d by (simp add: ss_def)
  qed
  then show ?thesis using dir clean same j(1) by auto
qed

end
