(* ===== verification/Repo_Workspace.thy ===== *)
theory Repo_Workspace
  imports Schemas Sdk_Registry Node_Path
begin

text \<open>
  \<open>schemas/repository.ts\<close> (the workspace and its commands), \<open>repository/workspace.ts\<close>,
  \<open>repository/command-policy.ts\<close> and \<open>repository/path-policy.ts\<close>: what a repository workspace
  admits, how it is loaded, which commands may run and which files may be read and written.
\<close>

section \<open>Workspaces\<close>

record repository_command =
  rcm_command_id :: string
  rcm_executable :: string
  rcm_args :: "string list"
  rcm_display :: string

record repository_workspace =
  ws_workspace_id :: string
  ws_repo_root :: string
  ws_repo_name :: string
  ws_default_branch :: string
  ws_working_branch :: string
  ws_allowed_paths :: "string list"
  ws_denied_paths :: "string list"
  ws_max_file_bytes :: nat
  ws_max_files_per_task :: nat
  ws_allowed_commands :: "repository_command list"
  ws_denied_commands :: "string list"
  ws_require_approval_for_write :: bool
  ws_require_approval_for_command :: bool
  ws_trace_id :: string

definition repository_command_ok :: "repository_command \<Rightarrow> bool" where
  "repository_command_ok c =
     (nonempty (rcm_command_id c) \<and> nonempty (rcm_executable c) \<and> nonempty (rcm_display c))"

definition repository_workspace_ok :: "repository_workspace \<Rightarrow> bool" where
  "repository_workspace_ok w =
     (nonempty (ws_workspace_id w) \<and> nonempty (ws_repo_root w) \<and> nonempty (ws_repo_name w) \<and>
      nonempty (ws_default_branch w) \<and> nonempty (ws_working_branch w) \<and>
      1 \<le> ws_max_file_bytes w \<and> 1 \<le> ws_max_files_per_task w \<and>
      list_all repository_command_ok (ws_allowed_commands w) \<and> nonempty (ws_trace_id w))"

section \<open>Commands\<close>

definition unsafe_char :: "char \<Rightarrow> bool" where
  "unsafe_char c = (c \<in> set (''|;&<>'' @ [CHR 0x60] @ ''$*?()[]{}''))"

definition unsafe_token :: "string \<Rightarrow> bool" where
  "unsafe_token s = list_ex unsafe_char s"

definition find_allowed_command :: "repository_workspace \<Rightarrow> string \<Rightarrow> repository_command option" where
  "find_allowed_command w s =
     List.find (\<lambda>c. rcm_command_id c = s \<or> rcm_display c = s) (ws_allowed_commands w)"

definition assert_allowed_command :: "repository_workspace \<Rightarrow> string \<Rightarrow> thrown + repository_command" where
  "assert_allowed_command w s =
     (if s \<in> set (ws_denied_commands w) then Inl (Plain_error ''Command is denied by repository policy'')
      else if unsafe_token s then Inl (Plain_error ''Command contains unsupported shell syntax'')
      else
        (case find_allowed_command w s of
           None \<Rightarrow> Inl (Plain_error ''Command is not allowlisted'')
         | Some c \<Rightarrow>
             if list_ex unsafe_token (rcm_executable c # rcm_args c)
             then Inl (Plain_error ''Allowlisted command contains unsupported shell syntax'')
             else Inr c))"

definition command_of :: "string \<Rightarrow> string list \<Rightarrow> string \<Rightarrow> repository_command" where
  "command_of i args display =
     \<lparr>rcm_command_id = i, rcm_executable = hd args, rcm_args = tl args, rcm_display = display\<rparr>"

definition default_repository_commands :: "repository_command list" where
  "default_repository_commands =
     [command_of ''npm_test'' [''npm'', ''test''] ''npm test'',
      command_of ''npm_run_test'' [''npm'', ''run'', ''test''] ''npm run test'',
      command_of ''npm_run_lint'' [''npm'', ''run'', ''lint''] ''npm run lint'',
      command_of ''npm_run_typecheck'' [''npm'', ''run'', ''typecheck''] ''npm run typecheck'',
      command_of ''pnpm_test'' [''pnpm'', ''test''] ''pnpm test'',
      command_of ''pnpm_lint'' [''pnpm'', ''lint''] ''pnpm lint'',
      command_of ''pnpm_typecheck'' [''pnpm'', ''typecheck''] ''pnpm typecheck'',
      command_of ''git_diff_stat'' [''git'', ''diff'', ''--stat''] ''git diff --stat'',
      command_of ''git_diff'' [''git'', ''diff''] ''git diff'',
      command_of ''git_status_short'' [''git'', ''status'', ''--short''] ''git status --short'']"

section \<open>Loading a workspace\<close>

record repository_policy_file =
  pl_allowed_paths :: "string list option"
  pl_denied_paths :: "string list option"
  pl_max_file_bytes :: "nat option"
  pl_max_files_per_task :: "nat option"
  pl_allowed_commands :: "repository_command list option"
  pl_denied_commands :: "string list option"
  pl_require_approval_for_write :: "bool option"
  pl_require_approval_for_command :: "bool option"

definition no_policy_file :: repository_policy_file where
  "no_policy_file =
     \<lparr>pl_allowed_paths = None, pl_denied_paths = None, pl_max_file_bytes = None,
      pl_max_files_per_task = None, pl_allowed_commands = None, pl_denied_commands = None,
      pl_require_approval_for_write = None, pl_require_approval_for_command = None\<rparr>"

definition repository_policy_file_ok :: "repository_policy_file \<Rightarrow> bool" where
  "repository_policy_file_ok p =
     (opt_ok (\<lambda>n. 1 \<le> n) (pl_max_file_bytes p) \<and> opt_ok (\<lambda>n. 1 \<le> n) (pl_max_files_per_task p) \<and>
      opt_ok (list_all repository_command_ok) (pl_allowed_commands p))"

text \<open>The policy file: absent, not JSON text (with the error), or a value of its shape.\<close>

definition load_policy :: "(thrown + repository_policy_file) option \<Rightarrow> thrown + repository_policy_file" where
  "load_policy file =
     (case file of
        None \<Rightarrow> Inr no_policy_file
      | Some (Inl e) \<Rightarrow> Inl e
      | Some (Inr p) \<Rightarrow> if repository_policy_file_ok p then Inr p else Inl Zod_error)"

definition is_word_char :: "char \<Rightarrow> bool" where
  "is_word_char c =
     (let n = of_char c :: nat
      in (48 \<le> n \<and> n \<le> 57) \<or> (65 \<le> n \<and> n \<le> 90) \<or> (97 \<le> n \<and> n \<le> 122) \<or> n = 95 \<or> n = 45)"

definition load_repository_workspace ::
    "string \<Rightarrow> (thrown + repository_policy_file) option \<Rightarrow> string \<Rightarrow> string option \<Rightarrow> string \<Rightarrow> bool
      \<Rightarrow> bool option \<Rightarrow> thrown + repository_workspace" where
  "load_repository_workspace cwd file repo_root workspace_id trace_id dry_run require_approval =
     (let root = path_resolve cwd [repo_root]
      in case load_policy file of
           Inl e \<Rightarrow> Inl e
         | Inr p \<Rightarrow>
             (let w =
                \<lparr>ws_workspace_id = nullish workspace_id
                   (''repo_'' @ map (\<lambda>c. if is_word_char c then c else CHR ''_'') (path_basename root)),
                 ws_repo_root = root, ws_repo_name = path_basename root,
                 ws_default_branch = ''main'', ws_working_branch = ''local'',
                 ws_allowed_paths = nullish (pl_allowed_paths p) [''**''],
                 ws_denied_paths = nullish (pl_denied_paths p)
                   [''.git/**'', ''.env'', ''.env.*'', ''*.pem'', ''*.key'', ''id_rsa'', ''id_ed25519''],
                 ws_max_file_bytes = nullish (pl_max_file_bytes p) 128000,
                 ws_max_files_per_task = nullish (pl_max_files_per_task p) 24,
                 ws_allowed_commands = nullish (pl_allowed_commands p) default_repository_commands,
                 ws_denied_commands = nullish (pl_denied_commands p) [],
                 ws_require_approval_for_write =
                   (if dry_run then True
                    else nullish (nullish_opt require_approval (pl_require_approval_for_write p)) False),
                 ws_require_approval_for_command = nullish (pl_require_approval_for_command p) False,
                 ws_trace_id = trace_id\<rparr>
              in if repository_workspace_ok w then Inr w else Inl Zod_error))"

section \<open>Path patterns\<close>

text \<open>The dot of a regular expression matches every character but the line terminators.\<close>

definition line_terminator :: "char \<Rightarrow> bool" where
  "line_terminator c = (of_char c = (10::nat) \<or> of_char c = (13::nat))"

text \<open>\<open>(^|\/).*\<close> just before the end of \<open>s\<close>: from the beginning of \<open>s\<close> or from one of its slashes
  there is no line terminator.\<close>

definition reaches_back :: "string \<Rightarrow> bool" where
  "reaches_back s =
     (let t = takeWhile (\<lambda>c. \<not> line_terminator c) (rev s) in length t = length s \<or> slash \<in> set t)"

definition dot_star_end :: "string \<Rightarrow> bool" where
  "dot_star_end s = (\<not> list_ex line_terminator s)"

definition secret_env :: "string \<Rightarrow> bool" where
  "secret_env p =
     (p = ''.env'' \<or> (starts_with p ''.env.'' \<and> dot_star_end (drop 5 p)))"

definition secret_suffix :: "string \<Rightarrow> string \<Rightarrow> bool" where
  "secret_suffix ext p = (ends_with p ext \<and> reaches_back (take (length p - length ext) p))"

definition secret_name :: "string \<Rightarrow> string \<Rightarrow> bool" where
  "secret_name name p = (p = name \<or> ends_with p (slash # name))"

definition secret_word :: "string \<Rightarrow> string \<Rightarrow> bool" where
  "secret_word word p =
     list_ex (\<lambda>i. starts_with (drop i (to_lower p)) word \<and> reaches_back (take i p) \<and>
       dot_star_end (drop (i + length word) p)) [0..<Suc (length p)]"

definition secret_path :: "string \<Rightarrow> bool" where
  "secret_path p =
     (secret_env p \<or> secret_suffix ''.pem'' p \<or> secret_suffix ''.key'' p \<or>
      secret_name ''id_rsa'' p \<or> secret_name ''id_ed25519'' p \<or>
      secret_word ''secret'' p \<or> secret_word ''credential'' p \<or> secret_word ''token'' p)"

text \<open>The regular expression made of a pattern with stars: every other character stands for itself.\<close>

fun glob_match :: "string \<Rightarrow> string \<Rightarrow> bool" where
  "glob_match [] s = (s = [])"
| "glob_match (c # p) [] = (c = CHR ''*'' \<and> glob_match p [])"
| "glob_match (c # p) (d # s) =
     (if c = CHR ''*'' then glob_match p (d # s) \<or> (\<not> line_terminator d \<and> glob_match (c # p) s)
      else c = d \<and> glob_match p s)"

definition to_posix :: "string \<Rightarrow> string" where
  "to_posix s = join [slash] (split_on slash s)"

definition matches_pattern :: "string \<Rightarrow> string \<Rightarrow> bool" where
  "matches_pattern path pattern =
     (let n = to_posix pattern
      in if n = ''**'' \<or> n = ''*'' then True
         else if ends_with n ''/**''
         then path = take (length n - 3) n \<or> starts_with path (take (length n - 2) n)
         else if starts_with n ''**/*.'' then ends_with path (drop 4 n)
         else if str_includes n ''*'' then glob_match n path
         else path = n \<or> starts_with path (n @ [slash]))"

definition matches_any :: "string \<Rightarrow> string list \<Rightarrow> bool" where
  "matches_any path patterns = (if patterns = [] then False else list_ex (matches_pattern path) patterns)"

section \<open>Path decisions\<close>

record path_decision =
  pd_ok :: bool
  pd_absolute_path :: "string option"
  pd_relative_path :: "string option"
  pd_reason :: "string option"

definition path_refused :: "string \<Rightarrow> path_decision" where
  "path_refused reason =
     \<lparr>pd_ok = False, pd_absolute_path = None, pd_relative_path = None, pd_reason = Some reason\<rparr>"

definition resolve_repository_path :: "string \<Rightarrow> repository_workspace \<Rightarrow> string \<Rightarrow> path_decision" where
  "resolve_repository_path cwd w relative_path =
     (let root = path_resolve cwd [ws_repo_root w];
          absolute = path_resolve cwd [root, relative_path];
          rel = to_posix (path_relative cwd root absolute)
      in if rel = [] \<or> starts_with rel ''..'' \<or> str_includes rel ''../'' \<or> absolute = root
         then path_refused ''Path is outside the repository root''
         else if rel = ''.git'' \<or> starts_with rel ''.git/'' then path_refused ''Git internals are denied''
         else if secret_path rel then path_refused ''Secret-like paths are denied''
         else if \<not> matches_any rel (ws_allowed_paths w)
         then path_refused ''Path is not allowed by repository policy''
         else if matches_any rel (ws_denied_paths w)
         then path_refused ''Path is denied by repository policy''
         else \<lparr>pd_ok = True, pd_absolute_path = Some absolute, pd_relative_path = Some rel,
               pd_reason = None\<rparr>)"

text \<open>The file system as the code sees it: where a path leads through the links on it, which paths
  are links themselves, the contents of the files and the directories by the place they are at, and
  the message of an error of the operating system.\<close>

record file_system =
  fs_locate :: "string \<Rightarrow> string"
  fs_link :: "string \<Rightarrow> bool"
  fs_files :: "(string \<times> string) list"
  fs_dirs :: "string list"
  fs_error :: "string \<Rightarrow> string"

definition fs_exists :: "file_system \<Rightarrow> string \<Rightarrow> bool" where
  "fs_exists F p = (fs_locate F p \<in> set (fs_dirs F) \<or> map_of (fs_files F) (fs_locate F p) \<noteq> None)"

definition fs_real_path :: "file_system \<Rightarrow> string \<Rightarrow> thrown + string" where
  "fs_real_path F p = (if fs_exists F p then Inr (fs_locate F p) else Inl (Plain_error (fs_error F p)))"

definition fs_read :: "file_system \<Rightarrow> string \<Rightarrow> thrown + string" where
  "fs_read F p =
     (case map_of (fs_files F) (fs_locate F p) of
        None \<Rightarrow> Inl (Plain_error (fs_error F p))
      | Some c \<Rightarrow> Inr c)"

definition fs_size :: "file_system \<Rightarrow> string \<Rightarrow> nat" where
  "fs_size F p = (case fs_read F p of Inl _ \<Rightarrow> 0 | Inr c \<Rightarrow> utf8_length c)"

definition is_inside :: "string \<Rightarrow> string \<Rightarrow> string \<Rightarrow> bool" where
  "is_inside cwd parent target =
     (let rel = path_relative cwd parent target
      in rel = [] \<or> (\<not> starts_with rel ''..'' \<and> \<not> str_includes rel ''../'' \<and> \<not> is_absolute rel))"

function nearest_existing :: "(string \<Rightarrow> bool) \<Rightarrow> string \<Rightarrow> string" where
  "nearest_existing present current =
     (if \<not> present current \<and> path_dirname current \<noteq> current
      then nearest_existing present (path_dirname current) else current)"
  by auto
termination
  by (relation "measure (\<lambda>(present, current). dirname_measure current)") (auto intro: dirname_shrinks)

declare nearest_existing.simps [simp del]

definition nearest_existing_parent :: "file_system \<Rightarrow> string \<Rightarrow> string" where
  "nearest_existing_parent F path = nearest_existing (fs_exists F) (path_dirname path)"

definition assert_real_repository_target ::
    "string \<Rightarrow> file_system \<Rightarrow> repository_workspace \<Rightarrow> string \<Rightarrow> bool \<Rightarrow> thrown + unit" where
  "assert_real_repository_target cwd F w absolute must_exist =
     (case fs_real_path F (path_resolve cwd [ws_repo_root w]) of
        Inl e \<Rightarrow> Inl e
      | Inr real_root \<Rightarrow>
          if fs_exists F absolute
          then (if fs_link F absolute
                then Inl (Plain_error ''Repository paths may not be symbolic links'')
                else if \<not> is_inside cwd real_root (fs_locate F absolute)
                then Inl (Plain_error ''Path resolves outside the repository root'')
                else Inr ())
          else if must_exist then Inl (Plain_error ''Repository path does not exist'')
          else
            (let parent = nearest_existing_parent F absolute
             in if fs_link F parent
                then Inl (Plain_error ''Repository paths may not be under symbolic links'')
                else (case fs_real_path F parent of
                        Inl e \<Rightarrow> Inl e
                      | Inr real_parent \<Rightarrow>
                          if \<not> is_inside cwd real_root real_parent
                          then Inl (Plain_error ''Path parent resolves outside the repository root'')
                          else Inr ())))"

definition refusal :: "path_decision \<Rightarrow> thrown" where
  "refusal d = Plain_error (nullish (pd_reason d) ''Path denied'')"

definition assert_readable_repository_path ::
    "string \<Rightarrow> file_system \<Rightarrow> repository_workspace \<Rightarrow> string \<Rightarrow> thrown + string \<times> string" where
  "assert_readable_repository_path cwd F w relative_path =
     (let d = resolve_repository_path cwd w relative_path
      in if \<not> pd_ok d \<or> \<not> truthy (pd_absolute_path d) \<or> \<not> truthy (pd_relative_path d) then Inl (refusal d)
         else
           (let absolute = the (pd_absolute_path d)
            in case assert_real_repository_target cwd F w absolute True of
                 Inl e \<Rightarrow> Inl e
               | Inr _ \<Rightarrow>
                   if ws_max_file_bytes w < fs_size F absolute
                   then Inl (Plain_error ''File exceeds repository policy byte limit'')
                   else Inr (absolute, the (pd_relative_path d))))"

definition assert_writable_repository_path ::
    "string \<Rightarrow> file_system \<Rightarrow> repository_workspace \<Rightarrow> string \<Rightarrow> thrown + string \<times> string" where
  "assert_writable_repository_path cwd F w relative_path =
     (let d = resolve_repository_path cwd w relative_path
      in if \<not> pd_ok d \<or> \<not> truthy (pd_absolute_path d) \<or> \<not> truthy (pd_relative_path d) then Inl (refusal d)
         else
           (case assert_real_repository_target cwd F w (the (pd_absolute_path d)) False of
              Inl e \<Rightarrow> Inl e
            | Inr _ \<Rightarrow> Inr (the (pd_absolute_path d), the (pd_relative_path d))))"


section \<open>What an accepted path is\<close>

lemma to_posix_id [simp]: "to_posix s = s"
  by (simp add: to_posix_def)

text \<open>The root a workspace resolves to, and the place of a path below it.\<close>

definition root_segments :: "string \<Rightarrow> repository_workspace \<Rightarrow> string list" where
  "root_segments cwd w = path_segments (path_resolve cwd [ws_repo_root w])"

lemma resolved_segments:
  assumes "is_absolute cwd"
  shows "path_resolve cwd args = abs_path (path_segments (path_resolve cwd args)) \<and>
    (\<forall>s \<in> set (path_segments (path_resolve cwd args)). clean_segment s)"
  using path_resolve_abs [OF assms, of args] segments_abs_path by fastforce

definition below_root :: "string \<Rightarrow> repository_workspace \<Rightarrow> string list \<Rightarrow> string \<Rightarrow> bool" where
  "below_root cwd w us absolute =
     (us \<noteq> [] \<and> list_all clean_segment us \<and> absolute = abs_path (root_segments cwd w @ us))"

lemma accepted_path:
  assumes "is_absolute cwd" and "pd_ok (resolve_repository_path cwd w p)"
  shows "\<exists>us. resolve_repository_path cwd w p =
      \<lparr>pd_ok = True, pd_absolute_path = Some (abs_path (root_segments cwd w @ us)),
       pd_relative_path = Some (join [slash] us), pd_reason = None\<rparr> \<and>
    us \<noteq> [] \<and> list_all clean_segment us \<and> join [slash] us \<noteq> ''.git'' \<and>
    \<not> starts_with (join [slash] us) ''.git/'' \<and> \<not> secret_path (join [slash] us) \<and>
    matches_any (join [slash] us) (ws_allowed_paths w) \<and>
    \<not> matches_any (join [slash] us) (ws_denied_paths w)"
proof -
  define root where "root = path_resolve cwd [ws_repo_root w]"
  define absolute where "absolute = path_resolve cwd [root, p]"
  define rel where "rel = path_relative cwd root absolute"
  have root: "root = abs_path (root_segments cwd w)" "\<forall>s \<in> set (root_segments cwd w). clean_segment s"
    using resolved_segments [OF assms(1), of "[ws_repo_root w]"] unfolding root_def root_segments_def by auto
  obtain ts where ts: "absolute = abs_path ts" "\<forall>s \<in> set ts. clean_segment s"
    using path_resolve_abs [OF assms(1)] unfolding absolute_def by blast
  have dec: "resolve_repository_path cwd w p =
    (if rel = [] \<or> starts_with rel ''..'' \<or> str_includes rel ''../'' \<or> absolute = root
     then path_refused ''Path is outside the repository root''
     else if rel = ''.git'' \<or> starts_with rel ''.git/'' then path_refused ''Git internals are denied''
     else if secret_path rel then path_refused ''Secret-like paths are denied''
     else if \<not> matches_any rel (ws_allowed_paths w)
     then path_refused ''Path is not allowed by repository policy''
     else if matches_any rel (ws_denied_paths w)
     then path_refused ''Path is denied by repository policy''
     else \<lparr>pd_ok = True, pd_absolute_path = Some absolute, pd_relative_path = Some rel,
           pd_reason = None\<rparr>)"
    by (simp only: resolve_repository_path_def Let_def root_def absolute_def rel_def to_posix_id)
  have refused: "\<not> pd_ok (path_refused r)" for r by (simp add: path_refused_def)
  have ok: "rel \<noteq> []" "\<not> starts_with rel ''..''" "absolute \<noteq> root" "rel \<noteq> ''.git''"
    "\<not> starts_with rel ''.git/''" "\<not> secret_path rel" "matches_any rel (ws_allowed_paths w)"
    "\<not> matches_any rel (ws_denied_paths w)"
    "resolve_repository_path cwd w p =
      \<lparr>pd_ok = True, pd_absolute_path = Some absolute, pd_relative_path = Some rel, pd_reason = None\<rparr>"
    using assms(2) refused unfolding dec by (simp_all split: if_splits)
  from ok(2) obtain us where us: "ts = root_segments cwd w @ us" "rel = join [slash] us"
    using relative_inside [OF root(2) ts(2), of cwd] unfolding rel_def root(1) ts(1) by blast
  have "us \<noteq> []" using ok(1) us(2) by auto
  moreover have "list_all clean_segment us" using ts(2) us(1) by (auto simp: list_all_iff)
  ultimately show ?thesis
    using ok us ts(1) by (intro exI [of _ us]) simp
qed


lemma join_hd_git:
  assumes "us \<noteq> []" and "hd us = g"
  shows "join [slash] us = g \<or> starts_with (join [slash] us) (g @ [slash])"
proof (cases us)
  case (Cons u us')
  show ?thesis
  proof (cases us')
    case Nil
    with Cons assms show ?thesis by simp
  next
    case (Cons v vs)
    then have "join [slash] us = (g @ [slash]) @ join [slash] us'"
      using \<open>us = u # us'\<close> assms by simp
    then show ?thesis by (simp only: starts_with_append simp_thms)
  qed
qed (use assms in simp)

text \<open>The real target of an accepted path.\<close>

definition target_inside :: "string \<Rightarrow> file_system \<Rightarrow> repository_workspace \<Rightarrow> string \<Rightarrow> bool" where
  "target_inside cwd F w absolute =
     (let root = fs_locate F (path_resolve cwd [ws_repo_root w]);
          anchor = (if fs_exists F absolute then absolute else nearest_existing_parent F absolute)
      in \<not> fs_link F anchor \<and> fs_exists F anchor \<and> is_inside cwd root (fs_locate F anchor))"

lemma real_target:
  assumes "assert_real_repository_target cwd F w absolute must_exist = Inr u"
  shows "target_inside cwd F w absolute \<and> (must_exist \<longrightarrow> fs_exists F absolute)"
  using assms
  by (auto simp: assert_real_repository_target_def target_inside_def fs_real_path_def Let_def
      split: if_splits sum.splits)

lemma is_inside_segments:
  assumes "\<forall>s \<in> set fs. clean_segment s" and "\<forall>s \<in> set ts. clean_segment s"
    and "is_inside cwd (abs_path fs) (abs_path ts)"
  shows "\<exists>us. ts = fs @ us"
proof (cases "path_relative cwd (abs_path fs) (abs_path ts) = []")
  case True
  then have "\<not> starts_with (path_relative cwd (abs_path fs) (abs_path ts)) ''..''" by simp
  from relative_inside [OF assms(1,2) this] show ?thesis by blast
next
  case False
  with assms(3) have "\<not> starts_with (path_relative cwd (abs_path fs) (abs_path ts)) ''..''"
    by (simp add: is_inside_def Let_def)
  from relative_inside [OF assms(1,2) this] show ?thesis by blast
qed

section \<open>Two holes\<close>

text \<open>The policy a workspace gets by default accepts an environment file in a subdirectory: the
  pattern for \<open>.env\<close> is anchored at the root, as is the default entry of the denied paths.\<close>

definition default_workspace :: repository_workspace where
  "default_workspace =
     \<lparr>ws_workspace_id = ''w'', ws_repo_root = ''/r'', ws_repo_name = ''r'', ws_default_branch = ''main'',
      ws_working_branch = ''local'', ws_allowed_paths = [''**''],
      ws_denied_paths = [''.git/**'', ''.env'', ''.env.*'', ''*.pem'', ''*.key'', ''id_rsa'', ''id_ed25519''],
      ws_max_file_bytes = 128000, ws_max_files_per_task = 24, ws_allowed_commands = [],
      ws_denied_commands = [], ws_require_approval_for_write = False,
      ws_require_approval_for_command = False, ws_trace_id = ''t''\<rparr>"

lemma env_path_resolved:
  "path_resolve ''/'' [''/r''] = ''/r''" "path_resolve ''/'' [''/r'', ''app/.env''] = ''/r/app/.env''"
  "path_relative ''/'' ''/r'' ''/r/app/.env'' = ''app/.env''"
  by (simp_all add: path_relative_def path_resolve_def normalize_string_def normal_segments_def
      push_segment_def path_segments_def is_absolute_def)

lemma env_path_not_secret: "\<not> secret_path ''app/.env''"
  by (simp add: secret_path_def secret_env_def secret_suffix_def secret_name_def secret_word_def
      ends_with_def to_lower_def to_lower_char_def upt_rec)

lemma env_path_allowed:
  "matches_any ''app/.env'' (ws_allowed_paths default_workspace)"
  "\<not> matches_any ''app/.env'' (ws_denied_paths default_workspace)"
  by (simp_all add: matches_any_def matches_pattern_def default_workspace_def ends_with_def
      str_includes_def)

lemma nested_env_file_accepted:
  "resolve_repository_path ''/'' default_workspace ''app/.env'' =
     \<lparr>pd_ok = True, pd_absolute_path = Some ''/r/app/.env'', pd_relative_path = Some ''app/.env'',
      pd_reason = None\<rparr>"
proof -
  have root: "ws_repo_root default_workspace = ''/r''" by (simp add: default_workspace_def)
  show ?thesis
    unfolding resolve_repository_path_def root env_path_resolved Let_def to_posix_id
    by (simp add: env_path_not_secret env_path_allowed str_includes_def)
qed

text \<open>A dangling link is not seen: \<open>existsSync\<close> follows it, finds nothing, and only the parent is
  checked. Writing to the accepted path then makes the file the link names, outside the root.\<close>

definition dangling_fs :: file_system where
  "dangling_fs =
     \<lparr>fs_locate = (\<lambda>p. if p = ''/r/x'' then ''/out'' else p), fs_link = (\<lambda>p. p = ''/r/x''),
      fs_files = [], fs_dirs = [''/'', ''/r''], fs_error = id\<rparr>"

lemma x_path:
  "path_resolve ''/'' [''/r'', ''x''] = ''/r/x''" "path_relative ''/'' ''/r'' ''/r/x'' = ''x''"
  "path_relative ''/'' ''/r'' ''/r'' = []" "path_dirname ''/r/x'' = ''/r''"
  by (simp_all add: path_relative_def path_resolve_def normalize_string_def normal_segments_def
      push_segment_def path_segments_def is_absolute_def path_dirname_def parent_tail_def)

lemma x_allowed:
  "\<not> secret_path ''x''" "matches_any ''x'' (ws_allowed_paths default_workspace)"
  "\<not> matches_any ''x'' (ws_denied_paths default_workspace)"
  by (simp_all add: secret_path_def secret_env_def secret_suffix_def secret_name_def secret_word_def
      ends_with_def to_lower_def to_lower_char_def upt_rec matches_any_def matches_pattern_def
      default_workspace_def str_includes_def)

lemma x_resolved:
  "resolve_repository_path ''/'' default_workspace ''x'' =
     \<lparr>pd_ok = True, pd_absolute_path = Some ''/r/x'', pd_relative_path = Some ''x'', pd_reason = None\<rparr>"
proof -
  have root: "ws_repo_root default_workspace = ''/r''" by (simp add: default_workspace_def)
  show ?thesis
    unfolding resolve_repository_path_def root env_path_resolved x_path Let_def to_posix_id
    by (simp add: x_allowed str_includes_def)
qed

lemma x_writable:
  assumes "fs_exists F ''/r''" and "\<not> fs_exists F ''/r/x''" and "fs_locate F ''/r'' = ''/r''"
    and "\<not> fs_link F ''/r''"
  shows "assert_writable_repository_path ''/'' F default_workspace ''x'' = Inr (''/r/x'', ''x'')"
proof -
  have root: "ws_repo_root default_workspace = ''/r''" by (simp add: default_workspace_def)
  have "nearest_existing_parent F ''/r/x'' = ''/r''"
    unfolding nearest_existing_parent_def x_path by (subst nearest_existing.simps) (simp add: assms)
  then have "assert_real_repository_target ''/'' F default_workspace ''/r/x'' False = Inr ()"
    unfolding assert_real_repository_target_def root env_path_resolved fs_real_path_def
    by (simp add: assms is_inside_def x_path)
  then show ?thesis by (simp add: assert_writable_repository_path_def x_resolved)
qed

lemma dangling_link_writable:
  "assert_writable_repository_path ''/'' dangling_fs default_workspace ''x'' = Inr (''/r/x'', ''x'') \<and>
   fs_locate dangling_fs ''/r/x'' = ''/out''"
  by (simp add: x_writable fs_exists_def dangling_fs_def)

definition plain_fs :: file_system where
  "plain_fs =
     \<lparr>fs_locate = (\<lambda>p. p), fs_link = (\<lambda>_. False), fs_files = [], fs_dirs = [''/'', ''/r''],
      fs_error = id\<rparr>"

section \<open>Properties\<close>

lemma decision_paths:
  assumes "is_absolute cwd" and "pd_ok (resolve_repository_path cwd w p)"
    and "Some a = pd_absolute_path (resolve_repository_path cwd w p)"
    and "Some r = pd_relative_path (resolve_repository_path cwd w p)"
  shows "\<exists>us. us \<noteq> [] \<and> list_all clean_segment us \<and> hd us \<noteq> ''.git'' \<and>
    a = abs_path (root_segments cwd w @ us) \<and> r = join [slash] us \<and> \<not> secret_path r \<and>
    matches_any r (ws_allowed_paths w) \<and> \<not> matches_any r (ws_denied_paths w)"
proof -
  obtain us where us: "resolve_repository_path cwd w p =
      \<lparr>pd_ok = True, pd_absolute_path = Some (abs_path (root_segments cwd w @ us)),
       pd_relative_path = Some (join [slash] us), pd_reason = None\<rparr>"
    "us \<noteq> []" "list_all clean_segment us" "join [slash] us \<noteq> ''.git''"
    "\<not> starts_with (join [slash] us) ''.git/''" "\<not> secret_path (join [slash] us)"
    "matches_any (join [slash] us) (ws_allowed_paths w)"
    "\<not> matches_any (join [slash] us) (ws_denied_paths w)"
    using accepted_path [OF assms(1,2)] by blast
  have "hd us \<noteq> ''.git''" using join_hd_git [OF us(2), of "''.git''"] us(4,5) by auto
  with us assms(3,4) show ?thesis by (intro exI [of _ us]) simp
qed

text \<open>C28: Whatever path a caller asks for - absolute, with dots, with doubled slashes - a path that
  may be read or written lies strictly below the repository root as a chain of ordinary
  segments; it is not in the .git directory, matches none of the secret patterns, is allowed and not denied. If
  the file exists (as seen through links) it is no link and really lies inside the real root; otherwise only the nearest existing directory
  above it does. So a dangling link below an existing directory is accepted for writing (dangling_link_writable),
  and the pattern for environment files covers those at the root only (nested_env_file_accepted).\<close>
theorem repository_paths_confined:
  assumes "is_absolute cwd"
    and "assert_readable_repository_path cwd F w p = Inr (a, r) \<or>
      assert_writable_repository_path cwd F w p = Inr (a, r)"
  shows "\<exists>us. us \<noteq> [] \<and> list_all clean_segment us \<and> hd us \<noteq> ''.git'' \<and>
    a = abs_path (root_segments cwd w @ us) \<and> r = join [slash] us \<and> \<not> secret_path r \<and>
    matches_any r (ws_allowed_paths w) \<and> \<not> matches_any r (ws_denied_paths w) \<and>
    target_inside cwd F w a"
proof -
  have "pd_ok (resolve_repository_path cwd w p) \<and>
      Some a = pd_absolute_path (resolve_repository_path cwd w p) \<and>
      Some r = pd_relative_path (resolve_repository_path cwd w p) \<and> target_inside cwd F w a"
    using assms(2) real_target
    by (auto simp: assert_readable_repository_path_def assert_writable_repository_path_def Let_def truthy_def
        split: if_splits sum.splits option.splits)
  with decision_paths [OF assms(1), of w p a r] show ?thesis by blast
qed

theorem repository_paths_confined_witness:
  "\<exists>us. ''/r/x'' = abs_path (root_segments ''/'' default_workspace @ us) \<and> us \<noteq> []"
proof -
  have "assert_writable_repository_path ''/'' plain_fs default_workspace ''x'' = Inr (''/r/x'', ''x'')"
    by (simp add: x_writable fs_exists_def plain_fs_def)
  with repository_paths_confined [of "''/''" plain_fs default_workspace "''x''" "''/r/x''" "''x''"]
  show ?thesis by (auto simp: is_absolute_def)
qed

end
