(* ===== verification/Scope_Expansion.thy ===== *)
theory Scope_Expansion
  imports Schemas
begin

text \<open>
  \<open>repository/scope-expansion.ts\<close>: a request to widen what a work order may touch, its normal
  form when it is filed, the digest an approval is bound to, and its change of status.
\<close>

datatype scope_status = Scope_pending_approval | Scope_approved | Scope_rejected | Scope_expired | Scope_applied

record scope_request =
  sx_request_id :: string
  sx_plan_id :: string
  sx_node_id :: string
  sx_work_order_id :: "string option"
  sx_reason :: string
  sx_requested_files :: "string list option"
  sx_requested_capabilities :: "string list option"
  sx_requested_verification_commands :: "string list option"
  sx_requested_risk_level :: "risk_level option"
  sx_evidence_refs :: "string list"
  sx_latest_failure_refs :: "string list option"
  sx_status :: "scope_status option"
  sx_created_at :: "string option"
  sx_decided_at :: "string option"
  sx_approval_id :: "string option"

definition scope_request_ok :: "env \<Rightarrow> scope_request \<Rightarrow> bool" where
  "scope_request_ok E r =
     (nonempty (sx_request_id r) \<and> nonempty (sx_plan_id r) \<and> nonempty (sx_node_id r) \<and>
      opt_ok nonempty (sx_work_order_id r) \<and> nonempty (sx_reason r) \<and>
      opt_ok (list_all nonempty) (sx_requested_files r) \<and>
      opt_ok (list_all nonempty) (sx_requested_capabilities r) \<and>
      opt_ok (list_all nonempty) (sx_requested_verification_commands r) \<and>
      list_all nonempty (sx_evidence_refs r) \<and> opt_ok (list_all nonempty) (sx_latest_failure_refs r) \<and>
      opt_ok (datetime_ok E) (sx_created_at r) \<and> opt_ok (datetime_ok E) (sx_decided_at r) \<and>
      opt_ok nonempty (sx_approval_id r))"

text \<open>A persisted request is one with a work order, a status and a creation time.\<close>

definition persisted_scope_request_ok :: "env \<Rightarrow> scope_request \<Rightarrow> bool" where
  "persisted_scope_request_ok E r =
     (scope_request_ok E r \<and> sx_work_order_id r \<noteq> None \<and> sx_status r \<noteq> None \<and> sx_created_at r \<noteq> None)"

definition normalize_scope_expansion_request ::
    "env \<Rightarrow> scope_request \<Rightarrow> string \<Rightarrow> string \<Rightarrow> string \<Rightarrow> string option \<Rightarrow> scope_status option
      \<Rightarrow> string \<Rightarrow> scope_request option" where
  "normalize_scope_expansion_request E r plan_id node_id work_order_id approval_id status now =
     (let n = r\<lparr>sx_plan_id := plan_id, sx_node_id := node_id,
            sx_work_order_id := Some (nullish (sx_work_order_id r) work_order_id),
            sx_status := Some (nullish (nullish_opt status (sx_status r)) Scope_pending_approval),
            sx_created_at := Some (nullish (sx_created_at r) now),
            sx_approval_id :=
              (if truthy (nullish_opt approval_id (sx_approval_id r))
               then nullish_opt approval_id (sx_approval_id r) else sx_approval_id r)\<rparr>
      in if persisted_scope_request_ok E n then Some n else None)"

definition scope_request_object :: "scope_request \<Rightarrow> json" where
  "scope_request_object r = JObj
     [(''request_id'', JStr (sx_request_id r)),
      (''plan_id'', JStr (sx_plan_id r)),
      (''node_id'', JStr (sx_node_id r)),
      (''work_order_id'', jundef JStr (sx_work_order_id r)),
      (''reason'', JStr (sx_reason r)),
      (''requested_files'', jstrs (nullish (sx_requested_files r) [])),
      (''requested_capabilities'', jstrs (nullish (sx_requested_capabilities r) [])),
      (''requested_verification_commands'', jstrs (nullish (sx_requested_verification_commands r) [])),
      (''requested_risk_level'', jundef (\<lambda>l. JStr (risk_str l)) (sx_requested_risk_level r)),
      (''evidence_refs'', jstrs (sx_evidence_refs r)),
      (''latest_failure_refs'', jstrs (nullish (sx_latest_failure_refs r) []))]"

definition scope_expansion_request_digest :: "env \<Rightarrow> scope_request \<Rightarrow> string option" where
  "scope_expansion_request_digest E r =
     (if scope_request_ok E r then Some (stable_hash E (scope_request_object r)) else None)"

definition mark_scope_expansion_request ::
    "env \<Rightarrow> scope_request \<Rightarrow> scope_status \<Rightarrow> string \<Rightarrow> scope_request option" where
  "mark_scope_expansion_request E r status now =
     (let m = r\<lparr>sx_status := Some status,
            sx_decided_at :=
              (if status \<in> {Scope_approved, Scope_rejected, Scope_expired, Scope_applied}
               then Some (nullish (sx_decided_at r) now) else sx_decided_at r)\<rparr>
      in if persisted_scope_request_ok E m then Some m else None)"

text \<open>Neither the status nor the dates of a request enter its digest, so a request keeps the digest it
  was approved with when it is marked or filed again under the same plan, node and work order.\<close>

lemma digest_of_marked:
  assumes "mark_scope_expansion_request E r status now = Some m"
  shows "scope_expansion_request_digest E m = Some (stable_hash E (scope_request_object r))"
proof -
  have "scope_request_ok E m" "scope_request_object m = scope_request_object r"
    using assms by (auto simp: mark_scope_expansion_request_def Let_def persisted_scope_request_ok_def
        scope_request_object_def split: if_splits)
  then show ?thesis by (simp add: scope_expansion_request_digest_def)
qed

end
