(* ===== verification/Patch_Plan.thy ===== *)
theory Patch_Plan
  imports Scope_Expansion Repo_Workspace
begin

text \<open>
  The patch plans of \<open>repository/patch-plan.ts\<close> and the application of one text operation
  (\<open>repository/patch-operations.ts\<close>).
\<close>

section \<open>Records\<close>

datatype precondition_kind = PK_file_hash | PK_file_exists | PK_file_absent | PK_text_present

record patch_precondition =
  pp_kind :: precondition_kind
  pp_path :: "string option"
  pp_expected_sha256 :: "string option"
  pp_text :: "string option"
  pp_summary :: string

record patch_policy =
  py_allowed_files :: "string list"
  py_denied_files :: "string list"
  py_allow_full_replacement :: bool
  py_full_replacement_max_bytes :: nat
  py_allow_ambiguous_anchors :: bool
  py_allowed_verification_command_ids :: "string list"

datatype operation_kind =
    OK_replace_range | OK_insert_after | OK_insert_before | OK_create_file | OK_unified_diff
  | OK_full_replacement

record patch_operation =
  op_operation_id :: string
  op_kind :: operation_kind
  op_relative_path :: string
  op_expected_sha256 :: "string option"
  op_start_line :: "nat option"
  op_end_line :: "nat option"
  op_start_anchor :: "string option"
  op_end_anchor :: "string option"
  op_anchor :: "string option"
  op_content :: "string option"
  op_unified_diff :: "string option"
  op_rationale :: string

datatype patch_risk = PR_read | PR_write | PR_destructive

text \<open>The confidence, a number between 0 and 1 that no code reads, is left out.\<close>

record patch_plan =
  pt_patch_plan_id :: string
  pt_plan_id :: string
  pt_node_id :: string
  pt_summary :: string
  pt_rationale :: string
  pt_evidence_refs :: "string list"
  pt_operations :: "patch_operation list"
  pt_expected_changed_files :: "string list"
  pt_verification_command_ids :: "string list"
  pt_preconditions :: "patch_precondition list"
  pt_risk_level :: patch_risk
  pt_approval_required :: bool
  pt_requires_scope_expansion :: bool
  pt_scope_expansion_request :: "scope_request option"

definition patch_precondition_ok :: "patch_precondition \<Rightarrow> bool" where
  "patch_precondition_ok p =
     (opt_ok nonempty (pp_path p) \<and> opt_ok is_hex64 (pp_expected_sha256 p) \<and> nonempty (pp_summary p))"

definition patch_policy_ok :: "patch_policy \<Rightarrow> bool" where
  "patch_policy_ok p =
     (list_all nonempty (py_allowed_files p) \<and> list_all nonempty (py_denied_files p) \<and>
      1 \<le> py_full_replacement_max_bytes p \<and>
      list_all nonempty (py_allowed_verification_command_ids p))"

definition patch_operation_ok :: "patch_operation \<Rightarrow> bool" where
  "patch_operation_ok p =
     (nonempty (op_operation_id p) \<and> nonempty (op_relative_path p) \<and>
      opt_ok is_hex64 (op_expected_sha256 p) \<and> opt_ok (\<lambda>n. 1 \<le> n) (op_start_line p) \<and>
      opt_ok (\<lambda>n. 1 \<le> n) (op_end_line p) \<and> nonempty (op_rationale p))"

definition patch_plan_ok :: "env \<Rightarrow> patch_plan \<Rightarrow> bool" where
  "patch_plan_ok E p =
     (nonempty (pt_patch_plan_id p) \<and> nonempty (pt_plan_id p) \<and> nonempty (pt_node_id p) \<and>
      nonempty (pt_summary p) \<and> nonempty (pt_rationale p) \<and>
      list_all nonempty (pt_evidence_refs p) \<and> pt_evidence_refs p \<noteq> [] \<and>
      list_all patch_operation_ok (pt_operations p) \<and> pt_operations p \<noteq> [] \<and>
      list_all nonempty (pt_expected_changed_files p) \<and> pt_expected_changed_files p \<noteq> [] \<and>
      list_all nonempty (pt_verification_command_ids p) \<and>
      list_all patch_precondition_ok (pt_preconditions p) \<and>
      opt_ok (scope_request_ok E) (pt_scope_expansion_request p))"

section \<open>Applying one operation\<close>

definition assert_unique_anchor :: "string \<Rightarrow> string \<Rightarrow> thrown + nat" where
  "assert_unique_anchor current anchor =
     (case index_of current anchor of
        None \<Rightarrow> Inl (Plain_error ''Patch anchor was not found.'')
      | Some first \<Rightarrow>
          if index_from current anchor (first + length anchor) \<noteq> None
          then Inl (Plain_error ''Patch anchor is ambiguous.'') else Inr first)"

definition insert_by_anchor :: "string \<Rightarrow> string option \<Rightarrow> string \<Rightarrow> bool \<Rightarrow> thrown + string" where
  "insert_by_anchor current anchor content after =
     (if \<not> truthy anchor then Inr (if after then current @ content else content @ current)
      else
        (case assert_unique_anchor current (the anchor) of
           Inl e \<Rightarrow> Inl e
         | Inr i \<Rightarrow>
             (let offset = (if after then i + length (the anchor) else i)
              in Inr (take offset current @ content @ drop offset current))))"

definition replace_by_anchors :: "string \<Rightarrow> string \<Rightarrow> string \<Rightarrow> string \<Rightarrow> thrown + string" where
  "replace_by_anchors current start_anchor end_anchor content =
     (case assert_unique_anchor current start_anchor of
        Inl e \<Rightarrow> Inl e
      | Inr start \<Rightarrow>
          (case assert_unique_anchor current end_anchor of
             Inl e \<Rightarrow> Inl e
           | Inr _ \<Rightarrow>
               (case index_from current end_anchor (start + length start_anchor) of
                  None \<Rightarrow> Inl (Plain_error ''Patch end anchor was not found after start anchor.'')
                | Some e \<Rightarrow>
                    Inr (take start current @ content @ drop (e + length end_anchor) current))))"

abbreviation line_feed :: char where
  "line_feed \<equiv> CHR 0x0A"

definition strip_last_newline :: "string \<Rightarrow> string" where
  "strip_last_newline s = (if s \<noteq> [] \<and> last s = line_feed then butlast s else s)"

definition replace_range :: "string \<Rightarrow> nat option \<Rightarrow> nat option \<Rightarrow> string \<Rightarrow> thrown + string" where
  "replace_range current start_line end_line content =
     (let a = nullish start_line 0; b = nullish end_line 0
      in if a = 0 \<or> b = 0 \<or> b < a then Inl (Plain_error ''replace_range requires a valid line range.'')
         else
           (let ls = split_on line_feed current
            in Inr (join [line_feed]
                 (take (a - 1) ls @ split_on line_feed (strip_last_newline content) @
                  drop (b - a + 1) (drop (a - 1) ls)))))"

definition apply_patch_operation :: "patch_operation \<Rightarrow> string option \<Rightarrow> thrown + string" where
  "apply_patch_operation op current_content =
     (if \<not> patch_operation_ok op then Inl Zod_error
      else
        (let current = nullish current_content []; content = nullish (op_content op) []
         in case op_kind op of
              OK_create_file \<Rightarrow> Inr content
            | OK_full_replacement \<Rightarrow> Inr content
            | OK_insert_after \<Rightarrow> insert_by_anchor current (op_anchor op) content True
            | OK_insert_before \<Rightarrow> insert_by_anchor current (op_anchor op) content False
            | OK_replace_range \<Rightarrow>
                if truthy (op_start_anchor op) \<and> truthy (op_end_anchor op)
                then replace_by_anchors current (the (op_start_anchor op)) (the (op_end_anchor op)) content
                else replace_range current (op_start_line op) (op_end_line op) content
            | OK_unified_diff \<Rightarrow>
                Inl (Plain_error ''Unified diff operations are validated for final patch export but not applied by the text operation applier.'')))"

section \<open>What an operation does to the text\<close>

text \<open>The specification of a unique anchor as the code understands it: it occurs, and not again
  after the end of its first occurrence.\<close>

lemma unique_anchor_split:
  assumes "assert_unique_anchor current anchor = Inr i"
  shows "\<exists>pre post. current = pre @ anchor @ post \<and> length pre = i \<and>
    (\<forall>u v. post \<noteq> u @ anchor @ v)"
proof -
  from assms have i: "index_of current anchor = Some i"
    and n: "index_from current anchor (i + length anchor) = None"
    by (auto simp: assert_unique_anchor_def split: option.splits if_splits)
  from index_of_Some_split [OF i] have s: "current = take i current @ anchor @ drop (i + length anchor) current"
    and l: "i + length anchor \<le> length current" by auto
  from n have "index_of (drop (i + length anchor) current) anchor = None" by (simp add: index_from_def)
  with s l show ?thesis
    by (intro exI [of _ "take i current"] exI [of _ "drop (i + length anchor) current"])
      (simp add: index_of_None_iff)
qed

lemma insert_by_anchor_spec:
  assumes "insert_by_anchor current (Some anchor) content after = Inr r" and "anchor \<noteq> []"
  shows "\<exists>pre post. current = pre @ anchor @ post \<and> (\<forall>u v. post \<noteq> u @ anchor @ v) \<and>
    r = (if after then pre @ anchor @ content @ post else pre @ content @ anchor @ post)"
proof -
  from assms obtain i where i: "assert_unique_anchor current anchor = Inr i"
    and r: "r = (let offset = (if after then i + length anchor else i)
      in take offset current @ content @ drop offset current)"
    by (auto simp: insert_by_anchor_def Let_def split: sum.splits)
  from unique_anchor_split [OF i] obtain pre post where
    s: "current = pre @ anchor @ post" "length pre = i" "\<forall>u v. post \<noteq> u @ anchor @ v" by blast
  then have "r = (if after then pre @ anchor @ content @ post else pre @ content @ anchor @ post)"
    unfolding r by auto
  with s show ?thesis by blast
qed

lemma replace_by_anchors_spec:
  assumes "replace_by_anchors current sa ea content = Inr r"
  shows "\<exists>pre mid post. current = pre @ sa @ mid @ ea @ post \<and> r = pre @ content @ post"
proof -
  from assms obtain i k where i: "assert_unique_anchor current sa = Inr i"
    and k: "index_from current ea (i + length sa) = Some k"
    and r: "r = take i current @ content @ drop (k + length ea) current"
    by (auto simp: replace_by_anchors_def split: sum.splits option.splits)
  from unique_anchor_split [OF i] obtain pre rest where s: "current = pre @ sa @ rest" "length pre = i"
    by blast
  from k s obtain j where j: "index_of rest ea = Some j" "k = i + length sa + j"
    by (auto simp: index_from_def)
  from index_of_Some_split [OF j(1)] have "rest = take j rest @ ea @ drop (j + length ea) rest" by simp
  moreover have "r = pre @ content @ drop (j + length ea) rest"
    unfolding r j(2) s(1) using s(2) by simp
  ultimately show ?thesis using s(1) by blast
qed

lemma replace_range_spec:
  assumes "replace_range current a b content = Inr r"
  shows "\<exists>m n. a = Some m \<and> b = Some n \<and> 1 \<le> m \<and> m \<le> n \<and>
    split_on line_feed r =
      take (m - 1) (split_on line_feed current) @ split_on line_feed (strip_last_newline content) @
      drop n (split_on line_feed current)"
proof -
  from assms obtain m n where mn: "a = Some m" "b = Some n" "1 \<le> m" "m \<le> n"
    by (cases a; cases b) (auto simp: replace_range_def split: if_splits)
  let ?ls = "split_on line_feed current"
  let ?new = "take (m - 1) ?ls @ split_on line_feed (strip_last_newline content) @
    drop (n - m + 1) (drop (m - 1) ?ls)"
  from assms mn have r: "r = join [line_feed] ?new"
    by (auto simp: replace_range_def Let_def split: if_splits)
  have "\<forall>s \<in> set ?new. line_feed \<notin> set s"
    by (auto dest!: in_set_takeD in_set_dropD split_on_no_sep)
  then have "split_on line_feed r = ?new"
    unfolding r by (intro split_on_join) simp_all
  moreover have "drop (n - m + 1) (drop (m - 1) ?ls) = drop n ?ls"
    using mn by (simp add: drop_drop)
  ultimately show ?thesis using mn by auto
qed

end
