(* ===== verification/Patch_Apply.thy ===== *)
theory Patch_Apply
  imports Patch_Plan
begin

text \<open>
  \<open>repository/patch-validator.ts\<close>, \<open>repository/patch-artifact.ts\<close> and \<open>repository/patch-applier.ts\<close>:
  the checks a patch plan passes before it touches the working tree, and its application.
\<close>

section \<open>Steps that may throw\<close>

fun collect :: "(thrown + 'a list) list \<Rightarrow> thrown + 'a list" where
  "collect [] = Inr []"
| "collect (Inl e # rs) = Inl e"
| "collect (Inr xs # rs) = (case collect rs of Inl e \<Rightarrow> Inl e | Inr ys \<Rightarrow> Inr (xs @ ys))"

lemma collect_Inr:
  "collect rs = Inr xs \<longleftrightarrow> (\<exists>yss. rs = map Inr yss \<and> xs = concat yss)"
proof (induction rs arbitrary: xs)
  case Nil
  then show ?case by auto
next
  case (Cons r rs)
  show ?case
  proof (cases r)
    case (Inl e)
    then show ?thesis by auto
  next
    case (Inr ys)
    show ?thesis
    proof
      assume "collect (r # rs) = Inr xs"
      then obtain zs where z: "collect rs = Inr zs" "xs = ys @ zs"
        using Inr by (auto split: sum.splits)
      from z(1) obtain yss where "rs = map Inr yss" "zs = concat yss" using Cons.IH by blast
      with z Inr show "\<exists>yss. r # rs = map Inr yss \<and> xs = concat yss"
        by (intro exI [of _ "ys # yss"]) simp
    next
      assume "\<exists>yss. r # rs = map Inr yss \<and> xs = concat yss"
      then have "\<exists>zs. rs = map Inr zs \<and> xs = ys @ concat zs"
        using Inr by (auto simp: Cons_eq_map_conv)
      then obtain zs where z: "rs = map Inr zs" "xs = ys @ concat zs" by auto
      have "collect rs = Inr (concat zs)" using Cons.IH z(1) by auto
      with Inr z(2) show "collect (r # rs) = Inr xs" by simp
    qed
  qed
qed

lemma collect_empty:
  "collect rs = Inr xs \<Longrightarrow> xs = [] \<longleftrightarrow> (\<forall>r \<in> set rs. r = Inr [])"
  by (auto simp: collect_Inr)

definition check :: "bool \<Rightarrow> structured_error \<Rightarrow> thrown + structured_error list" where
  "check bad e = Inr (if bad then [e] else [])"

definition with_content ::
    "file_system \<Rightarrow> string \<Rightarrow> (string \<Rightarrow> structured_error list) \<Rightarrow> thrown + structured_error list" where
  "with_content F p f = (case fs_read F p of Inl e \<Rightarrow> Inl e | Inr c \<Rightarrow> Inr (f c))"

section \<open>The validator\<close>

record patch_validation =
  pvr_valid :: bool
  pvr_ok :: bool
  pvr_normalized_patch_plan :: "patch_plan option"
  pvr_violations :: "structured_error list"
  pvr_warnings :: "string list"
  pvr_approval_required :: bool
  pvr_errors :: "string list"

definition violation :: "error_code \<Rightarrow> string \<Rightarrow> string \<Rightarrow> structured_error" where
  "violation code message now = mk_structured_error code message now None None None"

definition denied :: "string \<Rightarrow> string \<Rightarrow> string \<Rightarrow> structured_error" where
  "denied path message now = violation POLICY_DENIED (path @ '': '' @ message) now"

definition unmet :: "string \<Rightarrow> string \<Rightarrow> string \<Rightarrow> structured_error" where
  "unmet path message now = violation PRECONDITION_FAILED (path @ '': '' @ message) now"

definition is_lockfile :: "string \<Rightarrow> bool" where
  "is_lockfile p = (p = ''package-lock.json'' \<or> p = ''pnpm-lock.yaml'' \<or> p = ''yarn.lock'')"

definition anchor_violations :: "string \<Rightarrow> string \<Rightarrow> string \<Rightarrow> bool \<Rightarrow> string \<Rightarrow> structured_error list" where
  "anchor_violations path now anchor allow_ambiguous content =
     (case index_of content anchor of
        None \<Rightarrow> [unmet path ''anchor was not found.'' now]
      | Some first \<Rightarrow>
          if \<not> allow_ambiguous \<and> index_from content anchor (first + length anchor) \<noteq> None
          then [unmet path ''anchor is ambiguous.'' now] else [])"

fun thrown_text :: "thrown \<Rightarrow> string" where
  "thrown_text (Plain_error m) = m"
| "thrown_text (Sdk_error c m) = m"
| "thrown_text Zod_error = []"

definition writable_violations ::
    "string \<Rightarrow> file_system \<Rightarrow> repository_workspace \<Rightarrow> string \<Rightarrow> string \<Rightarrow> structured_error list" where
  "writable_violations cwd F w p now =
     (case assert_writable_repository_path cwd F w p of
        Inl e \<Rightarrow> [violation POLICY_DENIED (thrown_text e) now]
      | Inr _ \<Rightarrow> [])"

definition full_replacement_limit :: "repository_workspace \<Rightarrow> patch_policy option \<Rightarrow> nat" where
  "full_replacement_limit w policy =
     min (ws_max_file_bytes w) (nullish (map_option py_full_replacement_max_bytes policy) 64000)"

text \<open>The checks of one operation whose path resolved to \<open>a\<close>, in the order the code makes them.\<close>

definition operation_checks ::
    "env \<Rightarrow> string \<Rightarrow> file_system \<Rightarrow> repository_workspace \<Rightarrow> patch_plan \<Rightarrow> patch_policy option \<Rightarrow> string
      \<Rightarrow> patch_operation \<Rightarrow> string \<Rightarrow> (thrown + structured_error list) list" where
  "operation_checks E cwd F w plan policy now op a =
     (let p = op_relative_path op;
          present = fs_exists F a;
          ambiguous = (case policy of None \<Rightarrow> False | Some y \<Rightarrow> py_allow_ambiguous_anchors y)
      in [Inr (writable_violations cwd F w p now),
     check (p \<notin> set (pt_expected_changed_files plan))
       (unmet p ''operation target is outside expected_changed_files.'' now),
     check (case policy of None \<Rightarrow> False | Some y \<Rightarrow> p \<notin> set (py_allowed_files y))
       (denied p ''operation target is outside allowed files.'' now),
     check (case policy of None \<Rightarrow> False | Some y \<Rightarrow> p \<in> set (py_denied_files y))
       (denied p ''operation target is denied.'' now),
     check (starts_with p ''.open-lagrange/'' \<or> p = ''.open-lagrange'')
       (denied p ''Open Lagrange internal files cannot be patched.'' now),
     check (op_kind op \<noteq> OK_create_file \<and> present \<and> \<not> truthy (op_expected_sha256 op))
       (unmet p ''expected hash is required for modify operations.'' now),
     (if truthy (op_expected_sha256 op) \<and> present
      then with_content F a (\<lambda>c.
        if Some (sha256_hex E c) \<noteq> op_expected_sha256 op
        then [unmet p ''expected hash does not match.'' now] else [])
      else Inr []),
     check (op_kind op = OK_full_replacement \<and>
         (case policy of None \<Rightarrow> False | Some y \<Rightarrow> \<not> py_allow_full_replacement y))
       (unmet p ''full replacement is not allowed by patch policy.'' now),
     check (op_kind op = OK_full_replacement \<and>
         full_replacement_limit w policy < utf8_length (nullish (op_content op) []))
       (unmet p ''full replacement exceeds configured limit.'' now),
     (if op_kind op \<in> {OK_insert_after, OK_insert_before} \<and> truthy (op_anchor op) \<and> present
      then with_content F a (anchor_violations p now (the (op_anchor op)) ambiguous)
      else Inr []),
     (if op_kind op = OK_replace_range \<and> truthy (op_start_anchor op) \<and>
         truthy (op_end_anchor op) \<and> present
      then with_content F a (\<lambda>c.
        anchor_violations p now (the (op_start_anchor op)) ambiguous c @
        anchor_violations p now (the (op_end_anchor op)) ambiguous c)
      else Inr []),
     check (is_lockfile p \<and>
         \<not> list_ex (\<lambda>i. str_includes (to_lower (pp_summary i)) ''lockfile'') (pt_preconditions plan))
       (unmet p ''lockfile changes require an explicit precondition.'' now)])"

definition operation_violations ::
    "env \<Rightarrow> string \<Rightarrow> file_system \<Rightarrow> repository_workspace \<Rightarrow> patch_plan \<Rightarrow> patch_policy option \<Rightarrow> string
      \<Rightarrow> patch_operation \<Rightarrow> thrown + structured_error list" where
  "operation_violations E cwd F w plan policy now op =
     (let d = resolve_repository_path cwd w (op_relative_path op)
      in if \<not> pd_ok d \<or> \<not> truthy (pd_absolute_path d)
         then Inr [denied (op_relative_path op) (nullish (pd_reason d) ''path denied'') now]
         else collect (operation_checks E cwd F w plan policy now op (the (pd_absolute_path d))))"

definition operation_warnings ::
    "string \<Rightarrow> repository_workspace \<Rightarrow> patch_operation \<Rightarrow> string list" where
  "operation_warnings cwd w op =
     (let d = resolve_repository_path cwd w (op_relative_path op)
      in if pd_ok d \<and> truthy (pd_absolute_path d) \<and> op_kind op = OK_unified_diff
         then [op_relative_path op @
           '': unified diff operation will be validated through final patch export.'']
         else [])"

definition plan_violations :: "patch_plan \<Rightarrow> patch_policy option \<Rightarrow> string \<Rightarrow> structured_error list" where
  "plan_violations plan policy now =
     (if pt_requires_scope_expansion plan
      then [violation APPROVAL_REQUIRED
        ''PatchPlan requires approved scope expansion before patch application.'' now] else []) @
     (if pt_expected_changed_files plan = []
      then [violation PRECONDITION_FAILED ''PatchPlan must declare expected changed files.'' now] else []) @
     (case policy of
        None \<Rightarrow> []
      | Some y \<Rightarrow>
          concat (map (\<lambda>f.
            (if f \<notin> set (py_allowed_files y)
             then [denied f ''expected changed file is outside allowed files.'' now] else []) @
            (if f \<in> set (py_denied_files y)
             then [denied f ''expected changed file is denied.'' now] else []))
            (pt_expected_changed_files plan)) @
          concat (map (\<lambda>c.
            if c \<notin> set (py_allowed_verification_command_ids y)
            then [denied c ''verification command is outside allowed commands.'' now] else [])
            (pt_verification_command_ids plan)))"

definition validate_repository_patch_plan ::
    "env \<Rightarrow> string \<Rightarrow> file_system \<Rightarrow> repository_workspace \<Rightarrow> patch_plan \<Rightarrow> patch_policy option \<Rightarrow> string
      \<Rightarrow> thrown + patch_validation" where
  "validate_repository_patch_plan E cwd F w plan policy now =
     (if \<not> patch_plan_ok E plan \<or> \<not> opt_ok patch_policy_ok policy then Inl Zod_error
      else
        (case collect (map (operation_violations E cwd F w plan policy now) (pt_operations plan)) of
           Inl e \<Rightarrow> Inl e
         | Inr opvs \<Rightarrow>
             (let vs = plan_violations plan policy now @ opvs
              in Inr \<lparr>pvr_valid = (vs = []), pvr_ok = (vs = []),
                  pvr_normalized_patch_plan = (if vs = [] then Some plan else None),
                  pvr_violations = vs,
                  pvr_warnings = concat (map (operation_warnings cwd w) (pt_operations plan)),
                  pvr_approval_required =
                    (pt_approval_required plan \<or> pt_risk_level plan = PR_destructive \<or>
                     (ws_require_approval_for_write w \<and> pt_risk_level plan = PR_write)),
                  pvr_errors = map se_message vs\<rparr>)))"

section \<open>Writing files\<close>

definition dir_chain :: "string \<Rightarrow> string list" where
  "dir_chain d = map (\<lambda>n. abs_path (take n (path_segments d))) [0..<Suc (length (path_segments d))]"

text \<open>\<open>mkdirSync(d, { recursive: true })\<close>\<close>

definition fs_mkdir :: "file_system \<Rightarrow> string \<Rightarrow> thrown + file_system" where
  "fs_mkdir F d =
     (if list_ex (\<lambda>p. map_of (fs_files F) (fs_locate F p) \<noteq> None \<or>
           (fs_link F p \<and> \<not> fs_exists F p)) (dir_chain d)
      then Inl (Plain_error (fs_error F d))
      else Inr (F\<lparr>fs_dirs := fs_dirs F @
        filter (\<lambda>l. l \<notin> set (fs_dirs F)) (map (fs_locate F) (dir_chain d))\<rparr>))"

definition fs_write :: "file_system \<Rightarrow> string \<Rightarrow> string \<Rightarrow> thrown + file_system" where
  "fs_write F p c =
     (if fs_locate F p \<in> set (fs_dirs F) \<or> path_dirname (fs_locate F p) \<notin> set (fs_dirs F)
      then Inl (Plain_error (fs_error F p))
      else Inr (F\<lparr>fs_files := AList.update (fs_locate F p) c (fs_files F)\<rparr>))"

section \<open>The applier\<close>

datatype apply_status = AS_applied | AS_failed | AS_already_applied

record patch_artifact =
  pn_patch_artifact_id :: string
  pn_patch_plan_id :: string
  pn_plan_id :: string
  pn_node_id :: string
  pn_changed_files :: "string list"
  pn_unified_diff :: string
  pn_before_hashes :: "(string \<times> string) list"
  pn_after_hashes :: "(string \<times> string) list"
  pn_apply_status :: apply_status
  pn_errors :: "structured_error list"
  pn_artifact_id :: string
  pn_created_at :: string

definition patch_artifact_ok :: "env \<Rightarrow> patch_artifact \<Rightarrow> bool" where
  "patch_artifact_ok E a =
     (nonempty (pn_patch_artifact_id a) \<and> nonempty (pn_patch_plan_id a) \<and> nonempty (pn_plan_id a) \<and>
      nonempty (pn_node_id a) \<and> list_all nonempty (pn_changed_files a) \<and>
      list_all (\<lambda>(_, h). is_hex64 h) (pn_before_hashes a) \<and>
      list_all (\<lambda>(_, h). is_hex64 h) (pn_after_hashes a) \<and>
      list_all (structured_error_ok E) (pn_errors a) \<and> nonempty (pn_artifact_id a) \<and>
      datetime_ok E (pn_created_at a))"

record apply_progress =
  ap_fs :: file_system
  ap_before :: "(string \<times> string) list"
  ap_after :: "(string \<times> string) list"

text \<open>One turn of the loop over the operations; a thrown error keeps the files written before.\<close>

definition apply_step ::
    "env \<Rightarrow> string \<Rightarrow> repository_workspace \<Rightarrow> patch_operation \<Rightarrow> apply_progress
      \<Rightarrow> (thrown + unit) \<times> apply_progress" where
  "apply_step E cwd w op s =
     (let d = resolve_repository_path cwd w (op_relative_path op)
      in if \<not> pd_ok d \<or> \<not> truthy (pd_absolute_path d) then (Inl (refusal d), s)
         else
           (let a = the (pd_absolute_path d); F = ap_fs s
            in case (if fs_exists F a then map_sum id Some (fs_read F a) else Inr None) of
                 Inl e \<Rightarrow> (Inl e, s)
               | Inr before \<Rightarrow>
                   (let s1 = (case before of
                         None \<Rightarrow> s
                       | Some b \<Rightarrow> s\<lparr>ap_before :=
                           AList.update (op_relative_path op) (sha256_hex E b) (ap_before s)\<rparr>)
                    in case apply_patch_operation op before of
                         Inl e \<Rightarrow> (Inl e, s1)
                       | Inr next \<Rightarrow>
                           (case fs_mkdir F (path_dirname a) of
                              Inl e \<Rightarrow> (Inl e, s1)
                            | Inr F1 \<Rightarrow>
                                (case fs_write F1 a next of
                                   Inl e \<Rightarrow> (Inl e, s1\<lparr>ap_fs := F1\<rparr>)
                                 | Inr F2 \<Rightarrow>
                                     (Inr (), s1\<lparr>ap_fs := F2, ap_after :=
                                       AList.update (op_relative_path op) (sha256_hex E next)
                                         (ap_after s1)\<rparr>))))))"

fun apply_operations ::
    "env \<Rightarrow> string \<Rightarrow> repository_workspace \<Rightarrow> patch_operation list \<Rightarrow> apply_progress
      \<Rightarrow> (thrown + unit) \<times> apply_progress" where
  "apply_operations E cwd w [] s = (Inr (), s)"
| "apply_operations E cwd w (op # ops) s =
     (case apply_step E cwd w op s of
        (Inl e, s') \<Rightarrow> (Inl e, s')
      | (Inr _, s') \<Rightarrow> apply_operations E cwd w ops s')"

definition patch_artifact_id :: "env \<Rightarrow> (string \<times> json) list \<Rightarrow> string" where
  "patch_artifact_id E kvs = ''patch_artifact_'' @ take 18 (stable_hash E (JObj kvs))"

definition changed_files_of :: "string \<Rightarrow> string list" where
  "changed_files_of listing =
     filter (\<lambda>l. l \<noteq> [] \<and> \<not> starts_with l ''.open-lagrange/'') (map trim (split_on line_feed listing))"

text \<open>The two calls of \<open>git diff\<close> against the base commit, as functions of the working tree.\<close>

record git_calls =
  gc_diff :: "file_system \<Rightarrow> thrown + string"
  gc_names :: "file_system \<Rightarrow> thrown + string"

definition checked_artifact :: "env \<Rightarrow> patch_artifact \<Rightarrow> thrown + patch_artifact" where
  "checked_artifact E a = (if patch_artifact_ok E a then Inr a else Inl Zod_error)"

definition applied_artifact ::
    "env \<Rightarrow> patch_plan \<Rightarrow> string \<Rightarrow> string \<Rightarrow> string list \<Rightarrow> apply_progress \<Rightarrow> patch_artifact" where
  "applied_artifact E plan now diff files s =
     (let i = patch_artifact_id E [(''patch'', JStr (pt_patch_plan_id plan)),
                (''changedFiles'', jstrs files), (''now'', JStr now)]
      in \<lparr>pn_patch_artifact_id = i, pn_patch_plan_id = pt_patch_plan_id plan,
          pn_plan_id = pt_plan_id plan, pn_node_id = pt_node_id plan, pn_changed_files = files,
          pn_unified_diff = diff, pn_before_hashes = ap_before s, pn_after_hashes = ap_after s,
          pn_apply_status = AS_applied, pn_errors = [], pn_artifact_id = i, pn_created_at = now\<rparr>)"

definition failed_artifact :: "env \<Rightarrow> patch_plan \<Rightarrow> string \<Rightarrow> structured_error list \<Rightarrow> patch_artifact" where
  "failed_artifact E plan now errors =
     \<lparr>pn_patch_artifact_id = patch_artifact_id E
        [(''plan'', JStr (pt_patch_plan_id plan)), (''now'', JStr now)],
      pn_patch_plan_id = pt_patch_plan_id plan, pn_plan_id = pt_plan_id plan,
      pn_node_id = pt_node_id plan, pn_changed_files = [], pn_unified_diff = [],
      pn_before_hashes = [], pn_after_hashes = [], pn_apply_status = AS_failed, pn_errors = errors,
      pn_artifact_id = patch_artifact_id E
        [(''failed'', JStr (pt_patch_plan_id plan)), (''now'', JStr now)],
      pn_created_at = now\<rparr>"

definition apply_repository_patch_plan ::
    "env \<Rightarrow> string \<Rightarrow> git_calls \<Rightarrow> repository_workspace \<Rightarrow> patch_plan \<Rightarrow> patch_policy option \<Rightarrow> string
      \<Rightarrow> file_system \<Rightarrow> (thrown + patch_artifact) \<times> file_system" where
  "apply_repository_patch_plan E cwd G w plan policy now F =
     (case validate_repository_patch_plan E cwd F w plan policy now of
        Inl e \<Rightarrow> (Inl e, F)
      | Inr v \<Rightarrow>
          if \<not> pvr_valid v then (checked_artifact E (failed_artifact E plan now (pvr_violations v)), F)
          else
            (case apply_operations E cwd w (pt_operations plan)
                    \<lparr>ap_fs = F, ap_before = [], ap_after = []\<rparr> of
               (Inl e, s) \<Rightarrow> (Inl e, ap_fs s)
             | (Inr _, s) \<Rightarrow>
                 (case gc_diff G (ap_fs s) of
                    Inl e \<Rightarrow> (Inl e, ap_fs s)
                  | Inr diff \<Rightarrow>
                      (case gc_names G (ap_fs s) of
                         Inl e \<Rightarrow> (Inl e, ap_fs s)
                       | Inr names \<Rightarrow>
                           (checked_artifact E
                              (applied_artifact E plan now diff (changed_files_of names) s),
                            ap_fs s)))))"


section \<open>What the validator demands\<close>

text \<open>The specification: what an operation must satisfy on the file system the plan is checked
  against.\<close>

definition anchors_fit :: "bool \<Rightarrow> string \<Rightarrow> string \<Rightarrow> bool" where
  "anchors_fit ambiguous anchor content =
     (\<exists>pre post. content = pre @ anchor @ post \<and>
       (\<not> ambiguous \<longrightarrow> assert_unique_anchor content anchor = Inr (length pre)))"

definition file_matches :: "file_system \<Rightarrow> string \<Rightarrow> (string \<Rightarrow> bool) \<Rightarrow> bool" where
  "file_matches F a P = (\<exists>c. fs_read F a = Inr c \<and> P c)"

definition policy_admits :: "patch_policy option \<Rightarrow> patch_operation \<Rightarrow> bool" where
  "policy_admits policy op =
     (case policy of
        None \<Rightarrow> True
      | Some y \<Rightarrow>
          op_relative_path op \<in> set (py_allowed_files y) \<and> op_relative_path op \<notin> set (py_denied_files y) \<and>
          (op_kind op = OK_full_replacement \<longrightarrow> py_allow_full_replacement y))"

definition ambiguous_allowed :: "patch_policy option \<Rightarrow> bool" where
  "ambiguous_allowed policy = (case policy of None \<Rightarrow> False | Some y \<Rightarrow> py_allow_ambiguous_anchors y)"

definition admissible_operation ::
    "env \<Rightarrow> string \<Rightarrow> file_system \<Rightarrow> repository_workspace \<Rightarrow> patch_plan \<Rightarrow> patch_policy option
      \<Rightarrow> patch_operation \<Rightarrow> bool" where
  "admissible_operation E cwd F w plan policy op =
     (\<exists>a r. assert_writable_repository_path cwd F w (op_relative_path op) = Inr (a, r) \<and>
       op_relative_path op \<in> set (pt_expected_changed_files plan) \<and>
       \<not> starts_with (op_relative_path op) ''.open-lagrange/'' \<and> op_relative_path op \<noteq> ''.open-lagrange'' \<and>
       policy_admits policy op \<and>
       (op_kind op \<noteq> OK_create_file \<and> fs_exists F a \<longrightarrow> truthy (op_expected_sha256 op)) \<and>
       (truthy (op_expected_sha256 op) \<and> fs_exists F a \<longrightarrow>
          file_matches F a (\<lambda>c. Some (sha256_hex E c) = op_expected_sha256 op)) \<and>
       (op_kind op = OK_full_replacement \<longrightarrow>
          utf8_length (nullish (op_content op) []) \<le> full_replacement_limit w policy) \<and>
       (op_kind op \<in> {OK_insert_after, OK_insert_before} \<and> truthy (op_anchor op) \<and> fs_exists F a \<longrightarrow>
          file_matches F a (anchors_fit (ambiguous_allowed policy) (the (op_anchor op)))) \<and>
       (op_kind op = OK_replace_range \<and> truthy (op_start_anchor op) \<and> truthy (op_end_anchor op) \<and>
          fs_exists F a \<longrightarrow>
          file_matches F a (\<lambda>c. anchors_fit (ambiguous_allowed policy) (the (op_start_anchor op)) c \<and>
            anchors_fit (ambiguous_allowed policy) (the (op_end_anchor op)) c)) \<and>
       (is_lockfile (op_relative_path op) \<longrightarrow>
          list_ex (\<lambda>i. str_includes (to_lower (pp_summary i)) ''lockfile'') (pt_preconditions plan)))"

lemma anchor_violations_iff:
  "anchor_violations p now anchor amb content = [] \<longleftrightarrow> anchors_fit amb anchor content"
proof (cases "index_of content anchor")
  case None
  then have "content \<noteq> pre @ anchor @ post" for pre post by (simp add: index_of_None_iff)
  with None show ?thesis by (simp add: anchor_violations_def anchors_fit_def)
next
  case (Some i)
  from index_of_Some_split [OF Some] have s: "content = take i content @ anchor @ drop (i + length anchor) content"
    "length (take i content) = i" by auto
  show ?thesis
  proof
    assume "anchor_violations p now anchor amb content = []"
    then have "amb \<or> index_from content anchor (i + length anchor) = None"
      using Some by (auto simp: anchor_violations_def split: if_splits)
    then have "\<not> amb \<longrightarrow> assert_unique_anchor content anchor = Inr (length (take i content))"
      using Some s(2) by (auto simp: assert_unique_anchor_def)
    with s(1) show "anchors_fit amb anchor content" unfolding anchors_fit_def by blast
  next
    assume "anchors_fit amb anchor content"
    then have "amb \<or> (\<exists>n. assert_unique_anchor content anchor = Inr n)" by (auto simp: anchors_fit_def)
    then show "anchor_violations p now anchor amb content = []"
      using Some by (auto simp: anchor_violations_def assert_unique_anchor_def split: if_splits)
  qed
qed

lemma check_empty: "check bad e = Inr [] \<longleftrightarrow> \<not> bad"
  by (simp add: check_def)

lemma with_content_empty: "with_content F p f = Inr [] \<longleftrightarrow> file_matches F p (\<lambda>c. f c = [])"
  by (auto simp: with_content_def file_matches_def split: sum.splits)

lemma if_Inr_empty: "(if b then m else Inr []) = Inr [] \<longleftrightarrow> (b \<longrightarrow> m = Inr [])"
  by simp

lemma writable_violations_empty:
  "writable_violations cwd F w p now = [] \<longleftrightarrow> (\<exists>x. assert_writable_repository_path cwd F w p = Inr x)"
  by (auto simp: writable_violations_def split: sum.splits)

lemma writable_resolved:
  assumes "assert_writable_repository_path cwd F w p = Inr (a, r)"
  shows "pd_ok (resolve_repository_path cwd w p)" and "pd_absolute_path (resolve_repository_path cwd w p) = Some a"
    and "pd_relative_path (resolve_repository_path cwd w p) = Some r" and "a \<noteq> []"
  using assms by (auto simp: assert_writable_repository_path_def Let_def truthy_def
      split: if_splits sum.splits option.splits)

lemma checks_pass:
  "list_all (\<lambda>r. r = Inr []) (operation_checks E cwd F w plan policy now op a) \<longleftrightarrow>
     (\<exists>x. assert_writable_repository_path cwd F w (op_relative_path op) = Inr x) \<and>
     \<not> op_relative_path op \<notin> set (pt_expected_changed_files plan) \<and>
     \<not> (case policy of None \<Rightarrow> False | Some y \<Rightarrow> op_relative_path op \<notin> set (py_allowed_files y)) \<and>
     \<not> (case policy of None \<Rightarrow> False | Some y \<Rightarrow> op_relative_path op \<in> set (py_denied_files y)) \<and>
     \<not> (starts_with (op_relative_path op) ''.open-lagrange/'' \<or> op_relative_path op = ''.open-lagrange'') \<and>
     \<not> (op_kind op \<noteq> OK_create_file \<and> fs_exists F a \<and> \<not> truthy (op_expected_sha256 op)) \<and>
     (truthy (op_expected_sha256 op) \<and> fs_exists F a \<longrightarrow>
        file_matches F a (\<lambda>c. Some (sha256_hex E c) = op_expected_sha256 op)) \<and>
     \<not> (op_kind op = OK_full_replacement \<and>
        (case policy of None \<Rightarrow> False | Some y \<Rightarrow> \<not> py_allow_full_replacement y)) \<and>
     \<not> (op_kind op = OK_full_replacement \<and>
        full_replacement_limit w policy < utf8_length (nullish (op_content op) [])) \<and>
     (op_kind op \<in> {OK_insert_after, OK_insert_before} \<and> truthy (op_anchor op) \<and> fs_exists F a \<longrightarrow>
        file_matches F a (anchors_fit (ambiguous_allowed policy) (the (op_anchor op)))) \<and>
     (op_kind op = OK_replace_range \<and> truthy (op_start_anchor op) \<and> truthy (op_end_anchor op) \<and>
        fs_exists F a \<longrightarrow>
        file_matches F a (\<lambda>c. anchors_fit (ambiguous_allowed policy) (the (op_start_anchor op)) c \<and>
          anchors_fit (ambiguous_allowed policy) (the (op_end_anchor op)) c)) \<and>
     \<not> (is_lockfile (op_relative_path op) \<and>
        \<not> list_ex (\<lambda>i. str_includes (to_lower (pp_summary i)) ''lockfile'') (pt_preconditions plan))"
proof -
  have no_hash: "((if c then [v] else []) = []) = (\<not> c)" for c and v :: structured_error by simp
  have writable: "(Inr (writable_violations cwd F w p now) = (Inr [] :: thrown + structured_error list)) \<longleftrightarrow>
      (\<exists>x. assert_writable_repository_path cwd F w p = Inr x)" for p
    using writable_violations_empty by simp
  show ?thesis
    unfolding operation_checks_def Let_def list.pred_inject ambiguous_allowed_def [symmetric] writable
      check_empty if_Inr_empty with_content_empty no_hash not_not append_is_Nil_conv anchor_violations_iff
    by (simp only: list.pred_inject simp_thms)
qed

lemma operation_violations_empty:
  assumes "operation_violations E cwd F w plan policy now op = Inr vs"
  shows "vs = [] \<longleftrightarrow> admissible_operation E cwd F w plan policy op"
proof (cases "\<exists>a r. assert_writable_repository_path cwd F w (op_relative_path op) = Inr (a, r)")
  case True
  then obtain a r where ar: "assert_writable_repository_path cwd F w (op_relative_path op) = Inr (a, r)"
    by blast
  note d = writable_resolved [OF ar]
  have "collect (operation_checks E cwd F w plan policy now op a) = Inr vs"
    using assms d by (simp add: operation_violations_def Let_def)
  then have "vs = [] \<longleftrightarrow> list_all (\<lambda>r. r = Inr []) (operation_checks E cwd F w plan policy now op a)"
    by (simp add: collect_empty list_all_iff)
  also have "\<dots> \<longleftrightarrow> admissible_operation E cwd F w plan policy op"
    unfolding checks_pass admissible_operation_def ar policy_admits_def
    by (cases policy) (simp_all add: not_less, blast+)
  finally show ?thesis .
next
  case False
  then have no: "\<not> admissible_operation E cwd F w plan policy op" by (simp add: admissible_operation_def)
  have none: "\<nexists>x. assert_writable_repository_path cwd F w (op_relative_path op) = Inr x"
    using False by (metis surj_pair)
  have "vs \<noteq> []"
  proof
    assume "vs = []"
    with assms have "collect (operation_checks E cwd F w plan policy now op
        (the (pd_absolute_path (resolve_repository_path cwd w (op_relative_path op))))) = Inr []"
      by (auto simp: operation_violations_def Let_def split: if_splits)
    then have "list_all (\<lambda>r. r = Inr []) (operation_checks E cwd F w plan policy now op
        (the (pd_absolute_path (resolve_repository_path cwd w (op_relative_path op)))))"
      using collect_empty [of _ "[]"] by (simp add: list_all_iff)
    with none show False unfolding checks_pass by blast
  qed
  with no show ?thesis by simp
qed


definition admissible_plan ::
    "env \<Rightarrow> string \<Rightarrow> file_system \<Rightarrow> repository_workspace \<Rightarrow> patch_plan \<Rightarrow> patch_policy option \<Rightarrow> bool" where
  "admissible_plan E cwd F w plan policy =
     (patch_plan_ok E plan \<and> opt_ok patch_policy_ok policy \<and> \<not> pt_requires_scope_expansion plan \<and>
      (case policy of
         None \<Rightarrow> True
       | Some y \<Rightarrow>
           set (pt_expected_changed_files plan) \<subseteq> set (py_allowed_files y) - set (py_denied_files y) \<and>
           set (pt_verification_command_ids plan) \<subseteq> set (py_allowed_verification_command_ids y)) \<and>
      list_all (admissible_operation E cwd F w plan policy) (pt_operations plan))"

lemma plan_violations_empty:
  assumes "pt_expected_changed_files plan \<noteq> []"
  shows "plan_violations plan policy now = [] \<longleftrightarrow>
    \<not> pt_requires_scope_expansion plan \<and>
    (case policy of
       None \<Rightarrow> True
     | Some y \<Rightarrow>
         set (pt_expected_changed_files plan) \<subseteq> set (py_allowed_files y) - set (py_denied_files y) \<and>
         set (pt_verification_command_ids plan) \<subseteq> set (py_allowed_verification_command_ids y))"
proof -
  have no: "((if c then [v] else []) = []) = (\<not> c)" for c and v :: structured_error by simp
  show ?thesis
    using assms by (cases policy) (auto simp: plan_violations_def no)
qed

lemma all_violations_empty:
  assumes "collect (map (operation_violations E cwd F w plan policy now) ops) = Inr vs"
  shows "vs = [] \<longleftrightarrow> list_all (admissible_operation E cwd F w plan policy) ops"
proof -
  have each: "\<exists>us. operation_violations E cwd F w plan policy now op = Inr us" if "op \<in> set ops" for op
  proof -
    from assms obtain yss where "map (operation_violations E cwd F w plan policy now) ops = map Inr yss"
      by (auto simp: collect_Inr)
    then have "operation_violations E cwd F w plan policy now op \<in> Inr ` set yss"
      using that by (metis image_eqI list.set_map)
    then show ?thesis by auto
  qed
  have "vs = [] \<longleftrightarrow> (\<forall>op \<in> set ops. operation_violations E cwd F w plan policy now op = Inr [])"
    using collect_empty [OF assms] by simp
  also have "\<dots> \<longleftrightarrow> list_all (admissible_operation E cwd F w plan policy) ops"
    using each operation_violations_empty by (fastforce simp: list_all_iff)
  finally show ?thesis .
qed

lemma validation_result:
  assumes "validate_repository_patch_plan E cwd F w plan policy now = Inr v"
  shows "pvr_valid v \<longleftrightarrow> admissible_plan E cwd F w plan policy"
    and "pvr_valid v \<longleftrightarrow> pvr_violations v = []"
    and "pvr_normalized_patch_plan v = (if pvr_valid v then Some plan else None)"
proof -
  from assms obtain vs where ok: "patch_plan_ok E plan" "opt_ok patch_policy_ok policy"
    and vs: "collect (map (operation_violations E cwd F w plan policy now) (pt_operations plan)) = Inr vs"
    and v: "pvr_violations v = plan_violations plan policy now @ vs"
      "pvr_valid v = (plan_violations plan policy now @ vs = [])"
      "pvr_normalized_patch_plan v = (if plan_violations plan policy now @ vs = [] then Some plan else None)"
    by (auto simp: validate_repository_patch_plan_def Let_def split: if_splits sum.splits)
  have "pt_expected_changed_files plan \<noteq> []" using ok(1) by (simp add: patch_plan_ok_def)
  from plan_violations_empty [OF this] all_violations_empty [OF vs] ok v(2)
  show "pvr_valid v \<longleftrightarrow> admissible_plan E cwd F w plan policy"
    by (simp add: admissible_plan_def)
  show "pvr_valid v \<longleftrightarrow> pvr_violations v = []" using v by simp
  show "pvr_normalized_patch_plan v = (if pvr_valid v then Some plan else None)" using v by simp
qed

section \<open>What the applier changes\<close>

definition target_location :: "string \<Rightarrow> repository_workspace \<Rightarrow> file_system \<Rightarrow> patch_operation \<Rightarrow> string" where
  "target_location cwd w F op =
     fs_locate F (the (pd_absolute_path (resolve_repository_path cwd w (op_relative_path op))))"

lemma fs_mkdir_frame:
  "fs_mkdir F d = Inr F' \<Longrightarrow> fs_locate F' = fs_locate F \<and> fs_files F' = fs_files F"
  by (auto simp: fs_mkdir_def split: if_splits)

lemma fs_write_frame:
  "fs_write F p c = Inr F' \<Longrightarrow> fs_locate F' = fs_locate F \<and>
     fs_files F' = AList.update (fs_locate F p) c (fs_files F)"
  by (auto simp: fs_write_def split: if_splits)

lemma apply_step_fails:
  assumes "apply_step E cwd w op s = (Inl e, s')"
  shows "fs_locate (ap_fs s') = fs_locate (ap_fs s) \<and> fs_files (ap_fs s') = fs_files (ap_fs s)"
  using assms fs_mkdir_frame
  by (fastforce simp: apply_step_def Let_def split: if_splits sum.splits option.splits)

lemma apply_step_succeeds:
  assumes "apply_step E cwd w op s = (Inr u, s')"
  shows "\<exists>next. apply_patch_operation op (map_of (fs_files (ap_fs s)) (target_location cwd w (ap_fs s) op)) = Inr next \<and>
    fs_locate (ap_fs s') = fs_locate (ap_fs s) \<and>
    fs_files (ap_fs s') = AList.update (target_location cwd w (ap_fs s) op) next (fs_files (ap_fs s)) \<and>
    ap_after s' = AList.update (op_relative_path op) (sha256_hex E next) (ap_after s) \<and>
    ap_before s' = (case map_of (fs_files (ap_fs s)) (target_location cwd w (ap_fs s) op) of
        None \<Rightarrow> ap_before s
      | Some b \<Rightarrow> AList.update (op_relative_path op) (sha256_hex E b) (ap_before s))"
proof -
  let ?F = "ap_fs s"
  define a where "a = the (pd_absolute_path (resolve_repository_path cwd w (op_relative_path op)))"
  define before where "before = (if fs_exists ?F a then map_sum id Some (fs_read ?F a) else Inr None)"
  define s1 where "s1 = (\<lambda>b. case b of
      None \<Rightarrow> s
    | Some b \<Rightarrow> s\<lparr>ap_before := AList.update (op_relative_path op) (sha256_hex E b) (ap_before s)\<rparr>)"
  have step: "apply_step E cwd w op s =
    (if \<not> pd_ok (resolve_repository_path cwd w (op_relative_path op)) \<or>
        \<not> truthy (pd_absolute_path (resolve_repository_path cwd w (op_relative_path op)))
     then (Inl (refusal (resolve_repository_path cwd w (op_relative_path op))), s)
     else (case before of
         Inl e \<Rightarrow> (Inl e, s)
       | Inr b \<Rightarrow>
           (case apply_patch_operation op b of
              Inl e \<Rightarrow> (Inl e, s1 b)
            | Inr next \<Rightarrow>
                (case fs_mkdir ?F (path_dirname a) of
                   Inl e \<Rightarrow> (Inl e, s1 b)
                 | Inr F1 \<Rightarrow>
                     (case fs_write F1 a next of
                        Inl e \<Rightarrow> (Inl e, (s1 b)\<lparr>ap_fs := F1\<rparr>)
                      | Inr F2 \<Rightarrow>
                          (Inr (), (s1 b)\<lparr>ap_fs := F2, ap_after :=
                             AList.update (op_relative_path op) (sha256_hex E next) (ap_after (s1 b))\<rparr>))))))"
    unfolding apply_step_def Let_def before_def s1_def a_def ..
  from assms obtain b "next" F1 F2 where b: "before = Inr b" "apply_patch_operation op b = Inr next"
    and F1: "fs_mkdir ?F (path_dirname a) = Inr F1" and F2: "fs_write F1 a next = Inr F2"
    and s': "s' = (s1 b)\<lparr>ap_fs := F2, ap_after :=
      AList.update (op_relative_path op) (sha256_hex E next) (ap_after (s1 b))\<rparr>"
    unfolding step by (auto split: if_splits sum.splits)
  have "b = map_of (fs_files ?F) (fs_locate ?F a)"
    using b(1) by (auto simp: before_def fs_exists_def fs_read_def split: if_splits option.splits)
  moreover have "fs_files F2 = AList.update (fs_locate ?F a) next (fs_files ?F)" "fs_locate F2 = fs_locate ?F"
    using fs_mkdir_frame [OF F1] fs_write_frame [OF F2] by auto
  ultimately show ?thesis
    using b(2) unfolding target_location_def a_def [symmetric]
    by (intro exI [of _ "next"]) (simp add: s' s1_def split: option.splits)
qed

lemma apply_operations_frame:
  "fs_locate (ap_fs (snd (apply_operations E cwd w ops s))) = fs_locate (ap_fs s) \<and>
   (\<forall>l. map_of (fs_files (ap_fs (snd (apply_operations E cwd w ops s)))) l = map_of (fs_files (ap_fs s)) l \<or>
      (\<exists>op \<in> set ops. l = target_location cwd w (ap_fs s) op))"
proof (induction ops arbitrary: s)
  case (Cons op ops)
  obtain r s1 where step: "apply_step E cwd w op s = (r, s1)" by fastforce
  show ?case
  proof (cases r)
    case (Inl e)
    with step apply_step_fails [of E cwd w op s e s1] show ?thesis by simp
  next
    case (Inr u)
    from apply_step_succeeds [OF step [unfolded Inr]] obtain "next" where
      n: "fs_locate (ap_fs s1) = fs_locate (ap_fs s)"
      "fs_files (ap_fs s1) = AList.update (target_location cwd w (ap_fs s) op) next (fs_files (ap_fs s))"
      by blast
    have same: "target_location cwd w (ap_fs s1) = target_location cwd w (ap_fs s)"
      by (simp add: target_location_def n(1) fun_eq_iff)
    let ?t = "apply_operations E cwd w ops s1"
    have tail: "apply_operations E cwd w (op # ops) s = ?t" using step Inr by simp
    have "map_of (fs_files (ap_fs (snd ?t))) l = map_of (fs_files (ap_fs s)) l \<or>
        (\<exists>o1 \<in> set (op # ops). l = target_location cwd w (ap_fs s) o1)" for l
    proof -
      have "map_of (fs_files (ap_fs (snd ?t))) l = map_of (fs_files (ap_fs s1)) l \<or>
          (\<exists>o1 \<in> set ops. l = target_location cwd w (ap_fs s) o1)"
        using Cons.IH [of s1] unfolding same by blast
      then show ?thesis
        by (cases "l = target_location cwd w (ap_fs s) op") (auto simp: n(2) update_conv')
    qed
    moreover have "fs_locate (ap_fs (snd ?t)) = fs_locate (ap_fs s)" using Cons.IH [of s1] n(1) by simp
    ultimately show ?thesis unfolding tail by blast
  qed
qed simp


text \<open>Operations with different targets do not meet: each one works on what was there before.\<close>

lemma apply_operations_each:
  assumes "apply_operations E cwd w ops s = (Inr u, s')"
    and "distinct (map (target_location cwd w (ap_fs s)) ops)" and "op \<in> set ops"
  shows "\<exists>next. apply_patch_operation op (map_of (fs_files (ap_fs s)) (target_location cwd w (ap_fs s) op)) = Inr next \<and>
    map_of (fs_files (ap_fs s')) (target_location cwd w (ap_fs s) op) = Some next \<and>
    map_of (ap_after s') (op_relative_path op) = Some (sha256_hex E next) \<and>
    (\<forall>b. map_of (fs_files (ap_fs s)) (target_location cwd w (ap_fs s) op) = Some b \<longrightarrow>
      map_of (ap_before s') (op_relative_path op) = Some (sha256_hex E b))"
  using assms
proof (induction ops arbitrary: s)
  case (Cons p ops)
  obtain s1 where step: "apply_step E cwd w p s = (Inr (), s1)"
    and rest: "apply_operations E cwd w ops s1 = (Inr u, s')"
    using Cons.prems(1) by (auto split: prod.splits sum.splits)
  from apply_step_succeeds [OF step] obtain next1 where n:
    "apply_patch_operation p (map_of (fs_files (ap_fs s)) (target_location cwd w (ap_fs s) p)) = Inr next1"
    "fs_locate (ap_fs s1) = fs_locate (ap_fs s)"
    "fs_files (ap_fs s1) = AList.update (target_location cwd w (ap_fs s) p) next1 (fs_files (ap_fs s))"
    "ap_after s1 = AList.update (op_relative_path p) (sha256_hex E next1) (ap_after s)"
    "ap_before s1 = (case map_of (fs_files (ap_fs s)) (target_location cwd w (ap_fs s) p) of
        None \<Rightarrow> ap_before s
      | Some b \<Rightarrow> AList.update (op_relative_path p) (sha256_hex E b) (ap_before s))"
    by blast
  have same: "target_location cwd w (ap_fs s1) = target_location cwd w (ap_fs s)"
    by (simp add: target_location_def n(2) fun_eq_iff)
  show ?case
  proof (cases "op = p")
    case False
    then have op: "op \<in> set ops" using Cons.prems(3) by simp
    then have ne: "target_location cwd w (ap_fs s) op \<noteq> target_location cwd w (ap_fs s) p"
      using Cons.prems(2) by (metis distinct.simps(2) image_eqI list.set_map list.simps(9))
    have "distinct (map (target_location cwd w (ap_fs s1)) ops)" using Cons.prems(2) same by simp
    from Cons.IH [OF rest this op] ne show ?thesis unfolding same by (simp add: n(3) update_conv')
  next
    case True
    have others: "\<forall>q \<in> set ops. target_location cwd w (ap_fs s) q \<noteq> target_location cwd w (ap_fs s) p"
      using Cons.prems(2) by (auto simp: image_iff)
    have paths: "\<forall>q \<in> set ops. op_relative_path q \<noteq> op_relative_path p"
      using others by (auto simp: target_location_def)
    have written: "map_of (fs_files (ap_fs s')) (target_location cwd w (ap_fs s) p) = Some next1"
    proof -
      let ?l = "target_location cwd w (ap_fs s) p"
      have "map_of (fs_files (ap_fs s')) ?l = map_of (fs_files (ap_fs s1)) ?l \<or>
          (\<exists>q \<in> set ops. ?l = target_location cwd w (ap_fs s) q)"
        using conjunct2 [OF apply_operations_frame [of E cwd w ops s1]] unfolding rest same by simp
      with others have "map_of (fs_files (ap_fs s')) ?l = map_of (fs_files (ap_fs s1)) ?l" by metis
      then show ?thesis by (simp add: n(3) update_conv')
    qed
    have hashes: "map_of (ap_after s') r = map_of (ap_after s1) r \<and> map_of (ap_before s') r = map_of (ap_before s1) r"
      if "\<forall>q \<in> set ops. op_relative_path q \<noteq> r" for r
      using rest that
    proof (induction ops arbitrary: s1)
      case (Cons q ops)
      obtain s2 where step: "apply_step E cwd w q s1 = (Inr (), s2)"
        and rest: "apply_operations E cwd w ops s2 = (Inr u, s')"
        using Cons.prems(1) by (auto split: prod.splits sum.splits)
      from apply_step_succeeds [OF step] have
        "map_of (ap_after s2) r = map_of (ap_after s1) r \<and> map_of (ap_before s2) r = map_of (ap_before s1) r"
        using Cons.prems(2) by (auto simp: update_conv' split: option.splits)
      with Cons.IH [OF rest] Cons.prems(2) show ?case by simp
    qed simp
    show ?thesis
      using n(1) written hashes [OF paths] unfolding True
      by (intro exI [of _ next1]) (auto simp: n(4,5) update_conv')
  qed
qed simp

section \<open>Properties\<close>

text \<open>What one text operation does: it makes the content, puts it before or after the one place the
  anchor occurs at, replaces what lies from one anchor to the other, or replaces the lines of the
  range and no other line; a diff operation is never applied.\<close>
lemma patch_operation_effect:
  assumes "apply_patch_operation op (Some current) = Inr r"
  shows "case op_kind op of
      OK_create_file \<Rightarrow> r = nullish (op_content op) []
    | OK_full_replacement \<Rightarrow> r = nullish (op_content op) []
    | OK_insert_after \<Rightarrow>
        if truthy (op_anchor op)
        then \<exists>pre post. current = pre @ the (op_anchor op) @ post \<and> (\<forall>u v. post \<noteq> u @ the (op_anchor op) @ v) \<and>
          r = pre @ the (op_anchor op) @ nullish (op_content op) [] @ post
        else r = current @ nullish (op_content op) []
    | OK_insert_before \<Rightarrow>
        if truthy (op_anchor op)
        then \<exists>pre post. current = pre @ the (op_anchor op) @ post \<and> (\<forall>u v. post \<noteq> u @ the (op_anchor op) @ v) \<and>
          r = pre @ nullish (op_content op) [] @ the (op_anchor op) @ post
        else r = nullish (op_content op) [] @ current
    | OK_replace_range \<Rightarrow>
        if truthy (op_start_anchor op) \<and> truthy (op_end_anchor op)
        then \<exists>pre mid post. current = pre @ the (op_start_anchor op) @ mid @ the (op_end_anchor op) @ post \<and>
          r = pre @ nullish (op_content op) [] @ post
        else \<exists>m n. op_start_line op = Some m \<and> op_end_line op = Some n \<and> 1 \<le> m \<and> m \<le> n \<and>
          split_on line_feed r = take (m - 1) (split_on line_feed current) @
            split_on line_feed (strip_last_newline (nullish (op_content op) [])) @
            drop n (split_on line_feed current)
    | OK_unified_diff \<Rightarrow> False"
proof (cases "op_kind op")
  case OK_replace_range
  then show ?thesis
    using assms replace_by_anchors_spec replace_range_spec
    by (auto simp: apply_patch_operation_def Let_def split: if_splits)
next
  case OK_insert_after
  show ?thesis
  proof (cases "op_anchor op")
    case (Some a)
    with OK_insert_after assms insert_by_anchor_spec [of current a "nullish (op_content op) []" True r]
    show ?thesis by (auto simp: apply_patch_operation_def insert_by_anchor_def Let_def split: if_splits)
  qed (use assms OK_insert_after in
    \<open>auto simp: apply_patch_operation_def insert_by_anchor_def Let_def split: if_splits\<close>)
next
  case OK_insert_before
  show ?thesis
  proof (cases "op_anchor op")
    case (Some a)
    with OK_insert_before assms insert_by_anchor_spec [of current a "nullish (op_content op) []" False r]
    show ?thesis by (auto simp: apply_patch_operation_def insert_by_anchor_def Let_def split: if_splits)
  qed (use assms OK_insert_before in
    \<open>auto simp: apply_patch_operation_def insert_by_anchor_def Let_def split: if_splits\<close>)
qed (use assms in \<open>auto simp: apply_patch_operation_def Let_def split: if_splits\<close>)


lemma patch_operation_effect_witness:
  "\<exists>pre post. ''ab'' = pre @ ''a'' @ post \<and> ''aXb'' = pre @ ''a'' @ ''X'' @ post"
proof -
  let ?op = "\<lparr>op_operation_id = ''o'', op_kind = OK_insert_after, op_relative_path = ''x'',
    op_expected_sha256 = None, op_start_line = None, op_end_line = None, op_start_anchor = None,
    op_end_anchor = None, op_anchor = Some ''a'', op_content = Some ''X'', op_unified_diff = None,
    op_rationale = ''r''\<rparr>"
  have "apply_patch_operation ?op (Some ''ab'') = Inr ''aXb''"
    by (simp add: apply_patch_operation_def patch_operation_ok_def insert_by_anchor_def
        assert_unique_anchor_def index_from_def)
  from patch_operation_effect [OF this] show ?thesis by auto
qed

text \<open>C30: The validator, when it answers, accepts a patch plan exactly when the plan needs no scope
  expansion, changes and verifies only what the policy lists, and every operation is admissible: a
  writable path among the expected files, a matching hash wherever one is given and one for every
  change of an existing file, anchors that occur (once, unless ambiguity is allowed), size and
  lockfile rules kept. It hands the plan on, and lists no violation, only then.\<close>
theorem patch_validation_exact:
  assumes "validate_repository_patch_plan E cwd F w plan policy now = Inr v"
  shows "(pvr_valid v \<longleftrightarrow> admissible_plan E cwd F w plan policy) \<and>
    (pvr_valid v \<longleftrightarrow> pvr_violations v = []) \<and>
    pvr_normalized_patch_plan v = (if admissible_plan E cwd F w plan policy then Some plan else None)"
  using validation_result [OF assms] by simp

text \<open>C29: Applying a patch plan, whether it returns or throws, changes no file but the targets of the
  plan's operations, and it changes nothing at all unless the whole plan was admissible before the
  first write: every file it may touch was then a writable path of the workspace and among the
  expected changed files.\<close>
theorem patch_apply_confined:
  "\<forall>l. map_of (fs_files (snd (apply_repository_patch_plan E cwd G w plan policy now F))) l =
      map_of (fs_files F) l \<or>
    (admissible_plan E cwd F w plan policy \<and>
     (\<exists>op \<in> set (pt_operations plan). \<exists>a r.
        assert_writable_repository_path cwd F w (op_relative_path op) = Inr (a, r) \<and>
        op_relative_path op \<in> set (pt_expected_changed_files plan) \<and> l = fs_locate F a))"
proof
  fix l
  let ?s = "\<lparr>ap_fs = F, ap_before = [], ap_after = []\<rparr>"
  let ?F' = "snd (apply_repository_patch_plan E cwd G w plan policy now F)"
  show "map_of (fs_files ?F') l = map_of (fs_files F) l \<or>
    (admissible_plan E cwd F w plan policy \<and>
     (\<exists>op \<in> set (pt_operations plan). \<exists>a r.
        assert_writable_repository_path cwd F w (op_relative_path op) = Inr (a, r) \<and>
        op_relative_path op \<in> set (pt_expected_changed_files plan) \<and> l = fs_locate F a))"
  proof (cases "\<exists>v. validate_repository_patch_plan E cwd F w plan policy now = Inr v \<and> pvr_valid v")
    case False
    then have "?F' = F" by (auto simp: apply_repository_patch_plan_def split: sum.splits)
    then show ?thesis by simp
  next
    case True
    then obtain v where v: "validate_repository_patch_plan E cwd F w plan policy now = Inr v" "pvr_valid v"
      by blast
    then have adm: "admissible_plan E cwd F w plan policy" using validation_result(1) by blast
    have F': "?F' = ap_fs (snd (apply_operations E cwd w (pt_operations plan) ?s))"
      using v by (auto simp: apply_repository_patch_plan_def split: sum.splits prod.splits)
    show ?thesis
    proof (cases "map_of (fs_files ?F') l = map_of (fs_files F) l")
      case False
      then obtain op where op: "op \<in> set (pt_operations plan)" "l = target_location cwd w F op"
        using conjunct2 [OF apply_operations_frame [of E cwd w "pt_operations plan" ?s]] unfolding F' by auto
      with adm have "admissible_operation E cwd F w plan policy op"
        by (simp add: admissible_plan_def list_all_iff)
      then obtain a r where ar: "assert_writable_repository_path cwd F w (op_relative_path op) = Inr (a, r)"
        "op_relative_path op \<in> set (pt_expected_changed_files plan)"
        unfolding admissible_operation_def by (elim exE conjE)
      from writable_resolved [OF ar(1)] op(2) have "l = fs_locate F a" by (simp add: target_location_def)
      with op(1) ar adm show ?thesis by blast
    qed simp
  qed
qed

text \<open>When a plan whose operations have different targets is applied, each target holds what its
  operation makes of the content it had before, and the artifact records the hash of that
  content and the hash of the new one.\<close>
lemma patch_apply_writes_each:
  assumes "apply_repository_patch_plan E cwd G w plan policy now F = (Inr art, F')"
    and "pn_apply_status art = AS_applied"
    and "distinct (map (target_location cwd w F) (pt_operations plan))"
    and "op \<in> set (pt_operations plan)"
  shows "\<exists>next. apply_patch_operation op (map_of (fs_files F) (target_location cwd w F op)) = Inr next \<and>
    map_of (fs_files F') (target_location cwd w F op) = Some next \<and>
    map_of (pn_after_hashes art) (op_relative_path op) = Some (sha256_hex E next) \<and>
    (\<forall>b. map_of (fs_files F) (target_location cwd w F op) = Some b \<longrightarrow>
      map_of (pn_before_hashes art) (op_relative_path op) = Some (sha256_hex E b))"
proof -
  let ?s = "\<lparr>ap_fs = F, ap_before = [], ap_after = []\<rparr>"
  from assms(1,2) obtain u s' where run: "apply_operations E cwd w (pt_operations plan) ?s = (Inr u, s')"
    and F': "F' = ap_fs s'"
    and h: "pn_before_hashes art = ap_before s'" "pn_after_hashes art = ap_after s'"
    by (auto simp: apply_repository_patch_plan_def checked_artifact_def failed_artifact_def
        applied_artifact_def Let_def split: sum.splits prod.splits if_splits)
  from apply_operations_each [OF run _ assms(4)] assms(3) show ?thesis unfolding F' h by simp
qed

section \<open>Witnesses\<close>

definition sample_operation :: patch_operation where
  "sample_operation =
     \<lparr>op_operation_id = ''o'', op_kind = OK_create_file, op_relative_path = ''x'',
      op_expected_sha256 = None, op_start_line = None, op_end_line = None, op_start_anchor = None,
      op_end_anchor = None, op_anchor = None, op_content = Some ''new'', op_unified_diff = None,
      op_rationale = ''r''\<rparr>"

definition sample_patch :: patch_plan where
  "sample_patch =
     \<lparr>pt_patch_plan_id = ''pp'', pt_plan_id = ''p'', pt_node_id = ''n'', pt_summary = ''s'',
      pt_rationale = ''r'', pt_evidence_refs = [''e''], pt_operations = [sample_operation],
      pt_expected_changed_files = [''x''], pt_verification_command_ids = [], pt_preconditions = [],
      pt_risk_level = PR_write, pt_approval_required = False, pt_requires_scope_expansion = False,
      pt_scope_expansion_request = None\<rparr>"

definition quiet_git :: git_calls where
  "quiet_git = \<lparr>gc_diff = (\<lambda>_. Inr []), gc_names = (\<lambda>_. Inr [])\<rparr>"

lemma plain_facts:
  "\<not> fs_exists plain_fs ''/r/x''" "fs_exists plain_fs ''/r''" "fs_locate plain_fs p = p"
  "\<not> fs_link plain_fs p"
  by (simp_all add: fs_exists_def plain_fs_def)

lemma sample_writable:
  "assert_writable_repository_path ''/'' plain_fs default_workspace ''x'' = Inr (''/r/x'', ''x'')"
  by (simp add: x_writable plain_facts)

lemma sample_path: "op_relative_path sample_operation = ''x''" "op_kind sample_operation = OK_create_file"
  "op_expected_sha256 sample_operation = None" "op_content sample_operation = Some ''new''"
  by (simp_all add: sample_operation_def)

lemma sample_checks:
  "operation_violations zero_env ''/'' plain_fs default_workspace sample_patch None now sample_operation = Inr []"
  by (simp add: operation_violations_def x_resolved operation_checks_def writable_violations_def
      sample_writable plain_facts check_def sample_path is_lockfile_def) (simp add: sample_patch_def)

lemma sample_validation:
  "\<exists>v. validate_repository_patch_plan zero_env ''/'' plain_fs default_workspace sample_patch None now = Inr v \<and>
     pvr_valid v"
proof -
  have ok: "patch_plan_ok zero_env sample_patch"
    by (simp add: patch_plan_ok_def patch_operation_ok_def sample_patch_def sample_operation_def)
  have ops: "pt_operations sample_patch = [sample_operation]" by (simp add: sample_patch_def)
  have "plan_violations sample_patch None now = []" by (simp add: plan_violations_def sample_patch_def)
  then show ?thesis
    unfolding validate_repository_patch_plan_def ops using ok by (simp add: sample_checks)
qed

theorem patch_validation_exact_witness:
  "admissible_plan zero_env ''/'' plain_fs default_workspace sample_patch None"
  using sample_validation [of "[]"] patch_validation_exact by blast


lemma sample_tree:
  "path_dirname ''/r/x'' = ''/r''" "dir_chain ''/r'' = [''/'', ''/r'']"
  by (simp_all add: path_dirname_def parent_tail_def dir_chain_def path_segments_def abs_path_def upt_rec)

lemma sample_written:
  "fs_mkdir plain_fs ''/r'' = Inr plain_fs"
  "fs_write plain_fs ''/r/x'' ''new'' = Inr (plain_fs\<lparr>fs_files := [(''/r/x'', ''new'')]\<rparr>)"
  by (simp_all add: fs_mkdir_def fs_write_def sample_tree) (simp_all add: plain_fs_def fs_exists_def sample_tree)

lemma sample_applied:
  "\<exists>art F'. apply_repository_patch_plan zero_env ''/'' quiet_git default_workspace sample_patch None ''t''
       plain_fs = (Inr art, F') \<and> pn_apply_status art = AS_applied"
proof -
  let ?s = "\<lparr>ap_fs = plain_fs, ap_before = [], ap_after = []\<rparr>"
  have op: "apply_patch_operation sample_operation None = Inr ''new''"
    by (simp add: apply_patch_operation_def patch_operation_ok_def sample_operation_def)
  have "\<exists>F1. apply_step zero_env ''/'' default_workspace sample_operation ?s =
      (Inr (), ?s\<lparr>ap_fs := F1, ap_after := [(''x'', sha256_hex zero_env ''new'')]\<rparr>)"
    by (simp add: apply_step_def sample_path x_resolved plain_facts op sample_tree(1) sample_written)
  then obtain F1 where step: "apply_step zero_env ''/'' default_workspace sample_operation ?s =
      (Inr (), ?s\<lparr>ap_fs := F1, ap_after := [(''x'', sha256_hex zero_env ''new'')]\<rparr>)" by blast
  have ops: "pt_operations sample_patch = [sample_operation]" by (simp add: sample_patch_def)
  obtain v where v: "validate_repository_patch_plan zero_env ''/'' plain_fs default_workspace sample_patch None ''t'' = Inr v"
    "pvr_valid v" using sample_validation by blast
  have hex: "is_hex64 (sha256_hex zero_env s)" for s
    by (simp add: zero_env_def is_hex64_def list_all_iff)
  have changed: "changed_files_of [] = []" by (simp add: changed_files_of_def trim_def)
  have "patch_artifact_ok zero_env (applied_artifact zero_env sample_patch ''t'' [] []
      (?s\<lparr>ap_fs := F1, ap_after := [(''x'', sha256_hex zero_env ''new'')]\<rparr>))"
    by (simp add: patch_artifact_ok_def applied_artifact_def patch_artifact_id_def hex Let_def)
      (simp add: sample_patch_def zero_env_def)
  then show ?thesis
    unfolding apply_repository_patch_plan_def v ops
    by (simp add: v step quiet_git_def changed checked_artifact_def) (simp add: applied_artifact_def Let_def)
qed

lemma patch_apply_writes_each_witness:
  "\<exists>art F'. apply_repository_patch_plan zero_env ''/'' quiet_git default_workspace sample_patch None ''t''
       plain_fs = (Inr art, F') \<and> map_of (fs_files F') ''/r/x'' = Some ''new''"
proof -
  obtain art F' where a: "apply_repository_patch_plan zero_env ''/'' quiet_git default_workspace
      sample_patch None ''t'' plain_fs = (Inr art, F')" "pn_apply_status art = AS_applied"
    using sample_applied by blast
  have ops: "pt_operations sample_patch = [sample_operation]" by (simp add: sample_patch_def)
  have loc: "target_location ''/'' default_workspace plain_fs sample_operation = ''/r/x''"
    by (simp add: target_location_def sample_path x_resolved plain_facts)
  have op: "apply_patch_operation sample_operation c = Inr ''new''" for c
    by (simp add: apply_patch_operation_def patch_operation_ok_def sample_operation_def Let_def)
  from patch_apply_writes_each [OF a, of sample_operation] a(1) show ?thesis
    by (auto simp: ops loc op)
qed

end
