(* ===== verification/Repo_Verify.thy ===== *)
theory Repo_Verify
  imports Repo_Workspace
begin

text \<open>
  \<open>repository/verification-policy.ts\<close>, \<open>verification-report.ts\<close>, \<open>verification-runner.ts\<close>,
  \<open>failure-summarizer.ts\<close> and \<open>repair-loop.ts\<close>: the verification commands of a repository, the
  runner that executes them, the report, and the decision whether a failure is repaired again.
\<close>

section \<open>Commands and reports\<close>

record verification_command =
  vc_command_id :: string
  vc_display_name :: string
  vc_executable :: string
  vc_args :: "string list"
  vc_timeout_ms :: nat
  vc_output_limit_bytes :: nat

definition verification_command_ok :: "verification_command \<Rightarrow> bool" where
  "verification_command_ok c =
     (nonempty (vc_command_id c) \<and> nonempty (vc_display_name c) \<and> nonempty (vc_executable c) \<and>
      1000 \<le> vc_timeout_ms c \<and> 1000 \<le> vc_output_limit_bytes c)"

text \<open>The scripts of \<open>package.json\<close>: no file, text that is not JSON (with the error), or the entries of
  its \<open>scripts\<close> object.\<close>

definition detected_command :: "string \<Rightarrow> verification_command" where
  "detected_command name =
     \<lparr>vc_command_id = ''npm_run_'' @ name, vc_display_name = ''npm run '' @ name,
      vc_executable = ''npm'', vc_args = [''run'', name],
      vc_timeout_ms = (if name = ''test'' \<or> name = ''build'' then 120000 else 60000),
      vc_output_limit_bytes = 40000\<rparr>"

definition is_jstr :: "json option \<Rightarrow> bool" where
  "is_jstr v = (case v of Some (JStr s) \<Rightarrow> True | _ \<Rightarrow> False)"

definition detect_verification_policy ::
    "(thrown + (string \<times> json) list) option \<Rightarrow> thrown + verification_command list" where
  "detect_verification_policy package_json =
     (case package_json of
        None \<Rightarrow> Inr []
      | Some (Inl e) \<Rightarrow> Inl e
      | Some (Inr scripts) \<Rightarrow>
          (let cs = map detected_command
                 (filter (\<lambda>name. is_jstr (map_of scripts name)) [''typecheck'', ''test'', ''lint'', ''build''])
           in if list_all verification_command_ok cs then Inr cs else Inl Zod_error))"

datatype verification_status = VS_passed | VS_failed | VS_timeout | VS_skipped

fun verification_status_str :: "verification_status \<Rightarrow> string" where
  "verification_status_str VS_passed = ''passed''"
| "verification_status_str VS_failed = ''failed''"
| "verification_status_str VS_timeout = ''timeout''"
| "verification_status_str VS_skipped = ''skipped''"

declare verification_status_str.simps [enum_simps]

record verification_failure =
  vf_command_id :: string
  vf_summary :: string
  vf_stderr_preview :: string

record verification_result =
  vr_command_id :: string
  vr_exit_code :: "int option"
  vr_status :: verification_status
  vr_stdout_preview :: string
  vr_stderr_preview :: string
  vr_duration_ms :: int
  vr_truncated :: bool
  vr_raw_artifact_id :: "string option"

record verification_report =
  vp_verification_report_id :: string
  vp_plan_id :: string
  vp_node_id :: string
  vp_command_results :: "verification_result list"
  vp_passed :: bool
  vp_failures :: "verification_failure list"
  vp_artifact_id :: string
  vp_created_at :: string

definition verification_failure_ok :: "verification_failure \<Rightarrow> bool" where
  "verification_failure_ok f = (nonempty (vf_command_id f) \<and> nonempty (vf_summary f))"

definition verification_result_ok :: "verification_result \<Rightarrow> bool" where
  "verification_result_ok r =
     (nonempty (vr_command_id r) \<and> 0 \<le> vr_duration_ms r \<and> opt_ok nonempty (vr_raw_artifact_id r))"

definition verification_report_ok :: "env \<Rightarrow> verification_report \<Rightarrow> bool" where
  "verification_report_ok E r =
     (nonempty (vp_verification_report_id r) \<and> nonempty (vp_plan_id r) \<and> nonempty (vp_node_id r) \<and>
      list_all verification_result_ok (vp_command_results r) \<and>
      list_all verification_failure_ok (vp_failures r) \<and> nonempty (vp_artifact_id r) \<and>
      datetime_ok E (vp_created_at r))"

section \<open>Running the commands\<close>

text \<open>What became of a spawned process: its output until it ended or was stopped, its exit code
  (\<open>None\<close> when \<open>close\<close> reported no code), whether the timer stopped it, and the two clock readings.\<close>

record process_result =
  px_stdout :: string
  px_stderr :: string
  px_exit :: "int option"
  px_timed_out :: bool
  px_started :: int
  px_ended :: int

definition truncate_text :: "string \<Rightarrow> nat \<Rightarrow> string \<times> bool" where
  "truncate_text v limit = (if utf8_length v \<le> limit then (v, False) else (take limit v, True))"

definition assert_safe_command :: "verification_command \<Rightarrow> bool" where
  "assert_safe_command c = (\<not> list_ex unsafe_token (vc_executable c # vc_args c))"

definition run_command :: "env \<Rightarrow> verification_command \<Rightarrow> process_result \<Rightarrow> verification_result" where
  "run_command E c p =
     (let out = truncate_text (px_stdout p) (vc_output_limit_bytes c);
          err = truncate_text (px_stderr p) (vc_output_limit_bytes c);
          code = (if px_timed_out p then None else Some (nullish (px_exit p) 1))
      in \<lparr>vr_command_id = vc_command_id c, vr_exit_code = code,
          vr_status = (if px_timed_out p then VS_timeout
                       else if code = Some 0 then VS_passed else VS_failed),
          vr_stdout_preview = fst out, vr_stderr_preview = fst err,
          vr_duration_ms = max 0 (px_ended p - px_started p), vr_truncated = (snd out \<or> snd err),
          vr_raw_artifact_id = Some (''verification_log_'' @ take 18 (stable_hash E (JObj
            [(''command'', JStr (vc_command_id c)), (''started'', JNum (px_started p))])))\<rparr>)"

text \<open>The loop over the selected commands: the results, or the error at the first unsafe command, and
  the commands that were spawned. The operating system answers the n-th spawn.\<close>

fun run_commands ::
    "env \<Rightarrow> (nat \<Rightarrow> verification_command \<Rightarrow> process_result) \<Rightarrow> nat \<Rightarrow> verification_command list
      \<Rightarrow> (thrown + verification_result list) \<times> verification_command list" where
  "run_commands E spawn n [] = (Inr [], [])"
| "run_commands E spawn n (c # cs) =
     (if \<not> assert_safe_command c
      then (Inl (Plain_error ''Verification command contains unsupported shell syntax.''), [])
      else
        (case run_commands E spawn (Suc n) cs of
           (Inl e, spawned) \<Rightarrow> (Inl e, c # spawned)
         | (Inr rs, spawned) \<Rightarrow> (Inr (run_command E c (spawn n c) # rs), c # spawned)))"

definition result_json :: "verification_result \<Rightarrow> json" where
  "result_json r = JObj
     ([(''command_id'', JStr (vr_command_id r)),
       (''exit_code'', (case vr_exit_code r of None \<Rightarrow> JNull | Some i \<Rightarrow> JNum i)),
       (''status'', JStr (verification_status_str (vr_status r))),
       (''stdout_preview'', JStr (vr_stdout_preview r)),
       (''stderr_preview'', JStr (vr_stderr_preview r)),
       (''duration_ms'', JNum (vr_duration_ms r)),
       (''truncated'', JBool (vr_truncated r))] @
      jopt ''raw_artifact_id'' JStr (vr_raw_artifact_id r))"

definition failure_of :: "verification_result \<Rightarrow> verification_failure" where
  "failure_of r =
     \<lparr>vf_command_id = vr_command_id r,
      vf_summary = vr_command_id r @ '' '' @ verification_status_str (vr_status r),
      vf_stderr_preview = vr_stderr_preview r\<rparr>"

definition selected_commands :: "verification_command list \<Rightarrow> string list \<Rightarrow> verification_command list" where
  "selected_commands commands ids = filter (\<lambda>c. vc_command_id c \<in> set ids) commands"

definition verification_report_for ::
    "env \<Rightarrow> string \<Rightarrow> string \<Rightarrow> verification_result list \<Rightarrow> string \<Rightarrow> verification_report" where
  "verification_report_for E plan_id node_id rs now =
     (let i = ''verification_'' @ take 18 (stable_hash E (JObj
            [(''plan'', JStr plan_id), (''node'', JStr node_id),
             (''commandResults'', JArr (map result_json rs)), (''now'', JStr now)]))
      in \<lparr>vp_verification_report_id = i, vp_plan_id = plan_id, vp_node_id = node_id,
          vp_command_results = rs,
          vp_passed = (rs \<noteq> [] \<and> list_all (\<lambda>r. vr_status r = VS_passed) rs),
          vp_failures = map failure_of (filter (\<lambda>r. vr_status r \<noteq> VS_passed) rs),
          vp_artifact_id = i, vp_created_at = now\<rparr>)"

definition run_verification_policy ::
    "env \<Rightarrow> (nat \<Rightarrow> verification_command \<Rightarrow> process_result) \<Rightarrow> string \<Rightarrow> string
      \<Rightarrow> verification_command list \<Rightarrow> string list \<Rightarrow> string
      \<Rightarrow> (thrown + verification_report) \<times> verification_command list" where
  "run_verification_policy E spawn plan_id node_id commands command_ids now =
     (case run_commands E spawn 0 (selected_commands commands command_ids) of
        (Inl e, spawned) \<Rightarrow> (Inl e, spawned)
      | (Inr rs, spawned) \<Rightarrow>
          (let rep = verification_report_for E plan_id node_id rs now
           in (if verification_report_ok E rep then Inr rep else Inl Zod_error, spawned)))"

section \<open>Repairing\<close>

definition result_summary :: "verification_result \<Rightarrow> string" where
  "result_summary r =
     (let head = vr_command_id r @ '' '' @ verification_status_str (vr_status r) @
            (case vr_exit_code r of None \<Rightarrow> [] | Some i \<Rightarrow> '' with exit code '' @ int_str i) @ ''.'';
          text = (if vr_stderr_preview r \<noteq> [] then vr_stderr_preview r else vr_stdout_preview r)
      in join '' '' (filter nonempty [head, text]))"

definition summarize_verification_failure :: "verification_report \<Rightarrow> string" where
  "summarize_verification_failure rep =
     (let failed = filter (\<lambda>r. vr_status r \<noteq> VS_passed) (vp_command_results rep)
      in if failed = [] then ''Verification passed.''
         else join [CHR 0x0A] (map result_summary failed))"

datatype repair_choice = RD_repair_within_plan | RD_revise_plan_required | RD_requires_approval | RD_yield

record repair_decision =
  rpd_decision :: repair_choice
  rpd_reason :: string
  rpd_repair_work_order_id :: "string option"
  rpd_proposed_plan_update :: "json option"

datatype repair_status = RP_pending | RP_applied | RP_yielded

record repair_attempt =
  rt_repair_attempt_id :: string
  rt_plan_id :: string
  rt_node_id :: string
  rt_attempt :: nat
  rt_failure_summary :: string
  rt_status :: repair_status
  rt_decision :: repair_decision
  rt_created_at :: string

definition repair_decision_ok :: "repair_decision \<Rightarrow> bool" where
  "repair_decision_ok d = (nonempty (rpd_reason d) \<and> opt_ok nonempty (rpd_repair_work_order_id d))"

definition repair_attempt_ok :: "env \<Rightarrow> repair_attempt \<Rightarrow> bool" where
  "repair_attempt_ok E a =
     (nonempty (rt_repair_attempt_id a) \<and> nonempty (rt_plan_id a) \<and> nonempty (rt_node_id a) \<and>
      1 \<le> rt_attempt a \<and> repair_decision_ok (rt_decision a) \<and> datetime_ok E (rt_created_at a))"

text \<open>A report, or the older form with a summary and results of any shape.\<close>

datatype report_input =
    Full_report verification_report
  | Legacy_report bool string "json list option"

definition json_field :: "json \<Rightarrow> string \<Rightarrow> json option" where
  "json_field v k = (case v of JObj kvs \<Rightarrow> map_of kvs k | _ \<Rightarrow> None)"

definition str_or :: "json option \<Rightarrow> string \<Rightarrow> string" where
  "str_or v d = (case v of Some (JStr s) \<Rightarrow> s | _ \<Rightarrow> d)"

definition num_or :: "json option \<Rightarrow> int \<Rightarrow> int" where
  "num_or v d = (case v of Some (JNum i) \<Rightarrow> i | _ \<Rightarrow> d)"

definition json_truthy :: "json option \<Rightarrow> bool" where
  "json_truthy v =
     (case v of
        None \<Rightarrow> False
      | Some x \<Rightarrow> x \<notin> {JUndef, JNull, JBool False, JNum 0, JStr []})"

definition legacy_result :: "string \<Rightarrow> nat \<Rightarrow> json \<Rightarrow> verification_result" where
  "legacy_result summary i v =
     (let code = num_or (json_field v ''exit_code'') 1
      in \<lparr>vr_command_id = str_or (json_field v ''command_id'') (''command_'' @ nat_str (i + 1)),
          vr_exit_code = Some code,
          vr_status = (if code = 0 then VS_passed else VS_failed),
          vr_stdout_preview = str_or (json_field v ''stdout_preview'') [],
          vr_stderr_preview = str_or (json_field v ''stderr_preview'') summary,
          vr_duration_ms = num_or (json_field v ''duration_ms'') 0,
          vr_truncated = json_truthy (json_field v ''truncated''), vr_raw_artifact_id = None\<rparr>)"

definition legacy_report ::
    "bool \<Rightarrow> string \<Rightarrow> json list \<Rightarrow> string \<Rightarrow> string \<Rightarrow> string \<Rightarrow> verification_report" where
  "legacy_report passed summary results plan_id node_id now =
     \<lparr>vp_verification_report_id = ''verification_'' @ plan_id @ ''_'' @ node_id, vp_plan_id = plan_id,
      vp_node_id = node_id,
      vp_command_results = map (\<lambda>(i, v). legacy_result summary i v) (enumerate 0 results),
      vp_passed = passed,
      vp_failures = (if passed then []
        else [\<lparr>vf_command_id = ''verification'', vf_summary = summary, vf_stderr_preview = summary\<rparr>]),
      vp_artifact_id = ''verification_'' @ plan_id @ ''_'' @ node_id, vp_created_at = now\<rparr>"

text \<open>A report that does not parse is read as one of the older form, which has no summary: unless it
  passed, its failure then has none either and is refused.\<close>

definition normalize_report ::
    "env \<Rightarrow> report_input \<Rightarrow> string \<Rightarrow> string \<Rightarrow> string \<Rightarrow> thrown + verification_report" where
  "normalize_report E input plan_id node_id now =
     (let checked = (\<lambda>r. if verification_report_ok E r then Inr r else Inl Zod_error)
      in case input of
           Full_report r \<Rightarrow>
             if verification_report_ok E r then Inr r
             else if \<not> vp_passed r then Inl Zod_error
             else checked (legacy_report True [] [] plan_id node_id now)
         | Legacy_report passed summary results \<Rightarrow>
             checked (legacy_report passed summary (nullish results []) plan_id node_id now))"

definition repeated_failure :: "repair_attempt list \<Rightarrow> string \<Rightarrow> bool" where
  "repeated_failure attempts summary =
     (2 \<le> length (filter (\<lambda>a. rt_failure_summary a = summary) attempts))"

definition next_repair_attempt ::
    "env \<Rightarrow> string \<Rightarrow> string \<Rightarrow> repair_attempt list \<Rightarrow> report_input \<Rightarrow> int option \<Rightarrow> string
      \<Rightarrow> thrown + repair_attempt" where
  "next_repair_attempt E plan_id node_id previous input max_attempts now =
     (let attempt = length previous + 1; limit = nullish max_attempts 3
      in case normalize_report E input plan_id node_id now of
           Inl e \<Rightarrow> Inl e
         | Inr rep \<Rightarrow>
             (let summary = summarize_verification_failure rep;
                  should_yield = (limit < int attempt \<or> repeated_failure previous summary);
                  decision =
                    (if should_yield
                     then \<lparr>rpd_decision = RD_yield,
                       rpd_reason = ''Repair attempt limit or repeated failure reached.'',
                       rpd_repair_work_order_id = None, rpd_proposed_plan_update = None\<rparr>
                     else \<lparr>rpd_decision = RD_repair_within_plan,
                       rpd_reason = ''Verification failure can be repaired within current plan.'',
                       rpd_repair_work_order_id =
                         Some (''repair_work_order_'' @ plan_id @ ''_'' @ nat_str attempt),
                       rpd_proposed_plan_update = None\<rparr>);
                  a = \<lparr>rt_repair_attempt_id = ''repair_'' @ plan_id @ ''_'' @ nat_str attempt,
                       rt_plan_id = plan_id, rt_node_id = node_id, rt_attempt = attempt,
                       rt_failure_summary = summary,
                       rt_status = (if should_yield then RP_yielded else RP_pending),
                       rt_decision = decision, rt_created_at = now\<rparr>
              in if repair_attempt_ok E a then Inr a else Inl Zod_error))"


section \<open>Laws\<close>

lemma map_enumerate_snd: "map (\<lambda>(i, c). f c) (enumerate n xs) = map f xs"
  by (induction xs arbitrary: n) auto

lemma length_le_utf8: "length s \<le> utf8_length s"
  by (induction s) (auto simp: utf8_length_def)

lemma truncate_text_le: "length (fst (truncate_text v n)) \<le> n"
  using length_le_utf8 [of v] by (auto simp: truncate_text_def)

lemma truncate_text_take: "fst (truncate_text v n) = take (length (fst (truncate_text v n))) v"
  by (cases "n \<le> length v") (simp_all add: truncate_text_def)

lemma truncate_text_whole: "snd (truncate_text v n) \<longleftrightarrow> n < utf8_length v"
  "snd (truncate_text v n) \<or> fst (truncate_text v n) = v"
  by (auto simp: truncate_text_def)

lemma run_command_previews:
  "vr_stdout_preview (run_command E c p) = fst (truncate_text (px_stdout p) (vc_output_limit_bytes c))"
  "vr_stderr_preview (run_command E c p) = fst (truncate_text (px_stderr p) (vc_output_limit_bytes c))"
  "vr_truncated (run_command E c p) \<longleftrightarrow>
     snd (truncate_text (px_stdout p) (vc_output_limit_bytes c)) \<or>
     snd (truncate_text (px_stderr p) (vc_output_limit_bytes c))"
  by (simp_all add: run_command_def Let_def)

lemma run_commands_spawned:
  "snd (run_commands E spawn n cs) = takeWhile assert_safe_command cs"
  by (induction E spawn n cs rule: run_commands.induct) (auto split: prod.splits sum.splits)

lemma run_commands_results:
  "fst (run_commands E spawn n cs) = Inr rs \<Longrightarrow>
     list_all assert_safe_command cs \<and> rs = map (\<lambda>(i, c). run_command E c (spawn i c)) (enumerate n cs)"
  by (induction E spawn n cs arbitrary: rs rule: run_commands.induct)
    (auto split: prod.splits sum.splits if_splits)

lemma run_command_passed:
  "vr_status (run_command E c p) = VS_passed \<longleftrightarrow> \<not> px_timed_out p \<and> px_exit p = Some 0"
  by (cases "px_exit p") (auto simp: run_command_def Let_def)

lemma run_command_id [simp]: "vr_command_id (run_command E c p) = vc_command_id c"
  by (simp add: run_command_def Let_def)

text \<open>The next attempt is numbered after the ones before it; it repairs only within the limit and at most a second time
  for one and the same failure, and otherwise yields.\<close>

lemma next_repair_facts:
  assumes "next_repair_attempt E plan_id node_id previous input limit now = Inr a"
  shows "rt_attempt a = length previous + 1"
    and "rt_status a \<in> {RP_pending, RP_yielded}"
    and "rt_status a = RP_pending \<Longrightarrow> int (length previous + 1) \<le> nullish limit 3"
    and "rt_status a = RP_pending \<Longrightarrow> \<not> repeated_failure previous (rt_failure_summary a)"
  using assms by (auto simp: next_repair_attempt_def Let_def split: if_splits sum.splits)

section \<open>Properties\<close>

text \<open>The runner spawns the selected commands in their order and stops before the first one with a
  shell metacharacter in its executable or an argument, so no such command is ever spawned. A report
  has one result for each selected command; it passes exactly when some command was selected and each
  ended by itself with exit code 0, and its failures are the commands that did not.\<close>
lemma verification_report_faithful:
  "let selected = selected_commands commands command_ids;
       (answer, spawned) = run_verification_policy E spawn plan_id node_id commands command_ids now
   in spawned = takeWhile assert_safe_command selected \<and>
      (case answer of
         Inl _ \<Rightarrow> True
       | Inr rep \<Rightarrow>
           spawned = selected \<and>
           map vr_command_id (vp_command_results rep) = map vc_command_id selected \<and>
           (vp_passed rep \<longleftrightarrow> selected \<noteq> [] \<and>
              list_all (\<lambda>(i, c). \<not> px_timed_out (spawn i c) \<and> px_exit (spawn i c) = Some 0)
                (enumerate 0 selected)) \<and>
           map vf_command_id (vp_failures rep) =
             map (\<lambda>(i, c). vc_command_id c)
               (filter (\<lambda>(i, c). \<not> (\<not> px_timed_out (spawn i c) \<and> px_exit (spawn i c) = Some 0))
                 (enumerate 0 selected)))"
proof -
  let ?cs = "selected_commands commands command_ids"
  obtain r spawned where run: "run_commands E spawn 0 ?cs = (r, spawned)" by fastforce
  have sp: "spawned = takeWhile assert_safe_command ?cs"
    using run_commands_spawned [of E spawn 0 ?cs] run by simp
  show ?thesis
  proof (cases r)
    case (Inl e)
    with run sp show ?thesis by (simp add: run_verification_policy_def)
  next
    case (Inr rs)
    from run_commands_results [of E spawn 0 ?cs rs] run Inr have rs:
      "list_all assert_safe_command ?cs" "rs = map (\<lambda>(i, c). run_command E c (spawn i c)) (enumerate 0 ?cs)"
      by auto
    have whole: "takeWhile assert_safe_command ?cs = ?cs" using rs(1) by (simp add: list_all_iff)
    have ids: "map vr_command_id rs = map vc_command_id ?cs"
      unfolding rs(2) map_map comp_def case_prod_unfold run_command_id
      by (simp only: map_enumerate_snd [unfolded case_prod_unfold])
    have "length rs = length ?cs" unfolding rs(2) by simp
    then have ne: "rs \<noteq> [] \<longleftrightarrow> ?cs \<noteq> []" by (metis length_0_conv)
    have passed: "list_all (\<lambda>r. vr_status r = VS_passed) rs \<longleftrightarrow>
        list_all (\<lambda>(i, c). \<not> px_timed_out (spawn i c) \<and> px_exit (spawn i c) = Some 0) (enumerate 0 ?cs)"
      unfolding rs(2) by (simp add: list_all_iff case_prod_unfold run_command_passed)
    have failures: "map vf_command_id (map failure_of (filter (\<lambda>r. vr_status r \<noteq> VS_passed) rs)) =
        map (\<lambda>(i, c). vc_command_id c)
          (filter (\<lambda>(i, c). \<not> (\<not> px_timed_out (spawn i c) \<and> px_exit (spawn i c) = Some 0)) (enumerate 0 ?cs))"
      unfolding rs(2)
      by (simp add: filter_map comp_def case_prod_unfold run_command_passed failure_of_def de_Morgan_conj)
    define rep where "rep = verification_report_for E plan_id node_id rs now"
    have rep: "vp_command_results rep = rs"
      "vp_passed rep = (rs \<noteq> [] \<and> list_all (\<lambda>r. vr_status r = VS_passed) rs)"
      "vp_failures rep = map failure_of (filter (\<lambda>r. vr_status r \<noteq> VS_passed) rs)"
      by (simp_all add: rep_def verification_report_for_def Let_def)
    have answer: "run_verification_policy E spawn plan_id node_id commands command_ids now =
        (if verification_report_ok E rep then Inr rep else Inl Zod_error, spawned)"
      using run Inr by (simp add: run_verification_policy_def rep_def Let_def)
    show ?thesis
    proof (cases "verification_report_ok E rep")
      case True
      show ?thesis
        unfolding answer Let_def using sp whole ids ne passed failures
        by (simp only: True if_True prod.case sum.case rep simp_thms)
    next
      case False
      show ?thesis unfolding answer Let_def using sp by (simp add: False)
    qed
  qed
qed

text \<open>The previews of a result are beginnings of what the command printed, never longer than its
  output limit in characters; they are all of it, and the result is not marked truncated, exactly
  when both outputs are within the limit in bytes.\<close>
lemma previews_bounded:
  "let r = run_command E c p; n = vc_output_limit_bytes c in
     length (vr_stdout_preview r) \<le> n \<and> length (vr_stderr_preview r) \<le> n \<and>
     vr_stdout_preview r = take (length (vr_stdout_preview r)) (px_stdout p) \<and>
     vr_stderr_preview r = take (length (vr_stderr_preview r)) (px_stderr p) \<and>
     (vr_truncated r \<longleftrightarrow> n < utf8_length (px_stdout p) \<or> n < utf8_length (px_stderr p)) \<and>
     (vr_truncated r \<or> (vr_stdout_preview r = px_stdout p \<and> vr_stderr_preview r = px_stderr p))"
  unfolding Let_def run_command_previews truncate_text_whole(1)
  using truncate_text_le truncate_text_take truncate_text_whole by blast

end
