(* ===== verification/Artifact_Index.thy ===== *)
theory Artifact_Index
  imports Effects Artifact_Model Node_Path
begin

text \<open>
  \<open>artifacts/artifact-viewer.ts\<close>, \<open>artifacts/run-index.ts\<close> and the key filter of
  \<open>secrets/secret-redaction.ts\<close>: the indexes of artifacts and runs that live in JSON files below
  the caller's directory, and what is listed, shown, exported, pruned and indexed again.

  The disk is a map from absolute paths to files. A file holds one of the documents these modules
  write or any other text; \<open>lh_doc_text\<close> is the text of a document and \<open>lh_json_parse\<close> is
  \<open>JSON.parse\<close>. Failures of the file system itself (permissions, a directory in the place of a
  file) are not modelled.
\<close>

section \<open>The disk\<close>

datatype disk_file =
    Doc_artifact_index artifact_index
  | Doc_run_index run_index
  | Doc_run run_summary
  | Plain_text string

type_synonym disk = "(string \<times> disk_file) list"

record local_host =
  lh_caller_cwd :: string
  lh_process_cwd :: string
  lh_doc_text :: "disk_file \<Rightarrow> string"
  lh_json_parse :: "string \<Rightarrow> json option"
  lh_iso :: "int \<Rightarrow> string"

definition file_text :: "local_host \<Rightarrow> disk_file \<Rightarrow> string" where
  "file_text L f = (case f of Plain_text s \<Rightarrow> s | _ \<Rightarrow> lh_doc_text L f)"

definition write_file :: "string \<Rightarrow> disk_file \<Rightarrow> (disk, unit) effect" where
  "write_file p f = (\<lambda>d. (Inr (), AList.update p f d))"

definition remove_file :: "string \<Rightarrow> (disk, unit) effect" where
  "remove_file p = (\<lambda>d. (Inr (), AList.delete p d))"

definition resolve_local_path :: "local_host \<Rightarrow> string \<Rightarrow> string" where
  "resolve_local_path L p = path_resolve (lh_caller_cwd L) [p]"

text \<open>\<open>resolvePath\<close>: a file URI is its path, any other URI is no path.\<close>

definition resolve_path :: "local_host \<Rightarrow> string \<Rightarrow> string option" where
  "resolve_path L s =
     (let scheme = takeWhile is_lower s
      in if starts_with s ''file://'' then Some (drop 7 s)
         else if scheme \<noteq> [] \<and> starts_with (drop (length scheme) s) ''://'' then None
         else Some (resolve_local_path L s))"

text \<open>The place of an artifact's path on the disk: \<open>node:fs\<close> resolves it against the process.\<close>

definition disk_path :: "local_host \<Rightarrow> string \<Rightarrow> string option" where
  "disk_path L s =
     map_option (\<lambda>p. path_resolve (lh_process_cwd L) [p]) (keep_truthy (resolve_path L s))"

definition is_open_lagrange_path :: "local_host \<Rightarrow> string \<Rightarrow> bool" where
  "is_open_lagrange_path L p =
     (let absolute = path_resolve (lh_process_cwd L) [p];
          root = path_resolve (lh_caller_cwd L) [''.open-lagrange'']
      in absolute = root \<or> starts_with absolute (root @ ''/''))"

definition default_artifact_index_path :: string where
  "default_artifact_index_path = ''.open-lagrange/artifacts/index.json''"

section \<open>Summaries\<close>

text \<open>The draft carries the fields the caller gives; the four that have defaults are given apart.\<close>

definition create_artifact_summary ::
    "env \<Rightarrow> local_host \<Rightarrow> disk \<Rightarrow> string \<Rightarrow> artifact_summary \<Rightarrow> string option \<Rightarrow> bool option \<Rightarrow>
     bool option \<Rightarrow> execution_mode option \<Rightarrow> artifact_summary option" where
  "create_artifact_summary E L d clock a created redacted exportable mode =
     (let file = Option.bind (disk_path L (as_path_or_uri a)) (map_of d);
          s = a\<lparr>as_created_at := nullish created clock,
                as_execution_mode := nullish mode Mode_live,
                as_redacted := nullish redacted True,
                as_redaction_status :=
                  nullish_opt (as_redaction_status a)
                    (Some (if redacted = Some False then Red_not_redacted else Red_redacted)),
                as_exportable := nullish exportable True,
                as_size_bytes :=
                  (case file of None \<Rightarrow> as_size_bytes a | Some f \<Rightarrow> Some (utf8_length (file_text L f)))\<rparr>
      in if artifact_summary_ok E s then Some s else None)"

section \<open>The artifact index\<close>

definition empty_artifact_index :: artifact_index where
  "empty_artifact_index = \<lparr>xi_artifacts = [], xi_updated_at = ''1970-01-01T00:00:00.000Z''\<rparr>"

text \<open>A missing file and a file that does not hold an index both read as the empty index.\<close>

definition read_artifact_index :: "env \<Rightarrow> disk \<Rightarrow> string \<Rightarrow> artifact_index" where
  "read_artifact_index E d path =
     (case map_of d path of
        Some (Doc_artifact_index i) \<Rightarrow> if artifact_index_ok E i then i else empty_artifact_index
      | _ \<Rightarrow> empty_artifact_index)"

definition by_created :: "artifact_summary list \<Rightarrow> artifact_summary list" where
  "by_created xs = sort_key (\<lambda>a. collation_key (as_created_at a)) xs"

definition write_artifact_index ::
    "env \<Rightarrow> string \<Rightarrow> artifact_index \<Rightarrow> (disk, artifact_index) effect" where
  "write_artifact_index E path i =
     (if artifact_index_ok E i then ethen (write_file path (Doc_artifact_index i)) (ereturn i)
      else ethrow Zod_error)"

definition artifact_index_path :: "local_host \<Rightarrow> string option \<Rightarrow> string" where
  "artifact_index_path L p = resolve_local_path L (nullish p default_artifact_index_path)"

definition register_artifacts ::
    "env \<Rightarrow> local_host \<Rightarrow> artifact_summary list \<Rightarrow> string option \<Rightarrow> string \<Rightarrow>
     (disk, artifact_index) effect" where
  "register_artifacts E L artifacts index_path now d =
     (let path = artifact_index_path L index_path;
          stamped = map (\<lambda>a. a\<lparr>as_updated_at := Some now\<rparr>) artifacts;
          current = map_by as_artifact_id (xi_artifacts (read_artifact_index E d path));
          entries = fold (\<lambda>a m. AList.update (as_artifact_id a) a m) stamped current
      in (if list_all (artifact_summary_ok E) stamped
          then write_artifact_index E path
                 \<lparr>xi_artifacts = by_created (map snd entries), xi_updated_at = now\<rparr>
          else ethrow Zod_error) d)"

definition list_artifacts :: "env \<Rightarrow> local_host \<Rightarrow> disk \<Rightarrow> string option \<Rightarrow> artifact_summary list" where
  "list_artifacts E L d index_path =
     xi_artifacts (read_artifact_index E d (artifact_index_path L index_path))"

definition list_artifacts_for_plan ::
    "env \<Rightarrow> local_host \<Rightarrow> disk \<Rightarrow> string \<Rightarrow> string option \<Rightarrow> artifact_summary list" where
  "list_artifacts_for_plan E L d plan_id index_path =
     filter (\<lambda>a. as_related_plan_id a = Some plan_id \<or> as_produced_by_plan_id a = Some plan_id \<or>
                 plan_id \<in> set (nullish (as_input_artifact_refs a) []) \<or>
                 plan_id \<in> set (nullish (as_output_artifact_refs a) []))
       (list_artifacts E L d index_path)"

definition remove_artifacts_by_demo ::
    "env \<Rightarrow> local_host \<Rightarrow> string \<Rightarrow> string option \<Rightarrow> string \<Rightarrow> (disk, artifact_index) effect" where
  "remove_artifacts_by_demo E L demo_id index_path now d =
     (let path = artifact_index_path L index_path; current = read_artifact_index E d path
      in write_artifact_index E path
           \<lparr>xi_artifacts = filter (\<lambda>a. as_related_demo_id a \<noteq> Some demo_id) (xi_artifacts current),
            xi_updated_at = now\<rparr> d)"

section \<open>Showing and exporting\<close>

definition default_redaction :: string where
  "default_redaction = ''********''"

definition redact_secret_value :: "string option \<Rightarrow> string" where
  "redact_secret_value v =
     (case v of
        None \<Rightarrow> default_redaction
      | Some s \<Rightarrow>
          if length s \<le> 8 then default_redaction
          else take 2 s @ replicate (min 8 (length s - 4)) CHR ''*'' @ drop (length s - 2) s)"

definition should_strip_key :: "string \<Rightarrow> bool" where
  "should_strip_key key =
     (let n = to_lower key
      in if n = ''token_usage'' \<or> ends_with n ''_tokens'' \<or> n = ''total_tokens'' then False
         else str_includes n ''value'' \<or> str_includes n ''secret'' \<or> str_includes n ''token'')"

fun strip_secret_value :: "json \<Rightarrow> json" where
  "strip_secret_value (JArr xs) = JArr (map strip_secret_value xs)"
| "strip_secret_value (JObj kvs) =
     JObj (map (\<lambda>(k, v). (k, if should_strip_key k then JStr default_redaction else strip_secret_value v)) kvs)"
| "strip_secret_value v = v"

definition is_text_content_type :: "string option \<Rightarrow> bool" where
  "is_text_content_type t =
     (\<not> truthy t \<or>
      (let n = to_lower (the t)
       in starts_with n ''text/'' \<or>
          list_ex (str_includes n)
            [''json'', ''xml'', ''javascript'', ''typescript'', ''x-patch'', ''diff'', ''markdown'']))"

definition parse_content :: "local_host \<Rightarrow> string \<Rightarrow> string option \<Rightarrow> json" where
  "parse_content L s content_type =
     (if str_includes (nullish content_type []) ''json'' then nullish (lh_json_parse L s) (JStr s)
      else JStr s)"

definition find_artifact :: "env \<Rightarrow> local_host \<Rightarrow> disk \<Rightarrow> string \<Rightarrow> string option \<Rightarrow> artifact_summary option" where
  "find_artifact E L d artifact_id index_path =
     List.find (\<lambda>a. as_artifact_id a = artifact_id) (list_artifacts E L d index_path)"

definition artifact_file :: "local_host \<Rightarrow> disk \<Rightarrow> artifact_summary \<Rightarrow> disk_file option" where
  "artifact_file L d a = Option.bind (disk_path L (as_path_or_uri a)) (map_of d)"

text \<open>The content is \<open>JUndef\<close> for an artifact without a file and for one that is not text.\<close>

definition show_artifact ::
    "env \<Rightarrow> local_host \<Rightarrow> disk \<Rightarrow> string \<Rightarrow> string option \<Rightarrow> (artifact_summary \<times> json) option" where
  "show_artifact E L d artifact_id index_path =
     map_option (\<lambda>a.
       (a, case artifact_file L d a of
             None \<Rightarrow> JUndef
           | Some f \<Rightarrow>
               if is_text_content_type (as_content_type a)
               then strip_secret_value (parse_content L (file_text L f) (as_content_type a))
               else JUndef))
       (find_artifact E L d artifact_id index_path)"

text \<open>The payload: the bytes of the file, if there is one, and for a text its content.\<close>

definition read_artifact_payload ::
    "env \<Rightarrow> local_host \<Rightarrow> disk \<Rightarrow> string \<Rightarrow> string option \<Rightarrow>
     (artifact_summary \<times> string option \<times> json option) option" where
  "read_artifact_payload E L d artifact_id index_path =
     map_option (\<lambda>a.
       (a, case artifact_file L d a of
             None \<Rightarrow> (None, None)
           | Some f \<Rightarrow>
               (Some (file_text L f),
                if is_text_content_type (as_content_type a)
                then Some (strip_secret_value (parse_content L (file_text L f) (as_content_type a)))
                else None)))
       (find_artifact E L d artifact_id index_path)"

definition export_artifact ::
    "env \<Rightarrow> local_host \<Rightarrow> string \<Rightarrow> string \<Rightarrow> string option \<Rightarrow> (disk, artifact_summary) effect" where
  "export_artifact E L artifact_id output_path index_path d =
     (case find_artifact E L d artifact_id index_path of
        None \<Rightarrow> ethrow (Plain_error (''Artifact not found: '' @ artifact_id))
      | Some a \<Rightarrow>
          if \<not> as_exportable a then ethrow (Plain_error (''Artifact is not exportable: '' @ artifact_id))
          else (case artifact_file L d a of
                  None \<Rightarrow> ethrow (Plain_error (''Artifact file not found: '' @ as_path_or_uri a))
                | Some f \<Rightarrow>
                    ethen (write_file (path_resolve (lh_process_cwd L) [output_path]) f) (ereturn a))) d"

section \<open>Pruning\<close>

text \<open>The number before the unit, in milliseconds.\<close>

definition parse_duration_ms :: "string \<Rightarrow> thrown + int" where
  "parse_duration_ms value =
     (let v = trim value; digits = takeWhile is_digit v; unit = drop (length digits) v;
          amount = int (fold (\<lambda>c n. 10 * n + (of_char c - 48)) digits 0)
      in if digits = [] \<or> unit \<notin> set [''m'', ''h'', ''d'']
         then Inl (Plain_error ''Duration must use m, h, or d, for example 30m, 24h, or 7d.'')
         else if amount \<le> 0 then Inl (Plain_error ''Duration must be greater than zero.'')
         else if unit = ''m'' then Inr (amount * 60000)
         else if unit = ''h'' then Inr (amount * 60 * 60000)
         else Inr (amount * 24 * 60 * 60000))"

record prune_result =
  pu_pruned_count :: nat
  pu_removed_files :: "string list"
  pu_retained_count :: nat
  pu_cutoff :: string

definition is_recent :: "env \<Rightarrow> int \<Rightarrow> artifact_summary \<Rightarrow> bool" where
  "is_recent E cutoff a = (case date_parse E (as_created_at a) of None \<Rightarrow> False | Some t \<Rightarrow> cutoff \<le> t)"

text \<open>The file an expired artifact leaves behind, when it is the program's own.\<close>

definition own_file :: "local_host \<Rightarrow> disk \<Rightarrow> artifact_summary \<Rightarrow> string option" where
  "own_file L d a =
     (case keep_truthy (resolve_path L (as_path_or_uri a)) of
        None \<Rightarrow> None
      | Some p \<Rightarrow>
          if is_open_lagrange_path L p \<and> map_of d (path_resolve (lh_process_cwd L) [p]) \<noteq> None
          then Some p else None)"

fun prune_loop ::
    "env \<Rightarrow> local_host \<Rightarrow> int \<Rightarrow> artifact_summary list \<Rightarrow> artifact_summary list \<Rightarrow> string list \<Rightarrow>
     (disk, artifact_summary list \<times> string list) effect" where
  "prune_loop E L cutoff [] kept removed = ereturn (kept, removed)"
| "prune_loop E L cutoff (a # as) kept removed =
     (if is_recent E cutoff a then prune_loop E L cutoff as (kept @ [a]) removed
      else
        (\<lambda>d. (case own_file L d a of
                None \<Rightarrow> prune_loop E L cutoff as kept removed
              | Some p \<Rightarrow>
                  ethen (remove_file (path_resolve (lh_process_cwd L) [p]))
                    (prune_loop E L cutoff as kept (removed @ [p]))) d))"

text \<open>The latest instant a \<open>Date\<close> can hold, in milliseconds; beyond it \<open>toISOString\<close> throws.\<close>

definition max_date_ms :: int where
  "max_date_ms = 8640000000000000"

definition prune_cutoff :: "env \<Rightarrow> local_host \<Rightarrow> string \<Rightarrow> string \<Rightarrow> thrown + int" where
  "prune_cutoff E L older_than now =
     (case parse_duration_ms older_than of
        Inl e \<Rightarrow> Inl e
      | Inr duration \<Rightarrow>
          (case date_parse E now of
             None \<Rightarrow> Inl (Plain_error ''Invalid time value'')
           | Some t \<Rightarrow>
               if max_date_ms < \<bar>t - duration\<bar> then Inl (Plain_error ''Invalid time value'')
               else Inr (t - duration)))"

definition prune_artifacts ::
    "env \<Rightarrow> local_host \<Rightarrow> string \<Rightarrow> string option \<Rightarrow> string \<Rightarrow> string \<Rightarrow> (disk, prune_result) effect" where
  "prune_artifacts E L older_than index_path now now_at_end =
     (case prune_cutoff E L older_than now of
        Inl e \<Rightarrow> ethrow e
      | Inr cutoff \<Rightarrow>
          (\<lambda>d. (let path = artifact_index_path L index_path;
                    current = xi_artifacts (read_artifact_index E d path)
                in ebind (prune_loop E L cutoff current [] []) (\<lambda>(kept, removed).
                   ebind (write_artifact_index E path
                       \<lparr>xi_artifacts = kept, xi_updated_at = now_at_end\<rparr>) (\<lambda>_.
                   ereturn \<lparr>pu_pruned_count = length current - length kept,
                            pu_removed_files = removed, pu_retained_count = length kept,
                            pu_cutoff = lh_iso L cutoff\<rparr>))) d))"

section \<open>Indexing the files again\<close>

datatype name_test = Name_includes string | Name_ends string | Name_is string

fun name_passes :: "string \<Rightarrow> name_test \<Rightarrow> bool" where
  "name_passes name (Name_includes s) = str_includes name s"
| "name_passes name (Name_ends s) = ends_with name s"
| "name_passes name (Name_is s) = (name = s)"

definition kind_rules :: "(name_test list \<times> string) list" where
  "kind_rules =
     [([Name_includes ''planfile'', Name_ends ''.plan.md''], ''planfile''),
      ([Name_includes ''skill-frame''], ''skill_frame''),
      ([Name_includes ''workflow-skill'', Name_ends ''.skill.md''], ''workflow_skill''),
      ([Name_includes ''build-plan''], ''pack_build_plan''),
      ([Name_is ''open-lagrange.pack.yaml''], ''pack_manifest''),
      ([Name_includes ''validation-report''], ''pack_validation_report''),
      ([Name_includes ''test-report''], ''pack_test_report''),
      ([Name_includes ''install-report''], ''pack_install_report''),
      ([Name_includes ''smoke-report''], ''pack_smoke_report''),
      ([Name_includes ''policy-decision''], ''policy_decision_report''),
      ([Name_includes ''patch-plan''], ''patch_plan''),
      ([Name_includes ''patch-artifact''], ''patch_artifact''),
      ([Name_includes ''verification''], ''verification_report''),
      ([Name_includes ''review''], ''review_report''),
      ([Name_includes ''source-search-results'', Name_includes ''source_search_results''],
        ''source_search_results''),
      ([Name_includes ''source-snapshot'', Name_includes ''source_snapshot''], ''source_snapshot''),
      ([Name_includes ''source-text'', Name_includes ''source_text''], ''source_text''),
      ([Name_includes ''source-set'', Name_includes ''source_set''], ''source_set''),
      ([Name_includes ''research-brief''], ''research_brief''),
      ([Name_includes ''citation-index'', Name_includes ''citation_index''], ''citation_index''),
      ([Name_includes ''markdown-export'', Name_includes ''markdown_export''], ''markdown_export''),
      ([Name_includes ''artifact-selection'', Name_includes ''artifact_selection''],
        ''artifact_selection''),
      ([Name_includes ''run-digest'', Name_includes ''run_digest''], ''run_digest''),
      ([Name_includes ''run-packet'', Name_includes ''run_packet''], ''run_packet''),
      ([Name_includes ''artifact-manifest'', Name_includes ''artifact_manifest''],
        ''artifact_manifest''),
      ([Name_includes ''html-export'', Name_includes ''html_export''], ''html_export''),
      ([Name_includes ''pdf-export'', Name_includes ''pdf_export''], ''pdf_export''),
      ([Name_includes ''artifact-bundle'', Name_includes ''artifact_bundle''], ''artifact_bundle''),
      ([Name_includes ''zip-export'', Name_includes ''zip_export''], ''zip_export''),
      ([Name_includes ''capability-step'', Name_includes ''capability_step''],
        ''capability_step_result''),
      ([Name_includes ''timeline''], ''execution_timeline''),
      ([Name_includes ''model-call'', Name_includes ''model_call''], ''model_call''),
      ([Name_ends ''.log''], ''raw_log'')]"

definition kind_from_path :: "string \<Rightarrow> string option" where
  "kind_from_path path =
     (let name = to_lower (path_basename path)
      in map_option snd (List.find (\<lambda>(tests, _). list_ex (name_passes name) tests) kind_rules))"

text \<open>\<open>s.split(t).join("")\<close> for a \<open>t\<close> that is not empty.\<close>

function remove_all_of :: "string \<Rightarrow> string \<Rightarrow> string" where
  "remove_all_of t [] = []"
| "remove_all_of t (c # s) =
     (if t \<noteq> [] \<and> starts_with (c # s) t then remove_all_of t (drop (length t) (c # s))
      else c # remove_all_of t s)"
  by pat_completeness auto
termination
  by (relation "measure (\<lambda>(t, s). length s)") auto

text \<open>\<open>s.replace(/[^...]+/g, c)\<close>: every run of characters that are not kept becomes one \<open>c\<close>.\<close>

function squash :: "char \<Rightarrow> (char \<Rightarrow> bool) \<Rightarrow> string \<Rightarrow> string" where
  "squash d keep [] = []"
| "squash d keep (c # s) =
     (if keep c then c # squash d keep s else d # squash d keep (dropWhile (\<lambda>x. \<not> keep x) s))"
  by pat_completeness auto
termination
  by (relation "measure (\<lambda>(d, keep, s). length s)") (auto simp: less_Suc_eq_le length_dropWhile_le)

definition blank_summary :: artifact_summary where
  "blank_summary =
     \<lparr>as_artifact_id = [], as_kind = [], as_artifact_role = None, as_title = [], as_summary = [],
      as_path_or_uri = [], as_created_at = [], as_updated_at = None, as_related_run_id = None,
      as_related_demo_id = None, as_related_plan_id = None, as_related_skill_id = None,
      as_related_task_id = None, as_related_pack_id = None, as_produced_by_pack_id = None,
      as_produced_by_capability_id = None, as_produced_by_plan_id = None,
      as_produced_by_node_id = None, as_input_artifact_refs = None, as_output_artifact_refs = None,
      as_source_mode = None, as_execution_mode = Mode_live, as_fixture_id = None,
      as_fixture_set = None, as_live = None, as_mode_warning = None, as_validation_status = None,
      as_redaction_status = None, as_redacted = True, as_restricted = None, as_exportable = True,
      as_output_format = None, as_checksum_sha256 = None, as_content_type = None,
      as_size_bytes = None\<rparr>"

definition relative_to_caller :: "local_host \<Rightarrow> string \<Rightarrow> string" where
  "relative_to_caller L path =
     (let r = remove_all_of (lh_caller_cwd L) path in if starts_with r ''/'' then tl r else r)"

definition summary_from_path ::
    "env \<Rightarrow> local_host \<Rightarrow> disk \<Rightarrow> string \<Rightarrow> string \<Rightarrow> string \<Rightarrow> artifact_summary option" where
  "summary_from_path E L d path kind now =
     (let relative = relative_to_caller L path
      in create_artifact_summary E L d now
           (blank_summary\<lparr>
              as_artifact_id := kind @ ''_'' @
                take 96 (squash CHR ''_'' (\<lambda>c. is_word_char c \<or> c = CHR ''-'') relative),
              as_kind := kind, as_title := path_basename path,
              as_summary := kind @ '' artifact from '' @ path_dirname relative,
              as_path_or_uri := relative,
              as_content_type := Some (if path_extname path = ''.json'' then ''application/json''
                                       else ''text/markdown'')\<rparr>)
           (Some now) None None None)"

definition default_roots :: "string list" where
  "default_roots =
     [''.open-lagrange/demos'', ''.open-lagrange/plans'', ''.open-lagrange/skills'',
      ''.open-lagrange/generated-packs'', ''.open-lagrange/research'', ''.open-lagrange/output'',
      ''.open-lagrange/exports'']"

text \<open>The files of a root, in the order the disk lists them.\<close>

definition walk :: "disk \<Rightarrow> string \<Rightarrow> string list" where
  "walk d root = filter (\<lambda>p. p = root \<or> starts_with p (root @ ''/'')) (map fst d)"

definition reindex_artifacts ::
    "env \<Rightarrow> local_host \<Rightarrow> string list option \<Rightarrow> string option \<Rightarrow> string \<Rightarrow> (disk, artifact_index) effect" where
  "reindex_artifacts E L roots index_path now d =
     (let paths = concat (map (\<lambda>r. walk d (resolve_local_path L r)) (nullish roots default_roots));
          found = List.map_filter (\<lambda>p. map_option (\<lambda>k. summary_from_path E L d p k now) (kind_from_path p)) paths
      in if None \<in> set found then (Inl Zod_error, d)
         else register_artifacts E L (map the found) (keep_truthy index_path) now d)"


section \<open>The run index\<close>

definition default_run_index_path :: string where
  "default_run_index_path = ''.open-lagrange/runs/index.json''"

definition default_latest_run_path :: string where
  "default_latest_run_path = ''.open-lagrange/latest/run.json''"

definition default_latest_summary_path :: string where
  "default_latest_summary_path = ''.open-lagrange/latest/summary.md''"

definition empty_run_index :: run_index where
  "empty_run_index =
     \<lparr>ri_runs = [], ri_latest_run_id = None, ri_updated_at = ''1970-01-01T00:00:00.000Z''\<rparr>"

text \<open>Unlike the artifact index, a run index that cannot be read is an error.\<close>

definition read_run_index :: "env \<Rightarrow> local_host \<Rightarrow> disk \<Rightarrow> string \<Rightarrow> thrown + run_index" where
  "read_run_index E L d path =
     (case map_of d path of
        None \<Rightarrow> Inr empty_run_index
      | Some (Doc_run_index i) \<Rightarrow> if run_index_ok E i then Inr i else Inl Zod_error
      | Some f \<Rightarrow> if lh_json_parse L (file_text L f) = None then Inl (Plain_error ''SyntaxError'')
                  else Inl Zod_error)"

definition run_index_path :: "local_host \<Rightarrow> string option \<Rightarrow> string" where
  "run_index_path L p = resolve_local_path L (nullish p default_run_index_path)"

definition list_runs :: "env \<Rightarrow> local_host \<Rightarrow> disk \<Rightarrow> string option \<Rightarrow> thrown + run_summary list" where
  "list_runs E L d p = map_sum id ri_runs (read_run_index E L d (run_index_path L p))"

definition show_run ::
    "env \<Rightarrow> local_host \<Rightarrow> disk \<Rightarrow> string \<Rightarrow> string option \<Rightarrow> thrown + run_summary option" where
  "show_run E L d run_id p =
     map_sum id (\<lambda>i.
       (let target = if run_id = ''latest'' then ri_latest_run_id i else Some run_id
        in if truthy target then List.find (\<lambda>r. rs_run_id r = the target) (ri_runs i) else None))
       (read_run_index E L d (run_index_path L p))"

fun index_run_status_str :: "index_run_status \<Rightarrow> string" where
  "index_run_status_str IR_running = ''running''"
| "index_run_status_str IR_completed = ''completed''"
| "index_run_status_str IR_failed = ''failed''"
| "index_run_status_str IR_yielded = ''yielded''"

definition format_refs :: "string list \<Rightarrow> (string \<times> artifact_summary) list \<Rightarrow> string list" where
  "format_refs refs artifacts =
     (if refs = [] then [''- None'']
      else map (\<lambda>r. case map_of artifacts r of
                      None \<Rightarrow> ''- '' @ r
                    | Some a \<Rightarrow> ''- '' @ as_title a @ '' ('' @ as_kind a @ ''): '' @ r) refs)"

definition summarize_run :: "run_summary \<Rightarrow> artifact_summary list \<Rightarrow> string" where
  "summarize_run r artifacts =
     (let by = map_by as_artifact_id artifacts
      in join [newline]
           ([''# '' @ rs_title r, [], rs_summary r, [],
             ''- Run: '' @ rs_run_id r,
             ''- Status: '' @ index_run_status_str (rs_status r),
             ''- Started: '' @ rs_started_at r] @
            (if truthy (rs_completed_at r) then [''- Completed: '' @ the (rs_completed_at r)] else []) @
            (if truthy (rs_output_dir r) then [''- Output directory: '' @ the (rs_output_dir r)] else []) @
            [[], ''## Primary Outputs''] @ format_refs (rs_primary_artifact_refs r) by @
            [[], ''## Supporting Artifacts''] @ format_refs (rs_supporting_artifact_refs r) by @
            [[], ''## Debug Artifacts''] @ format_refs (rs_debug_artifact_refs r) by))"

definition write_latest_pointers ::
    "local_host \<Rightarrow> run_summary \<Rightarrow> string option \<Rightarrow> string option \<Rightarrow> artifact_summary list \<Rightarrow>
     (disk, unit) effect" where
  "write_latest_pointers L r latest_path summary_path artifacts =
     ethen (write_file (resolve_local_path L (nullish latest_path default_latest_run_path)) (Doc_run r))
       (write_file (resolve_local_path L (nullish summary_path default_latest_summary_path))
         (Plain_text (summarize_run r artifacts)))"

definition write_empty_latest_pointers ::
    "local_host \<Rightarrow> string option \<Rightarrow> string option \<Rightarrow> (disk, unit) effect" where
  "write_empty_latest_pointers L latest_path summary_path =
     ethen (write_file (resolve_local_path L (nullish latest_path default_latest_run_path))
         (Plain_text (''{'' @ [newline] @ ''  '' @ json_quote ''status'' @ '': '' @ json_quote ''missing'' @
            '','' @ [newline] @ ''  '' @ json_quote ''summary'' @ '': '' @
            json_quote ''No runs are indexed.'' @ [newline] @ ''}'')))
       (write_file (resolve_local_path L (nullish summary_path default_latest_summary_path))
         (Plain_text (''# No Runs'' @ [newline, newline] @ ''No runs are indexed yet.'' @ [newline])))"

definition write_run_index :: "env \<Rightarrow> string \<Rightarrow> run_index \<Rightarrow> (disk, run_index) effect" where
  "write_run_index E path i =
     (if run_index_ok E i then ethen (write_file path (Doc_run_index i)) (ereturn i)
      else ethrow Zod_error)"

definition by_started :: "run_summary list \<Rightarrow> run_summary list" where
  "by_started rs = sort_key (\<lambda>r. collation_key (rs_started_at r)) rs"

record run_paths =
  rp_index_path :: "string option"
  rp_latest_path :: "string option"
  rp_latest_summary_path :: "string option"

definition default_run_paths :: run_paths where
  "default_run_paths = \<lparr>rp_index_path = None, rp_latest_path = None, rp_latest_summary_path = None\<rparr>"

definition register_run ::
    "env \<Rightarrow> local_host \<Rightarrow> run_summary \<Rightarrow> artifact_summary list \<Rightarrow> run_paths \<Rightarrow> string \<Rightarrow>
     (disk, run_index) effect" where
  "register_run E L run artifacts paths now d =
     (let path = run_index_path L (rp_index_path paths); r = run\<lparr>rs_updated_at := Some now\<rparr>
      in case read_run_index E L d path of
           Inl e \<Rightarrow> (Inl e, d)
         | Inr current \<Rightarrow>
             if \<not> run_summary_ok E r then (Inl Zod_error, d)
             else
               ebind (write_run_index E path
                   \<lparr>ri_runs = by_started (map snd
                      (AList.update (rs_run_id r) r (map_by rs_run_id (ri_runs current)))),
                    ri_latest_run_id = Some (rs_run_id r), ri_updated_at = now\<rparr>) (\<lambda>i.
               ethen (write_latest_pointers L r (rp_latest_path paths) (rp_latest_summary_path paths) artifacts)
                 (ereturn i)) d)"

definition remove_runs_by_demo ::
    "env \<Rightarrow> local_host \<Rightarrow> string \<Rightarrow> run_paths \<Rightarrow> string \<Rightarrow> (disk, run_index) effect" where
  "remove_runs_by_demo E L demo_id paths now d =
     (let path = run_index_path L (rp_index_path paths)
      in case read_run_index E L d path of
           Inl e \<Rightarrow> (Inl e, d)
         | Inr current \<Rightarrow>
             (let runs = filter (\<lambda>r. rs_related_demo_id r \<noteq> Some demo_id) (ri_runs current);
                  latest = (if runs = [] then None else Some (last runs))
              in ebind (write_run_index E path
                     \<lparr>ri_runs = runs, ri_latest_run_id = map_option rs_run_id latest,
                      ri_updated_at = now\<rparr>) (\<lambda>i.
                 ethen (case latest of
                          Some r \<Rightarrow> write_latest_pointers L r (rp_latest_path paths)
                                      (rp_latest_summary_path paths) []
                        | None \<Rightarrow> write_empty_latest_pointers L (rp_latest_path paths)
                                      (rp_latest_summary_path paths))
                   (ereturn i)) d))"

definition refs_for_role :: "run_summary \<Rightarrow> artifact_role \<Rightarrow> string list" where
  "refs_for_role r role =
     (case role of
        AR_primary_output \<Rightarrow> rs_primary_artifact_refs r
      | AR_supporting_evidence \<Rightarrow> rs_supporting_artifact_refs r
      | AR_intermediate \<Rightarrow> rs_supporting_artifact_refs r
      | AR_debug_log \<Rightarrow> rs_debug_artifact_refs r
      | AR_superseded \<Rightarrow> [])"

definition list_run_artifacts ::
    "env \<Rightarrow> local_host \<Rightarrow> disk \<Rightarrow> string \<Rightarrow> artifact_role option \<Rightarrow> string option \<Rightarrow> string option \<Rightarrow>
     thrown + artifact_summary list" where
  "list_run_artifacts E L d run_id role artifact_path run_path =
     map_sum id (\<lambda>run.
       case run of
         None \<Rightarrow> []
       | Some r \<Rightarrow>
           (let refs = (case role of
                  Some k \<Rightarrow> refs_for_role r k
                | None \<Rightarrow> rs_primary_artifact_refs r @ rs_supporting_artifact_refs r @ rs_debug_artifact_refs r)
            in List.map_filter (map_of (map_by as_artifact_id (list_artifacts E L d artifact_path))) refs))
       (show_run E L d run_id run_path)"

text \<open>The loop over the references of the runs, newest run first; it returns early, with \<open>True\<close>, as
  soon as the limit is reached after a reference.\<close>

fun collect_recent ::
    "int \<Rightarrow> (string \<times> artifact_summary) list \<Rightarrow> artifact_summary list \<Rightarrow> string list \<Rightarrow>
     artifact_summary list \<times> bool" where
  "collect_recent limit by ordered [] = (ordered, False)"
| "collect_recent limit by ordered (r # rs) =
     (let ordered' = (case map_of by r of None \<Rightarrow> ordered | Some a \<Rightarrow> ordered @ [a])
      in if limit \<le> int (length ordered') then (ordered', True)
         else collect_recent limit by ordered' rs)"

text \<open>\<open>xs.slice(0, n)\<close>\<close>

definition slice_to :: "int \<Rightarrow> 'a list \<Rightarrow> 'a list" where
  "slice_to n xs = (if 0 \<le> n then take (nat n) xs else take (length xs - nat (- n)) xs)"

definition recent_artifacts ::
    "env \<Rightarrow> local_host \<Rightarrow> disk \<Rightarrow> int option \<Rightarrow> string option \<Rightarrow> string option \<Rightarrow> bool \<Rightarrow>
     thrown + artifact_summary list" where
  "recent_artifacts E L d limit_opt artifact_path run_path include_debug =
     map_sum id (\<lambda>runs.
       (let limit = nullish limit_opt 12;
            by = map_by as_artifact_id (list_artifacts E L d artifact_path);
            refs = concat (map (\<lambda>r. rs_primary_artifact_refs r @ rs_supporting_artifact_refs r @
                                    (if include_debug then rs_debug_artifact_refs r else [])) (rev runs));
            (ordered, early) = collect_recent limit by [] refs
        in if early \<or> ordered \<noteq> [] then ordered
           else slice_to limit
             (rev (sort_key (\<lambda>a. collation_key (as_created_at a))
               (rev (filter (\<lambda>a. include_debug \<or> as_artifact_role a \<noteq> Some AR_debug_log) (map snd by)))))))
       (list_runs E L d run_path)"


section \<open>What the index operations do\<close>

lemma read_artifact_index_ok: "list_all (artifact_summary_ok E) (xi_artifacts (read_artifact_index E d path))"
  by (auto simp: read_artifact_index_def empty_artifact_index_def artifact_index_ok_def
      split: option.splits disk_file.splits)

lemma write_artifact_index_run:
  "write_artifact_index E path i d =
     (if artifact_index_ok E i then (Inr i, AList.update path (Doc_artifact_index i) d) else (Inl Zod_error, d))"
  by (simp add: write_artifact_index_def write_file_def eff_simps)

lemma read_written:
  "artifact_index_ok E i \<Longrightarrow>
     read_artifact_index E (AList.update path (Doc_artifact_index i) d) path = i"
  by (simp add: read_artifact_index_def update_conv')

lemma find_snd_map_of:
  assumes "distinct (map fst m)" and "\<And>k x. (k, x) \<in> set m \<Longrightarrow> k = key x" and "mset xs = mset (map snd m)"
  shows "List.find (\<lambda>x. key x = k) xs = map_of m k"
proof -
  have set: "set xs = snd ` set m" using arg_cong [OF assms(3), of set_mset] by simp
  show ?thesis
  proof (cases "map_of m k")
    case None
    then have "k \<notin> fst ` set m" by (simp add: map_of_eq_None_iff)
    then have "\<forall>x \<in> set xs. key x \<noteq> k" using assms(2) by (force simp: set)
    then show ?thesis using None by (auto simp: find_None_iff)
  next
    case (Some x)
    then have x: "(k, x) \<in> set m" by (rule map_of_SomeD)
    then have "x \<in> set xs" "key x = k" using assms(2) by (force simp: set)+
    then have "List.find (\<lambda>x. key x = k) xs \<noteq> None" by (auto simp: find_None_iff)
    then obtain y where y: "List.find (\<lambda>x. key x = k) xs = Some y" by blast
    then have "y \<in> set xs" "key y = k" by (auto dest: find_SomeD)
    then have "(k, y) \<in> set m" using assms(2) by (force simp: set)
    with x assms(1) have "y = x" by (metis map_of_eq_Some_iff option.inject)
    with y Some show ?thesis by simp
  qed
qed

text \<open>The entries a registration starts from and the ones it ends with.\<close>

definition stamped :: "string \<Rightarrow> artifact_summary list \<Rightarrow> artifact_summary list" where
  "stamped now artifacts = map (\<lambda>a. a\<lparr>as_updated_at := Some now\<rparr>) artifacts"

definition indexed :: "artifact_summary list \<Rightarrow> (string \<times> artifact_summary) list" where
  "indexed xs = map_by as_artifact_id xs"

definition merged :: "artifact_summary list \<Rightarrow> artifact_summary list \<Rightarrow> (string \<times> artifact_summary) list" where
  "merged new current = fold (\<lambda>a m. AList.update (as_artifact_id a) a m) new (indexed current)"

lemma merged_props:
  "distinct (map fst (merged new current))"
  "(k, a) \<in> set (merged new current) \<Longrightarrow> k = as_artifact_id a \<and> (a \<in> set new \<or> a \<in> set current)"
  "map_of (merged new current) k =
     (case find_last (\<lambda>a. as_artifact_id a = k) new of
        Some a \<Rightarrow> Some a
      | None \<Rightarrow> find_last (\<lambda>a. as_artifact_id a = k) current)"
proof -
  show "distinct (map fst (merged new current))"
    unfolding merged_def indexed_def by (rule fold_update_distinct) (rule map_by_props)
  show "(k, a) \<in> set (merged new current) \<Longrightarrow> k = as_artifact_id a \<and> (a \<in> set new \<or> a \<in> set current)"
    unfolding merged_def indexed_def
    using fold_update_entries [of as_artifact_id "\<lambda>x. x" new "map_by as_artifact_id current"]
      map_by_props(2) [of k a as_artifact_id current] by fastforce
  show "map_of (merged new current) k =
     (case find_last (\<lambda>a. as_artifact_id a = k) new of
        Some a \<Rightarrow> Some a | None \<Rightarrow> find_last (\<lambda>a. as_artifact_id a = k) current)"
    unfolding merged_def indexed_def fold_update_key map_of_map_by ..
qed

lemma find_last_stamped:
  "find_last (\<lambda>a. as_artifact_id a = k) (stamped now artifacts) =
     map_option (\<lambda>a. a\<lparr>as_updated_at := Some now\<rparr>) (find_last (\<lambda>a. as_artifact_id a = k) artifacts)"
  by (induction artifacts) (auto simp: stamped_def find_last_Cons split: option.splits)

lemma register_artifacts_run:
  "register_artifacts E L artifacts index_path now d =
     (let path = artifact_index_path L index_path;
          i = \<lparr>xi_artifacts = by_created (map snd (merged (stamped now artifacts)
                 (list_artifacts E L d index_path))), xi_updated_at = now\<rparr>
      in if list_all (artifact_summary_ok E) (stamped now artifacts) \<and> datetime_ok E now
         then (Inr i, AList.update path (Doc_artifact_index i) d) else (Inl Zod_error, d))"
proof -
  let ?c = "list_artifacts E L d index_path"
  have "list_all (artifact_summary_ok E) (by_created (map snd (merged (stamped now artifacts) ?c)))"
    if "list_all (artifact_summary_ok E) (stamped now artifacts)"
    using that read_artifact_index_ok [of E d "artifact_index_path L index_path"] merged_props(2)
    by (fastforce simp: list_all_iff by_created_def list_artifacts_def)
  then show ?thesis
    by (auto simp: register_artifacts_def stamped_def [symmetric] merged_def [symmetric] indexed_def [symmetric]
        list_artifacts_def [symmetric] write_artifact_index_run artifact_index_ok_def Let_def)
qed

section \<open>Properties of the indexes\<close>

text \<open>C16: Registering artifacts either throws and changes nothing, exactly when one of them does not fit
  the schema or the time stamp is no date, or writes the index file and no other: the index then
  holds every artifact given, the last one of each id, stamped with the time, and every other
  artifact it held before; no id occurs twice, every entry fits the schema and the entries are in
  the order of their creation times.\<close>
theorem register_artifacts_correct:
  "case register_artifacts E L artifacts index_path now d of
     (Inl e, d') \<Rightarrow>
       d' = d \<and> e = Zod_error \<and>
       \<not> (list_all (\<lambda>a. artifact_summary_ok E (a\<lparr>as_updated_at := Some now\<rparr>)) artifacts \<and> datetime_ok E now)
   | (Inr i, d') \<Rightarrow>
       d' = AList.update (artifact_index_path L index_path) (Doc_artifact_index i) d \<and>
       artifact_index_ok E i \<and> list_artifacts E L d' index_path = xi_artifacts i \<and>
       distinct (map as_artifact_id (xi_artifacts i)) \<and>
       sorted (map (\<lambda>a. collation_key (as_created_at a)) (xi_artifacts i)) \<and>
       (\<forall>k. find_artifact E L d' k index_path =
          (case find_last (\<lambda>a. as_artifact_id a = k) artifacts of
             Some a \<Rightarrow> Some (a\<lparr>as_updated_at := Some now\<rparr>)
           | None \<Rightarrow> find_last (\<lambda>a. as_artifact_id a = k) (list_artifacts E L d index_path)))"
proof (cases "list_all (artifact_summary_ok E) (stamped now artifacts) \<and> datetime_ok E now")
  case False
  have "register_artifacts E L artifacts index_path now d = (Inl Zod_error, d)"
    unfolding register_artifacts_run Let_def by (simp only: False if_False)
  with False show ?thesis by (simp add: stamped_def list_all_iff)
next
  case True
  let ?c = "list_artifacts E L d index_path"
  let ?m = "merged (stamped now artifacts) ?c"
  define i where "i = \<lparr>xi_artifacts = by_created (map snd ?m), xi_updated_at = now\<rparr>"
  have xs: "mset (xi_artifacts i) = mset (map snd ?m)" by (simp add: i_def by_created_def)
  have ok: "artifact_index_ok E i"
    using True read_artifact_index_ok [of E d "artifact_index_path L index_path"]
      merged_props(2) [of _ _ "stamped now artifacts" ?c]
    by (fastforce simp: i_def artifact_index_ok_def list_all_iff by_created_def list_artifacts_def)
  have ids: "map as_artifact_id (map snd ?m) = map fst ?m"
    using merged_props(2) by (auto simp: case_prod_unfold)
  have "mset (map as_artifact_id (xi_artifacts i)) = mset (map as_artifact_id (map snd ?m))"
    unfolding mset_map using xs by simp
  then have "distinct (map as_artifact_id (xi_artifacts i))"
    using merged_props(1) unfolding ids by (metis mset_eq_imp_distinct_iff)
  moreover have "sorted (map (\<lambda>a. collation_key (as_created_at a)) (xi_artifacts i))"
    by (simp add: i_def by_created_def)
  moreover have found: "List.find (\<lambda>a. as_artifact_id a = k) (xi_artifacts i) = map_of ?m k" for k
    by (rule find_snd_map_of [OF merged_props(1) _ xs]) (simp add: merged_props(2))
  ultimately show ?thesis
    using True ok
    unfolding register_artifacts_run Let_def i_def [symmetric]
    by (auto simp: find_artifact_def list_artifacts_def [of _ _ "AList.update _ _ _"] read_written
        merged_props(3) find_last_stamped split: option.splits)
qed


definition within_own :: "local_host \<Rightarrow> string \<Rightarrow> bool" where
  "within_own L q =
     (let root = path_resolve (lh_caller_cwd L) [''.open-lagrange''] in q = root \<or> starts_with q (root @ ''/''))"

definition only_expired_removed ::
    "env \<Rightarrow> local_host \<Rightarrow> int \<Rightarrow> artifact_summary list \<Rightarrow> disk \<Rightarrow> disk \<Rightarrow> string \<Rightarrow> bool" where
  "only_expired_removed E L cutoff as d d' q =
     (map_of d' q = map_of d q \<or>
      (map_of d' q = None \<and> within_own L q \<and>
       (\<exists>a \<in> set as. disk_path L (as_path_or_uri a) = Some q \<and> \<not> is_recent E cutoff a)))"

lemma own_file_within:
  assumes "own_file L d a = Some p"
  shows "within_own L (path_resolve (lh_process_cwd L) [p])"
    and "disk_path L (as_path_or_uri a) = Some (path_resolve (lh_process_cwd L) [p])"
  using assms
  by (auto simp: own_file_def is_open_lagrange_path_def within_own_def disk_path_def Let_def
      split: option.splits if_splits)

lemma map_of_delete: "map_of (AList.delete k m) q = (if q = k then None else map_of m q)"
  by (simp add: delete_conv')

lemma prune_loop_result:
  "\<exists>rs d'. prune_loop E L cutoff as kept removed d =
       (Inr (kept @ filter (is_recent E cutoff) as, removed @ rs), d') \<and>
     (\<forall>q. only_expired_removed E L cutoff as d d' q)"
proof (induction as arbitrary: kept removed d)
  case Nil
  then show ?case by (simp add: only_expired_removed_def)
next
  case (Cons a as)
  show ?case
  proof (cases "is_recent E cutoff a")
    case True
    from Cons.IH [of "kept @ [a]" removed d] obtain rs d' where
      run: "prune_loop E L cutoff as (kept @ [a]) removed d =
        (Inr ((kept @ [a]) @ filter (is_recent E cutoff) as, removed @ rs), d')"
      and q: "\<forall>q. only_expired_removed E L cutoff as d d' q" by blast
    then show ?thesis using True by (intro exI [of _ rs] exI [of _ d']) (auto simp: only_expired_removed_def)
  next
    case False
    show ?thesis
    proof (cases "own_file L d a")
      case None
      from Cons.IH [of kept removed d] obtain rs d' where
        run: "prune_loop E L cutoff as kept removed d =
          (Inr (kept @ filter (is_recent E cutoff) as, removed @ rs), d')"
        and q: "\<forall>q. only_expired_removed E L cutoff as d d' q" by blast
      then show ?thesis using False None
        by (intro exI [of _ rs] exI [of _ d']) (auto simp: only_expired_removed_def)
    next
      case (Some p)
      let ?k = "path_resolve (lh_process_cwd L) [p]"
      from Cons.IH [of kept "removed @ [p]" "AList.delete ?k d"] obtain rs d' where
        run: "prune_loop E L cutoff as kept (removed @ [p]) (AList.delete ?k d) =
          (Inr (kept @ filter (is_recent E cutoff) as, (removed @ [p]) @ rs), d')"
        and q: "\<forall>q. only_expired_removed E L cutoff as (AList.delete ?k d) d' q" by blast
      have "only_expired_removed E L cutoff (a # as) d d' q" for q
        using q [rule_format, of q] own_file_within [OF Some] False
        by (auto simp: only_expired_removed_def map_of_delete split: if_splits)
      then show ?thesis using False Some run
        by (intro exI [of _ "p # rs"] exI [of _ d']) (simp add: remove_file_def eff_simps)
    qed
  qed
qed

text \<open>C17: Pruning is confined: whatever paths and URIs the index holds, and also when it throws, it changes
  no file but the index, and removes none but files of expired artifacts inside the caller's
  .open-lagrange directory; an age it cannot read changes nothing. When it returns, the index holds
  exactly the artifacts that are not older than the cutoff, in their order, and the counts agree.\<close>
theorem prune_removes_only_own_files:
  "let path = artifact_index_path L index_path; current = list_artifacts E L d index_path;
       (r, d') = prune_artifacts E L older_than index_path now now_at_end d
   in case prune_cutoff E L older_than now of
        Inl e \<Rightarrow> r = Inl e \<and> d' = d
      | Inr cutoff \<Rightarrow>
          (\<forall>q. q = path \<or> only_expired_removed E L cutoff current d d' q) \<and>
          (case r of
             Inl e \<Rightarrow> e = Zod_error \<and> \<not> datetime_ok E now_at_end
           | Inr res \<Rightarrow>
               list_artifacts E L d' index_path = filter (is_recent E cutoff) current \<and>
               pu_retained_count res + pu_pruned_count res = length current \<and>
               pu_retained_count res = length (filter (is_recent E cutoff) current))"
proof (cases "prune_cutoff E L older_than now")
  case (Inl e)
  then show ?thesis by (simp add: prune_artifacts_def)
next
  case (Inr cutoff)
  let ?path = "artifact_index_path L index_path"
  let ?current = "list_artifacts E L d index_path"
  obtain rs d1 where run: "prune_loop E L cutoff ?current [] [] d =
      (Inr (filter (is_recent E cutoff) ?current, rs), d1)"
    and q: "\<forall>q. only_expired_removed E L cutoff ?current d d1 q"
    using prune_loop_result [of E L cutoff ?current "[]" "[]" d] by auto
  define i where "i = \<lparr>xi_artifacts = filter (is_recent E cutoff) ?current, xi_updated_at = now_at_end\<rparr>"
  have ok: "artifact_index_ok E i \<longleftrightarrow> datetime_ok E now_at_end"
    using read_artifact_index_ok [of E d ?path]
    by (auto simp: i_def artifact_index_ok_def list_all_iff list_artifacts_def)
  have le: "length (filter (is_recent E cutoff) ?current) \<le> length ?current" by simp
  show ?thesis
  proof (cases "datetime_ok E now_at_end")
    case True
    have "prune_artifacts E L older_than index_path now now_at_end d =
        (Inr \<lparr>pu_pruned_count = length ?current - length (filter (is_recent E cutoff) ?current),
              pu_removed_files = rs, pu_retained_count = length (filter (is_recent E cutoff) ?current),
              pu_cutoff = lh_iso L cutoff\<rparr>, AList.update ?path (Doc_artifact_index i) d1)"
      using run ok True Inr
      by (simp add: prune_artifacts_def list_artifacts_def [symmetric] ebind_run i_def write_artifact_index_run Let_def)
    moreover have "list_artifacts E L (AList.update ?path (Doc_artifact_index i) d1) index_path =
        filter (is_recent E cutoff) ?current"
      using ok True by (simp add: list_artifacts_def [of _ _ "AList.update _ _ _"] read_written) (simp add: i_def)
    moreover have "q = ?path \<or> only_expired_removed E L cutoff ?current d
        (AList.update ?path (Doc_artifact_index i) d1) q" for q
      using q [rule_format, of q] by (auto simp: only_expired_removed_def update_conv')
    ultimately show ?thesis using Inr le by simp
  next
    case False
    have "prune_artifacts E L older_than index_path now now_at_end d = (Inl Zod_error, d1)"
      using run ok False Inr
      by (simp add: prune_artifacts_def list_artifacts_def [symmetric] ebind_run i_def write_artifact_index_run Let_def)
    then show ?thesis using Inr q False by simp
  qed
qed

text \<open>The limit of the recent artifacts is kept, but a limit of 0 gives one artifact when the first
  reference of the newest run is known.\<close>

lemma collect_recent_length:
  "int (length ordered) < limit \<Longrightarrow> int (length (fst (collect_recent limit by ordered rs))) \<le> limit"
proof (induction rs arbitrary: ordered)
  case (Cons r rs)
  let ?o = "case map_of by r of None \<Rightarrow> ordered | Some a \<Rightarrow> ordered @ [a]"
  have o: "int (length ?o) \<le> limit" using Cons.prems by (auto split: option.splits)
  show ?case
  proof (cases "limit \<le> int (length ?o)")
    case True
    with o show ?thesis by (simp add: Let_def)
  next
    case False
    then have "int (length ?o) < limit" by simp
    from Cons.IH [OF this] False show ?thesis by (simp add: Let_def)
  qed
qed simp

lemma recent_limit_zero:
  "map_of by r = Some a \<Longrightarrow> collect_recent 0 by [] (r # rs) = ([a], True)"
  by (simp add: Let_def)

end
