(* ===== verification/Local_Artifacts.thy ===== *)
theory Local_Artifacts
  imports Artifact_Index
begin

text \<open>
  \<open>planning/local-plan-artifacts.ts\<close>: the store a local run hands its artifacts to. Each artifact
  becomes a file in the output directory and an entry of the store, and \<open>flush\<close> registers the
  entries in the artifact index.
\<close>

section \<open>JSON text with indentation\<close>

text \<open>\<open>JSON.stringify(v, null, 2)\<close> at an indentation: undefined entries of objects are left out, and
  undefined elements of arrays become null.\<close>

definition wrap_lines :: "nat \<Rightarrow> char \<Rightarrow> char \<Rightarrow> string list \<Rightarrow> string" where
  "wrap_lines n opening closing items =
     (if items = [] then [opening, closing]
      else opening # newline # join ('','' @ [newline])
             (map (\<lambda>i. replicate (n + 2) CHR '' '' @ i) items) @
           newline # replicate n CHR '' '' @ [closing])"

fun json_pretty :: "nat \<Rightarrow> json \<Rightarrow> string" where
  "json_pretty n JUndef = ''null''"
| "json_pretty n JNull = ''null''"
| "json_pretty n (JBool b) = bool_str b"
| "json_pretty n (JNum i) = int_str i"
| "json_pretty n (JStr s) = json_quote s"
| "json_pretty n (JArr xs) = wrap_lines n CHR ''['' CHR '']'' (map (json_pretty (n + 2)) xs)"
| "json_pretty n (JObj kvs) =
     wrap_lines n CHR ''{'' CHR ''}''
       (map snd (filter fst
         (map (\<lambda>(k, v). (v \<noteq> JUndef, json_quote k @ '': '' @ json_pretty (n + 2) v)) kvs)))"

section \<open>Reading fields of unchecked values\<close>

definition string_value :: "json \<Rightarrow> string option" where
  "string_value v = (case v of JStr s \<Rightarrow> if s = [] then None else Some s | _ \<Rightarrow> None)"

definition object_value :: "json \<Rightarrow> json" where
  "object_value v = (case v of JObj kvs \<Rightarrow> JObj kvs | _ \<Rightarrow> JObj [])"

definition string_array :: "json \<Rightarrow> string list option" where
  "string_array v =
     (case v of
        JArr xs \<Rightarrow> (let ss = List.map_filter string_value xs in if ss = [] then None else Some ss)
      | _ \<Rightarrow> None)"

definition boolean_value :: "json \<Rightarrow> bool option" where
  "boolean_value v = (case v of JBool b \<Rightarrow> Some b | _ \<Rightarrow> None)"

definition execution_mode_value :: "string option \<Rightarrow> execution_mode option" where
  "execution_mode_value v =
     List.find (\<lambda>m. v = Some (mode_str m)) [Mode_live, Mode_dry_run, Mode_fixture, Mode_mock, Mode_test]"

definition string_field :: "json \<Rightarrow> string \<Rightarrow> string option" where
  "string_field v k = string_value (jfield v k)"

definition source_mode_of :: "json \<Rightarrow> json \<Rightarrow> execution_mode option" where
  "source_mode_of r metadata =
     execution_mode_value
       (nullish_opt (string_field r ''source_mode'')
       (nullish_opt (string_field metadata ''source_mode'') (string_field metadata ''mode'')))"

definition execution_mode_of :: "json \<Rightarrow> json \<Rightarrow> execution_mode option" where
  "execution_mode_of r metadata =
     execution_mode_value
       (nullish_opt (string_field r ''execution_mode'')
       (nullish_opt (string_field metadata ''execution_mode'')
       (nullish_opt (string_field r ''source_mode'')
       (nullish_opt (string_field metadata ''source_mode'') (string_field metadata ''mode'')))))"

definition source_mode_warning :: "execution_mode \<Rightarrow> string option" where
  "source_mode_warning m =
     (case m of
        Mode_fixture \<Rightarrow> Some ''Generated from deterministic checked-in sources, not live web results.''
      | Mode_mock \<Rightarrow> Some ''Generated from mocked runtime behavior.''
      | Mode_dry_run \<Rightarrow> Some ''Dry run preview only; no live source work was performed.''
      | Mode_test \<Rightarrow> Some ''Generated by a test harness.''
      | Mode_live \<Rightarrow> None)"

definition mode_warning :: "json \<Rightarrow> json \<Rightarrow> string option" where
  "mode_warning r metadata =
     Option.bind (nullish_opt (source_mode_of r metadata) (execution_mode_of r metadata)) source_mode_warning"

definition redaction_status_of :: "json \<Rightarrow> redaction_status" where
  "redaction_status_of v =
     (if v = JStr ''redacted'' then Red_redacted
      else if v = JStr ''not_redacted'' \<or> v = JStr ''not_required'' then Red_not_redacted
      else Red_unknown)"

definition safe_file_name :: "string \<Rightarrow> string" where
  "safe_file_name s = squash CHR ''_'' (\<lambda>c. is_word_char c \<or> c = CHR ''.'' \<or> c = CHR ''-'') s"

definition content_type_for_content :: "json \<Rightarrow> string" where
  "content_type_for_content c =
     (case c of JStr _ \<Rightarrow> ''text/plain'' | _ \<Rightarrow> ''application/json'')"

definition extension_for_content_type :: "string \<Rightarrow> string" where
  "extension_for_content_type t =
     (if str_includes t ''markdown'' then ''md''
      else if str_includes t ''html'' then ''html''
      else if str_includes t ''plain'' then ''txt''
      else if str_includes t ''patch'' then ''patch''
      else (let e = path_extname t; e' = (if starts_with e ''.'' then tl e else e)
            in if e' = [] then ''json'' else e'))"

section \<open>The store\<close>

record local_store =
  ls_output_dir :: string
  ls_now :: "string option"
  ls_payloads :: "(string \<times> json) list"
  ls_summaries :: "(string \<times> artifact_summary) list"
  ls_links :: "(string \<times> string \<times> json) list"

definition create_local_store :: "string \<Rightarrow> string option \<Rightarrow> string option \<Rightarrow> local_store" where
  "create_local_store plan_id output_dir now =
     \<lparr>ls_output_dir = nullish output_dir (path_join [''.open-lagrange'', ''plans'', plan_id, ''artifacts'']),
      ls_now = now, ls_payloads = [], ls_summaries = [], ls_links = []\<rparr>"

text \<open>The store and the disk it writes to.\<close>

record artifact_world =
  aw_store :: local_store
  aw_disk :: disk

definition local_record :: "json \<Rightarrow> json" where
  "local_record artifact = (if is_object artifact then artifact else JObj [])"

definition local_artifact_id :: "env \<Rightarrow> json \<Rightarrow> string" where
  "local_artifact_id E r =
     nullish (string_field r ''artifact_id'') (''artifact_'' @ take 16 (stable_hash E r))"

definition local_content :: "json \<Rightarrow> json" where
  "local_content r = jnullish (jfield r ''content'') r"

definition local_content_type :: "json \<Rightarrow> string" where
  "local_content_type r =
     nullish (string_field r ''content_type'') (content_type_for_content (local_content r))"

definition local_file_name :: "env \<Rightarrow> json \<Rightarrow> string" where
  "local_file_name E r =
     safe_file_name (local_artifact_id E r) @ ''.'' @ extension_for_content_type (local_content_type r)"

definition local_path :: "env \<Rightarrow> string \<Rightarrow> json \<Rightarrow> string" where
  "local_path E dir r = path_join [dir, local_file_name E r]"

definition local_text :: "json \<Rightarrow> string" where
  "local_text r = (case local_content r of JStr s \<Rightarrow> s | c \<Rightarrow> json_pretty 0 c)"

definition local_draft :: "env \<Rightarrow> string \<Rightarrow> json \<Rightarrow> artifact_summary" where
  "local_draft E path r =
     (let kind = nullish (string_field r ''kind'') ''raw_log'';
          lineage = object_value (jfield r ''lineage''); metadata = object_value (jfield r ''metadata'');
          either_string = (\<lambda>k. nullish_opt (string_field r k) (string_field metadata k));
          either_bool = (\<lambda>k. nullish_opt (boolean_value (jfield r k)) (boolean_value (jfield metadata k)))
      in blank_summary\<lparr>
           as_artifact_id := local_artifact_id E r, as_kind := kind,
           as_title := nullish (string_field r ''title'') (local_artifact_id E r),
           as_summary := nullish (string_field r ''summary'') (kind @ '' artifact''),
           as_path_or_uri := path, as_content_type := Some (local_content_type r),
           as_related_plan_id := string_field lineage ''produced_by_plan_id'',
           as_related_pack_id := string_field lineage ''produced_by_pack_id'',
           as_produced_by_pack_id := string_field lineage ''produced_by_pack_id'',
           as_produced_by_capability_id := string_field lineage ''produced_by_capability_id'',
           as_produced_by_plan_id := string_field lineage ''produced_by_plan_id'',
           as_produced_by_node_id := string_field lineage ''produced_by_node_id'',
           as_input_artifact_refs := string_array (jfield lineage ''input_artifact_refs''),
           as_output_artifact_refs := string_array (jfield lineage ''output_artifact_refs''),
           as_source_mode := source_mode_of r metadata,
           as_fixture_id := either_string ''fixture_id'', as_fixture_set := either_string ''fixture_set'',
           as_live := either_bool ''live'',
           as_mode_warning := nullish_opt (either_string ''mode_warning'') (mode_warning r metadata),
           as_validation_status := Some (nullish (string_field r ''validation_status'') ''not_applicable''),
           as_redaction_status := Some (redaction_status_of (jfield r ''redaction_status'')),
           as_restricted := either_bool ''restricted'',
           as_output_format := either_string ''output_format'',
           as_checksum_sha256 := either_string ''checksum_sha256''\<rparr>)"

text \<open>The file is written and the payload kept before the summary is checked, so an artifact that is
  refused leaves both behind. \<open>clock\<close> is the time read when the store was made without one.\<close>

definition record_local_artifact ::
    "env \<Rightarrow> local_host \<Rightarrow> string \<Rightarrow> json \<Rightarrow> (artifact_world, unit) effect" where
  "record_local_artifact E L clock artifact w =
     (let r = local_record artifact; s = aw_store w; i = local_artifact_id E r;
          path = local_path E (ls_output_dir s) r;
          d = AList.update (path_resolve (lh_process_cwd L) [path]) (Plain_text (local_text r)) (aw_disk w);
          s1 = s\<lparr>ls_payloads := AList.update i
                  (JObj (AList.update ''path_or_uri'' (JStr path) (obj_entries r))) (ls_payloads s)\<rparr>
      in case create_artifact_summary E L d clock (local_draft E path r) (keep_truthy (ls_now s)) None None
                (execution_mode_of r (object_value (jfield r ''metadata''))) of
           None \<Rightarrow> (Inl Zod_error, \<lparr>aw_store = s1, aw_disk = d\<rparr>)
         | Some a \<Rightarrow>
             (Inr (), \<lparr>aw_store = s1\<lparr>ls_summaries := AList.update i a (ls_summaries s1)\<rparr>, aw_disk = d\<rparr>))"

text \<open>The metadata of an artifact is its payload. (The code then looks for a summary without a payload;
  by the lemma \<open>summaries_have_payloads\<close> below there is none.)\<close>

definition read_local_metadata :: "local_store \<Rightarrow> string \<Rightarrow> json option" where
  "read_local_metadata s artifact_id = map_of (ls_payloads s) artifact_id"

definition link_local_artifacts :: "local_store \<Rightarrow> string \<Rightarrow> string \<Rightarrow> json \<Rightarrow> local_store" where
  "link_local_artifacts s from to metadata = s\<lparr>ls_links := ls_links s @ [(from, to, metadata)]\<rparr>"

definition flush_local_store ::
    "env \<Rightarrow> local_host \<Rightarrow> string \<Rightarrow> string option \<Rightarrow> (artifact_world, artifact_summary list) effect" where
  "flush_local_store E L clock index_path w =
     (let values = map snd (ls_summaries (aw_store w))
      in if values = [] then (Inr [], w)
         else case register_artifacts E L values (keep_truthy index_path) clock (aw_disk w) of
                (Inl e, d) \<Rightarrow> (Inl e, w\<lparr>aw_disk := d\<rparr>)
              | (Inr _, d) \<Rightarrow> (Inr values, w\<lparr>aw_disk := d\<rparr>))"


section \<open>Where the files go\<close>

lemma squash_chars: "c \<in> set (squash d keep s) \<Longrightarrow> keep c \<or> c = d"
proof (induction d keep s rule: squash.induct)
  case (2 d keep x s)
  then show ?case by (cases "keep x") auto
qed simp

lemma squash_Nil: "squash d keep s = [] \<longleftrightarrow> s = []"
  by (cases s) auto

lemma string_field_nonempty: "string_field v k = Some s \<Longrightarrow> s \<noteq> []"
  by (auto simp: string_field_def string_value_def split: json.splits if_splits)

lemma local_artifact_id_nonempty: "local_artifact_id E r \<noteq> []"
  by (auto simp: local_artifact_id_def nullish_def dest: string_field_nonempty split: option.splits)

lemma not_word_slash: "\<not> is_word_char slash"
  by (simp add: is_word_char_def)

lemma safe_file_name_no_slash: "slash \<notin> set (safe_file_name s)"
  using squash_chars [of slash "CHR ''_''" "\<lambda>c. is_word_char c \<or> c = CHR ''.'' \<or> c = CHR ''-''" s] not_word_slash
  by (auto simp: safe_file_name_def)

lemma basename_no_slash: "slash \<notin> set (path_basename p)"
  by (auto simp: path_basename_def dest: set_takeWhileD)

lemma extname_no_slash: "slash \<notin> set (path_extname p)"
  using basename_no_slash [of p] by (auto simp: path_extname_def Let_def dest: set_takeWhileD)

lemma in_set_tl: "x \<in> set (tl xs) \<Longrightarrow> x \<in> set xs"
  by (cases xs) auto

lemma extension_props:
  "extension_for_content_type t \<noteq> []" "slash \<notin> set (extension_for_content_type t)"
  using extname_no_slash [of t] by (auto simp: extension_for_content_type_def Let_def dest: in_set_tl)

lemma local_file_name_clean: "clean_segment (local_file_name E r)"
proof -
  have "safe_file_name (local_artifact_id E r) \<noteq> []"
    using local_artifact_id_nonempty by (simp add: safe_file_name_def squash_Nil)
  then obtain c x where x: "safe_file_name (local_artifact_id E r) = c # x" by (cases "safe_file_name (local_artifact_id E r)") auto
  obtain d y where y: "extension_for_content_type (local_content_type r) = d # y"
    using extension_props(1) [of "local_content_type r"] by (cases "extension_for_content_type (local_content_type r)") auto
  have "3 \<le> length (local_file_name E r)" unfolding local_file_name_def x y by simp
  moreover have "slash \<notin> set (local_file_name E r)"
    using safe_file_name_no_slash extension_props(2) by (simp add: local_file_name_def)
  ultimately show ?thesis by (auto simp: clean_segment_def)
qed

text \<open>An entry of the store always has its payload.\<close>

definition payloads_kept :: "local_store \<Rightarrow> bool" where
  "payloads_kept s \<longleftrightarrow> fst ` set (ls_summaries s) \<subseteq> fst ` set (ls_payloads s)"

lemma summaries_have_payloads:
  "payloads_kept (create_local_store plan_id dir now)"
  "payloads_kept (aw_store w) \<Longrightarrow> payloads_kept (aw_store (snd (record_local_artifact E L clock a w)))"
  "payloads_kept s \<Longrightarrow> payloads_kept (link_local_artifacts s from to m)"
  by (auto simp: payloads_kept_def create_local_store_def record_local_artifact_def Let_def
      link_local_artifacts_def dom_update split: option.splits)

text \<open>C18: Whatever an artifact says about itself - a name with dots or slashes, a content type made up
  to look like a path - recording it writes one file, an ordinary name directly inside the output
  directory of the store, and leaves every other file alone, also when the artifact is refused. It
  is refused exactly when its entry does not fit the schema of the index; otherwise it is kept
  under its id with the path of that file.\<close>
theorem local_artifact_confined:
  assumes "is_absolute (lh_process_cwd L)"
  shows "let s = aw_store w; r = local_record artifact; i = local_artifact_id E r;
             (res, w') = record_local_artifact E L clock artifact w
         in \<exists>ss name. path_resolve (lh_process_cwd L) [ls_output_dir s] = abs_path ss \<and>
              list_all clean_segment (name # ss) \<and>
              aw_disk w' = AList.update (abs_path (ss @ [name])) (Plain_text (local_text r)) (aw_disk w) \<and>
              (case res of
                 Inl e \<Rightarrow> e = Zod_error \<and> ls_summaries (aw_store w') = ls_summaries s
               | Inr _ \<Rightarrow>
                   (\<exists>a. artifact_summary_ok E a \<and> as_artifact_id a = i \<and>
                     path_resolve (lh_process_cwd L) [as_path_or_uri a] = abs_path (ss @ [name]) \<and>
                     ls_summaries (aw_store w') = AList.update i a (ls_summaries s)))"
proof -
  define r where "r = local_record artifact"
  define path where "path = local_path E (ls_output_dir (aw_store w)) r"
  define d where "d = AList.update (path_resolve (lh_process_cwd L) [path]) (Plain_text (local_text r)) (aw_disk w)"
  define c where "c = create_artifact_summary E L d clock (local_draft E path r)
    (keep_truthy (ls_now (aw_store w))) None None (execution_mode_of r (object_value (jfield r ''metadata'')))"
  obtain ss where ss: "\<forall>s \<in> set ss. clean_segment s"
    "path_resolve (lh_process_cwd L) [ls_output_dir (aw_store w)] = abs_path ss"
    "path_resolve (lh_process_cwd L) [path] = abs_path (ss @ [local_file_name E r])"
    using resolve_join_name [OF assms local_file_name_clean, of "ls_output_dir (aw_store w)" E r]
    unfolding path_def local_path_def by blast
  have draft: "as_artifact_id (local_draft E path r) = local_artifact_id E r"
    "as_path_or_uri (local_draft E path r) = path"
    by (simp_all add: local_draft_def Let_def)
  have clean: "list_all clean_segment (local_file_name E r # ss)"
    using ss(1) local_file_name_clean by (simp add: list_all_iff)
  show ?thesis
  proof (cases c)
    case None
    then have eq: "record_local_artifact E L clock artifact w =
        (Inl Zod_error, \<lparr>aw_store = (aw_store w)\<lparr>ls_payloads := AList.update (local_artifact_id E r)
          (JObj (AList.update ''path_or_uri'' (JStr path) (obj_entries r))) (ls_payloads (aw_store w))\<rparr>, aw_disk = d\<rparr>)"
      by (simp add: record_local_artifact_def Let_def r_def path_def d_def c_def)
    show ?thesis
      unfolding Let_def r_def [symmetric] eq prod.case
      by (intro exI [of _ ss] exI [of _ "local_file_name E r"]) (use clean ss in \<open>simp add: d_def\<close>)
  next
    case (Some a)
    then have a: "artifact_summary_ok E a" "as_artifact_id a = local_artifact_id E r" "as_path_or_uri a = path"
      using draft by (auto simp: c_def create_artifact_summary_def Let_def split: if_splits)
    from Some obtain s' where eq: "record_local_artifact E L clock artifact w = (Inr (), \<lparr>aw_store = s', aw_disk = d\<rparr>)"
      and s': "ls_summaries s' = AList.update (local_artifact_id E r) a (ls_summaries (aw_store w))"
      by (simp add: record_local_artifact_def Let_def r_def path_def d_def c_def)
    show ?thesis
      unfolding Let_def r_def [symmetric] eq prod.case
      by (intro exI [of _ ss] exI [of _ "local_file_name E r"]) (use clean ss a s' in \<open>auto simp: d_def\<close>)
  qed
qed


definition sample_local :: local_host where
  "sample_local =
     \<lparr>lh_caller_cwd = ''/work'', lh_process_cwd = ''/work'', lh_doc_text = (\<lambda>_. ''{}''),
      lh_json_parse = (\<lambda>_. None), lh_iso = (\<lambda>_. ''1970-01-01T00:00:00.000Z'')\<rparr>"

definition sample_artifact_world :: artifact_world where
  "sample_artifact_world =
     \<lparr>aw_store = create_local_store ''p'' (Some ''artifacts'') None, aw_disk = []\<rparr>"

definition sneaky_artifact :: json where
  "sneaky_artifact = JObj [(''artifact_id'', JStr ''../../etc/passwd''), (''content'', JStr ''x'')]"

theorem local_artifact_confined_witness:
  "is_absolute (lh_process_cwd sample_local) \<and>
   (\<exists>ss name. list_all clean_segment (name # ss) \<and>
     aw_disk (snd (record_local_artifact zero_env sample_local [] sneaky_artifact sample_artifact_world)) =
       [(abs_path (ss @ [name]), Plain_text ''x'')])"
proof -
  have abs: "is_absolute (lh_process_cwd sample_local)" by (simp add: sample_local_def is_absolute_def)
  obtain res w' where run:
    "record_local_artifact zero_env sample_local [] sneaky_artifact sample_artifact_world = (res, w')"
    by (cases "record_local_artifact zero_env sample_local [] sneaky_artifact sample_artifact_world")
  have disk: "aw_disk sample_artifact_world = []" by (simp add: sample_artifact_world_def)
  have content: "local_text (local_record sneaky_artifact) = ''x''"
    by (simp add: local_text_def local_content_def local_record_def sneaky_artifact_def jfield_def jnullish_def)
  from local_artifact_confined [OF abs, of sample_artifact_world sneaky_artifact zero_env "[]"]
  show ?thesis
    unfolding run Let_def prod.case disk content update.simps snd_conv using abs by blast
qed

end
