(* ===== verification/Control_Plane.thy ===== *)
theory Control_Plane
  imports Plan_Runner Run_Snapshot Local_Artifacts
begin

text \<open>
  \<open>planning/control-plane.ts\<close> with \<open>clients/mock-delegation.ts\<close> and the snapshot adapter of
  \<open>capability-registry\<close>: creating, executing, resuming, retrying and cancelling runs over the
  state store (plan states, run events, run control), the artifact and run indexes on disk and the
  plan runner.

  Work the code starts without waiting for it (\<open>void execute...\<close>) is a job in a queue, which
  \<open>run_job\<close> takes out and carries through; its errors are swallowed, as \<open>.catch(() => undefined)\<close>
  does. A request and a job are each one sequence of steps: the interleaving of their awaits is
  not modelled. Handing a run to Hatchet, the workflow service, is a parameter: the reference it
  answers, or none when it is not configured or fails.
\<close>

section \<open>State and host\<close>

datatype background_job = Job_run string | Job_continuation string

record control_world =
  cw_run :: world
  cw_events :: event_db
  cw_control :: control_db
  cw_disk :: disk
  cw_jobs :: "background_job list"

type_synonym 'a ctl = "(control_world, 'a) effect"

record control_host =
  ch_host :: host
  ch_local :: local_host
  ch_registry :: pack_registry
  ch_hatchet :: "string \<Rightarrow> string \<Rightarrow> string option"
  ch_model_route :: json
  ch_process_env :: "string \<Rightarrow> string option"

abbreviation ch_env :: "control_host \<Rightarrow> env" where
  "ch_env C \<equiv> h_env (ch_host C)"

section \<open>The store\<close>

definition on_run :: "'a eff \<Rightarrow> 'a ctl" where
  "on_run m = (\<lambda>c. (let (r, w) = m (cw_run c) in (r, c\<lparr>cw_run := w\<rparr>)))"

definition on_disk :: "(disk, 'a) effect \<Rightarrow> 'a ctl" where
  "on_disk m = (\<lambda>c. (let (r, d) = m (cw_disk c) in (r, c\<lparr>cw_disk := d\<rparr>)))"

definition put_control :: "(control_db \<Rightarrow> control_db option) \<Rightarrow> unit ctl" where
  "put_control f =
     (\<lambda>c. case f (cw_control c) of
            None \<Rightarrow> (Inl Zod_error, c)
          | Some db \<Rightarrow> (Inr (), c\<lparr>cw_control := db\<rparr>))"

definition ctl_now :: "control_host \<Rightarrow> string ctl" where
  "ctl_now C = on_run (now_iso (ch_host C))"

definition given_or_now :: "control_host \<Rightarrow> string option \<Rightarrow> string ctl" where
  "given_or_now C now = (case now of Some t \<Rightarrow> ereturn t | None \<Rightarrow> ctl_now C)"

definition store_state :: "control_host \<Rightarrow> plan_state \<Rightarrow> plan_state ctl" where
  "store_state C s = on_run (store_plan_state (ch_env C) s)"

definition store_execution :: "control_host \<Rightarrow> run_execution \<Rightarrow> run_execution ctl" where
  "store_execution C r = ethen (put_control (\<lambda>db. record_run_execution (ch_env C) db r)) (ereturn r)"

definition store_continuation :: "control_host \<Rightarrow> run_continuation \<Rightarrow> unit ctl" where
  "store_continuation C r = put_control (\<lambda>db. record_run_continuation (ch_env C) db r)"

definition store_attempt :: "control_host \<Rightarrow> node_attempt \<Rightarrow> unit ctl" where
  "store_attempt C a = put_control (\<lambda>db. record_node_attempt (ch_env C) db a)"

definition load_state :: "string \<Rightarrow> plan_state option ctl" where
  "load_state plan_id = on_run (load_plan_state plan_id)"

definition load_execution :: "string \<Rightarrow> run_execution option ctl" where
  "load_execution run_id = (\<lambda>c. (Inr (get_run_execution (cw_control c) run_id), c))"

definition load_continuation :: "string \<Rightarrow> run_continuation option ctl" where
  "load_continuation i = (\<lambda>c. (Inr (get_run_continuation (cw_control c) i), c))"

definition load_attempts :: "string \<Rightarrow> string \<Rightarrow> node_attempt list ctl" where
  "load_attempts run_id node_id = (\<lambda>c. (Inr (list_node_attempts (cw_control c) run_id (Some node_id)), c))"

definition append_event :: "control_host \<Rightarrow> run_event \<Rightarrow> unit ctl" where
  "append_event C e =
     (\<lambda>c. case append_run_event (ch_env C) (cw_events c) e of
            None \<Rightarrow> (Inl Zod_error, c)
          | Some (db, _) \<Rightarrow> (Inr (), c\<lparr>cw_events := db\<rparr>))"

definition append_new_event :: "control_host \<Rightarrow> string \<Rightarrow> string \<Rightarrow> string \<Rightarrow> event_body \<Rightarrow> unit ctl" where
  "append_new_event C run_id plan_id now b =
     ebind (of_option Zod_error (create_run_event (ch_env C) run_id plan_id now None b)) (append_event C)"

definition start_job :: "background_job \<Rightarrow> unit ctl" where
  "start_job j = (\<lambda>c. (Inr (), c\<lparr>cw_jobs := cw_jobs c @ [j]\<rparr>))"

text \<open>What \<open>buildRunSnapshot\<close> reads.\<close>

definition ctl_sources :: "control_host \<Rightarrow> control_world \<Rightarrow> snapshot_sources" where
  "ctl_sources C c =
     \<lparr>ss_plan_states = w_plan_states (cw_run c), ss_events = cw_events c, ss_control = cw_control c,
      ss_artifacts = list_artifacts (ch_env C) (ch_local C) (cw_disk c) None\<rparr>"

definition ctl_snapshot :: "control_host \<Rightarrow> string \<Rightarrow> planfile option \<Rightarrow> run_snapshot option ctl" where
  "ctl_snapshot C run_id plan = (\<lambda>c. (build_run_snapshot (ch_env C) (ctl_sources C c) run_id None plan, c))"

section \<open>Capability snapshots and delegation\<close>

text \<open>\<open>descriptorToOpenCotCapability\<close>; the digest it carries is computed anew by the snapshot.\<close>

definition descriptor_to_input :: "sdk_descriptor \<Rightarrow> capability_input" where
  "descriptor_to_input d =
     \<lparr>ci_endpoint_id = sd_pack_id d, ci_capability_name = sd_name d, ci_description = sd_description d,
      ci_input_schema = sd_input_schema d, ci_output_schema = Some (sd_output_schema d),
      ci_risk_level = sd_risk_level d, ci_requires_approval = sd_requires_approval d\<rparr>"

definition capability_snapshot_for_task ::
    "control_host \<Rightarrow> string list \<Rightarrow> string list \<Rightarrow> risk_level \<Rightarrow> string \<Rightarrow> capability_snapshot option" where
  "capability_snapshot_for_task C capabilities scopes risk now =
     build_capability_snapshot (ch_env C)
       (map descriptor_to_input
         (list_capabilities (ch_registry C)
           \<lparr>fl_allowed_scopes = Some scopes, fl_denied_scopes = None,
            fl_allowed_capabilities = Some capabilities, fl_max_risk_level = Some risk,
            fl_trust_levels = None\<rparr>)) now"

definition strip_project_prefix :: "string \<Rightarrow> string" where
  "strip_project_prefix s = (if starts_with s ''project_'' then drop 8 s else s)"

definition deterministic_project_run_id :: "string \<Rightarrow> string" where
  "deterministic_project_run_id project_id = ''project_run_'' @ strip_project_prefix project_id"

definition deterministic_project_id :: "env \<Rightarrow> string \<Rightarrow> string \<Rightarrow> string \<Rightarrow> string \<Rightarrow> string" where
  "deterministic_project_id E goal workspace_id principal_id delegate_id =
     det_id E ''project''
       (JObj [(''goal'', JStr (to_lower (squash CHR '' '' (\<lambda>c. \<not> is_space c) (trim goal)))), (''workspace_id'', JStr workspace_id),
              (''principal_id'', JStr principal_id), (''delegate_id'', JStr delegate_id)]) 24"

record mock_delegation_input =
  md_goal :: string
  md_workspace_id :: "string option"
  md_project_id :: "string option"
  md_allowed_scopes :: "string list option"
  md_delegate_id :: "string option"

definition mock_delegation_context :: "env \<Rightarrow> mock_delegation_input \<Rightarrow> string \<Rightarrow> delegation_context" where
  "mock_delegation_context E i expires_at =
     (let workspace_id = nullish (md_workspace_id i) ''workspace-local'';
          delegate_id = nullish (md_delegate_id i) ''open-lagrange-interface'';
          project_id = nullish (md_project_id i)
            (deterministic_project_id E (md_goal i) workspace_id ''human-local'' delegate_id)
      in \<lparr>dc_principal_id = ''human-local'', dc_principal_type = Principal_human,
          dc_delegate_id = delegate_id, dc_delegate_type = Delegate_reconciler,
          dc_project_id = project_id, dc_workspace_id = workspace_id,
          dc_allowed_scopes = nullish (md_allowed_scopes i) [''project:read'', ''project:summarize''],
          dc_denied_scopes = [''project:write''],
          dc_allowed_capabilities = [''read_file'', ''search_docs'', ''draft_readme_summary''],
          dc_max_risk_level = Risk_read,
          dc_approval_required_for = [Risk_write, Risk_destructive, Risk_external_side_effect],
          dc_expires_at = expires_at, dc_trace_id = ''trace_'' @ strip_project_prefix project_id,
          dc_parent_run_id = deterministic_project_run_id project_id, dc_task_run_id = None\<rparr>)"

definition create_mock_delegation :: "control_host \<Rightarrow> mock_delegation_input \<Rightarrow> delegation_context ctl" where
  "create_mock_delegation C i =
     ebind (on_run (date_now (ch_host C))) (\<lambda>t.
       let d = mock_delegation_context (ch_env C) i (h_iso (ch_host C) (t + 60 * 60 * 1000))
       in if delegation_context_ok (ch_env C) d then ereturn d else ethrow Zod_error)"

section \<open>Plans\<close>

definition run_id_for_plan :: "env \<Rightarrow> planfile \<Rightarrow> string \<Rightarrow> string" where
  "run_id_for_plan E p now =
     ''plan_'' @ take 16 (stable_hash E (JObj
       [(''plan_id'', JStr (pf_plan_id p)), (''digest'', jundef JStr (pf_canonical_plan_digest p)),
        (''now'', JStr now)]))"

definition string_context :: "(string \<times> json) list option \<Rightarrow> string \<Rightarrow> string option" where
  "string_context context key = Option.bind (Option.bind context (\<lambda>m. map_of m key)) string_value"

definition parsed_with_digest :: "env \<Rightarrow> planfile \<Rightarrow> planfile option" where
  "parsed_with_digest E p = Option.bind (planfile_parse E p) (with_canonical_plan_digest E)"

definition live_execution_plan :: "env \<Rightarrow> planfile \<Rightarrow> string \<Rightarrow> planfile option" where
  "live_execution_plan E p now =
     parsed_with_digest E
       (p\<lparr>pf_mode := Plan_apply, pf_status := PS_validated,
          pf_goal_frame := (pf_goal_frame p)\<lparr>gf_suggested_mode := Suggest_apply_with_approval\<rparr>,
          pf_nodes := map (\<lambda>n. n\<lparr>n_execution_mode :=
            (if n_execution_mode n = None \<or> n_execution_mode n = Some Mode_dry_run then Some Mode_live
             else n_execution_mode n)\<rparr>) (pf_nodes p),
          pf_updated_at := now\<rparr>)"

definition validation_error :: "validation_result \<Rightarrow> thrown" where
  "validation_error v = Plain_error (join ''; '' (map pi_message (vl_issues v)))"

definition require_valid :: "control_host \<Rightarrow> capability_snapshot \<Rightarrow> planfile \<Rightarrow> unit ctl" where
  "require_valid C snapshot p =
     (let v = validate_planfile (ch_env C) (Some snapshot) p
      in if vl_ok v then ereturn () else ethrow (validation_error v))"

definition initial_state_for :: "control_host \<Rightarrow> planfile \<Rightarrow> string \<Rightarrow> plan_state ctl" where
  "initial_state_for C p now =
     of_option Zod_error (create_initial_plan_state (ch_env C) (pf_plan_id p) PS_pending
       (nullish (pf_canonical_plan_digest p) [])
       (map (\<lambda>n. (n_id n, if n_depends_on n = [] then NS_ready else NS_pending)) (pf_nodes p))
       (pf_artifact_refs p)
       (Some (render_planfile_markdown (h_yaml (ch_host C)) (p\<lparr>pf_status := PS_pending\<rparr>) no_markdown_options))
       now)"

definition record_canonical_run ::
    "control_host \<Rightarrow> string \<Rightarrow> planfile \<Rightarrow> run_status \<Rightarrow> run_runtime \<Rightarrow> string option \<Rightarrow> string
      \<Rightarrow> run_execution ctl" where
  "record_canonical_run C run_id p status runtime output_dir now =
     store_execution C
       \<lparr>rx_run_id = run_id, rx_plan_id = pf_plan_id p,
        rx_plan_digest = nullish (pf_canonical_plan_digest p) (stable_hash (ch_env C) (planfile_json p)),
        rx_plan_title = Some (gf_interpreted_goal (pf_goal_frame p)), rx_runtime = runtime,
        rx_profile_name = None, rx_status = status, rx_planfile = Some p, rx_hatchet_run_id = None,
        rx_output_dir = keep_truthy output_dir, rx_last_continuation_id = None, rx_created_at = now,
        rx_updated_at = now, rx_started_at = None, rx_completed_at = None, rx_active_node_id = None,
        rx_artifact_refs = [], rx_approval_refs = [], rx_model_call_refs = [], rx_error_refs = []\<rparr>"

definition prepare_run_state :: "control_host \<Rightarrow> planfile \<Rightarrow> string \<Rightarrow> string \<Rightarrow> plan_state ctl" where
  "prepare_run_state C p run_id now =
     ebind (of_option Zod_error (capability_snapshot_for_task C
         (concat (map n_allowed_capability_refs (pf_nodes p))) [''research:read'', ''project:read'']
         Risk_read now)) (\<lambda>snapshot.
     ethen (require_valid C snapshot p)
    (ebind (initial_state_for C p now) (\<lambda>state.
     ebind (store_state C state) (\<lambda>recorded.
     ethen (append_new_event C run_id (pf_plan_id p) now Run_created) (ereturn recorded)))))"

text \<open>The nodes that depend on a node, directly or not, and the node itself: passes over the plan
  until one adds nothing.\<close>

definition dependents_pass :: "plan_node list \<Rightarrow> string list \<Rightarrow> string list" where
  "dependents_pass nodes result =
     fold (\<lambda>n r. if n_id n \<notin> set r \<and> list_ex (\<lambda>d. d \<in> set r) (n_depends_on n) then r @ [n_id n] else r)
       nodes result"

lemma dependents_pass_cases:
  "\<exists>xs. dependents_pass nodes r = r @ xs \<and> set xs \<subseteq> n_id ` set nodes - set r"
proof (induction nodes arbitrary: r)
  case (Cons n nodes)
  let ?r = "if n_id n \<notin> set r \<and> list_ex (\<lambda>d. d \<in> set r) (n_depends_on n) then r @ [n_id n] else r"
  have step: "dependents_pass (n # nodes) r = dependents_pass nodes ?r" by (simp add: dependents_pass_def)
  obtain xs where xs: "dependents_pass nodes ?r = ?r @ xs" "set xs \<subseteq> n_id ` set nodes - set ?r"
    using Cons.IH by blast
  show ?case
  proof (cases "n_id n \<notin> set r \<and> list_ex (\<lambda>d. d \<in> set r) (n_depends_on n)")
    case True
    with xs step show ?thesis by (intro exI [of _ "n_id n # xs"]) auto
  next
    case False
    with xs step show ?thesis by (intro exI [of _ xs]) (auto simp only: if_False, auto)
  qed
qed (simp add: dependents_pass_def)

function dependents_loop :: "plan_node list \<Rightarrow> string list \<Rightarrow> string list" where
  "dependents_loop nodes result =
     (let r = dependents_pass nodes result in if r = result then result else dependents_loop nodes r)"
  by pat_completeness auto
termination
proof (relation "measure (\<lambda>(nodes, result). card (n_id ` set nodes - set result))")
  fix nodes :: "plan_node list" and result r
  assume r: "r = dependents_pass nodes result" and ne: "r \<noteq> result"
  obtain xs where xs: "r = result @ xs" "set xs \<subseteq> n_id ` set nodes - set result"
    using dependents_pass_cases [of nodes result] unfolding r by blast
  with ne obtain x where x: "x \<in> set xs" by (cases xs) auto
  with xs have "x \<in> n_id ` set nodes - set result" "x \<in> set r" by auto
  then have "n_id ` set nodes - set r \<subset> n_id ` set nodes - set result" using xs(1) by auto
  then show "((nodes, r), nodes, result) \<in> measure (\<lambda>(nodes, result). card (n_id ` set nodes - set result))"
    by (auto intro!: psubset_card_mono)
qed simp

declare dependents_loop.simps [simp del]

definition dependent_node_ids :: "planfile \<Rightarrow> string \<Rightarrow> string list" where
  "dependent_node_ids p node_id = dependents_loop (pf_nodes p) [node_id]"

definition reset_plan_node_state :: "node_state \<Rightarrow> plan_node_status \<Rightarrow> bool \<Rightarrow> node_state" where
  "reset_plan_node_state n status reuse_artifacts =
     \<lparr>ns_node_id = ns_node_id n, ns_status = status, ns_started_at = keep_truthy (ns_started_at n),
      ns_completed_at = None, ns_artifacts = (if reuse_artifacts then ns_artifacts n else []),
      ns_errors = []\<rparr>"


section \<open>Executing a plan locally\<close>

text \<open>\<open>searchProviderConfigsForRuntime\<close>: a setting that is the empty string counts as given for
  \<open>??\<close> and as missing for the test.\<close>

definition managed_local_searxng_base_url :: "control_host \<Rightarrow> string option" where
  "managed_local_searxng_base_url C =
     (if ch_process_env C ''OPEN_LAGRANGE_PROFILE'' = Some ''local'' \<and>
         truthy (ch_process_env C ''HATCHET_CLIENT_HOST_PORT'')
      then Some ''http://searxng:8080'' else None)"

definition search_provider_configs :: "control_host \<Rightarrow> json" where
  "search_provider_configs C =
     (let env = ch_process_env C;
          kind = nullish (env ''OPEN_LAGRANGE_SEARCH_KIND'') ''searxng'';
          base_url = nullish_opt (env ''OPEN_LAGRANGE_SEARCH_BASE_URL'')
            (nullish_opt (env ''OPEN_LAGRANGE_SEARXNG_URL'') (managed_local_searxng_base_url C));
          i = nullish_opt (env ''OPEN_LAGRANGE_SEARCH_PROVIDER'')
            (nullish_opt (env ''OPEN_LAGRANGE_SEARCH_PROVIDER_ID'')
              (if truthy base_url then Some ''local-searxng'' else None))
      in if \<not> truthy base_url \<or> \<not> truthy i \<or> kind \<noteq> ''searxng'' \<or>
            env ''OPEN_LAGRANGE_SEARCH_ENABLED'' = Some ''false''
         then JArr []
         else JArr [JObj [(''id'', JStr (the i)), (''kind'', JStr ''searxng''),
                          (''baseUrl'', JStr (the base_url)), (''enabled'', JBool True)]])"

text \<open>Whether the local store refuses an artifact: that depends on the artifact and on the store's
  directory and time only.\<close>

definition local_sink :: "control_host \<Rightarrow> string \<Rightarrow> local_store \<Rightarrow> json \<Rightarrow> thrown option" where
  "local_sink C now s a =
     (case fst (record_local_artifact (ch_env C) (ch_local C) now a \<lparr>aw_store = s, aw_disk = []\<rparr>) of
        Inl e \<Rightarrow> Some e | Inr _ \<Rightarrow> None)"

definition append_events :: "env \<Rightarrow> run_event list \<Rightarrow> event_db \<Rightarrow> event_db" where
  "append_events E es db =
     fold (\<lambda>e db. case append_run_event E db e of None \<Rightarrow> db | Some (db', _) \<Rightarrow> db') es db"

definition record_all ::
    "env \<Rightarrow> local_host \<Rightarrow> string \<Rightarrow> json list \<Rightarrow> artifact_world \<Rightarrow> artifact_world" where
  "record_all E L now as w = fold (\<lambda>a w. snd (record_local_artifact E L now a w)) as w"

text \<open>A run of the plan runner whose events go to the event store and whose artifacts go to the local
  store. The runner reads neither, so they are appended in their order when it is through.\<close>

definition run_plan_locally ::
    "control_host \<Rightarrow> string \<Rightarrow> local_store \<Rightarrow> runner_options \<Rightarrow> planfile \<Rightarrow> (plan_state \<times> local_store) ctl" where
  "run_plan_locally C now s o1 p =
     (\<lambda>c. (let H = (ch_host C)\<lparr>h_sink := local_sink C now s\<rparr>;
               (r, w) = run_to_completion H o1 p ((cw_run c)\<lparr>w_events := [], w_artifacts := []\<rparr>);
               aw = record_all (ch_env C) (ch_local C) now (w_artifacts w) \<lparr>aw_store = s, aw_disk = cw_disk c\<rparr>
           in (map_sum id (\<lambda>(st, _). (st, aw_store aw)) r,
               c\<lparr>cw_run := w, cw_events := append_events (ch_env C) (w_events w) (cw_events c),
                 cw_disk := aw_disk aw\<rparr>)))"

definition flush_to_index :: "control_host \<Rightarrow> local_store \<Rightarrow> artifact_summary list ctl" where
  "flush_to_index C s =
     (if ls_summaries s = [] then ereturn []
      else ebind (ctl_now C) (\<lambda>t.
        (\<lambda>c. (let (r, aw) = flush_local_store (ch_env C) (ch_local C) t None \<lparr>aw_store = s, aw_disk = cw_disk c\<rparr>
              in (r, c\<lparr>cw_disk := aw_disk aw\<rparr>)))))"

definition live_runner_options ::
    "control_host \<Rightarrow> capability_snapshot \<Rightarrow> delegation_context \<Rightarrow> local_store \<Rightarrow> string \<Rightarrow> string
      \<Rightarrow> runner_options" where
  "live_runner_options C snapshot d s run_id now =
     \<lparr>ro_snapshot = snapshot, ro_handlers = (\<lambda>_. None), ro_registry = ch_registry C,
      ro_delegation = Some d,
      ro_runtime_config = Some [(''artifact_dir'', JStr (ls_output_dir s)),
        (''model_route'', ch_model_route C), (''search_providers'', search_provider_configs C)],
      ro_records_artifacts = True, ro_run_id = Some run_id, ro_emits = True, ro_now = Some (\<lambda>_. now)\<rparr>"

definition live_delegation :: "control_host \<Rightarrow> planfile \<Rightarrow> string list \<Rightarrow> delegation_context ctl" where
  "live_delegation C p refs =
     ebind (create_mock_delegation C
       \<lparr>md_goal = gf_interpreted_goal (pf_goal_frame p),
        md_workspace_id = Some (nullish (string_context (pf_execution_context p) ''workspace_id'') ''workspace-local''),
        md_project_id = Some (pf_plan_id p),
        md_allowed_scopes = Some [''project:read'', ''research:read''],
        md_delegate_id = Some ''open-lagrange-local-plan-runner''\<rparr>) (\<lambda>d.
     ereturn (d\<lparr>dc_allowed_capabilities := refs, dc_max_risk_level := Risk_read,
                dc_task_run_id := Some (pf_plan_id p)\<rparr>))"

definition plan_document_path :: "planfile \<Rightarrow> string" where
  "plan_document_path p = ''.open-lagrange/plans/'' @ pf_plan_id p @ ''/planfile.plan.md''"

definition plan_document_draft :: "env \<Rightarrow> planfile \<Rightarrow> artifact_summary" where
  "plan_document_draft E p =
     blank_summary\<lparr>
       as_artifact_id := ''planfile_'' @
         take 16 (stable_hash E (JObj [(''plan_id'', JStr (pf_plan_id p))])),
       as_kind := ''planfile'', as_title := ''Planfile '' @ pf_plan_id p,
       as_summary := ''Planfile markdown projection for local live execution.'',
       as_path_or_uri := plan_document_path p, as_content_type := Some ''text/markdown'',
       as_related_plan_id := Some (pf_plan_id p)\<rparr>"

definition write_plan_document :: "control_host \<Rightarrow> planfile \<Rightarrow> plan_state \<Rightarrow> string \<Rightarrow> artifact_summary ctl" where
  "write_plan_document C p st now =
     ethen (on_disk (write_file (path_resolve (lh_process_cwd (ch_local C)) [plan_document_path p])
         (Plain_text (nullish (ps_markdown_projection st)
           (render_planfile_markdown (h_yaml (ch_host C)) p no_markdown_options)))))
     (\<lambda>c. (case create_artifact_summary (ch_env C) (ch_local C) (cw_disk c) now
                  (plan_document_draft (ch_env C) p) (Some now) None None None of
             None \<Rightarrow> (Inl Zod_error, c)
           | Some a \<Rightarrow> (Inr a, c)))"

definition local_run_summary ::
    "planfile \<Rightarrow> string \<Rightarrow> plan_state \<Rightarrow> local_store \<Rightarrow> artifact_summary list \<Rightarrow> run_summary" where
  "local_run_summary p run_id st s artifacts =
     \<lparr>rs_run_id = run_id, rs_workflow_kind = WK_plan, rs_title = gf_interpreted_goal (pf_goal_frame p),
      rs_summary = ''Local live Planfile execution through PackRegistry and CapabilityStepRunner.'',
      rs_status = (if ps_status st = PS_completed then IR_completed
                   else if ps_status st = PS_failed then IR_failed else IR_yielded),
      rs_started_at = ps_created_at st, rs_completed_at = Some (ps_updated_at st),
      rs_output_dir = Some (ls_output_dir s), rs_related_demo_id = None,
      rs_related_plan_id = Some (pf_plan_id p), rs_related_skill_id = None, rs_related_pack_id = None,
      rs_primary_artifact_refs = map as_artifact_id (filter (\<lambda>a. as_kind a = ''research_brief'') artifacts),
      rs_supporting_artifact_refs = map as_artifact_id (filter (\<lambda>a. as_kind a \<noteq> ''research_brief'') artifacts),
      rs_debug_artifact_refs = [], rs_pinned = False, rs_updated_at = None\<rparr>"

definition checked_run_summary :: "control_host \<Rightarrow> run_summary \<Rightarrow> run_summary ctl" where
  "checked_run_summary C r = (if run_summary_ok (ch_env C) r then ereturn r else ethrow Zod_error)"

definition result_artifact_ref :: "artifact_summary \<Rightarrow> plan_artifact_ref" where
  "result_artifact_ref a =
     \<lparr>ar_artifact_id = as_artifact_id a, ar_kind = PA_capability_step_result,
      ar_path_or_uri = as_path_or_uri a, ar_summary = as_summary a, ar_created_at = as_created_at a\<rparr>"

definition execute_live_local_planfile ::
    "control_host \<Rightarrow> planfile \<Rightarrow> string \<Rightarrow> string option \<Rightarrow> string option \<Rightarrow> plan_state ctl" where
  "execute_live_local_planfile C p now output_dir given_run_id =
     (let refs = uniq (concat (map n_allowed_capability_refs (pf_nodes p)));
          run_id = nullish given_run_id (run_id_for_plan (ch_env C) p now);
          s0 = create_local_store (pf_plan_id p) (keep_truthy output_dir) (Some now)
      in ebind (of_option Zod_error (capability_snapshot_for_task C refs
             [''research:read'', ''project:read''] Risk_read now)) (\<lambda>snapshot.
         ethen (require_valid C snapshot p)
        (ebind (live_delegation C p refs) (\<lambda>d.
         ebind (run_plan_locally C now s0 (live_runner_options C snapshot d s0 run_id now) p) (\<lambda>(st, s).
         ebind (flush_to_index C s) (\<lambda>artifacts.
         ebind (write_plan_document C p st now) (\<lambda>document.
         ebind (on_disk (register_artifacts (ch_env C) (ch_local C) [document] None now)) (\<lambda>_.
         ebind (checked_run_summary C (local_run_summary p run_id st s artifacts)) (\<lambda>summary.
         ebind (on_disk (register_run (ch_env C) (ch_local C) summary (document # artifacts)
             default_run_paths now)) (\<lambda>_.
         store_state C (st\<lparr>ps_artifact_refs := ps_artifact_refs st @ map result_artifact_ref artifacts,
                           ps_updated_at := now\<rparr>)))))))))))"


section \<open>Jobs\<close>

definition stored_plan :: "control_host \<Rightarrow> run_execution \<Rightarrow> planfile ctl" where
  "stored_plan C r =
     of_option Zod_error (Option.bind (rx_planfile r) (planfile_parse (ch_env C)))"

definition error_ref :: "nat \<Rightarrow> structured_error \<Rightarrow> string" where
  "error_ref i e = error_code_str (se_code e) @ '':'' @ nat_str i"

definition execution_after_run :: "run_execution \<Rightarrow> run_snapshot \<Rightarrow> string \<Rightarrow> run_execution" where
  "execution_after_run r s now =
     r\<lparr>rx_status := sn_status s, rx_completed_at := sn_completed_at s,
       rx_artifact_refs := map ra_artifact_id (sn_artifacts s),
       rx_approval_refs := map aq_approval_id (sn_approvals s),
       rx_model_call_refs := map mc_artifact_id (sn_model_calls s),
       rx_error_refs := map (\<lambda>(i, e). error_ref i e) (enumerate 0 (sn_errors s)), rx_updated_at := now\<rparr>"

definition execute_stored_run :: "control_host \<Rightarrow> string \<Rightarrow> run_snapshot option ctl" where
  "execute_stored_run C run_id =
     ebind (load_execution run_id) (\<lambda>found.
       case found of
         None \<Rightarrow> ereturn None
       | Some r \<Rightarrow>
           ebind (given_or_now C (rx_started_at r)) (\<lambda>started.
           ebind (ctl_now C) (\<lambda>updated.
           ebind (store_execution C (r\<lparr>rx_status := RS_running, rx_started_at := Some started,
                                       rx_updated_at := updated\<rparr>)) (\<lambda>_.
           ebind (stored_plan C r) (\<lambda>p.
           ebind (ctl_now C) (\<lambda>now.
           ebind (execute_live_local_planfile C p now (keep_truthy (rx_output_dir r)) (Some run_id)) (\<lambda>_.
           ebind (ctl_snapshot C run_id (Some p)) (\<lambda>snapshot.
           ebind (load_execution run_id) (\<lambda>latest.
           ethen (case (latest, snapshot) of
                    (Some l, Some s) \<Rightarrow>
                      ebind (ctl_now C) (\<lambda>t. ebind (store_execution C (execution_after_run l s t)) (\<lambda>_. ereturn ()))
                  | _ \<Rightarrow> ereturn ())
             (ereturn snapshot))))))))))"

definition execute_run_cancellation :: "control_host \<Rightarrow> string \<Rightarrow> run_snapshot option ctl" where
  "execute_run_cancellation C continuation_id =
     ebind (load_continuation continuation_id) (\<lambda>found.
       case found of
         None \<Rightarrow> ereturn None
       | Some k \<Rightarrow>
           ebind (load_execution (rc_run_id k)) (\<lambda>found'.
             case found' of
               None \<Rightarrow> ereturn None
             | Some r \<Rightarrow>
                 ebind (ctl_now C) (\<lambda>now.
                 ebind (store_execution C (r\<lparr>rx_status := RS_cancelled, rx_updated_at := now\<rparr>)) (\<lambda>_.
                 ethen (store_continuation C (k\<lparr>rc_status := CS_completed, rc_updated_at := now\<rparr>))
                (ethen (append_new_event C (rx_run_id r) (rx_plan_id r) now (Run_cancelled (Some ''Run cancelled.'')))
                (ebind (stored_plan C r) (\<lambda>p. ctl_snapshot C (rx_run_id r) (Some p))))))))"

definition reset_node_ids :: "planfile \<Rightarrow> plan_state \<Rightarrow> run_continuation \<Rightarrow> string list" where
  "reset_node_ids p st k =
     (if rc_kind k = Cont_retry \<and> truthy (rc_node_id k) then dependent_node_ids p (the (rc_node_id k))
      else map ns_node_id (filter (\<lambda>n. ns_status n = NS_yielded \<or> ns_status n = NS_failed) (ps_node_states st)))"

definition reset_plan_state :: "planfile \<Rightarrow> plan_state \<Rightarrow> run_continuation \<Rightarrow> string \<Rightarrow> plan_state" where
  "reset_plan_state p st k now =
     st\<lparr>ps_status := PS_running,
        ps_node_states := map (\<lambda>n.
          if ns_node_id n \<in> set (reset_node_ids p st k)
          then reset_plan_node_state n
                 (if Some (ns_node_id n) = rc_node_id k \<or> rc_kind k = Cont_resume then NS_ready else NS_pending)
                 (rc_replay_mode k = Some RM_reuse_artifacts)
          else n) (ps_node_states st),
        ps_updated_at := now\<rparr>"

definition execute_run_continuation :: "control_host \<Rightarrow> string \<Rightarrow> run_snapshot option ctl" where
  "execute_run_continuation C continuation_id =
     ebind (load_continuation continuation_id) (\<lambda>found.
       case found of
         None \<Rightarrow> ereturn None
       | Some k \<Rightarrow>
           ebind (load_execution (rc_run_id k)) (\<lambda>found'.
             case found' of
               None \<Rightarrow> ereturn None
             | Some r \<Rightarrow>
                 if rc_kind k = Cont_cancel then execute_run_cancellation C continuation_id
                 else
                   ebind (stored_plan C r) (\<lambda>p.
                   ebind (load_state (pf_plan_id p)) (\<lambda>state.
                   ethen (case state of
                            None \<Rightarrow> ereturn ()
                          | Some st \<Rightarrow>
                              ebind (ctl_now C) (\<lambda>t.
                              ebind (store_state C (reset_plan_state p st k t)) (\<lambda>_. ereturn ())))
                  (ebind (ctl_now C) (\<lambda>t1.
                   ethen (store_continuation C (k\<lparr>rc_status := CS_running, rc_updated_at := t1\<rparr>))
                  (ebind (execute_stored_run C (rc_run_id k)) (\<lambda>snapshot.
                   ebind (ctl_now C) (\<lambda>t2.
                   ethen (store_continuation C (k\<lparr>rc_status :=
                       (if map_option sn_status snapshot = Some RS_failed then CS_failed else CS_completed),
                       rc_updated_at := t2\<rparr>))
                     (ereturn snapshot))))))))))"

definition run_job :: "control_host \<Rightarrow> background_job \<Rightarrow> unit ctl" where
  "run_job C j =
     (\<lambda>c. (Inr (), snd ((case j of
        Job_run i \<Rightarrow> execute_stored_run C i
      | Job_continuation i \<Rightarrow> execute_run_continuation C i) c)))"

text \<open>The next job of the queue is taken out and carried through.\<close>

definition run_next_job :: "control_host \<Rightarrow> unit ctl" where
  "run_next_job C =
     (\<lambda>c. case cw_jobs c of
            [] \<Rightarrow> (Inr (), c)
          | j # js \<Rightarrow> run_job C j (c\<lparr>cw_jobs := js\<rparr>))"

section \<open>Requests\<close>

record run_input =
  in_planfile :: "planfile option"
  in_live :: "bool option"
  in_output_dir :: "string option"
  in_run_id :: "string option"
  in_now :: "string option"

record create_run_result =
  cx_run_id :: string
  cx_snapshot :: run_snapshot
  cx_state :: plan_state

record run_action_result =
  ax_run_id :: string
  ax_status :: string
  ax_continuation_id :: "string option"
  ax_hatchet_run_id :: "string option"
  ax_snapshot :: "run_snapshot option"
  ax_message :: string

text \<open>The plan a run is made from: parsed, marked as validated and stamped with its digest, and for
  a live run turned into its live form.\<close>

definition plan_of_input :: "control_host \<Rightarrow> run_input \<Rightarrow> string \<Rightarrow> planfile ctl" where
  "plan_of_input C i now =
     ebind (of_option Zod_error (Option.bind (in_planfile i) (planfile_parse (ch_env C)))) (\<lambda>parsed.
     ebind (of_option Zod_error (parsed_with_digest (ch_env C)
         (parsed\<lparr>pf_status := PS_validated, pf_updated_at := now\<rparr>))) (\<lambda>base.
     if in_live i = Some True then of_option Zod_error (live_execution_plan (ch_env C) base now)
     else ereturn base))"

definition apply_planfile :: "control_host \<Rightarrow> run_input \<Rightarrow> plan_state ctl" where
  "apply_planfile C i =
     ebind (given_or_now C (in_now i)) (\<lambda>now.
     ebind (plan_of_input C i now) (\<lambda>p.
     if in_live i = Some True
     then execute_live_local_planfile C p now (keep_truthy (in_output_dir i)) (keep_truthy (in_run_id i))
     else
       ebind (of_option Zod_error (capability_snapshot_for_task C [] [] Risk_read now)) (\<lambda>snapshot.
       ethen (require_valid C snapshot p)
      (let run_id = nullish (in_run_id i) (run_id_for_plan (ch_env C) p now) in
       ebind (initial_state_for C p now) (\<lambda>state.
       ebind (store_state C state) (\<lambda>recorded.
       ebind (record_canonical_run C run_id p RS_queued Runtime_local_dev (keep_truthy (in_output_dir i)) now) (\<lambda>_.
       ethen (append_new_event C run_id (pf_plan_id p) now Run_created) (ereturn recorded))))))))"

definition created_run :: "control_host \<Rightarrow> string \<Rightarrow> planfile \<Rightarrow> plan_state \<Rightarrow> create_run_result ctl" where
  "created_run C run_id p state =
     ebind (ctl_snapshot C run_id (Some p)) (\<lambda>snapshot.
       case snapshot of
         None \<Rightarrow> ethrow (Plain_error (''Run snapshot was not created for '' @ run_id @ ''.''))
       | Some s \<Rightarrow> ereturn \<lparr>cx_run_id = run_id, cx_snapshot = s, cx_state = state\<rparr>)"

definition create_run_from_planfile :: "control_host \<Rightarrow> run_input \<Rightarrow> create_run_result ctl" where
  "create_run_from_planfile C i =
     ebind (given_or_now C (in_now i)) (\<lambda>now.
     ebind (plan_of_input C i now) (\<lambda>p.
     let run_id = nullish (in_run_id i) (run_id_for_plan (ch_env C) p now) in
     if in_live i = Some True
     then
       ebind (prepare_run_state C p run_id now) (\<lambda>state.
       ebind (record_canonical_run C run_id p RS_queued Runtime_local_dev (keep_truthy (in_output_dir i)) now) (\<lambda>r.
       ethen (if truthy (ch_hatchet C ''plan-run'' run_id)
              then ebind (ctl_now C) (\<lambda>t1. ebind (ctl_now C) (\<lambda>t2.
                     ebind (store_execution C (r\<lparr>rx_hatchet_run_id := ch_hatchet C ''plan-run'' run_id,
                         rx_runtime := Runtime_hatchet, rx_status := RS_running,
                         rx_started_at := Some t1, rx_updated_at := t2\<rparr>)) (\<lambda>_. ereturn ())))
              else start_job (Job_run run_id))
         (created_run C run_id p state)))
     else
       ebind (apply_planfile C
           \<lparr>in_planfile = Some p, in_live = in_live i, in_output_dir = keep_truthy (in_output_dir i),
            in_run_id = Some run_id, in_now = Some now\<rparr>) (\<lambda>state.
       created_run C run_id p state)))"

definition missing_run :: "string \<Rightarrow> run_action_result" where
  "missing_run run_id =
     \<lparr>ax_run_id = run_id, ax_status = ''missing'', ax_continuation_id = None, ax_hatchet_run_id = None,
      ax_snapshot = None, ax_message = ''Run was not found.''\<rparr>"

definition action_failed :: "string \<Rightarrow> string \<Rightarrow> string \<Rightarrow> run_action_result" where
  "action_failed run_id status message =
     \<lparr>ax_run_id = run_id, ax_status = status, ax_continuation_id = None, ax_hatchet_run_id = None,
      ax_snapshot = None, ax_message = message\<rparr>"

definition action_queued ::
    "control_host \<Rightarrow> string \<Rightarrow> string \<Rightarrow> string option \<Rightarrow> string \<Rightarrow> run_action_result ctl" where
  "action_queued C run_id continuation_id hatchet message =
     ebind (ctl_snapshot C run_id None) (\<lambda>s.
     ereturn \<lparr>ax_run_id = run_id, ax_status = ''queued'', ax_continuation_id = keep_truthy (Some continuation_id),
              ax_hatchet_run_id = keep_truthy hatchet, ax_snapshot = s, ax_message = message\<rparr>)"

definition continuation_id_for :: "env \<Rightarrow> (string \<times> json) list \<Rightarrow> string" where
  "continuation_id_for E entries = ''cont_'' @ take 16 (stable_hash E (JObj entries))"

definition queued_continuation ::
    "string \<Rightarrow> string \<Rightarrow> continuation_kind \<Rightarrow> string option \<Rightarrow> replay_mode option \<Rightarrow> string \<Rightarrow> run_continuation" where
  "queued_continuation continuation_id run_id kind node_id mode now =
     \<lparr>rc_continuation_id = continuation_id, rc_run_id = run_id, rc_kind = kind, rc_status = CS_queued,
      rc_node_id = node_id, rc_replay_mode = mode, rc_hatchet_run_id = None, rc_created_at = now,
      rc_updated_at = now\<rparr>"

text \<open>Handing a continuation over: to Hatchet, whose reference is noted, or to the given fallback.\<close>

definition hand_over ::
    "control_host \<Rightarrow> string \<Rightarrow> run_continuation \<Rightarrow> unit ctl \<Rightarrow> string option ctl" where
  "hand_over C workflow k fallback =
     (let hatchet = ch_hatchet C workflow (rc_continuation_id k) in
      ethen (if truthy hatchet
             then ebind (ctl_now C) (\<lambda>t. store_continuation C (k\<lparr>rc_hatchet_run_id := hatchet, rc_updated_at := t\<rparr>))
             else fallback)
        (ereturn hatchet))"

definition resume_run :: "control_host \<Rightarrow> string \<Rightarrow> string option \<Rightarrow> run_action_result ctl" where
  "resume_run C run_id given_now =
     ebind (given_or_now C given_now) (\<lambda>now.
     ebind (load_execution run_id) (\<lambda>found.
       case found of
         None \<Rightarrow> ereturn (missing_run run_id)
       | Some _ \<Rightarrow>
           (let i = continuation_id_for (ch_env C)
                [(''run_id'', JStr run_id), (''kind'', JStr ''resume''), (''now'', JStr now)];
                k = queued_continuation i run_id Cont_resume None None now
            in ethen (store_continuation C k)
              (ebind (hand_over C ''plan-run-continuation'' k (start_job (Job_continuation i))) (\<lambda>hatchet.
               action_queued C run_id i hatchet ''Run resume requested.'')))))"

definition retry_key :: "string \<Rightarrow> string \<Rightarrow> replay_mode \<Rightarrow> string \<Rightarrow> (string \<times> json) list" where
  "retry_key run_id node_id mode now =
     [(''run_id'', JStr run_id), (''node_id'', JStr node_id),
      (''replay_mode'', JStr (replay_mode_str mode)), (''now'', JStr now)]"

definition retry_attempt ::
    "env \<Rightarrow> string \<Rightarrow> string \<Rightarrow> string \<Rightarrow> replay_mode \<Rightarrow> bool \<Rightarrow> node_attempt list \<Rightarrow> string \<Rightarrow> node_attempt" where
  "retry_attempt E run_id plan_id node_id mode requires_approval prior now =
     (let i = ''attempt_'' @ take 16 (stable_hash E (JObj (retry_key run_id node_id mode now)))
      in \<lparr>at_attempt_id = i, at_run_id = run_id, at_plan_id = plan_id, at_node_id = node_id,
          at_attempt_number = length prior + 1, at_replay_mode = mode,
          at_idempotency_key =
            (if mode = RM_force_new_idempotency_key then run_id @ '':'' @ node_id @ '':'' @ i
             else run_id @ '':'' @ node_id @ '':replay:'' @ replay_mode_str mode),
          at_previous_attempt_id = (if prior = [] then None else Some (at_attempt_id (last prior))),
          at_input_artifact_refs = [], at_output_artifact_refs = [],
          at_status = (if requires_approval then At_requires_approval else At_running),
          at_policy_report_ref = None, at_started_at = now, at_completed_at = None\<rparr>)"

definition retry_run_node ::
    "control_host \<Rightarrow> string \<Rightarrow> string \<Rightarrow> string \<Rightarrow> string option \<Rightarrow> run_action_result ctl" where
  "retry_run_node C run_id node_id replay_mode given_now =
     (let mode = api_replay_mode replay_mode in
      ebind (given_or_now C given_now) (\<lambda>now.
      ebind (load_execution run_id) (\<lambda>found.
        case found of
          None \<Rightarrow> ereturn (missing_run run_id)
        | Some r \<Rightarrow>
            ebind (stored_plan C r) (\<lambda>p.
              case List.find (\<lambda>n. n_id n = node_id) (pf_nodes p) of
                None \<Rightarrow> ereturn (action_failed run_id ''missing'' (''Node was not found: '' @ node_id))
              | Some n \<Rightarrow>
                  (let policy = evaluate_node_replay_policy n mode in
                   if \<not> rd_ok policy
                   then ereturn (action_failed run_id ''failed''
                          (nullish (rd_reason policy) ''Retry replay policy denied the request.''))
                   else
                     (let m = the mode;
                          i = continuation_id_for (ch_env C) (retry_key run_id node_id m now);
                          k = queued_continuation i run_id Cont_retry (Some node_id) mode now
                      in ebind (load_attempts run_id node_id) (\<lambda>prior.
                         ethen (store_attempt C (retry_attempt (ch_env C) run_id (rx_plan_id r) node_id m
                             (rd_requires_approval policy = Some True) prior now))
                        (ethen (store_continuation C k)
                        (ebind (hand_over C ''plan-node-replay'' k (start_job (Job_continuation i))) (\<lambda>hatchet.
                         action_queued C run_id i hatchet ''Run retry requested.''))))))))))"

definition cancel_run :: "control_host \<Rightarrow> string \<Rightarrow> string option \<Rightarrow> run_action_result ctl" where
  "cancel_run C run_id given_now =
     ebind (given_or_now C given_now) (\<lambda>now.
     ebind (load_execution run_id) (\<lambda>found.
       case found of
         None \<Rightarrow> ereturn (missing_run run_id)
       | Some r \<Rightarrow>
           (let i = continuation_id_for (ch_env C)
                [(''run_id'', JStr run_id), (''kind'', JStr ''cancel''), (''now'', JStr now)];
                k = queued_continuation i run_id Cont_cancel None None now
            in ebind (store_execution C (r\<lparr>rx_status := RS_cancelled, rx_completed_at := Some now,
                   rx_last_continuation_id := Some i, rx_updated_at := now\<rparr>)) (\<lambda>_.
               ethen (store_continuation C k)
              (ethen (append_new_event C run_id (rx_plan_id r) now (Run_cancelled (Some ''Cancellation requested.'')))
              (ebind (hand_over C ''plan-run-cancel'' k
                  (ebind (execute_run_cancellation C i) (\<lambda>_. ereturn ()))) (\<lambda>hatchet.
               action_queued C run_id i hatchet ''Run cancellation requested.'')))))))"

section \<open>Status and approval of plans\<close>

definition plan_execution_status :: "string \<Rightarrow> plan_state option ctl" where
  "plan_execution_status plan_id = load_state plan_id"

definition decide_plan ::
    "control_host \<Rightarrow> string \<Rightarrow> string option \<Rightarrow> (string \<Rightarrow> plan_state \<Rightarrow> plan_state) \<Rightarrow> plan_state option ctl" where
  "decide_plan C plan_id given_now f =
     ebind (given_or_now C given_now) (\<lambda>now.
     ebind (load_state plan_id) (\<lambda>state.
       case state of
         None \<Rightarrow> ereturn None
       | Some st \<Rightarrow> ebind (store_state C (f now st)) (\<lambda>s. ereturn (Some s))))"

definition decision_note :: "string \<Rightarrow> string \<Rightarrow> string \<Rightarrow> plan_state \<Rightarrow> string" where
  "decision_note what decided_by reason st =
     nullish (ps_markdown_projection st) [] @ [newline, newline] @ what @ '' recorded by '' @ decided_by @
     '': '' @ reason @ [newline]"

definition approve_plan ::
    "control_host \<Rightarrow> string \<Rightarrow> string \<Rightarrow> string \<Rightarrow> string option \<Rightarrow> plan_state option ctl" where
  "approve_plan C plan_id decided_by reason now =
     decide_plan C plan_id now (\<lambda>t st.
       st\<lparr>ps_markdown_projection := Some (decision_note ''Approval'' decided_by reason st), ps_updated_at := t\<rparr>)"

definition reject_plan ::
    "control_host \<Rightarrow> string \<Rightarrow> string \<Rightarrow> string \<Rightarrow> string option \<Rightarrow> plan_state option ctl" where
  "reject_plan C plan_id decided_by reason now =
     decide_plan C plan_id now (\<lambda>t st.
       st\<lparr>ps_status := PS_yielded,
          ps_markdown_projection := Some (decision_note ''Rejection'' decided_by reason st), ps_updated_at := t\<rparr>)"

end
