(* ===== verification/Control_Properties.thy ===== *)
theory Control_Properties
  imports Control_Plane
begin

text \<open>
  What the control plane keeps true: its stores stay well formed in every state it can reach, so a
  snapshot can always be built; which nodes a retry resets; what a created and what a cancelled run
  look like.
\<close>

section \<open>The plan states a run records are well formed\<close>

definition states_ok :: "env \<Rightarrow> world \<Rightarrow> bool" where
  "states_ok E w = list_all (\<lambda>(k, s). plan_state_ok E s) (w_plan_states w)"

lemma preserves_states_keeps: "keeps w_plan_states m \<Longrightarrow> preserves (states_ok E) m"
  unfolding states_ok_def [abs_def]
  by (rule preserves_keeps [where J = "list_all (\<lambda>(k, s). plan_state_ok E s)"])

lemma list_all_update:
  "list_all P m \<Longrightarrow> P (k, v) \<Longrightarrow> list_all P (AList.update k v m)"
  by (induction m) auto

lemma preserves_store_plan_state [preserves_intros]: "preserves (states_ok E) (store_plan_state E s)"
  by (auto simp: preserves_def store_plan_state_def record_plan_state_def map_put_def states_ok_def
      intro!: list_all_update split: option.splits)

lemma preserves_states_basic [preserves_intros]:
  "preserves (states_ok E) (date_now H)" "preserves (states_ok E) (now_iso H)"
  "preserves (states_ok E) (put_artifact H a)" "preserves (states_ok E) (put_call i v)"
  "preserves (states_ok E) (load_plan_state j)" "preserves (states_ok E) (emit_new E' r p t b)"
  "preserves (states_ok E) (runner_now H o1)"
  by (intro preserves_states_keeps keeps_intros)+

lemma preserves_runner_emit [preserves_intros]: "preserves (states_ok E) (runner_emit H o1 p b)"
  unfolding runner_emit_def by (intro preserves_intros)

lemma preserves_call_handler [preserves_intros]: "preserves (states_ok E) (call_handler h wo p n st)"
  by (simp add: preserves_def call_handler_def)

lemma preserves_work_order_for [preserves_intros]: "preserves (states_ok E) (work_order_for H o1 p n)"
  by (auto simp: work_order_for_def intro: preserves_intros split: sum.split compile_error.split)

lemma preserves_phases [preserves_intros]:
  "preserves (states_ok E) (emit_phase_started H o1 p n)" "preserves (states_ok E) (emit_phase_completed H o1 p n s)"
  "preserves (states_ok E) (emit_node_started H o1 p n)"
  unfolding emit_phase_started_def emit_phase_completed_def emit_node_started_def
  by (intro preserves_intros)+

lemma preserves_mark_node [preserves_intros]:
  "preserves (states_ok (h_env H)) (mark_node H o1 p st n s arts errs)"
  "preserves (states_ok (h_env H)) (mark_node_running H o1 st n)"
  unfolding mark_node_def mark_node_running_def Let_def by (intro preserves_intros)+

lemma preserves_step_emit [preserves_intros]: "preserves (states_ok E) (step_emit H opts i t b)"
  unfolding step_emit_def by (intro preserves_intros)

lemma preserves_step_finish [preserves_intros]:
  "preserves (states_ok (h_env H)) (step_finish H opts i started started_at now status output refs report obs errors)"
  unfolding step_finish_def Let_def by (intro preserves_intros)

lemma preserves_step_refuse [preserves_intros]:
  "preserves (states_ok (h_env H)) (step_refuse H opts i started started_at now iid st rep refs code msg os sm)"
  unfolding step_refuse_def by (intro preserves_intros)

lemma preserves_step_failure [preserves_intros]:
  "preserves (states_ok (h_env H)) (step_failure H opts i started started_at now code msg)"
  unfolding step_failure_def by (intro preserves_intros)

lemma preserves_record_step_artifact [preserves_intros]:
  "preserves (states_ok E) (record_step_artifact H opts i d a)"
  unfolding record_step_artifact_def by (intro preserves_intros)

lemma preserves_record_step_artifacts [preserves_intros]:
  "preserves (states_ok E) (record_step_artifacts H opts i d as)"
  by (induction as) (simp_all only: record_step_artifacts.simps, (intro preserves_intros | assumption)+)

lemma preserves_step_conclude [preserves_intros]:
  "preserves (states_ok (h_env H)) (step_conclude H opts i f report iid started started_at now refs st output errors)"
  unfolding step_conclude_def Let_def by (intro preserves_intros)

lemma preserves_step_execute [preserves_intros]:
  "preserves (states_ok (h_env H)) (step_execute H opts i d f data decision report iid started started_at now)"
  unfolding step_execute_def by (intro preserves_intros)

lemma preserves_step_after_schema [preserves_intros]:
  "preserves (states_ok (h_env H)) (step_after_schema H opts i d f data started started_at now)"
  unfolding step_after_schema_def Let_def by (intro preserves_intros)

lemma preserves_run_capability_step [preserves_intros]:
  "preserves (states_ok (h_env H)) (run_capability_step H opts i)"
  unfolding run_capability_step_def Let_def by (intro preserves_intros)

lemma preserves_run_capability_node [preserves_intros]:
  "preserves (states_ok (h_env H)) (run_capability_node H o1 p st n outputs)"
  unfolding run_capability_node_def by (intro preserves_intros)

lemma preserves_checked_plan [preserves_intros]: "preserves (states_ok E) (checked_plan H o1 pf)"
  unfolding checked_plan_def Let_def by (intro preserves_intros)

lemma preserves_load_plan [preserves_intros]: "preserves (states_ok (h_env H)) (load_plan H o1 pf)"
  unfolding load_plan_def by (intro preserves_intros)

lemma preserves_current_state [preserves_intros]: "preserves (states_ok (h_env H)) (current_state H o1 p)"
  unfolding current_state_def by (intro preserves_intros)

lemma preserves_run_node [preserves_intros]:
  "preserves (states_ok (h_env H)) (run_node H o1 p st outputs n)"
  unfolding run_node_def Let_def by (intro preserves_intros)

lemma preserves_run_loop [preserves_intros]:
  "preserves (states_ok (h_env H)) (run_loop H o1 p k st outputs)"
proof (induction k arbitrary: st outputs)
  case 0
  show ?case unfolding run_loop.simps by (intro preserves_intros)
next
  case (Suc k)
  show ?case unfolding run_loop.simps by (intro preserves_intros Suc)
qed

lemma preserves_run_end [preserves_intros]: "preserves (states_ok E) (emit_run_end H o1 p st)"
  unfolding emit_run_end_def Let_def by (intro preserves_intros)

lemma preserves_run_to_completion [preserves_intros]:
  "preserves (states_ok (h_env H)) (run_to_completion H o1 p)"
  unfolding run_to_completion_def by (intro preserves_intros)


section \<open>The stores of the control plane stay well formed\<close>

text \<open>Every record fits its schema and stands under its own key.\<close>

definition control_ok :: "env \<Rightarrow> control_db \<Rightarrow> bool" where
  "control_ok E db =
     (list_all (\<lambda>(k, r). run_execution_ok E r \<and> rx_run_id r = k) (cb_executions db) \<and>
      list_all (\<lambda>(k, x). run_continuation_ok E x \<and> rc_continuation_id x = k) (cb_continuations db) \<and>
      list_all (\<lambda>(k, as). list_all (node_attempt_ok E) as) (cb_attempts db))"

definition stores_ok :: "control_host \<Rightarrow> control_world \<Rightarrow> bool" where
  "stores_ok C c =
     (states_ok (ch_env C) (cw_run c) \<and> event_db_ok (ch_env C) (cw_events c) \<and>
      control_ok (ch_env C) (cw_control c))"

lemma stores_sources_ok: "stores_ok C c \<Longrightarrow> sources_ok (ch_env C) (ctl_sources C c)"
  using read_artifact_index_ok [of "ch_env C" "cw_disk c" "artifact_index_path (ch_local C) None"]
  by (auto simp: stores_ok_def states_ok_def control_ok_def sources_ok_def ctl_sources_def list_artifacts_def
      list_all_iff case_prod_unfold)

lemma control_ok_records:
  "control_ok E db \<Longrightarrow> record_run_execution E db r = Some db' \<Longrightarrow> control_ok E db'"
  "control_ok E db \<Longrightarrow> record_run_continuation E db x = Some db' \<Longrightarrow> control_ok E db'"
  by (auto simp: control_ok_def record_run_execution_def record_run_continuation_def map_put_def
      intro!: list_all_update split: if_splits)

lemma control_ok_attempt:
  assumes "control_ok E db" and "record_node_attempt E db a = Some db'"
  shows "control_ok E db'"
proof -
  have "list_all (node_attempt_ok E) (run_attempts db (at_run_id a))"
  proof (cases "map_of (cb_attempts db) (at_run_id a)")
    case None
    then show ?thesis by (simp add: run_attempts_def)
  next
    case (Some as)
    then have "(at_run_id a, as) \<in> set (cb_attempts db)" by (rule map_of_SomeD)
    with assms(1) Some show ?thesis by (fastforce simp: control_ok_def run_attempts_def list_all_iff)
  qed
  then have "list_all (node_attempt_ok E)
      (filter (\<lambda>x. at_attempt_id x \<noteq> at_attempt_id a) (run_attempts db (at_run_id a)))"
    by (simp add: list_all_iff)
  with assms show ?thesis
    by (auto simp: control_ok_def record_node_attempt_def intro!: list_all_update
        split: if_splits)
qed

lemma preserves_put_control:
  assumes "\<And>db db'. control_ok (ch_env C) db \<Longrightarrow> f db = Some db' \<Longrightarrow> control_ok (ch_env C) db'"
  shows "preserves (stores_ok C) (put_control f)"
  using assms by (auto simp: preserves_def put_control_def stores_ok_def split: option.splits)

lemma preserves_on_run [preserves_intros]:
  assumes "preserves (states_ok (ch_env C)) m"
  shows "preserves (stores_ok C) (on_run m)"
  using assms by (auto simp: preserves_def on_run_def stores_ok_def case_prod_unfold Let_def)

lemma preserves_on_disk [preserves_intros]: "preserves (stores_ok C) (on_disk m)"
  by (auto simp: preserves_def on_disk_def stores_ok_def case_prod_unfold Let_def)

lemma preserves_store_execution [preserves_intros]: "preserves (stores_ok C) (store_execution C r)"
  unfolding store_execution_def
  by (intro preserves_intros preserves_put_control) (rule control_ok_records(1))

lemma preserves_store_records [preserves_intros]:
  "preserves (stores_ok C) (store_continuation C k)" "preserves (stores_ok C) (store_attempt C a)"
  unfolding store_continuation_def store_attempt_def
  by (intro preserves_put_control; erule control_ok_records(2) control_ok_attempt; assumption)+

lemma preserves_reads [preserves_intros]:
  "preserves I (load_execution i)" "preserves I (load_continuation i)" "preserves I (load_attempts i j)"
  "preserves I (ctl_snapshot C i p)"
  by (simp_all add: preserves_def load_execution_def load_continuation_def load_attempts_def ctl_snapshot_def)

lemma preserves_start_job [preserves_intros]: "preserves (stores_ok C) (start_job j)"
  by (simp add: preserves_def start_job_def stores_ok_def)

lemma preserves_run_stores [preserves_intros]:
  "preserves (stores_ok C) (ctl_now C)" "preserves (stores_ok C) (given_or_now C t)"
  "preserves (stores_ok C) (store_state C s)" "preserves (stores_ok C) (load_state i)"
  unfolding ctl_now_def given_or_now_def store_state_def load_state_def by (intro preserves_intros)+

lemma preserves_append_event [preserves_intros]: "preserves (stores_ok C) (append_event C e)"
  by (auto simp: preserves_def append_event_def stores_ok_def intro: append_event_db_ok split: option.splits)

lemma preserves_append_new_event [preserves_intros]: "preserves (stores_ok C) (append_new_event C r p t b)"
  unfolding append_new_event_def by (intro preserves_intros)

lemma append_events_ok: "event_db_ok E db \<Longrightarrow> event_db_ok E (append_events E es db)"
  unfolding append_events_def
  by (induction es arbitrary: db) (auto intro: append_event_db_ok split: option.splits)

lemma preserves_run_plan_locally [preserves_intros]:
  "preserves (stores_ok C) (run_plan_locally C now s o1 p)"
  unfolding preserves_def
proof (intro allI impI)
  fix c assume c: "stores_ok C c"
  let ?H = "(ch_host C)\<lparr>h_sink := local_sink C now s\<rparr>"
  let ?w = "(cw_run c)\<lparr>w_events := [], w_artifacts := []\<rparr>"
  obtain r w where run: "run_to_completion ?H o1 p ?w = (r, w)" by (cases "run_to_completion ?H o1 p ?w")
  have "states_ok (ch_env C) ?w" using c by (simp add: stores_ok_def states_ok_def)
  then have "states_ok (ch_env C) w"
    using preservesD [OF preserves_run_to_completion [of ?H o1 p] _ run] by simp
  then show "stores_ok C (snd (run_plan_locally C now s o1 p c))"
    using c run by (simp add: run_plan_locally_def Let_def stores_ok_def append_events_ok)
qed

lemma preserves_live_parts [preserves_intros]:
  "preserves (stores_ok C) (flush_to_index C s)" "preserves (stores_ok C) (live_delegation C p refs)"
  "preserves (stores_ok C) (write_plan_document C p st now)" "preserves (stores_ok C) (checked_run_summary C r)"
  "preserves (stores_ok C) (require_valid C sn p)"
proof -
  have "preserves (stores_ok C) (\<lambda>c. let (r, aw) = flush_local_store (ch_env C) (ch_local C) t None
      \<lparr>aw_store = s, aw_disk = cw_disk c\<rparr> in (r, c\<lparr>cw_disk := aw_disk aw\<rparr>))" for t
    by (auto simp: preserves_def stores_ok_def case_prod_unfold Let_def)
  then show "preserves (stores_ok C) (flush_to_index C s)"
    unfolding flush_to_index_def by (intro preserves_intros)
  show "preserves (stores_ok C) (live_delegation C p refs)"
    unfolding live_delegation_def create_mock_delegation_def Let_def by (intro preserves_intros)
  have "preserves (stores_ok C) (\<lambda>c. case f c of None \<Rightarrow> (Inl Zod_error, c) | Some a \<Rightarrow> (Inr a, c))" for f
    by (simp add: preserves_def split: option.splits)
  then show "preserves (stores_ok C) (write_plan_document C p st now)"
    unfolding write_plan_document_def by (intro preserves_intros)
  show "preserves (stores_ok C) (checked_run_summary C r)" "preserves (stores_ok C) (require_valid C sn p)"
    unfolding checked_run_summary_def require_valid_def Let_def by (intro preserves_intros)+
qed

lemma preserves_execute_live [preserves_intros]:
  "preserves (stores_ok C) (execute_live_local_planfile C p now dir run_id)"
  unfolding execute_live_local_planfile_def Let_def by (intro preserves_intros)

lemma preserves_stored_plan [preserves_intros]: "preserves (stores_ok C) (stored_plan C r)"
  unfolding stored_plan_def by (intro preserves_intros)

lemma preserves_execute_stored_run [preserves_intros]: "preserves (stores_ok C) (execute_stored_run C i)"
  unfolding execute_stored_run_def by (intro preserves_intros)

lemma preserves_execute_run_cancellation [preserves_intros]:
  "preserves (stores_ok C) (execute_run_cancellation C i)"
  unfolding execute_run_cancellation_def by (intro preserves_intros)

lemma preserves_execute_run_continuation [preserves_intros]:
  "preserves (stores_ok C) (execute_run_continuation C i)"
  unfolding execute_run_continuation_def by (intro preserves_intros)

lemma preserves_run_next_job [preserves_intros]: "preserves (stores_ok C) (run_next_job C)"
proof -
  have "preserves (stores_ok C) (case j of Job_run i \<Rightarrow> execute_stored_run C i
      | Job_continuation i \<Rightarrow> execute_run_continuation C i)" for j
    by (cases j) (simp_all add: preserves_intros)
  then have "preserves (stores_ok C) (run_job C j)" for j by (simp add: preserves_def run_job_def)
  then show ?thesis by (auto simp: preserves_def run_next_job_def stores_ok_def split: list.splits)
qed

lemma preserves_run_parts [preserves_intros]:
  "preserves (stores_ok C) (plan_of_input C i now)" "preserves (stores_ok C) (initial_state_for C p now)"
  "preserves (stores_ok C) (record_canonical_run C run_id p st rt dir now)"
  "preserves (stores_ok C) (created_run C run_id p state)"
  "preserves (stores_ok C) (action_queued C run_id k h m)"
  unfolding plan_of_input_def initial_state_for_def record_canonical_run_def created_run_def action_queued_def
  by (intro preserves_intros)+

lemma preserves_prepare_run_state [preserves_intros]: "preserves (stores_ok C) (prepare_run_state C p run_id now)"
  unfolding prepare_run_state_def by (intro preserves_intros)

lemma preserves_apply_planfile [preserves_intros]: "preserves (stores_ok C) (apply_planfile C i)"
  unfolding apply_planfile_def Let_def by (intro preserves_intros)

lemma preserves_create_run [preserves_intros]: "preserves (stores_ok C) (create_run_from_planfile C i)"
  unfolding create_run_from_planfile_def Let_def by (intro preserves_intros)

lemma preserves_hand_over [preserves_intros]:
  "preserves (stores_ok C) f \<Longrightarrow> preserves (stores_ok C) (hand_over C w k f)"
  unfolding hand_over_def Let_def by (intro preserves_intros)

lemma preserves_run_actions [preserves_intros]:
  "preserves (stores_ok C) (resume_run C i t)" "preserves (stores_ok C) (cancel_run C i t)"
  "preserves (stores_ok C) (retry_run_node C i n m t)"
  unfolding resume_run_def cancel_run_def retry_run_node_def Let_def by (intro preserves_intros)+

lemma preserves_decisions [preserves_intros]:
  "preserves (stores_ok C) (approve_plan C i by why t)" "preserves (stores_ok C) (reject_plan C i by why t)"
  unfolding approve_plan_def reject_plan_def decide_plan_def by (intro preserves_intros)+


section \<open>Reachable states\<close>

text \<open>The control plane serves one request after the other, and between requests carries out the jobs
  in its queue, in any order the schedule of requests and jobs makes.\<close>

datatype control_request =
    Req_apply run_input
  | Req_create run_input
  | Req_resume string "string option"
  | Req_retry string string string "string option"
  | Req_cancel string "string option"
  | Req_approve string string string "string option"
  | Req_reject string string string "string option"
  | Req_job

fun serve :: "control_host \<Rightarrow> control_request \<Rightarrow> control_world \<Rightarrow> control_world" where
  "serve C (Req_apply i) c = snd (apply_planfile C i c)"
| "serve C (Req_create i) c = snd (create_run_from_planfile C i c)"
| "serve C (Req_resume r t) c = snd (resume_run C r t c)"
| "serve C (Req_retry r n m t) c = snd (retry_run_node C r n m t c)"
| "serve C (Req_cancel r t) c = snd (cancel_run C r t c)"
| "serve C (Req_approve p by why t) c = snd (approve_plan C p by why t c)"
| "serve C (Req_reject p by why t) c = snd (reject_plan C p by why t c)"
| "serve C Req_job c = snd (run_next_job C c)"

definition start_world :: "nat \<Rightarrow> disk \<Rightarrow> control_world" where
  "start_world clock d =
     \<lparr>cw_run = \<lparr>w_clock = clock, w_plan_states = [], w_events = [], w_artifacts = [], w_calls = []\<rparr>,
      cw_events = [], cw_control = empty_control_db, cw_disk = d, cw_jobs = []\<rparr>"

inductive control_reachable :: "control_host \<Rightarrow> control_world \<Rightarrow> bool" for C where
  start: "control_reachable C (start_world clock d)"
| serve: "control_reachable C c \<Longrightarrow> control_reachable C (serve C q c)"

lemma serve_stores_ok: "stores_ok C c \<Longrightarrow> stores_ok C (serve C q c)"
  using preserves_apply_planfile preserves_create_run preserves_run_actions preserves_decisions
    preserves_run_next_job
  by (cases q) (auto simp: preserves_def)

lemma reachable_stores_ok: "control_reachable C c \<Longrightarrow> stores_ok C c"
proof (induction rule: control_reachable.induct)
  case (start clock d)
  show ?case
    by (simp add: stores_ok_def states_ok_def start_world_def event_db_ok_def control_ok_def empty_control_db_def)
qed (rule serve_stores_ok)

lemma stored_execution:
  assumes "control_ok E db" and "get_run_execution db i = Some r"
  shows "run_execution_ok E r" "rx_run_id r = i"
  using assms by (auto simp: control_ok_def get_run_execution_def list_all_iff dest!: map_of_SomeD)

section \<open>Snapshots of well-formed stores\<close>

lemma snapshot_sound:
  assumes ok: "stores_ok C c" and "run_id \<noteq> []" and "opt_ok (planfile_ok (ch_env C)) given_plan"
  shows "case ctl_snapshot C run_id given_plan c of
       (Inl _, _) \<Rightarrow> False
     | (Inr None, _) \<Rightarrow> given_plan = None \<and> get_run_execution (cw_control c) run_id = None
     | (Inr (Some s), _) \<Rightarrow>
         run_snapshot_ok (ch_env C) s \<and> sn_run_id s = run_id \<and>
         sn_timeline s = run_events_of (cw_events c) run_id"
proof -
  have "sorted (map event_order_key (run_events_of (cw_events c) run_id))"
    using ok event_db_okD [of "ch_env C" "cw_events c" run_id] by (simp add: stores_ok_def run_log_ok_def)
  then have es: "sort_events (run_events_of (cw_events c) run_id) = run_events_of (cw_events c) run_id"
    by (rule sort_events_id)
  let ?es = "run_events_of (cw_events c) run_id"
  let ?run = "stored_run (ctl_sources C c) run_id None given_plan"
  have created: "nonempty (re_plan_id e)" if "List.find (is_type ''run.created'') ?es = Some e" for e
  proof -
    have "e \<in> set ?es" using that by (rule find_SomeD [THEN conjunct1])
    moreover have "run_log_ok (ch_env C) run_id ?es" using ok by (simp add: stores_ok_def event_db_okD)
    ultimately show ?thesis by (auto simp: run_log_ok_def list_all_iff run_event_ok_def)
  qed
  have none: "given_plan = None \<and> get_run_execution (cw_control c) run_id = None"
    if none: "\<not> truthy (snapshot_plan_id ?es ?run (nullish_opt given_plan p))" for p
  proof (rule ccontr)
    assume some: "\<not> (given_plan = None \<and> get_run_execution (cw_control c) run_id = None)"
    have "\<exists>i. nullish_opt (map_option rx_plan_id ?run) (map_option pf_plan_id (nullish_opt given_plan p)) = Some i \<and>
        nonempty i"
    proof (cases given_plan)
      case None
      with some obtain r where r: "get_run_execution (cw_control c) run_id = Some r"
        by (cases "get_run_execution (cw_control c) run_id") auto
      then have "nonempty (rx_plan_id r)"
        using stored_execution(1) [OF _ r] ok by (auto simp: stores_ok_def run_execution_ok_def)
      with None r show ?thesis by (simp add: stored_run_def ctl_sources_def)
    next
      case (Some q)
      then show ?thesis using assms(3) by (simp add: stored_run_def planfile_ok_def)
    qed
    then have "truthy (snapshot_plan_id ?es ?run (nullish_opt given_plan p))"
      using created by (cases "List.find (is_type ''run.created'') ?es") (auto simp: snapshot_plan_id_def)
    with none show False by blast
  qed
  have sources: "ss_events (ctl_sources C c) = cw_events c" by (simp add: ctl_sources_def)
  have "opt_ok (list_all (run_event_ok (ch_env C))) None" by simp
  from snapshot_never_throws [OF stores_sources_ok [OF ok] assms(2) this assms(3)] ok none
  show ?thesis
    unfolding ctl_snapshot_def sources nullish_simps es Let_def
    by (auto split: sum.splits option.splits)
qed


section \<open>The dependents of a node\<close>

definition requires :: "plan_node list \<Rightarrow> (string \<times> string) set" where
  "requires nodes = {(n_id n, d) | n d. n \<in> set nodes \<and> d \<in> set (n_depends_on n)}"

definition dependents_of :: "plan_node list \<Rightarrow> string set \<Rightarrow> string set" where
  "dependents_of nodes S = {j. \<exists>i \<in> S. (j, i) \<in> rtrancl (requires nodes)}"

lemma dependents_pass_Cons:
  "dependents_pass (n # nodes) r =
     dependents_pass nodes
       (if n_id n \<notin> set r \<and> list_ex (\<lambda>d. d \<in> set r) (n_depends_on n) then r @ [n_id n] else r)"
  by (simp add: dependents_pass_def)

lemma dependents_pass_sound:
  assumes "\<forall>n \<in> set nodes. \<forall>d \<in> set (n_depends_on n). d \<in> D \<longrightarrow> n_id n \<in> D" and "set r \<subseteq> D"
  shows "set (dependents_pass nodes r) \<subseteq> D"
  using assms
proof (induction nodes arbitrary: r)
  case Nil
  then show ?case by (simp add: dependents_pass_def)
next
  case (Cons n nodes)
  have "set (if n_id n \<notin> set r \<and> list_ex (\<lambda>d. d \<in> set r) (n_depends_on n) then r @ [n_id n] else r) \<subseteq> D"
    using Cons.prems by (auto simp: list_ex_iff)
  with Cons show ?case unfolding dependents_pass_Cons by simp
qed

lemma dependents_pass_grows: "\<exists>xs. dependents_pass nodes r = r @ xs"
  using dependents_pass_cases by blast

lemma dependents_pass_closed:
  assumes "dependents_pass nodes r = r" and "n \<in> set nodes" and "d \<in> set (n_depends_on n)" and "d \<in> set r"
  shows "n_id n \<in> set r"
  using assms
proof (induction nodes)
  case (Cons m nodes)
  let ?r = "if n_id m \<notin> set r \<and> list_ex (\<lambda>d. d \<in> set r) (n_depends_on m) then r @ [n_id m] else r"
  obtain xs where xs: "dependents_pass nodes ?r = ?r @ xs" using dependents_pass_grows by blast
  with Cons.prems(1) have fix_r: "?r @ xs = r" unfolding dependents_pass_Cons by simp
  then have r: "?r = r" by (auto split: if_splits)
  then have added: "n_id m \<in> set r \<or> \<not> list_ex (\<lambda>d. d \<in> set r) (n_depends_on m)" by (auto split: if_splits)
  from Cons.prems(1) have rest: "dependents_pass nodes r = r" unfolding dependents_pass_Cons r .
  from Cons.prems(2) consider "n = m" | "n \<in> set nodes" by auto
  then show ?case
  proof cases
    case 1
    with added Cons.prems(3,4) show ?thesis by (auto simp: list_ex_iff)
  next
    case 2
    with Cons.IH rest Cons.prems(3,4) show ?thesis by blast
  qed
qed simp

lemma dependents_loop_closed: "dependents_pass nodes (dependents_loop nodes r) = dependents_loop nodes r"
proof (induction nodes r rule: dependents_loop.induct)
  case (1 nodes r)
  show ?case
  proof (cases "dependents_pass nodes r = r")
    case True
    then have "dependents_loop nodes r = r" by (subst dependents_loop.simps) simp
    with True show ?thesis by simp
  next
    case False
    then have "dependents_loop nodes r = dependents_loop nodes (dependents_pass nodes r)"
      by (subst dependents_loop.simps) (simp add: Let_def)
    with "1.IH" [OF HOL.refl False] show ?thesis by simp
  qed
qed

lemma dependents_loop_bounds:
  assumes "\<forall>n \<in> set nodes. \<forall>d \<in> set (n_depends_on n). d \<in> D \<longrightarrow> n_id n \<in> D" and "set r \<subseteq> D"
  shows "set r \<subseteq> set (dependents_loop nodes r) \<and> set (dependents_loop nodes r) \<subseteq> D"
  using assms
proof (induction nodes r rule: dependents_loop.induct)
  case (1 nodes r)
  show ?case
  proof (cases "dependents_pass nodes r = r")
    case True
    then have "dependents_loop nodes r = r" by (subst dependents_loop.simps) simp
    with "1.prems" show ?thesis by simp
  next
    case False
    then have eq: "dependents_loop nodes r = dependents_loop nodes (dependents_pass nodes r)"
      by (subst dependents_loop.simps) (simp add: Let_def)
    have "set r \<subseteq> set (dependents_pass nodes r)" using dependents_pass_grows [of nodes r] by auto
    with "1.IH" [OF HOL.refl False "1.prems"(1) dependents_pass_sound [OF "1.prems"]] eq show ?thesis by auto
  qed
qed

lemma dependents_loop_set: "set (dependents_loop nodes r) = dependents_of nodes (set r)"
proof
  show "set (dependents_loop nodes r) \<subseteq> dependents_of nodes (set r)"
  proof (rule dependents_loop_bounds [THEN conjunct2])
    show "\<forall>n \<in> set nodes. \<forall>d \<in> set (n_depends_on n).
        d \<in> dependents_of nodes (set r) \<longrightarrow> n_id n \<in> dependents_of nodes (set r)"
      by (auto simp: dependents_of_def requires_def intro: converse_rtrancl_into_rtrancl)
    show "set r \<subseteq> dependents_of nodes (set r)" by (auto simp: dependents_of_def)
  qed
  have "j \<in> set (dependents_loop nodes r)" if "(j, i) \<in> rtrancl (requires nodes)" and "i \<in> set r" for i j
    using that
  proof (induction rule: converse_rtrancl_induct)
    case base
    then show ?case using dependents_loop_bounds [of nodes UNIV r] by auto
  next
    case (step j k)
    then show ?case
      using dependents_pass_closed [OF dependents_loop_closed] by (auto simp: requires_def)
  qed
  then show "dependents_of nodes (set r) \<subseteq> set (dependents_loop nodes r)" by (auto simp: dependents_of_def)
qed

section \<open>What the operations leave alone\<close>

lemma keeps_on_run [keeps_intros]: "keeps p m \<Longrightarrow> keeps (\<lambda>c. p (cw_run c)) (on_run m)"
  by (simp add: keeps_def on_run_def case_prod_unfold Let_def)

lemma keeps_ctl_basic [keeps_intros]:
  "keeps cw_disk (on_run m)" "keeps cw_jobs (on_run m)" "keeps cw_events (on_run m)"
  "keeps cw_control (on_run m)"
  "keeps (\<lambda>c. p (cw_run c)) (put_control f)" "keeps cw_disk (put_control f)" "keeps cw_jobs (put_control f)"
  "keeps cw_events (put_control f)"
  "keeps (\<lambda>c. p (cw_run c)) (append_event C e)" "keeps cw_disk (append_event C e)"
  "keeps cw_jobs (append_event C e)" "keeps cw_control (append_event C e)"
  "keeps (\<lambda>c. p (cw_run c)) (start_job j)" "keeps cw_disk (start_job j)" "keeps cw_events (start_job j)"
  "keeps cw_control (start_job j)"
  "keeps q (load_execution i)" "keeps q (load_continuation i)" "keeps q (load_attempts i i2)"
  "keeps q (ctl_snapshot C i pl)"
  by (auto simp: keeps_def on_run_def put_control_def append_event_def start_job_def load_execution_def
      load_continuation_def load_attempts_def ctl_snapshot_def case_prod_unfold Let_def split: option.splits)

text \<open>The parts of the state a request for a cancellation does not touch, as one value.\<close>

definition run_side :: "control_world \<Rightarrow> plan_state_db \<times> (string \<times> json) list \<times> disk \<times> background_job list" where
  "run_side c = (w_plan_states (cw_run c), w_calls (cw_run c), cw_disk c, cw_jobs c)"

lemma keeps_run_side:
  "keeps (\<lambda>c. w_plan_states (cw_run c)) m \<Longrightarrow> keeps (\<lambda>c. w_calls (cw_run c)) m \<Longrightarrow> keeps cw_disk m \<Longrightarrow>
     keeps cw_jobs m \<Longrightarrow> keeps run_side m"
  by (simp add: keeps_def run_side_def)

lemma keeps_side_basic [keeps_intros]:
  "keeps run_side (ctl_now C)" "keeps run_side (given_or_now C t)" "keeps run_side (store_execution C r)"
  "keeps run_side (store_continuation C k)" "keeps run_side (append_new_event C i j s b)"
  "keeps run_side (stored_plan C r)"
  unfolding ctl_now_def given_or_now_def store_execution_def store_continuation_def append_new_event_def
    stored_plan_def
  by (intro keeps_intros keeps_run_side)+

lemma keeps_side_cancellation [keeps_intros]: "keeps run_side (execute_run_cancellation C i)"
  unfolding execute_run_cancellation_def by (intro keeps_intros)

lemma keeps_side_cancel: "keeps run_side (cancel_run C i t)"
  unfolding cancel_run_def hand_over_def action_queued_def Let_def by (intro keeps_intros)

section \<open>Properties\<close>

text \<open>C26: Whatever requests and jobs the control plane has served, in whatever order and however many of
  them threw, its stores are well formed: every plan state, run record, continuation, attempt and
  event fits its schema and stands under its key, and every run's events are in order. So a snapshot
  of any run can be built at any time and never throws: it fits its schema, is about that run and
  shows exactly the events stored for it, and there is none only when no run is recorded and no
  plan is given.\<close>
theorem reachable_snapshots_sound:
  assumes "control_reachable C c" and "run_id \<noteq> []" and "opt_ok (planfile_ok (ch_env C)) given_plan"
  shows "stores_ok C c \<and>
    (case ctl_snapshot C run_id given_plan c of
       (Inl _, _) \<Rightarrow> False
     | (Inr None, _) \<Rightarrow> given_plan = None \<and> get_run_execution (cw_control c) run_id = None
     | (Inr (Some s), _) \<Rightarrow>
         run_snapshot_ok (ch_env C) s \<and> sn_run_id s = run_id \<and>
         sn_timeline s = run_events_of (cw_events c) run_id)"
  using reachable_stores_ok [OF assms(1)] snapshot_sound [OF reachable_stores_ok [OF assms(1)] assms(2,3)]
  by (rule conjI)

text \<open>C15: Retrying a node sets back exactly the nodes whose work rests on it: the node itself becomes
  ready, every node that depends on it, directly or through others, becomes pending, both without
  their errors and with their artifacts only when the retry reuses them; every other node keeps
  its state, and the plan is running again. Resuming makes exactly the yielded and failed nodes
  ready. The search for the dependents always ends, whatever the dependencies look like.\<close>
theorem continuation_resets:
  assumes "rc_kind k \<noteq> Cont_cancel" and "rc_kind k = Cont_retry \<longleftrightarrow> truthy (rc_node_id k)"
  shows "reset_plan_state p st k now =
    st\<lparr>ps_status := PS_running,
       ps_node_states := map (\<lambda>n.
         if rc_kind k = Cont_retry
         then (if (ns_node_id n, the (rc_node_id k)) \<in> rtrancl (requires (pf_nodes p))
               then reset_plan_node_state n
                      (if ns_node_id n = the (rc_node_id k) then NS_ready else NS_pending)
                      (rc_replay_mode k = Some RM_reuse_artifacts)
               else n)
         else (if ns_node_id n \<in> ns_node_id ` {m \<in> set (ps_node_states st).
                     ns_status m = NS_yielded \<or> ns_status m = NS_failed}
               then reset_plan_node_state n NS_ready (rc_replay_mode k = Some RM_reuse_artifacts)
               else n)) (ps_node_states st),
       ps_updated_at := now\<rparr>"
proof (cases "rc_kind k")
  case Cont_retry
  with assms(2) obtain i where i: "rc_node_id k = Some i" "nonempty i" by (cases "rc_node_id k") auto
  have "set (reset_node_ids p st k) = {j. (j, i) \<in> rtrancl (requires (pf_nodes p))}"
    using Cont_retry i
    by (simp add: reset_node_ids_def dependent_node_ids_def dependents_loop_set dependents_of_def)
  then show ?thesis using Cont_retry i by (simp add: reset_plan_state_def)
next
  case Cont_resume
  then have "set (reset_node_ids p st k) =
      ns_node_id ` {m \<in> set (ps_node_states st). ns_status m = NS_yielded \<or> ns_status m = NS_failed}"
    by (auto simp: reset_node_ids_def)
  then show ?thesis using Cont_resume by (simp add: reset_plan_state_def)
qed (use assms in simp)

definition retry_continuation :: run_continuation where
  "retry_continuation =
     queued_continuation ''cont'' ''run'' Cont_retry (Some ''inspect'') (Some RM_refresh_artifacts) sample_stamp"

definition retried_state :: plan_state where
  "retried_state =
     \<lparr>ps_plan_id = ''plan_1'', ps_status = PS_failed, ps_canonical_plan_digest = [],
      ps_node_states = map (\<lambda>i. \<lparr>ns_node_id = i, ns_status = NS_completed, ns_started_at = None,
        ns_completed_at = None, ns_artifacts = [], ns_errors = []\<rparr>) [''frame_goal'', ''inspect'', ''finalize''],
      ps_artifact_refs = [], ps_markdown_projection = None, ps_created_at = sample_stamp,
      ps_updated_at = sample_stamp\<rparr>"

lemma inspect_dependents:
  "(j, ''inspect'') \<in> rtrancl (requires (pf_nodes sample_plan)) \<longleftrightarrow> j = ''inspect'' \<or> j = ''finalize''"
proof -
  have nodes: "pf_nodes sample_plan = sample_nodes" by (simp add: sample_plan_def)
  have pass: "dependents_pass sample_nodes [''inspect''] = [''inspect'', ''finalize'']"
    "dependents_pass sample_nodes [''inspect'', ''finalize''] = [''inspect'', ''finalize'']"
    by (simp_all add: dependents_pass_def sample_nodes_def sample_node_def)
  have "dependents_loop sample_nodes [''inspect''] = [''inspect'', ''finalize'']"
    by (subst dependents_loop.simps, simp add: pass, subst dependents_loop.simps, simp add: pass)
  then have "dependents_of sample_nodes {''inspect''} = {''inspect'', ''finalize''}"
    using dependents_loop_set [of sample_nodes "[''inspect'']"] by simp
  then show ?thesis unfolding nodes by (auto simp: dependents_of_def)
qed

theorem continuation_resets_witness:
  "map ns_status (ps_node_states (reset_plan_state sample_plan retried_state retry_continuation sample_stamp)) =
     [NS_completed, NS_ready, NS_pending]"
proof -
  have k: "rc_kind retry_continuation = Cont_retry" "rc_node_id retry_continuation = Some ''inspect''"
    by (simp_all add: retry_continuation_def queued_continuation_def)
  then have "rc_kind retry_continuation \<noteq> Cont_cancel"
    "rc_kind retry_continuation = Cont_retry \<longleftrightarrow> truthy (rc_node_id retry_continuation)" by simp_all
  from continuation_resets [OF this, of sample_plan retried_state sample_stamp] show ?thesis
    using k by (simp add: inspect_dependents retried_state_def reset_plan_node_state_def)
qed


definition sample_control :: control_host where
  "sample_control =
     \<lparr>ch_host = sample_host, ch_local = sample_local, ch_registry = create_pack_registry,
      ch_hatchet = (\<lambda>_ _. None), ch_model_route = JNull, ch_process_env = (\<lambda>_. None)\<rparr>"

definition sample_run_input :: run_input where
  "sample_run_input =
     \<lparr>in_planfile = Some sample_plan, in_live = Some True, in_output_dir = None, in_run_id = Some ''run_1'',
      in_now = Some sample_stamp\<rparr>"

text \<open>A run is created, the job it queued is carried out, and the run is cancelled.\<close>

definition sample_history :: control_world where
  "sample_history =
     serve sample_control (Req_cancel ''run_1'' None)
       (serve sample_control Req_job (serve sample_control (Req_create sample_run_input) (start_world 0 [])))"

theorem reachable_snapshots_sound_witness:
  "control_reachable sample_control sample_history \<and>
   (\<exists>s. ctl_snapshot sample_control ''run_1'' (Some sample_plan) sample_history = (Inr (Some s), sample_history) \<and>
     sn_run_id s = ''run_1'' \<and> sn_timeline s = run_events_of (cw_events sample_history) ''run_1'')"
proof -
  have reach: "control_reachable sample_control sample_history"
    unfolding sample_history_def by (intro control_reachable.intros)
  have "opt_ok (planfile_ok (ch_env sample_control)) (Some sample_plan)"
    using sample_plan_ok by (simp add: sample_control_def sample_host_def)
  from reachable_snapshots_sound [OF reach _ this, of "''run_1''"] reach show ?thesis
    by (auto simp: ctl_snapshot_def split: sum.splits option.splits)
qed

end
