(* ===== verification/Control_Requests.thy ===== *)
theory Control_Requests
  imports Control_Properties
begin

text \<open>
  What the requests of the control plane do when nothing is wrong with the clock and the stored
  plans: a cancellation is total and touches one run only, a created run is recorded completely and
  no capability code runs for it inside the request.
\<close>

section \<open>Single steps\<close>

text \<open>\<open>Date.prototype.toISOString\<close> gives what the schemas accept as a date.\<close>

definition clock_ok :: "control_host \<Rightarrow> bool" where
  "clock_ok C \<longleftrightarrow> (\<forall>t. datetime_ok (ch_env C) (h_iso (ch_host C) t))"

definition with_execution :: "run_execution \<Rightarrow> control_world \<Rightarrow> control_world" where
  "with_execution r c =
     c\<lparr>cw_control := (cw_control c)\<lparr>cb_executions := AList.update (rx_run_id r) r (cb_executions (cw_control c))\<rparr>\<rparr>"

definition with_continuation :: "run_continuation \<Rightarrow> control_world \<Rightarrow> control_world" where
  "with_continuation k c =
     c\<lparr>cw_control := (cw_control c)\<lparr>cb_continuations :=
       AList.update (rc_continuation_id k) k (cb_continuations (cw_control c))\<rparr>\<rparr>"

lemma store_execution_run:
  "run_execution_ok (ch_env C) r \<Longrightarrow> store_execution C r c = (Inr r, with_execution r c)"
  by (simp add: store_execution_def put_control_def record_run_execution_def map_put_def ethen_run
      with_execution_def)

lemma store_continuation_run:
  "run_continuation_ok (ch_env C) k \<Longrightarrow> store_continuation C k c = (Inr (), with_continuation k c)"
  by (simp add: store_continuation_def put_control_def record_run_continuation_def map_put_def
      with_continuation_def)

text \<open>What the control store and the log of a run say; the rest of the state does not matter to a
  cancellation.\<close>

lemma with_execution_simps [simp]:
  "get_run_execution (cw_control (with_execution r c)) i =
     (if i = rx_run_id r then Some r else get_run_execution (cw_control c) i)"
  "get_run_continuation (cw_control (with_execution r c)) j = get_run_continuation (cw_control c) j"
  "cw_events (with_execution r c) = cw_events c" "cw_jobs (with_execution r c) = cw_jobs c"
  "cw_run (with_execution r c) = cw_run c" "cw_disk (with_execution r c) = cw_disk c"
  by (auto simp: with_execution_def get_run_execution_def get_run_continuation_def update_conv')

lemma with_continuation_simps [simp]:
  "get_run_continuation (cw_control (with_continuation k c)) j =
     (if j = rc_continuation_id k then Some k else get_run_continuation (cw_control c) j)"
  "get_run_execution (cw_control (with_continuation k c)) i = get_run_execution (cw_control c) i"
  "cw_events (with_continuation k c) = cw_events c" "cw_jobs (with_continuation k c) = cw_jobs c"
  "cw_run (with_continuation k c) = cw_run c" "cw_disk (with_continuation k c) = cw_disk c"
  by (auto simp: with_continuation_def get_run_execution_def get_run_continuation_def update_conv')

lemma ctl_now_run:
  assumes "clock_ok C"
  shows "\<exists>now w. ctl_now C c = (Inr now, c\<lparr>cw_run := w\<rparr>) \<and> datetime_ok (ch_env C) now"
  using assms
  by (auto simp: ctl_now_def on_run_def now_iso_run clock_ok_def Let_def)

lemma given_or_now_run:
  assumes "clock_ok C" and "opt_ok (datetime_ok (ch_env C)) t"
  shows "\<exists>now w. given_or_now C t c = (Inr now, c\<lparr>cw_run := w\<rparr>) \<and> datetime_ok (ch_env C) now"
proof (cases t)
  case None
  then show ?thesis using ctl_now_run [OF assms(1)] by (simp add: given_or_now_def)
next
  case (Some now)
  with assms(2) show ?thesis
    by (intro exI [of _ now] exI [of _ "cw_run c"]) (simp add: given_or_now_def)
qed

text \<open>The log of one run grows, the others stay.\<close>

definition log_grows :: "string \<Rightarrow> event_db \<Rightarrow> event_db \<Rightarrow> bool" where
  "log_grows run_id db db' \<longleftrightarrow>
     set (run_events_of db run_id) \<subseteq> set (run_events_of db' run_id) \<and>
     (\<forall>i. i \<noteq> run_id \<longrightarrow> run_events_of db' i = run_events_of db i)"

lemma log_grows_refl: "log_grows i db db"
  by (simp add: log_grows_def)

lemma log_grows_trans: "log_grows i a b \<Longrightarrow> log_grows i b d \<Longrightarrow> log_grows i a d"
  by (auto simp: log_grows_def)

text \<open>From a log to a later one: the event that a run, plan, time and body determine is now in the run's log,
  or an event with its identifier, a hash of 32 bits, was there before.\<close>

definition logged ::
    "control_host \<Rightarrow> string \<Rightarrow> string \<Rightarrow> string \<Rightarrow> event_body \<Rightarrow> event_db \<Rightarrow> event_db \<Rightarrow> bool" where
  "logged C run_id plan_id now b db db' \<longleftrightarrow>
     (\<exists>e. create_run_event (ch_env C) run_id plan_id now None b = Some e \<and>
        (e \<in> set (run_events_of db' run_id) \<or> re_event_id e \<in> re_event_id ` set (run_events_of db run_id)))"

lemma logged_grows: "logged C i p now b db db' \<Longrightarrow> log_grows i db' db'' \<Longrightarrow> logged C i p now b db db''"
  by (auto simp: logged_def log_grows_def)

lemma append_new_event_run:
  assumes "run_id \<noteq> []" and "plan_id \<noteq> []" and "datetime_ok (ch_env C) now" and "event_body_ok (ch_env C) b"
  shows "\<exists>db. append_new_event C run_id plan_id now b c = (Inr (), c\<lparr>cw_events := db\<rparr>) \<and>
    log_grows run_id (cw_events c) db \<and> logged C run_id plan_id now b (cw_events c) db"
proof -
  obtain e where e: "create_run_event (ch_env C) run_id plan_id now None b = Some e"
    using assms by (simp add: create_run_event_def Let_def run_event_ok_def)
  note facts = created_event [OF e]
  obtain db env where a: "append_run_event (ch_env C) (cw_events c) e = Some (db, env)"
    using facts by (auto simp: append_run_event_def Let_def)
  have id: "re_run_id e = run_id" "re_body e = b" using facts by simp_all
  have "log_grows run_id (cw_events c) db"
    using append_set [OF a] append_other [OF a] id by (auto simp: log_grows_def)
  moreover have "e \<in> set (run_events_of db run_id) \<or> re_event_id e \<in> re_event_id ` set (run_events_of (cw_events c) run_id)"
    using append_set [OF a] id by auto
  then have "logged C run_id plan_id now b (cw_events c) db" using e unfolding logged_def by blast
  moreover have "append_new_event C run_id plan_id now b c = (Inr (), c\<lparr>cw_events := db\<rparr>)"
    using e a by (simp add: append_new_event_def append_event_def ebind_run)
  ultimately show ?thesis by blast
qed

lemma snapshot_returns:
  assumes "stores_ok C c" and "run_id \<noteq> []" and "opt_ok (planfile_ok (ch_env C)) p"
  shows "\<exists>s. ctl_snapshot C run_id p c = (Inr s, c)"
  using snapshot_sound [OF assms] by (auto simp: ctl_snapshot_def split: sum.splits)

section \<open>Cancelling\<close>

text \<open>The stored plan of a run can be read.\<close>

definition plan_readable :: "control_host \<Rightarrow> run_execution \<Rightarrow> bool" where
  "plan_readable C r \<longleftrightarrow> (case rx_planfile r of None \<Rightarrow> False | Some p \<Rightarrow> planfile_ok (ch_env C) p)"

lemma stored_plan_run:
  "plan_readable C r \<Longrightarrow> \<exists>p. stored_plan C r c = (Inr p, c) \<and> planfile_ok (ch_env C) p"
  by (auto simp: plan_readable_def stored_plan_def split: option.splits)

lemma cancellation_run:
  assumes ok: "stores_ok C c" and clock: "clock_ok C"
    and k: "get_run_continuation (cw_control c) i = Some k" and r: "get_run_execution (cw_control c) (rc_run_id k) = Some r"
    and plan: "plan_readable C r"
  shows "\<exists>s c' t1 t2. execute_run_cancellation C i c = (Inr s, c') \<and> stores_ok C c' \<and>
    cw_control c' = cw_control (with_continuation (k\<lparr>rc_status := CS_completed, rc_updated_at := t2\<rparr>)
      (with_execution (r\<lparr>rx_status := RS_cancelled, rx_updated_at := t1\<rparr>) c)) \<and>
    log_grows (rc_run_id k) (cw_events c) (cw_events c')"
proof -
  have cok: "control_ok (ch_env C) (cw_control c)" using ok by (simp add: stores_ok_def)
  have r_ok: "run_execution_ok (ch_env C) r" "rx_run_id r = rc_run_id k"
    using stored_execution [OF cok r] by simp_all
  have k_ok: "run_continuation_ok (ch_env C) k"
    using cok k by (auto simp: control_ok_def get_run_continuation_def list_all_iff dest!: map_of_SomeD)
  obtain now w where now: "ctl_now C c = (Inr now, c\<lparr>cw_run := w\<rparr>)" "datetime_ok (ch_env C) now"
    using ctl_now_run [OF clock] by blast
  let ?r = "r\<lparr>rx_status := RS_cancelled, rx_updated_at := now\<rparr>"
  let ?k = "k\<lparr>rc_status := CS_completed, rc_updated_at := now\<rparr>"
  have r': "run_execution_ok (ch_env C) ?r" using r_ok(1) now(2) by (simp add: run_execution_ok_def)
  have k': "run_continuation_ok (ch_env C) ?k" using k_ok now(2) by (simp add: run_continuation_ok_def)
  let ?c = "with_continuation ?k (with_execution ?r (c\<lparr>cw_run := w\<rparr>))"
  have ids: "nonempty (rx_run_id r)" "nonempty (rx_plan_id r)" using r_ok(1) by (auto simp: run_execution_ok_def)
  obtain db where ev: "append_new_event C (rx_run_id r) (rx_plan_id r) now (Run_cancelled (Some ''Run cancelled.'')) ?c =
      (Inr (), ?c\<lparr>cw_events := db\<rparr>)" "log_grows (rx_run_id r) (cw_events ?c) db"
    using append_new_event_run [OF ids now(2), of "Run_cancelled (Some ''Run cancelled.'')" ?c] by auto
  obtain p where p: "stored_plan C r (?c\<lparr>cw_events := db\<rparr>) = (Inr p, ?c\<lparr>cw_events := db\<rparr>)" "planfile_ok (ch_env C) p"
    using stored_plan_run [OF plan] by blast
  let ?f = "?c\<lparr>cw_events := db\<rparr>"
  have "execute_run_cancellation C i c = ctl_snapshot C (rx_run_id r) (Some p) ?f"
    using k r now(1) store_execution_run [OF r'] store_continuation_run [OF k'] ev(1) p(1)
    by (simp add: execute_run_cancellation_def load_continuation_def load_execution_def ebind_run ethen_run)
  moreover have "stores_ok C (snd (execute_run_cancellation C i c))"
    using preserves_execute_run_cancellation ok by (auto simp: preserves_def)
  ultimately have f: "stores_ok C ?f" by (simp add: ctl_snapshot_def)
  obtain s where "ctl_snapshot C (rx_run_id r) (Some p) ?f = (Inr s, ?f)"
    using snapshot_returns [OF f ids(1), of "Some p"] p(2) by auto
  moreover have "cw_control ?f = cw_control (with_continuation ?k (with_execution ?r c))"
    by (simp add: with_continuation_def with_execution_def)
  ultimately show ?thesis
    using \<open>execute_run_cancellation C i c = ctl_snapshot C (rx_run_id r) (Some p) ?f\<close> f ev(2) r_ok(2)
    by (intro exI [of _ s] exI [of _ ?f] exI [of _ now]) simp
qed

text \<open>What a cancellation leaves behind.\<close>

definition cancelled_in :: "string \<Rightarrow> control_world \<Rightarrow> bool" where
  "cancelled_in run_id c \<longleftrightarrow>
     map_option rx_status (get_run_execution (cw_control c) run_id) = Some RS_cancelled"

lemma hand_over_cancel:
  assumes ok: "stores_ok C c" and clock: "clock_ok C"
    and k: "get_run_continuation (cw_control c) (rc_continuation_id k) = Some k"
    and r: "get_run_execution (cw_control c) (rc_run_id k) = Some r" and cancelled: "rx_status r = RS_cancelled"
    and plan: "plan_readable C r"
  shows "\<exists>c'. hand_over C w k (ebind (execute_run_cancellation C (rc_continuation_id k)) (\<lambda>_. ereturn ())) c
      = (Inr (ch_hatchet C w (rc_continuation_id k)), c') \<and> stores_ok C c' \<and>
    cancelled_in (rc_run_id k) c' \<and>
    (\<forall>i. i \<noteq> rc_run_id k \<longrightarrow> get_run_execution (cw_control c') i = get_run_execution (cw_control c) i) \<and>
    map_option rc_status (get_run_continuation (cw_control c') (rc_continuation_id k)) =
      Some (if truthy (ch_hatchet C w (rc_continuation_id k)) then rc_status k else CS_completed) \<and>
    log_grows (rc_run_id k) (cw_events c) (cw_events c')"
proof (cases "truthy (ch_hatchet C w (rc_continuation_id k))")
  case True
  obtain now w' where now: "ctl_now C c = (Inr now, c\<lparr>cw_run := w'\<rparr>)" "datetime_ok (ch_env C) now"
    using ctl_now_run [OF clock] by blast
  let ?k = "k\<lparr>rc_hatchet_run_id := ch_hatchet C w (rc_continuation_id k), rc_updated_at := now\<rparr>"
  let ?c = "with_continuation ?k (c\<lparr>cw_run := w'\<rparr>)"
  have cok: "control_ok (ch_env C) (cw_control c)" using ok by (simp add: stores_ok_def)
  then have "run_continuation_ok (ch_env C) k"
    using k by (auto simp: control_ok_def get_run_continuation_def list_all_iff dest!: map_of_SomeD)
  moreover have "opt_ok nonempty (ch_hatchet C w (rc_continuation_id k))"
    using True by (cases "ch_hatchet C w (rc_continuation_id k)") simp_all
  ultimately have k': "run_continuation_ok (ch_env C) ?k" using now(2) by (simp add: run_continuation_ok_def)
  have run: "hand_over C w k f c = (Inr (ch_hatchet C w (rc_continuation_id k)), ?c)" for f
    using True by (simp add: hand_over_def Let_def ebind_run ethen_run now(1) store_continuation_run [OF k'])
  have "stores_ok C (snd (hand_over C w k (ereturn ()) c))"
    using preserves_hand_over [OF preserves_ereturn] ok by (auto simp: preserves_def)
  then have "stores_ok C ?c" using run by simp
  moreover have "cancelled_in (rc_run_id k) ?c"
    using r cancelled by (simp add: cancelled_in_def)
  ultimately show ?thesis using run True by (simp add: log_grows_refl)
next
  case False
  obtain s c' t1 t2 where e: "execute_run_cancellation C (rc_continuation_id k) c = (Inr s, c')" "stores_ok C c'"
      "cw_control c' = cw_control (with_continuation (k\<lparr>rc_status := CS_completed, rc_updated_at := t2\<rparr>)
        (with_execution (r\<lparr>rx_status := RS_cancelled, rx_updated_at := t1\<rparr>) c))"
      "log_grows (rc_run_id k) (cw_events c) (cw_events c')"
    using cancellation_run [OF ok clock k r plan] by blast
  have id: "rx_run_id r = rc_run_id k"
    using stored_execution(2) [OF _ r] ok unfolding stores_ok_def by blast
  have "hand_over C w k (ebind (execute_run_cancellation C (rc_continuation_id k)) (\<lambda>_. ereturn ())) c =
      (Inr (ch_hatchet C w (rc_continuation_id k)), c')"
    using False e(1) by (simp add: hand_over_def Let_def ebind_run ethen_run)
  then show ?thesis using e(2-4) id False by (simp add: cancelled_in_def)
qed

lemma keeps_step: "keeps p m \<Longrightarrow> m s = (x, s') \<Longrightarrow> p s' = p s"
  by (auto simp: keeps_def dest: spec [of _ s])

text \<open>C14: A request to cancel a recorded run whose stored plan can be read always succeeds, whatever the
  run was doing and whether or not it had ended: the run is recorded as cancelled, the continuation is
  recorded as done (or queued, when Hatchet takes it), no event of any run is lost, and no other run, plan
  state, file or job is touched. The log of the run then holds the cancellation event of this run, its plan
  and the time of the request, unless an event with the same identifier was in the log before.\<close>
theorem cancel_run_cancels:
  assumes "control_reachable C c" and clock: "clock_ok C" and t: "opt_ok (datetime_ok (ch_env C)) t"
    and r: "get_run_execution (cw_control c) run_id = Some r" and plan: "plan_readable C r"
  shows "\<exists>now c0 a c' k. given_or_now C t c = (Inr now, c0) \<and> cancel_run C run_id t c = (Inr a, c') \<and> ax_run_id a = run_id \<and> ax_status a = ''queued'' \<and>
    ax_continuation_id a = Some k \<and>
    map_option rc_status (get_run_continuation (cw_control c') k) =
      Some (if truthy (ch_hatchet C ''plan-run-cancel'' k) then CS_queued else CS_completed) \<and>
    cancelled_in run_id c' \<and>
    logged C run_id (rx_plan_id r) now (Run_cancelled (Some ''Cancellation requested.'')) (cw_events c) (cw_events c') \<and>
    log_grows run_id (cw_events c) (cw_events c') \<and> run_side c' = run_side c \<and>
    (\<forall>i. i \<noteq> run_id \<longrightarrow> get_run_execution (cw_control c') i = get_run_execution (cw_control c) i)"
proof -
  have ok: "stores_ok C c" using assms(1) by (rule reachable_stores_ok)
  obtain now w where now: "given_or_now C t c = (Inr now, c\<lparr>cw_run := w\<rparr>)" "datetime_ok (ch_env C) now"
    using given_or_now_run [OF clock t] by blast
  let ?i = "continuation_id_for (ch_env C)
    [(''run_id'', JStr run_id), (''kind'', JStr ''cancel''), (''now'', JStr now)]"
  define k where "k = queued_continuation ?i run_id Cont_cancel None None now"
  have k_sel: "rc_continuation_id k = ?i" "rc_run_id k = run_id" "rc_status k = CS_queued"
    by (simp_all add: k_def queued_continuation_def)
  have r_ok: "run_execution_ok (ch_env C) r" "rx_run_id r = run_id"
    using stored_execution [OF _ r] ok unfolding stores_ok_def by blast+
  then have ids: "nonempty run_id" "nonempty (rx_plan_id r)" by (auto simp: run_execution_ok_def)
  have i: "nonempty ?i" by (simp add: continuation_id_for_def)
  let ?r = "r\<lparr>rx_status := RS_cancelled, rx_completed_at := Some now, rx_last_continuation_id := Some ?i,
    rx_updated_at := now\<rparr>"
  have r': "run_execution_ok (ch_env C) ?r" using r_ok(1) now(2) i by (simp add: run_execution_ok_def)
  have k': "run_continuation_ok (ch_env C) k"
    using now(2) i ids by (simp add: k_def queued_continuation_def run_continuation_ok_def)
  define c1 where "c1 = with_continuation k (with_execution ?r (c\<lparr>cw_run := w\<rparr>))"
  have c1: "get_run_execution (cw_control c1) run_id = Some ?r" "get_run_continuation (cw_control c1) ?i = Some k"
    "cw_events c1 = cw_events c"
    "\<forall>i. i \<noteq> run_id \<longrightarrow> get_run_execution (cw_control c1) i = get_run_execution (cw_control c) i"
    using r_ok(2) k_sel(1) by (simp_all add: c1_def)
  have "stores_ok C (c\<lparr>cw_run := w\<rparr>)" using preservesD [OF preserves_run_stores(2) ok now(1)] .
  from preservesD [OF preserves_store_execution this store_execution_run [OF r']]
  have "stores_ok C (with_execution ?r (c\<lparr>cw_run := w\<rparr>))" .
  from preservesD [OF preserves_store_records(1) this store_continuation_run [OF k']]
  have "stores_ok C c1" by (simp add: c1_def)
  moreover obtain db where ev: "append_new_event C run_id (rx_plan_id r) now
      (Run_cancelled (Some ''Cancellation requested.'')) c1 = (Inr (), c1\<lparr>cw_events := db\<rparr>)"
      "log_grows run_id (cw_events c1) db" "logged C run_id (rx_plan_id r) now (Run_cancelled (Some ''Cancellation requested.'')) (cw_events c1) db"
    using append_new_event_run [OF ids now(2), of "Run_cancelled (Some ''Cancellation requested.'')" c1] by auto
  ultimately have ok2: "stores_ok C (c1\<lparr>cw_events := db\<rparr>)"
    using preservesD [OF preserves_append_new_event] by blast
  have "plan_readable C ?r" using plan by (simp add: plan_readable_def)
  with hand_over_cancel [OF ok2 clock, of k ?r "''plan-run-cancel''"] c1 k_sel
  obtain c' where h: "hand_over C ''plan-run-cancel'' k
        (ebind (execute_run_cancellation C ?i) (\<lambda>_. ereturn ())) (c1\<lparr>cw_events := db\<rparr>) =
      (Inr (ch_hatchet C ''plan-run-cancel'' ?i), c')"
    and c': "stores_ok C c'" "cancelled_in run_id c'"
      "\<forall>i. i \<noteq> run_id \<longrightarrow> get_run_execution (cw_control c') i = get_run_execution (cw_control c) i"
      "map_option rc_status (get_run_continuation (cw_control c') ?i) =
        Some (if truthy (ch_hatchet C ''plan-run-cancel'' ?i) then CS_queued else CS_completed)"
      "log_grows run_id db (cw_events c')" by auto
  obtain s where s: "ctl_snapshot C run_id None c' = (Inr s, c')"
    using snapshot_returns [OF c'(1), of run_id None] ids by auto
  let ?a = "\<lparr>ax_run_id = run_id, ax_status = ''queued'', ax_continuation_id = keep_truthy (Some ?i),
    ax_hatchet_run_id = keep_truthy (ch_hatchet C ''plan-run-cancel'' ?i), ax_snapshot = s,
    ax_message = ''Run cancellation requested.''\<rparr>"
  have run: "cancel_run C run_id t c = (Inr ?a, c')"
    using h [unfolded k_def] ev(1) [unfolded c1_def k_def]
    by (simp add: cancel_run_def Let_def ebind_run ethen_run now(1) load_execution_def r
        store_execution_run [OF r'] store_continuation_run [OF k' [unfolded k_def]]
        action_queued_def s c1_def k_def)
  have "log_grows run_id (cw_events c) (cw_events c')"
    using log_grows_trans [OF ev(2) c'(5)] c1(3) by simp
  moreover have "logged C run_id (rx_plan_id r) now (Run_cancelled (Some ''Cancellation requested.'')) (cw_events c) (cw_events c')"
    using logged_grows [OF ev(3) c'(5)] c1(3) by simp
  moreover have "run_side c' = run_side c" using keeps_step [OF keeps_side_cancel run] .
  moreover have "keep_truthy (Some ?i) = Some ?i" using i by simp
  ultimately show ?thesis using run c'(2-4) now(1)
    by (intro exI [of _ now] exI [of _ "c\<lparr>cw_run := w\<rparr>"] exI [of _ ?a] exI [of _ c'] exI [of _ ?i]) simp
qed

section \<open>Creating\<close>

text \<open>The plan a request carries, as a value.\<close>

definition input_plan :: "control_host \<Rightarrow> run_input \<Rightarrow> string \<Rightarrow> planfile option" where
  "input_plan C i now =
     Option.bind (Option.bind (in_planfile i) (planfile_parse (ch_env C))) (\<lambda>parsed.
     Option.bind (parsed_with_digest (ch_env C) (parsed\<lparr>pf_status := PS_validated, pf_updated_at := now\<rparr>)) (\<lambda>base.
       if in_live i = Some True then live_execution_plan (ch_env C) base now else Some base))"

definition input_snapshot :: "control_host \<Rightarrow> run_input \<Rightarrow> string \<Rightarrow> planfile \<Rightarrow> capability_snapshot option" where
  "input_snapshot C i now p =
     (if in_live i = Some True
      then capability_snapshot_for_task C (concat (map n_allowed_capability_refs (pf_nodes p)))
             [''research:read'', ''project:read''] Risk_read now
      else capability_snapshot_for_task C [] [] Risk_read now)"

text \<open>The plan, when it can be read and is valid over the capabilities it may use.\<close>

definition accepted_plan :: "control_host \<Rightarrow> run_input \<Rightarrow> string \<Rightarrow> planfile option" where
  "accepted_plan C i now =
     Option.bind (input_plan C i now) (\<lambda>p.
     Option.bind (input_snapshot C i now p) (\<lambda>sn.
       if vl_ok (validate_planfile (ch_env C) (Some sn) p) then Some p else None))"

definition input_run_id :: "control_host \<Rightarrow> run_input \<Rightarrow> string \<Rightarrow> planfile \<Rightarrow> string" where
  "input_run_id C i now p = nullish (in_run_id i) (run_id_for_plan (ch_env C) p now)"

lemma plan_of_input_run: "plan_of_input C i now = of_option Zod_error (input_plan C i now)"
  by (rule ext)
    (auto simp: plan_of_input_def input_plan_def of_option_def ebind_run simp del: Option.bind_assoc
      split: option.splits)

lemma parsed_with_digestD:
  assumes "parsed_with_digest E p = Some q"
  shows "planfile_ok E q" "\<exists>d. q = p\<lparr>pf_canonical_plan_digest := Some d\<rparr> \<and> is_hex64 d"
    "parsed_with_digest E q = Some q"
proof -
  have w: "with_canonical_plan_digest E p = Some q"
    using assms by (auto simp: parsed_with_digest_def split: bind_splits)
  note d = with_digest_SomeD [OF w]
  then show ok: "planfile_ok E q" by blast
  from d have "q = p\<lparr>pf_canonical_plan_digest := Some (stable_hash E (canonical_form p))\<rparr>" by blast
  moreover from this ok have "is_hex64 (stable_hash E (canonical_form p))" by (simp add: planfile_ok_def)
  ultimately show "\<exists>d. q = p\<lparr>pf_canonical_plan_digest := Some d\<rparr> \<and> is_hex64 d" by blast
  show "parsed_with_digest E q = Some q"
    using ok with_digest_idem [OF w] by (simp add: parsed_with_digest_def)
qed

lemma input_planD:
  assumes "input_plan C i now = Some p"
  shows "planfile_ok (ch_env C) p" "\<exists>d. pf_canonical_plan_digest p = Some d \<and> is_hex64 d"
    "pf_status p = PS_validated" "pf_updated_at p = now"
    "in_live i \<noteq> Some True \<Longrightarrow> in_live j \<noteq> Some True \<Longrightarrow> in_planfile j = Some p \<Longrightarrow> input_plan C j now = Some p"
proof -
  obtain q b where b: "parsed_with_digest (ch_env C) (q\<lparr>pf_status := PS_validated, pf_updated_at := now\<rparr>) = Some b"
    and p: "p = b \<and> in_live i \<noteq> Some True \<or> live_execution_plan (ch_env C) b now = Some p \<and> in_live i = Some True"
    using assms by (auto simp: input_plan_def split: bind_splits if_splits)
  from p have "\<exists>s. parsed_with_digest (ch_env C) s = Some p \<and> pf_status s = PS_validated \<and> pf_updated_at s = now"
    using b unfolding live_execution_plan_def by fastforce
  then obtain s where s: "parsed_with_digest (ch_env C) s = Some p" "pf_status s = PS_validated" "pf_updated_at s = now"
    by blast
  note f = parsed_with_digestD [OF s(1)]
  show ok: "planfile_ok (ch_env C) p" by (rule f(1))
  show "\<exists>d. pf_canonical_plan_digest p = Some d \<and> is_hex64 d" "pf_status p = PS_validated" "pf_updated_at p = now"
    using f(2) s by auto
  then have "p\<lparr>pf_status := PS_validated, pf_updated_at := now\<rparr> = p" by simp
  then show "in_live j \<noteq> Some True \<Longrightarrow> in_planfile j = Some p \<Longrightarrow> input_plan C j now = Some p"
    using ok f(3) by (simp add: input_plan_def)
qed

lemma initial_state_run:
  assumes "planfile_ok (ch_env C) p" and "pf_canonical_plan_digest p = Some d" and "is_hex64 d"
    and "datetime_ok (ch_env C) now"
  shows "\<exists>st. initial_state_for C p now c = (Inr st, c) \<and> plan_state_ok (ch_env C) st \<and>
    ps_plan_id st = pf_plan_id p \<and> ps_status st = PS_pending \<and>
    map (\<lambda>n. (ns_node_id n, ns_status n)) (ps_node_states st) =
      map (\<lambda>n. (n_id n, if n_depends_on n = [] then NS_ready else NS_pending)) (pf_nodes p)"
  using assms
  by (simp add: initial_state_for_def create_initial_plan_state_def Let_def plan_state_ok_def node_state_ok_def
      list_all_iff planfile_ok_def plan_node_ok_def of_option_def case_prod_unfold comp_def)

definition with_state :: "plan_state \<Rightarrow> control_world \<Rightarrow> control_world" where
  "with_state s c = c\<lparr>cw_run := (cw_run c)\<lparr>w_plan_states :=
     AList.update (ps_plan_id s) s (w_plan_states (cw_run c))\<rparr>\<rparr>"

lemma store_state_run: "plan_state_ok (ch_env C) s \<Longrightarrow> store_state C s c = (Inr s, with_state s c)"
  by (simp add: store_state_def on_run_def store_plan_state_def record_plan_state_def map_put_def with_state_def)

lemma with_state_simps [simp]:
  "w_calls (cw_run (with_state s c)) = w_calls (cw_run c)" "cw_disk (with_state s c) = cw_disk c"
  "cw_jobs (with_state s c) = cw_jobs c" "cw_events (with_state s c) = cw_events c"
  "cw_control (with_state s c) = cw_control c"
  "get_plan_state (w_plan_states (cw_run (with_state s c))) i =
     (if i = ps_plan_id s then Some s else get_plan_state (w_plan_states (cw_run c)) i)"
  by (auto simp: with_state_def get_plan_state_def update_conv')

lemma record_canonical_run_run:
  assumes "planfile_ok (ch_env C) p" and "pf_canonical_plan_digest p = Some d" and "is_hex64 d"
    and "datetime_ok (ch_env C) now" and "run_id \<noteq> []"
  shows "\<exists>r. record_canonical_run C run_id p st rt dir now c = (Inr r, with_execution r c) \<and>
    run_execution_ok (ch_env C) r \<and> rx_run_id r = run_id \<and> rx_plan_id r = pf_plan_id p \<and>
    rx_planfile r = Some p \<and> rx_status r = st"
proof -
  define r where "r = \<lparr>rx_run_id = run_id, rx_plan_id = pf_plan_id p,
        rx_plan_digest = nullish (pf_canonical_plan_digest p) (stable_hash (ch_env C) (planfile_json p)),
        rx_plan_title = Some (gf_interpreted_goal (pf_goal_frame p)), rx_runtime = rt,
        rx_profile_name = None, rx_status = st, rx_planfile = Some p, rx_hatchet_run_id = None,
        rx_output_dir = keep_truthy dir, rx_last_continuation_id = None, rx_created_at = now,
        rx_updated_at = now, rx_started_at = None, rx_completed_at = None, rx_active_node_id = None,
        rx_artifact_refs = [], rx_approval_refs = [], rx_model_call_refs = [], rx_error_refs = []\<rparr>"
  have "nonempty d" using assms(3) by (auto simp: is_hex64_def)
  moreover have "opt_ok nonempty (keep_truthy dir)" by (cases dir) (auto simp: keep_truthy_def)
  ultimately have "run_execution_ok (ch_env C) r"
    using assms by (simp add: r_def run_execution_ok_def planfile_ok_def goal_frame_ok_def)
  then show ?thesis
    by (intro exI [of _ r]) (simp add: record_canonical_run_def store_execution_run r_def [symmetric], simp add: r_def)
qed

text \<open>What a created run leaves behind, from the state \<open>c\<close> before the request to \<open>c'\<close> after it: its
  record, its pending plan state and its first event; a live run is handed to Hatchet or queued.\<close>

definition started_by_hatchet :: "control_host \<Rightarrow> bool \<Rightarrow> string \<Rightarrow> bool" where
  "started_by_hatchet C live run_id \<longleftrightarrow> live \<and> truthy (ch_hatchet C ''plan-run'' run_id)"

definition run_recorded ::
    "control_host \<Rightarrow> string \<Rightarrow> bool \<Rightarrow> planfile \<Rightarrow> string \<Rightarrow> plan_state \<Rightarrow> control_world \<Rightarrow> control_world \<Rightarrow> bool" where
  "run_recorded C now live p run_id st c c' \<longleftrightarrow>
     (\<exists>r. get_run_execution (cw_control c') run_id = Some r \<and> rx_planfile r = Some p \<and>
        rx_status r = (if started_by_hatchet C live run_id then RS_running else RS_queued)) \<and>
     get_plan_state (w_plan_states (cw_run c')) (pf_plan_id p) = Some st \<and> ps_status st = PS_pending \<and>
     map (\<lambda>n. (ns_node_id n, ns_status n)) (ps_node_states st) =
       map (\<lambda>n. (n_id n, if n_depends_on n = [] then NS_ready else NS_pending)) (pf_nodes p) \<and>
     logged C run_id (pf_plan_id p) now Run_created (cw_events c) (cw_events c') \<and> log_grows run_id (cw_events c) (cw_events c') \<and>
     w_calls (cw_run c') = w_calls (cw_run c) \<and> cw_disk c' = cw_disk c \<and>
     cw_jobs c' = cw_jobs c @
       (if live \<and> \<not> started_by_hatchet C live run_id then [Job_run run_id] else []) \<and>
     (\<forall>i. i \<noteq> run_id \<longrightarrow> get_run_execution (cw_control c') i = get_run_execution (cw_control c) i) \<and>
     (\<forall>i. i \<noteq> pf_plan_id p \<longrightarrow>
        get_plan_state (w_plan_states (cw_run c')) i = get_plan_state (w_plan_states (cw_run c)) i)"

definition ticked :: "control_world \<Rightarrow> control_world" where
  "ticked c = c\<lparr>cw_run := (cw_run c)\<lparr>w_clock := Suc (w_clock (cw_run c))\<rparr>\<rparr>"

definition clock_reading :: "control_host \<Rightarrow> control_world \<Rightarrow> string" where
  "clock_reading C c = h_iso (ch_host C) (h_ms (ch_host C) (w_clock (cw_run c)))"

lemma ctl_now_ticked: "ctl_now C c = (Inr (clock_reading C c), ticked c)"
  by (simp add: ctl_now_def on_run_def now_iso_run ticked_def clock_reading_def)

lemma ticked_simps [simp]:
  "w_calls (cw_run (ticked c)) = w_calls (cw_run c)" "cw_disk (ticked c) = cw_disk c"
  "w_plan_states (cw_run (ticked c)) = w_plan_states (cw_run c)"
  "cw_jobs (ticked c) = cw_jobs c" "cw_events (ticked c) = cw_events c" "cw_control (ticked c) = cw_control c"
  by (simp_all add: ticked_def)

lemma prepared_run:
  assumes p: "planfile_ok (ch_env C) p" "pf_canonical_plan_digest p = Some d" "is_hex64 d"
    and now: "datetime_ok (ch_env C) now" and run_id: "run_id \<noteq> []" and clock: "clock_ok C"
    and sn: "capability_snapshot_for_task C (concat (map n_allowed_capability_refs (pf_nodes p)))
             [''research:read'', ''project:read''] Risk_read now = Some sn"
    and valid: "vl_ok (validate_planfile (ch_env C) (Some sn) p)"
  shows "\<exists>st c'. ebind (prepare_run_state C p run_id now) (\<lambda>state.
       ebind (record_canonical_run C run_id p RS_queued Runtime_local_dev dir now) (\<lambda>r.
       ethen (if truthy (ch_hatchet C ''plan-run'' run_id)
              then ebind (ctl_now C) (\<lambda>t1. ebind (ctl_now C) (\<lambda>t2.
                     ebind (store_execution C (r\<lparr>rx_hatchet_run_id := ch_hatchet C ''plan-run'' run_id,
                         rx_runtime := Runtime_hatchet, rx_status := RS_running,
                         rx_started_at := Some t1, rx_updated_at := t2\<rparr>)) (\<lambda>_. ereturn ())))
              else start_job (Job_run run_id))
         (created_run C run_id p state))) c = created_run C run_id p st c' \<and>
    run_recorded C now True p run_id st c c'"
proof -
  obtain st where st: "initial_state_for C p now c = (Inr st, c)" "plan_state_ok (ch_env C) st"
    "ps_plan_id st = pf_plan_id p" "ps_status st = PS_pending"
    "map (\<lambda>n. (ns_node_id n, ns_status n)) (ps_node_states st) =
      map (\<lambda>n. (n_id n, if n_depends_on n = [] then NS_ready else NS_pending)) (pf_nodes p)"
    using initial_state_run [OF p now] by blast
  have plan_id: "pf_plan_id p \<noteq> []" using p(1) by (simp add: planfile_ok_def)
  obtain db where ev: "append_new_event C run_id (pf_plan_id p) now Run_created (with_state st c) =
      (Inr (), (with_state st c)\<lparr>cw_events := db\<rparr>)"
    "log_grows run_id (cw_events c) db" "logged C run_id (pf_plan_id p) now Run_created (cw_events c) db"
    using append_new_event_run [OF run_id plan_id now, of Run_created "with_state st c"] by auto
  let ?c = "(with_state st c)\<lparr>cw_events := db\<rparr>"
  obtain r where r: "record_canonical_run C run_id p RS_queued Runtime_local_dev dir now ?c =
      (Inr r, with_execution r ?c)" "run_execution_ok (ch_env C) r"
    "rx_run_id r = run_id" "rx_planfile r = Some p" "rx_status r = RS_queued"
    using record_canonical_run_run [OF p now run_id] by blast
  have prepared: "prepare_run_state C p run_id now c = (Inr st, ?c)"
    using valid
    by (simp add: prepare_run_state_def ebind_run ethen_run of_option_def sn require_valid_def Let_def st(1)
        store_state_run [OF st(2)] ev(1))
  show ?thesis
  proof (cases "truthy (ch_hatchet C ''plan-run'' run_id)")
    case True
    let ?e = "with_execution r ?c"
    let ?r = "r\<lparr>rx_hatchet_run_id := ch_hatchet C ''plan-run'' run_id, rx_runtime := Runtime_hatchet,
      rx_status := RS_running, rx_started_at := Some (clock_reading C ?e),
      rx_updated_at := clock_reading C (ticked ?e)\<rparr>"
    have "opt_ok nonempty (ch_hatchet C ''plan-run'' run_id)"
      using True by (cases "ch_hatchet C ''plan-run'' run_id") simp_all
    then have ok: "run_execution_ok (ch_env C) ?r"
      using r(2) clock by (simp add: run_execution_ok_def clock_ok_def clock_reading_def)
    show ?thesis
      using True r st ev(2,3)
      by (intro exI [of _ st] exI [of _ "with_execution ?r (ticked (ticked ?e))"])
        (simp add: ebind_run ethen_run prepared ctl_now_ticked store_execution_run [OF ok] run_recorded_def
          started_by_hatchet_def)
  next
    case False
    then show ?thesis
      using r st ev(2,3)
      by (intro exI [of _ st] exI [of _ "(with_execution r ?c)\<lparr>cw_jobs := cw_jobs c @ [Job_run run_id]\<rparr>"])
        (simp add: ebind_run ethen_run prepared start_job_def run_recorded_def started_by_hatchet_def)
  qed
qed

lemma applied_run:
  assumes p: "planfile_ok (ch_env C) p" "pf_canonical_plan_digest p = Some d" "is_hex64 d"
    and i: "input_plan C i now = Some p" "in_now i = Some now" "in_live i \<noteq> Some True" "in_run_id i = Some run_id"
    and now: "datetime_ok (ch_env C) now" and run_id: "run_id \<noteq> []"
    and sn: "capability_snapshot_for_task C [] [] Risk_read now = Some sn"
    and valid: "vl_ok (validate_planfile (ch_env C) (Some sn) p)"
  shows "\<exists>st c'. apply_planfile C i c = (Inr st, c') \<and> run_recorded C now False p run_id st c c'"
proof -
  obtain st where st: "initial_state_for C p now c = (Inr st, c)" "plan_state_ok (ch_env C) st"
    "ps_plan_id st = pf_plan_id p" "ps_status st = PS_pending"
    "map (\<lambda>n. (ns_node_id n, ns_status n)) (ps_node_states st) =
      map (\<lambda>n. (n_id n, if n_depends_on n = [] then NS_ready else NS_pending)) (pf_nodes p)"
    using initial_state_run [OF p now] by blast
  obtain r where r: "record_canonical_run C run_id p RS_queued Runtime_local_dev (keep_truthy (in_output_dir i)) now
      (with_state st c) = (Inr r, with_execution r (with_state st c))"
    "rx_run_id r = run_id" "rx_planfile r = Some p" "rx_status r = RS_queued"
    using record_canonical_run_run [OF p now run_id] by blast
  let ?c = "with_execution r (with_state st c)"
  have plan_id: "pf_plan_id p \<noteq> []" using p(1) by (simp add: planfile_ok_def)
  obtain db where ev: "append_new_event C run_id (pf_plan_id p) now Run_created ?c = (Inr (), ?c\<lparr>cw_events := db\<rparr>)"
    "log_grows run_id (cw_events ?c) db" "logged C run_id (pf_plan_id p) now Run_created (cw_events ?c) db"
    using append_new_event_run [OF run_id plan_id now, of Run_created ?c] by auto
  have "apply_planfile C i c = (Inr st, ?c\<lparr>cw_events := db\<rparr>)"
    using i valid
    by (simp add: apply_planfile_def given_or_now_def ebind_run ethen_run plan_of_input_run of_option_def sn
        require_valid_def Let_def st(1) store_state_run [OF st(2)] r(1) ev(1))
  moreover have "run_recorded C now False p run_id st c (?c\<lparr>cw_events := db\<rparr>)"
    using r st ev(2,3) by (simp add: run_recorded_def started_by_hatchet_def)
  ultimately show ?thesis by blast
qed

lemma run_recorded_from:
  assumes "run_recorded C now live p run_id st c c'" and "cw_control c = cw_control b" and "cw_events c = cw_events b"
    and "w_calls (cw_run c) = w_calls (cw_run b)" and "cw_disk c = cw_disk b" and "cw_jobs c = cw_jobs b"
    and "w_plan_states (cw_run c) = w_plan_states (cw_run b)"
  shows "run_recorded C now live p run_id st b c'"
  using assms by (simp add: run_recorded_def)

lemma create_run_cases:
  assumes now: "given_or_now C (in_now i) c = (Inr now, c0)" "datetime_ok (ch_env C) now"
    and clock: "clock_ok C" and run_id: "opt_ok nonempty (in_run_id i)"
  shows "case accepted_plan C i now of
      None \<Rightarrow> (\<exists>e. create_run_from_planfile C i c = (Inl e, c0))
    | Some p \<Rightarrow> (\<exists>st c'. create_run_from_planfile C i c = created_run C (input_run_id C i now p) p st c' \<and>
        run_recorded C now (in_live i = Some True) p (input_run_id C i now p) st c0 c')"
proof (cases "input_plan C i now")
  case None
  then show ?thesis
    using now(1) by (simp add: accepted_plan_def create_run_from_planfile_def plan_of_input_run of_option_def ebind_run)
next
  case (Some p)
  note plan = Some
  note p = input_planD [OF plan]
  obtain d where d: "pf_canonical_plan_digest p = Some d" "is_hex64 d" using p(2) by blast
  let ?id = "input_run_id C i now p"
  have id: "?id \<noteq> []"
    using run_id by (cases "in_run_id i") (auto simp: input_run_id_def run_id_for_plan_def)
  show ?thesis
  proof (cases "in_live i = Some True")
    case live: True
    let ?sn = "capability_snapshot_for_task C (concat (map n_allowed_capability_refs (pf_nodes p)))
             [''research:read'', ''project:read''] Risk_read now"
    show ?thesis
    proof (cases "\<exists>sn. ?sn = Some sn \<and> vl_ok (validate_planfile (ch_env C) (Some sn) p)")
      case True
      then obtain sn where sn: "?sn = Some sn" "vl_ok (validate_planfile (ch_env C) (Some sn) p)" by blast
      then have acc: "accepted_plan C i now = Some p"
        using plan live by (simp add: accepted_plan_def input_snapshot_def)
      from prepared_run [OF p(1) d now(2) id clock sn, of "keep_truthy (in_output_dir i)" c0]
      show ?thesis
        using now(1) plan live
        by (simp add: acc create_run_from_planfile_def plan_of_input_run of_option_def ebind_run
            input_run_id_def [symmetric] Let_def)
    next
      case False
      then have "accepted_plan C i now = None"
        using plan live by (auto simp: accepted_plan_def input_snapshot_def split: bind_splits)
      moreover have "\<exists>e. prepare_run_state C p ?id now c0 = (Inl e, c0)"
        using False by (cases ?sn) (auto simp: prepare_run_state_def of_option_def ebind_run ethen_run require_valid_def Let_def)
      ultimately show ?thesis
        using now(1) plan live
        by (auto simp: create_run_from_planfile_def plan_of_input_run of_option_def ebind_run
            input_run_id_def [symmetric] Let_def)
    qed
  next
    case live: False
    let ?i = "\<lparr>in_planfile = Some p, in_live = in_live i, in_output_dir = keep_truthy (in_output_dir i),
      in_run_id = Some ?id, in_now = Some now\<rparr>"
    let ?sn = "capability_snapshot_for_task C [] [] Risk_read now"
    have again: "input_plan C ?i now = Some p" using p(5) live by simp
    show ?thesis
    proof (cases "\<exists>sn. ?sn = Some sn \<and> vl_ok (validate_planfile (ch_env C) (Some sn) p)")
      case True
      then obtain sn where sn: "?sn = Some sn" "vl_ok (validate_planfile (ch_env C) (Some sn) p)" by blast
      then have acc: "accepted_plan C i now = Some p"
        using plan live by (simp add: accepted_plan_def input_snapshot_def)
      from applied_run [OF p(1) d again _ _ _ now(2) id sn, of c0] live
      obtain st c' where "apply_planfile C ?i c0 = (Inr st, c')" "run_recorded C now False p ?id st c0 c'" by auto
      then show ?thesis
        using now(1) plan live
        by (auto simp: acc create_run_from_planfile_def plan_of_input_run of_option_def ebind_run
            input_run_id_def [symmetric] Let_def)
    next
      case False
      then have "accepted_plan C i now = None"
        using plan live by (auto simp: accepted_plan_def input_snapshot_def split: bind_splits)
      moreover have "\<exists>e. apply_planfile C ?i c0 = (Inl e, c0)"
        using False again live
        by (cases ?sn) (auto simp: apply_planfile_def given_or_now_def plan_of_input_run of_option_def ebind_run
            ethen_run require_valid_def Let_def)
      ultimately show ?thesis
        using now(1) plan live
        by (auto simp: create_run_from_planfile_def plan_of_input_run of_option_def ebind_run
            input_run_id_def [symmetric] Let_def)
    qed
  qed
qed

lemma created_run_state: "snd (created_run C run_id p st c) = c"
  by (auto simp: created_run_def ctl_snapshot_def ebind_run split: sum.splits option.splits)

lemma created_run_returns:
  assumes "stores_ok C c" and "run_id \<noteq> []" and "planfile_ok (ch_env C) p"
  shows "\<exists>s. created_run C run_id p st c = (Inr \<lparr>cx_run_id = run_id, cx_snapshot = s, cx_state = st\<rparr>, c) \<and>
    sn_run_id s = run_id"
  using snapshot_sound [OF assms(1,2), of "Some p"] assms(3)
  by (auto simp: created_run_def ctl_snapshot_def ebind_run split: sum.splits option.splits)

lemma accepted_planD: "accepted_plan C i now = Some p \<Longrightarrow> input_plan C i now = Some p"
  by (auto simp: accepted_plan_def split: bind_splits if_splits)

lemma create_run_outcome:
  assumes stores: "stores_ok C c" and clock: "clock_ok C"
    and t: "opt_ok (datetime_ok (ch_env C)) (in_now i)" and run_id: "opt_ok nonempty (in_run_id i)"
  shows "\<exists>now c0. given_or_now C (in_now i) c = (Inr now, c0) \<and>
    (case (accepted_plan C i now, create_run_from_planfile C i c) of
       (None, (Inl _, c')) \<Rightarrow> c' = c0
     | (Some p, (Inr a, c')) \<Rightarrow>
         cx_run_id a = input_run_id C i now p \<and> sn_run_id (cx_snapshot a) = cx_run_id a \<and>
         run_recorded C now (in_live i = Some True) p (cx_run_id a) (cx_state a) c c'
     | _ \<Rightarrow> False)"
proof -
  obtain now w where now: "given_or_now C (in_now i) c = (Inr now, c\<lparr>cw_run := w\<rparr>)" "datetime_ok (ch_env C) now"
    using given_or_now_run [OF clock t] by blast
  let ?c = "c\<lparr>cw_run := w\<rparr>"
  have side: "run_side ?c = run_side c" using keeps_step [OF keeps_side_basic(2) now(1)] .
  show ?thesis
  proof (cases "accepted_plan C i now")
    case None
    then obtain e where "create_run_from_planfile C i c = (Inl e, ?c)"
      using create_run_cases [OF now clock run_id] by auto
    then show ?thesis using None now(1) by (intro exI [of _ now] exI [of _ ?c]) simp
  next
    case (Some p)
    let ?id = "input_run_id C i now p"
    obtain st c' where run: "create_run_from_planfile C i c = created_run C ?id p st c'"
      and rec: "run_recorded C now (in_live i = Some True) p ?id st ?c c'"
      using create_run_cases [OF now clock run_id] Some by auto
    have "stores_ok C (snd (create_run_from_planfile C i c))"
      using preserves_create_run stores by (simp add: preserves_def)
    then have ok: "stores_ok C c'" unfolding run created_run_state .
    have id: "?id \<noteq> []"
      using run_id by (cases "in_run_id i") (auto simp: input_run_id_def run_id_for_plan_def)
    obtain s where s: "created_run C ?id p st c' = (Inr \<lparr>cx_run_id = ?id, cx_snapshot = s, cx_state = st\<rparr>, c')"
        "sn_run_id s = ?id"
      using created_run_returns [OF ok id input_planD(1) [OF accepted_planD [OF Some]]] by blast
    have "run_recorded C now (in_live i = Some True) p ?id st c c'"
      using rec by (rule run_recorded_from) (use side in \<open>simp_all add: run_side_def\<close>)
    then show ?thesis
      using Some run s now(1) by (intro exI [of _ now] exI [of _ ?c]) simp
  qed
qed

text \<open>C13: A request to create a run succeeds exactly when its plan can be read and is valid over the
  capabilities it may use; otherwise it throws and nothing but the clock has changed. A created run
  is recorded under the plan it was accepted with, with a pending state that makes exactly the nodes
  without dependencies ready. Its log then holds the creation event of this run, this plan and the time of
  the request, unless an event with the same identifier was there before, and loses nothing. A live run
  is handed to Hatchet or else started as a background job, which the model runs after the request. The
  rest of the request calls no capability, writes no file and touches no other run or plan.\<close>
theorem create_run_records:
  assumes reach: "control_reachable C c" and clock: "clock_ok C"
    and t: "opt_ok (datetime_ok (ch_env C)) (in_now i)" and run_id: "opt_ok nonempty (in_run_id i)"
  shows "\<exists>now c0. given_or_now C (in_now i) c = (Inr now, c0) \<and>
    (case (accepted_plan C i now, create_run_from_planfile C i c) of
       (None, (Inl _, c')) \<Rightarrow> c' = c0
     | (Some p, (Inr a, c')) \<Rightarrow>
         cx_run_id a = input_run_id C i now p \<and> sn_run_id (cx_snapshot a) = cx_run_id a \<and>
         run_recorded C now (in_live i = Some True) p (cx_run_id a) (cx_state a) c c'
     | _ \<Rightarrow> False)"
  by (rule create_run_outcome [OF reachable_stores_ok [OF reach] clock t run_id])

lemma sample_clock_ok: "clock_ok sample_control"
  by (simp add: clock_ok_def sample_control_def sample_host_def sample_env_def sample_stamp_def)

definition quiet_input :: run_input where
  "quiet_input = sample_run_input\<lparr>in_live := None\<rparr>"

lemma sample_input_facts:
  "in_now quiet_input = Some sample_stamp" "in_run_id quiet_input = Some ''run_1''" "in_live quiet_input = None"
  "in_planfile quiet_input = Some sample_plan" "ch_env sample_control = sample_env"
  by (simp_all add: quiet_input_def sample_run_input_def sample_control_def sample_host_def)

lemma sample_accepted: "\<exists>p. accepted_plan sample_control quiet_input sample_stamp = Some p"
proof -
  let ?q = "sample_plan\<lparr>pf_status := PS_validated, pf_updated_at := sample_stamp\<rparr>"
  have ok: "planfile_ok sample_env ?q" by (rule stamped_sample_ok)
  obtain p where p: "with_canonical_plan_digest sample_env ?q = Some p"
    and pp: "p = ?q\<lparr>pf_canonical_plan_digest := Some (stable_hash sample_env (canonical_form ?q))\<rparr>"
    using with_digest_total [OF ok sample_sha_hex] by simp
  have p_ok: "planfile_ok sample_env p" using with_digest_SomeD [OF p] by blast
  have plan: "input_plan sample_control quiet_input sample_stamp = Some p"
    using ok p sample_plan_ok by (simp add: input_plan_def sample_input_facts parsed_with_digest_def)
  have none: "list_capabilities (ch_registry sample_control) f = []" for f
    by (simp add: sample_control_def create_pack_registry_def list_capabilities_def)
  have "is_hex64 (stable_hash sample_env (JArr []))"
    using sample_sha_hex by (simp add: sha_is_hex_def stable_hash_def)
  then obtain sn where sn: "capability_snapshot_for_task sample_control [] [] Risk_read sample_stamp = Some sn"
      "cs_capabilities sn = []"
    by (auto simp: capability_snapshot_for_task_def none build_capability_snapshot_def Let_def sample_input_facts
        capability_snapshot_ok_def deterministic_snapshot_id_def det_id_def) (auto simp: sample_env_def sample_stamp_def)
  have "planfile_issues (Some sn) ?q = planfile_issues (Some sn) sample_plan"
    by (rule planfile_issues_cong) (simp_all add: allow_fixtures_def allow_mock_def context_value_def)
  then have "well_formed_plan (Some sn) ?q" by (simp add: planfile_issues_Nil [symmetric] sample_issues)
  then have "well_formed_plan (Some sn) p" by (simp add: pp well_formed_plan_digest)
  then have "vl_ok (validate_planfile sample_env (Some sn) p)" using p_ok by (simp add: validate_ok_iff)
  then show ?thesis using plan sn(1) by (simp add: accepted_plan_def input_snapshot_def sample_input_facts)
qed

theorem create_run_records_witness:
  "\<exists>a c' p. create_run_from_planfile sample_control quiet_input (start_world 0 []) = (Inr a, c') \<and>
    cx_run_id a = ''run_1'' \<and> run_recorded sample_control sample_stamp False p ''run_1'' (cx_state a) (start_world 0 []) c'"
proof -
  obtain p where p: "accepted_plan sample_control quiet_input sample_stamp = Some p" using sample_accepted by blast
  have "opt_ok (datetime_ok (ch_env sample_control)) (in_now quiet_input)"
    by (simp add: sample_input_facts, simp add: sample_env_def sample_stamp_def)
  moreover have "opt_ok nonempty (in_run_id quiet_input)" by (simp add: sample_input_facts)
  ultimately show ?thesis
    using create_run_records [OF control_reachable.start sample_clock_ok, of quiet_input 0 "[]"] p
    by (auto simp: sample_input_facts given_or_now_def input_run_id_def split: prod.splits sum.splits)
qed

text \<open>The state after the sample request.\<close>

definition quiet_world :: control_world where
  "quiet_world = serve sample_control (Req_create quiet_input) (start_world 0 [])"

lemma quiet_world_facts:
  "control_reachable sample_control quiet_world"
  "\<exists>r. get_run_execution (cw_control quiet_world) ''run_1'' = Some r \<and> plan_readable sample_control r"
proof -
  show "control_reachable sample_control quiet_world"
    unfolding quiet_world_def by (intro control_reachable.intros)
  obtain p where p: "accepted_plan sample_control quiet_input sample_stamp = Some p" using sample_accepted by blast
  have now: "given_or_now sample_control (in_now quiet_input) (start_world 0 []) = (Inr sample_stamp, start_world 0 [])"
    by (simp add: given_or_now_def sample_input_facts)
  have "datetime_ok (ch_env sample_control) sample_stamp"
    by (simp add: sample_input_facts, simp add: sample_env_def sample_stamp_def)
  from create_run_cases [OF now this sample_clock_ok] p
  obtain st c' where run: "create_run_from_planfile sample_control quiet_input (start_world 0 []) =
      created_run sample_control ''run_1'' p st c'"
    and rec: "run_recorded sample_control sample_stamp False p ''run_1'' st (start_world 0 []) c'"
    by (auto simp: sample_input_facts input_run_id_def)
  have "quiet_world = c'" by (simp add: quiet_world_def run created_run_state)
  moreover have "planfile_ok (ch_env sample_control) p" using input_planD(1) [OF accepted_planD [OF p]] .
  ultimately show "\<exists>r. get_run_execution (cw_control quiet_world) ''run_1'' = Some r \<and> plan_readable sample_control r"
    using rec by (auto simp: run_recorded_def plan_readable_def)
qed

theorem cancel_run_cancels_witness:
  "\<exists>a c' plan_id now. cancel_run sample_control ''run_1'' None quiet_world = (Inr a, c') \<and> cancelled_in ''run_1'' c' \<and>
    logged sample_control ''run_1'' plan_id now (Run_cancelled (Some ''Cancellation requested.''))
      (cw_events quiet_world) (cw_events c')"
proof -
  obtain r where r: "get_run_execution (cw_control quiet_world) ''run_1'' = Some r" "plan_readable sample_control r"
    using quiet_world_facts(2) by blast
  have "opt_ok (datetime_ok (ch_env sample_control)) None" by simp
  from cancel_run_cancels [OF quiet_world_facts(1) sample_clock_ok this r] show ?thesis
    by (elim exE conjE) (intro exI conjI, assumption+)
qed

end
