(* ===== verification/Sdk_Redaction.thy ===== *)
theory Sdk_Redaction
  imports Json
begin

text \<open>
  \<open>capability-sdk/src/primitives/redaction.ts\<close>: what is taken out of headers, texts and JSON values
  before they are logged or stored. Each of the three regular expressions is a function that gives
  the length of the match at the start of a text, from the character before it; the choices
  of the expressions exclude one another, so that the greedy runs below need no other
  backtracking than the one written out for the word boundary.
\<close>

section \<open>Global replacement\<close>

type_synonym matcher = "char option \<Rightarrow> string \<Rightarrow> nat option"

text \<open>\<open>text.replace(pattern, f)\<close> for a global pattern without empty matches.\<close>

function replace_matches :: "matcher \<Rightarrow> (string \<Rightarrow> string) \<Rightarrow> char option \<Rightarrow> string \<Rightarrow> string" where
  "replace_matches m f prev [] = []"
| "replace_matches m f prev (c # s) =
     (case m prev (c # s) of
        Some (Suc n) \<Rightarrow>
          f (take (Suc n) (c # s)) @
          replace_matches m f (Some (last (take (Suc n) (c # s)))) (drop (Suc n) (c # s))
      | _ \<Rightarrow> c # replace_matches m f (Some c) s)"
  by pat_completeness auto
termination
  by (relation "measure (\<lambda>(m, f, prev, s). length s)") auto

declare replace_matches.simps [simp del]

definition word_before :: "char option \<Rightarrow> bool" where
  "word_before c = (case c of None \<Rightarrow> False | Some d \<Rightarrow> is_word_char d)"

definition word_start :: "string \<Rightarrow> bool" where
  "word_start s = (case s of [] \<Rightarrow> False | c # _ \<Rightarrow> is_word_char c)"

definition run_length :: "(char \<Rightarrow> bool) \<Rightarrow> string \<Rightarrow> nat" where
  "run_length p s = length (takeWhile p s)"

definition starts_ci :: "string \<Rightarrow> string \<Rightarrow> bool" where
  "starts_ci s word = starts_with (to_lower s) word"

section \<open>The patterns\<close>

text \<open>\<open>/Bearer\s+[A-Za-z0-9._~+/=-]+/gi\<close>\<close>

definition is_token_char :: "char \<Rightarrow> bool" where
  "is_token_char c = ((is_word_char c \<and> c \<noteq> CHR ''_'') \<or> c \<in> set ''._~+/=-'')"

definition match_bearer :: matcher where
  "match_bearer prev s =
     (if starts_ci s ''bearer'' then
        (let spaces = run_length is_space (drop 6 s);
             token = run_length is_token_char (drop (6 + spaces) s)
         in if 0 < spaces \<and> 0 < token then Some (6 + spaces + token) else None)
      else None)"

text \<open>\<open>/\b(sk|pk|rk|ghp|gho|ghu|ghs|xox[baprs])-[-A-Za-z0-9_]{8,}\b/gi\<close>: the run gives back characters
  until it ends at a word boundary.\<close>

definition key_prefixes :: "string list" where
  "key_prefixes =
     [''sk-'', ''pk-'', ''rk-'', ''ghp-'', ''gho-'', ''ghu-'', ''ghs-'', ''xoxb-'', ''xoxa-'', ''xoxp-'',
      ''xoxr-'', ''xoxs-'']"

primrec last_boundary :: "string \<Rightarrow> nat \<Rightarrow> nat option" where
  "last_boundary s 0 = None"
| "last_boundary s (Suc k) =
     (if Suc k < 8 then None
      else if is_word_char (s ! k) \<noteq> word_start (drop (Suc k) s) then Some (Suc k)
      else last_boundary s k)"

definition match_key :: matcher where
  "match_key prev s =
     (if word_before prev then None
      else (case List.find (starts_ci s) key_prefixes of
              None \<Rightarrow> None
            | Some p \<Rightarrow>
                (let rest = drop (length p) s
                 in map_option (\<lambda>n. length p + n)
                      (last_boundary rest (run_length (\<lambda>c. is_word_char c \<or> c = CHR ''-'') rest)))))"

text \<open>\<open>/\b(api[_-]?key|token|secret|password)\b\s*[:=]\s*["']?[^"',\s}]+/gi\<close>\<close>

definition secret_words :: "string list" where
  "secret_words = [''api_key'', ''api-key'', ''apikey'', ''token'', ''secret'', ''password'']"

definition is_quote :: "char \<Rightarrow> bool" where
  "is_quote c = (c = CHR 0x22 \<or> c = CHR 0x27)"

definition is_value_char :: "char \<Rightarrow> bool" where
  "is_value_char c = (\<not> is_quote c \<and> c \<noteq> CHR '','' \<and> \<not> is_space c \<and> c \<noteq> CHR ''}'')"

definition match_assignment :: matcher where
  "match_assignment prev s =
     (if word_before prev then None
      else (case List.find (starts_ci s) secret_words of
              None \<Rightarrow> None
            | Some w \<Rightarrow>
                if word_start (drop (length w) s) then None
                else
                  (let i = length w + run_length is_space (drop (length w) s);
                       j = Suc i + run_length is_space (drop (Suc i) s);
                       k = (case drop j s of c # _ \<Rightarrow> if is_quote c then Suc j else j | [] \<Rightarrow> j);
                       n = run_length is_value_char (drop k s)
                   in case drop i s of
                        [] \<Rightarrow> None
                      | c # _ \<Rightarrow> if (c = CHR '':'' \<or> c = CHR ''='') \<and> 0 < n then Some (k + n) else None)))"

definition secret_like_patterns :: "matcher list" where
  "secret_like_patterns = [match_bearer, match_key, match_assignment]"

section \<open>Texts, headers, values\<close>

definition redacted :: string where
  "redacted = ''[REDACTED]''"

definition replace_match :: "string \<Rightarrow> string \<Rightarrow> string" where
  "replace_match replacement m =
     (let separator = (if CHR ''='' \<in> set m then Some CHR ''='' else if CHR '':'' \<in> set m then Some CHR '':'' else None)
      in case separator of
           None \<Rightarrow> replacement
         | Some c \<Rightarrow>
             if starts_ci m ''bearer'' \<and> (case drop 6 m of d # _ \<Rightarrow> is_space d | [] \<Rightarrow> False) then replacement
             else takeWhile (\<lambda>d. d \<noteq> c) m @ [c] @ replacement)"

text \<open>\<open>output.split(hint).join(replacement)\<close> for a hint that is not empty.\<close>

definition replace_hint :: "string \<Rightarrow> string \<Rightarrow> string \<Rightarrow> string" where
  "replace_hint hint replacement =
     replace_matches (\<lambda>_ s. if starts_with s hint then Some (length hint) else None) (\<lambda>_. replacement) None"

definition redact_text :: "string list \<Rightarrow> string \<Rightarrow> string \<Rightarrow> string" where
  "redact_text hints replacement text =
     fold (\<lambda>m s. replace_matches m (replace_match replacement) None s) secret_like_patterns
       (fold (\<lambda>hint s. if hint \<noteq> [] then replace_hint hint replacement s else s) hints text)"

definition sensitive_header_names :: "string list" where
  "sensitive_header_names =
     [''authorization'', ''cookie'', ''set-cookie'', ''x-api-key'', ''api-key'', ''proxy-authorization'']"

definition sensitive_header :: "string \<Rightarrow> bool" where
  "sensitive_header key = (to_lower key \<in> set sensitive_header_names)"

definition redact_headers :: "(string \<times> string) list \<Rightarrow> (string \<times> string) list" where
  "redact_headers hs =
     map (\<lambda>(k, v). (k, if sensitive_header k then redacted else redact_text [] redacted v)) hs"

text \<open>\<open>/authorization|api[_-]?key|token|secret|password/i.test(key)\<close>\<close>

definition sensitive_key :: "string \<Rightarrow> bool" where
  "sensitive_key key =
     list_ex (str_includes (to_lower key))
       [''authorization'', ''api_key'', ''api-key'', ''apikey'', ''token'', ''secret'', ''password'']"

fun redact_object :: "string list \<Rightarrow> string \<Rightarrow> json \<Rightarrow> json" where
  "redact_object hints replacement (JStr s) = JStr (redact_text hints replacement s)"
| "redact_object hints replacement (JArr xs) = JArr (map (redact_object hints replacement) xs)"
| "redact_object hints replacement (JObj kvs) =
     JObj (map (\<lambda>(k, v). (k, if sensitive_key k then JStr redacted else redact_object hints replacement v)) kvs)"
| "redact_object hints replacement v = v"

section \<open>What is left\<close>

text \<open>Every sensitive key, at any depth, holds the mark.\<close>

fun sealed :: "json \<Rightarrow> bool" where
  "sealed (JArr xs) = list_all sealed xs"
| "sealed (JObj kvs) = list_all (\<lambda>(k, v). if sensitive_key k then v = JStr redacted else sealed v) kvs"
| "sealed v = True"

lemma redact_object_sealed: "sealed (redact_object hints replacement v)"
  by (induction hints replacement v rule: redact_object.induct) (fastforce simp: list_all_iff)+

text \<open>What a redaction may do to a value: texts may change, the values of sensitive keys become the mark,
  and everything else stays, in its place.\<close>

inductive redacts :: "json \<Rightarrow> json \<Rightarrow> bool" where
  str: "redacts (JStr s) (JStr t)"
| arr: "list_all2 redacts xs ys \<Longrightarrow> redacts (JArr xs) (JArr ys)"
| obj: "list_all2 (\<lambda>p q. fst q = fst p \<and>
      (sensitive_key (fst p) \<and> snd q = JStr redacted \<or> \<not> sensitive_key (fst p) \<and> redacts (snd p) (snd q))) kvs kws \<Longrightarrow>
    redacts (JObj kvs) (JObj kws)"
| atom: "(case v of JStr _ \<Rightarrow> False | JArr _ \<Rightarrow> False | JObj _ \<Rightarrow> False | _ \<Rightarrow> True) \<Longrightarrow> redacts v v"
  monos list_all2_mono

lemma redact_object_redacts: "redacts v (redact_object hints replacement v)"
proof (induction hints replacement v rule: redact_object.induct)
  case (2 hints replacement xs)
  then show ?case by (auto simp: list_all2_conv_all_nth intro!: redacts.arr)
next
  case (3 hints replacement kvs)
  then show ?case
    by (auto simp: list_all2_map2 list.rel_refl_strong case_prod_beta intro!: redacts.obj list.rel_refl_strong)
qed (auto intro: redacts.intros)

text \<open>C20: Redacting a value leaves, at any depth, only the mark under a key that names a secret; texts may
  change, and everything else stays where it was. Headers that carry credentials hold the mark
  only, and no header is dropped.\<close>
theorem redaction_seals:
  "sealed (redact_object hints replacement v) \<and> redacts v (redact_object hints replacement v) \<and>
   map fst (redact_headers hs) = map fst hs \<and>
   list_all (\<lambda>(k, v). if sensitive_header k then v = redacted else True) (redact_headers hs)"
  by (simp add: redact_object_sealed redact_object_redacts redact_headers_def list_all_iff case_prod_beta comp_def)

end
