(* ===== verification/Sdk_Policy.thy ===== *)
theory Sdk_Policy
  imports Sdk_Registry Effects Sdk_Redaction
begin

text \<open>
  The context of the SDK's primitives and what they share: \<open>primitives/context.ts\<close>,
  \<open>primitives/policy.ts\<close>, \<open>primitives/errors.ts\<close>, \<open>primitives/secrets.ts\<close>,
  \<open>primitives/artifacts.ts\<close> and \<open>primitives/approval.ts\<close> of the capability SDK.

  The state is what the primitives send out: requests, name lookups and artifacts. The stores and the
  secret manager the caller supplies are functions of the context; a thrown error keeps its
  message and code, not its metadata.
\<close>

section \<open>Context (\<open>context.ts\<close>)\<close>

record secret_ref =
  sf_provider :: "string option"
  sf_name :: string
  sf_scope :: "string option"

record secret_access =
  sa_pack_id :: string
  sa_capability_id :: string
  sa_trace_id :: string
  sa_plan_id :: "string option"
  sa_node_id :: "string option"
  sa_task_id :: "string option"

record primitive_limits =
  pm_timeout_ms :: int
  pm_max_bytes :: int
  pm_redirect_limit :: int
  pm_http_methods :: "string list"
  pm_private_network :: bool

record primitive_policy =
  np_allowed_hosts :: "string list option"
  np_denied_hosts :: "string list option"
  np_http_methods :: "string list option"
  np_granted_scopes :: "string list option"
  np_private_network :: "bool option"

record redactor =
  rr_headers :: "(string \<times> string) list \<Rightarrow> (string \<times> string) list"
  rr_text :: "string \<Rightarrow> string"
  rr_object :: "json \<Rightarrow> json"

record primitive_context =
  pc_delegation :: "string option"
  pc_pack_id :: string
  pc_capability_id :: string
  pc_plan_id :: "string option"
  pc_node_id :: "string option"
  pc_task_id :: "string option"
  pc_trace_id :: string
  pc_idempotency_key :: string
  pc_policy :: primitive_policy
  pc_store :: "json \<Rightarrow> thrown option"
  pc_secrets :: "(secret_ref \<Rightarrow> secret_access \<Rightarrow> thrown + string) option"
  pc_has_secret :: "(secret_ref \<Rightarrow> secret_access \<Rightarrow> thrown + bool) option"
  pc_approvals :: "(json \<Rightarrow> thrown + json) option"
  pc_redactor :: redactor
  pc_limits :: primitive_limits
  pc_custom_fetch :: bool

definition standard_redactor :: redactor where
  "standard_redactor =
     \<lparr>rr_headers = redact_headers, rr_text = redact_text [] redacted, rr_object = redact_object [] redacted\<rparr>"

definition default_limits :: "nat \<Rightarrow> primitive_limits" where
  "default_limits timeout_ms =
     \<lparr>pm_timeout_ms = int timeout_ms, pm_max_bytes = 1048576, pm_redirect_limit = 3,
      pm_http_methods = [''GET''], pm_private_network = False\<rparr>"

definition no_policy :: primitive_policy where
  "no_policy =
     \<lparr>np_allowed_hosts = None, np_denied_hosts = None, np_http_methods = None, np_granted_scopes = None,
      np_private_network = None\<rparr>"

record primitive_options =
  pz_pack :: string
  pz_capability :: string
  pz_plan :: "string option"
  pz_node :: "string option"
  pz_task :: "string option"
  pz_policy :: "primitive_policy option"
  pz_store :: "(json \<Rightarrow> thrown option) option"
  pz_secrets :: "(secret_ref \<Rightarrow> secret_access \<Rightarrow> thrown + string) option"
  pz_has_secret :: "(secret_ref \<Rightarrow> secret_access \<Rightarrow> thrown + bool) option"
  pz_approvals :: "(json \<Rightarrow> thrown + json) option"
  pz_redactor :: "redactor option"
  pz_timeout_ms :: "int option"
  pz_max_bytes :: "int option"
  pz_redirect_limit :: "int option"
  pz_http_methods :: "string list option"
  pz_private_network :: "bool option"
  pz_custom_fetch :: bool

text \<open>\<open>createPrimitiveContext\<close>: the artifact store defaults to the sink of the pack's context, which is the
  first argument.\<close>

definition create_primitive_context ::
    "(json \<Rightarrow> thrown option) \<Rightarrow> exec_context \<Rightarrow> primitive_options \<Rightarrow> primitive_context" where
  "create_primitive_context record_artifact x o1 =
     (let l = default_limits (xc_timeout_ms x) in
      \<lparr>pc_delegation = None, pc_pack_id = pz_pack o1, pc_capability_id = pz_capability o1,
       pc_plan_id = keep_truthy (pz_plan o1), pc_node_id = keep_truthy (pz_node o1),
       pc_task_id = Some (nullish (pz_task o1) (xc_task_run_id x)), pc_trace_id = xc_trace_id x,
       pc_idempotency_key = xc_idempotency_key x, pc_policy = nullish (pz_policy o1) no_policy,
       pc_store = nullish (pz_store o1) record_artifact, pc_secrets = pz_secrets o1,
       pc_has_secret = pz_has_secret o1, pc_approvals = pz_approvals o1,
       pc_redactor = nullish (pz_redactor o1) standard_redactor,
       pc_limits =
         \<lparr>pm_timeout_ms = nullish (pz_timeout_ms o1) (pm_timeout_ms l),
          pm_max_bytes = nullish (pz_max_bytes o1) (pm_max_bytes l),
          pm_redirect_limit = nullish (pz_redirect_limit o1) (pm_redirect_limit l),
          pm_http_methods = nullish (pz_http_methods o1) (pm_http_methods l),
          pm_private_network = nullish (pz_private_network o1) (pm_private_network l)\<rparr>,
       pc_custom_fetch = pz_custom_fetch o1\<rparr>)"

section \<open>State and errors\<close>

record http_url =
  ur_href :: string
  ur_protocol :: string
  ur_hostname :: string
  ur_origin :: string

record http_request =
  hq_url :: http_url
  hq_method :: string
  hq_headers :: "(string \<times> string) list"
  hq_body :: "string option"

record net_world =
  nw_clock :: nat
  nw_requests :: "http_request list"
  nw_lookups :: "(string \<times> string list) list"
  nw_artifacts :: "json list"

type_synonym 'a net = "(net_world, 'a) effect"

record net_clock =
  nc_ms :: "nat \<Rightarrow> int"
  nc_iso :: "int \<Rightarrow> string"

definition net_now :: "net_clock \<Rightarrow> int net" where
  "net_now K = (\<lambda>w. (Inr (nc_ms K (nw_clock w)), w\<lparr>nw_clock := Suc (nw_clock w)\<rparr>))"

definition net_iso :: "net_clock \<Rightarrow> string net" where
  "net_iso K = ebind (net_now K) (\<lambda>t. ereturn (nc_iso K t))"

datatype primitive_code =
    PRIMITIVE_POLICY_DENIED | PRIMITIVE_TIMEOUT | PRIMITIVE_RESPONSE_TOO_LARGE | PRIMITIVE_SECRET_UNAVAILABLE
  | PRIMITIVE_ARTIFACT_FAILED | PRIMITIVE_APPROVAL_UNAVAILABLE | PRIMITIVE_INVALID_INPUT

fun primitive_code_str :: "primitive_code \<Rightarrow> string" where
  "primitive_code_str PRIMITIVE_POLICY_DENIED = ''PRIMITIVE_POLICY_DENIED''"
| "primitive_code_str PRIMITIVE_TIMEOUT = ''PRIMITIVE_TIMEOUT''"
| "primitive_code_str PRIMITIVE_RESPONSE_TOO_LARGE = ''PRIMITIVE_RESPONSE_TOO_LARGE''"
| "primitive_code_str PRIMITIVE_SECRET_UNAVAILABLE = ''PRIMITIVE_SECRET_UNAVAILABLE''"
| "primitive_code_str PRIMITIVE_ARTIFACT_FAILED = ''PRIMITIVE_ARTIFACT_FAILED''"
| "primitive_code_str PRIMITIVE_APPROVAL_UNAVAILABLE = ''PRIMITIVE_APPROVAL_UNAVAILABLE''"
| "primitive_code_str PRIMITIVE_INVALID_INPUT = ''PRIMITIVE_INVALID_INPUT''"

definition primitive_error :: "string \<Rightarrow> primitive_code \<Rightarrow> thrown" where
  "primitive_error message code = Sdk_error (primitive_code_str code) message"

section \<open>Secrets (\<open>secrets.ts\<close>)\<close>

definition secret_access_context :: "primitive_context \<Rightarrow> secret_access" where
  "secret_access_context P =
     \<lparr>sa_pack_id = pc_pack_id P, sa_capability_id = pc_capability_id P, sa_trace_id = pc_trace_id P,
      sa_plan_id = keep_truthy (pc_plan_id P), sa_node_id = keep_truthy (pc_node_id P),
      sa_task_id = keep_truthy (pc_task_id P)\<rparr>"

definition resolve_ref :: "primitive_context \<Rightarrow> secret_ref \<Rightarrow> string net" where
  "resolve_ref P ref =
     (case pc_secrets P of
        None \<Rightarrow> ethrow (primitive_error ''No secret manager is available in this primitive context.''
                  PRIMITIVE_SECRET_UNAVAILABLE)
      | Some f \<Rightarrow> (\<lambda>w. (f ref (secret_access_context P), w)))"

definition has_ref :: "primitive_context \<Rightarrow> secret_ref \<Rightarrow> bool net" where
  "has_ref P ref =
     (if pc_secrets P = None then ereturn False
      else (case pc_has_secret P of
              None \<Rightarrow> ereturn True
            | Some f \<Rightarrow> (\<lambda>w. (f ref (secret_access_context P), w))))"

section \<open>Policy (\<open>policy.ts\<close>)\<close>

datatype net_decision = Decision_allow | Decision_deny | Decision_requires_approval

record net_report =
  nr_decision :: net_decision
  nr_capability_ref :: string
  nr_pack_id :: string
  nr_risk_level :: string
  nr_side_effect_kind :: string
  nr_summary :: string
  nr_matched_rules :: "string list"
  nr_missing_scopes :: "string list"
  nr_required_approvals :: "string list"
  nr_reason :: string
  nr_created_at :: string

definition capability_name_of :: "primitive_context \<Rightarrow> string" where
  "capability_name_of P = pc_pack_id P @ ''.'' @ pc_capability_id P"

definition base_report ::
    "net_clock \<Rightarrow> primitive_context \<Rightarrow> net_decision \<Rightarrow> string \<Rightarrow> string \<Rightarrow> string list \<Rightarrow> string list
      \<Rightarrow> string list \<Rightarrow> string \<Rightarrow> net_report net" where
  "base_report K P decision risk kind rules missing approvals reason =
     ebind (net_iso K) (\<lambda>now. ereturn
       \<lparr>nr_decision = decision, nr_capability_ref = capability_name_of P, nr_pack_id = pc_pack_id P,
        nr_risk_level = risk, nr_side_effect_kind = kind,
        nr_summary = nullish (pc_delegation P) ''structured delegation context'',
        nr_matched_rules = rules, nr_missing_scopes = missing, nr_required_approvals = approvals,
        nr_reason = reason, nr_created_at = now\<rparr>)"

record network_input =
  ni_method :: string
  ni_host :: string
  ni_allowed_hosts :: "string list option"
  ni_denied_hosts :: "string list option"
  ni_is_private :: bool

definition private_network_allowed :: "primitive_context \<Rightarrow> bool" where
  "private_network_allowed P =
     (np_private_network (pc_policy P) = Some True \<or> pm_private_network (pc_limits P))"

definition allowed_hosts_of :: "primitive_context \<Rightarrow> string list option \<Rightarrow> string list" where
  "allowed_hosts_of P given = nullish given (nullish (np_allowed_hosts (pc_policy P)) [])"

definition denied_hosts_of :: "primitive_context \<Rightarrow> string list option \<Rightarrow> string list" where
  "denied_hosts_of P given = nullish given (nullish (np_denied_hosts (pc_policy P)) [])"

definition evaluate_network :: "net_clock \<Rightarrow> primitive_context \<Rightarrow> network_input \<Rightarrow> net_report net" where
  "evaluate_network K P i =
     (let allowed = allowed_hosts_of P (ni_allowed_hosts i);
          refused = denied_hosts_of P (ni_denied_hosts i)
      in if ni_host i \<in> set refused
         then base_report K P Decision_deny ''read'' ''network_read'' [''network.denied_hosts''] [] []
                (''Host '' @ ni_host i @ '' is denied.'')
         else if allowed \<noteq> [] \<and> ni_host i \<notin> set allowed
         then base_report K P Decision_deny ''read'' ''network_read'' [''network.allowed_hosts''] [] []
                (''Host '' @ ni_host i @ '' is not declared in allowed hosts.'')
         else if ni_is_private i \<and> \<not> private_network_allowed P
         then base_report K P Decision_deny ''read'' ''network_read'' [''network.block_private_hosts''] [] []
                (''Host '' @ ni_host i @ '' is local or private.'')
         else base_report K P Decision_allow ''read''
                (if ni_method i = ''GET'' then ''network_read'' else ''network_write'')
                [''network.protocol'', ''network.host''] [] []
                (''Network request to '' @ ni_host i @ '' is allowed.''))"

record side_effect_input =
  se_risk_level :: string
  se_side_effect_kind :: string
  se_requires_approval :: "bool option"
  se_required_scopes :: "string list option"

definition evaluate_side_effect :: "net_clock \<Rightarrow> primitive_context \<Rightarrow> side_effect_input \<Rightarrow> net_report net" where
  "evaluate_side_effect K P i =
     (let granted = nullish (np_granted_scopes (pc_policy P)) [];
          missing = filter (\<lambda>s. s \<notin> set granted) (nullish (se_required_scopes i) [])
      in if missing \<noteq> []
         then base_report K P Decision_deny (se_risk_level i) (se_side_effect_kind i) [''scopes.required'']
                missing [] ''Required scopes are missing.''
         else if se_requires_approval i = Some True \<or> se_risk_level i \<noteq> ''read'' \<or> se_side_effect_kind i \<noteq> ''none''
         then base_report K P Decision_requires_approval (se_risk_level i) (se_side_effect_kind i)
                [''approval.side_effect''] [] [capability_name_of P] ''Capability side effects require approval.''
         else base_report K P Decision_allow (se_risk_level i) (se_side_effect_kind i) [''risk.read_only''] []
                [] ''Read-only capability is allowed.'')"


section \<open>Artifacts (\<open>artifacts.ts\<close>)\<close>

record artifact_lineage =
  al_pack_id :: string
  al_capability_id :: string
  al_plan_id :: "string option"
  al_node_id :: "string option"
  al_task_id :: "string option"
  al_inputs :: "string list"
  al_outputs :: "string list"

definition create_lineage :: "primitive_context \<Rightarrow> string list option \<Rightarrow> string list option \<Rightarrow> artifact_lineage" where
  "create_lineage P inputs outputs =
     \<lparr>al_pack_id = pc_pack_id P, al_capability_id = pc_capability_id P, al_plan_id = keep_truthy (pc_plan_id P),
      al_node_id = keep_truthy (pc_node_id P), al_task_id = keep_truthy (pc_task_id P),
      al_inputs = nullish inputs [], al_outputs = nullish outputs []\<rparr>"

definition lineage_json :: "artifact_lineage \<Rightarrow> json" where
  "lineage_json l =
     JObj ([(''produced_by_pack_id'', JStr (al_pack_id l)),
            (''produced_by_capability_id'', JStr (al_capability_id l))] @
           jopt ''produced_by_plan_id'' JStr (al_plan_id l) @ jopt ''produced_by_node_id'' JStr (al_node_id l) @
           jopt ''produced_by_task_id'' JStr (al_task_id l) @
           [(''input_artifact_refs'', jstrs (al_inputs l)), (''output_artifact_refs'', jstrs (al_outputs l))])"

record artifact_write =
  aw_artifact_id :: string
  aw_kind :: string
  aw_title :: "string option"
  aw_summary :: string
  aw_content :: "json option"
  aw_content_type :: "string option"
  aw_path_or_uri :: "string option"
  aw_inputs :: "string list option"
  aw_outputs :: "string list option"
  aw_validation :: "string option"
  aw_redaction :: "string option"
  aw_metadata :: "(string \<times> json) list option"

definition write_summary :: "primitive_context \<Rightarrow> artifact_write \<Rightarrow> string \<Rightarrow> (string \<times> json) list" where
  "write_summary P i created_at =
     [(''artifact_id'', JStr (aw_artifact_id i)), (''kind'', JStr (aw_kind i))] @
     jopt ''title'' JStr (keep_truthy (aw_title i)) @ [(''summary'', JStr (aw_summary i))] @
     jopt ''path_or_uri'' JStr (keep_truthy (aw_path_or_uri i)) @
     [(''created_at'', JStr created_at),
      (''lineage'', lineage_json (create_lineage P (Some (nullish (aw_inputs i) []))
         (Some (nullish (aw_outputs i) [aw_artifact_id i])))),
      (''validation_status'', JStr (nullish (aw_validation i) ''not_applicable'')),
      (''redaction_status'', JStr (nullish (aw_redaction i) ''redacted''))]"

definition store_artifact :: "primitive_context \<Rightarrow> json \<Rightarrow> unit net" where
  "store_artifact P a =
     (\<lambda>w. (case pc_store P a of None \<Rightarrow> Inr () | Some e \<Rightarrow> Inl e, w\<lparr>nw_artifacts := nw_artifacts w @ [a]\<rparr>))"

definition artifact_payload :: "primitive_context \<Rightarrow> artifact_write \<Rightarrow> string \<Rightarrow> json" where
  "artifact_payload P i now =
     JObj (write_summary P i now @ jopt ''content_type'' JStr (keep_truthy (aw_content_type i)) @
           jopt ''content'' (rr_object (pc_redactor P)) (aw_content i) @
           [(''metadata'', rr_object (pc_redactor P) (JObj (nullish (aw_metadata i) [])))])"

definition write_artifact :: "net_clock \<Rightarrow> primitive_context \<Rightarrow> artifact_write \<Rightarrow> (string \<times> json) list net" where
  "write_artifact K P i =
     ebind (net_iso K) (\<lambda>now.
     ethen (\<lambda>w. case store_artifact P (artifact_payload P i now) w of
              (Inl _, w') \<Rightarrow> (Inl (primitive_error ''Artifact write failed.'' PRIMITIVE_ARTIFACT_FAILED), w')
            | r \<Rightarrow> r)
       (ereturn (write_summary P i now)))"

section \<open>Approvals (\<open>approval.ts\<close>)\<close>

record approval_input =
  ai_reason :: string
  ai_risk_level :: string
  ai_side_effect_kind :: string
  ai_capability_ref :: "string option"
  ai_metadata :: "(string \<times> json) list option"

definition approval_request_json ::
    "primitive_context \<Rightarrow> approval_input \<Rightarrow> int \<Rightarrow> string \<Rightarrow> (string \<times> json) list" where
  "approval_request_json P i ms now =
     [(''approval_id'', JStr (''approval_'' @ pc_trace_id P @ ''_'' @ int_str ms)),
      (''capability_ref'', JStr (nullish (ai_capability_ref i) (capability_name_of P))),
      (''pack_id'', JStr (pc_pack_id P)), (''capability_id'', JStr (pc_capability_id P)),
      (''reason'', JStr (ai_reason i)), (''risk_level'', JStr (ai_risk_level i)),
      (''side_effect_kind'', JStr (ai_side_effect_kind i)),
      (''metadata'', rr_object (pc_redactor P) (JObj (nullish (ai_metadata i) []))), (''created_at'', JStr now)]"

definition request_approval :: "net_clock \<Rightarrow> primitive_context \<Rightarrow> approval_input \<Rightarrow> json net" where
  "request_approval K P i =
     ebind (net_now K) (\<lambda>ms. ebind (net_iso K) (\<lambda>now.
       let approval = approval_request_json P i ms now in
       (case pc_approvals P of
          None \<Rightarrow>
            ethen (store_artifact P (JObj ((''kind'', JStr ''approval_request'') # approval)))
              (ereturn (JObj [(''status'', JStr ''requires_approval''), (''request'', JObj approval)]))
        | Some f \<Rightarrow> (\<lambda>w. (f (JObj approval), w)))))"

definition require_for_risk :: "net_clock \<Rightarrow> primitive_context \<Rightarrow> approval_input \<Rightarrow> json option net" where
  "require_for_risk K P i =
     (if ai_risk_level i = ''read'' \<and> ai_side_effect_kind i = ''none'' then ereturn None
      else if ai_reason i = [] then ethrow (primitive_error ''Approval reason is required.'' PRIMITIVE_INVALID_INPUT)
      else ebind (request_approval K P i) (\<lambda>r. ereturn (Some r)))"

end
