(* ===== verification/Sdk_Http.thy ===== *)
theory Sdk_Http
  imports Sdk_Policy
begin

text \<open>
  \<open>primitives/http.ts\<close> of the capability SDK: the check for private hosts, the policy for URLs, the
  loop over redirects and \<open>httpFetch\<close>.

  Parsing and resolving URLs (the WHATWG \<open>URL\<close> class), name lookup, the request itself and
  the decoding of bytes are the platform's and belong to the host; the n-th lookup and the n-th
  request may answer differently each time. Bytes are characters.
\<close>

section \<open>Private hosts\<close>

text \<open>\<open>Number.parseInt(s, 10)\<close>, \<open>None\<close> for NaN.\<close>

definition decimal_value :: "string \<Rightarrow> nat" where
  "decimal_value ds = foldl (\<lambda>n c. 10 * n + (of_char c - 48)) 0 ds"

definition parse_int :: "string \<Rightarrow> int option" where
  "parse_int s =
     (let t = dropWhile is_space s;
          negative = starts_with t ''-'';
          u = (if negative \<or> starts_with t ''+'' then tl t else t);
          ds = takeWhile is_digit u
      in if ds = [] then None
         else Some (if negative then - int (decimal_value ds) else int (decimal_value ds)))"

text \<open>\<open>hostname.toLowerCase().replace(/^\[|\]$/g, "")\<close>\<close>

definition normalized_host :: "string \<Rightarrow> string" where
  "normalized_host hostname =
     (let h = to_lower hostname;
          h = (if starts_with h ''['' then tl h else h)
      in if ends_with h '']'' then butlast h else h)"

text \<open>\<open>/^::ffff:(\d+\.\d+\.\d+\.\d+)$/\<close>\<close>

definition dotted_quad :: "string \<Rightarrow> bool" where
  "dotted_quad s =
     (let ps = split_on CHR ''.'' s in length ps = 4 \<and> list_all (\<lambda>p. p \<noteq> [] \<and> list_all is_digit p) ps)"

definition mapped_ipv4 :: "string \<Rightarrow> string option" where
  "mapped_ipv4 host =
     (if starts_with host ''::ffff:'' \<and> dotted_quad (drop 7 host) then Some (drop 7 host) else None)"

definition private_octets :: "int option list \<Rightarrow> bool" where
  "private_octets parts =
     (case parts of
        [Some a, Some b, Some c, Some d] \<Rightarrow>
          list_all (\<lambda>p. 0 \<le> p \<and> p \<le> 255) [a, b, c, d] \<and>
          (a = 10 \<or> a = 127 \<or> a = 0 \<or> a = 169 \<and> b = 254 \<or> a = 192 \<and> b = 168 \<or>
           a = 172 \<and> 16 \<le> b \<and> b \<le> 31)
      | _ \<Rightarrow> False)"

lemma mapped_ipv4_shorter: "mapped_ipv4 h = Some m \<Longrightarrow> length m < length h"
  by (auto simp: mapped_ipv4_def starts_with_iff split: if_splits)

lemma normalized_host_length: "length (normalized_host h) \<le> length h"
  by (auto simp: normalized_host_def Let_def to_lower_def)

function is_local_or_private_host :: "string \<Rightarrow> bool" where
  "is_local_or_private_host hostname =
     (let host = normalized_host hostname in
      if host = ''localhost'' \<or> ends_with host ''.localhost'' \<or> host = ''::1'' \<or> host = ''0:0:0:0:0:0:0:1''
      then True
      else if starts_with host ''fc'' \<or> starts_with host ''fd'' \<or> starts_with host ''fe80:'' then True
      else (case mapped_ipv4 host of
              Some m \<Rightarrow> is_local_or_private_host m
            | None \<Rightarrow>
                if CHR '':'' \<in> set host then False
                else private_octets (map parse_int (split_on CHR ''.'' host))))"
  by pat_completeness auto
termination
proof (relation "measure length")
  fix hostname host m
  assume "host = normalized_host hostname" and "mapped_ipv4 host = Some m"
  then show "(m, hostname) \<in> measure length"
    using mapped_ipv4_shorter [of host m] normalized_host_length [of hostname] by simp
qed simp

declare is_local_or_private_host.simps [simp del]

section \<open>Requests\<close>

record http_auth =
  ha_header :: "string option"
  ha_scheme :: "string option"
  ha_secret_ref :: secret_ref

record fetch_input =
  hf_url :: string
  hf_method :: "string option"
  hf_headers :: "(string \<times> string) list option"
  hf_body :: "string option"
  hf_timeout_ms :: "int option"
  hf_max_bytes :: "int option"
  hf_redirect_limit :: "int option"
  hf_allowed_hosts :: "string list option"
  hf_denied_hosts :: "string list option"
  hf_accepted_types :: "string list option"
  hf_auth :: "http_auth option"
  hf_capture :: "bool option"
  hf_artifact_id :: "string option"
  hf_artifact_kind :: "string option"
  hf_artifact_metadata :: "(string \<times> json) list option"
  hf_allow_cookies :: "bool option"

record http_response =
  hs_status :: int
  hs_headers :: "(string \<times> string) list"
  hs_body :: string
  hs_url :: string

datatype fetch_outcome = Fetch_response http_response | Fetch_aborted | Fetch_failed thrown

record net_host =
  nh_clock :: net_clock
  nh_url :: "string \<Rightarrow> http_url option"
  nh_resolve :: "string \<Rightarrow> http_url \<Rightarrow> http_url option"
  nh_lookup :: "nat \<Rightarrow> string \<Rightarrow> thrown + string list"
  nh_fetch :: "nat \<Rightarrow> http_request \<Rightarrow> fetch_outcome"
  nh_read_body :: "http_response \<Rightarrow> thrown option"
  nh_decode :: "string \<Rightarrow> string"

definition invalid_url :: thrown where
  "invalid_url = primitive_error ''HTTP primitive received an invalid URL.'' PRIMITIVE_INVALID_INPUT"

definition policy_denied :: "string \<Rightarrow> thrown" where
  "policy_denied reason = primitive_error reason PRIMITIVE_POLICY_DENIED"

definition parse_allowed_url :: "net_host \<Rightarrow> string \<Rightarrow> http_url net" where
  "parse_allowed_url N value =
     ebind (of_option invalid_url (nh_url N value)) (\<lambda>u.
     if ur_protocol u \<noteq> ''http:'' \<and> ur_protocol u \<noteq> ''https:''
     then ethrow (policy_denied ''HTTP primitive only allows http and https URLs.'')
     else ereturn u)"

definition allowed_methods :: "primitive_context \<Rightarrow> string list" where
  "allowed_methods P = uniq (nullish (np_http_methods (pc_policy P)) [] @ pm_http_methods (pc_limits P))"

definition enforce_method :: "primitive_context \<Rightarrow> string \<Rightarrow> unit net" where
  "enforce_method P method =
     (if method \<notin> set (allowed_methods P)
      then ethrow (policy_denied (''HTTP method '' @ method @ '' is not allowed for this capability.''))
      else ereturn ())"

definition network_input_for ::
    "string list option \<Rightarrow> string list option \<Rightarrow> http_url \<Rightarrow> string \<Rightarrow> bool \<Rightarrow> network_input" where
  "network_input_for allowed refused u method private =
     \<lparr>ni_method = method, ni_host = ur_hostname u, ni_allowed_hosts = allowed, ni_denied_hosts = refused,
      ni_is_private = private\<rparr>"

definition evaluate_url_policy ::
    "net_host \<Rightarrow> primitive_context \<Rightarrow> string list option \<Rightarrow> string list option \<Rightarrow> http_url \<Rightarrow> string
      \<Rightarrow> net_report net" where
  "evaluate_url_policy N P allowed refused u method =
     evaluate_network (nh_clock N) P
       (network_input_for allowed refused u method (is_local_or_private_host (ur_hostname u)))"

definition require_url_policy ::
    "net_host \<Rightarrow> primitive_context \<Rightarrow> string list option \<Rightarrow> string list option \<Rightarrow> http_url \<Rightarrow> string
      \<Rightarrow> net_report net" where
  "require_url_policy N P allowed refused u method =
     ebind (evaluate_url_policy N P allowed refused u method) (\<lambda>r.
     if nr_decision r = Decision_deny then ethrow (policy_denied (nr_reason r)) else ereturn r)"

definition look_up :: "net_host \<Rightarrow> string \<Rightarrow> string list net" where
  "look_up N host =
     (\<lambda>w. case nh_lookup N (length (nw_lookups w)) host of
            Inl e \<Rightarrow> (Inl e, w\<lparr>nw_lookups := nw_lookups w @ [(host, [])]\<rparr>)
          | Inr as \<Rightarrow> (Inr as, w\<lparr>nw_lookups := nw_lookups w @ [(host, as)]\<rparr>))"

text \<open>The report for a private address is asked of the policy again, without the host lists of the
  request, and its reason is thrown.\<close>

definition throw_private :: "net_host \<Rightarrow> primitive_context \<Rightarrow> http_url \<Rightarrow> string \<Rightarrow> unit net" where
  "throw_private N P u method =
     ebind (evaluate_network (nh_clock N) P (network_input_for None None u method True)) (\<lambda>r.
     ethrow (policy_denied (nr_reason r)))"

definition assert_dns_policy :: "net_host \<Rightarrow> primitive_context \<Rightarrow> http_url \<Rightarrow> string \<Rightarrow> unit net" where
  "assert_dns_policy N P u method =
     (if pc_custom_fetch P then ereturn ()
      else if private_network_allowed P then ereturn ()
      else
        (let host = normalized_host (ur_hostname u) in
         if is_local_or_private_host host then throw_private N P u method
         else ebind (look_up N host) (\<lambda>addresses.
                if list_ex is_local_or_private_host addresses then throw_private N P u method
                else ereturn ())))"

definition strip_sensitive_headers :: "(string \<times> string) list \<Rightarrow> (string \<times> string) list" where
  "strip_sensitive_headers hs =
     filter (\<lambda>(k, _). to_lower k \<notin> {''authorization'', ''cookie'', ''proxy-authorization'', ''x-api-key''}) hs"

definition send :: "net_host \<Rightarrow> http_request \<Rightarrow> fetch_outcome net" where
  "send N q =
     (\<lambda>w. (Inr (nh_fetch N (length (nw_requests w)) q), w\<lparr>nw_requests := nw_requests w @ [q]\<rparr>))"

record redirect_input =
  hr_method :: string
  hr_allowed_hosts :: "string list option"
  hr_denied_hosts :: "string list option"
  hr_body :: "string option"
  hr_timeout_ms :: int
  hr_redirect_limit :: int

definition redirect_location :: "http_response \<Rightarrow> string option" where
  "redirect_location r =
     (if 300 \<le> hs_status r \<and> hs_status r < 400 then keep_truthy (map_of (hs_headers r) ''location'') else None)"

text \<open>\<open>fetchWithRedirects\<close>: the turns the loop has left, the URL and the headers of the next request. An
  error of \<open>new URL\<close> or of the policy inside the loop leaves it, as any error but an abort does.\<close>

primrec redirect_loop ::
    "net_host \<Rightarrow> primitive_context \<Rightarrow> redirect_input \<Rightarrow> nat \<Rightarrow> http_url \<Rightarrow> (string \<times> string) list
      \<Rightarrow> http_response net" where
  "redirect_loop N P i 0 u hs = ethrow (policy_denied ''HTTP redirect limit exceeded.'')"
| "redirect_loop N P i (Suc turns) u hs =
     ethen (assert_dns_policy N P u (hr_method i))
    (ebind (send N \<lparr>hq_url = u, hq_method = hr_method i, hq_headers = hs, hq_body = hr_body i\<rparr>) (\<lambda>outcome.
       case outcome of
         Fetch_aborted \<Rightarrow> ethrow (primitive_error ''HTTP request timed out.'' PRIMITIVE_TIMEOUT)
       | Fetch_failed e \<Rightarrow> ethrow e
       | Fetch_response r \<Rightarrow>
           (case redirect_location r of
              None \<Rightarrow> ereturn r
            | Some location \<Rightarrow>
                ebind (of_option (Plain_error ''Invalid URL'') (nh_resolve N location u)) (\<lambda>v.
                ebind (parse_allowed_url N (ur_href v)) (\<lambda>_.
                ebind (require_url_policy N P (hr_allowed_hosts i) (hr_denied_hosts i) v (hr_method i)) (\<lambda>_.
                redirect_loop N P i turns v
                  (if ur_origin v \<noteq> ur_origin u then strip_sensitive_headers hs else hs)))))))"

definition fetch_with_redirects ::
    "net_host \<Rightarrow> primitive_context \<Rightarrow> http_url \<Rightarrow> redirect_input \<Rightarrow> (string \<times> string) list \<Rightarrow> http_response net" where
  "fetch_with_redirects N P u i hs = redirect_loop N P i (nat (hr_redirect_limit i + 1)) u hs"

section \<open>\<open>httpFetch\<close>\<close>

record fetch_result =
  fr_url :: string
  fr_status :: int
  fr_ok :: bool
  fr_headers :: "(string \<times> string) list"
  fr_text :: string
  fr_bytes :: string
  fr_policy_report :: net_report
  fr_artifact_id :: "string option"

definition response_ok :: "http_response \<Rightarrow> bool" where
  "response_ok r = (200 \<le> hs_status r \<and> hs_status r \<le> 299)"

definition enforce_content_type :: "fetch_input \<Rightarrow> http_response \<Rightarrow> unit net" where
  "enforce_content_type i r =
     (let accepted = nullish (hf_accepted_types i) [];
          content_type = nullish (map_of (hs_headers r) ''content-type'') []
      in if accepted = [] \<or> list_ex (\<lambda>a. str_includes (to_lower content_type) (to_lower a)) accepted
         then ereturn ()
         else ethrow (policy_denied ''HTTP response content type is not accepted.''))"

definition request_headers :: "primitive_context \<Rightarrow> fetch_input \<Rightarrow> (string \<times> string) list net" where
  "request_headers P i =
     ebind (case hf_auth i of
              None \<Rightarrow> ereturn (nullish (hf_headers i) [])
            | Some a \<Rightarrow>
                ebind (resolve_ref P (ha_secret_ref a)) (\<lambda>secret.
                ereturn (AList.update (nullish (ha_header a) ''Authorization'')
                  (nullish (ha_scheme a) ''Bearer'' @ '' '' @ secret) (nullish (hf_headers i) [])))) (\<lambda>hs.
     ereturn (if hf_allow_cookies i = Some True then hs
              else filter (\<lambda>(k, _). to_lower k \<noteq> ''cookie'') hs))"

definition captured_artifact_id :: "net_host \<Rightarrow> primitive_context \<Rightarrow> fetch_input \<Rightarrow> string option net" where
  "captured_artifact_id N P i =
     (if hf_capture i = Some True then
        (case hf_artifact_id i of
           Some a \<Rightarrow> ereturn (keep_truthy (Some a))
         | None \<Rightarrow> ebind (net_now (nh_clock N)) (\<lambda>ms.
             ereturn (Some (''http_'' @ pc_trace_id P @ ''_'' @ int_str ms))))
      else ereturn None)"

definition headers_json :: "(string \<times> string) list \<Rightarrow> json" where
  "headers_json hs = JObj (map (\<lambda>(k, v). (k, JStr v)) hs)"

definition captured_artifact :: "fetch_input \<Rightarrow> http_url \<Rightarrow> http_response \<Rightarrow> string \<Rightarrow> string \<Rightarrow> artifact_write" where
  "captured_artifact i u r body a =
     \<lparr>aw_artifact_id = a, aw_kind = nullish (hf_artifact_kind i) ''http_response'', aw_title = None,
      aw_summary = ''HTTP '' @ int_str (hs_status r) @ '' '' @ ur_hostname u, aw_content = Some (JStr body),
      aw_content_type = Some (nullish (map_of (hs_headers r) ''content-type'') ''text/plain''),
      aw_path_or_uri = None, aw_inputs = None, aw_outputs = None,
      aw_validation = Some (if response_ok r then ''pass'' else ''fail''), aw_redaction = Some ''redacted'',
      aw_metadata = Some (fold (\<lambda>(k, v). AList.update k v)
        [(''url'', JStr (ur_href u)),
         (''final_url'', JStr (if hs_url r = [] then ur_href u else hs_url r)),
         (''status'', JNum (hs_status r)), (''headers'', headers_json (hs_headers r))]
        (nullish (hf_artifact_metadata i) []))\<rparr>"

text \<open>What is done with the last response.\<close>

definition finish_fetch ::
    "net_host \<Rightarrow> primitive_context \<Rightarrow> fetch_input \<Rightarrow> http_url \<Rightarrow> net_report \<Rightarrow> http_response \<Rightarrow> fetch_result net" where
  "finish_fetch N P i u report r =
     ethen (enforce_content_type i r)
    (ethen (case nh_read_body N r of None \<Rightarrow> ereturn () | Some e \<Rightarrow> ethrow e)
    (if int (length (hs_body r)) > nullish (hf_max_bytes i) (pm_max_bytes (pc_limits P))
     then ethrow (primitive_error ''HTTP response exceeded max_bytes.'' PRIMITIVE_RESPONSE_TOO_LARGE)
     else
       ebind (captured_artifact_id N P i) (\<lambda>a.
       ethen (case a of
                None \<Rightarrow> ereturn ()
              | Some a \<Rightarrow>
                  ebind (write_artifact (nh_clock N) P (captured_artifact i u r (nh_decode N (hs_body r)) a))
                    (\<lambda>_. ereturn ()))
         (ereturn
            \<lparr>fr_url = ur_href u, fr_status = hs_status r, fr_ok = response_ok r,
             fr_headers = rr_headers (pc_redactor P) (hs_headers r),
             fr_text = rr_text (pc_redactor P) (nh_decode N (hs_body r)), fr_bytes = hs_body r,
             fr_policy_report = report, fr_artifact_id = a\<rparr>))))"

definition redirect_input_of :: "primitive_context \<Rightarrow> fetch_input \<Rightarrow> redirect_input" where
  "redirect_input_of P i =
     \<lparr>hr_method = nullish (hf_method i) ''GET'', hr_allowed_hosts = hf_allowed_hosts i,
      hr_denied_hosts = hf_denied_hosts i, hr_body = hf_body i,
      hr_timeout_ms = nullish (hf_timeout_ms i) (pm_timeout_ms (pc_limits P)),
      hr_redirect_limit = nullish (hf_redirect_limit i) (pm_redirect_limit (pc_limits P))\<rparr>"

definition http_fetch :: "net_host \<Rightarrow> primitive_context \<Rightarrow> fetch_input \<Rightarrow> fetch_result net" where
  "http_fetch N P i =
     ebind (parse_allowed_url N (hf_url i)) (\<lambda>u.
     let method = nullish (hf_method i) ''GET'' in
     ethen (enforce_method P method)
    (ebind (require_url_policy N P (hf_allowed_hosts i) (hf_denied_hosts i) u method) (\<lambda>report.
     ebind (request_headers P i) (\<lambda>hs.
     ebind (fetch_with_redirects N P u (redirect_input_of P i) hs) (\<lambda>r.
     finish_fetch N P i u report r)))))"

text \<open>\<open>fetchJson\<close>: the redacted text is what is parsed.\<close>

definition fetch_json :: "(string \<Rightarrow> json option) \<Rightarrow> net_host \<Rightarrow> primitive_context \<Rightarrow> fetch_input \<Rightarrow> json net" where
  "fetch_json parse N P i =
     ebind (http_fetch N P (i\<lparr>hf_accepted_types :=
         Some (nullish (hf_accepted_types i) [''application/json'', ''application/problem+json''])\<rparr>)) (\<lambda>r.
     of_option (Plain_error ''Unexpected token in JSON'') (parse (fr_text r)))"

definition download_to_artifact :: "net_host \<Rightarrow> primitive_context \<Rightarrow> fetch_input \<Rightarrow> fetch_result net" where
  "download_to_artifact N P i =
     http_fetch N P (i\<lparr>hf_capture := Some True,
                       hf_artifact_kind := Some (nullish (hf_artifact_kind i) ''download'')\<rparr>)"

end
