(* ===== verification/Sdk_Http_Safety.thy ===== *)
theory Sdk_Http_Safety
  imports Sdk_Http
begin

text \<open>
  Where the HTTP primitive can send requests to, and what its check for private hosts recognises.
\<close>

section \<open>What a request must satisfy\<close>

definition http_protocol :: "http_url \<Rightarrow> bool" where
  "http_protocol u = (ur_protocol u = ''http:'' \<or> ur_protocol u = ''https:'')"

definition host_permitted :: "primitive_context \<Rightarrow> string list option \<Rightarrow> string list option \<Rightarrow> http_url \<Rightarrow> bool" where
  "host_permitted P allowed refused u =
     (ur_hostname u \<notin> set (denied_hosts_of P refused) \<and>
      (allowed_hosts_of P allowed = [] \<or> ur_hostname u \<in> set (allowed_hosts_of P allowed)) \<and>
      (private_network_allowed P \<or> \<not> is_local_or_private_host (ur_hostname u)))"

text \<open>The address is one the caller may reach: the caller's own fetch decides, private networks are open, or
  the name was looked up and no address of it is private.\<close>

definition address_checked :: "primitive_context \<Rightarrow> net_world \<Rightarrow> http_url \<Rightarrow> bool" where
  "address_checked P w u =
     (pc_custom_fetch P \<or> private_network_allowed P \<or>
      (\<exists>as. (normalized_host (ur_hostname u), as) \<in> set (nw_lookups w) \<and>
            \<not> list_ex is_local_or_private_host as))"

definition speaks_http :: "net_host \<Rightarrow> http_url \<Rightarrow> bool" where
  "speaks_http N u = (http_protocol u \<or> (\<exists>v. nh_url N (ur_href u) = Some v \<and> http_protocol v))"

definition no_credentials :: "(string \<times> string) list \<Rightarrow> bool" where
  "no_credentials hs =
     list_all (\<lambda>(k, _). to_lower k \<notin> {''authorization'', ''cookie'', ''proxy-authorization'', ''x-api-key''}) hs"

definition request_permitted ::
    "net_host \<Rightarrow> primitive_context \<Rightarrow> string list option \<Rightarrow> string list option \<Rightarrow> net_world \<Rightarrow> http_request \<Rightarrow> bool" where
  "request_permitted N P allowed refused w q =
     (hq_method q \<in> set (allowed_methods P) \<and> host_permitted P allowed refused (hq_url q) \<and>
      address_checked P w (hq_url q) \<and> speaks_http N (hq_url q))"

section \<open>The steps\<close>

lemma net_iso_inr: "net_iso K w = (Inr (nc_iso K (nc_ms K (nw_clock w))), w\<lparr>nw_clock := Suc (nw_clock w)\<rparr>)"
  by (simp add: net_iso_def net_now_def ebind_run)

lemma base_report_run:
  "\<exists>r. base_report K P d risk kind rules missing approvals reason w = (Inr r, w\<lparr>nw_clock := Suc (nw_clock w)\<rparr>) \<and>
     nr_decision r = d"
  by (simp add: base_report_def ebind_run net_iso_inr)

lemma evaluate_network_run:
  "\<exists>r. evaluate_network K P i w = (Inr r, w\<lparr>nw_clock := Suc (nw_clock w)\<rparr>) \<and>
     (nr_decision r \<noteq> Decision_deny \<longleftrightarrow>
        ni_host i \<notin> set (denied_hosts_of P (ni_denied_hosts i)) \<and>
        (allowed_hosts_of P (ni_allowed_hosts i) = [] \<or> ni_host i \<in> set (allowed_hosts_of P (ni_allowed_hosts i))) \<and>
        (private_network_allowed P \<or> \<not> ni_is_private i))"
  by (auto simp add: evaluate_network_def Let_def base_report_def ebind_run net_iso_inr)

lemma require_url_policy_run:
  "\<exists>r. require_url_policy N P allowed refused u method w =
     (if host_permitted P allowed refused u then Inr r else Inl (policy_denied (nr_reason r)),
      w\<lparr>nw_clock := Suc (nw_clock w)\<rparr>)"
proof -
  obtain r where "evaluate_url_policy N P allowed refused u method w = (Inr r, w\<lparr>nw_clock := Suc (nw_clock w)\<rparr>)"
    and "nr_decision r \<noteq> Decision_deny \<longleftrightarrow> host_permitted P allowed refused u"
    using evaluate_network_run [of "nh_clock N" P _ w]
    unfolding evaluate_url_policy_def host_permitted_def network_input_for_def by fastforce
  then show ?thesis by (intro exI [of _ r]) (simp add: require_url_policy_def ebind_run)
qed

lemma throw_private_run:
  "\<exists>e. throw_private N P u method w = (Inl e, w\<lparr>nw_clock := Suc (nw_clock w)\<rparr>)"
proof -
  obtain r where "evaluate_network (nh_clock N) P (network_input_for None None u method True) w =
      (Inr r, w\<lparr>nw_clock := Suc (nw_clock w)\<rparr>)"
    using evaluate_network_run by blast
  then show ?thesis by (simp add: throw_private_def ebind_run)
qed

text \<open>The check of the address sends nothing; when it passes the address is checked.\<close>

lemma assert_dns_policy_run:
  assumes "assert_dns_policy N P u method w = (res, w')"
  shows "nw_requests w' = nw_requests w" and "set (nw_lookups w) \<subseteq> set (nw_lookups w')"
    and "res = Inr () \<Longrightarrow> address_checked P w' u"
proof -
  obtain e where priv: "throw_private N P u method w1 = (Inl (e w1), w1\<lparr>nw_clock := Suc (nw_clock w1)\<rparr>)" for w1
    using throw_private_run by metis
  note defs = assert_dns_policy_def address_checked_def look_up_def ebind_run Let_def priv
  show "nw_requests w' = nw_requests w" "set (nw_lookups w) \<subseteq> set (nw_lookups w')"
    "res = Inr () \<Longrightarrow> address_checked P w' u"
    using assms by (auto simp: defs split: if_splits sum.splits)
qed

lemma strip_no_credentials: "no_credentials (strip_sensitive_headers hs)"
  by (auto simp: no_credentials_def strip_sensitive_headers_def list_all_iff)

section \<open>The loop\<close>

lemma address_checked_mono:
  "address_checked P w u \<Longrightarrow> set (nw_lookups w) \<subseteq> set (nw_lookups w') \<Longrightarrow> address_checked P w' u"
  by (auto simp: address_checked_def)

lemma request_permitted_mono:
  "request_permitted N P a d w q \<Longrightarrow> set (nw_lookups w) \<subseteq> set (nw_lookups w') \<Longrightarrow> request_permitted N P a d w' q"
  by (auto simp: request_permitted_def intro: address_checked_mono)

text \<open>The requests of a run of the loop: at most as many as it has turns, all permitted, and with
  credentials only to the origin \<open>o1\<close> they were meant for.\<close>

definition requests_between ::
    "net_host \<Rightarrow> primitive_context \<Rightarrow> string list option \<Rightarrow> string list option \<Rightarrow> string \<Rightarrow> nat
      \<Rightarrow> net_world \<Rightarrow> net_world \<Rightarrow> bool" where
  "requests_between N P allowed refused o1 limit w w' =
     (set (nw_lookups w) \<subseteq> set (nw_lookups w') \<and>
      (\<exists>new. nw_requests w' = nw_requests w @ new \<and> length new \<le> limit \<and>
         list_all (\<lambda>q. request_permitted N P allowed refused w' q \<and>
                       (ur_origin (hq_url q) = o1 \<or> no_credentials (hq_headers q))) new))"

lemma requests_between_none:
  "nw_requests w' = nw_requests w \<Longrightarrow> set (nw_lookups w) \<subseteq> set (nw_lookups w') \<Longrightarrow>
     requests_between N P a d o1 n w w'"
  by (simp add: requests_between_def)

lemma requests_between_step:
  assumes "nw_requests w1 = nw_requests w @ [q]" and "set (nw_lookups w) \<subseteq> set (nw_lookups w1)"
    and "request_permitted N P a d w1 q" and "ur_origin (hq_url q) = o1 \<or> no_credentials (hq_headers q)"
    and "requests_between N P a d o1 n w1 w2"
  shows "requests_between N P a d o1 (Suc n) w w2"
proof -
  obtain new where "nw_requests w2 = nw_requests w1 @ new" "length new \<le> n"
      "list_all (\<lambda>q. request_permitted N P a d w2 q \<and> (ur_origin (hq_url q) = o1 \<or> no_credentials (hq_headers q))) new"
    and l: "set (nw_lookups w1) \<subseteq> set (nw_lookups w2)"
    using assms(5) unfolding requests_between_def by blast
  then show ?thesis
    using assms(1,2,4) request_permitted_mono [OF assms(3) l]
    by (auto simp: requests_between_def intro!: exI [of _ "q # new"])
qed

lemma redirect_loop_safe:
  assumes "redirect_loop N P i turns u hs w = (res, w')"
    and "hr_method i \<in> set (allowed_methods P)" and "host_permitted P (hr_allowed_hosts i) (hr_denied_hosts i) u"
    and "speaks_http N u" and "ur_origin u = o1 \<or> no_credentials hs"
  shows "requests_between N P (hr_allowed_hosts i) (hr_denied_hosts i) o1 turns w w'"
  using assms
proof (induction turns arbitrary: u hs w)
  case 0
  then show ?case by (simp add: requests_between_none)
next
  case (Suc turns)
  let ?q = "\<lparr>hq_url = u, hq_method = hr_method i, hq_headers = hs, hq_body = hr_body i\<rparr>"
  obtain x w1 where dns: "assert_dns_policy N P u (hr_method i) w = (x, w1)"
    by (cases "assert_dns_policy N P u (hr_method i) w")
  note d = assert_dns_policy_run [OF dns]
  show ?case
  proof (cases x)
    case (Inl e)
    then show ?thesis using Suc.prems(1) dns d(1,2) by (simp add: ethen_run requests_between_none)
  next
    case (Inr t)
    let ?w2 = "w1\<lparr>nw_requests := nw_requests w1 @ [?q]\<rparr>"
    have q: "request_permitted N P (hr_allowed_hosts i) (hr_denied_hosts i) ?w2 ?q"
      using Suc.prems(2-4) d(3) Inr by (simp add: request_permitted_def address_checked_def)
    have step: "requests_between N P (hr_allowed_hosts i) (hr_denied_hosts i) o1 (Suc turns) w w'"
      if "requests_between N P (hr_allowed_hosts i) (hr_denied_hosts i) o1 turns ?w2 w'"
      by (rule requests_between_step [OF _ _ q _ that]) (use d(1,2) Suc.prems(5) in simp_all)
    have quiet: "requests_between N P (hr_allowed_hosts i) (hr_denied_hosts i) o1 (Suc turns) w w'"
      if "w' = ?w2\<lparr>nw_clock := k\<rparr>" for k
      by (rule step, rule requests_between_none) (use that in simp_all)
    have run: "redirect_loop N P i (Suc turns) u hs w =
      (case nh_fetch N (length (nw_requests w1)) ?q of
         Fetch_aborted \<Rightarrow> (Inl (primitive_error ''HTTP request timed out.'' PRIMITIVE_TIMEOUT), ?w2)
       | Fetch_failed e \<Rightarrow> (Inl e, ?w2)
       | Fetch_response r \<Rightarrow>
           (case redirect_location r of
              None \<Rightarrow> ereturn r
            | Some location \<Rightarrow>
                ebind (of_option (Plain_error ''Invalid URL'') (nh_resolve N location u)) (\<lambda>v.
                ebind (parse_allowed_url N (ur_href v)) (\<lambda>_.
                ebind (require_url_policy N P (hr_allowed_hosts i) (hr_denied_hosts i) v (hr_method i)) (\<lambda>_.
                redirect_loop N P i turns v
                  (if ur_origin v \<noteq> ur_origin u then strip_sensitive_headers hs else hs))))) ?w2)"
      using dns Inr by (simp add: ethen_run ebind_run send_def split: fetch_outcome.splits)
    have same: "w' = ?w2\<lparr>nw_clock := nw_clock ?w2\<rparr>" if "w' = ?w2" using that by simp
    show ?thesis
    proof (cases "nh_fetch N (length (nw_requests w1)) ?q")
      case (Fetch_response r)
      show ?thesis
      proof (cases "redirect_location r")
        case None
        with Fetch_response show ?thesis using Suc.prems(1) quiet [OF same] unfolding run by simp
      next
        case (Some location)
        show ?thesis
        proof (cases "nh_resolve N location u")
          case None
          with Fetch_response Some show ?thesis
            using Suc.prems(1) quiet [OF same] unfolding run by (simp add: ebind_run)
        next
          case (Some v)
          note res = Suc.prems(1) [unfolded run, unfolded Fetch_response fetch_outcome.case
            \<open>redirect_location r = Some location\<close> option.case Some of_option_simps]
          let ?hs = "if ur_origin v \<noteq> ur_origin u then strip_sensitive_headers hs else hs"
          show ?thesis
          proof (cases "\<exists>v'. nh_url N (ur_href v) = Some v' \<and> http_protocol v'")
            case False
            then have "w' = ?w2"
              using res by (auto simp: ebind_run parse_allowed_url_def of_option_def http_protocol_def split: option.splits if_splits)
            then show ?thesis using quiet [OF same] by simp
          next
            case True
            then obtain v' where v': "nh_url N (ur_href v) = Some v'" "http_protocol v'" by blast
            then have "parse_allowed_url N (ur_href v) ?w2 = (Inr v', ?w2)"
              by (auto simp: parse_allowed_url_def ebind_run http_protocol_def)
            moreover obtain rep where rep: "require_url_policy N P (hr_allowed_hosts i) (hr_denied_hosts i) v (hr_method i) ?w2 =
                (if host_permitted P (hr_allowed_hosts i) (hr_denied_hosts i) v then Inr rep
                 else Inl (policy_denied (nr_reason rep)), ?w2\<lparr>nw_clock := Suc (nw_clock ?w2)\<rparr>)"
              using require_url_policy_run by blast
            ultimately have res2: "(if host_permitted P (hr_allowed_hosts i) (hr_denied_hosts i) v
                then redirect_loop N P i turns v ?hs (?w2\<lparr>nw_clock := Suc (nw_clock ?w2)\<rparr>)
                else (Inl (policy_denied (nr_reason rep)), ?w2\<lparr>nw_clock := Suc (nw_clock ?w2)\<rparr>)) = (res, w')"
              using res by (simp add: ebind_run split: if_splits)
            show ?thesis
            proof (cases "host_permitted P (hr_allowed_hosts i) (hr_denied_hosts i) v")
              case False
              with res2 have "w' = ?w2\<lparr>nw_clock := Suc (nw_clock ?w2)\<rparr>" by simp
              then show ?thesis by (rule quiet)
            next
              case True
              have "ur_origin v = o1 \<or> no_credentials ?hs"
                using Suc.prems(5) strip_no_credentials by auto
              moreover have "speaks_http N v" using v' by (auto simp: speaks_http_def)
              ultimately have "requests_between N P (hr_allowed_hosts i) (hr_denied_hosts i) o1 turns
                  (?w2\<lparr>nw_clock := Suc (nw_clock ?w2)\<rparr>) w'"
                using Suc.IH [OF _ Suc.prems(2) True] res2 True by simp
              then have "requests_between N P (hr_allowed_hosts i) (hr_denied_hosts i) o1 turns ?w2 w'"
                by (simp add: requests_between_def)
              then show ?thesis by (rule step)
            qed
          qed
        qed
      qed
    qed (use Suc.prems(1) quiet [OF same] run in simp_all)
  qed
qed

section \<open>\<open>httpFetch\<close>\<close>

lemma keeps_quiet [keeps_intros]:
  "keeps nw_requests (net_now K)" "keeps nw_lookups (net_now K)"
  "keeps nw_requests (net_iso K)" "keeps nw_lookups (net_iso K)"
  "keeps nw_requests (store_artifact P a)" "keeps nw_lookups (store_artifact P a)"
  "keeps nw_requests (resolve_ref P s)" "keeps nw_lookups (resolve_ref P s)"
  by (simp_all add: keeps_def net_now_def net_iso_def ebind_run store_artifact_def resolve_ref_def
      split: option.splits)

lemma keeps_write_artifact [keeps_intros]:
  "keeps nw_requests (write_artifact K P i)" "keeps nw_lookups (write_artifact K P i)"
  by (auto simp: keeps_def write_artifact_def ebind_run ethen_run net_iso_inr store_artifact_def
      split: option.splits)

lemma keeps_finish_fetch:
  "keeps nw_requests (finish_fetch N P i u rep r)" "keeps nw_lookups (finish_fetch N P i u rep r)"
  unfolding finish_fetch_def enforce_content_type_def captured_artifact_id_def Let_def
  by (intro keeps_intros)+

lemma keeps_request_headers:
  "keeps nw_requests (request_headers P i)" "keeps nw_lookups (request_headers P i)"
  unfolding request_headers_def Let_def by (intro keeps_intros)+

text \<open>C19: Whatever URL, headers and options httpFetch is given and however the servers, the redirects
  and the name lookups answer, and whether it returns or throws: it sends at most one request more
  than the redirect limit; each uses a method the context allows and http or https, and goes to a
  host that is not denied and is on the allowed list when there is one. Unless private networks are open,
  the host name is not recognised as private, and, unless the caller brings its own fetch either, the name was
  looked up and no address of that answer is recognised as private. What is recognised is a syntactic check: an
  IPv4 address mapped into IPv6 in hexadecimal groups, as in [::ffff:7f00:1], is not (hex_mapped_loopback_passes).
  No request to another origin than that of the given URL carries one of the four headers authorization,
  cookie, proxy-authorization and x-api-key; a secret under any other header name is not covered.\<close>
theorem http_requests_confined:
  "case http_fetch N P i w of (_, w') \<Rightarrow>
     (case nh_url N (hf_url i) of
        None \<Rightarrow> w' = w
      | Some u \<Rightarrow>
          requests_between N P (hf_allowed_hosts i) (hf_denied_hosts i) (ur_origin u)
            (nat (nullish (hf_redirect_limit i) (pm_redirect_limit (pc_limits P)) + 1)) w w')"
proof -
  obtain res w' where run: "http_fetch N P i w = (res, w')" by (cases "http_fetch N P i w")
  show ?thesis
  proof (cases "nh_url N (hf_url i)")
    case None
    then show ?thesis by (simp add: http_fetch_def ebind_run parse_allowed_url_def)
  next
    case (Some u)
    note u = Some
    let ?m = "nullish (hf_method i) ''GET''"
    let ?between = "requests_between N P (hf_allowed_hosts i) (hf_denied_hosts i) (ur_origin u)
        (nat (nullish (hf_redirect_limit i) (pm_redirect_limit (pc_limits P)) + 1)) w"
    have "?between w'"
    proof (cases "http_protocol u \<and> ?m \<in> set (allowed_methods P) \<and>
        host_permitted P (hf_allowed_hosts i) (hf_denied_hosts i) u")
      case False
      have "nw_requests w' = nw_requests w \<and> nw_lookups w' = nw_lookups w"
        using run False u require_url_policy_run [of N P "hf_allowed_hosts i" "hf_denied_hosts i" u ?m w]
        by (auto simp: http_fetch_def ebind_run ethen_run parse_allowed_url_def http_protocol_def enforce_method_def
            Let_def split: if_splits)
      then show ?thesis by (intro requests_between_none) simp_all
    next
      case True
      let ?w1 = "w\<lparr>nw_clock := Suc (nw_clock w)\<rparr>"
      obtain rep where rep: "require_url_policy N P (hf_allowed_hosts i) (hf_denied_hosts i) u ?m w = (Inr rep, ?w1)"
        using require_url_policy_run [of N P "hf_allowed_hosts i" "hf_denied_hosts i" u ?m w] True by auto
      obtain h w2 where h: "request_headers P i ?w1 = (h, w2)" by (cases "request_headers P i ?w1")
      have w2: "nw_requests w2 = nw_requests w" "nw_lookups w2 = nw_lookups w"
        using keeps_request_headers [of P i] h by (auto simp: keeps_def dest: spec [of _ ?w1])
      have run2: "(res, w') = (case h of Inl e \<Rightarrow> (Inl e, w2)
          | Inr hs \<Rightarrow> ebind (fetch_with_redirects N P u (redirect_input_of P i) hs) (finish_fetch N P i u rep) w2)"
        using run True u rep h
        by (auto simp: http_fetch_def ebind_run ethen_run parse_allowed_url_def http_protocol_def
            enforce_method_def Let_def split: sum.splits)
      show ?thesis
      proof (cases h)
        case (Inl e)
        with run2 w2 show ?thesis by (intro requests_between_none) simp_all
      next
        case (Inr hs)
        obtain x w3 where f: "fetch_with_redirects N P u (redirect_input_of P i) hs w2 = (x, w3)"
          by (cases "fetch_with_redirects N P u (redirect_input_of P i) hs w2")
        have "requests_between N P (hf_allowed_hosts i) (hf_denied_hosts i) (ur_origin u)
          (nat (nullish (hf_redirect_limit i) (pm_redirect_limit (pc_limits P)) + 1)) w2 w3"
          using redirect_loop_safe [OF f [unfolded fetch_with_redirects_def], of "ur_origin u"] True
          by (simp add: redirect_input_of_def speaks_http_def)
        then have between: "?between w3" using w2 by (simp add: requests_between_def)
        have "nw_requests w' = nw_requests w3 \<and> nw_lookups w' = nw_lookups w3"
          using run2 Inr f keeps_finish_fetch [of N P i u rep]
          by (auto simp: ebind_run keeps_def split: sum.splits) (metis snd_conv)+
        with between show ?thesis by (simp add: requests_between_def request_permitted_def address_checked_def)
      qed
    qed
    with run u show ?thesis by simp
  qed
qed

section \<open>Which hosts count as private\<close>

definition dotted :: "nat \<Rightarrow> nat \<Rightarrow> nat \<Rightarrow> nat \<Rightarrow> string" where
  "dotted a b c d = nat_str a @ ''.'' @ nat_str b @ ''.'' @ nat_str c @ ''.'' @ nat_str d"

definition ipv4 :: "nat \<Rightarrow> nat \<Rightarrow> nat \<Rightarrow> nat \<Rightarrow> nat" where
  "ipv4 a b c d = ((a * 256 + b) * 256 + c) * 256 + d"

text \<open>The addresses of a CIDR block.\<close>

definition cidr :: "nat \<Rightarrow> nat \<Rightarrow> nat set" where
  "cidr base len = {base ..< base + 2 ^ (32 - len)}"

definition private_blocks :: "nat set" where
  "private_blocks =
     cidr (ipv4 0 0 0 0) 8 \<union> cidr (ipv4 10 0 0 0) 8 \<union> cidr (ipv4 127 0 0 0) 8 \<union> cidr (ipv4 169 254 0 0) 16 \<union>
     cidr (ipv4 172 16 0 0) 12 \<union> cidr (ipv4 192 168 0 0) 16"

lemma digit_char_simps: "n < 10 \<Longrightarrow> is_digit (digit_char n) \<and> of_char (digit_char n) = 48 + n"
  by (auto simp: is_digit_def)

lemma nat_str_digits: "list_all is_digit (nat_str n)"
  by (induction n rule: nat_str.induct) (auto simp: nat_str.simps digit_char_simps simp del: digit_char.simps)

lemma decimal_value_nat_str: "decimal_value (nat_str n) = n"
proof (induction n rule: nat_str.induct)
  case (1 n)
  show ?case
  proof (cases "n < 10")
    case True
    then show ?thesis
      by (subst nat_str.simps) (simp add: decimal_value_def digit_char_simps del: digit_char.simps)
  next
    case False
    with "1.IH" show ?thesis
      by (subst nat_str.simps) (simp add: decimal_value_def digit_char_simps del: digit_char.simps)
  qed
qed

lemma digit_not_space: "is_digit c \<Longrightarrow> \<not> is_space c"
  by (auto simp: is_digit_def is_space_def Let_def)

lemma parse_int_digits:
  assumes "list_all is_digit ds" and "ds \<noteq> []"
  shows "parse_int ds = Some (int (decimal_value ds))"
proof -
  obtain c cs where ds: "ds = c # cs" "is_digit c" using assms by (cases ds) auto
  have "takeWhile is_digit ds = ds" using assms(1) by (simp add: list_all_iff takeWhile_eq_all_conv)
  then have tw: "takeWhile is_digit cs = cs" using ds by simp
  have "dropWhile is_space ds = ds" using ds digit_not_space by simp
  moreover have "c \<noteq> CHR ''-''" "c \<noteq> CHR ''+''" using ds(2) by (auto simp: is_digit_def)
  ultimately show ?thesis using ds by (simp add: parse_int_def Let_def tw)
qed

lemma parse_int_nat_str: "parse_int (nat_str n) = Some (int n)"
  using parse_int_digits [OF nat_str_digits, of n] by (simp add: decimal_value_nat_str)

text \<open>Characters of an address in dotted form.\<close>

definition is_addr_char :: "char \<Rightarrow> bool" where
  "is_addr_char c = (is_digit c \<or> c = CHR ''.'')"

lemma addr_char_facts:
  assumes "is_addr_char c"
  shows "to_lower_char c = c" "c \<notin> set ''[]:lft''"
  using assms by (auto simp: is_addr_char_def is_digit_def to_lower_char_def Let_def)

lemma not_in_addr: "list_all is_addr_char h \<Longrightarrow> x \<in> set ''[]:lft'' \<Longrightarrow> x \<notin> set h"
  using addr_char_facts(2) by (auto simp only: list_all_iff)

lemma starts_with_needs: "x \<notin> set s \<Longrightarrow> x \<in> set p \<Longrightarrow> \<not> starts_with s p"
  by (auto simp: starts_with_iff)

lemma ends_with_needs: "x \<notin> set s \<Longrightarrow> x \<in> set p \<Longrightarrow> \<not> ends_with s p"
  by (auto simp: ends_with_iff)

lemma dotted_addr: "list_all is_addr_char (dotted a b c d)"
  using nat_str_digits by (auto simp: dotted_def list_all_iff is_addr_char_def)

lemma split_on_first: "d \<notin> set w \<Longrightarrow> split_on d (w @ d # s) = w # split_on d s"
  by (induction w) auto

lemma split_on_none: "d \<notin> set w \<Longrightarrow> split_on d w = [w]"
  by (induction w) auto

lemma no_dot: "CHR ''.'' \<notin> set (nat_str n)"
  using nat_str_digits [of n] by (auto simp: list_all_iff is_digit_def)

lemma split_dotted: "split_on CHR ''.'' (dotted a b c d) = [nat_str a, nat_str b, nat_str c, nat_str d]"
  by (simp add: dotted_def split_on_first split_on_none no_dot)

lemma normalized_addr:
  assumes "list_all is_addr_char h"
  shows "normalized_host h = h"
proof -
  have "map to_lower_char h = h"
    using assms addr_char_facts(1) by (intro map_idI) (simp only: list_all_iff)
  moreover have "\<not> starts_with h ''[''"
    by (rule starts_with_needs [OF not_in_addr [OF assms, of "CHR ''[''"]]) simp_all
  moreover have "\<not> ends_with h '']''"
    by (rule ends_with_needs [OF not_in_addr [OF assms, of "CHR '']''"]]) simp_all
  ultimately show ?thesis by (simp add: normalized_host_def to_lower_def)
qed

lemma private_addr:
  assumes "list_all is_addr_char h"
  shows "is_local_or_private_host h = private_octets (map parse_int (split_on CHR ''.'' h))"
proof -
  note colon = not_in_addr [OF assms, of "CHR '':''", simplified]
  note ell = not_in_addr [OF assms, of "CHR ''l''", simplified]
  note eff = not_in_addr [OF assms, of "CHR ''f''", simplified]
  have "h \<noteq> ''localhost''" "h \<noteq> ''::1''" "h \<noteq> ''0:0:0:0:0:0:0:1''" using colon ell by auto
  moreover have "\<not> ends_with h ''.localhost''" by (rule ends_with_needs [OF ell]) simp
  moreover have "\<not> starts_with h ''fc''" by (rule starts_with_needs [OF eff]) simp
  moreover have "\<not> starts_with h ''fd''" by (rule starts_with_needs [OF eff]) simp
  moreover have "\<not> starts_with h ''fe80:''" by (rule starts_with_needs [OF eff]) simp
  moreover have "\<not> starts_with h ''::ffff:''" by (rule starts_with_needs [OF eff]) simp
  ultimately show ?thesis
    unfolding is_local_or_private_host.simps [of h] Let_def normalized_addr [OF assms] mapped_ipv4_def
    using colon by (simp only: if_False if_True option.case simp_thms)
qed

lemma private_dotted:
  "is_local_or_private_host (dotted a b c d) =
     private_octets [Some (int a), Some (int b), Some (int c), Some (int d)]"
  unfolding private_addr [OF dotted_addr] by (simp add: split_dotted parse_int_nat_str)

lemma in_cidr_8:
  assumes "b < 256" "c < 256" "d < 256"
  shows "ipv4 a b c d \<in> cidr (ipv4 x 0 0 0) 8 \<longleftrightarrow> a = x"
  using assms by (auto simp: ipv4_def cidr_def)

lemma in_cidr_16:
  assumes "b < 256" "c < 256" "d < 256" "y < 256"
  shows "ipv4 a b c d \<in> cidr (ipv4 x y 0 0) 16 \<longleftrightarrow> a = x \<and> b = y"
proof -
  have "ipv4 a b c d \<in> cidr (ipv4 x y 0 0) 16 \<longleftrightarrow> a * 256 + b = x * 256 + y"
    using assms by (auto simp: ipv4_def cidr_def)
  also have "\<dots> \<longleftrightarrow> a = x \<and> b = y"
  proof
    assume eq: "a * 256 + b = x * 256 + y"
    have "(a * 256 + b) div 256 = a" "(x * 256 + y) div 256 = x" using assms(1,4) by simp_all
    with eq show "a = x \<and> b = y" by simp
  qed simp
  finally show ?thesis .
qed

lemma in_cidr_12:
  assumes "b < 256" "c < 256" "d < 256"
  shows "ipv4 a b c d \<in> cidr (ipv4 172 16 0 0) 12 \<longleftrightarrow> a = 172 \<and> 16 \<le> b \<and> b \<le> 31"
proof -
  have "ipv4 a b c d \<in> cidr (ipv4 172 16 0 0) 12 \<longleftrightarrow> 172 * 256 + 16 \<le> a * 256 + b \<and> a * 256 + b < 172 * 256 + 32"
    using assms by (auto simp: ipv4_def cidr_def)
  also have "\<dots> \<longleftrightarrow> a = 172 \<and> 16 \<le> b \<and> b \<le> 31"
  proof
    assume r: "172 * 256 + 16 \<le> a * 256 + b \<and> a * 256 + b < 172 * 256 + 32"
    with assms(1) have "\<not> a < 172" "\<not> 172 < a" by linarith+
    with r show "a = 172 \<and> 16 \<le> b \<and> b \<le> 31" by simp
  qed simp
  finally show ?thesis .
qed

lemma octets_in_blocks:
  assumes "a < 256" "b < 256" "c < 256" "d < 256"
  shows "private_octets [Some (int a), Some (int b), Some (int c), Some (int d)] \<longleftrightarrow> ipv4 a b c d \<in> private_blocks"
  using assms by (auto simp: private_octets_def private_blocks_def in_cidr_8 in_cidr_16 in_cidr_12)

lemma dotted_quad_dotted: "dotted_quad (dotted a b c d)"
  by (simp add: dotted_quad_def split_dotted nat_str_digits)

lemma normalized_mapped: "normalized_host (''[::ffff:'' @ dotted a b c d @ '']'') = ''::ffff:'' @ dotted a b c d"
proof -
  have "map to_lower_char (dotted a b c d) = dotted a b c d"
    using dotted_addr addr_char_facts(1) by (intro map_idI) (simp only: list_all_iff)
  then have low: "to_lower (''[::ffff:'' @ dotted a b c d @ '']'') = ''[::ffff:'' @ dotted a b c d @ '']''"
    by (simp add: to_lower_def to_lower_char_def)
  have "ends_with (''::ffff:'' @ dotted a b c d @ '']'') '']''" by (auto simp: ends_with_iff)
  then show ?thesis unfolding normalized_host_def low Let_def by (simp add: butlast_append)
qed

lemma private_mapped:
  "is_local_or_private_host (''[::ffff:'' @ dotted a b c d @ '']'') = is_local_or_private_host (dotted a b c d)"
proof -
  let ?h = "''::ffff:'' @ dotted a b c d"
  have ell: "CHR ''l'' \<notin> set ?h" using not_in_addr [OF dotted_addr, of "CHR ''l''"] by simp
  have "?h \<noteq> ''localhost''" "?h \<noteq> ''::1''" "?h \<noteq> ''0:0:0:0:0:0:0:1''" by simp_all
  moreover have "\<not> ends_with ?h ''.localhost''" by (rule ends_with_needs [OF ell]) simp
  moreover have "\<not> starts_with ?h ''fc''" "\<not> starts_with ?h ''fd''" "\<not> starts_with ?h ''fe80:''" by simp_all
  moreover have "mapped_ipv4 ?h = Some (dotted a b c d)"
    by (simp add: mapped_ipv4_def dotted_quad_dotted)
  ultimately show ?thesis
    unfolding is_local_or_private_host.simps [of "''[::ffff:'' @ dotted a b c d @ '']''"] Let_def normalized_mapped
    by (simp only: if_False if_True option.case simp_thms)
qed

text \<open>An IPv4 address written with dots, on its own or mapped into IPv6 in brackets, is recognised as
  private exactly when it lies in one of the blocks 0.0.0.0/8, 10.0.0.0/8, 127.0.0.0/8,
  169.254.0.0/16, 172.16.0.0/12 and 192.168.0.0/16.\<close>
lemma private_ipv4_exact:
  assumes "a < 256" and "b < 256" and "c < 256" and "d < 256"
  shows "(is_local_or_private_host (dotted a b c d) \<longleftrightarrow> ipv4 a b c d \<in> private_blocks) \<and>
    (is_local_or_private_host (''[::ffff:'' @ dotted a b c d @ '']'') \<longleftrightarrow> ipv4 a b c d \<in> private_blocks)"
  unfolding private_mapped private_dotted octets_in_blocks [OF assms] by simp

lemma private_ipv4_exact_witness:
  "is_local_or_private_host (dotted 172 31 0 1) \<and> \<not> is_local_or_private_host (dotted 172 32 0 1)"
  using private_ipv4_exact [of 172 31 0 1] private_ipv4_exact [of 172 32 0 1]
  by (simp add: private_blocks_def cidr_def ipv4_def)

text \<open>The platform writes a mapped address with hexadecimal groups; these are not recognised. And every name
  that starts with the letters of a private IPv6 prefix is.\<close>

lemma hex_mapped_loopback_passes: "\<not> is_local_or_private_host ''[::ffff:7f00:1]''"
  by (simp add: is_local_or_private_host.simps [of "''[::ffff:7f00:1]''"] normalized_host_def to_lower_def
      to_lower_char_def ends_with_def mapped_ipv4_def dotted_quad_def)

lemma public_name_refused: "is_local_or_private_host ''fdic.gov''"
  by (simp add: is_local_or_private_host.simps [of "''fdic.gov''"] normalized_host_def to_lower_def
      to_lower_char_def ends_with_def)

end
