(* ===== verification/Sdk_Retry.thy ===== *)
theory Sdk_Retry
  imports Complex_Main Sdk_Http
begin

text \<open>
  \<open>primitives/retry.ts\<close> and \<open>primitives/rate-limit.ts\<close> of the capability SDK: repeating an operation
  with growing delays, and reading rate limits from headers.

  Numbers are rational: the code's doubles are exact for delays of this size. What the operation
  answers to its n-th attempt is a function of n, a value being the JSON view of it (a response has
  a status and headers); the state is the attempts made and the delays slept. The platform's
  \<open>Number\<close> (finite values only), \<open>Math.random\<close>, \<open>toISOString\<close> and the text of an error belong to the host.
\<close>

record retry_host =
  rh_env :: env
  rh_number :: "string \<Rightarrow> rat option"
  rh_random :: "nat \<Rightarrow> rat"
  rh_now_ms :: "nat \<Rightarrow> rat"
  rh_iso :: "rat \<Rightarrow> string"
  rh_message :: "thrown \<Rightarrow> string"

section \<open>Rate limits (\<open>rate-limit.ts\<close>)\<close>

record rate_limit_info =
  rl_retry_after_ms :: "rat option"
  rl_remaining :: "int option"
  rl_reset_at :: "string option"

text \<open>\<open>getHeader\<close>: header names are compared in lower case.\<close>

definition get_header :: "(string \<times> string) list \<Rightarrow> string \<Rightarrow> string option" where
  "get_header hs name = map_option snd (List.find (\<lambda>(k, _). to_lower k = to_lower name) hs)"

definition parse_retry_after :: "retry_host \<Rightarrow> string \<Rightarrow> rat \<Rightarrow> rat" where
  "parse_retry_after R value now_ms =
     (case rh_number R value of
        Some seconds \<Rightarrow> max 0 (seconds * 1000)
      | None \<Rightarrow>
          (case date_parse (rh_env R) value of
             Some date \<Rightarrow> max 0 (of_int date - now_ms)
           | None \<Rightarrow> 0))"

definition parse_reset :: "retry_host \<Rightarrow> string \<Rightarrow> rat \<Rightarrow> string" where
  "parse_reset R value now_ms =
     (case rh_number R value of
        Some n \<Rightarrow> rh_iso R (if n < 10000000000 then n * 1000 else n)
      | None \<Rightarrow>
          (case date_parse (rh_env R) value of
             Some date \<Rightarrow> rh_iso R (of_int date)
           | None \<Rightarrow> rh_iso R now_ms))"

definition rate_limit_from_headers ::
    "retry_host \<Rightarrow> (string \<times> string) list \<Rightarrow> rat \<Rightarrow> rate_limit_info" where
  "rate_limit_from_headers R hs now_ms =
     (let retry_after = get_header hs ''retry-after'';
          remaining = nullish_opt (get_header hs ''x-ratelimit-remaining'') (get_header hs ''ratelimit-remaining'');
          reset = nullish_opt (get_header hs ''x-ratelimit-reset'') (get_header hs ''ratelimit-reset'')
      in \<lparr>rl_retry_after_ms = map_option (\<lambda>v. parse_retry_after R v now_ms) (keep_truthy retry_after),
          rl_remaining = Option.bind remaining parse_int,
          rl_reset_at = map_option (\<lambda>v. parse_reset R v now_ms) (keep_truthy reset)\<rparr>)"

definition should_wait :: "retry_host \<Rightarrow> rate_limit_info \<Rightarrow> rat \<Rightarrow> bool" where
  "should_wait R i now_ms =
     (nullish (rl_retry_after_ms i) 0 > 0 \<or>
      rl_remaining i = Some 0 \<and> truthy (rl_reset_at i) \<and>
      (case date_parse (rh_env R) (the (rl_reset_at i)) of Some t \<Rightarrow> of_int t > now_ms | None \<Rightarrow> False))"

text \<open>The delay; \<open>None\<close> is NaN.\<close>

definition to_retry_delay :: "retry_host \<Rightarrow> rate_limit_info \<Rightarrow> rat \<Rightarrow> rat option" where
  "to_retry_delay R i now_ms =
     (case rl_retry_after_ms i of
        Some ms \<Rightarrow> Some (max 0 ms)
      | None \<Rightarrow>
          if rl_remaining i = Some 0 \<and> truthy (rl_reset_at i)
          then map_option (\<lambda>t. max 0 (of_int t - now_ms)) (date_parse (rh_env R) (the (rl_reset_at i)))
          else Some 0)"

section \<open>Backing off (\<open>retry.ts\<close>)\<close>

record retry_options =
  ry_max_attempts :: int
  ry_base_delay_ms :: rat
  ry_max_delay_ms :: rat
  ry_jitter :: "bool option"
  ry_retryable :: "int list option"

record retry_attempt_report =
  ry_attempt :: nat
  ry_delay_ms :: rat
  ry_reason :: string

record retry_world =
  rw_attempts :: "nat list"
  rw_sleeps :: "rat list"
  rw_random :: nat

definition retryable_codes :: "retry_options \<Rightarrow> int list" where
  "retryable_codes o1 = nullish (ry_retryable o1) [408, 409, 425, 429, 500, 502, 503, 504]"

definition response_status :: "json \<Rightarrow> int option" where
  "response_status v =
     (case v of JObj kvs \<Rightarrow> (case map_of kvs ''status'' of Some (JNum n) \<Rightarrow> Some n | _ \<Rightarrow> None) | _ \<Rightarrow> None)"

definition response_header :: "json \<Rightarrow> string \<Rightarrow> string option" where
  "response_header v name =
     (case v of
        JObj kvs \<Rightarrow>
          (case map_of kvs ''headers'' of
             Some (JObj hs) \<Rightarrow>
               (case List.find (\<lambda>(k, _). to_lower k = to_lower name) hs of
                  Some (_, JStr s) \<Rightarrow> Some s
                | _ \<Rightarrow> None)
           | _ \<Rightarrow> None)
      | _ \<Rightarrow> None)"

definition compute_delay :: "retry_host \<Rightarrow> retry_options \<Rightarrow> nat \<Rightarrow> (retry_world, rat) effect" where
  "compute_delay R o1 attempt =
     (let base = min (ry_max_delay_ms o1) (ry_base_delay_ms o1 * 2 ^ (attempt - 1))
      in if ry_jitter o1 \<noteq> Some True then ereturn base
         else (\<lambda>w. (Inr (of_int \<lfloor>base * (1 / 2 + rh_random R (rw_random w) / 2)\<rfloor>),
                    w\<lparr>rw_random := Suc (rw_random w)\<rparr>)))"

definition retry_delay :: "retry_host \<Rightarrow> json \<Rightarrow> nat \<Rightarrow> retry_options \<Rightarrow> (retry_world, rat) effect" where
  "retry_delay R v attempt o1 =
     (case keep_truthy (response_header v ''retry-after'') of
        Some after \<Rightarrow> ereturn (min (ry_max_delay_ms o1) (parse_retry_after R after (rh_now_ms R attempt)))
      | None \<Rightarrow> compute_delay R o1 attempt)"

definition run_attempt :: "(nat \<Rightarrow> thrown + json) \<Rightarrow> nat \<Rightarrow> (retry_world, thrown + json) effect" where
  "run_attempt operation attempt =
     (\<lambda>w. (Inr (operation attempt), w\<lparr>rw_attempts := rw_attempts w @ [attempt]\<rparr>))"

definition sleep_for :: "rat \<Rightarrow> (retry_world, unit) effect" where
  "sleep_for ms = (\<lambda>w. (Inr (), w\<lparr>rw_sleeps := rw_sleeps w @ [ms]\<rparr>))"

definition retry_failed :: "thrown option \<Rightarrow> thrown" where
  "retry_failed last_error = nullish last_error (Plain_error ''Retry operation failed'')"

primrec backoff_loop ::
    "retry_host \<Rightarrow> (nat \<Rightarrow> thrown + json) \<Rightarrow> retry_options \<Rightarrow> nat \<Rightarrow> nat \<Rightarrow> thrown option
      \<Rightarrow> retry_attempt_report list \<Rightarrow> (retry_world, json \<times> retry_attempt_report list) effect" where
  "backoff_loop R operation o1 0 attempt last_error reports = ethrow (retry_failed last_error)"
| "backoff_loop R operation o1 (Suc turns) attempt last_error reports =
     ebind (run_attempt operation attempt) (\<lambda>outcome.
       case outcome of
         Inr v \<Rightarrow>
           (case response_status v of
              Some s \<Rightarrow>
                if s \<in> set (retryable_codes o1) \<and> int attempt < ry_max_attempts o1
                then ebind (retry_delay R v attempt o1) (\<lambda>ms.
                     ethen (sleep_for ms)
                       (backoff_loop R operation o1 turns (attempt + 1) last_error
                          (reports @ [\<lparr>ry_attempt = attempt, ry_delay_ms = ms,
                                       ry_reason = ''status '' @ int_str s\<rparr>])))
                else ereturn (v, reports)
            | None \<Rightarrow> ereturn (v, reports))
       | Inl e \<Rightarrow>
           if int attempt \<ge> ry_max_attempts o1 then ethrow (retry_failed (Some e))
           else ebind (compute_delay R o1 attempt) (\<lambda>ms.
                ethen (sleep_for ms)
                  (backoff_loop R operation o1 turns (attempt + 1) (Some e)
                     (reports @ [\<lparr>ry_attempt = attempt, ry_delay_ms = ms, ry_reason = rh_message R e\<rparr>]))))"

definition with_backoff ::
    "retry_host \<Rightarrow> (nat \<Rightarrow> thrown + json) \<Rightarrow> retry_options \<Rightarrow> (retry_world, json \<times> retry_attempt_report list) effect" where
  "with_backoff R operation o1 = backoff_loop R operation o1 (nat (ry_max_attempts o1)) 1 None []"

section \<open>How often, and how long\<close>

definition sane :: "retry_host \<Rightarrow> retry_options \<Rightarrow> bool" where
  "sane R o1 \<longleftrightarrow> 0 \<le> ry_base_delay_ms o1 \<and> 0 \<le> ry_max_delay_ms o1 \<and> (\<forall>i. 0 \<le> rh_random R i \<and> rh_random R i < 1)"

definition delay_ok :: "retry_options \<Rightarrow> rat \<Rightarrow> bool" where
  "delay_ok o1 ms = (0 \<le> ms \<and> ms \<le> ry_max_delay_ms o1)"

lemma floor_share:
  fixes b r :: rat
  assumes "0 \<le> b" and "0 \<le> r" and "r < 1"
  shows "0 \<le> \<lfloor>b * (1 / 2 + r / 2)\<rfloor> \<and> of_int \<lfloor>b * (1 / 2 + r / 2)\<rfloor> \<le> b"
proof -
  have "b * (1 / 2 + r / 2) \<le> b * 1" using assms by (intro mult_left_mono) auto
  then have "of_int \<lfloor>b * (1 / 2 + r / 2)\<rfloor> \<le> b" using of_int_floor_le [of "b * (1 / 2 + r / 2)"] by linarith
  moreover have "0 \<le> b * (1 / 2 + r / 2)" using assms by simp
  ultimately show ?thesis by simp
qed

lemma compute_delay_run:
  assumes "sane R o1"
  shows "\<exists>ms k. compute_delay R o1 n w = (Inr ms, w\<lparr>rw_random := k\<rparr>) \<and> delay_ok o1 ms"
proof -
  let ?b = "min (ry_max_delay_ms o1) (ry_base_delay_ms o1 * 2 ^ (n - 1))"
  have b: "0 \<le> ?b" "?b \<le> ry_max_delay_ms o1" using assms by (auto simp: sane_def)
  show ?thesis
  proof (cases "ry_jitter o1 = Some True")
    case True
    have r: "0 \<le> rh_random R (rw_random w)" "rh_random R (rw_random w) < 1" using assms by (auto simp: sane_def)
    have "delay_ok o1 (of_int \<lfloor>?b * (1 / 2 + rh_random R (rw_random w) / 2)\<rfloor>)"
      using floor_share [OF b(1) r] b(2) by (auto simp: delay_ok_def)
    with True show ?thesis
      by (intro exI [of _ "of_int \<lfloor>?b * (1 / 2 + rh_random R (rw_random w) / 2)\<rfloor>"] exI [of _ "Suc (rw_random w)"])
        (simp add: compute_delay_def Let_def)
  next
    case False
    with b show ?thesis
      by (intro exI [of _ ?b] exI [of _ "rw_random w"]) (simp add: compute_delay_def Let_def delay_ok_def)
  qed
qed

lemma retry_delay_run:
  assumes "sane R o1"
  shows "\<exists>ms k. retry_delay R v n o1 w = (Inr ms, w\<lparr>rw_random := k\<rparr>) \<and> delay_ok o1 ms"
proof (cases "keep_truthy (response_header v ''retry-after'')")
  case None
  then show ?thesis using compute_delay_run [OF assms] by (simp add: retry_delay_def)
next
  case (Some t)
  have "0 \<le> parse_retry_after R t now" for now
    by (simp add: parse_retry_after_def split: option.splits)
  with Some assms show ?thesis
    by (intro exI [of _ "min (ry_max_delay_ms o1) (parse_retry_after R t (rh_now_ms R n))"] exI [of _ "rw_random w"])
      (auto simp: retry_delay_def delay_ok_def sane_def)
qed

text \<open>The outcome of an attempt is worth another one.\<close>

definition retryable_value :: "retry_options \<Rightarrow> json \<Rightarrow> bool" where
  "retryable_value o1 v = (case response_status v of None \<Rightarrow> False | Some s \<Rightarrow> s \<in> set (retryable_codes o1))"

definition worth_repeating :: "retry_options \<Rightarrow> thrown + json \<Rightarrow> bool" where
  "worth_repeating o1 outcome = (case outcome of Inl _ \<Rightarrow> True | Inr v \<Rightarrow> retryable_value o1 v)"

text \<open>A run of \<open>n\<close> attempts, the first numbered \<open>a\<close>, with its result.\<close>

definition attempts_made ::
    "(nat \<Rightarrow> thrown + json) \<Rightarrow> retry_options \<Rightarrow> nat \<Rightarrow> nat \<Rightarrow> rat list \<Rightarrow> retry_world
      \<Rightarrow> (thrown + json \<times> retry_attempt_report list) \<times> retry_world \<Rightarrow> retry_attempt_report list \<Rightarrow> bool" where
  "attempts_made operation o1 a n sleeps w out reports0 \<longleftrightarrow>
     (case out of (res, w') \<Rightarrow>
        rw_attempts w' = rw_attempts w @ [a ..< a + n] \<and> rw_sleeps w' = rw_sleeps w @ sleeps \<and>
        length sleeps = n - 1 \<and> list_all (delay_ok o1) sleeps \<and>
        list_all (\<lambda>k. worth_repeating o1 (operation k)) [a ..< a + n - 1] \<and>
        (case res of
           Inr (v, reports) \<Rightarrow>
             operation (a + n - 1) = Inr v \<and> (retryable_value o1 v \<longrightarrow> int (a + n - 1) = ry_max_attempts o1) \<and>
             map ry_delay_ms reports = map ry_delay_ms reports0 @ sleeps
         | Inl e \<Rightarrow> operation (a + n - 1) = Inl e \<and> int (a + n - 1) = ry_max_attempts o1))"

lemma attempts_made_more:
  assumes "attempts_made operation o1 (Suc a) n sleeps w1 out (reports @ [x])" and "0 < n"
    and "rw_attempts w1 = rw_attempts w @ [a]" and "rw_sleeps w1 = rw_sleeps w @ [ms]" and "ry_delay_ms x = ms"
    and "delay_ok o1 ms" and "worth_repeating o1 (operation a)"
  shows "attempts_made operation o1 a (Suc n) (ms # sleeps) w out reports"
proof -
  have "[a ..< a + Suc n] = a # [Suc a ..< Suc a + n]" by (simp add: upt_conv_Cons)
  moreover have "[a ..< a + Suc n - 1] = a # [Suc a ..< Suc a + n - 1]" using assms(2) by (simp add: upt_conv_Cons)
  ultimately show ?thesis
    using assms unfolding attempts_made_def by (auto split: sum.splits prod.splits simp del: upt_Suc)
qed

lemma backoff_loop_made:
  assumes "sane R o1" and "int (a + t) = ry_max_attempts o1"
  shows "\<exists>n sleeps. 0 < n \<and> n \<le> Suc t \<and>
    attempts_made operation o1 a n sleeps w (backoff_loop R operation o1 (Suc t) a last_error reports w) reports"
  using assms(2)
proof (induction t arbitrary: a w last_error reports)
  case 0
  let ?w = "w\<lparr>rw_attempts := rw_attempts w @ [a]\<rparr>"
  have "attempts_made operation o1 a 1 [] w (backoff_loop R operation o1 (Suc 0) a last_error reports w) reports"
    using 0 by (auto simp: ebind_run run_attempt_def attempts_made_def retry_failed_def split: sum.splits option.splits)
  then show ?case by (intro exI [of _ 1] exI [of _ "[]"]) simp
next
  case (Suc t)
  let ?w = "w\<lparr>rw_attempts := rw_attempts w @ [a]\<rparr>"
  have more: "\<exists>n sleeps. 0 < n \<and> n \<le> Suc (Suc t) \<and> attempts_made operation o1 a n sleeps w out reports"
    if again: "worth_repeating o1 (operation a)" and ms: "delay_ok o1 ms"
      and out: "out = backoff_loop R operation o1 (Suc t) (Suc a) l (reports @ [x])
        (?w\<lparr>rw_random := k, rw_sleeps := rw_sleeps w @ [ms]\<rparr>)" and x: "ry_delay_ms x = ms" for out l x k ms
  proof -
    have "int (Suc a + t) = ry_max_attempts o1" using Suc.prems by simp
    from Suc.IH [OF this] obtain n sleeps where n: "0 < n" "n \<le> Suc t"
      and made: "attempts_made operation o1 (Suc a) n sleeps (?w\<lparr>rw_random := k, rw_sleeps := rw_sleeps w @ [ms]\<rparr>) out (reports @ [x])"
      unfolding out by blast
    have "attempts_made operation o1 a (Suc n) (ms # sleeps) w out reports"
      by (rule attempts_made_more [of operation o1 a n sleeps _ out reports x, OF made n(1) _ _ x ms again]) simp_all
    with n show ?thesis by (intro exI [of _ "Suc n"] exI [of _ "ms # sleeps"]) simp
  qed
  show ?case
  proof (cases "operation a")
    case (Inl e)
    obtain ms k where ms: "compute_delay R o1 a ?w = (Inr ms, ?w\<lparr>rw_random := k\<rparr>)" "delay_ok o1 ms"
      using compute_delay_run [OF assms(1)] by blast
    have eq: "backoff_loop R operation o1 (Suc (Suc t)) a last_error reports w =
        backoff_loop R operation o1 (Suc t) (Suc a) (Some e)
          (reports @ [\<lparr>ry_attempt = a, ry_delay_ms = ms, ry_reason = rh_message R e\<rparr>])
          (?w\<lparr>rw_random := k, rw_sleeps := rw_sleeps w @ [ms]\<rparr>)"
      by (subst backoff_loop.simps(2))
        (use Inl Suc.prems ms(1) in \<open>simp add: ebind_run ethen_run run_attempt_def sleep_for_def del: backoff_loop.simps\<close>)
    show ?thesis by (rule more [OF _ ms(2) eq]) (simp_all add: worth_repeating_def Inl)
  next
    case (Inr v)
    show ?thesis
    proof (cases "retryable_value o1 v")
      case True
      then obtain s where s: "response_status v = Some s" "s \<in> set (retryable_codes o1)"
        by (auto simp: retryable_value_def split: option.splits)
      obtain ms k where ms: "retry_delay R v a o1 ?w = (Inr ms, ?w\<lparr>rw_random := k\<rparr>)" "delay_ok o1 ms"
        using retry_delay_run [OF assms(1)] by blast
      have eq: "backoff_loop R operation o1 (Suc (Suc t)) a last_error reports w =
          backoff_loop R operation o1 (Suc t) (Suc a) last_error
            (reports @ [\<lparr>ry_attempt = a, ry_delay_ms = ms, ry_reason = ''status '' @ int_str s\<rparr>])
            (?w\<lparr>rw_random := k, rw_sleeps := rw_sleeps w @ [ms]\<rparr>)"
        by (subst backoff_loop.simps(2))
          (use Inr s Suc.prems ms(1) in \<open>simp add: ebind_run ethen_run run_attempt_def sleep_for_def del: backoff_loop.simps\<close>)
      show ?thesis by (rule more [OF _ ms(2) eq]) (simp_all add: worth_repeating_def Inr True)
    next
      case False
      then have "attempts_made operation o1 a 1 [] w (backoff_loop R operation o1 (Suc (Suc t)) a last_error reports w) reports"
        by (subst backoff_loop.simps(2))
          (use Inr in \<open>auto simp: ebind_run run_attempt_def attempts_made_def retryable_value_def
             simp del: backoff_loop.simps split: option.splits\<close>)
      then show ?thesis by (intro exI [of _ 1] exI [of _ "[]"]) simp
    qed
  qed
qed

text \<open>C21: Backing off repeats an operation at most max_attempts times, and not at all when that is not
  positive; it repeats it exactly while it throws or answers a retryable status and attempts are
  left, so it returns the last attempt's value, or throws the last attempt's error, and throws only when
  the attempts are used up. Between two attempts it sleeps once, never longer than max_delay_ms,
  whatever the server's retry-after header says, and never for a negative time; the report lists
  these delays.\<close>
theorem backoff_bounded:
  assumes "sane R o1"
  shows "\<exists>n sleeps. n \<le> nat (ry_max_attempts o1) \<and>
    (if n = 0
     then ry_max_attempts o1 \<le> 0 \<and>
       with_backoff R operation o1 w = (Inl (Plain_error ''Retry operation failed''), w)
     else attempts_made operation o1 1 n sleeps w (with_backoff R operation o1 w) [])"
proof (cases "nat (ry_max_attempts o1)")
  case 0
  then show ?thesis by (intro exI [of _ 0]) (simp add: with_backoff_def retry_failed_def)
next
  case (Suc t)
  then have "int (1 + t) = ry_max_attempts o1" by simp
  from backoff_loop_made [OF assms this, of operation w None "[]"] Suc show ?thesis
    unfolding with_backoff_def by (metis not_gr_zero)
qed

definition calm_host :: retry_host where
  "calm_host =
     \<lparr>rh_env = \<lparr>sha256_hex = (\<lambda>_. []), hmac_sha256_hex = (\<lambda>_ _. []), datetime_ok = (\<lambda>_. True),
        date_parse = (\<lambda>_. None), zod_issues = (\<lambda>_. [])\<rparr>,
      rh_number = (\<lambda>_. None), rh_random = (\<lambda>_. 0), rh_now_ms = (\<lambda>_. 0), rh_iso = (\<lambda>_. []),
      rh_message = (\<lambda>_. ''failed'')\<rparr>"

definition three_tries :: retry_options where
  "three_tries =
     \<lparr>ry_max_attempts = 3, ry_base_delay_ms = 100, ry_max_delay_ms = 150, ry_jitter = None, ry_retryable = None\<rparr>"

theorem backoff_bounded_witness:
  "\<exists>n sleeps. n \<le> 3 \<and> (\<exists>w'. with_backoff calm_host (\<lambda>_. Inl Zod_error) three_tries
      \<lparr>rw_attempts = [], rw_sleeps = [], rw_random = 0\<rparr> = (Inl Zod_error, w') \<and> rw_attempts w' = [1 ..< Suc n] \<and>
      list_all (delay_ok three_tries) (rw_sleeps w'))"
proof -
  have "sane calm_host three_tries" by (simp add: sane_def calm_host_def three_tries_def)
  note bounded = backoff_bounded [OF this, of "\<lambda>_. Inl Zod_error" "\<lparr>rw_attempts = [], rw_sleeps = [], rw_random = 0\<rparr>"]
  obtain res w' where run: "with_backoff calm_host (\<lambda>_. Inl Zod_error) three_tries
      \<lparr>rw_attempts = [], rw_sleeps = [], rw_random = 0\<rparr> = (res, w')" by fastforce
  have tries: "ry_max_attempts three_tries = 3" by (simp add: three_tries_def)
  from bounded obtain n sleeps where n: "n \<le> 3" "n \<noteq> 0"
    and made: "attempts_made (\<lambda>_. Inl Zod_error) three_tries 1 n sleeps
      \<lparr>rw_attempts = [], rw_sleeps = [], rw_random = 0\<rparr> (res, w') []"
    unfolding tries run by (auto split: if_splits)
  then have "res = Inl Zod_error \<and> rw_attempts w' = [1 ..< Suc n] \<and> list_all (delay_ok three_tries) (rw_sleeps w')"
    by (cases res) (simp_all add: attempts_made_def split: prod.splits del: upt_Suc)
  with n run show ?thesis by blast
qed

end
