(* ===== verification/Plan_Requirements.thy ===== *)
theory Plan_Requirements
  imports Planfile_Schema Node_Path
begin

text \<open>
  \<open>planning/plan-requirements.ts\<close>: what a Planfile needs before it can run (packs, providers,
  credentials, permissions, approvals), what of it the runtime profile lacks, and how far the plan is
  bound to this machine, profile or workspace.
\<close>

section \<open>The report\<close>

datatype portability = Portable | Workspace_bound | Profile_bound | Machine_bound

fun portability_str :: "portability \<Rightarrow> string" where
  "portability_str Portable = ''portable''"
| "portability_str Workspace_bound = ''workspace_bound''"
| "portability_str Profile_bound = ''profile_bound''"
| "portability_str Machine_bound = ''machine_bound''"

record requirements_report =
  dr_plan_id :: string
  dr_portability :: portability
  dr_packs :: "string list"
  dr_providers :: "string list"
  dr_credentials :: "string list"
  dr_permissions :: "string list"
  dr_approvals :: "string list"
  dr_side_effects :: "string list"
  dr_schedule :: "json option"
  dr_missing_packs :: "string list"
  dr_missing_providers :: "string list"
  dr_missing_credentials :: "string list"
  dr_missing_permissions :: "string list"
  dr_commands :: "string list"
  dr_warnings :: "string list"

definition requirements_report_ok :: "requirements_report \<Rightarrow> bool" where
  "requirements_report_ok r =
     (nonempty (dr_plan_id r) \<and>
      list_all (list_all nonempty)
        [dr_packs r, dr_providers r, dr_credentials r, dr_permissions r, dr_approvals r, dr_side_effects r,
         dr_missing_packs r, dr_missing_providers r, dr_missing_credentials r, dr_missing_permissions r,
         dr_commands r, dr_warnings r])"

record search_config =
  sc_id :: string
  sc_kind :: string
  sc_enabled :: "bool option"

text \<open>Of the secret references only their names count.\<close>

record runtime_profile =
  rf_name :: "string option"
  rf_search_providers :: "search_config list option"
  rf_secret_names :: "string list option"

section \<open>Parts\<close>

text \<open>\<open>[...new Set(values)].sort()\<close>\<close>

definition sorted_unique :: "string list \<Rightarrow> string list" where
  "sorted_unique xs = sort (uniq xs)"

lemma set_sorted_unique [simp]: "set (sorted_unique xs) = set xs"
  by (simp add: sorted_unique_def)

lemma sorted_unique_props [simp]: "sorted (sorted_unique xs)" "distinct (sorted_unique xs)"
  by (simp_all add: sorted_unique_def)

definition as_record :: "json \<Rightarrow> (string \<times> json) list option" where
  "as_record v = (case v of JObj kvs \<Rightarrow> Some kvs | _ \<Rightarrow> None)"

definition context_field :: "(string \<times> json) list option \<Rightarrow> string \<Rightarrow> json" where
  "context_field r key = (case Option.bind r (\<lambda>kvs. map_of kvs key) of None \<Rightarrow> JUndef | Some v \<Rightarrow> v)"

definition pack_for_capability :: "string \<Rightarrow> string option" where
  "pack_for_capability ref =
     (if starts_with ref ''research.'' then Some ''open-lagrange.research''
      else if starts_with ref ''repo.'' then Some ''open-lagrange.repository''
      else if starts_with ref ''chat.'' then Some ''open-lagrange.chat''
      else if starts_with ref ''skill.'' then Some ''open-lagrange.skills''
      else if CHR ''.'' \<in> set ref then Some (join ''.'' (butlast (split_on CHR ''.'' ref)))
      else None)"

text \<open>\<open>.filter(isString)\<close> on optional texts, and on values.\<close>

definition texts_of :: "string option list \<Rightarrow> string list" where
  "texts_of xs = filter nonempty (map the (filter (\<lambda>x. x \<noteq> None) xs))"

definition text_items :: "json list \<Rightarrow> string list" where
  "text_items xs = filter nonempty (concat (map (\<lambda>x. case x of JStr s \<Rightarrow> [s] | _ \<Rightarrow> []) xs))"

definition plan_capability_refs :: "planfile \<Rightarrow> string list" where
  "plan_capability_refs p = concat (map n_allowed_capability_refs (pf_nodes p))"

definition required_provider_kinds :: "planfile \<Rightarrow> string list" where
  "required_provider_kinds p =
     (let parameters = as_record (context_field (pf_execution_context p) ''parameters'');
          urls = context_field parameters ''urls'';
          search = (if ''research.search_sources'' \<in> set (plan_capability_refs p) \<and>
                       \<not> (case urls of JArr xs \<Rightarrow> xs \<noteq> [] | _ \<Rightarrow> False)
                    then [case context_field parameters ''provider_id'' of
                            JStr s \<Rightarrow> if s \<noteq> [] then s else ''search'' | _ \<Rightarrow> ''search'']
                    else []);
          workspace = (if list_ex (\<lambda>r. starts_with r ''repo.'') (plan_capability_refs p) then [''workspace''] else [])
      in sorted_unique (search @ workspace))"

definition required_credential_names :: "planfile \<Rightarrow> string list" where
  "required_credential_names p =
     (case context_field (pf_execution_context p) ''credentials'' of
        JArr xs \<Rightarrow> sorted_unique (text_items xs)
      | _ \<Rightarrow> [])"

definition node_permissions :: "plan_node \<Rightarrow> string list" where
  "node_permissions n =
     (''risk:'' @ risk_str (n_risk_level n)) #
     (if nullish (n_verification_command_ids n) [] \<noteq> [] then [''allowlisted_verification_command''] else [])"

fun risk_side_effect :: "risk_level \<Rightarrow> string" where
  "risk_side_effect Risk_read = ''read''"
| "risk_side_effect Risk_write = ''workspace_or_artifact_write''"
| "risk_side_effect Risk_destructive = ''destructive_workspace_write''"
| "risk_side_effect Risk_external_side_effect = ''external_side_effect''"

definition missing_packs_for :: "string list \<Rightarrow> string list option \<Rightarrow> string list" where
  "missing_packs_for required available =
     (case available of None \<Rightarrow> [] | Some a \<Rightarrow> filter (\<lambda>p. p \<notin> set a) required)"

definition search_configs :: "runtime_profile option \<Rightarrow> search_config list" where
  "search_configs profile = nullish (Option.bind profile rf_search_providers) []"

definition has_live_search_provider :: "runtime_profile option \<Rightarrow> bool" where
  "has_live_search_provider profile =
     list_ex (\<lambda>c. sc_enabled c \<noteq> Some False \<and> sc_kind c \<noteq> ''fixture'') (search_configs profile)"

definition provider_missing :: "runtime_profile option \<Rightarrow> string \<Rightarrow> bool" where
  "provider_missing profile provider =
     (if provider = ''workspace'' then False
      else if provider = ''search'' then \<not> has_live_search_provider profile
      else \<not> list_ex (\<lambda>c. sc_enabled c \<noteq> Some False \<and> sc_id c = provider) (search_configs profile))"

text \<open>\<open>credential in refs\<close> is true for the names every object inherits, too.\<close>

definition inherited_names :: "string list" where
  "inherited_names =
     [''constructor'', ''__defineGetter__'', ''__defineSetter__'', ''hasOwnProperty'', ''__lookupGetter__'',
      ''__lookupSetter__'', ''isPrototypeOf'', ''propertyIsEnumerable'', ''toString'', ''valueOf'', ''__proto__'',
      ''toLocaleString'']"

definition missing_credentials_for :: "string list \<Rightarrow> runtime_profile option \<Rightarrow> string list" where
  "missing_credentials_for required profile =
     (let refs = nullish (Option.bind profile rf_secret_names) []
      in filter (\<lambda>c. c \<notin> set refs \<and> c \<notin> set inherited_names) required)"

definition portability_for :: "planfile \<Rightarrow> string list \<Rightarrow> string list \<Rightarrow> portability" where
  "portability_for p providers credentials =
     (let root = (case context_field (as_record (context_field (pf_execution_context p) ''repository'')) ''repo_root'' of
                    JStr s \<Rightarrow> Some s | _ \<Rightarrow> None)
      in if truthy root \<and> is_absolute (the root) then Machine_bound
         else if credentials \<noteq> [] \<or> list_ex (\<lambda>x. x \<noteq> ''workspace'') providers then Profile_bound
         else if truthy root \<or> ''workspace'' \<in> set providers then Workspace_bound
         else Portable)"

definition suggested_commands :: "string list \<Rightarrow> string list \<Rightarrow> string list \<Rightarrow> string list \<Rightarrow> string list" where
  "suggested_commands packs providers credentials approvals =
     sorted_unique
       ((if ''search'' \<in> set providers
         then [''open-lagrange init --runtime podman --with-search'', ''open-lagrange up --with-search''] else []) @
        map (\<lambda>x. ''open-lagrange search test-provider '' @ x) (filter (\<lambda>x. x \<noteq> ''search'') providers) @
        (if packs \<noteq> [] then [''open-lagrange pack list''] else []) @
        map (\<lambda>c. ''open-lagrange secrets set '' @ c @ '' --from-stdin'') credentials @
        (if approvals \<noteq> [] then [''open-lagrange plan apply <planfile>''] else []))"

definition requirement_warnings :: "planfile \<Rightarrow> string list \<Rightarrow> string list \<Rightarrow> string list \<Rightarrow> string list" where
  "requirement_warnings p packs providers credentials =
     (if packs \<noteq> [] then [''Missing required pack(s): '' @ join '', '' packs] else []) @
     (if providers \<noteq> [] then [''Missing required provider(s): '' @ join '', '' providers] else []) @
     (if credentials \<noteq> [] then [''Missing required credential(s): '' @ join '', '' credentials] else []) @
     (if list_ex (\<lambda>n. n_execution_mode n = Some Mode_fixture \<or> n_execution_mode n = Some Mode_mock) (pf_nodes p)
      then [''Planfile contains fixture or mock execution nodes.''] else [])"

definition plan_packs :: "planfile \<Rightarrow> string list" where
  "plan_packs p =
     sorted_unique (texts_of (map pack_for_capability (plan_capability_refs p)) @
       map pr_id (filter pr_required (nullish (Option.bind (pf_requirements p) rq_packs) [])))"

definition plan_providers :: "planfile \<Rightarrow> string list" where
  "plan_providers p =
     sorted_unique (required_provider_kinds p @
       map vr_id (filter vr_required (nullish (Option.bind (pf_requirements p) rq_providers) [])))"

definition plan_credentials :: "planfile \<Rightarrow> string list" where
  "plan_credentials p =
     sorted_unique (required_credential_names p @
       map cr_ref (filter cr_required (nullish (Option.bind (pf_requirements p) rq_credentials) [])))"

definition plan_permissions :: "planfile \<Rightarrow> string list" where
  "plan_permissions p =
     sorted_unique (concat (map node_permissions (pf_nodes p)) @
       nullish (Option.bind (pf_requirements p) rq_permissions) [])"

definition plan_approvals :: "planfile \<Rightarrow> string list" where
  "plan_approvals p =
     sorted_unique (map (\<lambda>n. n_id n @ '': '' @ risk_str (n_risk_level n)) (filter n_approval_required (pf_nodes p)) @
       nullish (Option.bind (pf_requirements p) rq_approvals) [])"

definition schedule_value :: "planfile \<Rightarrow> json" where
  "schedule_value p = context_field (pf_execution_context p) ''schedule_intent''"

text \<open>The value as a condition of JavaScript.\<close>

definition value_truthy :: "json \<Rightarrow> bool" where
  "value_truthy v =
     (case v of
        JUndef \<Rightarrow> False | JNull \<Rightarrow> False | JBool b \<Rightarrow> b | JNum n \<Rightarrow> n \<noteq> 0 | JStr s \<Rightarrow> s \<noteq> []
      | JArr _ \<Rightarrow> True | JObj _ \<Rightarrow> True)"

definition requirements_of ::
    "planfile \<Rightarrow> runtime_profile option \<Rightarrow> string list option \<Rightarrow> requirements_report" where
  "requirements_of p profile available =
     (let packs = missing_packs_for (plan_packs p) available;
          providers = filter (provider_missing profile) (plan_providers p);
          credentials = missing_credentials_for (plan_credentials p) profile
      in \<lparr>dr_plan_id = pf_plan_id p,
          dr_portability = portability_for p (plan_providers p) (plan_credentials p),
          dr_packs = plan_packs p, dr_providers = plan_providers p, dr_credentials = plan_credentials p,
          dr_permissions = plan_permissions p, dr_approvals = plan_approvals p,
          dr_side_effects = sorted_unique (map (\<lambda>n. risk_side_effect (n_risk_level n)) (pf_nodes p)),
          dr_schedule = (if value_truthy (schedule_value p) then Some (schedule_value p) else None),
          dr_missing_packs = packs, dr_missing_providers = providers, dr_missing_credentials = credentials,
          dr_missing_permissions = [],
          dr_commands = suggested_commands packs providers credentials (plan_approvals p),
          dr_warnings = requirement_warnings p packs providers credentials\<rparr>)"

definition derive_plan_requirements ::
    "planfile \<Rightarrow> runtime_profile option \<Rightarrow> string list option \<Rightarrow> requirements_report option" where
  "derive_plan_requirements p profile available =
     (let r = requirements_of p profile available in if requirements_report_ok r then Some r else None)"

section \<open>The report always fits\<close>

lemma texts_nonempty: "list_all nonempty (texts_of xs)" "list_all nonempty (text_items ys)"
  by (auto simp: texts_of_def text_items_def list_all_iff)

lemma nonempty_sorted_unique [simp]: "list_all nonempty (sorted_unique xs) = list_all nonempty xs"
  by (simp add: list_all_iff)

lemma nonempty_filter: "list_all nonempty xs \<Longrightarrow> list_all nonempty (filter p xs)"
  by (auto simp: list_all_iff)

lemma risk_strings_nonempty [simp]: "risk_str r \<noteq> []" "risk_side_effect r \<noteq> []"
  by (cases r; simp)+

lemma plan_lists_nonempty:
  assumes "planfile_ok E p"
  shows "list_all nonempty (plan_packs p)" "list_all nonempty (plan_providers p)"
    "list_all nonempty (plan_credentials p)" "list_all nonempty (plan_permissions p)"
    "list_all nonempty (plan_approvals p)"
proof -
  have ok: "opt_ok planfile_requirements_ok (pf_requirements p)" using assms by (simp add: planfile_ok_def)
  have explicit:
    "list_all pack_requirement_ok (nullish (Option.bind (pf_requirements p) rq_packs) [])"
    "list_all provider_requirement_ok (nullish (Option.bind (pf_requirements p) rq_providers) [])"
    "list_all credential_requirement_ok (nullish (Option.bind (pf_requirements p) rq_credentials) [])"
    "list_all nonempty (nullish (Option.bind (pf_requirements p) rq_permissions) [])"
    "list_all nonempty (nullish (Option.bind (pf_requirements p) rq_approvals) [])"
    using ok by (cases "pf_requirements p"; auto simp: planfile_requirements_ok_def nullish_def split: option.splits)+
  show "list_all nonempty (plan_packs p)"
    using explicit(1) texts_nonempty(1)
    by (auto simp: plan_packs_def list_all_iff pack_requirement_ok_def)
  show "list_all nonempty (plan_providers p)"
    using explicit(2)
    by (auto simp: plan_providers_def required_provider_kinds_def list_all_iff provider_requirement_ok_def Let_def
        split: json.splits)
  show "list_all nonempty (plan_credentials p)"
    using explicit(3) texts_nonempty(2)
    by (auto simp: plan_credentials_def required_credential_names_def list_all_iff credential_requirement_ok_def
        split: json.splits)
  show "list_all nonempty (plan_permissions p)" "list_all nonempty (plan_approvals p)"
    using explicit(4,5) by (auto simp: plan_permissions_def plan_approvals_def node_permissions_def list_all_iff)
qed

lemma requirements_ok:
  assumes "planfile_ok E p"
  shows "derive_plan_requirements p profile available = Some (requirements_of p profile available)"
proof -
  have "list_all nonempty (suggested_commands a b c d)" "list_all nonempty (requirement_warnings p a b c)" for a b c d
    by (auto simp: suggested_commands_def requirement_warnings_def list_all_iff)
  moreover have "nonempty (pf_plan_id p)" using assms by (simp add: planfile_ok_def)
  ultimately have "requirements_report_ok (requirements_of p profile available)"
    using plan_lists_nonempty [OF assms]
    by (auto simp: requirements_report_ok_def requirements_of_def Let_def missing_packs_for_def
        missing_credentials_for_def nonempty_filter list_all_iff split: option.splits)
  then show ?thesis by (simp add: derive_plan_requirements_def)
qed

end
