(* ===== verification/Json_Text.thy ===== *)
theory Json_Text
  imports Json
begin

text \<open>
  \<open>JSON.stringify\<close> and what the two texts of a value determine. The stable text of
  \<open>util/hash.ts\<close> is the same for two values without undefined elements of arrays exactly when they differ
  only in the order of object entries; the text of \<open>JSON.stringify\<close>, by which the program compares values, when they differ only in
  undefined entries. Both rest on one lemma: no text of a value is the beginning of another's
  before a comma, a closing bracket or the end.
\<close>

section \<open>\<open>JSON.stringify\<close>\<close>

text \<open>Undefined entries of objects are left out, undefined elements of arrays are null.\<close>

fun json_compact :: "json \<Rightarrow> string" where
  "json_compact JUndef = ''null''"
| "json_compact JNull = ''null''"
| "json_compact (JBool b) = bool_str b"
| "json_compact (JNum i) = int_str i"
| "json_compact (JStr s) = json_quote s"
| "json_compact (JArr xs) = ''['' @ join '','' (map json_compact xs) @ '']''"
| "json_compact (JObj kvs) =
     ''{'' @ join '','' (map snd (filter fst
       (map (\<lambda>(k, v). (v \<noteq> JUndef, json_quote k @ '':'' @ json_compact v)) kvs))) @ ''}''"

definition json_stringify :: "json \<Rightarrow> string option" where
  "json_stringify v = (if v = JUndef then None else Some (json_compact v))"

section \<open>The normal forms\<close>

text \<open>A value with its entries in the order of their keys, and a value without what is undefined.\<close>

fun sorted_keys :: "json \<Rightarrow> json" where
  "sorted_keys (JArr xs) = JArr (map sorted_keys xs)"
| "sorted_keys (JObj kvs) = JObj (sort_key fst (map (\<lambda>(k, v). (k, sorted_keys v)) kvs))"
| "sorted_keys v = v"

fun defined_part :: "json \<Rightarrow> json" where
  "defined_part JUndef = JNull"
| "defined_part (JArr xs) = JArr (map defined_part xs)"
| "defined_part (JObj kvs) =
     JObj (map snd (filter fst (map (\<lambda>(k, v). (v \<noteq> JUndef, k, defined_part v)) kvs)))"
| "defined_part v = v"

text \<open>A value printed as it is.\<close>

fun exact_text :: "json \<Rightarrow> string" where
  "exact_text JUndef = ''undefined''"
| "exact_text JNull = ''null''"
| "exact_text (JBool b) = bool_str b"
| "exact_text (JNum i) = int_str i"
| "exact_text (JStr s) = json_quote s"
| "exact_text (JArr xs) = ''['' @ join '','' (map exact_text xs) @ '']''"
| "exact_text (JObj kvs) =
     ''{'' @ join '','' (map (\<lambda>(k, v). json_quote k @ '':'' @ exact_text v) kvs) @ ''}''"

lemma insort_key_map_snd:
  "insort_key fst (k, f v) (map (\<lambda>(k, v). (k, f v)) xs) = map (\<lambda>(k, v). (k, f v)) (insort_key fst (k, v) xs)"
  by (induction xs) auto

lemma sort_key_map_snd:
  "sort_key fst (map (\<lambda>(k, v). (k, f v)) xs) = map (\<lambda>(k, v). (k, f v)) (sort_key fst xs)"
  by (induction xs) (auto simp: insort_key_map_snd)

text \<open>No array holds \<open>undefined\<close>, at any depth.\<close>

fun defined_items :: "json \<Rightarrow> bool" where
  "defined_items (JArr xs) = list_all (\<lambda>v. v \<noteq> JUndef \<and> defined_items v) xs"
| "defined_items (JObj kvs) = list_all (\<lambda>(k, v). defined_items v) kvs"
| "defined_items v = True"

lemma stable_stringify_plain: "defined_items v \<Longrightarrow> stable_stringify v = exact_text (sorted_keys v)"
proof (induction v rule: stable_stringify.induct)
  case (6 xs)
  then have "map (\<lambda>v. if v = JUndef then [] else stable_stringify v) xs = map (exact_text \<circ> sorted_keys) xs"
    by (auto simp: list_all_iff)
  then show ?case by (simp only: stable_stringify.simps sorted_keys.simps exact_text.simps map_map)
next
  case (7 kvs)
  then have "map (\<lambda>(k, v). (k, stable_stringify v)) kvs = map (\<lambda>(k, v). (k, exact_text (sorted_keys v))) kvs"
    by (auto simp: list_all_iff)
  then have "stable_stringify (JObj kvs) = ''{'' @ join '','' (map (\<lambda>(k, s). json_quote k @ '':'' @ s)
      (map (\<lambda>(k, v). (k, exact_text (sorted_keys v))) (sort_key fst kvs))) @ ''}''"
    by (simp only: stable_stringify.simps sort_key_map_snd)
  then show ?case by (simp only: sorted_keys.simps exact_text.simps sort_key_map_snd map_map)
      (simp add: comp_def case_prod_beta)
qed simp_all

text \<open>Otherwise different values may share one text.\<close>

lemma undefined_item_lost: "stable_stringify (JArr [JUndef]) = stable_stringify (JArr [])"
  by simp

lemma json_compact_plain: "json_compact v = exact_text (defined_part v)"
proof (induction v rule: json_compact.induct)
  case (7 kvs)
  then have "map snd (filter fst (map (\<lambda>(k, v). (v \<noteq> JUndef, json_quote k @ '':'' @ json_compact v)) kvs)) =
      map (\<lambda>(k, v). json_quote k @ '':'' @ exact_text v)
        (map snd (filter fst (map (\<lambda>(k, v). (v \<noteq> JUndef, k, defined_part v)) kvs)))"
    by (induction kvs) force+
  then show ?case by simp
qed (simp_all cong: map_cong)

section \<open>Characters of strings\<close>

definition hex_code :: "char \<Rightarrow> nat" where
  "hex_code c = (let n = of_char c in if n < 58 then n - 48 else n - 87)"

definition hex_value :: "string \<Rightarrow> nat" where
  "hex_value s = foldl (\<lambda>n c. 16 * n + hex_code c) 0 s"

lemma hex_code_char: "n < 16 \<Longrightarrow> hex_code (hex_char n) = n"
  by (auto simp: hex_code_def hex_char_def Let_def)

lemma hex_value_str: "hex_value (hex_str n) = n"
proof (induction n rule: hex_str.induct)
  case (1 n)
  show ?case
  proof (cases "n < 16")
    case True
    then show ?thesis by (subst hex_str.simps) (simp add: hex_value_def hex_code_char)
  next
    case False
    with 1 have "hex_value (hex_str (n div 16)) = n div 16" by simp
    with False show ?thesis by (subst hex_str.simps) (simp add: hex_value_def hex_code_char)
  qed
qed

lemma hex_value_zeros: "hex_value (replicate k CHR ''0'' @ s) = hex_value s"
  by (induction k) (auto simp: hex_value_def hex_code_def)

text \<open>Reading one escaped character back.\<close>

definition unescape :: "string \<Rightarrow> (char \<times> string) option" where
  "unescape s =
     (case s of
        [] \<Rightarrow> None
      | c # r \<Rightarrow>
          if c \<noteq> char_of (92 :: nat) then Some (c, r)
          else (case r of
             [] \<Rightarrow> None
           | d # r \<Rightarrow>
               if d = CHR ''u'' then Some (char_of (hex_value (take 4 r)), drop 4 r)
               else if d = CHR ''b'' then Some (char_of (8 :: nat), r)
               else if d = CHR ''f'' then Some (char_of (12 :: nat), r)
               else if d = CHR ''n'' then Some (char_of (10 :: nat), r)
               else if d = CHR ''r'' then Some (char_of (13 :: nat), r)
               else if d = CHR ''t'' then Some (char_of (9 :: nat), r)
               else Some (d, r)))"

lemma char_of_eq: "n < 256 \<Longrightarrow> char_of n = c \<longleftrightarrow> of_char c = (n :: nat)"
  by (metis char_of_char of_char_of mod_less)

lemma eq_char_of: "n < 256 \<Longrightarrow> c = char_of n \<longleftrightarrow> of_char c = (n :: nat)"
  using char_of_eq [of n c] by auto

lemma unescape_simps [simp]:
  "c \<noteq> char_of (92 :: nat) \<Longrightarrow> unescape (c # r) = Some (c, r)"
  "unescape (char_of (92 :: nat) # CHR ''u'' # r) = Some (char_of (hex_value (take 4 r)), drop 4 r)"
  "unescape (char_of (92 :: nat) # CHR ''b'' # r) = Some (char_of (8 :: nat), r)"
  "unescape (char_of (92 :: nat) # CHR ''f'' # r) = Some (char_of (12 :: nat), r)"
  "unescape (char_of (92 :: nat) # CHR ''n'' # r) = Some (char_of (10 :: nat), r)"
  "unescape (char_of (92 :: nat) # CHR ''r'' # r) = Some (char_of (13 :: nat), r)"
  "unescape (char_of (92 :: nat) # CHR ''t'' # r) = Some (char_of (9 :: nat), r)"
  "unescape (char_of (92 :: nat) # char_of (34 :: nat) # r) = Some (char_of (34 :: nat), r)"
  "unescape (char_of (92 :: nat) # char_of (92 :: nat) # r) = Some (char_of (92 :: nat), r)"
  by (simp_all add: unescape_def char_of_eq)

text \<open>What an escape looks like, by the code of the character.\<close>

lemma escape_shape:
  assumes "c = char_of n" and "n < 256"
  shows "json_escape_char c =
     (if n = 34 \<or> n = 92 then [char_of (92 :: nat), c]
      else if n = 8 then [char_of (92 :: nat), CHR ''b'']
      else if n = 12 then [char_of (92 :: nat), CHR ''f'']
      else if n = 10 then [char_of (92 :: nat), CHR ''n'']
      else if n = 13 then [char_of (92 :: nat), CHR ''r'']
      else if n = 9 then [char_of (92 :: nat), CHR ''t'']
      else if n < 32 then char_of (92 :: nat) # CHR ''u'' # pad_start 4 CHR ''0'' (hex_str n)
      else [c])"
proof -
  have "of_char c = n" using assms by simp
  then show ?thesis unfolding json_escape_char_def Let_def using assms(1) by (simp only:) simp
qed

lemma char_code: obtains n :: nat where "c = char_of n" "n < (256 :: nat)"
proof
  show "c = char_of (of_char c :: nat)" by simp
qed simp

lemma char_of_inject: "n < 256 \<Longrightarrow> m < 256 \<Longrightarrow> char_of n = char_of m \<longleftrightarrow> n = (m :: nat)"
  by (metis mod_less of_char_of)

lemma unescape_escape: "unescape (json_escape_char c @ r) = Some (c, r)"
proof -
  obtain n :: nat where n: "c = char_of n" "n < 256" by (rule char_code)
  have u: "take 4 (pad_start 4 CHR ''0'' (hex_str n) @ r) = pad_start 4 CHR ''0'' (hex_str n)"
      "drop 4 (pad_start 4 CHR ''0'' (hex_str n) @ r) = r" if "n < 32"
    using hex_str_length [of n 4] that by simp_all
  have val: "hex_value (pad_start 4 CHR ''0'' (hex_str n)) = n"
    by (simp add: pad_start_def hex_value_zeros hex_value_str)
  have plain: "c \<noteq> char_of (92 :: nat)" if "n \<noteq> 92" using that n by (simp add: char_of_inject)
  show ?thesis
    unfolding escape_shape [OF n] using plain n u val by (simp split: if_splits)
qed

lemma escape_not_quote: "json_escape_char c = d # r \<Longrightarrow> d \<noteq> char_of (34 :: nat)"
proof -
  obtain n :: nat where n: "c = char_of n" "n < 256" by (rule char_code)
  have "c \<noteq> char_of (34 :: nat)" if "n \<noteq> 34" using that n by (simp add: char_of_inject)
  then show "json_escape_char c = d # r \<Longrightarrow> d \<noteq> char_of (34 :: nat)"
    unfolding escape_shape [OF n] by (auto simp: char_of_inject split: if_splits)
qed

lemma escape_not_Nil: "json_escape_char c \<noteq> []"
proof -
  obtain n :: nat where n: "c = char_of n" "n < 256" by (rule char_code)
  show ?thesis unfolding escape_shape [OF n] by simp
qed

lemma escape_prefix: "json_escape_char c @ r = json_escape_char d @ s \<Longrightarrow> c = d \<and> r = s"
  by (metis option.inject prod.inject unescape_escape)

lemma quoted_prefix:
  "concat (map json_escape_char a) @ char_of (34 :: nat) # r =
     concat (map json_escape_char b) @ char_of (34 :: nat) # s \<Longrightarrow> a = b \<and> r = s"
proof (induction a arbitrary: b)
  case Nil
  then show ?case
  proof (cases b)
    case (Cons d b')
    with Nil show ?thesis using escape_not_quote [of d] escape_not_Nil [of d]
      by (cases "json_escape_char d") auto
  qed simp
next
  case (Cons c a)
  show ?case
  proof (cases b)
    case Nil
    with Cons.prems show ?thesis using escape_not_quote [of c] escape_not_Nil [of c]
      by (cases "json_escape_char c") auto
  next
    case (Cons d b')
    with Cons.prems have "json_escape_char c @ (concat (map json_escape_char a) @ char_of (34 :: nat) # r) =
        json_escape_char d @ (concat (map json_escape_char b') @ char_of (34 :: nat) # s)" by simp
    from escape_prefix [OF this] Cons.IH Cons show ?thesis by blast
  qed
qed

lemma json_quote_prefix: "json_quote a @ r = json_quote b @ s \<Longrightarrow> a = b \<and> r = s"
  using quoted_prefix [of a r b s] by (simp add: json_quote_def)

section \<open>Numbers\<close>

lemma digit_of_nat_str: "list_all is_digit (nat_str n)"
proof (induction n rule: nat_str.induct)
  case (1 n)
  have "is_digit (digit_char m)" if "m < 10" for m using that by (auto simp: is_digit_def)
  with 1 show ?case by (subst nat_str.simps) (auto simp del: digit_char.simps)
qed

definition nat_value :: "string \<Rightarrow> nat" where
  "nat_value s = foldl (\<lambda>n c. 10 * n + (of_char c - 48)) 0 s"

lemma nat_value_str: "nat_value (nat_str n) = n"
proof (induction n rule: nat_str.induct)
  case (1 n)
  show ?case
  proof (cases "n < 10")
    case True
    then show ?thesis by (subst nat_str.simps) (simp add: nat_value_def)
  next
    case False
    with 1 have "nat_value (nat_str (n div 10)) = n div 10" by simp
    with False show ?thesis by (subst nat_str.simps) (simp add: nat_value_def)
  qed
qed

definition is_num_char :: "char \<Rightarrow> bool" where
  "is_num_char c = (c = CHR ''-'' \<or> is_digit c)"

lemma int_str_chars: "list_all is_num_char (int_str i)" "int_str i \<noteq> []"
  using digit_of_nat_str by (auto simp: int_str_def is_num_char_def list_all_iff)

lemma nat_str_no_sign: "nat_str n \<noteq> CHR ''-'' # s"
  using digit_of_nat_str [of n] by (auto simp: is_digit_def)

lemma int_str_inject: "int_str i = int_str j \<longleftrightarrow> i = j"
proof
  assume "int_str i = int_str j"
  then have "(i < 0 \<longleftrightarrow> j < 0) \<and> nat_str (nat \<bar>i\<bar>) = nat_str (nat \<bar>j\<bar>)"
    using nat_str_no_sign nat_str_no_sign [THEN not_sym] by (auto simp: int_str_def split: if_splits)
  then have "(i < 0 \<longleftrightarrow> j < 0) \<and> nat \<bar>i\<bar> = nat \<bar>j\<bar>" by (metis nat_value_str)
  then show "i = j" by linarith
qed simp

section \<open>No text is the beginning of another\<close>

text \<open>What may follow the text of a value inside another text.\<close>

definition closes :: "string \<Rightarrow> bool" where
  "closes r = (r = [] \<or> hd r \<in> {CHR '','', CHR '']'', CHR ''}''})"

lemma closes_simps [simp]: "closes []" "closes (CHR '','' # r)" "closes (CHR '']'' # r)" "closes (CHR ''}'' # r)"
  by (simp_all add: closes_def)

lemma brackets_not_num: "\<not> is_num_char CHR '',''" "\<not> is_num_char CHR '']''" "\<not> is_num_char CHR ''}''"
  by (simp_all add: is_num_char_def is_digit_def)

lemma takeWhile_closes:
  assumes "list_all is_num_char a" and "closes r"
  shows "takeWhile is_num_char (a @ r) = a"
proof (cases r)
  case Nil
  then show ?thesis using assms(1) by (simp add: list_all_iff)
next
  case (Cons c r')
  with assms(2) have "\<not> is_num_char c" by (auto simp: closes_def brackets_not_num)
  then have "takeWhile is_num_char r = []" using Cons by simp
  then show ?thesis using assms(1) by (simp add: list_all_iff takeWhile_append2)
qed

lemma int_str_prefix: "int_str i @ r = int_str j @ s \<Longrightarrow> closes r \<Longrightarrow> closes s \<Longrightarrow> i = j \<and> r = s"
  by (metis append_same_eq int_str_chars(1) int_str_inject same_append_eq takeWhile_closes)

text \<open>The items of an array or an object, up to the bracket that closes it.\<close>

lemma join_prefix:
  assumes step: "\<And>x y r s. x \<in> set xs \<Longrightarrow> f x @ r = f y @ s \<Longrightarrow> closes r \<Longrightarrow> closes s \<Longrightarrow> x = y \<and> r = s"
    and head: "\<And>x. \<exists>c t. f x = c # t \<and> c \<noteq> close"
    and close: "closes [close]" "close \<noteq> CHR '',''"
    and eq: "join '','' (map f xs) @ close # r = join '','' (map f ys) @ close # s"
  shows "xs = ys \<and> r = s"
  using step eq
proof (induction xs arbitrary: ys)
  case Nil
  then show ?case
  proof (cases ys)
    case (Cons y ys')
    obtain c t where "f y = c # t" "c \<noteq> close" using head by blast
    with Nil.prems(2) Cons show ?thesis by (cases ys') auto
  qed simp
next
  case (Cons x xs)
  obtain c t where c: "f x = c # t" "c \<noteq> close" using head by blast
  obtain y ys' where ys: "ys = y # ys'" using Cons.prems(2) c by (cases ys; cases xs) auto
  define rest where "rest zs q = (if zs = [] then close # q else CHR '','' # join '','' (map f zs) @ close # q)" for zs q
  have unfold_join: "join '','' (map f (z # zs)) @ close # q = f z @ rest zs q" for z zs q
    by (cases zs) (simp_all add: rest_def)
  have "closes (rest zs q)" for zs q using close(1) by (simp add: rest_def closes_def)
  moreover have "f x @ rest xs r = f y @ rest ys' s"
    using Cons.prems(2) unfolding ys unfold_join .
  ultimately have xy: "x = y" and rest: "rest xs r = rest ys' s"
    using Cons.prems(1) [of x] by auto
  have empty: "xs = [] \<longleftrightarrow> ys' = []" using rest close(2) by (simp add: rest_def split: if_splits)
  show ?case
  proof (cases "xs = []")
    case True
    with empty rest xy ys show ?thesis by (simp add: rest_def)
  next
    case False
    with empty rest have "join '','' (map f xs) @ close # r = join '','' (map f ys') @ close # s"
      by (simp add: rest_def)
    moreover have "\<And>x y r s. x \<in> set xs \<Longrightarrow> f x @ r = f y @ s \<Longrightarrow> closes r \<Longrightarrow> closes s \<Longrightarrow> x = y \<and> r = s"
      by (intro Cons.prems(1)) auto
    ultimately show ?thesis using Cons.IH [of ys'] xy ys by simp
  qed
qed

text \<open>The first character tells the kind of a value.\<close>

fun kind_of :: "json \<Rightarrow> nat" where
  "kind_of JUndef = 0" | "kind_of JNull = 1" | "kind_of (JBool b) = (if b then 2 else 3)"
| "kind_of (JNum i) = 4" | "kind_of (JStr s) = 5" | "kind_of (JArr xs) = 6" | "kind_of (JObj kvs) = 7"

definition kind_of_char :: "char \<Rightarrow> nat" where
  "kind_of_char c =
     (if is_num_char c then 4 else if c = CHR ''u'' then 0 else if c = CHR ''n'' then 1
      else if c = CHR ''t'' then 2 else if c = CHR ''f'' then 3 else if c = char_of (34 :: nat) then 5
      else if c = CHR ''['' then 6 else if c = CHR ''{'' then 7 else 8)"

lemma kind_of_chars:
  "kind_of_char CHR ''u'' = 0" "kind_of_char CHR ''n'' = 1" "kind_of_char CHR ''t'' = 2"
  "kind_of_char CHR ''f'' = 3" "kind_of_char (char_of (34 :: nat)) = 5" "kind_of_char CHR ''['' = 6"
  "kind_of_char CHR ''{'' = 7" "kind_of_char CHR '']'' = 8" "kind_of_char CHR ''}'' = 8"
  "is_num_char c \<Longrightarrow> kind_of_char c = 4"
  by (simp_all add: kind_of_char_def is_num_char_def is_digit_def char_of_eq eq_char_of)

lemma exact_text_head: "\<exists>c t. exact_text v = c # t \<and> kind_of_char c = kind_of v"
proof (cases v)
  case (JNum i)
  then show ?thesis using int_str_chars [of i] by (cases "int_str i") (simp_all add: kind_of_chars)
qed (simp_all add: kind_of_chars bool_str_def json_quote_def)

lemma exact_text_kind: "exact_text v @ r = exact_text w @ s \<Longrightarrow> kind_of v = kind_of w"
  using exact_text_head [of v] exact_text_head [of w] by auto

lemma exact_text_prefix:
  "exact_text v @ r = exact_text w @ s \<Longrightarrow> closes r \<Longrightarrow> closes s \<Longrightarrow> v = w \<and> r = s"
proof (induction v arbitrary: w r s rule: exact_text.induct)
  case (4 i)
  from exact_text_kind [OF "4.prems"(1)] obtain j where "w = JNum j" by (cases w) (auto split: if_splits)
  with "4.prems"(1) have "int_str i @ r = int_str j @ s" by (simp only: exact_text.simps)
  from int_str_prefix [OF this "4.prems"(2,3)] \<open>w = JNum j\<close> show ?case by blast
next
  case (5 a)
  from exact_text_kind [OF "5.prems"(1)] obtain b where "w = JStr b" by (cases w) (auto split: if_splits)
  with "5.prems"(1) have "json_quote a @ r = json_quote b @ s" by (simp only: exact_text.simps)
  from json_quote_prefix [OF this] \<open>w = JStr b\<close> show ?case by blast
next
  case (6 xs)
  from exact_text_kind [OF "6.prems"(1)] obtain ys where w: "w = JArr ys" by (cases w) (auto split: if_splits)
  have head: "\<exists>c t. exact_text x = c # t \<and> c \<noteq> CHR '']''" for x
  proof -
    have "kind_of x \<noteq> 8" by (cases x) simp_all
    then show ?thesis using exact_text_head [of x] kind_of_chars(8) by metis
  qed
  have "join '','' (map exact_text xs) @ CHR '']'' # r = join '','' (map exact_text ys) @ CHR '']'' # s"
    using "6.prems"(1) w by simp
  from join_prefix [OF "6.IH" head _ _ this] w show ?case by simp
next
  case (7 kvs)
  from exact_text_kind [OF "7.prems"(1)] obtain kws where w: "w = JObj kws" by (cases w) (auto split: if_splits)
  define f where "f = (\<lambda>(k, v). json_quote k @ '':'' @ exact_text v)"
  have step: "x = y \<and> r = s" if "x \<in> set kvs" "f x @ r = f y @ s" "closes r" "closes s" for x y r s
  proof -
    obtain k v k' v' where x: "x = (k, v)" "y = (k', v')" by (cases x; cases y)
    with that(2) have "json_quote k @ (CHR '':'' # exact_text v @ r) = json_quote k' @ (CHR '':'' # exact_text v' @ s)"
      by (simp add: f_def)
    from json_quote_prefix [OF this] have "k = k'" and "exact_text v @ r = exact_text v' @ s" by auto
    with "7.IH" [OF that(1) x(1) [symmetric] _ that(3,4)] x show ?thesis by auto
  qed
  have head: "\<exists>c t. f x = c # t \<and> c \<noteq> CHR ''}''" for x
  proof -
    have "char_of (34 :: nat) \<noteq> CHR ''}''" by (simp add: char_of_eq)
    then show ?thesis by (cases x) (simp add: f_def json_quote_def)
  qed
  have "join '','' (map f kvs) @ CHR ''}'' # r = join '','' (map f kws) @ CHR ''}'' # s"
    using "7.prems"(1) w by (simp add: f_def)
  from join_prefix [OF step head _ _ this] w show ?case by simp
next
  case 1
  from exact_text_kind [OF "1.prems"(1)] have "w = JUndef" by (cases w) (auto split: if_splits)
  with "1.prems" show ?case by simp
next
  case 2
  from exact_text_kind [OF "2.prems"(1)] have "w = JNull" by (cases w) (auto split: if_splits)
  with "2.prems" show ?case by simp
next
  case (3 b)
  from exact_text_kind [OF "3.prems"(1)] have "w = JBool b" by (cases w) (auto split: if_splits)
  with "3.prems" show ?case by simp
qed

lemma exact_text_inject: "exact_text v = exact_text w \<longleftrightarrow> v = w"
  using exact_text_prefix [of v "[]" w "[]"] by auto

lemma defined_part_object: "defined_part v \<noteq> JUndef"
  by (cases v) simp_all

lemma json_stringify_inject:
  "json_stringify v = json_stringify w \<longleftrightarrow> (v = JUndef \<longleftrightarrow> w = JUndef) \<and> defined_part v = defined_part w"
  by (auto simp: json_stringify_def json_compact_plain exact_text_inject)

text \<open>The text that is hashed determines the value, when no array holds \<open>undefined\<close>: two values have the
  same stable text exactly when they are equal once the entries of every object are put in the order of their
  keys. So two such values with one digest and different content would be a collision of the hash function.\<close>
lemma stable_text_exact:
  assumes "defined_items v" and "defined_items w"
  shows "(stable_stringify v = stable_stringify w \<longleftrightarrow> sorted_keys v = sorted_keys w) \<and>
   (stable_hash E v = stable_hash E w \<longleftrightarrow>
      sorted_keys v = sorted_keys w \<or>
      stable_stringify v \<noteq> stable_stringify w \<and>
        sha256_hex E (stable_stringify v) = sha256_hex E (stable_stringify w))"
  using assms by (auto simp: stable_hash_def stable_stringify_plain exact_text_inject)

end
