(* ===== verification/Plan_Digest.thy ===== *)
theory Plan_Digest
  imports Plan_Canonical Json_Text "HOL-Library.Sublist"
begin

text \<open>
  What the digested text of a plan determines (\<open>planning/planfile-canonicalize.ts\<close> with
  \<open>util/hash.ts\<close>). The text is the stable text of the canonical object; since the keys of that object
  come in one fixed order, sorting them loses nothing but the order of keys inside the execution
  context, whose shape is free.
\<close>

section \<open>Values whose keys come in one order\<close>

lemma subseq_filter:
  assumes "subseq xs K" and "distinct K"
  shows "xs = filter (\<lambda>k. k \<in> set xs) K"
  using assms
proof (induction rule: list_emb.induct)
  case (list_emb_Cons xs ys y)
  then have "y \<notin> set xs" using list_emb_set [OF list_emb_Cons.hyps] by auto
  with list_emb_Cons show ?case by simp
next
  case (list_emb_Cons2 x y xs ys)
  then have rest: "xs = filter (\<lambda>k. k \<in> set xs) ys" and y: "x = y" "y \<notin> set ys" by simp_all
  have "filter (\<lambda>k. k \<in> set (x # xs)) ys = filter (\<lambda>k. k \<in> set xs) ys"
    by (rule filter_cong) (use y in auto)
  also have "\<dots> = xs" by (rule rest [symmetric])
  finally show ?case using y(1) by simp
qed simp

inductive aligned :: "json \<Rightarrow> json \<Rightarrow> bool" where
  sorted: "sorted_keys v = v \<Longrightarrow> sorted_keys w = w \<Longrightarrow> aligned v w"
| arr: "(\<And>x y. x \<in> set xs \<Longrightarrow> y \<in> set ys \<Longrightarrow> aligned x y) \<Longrightarrow> aligned (JArr xs) (JArr ys)"
| obj: "distinct K \<Longrightarrow> subseq (map fst kvs) K \<Longrightarrow> subseq (map fst kws) K \<Longrightarrow>
    (\<And>k v w. (k, v) \<in> set kvs \<Longrightarrow> (k, w) \<in> set kws \<Longrightarrow> aligned v w) \<Longrightarrow> aligned (JObj kvs) (JObj kws)"

lemma map_fst_pairs: "map fst (map (\<lambda>(k, v). (k, f v)) xs) = map fst xs"
  by (induction xs) auto

lemma pairs_eq:
  assumes "map fst a = map fst b" and "distinct (map fst a)" and "set a = set b"
  shows "a = b"
proof (rule nth_equalityI)
  show len: "length a = length b" using assms(1) by (metis length_map)
  fix i assume i: "i < length a"
  have key: "fst (a ! i) = fst (b ! i)" using assms(1) i len by (metis nth_map)
  have "b ! i \<in> set a" using assms(3) i len by simp
  moreover have "a ! i \<in> set a" using i by simp
  ultimately have "snd (a ! i) = snd (b ! i)"
    using assms(2) key by (metis eq_key_imp_eq_value prod.collapse)
  with key show "a ! i = b ! i" by (rule prod_eqI)
qed

lemma aligned_objects:
  assumes K: "distinct K" "subseq (map fst kvs) K" "subseq (map fst kws) K"
    and eq: "sorted_keys (JObj kvs) = sorted_keys (JObj kws)"
  shows "map (\<lambda>(k, v). (k, sorted_keys v)) kvs = map (\<lambda>(k, v). (k, sorted_keys v)) kws" (is "?s kvs = ?s kws")
proof (rule pairs_eq)
  have "sort_key fst (?s kvs) = sort_key fst (?s kws)" using eq by simp
  then show sets: "set (?s kvs) = set (?s kws)" by (metis set_sort)
  then have "fst ` set (?s kvs) = fst ` set (?s kws)" by (rule arg_cong)
  then have "set (map fst kvs) = set (map fst kws)" unfolding set_map [symmetric] map_fst_pairs .
  then have "filter (\<lambda>k. k \<in> set (map fst kvs)) K = filter (\<lambda>k. k \<in> set (map fst kws)) K" by (simp only:)
  then have keys: "map fst kvs = map fst kws"
    using subseq_filter [OF K(2,1), symmetric] subseq_filter [OF K(3,1), symmetric] by simp
  show "map fst (?s kvs) = map fst (?s kws)" unfolding map_fst_pairs by (rule keys)
  show "distinct (map fst (?s kvs))" unfolding map_fst_pairs
    using K(1) subseq_filter [OF K(2,1)] by (metis distinct_filter)
qed

lemma aligned_inject: "aligned v w \<Longrightarrow> sorted_keys v = sorted_keys w \<Longrightarrow> v = w"
proof (induction rule: aligned.induct)
  case (arr xs ys)
  from arr.prems have eq: "map sorted_keys xs = map sorted_keys ys" by simp
  then have "length xs = length ys" by (metis length_map)
  moreover have "xs ! i = ys ! i" if "i < length xs" for i
    using arr.IH [of "xs ! i" "ys ! i"] that eq \<open>length xs = length ys\<close> by (metis nth_map nth_mem)
  ultimately show ?case by (simp add: nth_equalityI)
next
  case (sorted v w)
  then show ?case by metis
next
  case (obj K kvs kws)
  from aligned_objects [OF obj.hyps(1-3) obj.prems]
  have eq: "map (\<lambda>(k, v). (k, sorted_keys v)) kvs = map (\<lambda>(k, v). (k, sorted_keys v)) kws" .
  then have len: "length kvs = length kws" by (metis length_map)
  have "kvs ! i = kws ! i" if i: "i < length kvs" for i
  proof -
    obtain k v k' w where kv: "kvs ! i = (k, v)" "kws ! i = (k', w)" by (cases "kvs ! i"; cases "kws ! i")
    then have "k = k'" "sorted_keys v = sorted_keys w"
      using arg_cong [OF eq, of "\<lambda>l. l ! i"] i len by simp_all
    moreover have "(k, v) \<in> set kvs" "(k', w) \<in> set kws" using kv i len nth_mem by metis+
    ultimately show ?thesis using obj.IH kv by auto
  qed
  with len show ?case by (simp add: nth_equalityI)
qed

section \<open>The canonical form\<close>

lemma sorted_atoms [simp]: "sorted_keys (jstrs xs) = jstrs xs"
  by (simp add: jstrs_def comp_def)

lemma subseq_jopt: "subseq (map fst (jopt k f x)) [k]"
  by (cases x) (simp_all add: jopt_def)

lemma in_jopt: "(k, v) \<in> set (jopt k' f x) \<longleftrightarrow> k = k' \<and> (\<exists>y. x = Some y \<and> v = f y)"
  by (cases x) (auto simp: jopt_def)

lemma subseq_opt: "subseq r K \<Longrightarrow> subseq (map fst (jopt k f x) @ r) (k # K)"
  by (cases x) (auto simp: jopt_def)

lemma aligned_atoms [intro]:
  "aligned (jstrs xs) (jstrs ys)" "aligned (JStr s) (JStr t)" "aligned (JBool a) (JBool b)" "aligned (JNum i) (JNum j)"
  by (rule aligned.sorted; simp)+

lemma aligned_lists [intro]:
  "(\<And>x y. aligned (f x) (f y)) \<Longrightarrow> aligned (JArr (map f xs)) (JArr (map f ys))"
  by (rule aligned.arr) auto

lemmas key_simps = subseq_opt subseq_jopt in_jopt

lemma aligned_node [intro]: "aligned (canonical_node_json m) (canonical_node_json n)"
  unfolding canonical_node_json_def
  by (rule aligned.obj [where K = "[''id'', ''kind'', ''title'', ''objective'', ''description'', ''depends_on'',
      ''allowed_capability_refs'', ''execution_mode'', ''expected_outputs'', ''acceptance_refs'', ''risk_level'',
      ''approval_required'', ''optional'', ''verification_command_ids'']"]) (auto simp: key_simps)

lemma aligned_goal_frame [intro]: "aligned (goal_frame_json g) (goal_frame_json h)"
  unfolding goal_frame_json_def
  by (rule aligned.obj [where K = "[''goal_id'', ''original_prompt'', ''interpreted_goal'', ''acceptance_criteria'',
      ''non_goals'', ''assumptions'', ''ambiguity'', ''suggested_mode'', ''risk_notes'', ''created_at'']"])
    (auto intro!: aligned.obj [where K = "[''level'', ''questions'', ''blocking'']"])

lemma aligned_parts [intro]:
  "aligned (plan_artifact_ref_json a) (plan_artifact_ref_json b)"
  "aligned (plan_edge_json d) (plan_edge_json e)"
  "aligned (approval_policy_json p) (approval_policy_json q)"
  "aligned (verification_policy_json xs) (verification_policy_json ys)"
  "aligned (canonical_lifecycle_json l) (canonical_lifecycle_json m)"
proof -
  show "aligned (plan_artifact_ref_json a) (plan_artifact_ref_json b)"
    unfolding plan_artifact_ref_json_def
    by (rule aligned.obj [where K = "[''artifact_id'', ''kind'', ''path_or_uri'', ''summary'', ''created_at'']"]) auto
  show "aligned (plan_edge_json d) (plan_edge_json e)"
    unfolding plan_edge_json_def by (rule aligned.obj [where K = "[''from'', ''to'', ''reason'']"]) auto
  show "aligned (approval_policy_json p) (approval_policy_json q)"
    unfolding approval_policy_json_def
    by (rule aligned.obj [where K = "[''require_approval_for_risks'', ''approved_plan_digest'',
        ''explicit_destructive_goal'']"]) (auto simp: key_simps)
  show "aligned (verification_policy_json xs) (verification_policy_json ys)"
    unfolding verification_policy_json_def by (rule aligned.obj [where K = "[''allowed_command_ids'']"]) auto
  show "aligned (canonical_lifecycle_json l) (canonical_lifecycle_json m)"
    unfolding canonical_lifecycle_json_def
    by (rule aligned.obj [where K = "[''builder_session_id'', ''questions_answered'', ''assumptions'']"])
      (auto simp: key_simps)
qed

text \<open>The entries of the execution context in the order of their keys, at every depth.\<close>

definition sorted_entries :: "(string \<times> json) list \<Rightarrow> (string \<times> json) list" where
  "sorted_entries kvs = sort_key fst (map (\<lambda>(k, v). (k, sorted_keys v)) kvs)"

lemma sorted_keys_idem: "sorted_keys (sorted_keys v) = sorted_keys v"
proof (induction v rule: sorted_keys.induct)
  case (2 kvs)
  let ?f = "map (\<lambda>(k, v). (k, sorted_keys v))"
  let ?xs = "sort_key fst (?f kvs)"
  have inner: "?f (?f kvs) = ?f kvs" using "2" by (auto simp: comp_def)
  have "?f ?xs = sort_key fst (?f (?f kvs))" by (rule sort_key_map_snd [symmetric])
  then have "?f ?xs = ?xs" unfolding inner .
  moreover have "sort_key fst ?xs = ?xs" by (rule sort_key_id_if_sorted) simp
  ultimately show ?case by simp
qed simp_all

lemma sorted_entries_sorted: "sorted_keys (JObj (sorted_entries kvs)) = JObj (sorted_entries kvs)"
  using sorted_keys_idem [of "JObj kvs"] by (simp add: sorted_entries_def)

text \<open>The work of a plan, with its execution context in the order of its keys.\<close>

definition digested_work :: "planfile \<Rightarrow> planfile" where
  "digested_work p =
     (plan_work p)\<lparr>pf_execution_context := map_option sorted_entries (pf_execution_context p)\<rparr>"

definition with_sorted_context :: "planfile \<Rightarrow> planfile" where
  "with_sorted_context p = p\<lparr>pf_execution_context := map_option sorted_entries (pf_execution_context p)\<rparr>"

lemma digested_work_eq: "digested_work p = plan_work (with_sorted_context p)"
  by (simp add: digested_work_def with_sorted_context_def plan_work_def)

lemma sorted_form: "sorted_keys (canonical_form (with_sorted_context p)) = sorted_keys (canonical_form p)"
  using sorted_entries_sorted
  by (cases "pf_execution_context p")
    (simp_all add: canonical_form_def with_sorted_context_def jopt_def sorted_entries_def sorted_keys_idem)

lemma aligned_forms: "aligned (canonical_form (with_sorted_context p)) (canonical_form (with_sorted_context q))"
  unfolding canonical_form_def
  by (rule aligned.obj [where K = "[''schema_version'', ''plan_id'', ''goal_frame'', ''mode'', ''nodes'', ''edges'',
      ''approval_policy'', ''verification_policy'', ''execution_context'', ''lifecycle'', ''artifact_refs'']"])
    (auto simp: key_simps with_sorted_context_def intro: aligned.sorted [OF sorted_entries_sorted sorted_entries_sorted])

text \<open>Only the execution context can hold an array with \<open>undefined\<close> in it.\<close>

definition defined_context :: "planfile \<Rightarrow> bool" where
  "defined_context p = opt_ok (\<lambda>c. defined_items (JObj c)) (pf_execution_context p)"

lemma items_jstrs: "defined_items (jstrs xs)"
  by (simp add: jstrs_def list_all_iff)

lemma items_jopt: "list_all (\<lambda>(k, v). defined_items v) (jopt k f x) = opt_ok (\<lambda>y. defined_items (f y)) x"
  by (cases x) (simp_all add: jopt_def)

lemma items_of_parts:
  "defined_items (goal_frame_json g)" "defined_items (canonical_node_json n)" "defined_items (plan_edge_json e)"
  "defined_items (approval_policy_json a)" "defined_items (verification_policy_json xs)"
  "defined_items (canonical_lifecycle_json l)" "defined_items (plan_artifact_ref_json r)"
  by (simp_all add: goal_frame_json_def canonical_node_json_def plan_edge_json_def approval_policy_json_def
      verification_policy_json_def canonical_lifecycle_json_def plan_artifact_ref_json_def items_jstrs items_jopt opt_ok_def
      split: option.split)

lemma parts_not_undef:
  "canonical_node_json n \<noteq> JUndef" "plan_edge_json e \<noteq> JUndef" "plan_artifact_ref_json r \<noteq> JUndef"
  by (simp_all add: canonical_node_json_def plan_edge_json_def plan_artifact_ref_json_def)

lemma defined_form: "defined_context p \<Longrightarrow> defined_items (canonical_form p)"
  by (simp add: canonical_form_def defined_context_def items_jopt items_of_parts parts_not_undef list.pred_map comp_def
      list.pred_True opt_ok_def split: option.splits)

lemma canonical_text_inject:
  assumes "defined_context p" and "defined_context q"
  shows "stable_stringify (canonical_form p) = stable_stringify (canonical_form q) \<longleftrightarrow> digested_work p = digested_work q"
proof -
  have "stable_stringify (canonical_form p) = stable_stringify (canonical_form q) \<longleftrightarrow>
      sorted_keys (canonical_form (with_sorted_context p)) = sorted_keys (canonical_form (with_sorted_context q))"
    using assms by (simp add: stable_stringify_plain defined_form exact_text_inject sorted_form)
  also have "\<dots> \<longleftrightarrow> canonical_form (with_sorted_context p) = canonical_form (with_sorted_context q)"
    using aligned_inject [OF aligned_forms] by auto
  finally show ?thesis by (simp add: canonical_form_inject digested_work_eq)
qed

section \<open>Property\<close>

text \<open>C39: The digest of a plan covers the work it describes, but for its requirements. Two valid plans whose
  execution contexts hold no array with an undefined element have the same canonical JSON text exactly when
  they agree on everything but the requirements, the status, the time stamps, the digest, the validation and
  simulation status, the progress of their nodes and the order of keys inside the execution context; so two
  such plans with one digest that differ otherwise would be a collision of SHA-256.\<close>
theorem digest_covers_work:
  assumes "planfile_ok E p" and "planfile_ok E q" and "defined_context p" and "defined_context q"
  shows "(canonical_plan_json E p = canonical_plan_json E q \<longleftrightarrow> digested_work p = digested_work q) \<and>
    (canonical_plan_digest E p = canonical_plan_digest E q \<longleftrightarrow>
       digested_work p = digested_work q \<or>
       (\<exists>s t. canonical_plan_json E p = Some s \<and> canonical_plan_json E q = Some t \<and> s \<noteq> t \<and>
          sha256_hex E s = sha256_hex E t))"
  using assms canonical_text_inject [of p q]
  by (auto simp: canonical_plan_json_def canonical_plan_digest_def canonical_plan_object_def stable_hash_def)

theorem digest_covers_work_witness:
  "canonical_plan_json sample_env (sample_plan\<lparr>pf_execution_context := Some [(''b'', JNum 1), (''a'', JNull)]\<rparr>) =
     canonical_plan_json sample_env
       (sample_plan\<lparr>pf_status := PS_running, pf_execution_context := Some [(''a'', JNull), (''b'', JNum 1)]\<rparr>) \<and>
   canonical_plan_json sample_env sample_plan \<noteq>
     canonical_plan_json sample_env (sample_plan\<lparr>pf_mode := Plan_dry_run\<rparr>)"
proof -
  have ok: "planfile_ok sample_env (sample_plan\<lparr>pf_execution_context := Some [(''b'', JNum 1), (''a'', JNull)]\<rparr>)"
    "planfile_ok sample_env
       (sample_plan\<lparr>pf_status := PS_running, pf_execution_context := Some [(''a'', JNull), (''b'', JNum 1)]\<rparr>)"
    "planfile_ok sample_env (sample_plan\<lparr>pf_mode := Plan_dry_run\<rparr>)"
    using sample_plan_ok by (simp_all add: planfile_ok_def)
  have "sorted_entries [(''b'', JNum 1), (''a'', JNull)] = sorted_entries [(''a'', JNull), (''b'', JNum 1)]"
    by (simp add: sorted_entries_def)
  moreover have "defined_context (sample_plan\<lparr>pf_execution_context := Some [(''b'', JNum 1), (''a'', JNull)]\<rparr>)"
    "defined_context (sample_plan\<lparr>pf_status := PS_running, pf_execution_context := Some [(''a'', JNull), (''b'', JNum 1)]\<rparr>)"
    "defined_context sample_plan" "defined_context (sample_plan\<lparr>pf_mode := Plan_dry_run\<rparr>)"
    by (simp_all add: defined_context_def sample_plan_def)
  ultimately show ?thesis
    using digest_covers_work [OF ok(1,2)] digest_covers_work [OF sample_plan_ok ok(3)]
    by (simp add: digested_work_def plan_work_def sample_plan_def)
qed

text \<open>With such arrays two different contexts have one digest.\<close>

lemma undefined_item_digest:
  "canonical_form (sample_plan\<lparr>pf_execution_context := Some [(''a'', JArr [JUndef])]\<rparr>) \<noteq>
     canonical_form (sample_plan\<lparr>pf_execution_context := Some [(''a'', JArr [])]\<rparr>) \<and>
   stable_hash E (JObj [(''a'', JArr [JUndef])]) = stable_hash E (JObj [(''a'', JArr [])])"
  by (simp add: canonical_form_def jopt_def stable_hash_def)

end
