(* ===== verification/Plan_Diff.thy ===== *)
theory Plan_Diff
  imports Plan_Requirements Json_Text Plan_Canonical
begin

text \<open>
  \<open>planning/planfile-diff.ts\<close>: the structured difference of two plans that a person sees before an
  edit is accepted. Values are compared by their JSON text. The lemmas say what each part of the
  difference holds, and what no part of it shows.
\<close>

section \<open>The difference\<close>

definition same_json :: "json \<Rightarrow> json \<Rightarrow> bool" where
  "same_json v w = (json_stringify v = json_stringify w)"

record node_change =
  dn_node_id :: string
  dn_changed_fields :: "string list"
  dn_before :: "(string \<times> json) list"
  dn_after :: "(string \<times> json) list"

record requirement_change =
  dq_kind :: string
  dq_before :: json
  dq_after :: json

record risk_change =
  dk_target :: string
  dk_before :: string
  dk_after :: string
  dk_increased :: bool

record approval_change =
  da_target :: string
  da_before :: bool
  da_after :: bool

record structured_diff =
  df_nodes_added :: "plan_node list"
  df_nodes_removed :: "plan_node list"
  df_nodes_changed :: "node_change list"
  df_edges_added :: "plan_edge list"
  df_edges_removed :: "plan_edge list"
  df_capabilities_added :: "string list"
  df_capabilities_removed :: "string list"
  df_requirements_changed :: "requirement_change list"
  df_risk_changes :: "risk_change list"
  df_approval_changes :: "approval_change list"
  df_schedule_changed :: "(json \<times> json) option"
  df_parameters_changed :: "(string \<times> json \<times> json) list option"

text \<open>\<open>kind\<close> is one of a fixed list and the values are unknown, so the schema asks for the nodes and edges
  to fit theirs and for texts that are not empty.\<close>

definition structured_diff_ok :: "env \<Rightarrow> structured_diff \<Rightarrow> bool" where
  "structured_diff_ok E d =
     (list_all (plan_node_ok E) (df_nodes_added d) \<and> list_all (plan_node_ok E) (df_nodes_removed d) \<and>
      list_all (\<lambda>c. nonempty (dn_node_id c) \<and> list_all nonempty (dn_changed_fields c)) (df_nodes_changed d) \<and>
      list_all plan_edge_ok (df_edges_added d) \<and> list_all plan_edge_ok (df_edges_removed d) \<and>
      list_all nonempty (df_capabilities_added d) \<and> list_all nonempty (df_capabilities_removed d) \<and>
      list_all (\<lambda>c. nonempty (dk_target c) \<and> nonempty (dk_before c) \<and> nonempty (dk_after c)) (df_risk_changes d) \<and>
      list_all (\<lambda>c. nonempty (da_target c)) (df_approval_changes d) \<and>
      opt_ok (list_all (\<lambda>(name, _). nonempty name)) (df_parameters_changed d))"

text \<open>The properties a node has, and those of the later node that differ.\<close>

definition node_entries :: "plan_node \<Rightarrow> (string \<times> json) list" where
  "node_entries n = (case plan_node_json n of JObj kvs \<Rightarrow> kvs | _ \<Rightarrow> [])"

definition entry :: "(string \<times> json) list \<Rightarrow> string \<Rightarrow> json" where
  "entry kvs k = nullish (map_of kvs k) JUndef"

definition changed_node_fields :: "plan_node \<Rightarrow> plan_node \<Rightarrow> string list" where
  "changed_node_fields m n =
     sort (filter (\<lambda>k. \<not> same_json (entry (node_entries m) k) (entry (node_entries n) k))
       (map fst (node_entries n)))"

definition partial_node :: "plan_node \<Rightarrow> string list \<Rightarrow> (string \<times> json) list" where
  "partial_node n ks = map (\<lambda>k. (k, entry (node_entries n) k)) ks"

definition edge_key :: "plan_edge \<Rightarrow> string" where
  "edge_key e = json_compact (jstrs [e_from e, e_to e, e_reason e])"

definition capability_refs :: "planfile \<Rightarrow> string list" where
  "capability_refs p = uniq (concat (map n_allowed_capability_refs (pf_nodes p)))"

definition change_of :: "string \<Rightarrow> json \<Rightarrow> json \<Rightarrow> requirement_change list" where
  "change_of kind a b =
     (if same_json a b then [] else [\<lparr>dq_kind = kind, dq_before = a, dq_after = b\<rparr>])"

definition requirement_changes :: "planfile \<Rightarrow> planfile \<Rightarrow> requirement_change list option" where
  "requirement_changes p q =
     Option.bind (derive_plan_requirements p None None) (\<lambda>a.
     Option.bind (derive_plan_requirements q None None) (\<lambda>b.
     Some (change_of ''pack'' (jstrs (dr_packs a)) (jstrs (dr_packs b)) @
       change_of ''provider'' (jstrs (dr_providers a)) (jstrs (dr_providers b)) @
       change_of ''credential'' (jstrs (dr_credentials a)) (jstrs (dr_credentials b)) @
       change_of ''permission'' (jstrs (dr_permissions a)) (jstrs (dr_permissions b)) @
       change_of ''approval'' (jstrs (dr_approvals a)) (jstrs (dr_approvals b)) @
       change_of ''runtime'' (JStr (portability_str (dr_portability a))) (JStr (portability_str (dr_portability b))))))"

definition risk_rank :: "string \<Rightarrow> nat" where
  "risk_rank s =
     (if s = ''read'' \<or> s = ''none'' then 0
      else if s = ''write'' then 1
      else if s = ''external_side_effect'' then 2
      else if s = ''destructive'' then 3
      else 0)"

definition risk_change_of :: "string \<Rightarrow> string \<Rightarrow> string \<Rightarrow> risk_change" where
  "risk_change_of target a b =
     \<lparr>dk_target = target, dk_before = a, dk_after = b, dk_increased = (risk_rank b > risk_rank a)\<rparr>"

definition plan_parameters :: "planfile \<Rightarrow> (string \<times> json) list" where
  "plan_parameters p = nullish (as_record (context_field (pf_execution_context p) ''parameters'')) []"

definition parameter_changes :: "planfile \<Rightarrow> planfile \<Rightarrow> (string \<times> json \<times> json) list" where
  "parameter_changes p q =
     concat (map (\<lambda>k.
         if same_json (entry (plan_parameters p) k) (entry (plan_parameters q) k) then []
         else [(k, entry (plan_parameters p) k, entry (plan_parameters q) k)])
       (sorted_unique (map fst (plan_parameters p) @ map fst (plan_parameters q))))"

definition node_change_of :: "(string \<times> plan_node) list \<Rightarrow> plan_node \<Rightarrow> node_change list" where
  "node_change_of previous n =
     (case map_of previous (n_id n) of
        None \<Rightarrow> []
      | Some m \<Rightarrow>
          (let ks = changed_node_fields m n in
           if ks = [] then []
           else [\<lparr>dn_node_id = n_id n, dn_changed_fields = ks, dn_before = partial_node m ks,
                  dn_after = partial_node n ks\<rparr>]))"

definition risk_changes_of :: "(string \<times> plan_node) list \<Rightarrow> plan_node list \<Rightarrow> plan_node list \<Rightarrow> risk_change list" where
  "risk_changes_of previous added nodes =
     map (\<lambda>n. risk_change_of (n_id n) ''none'' (risk_str (n_risk_level n))) added @
     concat (map (\<lambda>n. case map_of previous (n_id n) of
         Some m \<Rightarrow> if n_risk_level m \<noteq> n_risk_level n
                   then [risk_change_of (n_id n) (risk_str (n_risk_level m)) (risk_str (n_risk_level n))] else []
       | None \<Rightarrow> []) nodes)"

definition approval_changes_of :: "(string \<times> plan_node) list \<Rightarrow> plan_node list \<Rightarrow> approval_change list" where
  "approval_changes_of previous nodes =
     concat (map (\<lambda>n. case map_of previous (n_id n) of
         Some m \<Rightarrow> if n_approval_required m \<noteq> n_approval_required n
                   then [\<lparr>da_target = n_id n, da_before = n_approval_required m, da_after = n_approval_required n\<rparr>]
                   else []
       | None \<Rightarrow> []) nodes)"

definition diff_of :: "planfile \<Rightarrow> planfile \<Rightarrow> requirement_change list \<Rightarrow> structured_diff" where
  "diff_of p q requirements =
     (let previous = map_by n_id (pf_nodes p); later = map_by n_id (pf_nodes q);
          added = filter (\<lambda>n. map_of previous (n_id n) = None) (pf_nodes q);
          previous_edges = uniq (map edge_key (pf_edges p)); later_edges = uniq (map edge_key (pf_edges q));
          parameters = parameter_changes p q
      in \<lparr>df_nodes_added = added,
          df_nodes_removed = filter (\<lambda>n. map_of later (n_id n) = None) (pf_nodes p),
          df_nodes_changed = concat (map (node_change_of previous) (pf_nodes q)),
          df_edges_added = filter (\<lambda>e. edge_key e \<notin> set previous_edges) (pf_edges q),
          df_edges_removed = filter (\<lambda>e. edge_key e \<notin> set later_edges) (pf_edges p),
          df_capabilities_added = sort (filter (\<lambda>c. c \<notin> set (capability_refs p)) (capability_refs q)),
          df_capabilities_removed = sort (filter (\<lambda>c. c \<notin> set (capability_refs q)) (capability_refs p)),
          df_requirements_changed = requirements,
          df_risk_changes = risk_changes_of previous added (pf_nodes q),
          df_approval_changes = approval_changes_of previous (pf_nodes q),
          df_schedule_changed = (if same_json (schedule_value p) (schedule_value q) then None
                                 else Some (schedule_value p, schedule_value q)),
          df_parameters_changed = (if parameters \<noteq> [] then Some parameters else None)\<rparr>)"

text \<open>\<open>None\<close> is an error of the schema library.\<close>

definition diff_planfiles :: "env \<Rightarrow> planfile \<Rightarrow> planfile \<Rightarrow> structured_diff option" where
  "diff_planfiles E p q =
     Option.bind (requirement_changes p q) (\<lambda>requirements.
       let d = diff_of p q requirements in if structured_diff_ok E d then Some d else None)"

definition has_structured_diff_changes :: "structured_diff \<Rightarrow> bool" where
  "has_structured_diff_changes d =
     (df_nodes_added d \<noteq> [] \<or> df_nodes_removed d \<noteq> [] \<or> df_nodes_changed d \<noteq> [] \<or>
      df_edges_added d \<noteq> [] \<or> df_edges_removed d \<noteq> [] \<or>
      df_capabilities_added d \<noteq> [] \<or> df_capabilities_removed d \<noteq> [] \<or>
      df_requirements_changed d \<noteq> [] \<or> df_risk_changes d \<noteq> [] \<or> df_approval_changes d \<noteq> [] \<or>
      df_schedule_changed d \<noteq> None \<or> nullish (df_parameters_changed d) [] \<noteq> [])"

lemma diff_of_fields:
  "df_nodes_added (diff_of p q r) = filter (\<lambda>n. map_of (map_by n_id (pf_nodes p)) (n_id n) = None) (pf_nodes q)"
  "df_nodes_removed (diff_of p q r) = filter (\<lambda>n. map_of (map_by n_id (pf_nodes q)) (n_id n) = None) (pf_nodes p)"
  "df_nodes_changed (diff_of p q r) = concat (map (node_change_of (map_by n_id (pf_nodes p))) (pf_nodes q))"
  "df_edges_added (diff_of p q r) = filter (\<lambda>e. edge_key e \<notin> set (uniq (map edge_key (pf_edges p)))) (pf_edges q)"
  "df_edges_removed (diff_of p q r) = filter (\<lambda>e. edge_key e \<notin> set (uniq (map edge_key (pf_edges q)))) (pf_edges p)"
  "df_capabilities_added (diff_of p q r) = sort (filter (\<lambda>c. c \<notin> set (capability_refs p)) (capability_refs q))"
  "df_capabilities_removed (diff_of p q r) = sort (filter (\<lambda>c. c \<notin> set (capability_refs q)) (capability_refs p))"
  "df_requirements_changed (diff_of p q r) = r"
  "df_risk_changes (diff_of p q r) = risk_changes_of (map_by n_id (pf_nodes p)) (filter (\<lambda>n. map_of (map_by n_id (pf_nodes p)) (n_id n) = None) (pf_nodes q)) (pf_nodes q)"
  "df_approval_changes (diff_of p q r) = approval_changes_of (map_by n_id (pf_nodes p)) (pf_nodes q)"
  "df_schedule_changed (diff_of p q r) = (if same_json (schedule_value p) (schedule_value q) then None else Some (schedule_value p, schedule_value q))"
  "df_parameters_changed (diff_of p q r) = (if (parameter_changes p q) \<noteq> [] then Some (parameter_changes p q) else None)"
  by (simp_all only: diff_of_def Let_def structured_diff.simps)

section \<open>Comparing by text\<close>

lemma same_json_refl [simp]: "same_json v v"
  by (simp add: same_json_def)

lemma same_json_sym: "same_json v w \<longleftrightarrow> same_json w v"
  by (auto simp: same_json_def)

lemma same_json_iff:
  "same_json v w \<longleftrightarrow> (v = JUndef \<longleftrightarrow> w = JUndef) \<and> defined_part v = defined_part w"
  by (simp add: same_json_def json_stringify_inject)

lemma defined_jstrs [simp]: "defined_part (jstrs xs) = jstrs xs"
  by (simp add: jstrs_def comp_def)

lemma same_json_strings [simp]:
  "same_json (jstrs xs) (jstrs ys) \<longleftrightarrow> xs = ys" "same_json (JStr s) (JStr t) \<longleftrightarrow> s = t"
  "same_json (JBool a) (JBool b) \<longleftrightarrow> a = b" "\<not> same_json JUndef (jstrs xs)"
  by (simp_all add: same_json_iff) (simp add: jstrs_def)

lemma edge_key_inject [simp]: "edge_key a = edge_key b \<longleftrightarrow> a = b"
  by (cases a; cases b) (simp add: edge_key_def json_compact_plain exact_text_inject)

section \<open>Parts of the difference\<close>

lemma risk_rank_str [simp]: "risk_rank (risk_str r) = risk_order r"
  by (cases r) (simp_all add: risk_rank_def)

lemma risk_rank_none [simp]: "risk_rank ''none'' = 0"
  by (simp add: risk_rank_def)

lemma map_by_None: "map_of (map_by key xs) k = None \<longleftrightarrow> k \<notin> key ` set xs"
  by (auto simp: map_of_map_by find_last_def find_None_iff)

lemma map_by_distinct:
  assumes "distinct (map key xs)" and "x \<in> set xs"
  shows "map_of (map_by key xs) (key x) = Some x"
proof -
  obtain y where y: "map_of (map_by key xs) (key x) = Some y"
    using assms(2) map_by_None [of key xs "key x"] by (cases "map_of (map_by key xs) (key x)") auto
  then have "y \<in> set xs" "key y = key x" using map_by_props(2) [OF map_of_SomeD] by metis+
  with assms have "y = x" by (auto simp: distinct_map inj_on_def)
  with y show ?thesis by simp
qed

lemma concat_map_Nil: "concat (map f xs) = [] \<longleftrightarrow> (\<forall>x \<in> set xs. f x = [])"
  by auto

lemma all_in_concat: "list_all P (concat (map f xs)) \<longleftrightarrow> (\<forall>x \<in> set xs. list_all P (f x))"
  by (induction xs) auto

lemma set_capability_refs [simp]: "set (capability_refs p) = (\<Union>n \<in> set (pf_nodes p). set (n_allowed_capability_refs n))"
  by (simp add: capability_refs_def)

text \<open>No change of the list raises a risk: a new node only reads, another keeps at most its risk.\<close>

definition risk_kept :: "planfile \<Rightarrow> plan_node \<Rightarrow> bool" where
  "risk_kept p n =
     (case map_of (map_by n_id (pf_nodes p)) (n_id n) of
        None \<Rightarrow> n_risk_level n = Risk_read
      | Some m \<Rightarrow> risk_order (n_risk_level n) \<le> risk_order (n_risk_level m))"

lemma no_increase_iff:
  "filter dk_increased (df_risk_changes (diff_of p q r)) = [] \<longleftrightarrow> list_all (risk_kept p) (pf_nodes q)"
proof -
  let ?prev = "map_by n_id (pf_nodes p)"
  have one: "list_all (\<lambda>c. \<not> dk_increased c) (map (\<lambda>n. risk_change_of (n_id n) ''none'' (risk_str (n_risk_level n)))
      (filter (\<lambda>n. map_of ?prev (n_id n) = None) (pf_nodes q))) \<longleftrightarrow>
      (\<forall>n \<in> set (pf_nodes q). map_of ?prev (n_id n) = None \<longrightarrow> n_risk_level n = Risk_read)"
  proof -
    have "risk_order l > 0 \<longleftrightarrow> l \<noteq> Risk_read" for l by (cases l) simp_all
    then show ?thesis by (auto simp: list_all_iff risk_change_of_def)
  qed
  have two: "list_all (\<lambda>c. \<not> dk_increased c) (concat (map (\<lambda>n. case map_of ?prev (n_id n) of
         Some m \<Rightarrow> if n_risk_level m \<noteq> n_risk_level n
                   then [risk_change_of (n_id n) (risk_str (n_risk_level m)) (risk_str (n_risk_level n))] else []
       | None \<Rightarrow> []) (pf_nodes q))) \<longleftrightarrow>
      (\<forall>n \<in> set (pf_nodes q). \<forall>m. map_of ?prev (n_id n) = Some m \<longrightarrow>
         risk_order (n_risk_level n) \<le> risk_order (n_risk_level m))"
  proof -
    have "list_all (\<lambda>c. \<not> dk_increased c) (case x of
         Some m \<Rightarrow> if n_risk_level m \<noteq> n_risk_level n
                   then [risk_change_of (n_id n) (risk_str (n_risk_level m)) (risk_str (n_risk_level n))] else []
       | None \<Rightarrow> []) \<longleftrightarrow> (\<forall>m. x = Some m \<longrightarrow> risk_order (n_risk_level n) \<le> risk_order (n_risk_level m))" for n x
      by (cases x) (simp_all add: risk_change_of_def not_less)
    then show ?thesis unfolding all_in_concat by (intro ball_cong HOL.refl)
  qed
  have none: "filter dk_increased xs = [] \<longleftrightarrow> list_all (\<lambda>c. \<not> dk_increased c) xs" for xs
    by (induction xs) auto
  have "filter dk_increased (df_risk_changes (diff_of p q r)) = [] \<longleftrightarrow>
      (\<forall>n \<in> set (pf_nodes q). map_of ?prev (n_id n) = None \<longrightarrow> n_risk_level n = Risk_read) \<and>
      (\<forall>n \<in> set (pf_nodes q). \<forall>m. map_of ?prev (n_id n) = Some m \<longrightarrow>
         risk_order (n_risk_level n) \<le> risk_order (n_risk_level m))"
    by (simp only: none diff_of_fields risk_changes_of_def structured_diff.simps list_all_append one two)
  also have "\<dots> \<longleftrightarrow> list_all (risk_kept p) (pf_nodes q)"
    by (auto simp: list_all_iff risk_kept_def split: option.splits)
  finally show ?thesis .
qed

section \<open>When there is a difference to report\<close>

lemma plan_node_ok_caps: "planfile_ok E p \<Longrightarrow> c \<in> set (capability_refs p) \<Longrightarrow> c \<noteq> []"
  by (auto simp: planfile_ok_def plan_node_ok_def list_all_iff)

lemma node_entry_names: "list_all nonempty (map fst (node_entries n))"
  by (auto simp: node_entries_def plan_node_json_def canonical_node_json_def jopt_def list_all_iff split: option.splits)

lemma changed_fields_names: "list_all nonempty (changed_node_fields m n)"
  using node_entry_names [of n] by (auto simp: changed_node_fields_def list_all_iff)

definition parameter_names :: "planfile \<Rightarrow> string set" where
  "parameter_names p = fst ` set (plan_parameters p)"

lemma parameter_changes_iff:
  "(k, v, w) \<in> set (parameter_changes p q) \<longleftrightarrow>
     k \<in> parameter_names p \<union> parameter_names q \<and> v = entry (plan_parameters p) k \<and> w = entry (plan_parameters q) k \<and>
     \<not> same_json v w"
  by (auto simp: parameter_changes_def parameter_names_def)

lemma requirement_changes_total:
  "planfile_ok E p \<Longrightarrow> planfile_ok E q \<Longrightarrow> requirement_changes p q \<noteq> None"
  by (simp add: requirement_changes_def requirements_ok)

lemma diff_of_ok:
  assumes "planfile_ok E p" and "planfile_ok E q" and "[] \<notin> parameter_names p \<union> parameter_names q"
  shows "structured_diff_ok E (diff_of p q r)"
proof -
  have nodes: "n \<in> set (pf_nodes p) \<union> set (pf_nodes q) \<Longrightarrow> plan_node_ok E n" for n
    using assms(1,2) by (auto simp: planfile_ok_def list_all_iff)
  then have ids: "n \<in> set (pf_nodes p) \<union> set (pf_nodes q) \<Longrightarrow> n_id n \<noteq> []" for n
    by (auto simp: plan_node_ok_def)
  have edges: "e \<in> set (pf_edges p) \<union> set (pf_edges q) \<Longrightarrow> plan_edge_ok e" for e
    using assms(1,2) by (auto simp: planfile_ok_def list_all_iff)
  have risks: "risk_str l \<noteq> []" for l by (cases l) simp_all
  have "list_all (\<lambda>c. nonempty (dn_node_id c) \<and> list_all nonempty (dn_changed_fields c)) (df_nodes_changed (diff_of p q r))"
    using ids changed_fields_names
    by (auto simp: diff_of_fields Let_def node_change_of_def all_in_concat split: option.splits)
  moreover have "list_all (\<lambda>c. nonempty (dk_target c) \<and> nonempty (dk_before c) \<and> nonempty (dk_after c))
      (df_risk_changes (diff_of p q r))"
    using ids risks
    by (auto simp: diff_of_fields Let_def risk_changes_of_def all_in_concat list_all_iff risk_change_of_def split: option.splits)
  moreover have "list_all (\<lambda>c. nonempty (da_target c)) (df_approval_changes (diff_of p q r))"
    using ids by (auto simp: diff_of_fields Let_def approval_changes_of_def all_in_concat split: option.splits)
  moreover have "opt_ok (list_all (\<lambda>(name, _). nonempty name)) (df_parameters_changed (diff_of p q r))"
    using assms(3) by (auto simp: diff_of_fields Let_def list_all_iff parameter_changes_iff)
  moreover have "list_all nonempty (df_capabilities_added (diff_of p q r))"
      "list_all nonempty (df_capabilities_removed (diff_of p q r))"
    using plan_node_ok_caps [OF assms(1)] plan_node_ok_caps [OF assms(2)]
    by (simp_all add: diff_of_fields Let_def list_all_iff del: set_capability_refs)
  ultimately show ?thesis
    using nodes edges by (simp add: structured_diff_ok_def diff_of_fields Let_def list_all_iff)
qed

lemma diff_total:
  assumes "planfile_ok E p" and "planfile_ok E q" and "[] \<notin> parameter_names p \<union> parameter_names q"
  shows "\<exists>r. requirement_changes p q = Some r \<and> diff_planfiles E p q = Some (diff_of p q r)"
  using requirement_changes_total [OF assms(1,2)] diff_of_ok [OF assms]
  by (auto simp: diff_planfiles_def Let_def)

lemma diff_planfiles_Some:
  "diff_planfiles E p q = Some d \<Longrightarrow> \<exists>r. requirement_changes p q = Some r \<and> d = diff_of p q r"
  by (auto simp: diff_planfiles_def Let_def Option.bind_eq_Some_conv split: if_splits)

section \<open>When nothing is reported\<close>

text \<open>Every property the later node has is there before with the same value.\<close>

definition shown_alike :: "plan_node \<Rightarrow> plan_node \<Rightarrow> bool" where
  "shown_alike m n = list_all (\<lambda>(k, v). same_json (entry (node_entries m) k) v) (node_entries n)"

lemma distinct_node_entries: "distinct (map fst (node_entries n))"
  by (cases "n_execution_mode n"; cases "n_optional n"; cases "n_verification_command_ids n")
    (simp_all add: node_entries_def plan_node_json_def canonical_node_json_def jopt_def)

lemma no_changed_fields: "changed_node_fields m n = [] \<longleftrightarrow> shown_alike m n"
proof -
  have "sort xs = [] \<longleftrightarrow> xs = []" for xs :: "string list" by (metis length_0_conv length_sort)
  then have "changed_node_fields m n = [] \<longleftrightarrow>
      (\<forall>(k, v) \<in> set (node_entries n). same_json (entry (node_entries m) k) (entry (node_entries n) k))"
    by (auto simp: changed_node_fields_def filter_empty_conv)
  also have "\<dots> \<longleftrightarrow> shown_alike m n"
    using distinct_node_entries [of n] by (auto simp: shown_alike_def list_all_iff entry_def)
  finally show ?thesis .
qed

lemma shown_alike_parts:
  assumes "shown_alike m n"
  shows "n_risk_level m = n_risk_level n" "n_approval_required m = n_approval_required n"
    "n_allowed_capability_refs m = n_allowed_capability_refs n"
proof -
  have k: "(''risk_level'', JStr (risk_str (n_risk_level l))) \<in> set (node_entries l)"
      "(''approval_required'', JBool (n_approval_required l)) \<in> set (node_entries l)"
      "(''allowed_capability_refs'', jstrs (n_allowed_capability_refs l)) \<in> set (node_entries l)" for l
    by (simp_all add: node_entries_def plan_node_json_def canonical_node_json_def)
  have same: "same_json v w" if "(k, v) \<in> set (node_entries m)" "(k, w) \<in> set (node_entries n)" for k v w
  proof -
    have "map_of (node_entries m) k = Some v" by (rule map_of_is_SomeI [OF distinct_node_entries that(1)])
    moreover have "case (k, w) of (k, v) \<Rightarrow> same_json (entry (node_entries m) k) v"
      using assms that(2) unfolding shown_alike_def list_all_iff by (rule bspec)
    ultimately show ?thesis by (simp add: entry_def)
  qed
  show "n_risk_level m = n_risk_level n" using same [OF k(1) k(1)] by simp
  show "n_approval_required m = n_approval_required n" using same [OF k(2) k(2)] by simp
  show "n_allowed_capability_refs m = n_allowed_capability_refs n" using same [OF k(3) k(3)] by simp
qed

definition unchanged_plan :: "planfile \<Rightarrow> planfile \<Rightarrow> bool" where
  "unchanged_plan p q =
     (n_id ` set (pf_nodes p) = n_id ` set (pf_nodes q) \<and>
      (\<forall>m \<in> set (pf_nodes p). \<forall>n \<in> set (pf_nodes q). n_id m = n_id n \<longrightarrow> shown_alike m n) \<and>
      set (pf_edges p) = set (pf_edges q) \<and> requirement_changes p q = Some [] \<and>
      same_json (schedule_value p) (schedule_value q) \<and> parameter_changes p q = [])"

lemma by_id_case:
  assumes "distinct (map n_id ms)" and "n_id n \<in> n_id ` set ms"
  obtains m where "m \<in> set ms" "n_id m = n_id n" "map_of (map_by n_id ms) (n_id n) = Some m"
  using assms map_by_distinct [OF assms(1)] by (metis imageE)

lemma quiet_nodes:
  assumes "distinct (map n_id ms)" and "\<forall>n \<in> set ns. n_id n \<in> n_id ` set ms"
  shows "concat (map (node_change_of (map_by n_id ms)) ns) = [] \<longleftrightarrow>
    (\<forall>m \<in> set ms. \<forall>n \<in> set ns. n_id m = n_id n \<longrightarrow> shown_alike m n)"
proof -
  have "node_change_of (map_by n_id ms) n = [] \<longleftrightarrow> (\<forall>m \<in> set ms. n_id m = n_id n \<longrightarrow> shown_alike m n)"
    if n: "n \<in> set ns" for n
  proof -
    have "n_id n \<in> n_id ` set ms" using assms(2) n by blast
    then obtain m where m: "m \<in> set ms" "n_id m = n_id n" "map_of (map_by n_id ms) (n_id n) = Some m"
      by (rule by_id_case [OF assms(1)])
    have "m' = m" if "m' \<in> set ms" "n_id m' = n_id n" for m'
      using assms(1) m that by (auto simp: distinct_map inj_on_def)
    moreover have "node_change_of (map_by n_id ms) n = [] \<longleftrightarrow> shown_alike m n"
      by (simp add: node_change_of_def Let_def no_changed_fields m(3))
    ultimately show ?thesis using m(1,2) by blast
  qed
  then show ?thesis by auto
qed

lemma alike_quiet:
  assumes "distinct (map n_id ms)" and "\<forall>n \<in> set ns. n_id n \<in> n_id ` set ms"
    and "\<forall>m \<in> set ms. \<forall>n \<in> set ns. n_id m = n_id n \<longrightarrow> shown_alike m n"
  shows "risk_changes_of (map_by n_id ms) [] ns = []" "approval_changes_of (map_by n_id ms) ns = []"
    "\<Union> (set ` n_allowed_capability_refs ` set ns) \<subseteq> \<Union> (set ` n_allowed_capability_refs ` set ms)"
proof -
  have before: "\<exists>m \<in> set ms. map_of (map_by n_id ms) (n_id n) = Some m \<and> shown_alike m n" if n: "n \<in> set ns" for n
  proof -
    have "n_id n \<in> n_id ` set ms" using assms(2) n by blast
    then obtain m where "m \<in> set ms" "n_id m = n_id n" "map_of (map_by n_id ms) (n_id n) = Some m"
      by (rule by_id_case [OF assms(1)])
    with assms(3) n show ?thesis by blast
  qed
  show "risk_changes_of (map_by n_id ms) [] ns = []"
    using before shown_alike_parts(1) by (fastforce simp: risk_changes_of_def)
  show "approval_changes_of (map_by n_id ms) ns = []"
    using before shown_alike_parts(2) by (fastforce simp: approval_changes_of_def)
  show "\<Union> (set ` n_allowed_capability_refs ` set ns) \<subseteq> \<Union> (set ` n_allowed_capability_refs ` set ms)"
    using before shown_alike_parts(3) by fastforce
qed

lemma no_changes_iff:
  assumes p: "distinct (map n_id (pf_nodes p))" and q: "distinct (map n_id (pf_nodes q))"
    and r: "requirement_changes p q = Some r"
  shows "\<not> has_structured_diff_changes (diff_of p q r) \<longleftrightarrow> unchanged_plan p q"
proof -
  let ?d = "diff_of p q r"
  let ?alike = "\<forall>m \<in> set (pf_nodes p). \<forall>n \<in> set (pf_nodes q). n_id m = n_id n \<longrightarrow> shown_alike m n"
  let ?ids = "n_id ` set (pf_nodes p) = n_id ` set (pf_nodes q)"
  have ids: "df_nodes_added ?d = [] \<and> df_nodes_removed ?d = [] \<longleftrightarrow> ?ids"
    by (auto simp: diff_of_fields Let_def filter_empty_conv map_by_None)
  have edges: "df_edges_added ?d = [] \<and> df_edges_removed ?d = [] \<longleftrightarrow> set (pf_edges p) = set (pf_edges q)"
    by (auto simp: diff_of_fields Let_def filter_empty_conv)
  have changed: "df_nodes_changed ?d = [] \<longleftrightarrow> ?alike" if ?ids
    using quiet_nodes [OF p, of "pf_nodes q"] that by (simp add: diff_of_fields Let_def)
  have quiet: "df_risk_changes ?d = []" "df_approval_changes ?d = []" "df_capabilities_added ?d = []"
      "df_capabilities_removed ?d = []" if ?ids ?alike
  proof -
    have sort_Nil: "sort xs = [] \<longleftrightarrow> xs = []" for xs :: "string list" by (metis length_0_conv length_sort)
    have added: "df_nodes_added ?d = []" using ids that(1) by blast
    have in_p: "\<forall>n \<in> set (pf_nodes q). n_id n \<in> n_id ` set (pf_nodes p)" using that(1) by blast
    note quiet = alike_quiet [OF p in_p that(2)]
    show "df_risk_changes ?d = []" "df_approval_changes ?d = []" "df_capabilities_added ?d = []"
    proof -
      show "df_risk_changes ?d = []" using quiet(1) added by (simp add: diff_of_fields Let_def)
      show "df_approval_changes ?d = []" using quiet(2) by (simp add: diff_of_fields Let_def)
      have "set (capability_refs q) \<subseteq> set (capability_refs p)" using quiet(3) by simp
      then show "df_capabilities_added ?d = []"
        by (auto simp: diff_of_fields Let_def sort_Nil filter_empty_conv simp del: set_capability_refs)
    qed
    have "\<forall>m \<in> set (pf_nodes p). \<exists>n \<in> set (pf_nodes q). n_allowed_capability_refs m = n_allowed_capability_refs n"
    proof
      fix m assume m: "m \<in> set (pf_nodes p)"
      then have "n_id m \<in> n_id ` set (pf_nodes q)" using that(1) by blast
      then obtain n where "n \<in> set (pf_nodes q)" "n_id n = n_id m" by force
      then show "\<exists>n \<in> set (pf_nodes q). n_allowed_capability_refs m = n_allowed_capability_refs n"
        using that(2) m shown_alike_parts(3) [of m n] by force
    qed
    then have "set (capability_refs p) \<subseteq> set (capability_refs q)" by force
    then show "df_capabilities_removed ?d = []"
      by (auto simp: diff_of_fields Let_def sort_Nil filter_empty_conv simp del: set_capability_refs)
  qed
  have others: "df_requirements_changed ?d = [] \<longleftrightarrow> requirement_changes p q = Some []"
      "df_schedule_changed ?d = None \<longleftrightarrow> same_json (schedule_value p) (schedule_value q)"
      "nullish (df_parameters_changed ?d) [] = [] \<longleftrightarrow> parameter_changes p q = []"
    using r by (auto simp: diff_of_fields Let_def)
  show ?thesis
    unfolding has_structured_diff_changes_def unchanged_plan_def
    using ids edges changed quiet others by satx
qed

section \<open>What is never shown\<close>

text \<open>The mode of the plan, its goal, its approval policy and its verification commands are not compared,
  and a property the later node no longer has is not looked at, such as a dry-run mode that is
  dropped.\<close>

lemma hidden_edit_unchanged:
  assumes ok: "planfile_ok E p" "distinct (map n_id (pf_nodes p))"
    and q: "q = p\<lparr>pf_mode := mode, pf_goal_frame := goal, pf_approval_policy := policy, pf_allowed_command_ids := cmds\<rparr>"
  shows "unchanged_plan p q"
proof -
  have same: "pf_plan_id q = pf_plan_id p" "pf_nodes q = pf_nodes p" "pf_edges q = pf_edges p"
      "pf_requirements q = pf_requirements p" "pf_execution_context q = pf_execution_context p"
    by (simp_all add: q)
  have refs: "plan_capability_refs q = plan_capability_refs p" by (simp only: plan_capability_refs_def same)
  have parts: "plan_packs q = plan_packs p" "plan_providers q = plan_providers p" "plan_credentials q = plan_credentials p"
      "plan_permissions q = plan_permissions p" "plan_approvals q = plan_approvals p"
    by (simp_all only: plan_packs_def plan_providers_def plan_credentials_def plan_permissions_def plan_approvals_def
        required_provider_kinds_def required_credential_names_def same refs)
  have "requirements_of q None None = requirements_of p None None"
    by (simp only: requirements_of_def parts same portability_for_def requirement_warnings_def schedule_value_def)
  then have "derive_plan_requirements q None None = derive_plan_requirements p None None"
    by (simp only: derive_plan_requirements_def)
  then have "requirement_changes p q = Some []"
    using requirement_changes_total [OF ok(1) ok(1)]
    by (auto simp: requirement_changes_def change_of_def Option.bind_eq_None_conv)
  moreover have "shown_alike n n" for n
    using distinct_node_entries [of n] by (auto simp: shown_alike_def list_all_iff entry_def)
  moreover have "m = n" if "m \<in> set (pf_nodes p)" "n \<in> set (pf_nodes p)" "n_id m = n_id n" for m n
    using ok(2) that by (auto simp: distinct_map inj_on_def)
  moreover have "parameter_changes p q = []"
    by (simp add: parameter_changes_def plan_parameters_def same)
  ultimately show ?thesis
    unfolding unchanged_plan_def by (auto simp: schedule_value_def same)
qed

lemma dropped_mode_unseen: "shown_alike m (m\<lparr>n_execution_mode := None\<rparr>)"
proof -
  have "set (node_entries (m\<lparr>n_execution_mode := None\<rparr>)) \<subseteq> set (node_entries m)"
    by (auto simp: node_entries_def plan_node_json_def canonical_node_json_def jopt_def)
  then show ?thesis
    using map_of_is_SomeI [OF distinct_node_entries [of m]]
    by (auto simp: shown_alike_def list_all_iff entry_def)
qed

section \<open>Properties\<close>

text \<open>The difference of two plans that fit the schema exists unless a parameter has an empty name. It
  names exactly the nodes, edges and capabilities that are only in one plan, reports a raised risk
  exactly when a new node does more than read or a node has a higher risk than before, and shows
  exactly the parameters and the schedule whose JSON text differs.\<close>
lemma diff_tells:
  "case diff_planfiles E p q of
     None \<Rightarrow> \<not> (planfile_ok E p \<and> planfile_ok E q \<and> [] \<notin> parameter_names p \<union> parameter_names q)
   | Some d \<Rightarrow>
       set (df_nodes_added d) = {n \<in> set (pf_nodes q). n_id n \<notin> n_id ` set (pf_nodes p)} \<and>
       set (df_nodes_removed d) = {n \<in> set (pf_nodes p). n_id n \<notin> n_id ` set (pf_nodes q)} \<and>
       set (df_edges_added d) = set (pf_edges q) - set (pf_edges p) \<and>
       set (df_edges_removed d) = set (pf_edges p) - set (pf_edges q) \<and>
       set (df_capabilities_added d) = set (capability_refs q) - set (capability_refs p) \<and>
       set (df_capabilities_removed d) = set (capability_refs p) - set (capability_refs q) \<and>
       (filter dk_increased (df_risk_changes d) = [] \<longleftrightarrow> list_all (risk_kept p) (pf_nodes q)) \<and>
       (df_schedule_changed d = None \<longleftrightarrow> same_json (schedule_value p) (schedule_value q)) \<and>
       set (nullish (df_parameters_changed d) []) =
         {(k, v, w). k \<in> parameter_names p \<union> parameter_names q \<and> v = entry (plan_parameters p) k \<and>
                     w = entry (plan_parameters q) k \<and> \<not> same_json v w}"
proof (cases "diff_planfiles E p q")
  case None
  then show ?thesis using diff_total [of E p q] by auto
next
  case (Some d)
  then obtain r where d: "d = diff_of p q r" using diff_planfiles_Some by blast
  have "set (df_nodes_added d) = {n \<in> set (pf_nodes q). n_id n \<notin> n_id ` set (pf_nodes p)}"
    "set (df_nodes_removed d) = {n \<in> set (pf_nodes p). n_id n \<notin> n_id ` set (pf_nodes q)}"
    by (simp_all only: d diff_of_fields set_filter map_by_None)
  moreover have "set (df_edges_added d) = set (pf_edges q) - set (pf_edges p)"
    "set (df_edges_removed d) = set (pf_edges p) - set (pf_edges q)"
    by (auto simp: d diff_of_fields Let_def)
  moreover have "set (df_capabilities_added d) = set (capability_refs q) - set (capability_refs p)"
    "set (df_capabilities_removed d) = set (capability_refs p) - set (capability_refs q)"
    by (auto simp: d diff_of_fields Let_def simp del: set_capability_refs)
  moreover have "df_schedule_changed d = None \<longleftrightarrow> same_json (schedule_value p) (schedule_value q)"
    by (simp add: d diff_of_fields Let_def)
  moreover have "set (nullish (df_parameters_changed d) []) =
      {(k, v, w). k \<in> parameter_names p \<union> parameter_names q \<and> v = entry (plan_parameters p) k \<and>
                  w = entry (plan_parameters q) k \<and> \<not> same_json v w}"
  proof -
    have "set (nullish (df_parameters_changed d) []) = set (parameter_changes p q)" by (simp add: d diff_of_fields Let_def)
    also have "\<dots> = {(k, v, w). k \<in> parameter_names p \<union> parameter_names q \<and> v = entry (plan_parameters p) k \<and>
        w = entry (plan_parameters q) k \<and> \<not> same_json v w}"
      using parameter_changes_iff [of _ _ _ p q] by blast
    finally show ?thesis .
  qed
  moreover have "filter dk_increased (df_risk_changes d) = [] \<longleftrightarrow> list_all (risk_kept p) (pf_nodes q)"
    unfolding d by (rule no_increase_iff)
  ultimately show ?thesis unfolding Some option.case by satx
qed



end
