(* ===== verification/Plan_Simulation.thy ===== *)
theory Plan_Simulation
  imports Plan_Requirements Plan_Markdown Effects
begin

text \<open>
  \<open>planning/plan-simulation.ts\<close> and \<open>planning/plan-builder-question.ts\<close>: what a plan would need and ask
  before it can run, and the status the plan builder goes by.
\<close>

section \<open>Questions\<close>

datatype question_severity = Blocking | Clarifying | Optional

record planner_question =
  pq_question_id :: string
  pq_severity :: question_severity
  pq_question :: string
  pq_why :: string
  pq_default :: "string option"
  pq_choices :: "string list"
  pq_affected :: "string list"
  pq_answer :: "string option"
  pq_answered_at :: "string option"

definition planner_question_ok :: "env \<Rightarrow> planner_question \<Rightarrow> bool" where
  "planner_question_ok E q =
     (nonempty (pq_question_id q) \<and> nonempty (pq_question q) \<and> nonempty (pq_why q) \<and>
      opt_ok nonempty (pq_default q) \<and> list_all nonempty (pq_choices q) \<and> list_all nonempty (pq_affected q) \<and>
      opt_ok nonempty (pq_answer q) \<and> opt_ok (datetime_ok E) (pq_answered_at q))"

definition unanswered_questions :: "planner_question list \<Rightarrow> planner_question list" where
  "unanswered_questions qs = filter (\<lambda>q. \<not> truthy (pq_answer q)) qs"

section \<open>The report\<close>

record simulation_report =
  sm_status :: simulation_status
  sm_packs :: "string list"
  sm_providers :: "string list"
  sm_credentials :: "string list"
  sm_permissions :: "string list"
  sm_approvals :: "string list"
  sm_artifacts :: "string list"
  sm_steps :: nat
  sm_questions :: "planner_question list"
  sm_errors :: "string list"
  sm_warnings :: "string list"

text \<open>\<open>unknown\<close> is a status of the plan's lifecycle only.\<close>

definition simulation_report_ok :: "env \<Rightarrow> simulation_report \<Rightarrow> bool" where
  "simulation_report_ok E r =
     (sm_status r \<noteq> Sim_unknown \<and>
      list_all (list_all nonempty)
        [sm_packs r, sm_providers r, sm_credentials r, sm_permissions r, sm_approvals r, sm_artifacts r,
         sm_errors r, sm_warnings r] \<and>
      list_all (planner_question_ok E) (sm_questions r))"

definition question :: "env \<Rightarrow> planfile \<Rightarrow> string \<Rightarrow> question_severity \<Rightarrow> string \<Rightarrow> string \<Rightarrow> string \<Rightarrow> string list
    \<Rightarrow> string list \<Rightarrow> planner_question" where
  "question E p key severity words why assumption choices affected =
     \<lparr>pq_question_id = ''question_'' @
        take 16 (stable_hash E (JObj [(''plan_id'', JStr (pf_plan_id p)), (''key'', JStr key)])),
      pq_severity = severity, pq_question = words, pq_why = why, pq_default = Some assumption,
      pq_choices = choices, pq_affected = affected, pq_answer = None, pq_answered_at = None\<rparr>"

definition nodes_using :: "planfile \<Rightarrow> string \<Rightarrow> string list" where
  "nodes_using p ref = map n_id (filter (\<lambda>n. ref \<in> set (n_allowed_capability_refs n)) (pf_nodes p))"

definition nodes_at_risk :: "planfile \<Rightarrow> risk_level \<Rightarrow> string list" where
  "nodes_at_risk p r = map n_id (filter (\<lambda>n. n_risk_level n = r) (pf_nodes p))"

definition some_node_at_risk :: "planfile \<Rightarrow> risk_level \<Rightarrow> bool" where
  "some_node_at_risk p r = list_ex (\<lambda>n. n_risk_level n = r) (pf_nodes p)"

definition wants_schedule_time :: "planfile \<Rightarrow> bool" where
  "wants_schedule_time p =
     (jfield (schedule_value p) ''requested'' = JBool True \<and>
      (case jfield (schedule_value p) ''time_of_day'' of JStr _ \<Rightarrow> False | _ \<Rightarrow> True))"

definition plan_questions :: "env \<Rightarrow> planfile \<Rightarrow> requirements_report \<Rightarrow> planner_question list" where
  "plan_questions E p r =
     (if wants_schedule_time p
      then [question E p ''schedule_time'' Blocking ''What time of day should this scheduled Planfile use?''
              ''A schedule cannot be saved without an explicit time.'' ''08:00'' [''08:00'', ''09:00'', ''17:00'']
              (map n_id (pf_nodes p))] else []) @
     (if ''search'' \<in> set (dr_missing_providers r)
      then [question E p ''search_provider'' Blocking ''Which search source should this research Planfile use?''
              ''Topic research requires a configured live search provider or explicit source URLs.''
              ''Configure local-searxng or provide --url sources.''
              [''configure local-searxng'', ''provide URLs'', ''defer search'']
              (nodes_using p ''research.search_sources'')] else []) @
     (if some_node_at_risk p Risk_external_side_effect
      then [question E p ''external_side_effect'' Clarifying
              ''Confirm that this Planfile may request approval for external side effects.''
              ''External side effects need explicit review before execution.'' ''Require approval before execution.''
              [''require approval'', ''revise to avoid external side effects'']
              (nodes_at_risk p Risk_external_side_effect)] else []) @
     (if some_node_at_risk p Risk_destructive
      then [question E p ''destructive_action'' Blocking ''Confirm the destructive scope or revise the Planfile.''
              ''Destructive actions require explicit user intent and approval.'' ''Revise to avoid destructive actions.''
              [''revise to avoid destructive actions'', ''explicitly allow destructive scope'']
              (nodes_at_risk p Risk_destructive)] else [])"

text \<open>\<open>xs.slice(0, n)\<close>: a negative end counts from the end.\<close>

definition slice_front :: "int \<Rightarrow> 'a list \<Rightarrow> 'a list" where
  "slice_front n xs = take (nat (if n < 0 then int (length xs) + n else n)) xs"

definition validator_errors :: "validation_result option \<Rightarrow> string list" where
  "validator_errors v =
     map (\<lambda>i. plan_issue_code_str (pi_code i) @ '': '' @ pi_message i)
       (filter (\<lambda>i. pi_severity i = Sev_error) (case v of None \<Rightarrow> [] | Some r \<Rightarrow> vl_issues r))"

definition simulation_status_of ::
    "string list \<Rightarrow> planfile \<Rightarrow> planner_question list \<Rightarrow> requirements_report \<Rightarrow> simulation_status" where
  "simulation_status_of errors p qs r =
     (if errors \<noteq> [] then Sim_invalid
      else if some_node_at_risk p Risk_destructive then Sim_unsafe
      else if list_ex (\<lambda>q. pq_severity q = Blocking \<and> \<not> truthy (pq_answer q)) qs then Sim_needs_input
      else if dr_missing_providers r \<noteq> [] \<or> dr_missing_credentials r \<noteq> [] \<or> dr_missing_packs r \<noteq> []
      then Sim_missing_requirements
      else Sim_ready)"

definition simulation_of ::
    "env \<Rightarrow> planfile \<Rightarrow> validation_result option \<Rightarrow> requirements_report \<Rightarrow> int option \<Rightarrow> simulation_report" where
  "simulation_of E p v r limit =
     (let errors = validator_errors v; qs = slice_front (nullish limit 5) (plan_questions E p r)
      in \<lparr>sm_status = simulation_status_of errors p qs r,
          sm_packs = dr_packs r, sm_providers = dr_providers r, sm_credentials = dr_credentials r,
          sm_permissions = dr_permissions r, sm_approvals = dr_approvals r,
          sm_artifacts = sorted_unique (concat (map n_expected_outputs (pf_nodes p))),
          sm_steps = length (pf_nodes p), sm_questions = qs, sm_errors = errors, sm_warnings = dr_warnings r\<rparr>)"

text \<open>\<open>None\<close> is an error of the schema library.\<close>

definition simulate_planfile ::
    "env \<Rightarrow> planfile \<Rightarrow> validation_result option \<Rightarrow> runtime_profile option \<Rightarrow> int option \<Rightarrow> simulation_report option" where
  "simulate_planfile E p v profile limit =
     Option.bind (derive_plan_requirements p profile None) (\<lambda>r.
       let s = simulation_of E p v r limit in if simulation_report_ok E s then Some s else None)"

section \<open>What a simulation says\<close>

lemma questions_ok:
  assumes "planfile_ok E p"
  shows "list_all (planner_question_ok E) (plan_questions E p r)"
proof -
  have "n_id n \<noteq> []" if "n \<in> set (pf_nodes p)" for n using planfile_ok_node_ids [OF assms that] .
  then have ids: "list_all nonempty (map n_id (pf_nodes p))" "list_all nonempty (nodes_using p ref)"
      "list_all nonempty (nodes_at_risk p level)" for ref level
    by (auto simp: nodes_using_def nodes_at_risk_def list_all_iff)
  have one: "planner_question_ok E (question E p key severity words why assumption choices affected)"
    if "words \<noteq> []" "why \<noteq> []" "assumption \<noteq> []" "list_all nonempty choices" "list_all nonempty affected"
    for key severity words why assumption choices affected
    using that by (simp add: planner_question_ok_def question_def)
  show ?thesis using ids by (simp add: plan_questions_def one)
qed

lemma report_lists_ok:
  assumes "derive_plan_requirements p profile available = Some r"
  shows "list_all (list_all nonempty) [dr_packs r, dr_providers r, dr_credentials r, dr_permissions r, dr_approvals r,
      dr_warnings r, dr_missing_packs r, dr_missing_providers r, dr_missing_credentials r]"
  using assms by (auto simp: derive_plan_requirements_def Let_def requirements_report_ok_def split: if_splits)

lemma plan_issue_code_nonempty [simp]: "plan_issue_code_str c \<noteq> []"
  by (cases c) simp_all

lemma simulation_total:
  assumes "planfile_ok E p"
  shows "simulate_planfile E p v profile limit = Some (simulation_of E p v (requirements_of p profile None) limit)"
proof -
  let ?r = "requirements_of p profile None"
  have r: "derive_plan_requirements p profile None = Some ?r" by (rule requirements_ok [OF assms])
  have "list_all nonempty (sm_artifacts (simulation_of E p v ?r limit))"
    using assms by (auto simp: simulation_of_def Let_def planfile_ok_def plan_node_ok_def list_all_iff)
  moreover have "list_all (planner_question_ok E) (sm_questions (simulation_of E p v ?r limit))"
    using questions_ok [OF assms] by (auto simp: simulation_of_def Let_def slice_front_def list_all_iff dest: in_set_takeD)
  moreover have "sm_status (simulation_of E p v ?r limit) \<noteq> Sim_unknown"
    by (simp add: simulation_of_def Let_def simulation_status_of_def)
  moreover have "list_all nonempty (validator_errors v)"
    by (auto simp: validator_errors_def list_all_iff)
  ultimately have "simulation_report_ok E (simulation_of E p v ?r limit)"
    using report_lists_ok [OF r] by (simp add: simulation_report_ok_def) (simp add: simulation_of_def Let_def)
  with r show ?thesis by (simp add: simulate_planfile_def Let_def)
qed

lemma four_questions: "length (plan_questions E p r) \<le> 4"
  by (simp add: plan_questions_def)

lemma all_questions_asked: "slice_front 5 (plan_questions E p r) = plan_questions E p r"
  using four_questions [of E p r] by (simp add: slice_front_def)

lemma simulation_ready_iff:
  assumes "planfile_ok E p" and "simulate_planfile E p v profile None = Some s"
  shows "sm_status s = Sim_ready \<longleftrightarrow>
    validator_errors v = [] \<and> \<not> some_node_at_risk p Risk_destructive \<and> \<not> wants_schedule_time p \<and>
    (let r = requirements_of p profile None
     in dr_missing_providers r = [] \<and> dr_missing_credentials r = [] \<and> dr_missing_packs r = [])"
proof -
  let ?r = "requirements_of p profile None"
  from assms have s: "s = simulation_of E p v ?r None" using simulation_total by simp
  have "list_ex (\<lambda>q. pq_severity q = Blocking \<and> \<not> truthy (pq_answer q)) (plan_questions E p ?r) \<longleftrightarrow>
      wants_schedule_time p \<or> ''search'' \<in> set (dr_missing_providers ?r) \<or> some_node_at_risk p Risk_destructive"
    by (simp add: plan_questions_def question_def)
  then show ?thesis
    unfolding s by (auto simp: simulation_of_def Let_def simulation_status_of_def all_questions_asked)
qed

end
