(* ===== verification/Plan_Check.thy ===== *)
theory Plan_Check
  imports Plan_Simulation Control_Properties
begin

text \<open>
  \<open>planning/plan-check.ts\<close> and \<open>planning/plan-check-report.ts\<close>: the check of a plan before it is run: its
  validation, what it requires and whether the profile has it, approvals, side effects, expected
  artifacts and the next actions, and whether the report blocks a run.
\<close>

section \<open>The report\<close>

datatype requirement_kind =
    Req_pack | Req_provider | Req_credential | Req_permission | Req_approval | Req_runtime | Req_schedule

datatype requirement_state = Is_present | Is_missing | Is_optional_missing | Is_misconfigured | Is_unsupported

record requirement_status =
  qs_kind :: requirement_kind
  qs_id :: string
  qs_label :: string
  qs_required :: bool
  qs_status :: requirement_state
  qs_detail :: "string option"
  qs_command :: "string option"

definition requirement_status_ok :: "requirement_status \<Rightarrow> bool" where
  "requirement_status_ok s =
     (nonempty (qs_id s) \<and> nonempty (qs_label s) \<and> opt_ok nonempty (qs_detail s) \<and> opt_ok nonempty (qs_command s))"

record approval_summary =
  ay_approval_id :: string
  ay_label :: string
  ay_risk_level :: "string option"
  ay_node_id :: "string option"
  ay_required :: bool
  ay_command :: "string option"

definition approval_summary_ok :: "approval_summary \<Rightarrow> bool" where
  "approval_summary_ok a =
     (nonempty (ay_approval_id a) \<and> nonempty (ay_label a) \<and> opt_ok nonempty (ay_risk_level a) \<and>
      opt_ok nonempty (ay_node_id a) \<and> opt_ok nonempty (ay_command a))"

record side_effect_summary =
  ef_node_id :: string
  ef_label :: string
  ef_risk_level :: string
  ef_requires_approval :: bool

definition side_effect_summary_ok :: "side_effect_summary \<Rightarrow> bool" where
  "side_effect_summary_ok s = (nonempty (ef_node_id s) \<and> nonempty (ef_label s) \<and> nonempty (ef_risk_level s))"

record predicted_artifact =
  pa_artifact_id :: "string option"
  pa_kind :: string
  pa_label :: string
  pa_node_id :: "string option"

definition predicted_artifact_ok :: "predicted_artifact \<Rightarrow> bool" where
  "predicted_artifact_ok a =
     (opt_ok nonempty (pa_artifact_id a) \<and> nonempty (pa_kind a) \<and> nonempty (pa_label a) \<and>
      opt_ok nonempty (pa_node_id a))"

datatype check_status =
    Check_runnable | Check_runnable_with_warnings | Check_missing_requirements | Check_invalid | Check_unsafe

record plan_check_report =
  kc_plan_id :: string
  kc_plan_digest :: string
  kc_status :: check_status
  kc_portability :: portability
  kc_packs :: "requirement_status list"
  kc_providers :: "requirement_status list"
  kc_credentials :: "requirement_status list"
  kc_permissions :: "requirement_status list"
  kc_approvals :: "approval_summary list"
  kc_schedule :: "requirement_status list option"
  kc_mode_warnings :: "string list"
  kc_side_effects :: "side_effect_summary list"
  kc_artifacts :: "predicted_artifact list"
  kc_errors :: "structured_error list"
  kc_warnings :: "string list"
  kc_actions :: "next_action list"

definition plan_check_report_ok :: "env \<Rightarrow> plan_check_report \<Rightarrow> bool" where
  "plan_check_report_ok E r =
     (nonempty (kc_plan_id r) \<and> nonempty (kc_plan_digest r) \<and>
      list_all requirement_status_ok (kc_packs r) \<and> list_all requirement_status_ok (kc_providers r) \<and>
      list_all requirement_status_ok (kc_credentials r) \<and> list_all requirement_status_ok (kc_permissions r) \<and>
      list_all approval_summary_ok (kc_approvals r) \<and>
      opt_ok (list_all requirement_status_ok) (kc_schedule r) \<and>
      list_all nonempty (kc_mode_warnings r) \<and> list_all side_effect_summary_ok (kc_side_effects r) \<and>
      list_all predicted_artifact_ok (kc_artifacts r) \<and> list_all (structured_error_ok E) (kc_errors r) \<and>
      list_all nonempty (kc_warnings r) \<and> list_all next_action_ok (kc_actions r))"

definition plan_check_blocks_run :: "plan_check_report \<Rightarrow> bool" where
  "plan_check_blocks_run r =
     (kc_status r = Check_invalid \<or> kc_status r = Check_unsafe \<or> kc_status r = Check_missing_requirements)"

section \<open>Requirements\<close>

record plan_check_input =
  ki_planfile :: planfile
  ki_profile :: "runtime_profile option"
  ki_packs :: "string list option"
  ki_snapshot :: "capability_snapshot option"
  ki_live :: "bool option"
  ki_now :: "string option"

text \<open>\<open>id.split(/[.:_-]/u)\<close>\<close>

fun split_where :: "(char \<Rightarrow> bool) \<Rightarrow> string \<Rightarrow> string list" where
  "split_where sep [] = [[]]"
| "split_where sep (c # s) =
     (if sep c then [] # split_where sep s
      else (case split_where sep s of [] \<Rightarrow> [[c]] | w # ws \<Rightarrow> (c # w) # ws))"

definition to_upper_char :: "char \<Rightarrow> char" where
  "to_upper_char c =
     (if of_char c \<ge> (97::nat) \<and> of_char c \<le> (122::nat) then char_of (of_char c - (32::nat)) else c)"

definition capitalized :: "string \<Rightarrow> string" where
  "capitalized s = (case s of [] \<Rightarrow> [] | c # cs \<Rightarrow> to_upper_char c # cs)"

definition label_for :: "string \<Rightarrow> string" where
  "label_for i = join '' '' (map capitalized (filter nonempty (split_where (\<lambda>c. c \<in> set ''.:_-'') i)))"

definition requirement :: "requirement_kind \<Rightarrow> string \<Rightarrow> bool \<Rightarrow> string \<Rightarrow> requirement_status" where
  "requirement kind i missing command =
     \<lparr>qs_kind = kind, qs_id = i, qs_label = label_for i, qs_required = True,
      qs_status = (if missing then Is_missing else Is_present), qs_detail = None,
      qs_command = (if missing \<and> command \<noteq> [] then Some command else None)\<rparr>"

definition provider_command :: "string \<Rightarrow> string" where
  "provider_command i =
     (if i = ''search'' then ''open-lagrange init --runtime podman --with-search''
      else ''open-lagrange provider check '' @ i)"

definition approval_command :: "string \<Rightarrow> string \<Rightarrow> string" where
  "approval_command plan_id i = ''open-lagrange approval request '' @ plan_id @ '' --permission '' @ i"

definition pack_requirements_of :: "requirements_report \<Rightarrow> requirement_status list" where
  "pack_requirements_of r =
     map (\<lambda>i. requirement Req_pack i (i \<in> set (dr_missing_packs r)) (''open-lagrange pack install '' @ i)) (dr_packs r)"

definition provider_requirements_of :: "requirements_report \<Rightarrow> requirement_status list" where
  "provider_requirements_of r =
     map (\<lambda>i. requirement Req_provider i (i \<in> set (dr_missing_providers r)) (provider_command i)) (dr_providers r)"

definition credential_requirements_of :: "requirements_report \<Rightarrow> requirement_status list" where
  "credential_requirements_of r =
     map (\<lambda>i. requirement Req_credential i (i \<in> set (dr_missing_credentials r))
            (''open-lagrange secrets set '' @ i @ '' --from-stdin'')) (dr_credentials r)"

definition permission_requirements_of :: "string \<Rightarrow> requirements_report \<Rightarrow> requirement_status list" where
  "permission_requirements_of plan_id r =
     map (\<lambda>i. requirement Req_permission i (i \<in> set (dr_missing_permissions r)) (approval_command plan_id i))
       (dr_permissions r)"

definition runtime_modes :: "planfile \<Rightarrow> runtime_location list" where
  "runtime_modes p = nullish (Option.bind (Option.bind (pf_requirements p) rq_runtime) id) []"

definition runtime_present :: "planfile \<Rightarrow> runtime_profile option \<Rightarrow> bool" where
  "runtime_present p profile =
     (let current = Option.bind profile rf_name
      in (if current = Some ''remote'' then Loc_remote else Loc_local) \<in> set (runtime_modes p))"

definition runtime_requirements :: "planfile \<Rightarrow> runtime_profile option \<Rightarrow> requirement_status list" where
  "runtime_requirements p profile =
     (let modes = runtime_modes p; names = map runtime_location_str modes; present = runtime_present p profile
      in if modes = [] then []
         else [\<lparr>qs_kind = Req_runtime, qs_id = ''runtime.mode'',
                qs_label = ''Runtime mode: '' @ join '' or '' names, qs_required = True,
                qs_status = (if present then Is_present else Is_unsupported),
                qs_detail = (if present then None
                  else Some (''Current profile does not match required runtime mode: '' @ join '', '' names)),
                qs_command = None\<rparr>])"

definition scaffold_only :: "planfile \<Rightarrow> bool" where
  "scaffold_only p =
     (jfield (object_value (context_field (pf_execution_context p) ''template'')) ''template_id'' =
      JStr ''research.digest'')"

definition unsupported_template_requirements :: "planfile \<Rightarrow> requirement_status list" where
  "unsupported_template_requirements p =
     (if scaffold_only p
      then [\<lparr>qs_kind = Req_runtime, qs_id = ''template.research.digest'',
             qs_label = ''Research digest execution'', qs_required = True, qs_status = Is_unsupported,
             qs_detail = Some ''research.digest is scaffold-only until multi-topic branch execution is available.'',
             qs_command = Some ''open-lagrange plan instantiate <template> --write <path>''\<rparr>]
      else [])"

text \<open>A plan with a runtime requirement and no schedule gets a schedule entry, too.\<close>

definition schedule_requirements_for :: "planfile \<Rightarrow> requirement_status list" where
  "schedule_requirements_for p =
     (if (case schedule_value p of
            JUndef \<Rightarrow> Option.bind (pf_requirements p) rq_runtime \<noteq> None
          | JNull \<Rightarrow> Option.bind (pf_requirements p) rq_runtime \<noteq> None
          | v \<Rightarrow> value_truthy v)
      then [\<lparr>qs_kind = Req_schedule, qs_id = ''schedule'', qs_label = ''Schedule definition'',
             qs_required = False, qs_status = Is_present, qs_detail = None, qs_command = None\<rparr>]
      else [])"

section \<open>Approvals, side effects, artifacts\<close>

definition approval_for_node :: "planfile \<Rightarrow> plan_node \<Rightarrow> approval_summary" where
  "approval_for_node p n =
     (let i = pf_plan_id p @ '':'' @ n_id n @ '':approval''
      in \<lparr>ay_approval_id = i, ay_label = n_title n @ '' approval'', ay_risk_level = Some (risk_str (n_risk_level n)),
          ay_node_id = Some (n_id n), ay_required = True,
          ay_command = Some (''open-lagrange approval approve '' @ i @ '' --reason '' @ quote_mark @
                             ''approved'' @ quote_mark)\<rparr>)"

definition issue_node :: "planfile \<Rightarrow> plan_issue \<Rightarrow> plan_node option" where
  "issue_node p i =
     Option.bind
       (List.find (\<lambda>x. case x of PStr s \<Rightarrow> list_ex (\<lambda>n. n_id n = s) (pf_nodes p) | PNum _ \<Rightarrow> False) (pi_path i))
       (\<lambda>x. case x of PStr s \<Rightarrow> if s = [] then None else List.find (\<lambda>n. n_id n = s) (pf_nodes p) | PNum _ \<Rightarrow> None)"

definition approval_requirements_for :: "planfile \<Rightarrow> plan_issue list \<Rightarrow> approval_summary list" where
  "approval_requirements_for p issues =
     sort_key (\<lambda>a. collation_key (ay_approval_id a))
       (map snd (map_by ay_approval_id
         (map (approval_for_node p) (filter n_approval_required (pf_nodes p)) @
          concat (map (\<lambda>i. case issue_node p i of None \<Rightarrow> [] | Some n \<Rightarrow> [approval_for_node p n]) issues))))"

definition side_effects_for :: "planfile \<Rightarrow> side_effect_summary list" where
  "side_effects_for p =
     map (\<lambda>n. \<lparr>ef_node_id = n_id n, ef_label = n_title n, ef_risk_level = risk_str (n_risk_level n),
               ef_requires_approval = n_approval_required n\<rparr>)
       (filter (\<lambda>n. n_risk_level n \<noteq> Risk_read) (pf_nodes p))"

definition artifact_kind_for :: "string \<Rightarrow> string" where
  "artifact_kind_for out =
     (let has = str_includes (to_lower out)
      in if has ''brief'' then ''research_brief''
         else if has ''patch'' then ''patch_artifact''
         else if has ''verification'' \<or> has ''test'' then ''verification_report''
         else if has ''plan'' then ''planfile''
         else ''capability_step_result'')"

definition predicted_artifacts_for :: "planfile \<Rightarrow> predicted_artifact list" where
  "predicted_artifacts_for p =
     concat (map (\<lambda>n. map (\<lambda>(index, out).
         \<lparr>pa_artifact_id = Some (n_id n @ '':expected:'' @ nat_str (Suc index)), pa_kind = artifact_kind_for out,
          pa_label = out, pa_node_id = Some (n_id n)\<rparr>) (enumerate 0 (n_expected_outputs n))) (pf_nodes p))"

section \<open>Warnings\<close>

definition node_mode_warnings :: "bool \<Rightarrow> plan_node \<Rightarrow> string list" where
  "node_mode_warnings live n =
     (let mode = nullish (n_execution_mode n) Mode_live
      in if (mode = Mode_fixture \<or> mode = Mode_mock) \<and> live
         then [n_id n @ '' uses '' @ mode_str mode @ '' execution and cannot be used for a normal live run.'']
         else if mode = Mode_dry_run \<and> live
         then [n_id n @ '' is marked dry_run and will be converted before live execution.'']
         else [])"

definition execution_mode_warnings_for :: "planfile \<Rightarrow> bool \<Rightarrow> string list" where
  "execution_mode_warnings_for p live = concat (map (node_mode_warnings live) (pf_nodes p))"

fun portability_warnings :: "planfile \<Rightarrow> portability \<Rightarrow> string list" where
  "portability_warnings p Portable = []"
| "portability_warnings p Machine_bound =
     [''Planfile contains machine-bound details such as absolute local paths.'']"
| "portability_warnings p Profile_bound = [''Planfile depends on profile-specific providers or credentials.'']"
| "portability_warnings p Workspace_bound =
     (if list_ex (\<lambda>r. starts_with r ''repo.'') (plan_capability_refs p)
      then [''Planfile depends on the current workspace.''] else [])"

definition optional_warnings :: "planfile_requirements option \<Rightarrow> string list" where
  "optional_warnings requirements =
     (case requirements of
        None \<Rightarrow> []
      | Some r \<Rightarrow>
          map (\<lambda>x. ''Optional pack not required before run: '' @ pr_id x)
            (filter (\<lambda>x. \<not> pr_required x) (nullish (rq_packs r) [])) @
          map (\<lambda>x. ''Optional provider not required before run: '' @ vr_id x)
            (filter (\<lambda>x. \<not> vr_required x) (nullish (rq_providers r) [])) @
          map (\<lambda>x. ''Optional credential not required before run: '' @ cr_ref x)
            (filter (\<lambda>x. \<not> cr_required x) (nullish (rq_credentials r) [])))"

section \<open>Actions\<close>

fun requirement_kind_str :: "requirement_kind \<Rightarrow> string" where
  "requirement_kind_str Req_pack = ''pack''"
| "requirement_kind_str Req_provider = ''provider''"
| "requirement_kind_str Req_credential = ''credential''"
| "requirement_kind_str Req_permission = ''permission''"
| "requirement_kind_str Req_approval = ''approval''"
| "requirement_kind_str Req_runtime = ''runtime''"
| "requirement_kind_str Req_schedule = ''schedule''"

definition edit_plan_action :: next_action where
  "edit_plan_action =
     \<lparr>na_action_id = ''edit_plan'', na_label = ''Edit Planfile'',
      na_command = Some ''open-lagrange plan check <planfile>'', na_action_type = NA_edit_plan,
      na_required = True, na_target_ref = None, na_description = None\<rparr>"

definition configure_action :: "requirement_status \<Rightarrow> next_action" where
  "configure_action s =
     \<lparr>na_action_id = ''configure:'' @ requirement_kind_str (qs_kind s) @ '':'' @ qs_id s, na_label = qs_label s,
      na_command = keep_truthy (qs_command s),
      na_action_type = (if qs_kind s = Req_permission \<or> qs_kind s = Req_approval then NA_approve
                        else NA_configure_provider),
      na_required = qs_required s, na_target_ref = Some (qs_id s), na_description = keep_truthy (qs_detail s)\<rparr>"

definition approve_action :: "approval_summary \<Rightarrow> next_action" where
  "approve_action a =
     \<lparr>na_action_id = ''approve:'' @ ay_approval_id a, na_label = ay_label a, na_command = keep_truthy (ay_command a),
      na_action_type = NA_approve, na_required = ay_required a, na_target_ref = Some (ay_approval_id a),
      na_description = None\<rparr>"

definition run_action :: "string \<Rightarrow> next_action" where
  "run_action plan_id =
     \<lparr>na_action_id = ''run:'' @ plan_id, na_label = ''Run now'',
      na_command = Some (''open-lagrange plan run '' @ plan_id), na_action_type = NA_resume, na_required = False,
      na_target_ref = Some plan_id, na_description = None\<rparr>"

definition suggested_actions_for ::
    "planfile \<Rightarrow> requirement_status list \<Rightarrow> approval_summary list \<Rightarrow> bool \<Rightarrow> next_action list" where
  "suggested_actions_for p missing approvals invalid =
     map snd (map_by na_action_id
       (map configure_action missing @ map approve_action approvals @
        (if invalid then [edit_plan_action] else []) @ [run_action (pf_plan_id p)]))"

section \<open>The check\<close>

definition plan_capability_refs_of :: "env \<Rightarrow> planfile \<Rightarrow> string list" where
  "plan_capability_refs_of E p =
     (case planfile_parse E p of None \<Rightarrow> [] | Some q \<Rightarrow> uniq (plan_capability_refs q))"

text \<open>The outer \<open>None\<close> is an error of the schema library.\<close>

definition snapshot_options :: "control_host \<Rightarrow> plan_check_input \<Rightarrow> string \<Rightarrow> capability_snapshot option option" where
  "snapshot_options C i now =
     (case ki_snapshot i of
        Some s \<Rightarrow> Some (Some s)
      | None \<Rightarrow>
          if ki_packs i = None then Some None
          else map_option Some
            (capability_snapshot_for_task C (plan_capability_refs_of (ch_env C) (ki_planfile i))
               [''project:read'', ''research:read''] Risk_read now))"

definition issue_error_code :: "plan_issue_code \<Rightarrow> error_code" where
  "issue_error_code c =
     (if c = I_UNKNOWN_CAPABILITY then UNKNOWN_CAPABILITY
      else if c = I_APPROVAL_REQUIRED then APPROVAL_REQUIRED else INVALID_PLAN)"

fun path_item_json :: "path_item \<Rightarrow> json" where
  "path_item_json (PStr s) = JStr s"
| "path_item_json (PNum n) = JNum (int n)"

definition structured_error_for_issue :: "plan_issue \<Rightarrow> string \<Rightarrow> structured_error" where
  "structured_error_for_issue i now =
     \<lparr>se_code = issue_error_code (pi_code i), se_message = pi_message i, se_intent_id = None, se_task_id = None,
      se_observed_at = now,
      se_details = Some (JObj
        [(''severity'', JStr (if pi_severity i = Sev_error then ''error'' else ''warning'')),
         (''path'', JArr (map path_item_json (pi_path i))), (''issue_code'', JStr (plan_issue_code_str (pi_code i)))])\<rparr>"

definition fallback_plan_id :: "planfile \<Rightarrow> string" where
  "fallback_plan_id p = (if pf_plan_id p \<noteq> [] then pf_plan_id p else ''unknown_plan'')"

definition unreadable_report :: "env \<Rightarrow> planfile \<Rightarrow> plan_issue list \<Rightarrow> string \<Rightarrow> plan_check_report" where
  "unreadable_report E p issues now =
     \<lparr>kc_plan_id = fallback_plan_id p, kc_plan_digest = stable_hash E (planfile_json p),
      kc_status = Check_invalid, kc_portability = Machine_bound, kc_packs = [], kc_providers = [],
      kc_credentials = [], kc_permissions = [], kc_approvals = [], kc_schedule = None, kc_mode_warnings = [],
      kc_side_effects = [], kc_artifacts = [], kc_errors = map (\<lambda>i. structured_error_for_issue i now) issues,
      kc_warnings = [], kc_actions = [edit_plan_action]\<rparr>"

definition hard_issues :: "plan_issue list \<Rightarrow> plan_issue list" where
  "hard_issues issues = filter (\<lambda>i. pi_severity i = Sev_error \<and> pi_code i \<noteq> I_APPROVAL_REQUIRED) issues"

definition approval_issues :: "plan_issue list \<Rightarrow> plan_issue list" where
  "approval_issues issues = filter (\<lambda>i. pi_code i = I_APPROVAL_REQUIRED) issues"

definition all_requirements ::
    "planfile \<Rightarrow> runtime_profile option \<Rightarrow> requirements_report \<Rightarrow> requirement_status list" where
  "all_requirements p profile r =
     pack_requirements_of r @ provider_requirements_of r @ credential_requirements_of r @
     permission_requirements_of (pf_plan_id p) r @ runtime_requirements p profile @
     unsupported_template_requirements p"

definition missing_required :: "requirement_status list \<Rightarrow> bool" where
  "missing_required items =
     list_ex (\<lambda>s. qs_status s = Is_missing \<or> qs_status s = Is_misconfigured \<or> qs_status s = Is_unsupported) items"

definition check_warnings :: "planfile \<Rightarrow> requirements_report \<Rightarrow> string list \<Rightarrow> string list" where
  "check_warnings p r modes =
     sorted_unique (dr_warnings r @ modes @ portability_warnings p (dr_portability r) @
       optional_warnings (pf_requirements p))"

definition check_unsafe :: "plan_issue list \<Rightarrow> string list \<Rightarrow> bool \<Rightarrow> bool" where
  "check_unsafe hard modes live =
     (list_ex (\<lambda>i. pi_code i = I_DESTRUCTIVE_GOAL_NOT_EXPLICIT) hard \<or>
      list_ex (\<lambda>w. (str_includes (to_lower w) ''fixture'' \<or> str_includes (to_lower w) ''mock'') \<and> live) modes)"

definition check_status_of ::
    "plan_issue list \<Rightarrow> bool \<Rightarrow> bool \<Rightarrow> string list \<Rightarrow> approval_summary list \<Rightarrow> string list \<Rightarrow> check_status" where
  "check_status_of hard unsafe missing warnings approvals side_effects =
     (if hard \<noteq> [] then if unsafe then Check_unsafe else Check_invalid
      else if missing then Check_missing_requirements
      else if warnings \<noteq> [] \<or> approvals \<noteq> [] \<or> side_effects \<noteq> [] then Check_runnable_with_warnings
      else Check_runnable)"

definition checked_report ::
    "env \<Rightarrow> plan_check_input \<Rightarrow> planfile \<Rightarrow> requirements_report \<Rightarrow> plan_issue list \<Rightarrow> string \<Rightarrow> plan_check_report" where
  "checked_report E i p r issues now =
     (let hard = hard_issues issues; live = (ki_live i = Some True);
          items = all_requirements p (ki_profile i) r; schedule = schedule_requirements_for p;
          approvals = approval_requirements_for p (approval_issues issues);
          modes = execution_mode_warnings_for p live; warnings = check_warnings p r modes
      in \<lparr>kc_plan_id = pf_plan_id p,
          kc_plan_digest = nullish (pf_canonical_plan_digest p) (stable_hash E (planfile_json p)),
          kc_status = check_status_of hard (check_unsafe hard modes live) (missing_required items) warnings
                        approvals (dr_side_effects r),
          kc_portability = dr_portability r, kc_packs = pack_requirements_of r,
          kc_providers = provider_requirements_of r, kc_credentials = credential_requirements_of r,
          kc_permissions = permission_requirements_of (pf_plan_id p) r, kc_approvals = approvals,
          kc_schedule = (if schedule \<noteq> [] then Some schedule else None), kc_mode_warnings = modes,
          kc_side_effects = side_effects_for p, kc_artifacts = predicted_artifacts_for p,
          kc_errors = map (\<lambda>x. structured_error_for_issue x now) issues, kc_warnings = warnings,
          kc_actions = suggested_actions_for p (filter (\<lambda>s. qs_status s \<noteq> Is_present) items) approvals
                         (hard \<noteq> [])\<rparr>)"

definition run_plan_check :: "control_host \<Rightarrow> string \<Rightarrow> plan_check_input \<Rightarrow> plan_check_report option" where
  "run_plan_check C clock i =
     (let E = ch_env C; now = nullish (ki_now i) clock in
      Option.bind (snapshot_options C i now) (\<lambda>snapshot.
        let issues = vl_issues (validate_planfile E snapshot (ki_planfile i)) in
        case parsed_with_digest E (ki_planfile i) of
          None \<Rightarrow>
            (let r = unreadable_report E (ki_planfile i) issues now
             in if plan_check_report_ok E r then Some r else None)
        | Some p \<Rightarrow>
            Option.bind (derive_plan_requirements p (ki_profile i) (ki_packs i)) (\<lambda>d.
              let r = checked_report E i p d issues now
              in if plan_check_report_ok E r then Some r else None)))"

section \<open>What is missing\<close>

lemma requirement_missing [simp]:
  "qs_status (requirement k i m c) = (if m then Is_missing else Is_present)"
  "qs_id (requirement k i m c) = i" "qs_label (requirement k i m c) = label_for i"
  by (simp_all add: requirement_def)

lemma requirements_of_lists [simp]:
  "dr_packs (requirements_of p profile packs) = plan_packs p"
  "dr_providers (requirements_of p profile packs) = plan_providers p"
  "dr_credentials (requirements_of p profile packs) = plan_credentials p"
  "dr_permissions (requirements_of p profile packs) = plan_permissions p"
  "dr_missing_packs (requirements_of p profile packs) = missing_packs_for (plan_packs p) packs"
  "dr_missing_providers (requirements_of p profile packs) = filter (provider_missing profile) (plan_providers p)"
  "dr_missing_credentials (requirements_of p profile packs) = missing_credentials_for (plan_credentials p) profile"
  "dr_missing_permissions (requirements_of p profile packs) = []"
  "dr_side_effects (requirements_of p profile packs) =
     sorted_unique (map (\<lambda>n. risk_side_effect (n_risk_level n)) (pf_nodes p))"
  by (simp_all add: requirements_of_def Let_def)

definition nothing_missing :: "planfile \<Rightarrow> runtime_profile option \<Rightarrow> string list option \<Rightarrow> bool" where
  "nothing_missing p profile packs =
     ((case packs of None \<Rightarrow> True | Some available \<Rightarrow> set (plan_packs p) \<subseteq> set available) \<and>
      list_all (\<lambda>v. \<not> provider_missing profile v) (plan_providers p) \<and>
      set (plan_credentials p) \<subseteq> set (nullish (Option.bind profile rf_secret_names) []) \<union> set inherited_names \<and>
      (runtime_modes p = [] \<or> runtime_present p profile) \<and> \<not> scaffold_only p)"

lemma missing_required_append [simp]:
  "missing_required (xs @ ys) \<longleftrightarrow> missing_required xs \<or> missing_required ys"
  by (simp add: missing_required_def)

lemma missing_required_requirements:
  "missing_required (map (\<lambda>i. requirement k i (i \<in> set ms) (f i)) is) \<longleftrightarrow> (\<exists>i \<in> set is. i \<in> set ms)"
  by (auto simp: missing_required_def list_ex_iff)

lemma missing_required_runtime:
  "missing_required (runtime_requirements p profile) \<longleftrightarrow> runtime_modes p \<noteq> [] \<and> \<not> runtime_present p profile"
  by (simp add: runtime_requirements_def missing_required_def Let_def)

lemma missing_required_template:
  "missing_required (unsupported_template_requirements p) \<longleftrightarrow> scaffold_only p"
  by (simp add: unsupported_template_requirements_def missing_required_def)

lemma missing_required_iff:
  "missing_required (all_requirements p profile (requirements_of p profile packs)) \<longleftrightarrow>
     \<not> nothing_missing p profile packs"
proof -
  have packs: "missing_required (pack_requirements_of (requirements_of p profile packs)) \<longleftrightarrow>
      \<not> (case packs of None \<Rightarrow> True | Some available \<Rightarrow> set (plan_packs p) \<subseteq> set available)"
    unfolding pack_requirements_of_def missing_required_requirements
    by (auto simp: missing_packs_for_def split: option.splits)
  have providers: "missing_required (provider_requirements_of (requirements_of p profile packs)) \<longleftrightarrow>
      \<not> list_all (\<lambda>v. \<not> provider_missing profile v) (plan_providers p)"
    unfolding provider_requirements_of_def missing_required_requirements by (auto simp: list_all_iff)
  have credentials: "missing_required (credential_requirements_of (requirements_of p profile packs)) \<longleftrightarrow>
      \<not> set (plan_credentials p) \<subseteq> set (nullish (Option.bind profile rf_secret_names) []) \<union> set inherited_names"
    unfolding credential_requirements_of_def missing_required_requirements
    by (auto simp: missing_credentials_for_def Let_def)
  have permissions: "\<not> missing_required (permission_requirements_of i (requirements_of p profile packs))" for i
    unfolding permission_requirements_of_def missing_required_requirements by simp
  show ?thesis
    by (simp add: all_requirements_def nothing_missing_def packs providers credentials permissions
        missing_required_runtime missing_required_template)
qed

lemma blocks_status [simp]:
  "kc_status r = check_status_of hard unsafe missing warnings approvals effects \<Longrightarrow>
   plan_check_blocks_run r \<longleftrightarrow> hard \<noteq> [] \<or> missing"
  by (simp add: plan_check_blocks_run_def check_status_of_def)

lemma only_approvals_iff:
  "hard_issues (planfile_issues snapshot p) = [] \<longleftrightarrow>
     list_all (\<lambda>i. pi_code i = I_APPROVAL_REQUIRED) (planfile_issues snapshot p)"
  using all_error_severity [of _ snapshot p] by (auto simp: hard_issues_def filter_empty_conv list_all_iff)

lemma parsed_with_digest_Some:
  assumes "parsed_with_digest E p = Some q"
  shows "planfile_ok E p" "planfile_ok E q"
    "q = p\<lparr>pf_canonical_plan_digest := Some (stable_hash E (canonical_form p))\<rparr>"
proof -
  from assms have "with_canonical_plan_digest E p = Some q"
    by (cases "planfile_parse E p") (auto simp: parsed_with_digest_def)
  from with_digest_SomeD [OF this] show "planfile_ok E p" "planfile_ok E q"
    "q = p\<lparr>pf_canonical_plan_digest := Some (stable_hash E (canonical_form p))\<rparr>" by blast+
qed

lemma run_plan_check_cases:
  assumes "run_plan_check C clock i = Some r"
  obtains snapshot where "snapshot_options C i (nullish (ki_now i) clock) = Some snapshot"
      "parsed_with_digest (ch_env C) (ki_planfile i) = None" "kc_status r = Check_invalid"
  | snapshot p where "snapshot_options C i (nullish (ki_now i) clock) = Some snapshot"
      "parsed_with_digest (ch_env C) (ki_planfile i) = Some p"
      "r = checked_report (ch_env C) i p (requirements_of p (ki_profile i) (ki_packs i))
             (planfile_issues snapshot (ki_planfile i)) (nullish (ki_now i) clock)"
proof -
  let ?E = "ch_env C" and ?now = "nullish (ki_now i) clock"
  obtain snapshot where s: "snapshot_options C i ?now = Some snapshot"
    using assms by (auto simp: run_plan_check_def Let_def bind_eq_Some_conv)
  show thesis
  proof (cases "parsed_with_digest ?E (ki_planfile i)")
    case None
    with assms s have "kc_status r = Check_invalid"
      by (auto simp: run_plan_check_def Let_def unreadable_report_def split: if_splits)
    with s None show thesis by (rule that(1))
  next
    case (Some p)
    note ok = parsed_with_digest_Some [OF Some]
    have issues: "vl_issues (validate_planfile ?E snapshot (ki_planfile i)) = planfile_issues snapshot (ki_planfile i)"
      using ok(1) by (simp add: validate_planfile_def Let_def)
    have "r = checked_report ?E i p (requirements_of p (ki_profile i) (ki_packs i))
             (planfile_issues snapshot (ki_planfile i)) ?now"
      using assms unfolding run_plan_check_def Let_def
      by (simp add: s Some requirements_ok [OF ok(2)] issues split: if_splits)
    with s Some show thesis by (rule that(2))
  qed
qed

lemma check_blocks_iff:
  assumes "run_plan_check C clock i = Some r"
  shows "\<not> plan_check_blocks_run r \<longleftrightarrow>
    (\<exists>snapshot p. snapshot_options C i (nullish (ki_now i) clock) = Some snapshot \<and>
       parsed_with_digest (ch_env C) (ki_planfile i) = Some p \<and>
       list_all (\<lambda>x. pi_code x = I_APPROVAL_REQUIRED) (planfile_issues snapshot (ki_planfile i)) \<and>
       nothing_missing p (ki_profile i) (ki_packs i))"
  using assms
proof (cases rule: run_plan_check_cases)
  case (1 snapshot)
  then show ?thesis by (simp add: plan_check_blocks_run_def)
next
  case (2 snapshot p)
  have "plan_check_blocks_run r \<longleftrightarrow> hard_issues (planfile_issues snapshot (ki_planfile i)) \<noteq> [] \<or>
      missing_required (all_requirements p (ki_profile i) (requirements_of p (ki_profile i) (ki_packs i)))"
    unfolding 2(3) by (rule blocks_status) (simp add: checked_report_def Let_def)
  with 2(1,2) show ?thesis by (simp add: missing_required_iff only_approvals_iff)
qed

lemma never_without_warnings:
  assumes "run_plan_check C clock i = Some r" and "kc_status r = Check_runnable"
  shows "pf_nodes (ki_planfile i) = []"
  using assms(1)
proof (cases rule: run_plan_check_cases)
  case (1 snapshot)
  with assms(2) show ?thesis by simp
next
  case (2 snapshot p)
  have "sorted_unique (map (\<lambda>n. risk_side_effect (n_risk_level n)) (pf_nodes p)) = []"
    using assms(2) unfolding 2(3) by (simp add: checked_report_def Let_def check_status_of_def split: if_splits)
  then have "pf_nodes p = []" by (metis set_sorted_unique set_empty map_is_Nil_conv)
  then show ?thesis using parsed_with_digest_Some(3) [OF 2(2)] by simp
qed

section \<open>When there is a report\<close>

lemma label_for_iff: "label_for i \<noteq> [] \<longleftrightarrow> (\<exists>c \<in> set i. c \<notin> set ''.:_-'')"
proof -
  have parts: "(\<exists>w \<in> set (split_where sep s). w \<noteq> []) \<longleftrightarrow> (\<exists>c \<in> set s. \<not> sep c)" for sep s
    by (induction s) (auto split: list.splits)
  have "join '' '' xs \<noteq> []" if "\<forall>x \<in> set xs. x \<noteq> []" "xs \<noteq> []" for xs
    using that by (induction xs rule: join.induct) auto
  moreover have "capitalized w \<noteq> [] \<longleftrightarrow> w \<noteq> []" for w by (cases w) (simp_all add: capitalized_def)
  ultimately have "join '' '' (map capitalized (filter nonempty ws)) \<noteq> []" if "filter nonempty ws \<noteq> []" for ws
    using that by simp
  then have "label_for i \<noteq> [] \<longleftrightarrow> filter nonempty (split_where (\<lambda>c. c \<in> set ''.:_-'') i) \<noteq> []"
    unfolding label_for_def by fastforce
  also have "\<dots> \<longleftrightarrow> (\<exists>w \<in> set (split_where (\<lambda>c. c \<in> set ''.:_-'') i). w \<noteq> [])"
    by (auto simp: filter_empty_conv)
  finally show ?thesis by (simp only: parts)
qed

definition labelled :: "string \<Rightarrow> bool" where
  "labelled i = (label_for i \<noteq> [])"

lemma requirement_ok: "i \<noteq> [] \<Longrightarrow> requirement_status_ok (requirement k i m c) \<longleftrightarrow> labelled i"
  by (simp add: requirement_status_ok_def requirement_def labelled_def)

lemma approval_ok: "planfile_ok E p \<Longrightarrow> n \<in> set (pf_nodes p) \<Longrightarrow> approval_summary_ok (approval_for_node p n)"
  using planfile_ok_node_ids [of E p n] by (simp add: approval_summary_ok_def approval_for_node_def Let_def)

lemma map_by_values: "set (map snd (map_by key xs)) \<subseteq> set xs"
  using map_by_props(2) [of _ _ key xs] by fastforce

lemma approvals_ok:
  assumes "planfile_ok E p"
  shows "list_all approval_summary_ok (approval_requirements_for p issues)"
proof -
  let ?xs = "map (approval_for_node p) (filter n_approval_required (pf_nodes p)) @
      concat (map (\<lambda>i. case issue_node p i of None \<Rightarrow> [] | Some n \<Rightarrow> [approval_for_node p n]) issues)"
  have "n \<in> set (pf_nodes p)" if some: "issue_node p i = Some n" for i n
  proof -
    from some obtain x where "(case x of PStr s \<Rightarrow> if s = [] then None else List.find (\<lambda>n. n_id n = s) (pf_nodes p)
        | PNum _ \<Rightarrow> None) = Some n" unfolding issue_node_def bind_eq_Some_conv by blast
    then show ?thesis by (cases x) (auto split: if_splits dest: find_SomeD)
  qed
  then have "\<forall>a \<in> set ?xs. approval_summary_ok a"
    using approval_ok [OF assms] by (auto split: option.splits)
  then have "\<forall>a \<in> set (map snd (map_by ay_approval_id ?xs)). approval_summary_ok a"
    using map_by_values [of ay_approval_id ?xs] by blast
  then show ?thesis by (simp add: approval_requirements_for_def list_all_iff)
qed

definition requirement_ids :: "planfile \<Rightarrow> string list" where
  "requirement_ids p = plan_packs p @ plan_providers p @ plan_credentials p @ plan_permissions p"

lemma hex64_nonempty: "is_hex64 s \<Longrightarrow> s \<noteq> []"
  by (auto simp: is_hex64_def)

lemma requirements_lists_ok:
  assumes "planfile_ok E p" and "list_all labelled (requirement_ids p)"
  shows "list_all requirement_status_ok (all_requirements p profile (requirements_of p profile packs))"
proof -
  let ?d = "requirements_of p profile packs"
  have one: "list_all requirement_status_ok (map (\<lambda>i. requirement k i (m i) (c i)) is)"
    if "list_all nonempty is" "list_all labelled is" for k m c "is"
    using that by (auto simp: list_all_iff requirement_ok)
  have "list_all requirement_status_ok (pack_requirements_of ?d)"
    "list_all requirement_status_ok (provider_requirements_of ?d)"
    "list_all requirement_status_ok (credential_requirements_of ?d)"
    "list_all requirement_status_ok (permission_requirements_of (pf_plan_id p) ?d)"
    unfolding pack_requirements_of_def provider_requirements_of_def credential_requirements_of_def
      permission_requirements_of_def
    using plan_lists_nonempty [OF assms(1)] assms(2) by (auto intro!: one simp: requirement_ids_def)
  moreover have "list_all requirement_status_ok (runtime_requirements p profile)"
    by (simp add: runtime_requirements_def Let_def requirement_status_ok_def)
  moreover have "list_all requirement_status_ok (unsupported_template_requirements p)"
    by (simp add: unsupported_template_requirements_def requirement_status_ok_def)
  ultimately show ?thesis by (simp add: all_requirements_def)
qed

lemma configure_ok: "requirement_status_ok s \<Longrightarrow> next_action_ok (configure_action s)"
  by (cases "qs_command s"; cases "qs_detail s")
    (simp_all add: requirement_status_ok_def configure_action_def next_action_ok_def keep_truthy_def)

lemma approve_ok: "approval_summary_ok a \<Longrightarrow> next_action_ok (approve_action a)"
  by (cases "ay_command a") (simp_all add: approval_summary_ok_def approve_action_def next_action_ok_def keep_truthy_def)

lemma actions_ok:
  assumes "list_all requirement_status_ok missing" and "list_all approval_summary_ok approvals" and "pf_plan_id p \<noteq> []"
  shows "list_all next_action_ok (suggested_actions_for p missing approvals invalid)"
proof -
  let ?xs = "map configure_action missing @ map approve_action approvals @
        (if invalid then [edit_plan_action] else []) @ [run_action (pf_plan_id p)]"
  have "\<forall>a \<in> set ?xs. next_action_ok a"
    using assms configure_ok approve_ok
    by (auto simp: list_all_iff) (auto simp: edit_plan_action_def run_action_def next_action_ok_def)
  then show ?thesis
    using map_by_values [of na_action_id ?xs] unfolding suggested_actions_for_def list_all_iff by blast
qed

lemma artifact_kind_for_nonempty: "artifact_kind_for out \<noteq> []"
  by (simp add: artifact_kind_for_def Let_def)

lemma plan_parts_ok:
  assumes "planfile_ok E p"
  shows "list_all side_effect_summary_ok (side_effects_for p)"
    "list_all predicted_artifact_ok (predicted_artifacts_for p)"
    "list_all nonempty (execution_mode_warnings_for p live)"
proof -
  have n: "n_id n \<noteq> []" "n_title n \<noteq> []" "list_all nonempty (n_expected_outputs n)" if "n \<in> set (pf_nodes p)" for n
    using assms that by (auto simp: planfile_ok_def plan_node_ok_def list_all_iff)
  show "list_all side_effect_summary_ok (side_effects_for p)"
    using n by (auto simp: side_effects_for_def side_effect_summary_ok_def list_all_iff)
  show "list_all predicted_artifact_ok (predicted_artifacts_for p)"
    using n(1,3) by (auto simp: predicted_artifacts_for_def predicted_artifact_ok_def list_all_iff
        artifact_kind_for_nonempty in_set_enumerate_eq)
  show "list_all nonempty (execution_mode_warnings_for p live)"
    by (auto simp: execution_mode_warnings_for_def node_mode_warnings_def list_all_iff Let_def)
qed

lemma check_warnings_ok: "list_all nonempty (dr_warnings r) \<Longrightarrow> list_all nonempty modes \<Longrightarrow>
    list_all nonempty (check_warnings p r modes)"
  by (cases "dr_portability r") (auto simp: check_warnings_def optional_warnings_def list_all_iff split: option.splits if_splits)

lemma checked_report_ok:
  assumes "planfile_ok E p" and "pf_canonical_plan_digest p \<noteq> None" and "list_all labelled (requirement_ids p)"
    and "datetime_ok E now"
  shows "plan_check_report_ok E (checked_report E i p (requirements_of p profile packs) issues now)"
proof -
  let ?d = "requirements_of p profile packs"
  have plan: "pf_plan_id p \<noteq> []" "opt_ok is_hex64 (pf_canonical_plan_digest p)"
    using assms(1) by (simp_all add: planfile_ok_def)
  then have digest: "nullish (pf_canonical_plan_digest p) x \<noteq> []" for x
    using assms(2) hex64_nonempty by (cases "pf_canonical_plan_digest p") auto
  note all = requirements_lists_ok [OF assms(1,3)]
  have lists: "list_all requirement_status_ok (pack_requirements_of ?d)"
    "list_all requirement_status_ok (provider_requirements_of ?d)"
    "list_all requirement_status_ok (credential_requirements_of ?d)"
    "list_all requirement_status_ok (permission_requirements_of (pf_plan_id p) ?d)"
    using all [of "profile" packs] by (simp_all add: all_requirements_def)
  have schedule: "list_all requirement_status_ok (schedule_requirements_for p)"
    unfolding schedule_requirements_for_def by (simp add: requirement_status_ok_def)
  have missing: "list_all requirement_status_ok (filter f (all_requirements p q ?d))" for f q
  proof -
    have "list_all requirement_status_ok (all_requirements p q ?d)"
      using lists requirements_lists_ok [OF assms(1,3), of q packs] by (simp add: all_requirements_def)
    then show ?thesis by (auto simp: list_all_iff)
  qed
  have warnings: "list_all nonempty (dr_warnings ?d)"
    using report_lists_ok [OF requirements_ok [OF assms(1)], of profile packs] by simp
  have errors: "list_all (structured_error_ok E) (map (\<lambda>x. structured_error_for_issue x now) issues)"
    using assms(4) by (simp add: list_all_iff structured_error_ok_def structured_error_for_issue_def)
  show ?thesis
    unfolding plan_check_report_ok_def checked_report_def Let_def
    using plan(1) digest lists schedule approvals_ok [OF assms(1)] plan_parts_ok [OF assms(1)] errors
      check_warnings_ok [OF warnings plan_parts_ok(3) [OF assms(1)]]
      actions_ok [OF missing approvals_ok [OF assms(1)] plan(1)]
    by simp
qed

text \<open>A plan the schema accepts gets a report, unless the name of a pack, provider, credential or permission
  consists of separators only.\<close>

lemma check_total:
  assumes "planfile_ok (ch_env C) (ki_planfile i)" and "sha_is_hex (ch_env C)"
    and "snapshot_options C i (nullish (ki_now i) clock) = Some snapshot"
    and "list_all labelled (requirement_ids (ki_planfile i))" and "datetime_ok (ch_env C) (nullish (ki_now i) clock)"
  shows "run_plan_check C clock i \<noteq> None"
proof -
  let ?E = "ch_env C" and ?now = "nullish (ki_now i) clock"
  let ?p = "(ki_planfile i)\<lparr>pf_canonical_plan_digest := Some (stable_hash ?E (canonical_form (ki_planfile i)))\<rparr>"
  have w: "with_canonical_plan_digest ?E (ki_planfile i) = Some ?p" by (rule with_digest_total [OF assms(1,2)])
  have p: "parsed_with_digest ?E (ki_planfile i) = Some ?p" using assms(1) w by (simp add: parsed_with_digest_def)
  have ok: "planfile_ok ?E ?p" using parsed_with_digest_Some(2) [OF p] .
  have "requirement_ids ?p = requirement_ids (ki_planfile i)"
    by (simp add: requirement_ids_def plan_packs_def plan_providers_def plan_credentials_def plan_permissions_def
        required_provider_kinds_def required_credential_names_def plan_capability_refs_def)
  then have "plan_check_report_ok ?E (checked_report ?E i ?p (requirements_of ?p (ki_profile i) (ki_packs i))
      (vl_issues (validate_planfile ?E snapshot (ki_planfile i))) ?now)"
    using checked_report_ok [OF ok _ _ assms(5)] assms(4) by simp
  then show ?thesis
    unfolding run_plan_check_def Let_def assms(3) by (simp add: p requirements_ok [OF ok])
qed

text \<open>Such a name makes the check fail with an error of the schema library.\<close>

lemma sample_plan_labelled: "list_all labelled (requirement_ids sample_plan)"
  by code_simp

lemma sample_plan_lists:
  "plan_packs sample_plan = []" "plan_providers sample_plan = []" "plan_credentials sample_plan = []"
  "runtime_modes sample_plan = []" "\<not> scaffold_only sample_plan" "pf_nodes sample_plan \<noteq> []"
  by code_simp+

lemma unlabelled_throws:
  assumes "parsed_with_digest (ch_env C) (ki_planfile i) = Some p" and "\<not> list_all labelled (requirement_ids p)"
  shows "run_plan_check C clock i = None"
proof (cases "run_plan_check C clock i")
  case (Some r)
  let ?d = "requirements_of p (ki_profile i) (ki_packs i)"
  note ok = parsed_with_digest_Some [OF assms(1)]
  from Some have "plan_check_report_ok (ch_env C) r"
    by (auto simp: run_plan_check_def Let_def bind_eq_Some_conv split: option.splits if_splits)
  moreover from Some obtain issues now where "r = checked_report (ch_env C) i p ?d issues now"
    using assms(1) by (cases rule: run_plan_check_cases [OF Some]) auto
  ultimately have "list_all requirement_status_ok (pack_requirements_of ?d)"
    "list_all requirement_status_ok (provider_requirements_of ?d)"
    "list_all requirement_status_ok (credential_requirements_of ?d)"
    "list_all requirement_status_ok (permission_requirements_of (pf_plan_id p) ?d)"
    by (simp_all add: plan_check_report_ok_def checked_report_def Let_def)
  then have "list_all labelled (requirement_ids p)"
    unfolding pack_requirements_of_def provider_requirements_of_def credential_requirements_of_def
      permission_requirements_of_def requirement_ids_def
    using plan_lists_nonempty [OF ok(2)] by (auto simp: list_all_iff requirement_ok)
  with assms(2) show ?thesis by simp
qed simp


definition sample_check :: plan_check_input where
  "sample_check =
     \<lparr>ki_planfile = sample_plan, ki_profile = None, ki_packs = None, ki_snapshot = None, ki_live = None,
      ki_now = Some sample_stamp\<rparr>"


end
