(* ===== verification/Builder_Session.thy ===== *)
theory Builder_Session
  imports Plan_Simulation Samples
begin

text \<open>
  \<open>planning/plan-builder-session.ts\<close> with the records a session holds (\<open>intent-frame.ts\<close>,
  \<open>plan-builder-status.ts\<close>, \<open>plan-revision.ts\<close>, \<open>planfile-update-report.ts\<close>): the sessions of the plan
  builder, each a file of its own, and their index.
\<close>

section \<open>Intents\<close>

datatype intent_domain = Dom_repository | Dom_research | Dom_skill | Dom_pack | Dom_notes | Dom_files | Dom_generic

datatype intent_action =
    Act_create_plan | Act_run_workflow | Act_create_brief | Act_patch_repository | Act_build_pack | Act_summarize
  | Act_schedule | Act_unknown

datatype intent_output_kind =
    Out_markdown_brief | Out_git_patch | Out_review_report | Out_planfile | Out_artifact | Out_unknown

datatype intent_output_format = Fmt_markdown | Fmt_json | Fmt_patch | Fmt_text

datatype intent_cadence = Cad_manual | Cad_daily | Cad_weekly | Cad_cron

datatype side_effect_expectation =
    Expect_none | Expect_artifact_write | Expect_workspace_write | Expect_external_write | Expect_unknown

record intent_schedule =
  iq_requested :: bool
  iq_cadence :: "intent_cadence option"
  iq_time_of_day :: "string option"
  iq_timezone :: "string option"

record intent_frame =
  fi_intent_id :: string
  fi_original_prompt :: string
  fi_interpreted_goal :: string
  fi_domain :: intent_domain
  fi_action :: intent_action
  fi_output :: "(intent_output_kind \<times> intent_output_format option) option"
  fi_schedule :: "intent_schedule option"
  fi_constraints :: "string list"
  fi_non_goals :: "string list"
  fi_assumptions :: "string list"
  fi_ambiguity :: ambiguity
  fi_capability_kinds :: "string list"
  fi_side_effect :: side_effect_expectation
  fi_risk_level :: risk_level

definition intent_schedule_ok :: "intent_schedule \<Rightarrow> bool" where
  "intent_schedule_ok s = (opt_ok nonempty (iq_time_of_day s) \<and> opt_ok nonempty (iq_timezone s))"

definition intent_frame_ok :: "intent_frame \<Rightarrow> bool" where
  "intent_frame_ok f =
     (nonempty (fi_intent_id f) \<and> nonempty (fi_original_prompt f) \<and> nonempty (fi_interpreted_goal f) \<and>
      opt_ok intent_schedule_ok (fi_schedule f) \<and> list_all nonempty (am_questions (fi_ambiguity f)) \<and>
      list_all nonempty (fi_capability_kinds f))"

section \<open>Revisions\<close>

datatype builder_status =
    Build_drafting | Build_simulating | Build_validating | Build_needs_input | Build_revising | Build_ready
  | Build_approved | Build_yielded

datatype revision_source = Rev_deterministic | Rev_model

record plan_revision =
  rv_revision_id :: string
  rv_source :: revision_source
  rv_reason :: string
  rv_changes :: "string list"
  rv_planfile :: planfile
  rv_validation_ok :: bool
  rv_created_at :: string
  rv_telemetry :: "string option"

definition plan_revision_ok :: "env \<Rightarrow> plan_revision \<Rightarrow> bool" where
  "plan_revision_ok E r =
     (nonempty (rv_revision_id r) \<and> nonempty (rv_reason r) \<and> list_all nonempty (rv_changes r) \<and>
      planfile_ok E (rv_planfile r) \<and> datetime_ok E (rv_created_at r) \<and> opt_ok nonempty (rv_telemetry r))"

datatype edit_source = Edit_web | Edit_tui | Edit_cli | Edit_external_file
datatype edit_status = Edit_accepted | Edit_rejected | Edit_needs_input

record planfile_revision =
  pe_revision_id :: string
  pe_session_id :: string
  pe_source :: edit_source
  pe_previous_digest :: "string option"
  pe_new_digest :: "string option"
  pe_status :: edit_status
  pe_summary :: string
  pe_created_at :: string
  pe_artifact_refs :: "string list"

definition planfile_revision_ok :: "env \<Rightarrow> planfile_revision \<Rightarrow> bool" where
  "planfile_revision_ok E r =
     (nonempty (pe_revision_id r) \<and> nonempty (pe_session_id r) \<and> opt_ok is_hex64 (pe_previous_digest r) \<and>
      opt_ok is_hex64 (pe_new_digest r) \<and> nonempty (pe_summary r) \<and> datetime_ok E (pe_created_at r) \<and>
      list_all nonempty (pe_artifact_refs r))"

section \<open>Sessions\<close>

datatype prompt_source = From_chat | From_skills_file | From_planfile | From_template

record builder_session =
  bs_session_id :: string
  bs_prompt_source :: prompt_source
  bs_original_input :: string
  bs_intent_frame :: "intent_frame option"
  bs_planfile :: "planfile option"
  bs_simulation :: "simulation_report option"
  bs_validation :: "validation_result option"
  bs_pending :: "planner_question list"
  bs_answered :: "planner_question list"
  bs_revisions :: "plan_revision list"
  bs_planfile_revisions :: "planfile_revision list"
  bs_status :: builder_status
  bs_yield_reason :: "string option"
  bs_created_at :: string
  bs_updated_at :: string

text \<open>The validation report is not checked (\<open>z.custom\<close>).\<close>

definition builder_session_ok :: "env \<Rightarrow> builder_session \<Rightarrow> bool" where
  "builder_session_ok E s =
     (nonempty (bs_session_id s) \<and> nonempty (bs_original_input s) \<and> opt_ok intent_frame_ok (bs_intent_frame s) \<and>
      opt_ok (planfile_ok E) (bs_planfile s) \<and> opt_ok (simulation_report_ok E) (bs_simulation s) \<and>
      list_all (planner_question_ok E) (bs_pending s) \<and> list_all (planner_question_ok E) (bs_answered s) \<and>
      list_all (plan_revision_ok E) (bs_revisions s) \<and>
      list_all (planfile_revision_ok E) (bs_planfile_revisions s) \<and> opt_ok nonempty (bs_yield_reason s) \<and>
      datetime_ok E (bs_created_at s) \<and> datetime_ok E (bs_updated_at s))"

section \<open>Files\<close>

text \<open>The files of the sessions' directory, by path: each holds the JSON text of a session, or of the
  index. Files that no code here wrote are not modelled.\<close>

record index_entry =
  ie_session_id :: string
  ie_status :: builder_status
  ie_prompt_source :: prompt_source
  ie_plan_id :: "string option"
  ie_updated_at :: string

datatype builder_file = Session_file builder_session | Sessions_index "index_entry list"

type_synonym session_dir = "(string \<times> builder_file) list"

definition default_builder_root :: string where
  "default_builder_root = path_join [''.open-lagrange'', ''plan-builder'', ''sessions'']"

definition session_path :: "string \<Rightarrow> string \<Rightarrow> string" where
  "session_path session_id root = path_join [root, session_id @ ''.json'']"

definition session_index_path :: "string \<Rightarrow> string" where
  "session_index_path root = path_join [root, ''index.json'']"

definition index_entries :: "session_dir \<Rightarrow> string \<Rightarrow> index_entry list" where
  "index_entries d root =
     (case map_of d (session_index_path root) of Some (Sessions_index es) \<Rightarrow> es | _ \<Rightarrow> [])"

definition session_entry :: "builder_session \<Rightarrow> index_entry" where
  "session_entry s =
     \<lparr>ie_session_id = bs_session_id s, ie_status = bs_status s, ie_prompt_source = bs_prompt_source s,
      ie_plan_id = map_option pf_plan_id (bs_planfile s), ie_updated_at = bs_updated_at s\<rparr>"

definition write_session_index :: "builder_session \<Rightarrow> string \<Rightarrow> session_dir \<Rightarrow> session_dir" where
  "write_session_index s root d =
     AList.update (session_index_path root)
       (Sessions_index (filter (\<lambda>e. ie_session_id e \<noteq> bs_session_id s) (index_entries d root) @ [session_entry s])) d"

definition save_builder_session ::
    "env \<Rightarrow> string \<Rightarrow> builder_session \<Rightarrow> (session_dir, builder_session) effect" where
  "save_builder_session E root s =
     (\<lambda>d. if builder_session_ok E s
          then (Inr s, write_session_index s root (AList.update (session_path (bs_session_id s) root) (Session_file s) d))
          else (Inl Zod_error, d))"

definition get_builder_session ::
    "env \<Rightarrow> string \<Rightarrow> string \<Rightarrow> (session_dir, builder_session option) effect" where
  "get_builder_session E root session_id =
     (\<lambda>d. (case map_of d (session_path session_id root) of
             None \<Rightarrow> Inr None
           | Some (Session_file s) \<Rightarrow> if builder_session_ok E s then Inr (Some s) else Inl Zod_error
           | Some (Sessions_index _) \<Rightarrow> Inl Zod_error, d))"

definition list_builder_sessions :: "env \<Rightarrow> string \<Rightarrow> (session_dir, builder_session list) effect" where
  "list_builder_sessions E root =
     (\<lambda>d. ebind (emap (index_entries d root) (\<lambda>e.
             if ie_session_id e = [] then ereturn None else get_builder_session E root (ie_session_id e)))
            (\<lambda>found. ereturn (List.map_filter id found)) d)"

section \<open>Reading back\<close>

text \<open>A name whose file lies in the directory itself, beside the index.\<close>

definition plain_name :: "string \<Rightarrow> bool" where
  "plain_name i = (i \<noteq> [] \<and> slash \<notin> set i \<and> i \<noteq> ''index'')"

definition path_front :: "string \<Rightarrow> string" where
  "path_front root =
     (let up = \<not> is_absolute root; segments = normal_segments up root
      in (if up then [] else [slash]) @ (if segments = [] then [] else join [slash] segments @ [slash]))"

lemma path_join_clean:
  assumes "clean_segment x"
  shows "path_join [root, x] = path_front root @ x"
proof -
  have x: "x \<noteq> []" "slash \<notin> set x" and push: "push_segment up x acc = acc @ [x]" for up acc
    using assms by (auto simp: clean_segment_def push_segment_def)
  have no_end: "\<not> ends_with (s @ x) [slash]" for s
    using x by (cases x rule: rev_cases) (auto simp: ends_with_def)
  have segment: "normal_segments up x = [x]" for up
    using push [of up "[]"] split_on_single [OF x(2)] by (simp add: normal_segments_def)
  show ?thesis
  proof (cases "root = []")
    case True
    have "\<not> is_absolute x" using x by (cases x) (auto simp: is_absolute_def)
    with True x no_end [of "[]"] segment show ?thesis
      by (simp add: path_join_def path_normalize_def normalize_string_def path_front_def normal_segments_def
          push_segment_def is_absolute_def Let_def)
  next
    case False
    let ?j = "root @ slash # x"
    have abs: "is_absolute ?j = is_absolute root" using False by (cases root) (auto simp: is_absolute_def)
    have "normal_segments up ?j = normal_segments up root @ [x]" for up
      unfolding normal_segments_two split_on_single [OF x(2)] by (simp add: push)
    then have n: "normalize_string up ?j =
        (if normal_segments up root = [] then x else join [slash] (normal_segments up root) @ slash # x)" for up
      by (simp add: normalize_string_def join_append)
    have last: "\<not> ends_with ?j [slash]" using no_end [of "root @ [slash]"] by simp
    show ?thesis
      using False x by (simp add: path_join_def path_normalize_def abs n last path_front_def Let_def)
  qed
qed

lemma session_file_clean: "slash \<notin> set i \<Longrightarrow> clean_segment (i @ ''.json'')"
  by (cases i) (auto simp: clean_segment_def)

lemma session_path_plain:
  "slash \<notin> set i \<Longrightarrow> session_path i root = path_front root @ i @ ''.json''"
  "session_index_path root = path_front root @ ''index.json''"
  using session_file_clean [of i] session_file_clean [of "''index''"]
  by (simp_all add: session_path_def session_index_path_def path_join_clean)

lemma session_paths_differ:
  "plain_name i \<Longrightarrow> plain_name j \<Longrightarrow> session_path i root = session_path j root \<longleftrightarrow> i = j"
  "plain_name i \<Longrightarrow> session_path i root \<noteq> session_index_path root"
proof -
  show "plain_name i \<Longrightarrow> plain_name j \<Longrightarrow> session_path i root = session_path j root \<longleftrightarrow> i = j"
    by (simp add: plain_name_def session_path_plain)
  have "i @ ''.json'' = ''index.json'' \<longleftrightarrow> i = ''index''"
    using append_same_eq [of i "''.json''" "''index''"] by simp
  then show "plain_name i \<Longrightarrow> session_path i root \<noteq> session_index_path root"
    by (simp add: plain_name_def session_path_plain)
qed

text \<open>The directory as the code leaves it: every entry of the index names a session of its own, whose file
  holds a session of that name.\<close>

definition session_entry_ok :: "env \<Rightarrow> string \<Rightarrow> session_dir \<Rightarrow> index_entry \<Rightarrow> bool" where
  "session_entry_ok E root d e =
     (plain_name (ie_session_id e) \<and>
      (case map_of d (session_path (ie_session_id e) root) of
         Some (Session_file s) \<Rightarrow> builder_session_ok E s \<and> bs_session_id s = ie_session_id e
       | _ \<Rightarrow> False))"

definition session_dir_ok :: "env \<Rightarrow> string \<Rightarrow> session_dir \<Rightarrow> bool" where
  "session_dir_ok E root d =
     (distinct (map ie_session_id (index_entries d root)) \<and> list_all (session_entry_ok E root d) (index_entries d root))"

definition session_at :: "session_dir \<Rightarrow> string \<Rightarrow> string \<Rightarrow> builder_session option" where
  "session_at d root i =
     (case map_of d (session_path i root) of Some (Session_file s) \<Rightarrow> Some s | _ \<Rightarrow> None)"

lemma saved:
  assumes "save_builder_session E root s d = (Inr s', d')" and "plain_name (bs_session_id s)"
  shows "s' = s" "builder_session_ok E s"
    "map_of d' (session_path (bs_session_id s) root) = Some (Session_file s)"
    "index_entries d' root =
       filter (\<lambda>e. ie_session_id e \<noteq> bs_session_id s) (index_entries d root) @ [session_entry s]"
    "k \<noteq> session_path (bs_session_id s) root \<Longrightarrow> k \<noteq> session_index_path root \<Longrightarrow> map_of d' k = map_of d k"
  using assms session_paths_differ(2) [OF assms(2), of root]
  by (auto simp: save_builder_session_def write_session_index_def index_entries_def update_conv' split: if_splits)

lemma session_entry_okD:
  assumes "session_entry_ok E root d e"
  shows "ie_session_id e \<noteq> []"
    "get_builder_session E root (ie_session_id e) d = (Inr (session_at d root (ie_session_id e)), d)"
    "session_at d root (ie_session_id e) \<noteq> None"
  using assms
  by (auto simp: session_entry_ok_def plain_name_def get_builder_session_def session_at_def
      split: option.splits builder_file.splits)

lemma list_all_sessions:
  assumes "session_dir_ok E root d"
  shows "list_builder_sessions E root d =
    (Inr (map (\<lambda>e. the (session_at d root (ie_session_id e))) (index_entries d root)), d)"
proof -
  have ok: "list_all (session_entry_ok E root d) (index_entries d root)" using assms by (simp add: session_dir_ok_def)
  have read: "emap es (\<lambda>e. if ie_session_id e = [] then ereturn None else get_builder_session E root (ie_session_id e)) d =
      (Inr (map (\<lambda>e. session_at d root (ie_session_id e)) es), d)"
    if "list_all (session_entry_ok E root d) es" for es
    using that by (induction es) (auto simp: ebind_run session_entry_okD(2) dest: session_entry_okD(1))
  have known: "List.map_filter id (map (\<lambda>e. session_at d root (ie_session_id e)) es) =
      map (\<lambda>e. the (session_at d root (ie_session_id e))) es"
    if "list_all (session_entry_ok E root d) es" for es
    using that by (induction es) (auto simp: map_filter_simps dest: session_entry_okD(3))
  show ?thesis by (simp add: list_builder_sessions_def ebind_run read [OF ok] known [OF ok])
qed

lemma save_keeps_dir:
  assumes "save_builder_session E root s d = (Inr s', d')" and "plain_name (bs_session_id s)"
    and "session_dir_ok E root d"
  shows "session_dir_ok E root d'"
proof -
  note sv = saved [OF assms(1,2)]
  have others: "session_entry_ok E root d' e" if e: "session_entry_ok E root d e" "ie_session_id e \<noteq> bs_session_id s" for e
  proof -
    have "plain_name (ie_session_id e)" using e(1) by (simp add: session_entry_ok_def)
    then have "map_of d' (session_path (ie_session_id e) root) = map_of d (session_path (ie_session_id e) root)"
      using e(2) assms(2) by (intro sv(5)) (simp_all add: session_paths_differ)
    with e(1) show ?thesis by (simp add: session_entry_ok_def)
  qed
  have "session_entry_ok E root d' (session_entry s)"
    using sv(2,3) assms(2) by (simp add: session_entry_ok_def session_entry_def)
  then show ?thesis
    using assms(3) others unfolding session_dir_ok_def sv(4)
    by (auto simp: list_all_iff session_entry_def distinct_map inj_on_def)
qed

text \<open>C38: In a consistent directory, whose index entries each name a session of its own, saving a session whose
  id is a plain file name other than index (no slash, not a path) gives a directory that is consistent again: the
  session is read back as it was saved, every other such session keeps its file, and the listing afterwards is
  the listing before without that session, followed by it. The conditions are needed: nothing checks the id, and
  a session that names itself index is overwritten by the index.\<close>
theorem saved_session_listed:
  assumes "save_builder_session E root s d = (Inr s', d')" and "plain_name (bs_session_id s)"
    and "session_dir_ok E root d"
  shows "get_builder_session E root (bs_session_id s) d' = (Inr (Some s), d') \<and>
    (\<forall>i. plain_name i \<longrightarrow> i \<noteq> bs_session_id s \<longrightarrow>
       fst (get_builder_session E root i d') = fst (get_builder_session E root i d)) \<and>
    session_dir_ok E root d' \<and>
    (\<exists>xs. list_builder_sessions E root d = (Inr xs, d) \<and>
       list_builder_sessions E root d' = (Inr (filter (\<lambda>x. bs_session_id x \<noteq> bs_session_id s) xs @ [s]), d'))"
proof -
  note sv = saved [OF assms(1,2)]
  have ok': "session_dir_ok E root d'" by (rule save_keeps_dir [OF assms])
  have same: "map_of d' (session_path i root) = map_of d (session_path i root)"
    if "plain_name i" "i \<noteq> bs_session_id s" for i
    using that assms(2) by (intro sv(5)) (simp_all add: session_paths_differ)
  have same_at: "session_at d' root i = session_at d root i" if "plain_name i" "i \<noteq> bs_session_id s" for i
    using same [OF that] by (simp add: session_at_def)
  let ?at = "\<lambda>d e. the (session_at d root (ie_session_id e))"
  have named: "plain_name (ie_session_id e)" "bs_session_id (?at d e) = ie_session_id e"
    if "e \<in> set (index_entries d root)" for e
  proof -
    have "session_entry_ok E root d e" using assms(3) that by (simp add: session_dir_ok_def list_all_iff)
    then show "plain_name (ie_session_id e)" "bs_session_id (?at d e) = ie_session_id e"
      by (auto simp: session_entry_ok_def session_at_def split: option.splits builder_file.splits)
  qed
  have "map (?at d') (filter (\<lambda>e. ie_session_id e \<noteq> bs_session_id s) es) =
      filter (\<lambda>x. bs_session_id x \<noteq> bs_session_id s) (map (?at d) es)"
    if "set es \<subseteq> set (index_entries d root)" for es
    using that by (induction es) (auto simp: named same_at)
  then have "map (?at d') (index_entries d' root) =
      filter (\<lambda>x. bs_session_id x \<noteq> bs_session_id s) (map (?at d) (index_entries d root)) @ [s]"
    unfolding sv(4) using sv(3) by (simp add: session_entry_def session_at_def)
  then have "list_builder_sessions E root d' =
      (Inr (filter (\<lambda>x. bs_session_id x \<noteq> bs_session_id s) (map (?at d) (index_entries d root)) @ [s]), d')"
    using list_all_sessions [OF ok'] by simp
  moreover have "get_builder_session E root (bs_session_id s) d' = (Inr (Some s), d')"
    using sv(2,3) by (simp add: get_builder_session_def)
  moreover have "fst (get_builder_session E root i d') = fst (get_builder_session E root i d)"
    if "plain_name i" "i \<noteq> bs_session_id s" for i
    using same [OF that] by (simp add: get_builder_session_def)
  ultimately show ?thesis using ok' list_all_sessions [OF assms(3)] by blast
qed

definition sample_session :: "string \<Rightarrow> builder_session" where
  "sample_session i =
     \<lparr>bs_session_id = i, bs_prompt_source = From_chat, bs_original_input = ''read the file'',
      bs_intent_frame = None, bs_planfile = None, bs_simulation = None, bs_validation = None, bs_pending = [],
      bs_answered = [], bs_revisions = [], bs_planfile_revisions = [], bs_status = Build_drafting,
      bs_yield_reason = None, bs_created_at = sample_stamp, bs_updated_at = sample_stamp\<rparr>"

lemma sample_session_ok: "i \<noteq> [] \<Longrightarrow> builder_session_ok sample_env (sample_session i)"
  by (simp add: builder_session_ok_def sample_session_def) (simp add: sample_defs)

theorem saved_session_listed_witness:
  "\<exists>d'. save_builder_session sample_env ''s'' (sample_session ''a'') [] = (Inr (sample_session ''a''), d') \<and>
     list_builder_sessions sample_env ''s'' d' = (Inr [sample_session ''a''], d')"
proof -
  let ?s = "sample_session ''a''"
  have name: "plain_name (bs_session_id ?s)" by (simp add: plain_name_def sample_session_def)
  obtain d' where d': "save_builder_session sample_env ''s'' ?s [] = (Inr ?s, d')"
    by (simp add: save_builder_session_def sample_session_ok)
  have empty: "session_dir_ok sample_env ''s'' []" "list_builder_sessions sample_env ''s'' [] = (Inr [], [])"
    by (simp_all add: session_dir_ok_def list_builder_sessions_def index_entries_def ebind_run map_filter_simps)
  from saved_session_listed [OF d' name empty(1)] d' show ?thesis by (auto simp: empty(2))
qed

end
