(* ===== verification/Builder_Loop.thy ===== *)
theory Builder_Loop
  imports Builder_Session Plan_Check
begin

text \<open>
  \<open>planning/plan-builder-loop.ts\<close> with \<open>revisePlanfileWithModel\<close> of \<open>plan-revision.ts\<close>: simulating,
  validating, revising and stabilizing the plan of a session, and answering its questions. The first plan of
  a session is the subject of \<open>Builder_Start\<close>.
\<close>

section \<open>Host\<close>

text \<open>\<open>bh_now\<close> is what the clock reads in a call, \<open>bh_zod_message\<close> the message of an error of the schema
  library.\<close>

record builder_host =
  bh_env :: env
  bh_now :: string
  bh_zod_message :: string

type_synonym 'a builder = "(session_dir, 'a) effect"

definition ecatch :: "('w, 'a) effect \<Rightarrow> (thrown \<Rightarrow> ('w, 'a) effect) \<Rightarrow> ('w, 'a) effect" where
  "ecatch m h = (\<lambda>w. case m w of (Inl e, w') \<Rightarrow> h e w' | (Inr x, w') \<Rightarrow> (Inr x, w'))"

fun error_text :: "builder_host \<Rightarrow> thrown \<Rightarrow> string" where
  "error_text B Zod_error = bh_zod_message B"
| "error_text B (Sdk_error _ m) = m"
| "error_text B (Plain_error m) = m"

section \<open>Parts\<close>

definition blank_lifecycle :: planfile_lifecycle where
  "blank_lifecycle =
     \<lparr>lc_builder_session_id = None, lc_questions_answered = None, lc_assumptions = None,
      lc_validation_status = None, lc_simulation_status = None\<rparr>"

definition lifecycle_planfile ::
    "builder_host \<Rightarrow> planfile \<Rightarrow> string \<Rightarrow> validation_status \<Rightarrow> simulation_status \<Rightarrow> nat \<Rightarrow> plan_status
      \<Rightarrow> planfile option" where
  "lifecycle_planfile B p session_id v s answered status =
     parsed_with_digest (bh_env B)
       (p\<lparr>pf_status := status,
          pf_lifecycle := Some ((nullish (pf_lifecycle p) blank_lifecycle)
            \<lparr>lc_builder_session_id := Some session_id, lc_questions_answered := Some answered,
             lc_assumptions := Some (gf_assumptions (pf_goal_frame p)), lc_validation_status := Some v,
             lc_simulation_status := Some s\<rparr>),
          pf_updated_at := bh_now B\<rparr>)"

definition update_session :: "builder_host \<Rightarrow> builder_session \<Rightarrow> bool \<Rightarrow> builder_session builder" where
  "update_session B s persist =
     (let next_session = s\<lparr>bs_updated_at := bh_now B\<rparr>
      in if \<not> builder_session_ok (bh_env B) next_session then ethrow Zod_error
         else if persist then save_builder_session (bh_env B) default_builder_root next_session
         else ereturn next_session)"

definition yield_session :: "builder_host \<Rightarrow> builder_session \<Rightarrow> string \<Rightarrow> bool \<Rightarrow> builder_session builder" where
  "yield_session B s reason persist =
     update_session B (s\<lparr>bs_status := Build_yielded, bs_yield_reason := Some reason\<rparr>) persist"

definition merge_questions :: "planner_question list \<Rightarrow> planner_question list \<Rightarrow> planner_question list" where
  "merge_questions current fresh =
     map snd (fold (\<lambda>q m. if map_of m (pq_question_id q) = None then m @ [(pq_question_id q, q)] else m)
       fresh (map_by pq_question_id current))"

definition model_revision_count :: "builder_session \<Rightarrow> nat" where
  "model_revision_count s = length (filter (\<lambda>r. rv_source r = Rev_model) (bs_revisions s))"

definition simulated_status :: "builder_session \<Rightarrow> simulation_status" where
  "simulated_status s = (case bs_simulation s of None \<Rightarrow> Sim_unknown | Some r \<Rightarrow> sm_status r)"

definition passed_or_failed :: "validation_result \<Rightarrow> validation_status" where
  "passed_or_failed v = (if vl_ok v then V_passed else V_failed)"

definition ready_or_draft :: "builder_status \<Rightarrow> plan_status" where
  "ready_or_draft s = (if s = Build_ready then PS_ready else PS_draft)"

section \<open>Simulating and validating\<close>

definition simulate_plan ::
    "builder_host \<Rightarrow> builder_session \<Rightarrow> runtime_profile option \<Rightarrow> int option \<Rightarrow> bool \<Rightarrow> builder_session builder" where
  "simulate_plan B s profile max_questions persist =
     (case bs_planfile s of
        None \<Rightarrow> yield_session B s ''No Planfile is available to simulate.'' persist
      | Some p \<Rightarrow>
          ebind (of_option Zod_error (simulate_planfile (bh_env B) p (bs_validation s) profile max_questions)) (\<lambda>r.
            update_session B
              (s\<lparr>bs_simulation := Some r, bs_pending := merge_questions (bs_pending s) (sm_questions r),
                 bs_status := (case sm_status r of
                     Sim_ready \<Rightarrow> Build_validating | Sim_needs_input \<Rightarrow> Build_needs_input
                   | Sim_missing_requirements \<Rightarrow> Build_needs_input | _ \<Rightarrow> Build_yielded)\<rparr>) persist))"

definition validated_status :: "builder_session \<Rightarrow> validation_result \<Rightarrow> builder_status" where
  "validated_status s v =
     (if vl_ok v \<and> simulated_status s = Sim_ready then Build_ready
      else if bs_pending s \<noteq> [] then Build_needs_input
      else if vl_ok v then Build_ready else Build_yielded)"

definition failed_validation_reason :: string where
  "failed_validation_reason = ''Planfile validation failed and requires semantic revision.''"

definition validate_plan :: "builder_host \<Rightarrow> builder_session \<Rightarrow> bool \<Rightarrow> builder_session builder" where
  "validate_plan B s persist =
     (case bs_planfile s of
        None \<Rightarrow> yield_session B s ''No Planfile is available to validate.'' persist
      | Some p \<Rightarrow>
          (let v = validate_planfile (bh_env B) None p; status = validated_status s v in
           ebind (of_option Zod_error (lifecycle_planfile B p (bs_session_id s) (passed_or_failed v)
                    (simulated_status s) (length (bs_answered s)) (ready_or_draft status))) (\<lambda>q.
             update_session B
               (s\<lparr>bs_validation := Some v, bs_planfile := Some q, bs_status := status,
                  bs_yield_reason := (if status = Build_yielded then Some failed_validation_reason
                                      else bs_yield_reason s)\<rparr>) persist)))"

section \<open>Revising\<close>

text \<open>What the call of the planner model answers: the parsed object, with the telemetry's artifact, or
  the message of the error it ends with.\<close>

record model_revision =
  mv_reason :: string
  mv_changes :: "string list"
  mv_planfile :: planfile
  mv_telemetry :: "string option"

type_synonym model_route = "planfile \<Rightarrow> string \<Rightarrow> string + model_revision"
type_synonym planner = "planfile \<Rightarrow> string \<Rightarrow> string + plan_revision"

definition checked_revision :: "builder_host \<Rightarrow> plan_revision \<Rightarrow> string + plan_revision" where
  "checked_revision B r = (if plan_revision_ok (bh_env B) r then Inr r else Inl (bh_zod_message B))"

definition revise_planfile_with_model ::
    "builder_host \<Rightarrow> model_route \<Rightarrow> planfile \<Rightarrow> string \<Rightarrow> string + plan_revision" where
  "revise_planfile_with_model B route p reason =
     (case route p reason of
        Inl m \<Rightarrow> Inl m
      | Inr out \<Rightarrow>
          (case parsed_with_digest (bh_env B) (mv_planfile out) of
             None \<Rightarrow> Inl (bh_zod_message B)
           | Some q \<Rightarrow>
               checked_revision B
                 \<lparr>rv_revision_id = ''revision_'' @
                    nullish (map_option (take 18) (pf_canonical_plan_digest q)) (pf_plan_id p),
                  rv_source = Rev_model, rv_reason = mv_reason out, rv_changes = mv_changes out,
                  rv_planfile = q, rv_validation_ok = vl_ok (validate_planfile (bh_env B) None q),
                  rv_created_at = bh_now B, rv_telemetry = keep_truthy (mv_telemetry out)\<rparr>))"

text \<open>The outer \<open>None\<close> is an error of the schema library.\<close>

definition deterministic_repair :: "builder_host \<Rightarrow> builder_session \<Rightarrow> plan_revision option option" where
  "deterministic_repair B s =
     (case bs_planfile s of
        None \<Rightarrow> Some None
      | Some p \<Rightarrow>
          if \<not> vl_ok (validate_planfile (bh_env B) None p) then Some None
          else Option.bind (lifecycle_planfile B p (bs_session_id s) V_passed (simulated_status s)
                 (length (bs_answered s)) (if simulated_status s = Sim_ready then PS_ready else PS_draft)) (\<lambda>q.
            let r = \<lparr>rv_revision_id = ''revision_'' @ take 18 (stable_hash (bh_env B) (JObj
                       [(''plan_id'', JStr (pf_plan_id q)), (''now'', JStr (bh_now B)),
                        (''source'', JStr ''deterministic'')])),
                     rv_source = Rev_deterministic, rv_reason = ''Updated Planfile lifecycle metadata.'',
                     rv_changes = [''Updated lifecycle metadata'', ''Refreshed canonical digest''],
                     rv_planfile = q, rv_validation_ok = True, rv_created_at = bh_now B, rv_telemetry = None\<rparr>
            in if plan_revision_ok (bh_env B) r then Some (Some r) else None))"

record revise_options =
  rz_reason :: "string option"
  rz_route :: "model_route option"
  rz_planner :: "planner option"
  rz_max_model_calls :: "int option"

definition revised_by ::
    "builder_host \<Rightarrow> builder_session \<Rightarrow> planfile \<Rightarrow> revise_options \<Rightarrow> string + plan_revision" where
  "revised_by B s p o1 =
     (let reason = nullish (rz_reason o1) (nullish (bs_yield_reason s) ''Semantic Planfile revision requested.'')
      in case rz_planner o1 of
           Some planner \<Rightarrow> planner p reason
         | None \<Rightarrow> (case rz_route o1 of None \<Rightarrow> Inl [] | Some route \<Rightarrow> revise_planfile_with_model B route p reason))"

definition revision_applied ::
    "builder_host \<Rightarrow> builder_session \<Rightarrow> plan_revision \<Rightarrow> planfile \<Rightarrow> bool \<Rightarrow> builder_session builder" where
  "revision_applied B s r q persist =
     ebind (update_session B
        (s\<lparr>bs_planfile := Some q, bs_revisions := bs_revisions s @ [r], bs_status := Build_validating\<rparr>) False)
       (\<lambda>s'. validate_plan B s' persist)"

definition revise_plan ::
    "builder_host \<Rightarrow> builder_session \<Rightarrow> revise_options \<Rightarrow> bool \<Rightarrow> builder_session builder" where
  "revise_plan B s o1 persist =
     (case bs_planfile s of
        None \<Rightarrow> yield_session B s ''No Planfile is available to revise.'' persist
      | Some p \<Rightarrow>
          ebind (of_option Zod_error (if rz_planner o1 \<noteq> None then Some None else deterministic_repair B s)) (\<lambda>repair.
            case repair of
              Some r \<Rightarrow> revision_applied B s r (rv_planfile r) persist
            | None \<Rightarrow>
                if rz_route o1 = None \<and> rz_planner o1 = None
                then yield_session B s
                  ''MODEL_PROVIDER_UNAVAILABLE: semantic revision requires a configured planner route.'' persist
                else if nullish (rz_max_model_calls o1) 1 \<le> int (model_revision_count s)
                then yield_session B s ''Maximum model revision calls reached.'' persist
                else (case revised_by B s p o1 of
                    Inl m \<Rightarrow> yield_session B s m persist
                  | Inr r \<Rightarrow>
                      ecatch
                        (ebind (of_option Zod_error (lifecycle_planfile B (rv_planfile r) (bs_session_id s)
                             (if rv_validation_ok r then V_passed else V_failed) (simulated_status s)
                             (length (bs_answered s)) (pf_status (rv_planfile r)))) (\<lambda>q.
                          revision_applied B s r q persist))
                        (\<lambda>e. yield_session B s (error_text B e) persist))))"

section \<open>Questions\<close>

definition answered_context ::
    "(string \<times> json) list \<Rightarrow> planner_question \<Rightarrow> string \<Rightarrow> string \<Rightarrow> (string \<times> json) list" where
  "answered_context context q answer now =
     (let entry_of = (\<lambda>c k. nullish (map_of c k) JUndef);
          c1 = (if str_includes (to_lower (pq_question q)) ''time of day''
                then AList.update ''schedule_intent''
                       (JObj (AList.update ''time_of_day'' (JStr answer) (obj_entries (entry_of context ''schedule_intent''))))
                       context
                else context);
          earlier = (case entry_of c1 ''builder_answers'' of JArr xs \<Rightarrow> xs | _ \<Rightarrow> [])
      in AList.update ''builder_answers'' (JArr (earlier @ [JObj
           [(''question_id'', JStr (pq_question_id q)), (''answer'', JStr answer), (''answered_at'', JStr now)]])) c1)"

definition apply_question_answer ::
    "builder_host \<Rightarrow> planfile \<Rightarrow> planner_question \<Rightarrow> string \<Rightarrow> string \<Rightarrow> nat \<Rightarrow> planfile option" where
  "apply_question_answer B p q answer session_id answered =
     Option.bind (planfile_parse (bh_env B)
         (p\<lparr>pf_execution_context := Some (answered_context (nullish (pf_execution_context p) []) q answer (bh_now B)),
            pf_updated_at := bh_now B\<rparr>))
       (\<lambda>p'. lifecycle_planfile B p' session_id V_unknown Sim_unknown answered (pf_status p'))"

definition answer_question ::
    "builder_host \<Rightarrow> builder_session \<Rightarrow> string \<Rightarrow> string \<Rightarrow> bool \<Rightarrow> builder_session builder" where
  "answer_question B s question_id answer persist =
     (case List.find (\<lambda>q. pq_question_id q = question_id) (bs_pending s) of
        None \<Rightarrow> yield_session B s (''Question not found: '' @ question_id) persist
      | Some q \<Rightarrow>
          (let pending = filter (\<lambda>q. pq_question_id q \<noteq> question_id) (bs_pending s) in
           ebind (case bs_planfile s of
                    None \<Rightarrow> ereturn None
                  | Some p \<Rightarrow> of_option Zod_error (map_option Some (apply_question_answer B p q answer
                                (bs_session_id s) (Suc (length (bs_answered s)))))) (\<lambda>plan.
             update_session B
               (s\<lparr>bs_planfile := plan, bs_pending := pending,
                  bs_answered := bs_answered s @ [q\<lparr>pq_answer := Some answer, pq_answered_at := Some (bh_now B)\<rparr>],
                  bs_status := (if list_ex (\<lambda>q. pq_severity q = Blocking) pending then Build_needs_input
                                else Build_validating)\<rparr>) persist)))"

definition default_answer :: "planner_question \<Rightarrow> string" where
  "default_answer q =
     nullish (pq_default q) (case pq_choices q of [] \<Rightarrow> ''accepted'' | c # _ \<Rightarrow> c)"

primrec answer_each :: "builder_host \<Rightarrow> builder_session \<Rightarrow> planner_question list \<Rightarrow> builder_session builder" where
  "answer_each B s [] = ereturn s"
| "answer_each B s (q # qs) =
     ebind (answer_question B s (pq_question_id q) (default_answer q) False) (\<lambda>s'. answer_each B s' qs)"

definition accept_default_answers :: "builder_host \<Rightarrow> builder_session \<Rightarrow> builder_session builder" where
  "accept_default_answers B s = answer_each B s (bs_pending s)"

section \<open>Stabilizing\<close>

record stabilize_options =
  zo_profile :: "runtime_profile option"
  zo_route :: "model_route option"
  zo_max_revisions :: "int option"
  zo_max_questions :: "int option"
  zo_max_model_calls :: "int option"

definition session_settled :: "builder_session \<Rightarrow> bool" where
  "session_settled s = (bs_status s = Build_ready \<or> bs_status s = Build_needs_input)"

definition stabilize_round :: "builder_host \<Rightarrow> stabilize_options \<Rightarrow> builder_session \<Rightarrow> builder_session builder" where
  "stabilize_round B o1 s =
     ebind (simulate_plan B s (zo_profile o1) (zo_max_questions o1) False) (\<lambda>s1.
     ebind (validate_plan B s1 False) (\<lambda>s2.
       if session_settled s2 then ereturn s2
       else revise_plan B s2 \<lparr>rz_reason = None, rz_route = zo_route o1, rz_planner = None,
                              rz_max_model_calls = zo_max_model_calls o1\<rparr> False))"

primrec stabilize_rounds ::
    "builder_host \<Rightarrow> stabilize_options \<Rightarrow> nat \<Rightarrow> builder_session \<Rightarrow> builder_session builder" where
  "stabilize_rounds B o1 0 s = ereturn s"
| "stabilize_rounds B o1 (Suc n) s =
     ebind (stabilize_round B o1 s) (\<lambda>s'. if session_settled s' then ereturn s' else stabilize_rounds B o1 n s')"

definition stabilize_plan ::
    "builder_host \<Rightarrow> builder_session \<Rightarrow> stabilize_options \<Rightarrow> bool \<Rightarrow> builder_session builder" where
  "stabilize_plan B s o1 persist =
     ebind (stabilize_rounds B o1 (nat (nullish (zo_max_revisions o1) 3)) s) (\<lambda>s1.
     ebind (if session_settled s1 then ereturn s1
            else yield_session B s1
              (nullish (bs_yield_reason s1) ''Plan Builder did not stabilize within revision limits.'') False) (\<lambda>s2.
       if persist then save_builder_session (bh_env B) default_builder_root s2 else ereturn s2))"

text \<open>The ready plan goes to a file of the disk.\<close>

definition save_ready_planfile ::
    "(json \<Rightarrow> string) \<Rightarrow> builder_session \<Rightarrow> string \<Rightarrow> (disk, string \<times> string \<times> string) effect" where
  "save_ready_planfile yaml s output_path =
     (case bs_planfile s of
        None \<Rightarrow> ethrow (Plain_error ''No Planfile is available to save.'')
      | Some p \<Rightarrow>
          if bs_status s \<noteq> Build_ready \<and> bs_status s \<noteq> Build_approved
          then ethrow (Plain_error ''Plan Builder session is not ready.'')
          else ebind (write_file output_path (Plain_text (render_planfile_markdown yaml p no_markdown_options)))
                 (\<lambda>_. ereturn (bs_session_id s, pf_plan_id p, output_path)))"

section \<open>What a call leaves\<close>

lemma update_session_inr:
  "update_session B s persist d = (Inr s', d') \<longleftrightarrow>
     s' = s\<lparr>bs_updated_at := bh_now B\<rparr> \<and> builder_session_ok (bh_env B) s' \<and>
     (if persist then save_builder_session (bh_env B) default_builder_root s' d = (Inr s', d') else d' = d)"
  by (auto simp: update_session_def Let_def save_builder_session_def)

lemma of_option_inr: "of_option e x w = (Inr y, w') \<longleftrightarrow> x = Some y \<and> w' = w"
  by (cases x) auto

lemma ecatch_inr:
  "ecatch m h w = (Inr y, w') \<longleftrightarrow> m w = (Inr y, w') \<or> (\<exists>e w1. m w = (Inl e, w1) \<and> h e w1 = (Inr y, w'))"
  by (auto simp: ecatch_def split: prod.splits sum.splits)

lemma lifecycle_keeps:
  assumes "lifecycle_planfile B p i v r n st = Some q"
  shows "planfile_ok (bh_env B) q" "pf_status q = st" "pf_execution_context q = pf_execution_context p"
    "pf_canonical_plan_digest q = Some (stable_hash (bh_env B) (canonical_form q))"
    "planfile_issues snapshot q = planfile_issues snapshot p"
proof -
  note facts = parsed_with_digest_Some [OF assms [unfolded lifecycle_planfile_def]]
  show "planfile_ok (bh_env B) q" by (rule facts(2))
  show "pf_status q = st" "pf_execution_context q = pf_execution_context p"
    using facts(3) by simp_all
  show "pf_canonical_plan_digest q = Some (stable_hash (bh_env B) (canonical_form q))"
    using facts(3) by simp
  show "planfile_issues snapshot q = planfile_issues snapshot p"
    by (rule planfile_issues_cong) (simp_all add: facts(3) allow_fixtures_def allow_mock_def context_value_def)
qed

lemma validate_ok_issues:
  "vl_ok (validate_planfile E snapshot p) \<longleftrightarrow> planfile_ok E p \<and> planfile_issues snapshot p = []"
proof (cases "planfile_ok E p")
  case True
  have "list_all (\<lambda>i. pi_severity i \<noteq> Sev_error) (planfile_issues snapshot p) \<longleftrightarrow> planfile_issues snapshot p = []"
    using all_error_severity [of _ snapshot p] by (cases "planfile_issues snapshot p") auto
  with True show ?thesis by (simp add: validate_planfile_def Let_def)
next
  case False
  then have "planfile_parse E p = None" by (simp add: planfile_parse_def)
  with False show ?thesis by (simp add: validate_planfile_def)
qed

text \<open>What the status \<open>ready\<close> promises.\<close>

definition ready_session :: "builder_host \<Rightarrow> builder_session \<Rightarrow> bool" where
  "ready_session B s =
     (case bs_planfile s of
        None \<Rightarrow> False
      | Some p \<Rightarrow>
          vl_ok (validate_planfile (bh_env B) None p) \<and> pf_status p = PS_ready \<and>
          pf_canonical_plan_digest p = Some (stable_hash (bh_env B) (canonical_form p)) \<and>
          (simulated_status s = Sim_ready \<or> bs_pending s = []))"

definition sound_session :: "builder_host \<Rightarrow> builder_session \<Rightarrow> bool" where
  "sound_session B s =
     (bs_status s = Build_yielded \<or> bs_status s = Build_needs_input \<or>
      (bs_status s = Build_ready \<and> ready_session B s))"

lemma ready_session_later [simp]: "ready_session B (s\<lparr>bs_updated_at := t\<rparr>) = ready_session B s"
  by (cases "bs_planfile s") (simp_all add: ready_session_def simulated_status_def)

lemma sound_session_later [simp]: "sound_session B (s\<lparr>bs_updated_at := t\<rparr>) = sound_session B s"
  by (simp add: sound_session_def)

lemma model_count_later [simp]: "model_revision_count (s\<lparr>bs_updated_at := t\<rparr>) = model_revision_count s"
  by (simp add: model_revision_count_def)

lemma yield_sound:
  assumes "yield_session B s reason persist d = (Inr s', d')"
  shows "sound_session B s'" "model_revision_count s' = model_revision_count s"
  using assms by (auto simp: yield_session_def update_session_inr sound_session_def model_revision_count_def)

lemma simulate_plan_count:
  assumes "simulate_plan B s profile q persist d = (Inr s', d')"
  shows "model_revision_count s' = model_revision_count s"
  using assms
  by (auto simp: simulate_plan_def ebind_inr of_option_inr update_session_inr yield_session_def model_revision_count_def
      split: option.splits)

lemma validate_plan_sound:
  assumes "validate_plan B s persist d = (Inr s', d')"
  shows "sound_session B s'" "model_revision_count s' = model_revision_count s"
proof -
  have "sound_session B s' \<and> model_revision_count s' = model_revision_count s"
  proof (cases "bs_planfile s")
    case None
    with assms yield_sound [of B s _ persist d s' d'] show ?thesis by (simp add: validate_plan_def)
  next
    case (Some p)
    let ?v = "validate_planfile (bh_env B) None p"
    let ?st = "validated_status s ?v"
    obtain q where q: "lifecycle_planfile B p (bs_session_id s) (passed_or_failed ?v) (simulated_status s)
          (length (bs_answered s)) (ready_or_draft ?st) = Some q"
      and s': "s' = s\<lparr>bs_validation := Some ?v, bs_planfile := Some q, bs_status := ?st,
          bs_yield_reason := (if ?st = Build_yielded then Some failed_validation_reason else bs_yield_reason s),
          bs_updated_at := bh_now B\<rparr>"
      using assms Some by (auto simp: validate_plan_def Let_def ebind_inr of_option_inr update_session_inr)
    have sim: "simulated_status s' = simulated_status s" unfolding s' by (simp add: simulated_status_def)
    have "ready_session B s'" if ready: "?st = Build_ready"
    proof -
      from ready have v: "vl_ok ?v" and rest: "simulated_status s = Sim_ready \<or> bs_pending s = []"
        by (auto simp: validated_status_def split: if_splits)
      note kept = lifecycle_keeps [OF q]
      from v have "vl_ok (validate_planfile (bh_env B) None q)" using kept(1,5) by (simp add: validate_ok_issues)
      moreover have "pf_status q = PS_ready" using kept(2) ready by (simp add: ready_or_draft_def)
      moreover have "bs_planfile s' = Some q" "bs_pending s' = bs_pending s" unfolding s' by simp_all
      ultimately show ?thesis using kept(4) rest sim by (simp add: ready_session_def)
    qed
    moreover have "bs_status s' = ?st" "?st \<in> {Build_ready, Build_needs_input, Build_yielded}"
      by (simp_all add: s' validated_status_def)
    ultimately show ?thesis unfolding sound_session_def by (auto simp: s' model_revision_count_def)
  qed
  then show "sound_session B s'" "model_revision_count s' = model_revision_count s" by simp_all
qed

lemma revision_applied_sound:
  assumes "revision_applied B s r q persist d = (Inr s', d')"
  shows "sound_session B s'"
    "model_revision_count s' = model_revision_count s + (if rv_source r = Rev_model then 1 else 0)"
proof -
  obtain s1 d1 where s1: "s1 = s\<lparr>bs_planfile := Some q, bs_revisions := bs_revisions s @ [r],
      bs_status := Build_validating, bs_updated_at := bh_now B\<rparr>" and v: "validate_plan B s1 persist d1 = (Inr s', d')"
    using assms by (auto simp: revision_applied_def ebind_inr update_session_inr)
  show "sound_session B s'" by (rule validate_plan_sound(1) [OF v])
  show "model_revision_count s' = model_revision_count s + (if rv_source r = Rev_model then 1 else 0)"
    unfolding validate_plan_sound(2) [OF v] s1 by (simp add: model_revision_count_def)
qed

lemma repair_not_model: "deterministic_repair B s = Some (Some r) \<Longrightarrow> rv_source r = Rev_deterministic"
  by (auto simp: deterministic_repair_def Let_def bind_eq_Some_conv split: option.splits if_splits)

lemma revise_plan_sound:
  assumes "revise_plan B s o1 persist d = (Inr s', d')"
  shows "sound_session B s' \<and>
    int (model_revision_count s') \<le> max (int (model_revision_count s)) (nullish (rz_max_model_calls o1) 1)"
proof (cases "bs_planfile s")
  case None
  with assms yield_sound [of B s _ persist d s' d'] show ?thesis by (simp add: revise_plan_def)
next
  case (Some p)
  let ?repair = "if rz_planner o1 \<noteq> None then Some None else deterministic_repair B s"
  let ?max = "nullish (rz_max_model_calls o1) 1"
  from assms Some obtain repair where repair: "?repair = Some repair"
    and run: "(case repair of
              Some r \<Rightarrow> revision_applied B s r (rv_planfile r) persist
            | None \<Rightarrow>
                if rz_route o1 = None \<and> rz_planner o1 = None
                then yield_session B s
                  ''MODEL_PROVIDER_UNAVAILABLE: semantic revision requires a configured planner route.'' persist
                else if ?max \<le> int (model_revision_count s)
                then yield_session B s ''Maximum model revision calls reached.'' persist
                else (case revised_by B s p o1 of
                    Inl m \<Rightarrow> yield_session B s m persist
                  | Inr r \<Rightarrow>
                      ecatch
                        (ebind (of_option Zod_error (lifecycle_planfile B (rv_planfile r) (bs_session_id s)
                             (if rv_validation_ok r then V_passed else V_failed) (simulated_status s)
                             (length (bs_answered s)) (pf_status (rv_planfile r)))) (\<lambda>q.
                          revision_applied B s r q persist))
                        (\<lambda>e. yield_session B s (error_text B e) persist))) d = (Inr s', d')"
    by (auto simp: revise_plan_def ebind_inr of_option_inr)
  show ?thesis
  proof (cases repair)
    case (Some r)
    then have "deterministic_repair B s = Some (Some r)" using repair by (simp split: if_splits)
    from repair_not_model [OF this] run Some show ?thesis
      using revision_applied_sound [of B s r "rv_planfile r" persist d s' d'] by simp
  next
    case None
    consider (yielded) reason d1 where "yield_session B s reason persist d1 = (Inr s', d')"
      | (revised) r q d1 where "\<not> ?max \<le> int (model_revision_count s)"
          "revision_applied B s r q persist d1 = (Inr s', d')"
      using run None
      by (auto simp: ecatch_inr ebind_inr of_option_inr split: if_splits sum.splits)
    then show ?thesis
    proof cases
      case yielded
      then show ?thesis using yield_sound [OF yielded] by simp
    next
      case revised
      then show ?thesis using revision_applied_sound [OF revised(2)] by auto
    qed
  qed
qed

section \<open>Stabilizing ends soundly\<close>

lemma stabilize_round_sound:
  assumes "stabilize_round B o1 s d = (Inr s', d')"
  shows "sound_session B s' \<and>
    int (model_revision_count s') \<le> max (int (model_revision_count s)) (nullish (zo_max_model_calls o1) 1)"
proof -
  let ?r = "\<lparr>rz_reason = None, rz_route = zo_route o1, rz_planner = None, rz_max_model_calls = zo_max_model_calls o1\<rparr>"
  obtain s1 d1 s2 d2 where s1: "simulate_plan B s (zo_profile o1) (zo_max_questions o1) False d = (Inr s1, d1)"
    and s2: "validate_plan B s1 False d1 = (Inr s2, d2)"
    and rest: "(if session_settled s2 then ereturn s2 else revise_plan B s2 ?r False) d2 = (Inr s', d')"
    using assms by (auto simp: stabilize_round_def ebind_inr)
  have count: "model_revision_count s2 = model_revision_count s"
    using simulate_plan_count [OF s1] validate_plan_sound(2) [OF s2] by simp
  show ?thesis
  proof (cases "session_settled s2")
    case True
    with rest validate_plan_sound(1) [OF s2] count show ?thesis by simp
  next
    case False
    with rest have "revise_plan B s2 ?r False d2 = (Inr s', d')" by simp
    from revise_plan_sound [OF this] count show ?thesis by simp
  qed
qed

lemma stabilize_rounds_sound:
  assumes "stabilize_rounds B o1 (Suc n) s d = (Inr s', d')"
  shows "sound_session B s' \<and>
    int (model_revision_count s') \<le> max (int (model_revision_count s)) (nullish (zo_max_model_calls o1) 1)"
  using assms
proof (induction n arbitrary: s d)
  case 0
  then show ?case using stabilize_round_sound by (auto simp: ebind_inr split: if_splits)
next
  case (Suc n)
  from Suc.prems obtain s1 d1 where s1: "stabilize_round B o1 s d = (Inr s1, d1)"
    and rest: "(if session_settled s1 then ereturn s1 else stabilize_rounds B o1 (Suc n) s1) d1 = (Inr s', d')"
    unfolding stabilize_rounds.simps(2) [of B o1 "Suc n"] ebind_inr by blast
  show ?case
  proof (cases "session_settled s1")
    case True
    with rest stabilize_round_sound [OF s1] show ?thesis by simp
  next
    case False
    with rest have "stabilize_rounds B o1 (Suc n) s1 d1 = (Inr s', d')" by simp
    from Suc.IH [OF this] stabilize_round_sound [OF s1] show ?thesis by auto
  qed
qed

lemma save_returns: "save_builder_session E root s d = (Inr s', d') \<Longrightarrow> s' = s"
  by (auto simp: save_builder_session_def split: if_splits)

text \<open>A call of the model that fails leaves the count of its revisions and the plan, and the session unsettled.\<close>

lemma failed_call_uncounted:
  assumes "bs_planfile s = Some p" and "deterministic_repair B s = Some None" and "rz_planner o1 = None"
    and "rz_route o1 = Some route" and "int (model_revision_count s) < nullish (rz_max_model_calls o1) 1"
    and "revised_by B s p o1 = Inl m" and "revise_plan B s o1 False d = (Inr s', d')"
  shows "model_revision_count s' = model_revision_count s \<and> bs_planfile s' = bs_planfile s \<and> \<not> session_settled s'"
  using assms
  by (simp add: revise_plan_def ebind_run of_option_def yield_session_def update_session_inr model_revision_count_def
      session_settled_def)

text \<open>C37: When stabilizing a plan with at least one round allowed returns, the session is yielded, needs input or
  is ready; and it is ready only with a plan that the validator accepts, that is marked ready and carries the
  digest of its canonical form, while its simulation is ready or no question is pending. The session never
  records more revisions by the model than the larger of those it had and the limit on model calls. This bounds
  the recorded revisions, not the calls: a call that fails records nothing, so each later round asks the model
  again (failed_call_uncounted).\<close>
theorem stabilized_session:
  assumes "stabilize_plan B s o1 persist d = (Inr s', d')" and "0 < nullish (zo_max_revisions o1) 3"
  shows "bs_status s' \<in> {Build_yielded, Build_needs_input, Build_ready} \<and>
    (bs_status s' = Build_ready \<longrightarrow>
      (\<exists>p. bs_planfile s' = Some p \<and> vl_ok (validate_planfile (bh_env B) None p) \<and> pf_status p = PS_ready \<and>
         pf_canonical_plan_digest p = canonical_plan_digest (bh_env B) p \<and>
         (simulated_status s' = Sim_ready \<or> bs_pending s' = []))) \<and>
    int (model_revision_count s') \<le> max (int (model_revision_count s)) (nullish (zo_max_model_calls o1) 1)"
proof -
  let ?n = "nat (nullish (zo_max_revisions o1) 3)"
  obtain m where m: "?n = Suc m" using assms(2) by (metis gr0_implies_Suc zero_less_nat_eq)
  obtain s1 d1 s2 d2 where s1: "stabilize_rounds B o1 ?n s d = (Inr s1, d1)"
    and s2: "(if session_settled s1 then ereturn s1
            else yield_session B s1
              (nullish (bs_yield_reason s1) ''Plan Builder did not stabilize within revision limits.'') False) d1
            = (Inr s2, d2)"
    and rest: "(if persist then save_builder_session (bh_env B) default_builder_root s2 else ereturn s2) d2 = (Inr s', d')"
    using assms(1) by (auto simp: stabilize_plan_def ebind_inr)
  note sound1 = stabilize_rounds_sound [OF s1 [unfolded m]]
  have "sound_session B s2 \<and> model_revision_count s2 = model_revision_count s1"
    using s2 sound1 yield_sound [of B s1 _ False d1 s2 d2] by (auto split: if_splits)
  moreover have "s' = s2" using rest save_returns by (auto split: if_splits)
  ultimately have sound: "sound_session B s'" and count: "model_revision_count s' = model_revision_count s1"
    by simp_all
  have "\<exists>p. bs_planfile s' = Some p \<and> vl_ok (validate_planfile (bh_env B) None p) \<and> pf_status p = PS_ready \<and>
         pf_canonical_plan_digest p = canonical_plan_digest (bh_env B) p \<and>
         (simulated_status s' = Sim_ready \<or> bs_pending s' = [])"
    if "bs_status s' = Build_ready"
  proof -
    from that sound have ready: "ready_session B s'" by (auto simp: sound_session_def)
    then obtain p where p: "bs_planfile s' = Some p" "vl_ok (validate_planfile (bh_env B) None p)"
        "pf_status p = PS_ready" "pf_canonical_plan_digest p = Some (stable_hash (bh_env B) (canonical_form p))"
        "simulated_status s' = Sim_ready \<or> bs_pending s' = []"
      by (cases "bs_planfile s'") (auto simp: ready_session_def)
    then have "planfile_ok (bh_env B) p" by (simp add: validate_ok_issues)
    with p show ?thesis by (simp add: canonical_plan_digest_def canonical_plan_object_def)
  qed
  then show ?thesis using sound count sound1 by (auto simp: sound_session_def)
qed

section \<open>Stabilizing returns\<close>

lemma merge_questions_subset: "set (merge_questions current fresh) \<subseteq> set current \<union> set fresh"
proof -
  let ?add = "\<lambda>q m. if map_of m (pq_question_id q) = None then m @ [(pq_question_id q, q)] else m"
  have "set (map snd (fold ?add qs m)) \<subseteq> set (map snd m) \<union> set qs" for qs m
  proof (induction qs arbitrary: m)
    case (Cons q qs)
    have "set (map snd (?add q m)) \<subseteq> insert q (set (map snd m))" by auto
    with Cons.IH [of "?add q m"] show ?case by (simp only: fold_simps list.set) blast
  qed simp
  then show ?thesis unfolding merge_questions_def using map_by_values [of pq_question_id current] by blast
qed

lemma lifecycle_total:
  assumes "planfile_ok (bh_env B) p" and "sha_is_hex (bh_env B)" and "datetime_ok (bh_env B) (bh_now B)" and "i \<noteq> []"
  shows "\<exists>q. lifecycle_planfile B p i v r n st = Some q \<and> planfile_ok (bh_env B) q \<and> pf_plan_id q = pf_plan_id p"
proof -
  let ?q = "p\<lparr>pf_status := st,
          pf_lifecycle := Some ((nullish (pf_lifecycle p) blank_lifecycle)
            \<lparr>lc_builder_session_id := Some i, lc_questions_answered := Some n,
             lc_assumptions := Some (gf_assumptions (pf_goal_frame p)), lc_validation_status := Some v,
             lc_simulation_status := Some r\<rparr>),
          pf_updated_at := bh_now B\<rparr>"
  have ok: "planfile_ok (bh_env B) ?q"
    using assms(1,3,4) by (simp add: planfile_ok_def planfile_lifecycle_ok_def goal_frame_ok_def)
  from with_digest_total [OF ok assms(2)] obtain q where q: "with_canonical_plan_digest (bh_env B) ?q = Some q" by simp
  with ok have some: "lifecycle_planfile B p i v r n st = Some q"
    by (simp add: lifecycle_planfile_def parsed_with_digest_def)
  moreover have "planfile_ok (bh_env B) q" by (rule lifecycle_keeps(1) [OF some])
  moreover have "pf_plan_id q = pf_plan_id p" using with_digest_SomeD [OF q] by simp
  ultimately show ?thesis by blast
qed

lemma update_total:
  "builder_session_ok (bh_env B) (s\<lparr>bs_updated_at := bh_now B\<rparr>) \<Longrightarrow>
   \<exists>s'. update_session B s False d = (Inr s', d) \<and> builder_session_ok (bh_env B) s'"
  by (simp add: update_session_def Let_def)

lemma yield_total:
  assumes "builder_session_ok (bh_env B) s" and "datetime_ok (bh_env B) (bh_now B)" and "reason \<noteq> []"
  shows "\<exists>s'. yield_session B s reason False d = (Inr s', d) \<and> builder_session_ok (bh_env B) s'"
  unfolding yield_session_def using assms by (intro update_total) (simp add: builder_session_ok_def)

lemma simulate_plan_total:
  assumes "builder_session_ok (bh_env B) s" and "datetime_ok (bh_env B) (bh_now B)"
  shows "\<exists>s'. simulate_plan B s profile q False d = (Inr s', d) \<and> builder_session_ok (bh_env B) s'"
proof (cases "bs_planfile s")
  case None
  with yield_total [OF assms, of "''No Planfile is available to simulate.''" d] show ?thesis
    by (simp add: simulate_plan_def)
next
  case (Some p)
  with assms(1) have ok: "planfile_ok (bh_env B) p" by (simp add: builder_session_ok_def)
  let ?r = "simulation_of (bh_env B) p (bs_validation s) (requirements_of p profile None) q"
  have sim: "simulate_planfile (bh_env B) p (bs_validation s) profile q = Some ?r" by (rule simulation_total [OF ok])
  then have r: "simulation_report_ok (bh_env B) ?r"
    by (auto simp: simulate_planfile_def Let_def bind_eq_Some_conv split: if_splits)
  then have "list_all (planner_question_ok (bh_env B)) (merge_questions (bs_pending s) (sm_questions ?r))"
    using assms(1) merge_questions_subset [of "bs_pending s" "sm_questions ?r"]
    by (auto simp: list_all_iff simulation_report_ok_def builder_session_ok_def)
  with r assms show ?thesis
    unfolding simulate_plan_def Some option.case sim of_option_simps
    by (simp only: ebind_run ereturn_run sum.case prod.case) (intro update_total, simp add: builder_session_ok_def)
qed

lemma validate_plan_total:
  assumes "builder_session_ok (bh_env B) s" and "datetime_ok (bh_env B) (bh_now B)" and "sha_is_hex (bh_env B)"
  shows "\<exists>s'. validate_plan B s False d = (Inr s', d) \<and> builder_session_ok (bh_env B) s'"
proof (cases "bs_planfile s")
  case None
  with yield_total [OF assms(1,2), of "''No Planfile is available to validate.''" d] show ?thesis
    by (simp add: validate_plan_def)
next
  case (Some p)
  let ?v = "validate_planfile (bh_env B) None p"
  from Some assms(1) have ok: "planfile_ok (bh_env B) p" "bs_session_id s \<noteq> []" by (simp_all add: builder_session_ok_def)
  obtain q where q: "lifecycle_planfile B p (bs_session_id s) (passed_or_failed ?v) (simulated_status s)
      (length (bs_answered s)) (ready_or_draft (validated_status s ?v)) = Some q" "planfile_ok (bh_env B) q"
    using lifecycle_total [OF ok(1) assms(3,2) ok(2)] by blast
  have reason: "failed_validation_reason \<noteq> []" by (simp add: failed_validation_reason_def)
  show ?thesis
    unfolding validate_plan_def Some option.case Let_def q(1) of_option_simps
    by (simp only: ebind_run ereturn_run sum.case prod.case)
      (intro update_total, use assms(1,2) q(2) reason in \<open>simp add: builder_session_ok_def\<close>)
qed

lemma deterministic_repair_total:
  assumes "builder_session_ok (bh_env B) s" and "datetime_ok (bh_env B) (bh_now B)" and "sha_is_hex (bh_env B)"
  shows "\<exists>r. deterministic_repair B s = Some r \<and> (case r of None \<Rightarrow> True | Some x \<Rightarrow> plan_revision_ok (bh_env B) x)"
proof (cases "bs_planfile s")
  case (Some p)
  from Some assms(1) have ok: "planfile_ok (bh_env B) p" "bs_session_id s \<noteq> []" by (simp_all add: builder_session_ok_def)
  obtain q where q: "lifecycle_planfile B p (bs_session_id s) V_passed (simulated_status s)
      (length (bs_answered s)) (if simulated_status s = Sim_ready then PS_ready else PS_draft) = Some q"
      "planfile_ok (bh_env B) q"
    using lifecycle_total [OF ok(1) assms(3,2) ok(2)] by blast
  with Some assms(2) show ?thesis by (simp add: deterministic_repair_def Let_def plan_revision_ok_def)
qed (simp add: deterministic_repair_def)

lemma revise_plan_total:
  assumes "builder_session_ok (bh_env B) s" and "datetime_ok (bh_env B) (bh_now B)" and "sha_is_hex (bh_env B)"
    and "rz_route o1 = None" and "rz_planner o1 = None"
  shows "\<exists>s'. revise_plan B s o1 False d = (Inr s', d) \<and> builder_session_ok (bh_env B) s'"
proof (cases "bs_planfile s")
  case None
  with yield_total [OF assms(1,2), of "''No Planfile is available to revise.''" d] show ?thesis
    by (simp add: revise_plan_def)
next
  case (Some p)
  obtain repair where repair: "deterministic_repair B s = Some repair"
    and ok: "case repair of None \<Rightarrow> True | Some x \<Rightarrow> plan_revision_ok (bh_env B) x"
    using deterministic_repair_total [OF assms(1-3)] by blast
  show ?thesis
  proof (cases repair)
    case None
    with Some repair assms(4,5) yield_total [OF assms(1,2), of
        "''MODEL_PROVIDER_UNAVAILABLE: semantic revision requires a configured planner route.''" d]
    show ?thesis by (simp add: revise_plan_def ebind_run)
  next
    case r: (Some r)
    let ?s = "s\<lparr>bs_planfile := Some (rv_planfile r), bs_revisions := bs_revisions s @ [r], bs_status := Build_validating\<rparr>"
    have "builder_session_ok (bh_env B) (?s\<lparr>bs_updated_at := bh_now B\<rparr>)"
      using ok r assms(1,2) by (simp add: builder_session_ok_def plan_revision_ok_def)
    then obtain s1 where s1: "update_session B ?s False d = (Inr s1, d)" "builder_session_ok (bh_env B) s1"
      using update_total by blast
    with validate_plan_total [OF s1(2) assms(2,3), of d] r Some repair assms(5) show ?thesis
      by (simp add: revise_plan_def ebind_run revision_applied_def)
  qed
qed

lemma stabilize_rounds_total:
  assumes "builder_session_ok (bh_env B) s" and "datetime_ok (bh_env B) (bh_now B)" and "sha_is_hex (bh_env B)"
    and "zo_route o1 = None"
  shows "\<exists>s'. stabilize_rounds B o1 n s d = (Inr s', d) \<and> builder_session_ok (bh_env B) s'"
  using assms(1)
proof (induction n arbitrary: s)
  case (Suc n)
  let ?r = "\<lparr>rz_reason = None, rz_route = zo_route o1, rz_planner = None, rz_max_model_calls = zo_max_model_calls o1\<rparr>"
  obtain s1 where s1: "simulate_plan B s (zo_profile o1) (zo_max_questions o1) False d = (Inr s1, d)"
      "builder_session_ok (bh_env B) s1" using simulate_plan_total [OF Suc.prems assms(2)] by blast
  obtain s2 where s2: "validate_plan B s1 False d = (Inr s2, d)" "builder_session_ok (bh_env B) s2"
    using validate_plan_total [OF s1(2) assms(2,3)] by blast
  obtain s3 where s3: "revise_plan B s2 ?r False d = (Inr s3, d)" "builder_session_ok (bh_env B) s3"
    using revise_plan_total [OF s2(2) assms(2,3), of ?r] assms(4) by auto
  define s4 where "s4 = (if session_settled s2 then s2 else s3)"
  have "stabilize_round B o1 s d = (Inr s4, d)" and s4: "builder_session_ok (bh_env B) s4"
    using s1 s2 s3 by (simp_all add: stabilize_round_def ebind_run s4_def)
  with Suc.IH [OF s4] Suc.prems s4 show ?case by (simp add: ebind_run)
qed simp

text \<open>Without a planner model, stabilizing a session the schema accepts returns.\<close>

lemma stabilize_returns:
  assumes "builder_session_ok (bh_env B) s" and "datetime_ok (bh_env B) (bh_now B)" and "sha_is_hex (bh_env B)"
    and "zo_route o1 = None"
  shows "\<exists>s'. stabilize_plan B s o1 False d = (Inr s', d) \<and> builder_session_ok (bh_env B) s'"
proof -
  obtain s1 where s1: "stabilize_rounds B o1 (nat (nullish (zo_max_revisions o1) 3)) s d = (Inr s1, d)"
      "builder_session_ok (bh_env B) s1" using stabilize_rounds_total [OF assms] by blast
  have "nullish (bs_yield_reason s1) ''Plan Builder did not stabilize within revision limits.'' \<noteq> []"
    using s1(2) by (cases "bs_yield_reason s1") (simp_all add: builder_session_ok_def)
  from yield_total [OF s1(2) assms(2) this, of d] s1 show ?thesis by (auto simp: stabilize_plan_def ebind_run)
qed

section \<open>Ready without a ready simulation\<close>

text \<open>A valid plan without questions is ready after one round, whatever its simulation says: missing packs,
  credentials and providers other than the search raise no question.\<close>

lemma ready_without_questions:
  assumes "builder_session_ok (bh_env B) s" and "datetime_ok (bh_env B) (bh_now B)" and "sha_is_hex (bh_env B)"
    and plan: "bs_planfile s = Some p" "bs_pending s = []"
    and valid: "vl_ok (validate_planfile (bh_env B) None p)"
    and quiet: "plan_questions (bh_env B) p (requirements_of p (zo_profile o1) None) = []"
    and rounds: "0 < nullish (zo_max_revisions o1) 3"
  shows "\<exists>s'. stabilize_plan B s o1 False d = (Inr s', d) \<and> bs_status s' = Build_ready \<and>
    bs_simulation s' = Some (simulation_of (bh_env B) p (bs_validation s) (requirements_of p (zo_profile o1) None)
      (zo_max_questions o1))"
proof -
  let ?sim = "simulation_of (bh_env B) p (bs_validation s) (requirements_of p (zo_profile o1) None) (zo_max_questions o1)"
  obtain m where m: "nat (nullish (zo_max_revisions o1) 3) = Suc m"
    using rounds by (metis gr0_implies_Suc zero_less_nat_eq)
  have ok: "planfile_ok (bh_env B) p" using assms(1) plan(1) by (simp add: builder_session_ok_def)
  obtain s1 where s1: "simulate_plan B s (zo_profile o1) (zo_max_questions o1) False d = (Inr s1, d)"
      "builder_session_ok (bh_env B) s1" using simulate_plan_total [OF assms(1,2)] by blast
  have "sm_questions ?sim = []" by (simp add: simulation_of_def Let_def quiet slice_front_def)
  then have "bs_planfile s1 = Some p" "bs_pending s1 = []" "bs_simulation s1 = Some ?sim"
    using s1(1) plan
    by (simp_all add: simulate_plan_def simulation_total [OF ok] ebind_run update_session_inr merge_questions_def map_by_def)
  moreover obtain s2 where s2: "validate_plan B s1 False d = (Inr s2, d)"
    using validate_plan_total [OF s1(2) assms(2,3)] by blast
  ultimately have "bs_status s2 = Build_ready" "bs_simulation s2 = Some ?sim"
    using valid by (auto simp: validate_plan_def Let_def ebind_inr of_option_inr update_session_inr validated_status_def)
  with s1(1) s2 m show ?thesis by (simp add: stabilize_plan_def stabilize_round_def ebind_run session_settled_def)
qed

definition sample_builder :: builder_host where
  "sample_builder = \<lparr>bh_env = sample_env, bh_now = sample_stamp, bh_zod_message = ''Invalid input''\<rparr>"

definition sample_stabilize :: stabilize_options where
  "sample_stabilize =
     \<lparr>zo_profile = None, zo_route = None, zo_max_revisions = None, zo_max_questions = None,
      zo_max_model_calls = None\<rparr>"

definition needy_plan :: planfile where
  "needy_plan = sample_plan\<lparr>pf_execution_context := Some [(''credentials'', JArr [JStr ''token''])]\<rparr>"

lemma needy_plan_facts:
  "planfile_ok sample_env needy_plan" "vl_ok (validate_planfile sample_env None needy_plan)"
  "plan_questions sample_env needy_plan (requirements_of needy_plan None None) = []"
  "sm_status (simulation_of sample_env needy_plan None (requirements_of needy_plan None None) None) = Sim_missing_requirements"
proof -
  have "planfile_issues None needy_plan = planfile_issues None sample_plan"
    by (rule planfile_issues_cong)
      (simp_all add: needy_plan_def allow_fixtures_def allow_mock_def context_value_def sample_plan_def)
  then have issues: "planfile_issues None needy_plan = []" by (simp add: sample_issues)
  show ok: "planfile_ok sample_env needy_plan"
    using sample_plan_ok by (simp add: planfile_ok_def needy_plan_def)
  with issues show "vl_ok (validate_planfile sample_env None needy_plan)" by (simp add: validate_ok_issues)
qed code_simp+

definition needy_session :: builder_session where
  "needy_session = (sample_session ''a'')\<lparr>bs_planfile := Some needy_plan\<rparr>"

lemma needy_session_facts:
  "builder_session_ok sample_env needy_session" "bs_planfile needy_session = Some needy_plan"
  "bs_pending needy_session = []" "bs_validation needy_session = None"
  using sample_session_ok [of "''a''"] needy_plan_facts(1)
  by (simp_all add: needy_session_def builder_session_ok_def sample_session_def)

lemma sample_builder_facts [simp]:
  "bh_env sample_builder = sample_env" "bh_now sample_builder = sample_stamp" "datetime_ok sample_env sample_stamp"
  "zo_profile sample_stabilize = None" "zo_max_questions sample_stabilize = None"
  "nullish (zo_max_revisions sample_stabilize) 3 = 3"
  by (simp_all add: sample_builder_def sample_stabilize_def sample_defs)

lemma ready_with_missing_credential:
  "\<exists>s'. stabilize_plan sample_builder needy_session sample_stabilize False d = (Inr s', d) \<and>
     bs_status s' = Build_ready \<and> simulated_status s' = Sim_missing_requirements"
  using ready_without_questions [of sample_builder needy_session needy_plan sample_stabilize d]
    needy_session_facts needy_plan_facts sample_sha_hex by (auto simp: simulated_status_def)

theorem stabilized_session_witness:
  "\<exists>s' p. stabilize_plan sample_builder needy_session sample_stabilize False [] = (Inr s', []) \<and>
     bs_status s' = Build_ready \<and> bs_planfile s' = Some p \<and> vl_ok (validate_planfile sample_env None p)"
proof -
  obtain s' where s': "stabilize_plan sample_builder needy_session sample_stabilize False [] = (Inr s', [])"
      "bs_status s' = Build_ready" using ready_with_missing_credential [of "[]"] by blast
  have rounds: "0 < nullish (zo_max_revisions sample_stabilize) 3" by simp
  from stabilized_session [OF s'(1) rounds] s' show ?thesis by auto
qed

section \<open>Answers\<close>

lemma map_of_update_same: "map_of (AList.update k v m) k = Some v"
  by (simp add: update_conv')

lemma answered_time:
  assumes "str_includes (to_lower (pq_question q)) ''time of day''"
  shows "map_of (answered_context context q answer now) ''schedule_intent'' =
    Some (JObj (AList.update ''time_of_day'' (JStr answer)
      (obj_entries (nullish (map_of context ''schedule_intent'') JUndef))))"
  using assms by (simp add: answered_context_def Let_def update_conv')

text \<open>Answering the question for the time of day settles the schedule: the plan keeps its nodes, its schedule
  has the answer as its time, and the simulation does not ask again.\<close>

lemma answer_settles_schedule:
  assumes run: "answer_question B s question_id answer persist d = (Inr s', d')"
    and found: "List.find (\<lambda>q. pq_question_id q = question_id) (bs_pending s) = Some q"
    and time: "str_includes (to_lower (pq_question q)) ''time of day''"
    and plan: "bs_planfile s = Some p"
  shows "\<exists>p'. bs_planfile s' = Some p' \<and> \<not> wants_schedule_time p' \<and> pf_nodes p' = pf_nodes p \<and>
    jfield (schedule_value p') ''time_of_day'' = JStr answer \<and>
    bs_pending s' = filter (\<lambda>q. pq_question_id q \<noteq> question_id) (bs_pending s) \<and>
    length (bs_answered s') = Suc (length (bs_answered s))"
proof -
  obtain p' where p': "apply_question_answer B p q answer (bs_session_id s) (Suc (length (bs_answered s))) = Some p'"
    and s': "bs_planfile s' = Some p'" "bs_pending s' = filter (\<lambda>q. pq_question_id q \<noteq> question_id) (bs_pending s)"
      "length (bs_answered s') = Suc (length (bs_answered s))"
    using run found plan
    by (auto simp: answer_question_def Let_def ebind_inr of_option_inr update_session_inr split: option.splits)
  from p' obtain m where m: "m = p\<lparr>pf_execution_context :=
      Some (answered_context (nullish (pf_execution_context p) []) q answer (bh_now B)), pf_updated_at := bh_now B\<rparr>"
    and l: "lifecycle_planfile B m (bs_session_id s) V_unknown Sim_unknown (Suc (length (bs_answered s))) (pf_status m) = Some p'"
    by (auto simp: apply_question_answer_def bind_eq_Some_conv)
  have "pf_execution_context p' = Some (answered_context (nullish (pf_execution_context p) []) q answer (bh_now B))"
    using lifecycle_keeps(3) [OF l] m by simp
  then have "jfield (schedule_value p') ''time_of_day'' = JStr answer"
    by (simp add: schedule_value_def context_field_def answered_time [OF time] jfield_def update_conv' nullish_def)
  moreover have "pf_nodes p' = pf_nodes p"
    using parsed_with_digest_Some(3) [OF l [unfolded lifecycle_planfile_def]] m by simp
  ultimately show ?thesis using s' by (simp add: wants_schedule_time_def)
qed

end
