(* ===== verification/Control_Check.thy ===== *)
theory Control_Check
  imports Control_Requests Builder_Loop
begin

text \<open>
  The functions of \<open>planning/control-plane.ts\<close> that put the plan check before the creation of a run, and
  those that start from a session of the plan builder.
\<close>

section \<open>Checking and creating\<close>

datatype check_and_create_result =
    Run_blocked plan_check_report string
  | Run_created_checked plan_check_report create_run_result string

fun check_status_str :: "check_status \<Rightarrow> string" where
  "check_status_str Check_runnable = ''runnable''"
| "check_status_str Check_runnable_with_warnings = ''runnable_with_warnings''"
| "check_status_str Check_missing_requirements = ''missing_requirements''"
| "check_status_str Check_invalid = ''invalid''"
| "check_status_str Check_unsafe = ''unsafe''"

definition installed_packs :: "control_host \<Rightarrow> string list" where
  "installed_packs C = map (\<lambda>k. mf_pack_id (pk_manifest (snd k))) (rg_packs (ch_registry C))"

definition validated_plan :: "env \<Rightarrow> planfile option \<Rightarrow> string \<Rightarrow> planfile option" where
  "validated_plan E input now =
     Option.bind (Option.bind input (planfile_parse E)) (\<lambda>p.
       parsed_with_digest E (p\<lparr>pf_status := PS_validated, pf_updated_at := now\<rparr>))"

definition handoff_check :: "planfile \<Rightarrow> runtime_profile option \<Rightarrow> string list \<Rightarrow> bool option \<Rightarrow> string \<Rightarrow> plan_check_input" where
  "handoff_check p profile packs live now =
     \<lparr>ki_planfile = p, ki_profile = profile, ki_packs = Some packs, ki_snapshot = None,
      ki_live = Some (live \<noteq> Some False), ki_now = Some now\<rparr>"

definition handoff_input :: "planfile \<Rightarrow> run_input \<Rightarrow> string \<Rightarrow> run_input" where
  "handoff_input p i now =
     \<lparr>in_planfile = Some p, in_live = Some (nullish (in_live i) True), in_output_dir = keep_truthy (in_output_dir i),
      in_run_id = keep_truthy (in_run_id i), in_now = Some now\<rparr>"

definition check_and_create_run ::
    "control_host \<Rightarrow> run_input \<Rightarrow> runtime_profile option \<Rightarrow> check_and_create_result ctl" where
  "check_and_create_run C i profile =
     ebind (given_or_now C (in_now i)) (\<lambda>now.
     ebind (of_option Zod_error (validated_plan (ch_env C) (in_planfile i) now)) (\<lambda>p.
     ebind (of_option Zod_error
         (run_plan_check C now (handoff_check p profile (installed_packs C) (in_live i) now))) (\<lambda>report.
       if plan_check_blocks_run report
       then ereturn (Run_blocked report
              (''Plan Check blocked run creation: '' @ check_status_str (kc_status report) @ ''.''))
       else ebind (create_run_from_planfile C (handoff_input p i now)) (\<lambda>run.
              ereturn (Run_created_checked report run (''Run created: '' @ cx_run_id run))))))"

section \<open>From a session\<close>

text \<open>The sessions are only read.\<close>

definition session_plan :: "env \<Rightarrow> session_dir \<Rightarrow> string \<Rightarrow> thrown + planfile" where
  "session_plan E d session_id =
     (case fst (get_builder_session E default_builder_root session_id d) of
        Inl e \<Rightarrow> Inl e
      | Inr s \<Rightarrow>
          (case Option.bind s bs_planfile of
             None \<Rightarrow> Inl (Plain_error (''Plan Builder session '' @ session_id @ '' does not have a current Planfile.''))
           | Some p \<Rightarrow> Inr p))"

definition create_run_from_builder_session ::
    "control_host \<Rightarrow> session_dir \<Rightarrow> string \<Rightarrow> bool option \<Rightarrow> string option \<Rightarrow> string option
      \<Rightarrow> create_run_result ctl" where
  "create_run_from_builder_session C d session_id live output_dir now =
     (case session_plan (ch_env C) d session_id of
        Inl e \<Rightarrow> ethrow e
      | Inr p \<Rightarrow> create_run_from_planfile C
          \<lparr>in_planfile = Some p, in_live = live, in_output_dir = keep_truthy output_dir, in_run_id = None,
           in_now = keep_truthy now\<rparr>)"

definition check_and_create_from_session ::
    "control_host \<Rightarrow> session_dir \<Rightarrow> string \<Rightarrow> bool option \<Rightarrow> string option \<Rightarrow> runtime_profile option
      \<Rightarrow> string option \<Rightarrow> check_and_create_result ctl" where
  "check_and_create_from_session C d session_id live output_dir profile now =
     (case session_plan (ch_env C) d session_id of
        Inl e \<Rightarrow> ethrow e
      | Inr p \<Rightarrow> check_and_create_run C
          \<lparr>in_planfile = Some p, in_live = Some (nullish live True), in_output_dir = keep_truthy output_dir,
           in_run_id = None, in_now = keep_truthy now\<rparr> profile)"

section \<open>What the check keeps out\<close>

lemma handoff_input_simps [simp]:
  "in_planfile (handoff_input p i now) = Some p" "in_now (handoff_input p i now) = Some now"
  "in_run_id (handoff_input p i now) = keep_truthy (in_run_id i)"
  "in_live (handoff_input p i now) = Some (nullish (in_live i) True)"
  by (simp_all add: handoff_input_def)

lemma given_now [simp]: "given_or_now C (Some now) = ereturn now"
  by (simp add: given_or_now_def)

text \<open>C32: Checking a plan and creating its run either throws or blocks, and then nothing but the clock has
  changed; or it creates the run, and then the plan check did not block, and the run is recorded as a
  request with the checked plan alone records it.\<close>
theorem checked_run_or_nothing:
  assumes reach: "control_reachable C c" and clock: "clock_ok C"
    and t: "opt_ok (datetime_ok (ch_env C)) (in_now i)"
  shows "\<exists>now c0. given_or_now C (in_now i) c = (Inr now, c0) \<and>
    (case check_and_create_run C i profile c of
       (Inl _, c') \<Rightarrow> c' = c0
     | (Inr (Run_blocked report _), c') \<Rightarrow> plan_check_blocks_run report \<and> c' = c0
     | (Inr (Run_created_checked report run _), c') \<Rightarrow>
         \<not> plan_check_blocks_run report \<and>
         (\<exists>q p. validated_plan (ch_env C) (in_planfile i) now = Some q \<and>
            run_plan_check C now (handoff_check q profile (installed_packs C) (in_live i) now) = Some report \<and>
            accepted_plan C (handoff_input q i now) now = Some p \<and>
            run_recorded C now (nullish (in_live i) True) p (cx_run_id run) (cx_state run) c c'))"
proof -
  obtain now w where now: "given_or_now C (in_now i) c = (Inr now, c\<lparr>cw_run := w\<rparr>)" "datetime_ok (ch_env C) now"
    using given_or_now_run [OF clock t] by blast
  let ?c = "c\<lparr>cw_run := w\<rparr>"
  let ?E = "ch_env C"
  have side: "run_side ?c = run_side c" using keeps_step [OF keeps_side_basic(2) now(1)] .
  have "stores_ok C (snd (given_or_now C (in_now i) c))"
    using preserves_run_stores(2) reachable_stores_ok [OF reach] by (simp add: preserves_def)
  then have stores: "stores_ok C ?c" using now(1) by simp
  show ?thesis
  proof (cases "validated_plan ?E (in_planfile i) now")
    case None
    then show ?thesis using now(1) by (intro exI [of _ now] exI [of _ ?c]) (simp add: check_and_create_run_def ebind_run)
  next
    case q: (Some q)
    let ?check = "run_plan_check C now (handoff_check q profile (installed_packs C) (in_live i) now)"
    show ?thesis
    proof (cases ?check)
      case None
      then show ?thesis
        using now(1) q by (intro exI [of _ now] exI [of _ ?c]) (simp add: check_and_create_run_def ebind_run)
    next
      case report: (Some report)
      show ?thesis
      proof (cases "plan_check_blocks_run report")
        case True
        then show ?thesis
          using now(1) q report by (intro exI [of _ now] exI [of _ ?c]) (simp add: check_and_create_run_def ebind_run)
      next
        case False
        let ?i = "handoff_input q i now"
        have check: "check_and_create_run C i profile c =
            ebind (create_run_from_planfile C ?i) (\<lambda>run.
              ereturn (Run_created_checked report run (''Run created: '' @ cx_run_id run))) ?c"
          using now(1) q report False by (simp add: check_and_create_run_def ebind_run)
        have outcome: "case (accepted_plan C ?i now, create_run_from_planfile C ?i ?c) of
             (None, (Inl _, c')) \<Rightarrow> c' = ?c
           | (Some p, (Inr a, c')) \<Rightarrow>
               cx_run_id a = input_run_id C ?i now p \<and> sn_run_id (cx_snapshot a) = cx_run_id a \<and>
               run_recorded C now (in_live ?i = Some True) p (cx_run_id a) (cx_state a) ?c c'
           | _ \<Rightarrow> False"
          using create_run_outcome [OF stores clock, of ?i] now(2) keep_truthy_nonempty [of "in_run_id i"] by simp
        show ?thesis
        proof (cases "accepted_plan C ?i now")
          case None
          with outcome obtain e where "create_run_from_planfile C ?i ?c = (Inl e, ?c)"
            by (auto split: prod.splits sum.splits)
          then show ?thesis
            using now(1) check by (intro exI [of _ now] exI [of _ ?c]) (simp add: ebind_run)
        next
          case (Some p)
          with outcome obtain a c' where a: "create_run_from_planfile C ?i ?c = (Inr a, c')"
              "run_recorded C now (nullish (in_live i) True) p (cx_run_id a) (cx_state a) ?c c'"
            by (auto split: prod.splits sum.splits)
          have "run_recorded C now (nullish (in_live i) True) p (cx_run_id a) (cx_state a) c c'"
            by (rule run_recorded_from [OF a(2)]) (use side in \<open>simp_all add: run_side_def\<close>)
          then show ?thesis
            using now(1) check a(1) q report False Some
            by (intro exI [of _ now] exI [of _ ?c]) (simp add: ebind_run)
        qed
      qed
    qed
  qed
qed

definition dry_input :: run_input where
  "dry_input = quiet_input\<lparr>in_live := Some False\<rparr>"

definition checked_sample :: planfile where
  "checked_sample =
     sample_plan\<lparr>pf_status := PS_validated, pf_updated_at := sample_stamp,
       pf_canonical_plan_digest := Some (stable_hash sample_env
         (canonical_form (sample_plan\<lparr>pf_status := PS_validated, pf_updated_at := sample_stamp\<rparr>)))\<rparr>"

lemma checked_sample_facts:
  "validated_plan sample_env (Some sample_plan) sample_stamp = Some checked_sample"
  "parsed_with_digest sample_env checked_sample = Some checked_sample" "planfile_ok sample_env checked_sample"
proof -
  let ?q = "sample_plan\<lparr>pf_status := PS_validated, pf_updated_at := sample_stamp\<rparr>"
  have ok: "planfile_ok sample_env ?q" by (rule stamped_sample_ok)
  have w: "with_canonical_plan_digest sample_env ?q = Some checked_sample"
    using with_digest_total [OF ok sample_sha_hex] by (simp add: checked_sample_def)
  with ok show "validated_plan sample_env (Some sample_plan) sample_stamp = Some checked_sample"
    using sample_plan_ok by (simp add: validated_plan_def parsed_with_digest_def)
  show ok': "planfile_ok sample_env checked_sample" using with_digest_SomeD [OF w] by blast
  then show "parsed_with_digest sample_env checked_sample = Some checked_sample"
    using with_digest_idem [OF w] by (simp add: parsed_with_digest_def)
qed

lemma sample_snapshot:
  "\<exists>sn. capability_snapshot_for_task sample_control refs scopes Risk_read sample_stamp = Some sn \<and> cs_capabilities sn = []"
proof -
  have none: "list_capabilities (ch_registry sample_control) f = []" for f
    by (simp add: sample_control_def create_pack_registry_def list_capabilities_def)
  have "is_hex64 (stable_hash sample_env (JArr []))"
    using sample_sha_hex by (simp add: sha_is_hex_def stable_hash_def)
  then show ?thesis
    by (auto simp: capability_snapshot_for_task_def none build_capability_snapshot_def Let_def sample_input_facts
        capability_snapshot_ok_def deterministic_snapshot_id_def det_id_def sample_stamp_ok)
qed

lemma checked_sample_issues:
  assumes "cs_capabilities sn = []"
  shows "planfile_issues (Some sn) checked_sample = []"
proof -
  have "planfile_issues (Some sn) checked_sample = planfile_issues (Some sn) sample_plan"
    by (rule planfile_issues_cong) (simp_all add: checked_sample_def allow_fixtures_def allow_mock_def context_value_def)
  then show ?thesis by (simp add: sample_issues)
qed

theorem checked_run_or_nothing_witness:
  "\<exists>report run m c'. check_and_create_run sample_control dry_input None (start_world 0 []) =
       (Inr (Run_created_checked report run m), c') \<and> \<not> plan_check_blocks_run report \<and>
     (\<exists>p. run_recorded sample_control sample_stamp False p (cx_run_id run) (cx_state run) (start_world 0 []) c')"
proof -
  let ?c = "start_world 0 []" and ?check = "handoff_check checked_sample None [] (Some False) sample_stamp"
  let ?i = "handoff_input checked_sample dry_input sample_stamp"
  note q = checked_sample_facts
  have env: "ch_env sample_control = sample_env" "installed_packs sample_control = []"
    using sample_input_facts(5) by (simp_all add: installed_packs_def) (simp add: sample_control_def create_pack_registry_def)
  have i: "in_now dry_input = Some sample_stamp" "in_live dry_input = Some False" "in_planfile dry_input = Some sample_plan"
    by (simp_all add: dry_input_def quiet_input_def sample_run_input_def)
  have fields: "ki_planfile ?check = checked_sample" "ki_now ?check = Some sample_stamp" "ki_packs ?check = Some []"
    "ki_profile ?check = None" "ki_snapshot ?check = None" by (simp_all add: handoff_check_def)
  obtain sn where sn: "snapshot_options sample_control ?check sample_stamp = Some (Some sn)" "cs_capabilities sn = []"
    using sample_snapshot by (auto simp: snapshot_options_def fields)
  have lists: "plan_packs checked_sample = plan_packs sample_plan" "plan_providers checked_sample = plan_providers sample_plan"
    "plan_credentials checked_sample = plan_credentials sample_plan"
    "plan_permissions checked_sample = plan_permissions sample_plan" "runtime_modes checked_sample = runtime_modes sample_plan"
    "scaffold_only checked_sample = scaffold_only sample_plan"
    by (simp_all add: checked_sample_def plan_packs_def plan_providers_def plan_credentials_def plan_permissions_def
        runtime_modes_def scaffold_only_def required_provider_kinds_def required_credential_names_def plan_capability_refs_def)
  have "run_plan_check sample_control sample_stamp ?check \<noteq> None"
    by (rule check_total [where snapshot = "Some sn"])
      (use sample_plan_labelled q(3) sn(1) in \<open>simp_all add: env fields sample_sha_hex sample_stamp_ok requirement_ids_def lists\<close>)
  then obtain report where report: "run_plan_check sample_control sample_stamp ?check = Some report" by blast
  note sample_plan_lists
  then have free: "\<not> plan_check_blocks_run report"
    using check_blocks_iff [OF report] sn q(2) checked_sample_issues [OF sn(2)]
    by (auto simp: env fields nothing_missing_def lists)
  have plan: "input_plan sample_control ?i sample_stamp = Some checked_sample"
  proof -
    have "checked_sample\<lparr>pf_status := PS_validated, pf_updated_at := sample_stamp\<rparr> = checked_sample"
      by (simp add: checked_sample_def)
    then show ?thesis using q(2,3) by (simp add: input_plan_def env i nullish_def)
  qed
  obtain sn' where sn': "capability_snapshot_for_task sample_control [] [] Risk_read sample_stamp = Some sn'"
      "cs_capabilities sn' = []" using sample_snapshot by blast
  have accepted: "accepted_plan sample_control ?i sample_stamp = Some checked_sample"
    using plan sn' q(3) checked_sample_issues [OF sn'(2)]
    by (simp add: accepted_plan_def input_snapshot_def i nullish_def env validate_ok_issues)
  have stores: "stores_ok sample_control ?c" by (rule reachable_stores_ok [OF control_reachable.start])
  obtain run c' where run: "create_run_from_planfile sample_control ?i ?c = (Inr run, c')"
    using create_run_outcome [OF stores sample_clock_ok, of ?i] accepted keep_truthy_nonempty [of "in_run_id dry_input"]
    by (auto simp: env sample_stamp_ok split: prod.splits sum.splits)
  have made: "check_and_create_run sample_control dry_input None ?c =
      (Inr (Run_created_checked report run (''Run created: '' @ cx_run_id run)), c')"
    using q(1) report free run by (simp add: check_and_create_run_def ebind_run i env)
  have "opt_ok (datetime_ok (ch_env sample_control)) (in_now dry_input)" by (simp add: i env sample_stamp_ok)
  from checked_run_or_nothing [OF control_reachable.start sample_clock_ok this, of 0 "[]" None] made free show ?thesis
    by (auto simp: i nullish_def)
qed

end
