(* ===== verification/Plan_Reconcile.thy ===== *)
theory Plan_Reconcile
  imports Builder_Loop Plan_Diff
begin

text \<open>
  \<open>planning/editable-planfile-reconciler.ts\<close>: an edited plan document is read, compared with the session's
  plan, validated, simulated and, when nothing speaks against it, becomes the session's plan. Artifacts on
  disk and a revision in the session's history record every edit, also a refused one.
\<close>

section \<open>Reports\<close>

datatype diff_status = Plans_unchanged | Plans_changed | Diff_not_available
datatype check_outcome = Val_not_run | Val_passed | Val_failed

text \<open>A simulation status of \<open>None\<close> is \<open>not_run\<close>.\<close>

record update_report =
  ug_session_id :: string
  ug_previous_digest :: "string option"
  ug_new_digest :: "string option"
  ug_parsed :: bool
  ug_diff_status :: diff_status
  ug_simulation :: "simulation_status option"
  ug_validation :: check_outcome
  ug_builder_status :: builder_status
  ug_diff :: "structured_diff option"
  ug_questions :: "planner_question list"
  ug_errors :: "structured_error list"
  ug_warnings :: "string list"
  ug_markdown :: "string option"
  ug_mermaid :: "string option"
  ug_artifact_refs :: "string list"

definition update_report_ok :: "env \<Rightarrow> update_report \<Rightarrow> bool" where
  "update_report_ok E r =
     (nonempty (ug_session_id r) \<and> opt_ok is_hex64 (ug_previous_digest r) \<and> opt_ok is_hex64 (ug_new_digest r) \<and>
      ug_simulation r \<noteq> Some Sim_unknown \<and> opt_ok (structured_diff_ok E) (ug_diff r) \<and>
      list_all (planner_question_ok E) (ug_questions r) \<and> list_all (structured_error_ok E) (ug_errors r) \<and>
      list_all nonempty (ug_artifact_refs r))"

definition checked_update_report :: "env \<Rightarrow> update_report \<Rightarrow> update_report option" where
  "checked_update_report E r = (if update_report_ok E r then Some r else None)"

section \<open>Reports as JSON\<close>

fun question_severity_str :: "question_severity \<Rightarrow> string" where
  "question_severity_str Blocking = ''blocking''"
| "question_severity_str Clarifying = ''clarifying''"
| "question_severity_str Optional = ''optional''"

definition planner_question_json :: "planner_question \<Rightarrow> json" where
  "planner_question_json q = JObj
     ([(''question_id'', JStr (pq_question_id q)), (''severity'', JStr (question_severity_str (pq_severity q))),
       (''question'', JStr (pq_question q)), (''why_it_matters'', JStr (pq_why q))] @
      jopt ''default_assumption'' JStr (pq_default q) @
      [(''choices'', jstrs (pq_choices q)), (''affected_nodes'', jstrs (pq_affected q))] @
      jopt ''answer'' JStr (pq_answer q) @ jopt ''answered_at'' JStr (pq_answered_at q))"

definition structured_error_json :: "structured_error \<Rightarrow> json" where
  "structured_error_json e = JObj
     ([(''code'', JStr (error_code_str (se_code e))), (''message'', JStr (se_message e))] @
      jopt ''intent_id'' JStr (se_intent_id e) @ jopt ''task_id'' JStr (se_task_id e) @
      [(''observed_at'', JStr (se_observed_at e))] @ jopt ''details'' (\<lambda>v. v) (se_details e))"

definition structured_diff_json :: "structured_diff \<Rightarrow> json" where
  "structured_diff_json d = JObj
     ([(''nodes_added'', JArr (map plan_node_json (df_nodes_added d))),
       (''nodes_removed'', JArr (map plan_node_json (df_nodes_removed d))),
       (''nodes_changed'', JArr (map (\<lambda>c. JObj
          [(''node_id'', JStr (dn_node_id c)), (''changed_fields'', jstrs (dn_changed_fields c)),
           (''before'', JObj (dn_before c)), (''after'', JObj (dn_after c))]) (df_nodes_changed d))),
       (''edges_added'', JArr (map plan_edge_json (df_edges_added d))),
       (''edges_removed'', JArr (map plan_edge_json (df_edges_removed d))),
       (''capabilities_added'', jstrs (df_capabilities_added d)),
       (''capabilities_removed'', jstrs (df_capabilities_removed d)),
       (''requirements_changed'', JArr (map (\<lambda>c. JObj
          [(''kind'', JStr (dq_kind c)), (''before'', dq_before c), (''after'', dq_after c)])
          (df_requirements_changed d))),
       (''risk_changes'', JArr (map (\<lambda>c. JObj
          [(''target'', JStr (dk_target c)), (''before'', JStr (dk_before c)), (''after'', JStr (dk_after c)),
           (''increased'', JBool (dk_increased c))]) (df_risk_changes d))),
       (''approval_changes'', JArr (map (\<lambda>c. JObj
          [(''target'', JStr (da_target c)), (''before'', JBool (da_before c)), (''after'', JBool (da_after c))])
          (df_approval_changes d)))] @
      jopt ''schedule_changed'' (\<lambda>(a, b). JObj [(''before'', a), (''after'', b)]) (df_schedule_changed d) @
      jopt ''parameters_changed''
        (\<lambda>cs. JArr (map (\<lambda>(k, a, b). JObj [(''name'', JStr k), (''before'', a), (''after'', b)]) cs))
        (df_parameters_changed d))"

fun diff_status_str :: "diff_status \<Rightarrow> string" where
  "diff_status_str Plans_unchanged = ''unchanged''"
| "diff_status_str Plans_changed = ''changed''"
| "diff_status_str Diff_not_available = ''not_available''"

fun check_outcome_str :: "check_outcome \<Rightarrow> string" where
  "check_outcome_str Val_not_run = ''not_run''"
| "check_outcome_str Val_passed = ''passed''"
| "check_outcome_str Val_failed = ''failed''"

fun builder_status_str :: "builder_status \<Rightarrow> string" where
  "builder_status_str Build_drafting = ''drafting''"
| "builder_status_str Build_simulating = ''simulating''"
| "builder_status_str Build_validating = ''validating''"
| "builder_status_str Build_needs_input = ''needs_input''"
| "builder_status_str Build_revising = ''revising''"
| "builder_status_str Build_ready = ''ready''"
| "builder_status_str Build_approved = ''approved''"
| "builder_status_str Build_yielded = ''yielded''"

definition simulation_run_str :: "simulation_status option \<Rightarrow> string" where
  "simulation_run_str s = (case s of None \<Rightarrow> ''not_run'' | Some x \<Rightarrow> simulation_status_str x)"

definition update_report_json :: "update_report \<Rightarrow> json" where
  "update_report_json r = JObj
     ([(''session_id'', JStr (ug_session_id r))] @
      jopt ''previous_plan_digest'' JStr (ug_previous_digest r) @ jopt ''new_plan_digest'' JStr (ug_new_digest r) @
      [(''parse_status'', JStr (if ug_parsed r then ''passed'' else ''failed'')),
       (''diff_status'', JStr (diff_status_str (ug_diff_status r))),
       (''simulation_status'', JStr (simulation_run_str (ug_simulation r))),
       (''validation_status'', JStr (check_outcome_str (ug_validation r))),
       (''builder_status'', JStr (builder_status_str (ug_builder_status r)))] @
      jopt ''diff'' structured_diff_json (ug_diff r) @
      [(''questions'', JArr (map planner_question_json (ug_questions r))),
       (''validation_errors'', JArr (map structured_error_json (ug_errors r))),
       (''simulation_warnings'', jstrs (ug_warnings r))] @
      jopt ''regenerated_markdown'' JStr (ug_markdown r) @ jopt ''mermaid'' JStr (ug_mermaid r) @
      [(''artifact_refs'', jstrs (ug_artifact_refs r))])"

section \<open>Host\<close>

text \<open>\<open>xh_yaml_value\<close> is the third-party \<open>YAML.parse\<close>: the message of its error, or the value of a text, a
  plan that the schema has not checked yet or, as \<open>None\<close>, a value without the shape of one.\<close>

record edit_host =
  xh_control :: control_host
  xh_now :: string
  xh_zod_message :: string
  xh_yaml_value :: "string \<Rightarrow> string + planfile option"

abbreviation xh_env :: "edit_host \<Rightarrow> env" where
  "xh_env H \<equiv> ch_env (xh_control H)"

definition xh_builder :: "edit_host \<Rightarrow> builder_host" where
  "xh_builder H = \<lparr>bh_env = xh_env H, bh_now = xh_now H, bh_zod_message = xh_zod_message H\<rparr>"

record edit_world =
  xw_sessions :: session_dir
  xw_disk :: disk

type_synonym 'a editing = "(edit_world, 'a) effect"

definition on_sessions :: "(session_dir, 'a) effect \<Rightarrow> 'a editing" where
  "on_sessions m = (\<lambda>w. (let (r, d) = m (xw_sessions w) in (r, w\<lparr>xw_sessions := d\<rparr>)))"

text \<open>\<open>parsePlanfileYaml\<close>, \<open>parsePlanfileMarkdown\<close>\<close>

definition parse_planfile_yaml :: "edit_host \<Rightarrow> string \<Rightarrow> thrown + planfile" where
  "parse_planfile_yaml H s =
     (case xh_yaml_value H s of
        Inl m \<Rightarrow> Inl (Plain_error m)
      | Inr v \<Rightarrow> (case Option.bind v (planfile_parse (xh_env H)) of None \<Rightarrow> Inl Zod_error | Some q \<Rightarrow> Inr q))"

definition parse_planfile_markdown :: "edit_host \<Rightarrow> string \<Rightarrow> thrown + planfile" where
  "parse_planfile_markdown H markdown =
     (case extract_executable_yaml markdown of
        Inl m \<Rightarrow> Inl (Plain_error m)
      | Inr s \<Rightarrow> parse_planfile_yaml H s)"

definition read_edited_plan :: "edit_host \<Rightarrow> string \<Rightarrow> thrown + planfile" where
  "read_edited_plan H markdown =
     (case parse_planfile_markdown H markdown of
        Inl e \<Rightarrow> Inl e
      | Inr p \<Rightarrow> (case with_canonical_plan_digest (xh_env H) p of None \<Rightarrow> Inl Zod_error | Some q \<Rightarrow> Inr q))"

text \<open>\<open>createCapabilitySnapshotForTask({ now })\<close>: every capability.\<close>

definition full_snapshot :: "control_host \<Rightarrow> string \<Rightarrow> capability_snapshot option" where
  "full_snapshot C now =
     build_capability_snapshot (ch_env C)
       (map descriptor_to_input
         (list_capabilities (ch_registry C)
           \<lparr>fl_allowed_scopes = None, fl_denied_scopes = None, fl_allowed_capabilities = None,
            fl_max_risk_level = None, fl_trust_levels = None\<rparr>)) now"

definition edit_error :: "error_code \<Rightarrow> string \<Rightarrow> string \<Rightarrow> json option \<Rightarrow> structured_error" where
  "edit_error code message now details =
     \<lparr>se_code = code, se_message = message, se_intent_id = None, se_task_id = None, se_observed_at = now,
      se_details = details\<rparr>"

section \<open>What needs confirmation\<close>

record edit_options =
  xo_allow_risk_increase :: "bool option"
  xo_allow_new_capabilities :: "bool option"
  xo_allow_schedule_change :: "bool option"

definition safety_errors_for :: "structured_diff \<Rightarrow> planfile \<Rightarrow> edit_options \<Rightarrow> string \<Rightarrow> structured_error list" where
  "safety_errors_for d p o1 now =
     (let increased = filter dk_increased (df_risk_changes d) in
      (if df_capabilities_added d \<noteq> [] \<and> xo_allow_new_capabilities o1 \<noteq> Some True
       then [edit_error APPROVAL_REQUIRED
               (''New capabilities require confirmation: '' @ join '', '' (df_capabilities_added d)) now None] else []) @
      (if increased \<noteq> [] \<and> xo_allow_risk_increase o1 \<noteq> Some True
       then [edit_error APPROVAL_REQUIRED (''Risk increases require confirmation: '' @
               join '', '' (map (\<lambda>c. dk_target c @ '' '' @ dk_before c @ ''->'' @ dk_after c) increased)) now None]
       else []) @
      (if df_schedule_changed d \<noteq> None \<and> xo_allow_schedule_change o1 \<noteq> Some True
       then [edit_error APPROVAL_REQUIRED ''Schedule changes require confirmation.'' now None] else []) @
      (if list_ex (\<lambda>n. n_risk_level n = Risk_external_side_effect \<and> \<not> n_approval_required n) (pf_nodes p)
       then [edit_error APPROVAL_REQUIRED ''New external side effects require approval.'' now None] else []))"

definition edit_lifecycle ::
    "edit_host \<Rightarrow> planfile \<Rightarrow> string \<Rightarrow> validation_status \<Rightarrow> simulation_status \<Rightarrow> plan_status \<Rightarrow> planfile option" where
  "edit_lifecycle H p session_id v s status =
     parsed_with_digest (xh_env H)
       (p\<lparr>pf_status := status,
          pf_lifecycle := Some ((nullish (pf_lifecycle p) blank_lifecycle)
            \<lparr>lc_builder_session_id := Some session_id, lc_assumptions := Some (gf_assumptions (pf_goal_frame p)),
             lc_validation_status := Some v, lc_simulation_status := Some s\<rparr>),
          pf_updated_at := xh_now H\<rparr>)"

definition edit_base_report ::
    "string \<Rightarrow> string option \<Rightarrow> bool \<Rightarrow> check_outcome \<Rightarrow> builder_status \<Rightarrow> structured_error list \<Rightarrow> update_report" where
  "edit_base_report session_id previous parsed validation status errors =
     \<lparr>ug_session_id = session_id, ug_previous_digest = keep_truthy previous, ug_new_digest = None,
      ug_parsed = parsed, ug_diff_status = Diff_not_available, ug_simulation = None, ug_validation = validation,
      ug_builder_status = status, ug_diff = None, ug_questions = [], ug_errors = errors, ug_warnings = [],
      ug_markdown = None, ug_mermaid = None, ug_artifact_refs = []\<rparr>"

section \<open>Artifacts of an edit\<close>

fun edit_source_str :: "edit_source \<Rightarrow> string" where
  "edit_source_str Edit_web = ''web''"
| "edit_source_str Edit_tui = ''tui''"
| "edit_source_str Edit_cli = ''cli''"
| "edit_source_str Edit_external_file = ''external_file''"

definition edit_artifact ::
    "env \<Rightarrow> string \<Rightarrow> string \<Rightarrow> string \<Rightarrow> json \<Rightarrow> string \<Rightarrow> (string \<times> json) list \<Rightarrow> json" where
  "edit_artifact E kind title summary content content_type base =
     JObj ([(''artifact_id'', JStr (kind @ ''_'' @
              take 16 (stable_hash E (JObj [(''title'', JStr title), (''content'', content)])))),
            (''kind'', JStr kind), (''title'', JStr title), (''summary'', JStr summary), (''content'', content),
            (''content_type'', JStr content_type), (''validation_status'', JStr ''not_applicable'')] @ base)"

definition edit_artifact_base :: "builder_session \<Rightarrow> edit_source \<Rightarrow> bool \<Rightarrow> (string \<times> json) list" where
  "edit_artifact_base s source accepted =
     [(''source_mode'', JStr ''live''), (''execution_mode'', JStr ''live''), (''live'', JBool True),
      (''metadata'', JObj [(''edit_source'', JStr (edit_source_str source)), (''accepted'', JBool accepted)]),
      (''lineage'', JObj [(''produced_by_plan_id'', jundef (\<lambda>p. JStr (pf_plan_id p)) (bs_planfile s)),
                        (''input_artifact_refs'', jstrs [bs_session_id s])])]"

definition edit_artifacts ::
    "env \<Rightarrow> builder_session \<Rightarrow> update_report \<Rightarrow> string \<Rightarrow> edit_source \<Rightarrow> bool \<Rightarrow> json list" where
  "edit_artifacts E s r markdown source accepted =
     (let base = edit_artifact_base s source accepted in
      [edit_artifact E ''edited_planfile_snapshot'' ''Edited Planfile Snapshot'' ''User-submitted Planfile Markdown.''
         (JStr markdown) ''text/markdown'' base,
       edit_artifact E ''planfile_update_report'' ''Planfile Update Report'' ''Planfile reconciliation report.''
         (update_report_json r) ''application/json'' base] @
      (case ug_diff r of None \<Rightarrow> []
       | Some d \<Rightarrow> [edit_artifact E ''planfile_diff'' ''Planfile Diff'' ''Structured Planfile diff.''
                      (structured_diff_json d) ''application/json'' base]) @
      (if truthy (ug_markdown r)
       then [edit_artifact E ''regenerated_planfile'' ''Regenerated Planfile'' ''Regenerated Planfile Markdown projection.''
               (JStr (nullish (ug_markdown r) [])) ''text/markdown'' base]
       else []) @
      [edit_artifact E ''validation_report'' ''Validation Report'' ''Validation status for the edited Planfile.''
         (JObj [(''status'', JStr (check_outcome_str (ug_validation r))),
                (''errors'', JArr (map structured_error_json (ug_errors r)))]) ''application/json'' base,
       edit_artifact E ''simulation_report'' ''Simulation Report'' ''Simulation status for the edited Planfile.''
         (JObj [(''status'', JStr (simulation_run_str (ug_simulation r))), (''warnings'', jstrs (ug_warnings r)),
                (''questions'', JArr (map planner_question_json (ug_questions r)))]) ''application/json'' base])"

definition safe_path_segment :: "string \<Rightarrow> string" where
  "safe_path_segment s = path_basename (safe_file_name s)"

definition edit_store :: "builder_session \<Rightarrow> string \<Rightarrow> local_store" where
  "edit_store s now =
     create_local_store (case bs_planfile s of None \<Rightarrow> bs_session_id s | Some p \<Rightarrow> pf_plan_id p)
       (Some (''.open-lagrange/plan-builder/'' @ bs_session_id s @ ''/edits/'' @ safe_path_segment now)) (Some now)"

definition with_artifacts ::
    "edit_host \<Rightarrow> builder_session \<Rightarrow> update_report \<Rightarrow> string \<Rightarrow> edit_source \<Rightarrow> bool \<Rightarrow> update_report editing" where
  "with_artifacts H s r markdown source accepted = (\<lambda>w.
     (let E = xh_env H; L = ch_local (xh_control H); now = xh_now H;
          recorded = ethen (efor (edit_artifacts E s r markdown source accepted) (record_local_artifact E L now))
                       (flush_local_store E L now None)
      in case recorded \<lparr>aw_store = edit_store s now, aw_disk = xw_disk w\<rparr> of
           (Inl e, a) \<Rightarrow> (Inl e, w\<lparr>xw_disk := aw_disk a\<rparr>)
         | (Inr summaries, a) \<Rightarrow>
             (case checked_update_report E (r\<lparr>ug_artifact_refs := map as_artifact_id summaries\<rparr>) of
                None \<Rightarrow> (Inl Zod_error, w\<lparr>xw_disk := aw_disk a\<rparr>)
              | Some r' \<Rightarrow> (Inr r', w\<lparr>xw_disk := aw_disk a\<rparr>))))"

section \<open>Reconciling an edit with its session\<close>

definition revision_id :: "env \<Rightarrow> (string \<times> json) list \<Rightarrow> string" where
  "revision_id E key = ''planfile_revision_'' @ take 18 (stable_hash E (JObj key))"

definition save_revised ::
    "edit_host \<Rightarrow> builder_session \<Rightarrow> planfile_revision \<Rightarrow> update_report \<Rightarrow> update_report editing" where
  "save_revised H s revision report =
     (if planfile_revision_ok (xh_env H) revision
      then ebind (on_sessions (save_builder_session (xh_env H) default_builder_root
             (s\<lparr>bs_planfile_revisions := bs_planfile_revisions s @ [revision], bs_updated_at := xh_now H\<rparr>)))
             (\<lambda>_. ereturn report)
      else ethrow Zod_error)"

definition parse_failed ::
    "edit_host \<Rightarrow> builder_session \<Rightarrow> string \<Rightarrow> string \<Rightarrow> edit_source \<Rightarrow> thrown \<Rightarrow> update_report editing" where
  "parse_failed H s previous_digest markdown source e =
     (let E = xh_env H; now = xh_now H in
      ebind (of_option Zod_error (checked_update_report E
          (edit_base_report (bs_session_id s) (Some previous_digest) False Val_not_run (bs_status s)
             [edit_error INVALID_PLAN (error_text (xh_builder H) e) now None]))) (\<lambda>report.
      ebind (with_artifacts H s report markdown source False) (\<lambda>report'.
        save_revised H s
          \<lparr>pe_revision_id = revision_id E [(''session_id'', JStr (bs_session_id s)),
               (''previousDigest'', JStr previous_digest), (''now'', JStr now), (''status'', JStr ''parse_failed'')],
           pe_session_id = bs_session_id s, pe_source = source, pe_previous_digest = Some previous_digest,
           pe_new_digest = None, pe_status = Edit_rejected,
           pe_summary = ''Rejected edited Planfile because parsing failed.'', pe_created_at = now,
           pe_artifact_refs = ug_artifact_refs report'\<rparr> report')))"

definition edit_validation_errors ::
    "edit_host \<Rightarrow> validation_result \<Rightarrow> structured_error list \<Rightarrow> structured_error list" where
  "edit_validation_errors H v safety =
     map (\<lambda>i. edit_error (issue_error_code (pi_code i)) (pi_message i) (xh_now H)
            (Some (JObj [(''path'', JArr (map path_item_json (pi_path i)))])))
       (filter (\<lambda>i. pi_severity i = Sev_error) (vl_issues v)) @ safety"

text \<open>What the code finds out about an edit before it writes anything.\<close>

record edit_finding =
  en_previous_digest :: string
  en_new_digest :: string
  en_diff :: structured_diff
  en_validation :: validation_result
  en_safety :: "structured_error list"
  en_errors :: "structured_error list"
  en_simulation :: "simulation_report option"

definition finding_accepted :: "edit_finding \<Rightarrow> bool" where
  "finding_accepted f =
     (en_errors f = [] \<and>
      (case en_simulation f of None \<Rightarrow> True | Some r \<Rightarrow> sm_status r \<noteq> Sim_invalid \<and> sm_status r \<noteq> Sim_unsafe))"

definition finding_status :: "builder_session \<Rightarrow> edit_finding \<Rightarrow> builder_status" where
  "finding_status s f =
     (if \<not> finding_accepted f then bs_status s
      else if map_option sm_status (en_simulation f) = Some Sim_ready then Build_ready else Build_needs_input)"

definition find_edit ::
    "edit_host \<Rightarrow> planfile \<Rightarrow> planfile \<Rightarrow> runtime_profile option \<Rightarrow> edit_options \<Rightarrow> edit_finding option" where
  "find_edit H previous p profile o1 =
     (let E = xh_env H; now = xh_now H in
      Option.bind (canonical_plan_digest E previous) (\<lambda>previous_digest.
      Option.bind (canonical_plan_digest E p) (\<lambda>new_digest.
      Option.bind (diff_planfiles E previous p) (\<lambda>d.
      Option.bind (full_snapshot (xh_control H) now) (\<lambda>snapshot.
        let v = validate_planfile E (Some snapshot) p; safety = safety_errors_for d p o1 now;
            errors = edit_validation_errors H v safety
        in Option.bind (if errors \<noteq> [] then Some None
                        else map_option Some (simulate_planfile E p (Some v) profile None)) (\<lambda>simulation.
             Some \<lparr>en_previous_digest = previous_digest, en_new_digest = new_digest, en_diff = d,
                   en_validation = v, en_safety = safety, en_errors = errors, en_simulation = simulation\<rparr>))))))"

definition finding_report :: "edit_host \<Rightarrow> builder_session \<Rightarrow> planfile \<Rightarrow> edit_finding \<Rightarrow> update_report" where
  "finding_report H s p f =
     \<lparr>ug_session_id = bs_session_id s, ug_previous_digest = Some (en_previous_digest f),
      ug_new_digest = Some (en_new_digest f), ug_parsed = True,
      ug_diff_status = (if has_structured_diff_changes (en_diff f) then Plans_changed else Plans_unchanged),
      ug_simulation = map_option sm_status (en_simulation f),
      ug_validation = (if vl_ok (en_validation f) \<and> en_safety f = [] then Val_passed else Val_failed),
      ug_builder_status = finding_status s f, ug_diff = Some (en_diff f),
      ug_questions = (case en_simulation f of None \<Rightarrow> [] | Some r \<Rightarrow> sm_questions r),
      ug_errors = en_errors f, ug_warnings = (case en_simulation f of None \<Rightarrow> [] | Some r \<Rightarrow> sm_warnings r),
      ug_markdown = Some (render_planfile_markdown (h_yaml (ch_host (xh_control H))) p no_markdown_options),
      ug_mermaid = Some (render_plan_mermaid p), ug_artifact_refs = []\<rparr>"

definition finding_revision ::
    "edit_host \<Rightarrow> builder_session \<Rightarrow> planfile \<Rightarrow> edit_source \<Rightarrow> edit_finding \<Rightarrow> string list \<Rightarrow> planfile_revision" where
  "finding_revision H s p source f refs =
     \<lparr>pe_revision_id = revision_id (xh_env H) [(''session_id'', JStr (bs_session_id s)),
          (''previousDigest'', JStr (en_previous_digest f)), (''newDigest'', JStr (en_new_digest f)),
          (''now'', JStr (xh_now H))],
      pe_session_id = bs_session_id s, pe_source = source, pe_previous_digest = Some (en_previous_digest f),
      pe_new_digest = Some (en_new_digest f),
      pe_status = (if \<not> finding_accepted f then Edit_rejected
                   else if finding_status s f = Build_needs_input then Edit_needs_input else Edit_accepted),
      pe_summary = (if finding_accepted f then ''Accepted edited Planfile '' else ''Rejected edited Planfile '') @
                   pf_plan_id p @ ''.'',
      pe_created_at = xh_now H, pe_artifact_refs = refs\<rparr>"

definition reconcile_for_session ::
    "edit_host \<Rightarrow> builder_session \<Rightarrow> planfile \<Rightarrow> string \<Rightarrow> edit_source \<Rightarrow> runtime_profile option \<Rightarrow> edit_options
      \<Rightarrow> update_report editing" where
  "reconcile_for_session H s current markdown source profile o1 =
     (let E = xh_env H in
      ebind (of_option Zod_error (with_canonical_plan_digest E current)) (\<lambda>previous.
      ebind (of_option Zod_error (canonical_plan_digest E previous)) (\<lambda>previous_digest.
      case read_edited_plan H markdown of
        Inl e \<Rightarrow> parse_failed H s previous_digest markdown source e
      | Inr p \<Rightarrow>
          ebind (of_option Zod_error (find_edit H previous p profile o1)) (\<lambda>f.
          ebind (of_option Zod_error (checked_update_report E (finding_report H s p f))) (\<lambda>report.
          ebind (with_artifacts H s report markdown source (finding_accepted f)) (\<lambda>report'.
            (let revision = finding_revision H s p source f (ug_artifact_refs report')
             in case (finding_accepted f, en_simulation f) of
                  (True, Some r) \<Rightarrow>
                    if \<not> planfile_revision_ok E revision then ethrow Zod_error
                    else ebind (of_option Zod_error (edit_lifecycle H p (bs_session_id s)
                             (if vl_ok (en_validation f) then V_passed else V_failed) (sm_status r)
                             (if finding_status s f = Build_ready then PS_ready else PS_draft))) (\<lambda>q.
                           save_revised H
                             (s\<lparr>bs_planfile := Some q, bs_validation := Some (en_validation f),
                                bs_simulation := Some r, bs_pending := sm_questions r,
                                bs_status := finding_status s f\<rparr>) revision report')
                | _ \<Rightarrow> save_revised H s revision report')))))))"

record edit_input =
  xi_session_id :: string
  xi_markdown :: string
  xi_source :: edit_source
  xi_profile :: "runtime_profile option"
  xi_options :: edit_options

definition update_builder_planfile :: "edit_host \<Rightarrow> edit_input \<Rightarrow> update_report editing" where
  "update_builder_planfile H i =
     (if xi_session_id i = [] \<or> xi_markdown i = [] then ethrow Zod_error
      else ebind (on_sessions (get_builder_session (xh_env H) default_builder_root (xi_session_id i))) (\<lambda>found.
        case found of
          None \<Rightarrow> ethrow (Sdk_error ''SESSION_NOT_FOUND'' (''Plan Builder session not found: '' @ xi_session_id i))
        | Some s \<Rightarrow>
            (case bs_planfile s of
               None \<Rightarrow> ethrow (Sdk_error ''NO_CURRENT_PLANFILE''
                 (''Plan Builder session has no current Planfile: '' @ xi_session_id i))
             | Some p \<Rightarrow> reconcile_for_session H s p (xi_markdown i) (xi_source i) (xi_profile i) (xi_options i))))"

section \<open>Without a session\<close>

definition standalone_report ::
    "edit_host \<Rightarrow> string \<Rightarrow> planfile \<Rightarrow> runtime_profile option \<Rightarrow> update_report option" where
  "standalone_report H session_id p profile =
     (let E = xh_env H in
      Option.bind (full_snapshot (xh_control H) (xh_now H)) (\<lambda>snapshot.
        let v = validate_planfile E (Some snapshot) p in
      Option.bind (simulate_planfile E p (Some v) profile None) (\<lambda>r.
      Option.bind (canonical_plan_digest E p) (\<lambda>digest.
        checked_update_report E
          \<lparr>ug_session_id = session_id, ug_previous_digest = None, ug_new_digest = Some digest, ug_parsed = True,
           ug_diff_status = Diff_not_available, ug_simulation = Some (sm_status r),
           ug_validation = (if vl_ok v then Val_passed else Val_failed),
           ug_builder_status = (if vl_ok v \<and> sm_status r = Sim_ready then Build_ready
             else if sm_status r = Sim_needs_input \<or> sm_status r = Sim_missing_requirements then Build_needs_input
             else Build_yielded),
           ug_diff = None, ug_questions = sm_questions r,
           ug_errors = map (\<lambda>i. edit_error
               (if pi_code i = I_UNKNOWN_CAPABILITY then UNKNOWN_CAPABILITY else INVALID_PLAN) (pi_message i) (xh_now H)
               (Some (JObj [(''path'', JArr (map path_item_json (pi_path i)))])))
             (filter (\<lambda>i. pi_severity i = Sev_error) (vl_issues v)),
           ug_warnings = sm_warnings r,
           ug_markdown = Some (render_planfile_markdown (h_yaml (ch_host (xh_control H))) p no_markdown_options),
           ug_mermaid = Some (render_plan_mermaid p), ug_artifact_refs = []\<rparr>))))"

definition reconcile_planfile_markdown ::
    "edit_host \<Rightarrow> string \<Rightarrow> string option \<Rightarrow> runtime_profile option \<Rightarrow> update_report option" where
  "reconcile_planfile_markdown H markdown session_id profile =
     (let sid = nullish session_id ''standalone'';
          failed = (\<lambda>e. checked_update_report (xh_env H)
            (edit_base_report sid None False Val_not_run Build_yielded
               [edit_error INVALID_PLAN (error_text (xh_builder H) e) (xh_now H) None]))
      in case read_edited_plan H markdown of
           Inl e \<Rightarrow> failed e
         | Inr p \<Rightarrow>
             (case standalone_report H sid p profile of None \<Rightarrow> failed Zod_error | Some r \<Rightarrow> Some r))"

definition diff_planfile_markdown ::
    "edit_host \<Rightarrow> string \<Rightarrow> string \<Rightarrow> thrown + (string \<times> string \<times> structured_diff \<times> diff_status)" where
  "diff_planfile_markdown H old_markdown new_markdown =
     (case read_edited_plan H old_markdown of
        Inl e \<Rightarrow> Inl e
      | Inr p \<Rightarrow>
          (case read_edited_plan H new_markdown of
             Inl e \<Rightarrow> Inl e
           | Inr q \<Rightarrow>
               (case Option.bind (diff_planfiles (xh_env H) p q) (\<lambda>d.
                       Option.bind (canonical_plan_digest (xh_env H) p) (\<lambda>a.
                       Option.bind (canonical_plan_digest (xh_env H) q) (\<lambda>b. Some (a, b, d)))) of
                  None \<Rightarrow> Inl Zod_error
                | Some (a, b, d) \<Rightarrow>
                    Inr (a, b, d, if has_structured_diff_changes d then Plans_changed else Plans_unchanged))))"

section \<open>Importing a plan as a session\<close>

definition imported_status :: "validation_result \<Rightarrow> simulation_report \<Rightarrow> builder_status" where
  "imported_status v r =
     (if vl_ok v \<and> sm_status r = Sim_ready then Build_ready
      else if sm_status r = Sim_needs_input \<or> sm_status r = Sim_missing_requirements then Build_needs_input
      else Build_yielded)"

definition imported_session_id :: "env \<Rightarrow> planfile \<Rightarrow> string" where
  "imported_session_id E p =
     nullish (Option.bind (pf_lifecycle p) lc_builder_session_id)
       (''builder_'' @ take 18 (stable_hash E (JObj
          [(''plan_id'', JStr (pf_plan_id p)), (''digest'', jundef JStr (pf_canonical_plan_digest p))])))"

definition import_builder_planfile ::
    "edit_host \<Rightarrow> string \<Rightarrow> edit_source option \<Rightarrow> string option \<Rightarrow> runtime_profile option
      \<Rightarrow> builder_session editing" where
  "import_builder_planfile H markdown source original profile =
     (let E = xh_env H; now = xh_now H in
      case read_edited_plan H markdown of
        Inl e \<Rightarrow> ethrow e
      | Inr p \<Rightarrow>
          (let sid = imported_session_id E p in
           ebind (of_option Zod_error (full_snapshot (xh_control H) now)) (\<lambda>snapshot.
           let v = validate_planfile E (Some snapshot) p in
           ebind (of_option Zod_error (simulate_planfile E p (Some v) profile None)) (\<lambda>r.
           let status = imported_status v r;
               revision = \<lparr>pe_revision_id = revision_id E [(''session_id'', JStr sid),
                         (''digest'', jundef JStr (pf_canonical_plan_digest p)), (''now'', JStr now)],
                      pe_session_id = sid, pe_source = nullish source Edit_external_file, pe_previous_digest = None,
                      pe_new_digest = pf_canonical_plan_digest p,
                      pe_status = (if status = Build_ready then Edit_accepted
                                   else if status = Build_needs_input then Edit_needs_input else Edit_rejected),
                      pe_summary = ''Imported Planfile '' @ pf_plan_id p @ ''.'', pe_created_at = now,
                      pe_artifact_refs = []\<rparr>
           in if \<not> planfile_revision_ok E revision then ethrow Zod_error
              else ebind (if status = Build_yielded then ereturn None
                          else of_option Zod_error (map_option Some (edit_lifecycle H p sid
                            (if vl_ok v then V_passed else V_failed) (sm_status r)
                            (if status = Build_ready then PS_ready else PS_draft)))) (\<lambda>plan.
                on_sessions (save_builder_session E default_builder_root
                  \<lparr>bs_session_id = sid, bs_prompt_source = From_planfile,
                   bs_original_input = nullish original (''Imported Planfile '' @ pf_plan_id p),
                   bs_intent_frame = None, bs_planfile = plan, bs_simulation = Some r, bs_validation = Some v,
                   bs_pending = sm_questions r, bs_answered = [], bs_revisions = [], bs_planfile_revisions = [revision],
                   bs_status = status,
                   bs_yield_reason = (if status = Build_yielded then Some ''Imported Planfile did not validate.'' else None),
                   bs_created_at = now, bs_updated_at = now\<rparr>))))))"

section \<open>What an edit can change\<close>

lemma with_artifacts_sessions: "xw_sessions (snd (with_artifacts H s r markdown source accepted w)) = xw_sessions w"
  by (simp add: with_artifacts_def Let_def split: prod.splits sum.splits option.splits)

lemma with_artifacts_step:
  "with_artifacts H s r markdown source accepted w = (x, w') \<Longrightarrow> xw_sessions w' = xw_sessions w"
  using with_artifacts_sessions [of H s r markdown source accepted w] by simp

lemma save_outcome:
  "(\<exists>d'. save_builder_session E root s d = (Inr s, d')) \<or> save_builder_session E root s d = (Inl Zod_error, d)"
  by (simp add: save_builder_session_def)

definition revised :: "edit_host \<Rightarrow> builder_session \<Rightarrow> planfile_revision \<Rightarrow> builder_session" where
  "revised H s revision =
     s\<lparr>bs_planfile_revisions := bs_planfile_revisions s @ [revision], bs_updated_at := xh_now H\<rparr>"

lemma save_revised_cases:
  "case save_revised H s revision report w of
     (Inl _, w') \<Rightarrow> xw_sessions w' = xw_sessions w
   | (Inr r, w') \<Rightarrow> r = report \<and>
       save_builder_session (xh_env H) default_builder_root (revised H s revision) (xw_sessions w) =
         (Inr (revised H s revision), xw_sessions w')"
  using save_outcome [of "xh_env H" default_builder_root "revised H s revision" "xw_sessions w"]
  by (auto simp: save_revised_def revised_def ebind_run on_sessions_def Let_def)

text \<open>What holds of the plan an accepted edit installs, beside the one before.\<close>

definition confirmed :: "edit_options \<Rightarrow> planfile \<Rightarrow> planfile \<Rightarrow> bool" where
  "confirmed o1 p q =
     ((xo_allow_new_capabilities o1 = Some True \<or> set (capability_refs q) \<subseteq> set (capability_refs p)) \<and>
      (xo_allow_risk_increase o1 = Some True \<or> list_all (risk_kept p) (pf_nodes q)) \<and>
      (xo_allow_schedule_change o1 = Some True \<or> same_json (schedule_value p) (schedule_value q)) \<and>
      list_all (\<lambda>n. n_risk_level n \<noteq> Risk_external_side_effect \<or> n_approval_required n) (pf_nodes q))"

lemma safety_errors_iff:
  "safety_errors_for (diff_of p q r) q o1 now = [] \<longleftrightarrow> confirmed o1 p q"
proof -
  let ?d = "diff_of p q r"
  have single: "(if c then [x] else []) = [] \<longleftrightarrow> \<not> c" for c and x :: structured_error by simp
  have "set (df_capabilities_added ?d) = set (capability_refs q) - set (capability_refs p)"
    by (simp only: diff_of_fields) auto
  then have capabilities: "df_capabilities_added ?d = [] \<longleftrightarrow> set (capability_refs q) \<subseteq> set (capability_refs p)"
    by (metis Diff_eq_empty_iff set_empty)
  have schedule: "df_schedule_changed ?d = None \<longleftrightarrow> same_json (schedule_value p) (schedule_value q)"
    by (simp add: diff_of_fields Let_def)
  have external: "\<not> list_ex (\<lambda>n. n_risk_level n = Risk_external_side_effect \<and> \<not> n_approval_required n) (pf_nodes q) \<longleftrightarrow>
      list_all (\<lambda>n. n_risk_level n \<noteq> Risk_external_side_effect \<or> n_approval_required n) (pf_nodes q)"
    by (auto simp: list_ex_iff list_all_iff)
  show ?thesis
    unfolding safety_errors_for_def Let_def append_is_Nil_conv single confirmed_def external [symmetric]
      no_increase_iff [of p q r, symmetric] capabilities [symmetric] schedule [symmetric]
    by satx
qed

lemma find_edit_facts:
  assumes f: "find_edit H previous p profile o1 = Some f" and ok: "planfile_ok (xh_env H) p"
    and none: "en_errors f = []"
  shows "confirmed o1 previous p" "en_safety f = []"
    "\<exists>sn. full_snapshot (xh_control H) (xh_now H) = Some sn \<and> planfile_issues (Some sn) p = [] \<and>
       en_validation f = validate_planfile (xh_env H) (Some sn) p"
    "\<exists>r. en_simulation f = Some r"
    "en_simulation f = Some r \<Longrightarrow> sm_status r \<noteq> Sim_unsafe \<Longrightarrow> \<not> some_node_at_risk p Risk_destructive"
proof -
  let ?E = "xh_env H"
  let ?now = "xh_now H"
  obtain d1 d2 d sn sim where d: "diff_planfiles ?E previous p = Some d"
    and sn: "full_snapshot (xh_control H) ?now = Some sn"
    and sim': "(if edit_validation_errors H (validate_planfile ?E (Some sn) p) (safety_errors_for d p o1 ?now) \<noteq> []
        then Some None
        else map_option Some (simulate_planfile ?E p (Some (validate_planfile ?E (Some sn) p)) profile None)) = Some sim"
    and found: "\<lparr>en_previous_digest = d1, en_new_digest = d2, en_diff = d,
       en_validation = validate_planfile ?E (Some sn) p, en_safety = safety_errors_for d p o1 ?now,
       en_errors = edit_validation_errors H (validate_planfile ?E (Some sn) p) (safety_errors_for d p o1 ?now),
       en_simulation = sim\<rparr> = f"
    using f unfolding find_edit_def Let_def bind_eq_Some_conv option.inject by blast
  have safety: "en_safety f = safety_errors_for d p o1 ?now" and v: "en_validation f = validate_planfile ?E (Some sn) p"
    and errors: "en_errors f = edit_validation_errors H (en_validation f) (en_safety f)" and s: "en_simulation f = sim"
    unfolding found [symmetric] by simp_all
  have sim: "(if en_errors f \<noteq> [] then Some None
        else map_option Some (simulate_planfile ?E p (Some (en_validation f)) profile None)) = Some (en_simulation f)"
    unfolding errors safety v s by (rule sim')
  obtain rs where r: "d = diff_of previous p rs" using diff_planfiles_Some [OF d] by blast
  show "en_safety f = []" using errors none by (simp add: edit_validation_errors_def)
  then show "confirmed o1 previous p" using safety safety_errors_iff r by simp
  have issues: "vl_issues (en_validation f) = planfile_issues (Some sn) p"
    using ok v by (simp add: validate_planfile_def Let_def)
  have "filter (\<lambda>i. pi_severity i = Sev_error) (planfile_issues (Some sn) p) = []"
    using errors none issues by (simp add: edit_validation_errors_def)
  then have "planfile_issues (Some sn) p = []"
    using all_error_severity [of _ "Some sn" p] by (auto simp: filter_empty_conv)
  with sn v show "\<exists>sn. full_snapshot (xh_control H) (xh_now H) = Some sn \<and> planfile_issues (Some sn) p = [] \<and>
       en_validation f = validate_planfile ?E (Some sn) p" by blast
  have some: "en_simulation f = Some (simulation_of ?E p (Some (en_validation f)) (requirements_of p profile None) None)"
    using sim none simulation_total [OF ok, of "Some (en_validation f)" profile None] by simp
  then show "\<exists>r. en_simulation f = Some r" by blast
  have "validator_errors (Some (en_validation f)) = []"
    using \<open>planfile_issues (Some sn) p = []\<close> issues by (simp add: validator_errors_def)
  then show "en_simulation f = Some r \<Longrightarrow> sm_status r \<noteq> Sim_unsafe \<Longrightarrow> \<not> some_node_at_risk p Risk_destructive"
    using some by (auto simp: simulation_of_def Let_def simulation_status_of_def)
qed

lemma edit_lifecycle_keeps:
  assumes "edit_lifecycle H p i v r st = Some q"
  shows "planfile_ok (xh_env H) q" "pf_nodes q = pf_nodes p" "pf_edges q = pf_edges p"
    "pf_execution_context q = pf_execution_context p" "planfile_issues snapshot q = planfile_issues snapshot p"
proof -
  note facts = parsed_with_digest_Some [OF assms [unfolded edit_lifecycle_def]]
  show "planfile_ok (xh_env H) q" by (rule facts(2))
  show parts: "pf_nodes q = pf_nodes p" "pf_edges q = pf_edges p" "pf_execution_context q = pf_execution_context p"
    using facts(3) by simp_all
  show "planfile_issues snapshot q = planfile_issues snapshot p"
    by (rule planfile_issues_cong) (simp_all add: facts(3) allow_fixtures_def allow_mock_def context_value_def)
qed

lemma confirmed_digest:
  "confirmed o1 (p\<lparr>pf_canonical_plan_digest := d\<rparr>) q = confirmed o1 p q"
proof -
  have "risk_kept (p\<lparr>pf_canonical_plan_digest := d\<rparr>) = risk_kept p"
    by (intro ext) (simp add: risk_kept_def)
  then show ?thesis by (simp add: confirmed_def capability_refs_def schedule_value_def)
qed

lemma confirmed_later:
  "pf_nodes q' = pf_nodes q \<Longrightarrow> pf_execution_context q' = pf_execution_context q \<Longrightarrow>
   confirmed o1 p q' = confirmed o1 p q"
  by (simp add: confirmed_def capability_refs_def schedule_value_def)

lemma read_edited_plan_ok:
  assumes "read_edited_plan H markdown = Inr p"
  shows "planfile_ok (xh_env H) p"
proof -
  from assms obtain p0 where "with_canonical_plan_digest (xh_env H) p0 = Some p"
    by (auto simp: read_edited_plan_def split: sum.splits option.splits)
  from with_digest_SomeD [OF this] show ?thesis by blast
qed

text \<open>What an accepted edit leaves, and what a refused one does.\<close>

definition edit_installed ::
    "edit_host \<Rightarrow> planfile \<Rightarrow> string \<Rightarrow> edit_options \<Rightarrow> builder_session \<Rightarrow> bool" where
  "edit_installed H current markdown o1 s \<longleftrightarrow>
     (\<exists>p q sn. read_edited_plan H markdown = Inr p \<and> bs_planfile s = Some q \<and> pf_nodes q = pf_nodes p \<and>
        pf_edges q = pf_edges p \<and> pf_execution_context q = pf_execution_context p \<and>
        full_snapshot (xh_control H) (xh_now H) = Some sn \<and> vl_ok (validate_planfile (xh_env H) (Some sn) q) \<and>
        confirmed o1 current q \<and> \<not> some_node_at_risk q Risk_destructive)"

definition edit_outcome ::
    "edit_host \<Rightarrow> builder_session \<Rightarrow> planfile \<Rightarrow> string \<Rightarrow> edit_options \<Rightarrow> update_report \<Rightarrow> session_dir \<Rightarrow> session_dir
      \<Rightarrow> bool" where
  "edit_outcome H s current markdown o1 report d d' \<longleftrightarrow>
     (\<exists>s' revision. save_builder_session (xh_env H) default_builder_root s' d = (Inr s', d') \<and>
        bs_session_id s' = bs_session_id s \<and>
        bs_planfile_revisions s' = bs_planfile_revisions s @ [revision] \<and>
        pe_artifact_refs revision = ug_artifact_refs report \<and>
        (if pe_status revision = Edit_rejected then s' = revised H s revision
         else edit_installed H current markdown o1 s'))"

lemma parse_failed_outcome:
  "case parse_failed H s digest markdown source e w of
     (Inl _, w') \<Rightarrow> xw_sessions w' = xw_sessions w
   | (Inr report, w') \<Rightarrow> edit_outcome H s current md o1 report (xw_sessions w) (xw_sessions w')"
proof -
  let ?E = "xh_env H" and ?now = "xh_now H"
  let ?base = "edit_base_report (bs_session_id s) (Some digest) False Val_not_run (bs_status s)
             [edit_error INVALID_PLAN (error_text (xh_builder H) e) ?now None]"
  show ?thesis
  proof (cases "checked_update_report ?E ?base")
    case None
    then show ?thesis by (simp add: parse_failed_def Let_def ebind_run)
  next
    case (Some r)
    obtain x w1 where a: "with_artifacts H s r markdown source False w = (x, w1)" by fastforce
    have same: "xw_sessions w1 = xw_sessions w" by (rule with_artifacts_step [OF a])
    show ?thesis
    proof (cases x)
      case (Inl e')
      then show ?thesis using Some a same by (simp add: parse_failed_def Let_def ebind_run)
    next
      case (Inr r')
      define v where "v = \<lparr>pe_revision_id = revision_id ?E [(''session_id'', JStr (bs_session_id s)),
               (''previousDigest'', JStr digest), (''now'', JStr ?now), (''status'', JStr ''parse_failed'')],
           pe_session_id = bs_session_id s, pe_source = source, pe_previous_digest = Some digest,
           pe_new_digest = None, pe_status = Edit_rejected,
           pe_summary = ''Rejected edited Planfile because parsing failed.'', pe_created_at = ?now,
           pe_artifact_refs = ug_artifact_refs r'\<rparr>"
      have run: "parse_failed H s digest markdown source e w = save_revised H s v r' w1"
        using Some a Inr by (simp add: parse_failed_def Let_def ebind_run v_def)
      have v: "pe_status v = Edit_rejected" "pe_artifact_refs v = ug_artifact_refs r'" by (simp_all add: v_def)
      show ?thesis
        unfolding run using save_revised_cases [where H = H and s = s and revision = v and report = r' and w = w1] v same
        by (auto simp: edit_outcome_def revised_def split: prod.splits sum.splits
            intro!: exI [of _ "revised H s v"] exI [of _ v])
    qed
  qed
qed

lemma accepted_edit_installed:
  assumes p: "read_edited_plan H markdown = Inr p" and c: "with_canonical_plan_digest (xh_env H) current = Some previous"
    and f: "find_edit H previous p profile o1 = Some f" and acc: "finding_accepted f"
    and r: "en_simulation f = Some r" and q: "edit_lifecycle H p sid v st status = Some q"
  shows "edit_installed H current markdown o1 (revised H
    (s\<lparr>bs_planfile := Some q, bs_validation := x, bs_simulation := y, bs_pending := z, bs_status := b\<rparr>) revision)"
proof -
  have none: "en_errors f = []" and status: "sm_status r \<noteq> Sim_unsafe"
    using acc r by (simp_all add: finding_accepted_def)
  note facts = find_edit_facts [OF f read_edited_plan_ok [OF p] none]
  note kept = edit_lifecycle_keeps [OF q]
  obtain sn where sn: "full_snapshot (xh_control H) (xh_now H) = Some sn" and issues: "planfile_issues (Some sn) p = []"
    using facts(3) by blast
  have valid: "vl_ok (validate_planfile (xh_env H) (Some sn) q)"
    using issues kept(1,5) by (simp add: validate_planfile_def Let_def)
  obtain d where previous: "previous = current\<lparr>pf_canonical_plan_digest := d\<rparr>"
    using with_digest_SomeD [OF c] by blast
  have confirmed: "confirmed o1 current q"
    using facts(1) confirmed_later [OF kept(2,4)] unfolding previous confirmed_digest by simp
  have "\<not> some_node_at_risk q Risk_destructive"
    using facts(5) [OF r status] kept(2) by (simp add: some_node_at_risk_def)
  moreover have "bs_planfile (revised H
    (s\<lparr>bs_planfile := Some q, bs_validation := x, bs_simulation := y, bs_pending := z, bs_status := b\<rparr>) revision) = Some q"
    by (simp add: revised_def)
  ultimately show ?thesis unfolding edit_installed_def using p kept(2,3,4) sn valid confirmed by blast
qed

lemma finding_revision_facts [simp]:
  "pe_status (finding_revision H s p source f refs) = Edit_rejected \<longleftrightarrow> \<not> finding_accepted f"
  "pe_artifact_refs (finding_revision H s p source f refs) = refs"
  by (simp_all add: finding_revision_def)

lemma saved_outcome:
  assumes "edit_accepted = (pe_status revision \<noteq> Edit_rejected)"
    and "pe_artifact_refs revision = ug_artifact_refs report"
    and "bs_session_id t = bs_session_id s" and "bs_planfile_revisions t = bs_planfile_revisions s"
    and "edit_accepted \<longrightarrow> edit_installed H current markdown o1 (revised H t revision)"
    and "\<not> edit_accepted \<longrightarrow> t = s"
  shows "case save_revised H t revision report w of
     (Inl _, w') \<Rightarrow> xw_sessions w' = xw_sessions w
   | (Inr report, w') \<Rightarrow> edit_outcome H s current markdown o1 report (xw_sessions w) (xw_sessions w')"
  using save_revised_cases [where H = H and s = t and revision = revision and report = report and w = w] assms
  by (auto simp: edit_outcome_def revised_def split: prod.splits sum.splits
      intro!: exI [of _ "revised H t revision"] exI [of _ revision])

lemma found_edit_outcome:
  assumes p: "read_edited_plan H markdown = Inr p" and c: "with_canonical_plan_digest (xh_env H) current = Some previous"
    and f: "find_edit H previous p profile o1 = Some f"
    and refs: "ug_artifact_refs report = refs"
    and run: "tail = (case (finding_accepted f, en_simulation f) of
      (True, Some r) \<Rightarrow>
        if \<not> planfile_revision_ok (xh_env H) (finding_revision H s p source f refs) then ethrow Zod_error
        else ebind (of_option Zod_error (edit_lifecycle H p (bs_session_id s) v (sm_status r) st)) (\<lambda>q.
          save_revised H (s\<lparr>bs_planfile := Some q, bs_validation := Some (en_validation f), bs_simulation := Some r,
            bs_pending := sm_questions r, bs_status := finding_status s f\<rparr>) (finding_revision H s p source f refs) report)
    | _ \<Rightarrow> save_revised H s (finding_revision H s p source f refs) report)"
  shows "case tail w of
     (Inl _, w') \<Rightarrow> xw_sessions w' = xw_sessions w
   | (Inr report, w') \<Rightarrow> edit_outcome H s current markdown o1 report (xw_sessions w) (xw_sessions w')"
proof (cases "finding_accepted f")
  case False
  have "tail = save_revised H s (finding_revision H s p source f refs) report"
    unfolding run using False by simp
  then show ?thesis using saved_outcome [where edit_accepted = False and report = report
      and revision = "finding_revision H s p source f refs" and t = s and s = s] False refs by simp
next
  case True
  then have "en_errors f = []" by (simp add: finding_accepted_def)
  from find_edit_facts(4) [OF f read_edited_plan_ok [OF p] this]
  obtain r where r: "en_simulation f = Some r" by blast
  show ?thesis
  proof (cases "edit_lifecycle H p (bs_session_id s) v (sm_status r) st")
    case None
    then show ?thesis unfolding run using True r by (simp add: ebind_run)
  next
    case (Some q)
    let ?t = "s\<lparr>bs_planfile := Some q, bs_validation := Some (en_validation f), bs_simulation := Some r,
            bs_pending := sm_questions r, bs_status := finding_status s f\<rparr>"
    let ?v = "finding_revision H s p source f refs"
    note saved = saved_outcome [where edit_accepted = True and revision = ?v and report = report and t = ?t and s = s and w = w]
    show ?thesis
      unfolding run using True r Some refs saved accepted_edit_installed [OF p c f True r Some]
      by (simp add: ebind_run)
  qed
qed

text \<open>C33: Reconciling an edited plan document with its session either throws, and then all sessions are as
  they were; or it saves the session with one more revision. A rejected edit leaves everything of the
  session but its history and time stamp. An accepted edit installs the plan of the document: it is
  valid for all capabilities there are, has no destructive node, every node with external side effects
  needs an approval, and beside the plan before it has no capability, risk or schedule that was not
  allowed to be new.\<close>
theorem edit_safely_reconciled:
  "case reconcile_for_session H s current markdown source profile o1 w of
     (Inl _, w') \<Rightarrow> xw_sessions w' = xw_sessions w
   | (Inr report, w') \<Rightarrow> edit_outcome H s current markdown o1 report (xw_sessions w) (xw_sessions w')"
proof (cases "with_canonical_plan_digest (xh_env H) current")
  case None
  then show ?thesis by (simp add: reconcile_for_session_def Let_def ebind_run)
next
  case c: (Some previous)
  obtain digest where digest: "canonical_plan_digest (xh_env H) previous = Some digest"
    using with_digest_SomeD [OF c] by (auto simp: canonical_plan_digest_def canonical_plan_object_def)
  note start = reconcile_for_session_def Let_def ebind_run c digest
  show ?thesis
  proof (cases "read_edited_plan H markdown")
    case (Inl e)
    have "reconcile_for_session H s current markdown source profile o1 w = parse_failed H s digest markdown source e w"
      by (simp add: start Inl)
    then show ?thesis using parse_failed_outcome [where H = H and s = s and md = markdown and w = w] by simp
  next
    case p: (Inr p)
    show ?thesis
    proof (cases "find_edit H previous p profile o1")
      case None
      then show ?thesis by (simp add: start p)
    next
      case f: (Some f)
      show ?thesis
      proof (cases "checked_update_report (xh_env H) (finding_report H s p f)")
        case None
        then show ?thesis by (simp add: start p f)
      next
        case r: (Some r)
        obtain x w1 where a: "with_artifacts H s r markdown source (finding_accepted f) w = (x, w1)" by fastforce
        have same: "xw_sessions w1 = xw_sessions w" by (rule with_artifacts_step [OF a])
        show ?thesis
        proof (cases x)
          case (Inl e)
          then show ?thesis using a same by (simp add: start p f r)
        next
          case (Inr report)
          note out = found_edit_outcome [OF p c f HOL.refl HOL.refl, where w = w1]
          show ?thesis
            using out [where report = report and s = s and source = source
                and v = "if vl_ok (en_validation f) then V_passed else V_failed"
                and st = "if finding_status s f = Build_ready then PS_ready else PS_draft"]
            unfolding same by (simp only: start p f r a Inr of_option_def option.case sum.case prod.case ereturn_def)
        qed
      qed
    qed
  qed
qed

end
