(* ===== verification/Approval_Store.thy ===== *)
theory Approval_Store
  imports Schemas Keyed_Store
begin

text \<open>
  The records a task under reconciliation passes around (\<open>schemas/open-cot.ts\<close> and
  \<open>schemas/reconciliation.ts\<close>), the tokens of \<open>approval/approval-token.ts\<close> and the in-memory store of
  \<open>approval/approval-store.ts\<close>. Envelopes of repository continuations are not modelled.
\<close>

section \<open>Cognitive artifacts\<close>

datatype trace_kind = Step_interpretation | Step_constraint | Step_hypothesis | Step_verification | Step_yield
datatype trace_visibility = Visible_summary | Visible_evidence | Visible_redacted
datatype certainty = Certain_low | Certain_medium | Certain_high

text \<open>A confidence, a number from 0 to 1, is given in hundredths.\<close>

record trace_step =
  ts_step_id :: string
  ts_kind :: trace_kind
  ts_content :: string
  ts_visibility :: trace_visibility
  ts_redaction_reason :: "string option"
  ts_confidence :: "int option"

record reasoning_trace =
  tx_evidence_mode :: trace_visibility
  tx_summary :: string
  tx_steps :: "trace_step list"
  tx_sensitive :: "bool option"
  tx_redaction_reason :: "string option"

record cognitive_artifact =
  ca_artifact_id :: string
  ca_snapshot_id :: string
  ca_objective :: string
  ca_request_boundaries :: "string list"
  ca_allowed_scope :: "string list"
  ca_prohibited_scope :: "string list"
  ca_assumptions :: "string list"
  ca_trace :: reasoning_trace
  ca_intents :: "execution_intent list"
  ca_observations :: "observation list"
  ca_uncertainty :: certainty
  ca_explanation :: string
  ca_yield_reason :: "string option"

definition execution_intent_ok :: "execution_intent \<Rightarrow> bool" where
  "execution_intent_ok i =
     (nonempty (ei_intent_id i) \<and> nonempty (ei_snapshot_id i) \<and> nonempty (ei_endpoint_id i) \<and>
      nonempty (ei_capability_name i) \<and> is_hex64 (ei_capability_digest i) \<and> nonempty (ei_idempotency_key i))"

definition trace_step_ok :: "trace_step \<Rightarrow> bool" where
  "trace_step_ok s = (nonempty (ts_step_id s) \<and> opt_ok (\<lambda>c. 0 \<le> c \<and> c \<le> 100) (ts_confidence s))"

definition cognitive_artifact_ok :: "env \<Rightarrow> cognitive_artifact \<Rightarrow> bool" where
  "cognitive_artifact_ok E a =
     (nonempty (ca_artifact_id a) \<and> nonempty (ca_snapshot_id a) \<and> list_all trace_step_ok (tx_steps (ca_trace a)) \<and>
      list_all execution_intent_ok (ca_intents a) \<and> list_all (observation_ok E) (ca_observations a))"

section \<open>Tasks, approvals and continuations\<close>

definition scoped_task_ok :: "scoped_task \<Rightarrow> bool" where
  "scoped_task_ok t = (nonempty (tk_task_id t) \<and> nonempty (tk_title t) \<and> nonempty (tk_objective t))"

definition execution_bounds_ok :: "execution_bounds \<Rightarrow> bool" where
  "execution_bounds_ok b = (1 \<le> eb_max_tasks_per_project b)"

record task_approval_request =
  tq_id :: string
  tq_task_id :: string
  tq_project_id :: string
  tq_intent_id :: string
  tq_risk_level :: risk_level
  tq_capability :: string
  tq_task_run_id :: string
  tq_requested_at :: string
  tq_prompt :: string
  tq_trace_id :: string

definition task_approval_request_ok :: "env \<Rightarrow> task_approval_request \<Rightarrow> bool" where
  "task_approval_request_ok E r =
     (nonempty (tq_id r) \<and> nonempty (tq_task_id r) \<and> nonempty (tq_project_id r) \<and> nonempty (tq_intent_id r) \<and>
      nonempty (tq_capability r) \<and> nonempty (tq_task_run_id r) \<and> datetime_ok E (tq_requested_at r) \<and>
      nonempty (tq_trace_id r))"

datatype approval_state = Decision_requested | Decision_approved | Decision_rejected

record task_approval =
  ad_id :: string
  ad_task_id :: string
  ad_project_id :: string
  ad_intent_id :: string
  ad_risk_level :: risk_level
  ad_capability :: string
  ad_requested_at :: string
  ad_decision :: approval_state
  ad_approved_by :: "string option"
  ad_rejected_by :: "string option"
  ad_decided_at :: "string option"
  ad_reason :: "string option"
  ad_token_hash :: "string option"
  ad_trace_id :: string

definition task_approval_ok :: "env \<Rightarrow> task_approval \<Rightarrow> bool" where
  "task_approval_ok E d =
     (nonempty (ad_id d) \<and> nonempty (ad_task_id d) \<and> nonempty (ad_project_id d) \<and> nonempty (ad_intent_id d) \<and>
      nonempty (ad_capability d) \<and> datetime_ok E (ad_requested_at d) \<and> opt_ok nonempty (ad_approved_by d) \<and>
      opt_ok nonempty (ad_rejected_by d) \<and> opt_ok (datetime_ok E) (ad_decided_at d) \<and>
      opt_ok nonempty (ad_token_hash d) \<and> nonempty (ad_trace_id d))"

record continuation_context =
  cc_request :: task_approval_request
  cc_project_id :: string
  cc_project_run_id :: string
  cc_task_run_id :: string
  cc_task :: scoped_task
  cc_delegation :: delegation_context
  cc_bounds :: execution_bounds
  cc_snapshot :: capability_snapshot
  cc_artifact :: cognitive_artifact
  cc_intent :: execution_intent

definition continuation_context_ok :: "env \<Rightarrow> continuation_context \<Rightarrow> bool" where
  "continuation_context_ok E c =
     (task_approval_request_ok E (cc_request c) \<and> nonempty (cc_project_id c) \<and> nonempty (cc_project_run_id c) \<and>
      nonempty (cc_task_run_id c) \<and> scoped_task_ok (cc_task c) \<and> delegation_context_ok E (cc_delegation c) \<and>
      execution_bounds_ok (cc_bounds c) \<and> capability_snapshot_ok E (cc_snapshot c) \<and>
      cognitive_artifact_ok E (cc_artifact c) \<and> execution_intent_ok (cc_intent c))"

section \<open>Tokens\<close>

text \<open>\<open>secret\<close> is the signing secret the environment configures.\<close>

definition approval_token_for_request :: "env \<Rightarrow> string \<Rightarrow> string \<Rightarrow> string" where
  "approval_token_for_request E secret request_id = ''olap_'' @ take 48 (hmac_sha256_hex E secret request_id)"

definition approval_token_hash :: "env \<Rightarrow> string \<Rightarrow> string \<Rightarrow> string \<Rightarrow> string" where
  "approval_token_hash E secret request_id token =
     hmac_sha256_hex E secret (request_id @ [char_of (0::nat)] @ token)"

text \<open>\<open>Buffer.from(s, 'hex')\<close> decodes pairs of digits up to the first pair that is not hexadecimal.\<close>

definition hex_digit :: "char \<Rightarrow> nat option" where
  "hex_digit c =
     (let n = of_char c :: nat in
      if 48 \<le> n \<and> n \<le> 57 then Some (n - 48)
      else if 97 \<le> n \<and> n \<le> 102 then Some (n - 87)
      else if 65 \<le> n \<and> n \<le> 70 then Some (n - 55) else None)"

fun hex_bytes :: "string \<Rightarrow> nat list" where
  "hex_bytes (a # b # cs) =
     (case (hex_digit a, hex_digit b) of
        (Some x, Some y) \<Rightarrow> (16 * x + y) # hex_bytes cs
      | _ \<Rightarrow> [])"
| "hex_bytes _ = []"

definition verify_approval_token :: "env \<Rightarrow> string \<Rightarrow> string \<Rightarrow> string \<Rightarrow> string \<Rightarrow> bool" where
  "verify_approval_token E secret request_id token expected_hash =
     (let actual = hex_bytes (approval_token_hash E secret request_id token); expected = hex_bytes expected_hash
      in length actual = length expected \<and> actual = expected)"

section \<open>The store\<close>

record approval_store =
  as_approvals :: "(string \<times> task_approval) list"
  as_continuations :: "(string \<times> continuation_context) list"

definition requested_approval :: "env \<Rightarrow> string \<Rightarrow> task_approval_request \<Rightarrow> task_approval" where
  "requested_approval E secret r =
     \<lparr>ad_id = tq_id r, ad_task_id = tq_task_id r, ad_project_id = tq_project_id r, ad_intent_id = tq_intent_id r,
      ad_risk_level = tq_risk_level r, ad_capability = tq_capability r, ad_requested_at = tq_requested_at r,
      ad_decision = Decision_requested, ad_approved_by = None, ad_rejected_by = None, ad_decided_at = None,
      ad_reason = None,
      ad_token_hash = Some (approval_token_hash E secret (tq_id r) (approval_token_for_request E secret (tq_id r))),
      ad_trace_id = tq_trace_id r\<rparr>"

definition put_approval :: "env \<Rightarrow> task_approval \<Rightarrow> approval_store \<Rightarrow> approval_store option" where
  "put_approval E d s =
     (if task_approval_ok E d then Some (s\<lparr>as_approvals := AList.update (ad_id d) d (as_approvals s)\<rparr>) else None)"

definition create_approval_request ::
    "env \<Rightarrow> string \<Rightarrow> task_approval_request \<Rightarrow> approval_store \<Rightarrow> (task_approval \<times> approval_store) option" where
  "create_approval_request E secret r s =
     (if \<not> task_approval_request_ok E r then None
      else map_option (\<lambda>s'. (requested_approval E secret r, s')) (put_approval E (requested_approval E secret r) s))"

definition get_approval :: "approval_store \<Rightarrow> string \<Rightarrow> task_approval option" where
  "get_approval s request_id = map_of (as_approvals s) request_id"

definition get_continuation_context :: "approval_store \<Rightarrow> string \<Rightarrow> continuation_context option" where
  "get_continuation_context s request_id = map_of (as_continuations s) request_id"

definition get_approval_for_task :: "approval_store \<Rightarrow> string \<Rightarrow> task_approval option" where
  "get_approval_for_task s task =
     List.find (\<lambda>d. ad_task_id d = task \<or> map_option cc_task_run_id (get_continuation_context s (ad_id d)) = Some task)
       (map snd (as_approvals s))"

text \<open>\<open>approveRequest\<close> and \<open>rejectRequest\<close>: nothing for an unknown request, otherwise the new decision, or
  a thrown error when it does not fit the schema.\<close>

definition approve_request ::
    "env \<Rightarrow> string \<Rightarrow> string \<Rightarrow> string \<Rightarrow> string \<Rightarrow> approval_store
      \<Rightarrow> (task_approval \<times> approval_store) option option" where
  "approve_request E request_id approved_by decided_at reason s =
     map_option (\<lambda>d.
       let d' = d\<lparr>ad_decision := Decision_approved, ad_decided_at := Some decided_at,
                  ad_approved_by := Some approved_by, ad_reason := Some reason\<rparr>
       in if task_approval_ok E d'
          then Some (d', s\<lparr>as_approvals := AList.update request_id d' (as_approvals s)\<rparr>) else None)
     (get_approval s request_id)"

definition reject_request ::
    "env \<Rightarrow> string \<Rightarrow> string \<Rightarrow> string \<Rightarrow> string \<Rightarrow> approval_store
      \<Rightarrow> (task_approval \<times> approval_store) option option" where
  "reject_request E request_id rejected_by decided_at reason s =
     map_option (\<lambda>d.
       let d' = d\<lparr>ad_decision := Decision_rejected, ad_decided_at := Some decided_at,
                  ad_rejected_by := Some rejected_by, ad_reason := Some reason\<rparr>
       in if task_approval_ok E d'
          then Some (d', s\<lparr>as_approvals := AList.update request_id d' (as_approvals s)\<rparr>) else None)
     (get_approval s request_id)"

definition record_continuation_context ::
    "env \<Rightarrow> continuation_context \<Rightarrow> approval_store \<Rightarrow> approval_store option" where
  "record_continuation_context E c s =
     (if continuation_context_ok E c
      then Some (s\<lparr>as_continuations := AList.update (tq_id (cc_request c)) c (as_continuations s)\<rparr>) else None)"

section \<open>The store as a keyed store\<close>

interpretation task_approvals: keyed_store "\<lambda>s d. put_approval E d s" get_approval ad_id "task_approval_ok E" for E
  by unfold_locales (auto simp: put_approval_def get_approval_def update_conv' split: if_splits)

interpretation task_continuations: keyed_store "\<lambda>s c. record_continuation_context E c s" get_continuation_context
    "\<lambda>c. tq_id (cc_request c)" "continuation_context_ok E" for E
  by unfold_locales (auto simp: record_continuation_context_def get_continuation_context_def update_conv' split: if_splits)

section \<open>Tokens are verified by their digest\<close>

definition low_digit :: "char \<Rightarrow> bool" where
  "low_digit c = (let n = of_char c :: nat in (48 \<le> n \<and> n \<le> 57) \<or> (97 \<le> n \<and> n \<le> 102))"

lemma low_digit_cases:
  assumes "low_digit c"
  shows "\<exists>x < 16. hex_digit c = Some x \<and> of_char c = (if x < 10 then x + 48 else x + (87::nat))"
  using assms by (auto simp: low_digit_def hex_digit_def Let_def intro!: exI [of _ "of_char c - (if of_char c \<le> (57::nat) then 48 else 87)"])

lemma hex_digit_inject:
  assumes "low_digit c" and "low_digit d" and "hex_digit c = hex_digit d"
  shows "c = d"
proof -
  obtain x where x: "hex_digit c = Some x" "of_char c = (if x < 10 then x + 48 else x + (87::nat))"
    using low_digit_cases [OF assms(1)] by blast
  obtain y where y: "hex_digit d = Some y" "of_char d = (if y < 10 then y + 48 else y + (87::nat))"
    using low_digit_cases [OF assms(2)] by blast
  have "x = y" using assms(3) unfolding x(1) y(1) by (rule option.inject [THEN iffD1])
  then have "(of_char c :: nat) = of_char d" unfolding x(2) y(2) by (rule arg_cong)
  then have "char_of (of_char c :: nat) = (char_of (of_char d :: nat) :: char)" by (rule arg_cong)
  then show ?thesis unfolding char_of_char .
qed

lemma byte_digits:
  fixes x y :: nat
  assumes "y < 16" and "y' < 16"
  shows "16 * x + y = 16 * x' + y' \<longleftrightarrow> x = x' \<and> y = y'"
proof
  assume eq: "16 * x + y = 16 * x' + y'"
  have "(16 * x + y) mod 16 = y" "(16 * x' + y') mod 16 = y'" using assms by simp_all
  with eq show "x = x' \<and> y = y'" by simp
qed simp

lemma hex_bytes_inject:
  assumes "list_all low_digit s" and "list_all low_digit t" and "even (length s)" and "even (length t)"
  shows "hex_bytes s = hex_bytes t \<longleftrightarrow> s = t"
  using assms
proof (induction s arbitrary: t rule: hex_bytes.induct)
  case (1 a b cs)
  obtain x y where x: "hex_digit a = Some x" "x < 16" and y: "hex_digit b = Some y" "y < 16"
    using low_digit_cases [of a] low_digit_cases [of b] 1(2) by auto
  show ?case
  proof (cases t rule: hex_bytes.cases)
    case (1 a' b' cs')
    have low: "low_digit a" "low_digit b" "low_digit a'" "low_digit b'"
      using "1.prems"(1,2) unfolding 1 list.pred_inject by iprover+
    obtain x' y' where x': "hex_digit a' = Some x'" "x' < 16" and y': "hex_digit b' = Some y'" "y' < 16"
      using low_digit_cases [OF low(3)] low_digit_cases [OF low(4)] by blast
    have sum: "16 * x + y = 16 * x' + y' \<longleftrightarrow> x = x' \<and> y = y'" by (rule byte_digits [OF y(2) y'(2)])
    have "hex_digit a = hex_digit a' \<longleftrightarrow> a = a'" "hex_digit b = hex_digit b' \<longleftrightarrow> b = b'"
      using hex_digit_inject [OF low(1,3)] hex_digit_inject [OF low(2,4)] by metis+
    then have "x = x' \<longleftrightarrow> a = a'" "y = y' \<longleftrightarrow> b = b'"
      unfolding x(1) y(1) x'(1) y'(1) option.inject by (iprover)+
    moreover have "hex_bytes cs = hex_bytes cs' \<longleftrightarrow> cs = cs'"
      by (rule "1.IH" [OF HOL.refl x(1) y(1)]) (use "1.prems" 1 in simp_all)
    moreover have "hex_bytes (a # b # cs) = (16 * x + y) # hex_bytes cs"
      "hex_bytes t = (16 * x' + y') # hex_bytes cs'"
      using x(1) y(1) x'(1) y'(1) 1 by simp_all
    ultimately show ?thesis using sum 1 by simp
  next
    case "2_1"
    then show ?thesis using x(1) y(1) by simp
  next
    case "2_2"
    then show ?thesis using "1.prems"(4) by simp
  qed
next
  case "2_1"
  show ?case
  proof (cases t rule: hex_bytes.cases)
    case (1 a' b' cs')
    then show ?thesis
      using low_digit_cases [of a'] low_digit_cases [of b'] "2_1.prems"(2) by auto
  qed (use "2_1.prems" in auto)
next
  case "2_2"
  then show ?case by simp
qed

lemma hex64_low: "is_hex64 s \<Longrightarrow> list_all low_digit s \<and> even (length s)"
  by (simp add: is_hex64_def low_digit_def [abs_def])

lemma verify_token_iff:
  assumes "is_hex64 (approval_token_hash E secret i t)" and "is_hex64 h"
  shows "verify_approval_token E secret i t h \<longleftrightarrow> approval_token_hash E secret i t = h"
  using hex_bytes_inject [of "approval_token_hash E secret i t" h] hex64_low [OF assms(1)] hex64_low [OF assms(2)]
  by (auto simp: verify_approval_token_def Let_def)

end
