(* ===== verification/Intent_Validation.thy ===== *)
theory Intent_Validation
  imports Approval_Store Policy_Gate Plan_Requirements
begin

text \<open>
  \<open>reconciliation/intent-validation.ts\<close>: an intent must name the snapshot it was made for, a capability
  of it with the same digest and risk, and arguments that fit the capability's input schema.
\<close>

section \<open>Arguments\<close>

text \<open>\<open>key in value\<close> of JavaScript, which also finds what every object inherits.\<close>

definition js_in :: "string \<Rightarrow> (string \<times> json) list \<Rightarrow> bool" where
  "js_in k kvs = (map_of kvs k \<noteq> None \<or> k \<in> set inherited_names)"

definition required_keys :: "(string \<times> json) list \<Rightarrow> string list" where
  "required_keys schema =
     (case map_of schema ''required'' of
        Some (JArr xs) \<Rightarrow> concat (map (\<lambda>x. case x of JStr s \<Rightarrow> [s] | _ \<Rightarrow> []) xs)
      | _ \<Rightarrow> [])"

definition schema_properties :: "(string \<times> json) list \<Rightarrow> (string \<times> json) list" where
  "schema_properties schema = (case map_of schema ''properties'' of Some (JObj ps) \<Rightarrow> ps | _ \<Rightarrow> [])"

text \<open>The types the check knows; any other type is not checked. A key that is only inherited has a function
  as its value, which has none of them.\<close>

fun of_json_type :: "string \<Rightarrow> json option \<Rightarrow> bool" where
  "of_json_type t (Some (JStr _)) = (t = ''string'')"
| "of_json_type t (Some (JNum _)) = (t = ''integer'')"
| "of_json_type t (Some (JBool _)) = (t = ''boolean'')"
| "of_json_type t _ = False"

definition property_violation :: "(string \<times> json) list \<Rightarrow> string \<times> json \<Rightarrow> string option" where
  "property_violation args p =
     (case p of
        (key, JObj prop) \<Rightarrow>
          if \<not> js_in key args then None
          else (case map_of prop ''type'' of
                  Some (JStr t) \<Rightarrow>
                    if t \<in> set [''string'', ''integer'', ''boolean''] \<and> \<not> of_json_type t (map_of args key)
                    then Some (key @ '' must be '' @ t) else None
                | _ \<Rightarrow> None)
      | _ \<Rightarrow> None)"

fun first_some :: "('a \<Rightarrow> 'b option) \<Rightarrow> 'a list \<Rightarrow> 'b option" where
  "first_some f [] = None"
| "first_some f (x # xs) = (case f x of None \<Rightarrow> first_some f xs | Some y \<Rightarrow> Some y)"

definition validate_json_like_arguments :: "(string \<times> json) list \<Rightarrow> (string \<times> json) list \<Rightarrow> string option" where
  "validate_json_like_arguments schema args =
     (if map_of schema ''type'' \<noteq> Some (JStr ''object'') then None
      else (case List.find (\<lambda>k. \<not> js_in k args) (required_keys schema) of
              Some k \<Rightarrow> Some (''Missing required field: '' @ k)
            | None \<Rightarrow>
                (let props = schema_properties schema;
                     extra = filter (\<lambda>k. \<not> js_in k props) (map fst args)
                 in if map_of schema ''additionalProperties'' = Some (JBool False) \<and> extra \<noteq> []
                    then Some (''Unexpected fields: '' @ join '', '' extra)
                    else first_some (property_violation args) props)))"

section \<open>Intents\<close>

definition schema_object :: "json \<Rightarrow> (string \<times> json) list" where
  "schema_object v = (case v of JObj kvs \<Rightarrow> kvs | _ \<Rightarrow> [])"

definition validate_intent_for_snapshot ::
    "execution_intent \<Rightarrow> capability_snapshot \<Rightarrow> string \<Rightarrow> string \<Rightarrow> structured_error + capability_descriptor" where
  "validate_intent_for_snapshot i snapshot task_id now =
     (let refuse = (\<lambda>code message. Inl (mk_structured_error code message now (Some task_id) (Some (ei_intent_id i)) None))
      in if ei_snapshot_id i \<noteq> cs_snapshot_id snapshot
         then refuse SNAPSHOT_MISMATCH ''Intent references a different snapshot''
         else if \<not> list_ex (\<lambda>c. cd_endpoint_id c = ei_endpoint_id i) (cs_capabilities snapshot)
         then refuse UNKNOWN_MCP_SERVER ''Requested endpoint is not in snapshot''
         else (case List.find (\<lambda>c. cd_endpoint_id c = ei_endpoint_id i \<and> cd_capability_name c = ei_capability_name i)
                      (cs_capabilities snapshot) of
                 None \<Rightarrow> refuse UNKNOWN_CAPABILITY ''Requested capability is not in snapshot''
               | Some c \<Rightarrow>
                   if cd_capability_digest c \<noteq> ei_capability_digest i
                   then refuse CAPABILITY_DIGEST_MISMATCH ''Capability digest does not match snapshot''
                   else if cd_risk_level c \<noteq> ei_risk_level i \<or> cd_requires_approval c \<noteq> ei_requires_approval i
                   then refuse SCHEMA_VALIDATION_FAILED ''Intent risk metadata does not match snapshot''
                   else (case validate_json_like_arguments (schema_object (cd_input_schema c)) (ei_arguments i) of
                           Some message \<Rightarrow> refuse SCHEMA_VALIDATION_FAILED message
                         | None \<Rightarrow> Inr c)))"

text \<open>What it takes for an intent to be accepted.\<close>

definition arguments_fit :: "(string \<times> json) list \<Rightarrow> (string \<times> json) list \<Rightarrow> bool" where
  "arguments_fit schema args \<longleftrightarrow>
     map_of schema ''type'' = Some (JStr ''object'') \<longrightarrow>
       (\<forall>k \<in> set (required_keys schema). js_in k args) \<and>
       (map_of schema ''additionalProperties'' = Some (JBool False) \<longrightarrow>
          (\<forall>k \<in> fst ` set args. js_in k (schema_properties schema))) \<and>
       (\<forall>p \<in> set (schema_properties schema). property_violation args p = None)"

lemma first_some_None: "first_some f xs = None \<longleftrightarrow> (\<forall>x \<in> set xs. f x = None)"
  by (induction xs) (auto split: option.splits)

lemma find_None_all: "List.find p xs = None \<longleftrightarrow> (\<forall>x \<in> set xs. \<not> p x)"
  by (auto simp: find_None_iff)

lemma arguments_fit_iff: "validate_json_like_arguments schema args = None \<longleftrightarrow> arguments_fit schema args"
proof (cases "List.find (\<lambda>k. \<not> js_in k args) (required_keys schema)")
  case None
  then have "\<forall>k \<in> set (required_keys schema). js_in k args" by (simp add: find_None_all)
  with None show ?thesis
    by (auto simp: validate_json_like_arguments_def arguments_fit_def Let_def first_some_None filter_empty_conv)
next
  case (Some k)
  then have "\<not> (\<forall>k \<in> set (required_keys schema). js_in k args)" using find_SomeD [OF Some] by blast
  with Some show ?thesis by (simp add: validate_json_like_arguments_def arguments_fit_def)
qed

definition intent_valid :: "execution_intent \<Rightarrow> capability_snapshot \<Rightarrow> capability_descriptor \<Rightarrow> bool" where
  "intent_valid i snapshot c \<longleftrightarrow>
     ei_snapshot_id i = cs_snapshot_id snapshot \<and>
     List.find (\<lambda>c. cd_endpoint_id c = ei_endpoint_id i \<and> cd_capability_name c = ei_capability_name i)
       (cs_capabilities snapshot) = Some c \<and>
     cd_capability_digest c = ei_capability_digest i \<and> cd_risk_level c = ei_risk_level i \<and>
     cd_requires_approval c = ei_requires_approval i \<and>
     arguments_fit (schema_object (cd_input_schema c)) (ei_arguments i)"

lemma intent_valid_iff:
  "validate_intent_for_snapshot i snapshot task_id now = Inr c \<longleftrightarrow> intent_valid i snapshot c"
proof (cases "List.find (\<lambda>c. cd_endpoint_id c = ei_endpoint_id i \<and> cd_capability_name c = ei_capability_name i)
    (cs_capabilities snapshot)")
  case None
  then show ?thesis by (simp add: validate_intent_for_snapshot_def intent_valid_def Let_def)
next
  case (Some d)
  then have "list_ex (\<lambda>c. cd_endpoint_id c = ei_endpoint_id i) (cs_capabilities snapshot)"
    using find_SomeD [OF Some] by (auto simp: list_ex_iff)
  with Some show ?thesis
    by (auto simp: validate_intent_for_snapshot_def intent_valid_def Let_def arguments_fit_iff [symmetric]
        split: option.splits)
qed

lemma intent_refused_error:
  "validate_intent_for_snapshot i snapshot task_id now = Inl e \<Longrightarrow>
     se_observed_at e = now \<and> se_intent_id e = Some (ei_intent_id i) \<and> se_task_id e = Some task_id"
  unfolding validate_intent_for_snapshot_def Let_def
  by (auto simp: mk_structured_error_def split: if_splits option.splits)

end
