(* ===== verification/Task_Reconciler.thy ===== *)
theory Task_Reconciler
  imports Intent_Validation Control_Plane
begin

text \<open>
  \<open>workflows/task-reconciler.ts\<close> with the tasks it starts (\<open>tasks/\<close>: \<open>discover-capabilities\<close>,
  \<open>generate-task-artifact\<close>, \<open>execute-mcp-intent\<close>, \<open>run-critic\<close>, \<open>create-approval-request\<close>,
  \<open>record-continuation-context\<close>, \<open>record-status\<close>), the artifact made without a model
  (\<open>activities/cognition.ts\<close>) and the in-memory status store (\<open>status/status-store.ts\<close>).

  A child task that the workflow service runs answers with what its function returns and throws what it
  throws; the service's retries and its reuse of answers under one key are not modelled.
\<close>

section \<open>Results\<close>

datatype reconciliation_status = Rec_completed | Rec_completed_with_errors | Rec_yielded | Rec_requires_approval | Rec_failed

datatype workflow_status = Flow_accepted | Flow_planning | Flow_running | Flow_result reconciliation_status

fun reconciliation_status_str :: "reconciliation_status \<Rightarrow> string" where
  "reconciliation_status_str Rec_completed = ''completed''"
| "reconciliation_status_str Rec_completed_with_errors = ''completed_with_errors''"
| "reconciliation_status_str Rec_yielded = ''yielded''"
| "reconciliation_status_str Rec_requires_approval = ''requires_approval''"
| "reconciliation_status_str Rec_failed = ''failed''"

record task_result =
  tr_id :: string
  tr_task_id :: string
  tr_task_run_id :: string
  tr_status :: reconciliation_status
  tr_snapshot :: capability_snapshot
  tr_artifact :: "cognitive_artifact option"
  tr_executed :: "execution_intent list"
  tr_skipped :: "execution_intent list"
  tr_observations :: "observation list"
  tr_errors :: "structured_error list"
  tr_message :: string
  tr_approval :: "task_approval_request option"

definition task_result_ok :: "env \<Rightarrow> task_result \<Rightarrow> bool" where
  "task_result_ok E r =
     (nonempty (tr_id r) \<and> nonempty (tr_task_id r) \<and> nonempty (tr_task_run_id r) \<and>
      capability_snapshot_ok E (tr_snapshot r) \<and> opt_ok (cognitive_artifact_ok E) (tr_artifact r) \<and>
      list_all execution_intent_ok (tr_executed r) \<and> list_all execution_intent_ok (tr_skipped r) \<and>
      list_all (observation_ok E) (tr_observations r) \<and> list_all (structured_error_ok E) (tr_errors r) \<and>
      opt_ok (task_approval_request_ok E) (tr_approval r))"

text \<open>The status of a task as the front ends see it; the status of a repository task is not modelled.\<close>

record task_snapshot =
  tn_project_id :: string
  tn_task_id :: string
  tn_task_run_id :: string
  tn_status :: workflow_status
  tn_observations :: "observation list"
  tn_errors :: "structured_error list"
  tn_message :: "string option"
  tn_result :: "task_result option"
  tn_updated_at :: string

record project_snapshot =
  pj_project_id :: string
  pj_project_run_id :: string
  pj_status :: workflow_status
  pj_task_run_ids :: "string list"
  pj_observations :: "observation list"
  pj_errors :: "structured_error list"
  pj_message :: "string option"
  pj_updated_at :: string

definition task_snapshot_ok :: "env \<Rightarrow> task_snapshot \<Rightarrow> bool" where
  "task_snapshot_ok E s =
     (list_all (observation_ok E) (tn_observations s) \<and> list_all (structured_error_ok E) (tn_errors s) \<and>
      opt_ok (task_result_ok E) (tn_result s))"

definition project_snapshot_ok :: "env \<Rightarrow> project_snapshot \<Rightarrow> bool" where
  "project_snapshot_ok E s =
     (nonempty (pj_project_id s) \<and> nonempty (pj_project_run_id s) \<and> list_all (observation_ok E) (pj_observations s) \<and>
      list_all (structured_error_ok E) (pj_errors s) \<and> datetime_ok E (pj_updated_at s))"

section \<open>The world of the reconcilers\<close>

text \<open>A call of a capability: the input of the task \<open>execute-mcp-intent\<close>.\<close>

record mcp_request =
  mq_endpoint_id :: string
  mq_capability_name :: string
  mq_arguments :: "(string \<times> json) list"
  mq_idempotency_key :: string
  mq_delegation :: delegation_context
  mq_snapshot_id :: "string option"

text \<open>Statuses, approvals, the calls handed to the pack registry, and the continuations started (approval
  request and task run).\<close>

record rec_world =
  wk_clock :: nat
  wk_tasks :: "(string \<times> task_snapshot) list"
  wk_projects :: "(string \<times> project_snapshot) list"
  wk_store :: approval_store
  wk_executed :: "mcp_request list"
  wk_started :: "(string \<times> string) list"

type_synonym 'a reconciling = "(rec_world, 'a) effect"

text \<open>\<open>zh_run\<close> is the execution of a call through the pack registry, whose capabilities answer differently
  from call to call; \<open>zh_artifact\<close> the model that writes artifacts, when one is configured;
  \<open>zh_zod_message\<close> the text of an error of the schema library.\<close>

record reconciler_host =
  zh_env :: env
  zh_clock :: "nat \<Rightarrow> string"
  zh_zod_message :: string
  zh_registry :: pack_registry
  zh_secret :: string
  zh_run :: "mcp_request list \<Rightarrow> mcp_request \<Rightarrow> thrown + exec_result"
  zh_artifact :: "(scoped_task \<Rightarrow> delegation_context \<Rightarrow> capability_snapshot \<Rightarrow> thrown + cognitive_artifact) option"

definition read_clock :: "reconciler_host \<Rightarrow> string reconciling" where
  "read_clock H = (\<lambda>w. (Inr (zh_clock H (wk_clock w)), w\<lparr>wk_clock := Suc (wk_clock w)\<rparr>))"

section \<open>The child tasks\<close>

definition record_task_status :: "reconciler_host \<Rightarrow> task_snapshot \<Rightarrow> unit reconciling" where
  "record_task_status H s = (\<lambda>w.
     if task_snapshot_ok (zh_env H) s
     then (Inr (), w\<lparr>wk_tasks := AList.update (tn_task_run_id s) s (wk_tasks w)\<rparr>) else (Inl Zod_error, w))"

definition record_project_status :: "reconciler_host \<Rightarrow> project_snapshot \<Rightarrow> unit reconciling" where
  "record_project_status H s = (\<lambda>w.
     if project_snapshot_ok (zh_env H) s
     then (Inr (), w\<lparr>wk_projects := AList.update (pj_project_run_id s) s
                      (AList.update (pj_project_id s) s (wk_projects w))\<rparr>)
     else (Inl Zod_error, w))"

definition discover_capabilities ::
    "reconciler_host \<Rightarrow> scoped_task \<Rightarrow> delegation_context \<Rightarrow> risk_level \<Rightarrow> string \<Rightarrow> capability_snapshot option" where
  "discover_capabilities H t d max_risk now =
     (if scoped_task_ok t \<and> delegation_context_ok (zh_env H) d \<and> datetime_ok (zh_env H) now
      then build_capability_snapshot (zh_env H)
        (map descriptor_to_input (list_capabilities (zh_registry H)
          \<lparr>fl_allowed_scopes = Some (filter (\<lambda>s. s \<in> set (tk_allowed_scopes t)) (dc_allowed_scopes d)),
           fl_denied_scopes = Some (dc_denied_scopes d),
           fl_allowed_capabilities = Some (dc_allowed_capabilities d @ tk_allowed_capabilities t),
           fl_max_risk_level = Some max_risk, fl_trust_levels = Some [Trust_trusted_core, Trust_trusted_local]\<rparr>)) now
      else None)"

datatype mcp_output = Mcp_ok string "json option" | Mcp_error string

definition mcp_request_ok :: "env \<Rightarrow> mcp_request \<Rightarrow> bool" where
  "mcp_request_ok E q =
     (nonempty (mq_endpoint_id q) \<and> nonempty (mq_capability_name q) \<and> nonempty (mq_idempotency_key q) \<and>
      delegation_context_ok E (mq_delegation q))"

definition mcp_output_of :: "exec_result \<Rightarrow> mcp_output" where
  "mcp_output_of r =
     (if xr_status r = XS_success then Mcp_ok ''Capability execution succeeded'' (xr_output r)
      else (let m = join ''; '' (map snd (xr_structured_errors r))
            in Mcp_error (if m = [] then ''Capability execution failed'' else m)))"

definition execute_mcp_intent :: "reconciler_host \<Rightarrow> mcp_request \<Rightarrow> mcp_output reconciling" where
  "execute_mcp_intent H q = (\<lambda>w.
     if \<not> mcp_request_ok (zh_env H) q then (Inl Zod_error, w)
     else (map_sum id mcp_output_of (zh_run H (wk_executed w) q), w\<lparr>wk_executed := wk_executed w @ [q]\<rparr>))"

datatype critic_outcome = Critic_pass | Critic_revise | Critic_yield

definition run_mock_critic :: "scoped_task \<Rightarrow> critic_outcome option \<Rightarrow> critic_outcome \<times> string" where
  "run_mock_critic t forced =
     (nullish forced Critic_pass,
      if forced = Some Critic_revise
      then ''Revision requested, but recursive revision is unsupported in this slice.''
      else ''Checked result for '' @ tk_title t @ ''.'')"

definition create_approval :: "reconciler_host \<Rightarrow> task_approval_request \<Rightarrow> unit reconciling" where
  "create_approval H r = (\<lambda>w.
     case create_approval_request (zh_env H) (zh_secret H) r (wk_store w) of
       None \<Rightarrow> (Inl Zod_error, w)
     | Some (d, s) \<Rightarrow> (Inr (), w\<lparr>wk_store := s\<rparr>))"

definition record_context :: "reconciler_host \<Rightarrow> continuation_context \<Rightarrow> unit reconciling" where
  "record_context H c = (\<lambda>w.
     case record_continuation_context (zh_env H) c (wk_store w) of
       None \<Rightarrow> (Inl Zod_error, w)
     | Some s \<Rightarrow> (Inr (), w\<lparr>wk_store := s\<rparr>))"

section \<open>Artifacts\<close>

definition choose_capability :: "capability_descriptor list \<Rightarrow> capability_descriptor option" where
  "choose_capability cs =
     nullish_opt (List.find (\<lambda>c. cd_capability_name c = ''draft_readme_summary'') cs)
       (nullish_opt (List.find (\<lambda>c. cd_capability_name c = ''read_file'') cs)
         (case cs of [] \<Rightarrow> None | c # _ \<Rightarrow> Some c))"

definition arguments_for :: "scoped_task \<Rightarrow> capability_descriptor \<Rightarrow> (string \<times> json) list" where
  "arguments_for t c =
     (if cd_capability_name c = ''draft_readme_summary''
      then [(''title'', JStr ''README summary''),
            (''source_summary'', JStr ''The repository contains a durable TypeScript reconciliation runtime.'')]
      else if cd_capability_name c = ''read_file'' then [(''path'', JStr ''README.md'')]
      else if cd_capability_name c = ''search_docs'' then [(''query'', JStr (tk_objective t))]
      else [(''path'', JStr ''notes/summary.md''), (''content'', JStr (tk_objective t))])"

definition preferred_intent ::
    "env \<Rightarrow> scoped_task \<Rightarrow> capability_snapshot \<Rightarrow> capability_descriptor \<Rightarrow> execution_intent" where
  "preferred_intent E t snapshot c =
     \<lparr>ei_intent_id = det_id E ''intent'' (JObj [(''task_id'', JStr (tk_task_id t)),
          (''endpoint_id'', JStr (cd_endpoint_id c)), (''capability_name'', JStr (cd_capability_name c))]) 16,
      ei_snapshot_id = cs_snapshot_id snapshot, ei_endpoint_id = cd_endpoint_id c,
      ei_capability_name = cd_capability_name c, ei_capability_digest = cd_capability_digest c,
      ei_risk_level = cd_risk_level c, ei_requires_approval = cd_requires_approval c,
      ei_idempotency_key = det_id E ''idem'' (JObj [(''task_id'', JStr (tk_task_id t)),
          (''capability_name'', JStr (cd_capability_name c))]) 24,
      ei_arguments = arguments_for t c\<rparr>"

text \<open>\<open>deterministicTaskArtifact\<close>. The conditions of an intent and the shape of its result, which nothing
  reads, are left out of the record.\<close>

definition deterministic_task_artifact :: "env \<Rightarrow> scoped_task \<Rightarrow> capability_snapshot \<Rightarrow> cognitive_artifact" where
  "deterministic_task_artifact E t snapshot =
     (let preferred = choose_capability (cs_capabilities snapshot); found = (preferred \<noteq> None) in
      \<lparr>ca_artifact_id = ''artifact_'' @ tk_task_id t, ca_snapshot_id = cs_snapshot_id snapshot,
       ca_objective = tk_objective t,
       ca_request_boundaries = [''Use only injected capabilities'', ''Do not assume ambient execution''],
       ca_allowed_scope = map (\<lambda>c. cd_endpoint_id c @ ''.'' @ cd_capability_name c) (cs_capabilities snapshot),
       ca_prohibited_scope =
         [''Capabilities absent from the snapshot'', ''Direct side effects outside policy''],
       ca_assumptions = [''Deterministic fallback used because no provider key is configured.''],
       ca_trace = \<lparr>tx_evidence_mode = Visible_summary,
          tx_summary = (if found then ''Selected a capability from the injected snapshot.''
                        else ''No compatible capability was available.''),
          tx_steps = [\<lparr>ts_step_id = deterministic_observation_id E
                (JObj [(''task_id'', JStr (tk_task_id t)), (''kind'', JStr ''trace'')]),
              ts_kind = (if found then Step_verification else Step_yield),
              ts_content = (if found then ''Capability selection was bounded by the snapshot.''
                            else ''The snapshot did not contain a matching capability.''),
              ts_visibility = Visible_summary, ts_redaction_reason = None,
              ts_confidence = Some (if found then 86 else 42)\<rparr>],
          tx_sensitive = None, tx_redaction_reason = None\<rparr>,
       ca_intents = (case preferred of None \<Rightarrow> [] | Some c \<Rightarrow> [preferred_intent E t snapshot c]),
       ca_observations = [], ca_uncertainty = (if found then Certain_low else Certain_medium),
       ca_explanation = (if found then ''A matching mocked capability was found.''
                         else ''No matching capability was found.''),
       ca_yield_reason = (if found then None else Some ''No compatible capability in snapshot'')\<rparr>)"

definition parse_artifact :: "env \<Rightarrow> cognitive_artifact \<Rightarrow> thrown + cognitive_artifact" where
  "parse_artifact E a = (if cognitive_artifact_ok E a then Inr a else Inl Zod_error)"

definition generate_task_artifact ::
    "reconciler_host \<Rightarrow> scoped_task \<Rightarrow> delegation_context \<Rightarrow> capability_snapshot \<Rightarrow> thrown + cognitive_artifact" where
  "generate_task_artifact H t d snapshot =
     (let answer = (case zh_artifact H of
                      None \<Rightarrow> Inr (deterministic_task_artifact (zh_env H) t snapshot)
                    | Some model \<Rightarrow> model t d snapshot)
      in case answer of Inl e \<Rightarrow> Inl e | Inr a \<Rightarrow> parse_artifact (zh_env H) a)"

section \<open>Reconciling a task\<close>

record task_input =
  ti_project_id :: string
  ti_project_run_id :: string
  ti_task_run_id :: string
  ti_task :: scoped_task
  ti_delegation :: delegation_context
  ti_bounds :: execution_bounds

definition task_input_ok :: "env \<Rightarrow> task_input \<Rightarrow> bool" where
  "task_input_ok E i =
     (nonempty (ti_project_id i) \<and> nonempty (ti_project_run_id i) \<and> nonempty (ti_task_run_id i) \<and>
      scoped_task_ok (ti_task i) \<and> delegation_context_ok E (ti_delegation i) \<and> execution_bounds_ok (ti_bounds i))"

record task_state =
  zs_observations :: "observation list"
  zs_errors :: "structured_error list"
  zs_executed :: "execution_intent list"
  zs_skipped :: "execution_intent list"

definition start_state :: task_state where
  "start_state = \<lparr>zs_observations = [], zs_errors = [], zs_executed = [], zs_skipped = []\<rparr>"

text \<open>An error with its absent fields, as \<open>structuredError\<close> builds it.\<close>

definition raw_error_json :: "structured_error \<Rightarrow> json" where
  "raw_error_json e = JObj
     [(''code'', JStr (error_code_str (se_code e))), (''message'', JStr (se_message e)),
      (''intent_id'', jundef JStr (se_intent_id e)), (''task_id'', jundef JStr (se_task_id e)),
      (''observed_at'', JStr (se_observed_at e)), (''details'', jundef id (se_details e))]"

definition reconciliation_id :: "env \<Rightarrow> (string \<times> json) list \<Rightarrow> structured_error list \<Rightarrow> string" where
  "reconciliation_id E key errors =
     det_id E ''reconciliation'' (JObj (key @ [(''errors'', JArr (map raw_error_json errors))])) 16"

definition checked_result :: "env \<Rightarrow> task_result \<Rightarrow> task_result reconciling" where
  "checked_result E r = of_option Zod_error (if task_result_ok E r then Some r else None)"

definition task_result_of ::
    "env \<Rightarrow> task_input \<Rightarrow> capability_snapshot \<Rightarrow> cognitive_artifact option \<Rightarrow> reconciliation_status \<Rightarrow> task_state
      \<Rightarrow> string \<Rightarrow> task_approval_request option \<Rightarrow> task_result reconciling" where
  "task_result_of E i snapshot artifact status st message approval =
     checked_result E
       \<lparr>tr_id = reconciliation_id E [(''task_id'', JStr (tk_task_id (ti_task i))),
            (''status'', JStr (reconciliation_status_str status))] (zs_errors st),
        tr_task_id = tk_task_id (ti_task i), tr_task_run_id = ti_task_run_id i, tr_status = status,
        tr_snapshot = snapshot, tr_artifact = artifact, tr_executed = zs_executed st, tr_skipped = zs_skipped st,
        tr_observations = zs_observations st, tr_errors = zs_errors st, tr_message = message,
        tr_approval = approval\<rparr>"

definition failed_task_result :: "env \<Rightarrow> string \<Rightarrow> structured_error \<Rightarrow> string \<Rightarrow> task_result reconciling" where
  "failed_task_result E now e message =
     checked_result E
       \<lparr>tr_id = reconciliation_id E [(''taskId'', JStr ''unknown'')] [e], tr_task_id = ''unknown'',
        tr_task_run_id = ''unknown'', tr_status = Rec_failed,
        tr_snapshot = \<lparr>cs_snapshot_id = ''caps_invalid'', cs_created_at = now,
          cs_capabilities_hash = replicate 64 CHR ''0'', cs_capabilities = []\<rparr>,
        tr_artifact = None, tr_executed = [], tr_skipped = [], tr_observations = [], tr_errors = [e],
        tr_message = message, tr_approval = None\<rparr>"

text \<open>What one intent leads to: the next one, or the end of the task with a status, a message and the approval
  asked for.\<close>

datatype loop_step =
    Go_on task_state
  | Stop_with reconciliation_status task_state string "task_approval_request option"

definition intent_error :: "task_input \<Rightarrow> string \<Rightarrow> execution_intent \<Rightarrow> error_code \<Rightarrow> string \<Rightarrow> structured_error" where
  "intent_error i now intent code message =
     mk_structured_error code message now (Some (tk_task_id (ti_task i))) (Some (ei_intent_id intent)) None"

definition skip_intent ::
    "env \<Rightarrow> task_input \<Rightarrow> string \<Rightarrow> execution_intent \<Rightarrow> structured_error \<Rightarrow> observation_status \<Rightarrow> string
      \<Rightarrow> task_state \<Rightarrow> task_state" where
  "skip_intent E i now intent e status summary st =
     st\<lparr>zs_skipped := zs_skipped st @ [intent], zs_errors := zs_errors st @ [e],
        zs_observations := zs_observations st @
          [mk_observation E status summary now (Some (tk_task_id (ti_task i))) (Some (ei_intent_id intent)) None]\<rparr>"

definition gate_input ::
    "task_input \<Rightarrow> delegation_context \<Rightarrow> capability_descriptor \<Rightarrow> execution_intent \<Rightarrow> nat \<Rightarrow> string
      \<Rightarrow> policy_gate_input" where
  "gate_input i d c intent used now =
     \<lparr>pg_delegation = d, pg_task = ti_task i, pg_capability = c, pg_intent = intent, pg_bounds = ti_bounds i,
      pg_attempts_used = used, pg_now = now\<rparr>"

definition intent_request :: "delegation_context \<Rightarrow> capability_snapshot \<Rightarrow> execution_intent \<Rightarrow> mcp_request" where
  "intent_request d snapshot intent =
     \<lparr>mq_endpoint_id = ei_endpoint_id intent, mq_capability_name = ei_capability_name intent,
      mq_arguments = ei_arguments intent, mq_idempotency_key = ei_idempotency_key intent, mq_delegation = d,
      mq_snapshot_id = Some (cs_snapshot_id snapshot)\<rparr>"

definition approval_for ::
    "env \<Rightarrow> task_input \<Rightarrow> delegation_context \<Rightarrow> string \<Rightarrow> execution_intent \<Rightarrow> task_approval_request" where
  "approval_for E i d now intent =
     \<lparr>tq_id = det_id E ''approval_request'' (JObj [(''task_run_id'', JStr (ti_task_run_id i)),
          (''intent_id'', JStr (ei_intent_id intent)),
          (''capability_digest'', JStr (ei_capability_digest intent))]) 16,
      tq_task_id = tk_task_id (ti_task i), tq_project_id = ti_project_id i, tq_intent_id = ei_intent_id intent,
      tq_risk_level = ei_risk_level intent, tq_capability = ei_capability_name intent,
      tq_task_run_id = ti_task_run_id i, tq_requested_at = now,
      tq_prompt = ''Approve '' @ ei_capability_name intent @ '' for task '' @ tk_title (ti_task i),
      tq_trace_id = dc_trace_id d\<rparr>"

definition ask_approval ::
    "reconciler_host \<Rightarrow> task_input \<Rightarrow> delegation_context \<Rightarrow> capability_snapshot \<Rightarrow> cognitive_artifact \<Rightarrow> string
      \<Rightarrow> execution_intent \<Rightarrow> task_state \<Rightarrow> loop_step reconciling" where
  "ask_approval H i d snapshot artifact now intent st =
     (let r = approval_for (zh_env H) i d now intent in
      ebind (create_approval H r) (\<lambda>_.
      ebind (record_context H
          \<lparr>cc_request = r, cc_project_id = ti_project_id i, cc_project_run_id = ti_project_run_id i,
           cc_task_run_id = ti_task_run_id i, cc_task = ti_task i, cc_delegation = d, cc_bounds = ti_bounds i,
           cc_snapshot = snapshot, cc_artifact = artifact, cc_intent = intent\<rparr>) (\<lambda>_.
        ereturn (Stop_with Rec_requires_approval st ''Approval is required.'' (Some r)))))"

definition review_intent ::
    "reconciler_host \<Rightarrow> task_input \<Rightarrow> string \<Rightarrow> execution_intent \<Rightarrow> task_state \<Rightarrow> loop_step" where
  "review_intent H i now intent st =
     (case run_mock_critic (ti_task i) None of
        (Critic_yield, summary) \<Rightarrow>
          Stop_with Rec_yielded (st\<lparr>zs_errors := zs_errors st @ [intent_error i now intent YIELDED summary]\<rparr>)
            ''The critic yielded.'' None
      | (Critic_revise, summary) \<Rightarrow>
          Stop_with Rec_yielded (st\<lparr>zs_errors := zs_errors st @ [intent_error i now intent REVISION_UNSUPPORTED summary]\<rparr>)
            ''Revision is unsupported in this slice.'' None
      | (Critic_pass, _) \<Rightarrow> Go_on st)"

definition run_intent ::
    "reconciler_host \<Rightarrow> task_input \<Rightarrow> delegation_context \<Rightarrow> capability_snapshot \<Rightarrow> string \<Rightarrow> execution_intent
      \<Rightarrow> task_state \<Rightarrow> loop_step reconciling" where
  "run_intent H i d snapshot now intent st =
     ebind (execute_mcp_intent H (intent_request d snapshot intent)) (\<lambda>out.
       ereturn (case out of
         Mcp_error message \<Rightarrow>
           Go_on (skip_intent (zh_env H) i now intent (intent_error i now intent MCP_EXECUTION_FAILED message)
             Obs_error message st)
       | Mcp_ok message result \<Rightarrow>
           review_intent H i now intent
             (st\<lparr>zs_executed := zs_executed st @ [intent],
                 zs_observations := zs_observations st @
                   [mk_observation (zh_env H) Obs_recorded message now (Some (tk_task_id (ti_task i)))
                      (Some (ei_intent_id intent)) (Some (nullish result JUndef))]\<rparr>)))"

definition intent_step ::
    "reconciler_host \<Rightarrow> task_input \<Rightarrow> delegation_context \<Rightarrow> capability_snapshot \<Rightarrow> cognitive_artifact \<Rightarrow> string
      \<Rightarrow> execution_intent \<Rightarrow> task_state \<Rightarrow> loop_step reconciling" where
  "intent_step H i d snapshot artifact now intent st =
     (let E = zh_env H in
      case validate_intent_for_snapshot intent snapshot (tk_task_id (ti_task i)) now of
        Inl e \<Rightarrow> ereturn (Go_on (skip_intent E i now intent e Obs_error (se_message e) st))
      | Inr c \<Rightarrow>
          (let policy = evaluate_policy E
                 (gate_input i d c intent (length (zs_executed st) + length (zs_skipped st)) now);
               reason = po_reason policy
           in case po_outcome policy of
                Out_allow \<Rightarrow> run_intent H i d snapshot now intent st
              | Out_requires_approval \<Rightarrow>
                  ask_approval H i d snapshot artifact now intent
                    (skip_intent E i now intent (intent_error i now intent APPROVAL_REQUIRED reason) Obs_error reason st)
              | Out_yield \<Rightarrow>
                  ereturn (Stop_with Rec_yielded
                    (skip_intent E i now intent (intent_error i now intent YIELDED reason) Obs_skipped reason st)
                    ''The policy gate yielded.'' None)
              | Out_deny \<Rightarrow>
                  ereturn (Go_on
                    (skip_intent E i now intent (intent_error i now intent POLICY_DENIED reason) Obs_error reason st))))"

fun intent_loop ::
    "reconciler_host \<Rightarrow> task_input \<Rightarrow> delegation_context \<Rightarrow> capability_snapshot \<Rightarrow> cognitive_artifact \<Rightarrow> string
      \<Rightarrow> execution_intent list \<Rightarrow> task_state \<Rightarrow> loop_step reconciling" where
  "intent_loop H i d snapshot artifact now [] st = ereturn (Go_on st)"
| "intent_loop H i d snapshot artifact now (intent # rest) st =
     ebind (intent_step H i d snapshot artifact now intent st) (\<lambda>r. case r of
         Go_on st' \<Rightarrow> intent_loop H i d snapshot artifact now rest st'
       | Stop_with status st' message approval \<Rightarrow> ereturn (Stop_with status st' message approval))"

definition loop_result ::
    "env \<Rightarrow> task_input \<Rightarrow> capability_snapshot \<Rightarrow> cognitive_artifact \<Rightarrow> loop_step \<Rightarrow> task_result reconciling" where
  "loop_result E i snapshot artifact r =
     (case r of
        Stop_with status st message approval \<Rightarrow> task_result_of E i snapshot (Some artifact) status st message approval
      | Go_on st \<Rightarrow>
          if zs_executed st = [] \<and> zs_errors st \<noteq> []
          then task_result_of E i snapshot (Some artifact) Rec_failed st ''No execution intent completed.'' None
          else if zs_errors st \<noteq> []
          then task_result_of E i snapshot (Some artifact) Rec_completed_with_errors st ''Task completed with errors.'' None
          else task_result_of E i snapshot (Some artifact) Rec_completed st ''Task completed.'' None)"

definition refuse_artifact ::
    "env \<Rightarrow> task_input \<Rightarrow> string \<Rightarrow> capability_snapshot \<Rightarrow> cognitive_artifact option \<Rightarrow> reconciliation_status
      \<Rightarrow> error_code \<Rightarrow> string \<Rightarrow> observation_status \<Rightarrow> string \<Rightarrow> string \<Rightarrow> task_result reconciling" where
  "refuse_artifact E i now snapshot artifact status code message obs summary final =
     task_result_of E i snapshot artifact status
       (start_state\<lparr>zs_errors := [mk_structured_error code message now (Some (tk_task_id (ti_task i))) None None],
          zs_observations := [mk_observation E obs summary now (Some (tk_task_id (ti_task i))) None None]\<rparr>) final None"

definition reconcile_artifact ::
    "reconciler_host \<Rightarrow> task_input \<Rightarrow> delegation_context \<Rightarrow> capability_snapshot \<Rightarrow> string \<Rightarrow> cognitive_artifact
      \<Rightarrow> task_result reconciling" where
  "reconcile_artifact H i d snapshot now artifact =
     (let E = zh_env H in
      if \<not> cognitive_artifact_ok E artifact
      then refuse_artifact E i now snapshot None Rec_failed INVALID_ARTIFACT (zh_zod_message H) Obs_error
             ''Cognitive artifact failed validation'' ''The cognitive artifact was invalid.''
      else if ca_snapshot_id artifact \<noteq> cs_snapshot_id snapshot
      then refuse_artifact E i now snapshot (Some artifact) Rec_failed SNAPSHOT_MISMATCH
             ''Artifact references a different capability snapshot'' Obs_error
             ''Artifact references a different capability snapshot'' ''Capability snapshot mismatch.''
      else if ca_intents artifact = []
      then (let message = nullish (ca_yield_reason artifact) ''No execution intent emitted'' in
            refuse_artifact E i now snapshot (Some artifact) Rec_yielded YIELDED message Obs_skipped message
              ''The task yielded without execution.'')
      else if length (ca_intents artifact) > eb_max_execution_intents_per_task (ti_bounds i)
      then refuse_artifact E i now snapshot (Some artifact) Rec_failed BUDGET_EXCEEDED
             ''Too many execution intents emitted'' Obs_error ''Too many execution intents emitted''
             ''Execution intent bound exceeded.''
      else ebind (intent_loop H i d snapshot artifact now (ca_intents artifact) start_state)
             (loop_result E i snapshot artifact))"

definition reconcile_task :: "reconciler_host \<Rightarrow> task_input \<Rightarrow> task_result reconciling" where
  "reconcile_task H i =
     (let E = zh_env H; task = ti_task i in
      ebind (read_clock H) (\<lambda>now.
        if \<not> task_input_ok E i
        then failed_task_result E now (mk_structured_error INVALID_DELEGATION_CONTEXT (zh_zod_message H) now None None None)
               ''Task input was invalid.''
        else (let d = (ti_delegation i)\<lparr>dc_task_run_id := Some (ti_task_run_id i)\<rparr> in
          ethen (record_task_status H
            \<lparr>tn_project_id = ti_project_id i, tn_task_id = tk_task_id task, tn_task_run_id = ti_task_run_id i,
             tn_status = Flow_running, tn_observations = [], tn_errors = [],
             tn_message = Some ''Discovering scoped capabilities.'', tn_result = None, tn_updated_at = now\<rparr>)
          (ebind (of_option Zod_error
              (discover_capabilities H task d (eb_max_risk_without_approval (ti_bounds i)) now)) (\<lambda>snapshot.
          case generate_task_artifact H task d snapshot of
            Inl e \<Rightarrow> ethrow e
          | Inr artifact \<Rightarrow> reconcile_artifact H i d snapshot now artifact)))))"

section \<open>Only permitted calls\<close>

text \<open>An intent may be called as the \<open>j\<close>-th of its task: it is valid for the snapshot, and the policy gate
  permits it without an approval.\<close>

definition intent_permitted ::
    "env \<Rightarrow> task_input \<Rightarrow> delegation_context \<Rightarrow> capability_snapshot \<Rightarrow> string \<Rightarrow> nat \<Rightarrow> execution_intent \<Rightarrow> bool" where
  "intent_permitted E i d snapshot now j intent \<longleftrightarrow>
     (\<exists>c. intent_valid intent snapshot c \<and> policy_permits E (gate_input i d c intent j now) \<and>
          \<not> approval_needed (gate_input i d c intent j now))"

definition intents_used :: "task_state \<Rightarrow> nat" where
  "intents_used st = length (zs_executed st) + length (zs_skipped st)"

lemma gate_allows:
  "po_outcome (evaluate_policy E g) = Out_allow \<longleftrightarrow> policy_permits E g \<and> \<not> approval_needed g"
  unfolding evaluate_policy_def evaluate_policy_with_report_def policy_permits_def no_denied_scope [symmetric]
  by simp

lemma gate_refuses:
  "\<not> (po_outcome (evaluate_policy E g) = Out_deny \<or> po_outcome (evaluate_policy E g) = Out_yield) \<Longrightarrow> policy_permits E g"
  unfolding evaluate_policy_def evaluate_policy_with_report_def policy_permits_def no_denied_scope [symmetric]
  by (simp split: if_splits)

lemma permitted_valid:
  "validate_intent_for_snapshot intent snapshot t now = Inr c \<Longrightarrow>
     intent_permitted E i d snapshot now j intent \<longleftrightarrow>
       po_outcome (evaluate_policy E (gate_input i d c intent j now)) = Out_allow"
  by (auto simp: intent_permitted_def gate_allows intent_valid_iff) (simp_all add: intent_valid_def)

lemma permitted_invalid:
  "validate_intent_for_snapshot intent snapshot t now = Inl e \<Longrightarrow> \<not> intent_permitted E i d snapshot now j intent"
  by (auto simp: intent_permitted_def intent_valid_iff [of intent snapshot t now, symmetric])

lemma permitted_budget:
  "intent_permitted E i d snapshot now j intent \<Longrightarrow> j < eb_max_total_endpoint_attempts (ti_bounds i)"
  by (auto simp: intent_permitted_def policy_permits_def budget_left_def gate_input_def)

text \<open>What a step leaves: the new state, the errors that came with a stop, the approval filed.\<close>

definition stepped :: "bool \<Rightarrow> execution_intent \<Rightarrow> task_state \<Rightarrow> task_state \<Rightarrow> bool" where
  "stepped called intent st st' \<longleftrightarrow>
     (called \<and> zs_executed st' = zs_executed st @ [intent] \<and> zs_skipped st' = zs_skipped st \<or>
      zs_executed st' = zs_executed st \<and> zs_skipped st' = zs_skipped st @ [intent] \<and> zs_errors st' \<noteq> []) \<and>
     (\<exists>es. zs_errors st' = zs_errors st @ es)"

definition approval_filed ::
    "reconciler_host \<Rightarrow> task_input \<Rightarrow> rec_world \<Rightarrow> reconciliation_status \<Rightarrow> task_approval_request option \<Rightarrow> bool" where
  "approval_filed H i w status approval =
     (case approval of
        None \<Rightarrow> status \<noteq> Rec_requires_approval
      | Some r \<Rightarrow> status = Rec_requires_approval \<and>
          get_approval (wk_store w) (tq_id r) = Some (requested_approval (zh_env H) (zh_secret H) r) \<and>
          (\<exists>c. get_continuation_context (wk_store w) (tq_id r) = Some c \<and> cc_request c = r \<and>
               cc_task_run_id c = ti_task_run_id i \<and> cc_task c = ti_task i \<and> cc_bounds c = ti_bounds i))"

lemma skip_stepped: "stepped called intent st (skip_intent E i now intent e status summary st)"
  by (simp add: stepped_def skip_intent_def)

lemma ask_approval_facts:
  assumes "ask_approval H i d snapshot artifact now intent st w = (res, w')"
  shows "wk_executed w' = wk_executed w \<and>
    (case res of Inl _ \<Rightarrow> True
     | Inr r \<Rightarrow> \<exists>q. r = Stop_with Rec_requires_approval st ''Approval is required.'' (Some q) \<and>
         approval_filed H i w' Rec_requires_approval (Some q))"
proof -
  let ?q = "approval_for (zh_env H) i d now intent"
  let ?c = "\<lparr>cc_request = ?q, cc_project_id = ti_project_id i, cc_project_run_id = ti_project_run_id i,
           cc_task_run_id = ti_task_run_id i, cc_task = ti_task i, cc_delegation = d, cc_bounds = ti_bounds i,
           cc_snapshot = snapshot, cc_artifact = artifact, cc_intent = intent\<rparr>"
  note start = ask_approval_def Let_def ebind_run create_approval_def record_context_def
  show ?thesis
  proof (cases "create_approval_request (zh_env H) (zh_secret H) ?q (wk_store w)")
    case None
    then show ?thesis using assms by (auto simp: start)
  next
    case (Some ds)
    then obtain s where ds: "ds = (requested_approval (zh_env H) (zh_secret H) ?q, s)"
      and s: "put_approval (zh_env H) (requested_approval (zh_env H) (zh_secret H) ?q) (wk_store w) = Some s"
      by (auto simp: create_approval_request_def split: if_splits)
    have at: "get_approval s (tq_id ?q) = Some (requested_approval (zh_env H) (zh_secret H) ?q)"
      using task_approvals.get_same [OF s] by (simp add: requested_approval_def)
    show ?thesis
    proof (cases "record_continuation_context (zh_env H) ?c s")
      case None
      then show ?thesis using assms Some by (auto simp: start ds)
    next
      case (Some s')
      have ctx: "get_continuation_context s' (tq_id ?q) = Some ?c"
        using task_continuations.get_same [OF Some] by simp
      have "get_approval s' = get_approval s"
        using Some by (auto simp: record_continuation_context_def get_approval_def split: if_splits)
      then have "approval_filed H i (w\<lparr>wk_store := s'\<rparr>) Rec_requires_approval (Some ?q)"
        using at ctx by (simp add: approval_filed_def)
      then show ?thesis
        using assms Some \<open>create_approval_request _ _ _ _ = Some ds\<close> by (auto simp: start ds)
    qed
  qed
qed

definition step_sound ::
    "reconciler_host \<Rightarrow> task_input \<Rightarrow> rec_world \<Rightarrow> bool \<Rightarrow> execution_intent \<Rightarrow> task_state \<Rightarrow> loop_step \<Rightarrow> bool" where
  "step_sound H i w called intent st r =
     (case r of
        Go_on st' \<Rightarrow> stepped called intent st st'
      | Stop_with status st' message approval \<Rightarrow>
          stepped called intent st st' \<and> zs_errors st' \<noteq> [] \<and> status \<in> {Rec_yielded, Rec_requires_approval} \<and>
          approval_filed H i w status approval)"

lemma run_intent_facts:
  assumes "run_intent H i d snapshot now intent st w = (res, w')"
    and "mcp_request_ok (zh_env H) (intent_request d snapshot intent)"
  shows "wk_executed w' = wk_executed w @ [intent_request d snapshot intent] \<and>
    (case res of Inl _ \<Rightarrow> True | Inr r \<Rightarrow> step_sound H i w' True intent st r)"
proof (cases "zh_run H (wk_executed w) (intent_request d snapshot intent)")
  case (Inl e)
  then show ?thesis using assms by (auto simp: run_intent_def ebind_run execute_mcp_intent_def)
next
  case (Inr x)
  show ?thesis
  proof (cases "mcp_output_of x")
    case (Mcp_ok message result)
    then show ?thesis using assms Inr
      by (auto simp: run_intent_def ebind_run execute_mcp_intent_def review_intent_def run_mock_critic_def
          step_sound_def stepped_def)
  next
    case (Mcp_error message)
    then show ?thesis using assms Inr
      by (auto simp: run_intent_def ebind_run execute_mcp_intent_def step_sound_def skip_stepped)
  qed
qed

lemma intent_step_facts:
  assumes step: "intent_step H i d snapshot artifact now intent st w = (res, w')"
    and ok: "mcp_request_ok (zh_env H) (intent_request d snapshot intent)"
  shows "wk_executed w' = wk_executed w @
      (if intent_permitted (zh_env H) i d snapshot now (intents_used st) intent
       then [intent_request d snapshot intent] else []) \<and>
    (case res of Inl _ \<Rightarrow> True
     | Inr r \<Rightarrow> step_sound H i w' (intent_permitted (zh_env H) i d snapshot now (intents_used st) intent) intent st r)"
proof (cases "validate_intent_for_snapshot intent snapshot (tk_task_id (ti_task i)) now")
  case (Inl e)
  with step permitted_invalid [OF Inl] show ?thesis
    by (auto simp: intent_step_def step_sound_def skip_stepped)
next
  case (Inr c)
  let ?g = "gate_input i d c intent (length (zs_executed st) + length (zs_skipped st)) now"
  have permitted: "intent_permitted (zh_env H) i d snapshot now (intents_used st) intent \<longleftrightarrow>
      po_outcome (evaluate_policy (zh_env H) ?g) = Out_allow"
    using permitted_valid [OF Inr] by (simp add: intents_used_def)
  let ?skip = "\<lambda>code status. skip_intent (zh_env H) i now intent
      (intent_error i now intent code (po_reason (evaluate_policy (zh_env H) ?g))) status
      (po_reason (evaluate_policy (zh_env H) ?g)) st"
  have errors: "zs_errors (?skip code status) \<noteq> []" for code status by (simp add: skip_intent_def)
  show ?thesis
  proof (cases "po_outcome (evaluate_policy (zh_env H) ?g)")
    case Out_allow
    with step Inr have "run_intent H i d snapshot now intent st w = (res, w')"
      by (simp add: intent_step_def Let_def)
    with run_intent_facts [OF this ok] permitted Out_allow show ?thesis by (simp split: sum.splits)
  next
    case Out_deny
    with step Inr permitted show ?thesis
      by (auto simp: intent_step_def Let_def step_sound_def skip_stepped)
  next
    case Out_requires_approval
    with step Inr have "ask_approval H i d snapshot artifact now intent (?skip APPROVAL_REQUIRED Obs_error) w = (res, w')"
      by (simp add: intent_step_def Let_def)
    from ask_approval_facts [OF this] Out_requires_approval permitted show ?thesis
      by (auto simp: step_sound_def skip_stepped errors split: sum.splits)
  next
    case Out_yield
    with step Inr permitted show ?thesis
      by (auto simp: intent_step_def Let_def step_sound_def skip_stepped errors approval_filed_def)
  qed
qed

text \<open>The calls for a list of intents the first of which is the \<open>j\<close>-th of its task.\<close>

fun permitted_calls ::
    "env \<Rightarrow> task_input \<Rightarrow> delegation_context \<Rightarrow> capability_snapshot \<Rightarrow> string \<Rightarrow> nat \<Rightarrow> execution_intent list
      \<Rightarrow> mcp_request list" where
  "permitted_calls E i d snapshot now j [] = []"
| "permitted_calls E i d snapshot now j (x # xs) =
     (if intent_permitted E i d snapshot now j x then [intent_request d snapshot x] else []) @
     permitted_calls E i d snapshot now (Suc j) xs"

lemma permitted_calls_bound:
  "length (permitted_calls E i d snapshot now j xs) \<le> eb_max_total_endpoint_attempts (ti_bounds i) - j"
proof (induction xs arbitrary: j)
  case (Cons x xs)
  show ?case
    using Cons.IH [of "Suc j"] permitted_budget [of E i d snapshot now j x]
    by (cases "intent_permitted E i d snapshot now j x") auto
qed simp

lemma permitted_calls_length: "length (permitted_calls E i d snapshot now j xs) \<le> length xs"
proof (induction xs arbitrary: j)
  case (Cons x xs)
  then show ?case using le_SucI [OF Cons.IH [of "Suc j"]] by simp
qed simp

definition all_stepped :: "(execution_intent \<Rightarrow> mcp_request) \<Rightarrow> mcp_request list \<Rightarrow> execution_intent list
    \<Rightarrow> task_state \<Rightarrow> task_state \<Rightarrow> bool" where
  "all_stepped request calls xs st st' \<longleftrightarrow>
     (\<exists>ex sk. zs_executed st' = zs_executed st @ ex \<and> zs_skipped st' = zs_skipped st @ sk \<and>
        mset xs = mset ex + mset sk \<and> set (map request ex) \<subseteq> set calls \<and>
        (zs_errors st' = [] \<longrightarrow> sk = [] \<and> zs_errors st = []))"

lemma all_stepped_nil [simp]: "all_stepped request calls [] st st"
  by (simp add: all_stepped_def)

lemma all_stepped_step:
  assumes "stepped called x st st1" and "all_stepped request calls xs st1 st2"
  shows "all_stepped request ((if called then [request x] else []) @ calls) (x # xs) st st2"
proof -
  obtain ex sk where rest: "zs_executed st2 = zs_executed st1 @ ex" "zs_skipped st2 = zs_skipped st1 @ sk"
    "mset xs = mset ex + mset sk" "set (map request ex) \<subseteq> set calls"
    "zs_errors st2 = [] \<longrightarrow> sk = [] \<and> zs_errors st1 = []"
    using assms(2) unfolding all_stepped_def by blast
  consider (run) "called" "zs_executed st1 = zs_executed st @ [x]" "zs_skipped st1 = zs_skipped st"
    | (skip) "zs_executed st1 = zs_executed st" "zs_skipped st1 = zs_skipped st @ [x]" "zs_errors st1 \<noteq> []"
    using assms(1) unfolding stepped_def by blast
  then show ?thesis
  proof cases
    case run
    then show ?thesis
      using rest assms(1) unfolding all_stepped_def stepped_def
      by (intro exI [of _ "x # ex"] exI [of _ sk]) auto
  next
    case skip
    then show ?thesis
      using rest unfolding all_stepped_def by (intro exI [of _ ex] exI [of _ "x # sk"]) auto
  qed
qed

definition loop_sound ::
    "reconciler_host \<Rightarrow> task_input \<Rightarrow> rec_world \<Rightarrow> (execution_intent \<Rightarrow> mcp_request) \<Rightarrow> mcp_request list
      \<Rightarrow> execution_intent list \<Rightarrow> task_state \<Rightarrow> loop_step \<Rightarrow> bool" where
  "loop_sound H i w request calls xs st r =
     (case r of
        Go_on st' \<Rightarrow> all_stepped request calls xs st st'
      | Stop_with status st' message approval \<Rightarrow>
          all_stepped request calls xs st st' \<and> zs_errors st' \<noteq> [] \<and> status \<in> {Rec_yielded, Rec_requires_approval} \<and>
          approval_filed H i w status approval)"

text \<open>A loop that goes on has taken up every intent.\<close>

definition loop_finished :: "nat \<Rightarrow> execution_intent list \<Rightarrow> loop_step \<Rightarrow> bool" where
  "loop_finished n xs r = (case r of Go_on _ \<Rightarrow> n = length xs | Stop_with _ _ _ _ \<Rightarrow> True)"

lemma used_stepped: "stepped called x st st' \<Longrightarrow> intents_used st' = Suc (intents_used st)"
  by (auto simp: stepped_def intents_used_def)

lemma intent_loop_facts:
  assumes "intent_loop H i d snapshot artifact now xs st w = (res, w')"
    and "list_all (\<lambda>x. mcp_request_ok (zh_env H) (intent_request d snapshot x)) xs"
  shows "\<exists>n \<le> length xs. \<exists>calls. calls = permitted_calls (zh_env H) i d snapshot now (intents_used st) (take n xs) \<and>
    wk_executed w' = wk_executed w @ calls \<and>
    (case res of Inl _ \<Rightarrow> True
     | Inr r \<Rightarrow> loop_sound H i w' (intent_request d snapshot) calls (take n xs) st r \<and> loop_finished n xs r)"
  using assms
proof (induction xs arbitrary: st w)
  case Nil
  then show ?case by (auto simp: loop_sound_def loop_finished_def)
next
  case (Cons x xs)
  let ?E = "zh_env H"
  let ?p = "intent_permitted ?E i d snapshot now (intents_used st) x"
  let ?first = "if ?p then [intent_request d snapshot x] else []"
  obtain r1 w1 where s: "intent_step H i d snapshot artifact now x st w = (r1, w1)" by fastforce
  have ok: "mcp_request_ok ?E (intent_request d snapshot x)" using Cons.prems(2) by simp
  note step = intent_step_facts [OF s ok]
  show ?case
  proof (cases r1)
    case (Inl e)
    then have "res = Inl e" "w' = w1" using Cons.prems(1) s by (simp_all add: ebind_run)
    with step show ?thesis by (intro exI [of _ 1]) simp
  next
    case (Inr r)
    have sound: "step_sound H i w1 ?p x st r" using step Inr by simp
    show ?thesis
    proof (cases r)
      case (Stop_with status st' message approval)
      then have res: "res = Inr r" "w' = w1" using Cons.prems(1) s Inr by (simp_all add: ebind_run)
      have "stepped ?p x st st'" using sound Stop_with by (simp add: step_sound_def)
      from all_stepped_step [OF this all_stepped_nil, of "intent_request d snapshot" "[]"]
      have "loop_sound H i w1 (intent_request d snapshot) ?first [x] st r"
        using sound Stop_with by (simp add: loop_sound_def step_sound_def)
      with res step Stop_with show ?thesis by (intro exI [of _ 1]) (simp add: loop_finished_def)
    next
      case (Go_on st')
      then have st: "stepped ?p x st st'" using sound by (simp add: step_sound_def)
      have rest: "intent_loop H i d snapshot artifact now xs st' w1 = (res, w')"
        using Cons.prems(1) s Inr Go_on by (simp add: ebind_run)
      obtain n calls where n: "n \<le> length xs"
        and calls: "calls = permitted_calls ?E i d snapshot now (Suc (intents_used st)) (take n xs)"
        and w': "wk_executed w' = wk_executed w1 @ calls"
        and sr: "case res of Inl _ \<Rightarrow> True
          | Inr r \<Rightarrow> loop_sound H i w' (intent_request d snapshot) calls (take n xs) st' r \<and> loop_finished n xs r"
        using Cons.IH [OF rest] Cons.prems(2) used_stepped [OF st] by auto
      have sound: "case res of Inl _ \<Rightarrow> True
          | Inr r \<Rightarrow> loop_sound H i w' (intent_request d snapshot) (?first @ calls) (x # take n xs) st r \<and>
              loop_finished (Suc n) (x # xs) r"
        using sr all_stepped_step [OF st]
        by (auto simp: loop_sound_def loop_finished_def split: sum.splits loop_step.splits)
      show ?thesis
      proof (intro exI conjI)
        show "Suc n \<le> length (x # xs)" using n by simp
        show "?first @ calls = permitted_calls ?E i d snapshot now (intents_used st) (take (Suc n) (x # xs))"
          using calls by simp
        show "wk_executed w' = wk_executed w @ ?first @ calls" using w' step by simp
        show "case res of Inl _ \<Rightarrow> True | Inr r \<Rightarrow>
            loop_sound H i w' (intent_request d snapshot) (?first @ calls) (take (Suc n) (x # xs)) st r \<and>
            loop_finished (Suc n) (x # xs) r"
          using sound by (simp only: take_Suc_Cons)
      qed
    qed
  qed
qed

definition result_sound ::
    "reconciler_host \<Rightarrow> task_input \<Rightarrow> rec_world \<Rightarrow> (execution_intent \<Rightarrow> mcp_request) \<Rightarrow> mcp_request list
      \<Rightarrow> execution_intent list \<Rightarrow> task_result \<Rightarrow> bool" where
  "result_sound H i w request calls xs r \<longleftrightarrow>
     mset xs = mset (tr_executed r) + mset (tr_skipped r) \<and> set (map request (tr_executed r)) \<subseteq> set calls \<and>
     (tr_status r = Rec_completed \<longleftrightarrow> tr_errors r = []) \<and> (tr_status r = Rec_completed \<longrightarrow> tr_skipped r = []) \<and>
     approval_filed H i w (tr_status r) (tr_approval r)"

lemma checked_result_run:
  "checked_result E r w = (if task_result_ok E r then (Inr r, w) else (Inl Zod_error, w))"
  by (simp add: checked_result_def of_option_def)

text \<open>Of a task that ends as completed, with errors or as failed, every intent was taken up.\<close>

definition taken_up :: "nat \<Rightarrow> execution_intent list \<Rightarrow> task_result \<Rightarrow> bool" where
  "taken_up n xs r \<longleftrightarrow> n = length xs \<or> tr_status r = Rec_yielded \<or> tr_status r = Rec_requires_approval"

lemma loop_result_facts:
  assumes "loop_sound H i w request calls (take n xs) start_state r" and "loop_finished n xs r"
  shows "case loop_result E i snapshot artifact r w of
     (Inl _, w') \<Rightarrow> w' = w
   | (Inr r', w') \<Rightarrow> w' = w \<and> result_sound H i w request calls (take n xs) r' \<and> taken_up n xs r'"
  using assms
  by (auto simp: loop_result_def loop_sound_def loop_finished_def taken_up_def task_result_of_def checked_result_run
      result_sound_def all_stepped_def start_state_def approval_filed_def split: loop_step.splits option.splits)

lemma refuse_artifact_facts:
  assumes "status \<noteq> Rec_completed" and "status \<noteq> Rec_requires_approval"
  shows "case refuse_artifact E i now snapshot artifact status code message obs summary final w of
     (Inl _, w') \<Rightarrow> w' = w
   | (Inr r, w') \<Rightarrow> w' = w \<and> result_sound H i w request [] [] r \<and> tr_status r = status"
  using assms
  by (simp add: refuse_artifact_def task_result_of_def checked_result_run result_sound_def start_state_def
      approval_filed_def)

text \<open>What a task that starts at a time may do: the capabilities it discovers at that time, and the intents of
  the artifact generated for them. There is nothing to do when the input is invalid, when discovering or
  generating fails, or when the artifact is malformed, made for another snapshot or over the bound.\<close>

definition task_delegation :: "task_input \<Rightarrow> delegation_context" where
  "task_delegation i = (ti_delegation i)\<lparr>dc_task_run_id := Some (ti_task_run_id i)\<rparr>"

definition artifact_accepted :: "env \<Rightarrow> task_input \<Rightarrow> capability_snapshot \<Rightarrow> cognitive_artifact \<Rightarrow> bool" where
  "artifact_accepted E i snapshot artifact \<longleftrightarrow>
     cognitive_artifact_ok E artifact \<and> ca_snapshot_id artifact = cs_snapshot_id snapshot \<and>
     length (ca_intents artifact) \<le> eb_max_execution_intents_per_task (ti_bounds i)"

definition task_intents ::
    "reconciler_host \<Rightarrow> task_input \<Rightarrow> string \<Rightarrow> (capability_snapshot \<times> execution_intent list) option" where
  "task_intents H i now =
     (if \<not> task_input_ok (zh_env H) i then None
      else case discover_capabilities H (ti_task i) (task_delegation i) (eb_max_risk_without_approval (ti_bounds i)) now of
          None \<Rightarrow> None
        | Some snapshot \<Rightarrow>
            (case generate_task_artifact H (ti_task i) (task_delegation i) snapshot of
               Inl _ \<Rightarrow> None
             | Inr artifact \<Rightarrow>
                 if artifact_accepted (zh_env H) i snapshot artifact then Some (snapshot, ca_intents artifact) else None))"

text \<open>What a task did: nothing, or the permitted calls for the first of its intents, all of them unless it
  yielded or waits for an approval.\<close>

definition calls_sound ::
    "reconciler_host \<Rightarrow> task_input \<Rightarrow> string \<Rightarrow> rec_world \<Rightarrow> thrown + task_result \<Rightarrow> rec_world \<Rightarrow> bool" where
  "calls_sound H i now w res w' \<longleftrightarrow>
     (case task_intents H i now of
        None \<Rightarrow> wk_executed w' = wk_executed w \<and>
          (case res of Inl _ \<Rightarrow> True
           | Inr r \<Rightarrow> tr_status r = Rec_failed \<and> tr_executed r = [] \<and> tr_skipped r = [] \<and> tr_errors r \<noteq> [])
      | Some (snapshot, xs) \<Rightarrow>
          \<exists>n \<le> length xs. \<exists>calls. calls = permitted_calls (zh_env H) i (task_delegation i) snapshot now 0 (take n xs) \<and>
            wk_executed w' = wk_executed w @ calls \<and>
            length xs \<le> eb_max_execution_intents_per_task (ti_bounds i) \<and>
            length calls \<le> eb_max_total_endpoint_attempts (ti_bounds i) \<and>
            (case res of Inl _ \<Rightarrow> True
             | Inr r \<Rightarrow> result_sound H i w' (intent_request (task_delegation i) snapshot) calls (take n xs) r \<and>
                 taken_up n xs r))"

lemma refused_run:
  assumes "refuse_artifact E i now snapshot artifact Rec_failed code message obs summary final w = (res, w')"
  shows "wk_executed w' = wk_executed w \<and>
    (case res of Inl _ \<Rightarrow> True
     | Inr r \<Rightarrow> tr_status r = Rec_failed \<and> tr_executed r = [] \<and> tr_skipped r = [] \<and> tr_errors r \<noteq> [])"
  using assms
  by (auto simp: refuse_artifact_def task_result_of_def checked_result_run start_state_def split: if_splits)

lemma refused_artifact:
  assumes run: "reconcile_artifact H i d snapshot now artifact w = (res, w')"
    and no: "\<not> artifact_accepted (zh_env H) i snapshot artifact"
  shows "wk_executed w' = wk_executed w \<and>
    (case res of Inl _ \<Rightarrow> True
     | Inr r \<Rightarrow> tr_status r = Rec_failed \<and> tr_executed r = [] \<and> tr_skipped r = [] \<and> tr_errors r \<noteq> [])"
proof -
  consider "\<not> cognitive_artifact_ok (zh_env H) artifact"
    | "cognitive_artifact_ok (zh_env H) artifact" "ca_snapshot_id artifact \<noteq> cs_snapshot_id snapshot"
    | "cognitive_artifact_ok (zh_env H) artifact" "ca_snapshot_id artifact = cs_snapshot_id snapshot"
      "ca_intents artifact \<noteq> []" "length (ca_intents artifact) > eb_max_execution_intents_per_task (ti_bounds i)"
    using no unfolding artifact_accepted_def by fastforce
  then show ?thesis
    by cases (use run in \<open>simp_all add: reconcile_artifact_def Let_def del: length_greater_0_conv\<close>,
        (drule refused_run, assumption)+)
qed

lemma no_intents:
  assumes run: "reconcile_artifact H i d snapshot now artifact w = (res, w')"
    and ok: "artifact_accepted (zh_env H) i snapshot artifact" and "ca_intents artifact = []"
  shows "wk_executed w' = wk_executed w \<and>
    (case res of Inl _ \<Rightarrow> True | Inr r \<Rightarrow> result_sound H i w' request [] [] r)"
proof -
  obtain message where refuse: "refuse_artifact (zh_env H) i now snapshot (Some artifact) Rec_yielded YIELDED message Obs_skipped
      message ''The task yielded without execution.'' w = (res, w')"
    using assms by (auto simp: reconcile_artifact_def artifact_accepted_def Let_def)
  then show ?thesis
    by (auto simp: refuse_artifact_def task_result_of_def checked_result_run result_sound_def start_state_def
        approval_filed_def split: if_splits)
qed

lemma accepted_artifact:
  assumes run: "reconcile_artifact H i d snapshot now artifact w = (res, w')"
    and d: "delegation_context_ok (zh_env H) d" and ok: "artifact_accepted (zh_env H) i snapshot artifact"
  shows "\<exists>n \<le> length (ca_intents artifact). \<exists>calls.
    calls = permitted_calls (zh_env H) i d snapshot now 0 (take n (ca_intents artifact)) \<and>
    wk_executed w' = wk_executed w @ calls \<and>
    (case res of Inl _ \<Rightarrow> True
     | Inr r \<Rightarrow> result_sound H i w' (intent_request d snapshot) calls (take n (ca_intents artifact)) r \<and>
         taken_up n (ca_intents artifact) r)"
proof (cases "ca_intents artifact = []")
  case True
  with no_intents [OF run ok True, of "intent_request d snapshot"] show ?thesis
    by (auto simp: taken_up_def split: sum.splits)
next
  case False
  let ?xs = "ca_intents artifact"
  have requests: "list_all (\<lambda>x. mcp_request_ok (zh_env H) (intent_request d snapshot x)) ?xs"
    using ok d by (auto simp: artifact_accepted_def cognitive_artifact_ok_def list_all_iff execution_intent_ok_def
        mcp_request_ok_def intent_request_def)
  obtain r1 w1 where loop: "intent_loop H i d snapshot artifact now ?xs start_state w = (r1, w1)" by fastforce
  have end': "(case r1 of Inl e \<Rightarrow> (Inl e, w1) | Inr r \<Rightarrow> loop_result (zh_env H) i snapshot artifact r w1) = (res, w')"
    using run False ok loop
    by (simp add: reconcile_artifact_def artifact_accepted_def Let_def ebind_run split: sum.splits)
  obtain n calls where n: "n \<le> length ?xs"
    and calls: "calls = permitted_calls (zh_env H) i d snapshot now 0 (take n ?xs)"
    and w1: "wk_executed w1 = wk_executed w @ calls"
    and sound: "case r1 of Inl _ \<Rightarrow> True
      | Inr r \<Rightarrow> loop_sound H i w1 (intent_request d snapshot) calls (take n ?xs) start_state r \<and> loop_finished n ?xs r"
    using intent_loop_facts [OF loop requests] by (auto simp: intents_used_def start_state_def)
  have "wk_executed w' = wk_executed w1 \<and>
      (case res of Inl _ \<Rightarrow> True
       | Inr r \<Rightarrow> result_sound H i w' (intent_request d snapshot) calls (take n ?xs) r \<and> taken_up n ?xs r)"
  proof (cases r1)
    case (Inr r)
    then show ?thesis
      using loop_result_facts [where H = H and i = i and w = w1 and request = "intent_request d snapshot"
          and calls = calls and n = n and xs = ?xs and r = r and E = "zh_env H" and snapshot = snapshot
          and artifact = artifact]
        sound end' by (auto split: sum.splits)
  qed (use end' in auto)
  then show ?thesis using n calls w1 by auto
qed

lemma reconcile_task_run:
  "reconcile_task H i w =
     (let now = zh_clock H (wk_clock w); w1 = w\<lparr>wk_clock := Suc (wk_clock w)\<rparr> in
      if \<not> task_input_ok (zh_env H) i
      then failed_task_result (zh_env H) now
             (mk_structured_error INVALID_DELEGATION_CONTEXT (zh_zod_message H) now None None None) ''Task input was invalid.'' w1
      else (let w2 = w1\<lparr>wk_tasks := AList.update (ti_task_run_id i)
          \<lparr>tn_project_id = ti_project_id i, tn_task_id = tk_task_id (ti_task i), tn_task_run_id = ti_task_run_id i,
           tn_status = Flow_running, tn_observations = [], tn_errors = [],
           tn_message = Some ''Discovering scoped capabilities.'', tn_result = None, tn_updated_at = now\<rparr> (wk_tasks w)\<rparr> in
        case discover_capabilities H (ti_task i) (task_delegation i) (eb_max_risk_without_approval (ti_bounds i)) now of
          None \<Rightarrow> (Inl Zod_error, w2)
        | Some snapshot \<Rightarrow>
            (case generate_task_artifact H (ti_task i) (task_delegation i) snapshot of
               Inl e \<Rightarrow> (Inl e, w2)
             | Inr artifact \<Rightarrow> reconcile_artifact H i (task_delegation i) snapshot now artifact w2)))"
  by (simp add: reconcile_task_def Let_def ebind_run ethen_run read_clock_def record_task_status_def of_option_def
      task_snapshot_ok_def task_delegation_def split: option.splits sum.splits)

lemma reconcile_task_sound:
  "case reconcile_task H i w of (res, w') \<Rightarrow> calls_sound H i (zh_clock H (wk_clock w)) w res w'"
proof -
  let ?E = "zh_env H" and ?d = "task_delegation i" and ?now = "zh_clock H (wk_clock w)"
  obtain res w' where run: "reconcile_task H i w = (res, w')" by fastforce
  have "calls_sound H i ?now w res w'"
  proof (cases "task_input_ok ?E i")
    case False
    then show ?thesis
      using run by (auto simp: reconcile_task_run Let_def calls_sound_def task_intents_def failed_task_result_def
          checked_result_run split: if_splits)
  next
    case True
    then have d: "delegation_context_ok ?E ?d" by (simp add: task_input_ok_def task_delegation_def delegation_context_ok_def)
    show ?thesis
    proof (cases "discover_capabilities H (ti_task i) ?d (eb_max_risk_without_approval (ti_bounds i)) ?now")
      case None
      then show ?thesis using run True by (auto simp: reconcile_task_run Let_def calls_sound_def task_intents_def)
    next
      case snap: (Some snapshot)
      show ?thesis
      proof (cases "generate_task_artifact H (ti_task i) ?d snapshot")
        case (Inl e)
        then show ?thesis using run True snap by (auto simp: reconcile_task_run Let_def calls_sound_def task_intents_def)
      next
        case (Inr artifact)
        then have "\<exists>w2. wk_executed w2 = wk_executed w \<and> reconcile_artifact H i ?d snapshot ?now artifact w2 = (res, w')"
          using run True snap by (simp add: reconcile_task_run Let_def) (rule exI, rule conjI [rotated], assumption, simp)
        then obtain w2 where w2: "wk_executed w2 = wk_executed w"
          and art: "reconcile_artifact H i ?d snapshot ?now artifact w2 = (res, w')" by blast
        show ?thesis
        proof (cases "artifact_accepted ?E i snapshot artifact")
          case False
          with refused_artifact [OF art False] w2 True snap Inr show ?thesis
            by (simp add: calls_sound_def task_intents_def)
        next
          case ok: True
          have "length (ca_intents artifact) \<le> eb_max_execution_intents_per_task (ti_bounds i)"
            using ok by (simp add: artifact_accepted_def)
          moreover have "length (permitted_calls ?E i ?d snapshot ?now 0 xs) \<le> eb_max_total_endpoint_attempts (ti_bounds i)" for xs
            using permitted_calls_bound [of ?E i ?d snapshot ?now 0 xs] by simp
          ultimately show ?thesis
            using accepted_artifact [OF art d ok] w2 True snap Inr ok by (auto simp: calls_sound_def task_intents_def)
        qed
      qed
    qed
  qed
  with run show ?thesis by simp
qed

text \<open>The calls of a task that started at a time, and its one reading of the clock.\<close>

definition task_call :: "reconciler_host \<Rightarrow> task_input \<Rightarrow> string \<Rightarrow> mcp_request \<Rightarrow> bool" where
  "task_call H i now q \<longleftrightarrow>
     (case task_intents H i now of
        None \<Rightarrow> False
      | Some (snapshot, xs) \<Rightarrow>
          \<exists>j < length xs. q = intent_request (task_delegation i) snapshot (xs ! j) \<and>
            intent_permitted (zh_env H) i (task_delegation i) snapshot now j (xs ! j))"

lemma permitted_call_at:
  "q \<in> set (permitted_calls E i d snapshot now k xs) \<Longrightarrow>
     \<exists>j < length xs. q = intent_request d snapshot (xs ! j) \<and> intent_permitted E i d snapshot now (k + j) (xs ! j)"
proof (induction xs arbitrary: k)
  case (Cons x xs)
  show ?case
  proof (cases "q \<in> set (permitted_calls E i d snapshot now (Suc k) xs)")
    case True
    with Cons.IH obtain j where "j < length xs" "q = intent_request d snapshot (xs ! j)"
      "intent_permitted E i d snapshot now (Suc k + j) (xs ! j)" by blast
    then show ?thesis by (intro exI [of _ "Suc j"]) simp
  next
    case False
    with Cons.prems show ?thesis by (intro exI [of _ 0]) (auto split: if_splits)
  qed
qed simp

lemma calls_sound_calls:
  assumes "calls_sound H i now w res w'"
  shows "\<exists>calls. wk_executed w' = wk_executed w @ calls \<and> list_all (task_call H i now) calls"
proof (cases "task_intents H i now")
  case None
  with assms show ?thesis by (simp add: calls_sound_def)
next
  case (Some p)
  obtain snapshot xs where p: "p = (snapshot, xs)" by fastforce
  from assms Some p obtain n calls where
    calls: "calls = permitted_calls (zh_env H) i (task_delegation i) snapshot now 0 (take n xs)"
    and w': "wk_executed w' = wk_executed w @ calls" by (auto simp: calls_sound_def)
  have "task_call H i now q" if "q \<in> set calls" for q
    using permitted_call_at [OF that [unfolded calls]] Some p by (auto simp: task_call_def)
  with w' show ?thesis by (auto simp: list_all_iff)
qed

text \<open>C5: A task that starts at a time calls, also when it throws, exactly the capabilities of the intents it takes
  up that are valid for the snapshot discovered at that time and permitted then by the policy gate without an
  approval, each with the number of intents already used, in the order of the artifact generated for that
  snapshot, and within the bounds. It calls nothing and fails when the input is invalid or the artifact is
  malformed, made for another snapshot or too long. Every intent is taken up unless the task yields, waits
  for an approval or throws; of a task that returns each is executed or skipped, the executed ones were
  called, the status is completed exactly when there is no error, and approval is required exactly when a
  request for it and the context to continue with are filed.\<close>
theorem task_calls_permitted:
  "case reconcile_task H i w of (res, w') \<Rightarrow> calls_sound H i (zh_clock H (wk_clock w)) w res w'"
  by (rule reconcile_task_sound)

end
