(* ===== verification/Task_Continuation.thy ===== *)
theory Task_Continuation
  imports Task_Reconciler
begin

text \<open>
  \<open>workflows/task-continuation.ts\<close> with \<open>tasks/load-approval-continuation.ts\<close>, and the approval functions
  of \<open>hatchet/workflow-client.ts\<close>: a decision is stored, and an approved intent is called after it has been
  checked again.
\<close>

section \<open>Continuing a task\<close>

definition result_from_context ::
    "env \<Rightarrow> reconciliation_status \<Rightarrow> continuation_context \<Rightarrow> observation list \<Rightarrow> structured_error list \<Rightarrow> string
      \<Rightarrow> task_result reconciling" where
  "result_from_context E status c obs errors message =
     checked_result E
       \<lparr>tr_id = reconciliation_id E [(''task_id'', JStr (tk_task_id (cc_task c))),
            (''status'', JStr (reconciliation_status_str status))] errors,
        tr_task_id = tk_task_id (cc_task c), tr_task_run_id = cc_task_run_id c, tr_status = status,
        tr_snapshot = cc_snapshot c, tr_artifact = Some (cc_artifact c),
        tr_executed = (if status = Rec_completed then [cc_intent c] else []),
        tr_skipped = (if status = Rec_completed then [] else [cc_intent c]),
        tr_observations = obs, tr_errors = errors, tr_message = message, tr_approval = Some (cc_request c)\<rparr>"

definition missing_context_result :: "env \<Rightarrow> string \<Rightarrow> string \<Rightarrow> task_result reconciling" where
  "missing_context_result E task_run_id now =
     (let e = mk_structured_error INVALID_ARTIFACT ''Approval continuation context was not found'' now None None None in
      checked_result E
       \<lparr>tr_id = reconciliation_id E [(''taskRunId'', JStr task_run_id)] [e], tr_task_id = ''unknown'',
        tr_task_run_id = task_run_id, tr_status = Rec_failed,
        tr_snapshot = \<lparr>cs_snapshot_id = ''caps_missing'', cs_created_at = now,
          cs_capabilities_hash = replicate 64 CHR ''0'', cs_capabilities = []\<rparr>,
        tr_artifact = None, tr_executed = [], tr_skipped = [], tr_observations = [], tr_errors = [e],
        tr_message = ''Approval continuation context was not found.'', tr_approval = None\<rparr>)"

definition record_and_return :: "reconciler_host \<Rightarrow> task_result \<Rightarrow> string \<Rightarrow> task_result reconciling" where
  "record_and_return H r now =
     ethen (record_task_status H
       \<lparr>tn_project_id = (case tr_approval r of None \<Rightarrow> tr_task_id r | Some q \<Rightarrow> tq_project_id q),
        tn_task_id = tr_task_id r, tn_task_run_id = tr_task_run_id r, tn_status = Flow_result (tr_status r),
        tn_observations = tr_observations r, tn_errors = tr_errors r, tn_message = Some (tr_message r),
        tn_result = Some r, tn_updated_at = now\<rparr>)
     (ereturn r)"

definition finish_continuation ::
    "reconciler_host \<Rightarrow> reconciliation_status \<Rightarrow> continuation_context \<Rightarrow> observation list \<Rightarrow> structured_error list \<Rightarrow> string
      \<Rightarrow> string \<Rightarrow> task_result reconciling" where
  "finish_continuation H status c obs errors message now =
     ebind (result_from_context (zh_env H) status c obs errors message) (\<lambda>r. record_and_return H r now)"

definition context_error ::
    "continuation_context \<Rightarrow> string \<Rightarrow> error_code \<Rightarrow> string \<Rightarrow> structured_error" where
  "context_error c now code message =
     mk_structured_error code message now (Some (tk_task_id (cc_task c))) (Some (ei_intent_id (cc_intent c))) None"

definition context_gate :: "continuation_context \<Rightarrow> capability_descriptor \<Rightarrow> string \<Rightarrow> policy_gate_input" where
  "context_gate c cap now =
     \<lparr>pg_delegation = cc_delegation c, pg_task = cc_task c, pg_capability = cap, pg_intent = cc_intent c,
      pg_bounds = cc_bounds c, pg_attempts_used = 0, pg_now = now\<rparr>"

definition context_call :: "continuation_context \<Rightarrow> mcp_request" where
  "context_call c = intent_request (cc_delegation c) (cc_snapshot c) (cc_intent c)"

definition call_approved :: "reconciler_host \<Rightarrow> continuation_context \<Rightarrow> string \<Rightarrow> task_result reconciling" where
  "call_approved H c now =
     ebind (execute_mcp_intent H (context_call c)) (\<lambda>out.
       case out of
         Mcp_error message \<Rightarrow>
           finish_continuation H Rec_failed c [] [context_error c now MCP_EXECUTION_FAILED message]
             ''Approved endpoint execution failed.'' now
       | Mcp_ok message result \<Rightarrow>
           (let obs = [mk_observation (zh_env H) Obs_recorded message now (Some (tk_task_id (cc_task c)))
                        (Some (ei_intent_id (cc_intent c))) (Some (nullish result JUndef))]
            in case run_mock_critic (cc_task c) None of
                 (Critic_pass, _) \<Rightarrow>
                   finish_continuation H Rec_completed c obs [] ''Approved task completed.'' now
               | (outcome, summary) \<Rightarrow>
                   finish_continuation H Rec_yielded c obs
                     [context_error c now (if outcome = Critic_revise then REVISION_UNSUPPORTED else YIELDED) summary]
                     ''Approved task yielded after critic review.'' now))"

definition continue_context ::
    "reconciler_host \<Rightarrow> string \<Rightarrow> string \<Rightarrow> continuation_context \<Rightarrow> task_approval \<Rightarrow> string \<Rightarrow> task_result reconciling" where
  "continue_context H request_id task_run_id c d now =
     (let E = zh_env H in
      if cc_task_run_id c \<noteq> task_run_id \<or> tq_id (cc_request c) \<noteq> request_id
      then finish_continuation H Rec_failed c []
             [mk_structured_error INVALID_ARTIFACT ''Approval continuation context does not match input'' now
                (Some (tk_task_id (cc_task c))) None None]
             ''Approval continuation context did not match.'' now
      else if ad_decision d \<noteq> Decision_approved
      then finish_continuation H Rec_yielded c []
             [context_error c now YIELDED (nullish (ad_reason d) ''Approval was not granted'')]
             ''Task yielded after rejection.'' now
      else (case validate_intent_for_snapshot (cc_intent c) (cc_snapshot c) (tk_task_id (cc_task c)) now of
              Inl e \<Rightarrow> finish_continuation H Rec_failed c [] [e] ''Approved intent no longer validates.'' now
            | Inr cap \<Rightarrow>
                (let policy = evaluate_policy E (context_gate c cap now) in
                 if po_outcome policy = Out_deny \<or> po_outcome policy = Out_yield
                 then finish_continuation H (if po_outcome policy = Out_yield then Rec_yielded else Rec_failed) c []
                        [context_error c now (if po_outcome policy = Out_yield then YIELDED else POLICY_DENIED)
                           (po_reason policy)]
                        ''Approved intent failed policy validation.'' now
                 else call_approved H c now)))"

definition task_continuation :: "reconciler_host \<Rightarrow> string \<Rightarrow> string \<Rightarrow> task_result reconciling" where
  "task_continuation H request_id task_run_id =
     (let E = zh_env H in
      ebind (read_clock H) (\<lambda>now.
        if request_id = [] \<or> task_run_id = [] then ethrow Zod_error
        else (\<lambda>w.
          case (get_continuation_context (wk_store w) request_id, get_approval (wk_store w) request_id) of
            (Some c, Some d) \<Rightarrow>
              if continuation_context_ok E c \<and> task_approval_ok E d
              then continue_context H request_id task_run_id c d now w else (Inl Zod_error, w)
          | _ \<Rightarrow> missing_context_result E task_run_id now w)))"

section \<open>Decisions\<close>

definition get_task_status :: "rec_world \<Rightarrow> string \<Rightarrow> task_snapshot option" where
  "get_task_status w task =
     nullish_opt (map_of (wk_tasks w) task) (List.find (\<lambda>s. tn_task_id s = task) (map snd (wk_tasks w)))"

record approval_action =
  xa_task :: string
  xa_decided_by :: string
  xa_reason :: string
  xa_token :: "string option"

record action_result =
  xq_decision :: "task_approval option"
  xq_continued :: bool
  xq_status :: "task_snapshot option"

definition token_accepted :: "reconciler_host \<Rightarrow> task_approval \<Rightarrow> string option \<Rightarrow> bool" where
  "token_accepted H d token =
     (\<not> truthy token \<or>
      (truthy (ad_token_hash d) \<and>
       verify_approval_token (zh_env H) (zh_secret H) (ad_id d) (nullish token []) (nullish (ad_token_hash d) [])))"

text \<open>The decision is parsed once more after it was stored.\<close>

definition decide ::
    "reconciler_host \<Rightarrow> approval_action
      \<Rightarrow> (string \<Rightarrow> string \<Rightarrow> string \<Rightarrow> string \<Rightarrow> approval_store \<Rightarrow> (task_approval \<times> approval_store) option option)
      \<Rightarrow> task_approval \<Rightarrow> task_approval reconciling" where
  "decide H a store d =
     (if \<not> token_accepted H d (xa_token a) then ethrow (Plain_error ''INVALID_APPROVAL_TOKEN'')
      else ebind (read_clock H) (\<lambda>now w.
        case store (ad_id d) (xa_decided_by a) now (xa_reason a) (wk_store w) of
          Some (Some (d', s)) \<Rightarrow> (Inr d', w\<lparr>wk_store := s\<rparr>)
        | _ \<Rightarrow> (Inl Zod_error, w)))"

definition no_action :: action_result where
  "no_action = \<lparr>xq_decision = None, xq_continued = False, xq_status = None\<rparr>"

definition approve_task :: "reconciler_host \<Rightarrow> approval_action \<Rightarrow> action_result reconciling" where
  "approve_task H a = (\<lambda>w.
     case get_approval_for_task (wk_store w) (xa_task a) of
       None \<Rightarrow> (Inr no_action, w)
     | Some d \<Rightarrow>
         ebind (decide H a (approve_request (zh_env H)) d) (\<lambda>d' w'.
           case get_continuation_context (wk_store w') (ad_id d') of
             None \<Rightarrow> (Inr \<lparr>xq_decision = Some d', xq_continued = False,
                          xq_status = get_task_status w' (xa_task a)\<rparr>, w')
           | Some c \<Rightarrow> (Inr \<lparr>xq_decision = Some d', xq_continued = True,
                            xq_status = get_task_status w' (xa_task a)\<rparr>,
                        w'\<lparr>wk_started := wk_started w' @ [(ad_id d', cc_task_run_id c)]\<rparr>)) w)"

definition reject_task :: "reconciler_host \<Rightarrow> approval_action \<Rightarrow> action_result reconciling" where
  "reject_task H a = (\<lambda>w.
     case get_approval_for_task (wk_store w) (xa_task a) of
       None \<Rightarrow> (Inr no_action, w)
     | Some d \<Rightarrow>
         ebind (decide H a (reject_request (zh_env H)) d) (\<lambda>d' w'.
           ethen (case get_continuation_context (wk_store w') (ad_id d') of
               None \<Rightarrow> ereturn ()
             | Some c \<Rightarrow>
                 (let now = nullish (ad_decided_at d') [] in
                  record_task_status H
                    \<lparr>tn_project_id = cc_project_id c, tn_task_id = tk_task_id (cc_task c),
                     tn_task_run_id = cc_task_run_id c, tn_status = Flow_result Rec_yielded,
                     tn_observations = [mk_observation (zh_env H) Obs_skipped ''Approval was rejected.'' now
                        (Some (tk_task_id (cc_task c))) (Some (ei_intent_id (cc_intent c))) None],
                     tn_errors = [context_error c now YIELDED (nullish (ad_reason d') ''Approval was rejected'')],
                     tn_message = Some ''Task yielded after rejection.'', tn_result = None, tn_updated_at = now\<rparr>))
           (\<lambda>w. (Inr \<lparr>xq_decision = Some d', xq_continued = False,
                      xq_status = get_task_status w (xa_task a)\<rparr>, w)) w') w)"

end
