(* ===== verification/Project_Reconciler.thy ===== *)
theory Project_Reconciler
  imports Task_Continuation
begin

text \<open>
  \<open>workflows/project-reconciler.ts\<close> with \<open>tasks/generate-execution-plan.ts\<close> and the plan made without a
  model (\<open>activities/cognition.ts\<close>): a goal becomes scoped tasks, each of which is reconciled in turn.
\<close>

section \<open>Plans\<close>

record execution_plan =
  xp_plan_id :: string
  xp_project_id :: string
  xp_version :: string
  xp_goal :: string
  xp_tasks :: "scoped_task list"
  xp_assumptions :: "string list"

definition execution_plan_ok :: "execution_plan \<Rightarrow> bool" where
  "execution_plan_ok p =
     (nonempty (xp_plan_id p) \<and> nonempty (xp_project_id p) \<and> nonempty (xp_version p) \<and> nonempty (xp_goal p) \<and>
      list_all scoped_task_ok (xp_tasks p))"

record project_input =
  jx_goal :: string
  jx_project_id :: "string option"
  jx_delegation :: delegation_context
  jx_metadata :: "(string \<times> json) list option"
  jx_bounds :: "execution_bounds option"

definition project_input_ok :: "env \<Rightarrow> project_input \<Rightarrow> bool" where
  "project_input_ok E i =
     (nonempty (jx_goal i) \<and> opt_ok nonempty (jx_project_id i) \<and> delegation_context_ok E (jx_delegation i) \<and>
      opt_ok execution_bounds_ok (jx_bounds i))"

definition deterministic_task_run_id :: "env \<Rightarrow> string \<Rightarrow> string \<Rightarrow> nat \<Rightarrow> string \<Rightarrow> string" where
  "deterministic_task_run_id E project_id version index title =
     det_id E ''task_run'' (JObj [(''project_id'', JStr project_id), (''plan_version'', JStr version),
       (''task_index'', JNum (int index)), (''task_title'', JStr title)]) 24"

text \<open>The planner model, when one is configured, is given the goal, the delegation, the metadata and the bound
  on tasks.\<close>

record project_host =
  ph_rec :: reconciler_host
  ph_plan :: "(string \<Rightarrow> delegation_context \<Rightarrow> (string \<times> json) list option \<Rightarrow> nat \<Rightarrow> thrown + execution_plan) option"

definition deterministic_execution_plan :: "string \<Rightarrow> delegation_context \<Rightarrow> nat \<Rightarrow> execution_plan" where
  "deterministic_execution_plan goal d max_tasks =
     (let name = strip_project_prefix (dc_project_id d) in
      \<lparr>xp_plan_id = ''plan_'' @ name, xp_project_id = dc_project_id d, xp_version = ''v1'', xp_goal = goal,
       xp_tasks = take max_tasks
         [\<lparr>tk_task_id = ''task_'' @ take 16 name @ ''_summary'', tk_title = ''Create README summary'',
           tk_objective = goal, tk_allowed_scopes = [''project:read'', ''project:summarize''],
           tk_allowed_capabilities = [''read_file'', ''draft_readme_summary''], tk_max_risk_level = Risk_read\<rparr>],
       xp_assumptions = [''Deterministic fallback used because no provider key is configured.'']\<rparr>)"

definition generate_execution_plan ::
    "project_host \<Rightarrow> string \<Rightarrow> delegation_context \<Rightarrow> (string \<times> json) list option \<Rightarrow> execution_bounds
      \<Rightarrow> thrown + execution_plan" where
  "generate_execution_plan P goal d metadata bounds =
     (case (case ph_plan P of
              None \<Rightarrow> Inr (deterministic_execution_plan goal d (eb_max_tasks_per_project bounds))
            | Some model \<Rightarrow> model goal d metadata (eb_max_tasks_per_project bounds)) of
        Inl e \<Rightarrow> Inl e
      | Inr p \<Rightarrow> if execution_plan_ok p then Inr p else Inl Zod_error)"

section \<open>Results\<close>

record project_result =
  jr_project_id :: string
  jr_project_run_id :: string
  jr_status :: reconciliation_status
  jr_plan :: "execution_plan option"
  jr_task_run_ids :: "string list"
  jr_results :: "task_result list"
  jr_observations :: "observation list"
  jr_errors :: "structured_error list"
  jr_message :: string

definition project_result_ok :: "env \<Rightarrow> project_result \<Rightarrow> bool" where
  "project_result_ok E r =
     (nonempty (jr_project_id r) \<and> nonempty (jr_project_run_id r) \<and> opt_ok execution_plan_ok (jr_plan r) \<and>
      list_all (task_result_ok E) (jr_results r) \<and> list_all (observation_ok E) (jr_observations r) \<and>
      list_all (structured_error_ok E) (jr_errors r))"

definition checked_project_result :: "env \<Rightarrow> project_result \<Rightarrow> project_result reconciling" where
  "checked_project_result E r = of_option Zod_error (if project_result_ok E r then Some r else None)"

definition aggregate_status :: "reconciliation_status list \<Rightarrow> reconciliation_status" where
  "aggregate_status ss =
     (if Rec_requires_approval \<in> set ss then Rec_requires_approval
      else if Rec_failed \<in> set ss then Rec_failed
      else if Rec_yielded \<in> set ss then Rec_yielded
      else if Rec_completed_with_errors \<in> set ss then Rec_completed_with_errors else Rec_completed)"

fun project_message :: "reconciliation_status \<Rightarrow> string list \<Rightarrow> string" where
  "project_message Rec_completed messages = join '' '' messages"
| "project_message Rec_requires_approval messages = ''Project requires approval before continuing.''"
| "project_message Rec_yielded messages = ''Project yielded safely.''"
| "project_message Rec_completed_with_errors messages = ''Project completed with errors.''"
| "project_message Rec_failed messages = ''Project failed.''"

definition project_status ::
    "string \<Rightarrow> string \<Rightarrow> workflow_status \<Rightarrow> string list \<Rightarrow> observation list \<Rightarrow> structured_error list \<Rightarrow> string \<Rightarrow> string
      \<Rightarrow> project_snapshot" where
  "project_status project_id run_id status task_run_ids obs errors message now =
     \<lparr>pj_project_id = project_id, pj_project_run_id = run_id, pj_status = status, pj_task_run_ids = task_run_ids,
      pj_observations = obs, pj_errors = errors, pj_message = Some message, pj_updated_at = now\<rparr>"

section \<open>Reconciling a project\<close>

record project_context =
  jc_project_id :: string
  jc_run_id :: string
  jc_delegation :: delegation_context
  jc_bounds :: execution_bounds
  jc_plan :: execution_plan
  jc_task_run_ids :: "string list"

definition project_task_input :: "project_context \<Rightarrow> string \<Rightarrow> scoped_task \<Rightarrow> task_input" where
  "project_task_input c run_id t =
     \<lparr>ti_project_id = jc_project_id c, ti_project_run_id = jc_run_id c, ti_task_run_id = run_id, ti_task = t,
      ti_delegation = (jc_delegation c)\<lparr>dc_task_run_id := Some run_id\<rparr>, ti_bounds = jc_bounds c\<rparr>"

definition project_task ::
    "reconciler_host \<Rightarrow> project_context \<Rightarrow> string \<Rightarrow> scoped_task \<Rightarrow> task_result list \<Rightarrow> task_result reconciling" where
  "project_task H c run_id t earlier =
     ebind (reconcile_task H (project_task_input c run_id t)) (\<lambda>r.
     ebind (read_clock H) (\<lambda>now1.
     ethen (record_task_status H
         \<lparr>tn_project_id = jc_project_id c, tn_task_id = tr_task_id r, tn_task_run_id = tr_task_run_id r,
          tn_status = Flow_result (tr_status r), tn_observations = tr_observations r, tn_errors = tr_errors r,
          tn_message = Some (tr_message r), tn_result = Some r, tn_updated_at = now1\<rparr>)
     (ebind (read_clock H) (\<lambda>now2.
     ethen (record_project_status H
         (project_status (jc_project_id c) (jc_run_id c) Flow_running (jc_task_run_ids c)
           (concat (map tr_observations (earlier @ [r]))) (concat (map tr_errors (earlier @ [r])))
           (''Completed '' @ nat_str (length (earlier @ [r])) @ '' of '' @ nat_str (length (xp_tasks (jc_plan c))) @
            '' task workflows.'') now2))
     (ereturn r)))))"

fun project_tasks ::
    "reconciler_host \<Rightarrow> project_context \<Rightarrow> (string \<times> scoped_task) list \<Rightarrow> task_result list \<Rightarrow> task_result list reconciling" where
  "project_tasks H c [] results = ereturn results"
| "project_tasks H c ((run_id, t) # rest) results =
     ebind (project_task H c run_id t results) (\<lambda>r. project_tasks H c rest (results @ [r]))"

definition finish_project :: "reconciler_host \<Rightarrow> project_context \<Rightarrow> task_result list \<Rightarrow> project_result reconciling" where
  "finish_project H c results =
     (let status = aggregate_status (map tr_status results); obs = concat (map tr_observations results);
          errors = concat (map tr_errors results); message = project_message status (map tr_message results)
      in ebind (read_clock H) (\<lambda>now.
         ethen (record_project_status H
             (project_status (jc_project_id c) (jc_run_id c) (Flow_result status) (jc_task_run_ids c) obs errors message now))
         (checked_project_result (zh_env H)
           \<lparr>jr_project_id = jc_project_id c, jr_project_run_id = jc_run_id c, jr_status = status,
            jr_plan = Some (jc_plan c), jr_task_run_ids = jc_task_run_ids c, jr_results = results,
            jr_observations = obs, jr_errors = errors, jr_message = message\<rparr>)))"

definition failed_project ::
    "env \<Rightarrow> string \<Rightarrow> string \<Rightarrow> execution_plan option \<Rightarrow> structured_error \<Rightarrow> string \<Rightarrow> project_result reconciling" where
  "failed_project E project_id run_id plan e message =
     checked_project_result E
       \<lparr>jr_project_id = project_id, jr_project_run_id = run_id, jr_status = Rec_failed, jr_plan = plan,
        jr_task_run_ids = [], jr_results = [], jr_observations = [], jr_errors = [e], jr_message = message\<rparr>"

definition run_plan ::
    "reconciler_host \<Rightarrow> string \<Rightarrow> string \<Rightarrow> delegation_context \<Rightarrow> execution_bounds \<Rightarrow> string \<Rightarrow> execution_plan
      \<Rightarrow> project_result reconciling" where
  "run_plan H project_id run_id d bounds now plan =
     (let E = zh_env H; error = (\<lambda>code message. mk_structured_error code message now None None None) in
      if \<not> execution_plan_ok plan
      then (let e = error INVALID_PLAN (zh_zod_message H) in
            ethen (record_project_status H
                (project_status project_id run_id (Flow_result Rec_failed) [] [] [e] ''Execution plan was invalid.'' now))
            (failed_project E project_id run_id None e ''Execution plan was invalid.''))
      else if length (xp_tasks plan) > eb_max_tasks_per_project bounds
      then failed_project E project_id run_id (Some plan) (error BUDGET_EXCEEDED ''Plan exceeds maximum task count'')
             ''Task count bound exceeded.''
      else (let ids = map (\<lambda>(i, t). deterministic_task_run_id E project_id (xp_version plan) i (tk_title t))
                        (enumerate 0 (xp_tasks plan));
                c = \<lparr>jc_project_id = project_id, jc_run_id = run_id, jc_delegation = d, jc_bounds = bounds,
                     jc_plan = plan, jc_task_run_ids = ids\<rparr>
            in ethen (record_project_status H
                 (project_status project_id run_id Flow_running ids
                   [mk_observation E Obs_recorded ''Execution plan validated.'' now None None None] []
                   ''Running scoped task workflows.'' now))
               (ebind (project_tasks H c (zip ids (xp_tasks plan)) []) (finish_project H c))))"

definition reconcile_project :: "project_host \<Rightarrow> project_input \<Rightarrow> project_result reconciling" where
  "reconcile_project P i =
     (let H = ph_rec P; E = zh_env H in
      ebind (read_clock H) (\<lambda>now.
        if \<not> project_input_ok E i
        then failed_project E ''project_invalid'' ''project_run_invalid'' None
               (mk_structured_error INVALID_DELEGATION_CONTEXT (zh_zod_message H) now None None None)
               ''Project input was invalid.''
        else (let project_id = nullish (jx_project_id i) (deterministic_project_id E (jx_goal i) (dc_workspace_id (jx_delegation i))
                    (dc_principal_id (jx_delegation i)) (dc_delegate_id (jx_delegation i)));
                  run_id = deterministic_project_run_id project_id;
                  d = (jx_delegation i)\<lparr>dc_project_id := project_id, dc_parent_run_id := run_id\<rparr>;
                  bounds = nullish (jx_bounds i) default_execution_bounds
              in if \<not> delegation_context_ok E d then ethrow Zod_error
                 else ethen (record_project_status H
                     (project_status project_id run_id Flow_planning [] [] [] ''Planning project.'' now))
                   (case generate_execution_plan P (jx_goal i) d (jx_metadata i) bounds of
                      Inl e \<Rightarrow> ethrow e
                    | Inr plan \<Rightarrow> run_plan H project_id run_id d bounds now plan))))"

end
