(* ===== verification/Reconciliation.thy ===== *)
theory Reconciliation
  imports Project_Reconciler
begin

text \<open>
  The system of \<open>workflows/\<close> and \<open>hatchet/workflow-client.ts\<close> as a whole: whatever projects, tasks,
  decisions and continuations it has been given, every call it made was permitted by the policy gate, or
  was approved by a person.
\<close>

section \<open>The system\<close>

datatype rec_action =
    Submit_project project_input
  | Run_task task_input
  | Approve_request approval_action
  | Reject_request approval_action
  | Continue_task string string

fun rec_step :: "project_host \<Rightarrow> rec_action \<Rightarrow> rec_world \<Rightarrow> rec_world" where
  "rec_step P (Submit_project i) w = snd (reconcile_project P i w)"
| "rec_step P (Run_task i) w = snd (reconcile_task (ph_rec P) i w)"
| "rec_step P (Approve_request a) w = snd (approve_task (ph_rec P) a w)"
| "rec_step P (Reject_request a) w = snd (reject_task (ph_rec P) a w)"
| "rec_step P (Continue_task request_id run_id) w = snd (task_continuation (ph_rec P) request_id run_id w)"

definition empty_rec_world :: rec_world where
  "empty_rec_world =
     \<lparr>wk_clock = 0, wk_tasks = [], wk_projects = [], wk_store = \<lparr>as_approvals = [], as_continuations = []\<rparr>,
      wk_executed = [], wk_started = []\<rparr>"

definition rec_run :: "project_host \<Rightarrow> rec_action list \<Rightarrow> rec_world" where
  "rec_run P actions = foldl (\<lambda>w a. rec_step P a w) empty_rec_world actions"

section \<open>What justifies a call\<close>

text \<open>The tasks an action starts, each with its turn: one for \<open>Run_task\<close>; for a project the tasks of the plan
  generated for its goal, when its input is valid and the plan is well formed and within the bounds. A task
  reads the clock once; a project reads it once before its tasks and twice after each of them, so the start of
  every task is a definite reading of the clock.\<close>

definition plan_tasks :: "project_host \<Rightarrow> string \<Rightarrow> delegation_context \<Rightarrow> execution_bounds \<Rightarrow> execution_plan \<Rightarrow> task_input list" where
  "plan_tasks P project_id d bounds plan =
     (if \<not> execution_plan_ok plan \<or> length (xp_tasks plan) > eb_max_tasks_per_project bounds then []
      else (let ids = map (\<lambda>(i, t). deterministic_task_run_id (zh_env (ph_rec P)) project_id (xp_version plan) i (tk_title t))
                        (enumerate 0 (xp_tasks plan))
            in map (\<lambda>(run_id, t). project_task_input
                 \<lparr>jc_project_id = project_id, jc_run_id = deterministic_project_run_id project_id, jc_delegation = d,
                  jc_bounds = bounds, jc_plan = plan, jc_task_run_ids = ids\<rparr> run_id t) (zip ids (xp_tasks plan))))"

definition project_tasks_of :: "project_host \<Rightarrow> project_input \<Rightarrow> task_input list" where
  "project_tasks_of P i =
     (let E = zh_env (ph_rec P);
          project_id = nullish (jx_project_id i) (deterministic_project_id E (jx_goal i) (dc_workspace_id (jx_delegation i))
              (dc_principal_id (jx_delegation i)) (dc_delegate_id (jx_delegation i)));
          d = (jx_delegation i)\<lparr>dc_project_id := project_id, dc_parent_run_id := deterministic_project_run_id project_id\<rparr>;
          bounds = nullish (jx_bounds i) default_execution_bounds
      in if project_input_ok E i \<and> delegation_context_ok E d
         then (case generate_execution_plan P (jx_goal i) d (jx_metadata i) bounds of
                 Inl _ \<Rightarrow> []
               | Inr plan \<Rightarrow> plan_tasks P project_id d bounds plan)
         else [])"

fun task_starts :: "project_host \<Rightarrow> rec_action \<Rightarrow> nat \<Rightarrow> (task_input \<times> nat) list" where
  "task_starts P (Run_task i) clock = [(i, clock)]"
| "task_starts P (Submit_project i) clock = map (\<lambda>(m, t). (t, Suc clock + 3 * m)) (enumerate 0 (project_tasks_of P i))"
| "task_starts P (Approve_request a) clock = []"
| "task_starts P (Reject_request a) clock = []"
| "task_starts P (Continue_task request_id run_id) clock = []"

text \<open>A call for an intent of a task that one of the actions started, of the artifact generated for the snapshot
  discovered when the task started, valid for that snapshot and permitted at that time without an approval.\<close>

definition call_permitted :: "project_host \<Rightarrow> rec_action list \<Rightarrow> mcp_request \<Rightarrow> bool" where
  "call_permitted P actions q \<longleftrightarrow>
     (\<exists>earlier a later i k. actions = earlier @ a # later \<and>
        (i, k) \<in> set (task_starts P a (wk_clock (rec_run P earlier))) \<and>
        task_call (ph_rec P) i (zh_clock (ph_rec P) k) q)"

definition names_intent :: "continuation_context \<Rightarrow> bool" where
  "names_intent c \<longleftrightarrow>
     tq_intent_id (cc_request c) = ei_intent_id (cc_intent c) \<and>
     tq_capability (cc_request c) = ei_capability_name (cc_intent c) \<and> tq_risk_level (cc_request c) = ei_risk_level (cc_intent c)"

text \<open>An approve action was taken on the request, with a token that was accepted.\<close>

definition approved_in :: "project_host \<Rightarrow> rec_action list \<Rightarrow> string \<Rightarrow> string \<Rightarrow> bool" where
  "approved_in P actions request_id who \<longleftrightarrow>
     (\<exists>earlier (a::approval_action) later (d::task_approval). actions = earlier @ Approve_request a # later \<and>
        get_approval_for_task (wk_store (rec_run P earlier)) (xa_task a) = Some d \<and> ad_id d = request_id \<and>
        token_accepted (ph_rec P) d (xa_token a) \<and> xa_decided_by a = who)"

definition call_granted :: "project_host \<Rightarrow> rec_action list \<Rightarrow> mcp_request \<Rightarrow> bool" where
  "call_granted P actions q \<longleftrightarrow>
     (\<exists>earlier request_id run_id later (c::continuation_context) (d::task_approval) capability who.
        actions = earlier @ Continue_task request_id run_id # later \<and>
        get_continuation_context (wk_store (rec_run P earlier)) request_id = Some c \<and> names_intent c \<and>
        get_approval (wk_store (rec_run P earlier)) request_id = Some d \<and>
        ad_decision d = Decision_approved \<and> ad_approved_by d = Some who \<and> approved_in P earlier request_id who \<and>
        intent_valid (cc_intent c) (cc_snapshot c) capability \<and>
        policy_permits (zh_env (ph_rec P))
          (context_gate c capability (zh_clock (ph_rec P) (wk_clock (rec_run P earlier)))) \<and> q = context_call c)"

definition approvals_given :: "project_host \<Rightarrow> rec_action list \<Rightarrow> approval_store \<Rightarrow> bool" where
  "approvals_given P actions s \<longleftrightarrow>
     (\<forall>request_id d. get_approval s request_id = Some d \<longrightarrow> ad_id d = request_id \<and>
        (ad_decision d = Decision_approved \<longrightarrow>
           (\<exists>who. ad_approved_by d = Some who \<and> approved_in P actions request_id who))) \<and>
     (\<forall>request_id c. get_continuation_context s request_id = Some c \<longrightarrow> names_intent c)"

definition rec_inv :: "project_host \<Rightarrow> rec_action list \<Rightarrow> rec_world \<Rightarrow> bool" where
  "rec_inv P actions w \<longleftrightarrow>
     (\<forall>q \<in> set (wk_executed w). call_permitted P actions q \<or> call_granted P actions q) \<and>
     approvals_given P actions (wk_store w)"

lemma approved_more: "approved_in P actions r who \<Longrightarrow> approved_in P (actions @ [a]) r who"
  unfolding approved_in_def by (metis append.assoc append_Cons)

lemma permitted_more: "call_permitted P actions q \<Longrightarrow> call_permitted P (actions @ [a]) q"
  unfolding call_permitted_def by (metis append.assoc append_Cons)

lemma granted_more: "call_granted P actions q \<Longrightarrow> call_granted P (actions @ [a]) q"
  unfolding call_granted_def by (metis append.assoc append_Cons)

lemma rec_inv_more: "rec_inv P actions w \<Longrightarrow> rec_inv P (actions @ [a]) w"
  unfolding rec_inv_def approvals_given_def using approved_more permitted_more granted_more by blast

section \<open>Tasks\<close>

abbreviation given :: "project_host \<Rightarrow> rec_action list \<Rightarrow> rec_world \<Rightarrow> bool" where
  "given P actions w \<equiv> approvals_given P actions (wk_store w)"

lemma given_put:
  assumes "approvals_given P actions s" and "put_approval E d s = Some s'" and "ad_decision d \<noteq> Decision_approved"
  shows "approvals_given P actions s'"
proof -
  have "get_continuation_context s' = get_continuation_context s"
    using assms(2) by (auto simp: put_approval_def get_continuation_context_def split: if_splits)
  then show ?thesis
    using assms task_approvals.get_put [OF assms(2)] by (auto simp: approvals_given_def split: if_splits)
qed

lemma given_basic [preserves_intros]:
  "preserves (given P actions) (read_clock H)" "preserves (given P actions) (record_task_status H s)"
  "preserves (given P actions) (record_project_status H p)" "preserves (given P actions) (execute_mcp_intent H q)"
  "preserves (given P actions) (checked_result E r)" "preserves (given P actions) (checked_project_result E pr)"
  by (simp_all add: preserves_def read_clock_def record_task_status_def record_project_status_def
      execute_mcp_intent_def checked_result_run checked_project_result_def of_option_def)

lemma given_create_approval [preserves_intros]: "preserves (given P actions) (create_approval H r)"
  unfolding preserves_def
proof (intro allI impI)
  fix w assume w: "given P actions w"
  show "given P actions (snd (create_approval H r w))"
  proof (cases "create_approval_request (zh_env H) (zh_secret H) r (wk_store w)")
    case None
    with w show ?thesis by (simp add: create_approval_def)
  next
    case (Some ds)
    then obtain s where "ds = (requested_approval (zh_env H) (zh_secret H) r, s)"
      and s: "put_approval (zh_env H) (requested_approval (zh_env H) (zh_secret H) r) (wk_store w) = Some s"
      by (auto simp: create_approval_request_def split: if_splits)
    with Some given_put [OF w s] show ?thesis by (simp add: create_approval_def requested_approval_def)
  qed
qed

lemma given_record_context [preserves_intros]: "names_intent c \<Longrightarrow> preserves (given P actions) (record_context H c)"
  by (auto simp: preserves_def record_context_def record_continuation_context_def approvals_given_def get_approval_def
      get_continuation_context_def update_conv' split: option.splits if_splits)

lemma given_loop_step [preserves_intros]:
  "(\<And>st. preserves I (f st)) \<Longrightarrow> (\<And>a b c d. preserves I (g a b c d)) \<Longrightarrow>
     preserves I (case r of Go_on st \<Rightarrow> f st | Stop_with a b c d \<Rightarrow> g a b c d)"
  by (cases r) auto

lemma given_outcome [preserves_intros]:
  "preserves I m1 \<Longrightarrow> preserves I m2 \<Longrightarrow> preserves I m3 \<Longrightarrow> preserves I m4 \<Longrightarrow>
     preserves I (case out of Out_allow \<Rightarrow> m1 | Out_deny \<Rightarrow> m2 | Out_requires_approval \<Rightarrow> m3 | Out_yield \<Rightarrow> m4)"
  by (cases out) auto

lemma given_intent_step [preserves_intros]: "preserves (given P actions) (intent_step H i d snapshot artifact now x st)"
  unfolding intent_step_def run_intent_def ask_approval_def Let_def
  by (intro preserves_intros) (simp_all add: names_intent_def approval_for_def)

lemma given_intent_loop [preserves_intros]: "preserves (given P actions) (intent_loop H i d snapshot artifact now xs st)"
  by (induction xs arbitrary: st) (simp_all, (intro preserves_intros | assumption)+)

lemma given_reconcile_task [preserves_intros]: "preserves (given P actions) (reconcile_task H i)"
  unfolding reconcile_task_def reconcile_artifact_def refuse_artifact_def loop_result_def task_result_of_def
    failed_task_result_def Let_def
  by (intro preserves_intros)

text \<open>What is called between two states: each call by a task that started within.\<close>

definition calls_from :: "project_host \<Rightarrow> (task_input \<times> nat) list \<Rightarrow> rec_world \<Rightarrow> rec_world \<Rightarrow> bool" where
  "calls_from P starts w w' \<longleftrightarrow>
     (\<exists>calls. wk_executed w' = wk_executed w @ calls \<and>
        list_all (\<lambda>q. \<exists>(i, k) \<in> set starts. task_call (ph_rec P) i (zh_clock (ph_rec P) k) q) calls)"

lemma calls_from_none: "wk_executed w' = wk_executed w \<Longrightarrow> calls_from P starts w w'"
  by (simp add: calls_from_def)

lemma calls_from_trans:
  "calls_from P starts w w1 \<Longrightarrow> calls_from P starts' w1 w2 \<Longrightarrow> set starts \<union> set starts' \<subseteq> set all_starts \<Longrightarrow>
     calls_from P all_starts w w2"
  unfolding calls_from_def by (fastforce simp: list_all_iff)

lemma inv_calls:
  assumes w: "rec_inv P earlier (rec_run P earlier)" and given: "given P (earlier @ [a]) w'"
    and calls: "calls_from P (task_starts P a (wk_clock (rec_run P earlier))) (rec_run P earlier) w'"
  shows "rec_inv P (earlier @ [a]) w'"
proof -
  have "call_permitted P (earlier @ [a]) q"
    if "(i, k) \<in> set (task_starts P a (wk_clock (rec_run P earlier)))" and "task_call (ph_rec P) i (zh_clock (ph_rec P) k) q"
    for i k q using that unfolding call_permitted_def by blast
  moreover have "rec_inv P (earlier @ [a]) (rec_run P earlier)" using w by (rule rec_inv_more)
  ultimately show ?thesis
    using given calls unfolding rec_inv_def calls_from_def by (fastforce simp: list_all_iff)
qed

lemma reconcile_task_calls:
  assumes "reconcile_task (ph_rec P) i w = (res, w')"
  shows "calls_from P [(i, wk_clock w)] w w'"
  using calls_sound_calls [where H = "ph_rec P" and i = i and now = "zh_clock (ph_rec P) (wk_clock w)" and w = w
      and res = res and w' = w'] reconcile_task_sound [of "ph_rec P" i w] assms
  by (simp add: calls_from_def)

section \<open>The clock of a task\<close>

lemma clock_basic [preserves_intros]:
  "preserves (\<lambda>w. wk_clock w = k) (record_task_status H s)" "preserves (\<lambda>w. wk_clock w = k) (record_project_status H p)"
  "preserves (\<lambda>w. wk_clock w = k) (execute_mcp_intent H q)" "preserves (\<lambda>w. wk_clock w = k) (checked_result E r)"
  "preserves (\<lambda>w. wk_clock w = k) (create_approval H t)" "preserves (\<lambda>w. wk_clock w = k) (record_context H c)"
  by (simp_all add: preserves_def record_task_status_def record_project_status_def execute_mcp_intent_def
      checked_result_run create_approval_def record_context_def split: option.split)

lemma clock_intent_step [preserves_intros]:
  "preserves (\<lambda>w. wk_clock w = k) (intent_step H i d snapshot artifact now x st)"
  unfolding intent_step_def run_intent_def ask_approval_def Let_def
  by (intro preserves_intros)

lemma clock_intent_loop [preserves_intros]:
  "preserves (\<lambda>w. wk_clock w = k) (intent_loop H i d snapshot artifact now xs st)"
  by (induction xs arbitrary: st) (simp_all, (intro preserves_intros | assumption)+)

lemma clock_reconcile_artifact: "preserves (\<lambda>w. wk_clock w = k) (reconcile_artifact H i d snapshot now artifact)"
  unfolding reconcile_artifact_def refuse_artifact_def loop_result_def task_result_of_def Let_def
  by (intro preserves_intros)

lemma reconcile_task_clock: "wk_clock (snd (reconcile_task H i w)) = Suc (wk_clock w)"
proof -
  have "wk_clock (snd (reconcile_artifact H i d snapshot now artifact w')) = wk_clock w'" for d snapshot now artifact w'
    using clock_reconcile_artifact [of "wk_clock w'"] by (simp add: preserves_def)
  then show ?thesis
    by (auto simp: reconcile_task_run Let_def failed_task_result_def checked_result_run split: option.split sum.split)
qed

section \<open>Projects, decisions and continuations\<close>

lemma inv_basic [preserves_intros]:
  "preserves (rec_inv P actions) (read_clock H)" "preserves (rec_inv P actions) (record_task_status H s)"
  "preserves (rec_inv P actions) (record_project_status H p)"
  "preserves (rec_inv P actions) (checked_result E' r)" "preserves (rec_inv P actions) (checked_project_result E' pr)"
  by (simp_all add: preserves_def read_clock_def record_task_status_def record_project_status_def rec_inv_def
      checked_result_run checked_project_result_def of_option_def)

lemma given_project_tasks [preserves_intros]: "preserves (given P actions) (project_tasks H c ts results)"
  by (induction ts arbitrary: results) (auto intro!: preserves_intros simp: project_task_def)

lemma given_reconcile_project: "preserves (given P actions) (reconcile_project P i)"
  unfolding reconcile_project_def run_plan_def finish_project_def failed_project_def Let_def
  by (intro preserves_intros)

lemma project_task_calls:
  assumes run: "project_task (ph_rec P) c run_id t earlier w = (res, w')"
  shows "calls_from P [(project_task_input c run_id t, wk_clock w)] w w' \<and>
    (case res of Inl _ \<Rightarrow> True | Inr _ \<Rightarrow> wk_clock w' = wk_clock w + 3)"
proof -
  let ?i = "project_task_input c run_id t"
  obtain r1 w1 where task: "reconcile_task (ph_rec P) ?i w = (r1, w1)" by fastforce
  have clock: "wk_clock w1 = Suc (wk_clock w)" using reconcile_task_clock [of "ph_rec P" ?i w] task by simp
  have more: "wk_executed w' = wk_executed w1 \<and> (case res of Inl _ \<Rightarrow> True | Inr _ \<Rightarrow> wk_clock w' = wk_clock w1 + 2)"
    using run task
    by (auto simp: project_task_def ebind_run ethen_run read_clock_def record_task_status_def record_project_status_def
        split: sum.splits if_splits)
  show ?thesis
    using calls_from_trans [OF reconcile_task_calls [OF task] calls_from_none [of w' w1 P "[]"]] more clock
    by (auto split: sum.splits)
qed

lemma project_tasks_calls:
  "project_tasks (ph_rec P) c ts results w = (res, w') \<Longrightarrow>
     calls_from P (map (\<lambda>(m, run_id, t). (project_task_input c run_id t, wk_clock w + 3 * m)) (enumerate 0 ts)) w w'"
proof (induction ts arbitrary: results w)
  case Nil
  then show ?case by (simp add: calls_from_none)
next
  case (Cons x ts)
  obtain run_id t where x: "x = (run_id, t)" by fastforce
  obtain r1 w1 where first: "project_task (ph_rec P) c run_id t results w = (r1, w1)" by fastforce
  note task = project_task_calls [OF first]
  have shift: "map (\<lambda>(m, run_id, t). (project_task_input c run_id t, k + 3 + 3 * m)) (enumerate n ts) =
      map (\<lambda>(m, run_id, t). (project_task_input c run_id t, k + 3 * m)) (enumerate (Suc n) ts)" for k n
    by (induction ts arbitrary: n) auto
  show ?case
  proof (cases r1)
    case (Inl e)
    with Cons.prems x first have "w' = w1" by (simp add: ebind_run)
    with task x show ?thesis
      by (auto intro: calls_from_trans [OF _ calls_from_none [of w1 w1 P "[]"]])
  next
    case (Inr r)
    with Cons.prems x first have "project_tasks (ph_rec P) c ts (results @ [r]) w1 = (res, w')" by (simp add: ebind_run)
    from Cons.IH [OF this] have "calls_from P (map (\<lambda>(m, run_id, t). (project_task_input c run_id t, wk_clock w + 3 * m))
        (enumerate (Suc 0) ts)) w1 w'"
      using task Inr shift [of "wk_clock w" 0] by (simp add: add.commute add.left_commute)
    with task x show ?thesis by (auto intro: calls_from_trans)
  qed
qed

lemma run_plan_calls:
  assumes run: "run_plan (ph_rec P) project_id (deterministic_project_run_id project_id) d bounds now plan w = (res, w')"
  shows "calls_from P (map (\<lambda>(m, t). (t, wk_clock w + 3 * m)) (enumerate 0 (plan_tasks P project_id d bounds plan))) w w'"
proof (cases "execution_plan_ok plan \<and> length (xp_tasks plan) \<le> eb_max_tasks_per_project bounds")
  case False
  with run show ?thesis
    by (intro calls_from_none)
      (auto simp: run_plan_def Let_def ethen_run record_project_status_def failed_project_def checked_project_result_def
        of_option_def split: if_splits)
next
  case True
  let ?ids = "map (\<lambda>(i, t). deterministic_task_run_id (zh_env (ph_rec P)) project_id (xp_version plan) i (tk_title t))
      (enumerate 0 (xp_tasks plan))"
  let ?c = "\<lparr>jc_project_id = project_id, jc_run_id = deterministic_project_run_id project_id, jc_delegation = d,
      jc_bounds = bounds, jc_plan = plan, jc_task_run_ids = ?ids\<rparr>"
  have enum: "enumerate n (map f xs) = map (\<lambda>(m, x). (m, f x)) (enumerate n xs)" for f xs and n :: nat
    by (induction xs arbitrary: n) auto
  have starts: "map (\<lambda>(m, t). (t, wk_clock w + 3 * m)) (enumerate 0 (plan_tasks P project_id d bounds plan)) =
      map (\<lambda>(m, run_id, t). (project_task_input ?c run_id t, wk_clock w + 3 * m)) (enumerate 0 (zip ?ids (xp_tasks plan)))"
    using True by (simp add: plan_tasks_def Let_def enum case_prod_unfold)
  define s where "s = project_status project_id (deterministic_project_run_id project_id) Flow_running ?ids
      [mk_observation (zh_env (ph_rec P)) Obs_recorded ''Execution plan validated.'' now None None None] []
      ''Running scoped task workflows.'' now"
  have body: "run_plan (ph_rec P) project_id (deterministic_project_run_id project_id) d bounds now plan =
      ethen (record_project_status (ph_rec P) s)
        (ebind (project_tasks (ph_rec P) ?c (zip ?ids (xp_tasks plan)) []) (finish_project (ph_rec P) ?c))"
    using True by (simp add: run_plan_def Let_def s_def)
  have finish: "wk_executed (snd (finish_project (ph_rec P) ?c results w2)) = wk_executed w2" for results w2
    by (simp add: finish_project_def Let_def ebind_run ethen_run read_clock_def record_project_status_def
        checked_project_result_def of_option_def split: option.split sum.split)
  obtain r1 w1 where rec: "record_project_status (ph_rec P) s w = (r1, w1)" by fastforce
  then have w1: "wk_executed w1 = wk_executed w" "wk_clock w1 = wk_clock w"
    by (auto simp: record_project_status_def split: if_splits)
  obtain r2 w2 where tasks: "project_tasks (ph_rec P) ?c (zip ?ids (xp_tasks plan)) [] w1 = (r2, w2)" by fastforce
  have "wk_executed w' = wk_executed w \<or> wk_executed w' = wk_executed w2"
    using run rec tasks w1 finish unfolding body
    by (auto simp: ethen_run ebind_run split: sum.splits) (metis snd_conv)
  then show ?thesis
    unfolding starts using project_tasks_calls [OF tasks] w1 by (auto simp: calls_from_def)
qed

lemma reconcile_project_calls:
  assumes run: "reconcile_project P i w = (res, w')"
  shows "calls_from P (task_starts P (Submit_project i) (wk_clock w)) w w'"
proof -
  define E where "E = zh_env (ph_rec P)"
  define project_id where "project_id = nullish (jx_project_id i) (deterministic_project_id E (jx_goal i)
      (dc_workspace_id (jx_delegation i)) (dc_principal_id (jx_delegation i)) (dc_delegate_id (jx_delegation i)))"
  define d where "d = (jx_delegation i)\<lparr>dc_project_id := project_id, dc_parent_run_id := deterministic_project_run_id project_id\<rparr>"
  define bounds where "bounds = nullish (jx_bounds i) default_execution_bounds"
  define now where "now = zh_clock (ph_rec P) (wk_clock w)"
  note names = E_def [symmetric] project_id_def [symmetric] d_def [symmetric] bounds_def [symmetric] now_def [symmetric]
  let ?w1 = "w\<lparr>wk_clock := Suc (wk_clock w)\<rparr>"
  have tasks: "project_tasks_of P i = (if project_input_ok E i \<and> delegation_context_ok E d
      then (case generate_execution_plan P (jx_goal i) d (jx_metadata i) bounds of
              Inl _ \<Rightarrow> [] | Inr plan \<Rightarrow> plan_tasks P project_id d bounds plan) else [])"
    by (simp only: project_tasks_of_def Let_def names)
  define s where "s = project_status project_id (deterministic_project_run_id project_id) Flow_planning [] [] []
      ''Planning project.'' now"
  have body: "reconcile_project P i w =
      (if \<not> project_input_ok E i
       then failed_project E ''project_invalid'' ''project_run_invalid'' None
          (mk_structured_error INVALID_DELEGATION_CONTEXT (zh_zod_message (ph_rec P)) now None None None)
          ''Project input was invalid.'' ?w1
       else if \<not> delegation_context_ok E d then ethrow Zod_error ?w1
       else ethen (record_project_status (ph_rec P) s)
          (case generate_execution_plan P (jx_goal i) d (jx_metadata i) bounds of
             Inl e \<Rightarrow> ethrow e
           | Inr plan \<Rightarrow> run_plan (ph_rec P) project_id (deterministic_project_run_id project_id) d bounds now plan) ?w1)"
    by (simp only: reconcile_project_def Let_def ebind_run read_clock_def names s_def if_distrib [where f = "\<lambda>m. m _"] prod.case sum.case)
  show ?thesis
  proof (cases "project_input_ok E i \<and> delegation_context_ok E d")
    case False
    with run body show ?thesis
      by (intro calls_from_none)
        (auto simp: failed_project_def checked_project_result_def of_option_def split: if_splits)
  next
    case True
    obtain r1 w1 where rec: "record_project_status (ph_rec P) s ?w1 = (r1, w1)" by fastforce
    then have w1: "wk_executed w1 = wk_executed w" "wk_clock w1 = Suc (wk_clock w)"
      by (auto simp: record_project_status_def split: if_splits)
    show ?thesis
    proof (cases "generate_execution_plan P (jx_goal i) d (jx_metadata i) bounds")
      case (Inl e)
      with run body True rec w1 show ?thesis
        by (intro calls_from_none) (auto simp: ethen_run split: sum.splits)
    next
      case (Inr plan)
      show ?thesis
      proof (cases r1)
        case (Inl e)
        with run body True rec w1 show ?thesis by (intro calls_from_none) (auto simp: ethen_run)
      next
        case (Inr u)
        have "run_plan (ph_rec P) project_id (deterministic_project_run_id project_id) d bounds now plan w1 = (res, w')"
          using run body True rec Inr \<open>generate_execution_plan _ _ _ _ _ = _\<close> by (simp add: ethen_run)
        from run_plan_calls [OF this] show ?thesis
          using w1 True \<open>generate_execution_plan _ _ _ _ _ = _\<close> by (simp add: tasks calls_from_def)
      qed
    qed
  qed
qed

lemma decide_run:
  "decide H a store d w =
     (if \<not> token_accepted H d (xa_token a) then (Inl (Plain_error ''INVALID_APPROVAL_TOKEN''), w)
      else case store (ad_id d) (xa_decided_by a) (zh_clock H (wk_clock w)) (xa_reason a) (wk_store w) of
          Some (Some (d', s)) \<Rightarrow> (Inr d', w\<lparr>wk_clock := Suc (wk_clock w), wk_store := s\<rparr>)
        | _ \<Rightarrow> (Inl Zod_error, w\<lparr>wk_clock := Suc (wk_clock w)\<rparr>))"
  by (simp add: decide_def ebind_run read_clock_def split: option.splits)

lemma inv_decide:
  assumes "\<And>now s d' s'. token_accepted H d (xa_token a) \<Longrightarrow> approvals_given P actions s \<Longrightarrow>
      store (ad_id d) (xa_decided_by a) now (xa_reason a) s = Some (Some (d', s')) \<Longrightarrow> approvals_given P actions s'"
  shows "preserves (rec_inv P actions) (decide H a store d)"
proof (cases "token_accepted H d (xa_token a)")
  case True
  note kept = assms [OF True]
  show ?thesis
    unfolding preserves_def decide_run
    by (auto simp: True rec_inv_def intro: kept split: option.splits)
qed (simp add: preserves_def decide_run)

lemma given_approve:
  assumes given_a: "approvals_given P actions s" and "approved_in P actions request_id (xa_decided_by a)"
    and run: "approve_request E request_id (xa_decided_by a) now reason s = Some (Some (d', s'))"
  shows "approvals_given P actions s'"
proof -
  obtain d where d: "get_approval s request_id = Some d"
    and d': "d' = d\<lparr>ad_decision := Decision_approved, ad_decided_at := Some now,
                  ad_approved_by := Some (xa_decided_by a), ad_reason := Some reason\<rparr>"
    and s': "s' = s\<lparr>as_approvals := AList.update request_id d' (as_approvals s)\<rparr>"
    using run by (auto simp: approve_request_def Let_def split: if_splits)
  have id: "ad_id d = request_id" using given_a d unfolding approvals_given_def by blast
  have at: "get_approval s' r = (if r = request_id then Some d' else get_approval s r)" for r
    by (simp add: s' get_approval_def update_conv')
  have ctx: "get_continuation_context s' = get_continuation_context s"
    by (simp add: s' get_continuation_context_def fun_eq_iff)
  show ?thesis
    using given_a assms(2) id unfolding approvals_given_def at ctx d' by auto
qed

lemma given_reject:
  assumes given_a: "approvals_given P actions s"
    and run: "reject_request E request_id who now reason s = Some (Some (d', s'))"
  shows "approvals_given P actions s'"
proof -
  obtain d where d: "get_approval s request_id = Some d"
    and d': "d' = d\<lparr>ad_decision := Decision_rejected, ad_decided_at := Some now,
                  ad_rejected_by := Some who, ad_reason := Some reason\<rparr>"
    and s': "s' = s\<lparr>as_approvals := AList.update request_id d' (as_approvals s)\<rparr>"
    using run by (auto simp: reject_request_def Let_def split: if_splits)
  have id: "ad_id d = request_id" using given_a d unfolding approvals_given_def by blast
  have at: "get_approval s' r = (if r = request_id then Some d' else get_approval s r)" for r
    by (simp add: s' get_approval_def update_conv')
  have ctx: "get_continuation_context s' = get_continuation_context s"
    by (simp add: s' get_continuation_context_def fun_eq_iff)
  show ?thesis
    using given_a id unfolding approvals_given_def at ctx d' by auto
qed

lemma inv_approve_task:
  assumes w: "rec_inv P (earlier @ [Approve_request a]) (rec_run P earlier)"
  shows "rec_inv P (earlier @ [Approve_request a]) (snd (approve_task (ph_rec P) a (rec_run P earlier)))"
proof (cases "get_approval_for_task (wk_store (rec_run P earlier)) (xa_task a)")
  case None
  then show ?thesis using w by (simp add: approve_task_def)
next
  case (Some d)
  let ?actions = "earlier @ [Approve_request a]" and ?H = "ph_rec P"
  have keep: "rec_inv P ?actions w' \<Longrightarrow> rec_inv P ?actions (w'\<lparr>wk_started := x\<rparr>)" for w' x
    by (simp add: rec_inv_def)
  have "preserves (rec_inv P ?actions) (decide ?H a (approve_request (zh_env ?H)) d)"
  proof (rule inv_decide)
    fix now s d' s'
    assume "token_accepted ?H d (xa_token a)" and s: "approvals_given P ?actions s"
      and run: "approve_request (zh_env ?H) (ad_id d) (xa_decided_by a) now (xa_reason a) s = Some (Some (d', s'))"
    with Some have "approved_in P ?actions (ad_id d) (xa_decided_by a)" unfolding approved_in_def by blast
    from given_approve [OF s this run] show "approvals_given P ?actions s'" .
  qed
  then have "rec_inv P ?actions (snd (decide ?H a (approve_request (zh_env ?H)) d (rec_run P earlier)))"
    using w by (simp add: preserves_def)
  then show ?thesis
    using Some keep by (auto simp: approve_task_def ebind_run split: prod.splits sum.splits option.splits)
qed

lemma inv_reject_task: "preserves (rec_inv P actions) (reject_task H a)"
  unfolding preserves_def
proof (intro allI impI)
  fix w assume w: "rec_inv P actions w"
  show "rec_inv P actions (snd (reject_task H a w))"
  proof (cases "get_approval_for_task (wk_store w) (xa_task a)")
    case None
    then show ?thesis using w by (simp add: reject_task_def)
  next
    case (Some d)
    have "preserves (rec_inv P actions) (decide H a (reject_request (zh_env H)) d)"
      by (rule inv_decide) (erule given_reject)
    then have "rec_inv P actions (snd (decide H a (reject_request (zh_env H)) d w))"
      using w by (simp add: preserves_def)
    then show ?thesis
      using Some by (auto simp: reject_task_def ebind_run ethen_run record_task_status_def Let_def rec_inv_def
          split: prod.splits sum.splits option.splits)
  qed
qed

lemma inv_finish_continuation [preserves_intros]:
  "preserves (rec_inv P actions) (finish_continuation H status c obs errors message now)"
  unfolding finish_continuation_def result_from_context_def record_and_return_def
  by (intro preserves_intros)

lemma inv_call_approved:
  assumes granted: "call_granted P actions (context_call c)"
  shows "preserves (rec_inv P actions) (call_approved H c now)"
proof -
  have "preserves (rec_inv P actions) (execute_mcp_intent H (context_call c))"
    using granted by (auto simp: preserves_def execute_mcp_intent_def rec_inv_def)
  then show ?thesis
    unfolding call_approved_def run_mock_critic_def
    by (intro preserves_intros) (auto intro!: preserves_intros split: mcp_output.splits)
qed

lemma inv_continue_context:
  assumes actions: "actions = earlier @ [Continue_task request_id run_id]"
    and given_a: "given P earlier (rec_run P earlier)"
    and c: "get_continuation_context (wk_store (rec_run P earlier)) request_id = Some c"
    and d: "get_approval (wk_store (rec_run P earlier)) request_id = Some d"
    and now: "now = zh_clock (ph_rec P) (wk_clock (rec_run P earlier))"
  shows "preserves (rec_inv P actions) (continue_context (ph_rec P) request_id run_id c d now)"
proof -
  let ?E = "zh_env (ph_rec P)"
  have "preserves (rec_inv P actions) (call_approved (ph_rec P) c now)"
    if approved: "\<not> ad_decision d \<noteq> Decision_approved"
      and valid: "validate_intent_for_snapshot (cc_intent c) (cc_snapshot c) (tk_task_id (cc_task c)) now = Inr capability"
      and policy: "\<not> (po_outcome (evaluate_policy ?E (context_gate c capability now)) = Out_deny \<or>
          po_outcome (evaluate_policy ?E (context_gate c capability now)) = Out_yield)"
    for capability
  proof -
    have "intent_valid (cc_intent c) (cc_snapshot c) capability" using valid intent_valid_iff by blast
    moreover have "policy_permits ?E (context_gate c capability now)" using policy by (rule gate_refuses)
    moreover have "names_intent c" using given_a c unfolding approvals_given_def by blast
    moreover obtain who where "ad_approved_by d = Some who" "approved_in P earlier request_id who"
      using given_a d approved unfolding approvals_given_def by blast
    ultimately have "call_granted P actions (context_call c)"
      unfolding call_granted_def now using c d approved actions
      by (intro exI [of _ earlier] exI [of _ request_id] exI [of _ run_id] exI [of _ "[]"] exI [of _ c] exI [of _ d]
          exI [of _ capability] exI [of _ who]) (simp add: now)
    then show ?thesis by (rule inv_call_approved)
  qed
  then show ?thesis
    unfolding continue_context_def Let_def
    by (cases "validate_intent_for_snapshot (cc_intent c) (cc_snapshot c) (tk_task_id (cc_task c)) now")
      (simp_all add: inv_finish_continuation)
qed

lemma inv_task_continuation:
  assumes actions: "actions = earlier @ [Continue_task request_id run_id]"
    and given_a: "given P earlier (rec_run P earlier)" and w: "rec_inv P actions (rec_run P earlier)"
  shows "rec_inv P actions (snd (task_continuation (ph_rec P) request_id run_id (rec_run P earlier)))"
proof -
  let ?w = "(rec_run P earlier)\<lparr>wk_clock := Suc (wk_clock (rec_run P earlier))\<rparr>"
  have w': "rec_inv P actions ?w" using w by (simp add: rec_inv_def)
  let ?now = "zh_clock (ph_rec P) (wk_clock (rec_run P earlier))"
  have "rec_inv P actions (snd (continue_context (ph_rec P) request_id run_id c d ?now ?w))"
    if "get_continuation_context (wk_store (rec_run P earlier)) request_id = Some c"
      and "get_approval (wk_store (rec_run P earlier)) request_id = Some d" for c d
    using inv_continue_context [OF actions given_a that HOL.refl] w' by (simp add: preserves_def)
  moreover have "rec_inv P actions (snd (missing_context_result E' r now ?w))" for E' r now
    using w' unfolding missing_context_result_def Let_def by (auto simp: checked_result_run)
  ultimately show ?thesis
    using w' by (auto simp: task_continuation_def Let_def ebind_run read_clock_def split: option.splits)
qed

section \<open>Every call of a system is justified\<close>

lemma inv_rec_step:
  assumes "rec_inv P earlier (rec_run P earlier)"
  shows "rec_inv P (earlier @ [a]) (rec_step P a (rec_run P earlier))"
proof -
  let ?I = "rec_inv P (earlier @ [a])"
  have w: "?I (rec_run P earlier)" using assms by (rule rec_inv_more)
  have keep: "preserves ?I m \<Longrightarrow> ?I (snd (m (rec_run P earlier)))" for m :: "'x reconciling"
    using w by (simp add: preserves_def)
  show ?thesis
  proof (cases a)
    case (Submit_project i)
    obtain res w' where run: "reconcile_project P i (rec_run P earlier) = (res, w')" by fastforce
    with Submit_project inv_calls [OF assms _ reconcile_project_calls [OF run]]
      preservesD [OF given_reconcile_project _ run] w show ?thesis by (simp add: rec_inv_def)
  next
    case (Run_task i)
    obtain res w' where run: "reconcile_task (ph_rec P) i (rec_run P earlier) = (res, w')" by fastforce
    have "calls_from P (task_starts P (Run_task i) (wk_clock (rec_run P earlier))) (rec_run P earlier) w'"
      using reconcile_task_calls [OF run] by simp
    moreover have "given P (earlier @ [Run_task i]) w'"
      using preservesD [OF given_reconcile_task _ run] w Run_task by (simp add: rec_inv_def)
    ultimately show ?thesis using inv_calls [OF assms, of "Run_task i" w'] Run_task run by simp
  next
    case (Approve_request x)
    with inv_approve_task w show ?thesis by simp
  next
    case (Reject_request x)
    with keep [OF inv_reject_task] show ?thesis by simp
  next
    case (Continue_task request_id run_id)
    with inv_task_continuation [of "earlier @ [a]" earlier request_id run_id P] assms w show ?thesis
      by (simp add: rec_inv_def)
  qed
qed

lemma rec_run_snoc: "rec_run P (actions @ [a]) = rec_step P a (rec_run P actions)"
  by (simp add: rec_run_def)

lemma rec_run_inv: "rec_inv P actions (rec_run P actions)"
proof (induction actions rule: rev_induct)
  case Nil
  show ?case
    by (simp add: rec_run_def empty_rec_world_def rec_inv_def approvals_given_def get_approval_def
        get_continuation_context_def)
next
  case (snoc a actions)
  then show ?case unfolding rec_run_snoc by (rule inv_rec_step)
qed

text \<open>C4: However projects, tasks, approvals, rejections and continuations follow one another, every call the
  system has made belongs to one of these actions. Either the action started a task, directly or from the plan
  generated for a project, and the call is for an intent of the artifact generated for the capabilities
  discovered when that task started, valid for them and permitted by the policy gate at that reading of the
  clock without an approval; or the action was a continuation whose stored request named that very intent and
  stood approved at that moment, after an approve action on that request with an accepted token, and the
  intent was still valid and not refused by the gate at the time of the continuation.\<close>
theorem every_call_justified:
  "list_all (\<lambda>q. call_permitted P actions q \<or> call_granted P actions q) (wk_executed (rec_run P actions))"
  using rec_run_inv [of P actions] by (simp add: rec_inv_def list_all_iff)

section \<open>The stores hold what their schemas allow\<close>

definition rec_typed :: "env \<Rightarrow> rec_world \<Rightarrow> bool" where
  "rec_typed E w \<longleftrightarrow>
     list_all (\<lambda>(k, s). task_snapshot_ok E s \<and> tn_task_run_id s = k) (wk_tasks w) \<and>
     list_all (\<lambda>(k, p). project_snapshot_ok E p \<and> (pj_project_id p = k \<or> pj_project_run_id p = k)) (wk_projects w) \<and>
     list_all (\<lambda>(k, d). task_approval_ok E d \<and> ad_id d = k) (as_approvals (wk_store w)) \<and>
     list_all (\<lambda>(k, c). continuation_context_ok E c \<and> tq_id (cc_request c) = k) (as_continuations (wk_store w))"

lemma all_updated [intro]: "list_all R xs \<Longrightarrow> R (k, v) \<Longrightarrow> list_all R (AList.update k v xs)"
  by (induction xs) auto

lemma typed_basic [preserves_intros]:
  "preserves (rec_typed E) (read_clock H)" "preserves (rec_typed E) (execute_mcp_intent H q)"
  "preserves (rec_typed E) (checked_result E' r)" "preserves (rec_typed E) (checked_project_result E' pr)"
  by (simp_all add: preserves_def read_clock_def execute_mcp_intent_def rec_typed_def checked_result_run
      checked_project_result_def of_option_def)

lemma typed_records [preserves_intros]:
  assumes "zh_env H = E"
  shows "preserves (rec_typed E) (record_task_status H s)" "preserves (rec_typed E) (record_project_status H p)"
    "preserves (rec_typed E) (create_approval H r)" "preserves (rec_typed E) (record_context H c)"
  unfolding preserves_def using assms
  by (auto simp: record_task_status_def record_project_status_def create_approval_def record_context_def rec_typed_def
      record_continuation_context_def create_approval_request_def put_approval_def split: option.splits if_splits)

lemma typed_intent_step [preserves_intros]:
  "zh_env H = E \<Longrightarrow> preserves (rec_typed E) (intent_step H i d snapshot artifact now x st)"
  unfolding intent_step_def run_intent_def ask_approval_def Let_def by (intro preserves_intros)

lemma typed_intent_loop [preserves_intros]:
  "zh_env H = E \<Longrightarrow> preserves (rec_typed E) (intent_loop H i d snapshot artifact now xs st)"
  by (induction xs arbitrary: st) (simp_all, (intro preserves_intros | assumption)+)

lemma typed_reconcile_task [preserves_intros]: "zh_env H = E \<Longrightarrow> preserves (rec_typed E) (reconcile_task H i)"
  unfolding reconcile_task_def reconcile_artifact_def refuse_artifact_def loop_result_def task_result_of_def
    failed_task_result_def Let_def
  by (intro preserves_intros)

lemma typed_project_tasks [preserves_intros]:
  "zh_env H = E \<Longrightarrow> preserves (rec_typed E) (project_tasks H c ts results)"
  by (induction ts arbitrary: results) (auto intro!: preserves_intros simp: project_task_def)

lemma typed_reconcile_project: "zh_env (ph_rec P) = E \<Longrightarrow> preserves (rec_typed E) (reconcile_project P i)"
  unfolding reconcile_project_def run_plan_def finish_project_def failed_project_def Let_def
  by (intro preserves_intros)

lemma typed_decide:
  assumes "\<And>now s d' s'. list_all (\<lambda>(k, d). task_approval_ok E d \<and> ad_id d = k) (as_approvals s) \<Longrightarrow>
      store (ad_id d) (xa_decided_by a) now (xa_reason a) s = Some (Some (d', s')) \<Longrightarrow>
      list_all (\<lambda>(k, d). task_approval_ok E d \<and> ad_id d = k) (as_approvals s') \<and> as_continuations s' = as_continuations s"
  shows "preserves (rec_typed E) (decide H a store d)"
  unfolding preserves_def decide_run using assms
  by (auto simp: rec_typed_def split: option.splits)

lemma listed_approval:
  assumes "list_all (\<lambda>(k, d). task_approval_ok E d \<and> ad_id d = k) (as_approvals s)" and "get_approval s k = Some d"
  shows "ad_id d = k"
  using assms(1) map_of_SomeD [OF assms(2) [unfolded get_approval_def]] by (auto simp: list_all_iff)

lemma typed_decision:
  assumes "list_all (\<lambda>(k, d). task_approval_ok E d \<and> ad_id d = k) (as_approvals s)" and "get_approval s k = Some d"
    and "task_approval_ok E d'" and "ad_id d' = ad_id d"
  shows "list_all (\<lambda>(k, d). task_approval_ok E d \<and> ad_id d = k) (AList.update k d' (as_approvals s))"
  using assms(1,3,4) listed_approval [OF assms(1,2)] by auto

lemma typed_store_decision:
  "preserves (rec_typed E) (decide H a (approve_request E) d)"
  "preserves (rec_typed E) (decide H a (reject_request E) d)"
  by (rule typed_decide, auto simp: approve_request_def reject_request_def Let_def split: if_splits
      elim!: typed_decision)+

lemma typed_approve_task:
  assumes "zh_env H = E"
  shows "preserves (rec_typed E) (approve_task H a)"
  unfolding preserves_def
proof (intro allI impI)
  fix w assume w: "rec_typed E w"
  show "rec_typed E (snd (approve_task H a w))"
  proof (cases "get_approval_for_task (wk_store w) (xa_task a)")
    case None
    then show ?thesis using w by (simp add: approve_task_def)
  next
    case (Some d)
    have keep: "rec_typed E w' \<Longrightarrow> rec_typed E (w'\<lparr>wk_started := x\<rparr>)" for w' x
      by (simp add: rec_typed_def)
    have "rec_typed E (snd (decide H a (approve_request E) d w))"
      using w typed_store_decision(1) [of E H a d] by (simp add: preserves_def)
    then show ?thesis
      using Some keep assms by (auto simp: approve_task_def ebind_run split: prod.splits sum.splits option.splits)
  qed
qed

lemma typed_reject_task:
  assumes "zh_env H = E"
  shows "preserves (rec_typed E) (reject_task H a)"
  unfolding preserves_def
proof (intro allI impI)
  fix w assume w: "rec_typed E w"
  show "rec_typed E (snd (reject_task H a w))"
  proof (cases "get_approval_for_task (wk_store w) (xa_task a)")
    case None
    then show ?thesis using w by (simp add: reject_task_def)
  next
    case (Some d)
    have keep: "rec_typed E w' \<Longrightarrow> rec_typed E (snd (record_task_status H s w'))" for w' s
      using typed_records(1) [OF assms] by (simp add: preserves_def)
    have stored: "rec_typed E w' \<Longrightarrow> record_task_status H s w' = (r, w'') \<Longrightarrow> rec_typed E w''" for w' s r w''
      using keep [of w' s] by simp
    have "rec_typed E (snd (decide H a (reject_request E) d w))"
      using w typed_store_decision(2) [of E H a d] by (simp add: preserves_def)
    then show ?thesis
      using Some by (auto simp: assms reject_task_def ebind_run ethen_run Let_def intro: stored
          split: prod.splits sum.splits option.splits)
  qed
qed

lemma typed_finish_continuation [preserves_intros]:
  "zh_env H = E \<Longrightarrow> preserves (rec_typed E) (finish_continuation H status c obs errors message now)"
  unfolding finish_continuation_def result_from_context_def record_and_return_def
  by (intro preserves_intros)

lemma preserves_mcp_output [preserves_intros]:
  "(\<And>m x. preserves I (f m x)) \<Longrightarrow> (\<And>m. preserves I (g m)) \<Longrightarrow>
     preserves I (case out of Mcp_ok m x \<Rightarrow> f m x | Mcp_error m \<Rightarrow> g m)"
  by (cases out) auto

lemma preserves_critic [preserves_intros]:
  "preserves I m \<Longrightarrow> preserves I k \<Longrightarrow> preserves I l \<Longrightarrow>
     preserves I (case c of Critic_pass \<Rightarrow> m | Critic_revise \<Rightarrow> k | Critic_yield \<Rightarrow> l)"
  by (cases c) auto

lemma typed_continue_context [preserves_intros]:
  "zh_env H = E \<Longrightarrow> preserves (rec_typed E) (continue_context H request_id task_run_id c d now)"
  unfolding continue_context_def call_approved_def Let_def
  by (intro preserves_intros)

lemma typed_task_continuation:
  assumes "zh_env H = E"
  shows "preserves (rec_typed E) (task_continuation H request_id task_run_id)"
proof -
  have "rec_typed E w \<Longrightarrow> rec_typed E (snd (continue_context H request_id task_run_id c d now w))" for c d now w
    using typed_continue_context [OF assms] by (simp add: preserves_def)
  moreover have "rec_typed E w \<Longrightarrow> rec_typed E (snd (missing_context_result E' r now w))" for E' r now w
    unfolding missing_context_result_def Let_def by (auto simp: checked_result_run)
  ultimately show ?thesis
    unfolding task_continuation_def Let_def
    by (intro preserves_intros) (auto simp: preserves_def split: option.splits)
qed

lemma typed_rec_step:
  assumes w: "rec_typed (zh_env (ph_rec P)) w"
  shows "rec_typed (zh_env (ph_rec P)) (rec_step P a w)"
proof -
  have keep: "preserves (rec_typed (zh_env (ph_rec P))) m \<Longrightarrow> rec_typed (zh_env (ph_rec P)) (snd (m w))"
    for m :: "'x reconciling" using w by (simp add: preserves_def)
  note kept = keep [OF typed_reconcile_project] keep [OF typed_reconcile_task] keep [OF typed_approve_task]
    keep [OF typed_reject_task] keep [OF typed_task_continuation]
  show ?thesis by (cases a) (use kept in simp_all)
qed

text \<open>C22: However projects, tasks, approvals, rejections and continuations follow one another, the status store
  holds only task and project statuses that fit their schemas, the approval store only decisions and
  continuation contexts that fit theirs, and each stands under its own identifier.\<close>
theorem reconciliation_stores_typed: "rec_typed (zh_env (ph_rec P)) (rec_run P actions)"
proof (induction actions rule: rev_induct)
  case Nil
  show ?case by (simp add: rec_run_def empty_rec_world_def rec_typed_def)
next
  case (snoc a actions)
  then show ?case by (simp add: rec_run_snoc typed_rec_step)
qed

end
