(* ===== verification/Intent_Classifier.thy ===== *)
theory Intent_Classifier
  imports Builder_Loop
begin

text \<open>
  \<open>planning/intent-classifier.ts\<close> and the goal frame made without a model (\<open>planning/goal-frame.ts\<close>): what
  a prompt asks for, by the words it contains. The model that is asked about ambiguous prompts is a parameter.
\<close>

section \<open>Words, addresses and times\<close>

definition single_spaced :: "string \<Rightarrow> string" where
  "single_spaced s = squash CHR '' '' (\<lambda>c. \<not> is_space c) s"

text \<open>\<open>/https?:\/\/\S+/\<close>, at the start of a text and its first match.\<close>

definition url_at :: "string \<Rightarrow> string option" where
  "url_at s =
     (let scheme = (if starts_with s ''https://'' then ''https://'' else ''http://'');
          rest = takeWhile (\<lambda>c. \<not> is_space c) (drop (length scheme) s)
      in if starts_with s scheme \<and> rest \<noteq> [] then Some (scheme @ rest) else None)"

fun first_url :: "string \<Rightarrow> string option" where
  "first_url [] = None"
| "first_url (c # cs) = (case url_at (c # cs) of Some u \<Rightarrow> Some u | None \<Rightarrow> first_url cs)"

definition extract_url :: "string \<Rightarrow> string option" where
  "extract_url s = map_option (\<lambda>u. rev (dropWhile (\<lambda>c. c \<in> set ''),.'') (rev u))) (first_url s)"

text \<open>A word between word boundaries; the flag tells whether a word character comes before.\<close>

definition word_starts :: "string \<Rightarrow> bool" where
  "word_starts s = (case s of [] \<Rightarrow> False | c # _ \<Rightarrow> is_word_char c)"

fun word_in :: "bool \<Rightarrow> string \<Rightarrow> string \<Rightarrow> bool" where
  "word_in inside [] w = False"
| "word_in inside (c # cs) w =
     (\<not> inside \<and> starts_with (c # cs) w \<and> \<not> word_starts (drop (length w) (c # cs)) \<or> word_in (is_word_char c) cs w)"

definition has_word :: "string \<Rightarrow> string list \<Rightarrow> bool" where
  "has_word s ws = list_ex (word_in False s) ws"

text \<open>\<open>/\b([01]?\d|2[0-3]):([0-5]\d)\b/\<close>. The colon fixes which alternative matches.\<close>

definition minutes_at :: "string \<Rightarrow> string option" where
  "minutes_at s =
     (case s of
        c # d # e # rest \<Rightarrow>
          if c = CHR '':'' \<and> d \<in> set ''012345'' \<and> is_digit e \<and> \<not> word_starts rest then Some [c, d, e] else None
      | _ \<Rightarrow> None)"

definition time_at :: "string \<Rightarrow> string option" where
  "time_at s =
     nullish_opt
       (case s of
          a # b # rest \<Rightarrow>
            if a \<in> set ''01'' \<and> is_digit b \<or> a = CHR ''2'' \<and> b \<in> set ''0123''
            then map_option (\<lambda>m. [a, b] @ m) (minutes_at rest) else None
        | _ \<Rightarrow> None)
       (case s of
          a # rest \<Rightarrow> if is_digit a then map_option (\<lambda>m. [a] @ m) (minutes_at rest) else None
        | _ \<Rightarrow> None)"

fun first_time :: "bool \<Rightarrow> string \<Rightarrow> string option" where
  "first_time inside [] = None"
| "first_time inside (c # cs) =
     nullish_opt (if inside then None else time_at (c # cs)) (first_time (is_word_char c) cs)"

section \<open>The frame\<close>

record intent_context =
  ic_repo_path :: "string option"
  ic_provider :: "string option"
  ic_schedule :: "json option"

definition no_context :: intent_context where
  "no_context = \<lparr>ic_repo_path = None, ic_provider = None, ic_schedule = None\<rparr>"

definition any_of :: "string list \<Rightarrow> string \<Rightarrow> bool" where
  "any_of ws s = list_ex (str_includes s) ws"

definition looks_like_research :: "string \<Rightarrow> bool" where
  "looks_like_research =
     any_of [''research'', ''brief'', ''cited'', ''citation'', ''summarize'', ''source'', ''sources'', ''markdown brief'']"

definition looks_like_repository :: "string \<Rightarrow> bool" where
  "looks_like_repository =
     any_of [''repo'', ''repository'', ''cli'', ''json output'', ''patch'', ''add '', ''fix '', ''change '', ''update '',
             ''implement '']"

definition cadence_of :: "json \<Rightarrow> intent_cadence" where
  "cadence_of v =
     (if v = JStr ''weekly'' then Cad_weekly else if v = JStr ''cron'' then Cad_cron else Cad_daily)"

definition text_field :: "json \<Rightarrow> string \<Rightarrow> string option" where
  "text_field v k = (case jfield v k of JStr s \<Rightarrow> Some s | _ \<Rightarrow> None)"

definition preferred_schedule :: "json \<Rightarrow> intent_schedule" where
  "preferred_schedule v =
     \<lparr>iq_requested = True, iq_cadence = Some (cadence_of (jfield v ''cadence'')),
      iq_time_of_day = text_field v ''time_of_day'', iq_timezone = text_field v ''timezone''\<rparr>"

definition mentioned_schedule :: "string \<Rightarrow> intent_schedule option" where
  "mentioned_schedule lower =
     (if \<not> any_of [''every morning'', ''daily'', ''every day'', ''weekly'', ''cron''] lower then None
      else Some \<lparr>iq_requested = True,
                 iq_cadence = Some (if str_includes lower ''weekly'' then Cad_weekly
                                    else if str_includes lower ''cron'' then Cad_cron else Cad_daily),
                 iq_time_of_day = first_time False lower, iq_timezone = None\<rparr>)"

definition schedule_intent :: "string \<Rightarrow> json option \<Rightarrow> intent_schedule option" where
  "schedule_intent lower preference =
     (case preference of
        Some v \<Rightarrow> if is_object v then Some (preferred_schedule v) else mentioned_schedule lower
      | None \<Rightarrow> mentioned_schedule lower)"

definition action_for :: "intent_domain \<Rightarrow> string \<Rightarrow> bool \<Rightarrow> bool \<Rightarrow> intent_action" where
  "action_for d lower has_schedule has_url =
     (if has_schedule then Act_schedule
      else if d = Dom_repository then Act_patch_repository
      else if d = Dom_research \<and> has_url then Act_summarize
      else if d = Dom_research then Act_create_brief
      else if d = Dom_pack then Act_build_pack
      else if str_includes lower ''run'' then Act_run_workflow else Act_create_plan)"

definition output_for ::
    "intent_domain \<Rightarrow> intent_action \<Rightarrow> bool \<Rightarrow> intent_output_kind \<times> intent_output_format option" where
  "output_for d a has_url =
     (if d = Dom_repository then (Out_git_patch, Some Fmt_patch)
      else if d = Dom_research \<or> a = Act_summarize \<or> has_url then (Out_markdown_brief, Some Fmt_markdown)
      else (Out_planfile, Some Fmt_markdown))"

definition required_capability_kinds :: "intent_domain \<Rightarrow> intent_action \<Rightarrow> bool \<Rightarrow> string list" where
  "required_capability_kinds d a has_url =
     (if d = Dom_repository then [''repository read'', ''patch preview'', ''verification'', ''review'']
      else if d = Dom_research \<and> has_url then [''fetch source'', ''extract content'', ''cited brief'', ''markdown export'']
      else if d = Dom_research \<or> a = Act_schedule
      then [''search sources'', ''fetch source'', ''extract content'', ''cited brief'', ''markdown export'']
      else [''planfile''])"

definition assumptions_for :: "intent_domain \<Rightarrow> intent_context \<Rightarrow> string option \<Rightarrow> string list" where
  "assumptions_for d c url =
     [''The prompt is sufficient for an initial reviewable Planfile.''] @
     (if d = Dom_research \<and> \<not> truthy url
      then [''Live source search should be provider-backed when configured.''] else []) @
     (if truthy (ic_provider c) then [''Preferred provider: '' @ the (ic_provider c) @ ''.''] else []) @
     (if truthy (ic_repo_path c) then [''Repository context: '' @ the (ic_repo_path c) @ ''.''] else [])"

definition interpreted_goal :: "string \<Rightarrow> intent_domain \<Rightarrow> intent_action \<Rightarrow> string" where
  "interpreted_goal prompt d a =
     (if d = Dom_research \<and> a = Act_schedule then ''Create a scheduled cited research brief: '' @ prompt
      else if d = Dom_research then ''Create a cited research brief: '' @ prompt
      else if d = Dom_repository then ''Create a repository patch plan: '' @ prompt
      else prompt)"

definition domain_of :: "string \<Rightarrow> bool \<Rightarrow> bool \<Rightarrow> intent_domain" where
  "domain_of lower repository research =
     (if repository \<and> \<not> research then Dom_repository
      else if research then Dom_research
      else if str_includes lower ''skill'' then Dom_skill
      else if str_includes lower ''pack'' then Dom_pack else Dom_generic)"

definition frame_questions :: "intent_domain \<Rightarrow> intent_context \<Rightarrow> intent_schedule option \<Rightarrow> string list" where
  "frame_questions d c schedule =
     (case schedule of
        Some s \<Rightarrow> if iq_requested s \<and> \<not> truthy (iq_time_of_day s)
                  then [''What time of day should the schedule use?''] else []
      | None \<Rightarrow> []) @
     (if d = Dom_repository \<and> \<not> truthy (ic_repo_path c) then [''Which repository should be used?''] else [])"

text \<open>The frame that is parsed; \<open>None\<close> in the parsed one is an error of the schema library.\<close>

definition raw_intent_frame :: "env \<Rightarrow> string \<Rightarrow> intent_context \<Rightarrow> string \<Rightarrow> intent_frame" where
  "raw_intent_frame E prompt c now =
     (let original = single_spaced (trim prompt); lower = to_lower original; url = extract_url original;
          has_url = truthy url; schedule = schedule_intent lower (ic_schedule c);
          repository = looks_like_repository lower \<or> truthy (ic_repo_path c);
          research = has_url \<or> looks_like_research lower;
          d = domain_of lower repository research;
          a = action_for d lower (case schedule of None \<Rightarrow> False | Some s \<Rightarrow> iq_requested s) has_url;
          out = output_for d a has_url; questions = frame_questions d c schedule;
          blocking = (d = Dom_generic \<or> d = Dom_repository \<and> \<not> truthy (ic_repo_path c))
      in \<lparr>fi_intent_id = ''intent_'' @ take 18 (stable_hash E (JObj [(''original'', JStr original), (''now'', JStr now)])),
          fi_original_prompt = original, fi_interpreted_goal = interpreted_goal original d a, fi_domain = d,
          fi_action = a, fi_output = Some out, fi_schedule = schedule, fi_constraints = [],
          fi_non_goals = [''Execute or schedule work before user confirmation.''],
          fi_assumptions = assumptions_for d c url,
          fi_ambiguity = \<lparr>am_level = (if blocking then Amb_high else if questions \<noteq> [] then Amb_medium else Amb_low),
                          am_questions = questions, am_blocking = blocking\<rparr>,
          fi_capability_kinds = required_capability_kinds d a has_url,
          fi_side_effect = (if d = Dom_repository then Expect_workspace_write
                            else if fst out = Out_markdown_brief then Expect_artifact_write else Expect_unknown),
          fi_risk_level = (if d = Dom_repository then Risk_write else Risk_read)\<rparr>)"

definition deterministic_intent_frame :: "env \<Rightarrow> string \<Rightarrow> intent_context \<Rightarrow> string \<Rightarrow> intent_frame option" where
  "deterministic_intent_frame E prompt c now =
     (let f = raw_intent_frame E prompt c now in if intent_frame_ok f then Some f else None)"

text \<open>The answer of the model is parsed; \<open>allow\<close> is the option \<open>allow_model\<close>.\<close>

type_synonym intent_model = "string \<Rightarrow> intent_context \<Rightarrow> string \<Rightarrow> thrown + intent_frame"

definition classify_intent ::
    "env \<Rightarrow> intent_model option \<Rightarrow> bool option \<Rightarrow> string \<Rightarrow> intent_context \<Rightarrow> string \<Rightarrow> thrown + intent_frame" where
  "classify_intent E model allow prompt c now =
     (case deterministic_intent_frame E prompt c now of
        None \<Rightarrow> Inl Zod_error
      | Some f \<Rightarrow>
          if am_level (fi_ambiguity f) \<noteq> Amb_high \<or> allow = Some False then Inr f
          else (case model of
                  None \<Rightarrow> Inr f
                | Some ask \<Rightarrow>
                    (case ask prompt c now of
                       Inl e \<Rightarrow> Inl e
                     | Inr g \<Rightarrow> if intent_frame_ok g then Inr g else Inl Zod_error)))"

section \<open>Goals\<close>

definition raw_goal_frame :: "env \<Rightarrow> string \<Rightarrow> string \<Rightarrow> goal_frame" where
  "raw_goal_frame E prompt now =
     (let normalized = single_spaced (trim prompt)
      in \<lparr>gf_goal_id = ''goal_'' @ take 18 (stable_hash E (JObj [(''normalized'', JStr normalized), (''now'', JStr now)])),
          gf_original_prompt = normalized, gf_interpreted_goal = normalized,
          gf_acceptance_criteria = [''The requested work is represented as validated typed plan nodes.''],
          gf_non_goals = [''Execute plan nodes before approval.''],
          gf_assumptions = [''The prompt is sufficient for an initial dry-run Planfile.''],
          gf_ambiguity = \<lparr>am_level = Amb_medium, am_questions = [], am_blocking = False\<rparr>,
          gf_suggested_mode = Suggest_dry_run,
          gf_risk_notes = [''Write or external side-effect nodes require approval before execution.''],
          gf_created_at = now\<rparr>)"

definition deterministic_goal_frame :: "env \<Rightarrow> string \<Rightarrow> string \<Rightarrow> goal_frame option" where
  "deterministic_goal_frame E prompt now =
     (let g = raw_goal_frame E prompt now in if goal_frame_ok E g then Some g else None)"

end
