(* ===== verification/Plan_Catalog.thy ===== *)
theory Plan_Catalog
  imports Intent_Classifier
begin

text \<open>
  \<open>planning/plan-template-registry.ts\<close>: the templates of the core packs, from which plans are composed, and
  the registry that lists them. The schemas of their parameters, which nothing reads, are left out.
\<close>

section \<open>Templates\<close>

record plan_template_node =
  tl_node_id :: string
  tl_kind :: plan_node_kind
  tl_title :: string
  tl_objective :: string
  tl_description :: string
  tl_depends_on :: "string list"
  tl_capability :: "string option"
  tl_outputs :: "string list"
  tl_input :: "json option"
  tl_optional :: "bool option"

record plan_template =
  tp_id :: string
  tp_pack_id :: string
  tp_title :: string
  tp_description :: string
  tp_domains :: "string list"
  tp_patterns :: "string list"
  tp_required :: "string list"
  tp_optional :: "string list"
  tp_nodes :: "plan_template_node list"
  tp_output_kind :: string
  tp_schedule :: bool
  tp_scaffold_only :: bool

definition template_node ::
    "string \<Rightarrow> plan_node_kind \<Rightarrow> string \<Rightarrow> string \<Rightarrow> string list \<Rightarrow> string option \<Rightarrow> string list
      \<Rightarrow> json option \<Rightarrow> bool option \<Rightarrow> plan_template_node" where
  "template_node node_id kind title description depends_on capability outputs given optional =
     \<lparr>tl_node_id = node_id, tl_kind = kind, tl_title = title, tl_objective = description,
      tl_description = description, tl_depends_on = depends_on, tl_capability = keep_truthy capability,
      tl_outputs = outputs, tl_input = given, tl_optional = optional\<rparr>"

section \<open>The core templates\<close>

definition research_topic_brief_template :: plan_template where
  "research_topic_brief_template =
     \<lparr>tp_id = ''research.topic_brief'',
      tp_pack_id = ''open-lagrange.research'',
      tp_title = ''Research topic brief'',
      tp_description = ''Create a cited Markdown brief from bounded provider-backed source discovery.'',
      tp_domains = [''research''],
      tp_patterns = [''research'', ''brief'', ''cited'', ''sources'', ''markdown''],
      tp_required = [''research.plan_search'', ''research.search_sources'', ''research.select_sources'',
        ''research.fetch_sources'', ''research.extract_sources'', ''research.create_source_set'',
        ''research.create_brief'', ''research.export_markdown''],
      tp_optional = [],
      tp_nodes = [
         template_node ''frame_goal'' K_frame ''Frame research goal''
           ''Confirm topic, output, constraints, and source expectations.'' [] None [''IntentFrame''] None None,
         template_node ''plan_search'' K_inspect ''Plan source search''
           ''Create a bounded SearchPlan for the topic.'' [''frame_goal''] (Some ''research.plan_search'')
           [''SearchPlan''] (Some (JObj [(''topic'', JStr ''$parameters.topic''), (''objective'', JStr
           ''$parameters.objective''), (''provider_id'', JStr ''$parameters.provider_id''), (''max_results'',
           JStr ''$parameters.max_sources'')])) None,
         template_node ''search_sources'' K_inspect ''Search source candidates''
           ''Execute bounded provider-backed search.'' [''plan_search''] (Some ''research.search_sources'')
           [''SearchResultSet''] (Some (JObj [(''search_plan'', JStr ''$nodes.plan_search.output.search_plan''),
           (''mode'', JStr ''live''), (''urls'', JStr ''$parameters.urls'')])) None,
         template_node ''select_sources'' K_analyze ''Select sources''
           ''Select a bounded set of source candidates.'' [''search_sources''] (Some
           ''research.select_sources'') [''Selected source candidates''] (Some (JObj [(''result_set'', JStr
           ''$nodes.search_sources.output.result_set''), (''max_sources'', JStr ''$parameters.max_sources'')]))
           None,
         template_node ''fetch_sources'' K_inspect ''Fetch selected sources''
           ''Fetch the selected source set through policy and SDK HTTP primitives.'' [''select_sources''] (Some
           ''research.fetch_sources'') [''Source snapshots''] (Some (JObj [(''sources'', JStr
           ''$nodes.select_sources.output.selected_sources''), (''mode'', JStr ''live'')])) None,
         template_node ''extract_sources'' K_analyze ''Extract source content''
           ''Extract readable text and citation metadata from fetched sources.'' [''fetch_sources''] (Some
           ''research.extract_sources'') [''Extracted sources''] (Some (JObj [(''fetched_sources'', JStr
           ''$nodes.fetch_sources.output.fetched_sources'')])) None,
         template_node ''create_source_set'' K_analyze ''Create source set''
           ''Create a cited source set from extracted sources.'' [''extract_sources''] (Some
           ''research.create_source_set'') [''Source set''] (Some (JObj [(''topic'', JStr
           ''$parameters.topic''), (''sources'', JStr ''$nodes.extract_sources.output.sources''),
           (''selection_policy'', JObj [(''max_sources'', JStr ''$parameters.max_sources''),
           (''prefer_official'', JBool True), (''require_diverse_domains'', JBool True)])])) None,
         template_node ''create_brief'' K_analyze ''Create cited brief''
           ''Use the configured model provider to synthesize a cited Markdown brief across extracted sources.''
           [''create_source_set''] (Some ''research.create_brief'') [''Research brief''] (Some (JObj
           [(''topic'', JStr ''$parameters.topic''), (''source_set_id'', JStr
           ''$nodes.create_source_set.output.source_set_id''), (''sources'', JStr
           ''$nodes.extract_sources.output.sources''), (''brief_style'', JStr ''$parameters.brief_style''),
           (''include_recommendations'', JBool False), (''max_words'', JNum 800)])) None,
         template_node ''export_markdown'' K_finalize ''Export Markdown brief''
           ''Write the brief as an indexed Markdown artifact.'' [''create_brief''] (Some
           ''research.export_markdown'') [''Markdown artifact''] (Some (JObj [(''title'', JStr
           ''$parameters.title''), (''markdown'', JStr ''$nodes.create_brief.output.markdown''),
           (''related_source_ids'', JStr ''$nodes.create_source_set.output.selected_sources.source_id'')])) None],
      tp_output_kind = ''markdown_brief'', tp_schedule = True, tp_scaffold_only = False\<rparr>"

definition research_url_summary_template :: plan_template where
  "research_url_summary_template =
     \<lparr>tp_id = ''research.url_summary'',
      tp_pack_id = ''open-lagrange.research'',
      tp_title = ''Research URL summary'',
      tp_description = ''Fetch one explicit URL and create a cited Markdown summary.'',
      tp_domains = [''research''],
      tp_patterns = [''url'', ''fetch'', ''summarize'', ''summary''],
      tp_required = [''research.fetch_source'', ''research.extract_content'', ''research.create_brief'',
        ''research.export_markdown''],
      tp_optional = [],
      tp_nodes = [
         template_node ''frame_goal'' K_frame ''Frame URL summary goal''
           ''Confirm URL and output expectations.'' [] None [''IntentFrame''] None None,
         template_node ''fetch_source'' K_inspect ''Fetch URL''
           ''Fetch the explicit URL through policy and SDK HTTP primitives.'' [''frame_goal''] (Some
           ''research.fetch_source'') [''Source snapshot''] (Some (JObj [(''url'', JStr ''$parameters.url''),
           (''mode'', JStr ''live'')])) None,
         template_node ''extract_content'' K_analyze ''Extract source content''
           ''Extract readable text and citation metadata.'' [''fetch_source''] (Some
           ''research.extract_content'') [''Extracted source''] (Some (JObj [(''source_artifact_id'', JStr
           ''$nodes.fetch_source.output.text_artifact_id''), (''url'', JStr
           ''$nodes.fetch_source.output.url'')])) None,
         template_node ''create_brief'' K_analyze ''Create cited summary''
           ''Create a cited Markdown summary from the extracted source.'' [''extract_content''] (Some
           ''research.create_brief'') [''Markdown summary''] (Some (JObj [(''topic'', JStr
           ''$parameters.topic''), (''sources'', JArr [JStr ''$nodes.extract_content.output'']),
           (''brief_style'', JStr ''concise''), (''include_recommendations'', JBool False), (''max_words'', JNum
           500)])) None,
         template_node ''export_markdown'' K_finalize ''Export Markdown summary''
           ''Write the summary as an indexed Markdown artifact.'' [''create_brief''] (Some
           ''research.export_markdown'') [''Markdown artifact''] (Some (JObj [(''title'', JStr
           ''$parameters.title''), (''markdown'', JStr ''$nodes.create_brief.output.markdown''),
           (''related_source_ids'', JArr [JStr ''$nodes.extract_content.output.source_id''])])) None],
      tp_output_kind = ''markdown_brief'', tp_schedule = False, tp_scaffold_only = False\<rparr>"

definition research_digest_template :: plan_template where
  "research_digest_template =
     \<lparr>tp_id = ''research.digest'',
      tp_pack_id = ''open-lagrange.research'',
      tp_title = ''Research digest'',
      tp_description = ''Scaffold a multi-topic cited digest Planfile for later execution support.'',
      tp_domains = [''research''],
      tp_patterns = [''digest'', ''topics'', ''daily research'', ''roundup''],
      tp_required = [''research.plan_search'', ''research.search_sources'', ''research.select_sources'',
        ''research.fetch_sources'', ''research.extract_sources'', ''research.create_source_set'',
        ''research.create_brief'', ''research.export_markdown''],
      tp_optional = [],
      tp_nodes = [
         template_node ''frame_goal'' K_frame ''Frame digest goal''
           ''Confirm digest topics, cadence, and output expectations.'' [] None [''IntentFrame''] None None,
         template_node ''topic_briefs'' K_analyze ''Create topic briefs''
           ''Create one cited brief per topic when branch execution is available.'' [''frame_goal''] (Some
           ''research.create_brief'') [''Topic briefs''] (Some (JObj [(''topics'', JStr ''$parameters.topics''),
           (''brief_style'', JStr ''$parameters.brief_style'')])) None,
         template_node ''combine_digest'' K_finalize ''Export digest''
           ''Combine topic briefs into one Markdown digest.'' [''topic_briefs''] (Some
           ''research.export_markdown'') [''Markdown digest''] (Some (JObj [(''title'', JStr
           ''$parameters.title''), (''markdown'', JStr ''$nodes.topic_briefs.output.markdown'')])) None],
      tp_output_kind = ''markdown_brief'', tp_schedule = True, tp_scaffold_only = True\<rparr>"

definition repository_plan_to_patch_template :: plan_template where
  "repository_plan_to_patch_template =
     \<lparr>tp_id = ''repository.plan_to_patch'',
      tp_pack_id = ''open-lagrange.repository'',
      tp_title = ''Repository Plan-to-Patch'',
      tp_description = ''Create a reviewable repository Planfile for patch work.'',
      tp_domains = [''repository''],
      tp_patterns = [''repo'', ''repository'', ''patch'', ''cli'', ''json output'', ''fix'', ''add'',
        ''update''],
      tp_required = [''repo.list_files'', ''repo.search_text'', ''repo.read_file'', ''repo.propose_patch'',
        ''repo.run_verification'', ''repo.get_diff'', ''repo.create_review_report''],
      tp_optional = [''repo.apply_patch''],
      tp_nodes = [
         template_node ''frame_goal'' K_frame ''Frame repository goal''
           ''Confirm repository goal and acceptance criteria.'' [] None [''Goal frame''] None None,
         template_node ''inspect_repo'' K_inspect ''Inspect repository evidence''
           ''Collect bounded repository evidence for the requested change.'' [''frame_goal''] (Some
           ''repo.list_files'') [''Repository evidence''] None None,
         template_node ''collect_evidence'' K_inspect ''Collect focused evidence''
           ''Search and read policy-allowed files relevant to the change.'' [''inspect_repo''] (Some
           ''repo.search_text'') [''Evidence bundle''] None None,
         template_node ''generate_patch_plan'' K_design ''Generate patch plan''
           ''Design a bounded PatchPlan from collected evidence.'' [''collect_evidence''] None [''PatchPlan'']
           None None,
         template_node ''apply_patch'' K_patch ''Apply structured patch''
           ''Apply a validated patch in the repository execution path.'' [''generate_patch_plan''] (Some
           ''repo.propose_patch'') [''Patch preview''] None None,
         template_node ''verify'' K_verify ''Verify patch'' ''Run allowlisted verification.'' [''apply_patch'']
           (Some ''repo.run_verification'') [''Verification report''] None None,
         template_node ''review'' K_review ''Review repository result''
           ''Create a review report from patch and verification evidence.'' [''verify''] (Some
           ''repo.create_review_report'') [''Review report''] None None,
         template_node ''export_patch'' K_finalize ''Export patch'' ''Export the final git patch artifact.''
           [''review''] (Some ''repo.get_diff'') [''Git patch artifact''] None None],
      tp_output_kind = ''git_patch'', tp_schedule = False, tp_scaffold_only = False\<rparr>"

definition output_research_packet_template :: plan_template where
  "output_research_packet_template =
     \<lparr>tp_id = ''output.research_packet'',
      tp_pack_id = ''open-lagrange.output'',
      tp_title = ''Research output packet'',
      tp_description = ''Create a research packet from selected safe run artifacts.'',
      tp_domains = [''generic'', ''research''],
      tp_patterns = [''research packet'', ''bundle research'', ''export research'', ''report'', ''html'',
        ''pdf''],
      tp_required = [''output.select_artifacts'', ''output.create_run_packet'', ''output.render_html'',
        ''output.export_artifacts''],
      tp_optional = [''output.render_pdf''],
      tp_nodes = [
         template_node ''select_outputs'' K_inspect ''Select research outputs''
           ''Select brief, citations, source set, and safe run summary artifacts.'' [] (Some
           ''output.select_artifacts'') [''Artifact selection''] (Some (JObj [(''run_id'', JStr
           ''$parameters.run_id''), (''preset'', JStr ''research_packet'')])) None,
         template_node ''create_packet'' K_finalize ''Create research packet''
           ''Create a Markdown research packet and manifest.'' [''select_outputs''] (Some
           ''output.create_run_packet'') [''Run packet''] (Some (JObj [(''run_id'', JStr
           ''$parameters.run_id''), (''packet_type'', JStr ''research'')])) None,
         template_node ''render_html'' K_finalize ''Render HTML''
           ''Render the packet Markdown as sanitized HTML.'' [''create_packet''] (Some ''output.render_html'')
           [''HTML export''] (Some (JObj [(''source_markdown_artifact_id'', JStr
           ''$nodes.create_packet.output.markdown_artifact_id'')])) (Some True)],
      tp_output_kind = ''run_packet'', tp_schedule = False, tp_scaffold_only = False\<rparr>"

definition output_developer_packet_template :: plan_template where
  "output_developer_packet_template =
     \<lparr>tp_id = ''output.developer_packet'',
      tp_pack_id = ''open-lagrange.output'',
      tp_title = ''Developer output packet'',
      tp_description = ''Create a developer handoff report from repository run artifacts.'',
      tp_domains = [''generic'', ''repository''],
      tp_patterns = [''developer handoff'', ''developer report'', ''bundle patch'', ''export patch'',
        ''final patch'', ''handoff''],
      tp_required = [''output.select_artifacts'', ''output.create_run_packet'', ''output.export_artifacts''],
      tp_optional = [''output.render_html'', ''output.render_pdf''],
      tp_nodes = [
         template_node ''select_outputs'' K_inspect ''Select developer outputs''
           ''Select patch, verification, review, and safe run summary artifacts.'' [] (Some
           ''output.select_artifacts'') [''Artifact selection''] (Some (JObj [(''run_id'', JStr
           ''$parameters.run_id''), (''preset'', JStr ''developer_packet'')])) None,
         template_node ''create_packet'' K_finalize ''Create developer packet''
           ''Create a Markdown developer packet and manifest.'' [''select_outputs''] (Some
           ''output.create_run_packet'') [''Run packet''] (Some (JObj [(''run_id'', JStr
           ''$parameters.run_id''), (''packet_type'', JStr ''developer'')])) None,
         template_node ''export_bundle'' K_finalize ''Export bundle''
           ''Export selected artifacts with a manifest.'' [''create_packet''] (Some ''output.export_artifacts'')
           [''Artifact bundle''] (Some (JObj [(''artifact_ids'', JStr
           ''$nodes.select_outputs.output.selected_artifacts.artifact_id''), (''format'', JStr ''directory'')]))
           (Some True)],
      tp_output_kind = ''run_packet'', tp_schedule = False, tp_scaffold_only = False\<rparr>"

definition output_digest_template :: plan_template where
  "output_digest_template =
     \<lparr>tp_id = ''output.digest'',
      tp_pack_id = ''open-lagrange.output'',
      tp_title = ''Run digest'',
      tp_description = ''Create a concise Markdown digest from selected safe artifacts.'',
      tp_domains = [''generic'', ''repository'', ''research''],
      tp_patterns = [''digest'', ''executive summary'', ''summary'', ''summarize outputs'',
        ''important outputs''],
      tp_required = [''output.select_artifacts'', ''output.create_digest''],
      tp_optional = [],
      tp_nodes = [
         template_node ''select_outputs'' K_inspect ''Select outputs'' ''Select safe artifacts for the digest.''
           [] (Some ''output.select_artifacts'') [''Artifact selection''] (Some (JObj [(''run_id'', JStr
           ''$parameters.run_id''), (''preset'', JStr ''final_outputs'')])) None,
         template_node ''create_digest'' K_finalize ''Create digest''
           ''Create a concise Markdown digest from selected artifacts.'' [''select_outputs''] (Some
           ''output.create_digest'') [''Run digest''] (Some (JObj [(''run_id'', JStr ''$parameters.run_id''),
           (''digest_style'', JStr ''$parameters.digest_style'')])) None],
      tp_output_kind = ''run_digest'', tp_schedule = False, tp_scaffold_only = False\<rparr>"

section \<open>The registry\<close>

text \<open>A map by template id; its list is sorted by id.\<close>

definition listed_templates :: "plan_template list \<Rightarrow> plan_template list" where
  "listed_templates registered =
     sort_key (\<lambda>t. collation_key (tp_id t)) (map snd (map_by tp_id registered))"

definition core_templates :: "plan_template list" where
  "core_templates = listed_templates
     [research_topic_brief_template, research_url_summary_template, research_digest_template, repository_plan_to_patch_template,
      output_research_packet_template, output_developer_packet_template, output_digest_template]"

end
