(* ===== verification/Plan_Composer.thy ===== *)
theory Plan_Composer
  imports Plan_Catalog Json_Text
begin

text \<open>
  \<open>planning/intent-to-plan-composer.ts\<close> with \<open>planning/capability-match.ts\<close> and the plan made without a
  template (\<open>deterministicPlanfile\<close> of \<open>planning/plan-cognition.ts\<close>): a prompt is classified, a template is
  chosen by its score, and its nodes become a Planfile.
\<close>

section \<open>Names\<close>

fun domain_str :: "intent_domain \<Rightarrow> string" where
  "domain_str Dom_repository = ''repository''"
| "domain_str Dom_research = ''research''"
| "domain_str Dom_skill = ''skill''"
| "domain_str Dom_pack = ''pack''"
| "domain_str Dom_notes = ''notes''"
| "domain_str Dom_files = ''files''"
| "domain_str Dom_generic = ''generic''"

fun intent_action_str :: "intent_action \<Rightarrow> string" where
  "intent_action_str Act_create_plan = ''create_plan''"
| "intent_action_str Act_run_workflow = ''run_workflow''"
| "intent_action_str Act_create_brief = ''create_brief''"
| "intent_action_str Act_patch_repository = ''patch_repository''"
| "intent_action_str Act_build_pack = ''build_pack''"
| "intent_action_str Act_summarize = ''summarize''"
| "intent_action_str Act_schedule = ''schedule''"
| "intent_action_str Act_unknown = ''unknown''"

fun output_kind_str :: "intent_output_kind \<Rightarrow> string" where
  "output_kind_str Out_markdown_brief = ''markdown_brief''"
| "output_kind_str Out_git_patch = ''git_patch''"
| "output_kind_str Out_review_report = ''review_report''"
| "output_kind_str Out_planfile = ''planfile''"
| "output_kind_str Out_artifact = ''artifact''"
| "output_kind_str Out_unknown = ''unknown''"

fun output_format_str :: "intent_output_format \<Rightarrow> string" where
  "output_format_str Fmt_markdown = ''markdown''"
| "output_format_str Fmt_json = ''json''"
| "output_format_str Fmt_patch = ''patch''"
| "output_format_str Fmt_text = ''text''"

fun cadence_str :: "intent_cadence \<Rightarrow> string" where
  "cadence_str Cad_manual = ''manual''"
| "cadence_str Cad_daily = ''daily''"
| "cadence_str Cad_weekly = ''weekly''"
| "cadence_str Cad_cron = ''cron''"

fun side_effect_expectation_str :: "side_effect_expectation \<Rightarrow> string" where
  "side_effect_expectation_str Expect_none = ''none''"
| "side_effect_expectation_str Expect_artifact_write = ''artifact_write''"
| "side_effect_expectation_str Expect_workspace_write = ''workspace_write''"
| "side_effect_expectation_str Expect_external_write = ''external_write''"
| "side_effect_expectation_str Expect_unknown = ''unknown''"

definition schedule_json :: "intent_schedule \<Rightarrow> json" where
  "schedule_json s = JObj
     ([(''requested'', JBool (iq_requested s))] @ jopt ''cadence'' (\<lambda>c. JStr (cadence_str c)) (iq_cadence s) @
      jopt ''time_of_day'' JStr (iq_time_of_day s) @ jopt ''timezone'' JStr (iq_timezone s))"

definition intent_frame_json :: "intent_frame \<Rightarrow> json" where
  "intent_frame_json f = JObj
     ([(''intent_id'', JStr (fi_intent_id f)), (''original_prompt'', JStr (fi_original_prompt f)),
       (''interpreted_goal'', JStr (fi_interpreted_goal f)), (''domain'', JStr (domain_str (fi_domain f))),
       (''action'', JStr (intent_action_str (fi_action f)))] @
      jopt ''output_expectation'' (\<lambda>(k, format). JObj ((''kind'', JStr (output_kind_str k)) #
        jopt ''format'' (\<lambda>x. JStr (output_format_str x)) format)) (fi_output f) @
      jopt ''schedule_intent'' schedule_json (fi_schedule f) @
      [(''constraints'', jstrs (fi_constraints f)), (''non_goals'', jstrs (fi_non_goals f)),
       (''assumptions'', jstrs (fi_assumptions f)),
       (''ambiguity'', JObj [(''level'', JStr (ambiguity_level_str (am_level (fi_ambiguity f)))),
         (''questions'', jstrs (am_questions (fi_ambiguity f))), (''blocking'', JBool (am_blocking (fi_ambiguity f)))]),
       (''required_capability_kinds'', jstrs (fi_capability_kinds f)),
       (''side_effect_expectation'', JStr (side_effect_expectation_str (fi_side_effect f))),
       (''risk_level'', JStr (risk_str (fi_risk_level f)))])"

section \<open>Capabilities\<close>

datatype match_confidence = Match_low | Match_medium | Match_high

record capability_match =
  ym_ref :: string
  ym_pack_id :: string
  ym_name :: string
  ym_reason :: string
  ym_required :: bool
  ym_confidence :: match_confidence
  ym_risk_level :: string
  ym_side_effect :: string

definition find_capability :: "sdk_descriptor list \<Rightarrow> string \<Rightarrow> sdk_descriptor option" where
  "find_capability ds ref =
     List.find (\<lambda>d. sd_capability_id d = ref \<or> sd_name d = ref \<or> sd_pack_id d @ ''.'' @ sd_name d = ref) ds"

definition match_from_descriptor ::
    "sdk_descriptor \<Rightarrow> string \<Rightarrow> bool \<Rightarrow> match_confidence \<Rightarrow> capability_match option" where
  "match_from_descriptor d reason required confidence =
     (if nonempty (sd_name d) \<and> nonempty (sd_pack_id d) \<and> nonempty reason
      then Some \<lparr>ym_ref = sd_name d, ym_pack_id = sd_pack_id d, ym_name = sd_name d, ym_reason = reason,
                 ym_required = required, ym_confidence = confidence, ym_risk_level = risk_str (sd_risk_level d),
                 ym_side_effect = side_effect_kind_str (sd_side_effect_kind d)\<rparr>
      else None)"

definition is_alnum :: "char \<Rightarrow> bool" where
  "is_alnum c = (is_lower c \<or> is_digit c)"

definition kind_words :: "string \<Rightarrow> string list" where
  "kind_words kind =
     filter nonempty (split_on CHR '' '' (map (\<lambda>c. if is_alnum c then c else CHR '' '') (to_lower kind)))"

definition stringified :: "json \<Rightarrow> string" where
  "stringified v = nullish (json_stringify v) ''undefined''"

definition capability_text :: "sdk_descriptor \<Rightarrow> string" where
  "capability_text d = to_lower (join '' ''
     [sd_pack_id d, sd_name d, sd_description d, join '' '' (sd_tags d), stringified (sd_input_schema d),
      stringified (sd_output_schema d), stringified (JArr (sd_examples d))])"

definition score_capability :: "sdk_descriptor \<Rightarrow> string \<Rightarrow> nat" where
  "score_capability d kind = length (filter (str_includes (capability_text d)) (kind_words kind))"

definition best_first :: "('a \<Rightarrow> nat) \<Rightarrow> 'a list \<Rightarrow> 'a list" where
  "best_first score xs = sort_key (\<lambda>x. - int (score x)) (filter (\<lambda>x. 0 < score x) xs)"

text \<open>The outer option of a match is \<open>None\<close> when the parsing of a match throws.\<close>

definition best_inferred_match ::
    "string \<Rightarrow> sdk_descriptor list \<Rightarrow> capability_match list \<Rightarrow> capability_match option list" where
  "best_inferred_match kind ds existing =
     (if list_ex (\<lambda>m. str_includes (ym_name m) kind \<or> str_includes (ym_reason m) kind) existing then []
      else (case best_first (\<lambda>d. score_capability d kind) ds of
              [] \<Rightarrow> []
            | d # _ \<Rightarrow>
                [match_from_descriptor d (''Matched intent need: '' @ kind @ ''.'') False
                   (if 3 \<le> score_capability d kind then Match_high
                    else if 2 \<le> score_capability d kind then Match_medium else Match_low)]))"

fun unique_matches :: "string list \<Rightarrow> capability_match list \<Rightarrow> capability_match list" where
  "unique_matches seen [] = []"
| "unique_matches seen (m # ms) =
     (if ym_ref m \<in> set seen then unique_matches seen ms else m # unique_matches (ym_ref m # seen) ms)"

definition match_capabilities ::
    "pack_registry \<Rightarrow> plan_template option \<Rightarrow> string list \<Rightarrow> capability_match list option" where
  "match_capabilities R template kinds =
     (let ds = list_capabilities R no_filter;
          required = (case template of None \<Rightarrow> [] | Some t \<Rightarrow> uniq (tp_required t));
          optional = (case template of None \<Rightarrow> [] | Some t \<Rightarrow> uniq (tp_optional t))
      in Option.bind (those (concat (map (\<lambda>ref. case find_capability ds ref of
              None \<Rightarrow> []
            | Some d \<Rightarrow> [match_from_descriptor d (''Template references '' @ ref @ ''.'') (ref \<in> set required) Match_high])
            (required @ optional)))) (\<lambda>direct.
         map_option (\<lambda>inferred. unique_matches [] (direct @ inferred))
           (those (concat (map (\<lambda>kind. best_inferred_match kind ds direct) kinds)))))"

definition missing_required_capabilities :: "pack_registry \<Rightarrow> plan_template \<Rightarrow> string list" where
  "missing_required_capabilities R t =
     filter (\<lambda>ref. find_capability (list_capabilities R no_filter) ref = None) (tp_required t)"

section \<open>Choosing a template\<close>

definition is_output_prompt :: "string \<Rightarrow> bool" where
  "is_output_prompt s =
     has_word s [''pdf'', ''html'', ''export'', ''bundle'', ''packet'', ''digest'', ''executive summary'',
                 ''developer handoff'', ''report'']"

definition template_score :: "intent_frame \<Rightarrow> plan_template \<Rightarrow> nat" where
  "template_score f t =
     (let s = to_lower (fi_original_prompt f @ '' '' @ fi_interpreted_goal f);
          url = truthy (extract_url (fi_original_prompt f)); research = (fi_domain f = Dom_research);
          points = (\<lambda>b n. if b then n else (0::nat))
      in points (domain_str (fi_domain f) \<in> set (tp_domains t)) 4 +
         points (Some (tp_output_kind t) = map_option (\<lambda>(k, _). output_kind_str k) (fi_output f)) 2 +
         length (filter (\<lambda>p. str_includes s (to_lower p)) (tp_patterns t)) +
         points (research \<and> url \<and> tp_id t = ''research.url_summary'') 5 +
         points (research \<and> \<not> url \<and> tp_id t = ''research.topic_brief'') 3 +
         points (fi_domain f = Dom_repository \<and> tp_id t = ''repository.plan_to_patch'') 3 +
         points (is_output_prompt s \<and> starts_with (tp_id t) ''output.'') 5 +
         points (has_word s [''research''] \<and> is_output_prompt s \<and> tp_id t = ''output.research_packet'') 3 +
         points (has_word s [''developer'', ''patch'', ''handoff''] \<and> is_output_prompt s \<and>
                 tp_id t = ''output.developer_packet'') 3)"

definition select_template :: "intent_frame \<Rightarrow> plan_template list \<Rightarrow> plan_template option" where
  "select_template f ts = (case best_first (template_score f) ts of [] \<Rightarrow> None | t # _ \<Rightarrow> Some t)"

section \<open>Parameters\<close>

definition remove_first :: "string \<Rightarrow> string \<Rightarrow> string" where
  "remove_first s t = (case index_of s t of None \<Rightarrow> s | Some i \<Rightarrow> take i s @ drop (i + length t) s)"

text \<open>\<open>/^word\s+word\s+/i\<close>\<close>

fun after_words :: "string list \<Rightarrow> string \<Rightarrow> string option" where
  "after_words [] s = Some s"
| "after_words (w # ws) s =
     (let rest = drop (length w) s
      in if to_lower (take (length w) s) = w \<and> rest \<noteq> [] \<and> is_space (hd rest)
         then after_words ws (dropWhile is_space rest) else None)"

definition strip_words :: "string list \<Rightarrow> string \<Rightarrow> string" where
  "strip_words ws s = nullish (after_words ws s) s"

text \<open>\<open>s.replace(/\bword\b/gi, '')\<close>; the number counts the characters of a match still to be dropped.\<close>

fun remove_word :: "string \<Rightarrow> bool \<Rightarrow> nat \<Rightarrow> string \<Rightarrow> string" where
  "remove_word w inside n [] = []"
| "remove_word w inside n (c # cs) =
     (if 0 < n then remove_word w (is_word_char c) (n - 1) cs
      else if \<not> inside \<and> starts_with (to_lower (c # cs)) w \<and> \<not> word_starts (drop (length w) (c # cs))
      then remove_word w (is_word_char c) (length w - 1) cs
      else c # remove_word w (is_word_char c) 0 cs)"

definition clean_topic :: "string \<Rightarrow> string option \<Rightarrow> string" where
  "clean_topic prompt url =
     (let s1 = (if truthy url then remove_first prompt (the url) else prompt);
          s2 = strip_words [''create'', ''a''] (strip_words [''make'', ''me'', ''a'']
                 (strip_words [''summarize''] (strip_words [''research''] s1)));
          s3 = remove_word ''daily'' False 0 (remove_word ''every morning'' False 0 s2);
          topic = trim (single_spaced s3)
      in if topic = [] then prompt else topic)"

definition template_parameters ::
    "intent_frame \<Rightarrow> plan_template \<Rightarrow> intent_context \<Rightarrow> (string \<times> json) list" where
  "template_parameters f t c =
     (let url = extract_url (fi_original_prompt f); topic = clean_topic (fi_original_prompt f) url
      in [(''topic'', JStr topic), (''objective'', JStr (fi_interpreted_goal f)),
          (''title'', JStr (if map_option fst (fi_output f) = Some Out_markdown_brief
                            then ''Research Brief: '' @ topic else fi_interpreted_goal f)),
          (''url'', jundef JStr url), (''urls'', JArr (if truthy url then [JStr (the url)] else [])),
          (''provider_id'', jundef JStr (ic_provider c)), (''max_sources'', JNum 5),
          (''brief_style'', JStr ''standard''), (''repo_path'', jundef JStr (ic_repo_path c)),
          (''template_id'', JStr (tp_id t))])"

fun strip_undefined :: "json \<Rightarrow> json" where
  "strip_undefined (JArr xs) = JArr (map strip_undefined xs)"
| "strip_undefined (JObj kvs) =
     JObj (map snd (filter fst (map (\<lambda>(k, v). (v \<noteq> JUndef, k, strip_undefined v)) kvs)))"
| "strip_undefined v = v"

definition parameter_value :: "(string \<times> json) list \<Rightarrow> string \<Rightarrow> json" where
  "parameter_value parameters k = nullish (map_of parameters k) JUndef"

text \<open>One match of \<open>/\{\{parameters\.([^}]+)\}\}/\<close> at the start of a text: the key and what follows.\<close>

definition parameter_at :: "string \<Rightarrow> (string \<times> string) option" where
  "parameter_at s =
     (if \<not> starts_with s ''{{parameters.'' then None
      else (let t = drop 13 s; k = takeWhile (\<lambda>c. c \<noteq> CHR ''}'') t; r = drop (length k) t
            in if k \<noteq> [] \<and> starts_with r ''}}'' then Some (k, drop 2 r) else None))"

lemma parameter_at_shorter: "parameter_at s = Some (k, r) \<Longrightarrow> length r < length s"
  by (auto simp: parameter_at_def Let_def starts_with_iff split: if_splits dest!: arg_cong [where f = length])

function replace_parameters :: "(string \<times> json) list \<Rightarrow> string \<Rightarrow> string" where
  "replace_parameters parameters [] = []"
| "replace_parameters parameters (c # cs) =
     (case parameter_at (c # cs) of
        Some (k, r) \<Rightarrow> js_string (jnullish (parameter_value parameters k) (JStr [])) @ replace_parameters parameters r
      | None \<Rightarrow> c # replace_parameters parameters cs)"
  by pat_completeness auto
termination
  by (relation "measure (\<lambda>(_, s). length s)") (auto dest: parameter_at_shorter)

definition resolve_parameter_string :: "(string \<times> json) list \<Rightarrow> string \<Rightarrow> json" where
  "resolve_parameter_string parameters s =
     (let k = drop 12 s
      in if starts_with s ''$parameters.'' \<and> k \<noteq> [] \<and> list_all dot_char k then parameter_value parameters k
         else JStr (replace_parameters parameters s))"

fun resolve_parameters :: "(string \<times> json) list \<Rightarrow> json \<Rightarrow> json" where
  "resolve_parameters parameters (JStr s) = resolve_parameter_string parameters s"
| "resolve_parameters parameters (JArr xs) = JArr (map (resolve_parameters parameters) xs)"
| "resolve_parameters parameters (JObj kvs) = JObj (map (\<lambda>(k, v). (k, resolve_parameters parameters v)) kvs)"
| "resolve_parameters parameters v = v"

section \<open>Plans\<close>

definition risk_for_node :: "plan_template_node \<Rightarrow> risk_level" where
  "risk_for_node n =
     (if tl_kind n = K_patch then Risk_write
      else if tl_kind n = K_verify then Risk_external_side_effect else Risk_read)"

definition node_from_template :: "bool \<Rightarrow> plan_template_node \<Rightarrow> plan_node" where
  "node_from_template live n =
     \<lparr>n_id = tl_node_id n, n_kind = tl_kind n, n_title = tl_title n, n_objective = tl_objective n,
      n_description = tl_description n, n_depends_on = tl_depends_on n,
      n_allowed_capability_refs = (if truthy (tl_capability n) then [the (tl_capability n)] else []),
      n_execution_mode = Some (if live then Mode_live else Mode_dry_run), n_expected_outputs = tl_outputs n,
      n_acceptance_refs = [''acceptance:1''], n_risk_level = risk_for_node n,
      n_approval_required = (risk_for_node n \<in> {Risk_write, Risk_destructive, Risk_external_side_effect}),
      n_status = NS_pending, n_artifacts = [], n_errors = [],
      n_optional = (if tl_optional n = Some True then Some True else None),
      n_verification_command_ids = (if tl_kind n = K_verify then Some [''npm_run_typecheck''] else None)\<rparr>"

definition composed_approval_policy :: approval_policy where
  "composed_approval_policy =
     \<lparr>ap_require_approval_for_risks = [Risk_write, Risk_destructive, Risk_external_side_effect],
      ap_approved_plan_digest = None, ap_explicit_destructive_goal = None\<rparr>"

definition composed_mode :: "bool \<Rightarrow> plan_mode" where
  "composed_mode live = (if live then Plan_apply else Plan_dry_run)"

definition plan_id_for :: "env \<Rightarrow> intent_frame \<Rightarrow> plan_template \<Rightarrow> string" where
  "plan_id_for E f t =
     (if starts_with (tp_id t) ''repository.'' then ''repo_plan'' else ''plan'') @ ''_'' @
     take 18 (stable_hash E (JObj [(''intent_id'', JStr (fi_intent_id f)), (''template_id'', JStr (tp_id t))]))"

definition composed_edges :: "plan_node list \<Rightarrow> plan_edge list" where
  "composed_edges nodes =
     concat (map (\<lambda>n. map (\<lambda>d. \<lparr>e_from = d, e_to = n_id n, e_reason = ''depends on''\<rparr>) (n_depends_on n)) nodes)"

definition composed_context ::
    "intent_frame \<Rightarrow> plan_template \<Rightarrow> intent_context \<Rightarrow> (string \<times> json) list" where
  "composed_context f t c =
     (let parameters = (case strip_undefined (JObj (template_parameters f t c)) of JObj kvs \<Rightarrow> kvs | _ \<Rightarrow> [])
      in [(''intent'', intent_frame_json f),
          (''template'', JObj [(''template_id'', JStr (tp_id t)), (''pack_id'', JStr (tp_pack_id t)),
                             (''output_kind'', JStr (tp_output_kind t))]),
          (''parameters'', JObj parameters)] @
         (case fi_schedule f of
            Some s \<Rightarrow> if iq_requested s then [(''schedule_intent'', schedule_json s)] else []
          | None \<Rightarrow> []) @
         (if truthy (ic_repo_path c)
          then [(''repository'', JObj [(''repo_root'', JStr (the (ic_repo_path c)))])] else []) @
         [(''nodes'', strip_undefined (JObj (concat (map (\<lambda>n. case tl_input n of
              None \<Rightarrow> []
            | Some v \<Rightarrow> [(tl_node_id n, JObj [(''input'', resolve_parameters parameters v)])]) (tp_nodes t)))))])"

definition raw_template_plan ::
    "env \<Rightarrow> intent_frame \<Rightarrow> plan_template \<Rightarrow> intent_context \<Rightarrow> bool \<Rightarrow> goal_frame \<Rightarrow> string \<Rightarrow> planfile" where
  "raw_template_plan E f t c live g now =
     (let nodes = map (node_from_template live) (tp_nodes t)
      in \<lparr>pf_plan_id = plan_id_for E f t,
          pf_goal_frame = g\<lparr>gf_goal_id := fi_intent_id f, gf_interpreted_goal := fi_interpreted_goal f,
            gf_non_goals := fi_non_goals f, gf_assumptions := fi_assumptions f, gf_ambiguity := fi_ambiguity f,
            gf_risk_notes := [''Intent risk level: '' @ risk_str (fi_risk_level f) @ ''.''],
            gf_suggested_mode := (if live then Suggest_apply_with_approval else Suggest_dry_run)\<rparr>,
          pf_mode = composed_mode live, pf_status = PS_draft, pf_nodes = nodes, pf_edges = composed_edges nodes,
          pf_approval_policy = composed_approval_policy,
          pf_allowed_command_ids = (if tp_id t = ''repository.plan_to_patch'' then [''npm_run_typecheck''] else []),
          pf_requirements = None, pf_execution_context = Some (composed_context f t c), pf_lifecycle = None,
          pf_artifact_refs = [], pf_created_at = now, pf_updated_at = now, pf_canonical_plan_digest = None\<rparr>)"

definition planfile_from_template ::
    "env \<Rightarrow> intent_frame \<Rightarrow> plan_template \<Rightarrow> intent_context \<Rightarrow> bool \<Rightarrow> string \<Rightarrow> planfile option" where
  "planfile_from_template E f t c live now =
     Option.bind (deterministic_goal_frame E (fi_original_prompt f) now) (\<lambda>g.
       planfile_parse E (raw_template_plan E f t c live g now))"

definition plain_node :: "string \<Rightarrow> plan_node_kind \<Rightarrow> string \<Rightarrow> string \<Rightarrow> string \<Rightarrow> string list \<Rightarrow> plan_node" where
  "plain_node i kind title objective description depends_on =
     \<lparr>n_id = i, n_kind = kind, n_title = title, n_objective = objective, n_description = description,
      n_depends_on = depends_on, n_allowed_capability_refs = [], n_execution_mode = None,
      n_expected_outputs = [title @ '' artifact''], n_acceptance_refs = [''acceptance:1''],
      n_risk_level = Risk_read, n_approval_required = False, n_status = NS_pending, n_artifacts = [],
      n_errors = [], n_optional = None, n_verification_command_ids = None\<rparr>"

definition deterministic_nodes :: "string \<Rightarrow> plan_node list" where
  "deterministic_nodes goal =
     [plain_node ''frame_goal'' K_frame ''Frame goal'' goal
        ''Confirm goal, assumptions, non-goals, and acceptance criteria.'' [],
      plain_node ''inspect_context'' K_inspect ''Inspect context''
        ''Collect bounded evidence needed to refine the plan.''
        ''Use read-only capabilities selected by the execution environment.'' [''frame_goal''],
      plain_node ''design_steps'' K_design ''Design execution steps''
        ''Turn evidence into executable typed nodes.'' ''Keep planning generic and pack-neutral.''
        [''inspect_context''],
      plain_node ''review_plan'' K_review ''Review Planfile''
        ''Check the plan against validation, policy, and acceptance criteria.''
        ''Produce a review report before execution.'' [''design_steps''],
      plain_node ''finalize_report'' K_finalize ''Finalize report''
        ''Summarize status, artifacts, and remaining work.'' ''Produce the final report projection.''
        [''review_plan'']]"

definition deterministic_edges :: "plan_edge list" where
  "deterministic_edges =
     [\<lparr>e_from = ''frame_goal'', e_to = ''inspect_context'', e_reason = ''goal before evidence''\<rparr>,
      \<lparr>e_from = ''inspect_context'', e_to = ''design_steps'', e_reason = ''evidence before design''\<rparr>,
      \<lparr>e_from = ''design_steps'', e_to = ''review_plan'', e_reason = ''design before review''\<rparr>,
      \<lparr>e_from = ''review_plan'', e_to = ''finalize_report'', e_reason = ''review before final report''\<rparr>]"

definition raw_deterministic_plan :: "env \<Rightarrow> goal_frame \<Rightarrow> plan_mode \<Rightarrow> string \<Rightarrow> planfile" where
  "raw_deterministic_plan E g mode now =
     \<lparr>pf_plan_id = ''plan_'' @ take 18 (stable_hash E (JObj [(''goal_id'', JStr (gf_goal_id g)),
                                                         (''mode'', JStr (plan_mode_str mode))])),
      pf_goal_frame = g, pf_mode = mode, pf_status = PS_draft,
      pf_nodes = deterministic_nodes (gf_interpreted_goal g), pf_edges = deterministic_edges,
      pf_approval_policy = composed_approval_policy, pf_allowed_command_ids = [], pf_requirements = None,
      pf_execution_context = None, pf_lifecycle = None, pf_artifact_refs = [], pf_created_at = now,
      pf_updated_at = now, pf_canonical_plan_digest = None\<rparr>"

definition deterministic_planfile :: "env \<Rightarrow> goal_frame \<Rightarrow> plan_mode \<Rightarrow> string \<Rightarrow> planfile option" where
  "deterministic_planfile E g mode now = planfile_parse E (raw_deterministic_plan E g mode now)"

section \<open>Composing\<close>

text \<open>\<open>om_registry\<close> is the registry of the process, \<open>om_now\<close> what the clock reads, \<open>om_yaml\<close> the printer
  of the YAML library.\<close>

record compose_host =
  om_env :: env
  om_now :: string
  om_yaml :: "json \<Rightarrow> string"
  om_registry :: pack_registry
  om_model :: "intent_model option"

record compose_input =
  oi_prompt :: string
  oi_profile :: "runtime_profile option"
  oi_registry :: "pack_registry option"
  oi_snapshot :: "capability_snapshot option"
  oi_context :: "intent_context option"
  oi_live :: bool
  oi_now :: "string option"

text \<open>\<open>PlanCompositionError\<close>, with its details, beside what the schemas throw.\<close>

datatype compose_error =
    Compose_thrown thrown
  | Blocking_ambiguity "string list"
  | Missing_capability "string list" string

record composed_planfile =
  oc_intent :: intent_frame
  oc_template :: "plan_template option"
  oc_matches :: "capability_match list"
  oc_planfile :: planfile
  oc_markdown :: string
  oc_validation :: validation_result
  oc_warnings :: "string list"

definition has_search_provider :: "runtime_profile option \<Rightarrow> bool" where
  "has_search_provider profile =
     (case Option.bind profile rf_search_providers of
        None \<Rightarrow> False
      | Some ps \<Rightarrow> list_ex (\<lambda>p. sc_enabled p \<noteq> Some False \<and> sc_kind p \<noteq> ''fixture'') ps)"

definition composition_warnings ::
    "intent_frame \<Rightarrow> plan_template option \<Rightarrow> runtime_profile option \<Rightarrow> intent_context \<Rightarrow> string list" where
  "composition_warnings f selected profile c =
     (if map_option tp_id selected = Some ''research.topic_brief'' \<and> \<not> has_search_provider profile \<and>
         \<not> truthy (ic_provider c)
      then [''SEARCH_PROVIDER_NOT_CONFIGURED: configure a live search provider, provide explicit URLs, or use explicit fixture mode for deterministic demos.'']
      else []) @
     (case fi_schedule f of
        Some s \<Rightarrow> if iq_requested s
                  then [''Schedule intent captured. Automatic timed execution is not created until an explicit schedule command is confirmed.'']
                  else []
      | None \<Rightarrow> [])"

definition composed_plan ::
    "compose_host \<Rightarrow> compose_input \<Rightarrow> intent_frame \<Rightarrow> plan_template option \<Rightarrow> string \<Rightarrow> planfile option" where
  "composed_plan M i f selected now =
     Option.bind
       (case selected of
          Some t \<Rightarrow> planfile_from_template (om_env M) f t (nullish (oi_context i) no_context) (oi_live i) now
        | None \<Rightarrow> Option.bind (deterministic_goal_frame (om_env M) (oi_prompt i) now) (\<lambda>g.
            deterministic_planfile (om_env M) g (composed_mode (oi_live i)) now))
       (with_canonical_plan_digest (om_env M))"

definition composition_snapshot :: "compose_host \<Rightarrow> compose_input \<Rightarrow> string \<Rightarrow> capability_snapshot option" where
  "composition_snapshot M i now =
     (case oi_snapshot i of
        Some s \<Rightarrow> Some s
      | None \<Rightarrow> build_capability_snapshot (om_env M)
                  (map descriptor_to_input (list_capabilities (om_registry M) no_filter)) now)"

definition compose_planfile :: "compose_host \<Rightarrow> compose_input \<Rightarrow> compose_error + composed_planfile" where
  "compose_planfile M i =
     (let E = om_env M; now = nullish (oi_now i) (om_now M); R = nullish (oi_registry i) (om_registry M);
          c = nullish (oi_context i) no_context
      in case classify_intent E (om_model M) None (oi_prompt i) c now of
        Inl e \<Rightarrow> Inl (Compose_thrown e)
      | Inr f \<Rightarrow>
          (let selected = select_template f core_templates;
               missing = (case selected of None \<Rightarrow> [] | Some t \<Rightarrow> missing_required_capabilities R t);
               warnings = composition_warnings f selected (oi_profile i) c
           in if selected = None \<and> am_blocking (fi_ambiguity f)
              then Inl (Blocking_ambiguity (am_questions (fi_ambiguity f)))
              else if missing \<noteq> [] then Inl (Missing_capability missing (case selected of None \<Rightarrow> [] | Some t \<Rightarrow> tp_id t))
              else (case match_capabilities R selected (fi_capability_kinds f) of
                None \<Rightarrow> Inl (Compose_thrown Zod_error)
              | Some matches \<Rightarrow>
              (case composed_plan M i f selected now of
                None \<Rightarrow> Inl (Compose_thrown Zod_error)
              | Some p \<Rightarrow>
              (case composition_snapshot M i now of
                None \<Rightarrow> Inl (Compose_thrown Zod_error)
              | Some s \<Rightarrow>
                  (let v = validate_planfile E (Some s) p
                   in Inr \<lparr>oc_intent = f, oc_template = selected, oc_matches = matches, oc_planfile = p,
                           oc_markdown = render_planfile_markdown (om_yaml M) p
                             \<lparr>mk_dry_run_findings = Some (if warnings \<noteq> [] then warnings
                                else [''Intent composed into a reviewable Planfile.'']),
                              mk_validation_issues = Some (vl_issues v), mk_next_step = None\<rparr>,
                           oc_validation = v, oc_warnings = warnings\<rparr>))))))"

end
