(* ===== verification/Composed_Plans.thy ===== *)
theory Composed_Plans
  imports Plan_Composer
begin

text \<open>
  What holds of every plan composed from a prompt: it is valid and its capabilities are installed; and without a
  model no prompt is refused as ambiguous.
\<close>

section \<open>The templates give valid plans\<close>

definition template_commands :: "plan_template \<Rightarrow> string list" where
  "template_commands t = (if tp_id t = ''repository.plan_to_patch'' then [''npm_run_typecheck''] else [])"

definition bare_plan :: "bool \<Rightarrow> plan_template \<Rightarrow> planfile" where
  "bare_plan live t =
     (let nodes = map (node_from_template live) (tp_nodes t)
      in sample_plan\<lparr>pf_nodes := nodes, pf_edges := composed_edges nodes,
           pf_approval_policy := composed_approval_policy, pf_allowed_command_ids := template_commands t\<rparr>)"

definition installs_its_capabilities :: "plan_template \<Rightarrow> bool" where
  "installs_its_capabilities t =
     list_all (\<lambda>n. list_all (\<lambda>r. r \<in> set (tp_required t)) (n_allowed_capability_refs (node_from_template True n)))
       (tp_nodes t)"

lemma core_templates_set:
  "set core_templates \<subseteq>
     set [research_topic_brief_template, research_url_summary_template, research_digest_template,
          repository_plan_to_patch_template, output_research_packet_template, output_developer_packet_template,
          output_digest_template]"
  unfolding core_templates_def listed_templates_def set_sort by (rule map_by_values)

lemma core_template_cases:
  assumes "t \<in> set core_templates" and "P research_topic_brief_template" "P research_url_summary_template"
    "P research_digest_template" "P repository_plan_to_patch_template" "P output_research_packet_template"
    "P output_developer_packet_template" "P output_digest_template"
  shows "P t"
  using assms core_templates_set by (auto simp only: list.set insert_iff empty_iff dest!: subsetD)

lemma research_topic_brief_valid:
  "planfile_issues None (bare_plan True research_topic_brief_template) = []" "planfile_issues None (bare_plan False research_topic_brief_template) = []"
  by code_simp+

lemma research_url_summary_valid:
  "planfile_issues None (bare_plan True research_url_summary_template) = []" "planfile_issues None (bare_plan False research_url_summary_template) = []"
  by code_simp+

lemma research_digest_valid:
  "planfile_issues None (bare_plan True research_digest_template) = []" "planfile_issues None (bare_plan False research_digest_template) = []"
  by code_simp+

lemma repository_plan_to_patch_valid:
  "planfile_issues None (bare_plan True repository_plan_to_patch_template) = []" "planfile_issues None (bare_plan False repository_plan_to_patch_template) = []"
  by code_simp+

lemma output_research_packet_valid:
  "planfile_issues None (bare_plan True output_research_packet_template) = []" "planfile_issues None (bare_plan False output_research_packet_template) = []"
  by code_simp+

lemma output_developer_packet_valid:
  "planfile_issues None (bare_plan True output_developer_packet_template) = []" "planfile_issues None (bare_plan False output_developer_packet_template) = []"
  by code_simp+

lemma output_digest_valid:
  "planfile_issues None (bare_plan True output_digest_template) = []" "planfile_issues None (bare_plan False output_digest_template) = []"
  by code_simp+

lemma template_valid: "t \<in> set core_templates \<Longrightarrow> planfile_issues None (bare_plan live t) = []"
  by (cases live; erule core_template_cases) (simp_all only: research_topic_brief_valid research_url_summary_valid research_digest_valid
      repository_plan_to_patch_valid output_research_packet_valid output_developer_packet_valid
      output_digest_valid simp_thms)

lemma template_installed: "t \<in> set core_templates \<Longrightarrow> installs_its_capabilities t"
  by (erule core_template_cases; code_simp)

lemma composed_context_bare:
  "context_value (raw_template_plan E f t c live g now) ''allow_fixtures'' = None"
  "context_value (raw_template_plan E f t c live g now) ''context'' = None"
  unfolding context_value_def raw_template_plan_def composed_context_def Let_def
  by (simp_all split: option.splits)

lemma bare_context: "context_value (sample_plan\<lparr>pf_nodes := a, pf_edges := b, pf_approval_policy := d, pf_allowed_command_ids := e\<rparr>) k = None"
  by (simp add: context_value_def sample_plan_def)

lemma raw_template_valid:
  assumes "t \<in> set core_templates"
  shows "planfile_issues None (raw_template_plan E f t c live g now) = []"
proof -
  have "planfile_issues None (raw_template_plan E f t c live g now) = planfile_issues None (bare_plan live t)"
    by (rule planfile_issues_cong)
      (simp_all add: allow_fixtures_def allow_mock_def composed_context_bare bare_context bare_plan_def Let_def
        template_commands_def, simp_all add: raw_template_plan_def Let_def)
  with template_valid [OF assms] show ?thesis by simp
qed

definition bare_deterministic :: "string \<Rightarrow> planfile" where
  "bare_deterministic goal =
     sample_plan\<lparr>pf_nodes := deterministic_nodes goal, pf_edges := deterministic_edges,
       pf_approval_policy := composed_approval_policy, pf_allowed_command_ids := []\<rparr>"

lemma bare_deterministic_valid: "planfile_issues None (bare_deterministic goal) = []"
  by code_simp

lemma raw_deterministic_valid: "planfile_issues None (raw_deterministic_plan E g mode now) = []"
proof -
  have "planfile_issues None (raw_deterministic_plan E g mode now) = planfile_issues None (bare_deterministic (gf_interpreted_goal g))"
    by (rule planfile_issues_cong)
      (simp_all add: allow_fixtures_def allow_mock_def bare_context bare_deterministic_def,
       simp_all add: raw_deterministic_plan_def context_value_def)
  then show ?thesis by (simp add: bare_deterministic_valid)
qed

text \<open>What is known of a composed plan.\<close>

definition composed_node_ok :: "planfile \<Rightarrow> bool \<Rightarrow> plan_node \<Rightarrow> bool" where
  "composed_node_ok p live n =
     ((write_risk (n_risk_level n) \<longleftrightarrow> n_approval_required n) \<and> n_risk_level n \<noteq> Risk_destructive \<and>
      (live \<or> should_dry_run_node p n))"

lemma composed_template_nodes:
  "list_all (composed_node_ok (raw_template_plan E f t c live g now) live) (map (node_from_template live) ns)"
  by (auto simp: list_all_iff composed_node_ok_def node_from_template_def write_risk_def risk_for_node_def
      should_dry_run_node_def)

lemma composed_deterministic_nodes:
  "list_all (composed_node_ok (raw_deterministic_plan E g (composed_mode live) now) live) (deterministic_nodes goal)"
  by (cases live) (simp_all add: deterministic_nodes_def composed_node_ok_def plain_node_def write_risk_def
      should_dry_run_node_def raw_deterministic_plan_def composed_mode_def)

definition composed_ok :: "env \<Rightarrow> bool \<Rightarrow> planfile \<Rightarrow> bool" where
  "composed_ok E live p =
     (planfile_ok E p \<and> planfile_issues None p = [] \<and> pf_status p = PS_draft \<and>
      pf_mode p = composed_mode live \<and>
      pf_canonical_plan_digest p = Some (stable_hash E (canonical_form p)) \<and>
      list_all (composed_node_ok p live) (pf_nodes p))"

lemma digested_composed_ok:
  assumes "with_canonical_plan_digest E r = Some p" and "planfile_issues None r = []" and "pf_status r = PS_draft"
    and "pf_mode r = composed_mode live" and "list_all (composed_node_ok r live) (pf_nodes r)"
  shows "composed_ok E live p"
proof -
  from with_digest_SomeD [OF assms(1)] have p: "planfile_ok E p"
      "p = r\<lparr>pf_canonical_plan_digest := Some (stable_hash E (canonical_form r))\<rparr>" by blast+
  have "planfile_issues None p = planfile_issues None r"
    by (rule planfile_issues_cong) (simp_all add: p(2) allow_fixtures_def allow_mock_def context_value_def)
  moreover have "pf_mode p = pf_mode r" by (simp add: p(2))
  then have "composed_node_ok p live = composed_node_ok r live"
    by (simp add: fun_eq_iff composed_node_ok_def should_dry_run_node_def split: option.split)
  ultimately show ?thesis using assms p(1) by (simp add: composed_ok_def) (simp add: p(2))
qed

lemma select_template_mem: "select_template f ts = Some t \<Longrightarrow> t \<in> set ts"
  by (auto simp: select_template_def best_first_def split: list.splits
      dest!: arg_cong [where f = set])

lemma composed_plan_ok:
  assumes "composed_plan M i f (select_template f core_templates) now = Some p"
  shows "composed_ok (om_env M) (oi_live i) p"
    "pf_nodes p = (case select_template f core_templates of
       Some t \<Rightarrow> map (node_from_template (oi_live i)) (tp_nodes t) | None \<Rightarrow> pf_nodes p)"
    "select_template f core_templates = None \<Longrightarrow> \<exists>goal. pf_nodes p = deterministic_nodes goal"
proof -
  have "composed_ok (om_env M) (oi_live i) p \<and>
      (case select_template f core_templates of
         Some t \<Rightarrow> pf_nodes p = map (node_from_template (oi_live i)) (tp_nodes t)
       | None \<Rightarrow> \<exists>goal. pf_nodes p = deterministic_nodes goal)"
  proof (cases "select_template f core_templates")
    case None
    with assms obtain g where d: "with_canonical_plan_digest (om_env M)
        (raw_deterministic_plan (om_env M) g (composed_mode (oi_live i)) now) = Some p"
      by (auto simp: composed_plan_def bind_eq_Some_conv deterministic_planfile_def)
    have "composed_ok (om_env M) (oi_live i) p"
      by (rule digested_composed_ok [OF d raw_deterministic_valid])
        (use composed_deterministic_nodes in \<open>simp_all add: raw_deterministic_plan_def\<close>)
    with None with_digest_SomeD [OF d] show ?thesis
      by (simp add: raw_deterministic_plan_def) blast
  next
    case (Some t)
    with assms obtain g where d: "with_canonical_plan_digest (om_env M)
        (raw_template_plan (om_env M) f t (nullish (oi_context i) no_context) (oi_live i) g now) = Some p"
      by (auto simp: composed_plan_def bind_eq_Some_conv planfile_from_template_def)
    have "composed_ok (om_env M) (oi_live i) p"
      by (rule digested_composed_ok [OF d raw_template_valid [OF select_template_mem [OF Some]]])
        (use composed_template_nodes in \<open>simp_all add: raw_template_plan_def Let_def\<close>)
    with Some with_digest_SomeD [OF d] show ?thesis
      by (simp add: raw_template_plan_def Let_def)
  qed
  then show "composed_ok (om_env M) (oi_live i) p"
    "pf_nodes p = (case select_template f core_templates of
       Some t \<Rightarrow> map (node_from_template (oi_live i)) (tp_nodes t) | None \<Rightarrow> pf_nodes p)"
    "select_template f core_templates = None \<Longrightarrow> \<exists>goal. pf_nodes p = deterministic_nodes goal"
    by (auto split: option.splits)
qed

definition composing_registry :: "compose_host \<Rightarrow> compose_input \<Rightarrow> pack_registry" where
  "composing_registry M i = nullish (oi_registry i) (om_registry M)"

definition composing_time :: "compose_host \<Rightarrow> compose_input \<Rightarrow> string" where
  "composing_time M i = nullish (oi_now i) (om_now M)"

lemma compose_inr:
  assumes "compose_planfile M i = Inr c"
  shows "oc_template c = select_template (oc_intent c) core_templates"
    "composed_plan M i (oc_intent c) (oc_template c) (composing_time M i) = Some (oc_planfile c)"
    "\<exists>s. composition_snapshot M i (composing_time M i) = Some s \<and>
       oc_validation c = validate_planfile (om_env M) (Some s) (oc_planfile c)"
    "case oc_template c of None \<Rightarrow> True | Some t \<Rightarrow> missing_required_capabilities (composing_registry M i) t = []"
  using assms unfolding compose_planfile_def Let_def composing_registry_def composing_time_def
  by (auto split: sum.splits if_splits option.splits)

lemma composed_intent_ok: "compose_planfile M i = Inr c \<Longrightarrow> intent_frame_ok (oc_intent c)"
  unfolding compose_planfile_def Let_def
  by (auto simp: classify_intent_def deterministic_intent_frame_def Let_def split: sum.splits if_splits option.splits)

section \<open>Composed plans\<close>

text \<open>C34: Whatever the prompt, the context and the model answer, a composed plan is one the validator accepts:
  it meets the schema, has no issue, is a draft with its own canonical digest, is a dry run unless live execution was
  asked for, and requires approval for exactly the nodes that write or act outside.\<close>
theorem composed_plan_valid:
  "case compose_planfile M i of
     Inl _ \<Rightarrow> True
   | Inr c \<Rightarrow>
       vl_ok (validate_planfile (om_env M) None (oc_planfile c)) \<and> pf_status (oc_planfile c) = PS_draft \<and>
       pf_canonical_plan_digest (oc_planfile c) = Some (stable_hash (om_env M) (canonical_form (oc_planfile c))) \<and>
       pf_mode (oc_planfile c) = composed_mode (oi_live i) \<and>
       list_all (\<lambda>n. write_risk (n_risk_level n) = n_approval_required n) (pf_nodes (oc_planfile c)) \<and>
       (oi_live i \<or> list_all (should_dry_run_node (oc_planfile c)) (pf_nodes (oc_planfile c)))"
proof (cases "compose_planfile M i")
  case (Inr c)
  have "composed_ok (om_env M) (oi_live i) (oc_planfile c)"
    using compose_inr(1,2) [OF Inr] composed_plan_ok(1) by metis
  then show ?thesis
    unfolding Inr sum.case composed_ok_def
    by (auto simp: validate_ok_issues list_all_iff composed_node_ok_def)
qed simp

definition plainly_named :: "sdk_descriptor \<Rightarrow> bool" where
  "plainly_named d = (sd_capability_id d = sd_name d \<or> sd_capability_id d = sd_pack_id d @ ''.'' @ sd_name d)"

lemma find_capability_refs:
  assumes "find_capability ds r \<noteq> None"
    and "list_all plainly_named ds"
    and "cs_capabilities s = sort_key k (map (describe_input E) (map descriptor_to_input ds))"
  shows "r \<in> set (capability_reference_set s)"
proof -
  from assms(1) obtain d where d: "d \<in> set ds"
      "sd_capability_id d = r \<or> sd_name d = r \<or> sd_pack_id d @ ''.'' @ sd_name d = r"
    by (auto simp: find_capability_def find_None_iff)
  with assms(2) have "r = sd_name d \<or> r = sd_pack_id d @ ''.'' @ sd_name d" by (auto simp: list_all_iff plainly_named_def)
  moreover have "describe_input E (descriptor_to_input d) \<in> set (cs_capabilities s)" using d(1) assms(3) by simp
  ultimately show ?thesis
    unfolding capability_reference_set_def
    by (auto simp: describe_input_def descriptor_to_input_def intro!: bexI [of _ "describe_input E (descriptor_to_input d)"])
qed

lemma issues_with_snapshot:
  "planfile_issues (Some s) p = [] \<longleftrightarrow> planfile_issues None p = [] \<and>
     list_all (\<lambda>n. set (n_allowed_capability_refs n) \<subseteq> set (capability_reference_set s)) (pf_nodes p)"
  by (auto simp: planfile_issues_Nil well_formed_plan_def Let_def list_all_iff)

lemma composed_refs:
  assumes "compose_planfile M i = Inr c"
  shows "list_all (\<lambda>n. list_all (\<lambda>r. find_capability (list_capabilities (composing_registry M i) no_filter) r \<noteq> None)
     (n_allowed_capability_refs n)) (pf_nodes (oc_planfile c))"
proof (cases "oc_template c")
  case None
  with compose_inr(1,2) [OF assms] composed_plan_ok(3) obtain goal where
    "pf_nodes (oc_planfile c) = deterministic_nodes goal" by metis
  then show ?thesis by (simp add: deterministic_nodes_def plain_node_def)
next
  case (Some t)
  then have mem: "t \<in> set core_templates" using compose_inr(1) [OF assms] select_template_mem by metis
  have nodes: "pf_nodes (oc_planfile c) = map (node_from_template (oi_live i)) (tp_nodes t)"
    using composed_plan_ok(2) [of M i "oc_intent c"] compose_inr(1,2) [OF assms] Some by (metis option.case(2))
  from Some compose_inr(4) [OF assms]
  have "list_all (\<lambda>r. find_capability (list_capabilities (composing_registry M i) no_filter) r \<noteq> None) (tp_required t)"
    by (simp add: missing_required_capabilities_def filter_empty_conv list_all_iff)
  moreover have "n_allowed_capability_refs (node_from_template (oi_live i) n) = n_allowed_capability_refs (node_from_template True n)" for n
    by (simp add: node_from_template_def)
  ultimately show ?thesis
    using template_installed [OF mem] unfolding nodes installs_its_capabilities_def by (auto simp: list_all_iff)
qed

text \<open>C36: Composing against the installed capabilities, without a snapshot or a registry of the caller, gives a plan
  that validates against those capabilities, when the id of each of them is its name or its name after its pack's id:
  the capabilities the template needs are looked up by more names than the validator knows.\<close>
theorem composed_plan_installed:
  assumes "compose_planfile M i = Inr c" and "oi_snapshot i = None" and "oi_registry i = None"
    and "list_all plainly_named (list_capabilities (om_registry M) no_filter)"
  shows "vl_ok (oc_validation c) \<and> vl_issues (oc_validation c) = []"
proof -
  let ?ds = "list_capabilities (om_registry M) no_filter"
  obtain s where s: "composition_snapshot M i (composing_time M i) = Some s"
      "oc_validation c = validate_planfile (om_env M) (Some s) (oc_planfile c)" using compose_inr(3) [OF assms(1)] by blast
  from s(1) assms(2) have caps: "cs_capabilities s = sort_key (\<lambda>c. collation_key (cd_endpoint_id c @ ''.'' @ cd_capability_name c))
      (map (describe_input (om_env M)) (map descriptor_to_input ?ds))"
    by (auto simp: composition_snapshot_def build_capability_snapshot_def Let_def split: if_splits)
  have "composing_registry M i = om_registry M" using assms(3) by (simp add: composing_registry_def)
  then have "list_all (\<lambda>n. set (n_allowed_capability_refs n) \<subseteq> set (capability_reference_set s)) (pf_nodes (oc_planfile c))"
    using composed_refs [OF assms(1)] find_capability_refs [OF _ assms(4) caps] by (fastforce simp: list_all_iff)
  moreover have "planfile_ok (om_env M) (oc_planfile c)" "planfile_issues None (oc_planfile c) = []"
    using compose_inr(1,2) [OF assms(1)] composed_plan_ok(1) [of M i "oc_intent c"] unfolding composed_ok_def by metis+
  ultimately have ok: "planfile_ok (om_env M) (oc_planfile c)" "planfile_issues (Some s) (oc_planfile c) = []"
    by (simp_all add: issues_with_snapshot)
  then have "vl_ok (oc_validation c)" unfolding s(2) by (simp add: validate_ok_issues)
  moreover have "vl_issues (oc_validation c) = []" unfolding s(2) using ok by (simp add: validate_planfile_def)
  ultimately show ?thesis by simp
qed

section \<open>Ambiguity\<close>

lemma template_ids:
  "tp_id research_topic_brief_template = ''research.topic_brief''" "tp_id research_url_summary_template = ''research.url_summary''"
  "tp_id research_digest_template = ''research.digest''" "tp_id repository_plan_to_patch_template = ''repository.plan_to_patch''"
  "tp_id output_research_packet_template = ''output.research_packet''"
  "tp_id output_developer_packet_template = ''output.developer_packet''" "tp_id output_digest_template = ''output.digest''"
  by (simp_all add: research_topic_brief_template_def research_url_summary_template_def research_digest_template_def
      repository_plan_to_patch_template_def output_research_packet_template_def output_developer_packet_template_def
      output_digest_template_def)

lemma digest_template_listed: "output_digest_template \<in> set core_templates"
proof -
  have "map_of (map_by tp_id [research_topic_brief_template, research_url_summary_template, research_digest_template,
      repository_plan_to_patch_template, output_research_packet_template, output_developer_packet_template,
      output_digest_template]) ''output.digest'' = Some output_digest_template"
    by (simp add: map_of_map_by find_last_def template_ids)
  then have "output_digest_template \<in> snd ` set (map_by tp_id [research_topic_brief_template, research_url_summary_template,
      research_digest_template, repository_plan_to_patch_template, output_research_packet_template,
      output_developer_packet_template, output_digest_template])"
    by (force dest!: map_of_SomeD)
  then show ?thesis unfolding core_templates_def listed_templates_def set_sort set_map .
qed

lemma template_found:
  assumes "t \<in> set ts" and "0 < template_score f t"
  shows "select_template f ts \<noteq> None"
proof -
  have "t \<in> set (best_first (template_score f) ts)" using assms by (simp add: best_first_def)
  then show ?thesis by (auto simp: select_template_def split: list.splits)
qed

lemma ambiguous_frame_selects:
  assumes "am_blocking (fi_ambiguity (raw_intent_frame E prompt c now))"
  shows "select_template (raw_intent_frame E prompt c now) core_templates \<noteq> None"
proof -
  let ?f = "raw_intent_frame E prompt c now"
  have "fi_domain ?f = Dom_generic \<or> fi_domain ?f = Dom_repository"
    using assms by (auto simp: raw_intent_frame_def Let_def)
  then have "domain_str (fi_domain ?f) \<in> set (tp_domains output_digest_template)"
    by (auto simp: output_digest_template_def)
  then have "0 < template_score ?f output_digest_template" by (simp add: template_score_def Let_def)
  then show ?thesis by (rule template_found [OF digest_template_listed])
qed

text \<open>Without a model, no prompt is ever refused as too ambiguous: a frame whose ambiguity blocks is generic or
  about a repository, and templates of both domains exist, so one is always selected.\<close>
lemma ambiguity_never_blocks:
  "compose_planfile (M\<lparr>om_model := None\<rparr>) i \<noteq> Inl (Blocking_ambiguity questions)"
proof (cases "classify_intent (om_env M) None None (oi_prompt i) (nullish (oi_context i) no_context) (nullish (oi_now i) (om_now M))")
  case (Inr f)
  then have "f = raw_intent_frame (om_env M) (oi_prompt i) (nullish (oi_context i) no_context) (nullish (oi_now i) (om_now M))"
    by (auto simp: classify_intent_def deterministic_intent_frame_def Let_def split: if_splits option.splits)
  then have "\<not> (select_template f core_templates = None \<and> am_blocking (fi_ambiguity f))"
    using ambiguous_frame_selects by blast
  with Inr show ?thesis by (auto simp: compose_planfile_def Let_def split: option.split)
qed (simp add: compose_planfile_def Let_def)

section \<open>A prompt that is composed\<close>

definition learn_prompt :: string where
  "learn_prompt = ''learn a skill''"

lemma learn_texts:
  "single_spaced (trim learn_prompt) = learn_prompt" "to_lower learn_prompt = learn_prompt"
  "extract_url learn_prompt = None" "mentioned_schedule learn_prompt = None"
  "\<not> looks_like_repository learn_prompt" "\<not> looks_like_research learn_prompt" "learn_prompt \<noteq> []"
  "domain_of learn_prompt False False = Dom_skill" "action_for Dom_skill learn_prompt False False = Act_create_plan"
  unfolding learn_prompt_def by code_simp+

lemma learn_frame:
  fixes E now
  defines "f \<equiv> raw_intent_frame E learn_prompt no_context now"
  shows "fi_domain f = Dom_skill" "fi_original_prompt f = learn_prompt" "fi_interpreted_goal f = learn_prompt"
    "fi_output f = Some (Out_planfile, Some Fmt_markdown)" "fi_ambiguity f = \<lparr>am_level = Amb_low, am_questions = [], am_blocking = False\<rparr>"
    "intent_frame_ok f" "fi_capability_kinds f = [''planfile'']"
  by (simp_all add: f_def raw_intent_frame_def Let_def learn_texts schedule_intent_def no_context_def output_for_def
      interpreted_goal_def frame_questions_def required_capability_kinds_def intent_frame_ok_def assumptions_for_def)

text \<open>No template scores: the prompt is about a skill and names none of their patterns.\<close>

lemma learn_score:
  "list_all (\<lambda>p. \<not> str_includes (learn_prompt @ '' '' @ learn_prompt) (to_lower p)) (tp_patterns t) \<Longrightarrow> ''skill'' \<notin> set (tp_domains t) \<Longrightarrow>
   tp_output_kind t \<noteq> ''planfile'' \<Longrightarrow> template_score (raw_intent_frame E learn_prompt no_context now) t = 0"
proof -
  have "\<not> is_output_prompt (learn_prompt @ '' '' @ learn_prompt)" "to_lower (learn_prompt @ '' '' @ learn_prompt) = learn_prompt @ '' '' @ learn_prompt"
    unfolding learn_prompt_def by code_simp+
  then show "list_all (\<lambda>p. \<not> str_includes (learn_prompt @ '' '' @ learn_prompt) (to_lower p)) (tp_patterns t) \<Longrightarrow> ''skill'' \<notin> set (tp_domains t) \<Longrightarrow>
   tp_output_kind t \<noteq> ''planfile'' \<Longrightarrow> ?thesis"
    unfolding template_score_def Let_def learn_frame
    by (simp add: list_all_iff filter_empty_conv)
qed

lemma learn_unlike:
  "t \<in> set core_templates \<Longrightarrow>
     list_all (\<lambda>p. \<not> str_includes (''learn a skill'' @ '' '' @ ''learn a skill'') (to_lower p)) (tp_patterns t) \<and>
     \<not> ''skill'' \<in> set (tp_domains t) \<and> \<not> tp_output_kind t = ''planfile''"
  by (erule core_template_cases; code_simp)

lemma learn_unscored: "t \<in> set core_templates \<Longrightarrow> template_score (raw_intent_frame E learn_prompt no_context now) t = 0"
  using learn_unlike [of t] by (intro learn_score) (simp_all add: learn_prompt_def)

lemma learn_unselected: "select_template (raw_intent_frame E learn_prompt no_context now) core_templates = None"
  using learn_unscored by (simp add: select_template_def best_first_def cong: filter_cong)

definition learn_host :: compose_host where
  "learn_host = \<lparr>om_env = sample_env, om_now = sample_stamp, om_yaml = (\<lambda>_. []), om_registry = create_pack_registry, om_model = None\<rparr>"

definition learn_input :: compose_input where
  "learn_input = \<lparr>oi_prompt = learn_prompt, oi_profile = None, oi_registry = None, oi_snapshot = None, oi_context = None,
     oi_live = False, oi_now = Some sample_stamp\<rparr>"

lemma learn_composed: "\<exists>c. compose_planfile learn_host learn_input = Inr c"
proof -
  have stamp: "datetime_ok sample_env sample_stamp" by (simp add: sample_env_def sample_stamp_def)
  have none: "list_capabilities create_pack_registry f = []" for f
    by (simp add: create_pack_registry_def list_capabilities_def)
  let ?f = "raw_intent_frame sample_env learn_prompt no_context sample_stamp"
  have f: "classify_intent sample_env None None learn_prompt no_context sample_stamp = Inr ?f"
    using learn_frame(5,6) [of sample_env sample_stamp]
    by (simp add: classify_intent_def deterministic_intent_frame_def Let_def)
  let ?g = "raw_goal_frame sample_env learn_prompt sample_stamp"
  have g: "goal_frame_ok sample_env ?g"
    using stamp by (simp add: goal_frame_ok_def raw_goal_frame_def Let_def learn_texts)
  let ?r = "raw_deterministic_plan sample_env ?g Plan_dry_run sample_stamp"
  have r: "planfile_ok sample_env ?r"
    using g stamp by (simp add: planfile_ok_def raw_deterministic_plan_def deterministic_nodes_def plain_node_def
        deterministic_edges_def plan_edge_ok_def approval_policy_ok_def plan_node_ok_def composed_approval_policy_def raw_goal_frame_def Let_def learn_texts(1,7))
  then obtain p where p: "composed_plan learn_host learn_input ?f None sample_stamp = Some p"
    using g with_digest_total [OF r sample_sha_hex]
    by (simp add: composed_plan_def learn_host_def learn_input_def deterministic_goal_frame_def Let_def
        deterministic_planfile_def planfile_parse_def composed_mode_def)
  have "is_hex64 (stable_hash sample_env (JArr []))"
    using sample_sha_hex by (simp add: sha_is_hex_def stable_hash_def)
  then obtain s where s: "composition_snapshot learn_host learn_input sample_stamp = Some s"
    using stamp by (auto simp: composition_snapshot_def learn_host_def learn_input_def none build_capability_snapshot_def Let_def
        capability_snapshot_ok_def deterministic_snapshot_id_def det_id_def)
  have m: "match_capabilities create_pack_registry None (fi_capability_kinds ?f) = Some []"
    by (simp add: match_capabilities_def Let_def none learn_frame(7) best_inferred_match_def best_first_def)
  show ?thesis
    unfolding compose_planfile_def Let_def
    using f m p s learn_unselected learn_frame(5)
    by (simp add: learn_host_def learn_input_def nullish_def)
qed

theorem composed_plan_installed_witness:
  "\<exists>c. compose_planfile learn_host learn_input = Inr c \<and> vl_ok (oc_validation c) \<and> vl_issues (oc_validation c) = []"
proof -
  obtain c where c: "compose_planfile learn_host learn_input = Inr c" using learn_composed by blast
  have "list_all plainly_named (list_capabilities (om_registry learn_host) no_filter)"
    by (simp add: learn_host_def create_pack_registry_def list_capabilities_def)
  with composed_plan_installed [OF c] c show ?thesis by (simp add: learn_input_def)
qed

end
