(* ===== verification/Builder_Start.thy ===== *)
theory Builder_Start
  imports Composed_Plans
begin

text \<open>
  \<open>composeInitialPlan\<close> of \<open>planning/plan-builder-loop.ts\<close>: the session that a prompt or a skills file starts.
\<close>

section \<open>The first plan of a session\<close>

definition skill_prompt :: "string \<Rightarrow> string" where
  "skill_prompt markdown =
     ''Create a Planfile from this skills.md workflow:'' @ [CHR 0x0A, CHR 0x0A] @ markdown"

record initial_input =
  ii_prompt :: "string option"
  ii_skills :: "string option"
  ii_source :: "prompt_source option"
  ii_profile :: "runtime_profile option"
  ii_context :: "intent_context option"
  ii_max_questions :: "int option"
  ii_now :: "string option"
  ii_persist :: bool

fun prompt_source_str :: "prompt_source \<Rightarrow> string" where
  "prompt_source_str From_chat = ''chat''"
| "prompt_source_str From_skills_file = ''skills_file''"
| "prompt_source_str From_planfile = ''planfile''"
| "prompt_source_str From_template = ''template''"

definition initial_source :: "initial_input \<Rightarrow> prompt_source" where
  "initial_source i = nullish (ii_source i) (if truthy (ii_skills i) then From_skills_file else From_chat)"

definition initial_prompt :: "initial_input \<Rightarrow> string" where
  "initial_prompt i = nullish (ii_prompt i) (skill_prompt (nullish (ii_skills i) []))"

definition initial_session_id :: "env \<Rightarrow> initial_input \<Rightarrow> string" where
  "initial_session_id E i = ''builder_'' @ take 18 (stable_hash E (JObj
     [(''prompt'', JStr (initial_prompt i)), (''source'', JStr (prompt_source_str (initial_source i)))]))"

definition initial_status :: "validation_result \<Rightarrow> simulation_report \<Rightarrow> builder_status" where
  "initial_status v s =
     (let pending = unanswered_questions (sm_questions s)
      in if vl_ok v \<and> sm_status s = Sim_ready then Build_ready
         else if list_ex (\<lambda>q. pq_severity q = Blocking) pending then Build_needs_input
         else if sm_status s = Sim_invalid then Build_yielded else Build_needs_input)"

definition composed_request :: "initial_input \<Rightarrow> string \<Rightarrow> compose_input" where
  "composed_request i now =
     \<lparr>oi_prompt = initial_prompt i, oi_profile = ii_profile i, oi_registry = None, oi_snapshot = None,
      oi_context = ii_context i, oi_live = False, oi_now = Some now\<rparr>"

definition initial_builder :: "compose_host \<Rightarrow> string \<Rightarrow> builder_host" where
  "initial_builder M now = \<lparr>bh_env = om_env M, bh_now = now, bh_zod_message = []\<rparr>"

definition initial_session ::
    "compose_host \<Rightarrow> initial_input \<Rightarrow> string \<Rightarrow> composed_planfile \<Rightarrow> builder_session option" where
  "initial_session M i now c =
     (let E = om_env M; B = initial_builder M now; session_id = initial_session_id E i;
          original = nullish (ii_skills i) (nullish (ii_prompt i) [])
      in Option.bind (lifecycle_planfile B (oc_planfile c) session_id V_unknown Sim_unknown 0 PS_draft) (\<lambda>p.
         let v = validate_planfile E None p in
         Option.bind (simulate_planfile E p (Some v) (ii_profile i) (ii_max_questions i)) (\<lambda>s.
         let status = initial_status v s in
         Option.bind (lifecycle_planfile B p session_id (passed_or_failed v) (sm_status s) 0 (ready_or_draft status)) (\<lambda>q.
         let session =
           \<lparr>bs_session_id = session_id, bs_prompt_source = initial_source i,
            bs_original_input = (if original = [] then initial_prompt i else original),
            bs_intent_frame = Some (oc_intent c), bs_planfile = Some q, bs_simulation = Some s,
            bs_validation = Some v, bs_pending = unanswered_questions (sm_questions s), bs_answered = [],
            bs_revisions = [], bs_planfile_revisions = [], bs_status = status,
            bs_yield_reason = (if status = Build_yielded then Some failed_validation_reason else None),
            bs_created_at = now, bs_updated_at = now\<rparr>
         in if builder_session_ok E session then Some session else None))))"

text \<open>What the composer throws leaves the call as it is.\<close>

definition compose_initial_plan ::
    "compose_host \<Rightarrow> initial_input \<Rightarrow> session_dir \<Rightarrow> (compose_error + builder_session) \<times> session_dir" where
  "compose_initial_plan M i d =
     (let now = nullish (ii_now i) (om_now M)
      in case compose_planfile M (composed_request i now) of
        Inl e \<Rightarrow> (Inl e, d)
      | Inr c \<Rightarrow>
          (case initial_session M i now c of
            None \<Rightarrow> (Inl (Compose_thrown Zod_error), d)
          | Some s \<Rightarrow>
              if ii_persist i
              then (case save_builder_session (om_env M) default_builder_root s d of
                      (Inl e, d') \<Rightarrow> (Inl (Compose_thrown e), d')
                    | (Inr s', d') \<Rightarrow> (Inr s', d'))
              else (Inr s, d)))"

section \<open>What a prompt starts\<close>

text \<open>Stamping a plan with its lifecycle leaves its nodes and its mode.\<close>

lemma lifecycle_nodes:
  assumes "lifecycle_planfile B p i v r n st = Some q"
  shows "pf_nodes q = pf_nodes p" "pf_mode q = pf_mode p"
  using parsed_with_digest_Some(3) [OF assms [unfolded lifecycle_planfile_def]] by simp_all

lemma dry_work:
  assumes "pf_nodes q = pf_nodes p" and "pf_mode q = pf_mode p"
  shows "list_all (should_dry_run_node q) (pf_nodes q) = list_all (should_dry_run_node p) (pf_nodes p)"
proof -
  have "should_dry_run_node q = should_dry_run_node p"
    using assms(2) by (simp add: fun_eq_iff should_dry_run_node_def split: option.split)
  with assms(1) show ?thesis by simp
qed

definition fresh_session :: "env \<Rightarrow> builder_session \<Rightarrow> bool" where
  "fresh_session E s \<longleftrightarrow>
     (\<exists>p v. bs_planfile s = Some p \<and> bs_validation s = Some v \<and> vl_ok v \<and> vl_ok (validate_planfile E None p) \<and>
        pf_canonical_plan_digest p = Some (stable_hash E (canonical_form p)) \<and>
        bs_status s = (if simulated_status s = Sim_ready then Build_ready else Build_needs_input) \<and>
        pf_status p = ready_or_draft (bs_status s) \<and> list_all (should_dry_run_node p) (pf_nodes p) \<and>
        list_all (\<lambda>n. write_risk (n_risk_level n) = n_approval_required n) (pf_nodes p) \<and>
        bs_answered s = [] \<and> bs_revisions s = [] \<and> bs_yield_reason s = None)"

lemma initial_session_fresh:
  assumes c: "compose_planfile M (composed_request i now) = Inr c" and s: "initial_session M i now c = Some s"
  shows "fresh_session (om_env M) s"
proof -
  let ?E = "om_env M" and ?B = "initial_builder M now" and ?id = "initial_session_id (om_env M) i"
  have E: "bh_env ?B = ?E" by (simp add: initial_builder_def)
  have p0: "composed_ok ?E False (oc_planfile c)"
    using compose_inr(1,2) [OF c] composed_plan_ok(1) [of M "composed_request i now" "oc_intent c"]
    by (metis composed_request_def compose_input.select_convs(6))
  obtain p r q where p: "lifecycle_planfile ?B (oc_planfile c) ?id V_unknown Sim_unknown 0 PS_draft = Some p"
    and r: "simulate_planfile ?E p (Some (validate_planfile ?E None p)) (ii_profile i) (ii_max_questions i) = Some r"
    and q: "lifecycle_planfile ?B p ?id (passed_or_failed (validate_planfile ?E None p)) (sm_status r) 0
        (ready_or_draft (initial_status (validate_planfile ?E None p) r)) = Some q"
    and fields: "bs_planfile s = Some q" "bs_validation s = Some (validate_planfile ?E None p)"
      "bs_simulation s = Some r" "bs_status s = initial_status (validate_planfile ?E None p) r"
      "bs_answered s = []" "bs_revisions s = []"
      "bs_yield_reason s = (if bs_status s = Build_yielded then Some failed_validation_reason else None)"
    using s by (auto simp: initial_session_def Let_def bind_eq_Some_conv split: if_splits)
  note kp = lifecycle_keeps [OF p, unfolded E] and kq = lifecycle_keeps [OF q, unfolded E]
  have v: "vl_ok (validate_planfile ?E None p)" using p0 kp(1,5) by (simp add: validate_ok_issues composed_ok_def)
  then have vq: "vl_ok (validate_planfile ?E None q)" using kq(1,5) by (simp add: validate_ok_issues)
  have "vl_issues (validate_planfile ?E None p) = []"
    using v kp(1) by (simp add: validate_ok_issues) (simp add: validate_planfile_def)
  then have "validator_errors (Some (validate_planfile ?E None p)) = []" by (simp add: validator_errors_def)
  then have "sm_status r \<noteq> Sim_invalid"
    using r by (auto simp: simulate_planfile_def bind_eq_Some_conv Let_def simulation_of_def simulation_status_of_def
        split: if_splits)
  then have status: "bs_status s = (if simulated_status s = Sim_ready then Build_ready else Build_needs_input)"
    using v fields(3,4) by (simp add: initial_status_def Let_def simulated_status_def)
  have work: "pf_nodes q = pf_nodes (oc_planfile c)" "pf_mode q = pf_mode (oc_planfile c)"
    using lifecycle_nodes [OF p] lifecycle_nodes [OF q] by simp_all
  have "list_all (should_dry_run_node q) (pf_nodes q)"
    "list_all (\<lambda>n. write_risk (n_risk_level n) = n_approval_required n) (pf_nodes q)"
    using p0 unfolding dry_work [OF work] unfolding work(1)
    by (auto simp: composed_ok_def composed_node_ok_def list_all_iff)
  then show ?thesis
    using fields status v vq kq(2,4) unfolding fresh_session_def by (intro exI [of _ q] exI) (auto split: if_splits)
qed

lemma fresh_session_dry:
  assumes "fresh_session E s" and "bs_planfile s = Some p"
  shows "w_calls (snd (run_to_completion H o1 p w)) = w_calls w"
proof -
  have "\<forall>n \<in> set (pf_nodes p). should_dry_run_node p n"
    using assms by (auto simp: fresh_session_def list_all_iff)
  from dry_run_calls [OF this] show ?thesis by (simp add: keeps_def)
qed

text \<open>A composed plan always gives a session, so only what keeps the plan from being composed keeps the session
  from starting; a prompt about a skill, with no pack installed, starts one.\<close>

lemma initial_session_total:
  assumes c: "compose_planfile M (composed_request i now) = Inr c" and sha: "sha_is_hex (om_env M)"
    and now: "datetime_ok (om_env M) now" and intent: "intent_frame_ok (oc_intent c)" and "initial_prompt i \<noteq> []"
  shows "\<exists>s. initial_session M i now c = Some s"
proof -
  let ?E = "om_env M" and ?B = "initial_builder M now" and ?id = "initial_session_id (om_env M) i"
  have B: "bh_env ?B = ?E" "bh_now ?B = now" by (simp_all add: initial_builder_def)
  have id: "?id \<noteq> []" by (simp add: initial_session_id_def)
  have "planfile_ok ?E (oc_planfile c)"
    using compose_inr(1,2) [OF c] composed_plan_ok(1) [of M "composed_request i now" "oc_intent c"]
    unfolding composed_ok_def by metis
  then obtain p where p: "lifecycle_planfile ?B (oc_planfile c) ?id V_unknown Sim_unknown 0 PS_draft = Some p" "planfile_ok ?E p"
    using lifecycle_total [of ?B "oc_planfile c" ?id V_unknown Sim_unknown 0 PS_draft] sha now id by (auto simp: B)
  let ?v = "validate_planfile ?E None p"
  obtain r where r: "simulate_planfile ?E p (Some ?v) (ii_profile i) (ii_max_questions i) = Some r"
    using simulation_total [OF p(2)] by blast
  then have r_ok: "simulation_report_ok ?E r"
    by (auto simp: simulate_planfile_def Let_def bind_eq_Some_conv split: if_splits)
  then have pending: "list_all (planner_question_ok ?E) (unanswered_questions (sm_questions r))"
    by (auto simp: simulation_report_ok_def unanswered_questions_def list_all_iff)
  obtain q where q: "lifecycle_planfile ?B p ?id (passed_or_failed ?v) (sm_status r) 0
      (ready_or_draft (initial_status ?v r)) = Some q" "planfile_ok ?E q"
    using lifecycle_total [of ?B p ?id "passed_or_failed ?v" "sm_status r" 0 "ready_or_draft (initial_status ?v r)"]
      p(2) sha now id by (auto simp: B)
  show ?thesis
    unfolding initial_session_def Let_def p(1) r q(1) Option.bind.bind_lunit
    using q(2) r_ok pending intent now id assms(5) by (simp add: builder_session_ok_def failed_validation_reason_def)
qed

lemma learn_session:
  fixes d :: session_dir
  defines "i \<equiv> \<lparr>ii_prompt = Some learn_prompt, ii_skills = None, ii_source = None, ii_profile = None, ii_context = None,
     ii_max_questions = None, ii_now = None, ii_persist = False\<rparr>"
  shows "\<exists>s. compose_initial_plan learn_host i d = (Inr s, d)"
proof -
  have "composed_request i sample_stamp = learn_input"
    by (simp add: composed_request_def learn_input_def i_def initial_prompt_def nullish_def)
  then obtain c where c: "compose_planfile learn_host (composed_request i sample_stamp) = Inr c"
    using learn_composed by auto
  have "intent_frame_ok (oc_intent c)"
    using composed_intent_ok [OF c] .
  then obtain s where "initial_session learn_host i sample_stamp c = Some s"
    using initial_session_total [OF c] sample_sha_hex sample_stamp_ok learn_texts(7)
    by (auto simp: learn_host_def i_def initial_prompt_def nullish_def)
  with c show ?thesis by (simp add: compose_initial_plan_def i_def learn_host_def nullish_def)
qed

text \<open>C35: Starting a session from a prompt or a skills file either throws and leaves the session directory as it was, or
  returns a session with a plan that the validator accepts, that carries the digest of its canonical form, in which
  exactly the nodes that write or act outside require approval and every node runs dry: running it as it is
  reaches no capability code. The session is ready exactly when the simulation of the plan is, and otherwise asks for
  input; it never starts yielded, whatever the prompt and the model answer.\<close>
theorem initial_session_sound:
  "case compose_initial_plan M i d of
     (Inl _, d') \<Rightarrow> d' = d
   | (Inr s, d') \<Rightarrow> fresh_session (om_env M) s \<and>
       (\<exists>p. bs_planfile s = Some p \<and> w_calls (snd (run_to_completion H o1 p w)) = w_calls w) \<and>
       (d' = d \<or> ii_persist i \<and> save_builder_session (om_env M) default_builder_root s d = (Inr s, d'))"
proof -
  let ?now = "nullish (ii_now i) (om_now M)"
  show ?thesis
  proof (cases "compose_planfile M (composed_request i ?now)")
    case (Inl e)
    then show ?thesis by (simp add: compose_initial_plan_def)
  next
    case c: (Inr c)
    show ?thesis
    proof (cases "initial_session M i ?now c")
      case None
      with c show ?thesis by (simp add: compose_initial_plan_def)
    next
      case (Some s)
      note fresh = initial_session_fresh [OF c Some]
      then obtain p where p: "bs_planfile s = Some p" by (auto simp: fresh_session_def)
      show ?thesis
        using c Some fresh p fresh_session_dry [OF fresh p, of H o1 w]
        by (auto simp: compose_initial_plan_def save_builder_session_def)
    qed
  qed
qed

end
