(* ===== verification/Spec2Isabelle.thy ===== *)
theory Spec2Isabelle
  imports Plan_Validator Policy_Gate Keyed_Store Plan_State Run_Event Run_Event_Store Run_Control
    Sdk_Registry Effects Capability_Step Work_Order Plan_Markdown Plan_Templates Plan_Runner
    Artifact_Model Run_Snapshot Node_Path Repo_Workspace Scope_Expansion Patch_Plan Patch_Apply Repo_Verify
    Artifact_Index Local_Artifacts Control_Plane Control_Properties Control_Requests
    Sdk_Redaction Sdk_Policy Sdk_Http Sdk_Http_Safety Sdk_Retry Plan_Requirements
    Json_Text Plan_Digest Plan_Diff Plan_Simulation Plan_Check Builder_Session Builder_Loop Control_Check Plan_Reconcile
    Approval_Store Intent_Validation Task_Reconciler Task_Continuation Project_Reconciler Reconciliation
    Intent_Classifier Plan_Catalog Plan_Composer Composed_Plans Builder_Start
begin

text \<open>
  Verification development for the planning and execution core of Open Lagrange
  (\<open>src/packages/core/src\<close> and \<open>src/packages/capability-sdk/src\<close>).

  The program and its parts. A goal becomes a Planfile: a graph of nodes, each with the
  capabilities it may use, a risk level and its dependencies. The validator checks the graph; a
  canonical digest names the work it describes; the plan runner takes the ready nodes one after
  the other, runs each as a dry run, by a node handler or as a step of the capability step runner,
  and records the plan state after every node. A capability step checks its input, resolves the
  capability in the pack registry, asks the policy gate and only then calls the capability's code.
  Every part writes run events to a store, from which snapshots of a run are assembled for the
  front ends. The control plane puts these together: it serves the requests of the front ends
  (create, resume, retry, cancel, approve, reject), keeps the record of every run, and carries
  stored runs out locally, with an artifact store and indexes on disk. Before that, a prompt is
  classified by its words, a template of the core packs is chosen for it and its nodes become a first
  plan; the plan builder
  keeps a plan under construction in a session, simulates, validates and revises it and asks its
  questions; the plan check tells what a plan still lacks and can stand before the creation of a
  run; the difference of two plans shows what an edit changes, and an edited document is reconciled
  with its session. For work on repositories, patch plans are validated against a path policy and applied
  to the file system, commands of an allow-list verify the result, and a failure is
  summarized and judged: repair it again or yield. Beside the plan runner stand the reconcilers: a project's goal becomes scoped tasks, a task
  an artifact with intents, each of which is checked against the capability snapshot and the policy
  gate and called, refused, or held until a person approves it, when a continuation calls it.

  Theories and the code they model (paths below \<open>packages/core/src\<close> unless they name the SDK):

  \<^item> \<open>Prelude\<close>: JavaScript's options, maps, lists and strings, and the collections of hints.
  \<^item> \<open>Json\<close>, \<open>Json_Text\<close>: JSON values, \<open>util/hash.ts\<close> (stable printing and hashing), \<open>JSON.stringify\<close>,
    and what these texts determine.
  \<^item> \<open>Schemas\<close>: \<open>schemas/capabilities.ts\<close>, \<open>schemas/delegation.ts\<close>, \<open>schemas/open-cot.ts\<close>, the
    deterministic ids and reconciliation records other parts use.
  \<^item> \<open>Planfile_Schema\<close>, \<open>Plan_Canonical\<close>, \<open>Plan_Digest\<close>: \<open>planning/planfile-schema.ts\<close>,
    \<open>planning/planfile-canonicalize.ts\<close>.
  \<^item> \<open>Plan_Graph\<close>, \<open>Plan_Validator\<close>: \<open>planning/planfile-validator.ts\<close> (the cycle search, the
    reachability worklist, and every issue).
  \<^item> \<open>Policy_Gate\<close>: \<open>policy/policy-gate.ts\<close>.
  \<^item> \<open>Keyed_Store\<close>: the contract of the stores that replace a record under its key, as locales.
  \<^item> \<open>Plan_State\<close>, \<open>Run_Control\<close>: \<open>planning/plan-state.ts\<close>, \<open>runs/run-control.ts\<close>,
    \<open>runs/node-attempt.ts\<close>, \<open>runs/node-replay-policy.ts\<close>; their stores interpret the locales.
  \<^item> \<open>Run_Event\<close>, \<open>Run_Event_Store\<close>: \<open>runs/run-event.ts\<close>, \<open>runs/run-next-action.ts\<close>,
    \<open>runs/run-event-store.ts\<close>.
  \<^item> \<open>Sdk_Registry\<close>: descriptors, registry and executor of the capability SDK.
  \<^item> \<open>Effects\<close>: state passing with exceptions, for the asynchronous handlers; the world keeps what
    they record (plan states, events, artifacts, calls into capability code).
  \<^item> \<open>Capability_Step\<close>: \<open>runtime/capability-step-runner.ts\<close>.
  \<^item> \<open>Work_Order\<close>, \<open>Plan_Markdown\<close>, \<open>Plan_Templates\<close>, \<open>Plan_Runner\<close>:
    \<open>planning/work-order-compiler.ts\<close>, \<open>planning/planfile-markdown.ts\<close> with
    \<open>planning/mermaid-renderer.ts\<close> and the block search of \<open>planning/planfile-parser.ts\<close>, and
    \<open>planning/plan-runner.ts\<close>.
  \<^item> \<open>Artifact_Model\<close>, \<open>Run_Snapshot\<close>: \<open>artifacts/artifact-model.ts\<close>, \<open>runs/run-snapshot.ts\<close>,
    \<open>runs/run-snapshot-builder.ts\<close>.
  \<^item> \<open>Artifact_Index\<close>: \<open>artifacts/artifact-viewer.ts\<close>, \<open>artifacts/run-index.ts\<close>,
    \<open>secrets/secret-redaction.ts\<close>, over a disk that maps paths to files.
  \<^item> \<open>Local_Artifacts\<close>: \<open>planning/local-plan-artifacts.ts\<close>.
  \<^item> \<open>Control_Plane\<close>, \<open>Control_Properties\<close>, \<open>Control_Requests\<close>: \<open>planning/control-plane.ts\<close> with
    \<open>clients/mock-delegation.ts\<close>; what holds in every reachable state, and what the single requests do.
  \<^item> \<open>Sdk_Redaction\<close>, \<open>Sdk_Policy\<close>, \<open>Sdk_Http\<close>, \<open>Sdk_Http_Safety\<close>, \<open>Sdk_Retry\<close>: the primitives
    capabilities use, \<open>packages/capability-sdk/src/primitives\<close>: redaction, network and side-effect
    policy, secrets, artifacts and approvals, requests with redirects, back-off and rate limits.
  \<^item> \<open>Plan_Requirements\<close>, \<open>Plan_Diff\<close>, \<open>Plan_Simulation\<close>, \<open>Plan_Check\<close>: \<open>planning/plan-requirements.ts\<close>,
    \<open>planning/planfile-diff.ts\<close>, \<open>planning/plan-simulation.ts\<close>, \<open>planning/plan-check.ts\<close>.
  \<^item> \<open>Builder_Session\<close>, \<open>Builder_Loop\<close>: \<open>planning/plan-builder-session.ts\<close>,
    \<open>planning/plan-builder-loop.ts\<close> and the records of a session.
  \<^item> \<open>Intent_Classifier\<close>, \<open>Plan_Catalog\<close>, \<open>Plan_Composer\<close>, \<open>Composed_Plans\<close>, \<open>Builder_Start\<close>:
    \<open>planning/intent-classifier.ts\<close>, \<open>planning/plan-template-registry.ts\<close>,
    \<open>planning/capability-match.ts\<close>, \<open>planning/intent-to-plan-composer.ts\<close> with the plan made without a
    template (\<open>planning/plan-cognition.ts\<close>), what holds of composed plans, and \<open>composeInitialPlan\<close>.
  \<^item> \<open>Plan_Reconcile\<close>: \<open>planning/editable-planfile-reconciler.ts\<close>.
  \<^item> \<open>Control_Check\<close>: the functions of \<open>planning/control-plane.ts\<close> that check a plan first or take it
    from a session.
  \<^item> \<open>Approval_Store\<close>: the records of a task from \<open>schemas/open-cot.ts\<close> and
    \<open>schemas/reconciliation.ts\<close>, \<open>approval/approval-token.ts\<close>, \<open>approval/approval-store.ts\<close>.
  \<^item> \<open>Intent_Validation\<close>, \<open>Task_Reconciler\<close>, \<open>Task_Continuation\<close>, \<open>Project_Reconciler\<close>:
    \<open>reconciliation/intent-validation.ts\<close>, \<open>workflows/task-reconciler.ts\<close>,
    \<open>workflows/task-continuation.ts\<close>, \<open>workflows/project-reconciler.ts\<close> with the tasks they start
    (\<open>tasks/\<close>), \<open>activities/cognition.ts\<close>, \<open>status/status-store.ts\<close> and the approval functions of
    \<open>hatchet/workflow-client.ts\<close>.
  \<^item> \<open>Reconciliation\<close>: these together, for every order of projects, tasks, decisions and continuations.
  \<^item> \<open>Node_Path\<close>: \<open>resolve\<close>, \<open>relative\<close>, \<open>join\<close>, \<open>dirname\<close> and \<open>basename\<close> of POSIX paths.
  \<^item> \<open>Repo_Workspace\<close>: \<open>repository/workspace.ts\<close>, \<open>repository/path-policy.ts\<close>,
    \<open>repository/command-policy.ts\<close>, over a model of the file system with links.
  \<^item> \<open>Scope_Expansion\<close>, \<open>Patch_Plan\<close>, \<open>Patch_Apply\<close>, \<open>Repo_Verify\<close>: \<open>repository/scope-expansion.ts\<close>,
    \<open>repository/patch-operations.ts\<close>, \<open>repository/patch-validator.ts\<close>,
    \<open>repository/patch-applier.ts\<close>, \<open>repository/verification-runner.ts\<close>,
    \<open>repository/failure-summarizer.ts\<close>, \<open>repository/repair-loop.ts\<close>.

  How the code is rendered. A string is a list of characters; JavaScript's UTF-16 units beyond 8 bits are
  not represented, and where the code counts bytes the UTF-8 length of these characters is
  written out. An absent property is \<open>None\<close>, and truthiness, \<open>??\<close> and \<open>||\<close> are functions of the
  prelude. A map keeps its insertion order as an association list. A schema is a predicate on the
  record; parsing is the record with its predicate, or \<open>None\<close>. A thrown error is the left part
  of a sum and keeps the effects before it. An \<open>await\<close> is a step of the state-passing monad: the
  code of one handler is sequential, and no other handler runs between its steps.

  Parameters. SHA-256, the ISO date-time check and \<open>Date.parse\<close> are fields of an environment;
  the clock, \<open>NODE_ENV\<close>, \<open>YAML.stringify\<close> and the caller's artifact sink belong to the host;
  what a capability's code answers is a function of its definition; node handlers are an option of
  the runner. The results of processes, the two git diffs and the file system's links are
  arguments. For the primitives the URL class, name lookups, servers, \<open>Number\<close>, random numbers and
  \<open>Date.now\<close> are fields of their hosts, and the n-th call may answer differently from the others. For
  the reconcilers the models that plan and write artifacts, the execution of a call through the pack
  registry, the signing secret, and the text of a schema error are fields of their hosts; a child
  task answers with what its function returns or throws what it throws, and the workflow service's
  retries and its reuse of answers under one key are not modelled. Where a property needs more of one of them (a digest of 64 hexadecimal digits) it is a
  named hypothesis and its witness gives a concrete function for it.

  Bounds. The cycle search carries fuel one larger than the number of nodes, and its property
  shows that fuel is never exhausted; the runner's loop keeps the bound the code has (two more than
  the number of nodes), and its property shows the bound never stops a run; every other loop is a
  recursion with its termination proof.

  What the lemmas show. Each theory proves the invariants of its state and the behaviour of its
  operations on every branch, errors included; the theorems marked C1, C2 and so on are the
  properties of the manifest. The strongest of them combine parts: a run starts a node once and
  only after its dependencies, and its log only grows (\<open>Plan_Runner\<close>); capability code is reached
  only through the policy gate (\<open>Capability_Step\<close>); a snapshot that follows the appended events
  keeps the timeline of the store (\<open>Run_Snapshot\<close>); a patch changes only admissible targets
  (\<open>Patch_Apply\<close>); requests go only to permitted hosts, as far as the recognition of private addresses
  reaches, and take the four credential headers only to the first origin (\<open>Sdk_Http_Safety\<close>); a plan
  composed from a prompt validates, and a session started from one holds a plan whose run reaches no
  capability code (\<open>Composed_Plans\<close>, \<open>Builder_Start\<close>); whatever requests and jobs the control plane has served, its stores are well
  formed and every run has a snapshot (\<open>Control_Properties\<close>); whatever projects, decisions and
  continuations follow one another, every call of a reconciler belongs to a task that one of them started, and
  was permitted by the policy gate at that time, or to a continuation with an approval (\<open>Reconciliation\<close>).

  Where a property holds only under side conditions, its text names them and the lemmas that show what
  happens without them; the sharpest are \<open>hex_mapped_loopback_passes\<close>, \<open>dangling_link_writable\<close>,
  \<open>nested_env_file_accepted\<close>, \<open>failed_call_uncounted\<close>, \<open>undefined_item_digest\<close> and
  \<open>dropped_mode_unseen\<close>.

  Not modelled: the front ends, the runtime manager, the Hatchet workers and the workflows of repository
  tasks with their continuation envelopes, model providers and prompts, individual capability packs, search, skills, demos and evaluations, which are input and
  output around these parts or third-party services; the repository plan runner, whose handlers drive
  git and processes; the functions of the planner that ask a model for a goal, a frame or a plan, and the
  library of plan files. The directory of sessions is a map of its own
  that holds what this code wrote; one call of the builder reads the clock once, and the planner
  model's answer is an argument. Work that the code starts without
  waiting for it is a queue of jobs: a request or a job is one sequence of steps, and the
  interleaving of their single awaits is not modelled.
\<close>

end
